(* ===== verification/Base.thy ===== *)
theory Base
  imports Main "HOL-Library.List_Lexorder" "HOL-Library.Multiset" "HOL-Library.AList"
begin

text \<open>
  The prelude of the development: Python strings as lists of code points, the exceptions
  the modelled code raises, results as a sum type, validation sequences, the string
  methods and Unicode predicates of the Python standard library that the code uses, and
  the generic lemmas on them that the component theories share.
\<close>

section \<open>Proof support\<close>

named_theorems res_simps \<open>evaluation and inversion of results\<close>
named_theorems str_simps \<open>evaluation of string operations\<close>

section \<open>Strings\<close>

text \<open>
  A Python \<open>str\<close> is a sequence of code points; \<open>lit\<close> embeds an ASCII literal of the
  source. Comparison of strings is lexicographic by code point (the list order of
  \<open>List_Lexorder\<close>).
\<close>

type_synonym pystr = "nat list"

definition lit :: "string \<Rightarrow> pystr" where
  "lit s = map of_char s"

lemma lit_eq_iff [simp]: "lit s = lit t \<longleftrightarrow> s = t"
  by (simp add: lit_def inj_map_eq_map inj_def)

lemma lit_Nil [simp]: "lit [] = []"
  by (simp add: lit_def)

lemma lit_eq_Nil [simp]: "lit s = [] \<longleftrightarrow> s = []" "[] = lit s \<longleftrightarrow> s = []"
  by (auto simp: lit_def)

lemma lit_append: "lit (s @ t) = lit s @ lit t"
  by (simp add: lit_def)

lemma lit_Cons: "lit (c # s) = of_char c # lit s"
  by (simp add: lit_def)

lemma length_lit [simp]: "length (lit s) = length s"
  by (simp add: lit_def)

lemma set_lit_bound: "x \<in> set (lit s) \<Longrightarrow> x < 256"
  by (auto simp: lit_def nat_of_char_less_256)

section \<open>Exceptions and results\<close>

text \<open>
  The exceptions of the modelled code, each with the message it is raised with.
  \<open>UnicodeEncodeError\<close> is what \<open>str.encode\<close> raises on a lone surrogate,
  \<open>ValueError\<close> what \<open>json.dumps\<close> raises on a non-finite float,
  \<open>IntegrityError\<close> and \<open>OperationalError\<close> come from the database, \<open>OSError\<close> from files, processes
  and the network, \<open>CalledProcessError\<close> carries the output and the error output of a process, and
  \<open>OtherException\<close> is any other exception of the environment.
\<close>

datatype exc =
    ContractError pystr
  | AuthorityError pystr
  | AuthorityConflict pystr
  | SkillOpsError pystr
  | SkillOpsStateError pystr
  | TaskflowError pystr
  | ObservabilityContractError pystr
  | NacosRegistryError pystr
  | NacosNotFound pystr
  | NativePackageError pystr
  | UnicodeEncodeError
  | ValueError pystr
  | KeyError pystr
  | TypeError pystr
  | AttributeError pystr
  | IndexError pystr
  | JSONDecodeError pystr
  | RecursionError
  | IntegrityError pystr
  | OperationalError pystr
  | OSError pystr
  | FilesyncToolError pystr
  | RuntimeError pystr
  | CalledProcessError pystr pystr
  | OtherException pystr

type_synonym 'a res = "exc + 'a"

definition bindE :: "'a res \<Rightarrow> ('a \<Rightarrow> 'b res) \<Rightarrow> 'b res" where
  "bindE m f = (case m of Inl e \<Rightarrow> Inl e | Inr x \<Rightarrow> f x)"

text \<open>\<open>if cond: raise e\<close>, and a sequence of such statements.\<close>

definition raise_if :: "bool \<Rightarrow> exc \<Rightarrow> unit res" where
  "raise_if c e = (if c then Inl e else Inr ())"

primrec seqE :: "unit res list \<Rightarrow> unit res" where
  "seqE [] = Inr ()"
| "seqE (m # ms) = (case m of Inl e \<Rightarrow> Inl e | Inr u \<Rightarrow> seqE ms)"

text \<open>A \<open>for\<close> loop that builds a list and stops at the first exception.\<close>

primrec mapE :: "('a \<Rightarrow> 'b res) \<Rightarrow> 'a list \<Rightarrow> 'b list res" where
  "mapE f [] = Inr []"
| "mapE f (x # xs) = bindE (f x) (\<lambda>y. bindE (mapE f xs) (\<lambda>ys. Inr (y # ys)))"

lemma bindE_simps [simp]:
  "bindE (Inl e) f = Inl e"
  "bindE (Inr x) f = f x"
  by (simp_all add: bindE_def)

lemma bindE_ok [res_simps]: "bindE m f = Inr y \<longleftrightarrow> (\<exists>x. m = Inr x \<and> f x = Inr y)"
  by (cases m) auto

lemma bindE_okE [elim!]:
  assumes "bindE m f = Inr y"
  obtains x where "m = Inr x" and "f x = Inr y"
  using assms by (cases m) auto

lemma bindE_err: "bindE m f = Inl e \<longleftrightarrow> m = Inl e \<or> (\<exists>x. m = Inr x \<and> f x = Inl e)"
  by (cases m) auto

lemma raise_if_ok [simp]: "raise_if c e = Inr u \<longleftrightarrow> \<not> c"
  by (simp add: raise_if_def)

lemma raise_if_err [simp]: "raise_if c e = Inl e' \<longleftrightarrow> c \<and> e' = e"
  by (auto simp: raise_if_def)

lemma raise_if_const [simp]: "raise_if True e = Inl e" "raise_if False e = Inr ()"
  by (simp_all add: raise_if_def)

lemma raise_if_eval:
  "c \<Longrightarrow> raise_if c e = Inl e"
  "\<not> c \<Longrightarrow> raise_if c e = Inr ()"
  by (simp_all add: raise_if_def)

declare seqE.simps(2) [simp del]

lemma seqE_eval [simp]: "seqE (Inl e # ms) = Inl e" "seqE (Inr u # ms) = seqE ms"
  by (simp_all add: seqE.simps)

lemma seqE_Cons_ok [simp]: "seqE (m # ms) = Inr u \<longleftrightarrow> m = Inr () \<and> seqE ms = Inr ()"
  by (cases m) (auto simp: seqE.simps)

lemma seqE_append: "seqE (xs @ ys) = (case seqE xs of Inl e \<Rightarrow> Inl e | Inr u \<Rightarrow> seqE ys)"
  by (induction xs) (auto simp: seqE.simps split: sum.splits)

lemma seqE_append_ok [simp]:
  "seqE (xs @ ys) = Inr u \<longleftrightarrow> seqE xs = Inr () \<and> seqE ys = Inr ()"
  by (auto simp: seqE_append split: sum.splits)

lemma seqE_map_ok [simp]: "seqE (map f xs) = Inr u \<longleftrightarrow> (\<forall>x\<in>set xs. f x = Inr ())"
  by (induction xs) (auto split: sum.splits)

lemma seqE_err: "seqE ms = Inl e \<Longrightarrow> Inl e \<in> set ms"
  by (induction ms) (auto simp: seqE.simps split: sum.splits)

lemma mapE_ok_length: "mapE f xs = Inr ys \<Longrightarrow> length ys = length xs"
  by (induction xs arbitrary: ys) auto

lemma mapE_ok_id:
  "(\<And>x y. x \<in> set xs \<Longrightarrow> f x = Inr y \<Longrightarrow> y = x) \<Longrightarrow> mapE f xs = Inr ys \<Longrightarrow> ys = xs"
  by (induction xs arbitrary: ys) auto

lemma mapE_map_ok: "\<forall>x\<in>set xs. f x = Inr (g x) \<Longrightarrow> mapE f xs = Inr (map g xs)"
  by (induction xs) auto

lemma mapE_ok_nth: "mapE f xs = Inr ys \<Longrightarrow> i < length xs \<Longrightarrow> f (xs ! i) = Inr (ys ! i)"
  by (induction xs arbitrary: ys i) (auto simp: nth_Cons split: nat.splits)

lemma mapE_ok_set: "mapE f xs = Inr ys \<Longrightarrow> y \<in> set ys \<Longrightarrow> \<exists>x\<in>set xs. f x = Inr y"
  by (induction xs arbitrary: ys) auto

lemma mapE_total: "(\<And>x. x \<in> set xs \<Longrightarrow> \<exists>y. f x = Inr y) \<Longrightarrow> \<exists>ys. mapE f xs = Inr ys"
proof (induction xs)
  case Nil
  then show ?case by simp
next
  case (Cons x xs)
  then obtain y ys where "f x = Inr y" and "mapE f xs = Inr ys" by fastforce
  then show ?case by simp
qed

section \<open>Operations on a state\<close>

text \<open>
  An operation reads and changes a state and returns a value or raises; what it changed
  before raising stays changed.
\<close>

type_synonym ('s, 'a) actS = "'s \<Rightarrow> 'a res \<times> 's"

definition returnS :: "'a \<Rightarrow> ('s, 'a) actS" where
  "returnS x c = (Inr x, c)"

definition raiseS :: "exc \<Rightarrow> ('s, 'a) actS" where
  "raiseS e c = (Inl e, c)"

definition liftS :: "'a res \<Rightarrow> ('s, 'a) actS" where
  "liftS m c = (m, c)"

definition bindS :: "('s, 'a) actS \<Rightarrow> ('a \<Rightarrow> ('s, 'b) actS) \<Rightarrow> ('s, 'b) actS" where
  "bindS m f c = (case m c of (Inl e, c') \<Rightarrow> (Inl e, c') | (Inr x, c') \<Rightarrow> f x c')"

definition getS :: "('s \<Rightarrow> 'a) \<Rightarrow> ('s, 'a) actS" where
  "getS f c = (Inr (f c), c)"

lemmas act_defs = returnS_def raiseS_def liftS_def bindS_def getS_def

lemma bindS_cases [consumes 1, case_names raised returned]:
  assumes "bindS m f c = (r, c')"
  obtains (raised) e where "m c = (Inl e, c')" and "r = Inl e"
  | (returned) x c1 where "m c = (Inr x, c1)" and "f x c1 = (r, c')"
  using assms by (auto simp: bindS_def split: prod.splits sum.splits)

lemma act_eval [simp]:
  "returnS x c = (Inr x, c)" "raiseS e c = (Inl e, c)" "liftS m c = (m, c)" "getS g c = (Inr (g c), c)"
  by (simp_all add: act_defs)

lemma bindS_eval [simp]:
  "bindS (returnS x) f c = f x c" "bindS (raiseS e) f c = (Inl e, c)" "bindS (getS g) f c = f (g c) c"
  "bindS (liftS (Inr x)) f c = f x c" "bindS (liftS (Inl e)) f c = (Inl e, c)"
  by (simp_all add: bindS_def)

lemma bindS_lift_ok:
  "bindS (liftS m) f c = (Inr y, c') \<longleftrightarrow> (\<exists>x. m = Inr x \<and> f x c = (Inr y, c'))"
  by (cases m) auto

section \<open>Characters\<close>

text \<open>\<open>str.isspace\<close>, which is also \<open>\s\<close> of a Python pattern and what \<open>strip()\<close> removes.\<close>

definition isspace :: "nat \<Rightarrow> bool" where
  "isspace c \<longleftrightarrow>
     9 \<le> c \<and> c \<le> 13 \<or> 28 \<le> c \<and> c \<le> 32 \<or> c = 133 \<or> c = 160 \<or> c = 5760 \<or>
     8192 \<le> c \<and> c \<le> 8202 \<or> c = 8232 \<or> c = 8233 \<or> c = 8239 \<or> c = 8287 \<or> c = 12288"

text \<open>The line boundaries of \<open>str.splitlines\<close>.\<close>

definition is_linebreak :: "nat \<Rightarrow> bool" where
  "is_linebreak c \<longleftrightarrow>
     10 \<le> c \<and> c \<le> 13 \<or> 28 \<le> c \<and> c \<le> 30 \<or> c = 133 \<or> c = 8232 \<or> c = 8233"

definition is_lower_ascii :: "nat \<Rightarrow> bool" where
  "is_lower_ascii c \<longleftrightarrow> 97 \<le> c \<and> c \<le> 122"

definition is_upper_ascii :: "nat \<Rightarrow> bool" where
  "is_upper_ascii c \<longleftrightarrow> 65 \<le> c \<and> c \<le> 90"

definition is_digit_ascii :: "nat \<Rightarrow> bool" where
  "is_digit_ascii c \<longleftrightarrow> 48 \<le> c \<and> c \<le> 57"

definition is_alnum_ascii :: "nat \<Rightarrow> bool" where
  "is_alnum_ascii c \<longleftrightarrow> is_lower_ascii c \<or> is_upper_ascii c \<or> is_digit_ascii c"

definition is_hex_lower :: "nat \<Rightarrow> bool" where
  "is_hex_lower c \<longleftrightarrow> is_digit_ascii c \<or> 97 \<le> c \<and> c \<le> 102"

definition is_surrogate :: "nat \<Rightarrow> bool" where
  "is_surrogate c \<longleftrightarrow> 55296 \<le> c \<and> c \<le> 57343"

lemmas char_class_defs =
  isspace_def is_linebreak_def is_lower_ascii_def is_upper_ascii_def is_digit_ascii_def
  is_alnum_ascii_def is_hex_lower_def is_surrogate_def

lemma linebreak_isspace: "is_linebreak c \<Longrightarrow> isspace c"
  by (auto simp: char_class_defs)

text \<open>
  \<open>str.casefold\<close> and \<open>str.lower\<close>. Both are exact for every code point whose image
  contains an ASCII character; every other code point is left alone, while Python may map
  it to another non-ASCII text. The code only compares the results with ASCII texts, for
  equality or as a prefix, and on these questions the functions agree with Python's.
\<close>

definition casefold_char :: "nat \<Rightarrow> pystr" where
  "casefold_char c =
     (if is_upper_ascii c then [c + 32]
      else if c = 223 \<or> c = 7838 then [115, 115]
      else if c = 304 then [105, 775]
      else if c = 329 then [700, 110]
      else if c = 383 then [115]
      else if c = 496 then [106, 780]
      else if c = 7830 then [104, 817]
      else if c = 7831 then [116, 776]
      else if c = 7832 then [119, 778]
      else if c = 7833 then [121, 778]
      else if c = 7834 then [97, 702]
      else if c = 8490 then [107]
      else if c = 64256 then [102, 102]
      else if c = 64257 then [102, 105]
      else if c = 64258 then [102, 108]
      else if c = 64259 then [102, 102, 105]
      else if c = 64260 then [102, 102, 108]
      else if c = 64261 \<or> c = 64262 then [115, 116]
      else [c])"

definition casefold :: "pystr \<Rightarrow> pystr" where
  "casefold s = concat (map casefold_char s)"

lemma casefold_small:
  assumes "list_all (\<lambda>c. \<not> is_upper_ascii c \<and> c < 128) s"
  shows "casefold s = s"
proof -
  have "casefold_char c = [c]" if "c \<in> set s" for c
  proof -
    have "\<not> is_upper_ascii c" "c < 128" using assms that by (auto simp: list_all_iff)
    then show ?thesis by (simp add: casefold_char_def)
  qed
  then have "map casefold_char s = map (\<lambda>c. [c]) s" by simp
  then show ?thesis unfolding casefold_def by (simp only: concat_map_singleton) simp
qed

definition lower_char :: "nat \<Rightarrow> pystr" where
  "lower_char c =
     (if is_upper_ascii c then [c + 32]
      else if c = 304 then [105, 775]
      else if c = 8490 then [107]
      else [c])"

definition lower :: "pystr \<Rightarrow> pystr" where
  "lower s = concat (map lower_char s)"

section \<open>String methods\<close>

definition lstrip :: "pystr \<Rightarrow> pystr" where
  "lstrip s = dropWhile isspace s"

definition rstrip :: "pystr \<Rightarrow> pystr" where
  "rstrip s = rev (dropWhile isspace (rev s))"

definition strip :: "pystr \<Rightarrow> pystr" where
  "strip s = rstrip (lstrip s)"

text \<open>\<open>s.strip(chars)\<close> with a set of characters.\<close>

definition strip_chars :: "pystr \<Rightarrow> pystr \<Rightarrow> pystr" where
  "strip_chars cs s =
     rev (dropWhile (\<lambda>c. c \<in> set cs) (rev (dropWhile (\<lambda>c. c \<in> set cs) s)))"

text \<open>\<open>str.rstrip("/")\<close>.\<close>

definition rstrip_slash :: "pystr \<Rightarrow> pystr" where
  "rstrip_slash s = rev (dropWhile (\<lambda>c. c = 47) (rev s))"

fun startswith :: "pystr \<Rightarrow> pystr \<Rightarrow> bool" where
  "startswith s [] = True"
| "startswith [] (p # ps) = False"
| "startswith (c # s) (p # ps) = (c = p \<and> startswith s ps)"

definition endswith :: "pystr \<Rightarrow> pystr \<Rightarrow> bool" where
  "endswith s t = startswith (rev s) (rev t)"

text \<open>\<open>key in s\<close> for a key that is not empty.\<close>

fun occurs :: "pystr \<Rightarrow> pystr \<Rightarrow> bool" where
  "occurs key [] = False"
| "occurs key (c # s) = (startswith (c # s) key \<or> occurs key s)"

definition removeprefix :: "pystr \<Rightarrow> pystr \<Rightarrow> pystr" where
  "removeprefix s p = (if startswith s p then drop (length p) s else s)"

fun join :: "pystr \<Rightarrow> pystr list \<Rightarrow> pystr" where
  "join sep [] = []"
| "join sep [x] = x"
| "join sep (x # y # ys) = x @ sep @ join sep (y # ys)"

text \<open>\<open>s.split(c)\<close> for a one-character separator.\<close>

fun split_on :: "nat \<Rightarrow> pystr \<Rightarrow> pystr list" where
  "split_on d [] = [[]]"
| "split_on d (c # s) =
     (if c = d then [] # split_on d s
      else (case split_on d s of [] \<Rightarrow> [[c]] | w # ws \<Rightarrow> (c # w) # ws))"

text \<open>\<open>s.split()\<close>: the maximal runs of non-space characters.\<close>

lemma length_dropWhile_Suc [termination_simp]: "length (dropWhile P xs) < Suc (length xs)"
  by (simp add: length_dropWhile_le less_Suc_eq_le)

fun split_ws :: "pystr \<Rightarrow> pystr list" where
  "split_ws [] = []"
| "split_ws (c # s) =
     (if isspace c then split_ws s
      else (c # takeWhile (\<lambda>x. \<not> isspace x) s) # split_ws (dropWhile (\<lambda>x. \<not> isspace x) s))"

text \<open>
  \<open>s.splitlines()\<close>: a carriage return followed by a line feed is one boundary, and a
  boundary at the end does not open another line.
\<close>

fun splitlines_acc :: "pystr \<Rightarrow> pystr \<Rightarrow> pystr list" where
  "splitlines_acc acc [] = (if acc = [] then [] else [rev acc])"
| "splitlines_acc acc (c # s) =
     (if c = 13 \<and> s \<noteq> [] \<and> hd s = 10 then rev acc # splitlines_acc [] (tl s)
      else if is_linebreak c then rev acc # splitlines_acc [] s
      else splitlines_acc (c # acc) s)"

definition splitlines :: "pystr \<Rightarrow> pystr list" where
  "splitlines s = splitlines_acc [] s"

text \<open>\<open>re.sub(r"\s+", " ", s)\<close>.\<close>

fun collapse_ws :: "pystr \<Rightarrow> pystr" where
  "collapse_ws [] = []"
| "collapse_ws (c # s) =
     (if isspace c then 32 # collapse_ws (dropWhile isspace s) else c # collapse_ws s)"

text \<open>Decimal notation of integers, as \<open>str(n)\<close>.\<close>

fun nat_str :: "nat \<Rightarrow> pystr" where
  "nat_str n = (if n < 10 then [48 + n] else nat_str (n div 10) @ [48 + n mod 10])"

declare nat_str.simps [simp del]

definition int_str :: "int \<Rightarrow> pystr" where
  "int_str i = (if i < 0 then 45 # nat_str (nat (- i)) else nat_str (nat i))"

lemma nat_str_ne [simp]: "nat_str n \<noteq> []" "[] \<noteq> nat_str n"
  by (subst nat_str.simps; simp)+

lemma nat_str_digits: "c \<in> set (nat_str n) \<Longrightarrow> 48 \<le> c \<and> c \<le> 57"
proof (induction n rule: nat_str.induct)
  case (1 n)
  then show ?case by (subst (asm) (2) nat_str.simps) (auto split: if_splits)
qed

lemma nat_str_no: "c < 48 \<or> 57 < c \<Longrightarrow> c \<notin> set (nat_str n)"
  using nat_str_digits[of c n] by auto

lemma int_str_no_colon: "58 \<notin> set (int_str i)"
  by (simp add: int_str_def nat_str_no)

lemma nat_str_inj: "nat_str m = nat_str n \<Longrightarrow> m = n"
proof (induction m arbitrary: n rule: nat_str.induct)
  case (1 m)
  note unfold = nat_str.simps[of m] nat_str.simps[of n]
  from 1(2) have same: "m < 10 \<longleftrightarrow> n < 10" by (auto simp: unfold split: if_splits)
  show ?case
  proof (cases "m < 10")
    case True
    with 1(2) same show ?thesis by (simp add: unfold)
  next
    case False
    with 1(2) same have "nat_str (m div 10) = nat_str (n div 10)" and r: "m mod 10 = n mod 10"
      by (simp_all add: unfold)
    with 1(1)[OF False] have "m div 10 = n div 10" by blast
    with r show ?thesis by (metis div_mult_mod_eq)
  qed
qed

lemma int_str_inj: "int_str i = int_str j \<Longrightarrow> i = j"
proof -
  have minus: "nat_str n \<noteq> 45 # s" for n s using nat_str_no[of 45 n] by auto
  assume "int_str i = int_str j"
  then show ?thesis
    using minus minus[symmetric] by (auto simp: int_str_def split: if_splits dest!: nat_str_inj)
qed

lemma append_sep_inj:
  "k \<notin> set b \<Longrightarrow> k \<notin> set b' \<Longrightarrow> a @ k # b = a' @ k # b' \<longleftrightarrow> a = a' \<and> b = b'"
  by (auto simp: append_eq_append_conv2 append_eq_Cons_conv Cons_eq_append_conv)

lemma startswith_append [simp]: "startswith (p @ s) p"
  by (induction p) auto

lemma startswith_iff: "startswith s p \<longleftrightarrow> (\<exists>t. s = p @ t)"
  by (induction s p rule: startswith.induct) auto

section \<open>Dicts\<close>

text \<open>
  A dict built from pairs: a later pair replaces the value of its key, and a key keeps the
  place of its first insertion.
\<close>

definition dict_of :: "('k \<times> 'v) list \<Rightarrow> ('k \<times> 'v) list" where
  "dict_of kvs = foldl (\<lambda>d (k, v). AList.update k v d) [] kvs"

lemma AList_update_new: "k \<notin> fst ` set d \<Longrightarrow> AList.update k v d = d @ [(k, v)]"
  by (induction d) auto

lemma dict_of_snoc: "dict_of (kvs @ [(k, v)]) = AList.update k v (dict_of kvs)"
  by (simp add: dict_of_def)

lemma dict_of_distinct: "distinct (map fst kvs) \<Longrightarrow> dict_of kvs = kvs"
proof (induction kvs rule: rev_induct)
  case Nil
  then show ?case by (simp add: dict_of_def)
next
  case (snoc kv kvs)
  obtain k v where kv: "kv = (k, v)" by (cases kv)
  with snoc show ?case by (simp add: dict_of_snoc AList_update_new)
qed

lemma map_of_dict_of: "map_of (dict_of kvs) k = map_of (rev kvs) k"
  by (induction kvs rule: rev_induct) (auto simp: dict_of_def update_conv' split: prod.splits)

end
