(* ===== verification/Json.thy ===== *)
theory Json
  imports Base
begin

text \<open>
  JSON values as Python holds them after \<open>json.loads\<close> or before \<open>json.dumps\<close>, and the
  serialiser \<open>json.dumps(v, ensure_ascii=False, sort_keys=True, separators=(",", ":"))\<close>
  that the canonical hashes of testweaver use.
\<close>

section \<open>Values\<close>

text \<open>
  A finite float is represented by the decimal notation that determines it: \<open>FDec s m e\<close>
  is the float whose shortest repr has the digits of \<open>m\<close>, the exponent \<open>e\<close> of ten for
  its last digit, and a minus sign when \<open>s\<close>. A dict keeps its insertion order.
\<close>

datatype pyfloat = FNaN | FInf | FNegInf | FDec bool nat int

datatype json =
    JNull
  | JBool bool
  | JInt int
  | JFloat pyfloat
  | JStr pystr
  | JArr "json list"
  | JObj "(pystr \<times> json) list"

text \<open>\<open>dict(d)[k]\<close>, with \<open>None\<close> for a missing key or for a value that is not a dict.\<close>

fun jget :: "pystr \<Rightarrow> json \<Rightarrow> json option" where
  "jget k (JObj kvs) = map_of kvs k"
| "jget k _ = None"

text \<open>An optional string field, as \<open>str | None\<close>.\<close>

definition jopt :: "pystr option \<Rightarrow> json" where
  "jopt x = (case x of None \<Rightarrow> JNull | Some s \<Rightarrow> JStr s)"

lemma jopt_simps [simp]: "jopt None = JNull" "jopt (Some s) = JStr s"
  by (simp_all add: jopt_def)

lemma jopt_eq_iff [simp]: "jopt x = jopt y \<longleftrightarrow> x = y"
  by (cases x; cases y) simp_all

text \<open>Python dicts have distinct keys.\<close>

fun wf_json :: "json \<Rightarrow> bool" where
  "wf_json (JArr xs) = (\<forall>x\<in>set xs. wf_json x)"
| "wf_json (JObj kvs) = (distinct (map fst kvs) \<and> (\<forall>kv\<in>set kvs. wf_json (snd kv)))"
| "wf_json _ = True"

text \<open>A float that \<open>json.dumps(allow_nan=False)\<close> rejects occurs in the value.\<close>

fun nonfinite :: "json \<Rightarrow> bool" where
  "nonfinite (JFloat f) = (f = FNaN \<or> f = FInf \<or> f = FNegInf)"
| "nonfinite (JArr xs) = (\<exists>x\<in>set xs. nonfinite x)"
| "nonfinite (JObj kvs) = (\<exists>kv\<in>set kvs. nonfinite (snd kv))"
| "nonfinite _ = False"

section \<open>Serialisation\<close>

text \<open>
  The escapes of \<open>ensure_ascii=False\<close>: the quote, the backslash and the control
  characters below 32.
\<close>

definition hex_digit :: "nat \<Rightarrow> nat" where
  "hex_digit n = (if n < 10 then 48 + n else 87 + n)"

definition json_escape :: "nat \<Rightarrow> pystr" where
  "json_escape c =
     (if c = 34 then [92, 34]
      else if c = 92 then [92, 92]
      else if c = 10 then [92, 110]
      else if c = 13 then [92, 114]
      else if c = 9 then [92, 116]
      else if c = 12 then [92, 102]
      else if c = 8 then [92, 98]
      else if c < 32 then [92, 117, 48, 48, hex_digit (c div 16), hex_digit (c mod 16)]
      else [c])"

definition json_string :: "pystr \<Rightarrow> pystr" where
  "json_string s = 34 # concat (map json_escape s) @ [34]"

text \<open>\<open>float.__repr__\<close>: fixed notation when the decimal point is within -4 < p <= 16.\<close>

definition float_repr :: "pyfloat \<Rightarrow> pystr" where
  "float_repr f = (case f of
     FNaN \<Rightarrow> lit ''NaN''
   | FInf \<Rightarrow> lit ''Infinity''
   | FNegInf \<Rightarrow> lit ''-Infinity''
   | FDec s m e \<Rightarrow>
       (let ds = nat_str m; n = length ds; p = int n + e;
            body = (if p \<le> -4 \<or> 16 < p then
                      [hd ds] @ (if n = 1 then [] else 46 # tl ds) @ [101]
                      @ (if p - 1 < 0 then [45] else [43])
                      @ (if \<bar>p - 1\<bar> < 10 then [48] else []) @ nat_str (nat \<bar>p - 1\<bar>)
                    else if p \<le> 0 then lit ''0.'' @ replicate (nat (- p)) 48 @ ds
                    else if int n \<le> p then ds @ replicate (nat (p - int n)) 48 @ lit ''.0''
                    else take (nat p) ds @ [46] @ drop (nat p) ds)
        in (if s then [45] else []) @ body))"

fun dumps :: "json \<Rightarrow> pystr" where
  "dumps JNull = lit ''null''"
| "dumps (JBool b) = (if b then lit ''true'' else lit ''false'')"
| "dumps (JInt i) = int_str i"
| "dumps (JFloat f) = float_repr f"
| "dumps (JStr s) = json_string s"
| "dumps (JArr xs) = [91] @ join [44] (map dumps xs) @ [93]"
| "dumps (JObj kvs) =
     [123] @ join [44] (map (\<lambda>(k, t). json_string k @ [58] @ t)
                         (sort_key fst (map (\<lambda>(k, v). (k, dumps v)) kvs))) @ [125]"

section \<open>Texts that can be encoded\<close>

text \<open>
  \<open>text.encode("utf-8")\<close> fails on a lone surrogate only. A value whose strings and keys
  are free of surrogates is printed to an encodable text.
\<close>

definition encodable :: "pystr \<Rightarrow> bool" where
  "encodable s \<longleftrightarrow> list_all (\<lambda>c. \<not> is_surrogate c) s"

fun encodable_json :: "json \<Rightarrow> bool" where
  "encodable_json (JStr s) = encodable s"
| "encodable_json (JArr xs) = (\<forall>x\<in>set xs. encodable_json x)"
| "encodable_json (JObj kvs) = (\<forall>kv\<in>set kvs. encodable (fst kv) \<and> encodable_json (snd kv))"
| "encodable_json _ = True"

lemma encodable_simps [simp]:
  "encodable []"
  "encodable (c # s) \<longleftrightarrow> \<not> is_surrogate c \<and> encodable s"
  "encodable (s @ t) \<longleftrightarrow> encodable s \<and> encodable t"
  by (auto simp: encodable_def)

lemma encodable_lit [simp]: "encodable (lit s)"
  by (auto simp: encodable_def list_all_iff is_surrogate_def dest: set_lit_bound)

lemma encodable_small: "(\<And>c. c \<in> set s \<Longrightarrow> c < 55296) \<Longrightarrow> encodable s"
  by (force simp: encodable_def list_all_iff is_surrogate_def)

lemma set_nat_str: "c \<in> set (nat_str n) \<Longrightarrow> 48 \<le> c \<and> c \<le> 57"
  by (induction n rule: nat_str.induct) (subst (asm) (2) nat_str.simps, auto split: if_splits)

lemma nat_str_not_Nil [simp]: "nat_str n \<noteq> []"
  by (subst nat_str.simps) simp

lemma encodable_nat_str [simp]: "encodable (nat_str n)"
  by (rule encodable_small) (auto dest: set_nat_str)

lemma encodable_int_str [simp]: "encodable (int_str i)"
  by (simp add: int_str_def is_surrogate_def)

lemma encodable_set: "encodable s \<longleftrightarrow> (\<forall>c\<in>set s. \<not> is_surrogate c)"
  by (simp add: encodable_def list_all_iff)

lemma encodable_json_escape: "encodable (json_escape c) \<longleftrightarrow> \<not> is_surrogate c"
  by (auto simp: json_escape_def is_surrogate_def hex_digit_def)

lemma encodable_json_string [simp]: "encodable (json_string s) \<longleftrightarrow> encodable s"
  by (induction s) (auto simp: json_string_def encodable_json_escape is_surrogate_def)

lemma encodable_join: "(\<forall>x\<in>set xs. encodable x) \<Longrightarrow> encodable sep \<Longrightarrow> encodable (join sep xs)"
  by (induction sep xs rule: join.induct) auto

lemma encodable_sub: "encodable s \<Longrightarrow> set t \<subseteq> set s \<Longrightarrow> encodable t"
  by (auto simp: encodable_set)

lemma encodable_pieces:
  assumes "encodable s"
  shows "encodable (take k s)" and "encodable (drop k s)" and "encodable (tl s)"
proof -
  have "set (take k s) \<subseteq> set s" "set (drop k s) \<subseteq> set s" "set (tl s) \<subseteq> set s"
    by (auto dest: in_set_takeD in_set_dropD) (cases s; simp)
  with assms show "encodable (take k s)" and "encodable (drop k s)" and "encodable (tl s)"
    by (blast intro: encodable_sub)+
qed

lemma encodable_replicate [simp]: "encodable (replicate n c) \<longleftrightarrow> n = 0 \<or> \<not> is_surrogate c"
  by (auto simp: encodable_set)

lemma encodable_float_repr [simp]: "encodable (float_repr f)"
proof (cases f)
  case (FDec s m e)
  have "encodable (nat_str m)" by simp
  then have "\<not> is_surrogate (hd (nat_str m))"
    by (cases "nat_str m") auto
  then show ?thesis
    by (simp add: FDec float_repr_def Let_def encodable_pieces)
      (simp add: is_surrogate_def)
qed (simp_all add: float_repr_def)

lemma encodable_dumps: "encodable_json v \<Longrightarrow> encodable (dumps v)"
proof (induction v rule: dumps.induct)
  case (6 xs)
  then have "\<forall>t\<in>set (map dumps xs). encodable t" by auto
  then show ?case using encodable_join[of "map dumps xs" "[44]"] by (simp add: is_surrogate_def)
next
  case (7 kvs)
  then have "\<forall>kv\<in>set kvs. encodable (fst kv) \<and> encodable (dumps (snd kv))" by auto
  then have "encodable (join [44] (map (\<lambda>(k, t). json_string k @ [58] @ t)
               (sort_key fst (map (\<lambda>(k, v). (k, dumps v)) kvs))))"
    by (intro encodable_join) (auto simp: is_surrogate_def)
  then show ?case by (simp add: is_surrogate_def)
qed simp_all

end
