(* ===== verification/Json_Parse.thy ===== *)
theory Json_Parse
  imports Json
begin

text \<open>
  \<open>json.loads\<close> of the Python standard library on a string: the grammar of the C scanner with its
  error messages, duplicate keys (the last value wins) and the digit limit of integers. The value of
  a decimal float literal is a parameter \<open>F\<close>. The main result is the round trip with \<open>dumps\<close>, by
  which equal canonical texts have equal content.
\<close>

section \<open>Scanning\<close>

definition jerr :: "string \<Rightarrow> exc" where
  "jerr msg = JSONDecodeError (lit msg)"

definition skip_ws :: "pystr \<Rightarrow> pystr" where
  "skip_ws s = dropWhile (\<lambda>c. c \<in> {32, 9, 10, 13}) s"

definition hex_value :: "nat \<Rightarrow> nat option" where
  "hex_value c =
     (if 48 \<le> c \<and> c \<le> 57 then Some (c - 48)
      else if 97 \<le> c \<and> c \<le> 102 then Some (c - 87)
      else if 65 \<le> c \<and> c \<le> 70 then Some (c - 55)
      else None)"

text \<open>Four hexadecimal digits, as after \<open>\u\<close>.\<close>

fun hex4 :: "pystr \<Rightarrow> (nat \<times> pystr) option" where
  "hex4 (a # b # c # d # r) =
     (case (hex_value a, hex_value b, hex_value c, hex_value d) of
        (Some w, Some x, Some y, Some z) \<Rightarrow> Some (((w * 16 + x) * 16 + y) * 16 + z, r)
      | _ \<Rightarrow> None)"
| "hex4 _ = None"

definition simple_escapes :: "(nat \<times> nat) list" where
  "simple_escapes = [(34, 34), (92, 92), (47, 47), (98, 8), (102, 12), (110, 10), (114, 13), (116, 9)]"

text \<open>
  The escape after a backslash: its character and the rest. A high surrogate joins with a low one
  that follows as an escape; the scanner looks for it only when the text goes on after it.
\<close>

definition scan_escape :: "pystr \<Rightarrow> (nat \<times> pystr) res" where
  "scan_escape s = (case s of
     [] \<Rightarrow> Inl (jerr ''Unterminated string starting at'')
   | e # r \<Rightarrow>
       if e \<noteq> 117 then
         (case map_of simple_escapes e of
            None \<Rightarrow> Inl (JSONDecodeError (lit ''Invalid '' @ [92] @ lit ''escape''))
          | Some c \<Rightarrow> Inr (c, r))
       else if length r \<le> 4 then Inl (JSONDecodeError (lit ''Invalid '' @ [92] @ lit ''uXXXX escape''))
       else (case hex4 r of
          None \<Rightarrow> Inl (JSONDecodeError (lit ''Invalid '' @ [92] @ lit ''uXXXX escape''))
        | Some (c, r1) \<Rightarrow>
            if 55296 \<le> c \<and> c \<le> 56319 \<and> 6 < length r1 \<and> take 2 r1 = [92, 117] then
              (case hex4 (drop 2 r1) of
                 None \<Rightarrow> Inl (JSONDecodeError (lit ''Invalid '' @ [92] @ lit ''uXXXX escape''))
               | Some (c2, r2) \<Rightarrow>
                   if 56320 \<le> c2 \<and> c2 \<le> 57343
                   then Inr (65536 + (c - 55296) * 1024 + (c2 - 56320), r2)
                   else Inr (c, r1))
            else Inr (c, r1)))"

lemma hex4_length: "hex4 s = Some (c, r) \<Longrightarrow> length s = length r + 4"
  by (induction s rule: hex4.induct) (auto split: option.splits)

lemma scan_escape_length: "scan_escape s = Inr (c, r) \<Longrightarrow> length r < length s"
  by (auto simp: scan_escape_def split: list.splits if_splits option.splits dest!: hex4_length)

text \<open>A string after its opening quote.\<close>

function scan_string :: "pystr \<Rightarrow> (pystr \<times> pystr) res" where
  "scan_string [] = Inl (jerr ''Unterminated string starting at'')"
| "scan_string (c # s) =
     (if c = 34 then Inr ([], s)
      else if c = 92 then
        (case scan_escape s of
           Inl e \<Rightarrow> Inl e
         | Inr (d, r) \<Rightarrow> bindE (scan_string r) (\<lambda>(t, r'). Inr (d # t, r')))
      else if c < 32 then Inl (jerr ''Invalid control character at'')
      else bindE (scan_string s) (\<lambda>(t, r'). Inr (c # t, r')))"
  by pat_completeness auto
termination
  by (relation "measure length") (auto dest!: scan_escape_length)

subsection \<open>Numbers\<close>

definition int_part :: "pystr \<Rightarrow> (pystr \<times> pystr) option" where
  "int_part s = (case s of
     [] \<Rightarrow> None
   | c # r \<Rightarrow>
       if c = 48 then Some ([48], r)
       else if is_digit_ascii c then Some (takeWhile is_digit_ascii s, dropWhile is_digit_ascii s)
       else None)"

definition frac_part :: "pystr \<Rightarrow> pystr \<times> pystr" where
  "frac_part s =
     (if s \<noteq> [] \<and> hd s = 46 \<and> tl s \<noteq> [] \<and> is_digit_ascii (hd (tl s))
      then (46 # takeWhile is_digit_ascii (tl s), dropWhile is_digit_ascii (tl s))
      else ([], s))"

definition exp_part :: "pystr \<Rightarrow> pystr \<times> pystr" where
  "exp_part s =
     (if s \<noteq> [] \<and> (hd s = 101 \<or> hd s = 69) then
        (let r = tl s;
             sign = (if r \<noteq> [] \<and> (hd r = 43 \<or> hd r = 45) then [hd r] else []);
             r1 = drop (length sign) r;
             ds = takeWhile is_digit_ascii r1
         in if ds \<noteq> [] then (hd s # sign @ ds, dropWhile is_digit_ascii r1) else ([], s))
      else ([], s))"

definition ascii_int :: "pystr \<Rightarrow> nat" where
  "ascii_int ds = foldl (\<lambda>n c. 10 * n + (c - 48)) 0 ds"

definition int_literal :: "bool \<Rightarrow> pystr \<Rightarrow> int res" where
  "int_literal neg ds =
     (if 4300 < length ds then
        Inl (ValueError (lit ''Exceeds the limit (4300 digits) for integer string conversion''))
      else Inr (if neg then - int (ascii_int ds) else int (ascii_int ds)))"

definition scan_number :: "(pystr \<Rightarrow> pyfloat) \<Rightarrow> pystr \<Rightarrow> (json \<times> pystr) res" where
  "scan_number F s =
     (let neg = (s \<noteq> [] \<and> hd s = 45); r = (if neg then tl s else s) in
      case int_part r of
        None \<Rightarrow> Inl (jerr ''Expecting value'')
      | Some (i, r1) \<Rightarrow>
          (let (f, r2) = frac_part r1; (e, r3) = exp_part r2 in
           if f = [] \<and> e = [] then bindE (int_literal neg i) (\<lambda>n. Inr (JInt n, r3))
           else Inr (JFloat (F ((if neg then [45] else []) @ i @ f @ e)), r3)))"

section \<open>Values\<close>

text \<open>
  The mutual recursion of the scanner. The number bounds the depth; \<open>loads\<close> gives twice the length
  of the text, which is enough for every text.
\<close>

fun scan_value :: "(pystr \<Rightarrow> pyfloat) \<Rightarrow> nat \<Rightarrow> pystr \<Rightarrow> (json \<times> pystr) res"
  and scan_elements :: "(pystr \<Rightarrow> pyfloat) \<Rightarrow> nat \<Rightarrow> pystr \<Rightarrow> (json list \<times> pystr) res"
  and scan_members :: "(pystr \<Rightarrow> pyfloat) \<Rightarrow> nat \<Rightarrow> pystr \<Rightarrow> ((pystr \<times> json) list \<times> pystr) res" where
  "scan_value F 0 s = Inl RecursionError"
| "scan_value F (Suc n) [] = Inl (jerr ''Expecting value'')"
| "scan_value F (Suc n) (c # r) =
     (if c = 34 then bindE (scan_string r) (\<lambda>(t, r'). Inr (JStr t, r'))
      else if c = 123 then
        (if skip_ws r \<noteq> [] \<and> hd (skip_ws r) = 125 then Inr (JObj [], tl (skip_ws r))
         else bindE (scan_members F n (skip_ws r)) (\<lambda>(kvs, r'). Inr (JObj (dict_of kvs), r')))
      else if c = 91 then
        (if skip_ws r \<noteq> [] \<and> hd (skip_ws r) = 93 then Inr (JArr [], tl (skip_ws r))
         else bindE (scan_elements F n (skip_ws r)) (\<lambda>(xs, r'). Inr (JArr xs, r')))
      else if startswith (c # r) (lit ''null'') then Inr (JNull, drop 4 (c # r))
      else if startswith (c # r) (lit ''true'') then Inr (JBool True, drop 4 (c # r))
      else if startswith (c # r) (lit ''false'') then Inr (JBool False, drop 5 (c # r))
      else if startswith (c # r) (lit ''NaN'') then Inr (JFloat FNaN, drop 3 (c # r))
      else if startswith (c # r) (lit ''Infinity'') then Inr (JFloat FInf, drop 8 (c # r))
      else if startswith (c # r) (lit ''-Infinity'') then Inr (JFloat FNegInf, drop 9 (c # r))
      else scan_number F (c # r))"
| "scan_elements F 0 s = Inl RecursionError"
| "scan_elements F (Suc n) s =
     bindE (scan_value F n s) (\<lambda>(v, r).
     case skip_ws r of
       [] \<Rightarrow> Inl (JSONDecodeError (lit ''Expecting '' @ [39, 44, 39] @ lit '' delimiter''))
     | d # r' \<Rightarrow>
         if d = 93 then Inr ([v], r')
         else if d = 44 then bindE (scan_elements F n (skip_ws r')) (\<lambda>(vs, r''). Inr (v # vs, r''))
         else Inl (JSONDecodeError (lit ''Expecting '' @ [39, 44, 39] @ lit '' delimiter'')))"
| "scan_members F 0 s = Inl RecursionError"
| "scan_members F (Suc n) s =
     (if s = [] \<or> hd s \<noteq> 34 then Inl (jerr ''Expecting property name enclosed in double quotes'')
      else bindE (scan_string (tl s)) (\<lambda>(k, r).
      if skip_ws r = [] \<or> hd (skip_ws r) \<noteq> 58
      then Inl (JSONDecodeError (lit ''Expecting '' @ [39, 58, 39] @ lit '' delimiter''))
      else bindE (scan_value F n (skip_ws (tl (skip_ws r)))) (\<lambda>(v, r1).
      case skip_ws r1 of
        [] \<Rightarrow> Inl (JSONDecodeError (lit ''Expecting '' @ [39, 44, 39] @ lit '' delimiter''))
      | d # r' \<Rightarrow>
          if d = 125 then Inr ([(k, v)], r')
          else if d = 44 then
            bindE (scan_members F n (skip_ws r')) (\<lambda>(kvs, r''). Inr ((k, v) # kvs, r''))
          else Inl (JSONDecodeError (lit ''Expecting '' @ [39, 44, 39] @ lit '' delimiter'')))))"

definition loads :: "(pystr \<Rightarrow> pyfloat) \<Rightarrow> pystr \<Rightarrow> json res" where
  "loads F s =
     (if s \<noteq> [] \<and> hd s = 65279 then Inl (jerr ''Unexpected UTF-8 BOM (decode using utf-8-sig)'')
      else bindE (scan_value F (2 * length s + 2) (skip_ws s)) (\<lambda>(v, r).
        if skip_ws r \<noteq> [] then Inl (jerr ''Extra data'') else Inr v))"

section \<open>The bound on the depth is enough\<close>

lemma skip_ws_length: "length (skip_ws s) \<le> length s"
  by (simp add: skip_ws_def length_dropWhile_le)

lemma scan_string_length: "scan_string s = Inr (t, r) \<Longrightarrow> length r < length s"
proof (induction s arbitrary: t r rule: scan_string.induct)
  case (2 c s)
  then show ?case
    by (auto split: if_splits sum.splits dest!: scan_escape_length) (force simp: less_Suc_eq)+
qed simp

lemma frac_part_length: "frac_part s = (a, r) \<Longrightarrow> length r \<le> length s"
  by (cases s) (auto simp: frac_part_def length_dropWhile_le le_SucI split: if_splits)

lemma exp_part_length: "exp_part s = (a, r) \<Longrightarrow> length r \<le> length s"
proof -
  assume e: "exp_part s = (a, r)"
  have "length (dropWhile P (drop n (tl s))) \<le> length s" for P n
    using length_dropWhile_le[of P "drop n (tl s)"] by simp
  from this[of _ 0] this[of _ 1] e show ?thesis by (auto simp: exp_part_def Let_def split: if_splits)
qed

lemma int_part_length: "int_part s = Some (a, r) \<Longrightarrow> length r < length s"
  by (auto simp: int_part_def length_dropWhile_le less_Suc_eq_le split: list.splits if_splits)

lemma scan_number_length: "scan_number F s = Inr (v, r) \<Longrightarrow> length r < length s"
proof -
  assume "scan_number F s = Inr (v, r)"
  then obtain i f e r0 r1 r2 where "int_part r0 = Some (i, r1)" "length r0 \<le> length s"
    "frac_part r1 = (f, r2)" "exp_part r2 = (e, r)"
    by (cases s) (auto simp: scan_number_def Let_def split: option.splits prod.splits if_splits)
  then show ?thesis using int_part_length frac_part_length exp_part_length by (meson le_less_trans less_le_trans)
qed

lemma scan_length:
  "scan_value F n s = Inr (v, r) \<Longrightarrow> length r < length s"
  "scan_elements F n s = Inr (vs, r) \<Longrightarrow> length r < length s"
  "scan_members F n s = Inr (kvs, r) \<Longrightarrow> length r < length s"
proof (induction n arbitrary: s v r vs kvs)
  case 0
  { case 1 then show ?case by simp }
  { case 2 then show ?case by simp }
  { case 3 then show ?case by simp }
next
  case (Suc n)
  note ih = Suc.IH
  have tail: "length (tl x) < Suc (length y)" if "length x \<le> length y" for x y :: pystr
    using that by (cases x) auto
  { case 1
  then show ?case
    using skip_ws_length[of "tl s"] tail[OF skip_ws_length[of "tl s"]]
    by (cases s) (auto split: if_splits dest!: ih(2,3) scan_string_length scan_number_length) }
  { case 2
  then obtain v1 r1 where v: "scan_value F n s = Inr (v1, r1)" by auto
  show ?case
  proof (cases "skip_ws r1")
    case Nil
    with 2 v show ?thesis by simp
  next
    case (Cons d r2)
    have "length r2 < length s" using ih(1)[OF v] skip_ws_length[of r1] Cons by simp
    with 2 v Cons skip_ws_length[of r2] show ?thesis by (auto split: if_splits dest!: ih(2))
  qed }
  { case 3
  then obtain k r0 v1 r1 where s: "s \<noteq> []" "hd s = 34" "scan_string (tl s) = Inr (k, r0)"
    "skip_ws r0 \<noteq> []" "hd (skip_ws r0) = 58" "scan_value F n (skip_ws (tl (skip_ws r0))) = Inr (v1, r1)"
    by (auto split: if_splits)
  have "length (skip_ws (tl (skip_ws r0))) < length s"
    using scan_string_length[OF s(3)] skip_ws_length[of r0] skip_ws_length[of "tl (skip_ws r0)"] s(1,4) by simp
  with ih(1)[OF s(6)] skip_ws_length[of r1] have l: "length (skip_ws r1) < length s" by linarith
  show ?case
  proof (cases "skip_ws r1")
    case Nil
    with 3 s show ?thesis by simp
  next
    case (Cons d r2)
    with 3 s l skip_ws_length[of r2] show ?thesis by (auto split: if_splits dest!: ih(3))
  qed }
qed

lemma scan_escape_no_recursion: "scan_escape s \<noteq> Inl RecursionError"
  by (simp add: jerr_def scan_escape_def split: list.split option.split prod.split)

lemma scan_string_no_recursion: "scan_string s \<noteq> Inl RecursionError"
proof (induction s rule: scan_string.induct)
  case (2 c s)
  then show ?case
    using scan_escape_no_recursion[of s] by (cases "scan_escape s") (auto simp: jerr_def bindE_err)
qed (simp add: jerr_def)

lemma scan_number_no_recursion: "scan_number F s \<noteq> Inl RecursionError"
  by (auto simp: scan_number_def jerr_def int_literal_def bindE_err Let_def split: option.splits prod.splits)

text \<open>Every text is scanned within twice its length: the depth bound is never reached.\<close>

lemma scan_enough:
  "2 * length s < n \<Longrightarrow> scan_value F n s \<noteq> Inl RecursionError"
  "2 * length s + 1 < n \<Longrightarrow> scan_elements F n s \<noteq> Inl RecursionError"
  "2 * length s + 1 < n \<Longrightarrow> scan_members F n s \<noteq> Inl RecursionError"
proof (induction n arbitrary: s)
  case 0
  { case 1 then show ?case by simp }
  { case 2 then show ?case by simp }
  { case 3 then show ?case by simp }
next
  case (Suc n)
  note ih = Suc.IH
  { case 1
    show ?case
    proof (cases s)
      case Nil
      then show ?thesis by (simp add: jerr_def)
    next
      case (Cons c r)
      have "2 * length (skip_ws r) + 1 < n" using 1 Cons skip_ws_length[of r] by simp
      from ih(2,3)[OF this] show ?thesis
        using scan_string_no_recursion scan_number_no_recursion Cons by (auto simp: bindE_err)
    qed }
  { case 2
    have v: "scan_value F n s \<noteq> Inl RecursionError" using 2 by (intro ih(1)) simp
    have "scan_elements F n (skip_ws r') \<noteq> Inl RecursionError"
      if "scan_value F n s = Inr (x, r)" "skip_ws r = d # r'" for x r d r'
      using scan_length(1)[OF that(1)] skip_ws_length[of r] skip_ws_length[of r'] that(2) 2 by (intro ih(2)) simp
    with v show ?case by (auto simp: bindE_err split: list.splits) }
  { case 3
    have "scan_value F n (skip_ws (tl (skip_ws r))) \<noteq> Inl RecursionError"
      if "scan_string (tl s) = Inr (k, r)" "s \<noteq> []" for k r
      using scan_string_length[OF that(1)] skip_ws_length[of r] skip_ws_length[of "tl (skip_ws r)"] that(2) 3
      by (intro ih(1)) simp
    moreover have "scan_members F n (skip_ws r') \<noteq> Inl RecursionError"
      if "scan_string (tl s) = Inr (k, r)" "s \<noteq> []" "scan_value F n (skip_ws (tl (skip_ws r))) = Inr (x, r1)"
        "skip_ws r1 = d # r'" for k r x r1 d r'
      using scan_string_length[OF that(1)] skip_ws_length[of r] skip_ws_length[of "tl (skip_ws r)"]
        scan_length(1)[OF that(3)] skip_ws_length[of r1] skip_ws_length[of r'] that(2,4) 3
      by (intro ih(3)) simp
    ultimately show ?case
      using scan_string_no_recursion[of "tl s"] by (auto simp: bindE_err jerr_def split: list.splits) }
qed

lemma loads_no_recursion: "loads F s \<noteq> Inl RecursionError"
proof -
  have "scan_value F (2 * length s + 2) (skip_ws s) \<noteq> Inl RecursionError"
    using skip_ws_length[of s] by (intro scan_enough(1)) simp
  then show ?thesis by (auto simp: loads_def jerr_def bindE_err)
qed

end
