(* ===== verification/Json_Round.thy ===== *)
theory Json_Round
  imports Json_Parse
begin

text \<open>
  The round trip of \<open>json.dumps\<close> and \<open>json.loads\<close>: the canonical text of a value is read back as the
  value with sorted keys, so that two values with the same canonical text are equal up to the order
  of keys.
\<close>

fun canon :: "json \<Rightarrow> json" where
  "canon (JArr xs) = JArr (map canon xs)"
| "canon (JObj kvs) = JObj (sort_key fst (map (\<lambda>(k, v). (k, canon v)) kvs))"
| "canon v = v"

text \<open>
  The digits of a float have no trailing zero, so that the float has one form only; an integer has at
  most 4300 digits.
\<close>

fun plain_float :: "pyfloat \<Rightarrow> bool" where
  "plain_float (FDec s m e) = (if m = 0 then e = 0 else m mod 10 \<noteq> 0)"
| "plain_float _ = True"

fun plain_json :: "json \<Rightarrow> bool" where
  "plain_json (JInt i) = (length (nat_str (nat \<bar>i\<bar>)) \<le> 4300)"
| "plain_json (JFloat f) = plain_float f"
| "plain_json (JArr xs) = (\<forall>x\<in>set xs. plain_json x)"
| "plain_json (JObj kvs) = (\<forall>kv\<in>set kvs. plain_json (snd kv))"
| "plain_json _ = True"

text \<open>\<open>float(repr(x)) == x\<close> for the finite floats.\<close>

definition reads_floats :: "(pystr \<Rightarrow> pyfloat) \<Rightarrow> bool" where
  "reads_floats F \<longleftrightarrow> (\<forall>s m e. plain_float (FDec s m e) \<longrightarrow> F (float_repr (FDec s m e)) = FDec s m e)"

section \<open>Strings\<close>

lemma hex_value_digit: "n < 16 \<Longrightarrow> hex_value (hex_digit n) = Some n"
  by (auto simp: hex_value_def hex_digit_def)

lemma scan_string_escape:
  "scan_string (json_escape c @ r @ [34] @ rest) = bindE (scan_string (r @ [34] @ rest)) (\<lambda>(t, r'). Inr (c # t, r'))"
proof (cases "c = 34 \<or> c = 92 \<or> c = 10 \<or> c = 13 \<or> c = 9 \<or> c = 12 \<or> c = 8")
  case True
  then show ?thesis by (auto simp: json_escape_def scan_escape_def simple_escapes_def)
next
  case False
  show ?thesis
  proof (cases "c < 32")
    case True
    have "hex4 (48 # 48 # hex_digit (c div 16) # hex_digit (c mod 16) # x) = Some (c, x)" for x
      using True hex_value_digit[of "c div 16"] hex_value_digit[of "c mod 16"] by (simp add: hex_value_def[of 48])
    with True False show ?thesis by (simp add: json_escape_def scan_escape_def)
  next
    case False
    with \<open>\<not> (c = 34 \<or> c = 92 \<or> c = 10 \<or> c = 13 \<or> c = 9 \<or> c = 12 \<or> c = 8)\<close> show ?thesis
      by (simp add: json_escape_def)
  qed
qed

lemma scan_json_string: "scan_string (concat (map json_escape s) @ 34 # rest) = Inr (s, rest)"
proof (induction s)
  case (Cons c s)
  then show ?case using scan_string_escape[of c "concat (map json_escape s)" rest] by simp
qed simp

section \<open>Numbers\<close>

text \<open>What follows a value inside a text.\<close>

definition stops :: "pystr \<Rightarrow> bool" where
  "stops r \<longleftrightarrow> r = [] \<or> hd r = 44 \<or> hd r = 93 \<or> hd r = 125"

definition digits :: "pystr \<Rightarrow> bool" where
  "digits s \<longleftrightarrow> s \<noteq> [] \<and> list_all is_digit_ascii s"

lemma take_digits:
  "list_all is_digit_ascii a \<Longrightarrow> r = [] \<or> \<not> is_digit_ascii (hd r) \<Longrightarrow>
   takeWhile is_digit_ascii (a @ r) = a \<and> dropWhile is_digit_ascii (a @ r) = r"
  by (cases r) (auto simp: takeWhile_append dropWhile_append list_all_iff)

lemma int_part_digits:
  assumes "digits i" and "hd i \<noteq> 48 \<or> i = [48]" and "r = [] \<or> \<not> is_digit_ascii (hd r)"
  shows "int_part (i @ r) = Some (i, r)"
proof (cases "i = [48]")
  case True
  then show ?thesis by (simp add: int_part_def)
next
  case False
  then show ?thesis using assms take_digits[of i r] by (cases i) (auto simp: int_part_def digits_def)
qed

lemma frac_part_none: "r = [] \<or> hd r \<noteq> 46 \<Longrightarrow> frac_part r = ([], r)"
  by (auto simp: frac_part_def)

lemma frac_part_digits:
  "digits f \<Longrightarrow> r = [] \<or> \<not> is_digit_ascii (hd r) \<Longrightarrow> frac_part (46 # f @ r) = (46 # f, r)"
  using take_digits[of f r] by (cases f) (auto simp: frac_part_def digits_def)

lemma exp_part_none: "r = [] \<or> hd r \<noteq> 101 \<and> hd r \<noteq> 69 \<Longrightarrow> exp_part r = ([], r)"
  by (auto simp: exp_part_def)

lemma exp_part_digits:
  "digits d \<Longrightarrow> s = 43 \<or> s = 45 \<Longrightarrow> r = [] \<or> \<not> is_digit_ascii (hd r) \<Longrightarrow>
   exp_part (101 # s # d @ r) = (101 # s # d, r)"
  using take_digits[of d r] by (auto simp: exp_part_def digits_def Let_def)

lemma stops_chars: "stops r \<Longrightarrow> r = [] \<or> \<not> is_digit_ascii (hd r) \<and> hd r \<noteq> 46 \<and> hd r \<noteq> 101 \<and> hd r \<noteq> 69"
  by (auto simp: stops_def is_digit_ascii_def)

text \<open>A literal is read whole when its fraction or exponent is there or missing as the grammar has it.\<close>

definition fraction :: "pystr \<Rightarrow> bool" where
  "fraction f \<longleftrightarrow> f = [] \<or> (\<exists>d. f = 46 # d \<and> digits d)"

definition exponent :: "pystr \<Rightarrow> bool" where
  "exponent e \<longleftrightarrow> e = [] \<or> (\<exists>s d. e = 101 # s # d \<and> (s = 43 \<or> s = 45) \<and> digits d)"

lemma scan_literal:
  assumes "digits i" and "hd i \<noteq> 48 \<or> i = [48]" and "fraction f" and "exponent e" and "stops r"
  shows "scan_number F ((if neg then [45] else []) @ i @ f @ e @ r)
    = (if f = [] \<and> e = [] then bindE (int_literal neg i) (\<lambda>n. Inr (JInt n, r))
       else Inr (JFloat (F ((if neg then [45] else []) @ i @ f @ e)), r))"
proof -
  have stop: "r = [] \<or> \<not> is_digit_ascii (hd r)" "r = [] \<or> hd r \<noteq> 46" "r = [] \<or> hd r \<noteq> 101 \<and> hd r \<noteq> 69"
    using stops_chars[OF assms(5)] by auto
  have e: "exp_part (e @ r) = (e, r)"
    using assms(4) exp_part_none[OF stop(3)] exp_part_digits[OF _ _ stop(1)] by (auto simp: exponent_def)
  have er: "e @ r = [] \<or> \<not> is_digit_ascii (hd (e @ r)) \<and> hd (e @ r) \<noteq> 46"
    using assms(4) stop by (auto simp: exponent_def is_digit_ascii_def)
  then have f: "frac_part (f @ e @ r) = (f, e @ r)"
    using assms(3) frac_part_none[of "e @ r"] frac_part_digits[of _ "e @ r"] by (auto simp: fraction_def)
  have "f @ e @ r = [] \<or> \<not> is_digit_ascii (hd (f @ e @ r))"
    using er assms(3) by (auto simp: fraction_def is_digit_ascii_def)
  then have i: "int_part (i @ f @ e @ r) = Some (i, f @ e @ r)" using assms(1,2) by (intro int_part_digits)
  have "hd (i @ f @ e @ r) \<noteq> 45" using assms(1) by (cases i) (auto simp: digits_def is_digit_ascii_def)
  then show ?thesis using i f e assms(1) by (auto simp: scan_number_def Let_def digits_def)
qed

lemma digits_nat_str: "digits (nat_str n)"
  using nat_str_digits[of _ n] by (auto simp: digits_def list_all_iff is_digit_ascii_def)

lemma nat_str_lead: "hd (nat_str n) \<noteq> 48 \<or> nat_str n = [48]"
proof (induction n rule: nat_str.induct)
  case (1 n)
  show ?case
  proof (cases "n < 10")
    case True
    then show ?thesis by (cases "n = 0") (simp_all add: nat_str.simps[of n] nat_str.simps[of 0])
  next
    case False
    have "nat_str (n div 10) \<noteq> [48]"
    proof
      assume "nat_str (n div 10) = [48]"
      then have "nat_str (n div 10) = nat_str 0" by (simp add: nat_str.simps[of 0])
      then have "n div 10 = 0" by (rule nat_str_inj)
      with False show False by simp
    qed
    with 1 False show ?thesis by (simp add: nat_str.simps[of n])
  qed
qed

lemma ascii_int_nat_str: "ascii_int (nat_str n) = n"
proof (induction n rule: nat_str.induct)
  case (1 n)
  show ?case
  proof (cases "n < 10")
    case True
    then show ?thesis by (simp add: nat_str.simps[of n] ascii_int_def)
  next
    case False
    with 1 show ?thesis by (simp add: nat_str.simps[of n] ascii_int_def)
  qed
qed

lemma scan_int:
  assumes "plain_json (JInt i)" and "stops r"
  shows "scan_number F (int_str i @ r) = Inr (JInt i, r)"
proof -
  have lit: "int_literal neg (nat_str n) = Inr (if neg then - int n else int n)" if "length (nat_str n) \<le> 4300" for neg n
    using that by (simp add: int_literal_def ascii_int_nat_str)
  have "scan_number F ((if neg then [45] else []) @ nat_str n @ [] @ [] @ r)
      = bindE (int_literal neg (nat_str n)) (\<lambda>n. Inr (JInt n, r))" for neg n
    using scan_literal[OF digits_nat_str nat_str_lead _ _ assms(2), of "[]" "[]" F neg n]
    by (simp add: fraction_def exponent_def)
  from this[of True "nat (- i)"] this[of False "nat i"] show ?thesis
    using assms(1) lit[of "nat (- i)" True] lit[of "nat i" False] by (auto simp: int_str_def)
qed

text \<open>The text of a finite float consists of such parts, with a fraction or an exponent.\<close>

lemma float_repr_parts:
  assumes "plain_float (FDec s m e)"
  obtains i f x where "float_repr (FDec s m e) = (if s then [45] else []) @ i @ f @ x" and "digits i"
    and "hd i \<noteq> 48 \<or> i = [48]" and "fraction f" and "exponent x" and "f \<noteq> [] \<or> x \<noteq> []"
proof -
  let ?ds = "nat_str m" and ?p = "int (length (nat_str m)) + e"
  note d = digits_nat_str[of m, unfolded digits_def]
  have lead: "hd ?ds \<noteq> 48 \<or> ?ds = [48]" by (rule nat_str_lead)
  have zero: "?ds = [48] \<Longrightarrow> m = 0" using nat_str_inj[of m 0] by (simp add: nat_str.simps[of 0])
  have take_ds: "list_all is_digit_ascii (take k ?ds)" "list_all is_digit_ascii (drop k ?ds)" for k
    using d by (auto simp: list_all_iff dest: in_set_takeD in_set_dropD)
  have zeros: "list_all is_digit_ascii (replicate k 48)" for k by (simp add: list_all_iff is_digit_ascii_def)
  consider (exp) "?p \<le> -4 \<or> 16 < ?p" | (small) "-4 < ?p" "?p \<le> 0" | (large) "0 < ?p" "?p \<le> 16" "int (length ?ds) \<le> ?p"
    | (mid) "0 < ?p" "?p \<le> 16" "?p < int (length ?ds)"
    by linarith
  then show thesis
  proof cases
    case exp
    let ?f = "if length ?ds = 1 then [] else 46 # tl ?ds"
    let ?x = "101 # (if ?p - 1 < 0 then 45 else 43) # ((if \<bar>?p - 1\<bar> < 10 then [48] else []) @ nat_str (nat \<bar>?p - 1\<bar>))"
    have "float_repr (FDec s m e) = (if s then [45] else []) @ [hd ?ds] @ ?f @ ?x"
      using exp by (auto simp: float_repr_def Let_def)
    moreover have "digits [hd ?ds]" using d by (cases ?ds) (auto simp: digits_def)
    moreover have "fraction ?f" using d by (cases ?ds) (auto simp: fraction_def digits_def)
    moreover have "exponent ?x"
      using digits_nat_str[of "nat \<bar>?p - 1\<bar>"] by (auto simp: exponent_def digits_def is_digit_ascii_def)
    ultimately show thesis using lead by (intro that[of "[hd ?ds]" ?f ?x]) auto
  next
    case small
    have "float_repr (FDec s m e) = (if s then [45] else []) @ [48] @ (46 # replicate (nat (- ?p)) 48 @ ?ds) @ []"
      using small by (simp add: float_repr_def Let_def lit_def)
    then show thesis
      using d zeros by (intro that[of "[48]" "46 # replicate (nat (- ?p)) 48 @ ?ds" "[]"])
        (auto simp: fraction_def digits_def exponent_def is_digit_ascii_def)
  next
    case large
    have "float_repr (FDec s m e) = (if s then [45] else []) @ (?ds @ replicate (nat (?p - int (length ?ds))) 48) @ [46, 48] @ []"
      using large by (simp add: float_repr_def Let_def lit_def)
    moreover have "hd (?ds @ z) \<noteq> 48 \<or> ?ds @ replicate (nat e) 48 = [48]" for z
      using lead zero assms by auto
    ultimately show thesis
      using d zeros by (intro that[of "?ds @ replicate (nat (?p - int (length ?ds))) 48" "[46, 48]" "[]"])
        (auto simp: fraction_def digits_def exponent_def is_digit_ascii_def)
  next
    case mid
    have "float_repr (FDec s m e) = (if s then [45] else []) @ take (nat ?p) ?ds @ (46 # drop (nat ?p) ?ds) @ []"
      using mid by (simp add: float_repr_def Let_def)
    moreover have "hd (take (nat ?p) ?ds) = hd ?ds" using mid(1) by (cases ?ds) (auto simp: take_Cons split: nat.splits)
    moreover have "?ds \<noteq> [48]" using mid(1,3) by auto
    ultimately show thesis
      using mid take_ds lead by (intro that[of "take (nat ?p) ?ds" "46 # drop (nat ?p) ?ds" "[]"])
        (auto simp: fraction_def digits_def exponent_def)
  qed
qed

lemma scan_value_number:
  assumes "digits i"
  shows "scan_value F (Suc n) ((if neg then [45] else []) @ i @ x) = scan_number F ((if neg then [45] else []) @ i @ x)"
proof -
  obtain d i' where i: "i = d # i'" "48 \<le> d" "d \<le> 57" using assms by (cases i) (auto simp: digits_def is_digit_ascii_def)
  show ?thesis
  proof (cases neg)
    case True
    with i show ?thesis by (simp add: lit_def)
  next
    case False
    have "\<not> startswith (d # i' @ x) (lit w)"
      if "w \<in> {''null'', ''true'', ''false'', ''NaN'', ''Infinity'', ''-Infinity''}" for w
      using that i by (auto simp: lit_def)
    with i False show ?thesis by simp
  qed
qed

lemma scan_value_float:
  assumes "plain_float f" and "reads_floats F" and "stops r"
  shows "scan_value F (Suc n) (float_repr f @ r) = Inr (JFloat f, r)"
proof (cases f)
  case (FDec s m e)
  obtain i fr x where p: "float_repr (FDec s m e) = (if s then [45] else []) @ i @ fr @ x" "digits i"
    "hd i \<noteq> 48 \<or> i = [48]" "fraction fr" "exponent x" "fr \<noteq> [] \<or> x \<noteq> []"
    using float_repr_parts assms(1) FDec by metis
  have "scan_value F (Suc n) (float_repr f @ r) = scan_number F ((if s then [45] else []) @ i @ fr @ x @ r)"
    using scan_value_number[OF p(2), of F n s "fr @ x @ r"] FDec p(1) by (simp split: if_splits)
  also have "\<dots> = Inr (JFloat (F (float_repr f)), r)"
    using scan_literal[OF p(2-5) assms(3), of F s] p(1,6) FDec by auto
  finally show ?thesis using assms(1,2) FDec by (simp add: reads_floats_def)
qed (simp_all add: float_repr_def lit_def)

section \<open>Values\<close>

lemma skip_ws_id: "s = [] \<or> hd s \<notin> {32, 9, 10, 13} \<Longrightarrow> skip_ws s = s"
  by (cases s) (auto simp: skip_ws_def)

lemma float_repr_start: "float_repr f \<noteq> [] \<and> hd (float_repr f) \<notin> {32, 9, 10, 13, 93, 34, 65279}"
proof (cases f)
  case (FDec s m e)
  have "nat_str m \<noteq> [] \<and> 48 \<le> hd (nat_str m) \<and> hd (nat_str m) \<le> 57"
    using nat_str_digits[of "hd (nat_str m)" m] by simp
  then show ?thesis
    unfolding FDec by (auto simp: float_repr_def Let_def lit_def hd_append take_Cons split: if_splits)
qed (simp_all add: float_repr_def lit_def)

lemma dumps_start: "dumps v \<noteq> [] \<and> hd (dumps v) \<notin> {32, 9, 10, 13, 93, 65279}"
proof (cases v)
  case (JInt i)
  have "48 \<le> hd (nat_str n) \<and> hd (nat_str n) \<le> 57" for n using nat_str_digits[of "hd (nat_str n)" n] by simp
  from this[of "nat i"] show ?thesis using JInt by (auto simp: int_str_def)
next
  case (JFloat f)
  then show ?thesis using float_repr_start[of f] by auto
qed (auto simp: lit_def json_string_def)

lemma skip_ws_dumps: "skip_ws (dumps v @ r) = dumps v @ r"
  using dumps_start[of v] by (intro skip_ws_id) auto

lemma sort_key_map: "sort_key f (map g xs) = map g (sort_key (\<lambda>x. f (g x)) xs)"
proof (induction xs)
  case (Cons x xs)
  have "insort_key f (g y) (map g ys) = map g (insort_key (\<lambda>x. f (g x)) y ys)" for y ys
    by (induction ys) auto
  with Cons show ?case by simp
qed simp

lemma sort_members: "sort_key fst (map (\<lambda>(k, v). (k, h v)) kvs) = map (\<lambda>(k, v). (k, h v)) (sort_key fst kvs)"
proof -
  have e: "(\<lambda>x. fst (case x of (k, v) \<Rightarrow> (k, h v))) = fst" by (auto simp: fun_eq_iff)
  show ?thesis by (subst sort_key_map) (subst e, rule refl)
qed

definition member_text :: "pystr \<times> json \<Rightarrow> pystr" where
  "member_text kv = json_string (fst kv) @ [58] @ dumps (snd kv)"

lemma dumps_members: "dumps (JObj kvs) = [123] @ join [44] (map member_text (sort_key fst kvs)) @ [125]"
proof -
  have "member_text = (\<lambda>kv. json_string (fst kv) @ 58 # dumps (snd kv))"
    by (simp add: fun_eq_iff member_text_def)
  then show ?thesis by (simp add: sort_members case_prod_beta comp_def)
qed

text \<open>A value of which every nested text is read back.\<close>

definition reads_back :: "(pystr \<Rightarrow> pyfloat) \<Rightarrow> json \<Rightarrow> bool" where
  "reads_back F v \<longleftrightarrow> (\<forall>n r. stops r \<longrightarrow> 2 * length (dumps v) < n \<longrightarrow>
     scan_value F n (dumps v @ r) = Inr (canon v, r))"

lemma stops_simps [simp]: "stops (44 # r)" "stops (93 # r)" "stops (125 # r)"
  by (simp_all add: stops_def)

lemma scan_elements_join:
  assumes "\<forall>x\<in>set xs. reads_back F x" and "xs \<noteq> []" and "2 * length (join [44] (map dumps xs)) + 1 < n"
  shows "scan_elements F n (join [44] (map dumps xs) @ 93 # r) = Inr (map canon xs, r)"
  using assms
proof (induction xs arbitrary: n)
  case (Cons x xs)
  obtain m where n: "n = Suc m" using Cons.prems(3) by (cases n) auto
  have ws: "skip_ws (44 # s) = 44 # s" "skip_ws (93 # s) = 93 # s" for s by (simp_all add: skip_ws_def)
  show ?case
  proof (cases "xs = []")
    case True
    then show ?thesis using Cons.prems ws by (simp add: n reads_back_def)
  next
    case False
    then obtain y ys where ys: "xs = y # ys" by (cases xs) auto
    have j: "join [44] (dumps x # map dumps xs) = dumps x @ 44 # join [44] (map dumps xs)" using False by (simp add: ys)
    have "scan_elements F m (join [44] (map dumps xs) @ 93 # r) = Inr (map canon xs, r)"
      using Cons.prems False by (intro Cons.IH) (simp_all add: n j)
    moreover have "skip_ws (join [44] (map dumps xs) @ 93 # r) = join [44] (map dumps xs) @ 93 # r"
      using dumps_start[of y] by (intro skip_ws_id) (cases ys; auto simp: ys hd_append)
    moreover have "scan_value F m (dumps x @ 44 # s) = Inr (canon x, 44 # s)" for s
      using Cons.prems(1,3) by (auto simp: reads_back_def n j)
    ultimately show ?thesis using ws by (simp add: n j)
  qed
qed simp

lemma scan_members_join:
  assumes "\<forall>kv\<in>set kvs. reads_back F (snd kv)" and "kvs \<noteq> []"
    and "2 * length (join [44] (map member_text kvs)) + 1 < n"
  shows "scan_members F n (join [44] (map member_text kvs) @ 125 # r) = Inr (map (\<lambda>(k, v). (k, canon v)) kvs, r)"
  using assms
proof (induction kvs arbitrary: n)
  case (Cons kv kvs)
  obtain k v where kv: "kv = (k, v)" by (cases kv)
  obtain m where n: "n = Suc m" using Cons.prems(3) by (cases n) auto
  have ws: "skip_ws (44 # s) = 44 # s" "skip_ws (125 # s) = 125 # s" "skip_ws (58 # s) = 58 # s" for s
    by (simp_all add: skip_ws_def)
  have mt: "member_text (k, v) = 34 # concat (map json_escape k) @ 34 # 58 # dumps v"
    by (simp add: member_text_def json_string_def)
  show ?case
  proof (cases "kvs = []")
    case True
    then show ?thesis
      using Cons.prems ws by (simp add: n mt kv scan_json_string skip_ws_dumps reads_back_def)
  next
    case False
    then obtain y ys where ys: "kvs = y # ys" by (cases kvs) auto
    let ?rest = "join [44] (map member_text kvs)"
    have j: "join [44] (member_text (k, v) # map member_text kvs) = member_text (k, v) @ 44 # ?rest" using False by (simp add: ys)
    have "scan_members F m (?rest @ 125 # r) = Inr (map (\<lambda>(k, v). (k, canon v)) kvs, r)"
      using Cons.prems False by (intro Cons.IH) (simp_all add: n j kv)
    moreover have "skip_ws (?rest @ 125 # r) = ?rest @ 125 # r"
      by (intro skip_ws_id) (cases ys; auto simp: ys member_text_def json_string_def)
    moreover have "scan_value F m (dumps v @ 44 # s) = Inr (canon v, 44 # s)" for s
    proof -
      have "2 * length (member_text (k, v) @ 44 # ?rest) + 1 < n"
        using Cons.prems(3) unfolding kv list.map j .
      then show ?thesis using Cons.prems(1) kv by (simp add: reads_back_def n mt)
    qed
    ultimately show ?thesis using ws by (simp add: n j[unfolded mt] mt kv scan_json_string skip_ws_dumps)
  qed
qed simp

lemma reads_back_all:
  "wf_json v \<Longrightarrow> plain_json v \<Longrightarrow> reads_floats F \<Longrightarrow> reads_back F v"
proof (induction v)
  case (JObj kvs)
  let ?s = "sort_key fst kvs"
  have all: "\<forall>kv\<in>set ?s. reads_back F (snd kv)"
    using JObj by (auto simp: snds.simps)
  have d: "dict_of (map (\<lambda>(k, v). (k, canon v)) ?s) = map (\<lambda>(k, v). (k, canon v)) ?s"
  proof (rule dict_of_distinct)
    have "mset (map fst ?s) = mset (map fst kvs)" by simp
    then have "distinct (map fst ?s)" using JObj.prems(1) by (metis mset_eq_imp_distinct_iff wf_json.simps(2))
    then show "distinct (map fst (map (\<lambda>(k, v). (k, canon v)) ?s))" by (simp add: comp_def case_prod_beta)
  qed
  show ?case
    unfolding reads_back_def dumps_members
  proof (intro allI impI)
    fix n r
    assume n: "2 * length ([123] @ join [44] (map member_text ?s) @ [125]) < n"
    then obtain m where m: "n = Suc m" by (cases n) auto
    show "scan_value F n (([123] @ join [44] (map member_text ?s) @ [125]) @ r) = Inr (canon (JObj kvs), r)"
    proof (cases "?s = []")
      case True
      then have "kvs = []" by (metis length_0_conv length_sort)
      then show ?thesis by (simp add: m skip_ws_def)
    next
      case False
      have "scan_members F m (join [44] (map member_text ?s) @ 125 # r) = Inr (map (\<lambda>(k, v). (k, canon v)) ?s, r)"
        using n m by (intro scan_members_join[OF all False]) simp
      moreover obtain s where "join [44] (map member_text ?s) @ 125 # r = 34 # s"
        using False by (cases ?s rule: remdups_adj.cases) (auto simp: member_text_def json_string_def)
      ultimately show ?thesis using d by (simp add: m sort_members skip_ws_def)
    qed
  qed
next
  case (JArr xs)
  then have all: "\<forall>x\<in>set xs. reads_back F x" by simp
  show ?case
    unfolding reads_back_def
  proof (intro allI impI)
    fix n r
    assume n: "2 * length (dumps (JArr xs)) < n"
    then obtain m where m: "n = Suc m" by (cases n) auto
    show "scan_value F n (dumps (JArr xs) @ r) = Inr (canon (JArr xs), r)"
    proof (cases xs)
      case Nil
      then show ?thesis by (simp add: m skip_ws_def)
    next
      case (Cons y ys)
      have e: "scan_elements F m (join [44] (map dumps xs) @ 93 # r) = Inr (map canon xs, r)"
        using n m Cons by (intro scan_elements_join[OF all]) simp_all
      have "skip_ws (join [44] (map dumps xs) @ 93 # r) = join [44] (map dumps xs) @ 93 # r
          \<and> join [44] (map dumps xs) \<noteq> [] \<and> hd (join [44] (map dumps xs)) \<noteq> 93"
        using dumps_start[of y] by (cases ys) (auto simp: Cons hd_append intro!: skip_ws_id)
      with e show ?thesis by (simp add: m hd_append)
    qed
  qed
next
  case (JInt i)
  have "scan_value F (Suc m) (int_str i @ r) = scan_number F (int_str i @ r)" for m r
    using scan_value_number[OF digits_nat_str, of F m "i < 0" "nat \<bar>i\<bar>" r] by (simp add: int_str_def split: if_splits)
  then show ?case
    using scan_int JInt.prems(2) by (auto simp: reads_back_def gr0_conv_Suc dest!: gr_implies_not0[THEN not0_implies_Suc])
next
  case (JFloat f)
  then show ?case
    using scan_value_float[of f F] by (auto simp: reads_back_def dest!: gr_implies_not0[THEN not0_implies_Suc])
next
  case (JStr s)
  then show ?case
    by (auto simp: reads_back_def json_string_def scan_json_string dest!: gr_implies_not0[THEN not0_implies_Suc])
qed (auto simp: reads_back_def lit_def dest!: gr_implies_not0[THEN not0_implies_Suc])

section \<open>Texts\<close>

lemma loads_dumps:
  assumes "wf_json v" and "plain_json v" and "reads_floats F"
  shows "loads F (dumps v) = Inr (canon v)"
proof -
  have "scan_value F (2 * length (dumps v) + 2) (dumps v @ []) = Inr (canon v, [])"
    using reads_back_all[OF assms] by (simp add: reads_back_def stops_def)
  then show ?thesis
    using dumps_start[of v] skip_ws_dumps[of v "[]"] by (simp add: loads_def skip_ws_def)
qed

text \<open>The canonical form has the same text, and a value with the same text has the same form.\<close>

lemma map_snd_fst: "map fst (map (\<lambda>(k, v). (k, h v)) xs) = map fst xs"
  by (simp add: comp_def case_prod_beta)

lemma dumps_canon: "dumps (canon v) = dumps v"
proof (induction v)
  case (JObj kvs)
  let ?s = "sort_key fst kvs"
  have e: "canon (JObj kvs) = JObj (map (\<lambda>(k, v). (k, canon v)) ?s)" by (simp add: sort_members)
  have "sorted (map fst (map (\<lambda>(k, v). (k, canon v)) ?s))" unfolding map_snd_fst by simp
  then have "sort_key fst (map (\<lambda>(k, v). (k, canon v)) ?s) = map (\<lambda>(k, v). (k, canon v)) ?s"
    by (rule sort_key_id_if_sorted)
  moreover have "map member_text (map (\<lambda>(k, v). (k, canon v)) ?s) = map member_text ?s"
    using JObj by (auto simp: member_text_def snds.simps)
  ultimately show ?case unfolding e dumps_members by metis
next
  case (JArr xs)
  then show ?case by (simp add: comp_def cong: map_cong)
qed simp_all

lemma dumps_inj:
  assumes "dumps v = dumps w" and "wf_json v" "plain_json v" and "wf_json w" "plain_json w" and "reads_floats F"
  shows "canon v = canon w"
  using loads_dumps[OF assms(2,3,6)] loads_dumps[OF assms(4,5,6)] assms(1) by simp

section \<open>A reader of decimals\<close>

text \<open>
  The value of a decimal literal, in the form without trailing zeros: an instance of the parameter for
  which \<open>reads_floats\<close> holds.
\<close>

fun norm_float :: "bool \<Rightarrow> nat \<Rightarrow> int \<Rightarrow> pyfloat" where
  "norm_float s m e =
     (if m = 0 then FDec s 0 0 else if m mod 10 = 0 then norm_float s (m div 10) (e + 1) else FDec s m e)"

declare norm_float.simps [simp del]

definition read_decimal :: "pystr \<Rightarrow> pyfloat" where
  "read_decimal t =
     (let neg = (t \<noteq> [] \<and> hd t = 45); r = (if neg then tl t else t);
          i = takeWhile is_digit_ascii r; r1 = dropWhile is_digit_ascii r;
          point = (r1 \<noteq> [] \<and> hd r1 = 46);
          f = (if point then takeWhile is_digit_ascii (tl r1) else []);
          r2 = (if point then dropWhile is_digit_ascii (tl r1) else r1);
          x = (if r2 = [] then 0 else if hd (tl r2) = 45 then - int (ascii_int (drop 2 r2))
               else int (ascii_int (drop 2 r2)))
      in norm_float neg (ascii_int (i @ f)) (x - int (length f)))"

lemma ascii_int_append: "ascii_int (a @ b) = ascii_int a * 10 ^ length b + ascii_int b"
proof (induction b rule: rev_induct)
  case (snoc c b)
  then show ?case by (simp add: ascii_int_def algebra_simps)
qed (simp add: ascii_int_def)

lemma ascii_int_zeros: "ascii_int (replicate k 48) = 0" "ascii_int (48 # s) = ascii_int s"
  by (induction k) (simp_all add: ascii_int_def)

lemma norm_float_shift: "m mod 10 \<noteq> 0 \<Longrightarrow> norm_float s (m * 10 ^ k) e = FDec s m (e + int k)"
proof (induction k arbitrary: e)
  case 0
  then show ?case by (auto simp: norm_float.simps)
next
  case (Suc k)
  then have "norm_float s (m * 10 ^ Suc k) e = norm_float s (m * 10 ^ k) (e + 1)"
    by (subst norm_float.simps) auto
  with Suc show ?case by simp
qed

text \<open>The exponent as \<open>repr\<close> writes it.\<close>

definition exp_text :: "int \<Rightarrow> pystr" where
  "exp_text z = 101 # (if z < 0 then 45 else 43) # (if \<bar>z\<bar> < 10 then [48] else []) @ nat_str (nat \<bar>z\<bar>)"

lemma read_decimal_parts:
  assumes "digits i" and "list_all is_digit_ascii f" and "x = [] \<and> z = 0 \<or> x = exp_text z"
  shows "read_decimal ((if s then [45] else []) @ i @ (if f = [] then [] else 46 # f) @ x)
    = norm_float s (ascii_int (i @ f)) (z - int (length f))"
proof -
  let ?f = "if f = [] then [] else 46 # f"
  have xd: "x = [] \<or> \<not> is_digit_ascii (hd x) \<and> hd x \<noteq> 46"
    using assms(3) by (auto simp: exp_text_def is_digit_ascii_def)
  then have fx: "?f @ x = [] \<or> \<not> is_digit_ascii (hd (?f @ x))" by (auto simp: is_digit_ascii_def)
  have h: "i \<noteq> []" "hd i \<noteq> 45" using assms(1) by (cases i; auto simp: digits_def is_digit_ascii_def)+
  have i: "takeWhile is_digit_ascii (i @ ?f @ x) = i" "dropWhile is_digit_ascii (i @ ?f @ x) = ?f @ x"
    using take_digits[OF _ fx] assms(1) by (simp_all add: digits_def)
  have f: "takeWhile is_digit_ascii (f @ x) = f" "dropWhile is_digit_ascii (f @ x) = x"
    using take_digits[OF assms(2)] xd by auto
  have z: "(if x = [] then 0 else if hd (tl x) = 45 then - int (ascii_int (drop 2 x)) else int (ascii_int (drop 2 x))) = z"
    using assms(3) by (auto simp: exp_text_def ascii_int_zeros ascii_int_nat_str split: if_splits)
  let ?t = "(if s then [45] else []) @ i @ ?f @ x"
  have neg: "(?t \<noteq> [] \<and> hd ?t = 45) = s" "(if s then tl ?t else ?t) = i @ ?f @ x"
    using h by (cases i; simp)+
  have point: "(?f @ x \<noteq> [] \<and> hd (?f @ x) = 46) = (f \<noteq> [])" using xd by auto
  have rest: "(if f \<noteq> [] then takeWhile is_digit_ascii (tl (?f @ x)) else []) = f"
    "(if f \<noteq> [] then dropWhile is_digit_ascii (tl (?f @ x)) else ?f @ x) = x"
    using f by simp_all
  show ?thesis unfolding read_decimal_def Let_def neg i point rest z ..
qed

lemma norm_float_plain:
  assumes "plain_float (FDec s m e)" and "m = 0 \<longrightarrow> k = 0" and "e' + int k = e"
  shows "norm_float s (m * 10 ^ k) e' = FDec s m e"
proof (cases "m = 0")
  case True
  with assms show ?thesis by (simp add: norm_float.simps)
next
  case False
  with assms norm_float_shift[of m s k e'] show ?thesis by simp
qed

lemma reads_floats_decimal: "reads_floats read_decimal"
  unfolding reads_floats_def
proof (intro allI impI)
  fix s m e
  assume p: "plain_float (FDec s m e)"
  let ?ds = "nat_str m" and ?p = "int (length (nat_str m)) + e"
  have d: "?ds \<noteq> []" "list_all is_digit_ascii ?ds" using digits_nat_str[of m] by (simp_all add: digits_def)
  have take_ds: "list_all is_digit_ascii (take k ?ds)" "list_all is_digit_ascii (drop k ?ds)" for k
    using d by (auto simp: list_all_iff dest: in_set_takeD in_set_dropD)
  have zeros: "list_all is_digit_ascii (replicate k 48)" for k by (simp add: list_all_iff is_digit_ascii_def)
  have norm: "norm_float s (m * 10 ^ k) e' = FDec s m e" if "m = 0 \<longrightarrow> k = 0" "e' + int k = e" for k e'
    using norm_float_plain[OF p that] .
  consider (exp) "?p \<le> -4 \<or> 16 < ?p" | (small) "-4 < ?p" "?p \<le> 0" | (large) "0 < ?p" "?p \<le> 16" "int (length ?ds) \<le> ?p"
    | (mid) "0 < ?p" "?p \<le> 16" "?p < int (length ?ds)"
    by linarith
  then show "read_decimal (float_repr (FDec s m e)) = FDec s m e"
  proof cases
    case exp
    have "float_repr (FDec s m e) = (if s then [45] else []) @ [hd ?ds]
        @ (if tl ?ds = [] then [] else 46 # tl ?ds) @ exp_text (?p - 1)"
      using exp d by (cases ?ds) (auto simp: float_repr_def Let_def exp_text_def)
    moreover have "digits [hd ?ds]" "list_all is_digit_ascii (tl ?ds)" using d by (cases ?ds; simp add: digits_def)+
    moreover have "[hd ?ds] @ tl ?ds = ?ds" using d(1) by simp
    moreover have "?p - 1 - int (length (tl ?ds)) = e" using d(1) by (cases ?ds) auto
    ultimately show ?thesis
      using read_decimal_parts[of "[hd ?ds]" "tl ?ds" "exp_text (?p - 1)" "?p - 1" s] norm[of 0 e]
      by (simp add: ascii_int_nat_str)
  next
    case small
    let ?f = "replicate (nat (- ?p)) 48 @ ?ds"
    have "float_repr (FDec s m e) = (if s then [45] else []) @ [48] @ (if ?f = [] then [] else 46 # ?f) @ []"
      using small d by (simp add: float_repr_def Let_def lit_def)
    moreover have "digits [48]" "list_all is_digit_ascii ?f" using d zeros by (simp_all add: digits_def is_digit_ascii_def)
    moreover have "ascii_int ([48] @ ?f) = m * 10 ^ 0"
      by (simp add: ascii_int_zeros ascii_int_append ascii_int_nat_str)
    moreover have "0 - int (length ?f) = e" using small by simp
    ultimately show ?thesis using read_decimal_parts[of "[48]" ?f "[]" 0 s] norm[of 0 e] by simp
  next
    case large
    let ?i = "?ds @ replicate (nat (?p - int (length ?ds))) 48"
    have "float_repr (FDec s m e) = (if s then [45] else []) @ ?i @ (if [48] = [] then [] else 46 # [48]) @ []"
      using large by (simp add: float_repr_def Let_def lit_def)
    moreover have "digits ?i" "list_all is_digit_ascii [48]" using d zeros by (simp_all add: digits_def is_digit_ascii_def)
    moreover have "ascii_int (?i @ [48]) = m * 10 ^ (nat e + 1)"
      using large by (simp add: ascii_int_append ascii_int_zeros ascii_int_nat_str) (simp add: ascii_int_def)
    ultimately have "read_decimal (float_repr (FDec s m e)) = norm_float s (m * 10 ^ (nat e + 1)) (0 - int 1)"
      using read_decimal_parts[of ?i "[48]" "[]" 0 s] by simp
    also have "\<dots> = FDec s m e"
    proof (cases "m = 0")
      case True
      with p show ?thesis by (simp add: norm_float.simps)
    next
      case False
      with norm[of "nat e + 1" "-1"] large show ?thesis by simp
    qed
    finally show ?thesis .
  next
    case mid
    let ?i = "take (nat ?p) ?ds" and ?f = "drop (nat ?p) ?ds"
    have "float_repr (FDec s m e) = (if s then [45] else []) @ ?i @ (if ?f = [] then [] else 46 # ?f) @ []"
      using mid by (simp add: float_repr_def Let_def)
    moreover have "digits ?i" "list_all is_digit_ascii ?f" using mid d take_ds by (auto simp: digits_def)
    moreover have "0 - int (length ?f) = e" using mid by simp
    ultimately show ?thesis
      using read_decimal_parts[of ?i ?f "[]" 0 s] norm[of 0 e] mid(1) by (simp add: ascii_int_nat_str)
  qed
qed

text \<open>
  The Python values that are read back: dicts with distinct keys, numbers in their usual form. Their
  canonical text determines them up to the order of keys.
\<close>

definition readable :: "json \<Rightarrow> bool" where
  "readable v \<longleftrightarrow> wf_json v \<and> plain_json v"

lemma readable_text: "dumps v = dumps w \<Longrightarrow> readable v \<Longrightarrow> readable w \<Longrightarrow> canon v = canon w"
  unfolding readable_def by (elim conjE) (rule dumps_inj[OF _ _ _ _ _ reads_floats_decimal])

lemma readable_part: "readable (JObj kvs) \<Longrightarrow> readable (JObj (filter P kvs))"
  using distinct_map_filter[of fst kvs P] by (simp add: readable_def)

end
