(* ===== verification/Contracts.thy ===== *)
theory Contracts
  imports Json_Round
begin

text \<open>
  The contract validator \<open>testweaver/contracts/validator.py\<close>: the canonical hash of a
  JSON value, the sealing of a document with its own hash, the validation of the five
  artifact kinds, and the de-duplication of claims. SHA-256 is the argument \<open>H\<close>: it takes
  the text whose UTF-8 bytes are hashed and returns the hexadecimal digest.
\<close>

section \<open>Hashes\<close>

type_synonym hasher = "pystr \<Rightarrow> pystr"

text \<open>What \<open>hashlib.sha256(...).hexdigest()\<close> documents: 64 lower-case hexadecimal digits.\<close>

definition digest_ok :: "hasher \<Rightarrow> bool" where
  "digest_ok H \<longleftrightarrow> (\<forall>t. length (H t) = 64 \<and> list_all is_hex_lower (H t))"

definition canonical_hash :: "hasher \<Rightarrow> json \<Rightarrow> pystr res" where
  "canonical_hash H v =
     (if nonfinite v then Inl (ValueError (lit ''Out of range float values are not JSON compliant''))
      else if encodable (dumps v) then Inr (lit ''sha256:'' @ H (dumps v))
      else Inl UnicodeEncodeError)"

text \<open>\<open>_HASH.fullmatch\<close> for \<open>^sha256:[0-9a-f]{64}$\<close>.\<close>

definition is_sha256 :: "pystr \<Rightarrow> bool" where
  "is_sha256 s \<longleftrightarrow>
     startswith s (lit ''sha256:'') \<and> length s = 71 \<and> list_all is_hex_lower (drop 7 s)"

text \<open>A document without one of its keys, and a document sealed with its hash.\<close>

definition without_key :: "pystr \<Rightarrow> (pystr \<times> json) list \<Rightarrow> (pystr \<times> json) list" where
  "without_key k kvs = filter (\<lambda>kv. fst kv \<noteq> k) kvs"

definition seal_doc :: "hasher \<Rightarrow> (pystr \<times> json) list \<Rightarrow> (pystr \<times> json) list res" where
  "seal_doc H kvs =
     (let payload = without_key (lit ''content_hash'') kvs in
      bindE (canonical_hash H (JObj payload))
        (\<lambda>h. Inr (payload @ [(lit ''content_hash'', JStr h)])))"

section \<open>Field checks\<close>

definition cerr :: "pystr \<Rightarrow> exc" where
  "cerr msg = ContractError msg"

text \<open>The name \<open>f"{field}[{index}]"\<close> of an item of a list.\<close>

definition item_name :: "pystr \<Rightarrow> nat \<Rightarrow> pystr" where
  "item_name field i = field @ lit ''['' @ nat_str i @ lit '']''"

definition check_items :: "(json \<Rightarrow> pystr \<Rightarrow> unit res) \<Rightarrow> pystr \<Rightarrow> json list \<Rightarrow> unit res" where
  "check_items f field xs = seqE (map (\<lambda>(i, x). f x (item_name field i)) (enumerate 0 xs))"

text \<open>\<open>document[k]\<close>, then a check of the value.\<close>

definition on_field :: "(pystr \<times> json) list \<Rightarrow> string \<Rightarrow> (json \<Rightarrow> unit res) \<Rightarrow> unit res" where
  "on_field kvs k f = (case map_of kvs (lit k) of None \<Rightarrow> Inl (KeyError (lit k)) | Some v \<Rightarrow> f v)"

text \<open>\<open>isinstance(value, Mapping) and set(value) == {...}\<close>, then the checks of its items.\<close>

definition has_shape :: "json \<Rightarrow> string list \<Rightarrow> bool" where
  "has_shape v ks = (case v of JObj kvs \<Rightarrow> set (map fst kvs) = set (map lit ks) | _ \<Rightarrow> False)"

fun items :: "json \<Rightarrow> (pystr \<times> json) list" where
  "items (JObj kvs) = kvs"
| "items _ = []"

text \<open>
  \<open>if value not in {...}: raise\<close> for a set of strings: a list or a dict is not hashable
  and raises \<open>TypeError\<close> before the membership is decided.
\<close>

definition check_member :: "json \<Rightarrow> string list \<Rightarrow> exc \<Rightarrow> unit res" where
  "check_member v ss e = (case v of
     JStr s \<Rightarrow> raise_if (s \<notin> set (map lit ss)) e
   | JArr xs \<Rightarrow> Inl (TypeError (lit ''unhashable type''))
   | JObj kvs \<Rightarrow> Inl (TypeError (lit ''unhashable type''))
   | _ \<Rightarrow> Inl e)"

definition is_identifier_char :: "nat \<Rightarrow> bool" where
  "is_identifier_char c \<longleftrightarrow> is_alnum_ascii c \<or> c \<in> {58, 46, 95, 47, 64, 45}"

definition check_identifier :: "json \<Rightarrow> pystr \<Rightarrow> unit res" where
  "check_identifier v field = (case v of
     JStr s \<Rightarrow> raise_if (\<not> (1 \<le> length s \<and> length s \<le> 200 \<and> is_alnum_ascii (hd s)
                           \<and> list_all is_identifier_char s))
                (cerr (field @ lit '' must be a TestWeaver identifier''))
   | _ \<Rightarrow> Inl (cerr (field @ lit '' must be a TestWeaver identifier'')))"

definition check_reference :: "json \<Rightarrow> pystr \<Rightarrow> unit res" where
  "check_reference v field = (case v of
     JStr s \<Rightarrow> raise_if (\<not> (1 \<le> length s \<and> length s \<le> 2000) \<or> list_ex isspace s)
                (cerr (field @ lit '' must be a non-empty opaque reference''))
   | _ \<Rightarrow> Inl (cerr (field @ lit '' must be a non-empty opaque reference'')))"

definition check_reference_list :: "json \<Rightarrow> pystr \<Rightarrow> nat \<Rightarrow> unit res" where
  "check_reference_list v field minimum = (case v of
     JArr xs \<Rightarrow>
     if length xs < minimum
     then Inl (cerr (field @ lit '' must contain at least '' @ nat_str minimum @ lit '' references''))
     else check_items check_reference field xs
   | _ \<Rightarrow> Inl (cerr (field @ lit '' must contain at least '' @ nat_str minimum @ lit '' references'')))"

definition check_text :: "json \<Rightarrow> nat \<Rightarrow> exc \<Rightarrow> unit res" where
  "check_text v maximum e = (case v of
     JStr s \<Rightarrow> raise_if (\<not> (1 \<le> length s \<and> length s \<le> maximum)) e
   | _ \<Rightarrow> Inl e)"

definition check_hash_field :: "json \<Rightarrow> exc \<Rightarrow> unit res" where
  "check_hash_field v e = (case v of JStr s \<Rightarrow> raise_if (\<not> is_sha256 s) e | _ \<Rightarrow> Inl e)"

definition check_native_refs :: "json \<Rightarrow> unit res" where
  "check_native_refs v =
     (if \<not> has_shape v [''project_id'', ''task_id'', ''room_id'', ''read_only'']
      then Inl (cerr (lit ''native_refs must contain only read-only project/task/room references''))
      else seqE
        [on_field (items v) ''project_id'' (\<lambda>x. check_reference x (lit ''native_refs.project_id'')),
         on_field (items v) ''task_id'' (\<lambda>x. check_reference x (lit ''native_refs.task_id'')),
         on_field (items v) ''room_id'' (\<lambda>x. check_reference x (lit ''native_refs.room_id'')),
         on_field (items v) ''read_only''
           (\<lambda>x. raise_if (x \<noteq> JBool True) (cerr (lit ''native_refs.read_only must be true'')))])"

definition check_producer :: "json \<Rightarrow> unit res" where
  "check_producer v =
     (if \<not> has_shape v [''identity'', ''role'']
      then Inl (cerr (lit ''producer must contain identity and role only''))
      else seqE
        [on_field (items v) ''identity'' (\<lambda>x. check_reference x (lit ''producer.identity'')),
         on_field (items v) ''role'' (\<lambda>x. check_identifier x (lit ''producer.role''))])"

definition check_evidence_ref :: "json \<Rightarrow> pystr \<Rightarrow> unit res" where
  "check_evidence_ref v field =
     (if \<not> has_shape v [''id'', ''kind'', ''artifact_ref'', ''content_hash'']
      then Inl (cerr (field @ lit '' has an invalid shape''))
      else seqE
        [on_field (items v) ''id'' (\<lambda>x. check_identifier x (field @ lit ''.id'')),
         on_field (items v) ''kind''
           (\<lambda>x. check_member x [''file'', ''message'', ''artifact''] (cerr (field @ lit ''.kind is not supported''))),
         on_field (items v) ''artifact_ref'' (\<lambda>x. check_reference x (field @ lit ''.artifact_ref'')),
         on_field (items v) ''content_hash''
           (\<lambda>x. check_hash_field x (cerr (field @ lit ''.content_hash must be a sha256 digest'')))])"

definition check_source_refs :: "json \<Rightarrow> pystr \<Rightarrow> unit res" where
  "check_source_refs v field = (case v of
     JArr xs \<Rightarrow> if xs = [] then Inl (cerr (field @ lit '' must be non-empty''))
               else check_items check_reference field xs
   | _ \<Rightarrow> Inl (cerr (field @ lit '' must be non-empty'')))"

definition check_provenance_value :: "json \<Rightarrow> pystr \<Rightarrow> unit res" where
  "check_provenance_value v field =
     (if \<not> has_shape v [''source_refs'', ''method'']
      then Inl (cerr (field @ lit '' has an invalid shape''))
      else seqE
        [on_field (items v) ''source_refs'' (\<lambda>x. check_source_refs x (field @ lit ''.source_refs'')),
         on_field (items v) ''method'' (\<lambda>x. check_text x 2000 (cerr (field @ lit ''.method must be non-empty'')))])"

definition check_artifact :: "json \<Rightarrow> unit res" where
  "check_artifact v =
     (if \<not> has_shape v [''channel'', ''artifact_ref'']
      then Inl (cerr (lit ''artifact has an invalid shape''))
      else seqE
        [on_field (items v) ''channel''
           (\<lambda>x. check_member x [''filesync'', ''message'']
                  (cerr (lit ''artifact.channel must use a native TeamHarness channel''))),
         on_field (items v) ''artifact_ref'' (\<lambda>x. check_reference x (lit ''artifact.artifact_ref''))])"

definition check_unresolved :: "json \<Rightarrow> unit res" where
  "check_unresolved v = (case v of
     JArr xs \<Rightarrow> check_items (\<lambda>x name. check_text x 2000 (cerr (name @ lit '' must be non-empty''))) (lit ''unresolved_items'') xs
   | _ \<Rightarrow> Inl (cerr (lit ''unresolved_items must be an array'')))"

text \<open>\<open>0 <= value <= 1\<close> for an int or a float that is not a bool.\<close>

definition unit_interval :: "json \<Rightarrow> bool" where
  "unit_interval v = (case v of
     JInt i \<Rightarrow> 0 \<le> i \<and> i \<le> 1
   | JFloat (FDec s m e) \<Rightarrow>
       m = 0 \<or> \<not> s \<and> (if 0 \<le> e then m * 10 ^ nat e \<le> 1 else m \<le> 10 ^ nat (- e))
   | _ \<Rightarrow> False)"

definition check_confidence :: "json \<Rightarrow> unit res" where
  "check_confidence v =
     raise_if (\<not> unit_interval v) (cerr (lit ''confidence must be between zero and one''))"

definition check_claim_body :: "json \<Rightarrow> pystr \<Rightarrow> unit res" where
  "check_claim_body v field =
     (if \<not> has_shape v [''statement'', ''claim_type'', ''epistemic_status'']
      then Inl (cerr (field @ lit '' has an invalid shape''))
      else seqE
        [on_field (items v) ''statement''
           (\<lambda>x. check_text x 4000 (cerr (field @ lit ''.statement must be non-empty''))),
         on_field (items v) ''claim_type''
           (\<lambda>x. check_member x [''ROOT_CAUSE'', ''IMPACT'', ''REPAIR'', ''ATTACK'']
                  (cerr (field @ lit ''.claim_type is not supported''))),
         on_field (items v) ''epistemic_status''
           (\<lambda>x. check_member x [''FACT'', ''INFERENCE'', ''UNKNOWN'']
                  (cerr (field @ lit ''.epistemic_status is not supported'')))])"

section \<open>The artifact kinds\<close>

definition schema_version :: "string \<Rightarrow> string option" where
  "schema_version kind = map_of
     [(''context'', ''testweaver.context/v1''), (''claim'', ''testweaver.claim/v1''),
      (''evidence'', ''testweaver.evidence/v1''), (''provenance'', ''testweaver.provenance/v1''),
      (''handoff'', ''testweaver.handoff/v1'')] kind"

definition common_fields :: "string list" where
  "common_fields = [''schema_version'', ''version'', ''revision'', ''content_hash'',
                    ''native_refs'', ''producer'', ''artifact'']"

definition kind_fields :: "string \<Rightarrow> string list" where
  "kind_fields kind =
     (if kind = ''context'' then
        [''context_id'', ''summary'', ''claim_refs'', ''evidence_refs'', ''provenance_ref'',
         ''unresolved_items'']
      else if kind = ''claim'' then
        [''claim_id'', ''claim'', ''source'', ''evidence_ref'', ''provenance'', ''confidence'',
         ''unresolved_items'']
      else if kind = ''evidence'' then
        [''evidence_id'', ''evidence_type'', ''evidence_ref'', ''provenance'']
      else if kind = ''provenance'' then [''provenance_id'', ''source_refs'', ''method'']
      else [''handoff_id'', ''claim'', ''evidence_ref'', ''provenance'', ''confidence'',
            ''context_refs'', ''evidence_gaps'', ''unresolved_items''])"

definition check_positive :: "json \<Rightarrow> exc \<Rightarrow> unit res" where
  "check_positive v e = (case v of JInt i \<Rightarrow> raise_if (i < 1) e | _ \<Rightarrow> Inl e)"

definition check_common :: "hasher \<Rightarrow> string \<Rightarrow> (pystr \<times> json) list \<Rightarrow> unit res" where
  "check_common H kind d = seqE
     [on_field d ''schema_version''
        (\<lambda>v. raise_if (v \<noteq> JStr (lit (the (schema_version kind))))
               (cerr (lit ''schema_version does not match artifact kind''))),
      on_field d ''version'' (\<lambda>v. check_positive v (cerr (lit ''version must be a positive integer''))),
      on_field d ''revision'' (\<lambda>v. check_positive v (cerr (lit ''revision must be a positive integer''))),
      on_field d ''content_hash'' (\<lambda>v. check_hash_field v (cerr (lit ''content_hash must be a sha256 digest''))),
      on_field d ''content_hash''
        (\<lambda>v. bindE (canonical_hash H (JObj (without_key (lit ''content_hash'') d)))
               (\<lambda>h. raise_if (v \<noteq> JStr h) (cerr (lit ''content_hash mismatch'')))),
      on_field d ''native_refs'' check_native_refs,
      on_field d ''producer'' check_producer,
      on_field d ''artifact'' check_artifact]"

definition check_context :: "(pystr \<times> json) list \<Rightarrow> unit res" where
  "check_context d = seqE
     [on_field d ''context_id'' (\<lambda>v. check_identifier v (lit ''context_id'')),
      on_field d ''summary'' (\<lambda>v. check_text v 4000 (cerr (lit ''summary must be non-empty''))),
      on_field d ''claim_refs''
        (\<lambda>v. case v of JArr xs \<Rightarrow> check_items check_reference (lit ''claim_refs'') xs
             | _ \<Rightarrow> Inl (cerr (lit ''claim_refs must be an array''))),
      on_field d ''provenance_ref'' (\<lambda>v. check_reference v (lit ''provenance_ref'')),
      on_field d ''evidence_refs''
        (\<lambda>v. case v of JArr xs \<Rightarrow> check_items check_evidence_ref (lit ''evidence_refs'') xs
             | _ \<Rightarrow> Inl (cerr (lit ''evidence_refs must be an array''))),
      on_field d ''unresolved_items'' check_unresolved]"

definition check_claim :: "(pystr \<times> json) list \<Rightarrow> unit res" where
  "check_claim d = seqE
     [on_field d ''claim_id'' (\<lambda>v. check_identifier v (lit ''claim_id'')),
      on_field d ''source'' (\<lambda>v. check_reference v (lit ''source'')),
      on_field d ''claim'' (\<lambda>v. check_claim_body v (lit ''claim'')),
      on_field d ''evidence_ref'' (\<lambda>v. check_evidence_ref v (lit ''evidence_ref'')),
      on_field d ''provenance'' (\<lambda>v. check_provenance_value v (lit ''provenance'')),
      on_field d ''confidence'' check_confidence,
      on_field d ''unresolved_items'' check_unresolved]"

definition check_evidence :: "(pystr \<times> json) list \<Rightarrow> unit res" where
  "check_evidence d = seqE
     [on_field d ''evidence_id'' (\<lambda>v. check_identifier v (lit ''evidence_id'')),
      on_field d ''evidence_type'' (\<lambda>v. check_identifier v (lit ''evidence_type'')),
      on_field d ''evidence_ref'' (\<lambda>v. check_evidence_ref v (lit ''evidence_ref'')),
      on_field d ''provenance'' (\<lambda>v. check_provenance_value v (lit ''provenance''))]"

definition check_provenance :: "(pystr \<times> json) list \<Rightarrow> unit res" where
  "check_provenance d = seqE
     [on_field d ''provenance_id'' (\<lambda>v. check_identifier v (lit ''provenance_id'')),
      on_field d ''source_refs'' (\<lambda>v. check_source_refs v (lit ''source_refs'')),
      on_field d ''method'' (\<lambda>v. check_text v 2000 (cerr (lit ''method must be non-empty'')))]"

definition check_handoff :: "(pystr \<times> json) list \<Rightarrow> unit res" where
  "check_handoff d = seqE
     [on_field d ''handoff_id'' (\<lambda>v. check_identifier v (lit ''handoff_id'')),
      on_field d ''claim'' (\<lambda>v. check_claim_body v (lit ''claim'')),
      on_field d ''evidence_ref'' (\<lambda>v. check_evidence_ref v (lit ''evidence_ref'')),
      on_field d ''provenance'' (\<lambda>v. check_provenance_value v (lit ''provenance'')),
      on_field d ''confidence'' check_confidence,
      on_field d ''context_refs'' (\<lambda>v. check_reference_list v (lit ''context_refs'') 1),
      on_field d ''evidence_gaps'' check_unresolved,
      on_field d ''unresolved_items'' check_unresolved]"

text \<open>
  \<open>validate(kind, document)\<close>: the shape first, then the envelope, then the kind's checks.
  The messages for unknown and missing fields keep their fixed part only; the code appends
  the sorted field names.
\<close>

definition check_keys :: "pystr list \<Rightarrow> pystr list \<Rightarrow> unit res" where
  "check_keys required keys = seqE
     [raise_if (filter (\<lambda>k. k \<notin> set required) keys \<noteq> []) (cerr (lit ''unknown fields'')),
      raise_if (filter (\<lambda>k. k \<notin> set keys) required \<noteq> []) (cerr (lit ''missing fields''))]"

definition check_kind :: "string \<Rightarrow> (pystr \<times> json) list \<Rightarrow> unit res" where
  "check_kind kind d =
     (if kind = ''context'' then check_context d
      else if kind = ''claim'' then check_claim d
      else if kind = ''evidence'' then check_evidence d
      else if kind = ''provenance'' then check_provenance d
      else check_handoff d)"

definition validate :: "hasher \<Rightarrow> string \<Rightarrow> json \<Rightarrow> json res" where
  "validate H kind document =
     (if schema_version kind = None then Inl (ContractError (lit ''unknown artifact kind: '' @ lit kind))
      else case document of
        JObj d \<Rightarrow>
          bindE (seqE
            [check_keys (map lit (common_fields @ kind_fields kind)) (map fst d),
             check_common H kind d,
             check_kind kind d])
            (\<lambda>_. Inr document)
      | _ \<Rightarrow> Inl (cerr (lit ''artifact must be an object'')))"

section \<open>De-duplication\<close>

text \<open>The claim id and the content hash of a document.\<close>

definition claim_id_of :: "json \<Rightarrow> json" where
  "claim_id_of doc = the (jget (lit ''claim_id'') doc)"

definition content_hash_of :: "json \<Rightarrow> json option" where
  "content_hash_of doc = jget (lit ''content_hash'') doc"

text \<open>
  \<open>deduplicate_claims\<close>: the loop carries the list \<open>merged\<close>; \<open>by_id\<close> maps a claim id to
  the document kept for it, in the order of \<open>merged\<close>.
\<close>

fun deduplicate_loop ::
  "hasher \<Rightarrow> json list \<Rightarrow> (json \<times> json) list \<Rightarrow> (json \<times> json) list res" where
  "deduplicate_loop H [] by_id = Inr by_id"
| "deduplicate_loop H (doc # docs) by_id =
     (case doc of
        JObj d \<Rightarrow>
          bindE (validate H ''claim'' doc) (\<lambda>_.
            case map_of by_id (claim_id_of doc) of
              None \<Rightarrow> deduplicate_loop H docs (by_id @ [(claim_id_of doc, doc)])
            | Some existing \<Rightarrow>
                if content_hash_of existing \<noteq> content_hash_of doc
                then Inl (cerr (lit ''conflicting claim; explicit resolution is required''))
                else deduplicate_loop H docs by_id)
      | _ \<Rightarrow> Inl (cerr (lit ''claim must be an object'')))"

definition deduplicate_claims :: "hasher \<Rightarrow> json list \<Rightarrow> json list res" where
  "deduplicate_claims H docs = bindE (deduplicate_loop H docs []) (\<lambda>by_id. Inr (map snd by_id))"

text \<open>\<open>unique_source_hashes\<close>: the pairs of source and evidence hash, first occurrences in order.\<close>

definition source_key :: "json \<Rightarrow> json \<times> json" where
  "source_key doc =
     (the (jget (lit ''source'') doc),
      the (jget (lit ''content_hash'') (the (jget (lit ''evidence_ref'') doc))))"

fun unique_source_hashes_loop ::
  "hasher \<Rightarrow> json list \<Rightarrow> (json \<times> json) list \<Rightarrow> (json \<times> json) list res" where
  "unique_source_hashes_loop H [] unique = Inr unique"
| "unique_source_hashes_loop H (doc # docs) unique =
     (case doc of
        JObj d \<Rightarrow>
          bindE (validate H ''claim'' doc) (\<lambda>_.
            if source_key doc \<in> set unique then unique_source_hashes_loop H docs unique
            else unique_source_hashes_loop H docs (unique @ [source_key doc]))
      | _ \<Rightarrow> Inl (cerr (lit ''claim must be an object'')))"

definition unique_source_hashes :: "hasher \<Rightarrow> json list \<Rightarrow> (json \<times> json) list res" where
  "unique_source_hashes H docs = unique_source_hashes_loop H docs []"

section \<open>Lemmas: hashing and sealing\<close>

lemma canonical_hash_ok:
  "canonical_hash H v = Inr h \<longleftrightarrow>
     \<not> nonfinite v \<and> encodable (dumps v) \<and> h = lit ''sha256:'' @ H (dumps v)"
  by (auto simp: canonical_hash_def)

lemma canonical_hash_total:
  "\<not> nonfinite v \<Longrightarrow> encodable_json v \<Longrightarrow> canonical_hash H v = Inr (lit ''sha256:'' @ H (dumps v))"
  by (simp add: canonical_hash_def encodable_dumps)

lemma is_sha256_canonical: "digest_ok H \<Longrightarrow> is_sha256 (lit ''sha256:'' @ H t)"
  by (simp add: is_sha256_def digest_ok_def)

lemma canonical_hash_is_sha256: "digest_ok H \<Longrightarrow> canonical_hash H v = Inr h \<Longrightarrow> is_sha256 h"
  by (auto simp: canonical_hash_ok is_sha256_canonical)

lemma without_key_idem [simp]: "without_key k (without_key k kvs) = without_key k kvs"
  by (simp add: without_key_def)

lemma without_key_append [simp]:
  "without_key k (xs @ ys) = without_key k xs @ without_key k ys"
  by (simp add: without_key_def)

lemma without_key_single [simp]:
  "without_key k [(k', v)] = (if k' = k then [] else [(k', v)])"
  by (simp add: without_key_def)

lemma map_of_without_key: "map_of (without_key k kvs) k = None"
  by (auto simp: without_key_def map_of_eq_None_iff)

lemma set_without_key: "set (map fst (without_key k kvs)) = set (map fst kvs) - {k}"
  by (auto simp: without_key_def)

lemma distinct_without_key: "distinct (map fst kvs) \<Longrightarrow> distinct (map fst (without_key k kvs))"
  by (simp add: without_key_def distinct_map_filter)

text \<open>
  Two dicts with the same items in another insertion order print to the same text: the
  keys are distinct, so sorting by key determines the order.
\<close>

lemma sort_key_unique:
  fixes xs ys :: "('k :: linorder \<times> 'v) list"
  assumes "mset xs = mset ys" and "distinct (map fst xs)"
  shows "sort_key fst xs = sort_key fst ys"
  using assms by (intro sort_key_inj_key_eq) (simp_all add: distinct_map)

lemma dumps_obj_perm:
  assumes "mset kvs = mset kvs'" and "distinct (map fst kvs)"
  shows "dumps (JObj kvs) = dumps (JObj kvs')"
proof -
  let ?f = "\<lambda>(k, v). (k, dumps v)"
  have "mset (map ?f kvs) = mset (map ?f kvs')" using assms(1) by simp
  moreover have "map fst (map ?f kvs) = map fst kvs" by (induction kvs) auto
  then have "distinct (map fst (map ?f kvs))" using assms(2) by (simp only:)
  ultimately have "sort_key fst (map ?f kvs) = sort_key fst (map ?f kvs')"
    by (rule sort_key_unique)
  then show ?thesis by simp
qed

lemma nonfinite_perm: "mset kvs = mset kvs' \<Longrightarrow> nonfinite (JObj kvs) = nonfinite (JObj kvs')"
  by (auto dest: mset_eq_setD)

lemma canonical_hash_perm:
  "mset kvs = mset kvs' \<Longrightarrow> distinct (map fst kvs) \<Longrightarrow>
   canonical_hash H (JObj kvs) = canonical_hash H (JObj kvs')"
  using nonfinite_perm[of kvs kvs'] dumps_obj_perm[of kvs kvs'] by (simp add: canonical_hash_def)

lemma seal_doc_ok:
  assumes "seal_doc H kvs = Inr d"
  obtains h where "canonical_hash H (JObj (without_key (lit ''content_hash'') kvs)) = Inr h"
    and "d = without_key (lit ''content_hash'') kvs @ [(lit ''content_hash'', JStr h)]"
  using assms by (auto simp: seal_doc_def Let_def)

lemma seal_doc_payload:
  "seal_doc H kvs = Inr d \<Longrightarrow>
   without_key (lit ''content_hash'') d = without_key (lit ''content_hash'') kvs"
  by (erule seal_doc_ok) simp

lemma seal_doc_idem: "seal_doc H kvs = Inr d \<Longrightarrow> seal_doc H d = Inr d"
  by (erule seal_doc_ok) (simp add: seal_doc_def)

section \<open>Lemmas: validation\<close>

lemma check_keys_ok [res_simps]: "check_keys required keys = Inr u \<longleftrightarrow> set keys = set required"
  by (auto simp: check_keys_def filter_empty_conv)

lemma validate_ok:
  "validate H kind doc = Inr r \<longleftrightarrow>
     r = doc \<and> schema_version kind \<noteq> None \<and>
     (\<exists>d. doc = JObj d \<and> set (map fst d) = set (map lit (common_fields @ kind_fields kind))
        \<and> check_common H kind d = Inr () \<and> check_kind kind d = Inr ())"
  by (cases doc) (auto simp: validate_def bindE_ok check_keys_ok simp del: set_map)

lemma validate_same: "validate H kind doc = Inr r \<Longrightarrow> r = doc"
  by (simp add: validate_ok)

lemma on_field_ok [res_simps]:
  "on_field d k f = Inr u \<longleftrightarrow> (\<exists>v. map_of d (lit k) = Some v \<and> f v = Inr ())"
  by (auto simp: on_field_def split: option.splits)

lemma check_hash_field_ok [res_simps]:
  "check_hash_field v e = Inr u \<longleftrightarrow> (\<exists>s. v = JStr s \<and> is_sha256 s)"
  by (cases v) (auto simp: check_hash_field_def)

lemma check_positive_ok [res_simps]: "check_positive v e = Inr u \<longleftrightarrow> (\<exists>i. v = JInt i \<and> 1 \<le> i)"
  by (cases v) (auto simp: check_positive_def)

lemma check_reference_ok [res_simps]:
  "check_reference v f = Inr u \<longleftrightarrow>
     (\<exists>s. v = JStr s \<and> s \<noteq> [] \<and> length s \<le> 2000 \<and> \<not> list_ex isspace s)"
  by (cases v) (auto simp: check_reference_def Suc_le_eq)

lemma check_identifier_ok [res_simps]:
  "check_identifier v f = Inr u \<longleftrightarrow>
     (\<exists>s. v = JStr s \<and> s \<noteq> [] \<and> length s \<le> 200 \<and> is_alnum_ascii (hd s) \<and> list_all is_identifier_char s)"
  by (cases v) (auto simp: check_identifier_def Suc_le_eq)

lemma check_common_sealed:
  assumes "check_common H kind d = Inr u"
  obtains h where "map_of d (lit ''content_hash'') = Some (JStr h)" and "is_sha256 h"
    and "canonical_hash H (JObj (without_key (lit ''content_hash'') d)) = Inr h"
  using assms by (auto simp: check_common_def res_simps)

lemma check_common_envelope:
  assumes "check_common H kind d = Inr u"
  obtains rev ver where "map_of d (lit ''revision'') = Some (JInt rev)" and "1 \<le> rev"
    and "map_of d (lit ''version'') = Some (JInt ver)" and "1 \<le> ver"
    and "map_of d (lit ''schema_version'') = Some (JStr (lit (the (schema_version kind))))"
  using assms by (auto simp: check_common_def res_simps)

lemma validate_claim_id:
  assumes "validate H ''claim'' (JObj d) = Inr r"
  obtains s where "map_of d (lit ''claim_id'') = Some (JStr s)"
proof -
  from assms have "check_claim d = Inr ()"
    by (simp add: validate_ok check_kind_def)
  then show ?thesis using that by (auto simp: check_claim_def res_simps)
qed

section \<open>Lemmas: de-duplication\<close>

lemma deduplicate_loop_step:
  assumes "deduplicate_loop H (doc # docs) by_id = Inr out"
  obtains "validate H ''claim'' doc = Inr doc"
    and "map_of by_id (claim_id_of doc) = None"
    and "deduplicate_loop H docs (by_id @ [(claim_id_of doc, doc)]) = Inr out"
  | existing where "validate H ''claim'' doc = Inr doc"
    and "map_of by_id (claim_id_of doc) = Some existing"
    and "content_hash_of existing = content_hash_of doc"
    and "deduplicate_loop H docs by_id = Inr out"
proof -
  from assms obtain d where d: "doc = JObj d" by (cases doc) auto
  from assms d have v: "validate H ''claim'' doc = Inr doc"
    by (cases "validate H ''claim'' doc") (auto dest: validate_same)
  show ?thesis
  proof (cases "map_of by_id (claim_id_of doc)")
    case None
    with assms v d show ?thesis by (intro that(1)) simp_all
  next
    case (Some existing)
    with assms v d show ?thesis by (intro that(2)[of existing]) (simp_all split: if_splits)
  qed
qed

text \<open>
  The invariant of the loop: every kept entry is keyed by its own claim id and ids are
  distinct. After the loop, every document read has an entry of its id and hash.
\<close>

definition kept_ok :: "(json \<times> json) list \<Rightarrow> bool" where
  "kept_ok by_id \<longleftrightarrow> (\<forall>e\<in>set by_id. fst e = claim_id_of (snd e)) \<and> distinct (map fst by_id)"

definition kept_in :: "(json \<times> json) list \<Rightarrow> json \<Rightarrow> bool" where
  "kept_in by_id doc \<longleftrightarrow>
     (\<exists>e\<in>set by_id. claim_id_of doc = fst e \<and> content_hash_of doc = content_hash_of (snd e))"

lemma kept_ok_snoc:
  "kept_ok by_id \<Longrightarrow> map_of by_id (claim_id_of doc) = None \<Longrightarrow> kept_ok (by_id @ [(claim_id_of doc, doc)])"
  by (auto simp: kept_ok_def map_of_eq_None_iff)

lemma deduplicate_loop_inv:
  assumes "deduplicate_loop H docs by_id = Inr out" and "kept_ok by_id"
  shows "\<exists>new. out = by_id @ new \<and> set (map snd new) \<subseteq> set docs \<and> kept_ok out
           \<and> (\<forall>doc\<in>set docs. kept_in out doc)"
  using assms
proof (induction docs arbitrary: by_id)
  case Nil
  then show ?case by auto
next
  case (Cons doc docs)
  from Cons.prems(1) show ?case
  proof (cases rule: deduplicate_loop_step)
    case 1
    from Cons.IH[OF 1(3) kept_ok_snoc[OF Cons.prems(2) 1(2)]]
    obtain new where new: "out = (by_id @ [(claim_id_of doc, doc)]) @ new"
      "set (map snd new) \<subseteq> set docs" "kept_ok out" "\<forall>doc\<in>set docs. kept_in out doc"
      by blast
    then have "kept_in out doc" by (simp add: kept_in_def)
    with new show ?thesis by (intro exI[of _ "(claim_id_of doc, doc) # new"]) auto
  next
    case (2 existing)
    from Cons.IH[OF 2(4) Cons.prems(2)] obtain new where new: "out = by_id @ new"
      "set (map snd new) \<subseteq> set docs" "kept_ok out" "\<forall>doc\<in>set docs. kept_in out doc"
      by blast
    have "kept_in out doc"
      using 2(2,3) new(1) unfolding kept_in_def by (force dest: map_of_SomeD)
    with new show ?thesis by (intro exI[of _ new]) auto
  qed
qed

lemma deduplicate_claims_ok:
  assumes "deduplicate_claims H docs = Inr out"
  shows "set out \<subseteq> set docs" and "distinct (map claim_id_of out)"
    and "\<forall>doc\<in>set docs. \<exists>kept\<in>set out. claim_id_of kept = claim_id_of doc
           \<and> content_hash_of kept = content_hash_of doc"
proof -
  from assms obtain m where m: "deduplicate_loop H docs [] = Inr m" and out: "out = map snd m"
    by (auto simp: deduplicate_claims_def)
  have "kept_ok []" by (simp add: kept_ok_def)
  from deduplicate_loop_inv[OF m this] have inv: "set (map snd m) \<subseteq> set docs" "kept_ok m"
    "\<forall>doc\<in>set docs. kept_in m doc"
    by auto
  show "set out \<subseteq> set docs" using inv(1) out by simp
  have "map claim_id_of out = map fst m" using inv(2) out by (simp add: kept_ok_def)
  then show "distinct (map claim_id_of out)" using inv(2) by (simp add: kept_ok_def)
  show "\<forall>doc\<in>set docs. \<exists>kept\<in>set out. claim_id_of kept = claim_id_of doc
           \<and> content_hash_of kept = content_hash_of doc"
    using inv(2,3) out unfolding kept_ok_def kept_in_def by (metis image_eqI image_set)
qed

lemma deduplicate_loop_distinct:
  assumes "\<forall>doc\<in>set docs. validate H ''claim'' doc = Inr doc"
    and "distinct (map fst by_id @ map claim_id_of docs)"
  shows "deduplicate_loop H docs by_id = Inr (by_id @ map (\<lambda>d. (claim_id_of d, d)) docs)"
  using assms
proof (induction docs arbitrary: by_id)
  case (Cons doc docs)
  then obtain d where d: "doc = JObj d" by (auto simp: validate_ok)
  have "map_of by_id (claim_id_of doc) = None"
    using Cons.prems(2) by (auto simp: map_of_eq_None_iff)
  with Cons.prems d show ?case
    using Cons.IH[of "by_id @ [(claim_id_of doc, doc)]"] by (simp add: claim_id_of_def)
qed simp

lemma deduplicate_loop_validates:
  "deduplicate_loop H docs by_id = Inr out \<Longrightarrow> doc \<in> set docs \<Longrightarrow> validate H ''claim'' doc = Inr doc"
proof (induction docs arbitrary: by_id)
  case (Cons x docs)
  from Cons.prems(1) show ?case
    by (cases rule: deduplicate_loop_step) (use Cons in auto)
qed simp

lemma deduplicate_claims_idem:
  assumes "deduplicate_claims H docs = Inr out"
  shows "deduplicate_claims H out = Inr out"
proof -
  from assms obtain m where "deduplicate_loop H docs [] = Inr m"
    by (auto simp: deduplicate_claims_def)
  then have "\<forall>doc\<in>set out. validate H ''claim'' doc = Inr doc"
    using deduplicate_loop_validates deduplicate_claims_ok(1)[OF assms] by blast
  then show ?thesis
    using deduplicate_loop_distinct[of out H "[]"] deduplicate_claims_ok(2)[OF assms]
    by (simp add: deduplicate_claims_def comp_def)
qed

text \<open>
  The reference definition of de-duplication: the first document of every claim id, in the
  order of the input.
\<close>

fun keep_first :: "json list \<Rightarrow> json list" where
  "keep_first [] = []"
| "keep_first (d # ds) = d # keep_first (filter (\<lambda>x. claim_id_of x \<noteq> claim_id_of d) ds)"

definition consistent_claims :: "json list \<Rightarrow> bool" where
  "consistent_claims docs \<longleftrightarrow> (\<forall>a\<in>set docs. \<forall>b\<in>set docs.
     claim_id_of a = claim_id_of b \<longrightarrow> content_hash_of a = content_hash_of b)"

lemma consistent_claims_mono: "consistent_claims ds \<Longrightarrow> set es \<subseteq> set ds \<Longrightarrow> consistent_claims es"
  unfolding consistent_claims_def by blast

lemma consistent_claims_eq:
  "consistent_claims ds \<Longrightarrow> a \<in> set ds \<Longrightarrow> b \<in> set ds \<Longrightarrow> claim_id_of a = claim_id_of b \<Longrightarrow>
   content_hash_of a = content_hash_of b"
  unfolding consistent_claims_def by blast

lemma deduplicate_loop_keep_first:
  assumes "\<forall>d\<in>set docs. validate H ''claim'' d = Inr d" and "kept_ok by_id"
    and "consistent_claims (map snd by_id @ docs)"
  shows "deduplicate_loop H docs by_id = Inr (by_id @
    map (\<lambda>d. (claim_id_of d, d)) (keep_first (filter (\<lambda>d. claim_id_of d \<notin> fst ` set by_id) docs)))"
  using assms
proof (induction docs arbitrary: by_id)
  case (Cons doc docs)
  from Cons.prems(1) have v: "validate H ''claim'' doc = Inr doc" by simp
  then obtain d where d: "doc = JObj d" by (auto simp: validate_ok)
  show ?case
  proof (cases "map_of by_id (claim_id_of doc)")
    case None
    let ?by = "by_id @ [(claim_id_of doc, doc)]"
    have ne: "claim_id_of doc \<notin> fst ` set by_id" using None by (simp add: map_of_eq_None_iff)
    have "consistent_claims (map snd ?by @ docs)"
      using Cons.prems(3) by (rule consistent_claims_mono) auto
    from Cons.IH[OF _ kept_ok_snoc[OF Cons.prems(2) None] this] Cons.prems(1)
    have "deduplicate_loop H docs ?by = Inr (?by @ map (\<lambda>d. (claim_id_of d, d))
        (keep_first (filter (\<lambda>d. claim_id_of d \<notin> fst ` set ?by) docs)))" by simp
    moreover have "filter (\<lambda>d. claim_id_of d \<notin> fst ` set ?by) docs
        = filter (\<lambda>x. claim_id_of x \<noteq> claim_id_of doc)
            (filter (\<lambda>d. claim_id_of d \<notin> fst ` set by_id) docs)"
      by (auto intro: filter_cong)
    ultimately show ?thesis using v d None ne by simp
  next
    case (Some old)
    then have old: "(claim_id_of doc, old) \<in> set by_id" by (rule map_of_SomeD)
    with Cons.prems(2) have "claim_id_of old = claim_id_of doc" by (auto simp: kept_ok_def)
    with consistent_claims_eq[OF Cons.prems(3), of old doc] old
    have "content_hash_of old = content_hash_of doc" by force
    moreover have "consistent_claims (map snd by_id @ docs)"
      using Cons.prems(3) by (rule consistent_claims_mono) auto
    moreover have "claim_id_of doc \<in> fst ` set by_id" using old by force
    ultimately show ?thesis using v d Some Cons.IH[of by_id] Cons.prems by simp
  qed
qed simp

lemma deduplicate_loop_consistent:
  assumes "deduplicate_claims H docs = Inr out"
  shows "consistent_claims docs"
  unfolding consistent_claims_def
proof (intro ballI impI)
  fix a b
  assume ab: "a \<in> set docs" "b \<in> set docs" "claim_id_of a = claim_id_of b"
  from deduplicate_claims_ok(3)[OF assms] ab obtain ka kb where
    k: "ka \<in> set out" "claim_id_of ka = claim_id_of a" "content_hash_of ka = content_hash_of a"
       "kb \<in> set out" "claim_id_of kb = claim_id_of b" "content_hash_of kb = content_hash_of b"
    by blast
  with deduplicate_claims_ok(2)[OF assms] ab(3) have "ka = kb"
    by (auto simp: distinct_map inj_on_def)
  with k show "content_hash_of a = content_hash_of b" by simp
qed

lemma deduplicate_claims_char:
  "deduplicate_claims H docs = Inr out \<longleftrightarrow>
     (\<forall>d\<in>set docs. validate H ''claim'' d = Inr d) \<and> consistent_claims docs \<and> out = keep_first docs"
proof
  assume ok: "deduplicate_claims H docs = Inr out"
  then obtain m where m: "deduplicate_loop H docs [] = Inr m" and out: "out = map snd m"
    by (auto simp: deduplicate_claims_def)
  have v: "\<forall>d\<in>set docs. validate H ''claim'' d = Inr d"
    using deduplicate_loop_validates[OF m] by blast
  note c = deduplicate_loop_consistent[OF ok]
  have "m = map (\<lambda>d. (claim_id_of d, d)) (keep_first docs)"
    using deduplicate_loop_keep_first[of docs H "[]"] v c m by (simp add: kept_ok_def)
  then have "out = keep_first docs" using out by (simp add: comp_def)
  with v c show "(\<forall>d\<in>set docs. validate H ''claim'' d = Inr d) \<and> consistent_claims docs
      \<and> out = keep_first docs" by blast
next
  assume "(\<forall>d\<in>set docs. validate H ''claim'' d = Inr d) \<and> consistent_claims docs \<and> out = keep_first docs"
  then show "deduplicate_claims H docs = Inr out"
    using deduplicate_loop_keep_first[of docs H "[]"]
    by (simp add: kept_ok_def deduplicate_claims_def comp_def)
qed

section \<open>Sample documents\<close>

text \<open>A digest function and a claim document for the concrete instances of the properties.\<close>

definition sample_hasher :: hasher where
  "sample_hasher t = replicate 64 48"

definition sample_hash :: pystr where
  "sample_hash = lit ''sha256:'' @ replicate 64 48"

definition sample_claim_fields :: "string \<Rightarrow> (pystr \<times> json) list" where
  "sample_claim_fields i =
     [(lit ''schema_version'', JStr (lit ''testweaver.claim/v1'')),
      (lit ''version'', JInt 1), (lit ''revision'', JInt 1),
      (lit ''native_refs'', JObj [(lit ''project_id'', JStr (lit ''p'')), (lit ''task_id'', JStr (lit ''t'')),
         (lit ''room_id'', JStr (lit ''r'')), (lit ''read_only'', JBool True)]),
      (lit ''producer'', JObj [(lit ''identity'', JStr (lit ''w'')), (lit ''role'', JStr (lit ''tester''))]),
      (lit ''artifact'', JObj [(lit ''channel'', JStr (lit ''filesync'')), (lit ''artifact_ref'', JStr (lit ''a''))]),
      (lit ''claim_id'', JStr (lit i)),
      (lit ''claim'', JObj [(lit ''statement'', JStr (lit ''s'')), (lit ''claim_type'', JStr (lit ''IMPACT'')),
         (lit ''epistemic_status'', JStr (lit ''FACT''))]),
      (lit ''source'', JStr (lit ''src'')),
      (lit ''evidence_ref'', JObj [(lit ''id'', JStr (lit ''e'')), (lit ''kind'', JStr (lit ''file'')),
         (lit ''artifact_ref'', JStr (lit ''f'')), (lit ''content_hash'', JStr sample_hash)]),
      (lit ''provenance'', JObj [(lit ''source_refs'', JArr [JStr (lit ''x'')]), (lit ''method'', JStr (lit ''m''))]),
      (lit ''confidence'', JInt 1),
      (lit ''unresolved_items'', JArr [])]"

definition sample_claim :: "string \<Rightarrow> json" where
  "sample_claim i = JObj (sample_claim_fields i @ [(lit ''content_hash'', JStr sample_hash)])"

lemma sample_hasher_ok: "digest_ok sample_hasher"
  by (simp add: digest_ok_def sample_hasher_def is_hex_lower_def is_digit_ascii_def list_all_iff)

lemma sample_hash_ok: "is_sha256 sample_hash"
  using is_sha256_canonical[OF sample_hasher_ok] by (simp add: sample_hash_def sample_hasher_def)

lemma sample_payload_hash:
  "canonical_hash sample_hasher (JObj (sample_claim_fields i)) = Inr sample_hash"
  by (subst canonical_hash_total)
    (simp_all add: sample_claim_fields_def sample_hash_def sample_hasher_def is_surrogate_def)

lemma sample_without: "without_key (lit ''content_hash'') (sample_claim_fields i) = sample_claim_fields i"
  by (simp add: without_key_def sample_claim_fields_def)

lemma sample_ids [simp]:
  "map_of (sample_claim_fields i) (lit ''content_hash'') = None"
  "content_hash_of (sample_claim i) = Some (JStr sample_hash)"
  "claim_id_of (sample_claim i) = JStr (lit i)"
  by (simp_all add: sample_claim_fields_def sample_claim_def content_hash_of_def claim_id_of_def)

lemmas sample_chars = lit_def char_class_defs is_identifier_char_def

lemma sample_common:
  "check_common sample_hasher ''claim'' (sample_claim_fields i @ [(lit ''content_hash'', JStr sample_hash)]) = Inr ()"
  using sample_payload_hash[of i] sample_without[of i] sample_hash_ok
  unfolding check_common_def
  by (simp add: on_field_ok check_positive_ok check_hash_field_ok)
    (simp add: sample_claim_fields_def schema_version_def on_field_def check_native_refs_def
      check_producer_def check_artifact_def has_shape_def check_member_def check_reference_ok
      check_identifier_ok, simp add: sample_chars)

lemma sample_kind:
  assumes "check_identifier (JStr (lit i)) (lit ''claim_id'') = Inr ()"
  shows "check_kind ''claim'' (sample_claim_fields i @ [(lit ''content_hash'', JStr sample_hash)]) = Inr ()"
  using sample_hash_ok assms
  by (simp add: check_kind_def check_claim_def sample_claim_fields_def on_field_def check_claim_body_def
      check_evidence_ref_def check_provenance_value_def check_source_refs_def check_confidence_def
      check_unresolved_def check_text_def check_hash_field_def has_shape_def check_member_def
      check_items_def unit_interval_def raise_if_eval check_reference_ok)
    (simp add: check_identifier_def check_reference_def sample_chars)

lemma sample_claim_valid:
  "validate sample_hasher ''claim'' (sample_claim ''c1'') = Inr (sample_claim ''c1'')"
  "validate sample_hasher ''claim'' (sample_claim ''c2'') = Inr (sample_claim ''c2'')"
proof -
  have "set (map fst (sample_claim_fields i @ [(lit ''content_hash'', JStr sample_hash)]))
      = set (map lit (common_fields @ kind_fields ''claim''))" for i
    by (auto simp: sample_claim_fields_def common_fields_def kind_fields_def)
  moreover have "check_identifier (JStr (lit ''c1'')) (lit ''claim_id'') = Inr ()"
    "check_identifier (JStr (lit ''c2'')) (lit ''claim_id'') = Inr ()"
    by (simp_all add: check_identifier_def sample_chars)
  ultimately show
    "validate sample_hasher ''claim'' (sample_claim ''c1'') = Inr (sample_claim ''c1'')"
    "validate sample_hasher ''claim'' (sample_claim ''c2'') = Inr (sample_claim ''c2'')"
    using sample_common sample_kind by (simp_all add: validate_ok sample_claim_def schema_version_def)
qed

section \<open>Properties\<close>

text \<open>The canonical hash of a document does not depend on the insertion order of its
  keys: two dicts with the same items, whose keys are distinct as in any dict, have the same
  hash, and fail to hash with the same exception.\<close>

lemma canonical_hash_key_order:
  assumes "mset kvs = mset kvs'" and "distinct (map fst kvs)"
  shows "canonical_hash H (JObj kvs) = canonical_hash H (JObj kvs')"
  using assms by (rule canonical_hash_perm)

lemma canonical_hash_key_order_witness:
  "canonical_hash sample_hasher (JObj [(lit ''a'', JInt 1), (lit ''b'', JNull)])
   = canonical_hash sample_hasher (JObj [(lit ''b'', JNull), (lit ''a'', JInt 1)])"
  by (rule canonical_hash_key_order) simp_all

text \<open>Sealing a document is idempotent and keeps its payload, and the hash it stores is a
  well-formed digest of the payload without the hash field, whatever hash field the document
  carried before.\<close>

lemma seal_doc_seals:
  assumes "digest_ok H" and "seal_doc H kvs = Inr d"
  shows "seal_doc H d = Inr d
    \<and> without_key (lit ''content_hash'') d = without_key (lit ''content_hash'') kvs
    \<and> (\<exists>h. map_of d (lit ''content_hash'') = Some (JStr h) \<and> is_sha256 h
         \<and> canonical_hash H (JObj (without_key (lit ''content_hash'') kvs)) = Inr h)"
  using assms(2)
proof (rule seal_doc_ok)
  fix h
  assume h: "canonical_hash H (JObj (without_key (lit ''content_hash'') kvs)) = Inr h"
    and d: "d = without_key (lit ''content_hash'') kvs @ [(lit ''content_hash'', JStr h)]"
  then have "map_of d (lit ''content_hash'') = Some (JStr h)"
    by (simp add: map_add_def map_of_without_key)
  with h show ?thesis
    using seal_doc_idem[OF assms(2)] seal_doc_payload[OF assms(2)]
      canonical_hash_is_sha256[OF assms(1) h] by blast
qed

lemma seal_doc_seals_witness:
  "seal_doc sample_hasher (sample_claim_fields ''c1'' @ [(lit ''content_hash'', JStr sample_hash)])
   = Inr (sample_claim_fields ''c1'' @ [(lit ''content_hash'', JStr sample_hash)])"
  by (rule seal_doc_seals[OF sample_hasher_ok, THEN conjunct1, of "sample_claim_fields ''c1''"])
    (simp add: seal_doc_def sample_without sample_payload_hash)

text \<open>C26: a document that \<open>validate\<close> accepts is returned unchanged, has exactly the fields of
  its kind, a positive revision and version, the schema version of the kind, and a content
  hash that is the canonical hash of all the other fields.\<close>

theorem validate_accepts_sealed:
  assumes "validate H kind doc = Inr r"
  shows "r = doc \<and> (\<exists>d h rev ver. doc = JObj d
    \<and> set (map fst d) = set (map lit (common_fields @ kind_fields kind))
    \<and> map_of d (lit ''content_hash'') = Some (JStr h)
    \<and> canonical_hash H (JObj (without_key (lit ''content_hash'') d)) = Inr h
    \<and> map_of d (lit ''revision'') = Some (JInt rev) \<and> 1 \<le> rev
    \<and> map_of d (lit ''version'') = Some (JInt ver) \<and> 1 \<le> ver
    \<and> map_of d (lit ''schema_version'') = Some (JStr (lit (the (schema_version kind)))))"
proof -
  from assms obtain d where d: "r = doc" "doc = JObj d"
      "set (map fst d) = set (map lit (common_fields @ kind_fields kind))"
      "check_common H kind d = Inr ()"
    by (auto simp only: validate_ok)
  from check_common_sealed[OF d(4)] check_common_envelope[OF d(4)] d(1,2,3)
  show ?thesis by metis
qed

lemma validate_accepts_sealed_witness:
  "\<exists>d h. sample_claim ''c1'' = JObj d \<and> map_of d (lit ''content_hash'') = Some (JStr h)
     \<and> canonical_hash sample_hasher (JObj (without_key (lit ''content_hash'') d)) = Inr h"
  using validate_accepts_sealed[OF sample_claim_valid(1)] by blast

text \<open>The seal binds the content. Two accepted documents that carry the same content hash
  have the same payload, up to the order in which the keys of its objects are listed, unless the
  digest collides on their texts.\<close>

lemma validate_binds_content:
  assumes "validate H kind (JObj d) = Inr r" and "validate H kind' (JObj d') = Inr r'"
    and "content_hash_of (JObj d) = content_hash_of (JObj d')"
    and "inj_on H {dumps (JObj (without_key (lit ''content_hash'') d)),
                   dumps (JObj (without_key (lit ''content_hash'') d'))}"
    and "readable (JObj d)" and "readable (JObj d')"
  shows "canon (JObj (without_key (lit ''content_hash'') d))
       = canon (JObj (without_key (lit ''content_hash'') d'))"
proof -
  have c: "check_common H kind d = Inr ()" "check_common H kind' d' = Inr ()"
    using assms(1,2) by (auto simp: validate_ok)
  from c(1) obtain h where h: "map_of d (lit ''content_hash'') = Some (JStr h)"
      "canonical_hash H (JObj (without_key (lit ''content_hash'') d)) = Inr h"
    by (rule check_common_sealed)
  from c(2) obtain h' where h': "map_of d' (lit ''content_hash'') = Some (JStr h')"
      "canonical_hash H (JObj (without_key (lit ''content_hash'') d')) = Inr h'"
    by (rule check_common_sealed)
  from assms(3) h(1) h'(1) have "h = h'" by (simp add: content_hash_of_def)
  with h(2) h'(2) have "H (dumps (JObj (without_key (lit ''content_hash'') d)))
      = H (dumps (JObj (without_key (lit ''content_hash'') d')))"
    unfolding canonical_hash_ok by (metis append_same_eq same_append_eq)
  then have "dumps (JObj (without_key (lit ''content_hash'') d)) = dumps (JObj (without_key (lit ''content_hash'') d'))"
    by (rule inj_onD[OF assms(4)]) simp_all
  then show ?thesis
    using assms(5,6) unfolding without_key_def by (intro readable_text readable_part)
qed

lemma validate_binds_content_witness:
  "canon (JObj (without_key (lit ''content_hash'') (sample_claim_fields ''c1'' @ [(lit ''content_hash'', JStr sample_hash)])))
 = canon (JObj (without_key (lit ''content_hash'') (sample_claim_fields ''c1'' @ [(lit ''content_hash'', JStr sample_hash)])))"
proof (rule validate_binds_content)
  show "validate sample_hasher ''claim'' (JObj (sample_claim_fields ''c1'' @ [(lit ''content_hash'', JStr sample_hash)]))
      = Inr (sample_claim ''c1'')"
    using sample_claim_valid(1) by (simp only: sample_claim_def)
  then show "validate sample_hasher ''claim'' (JObj (sample_claim_fields ''c1'' @ [(lit ''content_hash'', JStr sample_hash)]))
      = Inr (sample_claim ''c1'')" .
  show "inj_on sample_hasher
     {dumps (JObj (without_key (lit ''content_hash'') (sample_claim_fields ''c1'' @ [(lit ''content_hash'', JStr sample_hash)]))),
      dumps (JObj (without_key (lit ''content_hash'') (sample_claim_fields ''c1'' @ [(lit ''content_hash'', JStr sample_hash)])))}"
    by (simp only: inj_on_def insert_iff empty_iff, blast)
  show "readable (JObj (sample_claim_fields ''c1'' @ [(lit ''content_hash'', JStr sample_hash)]))"
    by (simp add: readable_def sample_claim_fields_def nat_str.simps)
  then show "readable (JObj (sample_claim_fields ''c1'' @ [(lit ''content_hash'', JStr sample_hash)]))" .
qed (rule refl)

text \<open>C23: \<open>deduplicate_claims\<close> succeeds exactly when every document is a valid claim and claims
  with the same id carry the same content hash, and then returns the first document of every
  id in input order.\<close>

theorem deduplicate_claims_iff:
  "deduplicate_claims H docs = Inr out \<longleftrightarrow>
     (\<forall>d\<in>set docs. validate H ''claim'' d = Inr d) \<and> consistent_claims docs \<and> out = keep_first docs"
  by (rule deduplicate_claims_char)

lemma deduplicate_claims_iff_witness:
  "deduplicate_claims sample_hasher [sample_claim ''c1'', sample_claim ''c2'', sample_claim ''c1'']
   = Inr [sample_claim ''c1'', sample_claim ''c2'']"
proof -
  have "consistent_claims [sample_claim ''c1'', sample_claim ''c2'', sample_claim ''c1'']"
    by (simp add: consistent_claims_def)
  then show ?thesis
    by (subst deduplicate_claims_iff) (simp add: sample_claim_valid)
qed

text \<open>De-duplication is idempotent and its result has no two claims of one id.\<close>

lemma deduplicate_claims_idempotent:
  assumes "deduplicate_claims H docs = Inr out"
  shows "deduplicate_claims H out = Inr out \<and> distinct (map claim_id_of out)
    \<and> claim_id_of ` set out = claim_id_of ` set docs"
proof -
  note ok = deduplicate_claims_ok[OF assms]
  have "claim_id_of ` set docs \<subseteq> claim_id_of ` set out"
    using ok(3) by (metis image_subset_iff imageI)
  with ok(1) have "claim_id_of ` set out = claim_id_of ` set docs" by (simp add: image_mono subset_antisym)
  with deduplicate_claims_idem[OF assms] ok(2) show ?thesis by blast
qed

lemma deduplicate_claims_idempotent_witness:
  "deduplicate_claims sample_hasher [sample_claim ''c1''] = Inr [sample_claim ''c1'']"
proof (rule deduplicate_claims_idempotent[THEN conjunct1])
  show "deduplicate_claims sample_hasher [sample_claim ''c1'', sample_claim ''c1''] = Inr [sample_claim ''c1'']"
    by (subst deduplicate_claims_char) (simp add: sample_claim_valid consistent_claims_def)
qed

end
