(* ===== verification/Authority_Db.thy ===== *)
theory Authority_Db
  imports Contracts
begin

text \<open>
  The database under \<open>testweaver/authority\<close>: the tables and constraints of
  \<open>schema.sql\<close>, the one writing statement the store issues (INSERT ... ON CONFLICT DO
  NOTHING), and a DB-API connection with its commit and rollback. Operations on a
  connection return a result together with the connection they leave behind, so that the
  state after an exception is part of the model.
\<close>

section \<open>Values, rows, tables\<close>

datatype sqlval = SNull | SInt int | SText pystr | SBool bool

type_synonym row = "(pystr \<times> sqlval) list"
type_synonym db = "pystr \<Rightarrow> row list"

definition sqlopt :: "pystr option \<Rightarrow> sqlval" where
  "sqlopt x = (case x of None \<Rightarrow> SNull | Some s \<Rightarrow> SText s)"

definition sqlopt_int :: "int option \<Rightarrow> sqlval" where
  "sqlopt_int x = (case x of None \<Rightarrow> SNull | Some i \<Rightarrow> SInt i)"

definition col :: "row \<Rightarrow> string \<Rightarrow> sqlval" where
  "col r c = (case map_of r (lit c) of None \<Rightarrow> SNull | Some v \<Rightarrow> v)"

text \<open>A column that holds text or an integer.\<close>

fun sql_text :: "sqlval \<Rightarrow> pystr" where
  "sql_text (SText s) = s"
| "sql_text _ = []"

fun sql_int :: "sqlval \<Rightarrow> int" where
  "sql_int (SInt i) = i"
| "sql_int _ = 0"

definition sql_opt_text :: "sqlval \<Rightarrow> pystr option" where
  "sql_opt_text v = (case v of SText s \<Rightarrow> Some s | _ \<Rightarrow> None)"

definition sql_opt_int :: "sqlval \<Rightarrow> int option" where
  "sql_opt_int v = (case v of SInt i \<Rightarrow> Some i | _ \<Rightarrow> None)"

lemma sql_opt_simps [simp]:
  "sql_opt_text (sqlopt x) = x" "sql_opt_int (sqlopt_int i) = i"
  by (cases x; cases i; simp add: sql_opt_text_def sqlopt_def sql_opt_int_def sqlopt_int_def)+

section \<open>The schema\<close>

text \<open>
  Per table: its columns, the columns that may be NULL, and its keys (the PRIMARY KEY and
  the UNIQUE constraints). The CHECK constraints are \<open>revision > 0\<close> and
  \<open>capsule_revision > 0\<close>.
\<close>

record schema =
  columns :: "string list"
  nullable :: "string list"
  keys :: "string list list"

definition table_names :: "string list" where
  "table_names = [''tw_authority_events'', ''tw_capsules'', ''tw_capsule_hits'',
                  ''tw_hitl_events'', ''tw_oracle_results'', ''tw_side_effect_ledger'']"

definition schema_of :: "string \<Rightarrow> schema" where
  "schema_of t =
     (if t = ''tw_authority_events'' then
        \<lparr> columns = [''event_id'', ''aggregate_id'', ''aggregate_type'', ''revision'', ''event_type'',
            ''actor'', ''idempotency_key'', ''occurred_at'', ''payload_json'', ''request_hash'',
            ''run_id'', ''campaign_id'', ''trace_id'', ''provenance'', ''content_hash''],
          nullable = [],
          keys = [[''event_id''], [''aggregate_id'', ''revision''], [''idempotency_key'']] \<rparr>
      else if t = ''tw_capsules'' then
        \<lparr> columns = [''record_key'', ''capsule_id'', ''capsule_type'', ''state'', ''fingerprint'',
            ''fault_owner'', ''target_fault_domains_json'', ''observation_ref'', ''evidence_refs_json'',
            ''baseline_strategy'', ''observed_strategy'', ''root_cause_ref'', ''repair_ref'',
            ''regression_refs_json'', ''artifact_ref'', ''artifact_hash'', ''run_id'', ''campaign_id'',
            ''trace_id'', ''revision'', ''provenance'', ''content_hash''],
          nullable = [''root_cause_ref'', ''repair_ref''],
          keys = [[''record_key'']] \<rparr>
      else if t = ''tw_capsule_hits'' then
        \<lparr> columns = [''hit_id'', ''capsule_id'', ''capsule_revision'', ''capsule_content_hash'',
            ''matched_fingerprint'', ''recurrence'', ''evidence_ref'', ''run_id'', ''campaign_id'',
            ''trace_id'', ''occurred_at'', ''provenance'', ''content_hash''],
          nullable = [],
          keys = [[''hit_id''], [''capsule_id'', ''run_id'', ''trace_id'']] \<rparr>
      else if t = ''tw_hitl_events'' then
        \<lparr> columns = [''event_id'', ''approval_id'', ''phase'', ''decision'', ''run_id'', ''campaign_id'',
            ''trace_id'', ''revision'', ''previous_revision'', ''matrix_event_ref'',
            ''matrix_event_hash'', ''verification_ref'', ''verification_hash'', ''sender'',
            ''identity_ref'', ''actor_kind'', ''policy_ref'', ''reason_ref'', ''occurred_at'',
            ''provenance'', ''content_hash''],
          nullable = [''decision'', ''previous_revision'', ''verification_ref'',
            ''verification_hash'', ''reason_ref''],
          keys = [[''event_id''], [''approval_id'', ''revision'']] \<rparr>
      else if t = ''tw_oracle_results'' then
        \<lparr> columns = [''result_id'', ''oracle_kind'', ''run_id'', ''campaign_id'', ''trace_id'',
            ''identity_ref'', ''process_ref'', ''result_ref'', ''result_hash'', ''evidence_root_ref'',
            ''evidence_root_hash'', ''evidence_refs_json'', ''gold_ref'', ''source_ref'', ''status'',
            ''provenance'', ''content_hash''],
          nullable = [''gold_ref''],
          keys = [[''result_id''], [''run_id'', ''oracle_kind''], [''run_id'', ''identity_ref''],
            [''run_id'', ''process_ref''], [''run_id'', ''result_ref'']] \<rparr>
      else if t = ''tw_side_effect_ledger'' then
        \<lparr> columns = [''entry_id'', ''call_ref'', ''run_id'', ''campaign_id'', ''trace_id'', ''actor_ref'',
            ''tool_ref'', ''operation'', ''target_ref'', ''decision'', ''effect'', ''fencing'',
            ''observed'', ''occurred_at'', ''request_hash'', ''result_hash'', ''provenance'',
            ''content_hash''],
          nullable = [''result_hash''],
          keys = [[''entry_id''], [''call_ref'']] \<rparr>
      else \<lparr> columns = [], nullable = [], keys = [] \<rparr>)"

section \<open>Insertion\<close>

text \<open>Two rows agree on a key when all its columns are equal and none is NULL.\<close>

definition same_key :: "string list \<Rightarrow> row \<Rightarrow> row \<Rightarrow> bool" where
  "same_key ks r r' \<longleftrightarrow> list_all (\<lambda>c. col r c = col r' c \<and> col r c \<noteq> SNull) ks"

definition key_conflict :: "string \<Rightarrow> row \<Rightarrow> row list \<Rightarrow> bool" where
  "key_conflict t r rs \<longleftrightarrow> list_ex (\<lambda>r'. list_ex (\<lambda>ks. same_key ks r r') (keys (schema_of t))) rs"

definition check_violated :: "row \<Rightarrow> bool" where
  "check_violated r \<longleftrightarrow>
     (\<exists>c\<in>set [''revision'', ''capsule_revision'']. \<exists>v. map_of r (lit c) = Some v \<and> sql_int v \<le> 0)"

lemma check_violated_code [code]:
  "check_violated r = list_ex (\<lambda>c. case map_of r (lit c) of None \<Rightarrow> False | Some v \<Rightarrow> sql_int v \<le> 0)
     [''revision'', ''capsule_revision'']"
  by (auto simp: check_violated_def split: option.splits)

text \<open>
  INSERT INTO t (...) VALUES (...) ON CONFLICT DO NOTHING returns the row count. Unknown
  tables and columns and violated NOT NULL and CHECK constraints raise.
\<close>

definition db_insert :: "string \<Rightarrow> row \<Rightarrow> db \<Rightarrow> (db \<times> nat) res" where
  "db_insert t r d =
     (if t \<notin> set table_names then Inl (OperationalError (lit ''no such table''))
      else if \<not> set (map fst r) \<subseteq> set (map lit (columns (schema_of t)))
        then Inl (OperationalError (lit ''no such column''))
      else if list_ex (\<lambda>c. c \<notin> set (nullable (schema_of t)) \<and> col r c = SNull) (columns (schema_of t))
        then Inl (IntegrityError (lit ''NOT NULL constraint failed''))
      else if check_violated r then Inl (IntegrityError (lit ''CHECK constraint failed''))
      else if key_conflict t r (d (lit t)) then Inr (d, 0)
      else Inr (d(lit t := d (lit t) @ [r]), 1))"

section \<open>Connections\<close>

text \<open>
  \<open>live\<close> is what the connection reads, its own uncommitted writes included; \<open>durable\<close> is
  what has been committed.
\<close>

record conn =
  live :: db
  durable :: db

definition commit :: "conn \<Rightarrow> conn" where
  "commit c = c\<lparr>durable := live c\<rparr>"

definition rollback :: "conn \<Rightarrow> conn" where
  "rollback c = c\<lparr>live := durable c\<rparr>"

text \<open>A new database after \<open>initialize()\<close>: every table exists and is empty.\<close>

definition empty_conn :: conn where
  "empty_conn = \<lparr>live = (\<lambda>_. []), durable = (\<lambda>_. [])\<rparr>"

definition table :: "conn \<Rightarrow> string \<Rightarrow> row list" where
  "table c t = live c (lit t)"

section \<open>Actions on a connection\<close>

type_synonym 'a act = "(conn, 'a) actS"

section \<open>Invariants of the database\<close>

text \<open>
  No two rows of a table share a key, and every row of a connection outside a transaction
  is committed.
\<close>

definition no_clash :: "string \<Rightarrow> row \<Rightarrow> row \<Rightarrow> bool" where
  "no_clash t r r' \<longleftrightarrow> list_all (\<lambda>ks. \<not> same_key ks r r') (keys (schema_of t))"

fun keys_unique :: "string \<Rightarrow> row list \<Rightarrow> bool" where
  "keys_unique t [] = True"
| "keys_unique t (r # rs) = (list_all (no_clash t r) rs \<and> keys_unique t rs)"

definition db_ok :: "db \<Rightarrow> bool" where
  "db_ok d \<longleftrightarrow> list_all (\<lambda>t. keys_unique t (d (lit t))) table_names"

definition conn_ok :: "conn \<Rightarrow> bool" where
  "conn_ok c \<longleftrightarrow> live c = durable c \<and> db_ok (live c)"

lemma same_key_sym: "same_key ks r r' = same_key ks r' r"
  by (auto simp: same_key_def list_all_iff)

lemma no_clash_sym: "no_clash t r r' = no_clash t r' r"
  by (simp add: no_clash_def same_key_sym)

lemma key_conflict_iff: "key_conflict t r rs \<longleftrightarrow> \<not> list_all (no_clash t r) rs"
  by (auto simp: key_conflict_def no_clash_def list_all_iff list_ex_iff)

lemma keys_unique_snoc:
  "keys_unique t (rs @ [r]) \<longleftrightarrow> keys_unique t rs \<and> \<not> key_conflict t r rs"
  by (induction rs) (auto simp: key_conflict_iff no_clash_sym list_all_iff)

lemma keys_unique_same:
  assumes "keys_unique t rs" and "r \<in> set rs" and "r' \<in> set rs"
    and "ks \<in> set (keys (schema_of t))" and "same_key ks r r'"
  shows "r = r'"
  using assms
proof (induction rs)
  case (Cons x xs)
  then show ?case
    by (auto simp: no_clash_def list_all_iff same_key_sym)
qed simp

lemma keys_unique_distinct:
  assumes "keys_unique t rs" and "[k] \<in> set (keys (schema_of t))"
    and "\<forall>r\<in>set rs. col r k \<noteq> SNull"
  shows "distinct (map (\<lambda>r. col r k) rs)"
  using assms(1,3)
proof (induction rs)
  case (Cons r rs)
  have "col r k \<noteq> col r' k" if "r' \<in> set rs" for r'
    using Cons.prems assms(2) that by (fastforce simp: list_all_iff no_clash_def same_key_def)
  with Cons show ?case by auto
qed simp

lemma conn_ok_empty: "conn_ok empty_conn"
  by (simp add: conn_ok_def empty_conn_def db_ok_def list_all_iff)

lemma conn_ok_keys: "conn_ok c \<Longrightarrow> t \<in> set table_names \<Longrightarrow> keys_unique t (table c t)"
  by (auto simp: conn_ok_def db_ok_def list_all_iff table_def)

lemma commit_live [simp]: "live (commit c) = live c" "durable (commit c) = live c"
  by (simp_all add: commit_def)

lemma rollback_live [simp]: "live (rollback c) = durable c" "durable (rollback c) = durable c"
  by (simp_all add: rollback_def)

lemma rollback_ok: "conn_ok c \<Longrightarrow> rollback c = c"
  by (simp add: conn_ok_def rollback_def)

lemma commit_ok: "conn_ok c \<Longrightarrow> commit c = c"
  by (cases c) (simp add: conn_ok_def commit_def)

lemma db_insert_cases:
  assumes "db_insert t r d = Inr (d', n)"
  obtains "n = 0" and "d' = d" and "key_conflict t r (d (lit t))"
  | "n = 1" and "d' = d(lit t := d (lit t) @ [r])" and "\<not> key_conflict t r (d (lit t))"
      and "t \<in> set table_names"
  using assms by (auto simp: db_insert_def split: if_splits)

lemma db_insert_ok: "db_insert t r d = Inr (d', n) \<Longrightarrow> db_ok d \<Longrightarrow> db_ok d'"
  by (erule db_insert_cases) (auto simp: db_ok_def list_all_iff keys_unique_snoc)

end
