(* ===== verification/Authority_Store.thy ===== *)
theory Authority_Store
  imports Authority_Db
begin

text \<open>
  \<open>testweaver/authority/store.py\<close>: the validators of the authority records, the metadata
  filter, canonical JSON and sealing, the event record, and the append-only store with
  its transaction boundary. The locale \<open>append_only\<close> states the contract that every
  appending operation of the package keeps; it is interpreted here for events.
\<close>

section \<open>Validators\<close>

definition aerr :: "pystr \<Rightarrow> exc" where
  "aerr msg = AuthorityError msg"

text \<open>\<open>_validate_text\<close> with the pattern \<open>^\S{1,n}$\<close>; 512 for identifiers, 2048 for references.\<close>

definition validate_text :: "nat \<Rightarrow> pystr \<Rightarrow> pystr \<Rightarrow> unit res" where
  "validate_text n value field =
     (if \<not> (1 \<le> length value \<and> length value \<le> n \<and> list_all (\<lambda>c. \<not> isspace c) value)
      then Inl (aerr (field @ lit '' must be a bounded opaque reference''))
      else if list_ex (\<lambda>c. c < 32) value
      then Inl (aerr (field @ lit '' contains a control character''))
      else Inr ())"

definition validate_identifier :: "pystr \<Rightarrow> string \<Rightarrow> unit res" where
  "validate_identifier value field = validate_text 512 value (lit field)"

definition validate_ref :: "pystr \<Rightarrow> string \<Rightarrow> unit res" where
  "validate_ref value field = validate_text 2048 value (lit field)"

definition validate_hash :: "pystr \<Rightarrow> string \<Rightarrow> unit res" where
  "validate_hash value field =
     (if is_sha256 value then Inr () else Inl (aerr (lit field @ lit '' must be a sha256 digest'')))"

definition forbidden_keys :: "string list" where
  "forbidden_keys =
     [''prompt'', ''prompt_text'', ''body'', ''content'', ''secret'', ''api_key'', ''apikey'',
      ''password'', ''authorization'', ''access_token'', ''token'', ''credential'', ''result_text'',
      ''output'', ''message'', ''text'', ''input'', ''arguments'', ''response'']"

definition forbidden_key :: "pystr \<Rightarrow> bool" where
  "forbidden_key k \<longleftrightarrow> casefold k \<in> set (map lit forbidden_keys)"

text \<open>\<open>_safe_value\<close>: the recursion rebuilds the value and stops at the first violation.\<close>

fun safe_value :: "json \<Rightarrow> pystr \<Rightarrow> nat \<Rightarrow> json res"
  and safe_items :: "(pystr \<times> json) list \<Rightarrow> pystr \<Rightarrow> nat \<Rightarrow> (pystr \<times> json) list res"
  and safe_list :: "json list \<Rightarrow> pystr \<Rightarrow> nat \<Rightarrow> json list res" where
  "safe_value v field depth =
     (if depth > 8 then Inl (aerr (field @ lit '' is too deeply nested''))
      else case v of
        JObj kvs \<Rightarrow> bindE (safe_items kvs field depth) (\<lambda>r. Inr (JObj r))
      | JArr xs \<Rightarrow> bindE (safe_list xs field depth) (\<lambda>r. Inr (JArr r))
      | JFloat f \<Rightarrow>
          if f = FNaN \<or> f = FInf \<or> f = FNegInf
          then Inl (aerr (field @ lit '' must not contain NaN or infinity'')) else Inr v
      | JStr s \<Rightarrow>
          if list_ex (\<lambda>c. c < 32) s
          then Inl (aerr (field @ lit '' contains a control character'')) else Inr v
      | _ \<Rightarrow> Inr v)"
| "safe_items [] field depth = Inr []"
| "safe_items ((k, c) # kvs) field depth =
     (if forbidden_key k then Inl (aerr (field @ lit '' contains a forbidden field''))
      else bindE (safe_value c (field @ lit ''.'' @ k) (depth + 1)) (\<lambda>c'.
           bindE (safe_items kvs field depth) (\<lambda>r. Inr ((k, c') # r))))"
| "safe_list [] field depth = Inr []"
| "safe_list (x # xs) field depth =
     bindE (safe_value x (field @ lit ''[]'') (depth + 1)) (\<lambda>x'.
     bindE (safe_list xs field depth) (\<lambda>r. Inr (x' # r)))"

definition safe_metadata :: "(pystr \<times> json) list \<Rightarrow> string \<Rightarrow> json res" where
  "safe_metadata kvs field = safe_value (JObj kvs) (lit field) 0"

definition canonical_json :: "json \<Rightarrow> pystr res" where
  "canonical_json v = bindE (safe_value v (lit ''record'') 0) (\<lambda>w. Inr (dumps w))"

definition safe_hash :: "hasher \<Rightarrow> json \<Rightarrow> string \<Rightarrow> pystr res" where
  "safe_hash H v field = bindE (safe_value v (lit field) 0) (canonical_hash H)"

text \<open>\<open>seal\<close> and \<open>_ensure_sealed\<close> for a dict and the name of its hash field.\<close>

definition seal :: "hasher \<Rightarrow> (pystr \<times> json) list \<Rightarrow> string \<Rightarrow> (pystr \<times> json) list res" where
  "seal H kvs hash_field =
     bindE (safe_hash H (JObj (without_key (lit hash_field) kvs)) ''record'')
       (\<lambda>h. Inr (without_key (lit hash_field) kvs @ [(lit hash_field, JStr h)]))"

definition ensure_sealed :: "hasher \<Rightarrow> (pystr \<times> json) list \<Rightarrow> string \<Rightarrow> unit res" where
  "ensure_sealed H kvs field =
     (case map_of kvs (lit field) of
        None \<Rightarrow> Inl (aerr (lit field @ lit '' is required''))
      | Some v \<Rightarrow>
          (case v of
             JStr h \<Rightarrow>
               bindE (validate_hash h field) (\<lambda>_.
               bindE (safe_hash H (JObj (without_key (lit field) kvs)) ''record'') (\<lambda>h'.
               raise_if (h \<noteq> h') (aerr (lit field @ lit '' does not seal the record''))))
           | _ \<Rightarrow> Inl (aerr (lit field @ lit '' must be a sha256 digest''))))"

section \<open>Events\<close>

record authority_event =
  ev_event_id :: pystr
  ev_aggregate_id :: pystr
  ev_aggregate_type :: pystr
  ev_revision :: int
  ev_event_type :: pystr
  ev_actor :: pystr
  ev_idempotency_key :: pystr
  ev_occurred_at :: pystr
  ev_payload :: "(pystr \<times> json) list"
  ev_request_hash :: pystr
  ev_run_id :: pystr
  ev_campaign_id :: pystr
  ev_trace_id :: pystr
  ev_provenance :: pystr
  ev_content_hash :: pystr

definition event_values :: "authority_event \<Rightarrow> (pystr \<times> json) list" where
  "event_values e =
     [(lit ''event_id'', JStr (ev_event_id e)),
      (lit ''aggregate_id'', JStr (ev_aggregate_id e)),
      (lit ''aggregate_type'', JStr (ev_aggregate_type e)),
      (lit ''revision'', JInt (ev_revision e)),
      (lit ''event_type'', JStr (ev_event_type e)),
      (lit ''actor'', JStr (ev_actor e)),
      (lit ''idempotency_key'', JStr (ev_idempotency_key e)),
      (lit ''occurred_at'', JStr (ev_occurred_at e)),
      (lit ''payload'', JObj (ev_payload e)),
      (lit ''request_hash'', JStr (ev_request_hash e)),
      (lit ''run_id'', JStr (ev_run_id e)),
      (lit ''campaign_id'', JStr (ev_campaign_id e)),
      (lit ''trace_id'', JStr (ev_trace_id e)),
      (lit ''provenance'', JStr (ev_provenance e))]"

definition event_dict :: "authority_event \<Rightarrow> (pystr \<times> json) list" where
  "event_dict e = event_values e @ [(lit ''content_hash'', JStr (ev_content_hash e))]"

definition event_fields :: "authority_event \<Rightarrow> unit res list" where
  "event_fields e =
     [validate_identifier (ev_event_id e) ''event_id'',
      validate_identifier (ev_aggregate_id e) ''aggregate_id'',
      validate_identifier (ev_aggregate_type e) ''aggregate_type'',
      validate_identifier (ev_event_type e) ''event_type'',
      validate_identifier (ev_actor e) ''actor'',
      validate_identifier (ev_idempotency_key e) ''idempotency_key'',
      validate_identifier (ev_occurred_at e) ''occurred_at'',
      validate_identifier (ev_run_id e) ''run_id'',
      validate_identifier (ev_campaign_id e) ''campaign_id'',
      validate_identifier (ev_trace_id e) ''trace_id'',
      validate_identifier (ev_provenance e) ''provenance'',
      raise_if (ev_revision e < 1) (aerr (lit ''revision must be a positive integer'')),
      validate_hash (ev_request_hash e) ''request_hash'']"

definition event_validate :: "hasher \<Rightarrow> authority_event \<Rightarrow> unit res" where
  "event_validate H e = seqE
     (event_fields e
      @ [bindE (safe_metadata (ev_payload e) ''payload'') (\<lambda>_. Inr ()),
         ensure_sealed H (event_dict e) ''content_hash''])"

text \<open>
  \<open>AuthorityEvent.create\<close>: the hash is computed from the values, then the constructor
  validates. The argument carries the values; its own hash field is not read.
\<close>

definition event_create :: "hasher \<Rightarrow> authority_event \<Rightarrow> authority_event res" where
  "event_create H values =
     bindE (safe_hash H (JObj (event_values values)) ''event'') (\<lambda>h.
     bindE (event_validate H (values\<lparr>ev_content_hash := h\<rparr>)) (\<lambda>_.
     Inr (values\<lparr>ev_content_hash := h\<rparr>)))"

section \<open>The store\<close>

text \<open>
  The f-string SELECTs read the rows of a table whose column equals the parameter; the
  INSERT goes through \<open>_write\<close>, which commits or rolls back when asked to.
\<close>

definition select_where :: "conn \<Rightarrow> string \<Rightarrow> string \<Rightarrow> sqlval \<Rightarrow> row list" where
  "select_where c t k v = filter (\<lambda>r. col r k = v \<and> v \<noteq> SNull) (table c t)"

definition write_insert :: "string \<Rightarrow> row \<Rightarrow> bool \<Rightarrow> nat act" where
  "write_insert t r do_commit c =
     (case db_insert t r (live c) of
        Inl e \<Rightarrow> (Inl e, if do_commit then rollback c else c)
      | Inr (d, n) \<Rightarrow>
          (Inr n, if do_commit then commit (c\<lparr>live := d\<rparr>) else c\<lparr>live := d\<rparr>))"

definition is_column_name :: "string \<Rightarrow> bool" where
  "is_column_name s \<longleftrightarrow> s \<noteq> [] \<and>
     (let cs = lit s in (is_lower_ascii (hd cs) \<or> hd cs = 95)
        \<and> list_all (\<lambda>c. is_lower_ascii c \<or> is_digit_ascii c \<or> c = 95) (tl cs))"

record record_insert =
  ri_table :: string
  ri_identity_column :: string
  ri_identity_value :: pystr
  ri_content_hash :: pystr
  ri_columns :: "string list"
  ri_values :: "sqlval list"

definition insert_row :: "string list \<Rightarrow> sqlval list \<Rightarrow> row" where
  "insert_row cols vals = zip (map lit cols) vals"

definition insert_once ::
  "string \<Rightarrow> string \<Rightarrow> pystr \<Rightarrow> string \<Rightarrow> pystr \<Rightarrow> string list \<Rightarrow> sqlval list \<Rightarrow> bool \<Rightarrow> bool act" where
  "insert_once t id_column id_value hash_column hash_value cols vals do_commit =
     bindS (liftS (seqE
       [raise_if (t \<notin> set table_names) (aerr (lit ''writes are limited to authority tables'')),
        raise_if (\<not> is_column_name id_column \<or> \<not> is_column_name hash_column)
          (aerr (lit ''invalid authority identity column'')),
        raise_if (cols = [] \<or> length cols \<noteq> length vals \<or> \<not> distinct cols)
          (aerr (lit ''authority insert columns and values do not match'')),
        raise_if (\<not> list_all is_column_name cols) (aerr (lit ''invalid authority insert column'')),
        raise_if (id_column \<notin> set cols \<or> hash_column \<notin> set cols)
          (aerr (lit ''authority identity and hash columns must be inserted'')),
        validate_ref id_value id_column,
        validate_hash hash_value hash_column])) (\<lambda>_.
     bindS (getS (\<lambda>c. select_where c t id_column (SText id_value))) (\<lambda>existing.
     case existing of
       r # _ \<Rightarrow>
         if col r hash_column = SText hash_value then returnS False
         else raiseS (AuthorityConflict (lit id_column @ lit '' is already bound to different content''))
     | [] \<Rightarrow>
         bindS (write_insert t (insert_row cols vals) do_commit) (\<lambda>inserted.
         if inserted \<noteq> 0 then returnS True
         else bindS (getS (\<lambda>c. select_where c t id_column (SText id_value))) (\<lambda>again.
           case again of
             r # _ \<Rightarrow>
               if col r hash_column = SText hash_value then returnS False
               else raiseS (AuthorityConflict (lit id_column @ lit '' is already bound to different content''))
           | [] \<Rightarrow>
               raiseS (AuthorityConflict (lit id_column @ lit '' is already bound to different content''))))))"

text \<open>
  \<open>append_event\<close>. The last revision of the aggregate is the first row of the descending
  ORDER BY.
\<close>

definition latest_revision :: "row list \<Rightarrow> int option" where
  "latest_revision rs =
     (case rs of [] \<Rightarrow> None | _ \<Rightarrow> Some (Max (set (map (\<lambda>r. sql_int (col r ''revision'')) rs))))"

definition event_columns :: "string list" where
  "event_columns = [''event_id'', ''aggregate_id'', ''aggregate_type'', ''revision'', ''event_type'',
     ''actor'', ''idempotency_key'', ''occurred_at'', ''payload_json'', ''request_hash'', ''run_id'',
     ''campaign_id'', ''trace_id'', ''provenance'', ''content_hash'']"

definition event_sql :: "authority_event \<Rightarrow> pystr \<Rightarrow> sqlval list" where
  "event_sql e payload_json =
     [SText (ev_event_id e), SText (ev_aggregate_id e), SText (ev_aggregate_type e),
      SInt (ev_revision e), SText (ev_event_type e), SText (ev_actor e),
      SText (ev_idempotency_key e), SText (ev_occurred_at e), SText payload_json,
      SText (ev_request_hash e), SText (ev_run_id e), SText (ev_campaign_id e),
      SText (ev_trace_id e), SText (ev_provenance e), SText (ev_content_hash e)]"

definition bound_to :: "conn \<Rightarrow> string \<Rightarrow> string \<Rightarrow> pystr \<Rightarrow> row option" where
  "bound_to c t k v = (case select_where c t k (SText v) of [] \<Rightarrow> None | r # _ \<Rightarrow> Some r)"

definition append_event :: "hasher \<Rightarrow> authority_event \<Rightarrow> bool act" where
  "append_event H e =
     bindS (liftS (event_validate H e)) (\<lambda>_.
     bindS (getS (\<lambda>c. bound_to c ''tw_authority_events'' ''event_id'' (ev_event_id e))) (\<lambda>existing.
     case existing of
       Some r \<Rightarrow>
         if col r ''content_hash'' = SText (ev_content_hash e) then returnS False
         else raiseS (AuthorityConflict (lit ''event_id is already bound to different content''))
     | None \<Rightarrow>
     bindS (getS (\<lambda>c. bound_to c ''tw_authority_events'' ''idempotency_key'' (ev_idempotency_key e)))
       (\<lambda>existing_idempotency.
     case existing_idempotency of
       Some r \<Rightarrow>
         if col r ''content_hash'' = SText (ev_content_hash e) then returnS False
         else raiseS (AuthorityConflict (lit ''idempotency_key is already bound to different content''))
     | None \<Rightarrow>
     bindS (getS (\<lambda>c. latest_revision
              (select_where c ''tw_authority_events'' ''aggregate_id'' (SText (ev_aggregate_id e)))))
       (\<lambda>existing_revision.
     bindS (liftS (case existing_revision of
         Some n \<Rightarrow> raise_if (ev_revision e \<noteq> n + 1)
                     (aerr (lit ''event revision must advance the aggregate by one''))
       | None \<Rightarrow> raise_if (ev_revision e \<noteq> 1)
                     (aerr (lit ''the first event revision must be one'')))) (\<lambda>_.
     bindS (liftS (canonical_json (JObj (ev_payload e)))) (\<lambda>payload_json.
     insert_once ''tw_authority_events'' ''idempotency_key'' (ev_idempotency_key e)
       ''content_hash'' (ev_content_hash e) event_columns (event_sql e payload_json) True))))))"

text \<open>\<open>append_records\<close>: the whole batch is validated first, then inserted in one transaction.\<close>

definition validate_insert :: "record_insert \<Rightarrow> unit res" where
  "validate_insert r = seqE
     [raise_if (ri_table r \<notin> set table_names) (aerr (lit ''writes are limited to authority tables'')),
      raise_if (\<not> is_column_name (ri_identity_column r)) (aerr (lit ''invalid authority identity column'')),
      raise_if (ri_columns r = [] \<or> length (ri_columns r) \<noteq> length (ri_values r))
        (aerr (lit ''authority insert columns and values do not match'')),
      raise_if (\<not> distinct (ri_columns r) \<or> \<not> list_all is_column_name (ri_columns r))
        (aerr (lit ''invalid authority insert column'')),
      raise_if (ri_identity_column r \<notin> set (ri_columns r) \<or> ''content_hash'' \<notin> set (ri_columns r))
        (aerr (lit ''authority identity and hash columns must be inserted'')),
      validate_ref (ri_identity_value r) (ri_identity_column r),
      validate_hash (ri_content_hash r) ''content_hash'']"

definition insert_record :: "record_insert \<Rightarrow> bool act" where
  "insert_record r = insert_once (ri_table r) (ri_identity_column r) (ri_identity_value r)
     ''content_hash'' (ri_content_hash r) (ri_columns r) (ri_values r) False"

primrec insert_batch :: "record_insert list \<Rightarrow> bool list act" where
  "insert_batch [] = returnS []"
| "insert_batch (r # rs) =
     bindS (insert_record r) (\<lambda>b. bindS (insert_batch rs) (\<lambda>bs. returnS (b # bs)))"

definition transaction :: "'a act \<Rightarrow> 'a act" where
  "transaction m c = (case m c of
     (Inl e, c') \<Rightarrow> (Inl e, rollback c')
   | (Inr x, c') \<Rightarrow> (Inr x, commit c'))"

definition append_records :: "record_insert list \<Rightarrow> bool list act" where
  "append_records batch =
     (if batch = [] then returnS []
      else bindS (liftS (seqE (map validate_insert batch))) (\<lambda>_. transaction (insert_batch batch)))"

definition append_record :: "record_insert \<Rightarrow> bool act" where
  "append_record r = bindS (append_records [r]) (\<lambda>bs. returnS (hd bs))"

section \<open>Reference lists\<close>

text \<open>
  The lists of evidence references of \<open>capsule.py\<close> (\<open>_refs\<close>) and \<open>oracle.py\<close>
  (\<open>_evidence_refs\<close>): every item is a dict of exactly a reference and a content hash, and
  the list is not empty.
\<close>

definition has_exactly :: "string list \<Rightarrow> (pystr \<times> json) list \<Rightarrow> bool" where
  "has_exactly ks item \<longleftrightarrow>
     list_all (\<lambda>kv. fst kv \<in> set (map lit ks)) item \<and> list_all (\<lambda>k. map_of item (lit k) \<noteq> None) ks"

definition ref_of_json :: "json \<Rightarrow> pystr \<Rightarrow> pystr res" where
  "ref_of_json v field = (case v of
     JStr s \<Rightarrow> bindE (validate_text 2048 s field) (\<lambda>_. Inr s)
   | _ \<Rightarrow> Inl (aerr (field @ lit '' must be a bounded opaque reference'')))"

definition hash_of_json :: "json \<Rightarrow> pystr \<Rightarrow> pystr res" where
  "hash_of_json v field = (case v of
     JStr s \<Rightarrow> (if is_sha256 s then Inr s else Inl (aerr (field @ lit '' must be a sha256 digest'')))
   | _ \<Rightarrow> Inl (aerr (field @ lit '' must be a sha256 digest'')))"

definition check_ref_item :: "pystr \<Rightarrow> nat \<Rightarrow> (pystr \<times> json) list \<Rightarrow> (pystr \<times> pystr) res" where
  "check_ref_item field index item =
     (let at = field @ lit ''['' @ nat_str index @ lit '']'' in
      if \<not> has_exactly [''ref'', ''content_hash''] item then Inl (aerr (at @ lit '' has an invalid shape''))
      else bindE (ref_of_json (the (map_of item (lit ''ref''))) (at @ lit ''.ref'')) (\<lambda>r.
           bindE (hash_of_json (the (map_of item (lit ''content_hash''))) (at @ lit ''.content_hash'')) (\<lambda>h.
           Inr (r, h))))"

fun check_ref_items :: "pystr \<Rightarrow> nat \<Rightarrow> (pystr \<times> json) list list \<Rightarrow> (pystr \<times> pystr) list res" where
  "check_ref_items field index [] = Inr []"
| "check_ref_items field index (item # refs) =
     bindE (check_ref_item field index item) (\<lambda>p.
     bindE (check_ref_items field (Suc index) refs) (\<lambda>ps. Inr (p # ps)))"

definition check_refs :: "string \<Rightarrow> (pystr \<times> json) list list \<Rightarrow> (pystr \<times> pystr) list res" where
  "check_refs field refs =
     bindE (check_ref_items (lit field) 0 refs) (\<lambda>result.
     if result = [] then Inl (aerr (lit field @ lit '' must not be empty'')) else Inr result)"

section \<open>Lemmas: validators and metadata\<close>

lemma validate_text_ok [res_simps]:
  "validate_text n v f = Inr u \<longleftrightarrow>
     v \<noteq> [] \<and> length v \<le> n \<and> list_all (\<lambda>c. \<not> isspace c \<and> 32 \<le> c) v"
  by (cases v) (auto simp: validate_text_def list_all_iff list_ex_iff not_le not_less)

lemma validate_identifier_ref: "validate_identifier v f = Inr u \<Longrightarrow> validate_ref v f' = Inr ()"
  by (auto simp: validate_identifier_def validate_ref_def res_simps)

lemma validate_hash_ok [res_simps]: "validate_hash v f = Inr u \<longleftrightarrow> is_sha256 v"
  by (simp add: validate_hash_def)

declare safe_value.simps [simp del]

text \<open>
  The filter returns its argument or raises: it never rewrites a value. Which of the two
  happens is decided by \<open>safe_ok\<close>, which does not depend on the names in the messages.
\<close>

fun safe_ok :: "json \<Rightarrow> nat \<Rightarrow> bool" where
  "safe_ok (JObj kvs) d =
     (d \<le> 8 \<and> (\<forall>kv\<in>set kvs. \<not> forbidden_key (fst kv) \<and> safe_ok (snd kv) (d + 1)))"
| "safe_ok (JArr xs) d = (d \<le> 8 \<and> (\<forall>x\<in>set xs. safe_ok x (d + 1)))"
| "safe_ok (JFloat f) d = (d \<le> 8 \<and> f \<noteq> FNaN \<and> f \<noteq> FInf \<and> f \<noteq> FNegInf)"
| "safe_ok (JStr s) d = (d \<le> 8 \<and> list_all (\<lambda>c. 32 \<le> c) s)"
| "safe_ok _ d = (d \<le> 8)"

lemma safe_value_iff:
  "safe_value v field depth = Inr r \<longleftrightarrow> r = v \<and> safe_ok v depth"
  "safe_items kvs field depth = Inr rs \<longleftrightarrow>
     rs = kvs \<and> (\<forall>kv\<in>set kvs. \<not> forbidden_key (fst kv) \<and> safe_ok (snd kv) (depth + 1))"
  "safe_list xs field depth = Inr ys \<longleftrightarrow> ys = xs \<and> (\<forall>x\<in>set xs. safe_ok x (depth + 1))"
proof (induction v field depth and kvs field depth and xs field depth
    arbitrary: r and rs and ys rule: safe_value_safe_items_safe_list.induct)
  case (1 v field depth)
  then show ?case
    unfolding safe_value.simps[of v field depth]
    by (cases v) (auto simp: bindE_ok list_all_iff list_ex_iff not_le)
qed (auto simp: bindE_ok)

lemma safe_value_same: "safe_value v field depth = Inr r \<Longrightarrow> r = v"
  by (simp add: safe_value_iff)

lemma safe_value_eq: "safe_ok v depth \<Longrightarrow> safe_value v field depth = Inr v"
  by (simp add: safe_value_iff)

lemma safe_ok_antimono: "safe_ok v d \<Longrightarrow> d' \<le> d \<Longrightarrow> safe_ok v d'"
  by (induction v d arbitrary: d' rule: safe_ok.induct) auto

lemma safe_ok_finite: "safe_ok v d \<Longrightarrow> \<not> nonfinite v"
  by (induction v d rule: safe_ok.induct) auto

lemma safe_hash_ok: "safe_hash H v f = Inr h \<longleftrightarrow> safe_ok v 0 \<and> canonical_hash H v = Inr h"
  by (auto simp: safe_hash_def bindE_ok safe_value_iff)

lemma safe_hash_eval:
  "safe_ok v 0 \<Longrightarrow> encodable_json v \<Longrightarrow> safe_hash H v f = Inr (lit ''sha256:'' @ H (dumps v))"
  by (simp add: safe_hash_ok canonical_hash_total safe_ok_finite)

lemma canonical_json_ok: "canonical_json v = Inr t \<longleftrightarrow> safe_ok v 0 \<and> t = dumps v"
  by (auto simp: canonical_json_def bindE_ok safe_value_iff)

lemma safe_metadata_ok: "safe_metadata kvs f = Inr r \<longleftrightarrow> r = JObj kvs \<and> safe_ok (JObj kvs) 0"
  by (simp add: safe_metadata_def safe_value_iff del: safe_ok.simps)

lemma ensure_sealed_ok:
  "ensure_sealed H kvs f = Inr u \<longleftrightarrow>
     (\<exists>h. map_of kvs (lit f) = Some (JStr h) \<and> is_sha256 h
        \<and> safe_ok (JObj (without_key (lit f) kvs)) 0
        \<and> canonical_hash H (JObj (without_key (lit f) kvs)) = Inr h)"
  by (auto simp: ensure_sealed_def safe_hash_ok res_simps split: option.splits json.splits
      simp del: safe_ok.simps)

text \<open>A dict whose last item is its hash field, as every record here serialises itself.\<close>

lemma ensure_sealed_snoc:
  assumes "lit f \<notin> fst ` set kvs"
  shows "ensure_sealed H (kvs @ [(lit f, JStr h)]) f = Inr u \<longleftrightarrow>
           is_sha256 h \<and> safe_ok (JObj kvs) 0 \<and> canonical_hash H (JObj kvs) = Inr h"
proof -
  have w: "without_key (lit f) kvs = kvs"
    using assms unfolding without_key_def by (intro filter_True) (auto simp: image_iff)
  have "map_of kvs (lit f) = None" using assms by (simp add: map_of_eq_None_iff)
  then have "map_of (kvs @ [(lit f, JStr h)]) (lit f) = Some (JStr h)"
    by (simp add: map_add_def)
  with w show ?thesis by (auto simp: ensure_sealed_ok simp del: safe_ok.simps)
qed

lemma seal_ensures:
  assumes "digest_ok H" and "seal H kvs f = Inr d"
  shows "ensure_sealed H d f = Inr ()"
proof -
  from assms(2) obtain h where h: "safe_hash H (JObj (without_key (lit f) kvs)) ''record'' = Inr h"
    and d: "d = without_key (lit f) kvs @ [(lit f, JStr h)]"
    by (auto simp: seal_def)
  have "lit f \<notin> fst ` set (without_key (lit f) kvs)" by (auto simp: without_key_def)
  moreover have "is_sha256 h"
    using assms(1) h canonical_hash_is_sha256 by (auto simp: safe_hash_ok)
  ultimately show ?thesis using h by (simp add: d ensure_sealed_snoc safe_hash_ok del: safe_ok.simps)
qed

section \<open>Lemmas: inserting\<close>

lemma select_where_mem: "r \<in> set (select_where c t k v) \<longleftrightarrow> r \<in> set (table c t) \<and> col r k = v \<and> v \<noteq> SNull"
  by (auto simp: select_where_def)

text \<open>
  The three ways an insertion ends on a connection without pending writes, or inside a
  transaction: it raises and leaves the connection alone; it finds the same fact already
  stored; or it adds exactly its row, which clashes with no stored row.
\<close>

lemma write_insert_cases:
  assumes "write_insert t r dc c = (res, c')" and "dc \<longrightarrow> live c = durable c"
  obtains e where "res = Inl e" and "c' = c"
  | "res = Inr 0" and "c' = c"
  | "res = Inr 1" and "live c' = (live c)(lit t := table c t @ [r])"
    and "durable c' = (if dc then live c' else durable c)"
    and "\<not> key_conflict t r (table c t)" and "t \<in> set table_names"
proof (cases "db_insert t r (live c)")
  case (Inl e)
  with assms show ?thesis by (cases c) (auto simp: write_insert_def rollback_def intro: that(1))
next
  case (Inr p)
  then obtain d n where p: "db_insert t r (live c) = Inr (d, n)" by (cases p) auto
  from p show ?thesis
  proof (cases rule: db_insert_cases)
    case 1
    with p assms show ?thesis
      by (cases c) (auto simp: write_insert_def commit_def intro: that(2))
  next
    case 2
    with p assms show ?thesis
      by (intro that(3)) (auto simp: write_insert_def table_def split: if_splits)
  qed
qed

lemma insert_once_cases:
  assumes io: "insert_once t idc idv hc hv cols vals dc c = (res, c')"
    and sync: "dc \<longrightarrow> live c = durable c"
  obtains (raised) e where "res = Inl e" and "c' = c"
  | (known) r where "res = Inr False" and "c' = c" and "r \<in> set (table c t)"
    and "col r idc = SText idv" and "col r hc = SText hv"
  | (stored) "res = Inr True" and "live c' = (live c)(lit t := table c t @ [insert_row cols vals])"
    and "durable c' = (if dc then live c' else durable c)"
    and "\<not> key_conflict t (insert_row cols vals) (table c t)" and "t \<in> set table_names"
    and "select_where c t idc (SText idv) = []"
  using io unfolding insert_once_def
proof (cases rule: bindS_cases)
  case raised
  then show thesis by (intro that(1)) auto
next
  case (returned u c1)
  then have c1: "c1 = c" by auto
  show thesis
  proof (cases "select_where c t idc (SText idv)")
    case (Cons r rs)
    then have "r \<in> set (table c t)" "col r idc = SText idv"
      using select_where_mem[of r c t idc "SText idv"] by auto
    with returned(2) Cons c1 show thesis
      by (cases "col r hc = SText hv") (auto intro: that)
  next
    case Nil
    with returned(2) c1 have rest: "bindS (write_insert t (insert_row cols vals) dc) (\<lambda>inserted.
         if inserted \<noteq> 0 then returnS True
         else bindS (getS (\<lambda>c. select_where c t idc (SText idv))) (\<lambda>again.
           case again of
             r # _ \<Rightarrow>
               if col r hc = SText hv then returnS False
               else raiseS (AuthorityConflict (lit idc @ lit '' is already bound to different content''))
           | [] \<Rightarrow>
               raiseS (AuthorityConflict (lit idc @ lit '' is already bound to different content'')))) c
        = (res, c')"
      by simp
    obtain w c2 where w: "write_insert t (insert_row cols vals) dc c = (w, c2)" by fastforce
    from w sync show thesis
    proof (cases rule: write_insert_cases)
      case (1 e)
      with rest w show thesis by (intro that(1)) (auto simp: bindS_def)
    next
      case 2
      with rest w Nil show thesis by (intro that(1)) (auto simp: bindS_def)
    next
      case 3
      with rest w Nil show thesis by (intro that(3)) (auto simp: bindS_def)
    qed
  qed
qed

section \<open>The append-only contract\<close>

text \<open>A committed insertion of one row, and a run of appends that ignores their results.\<close>

definition stored :: "string \<Rightarrow> row \<Rightarrow> conn \<Rightarrow> conn" where
  "stored t r c = commit (c\<lparr>live := (live c)(lit t := table c t @ [r])\<rparr>)"

primrec run_appends :: "('r \<Rightarrow> bool act) \<Rightarrow> 'r list \<Rightarrow> conn \<Rightarrow> conn" where
  "run_appends put [] c = c"
| "run_appends put (r # rs) c = run_appends put rs (snd (put r c))"

lemma stored_table [simp]:
  "table (stored t r c) t' = (if lit t' = lit t then table c t @ [r] else table c t')"
  by (simp add: stored_def table_def)

lemma stored_ok:
  "conn_ok c \<Longrightarrow> \<not> key_conflict t r (table c t) \<Longrightarrow> conn_ok (stored t r c)"
  by (auto simp: conn_ok_def stored_def db_ok_def list_all_iff keys_unique_snoc table_def)

lemma insert_once_stored:
  assumes "insert_once t idc idv hc hv cols vals True c = (Inr True, c')" and "conn_ok c"
  shows "c' = stored t (insert_row cols vals) c"
    and "\<not> key_conflict t (insert_row cols vals) (table c t)"
proof -
  have "True \<longrightarrow> live c = durable c" using assms(2) by (simp add: conn_ok_def)
  from assms(1) this have c': "live c' = (live c)(lit t := table c t @ [insert_row cols vals])"
      "durable c' = live c'" "\<not> key_conflict t (insert_row cols vals) (table c t)"
    by (cases rule: insert_once_cases; simp)+
  then show "c' = stored t (insert_row cols vals) c"
    by (cases c') (simp add: stored_def commit_def)
  show "\<not> key_conflict t (insert_row cols vals) (table c t)" by (rule c'(3))
qed

text \<open>
  The contract of every appending operation: it raises or finds its fact already stored
  and leaves the connection alone, or it commits exactly the row of its record; a record
  whose row is stored is recognised.
\<close>

locale append_only =
  fixes put :: "'r \<Rightarrow> bool act"
    and t :: string
    and row_of :: "'r \<Rightarrow> row"
    and valid :: "'r \<Rightarrow> bool"
  assumes raised_unchanged: "conn_ok c \<Longrightarrow> put r c = (Inl e, c') \<Longrightarrow> c' = c"
    and known_unchanged: "conn_ok c \<Longrightarrow> put r c = (Inr False, c') \<Longrightarrow> c' = c"
    and appended_stored: "conn_ok c \<Longrightarrow> put r c = (Inr True, c') \<Longrightarrow>
          c' = stored t (row_of r) c \<and> \<not> key_conflict t (row_of r) (table c t)"
    and accepted_valid: "put r c = (Inr b, c') \<Longrightarrow> valid r"
    and stored_known: "conn_ok c \<Longrightarrow> valid r \<Longrightarrow> row_of r \<in> set (table c t) \<Longrightarrow> put r c = (Inr False, c)"
begin

lemma append_cases [consumes 1]:
  assumes "conn_ok c"
  obtains (same) "snd (put r c) = c" and "fst (put r c) \<noteq> Inr True"
  | (added) "snd (put r c) = stored t (row_of r) c" and "fst (put r c) = Inr True"
    and "\<not> key_conflict t (row_of r) (table c t)" and "valid r"
proof -
  obtain res c' where a: "put r c = (res, c')" by fastforce
  consider e where "res = Inl e" | "res = Inr False" | "res = Inr True"
    by (cases res) auto
  then show thesis
  proof cases
    case 1 with a raised_unchanged[OF assms] show thesis by (intro same) auto
  next
    case 2 with a known_unchanged[OF assms] show thesis by (intro same) auto
  next
    case 3 with a appended_stored[OF assms] accepted_valid show thesis by (intro added) auto
  qed
qed

lemma append_ok:
  assumes "conn_ok c"
  shows "conn_ok (snd (put r c))"
  using assms by (cases rule: append_cases[where r = r]) (use assms in \<open>simp_all add: stored_ok\<close>)

lemma append_extends:
  assumes "conn_ok c"
  shows "\<exists>new. table (snd (put r c)) t = table c t @ new"
  using assms by (cases rule: append_cases[where r = r]) simp_all

lemma append_other_table:
  assumes "conn_ok c" and "t' \<noteq> t"
  shows "table (snd (put r c)) t' = table c t'"
  using assms(1) by (cases rule: append_cases[where r = r]) (simp_all add: assms(2))

lemma append_idempotent:
  assumes "conn_ok c" and "put r c = (Inr True, c')"
  shows "put r c' = (Inr False, c')"
proof -
  from appended_stored[OF assms] have "conn_ok c'" "row_of r \<in> set (table c' t)"
    using assms(1) by (auto simp: stored_ok)
  with accepted_valid[OF assms(2)] show ?thesis by (intro stored_known)
qed

lemma run_ok: "conn_ok c \<Longrightarrow> conn_ok (run_appends put rs c)"
  by (induction rs arbitrary: c) (simp_all add: append_ok)

lemma run_extends: "conn_ok c \<Longrightarrow> \<exists>new. table (run_appends put rs c) t = table c t @ new"
proof (induction rs arbitrary: c)
  case (Cons r rs)
  from append_extends[OF Cons.prems, of r] obtain n1
    where "table (snd (put r c)) t = table c t @ n1" by blast
  with Cons.IH[OF append_ok[OF Cons.prems, of r]] show ?case by auto
qed simp

lemma run_rows:
  "conn_ok c \<Longrightarrow> x \<in> set (table (run_appends put rs c) t) \<Longrightarrow>
     x \<in> set (table c t) \<or> (\<exists>r\<in>set rs. valid r \<and> x = row_of r)"
proof (induction rs arbitrary: c)
  case (Cons r rs)
  have ok: "conn_ok (snd (put r c))" by (rule append_ok[OF Cons.prems(1)])
  show ?case
    using Cons.prems(1)
  proof (cases rule: append_cases[where r = r])
    case same with Cons.IH[OF ok] Cons.prems show ?thesis by auto
  next
    case added with Cons.IH[OF ok] Cons.prems show ?thesis by auto
  qed
qed simp

lemma run_append: "run_appends put (rs @ rs') c = run_appends put rs' (run_appends put rs c)"
  by (induction rs arbitrary: c) simp_all

lemma run_new_rows:
  "conn_ok c \<Longrightarrow> \<exists>new. table (run_appends put rs c) t = table c t @ new
     \<and> set new \<subseteq> row_of ` {r \<in> set rs. valid r}"
proof (induction rs arbitrary: c)
  case (Cons r rs)
  from Cons.IH[OF append_ok[OF Cons.prems, of r]] obtain new
    where new: "table (run_appends put rs (snd (put r c))) t = table (snd (put r c)) t @ new"
      "set new \<subseteq> row_of ` {r \<in> set rs. valid r}" by blast
  from Cons.prems show ?case
    by (cases rule: append_cases[where r = r])
      (use new in \<open>auto intro: exI[of _ new] exI[of _ "row_of r # new"]\<close>)
qed simp

lemma run_grows:
  assumes "conn_ok c" and "t \<in> set table_names"
  shows "\<exists>new. table (run_appends put (rs @ rs') c) t = table (run_appends put rs c) t @ new
     \<and> set new \<subseteq> row_of ` {r \<in> set rs'. valid r}
     \<and> keys_unique t (table (run_appends put rs c) t @ new)"
proof -
  from run_new_rows[OF run_ok[OF assms(1)], of rs' rs] obtain new
    where new: "table (run_appends put (rs @ rs') c) t = table (run_appends put rs c) t @ new"
      "set new \<subseteq> row_of ` {r \<in> set rs'. valid r}" by (auto simp: run_append)
  moreover have "keys_unique t (table (run_appends put (rs @ rs') c) t)"
    by (rule conn_ok_keys[OF run_ok[OF assms(1)] assms(2)])
  ultimately show ?thesis by auto
qed

text \<open>Once stored, a record stays known whatever is appended afterwards.\<close>

lemma once_stored_known:
  assumes "conn_ok c" and "put r c = (Inr True, c')"
  shows "put r (run_appends put rs c') = (Inr False, run_appends put rs c')"
proof -
  from appended_stored[OF assms] have ok: "conn_ok c'" and mem: "row_of r \<in> set (table c' t)"
    using assms(1) by (auto simp: stored_ok)
  from run_extends[OF ok, of rs] mem have "row_of r \<in> set (table (run_appends put rs c') t)"
    by auto
  with run_ok[OF ok] accepted_valid[OF assms(2)] show ?thesis by (intro stored_known)
qed

text \<open>An invariant of the table that every accepted record keeps holds after every run.\<close>

lemma run_invariant:
  assumes "conn_ok c" and "P (table c t)"
    and step: "\<And>c r c'. conn_ok c \<Longrightarrow> P (table c t) \<Longrightarrow> put r c = (Inr True, c') \<Longrightarrow> P (table c' t)"
  shows "P (table (run_appends put rs c) t)"
  using assms(1,2)
proof (induction rs arbitrary: c)
  case (Cons r rs)
  have ok: "conn_ok (snd (put r c))" by (rule append_ok[OF Cons.prems(1)])
  have "P (table (snd (put r c)) t)"
    using Cons.prems(1)
  proof (cases rule: append_cases[where r = r])
    case same with Cons.prems show ?thesis by simp
  next
    case added with Cons.prems step[of c r "snd (put r c)"] show ?thesis
      by (metis prod.collapse)
  qed
  with Cons.IH[OF ok] show ?case by simp
qed simp

end

section \<open>Events are append-only\<close>

definition event_row :: "authority_event \<Rightarrow> row" where
  "event_row e = insert_row event_columns (event_sql e (dumps (JObj (ev_payload e))))"

lemma event_row_cols [simp]:
  "col (event_row e) ''event_id'' = SText (ev_event_id e)"
  "col (event_row e) ''aggregate_id'' = SText (ev_aggregate_id e)"
  "col (event_row e) ''revision'' = SInt (ev_revision e)"
  "col (event_row e) ''idempotency_key'' = SText (ev_idempotency_key e)"
  "col (event_row e) ''content_hash'' = SText (ev_content_hash e)"
  "col (event_row e) ''run_id'' = SText (ev_run_id e)"
  by (simp_all add: event_row_def insert_row_def event_columns_def event_sql_def col_def)

lemma bound_to_mem: "bound_to c t k v = Some r \<Longrightarrow> r \<in> set (table c t) \<and> col r k = SText v"
  by (auto simp: bound_to_def select_where_def split: list.splits dest!: filter_eq_ConsD)

lemma bound_to_None: "bound_to c t k v = None \<Longrightarrow> r \<in> set (table c t) \<Longrightarrow> col r k \<noteq> SText v"
  by (auto simp: bound_to_def select_where_def filter_empty_conv split: list.splits)

text \<open>A row that agrees with a stored row on a one-column key is the first one found.\<close>

lemma bound_to_unique:
  assumes "keys_unique t (table c t)" and "[k] \<in> set (keys (schema_of t))"
    and "r \<in> set (table c t)" and "col r k = SText v"
  shows "bound_to c t k v = Some r"
proof -
  from assms(3,4) have "bound_to c t k v \<noteq> None" using bound_to_None by fastforce
  then obtain r' where r': "bound_to c t k v = Some r'" by blast
  from bound_to_mem[OF this] have "r' \<in> set (table c t)" "col r' k = SText v" by auto
  then have "same_key [k] r r'" using assms(4) by (simp add: same_key_def)
  then have "r = r'"
    using keys_unique_same[OF assms(1,3) \<open>r' \<in> set (table c t)\<close> assms(2)] by blast
  with r' show ?thesis by simp
qed

lemma append_event_new:
  assumes "append_event H e c = (res, c')" and "event_validate H e = Inr ()"
    and "bound_to c ''tw_authority_events'' ''event_id'' (ev_event_id e) = None"
    and "bound_to c ''tw_authority_events'' ''idempotency_key'' (ev_idempotency_key e) = None"
    and "(case latest_revision (select_where c ''tw_authority_events'' ''aggregate_id''
              (SText (ev_aggregate_id e))) of Some n \<Rightarrow> ev_revision e = n + 1 | None \<Rightarrow> ev_revision e = 1)"
  shows "insert_once ''tw_authority_events'' ''idempotency_key'' (ev_idempotency_key e)
       ''content_hash'' (ev_content_hash e) event_columns
       (event_sql e (dumps (JObj (ev_payload e)))) True c = (res, c')"
proof -
  from assms(2) have "canonical_json (JObj (ev_payload e)) = Inr (dumps (JObj (ev_payload e)))"
    by (auto simp: event_validate_def event_fields_def bindE_ok safe_metadata_ok canonical_json_ok simp del: safe_ok.simps)
  with assms show ?thesis
    by (simp add: append_event_def raise_if_eval split: option.splits)
qed

lemma append_event_cases:
  assumes "append_event H e c = (res, c')"
  obtains (raised) x where "res = Inl x" and "c' = c"
  | (known) r where "res = Inr False" and "c' = c" and "event_validate H e = Inr ()"
    and "r \<in> set (table c ''tw_authority_events'')" and "col r ''content_hash'' = SText (ev_content_hash e)"
  | (insert) "event_validate H e = Inr ()"
    and "(case latest_revision (select_where c ''tw_authority_events'' ''aggregate_id''
              (SText (ev_aggregate_id e))) of Some n \<Rightarrow> ev_revision e = n + 1 | None \<Rightarrow> ev_revision e = 1)"
    and "insert_once ''tw_authority_events'' ''idempotency_key'' (ev_idempotency_key e)
       ''content_hash'' (ev_content_hash e) event_columns
       (event_sql e (dumps (JObj (ev_payload e)))) True c = (res, c')"
proof (cases "event_validate H e")
  case (Inl x)
  with assms show thesis by (intro raised) (auto simp: append_event_def)
next
  case (Inr u)
  then have v: "event_validate H e = Inr ()" by simp
  let ?t = "''tw_authority_events''"
  let ?id = "bound_to c ?t ''event_id'' (ev_event_id e)"
  let ?ik = "bound_to c ?t ''idempotency_key'' (ev_idempotency_key e)"
  let ?rev = "latest_revision (select_where c ?t ''aggregate_id'' (SText (ev_aggregate_id e)))"
  consider (id) r where "?id = Some r" | (ik) r where "?id = None" "?ik = Some r"
    | (bad) "?id = None" "?ik = None"
        "\<not> (case ?rev of Some n \<Rightarrow> ev_revision e = n + 1 | None \<Rightarrow> ev_revision e = 1)"
    | (new) "?id = None" "?ik = None"
        "case ?rev of Some n \<Rightarrow> ev_revision e = n + 1 | None \<Rightarrow> ev_revision e = 1"
    by fastforce
  then show thesis
  proof cases
    case (id r)
    with assms v bound_to_mem[OF id] show thesis
      by (cases "col r ''content_hash'' = SText (ev_content_hash e)")
        (auto simp: append_event_def intro: that)
  next
    case (ik r)
    with assms v bound_to_mem[OF ik(2)] show thesis
      by (cases "col r ''content_hash'' = SText (ev_content_hash e)")
        (auto simp: append_event_def intro: that)
  next
    case bad
    with assms v show thesis
      by (auto simp: append_event_def raise_if_eval intro: raised split: option.splits)
  next
    case new
    from append_event_new[OF assms v new] new(3) v show thesis by (intro insert) auto
  qed
qed

interpretation ev: append_only "append_event H" "''tw_authority_events''" event_row
  "\<lambda>e. event_validate H e = Inr ()" for H
proof (unfold_locales, goal_cases)
  case (1 c e x c')
  have "True \<longrightarrow> live c = durable c" using 1(1) by (simp add: conn_ok_def)
  with 1(2) show ?case
    by (cases rule: append_event_cases) (auto elim: insert_once_cases)
next
  case (2 c e c')
  have "True \<longrightarrow> live c = durable c" using 2(1) by (simp add: conn_ok_def)
  with 2(2) show ?case
    by (cases rule: append_event_cases) (auto elim: insert_once_cases)
next
  case (3 c e c')
  from 3(2) show ?case
    by (cases rule: append_event_cases)
      (use insert_once_stored[OF _ 3(1)] in \<open>auto simp: event_row_def\<close>)
next
  case (4 e c b c')
  then show ?case by (cases rule: append_event_cases) auto
next
  case (5 c e)
  have "keys_unique ''tw_authority_events'' (table c ''tw_authority_events'')"
    by (rule conn_ok_keys[OF 5(1)]) (simp add: table_names_def)
  then have "bound_to c ''tw_authority_events'' ''event_id'' (ev_event_id e) = Some (event_row e)"
    using 5(3) by (intro bound_to_unique) (simp_all add: schema_of_def)
  with 5(2) show ?case by (simp add: append_event_def)
qed

text \<open>The revisions of one aggregate (or capsule), in the order in which its rows were stored.\<close>

definition revisions_of :: "string \<Rightarrow> pystr \<Rightarrow> row list \<Rightarrow> int list" where
  "revisions_of k a rs =
     map (\<lambda>r. sql_int (col r ''revision'')) (filter (\<lambda>r. col r k = SText a) rs)"

definition gapless :: "int list \<Rightarrow> bool" where
  "gapless xs \<longleftrightarrow> xs = [1..int (length xs)]"

lemma gapless_snoc: "gapless xs \<Longrightarrow> x = int (length xs) + 1 \<Longrightarrow> gapless (xs @ [x])"
  by (simp add: gapless_def upto_rec2)

lemma latest_revision_gapless:
  assumes "gapless (map (\<lambda>r. sql_int (col r ''revision'')) rs)"
  shows "latest_revision rs = (if rs = [] then None else Some (int (length rs)))"
proof (cases rs)
  case (Cons r rest)
  have "set (map (\<lambda>r. sql_int (col r ''revision'')) rs) = {1..int (length rs)}"
    using assms unfolding gapless_def by (metis length_map set_upto)
  moreover have "Max {1..int (length rs)} = int (length rs)"
    using Cons by (intro Max_eqI) auto
  ultimately show ?thesis using Cons by (simp add: latest_revision_def)
qed (simp add: latest_revision_def)

lemma revisions_of_snoc [simp]:
  "revisions_of k a (rs @ [r]) =
     (if col r k = SText a then revisions_of k a rs @ [sql_int (col r ''revision'')] else revisions_of k a rs)"
  by (simp add: revisions_of_def)

lemma gapless_next:
  assumes inv: "gapless (revisions_of k a rs)"
    and adv: "case latest_revision (filter (\<lambda>r. col r k = SText a) rs) of Some n \<Rightarrow> x = n + 1 | None \<Rightarrow> x = 1"
  shows "gapless (revisions_of k a rs @ [x])"
proof -
  let ?rs = "filter (\<lambda>r. col r k = SText a) rs"
  have "latest_revision ?rs = (if ?rs = [] then None else Some (int (length ?rs)))"
    using inv by (intro latest_revision_gapless) (simp add: revisions_of_def)
  with adv have "x = int (length ?rs) + 1" by (auto split: if_splits)
  with inv show ?thesis by (intro gapless_snoc) (simp_all add: revisions_of_def)
qed

lemma append_event_gapless:
  assumes ok: "conn_ok c"
    and inv: "gapless (revisions_of ''aggregate_id'' a (table c ''tw_authority_events''))"
    and app: "append_event H e c = (Inr True, c')"
  shows "gapless (revisions_of ''aggregate_id'' a (table c' ''tw_authority_events''))"
proof -
  let ?t = "''tw_authority_events''"
  from ev.appended_stored[OF ok app] have tab: "table c' ?t = table c ?t @ [event_row e]" by simp
  from app have "case latest_revision (select_where c ?t ''aggregate_id'' (SText (ev_aggregate_id e))) of
      Some n \<Rightarrow> ev_revision e = n + 1 | None \<Rightarrow> ev_revision e = 1"
    by (cases rule: append_event_cases) auto
  with gapless_next[of "''aggregate_id''" _ "table c ?t"] inv show ?thesis
    by (auto simp: tab select_where_def)
qed

section \<open>Single records\<close>

text \<open>
  How \<open>append_record\<close> ends on a connection without pending writes. The transaction around
  the insertion restores the connection when it raises.
\<close>

definition record_row :: "record_insert \<Rightarrow> row" where
  "record_row r = insert_row (ri_columns r) (ri_values r)"

lemma append_record_unfold:
  "append_record r c =
     (case validate_insert r of
        Inl e \<Rightarrow> (Inl e, c)
      | Inr u \<Rightarrow> (case insert_record r c of
          (Inl e, c') \<Rightarrow> (Inl e, rollback c')
        | (Inr b, c') \<Rightarrow> (Inr b, commit c')))"
  by (cases "validate_insert r"; cases "insert_record r c"; cases "fst (insert_record r c)")
    (auto simp: append_record_def append_records_def transaction_def bindS_def act_defs)

lemma append_record_cases:
  assumes app: "append_record r c = (res, c')" and ok: "conn_ok c"
  obtains (raised) e where "res = Inl e" and "c' = c"
  | (known) x where "res = Inr False" and "c' = c" and "x \<in> set (table c (ri_table r))"
    and "col x (ri_identity_column r) = SText (ri_identity_value r)"
    and "col x ''content_hash'' = SText (ri_content_hash r)"
  | (stored) "res = Inr True" and "c' = stored (ri_table r) (record_row r) c"
    and "\<not> key_conflict (ri_table r) (record_row r) (table c (ri_table r))"
    and "ri_table r \<in> set table_names"
proof (cases "validate_insert r")
  case (Inl e)
  with app show thesis by (intro raised) (auto simp: append_record_unfold)
next
  case (Inr u)
  obtain b c1 where i: "insert_record r c = (b, c1)" by fastforce
  have "False \<longrightarrow> live c = durable c" by simp
  from i[unfolded insert_record_def] this show thesis
  proof (cases rule: insert_once_cases)
    case (raised e)
    with app Inr i ok show thesis by (intro that(1)) (auto simp: append_record_unfold rollback_ok)
  next
    case (known x)
    with app Inr i ok show thesis by (intro that(2)) (auto simp: append_record_unfold commit_ok)
  next
    case stored
    then have "commit c1 = Authority_Store.stored (ri_table r) (record_row r) c"
      by (cases c1) (simp add: stored_def commit_def record_row_def)
    with stored app Inr i show thesis
      by (intro that(3)) (auto simp: append_record_unfold record_row_def)
  qed
qed

text \<open>A batch is atomic: when any insertion raises, the connection is as before.\<close>

lemma insert_record_durable: "insert_record r c = (res, c') \<Longrightarrow> durable c' = durable c"
proof -
  assume i: "insert_record r c = (res, c')"
  have "False \<longrightarrow> live c = durable c" by simp
  from i[unfolded insert_record_def] this show "durable c' = durable c"
    by (cases rule: insert_once_cases) auto
qed

lemma insert_batch_durable: "insert_batch rs c = (res, c') \<Longrightarrow> durable c' = durable c"
proof (induction rs arbitrary: c res)
  case (Cons r rs)
  from Cons.prems show ?case unfolding insert_batch.simps
  proof (cases rule: bindS_cases)
    case (raised e)
    then show ?thesis by (auto dest: insert_record_durable)
  next
    case (returned b c1)
    from returned(2) show ?thesis
      by (cases rule: bindS_cases)
        (use Cons.IH insert_record_durable[OF returned(1)] in auto)
  qed
qed simp

lemma append_records_atomic:
  assumes "conn_ok c" and "append_records batch c = (Inl e, c')"
  shows "c' = c"
proof (cases "batch = [] \<or> (\<exists>e. seqE (map validate_insert batch) = Inl e)")
  case True
  with assms(2) show ?thesis by (cases "batch = []") (auto simp: append_records_def)
next
  case False
  then obtain u where "seqE (map validate_insert batch) = Inr u"
    by (cases "seqE (map validate_insert batch)") auto
  with False assms(2) have "transaction (insert_batch batch) c = (Inl e, c')"
    by (simp add: append_records_def)
  then obtain c1 where i: "insert_batch batch c = (Inl e, c1)" and "c' = rollback c1"
    by (auto simp: transaction_def split: prod.splits sum.splits)
  with insert_batch_durable[OF i] assms(1) show ?thesis
    by (cases c; cases c1) (simp add: rollback_def conn_ok_def)
qed

lemma insert_batch_ok:
  assumes "insert_batch rs c = (res, c')" and "db_ok (live c)"
  shows "db_ok (live c')"
  using assms
proof (induction rs arbitrary: c res)
  case (Cons r rs)
  have step: "db_ok (live c1)" if i: "insert_record r c = (b, c1)" for b c1
  proof -
    have "False \<longrightarrow> live c = durable c" by simp
    from i[unfolded insert_record_def] this show ?thesis
      by (cases rule: insert_once_cases)
        (use Cons.prems(2) in \<open>auto simp: db_ok_def list_all_iff keys_unique_snoc table_def\<close>)
  qed
  from Cons.prems(1) show ?case unfolding insert_batch.simps
  proof (cases rule: bindS_cases)
    case (raised e)
    then show ?thesis using step by auto
  next
    case (returned b c1)
    from returned(2) show ?thesis
      by (cases rule: bindS_cases) (use Cons.IH step[OF returned(1)] in auto)
  qed
qed simp

lemma append_records_ok:
  assumes "conn_ok c"
  shows "conn_ok (snd (append_records batch c))"
proof -
  obtain res c' where a: "append_records batch c = (res, c')" by fastforce
  show ?thesis
  proof (cases res)
    case (Inl e)
    with append_records_atomic[OF assms] a assms show ?thesis by auto
  next
    case (Inr bs)
    show ?thesis
    proof (cases "batch = []")
      case True
      with a assms show ?thesis by (simp add: append_records_def)
    next
      case False
      with a Inr have "transaction (insert_batch batch) c = (Inr bs, c')"
        by (auto simp: append_records_def bindS_def act_defs split: sum.splits)
      then obtain c1 where i: "insert_batch batch c = (Inr bs, c1)" and "c' = commit c1"
        by (auto simp: transaction_def split: prod.splits sum.splits)
      with insert_batch_ok[OF i] assms a show ?thesis by (auto simp: conn_ok_def)
    qed
  qed
qed

text \<open>
  After a batch every one of its facts is stored: a row with its identity and its content
  hash is in the table.
\<close>

lemma insert_record_extends:
  "insert_record r c = (res, c') \<Longrightarrow> set (table c t) \<subseteq> set (table c' t)"
proof -
  assume i: "insert_record r c = (res, c')"
  have "False \<longrightarrow> live c = durable c" by simp
  from i[unfolded insert_record_def] this show ?thesis
    by (cases rule: insert_once_cases) (auto simp: table_def)
qed

lemma insert_batch_extends:
  "insert_batch rs c = (res, c') \<Longrightarrow> set (table c t) \<subseteq> set (table c' t)"
proof (induction rs arbitrary: c res)
  case (Cons r rs)
  from Cons.prems show ?case unfolding insert_batch.simps
  proof (cases rule: bindS_cases)
    case (raised e)
    then show ?thesis by (blast dest: insert_record_extends)
  next
    case (returned b c1)
    from returned(2) have "set (table c1 t) \<subseteq> set (table c' t)"
      by (cases rule: bindS_cases) (use Cons.IH in auto)
    with insert_record_extends[OF returned(1)] show ?thesis by blast
  qed
qed simp

definition fact_stored :: "conn \<Rightarrow> record_insert \<Rightarrow> bool" where
  "fact_stored c r \<longleftrightarrow> (\<exists>x\<in>set (table c (ri_table r)).
     col x (ri_identity_column r) = SText (ri_identity_value r)
     \<and> col x ''content_hash'' = SText (ri_content_hash r))"

definition carries_identity :: "record_insert \<Rightarrow> bool" where
  "carries_identity r \<longleftrightarrow> col (record_row r) (ri_identity_column r) = SText (ri_identity_value r)
     \<and> col (record_row r) ''content_hash'' = SText (ri_content_hash r)"

lemma insert_record_stored:
  assumes i: "insert_record r c = (Inr b, c')" and "carries_identity r"
  shows "fact_stored c' r"
proof -
  have "False \<longrightarrow> live c = durable c" by simp
  from i[unfolded insert_record_def] this show ?thesis
    by (cases rule: insert_once_cases)
      (use assms(2) in \<open>auto simp: fact_stored_def carries_identity_def record_row_def table_def\<close>)
qed

lemma insert_batch_stored:
  "insert_batch rs c = (Inr bs, c') \<Longrightarrow> \<forall>r\<in>set rs. carries_identity r \<Longrightarrow>
     \<forall>r\<in>set rs. fact_stored c' r"
proof (induction rs arbitrary: c bs)
  case (Cons r rs)
  from Cons.prems(1) show ?case unfolding insert_batch.simps
  proof (cases rule: bindS_cases)
    case (returned b c1)
    from returned(2) obtain bs' where rest: "insert_batch rs c1 = (Inr bs', c')"
      by (cases rule: bindS_cases) auto
    have "fact_stored c1 r" using insert_record_stored[OF returned(1)] Cons.prems(2) by simp
    with insert_batch_extends[OF rest] have "fact_stored c' r" by (auto simp: fact_stored_def)
    with Cons.IH[OF rest] Cons.prems(2) show ?thesis by simp
  qed simp
qed simp

lemma append_records_stored:
  assumes "append_records rs c = (Inr bs, c')" and "\<forall>r\<in>set rs. carries_identity r"
  shows "\<forall>r\<in>set rs. fact_stored c' r"
proof (cases "rs = []")
  case False
  with assms(1) have "transaction (insert_batch rs) c = (Inr bs, c')"
    by (auto simp: append_records_def bindS_def act_defs split: sum.splits)
  then obtain c1 where "insert_batch rs c = (Inr bs, c1)" and "c' = commit c1"
    by (auto simp: transaction_def split: prod.splits sum.splits)
  with insert_batch_stored[of rs c bs c1] assms(2) show ?thesis
    by (simp add: fact_stored_def table_def)
qed simp

text \<open>An insertion whose identity is already stored with its content is recognised.\<close>

lemma append_record_known:
  assumes "conn_ok c" and "validate_insert r = Inr ()"
    and "bound_to c (ri_table r) (ri_identity_column r) (ri_identity_value r) = Some x"
    and "col x ''content_hash'' = SText (ri_content_hash r)"
  shows "append_record r c = (Inr False, c)"
proof -
  from assms(3) obtain xs where
    "select_where c (ri_table r) (ri_identity_column r) (SText (ri_identity_value r)) = x # xs"
    by (auto simp: bound_to_def split: list.splits)
  moreover have "is_column_name ''content_hash''"
    by (simp add: is_column_name_def lit_def is_lower_ascii_def is_digit_ascii_def)
  ultimately have "insert_record r c = (Inr False, c)"
    using assms(2,4) by (auto simp: insert_record_def insert_once_def validate_insert_def bindS_lift_ok)
  with assms(1,2) show ?thesis by (simp add: append_record_unfold commit_ok)
qed

text \<open>Evaluation of the check on column names.\<close>

lemmas column_names = is_column_name_def lit_def is_lower_ascii_def is_digit_ascii_def

text \<open>
  The operations that check their record, compute one insertion and hand it to
  \<open>append_record\<close> keep the append-only contract.
\<close>

locale record_append =
  fixes put :: "'r \<Rightarrow> bool act"
    and t :: string
    and row_of :: "'r \<Rightarrow> row"
    and valid :: "'r \<Rightarrow> bool"
    and insert_of :: "'r \<Rightarrow> record_insert"
  assumes ends: "put r c = (res, c') \<Longrightarrow>
      (\<exists>e. res = Inl e \<and> c' = c) \<or>
      valid r \<and> (res = Inr False \<and> c' = c \<or> append_record (insert_of r) c = (res, c'))"
    and insert_table: "ri_table (insert_of r) = t"
    and insert_row: "record_row (insert_of r) = row_of r"
    and known: "conn_ok c \<Longrightarrow> valid r \<Longrightarrow> row_of r \<in> set (table c t) \<Longrightarrow> put r c = (Inr False, c)"

sublocale record_append \<subseteq> append_only
proof (unfold_locales, goal_cases)
  case (1 c r e c')
  with ends[OF 1(2)] show ?case by (auto elim: append_record_cases)
next
  case (2 c r c')
  with ends[OF 2(2)] show ?case by (auto elim: append_record_cases)
next
  case (3 c r c')
  from ends[OF 3(2)] have "append_record (insert_of r) c = (Inr True, c')" by auto
  from this 3(1) show ?case
    by (cases rule: append_record_cases) (auto simp: insert_table insert_row)
next
  case (4 r c b c')
  from ends[OF 4] show ?case by auto
next
  case (5 c r)
  then show ?case by (rule known)
qed

section \<open>Samples\<close>

definition sample_event :: authority_event where
  "sample_event = \<lparr>ev_event_id = lit ''e1'', ev_aggregate_id = lit ''run-1'', ev_aggregate_type = lit ''run'',
     ev_revision = 1, ev_event_type = lit ''started'', ev_actor = lit ''policy'',
     ev_idempotency_key = lit ''k1'', ev_occurred_at = lit ''t0'', ev_payload = [],
     ev_request_hash = sample_hash, ev_run_id = lit ''run-1'', ev_campaign_id = lit ''c'',
     ev_trace_id = lit ''t'', ev_provenance = lit ''p'', ev_content_hash = sample_hash\<rparr>"

lemma validate_ref_lit [simp]:
  "validate_ref (lit s) f = Inr u \<longleftrightarrow> s \<noteq> [] \<and> length s \<le> 2048 \<and> list_all (\<lambda>c. \<not> isspace c \<and> 32 \<le> c) (lit s)"
  by (simp add: validate_ref_def validate_text_ok)

lemma validate_identifier_lit [simp]:
  "validate_identifier (lit s) f = Inr u \<longleftrightarrow> s \<noteq> [] \<and> length s \<le> 512 \<and> list_all (\<lambda>c. \<not> isspace c \<and> 32 \<le> c) (lit s)"
  by (simp add: validate_identifier_def validate_text_ok)

text \<open>Evaluation of the metadata filter on lower-case keys, and a record sealed with the sample digest.\<close>

lemma forbidden_key_lit:
  assumes "list_all (\<lambda>c. \<not> is_upper_ascii (of_char c) \<and> of_char c < (128 :: nat)) k"
  shows "forbidden_key (lit k) \<longleftrightarrow> k \<in> set forbidden_keys"
proof -
  have "casefold (lit k) = lit k" using assms by (intro casefold_small) (simp add: lit_def list_all_iff)
  then show ?thesis by (auto simp: forbidden_key_def)
qed

lemma sample_sealed:
  assumes "lit f \<notin> fst ` set kvs" and "safe_ok (JObj kvs) 0" and "encodable_json (JObj kvs)"
  shows "ensure_sealed sample_hasher (kvs @ [(lit f, JStr sample_hash)]) f = Inr ()"
proof -
  have "canonical_hash sample_hasher (JObj kvs) = Inr sample_hash"
    using canonical_hash_total[of "JObj kvs" sample_hasher] safe_ok_finite[OF assms(2)] assms(3)
    by (simp only: sample_hash_def sample_hasher_def simp_thms)
  with assms(1,2) sample_hash_ok ensure_sealed_snoc[of f kvs sample_hasher sample_hash "()"]
  show ?thesis by blast
qed

lemma encodable_sample_hash [simp]: "encodable sample_hash"
  by (simp add: sample_hash_def is_surrogate_def)

lemma sample_hash_printable [simp]: "list_all ((\<le>) 32) sample_hash"
  by (simp add: sample_hash_def list_all_iff) (simp add: lit_def)

lemmas sample_eval = forbidden_key_lit forbidden_keys_def is_upper_ascii_def

lemma sample_event_valid: "event_validate sample_hasher sample_event = Inr ()"
proof -
  have "ensure_sealed sample_hasher (event_dict sample_event) ''content_hash'' = Inr ()"
    unfolding event_dict_def
    by (subst (2) sample_event_def, simp, rule sample_sealed)
      (simp_all add: event_values_def sample_event_def sample_eval, simp add: sample_chars)
  then show ?thesis
    by (simp add: event_validate_def event_fields_def sample_hash_ok validate_hash_ok)
      (simp add: sample_event_def safe_metadata_def safe_value_eq sample_hash_ok validate_hash_ok, simp add: sample_chars)
qed

text \<open>An insertion of a complete row that clashes with no stored row is performed.\<close>

lemma insert_once_performed:
  assumes "t \<in> set table_names" and "list_all is_column_name (idc # hc # cols)" and "distinct cols"
    and "idc \<in> set cols" and "hc \<in> set cols" and "length vals = length cols"
    and "validate_ref idv idc = Inr ()" and "is_sha256 hv"
    and "select_where c t idc (SText idv) = []"
    and "db_insert t (insert_row cols vals) (live c)
           = Inr ((live c)(lit t := live c (lit t) @ [insert_row cols vals]), 1)"
  shows "insert_once t idc idv hc hv cols vals True c = (Inr True, stored t (insert_row cols vals) c)"
proof -
  have "cols \<noteq> []" using assms(4) by auto
  moreover have "write_insert t (insert_row cols vals) True c = (Inr 1, stored t (insert_row cols vals) c)"
    using assms(10) by (simp add: write_insert_def stored_def table_def commit_def)
  moreover have "validate_hash hv hc = Inr ()" using assms(8) by (simp add: validate_hash_ok)
  ultimately show ?thesis
    using assms by (simp add: insert_once_def bindS_def[of "liftS _"] bindS_def[of "write_insert _ _ _"]
        raise_if_eval)
qed

lemma sample_event_appended:
  "append_event sample_hasher sample_event empty_conn
   = (Inr True, stored ''tw_authority_events'' (event_row sample_event) empty_conn)"
proof -
  have j: "canonical_json (JObj (ev_payload sample_event)) = Inr (dumps (JObj (ev_payload sample_event)))"
    by (simp add: canonical_json_ok sample_event_def)
  have none: "select_where empty_conn t k v = []" for t k v
    by (simp add: select_where_def table_def empty_conn_def)
  have "insert_once ''tw_authority_events'' ''idempotency_key'' (ev_idempotency_key sample_event)
       ''content_hash'' (ev_content_hash sample_event) event_columns
       (event_sql sample_event (dumps (JObj (ev_payload sample_event)))) True empty_conn
     = (Inr True, stored ''tw_authority_events'' (event_row sample_event) empty_conn)"
    unfolding event_row_def
  proof (rule insert_once_performed)
    show "list_all is_column_name (''idempotency_key'' # ''content_hash'' # event_columns)"
      by (simp add: event_columns_def column_names)
    show "validate_ref (ev_idempotency_key sample_event) ''idempotency_key'' = Inr ()"
      by (simp add: sample_event_def) (simp add: sample_chars)
    show "db_insert ''tw_authority_events'' (insert_row event_columns (event_sql sample_event
            (dumps (JObj (ev_payload sample_event))))) (live empty_conn)
        = Inr ((live empty_conn)(lit ''tw_authority_events'' := live empty_conn (lit ''tw_authority_events'')
            @ [insert_row event_columns (event_sql sample_event (dumps (JObj (ev_payload sample_event))))]), 1)"
      by (simp add: db_insert_def table_names_def schema_of_def insert_row_def event_columns_def
          event_sql_def col_def check_violated_def key_conflict_def empty_conn_def sample_event_def)
  qed (simp_all add: table_names_def event_columns_def event_sql_def none sample_event_def sample_hash_ok)
  moreover have "ev_revision sample_event = 1" by (simp add: sample_event_def)
  ultimately show ?thesis
    by (simp add: append_event_def sample_event_valid bound_to_def none latest_revision_def j)
qed

section \<open>Properties\<close>

text \<open>The filter \<open>_safe_value\<close> never rewrites a value: it returns its argument, and does so exactly when
  no key of any dict inside is forbidden, no text has a control character, no number is NaN
  or infinite, and the nesting is at most eight deep.\<close>

lemma safe_value_filters:
  "safe_value v field depth = Inr r \<longleftrightarrow> r = v \<and> safe_ok v depth"
  by (rule safe_value_iff(1))

text \<open>A record that \<open>seal\<close> returns passes \<open>_ensure_sealed\<close> for the same hash field.\<close>

lemma seal_ensure_sealed:
  assumes "digest_ok H" and "seal H kvs f = Inr d"
  shows "ensure_sealed H d f = Inr ()"
  using assms by (rule seal_ensures)

lemma seal_ensure_sealed_witness:
  "ensure_sealed sample_hasher [(lit ''id'', JInt 7), (lit ''content_hash'', JStr sample_hash)] ''content_hash''
   = Inr ()"
proof (rule seal_ensure_sealed[OF sample_hasher_ok])
  have "safe_hash sample_hasher (JObj [(lit ''id'', JInt 7)]) ''record'' = Inr sample_hash"
    by (subst safe_hash_eval) (simp_all add: sample_eval sample_hash_def sample_hasher_def)
  then show "seal sample_hasher [(lit ''id'', JInt 7)] ''content_hash''
      = Inr [(lit ''id'', JInt 7), (lit ''content_hash'', JStr sample_hash)]"
    by (simp add: seal_def without_key_def)
qed

text \<open>\<open>append_event\<close> is idempotent for ever: once an event has been appended, appending it
  again after any further appends, successful or not, reports it as already known and
  changes nothing.\<close>

lemma append_event_once:
  assumes "conn_ok c" and "append_event H e c = (Inr True, c')"
  shows "append_event H e (run_appends (append_event H) es c')
       = (Inr False, run_appends (append_event H) es c')"
  using assms by (rule ev.once_stored_known)

lemma append_event_once_witness:
  "append_event sample_hasher sample_event
     (run_appends (append_event sample_hasher) [sample_event, sample_event]
        (stored ''tw_authority_events'' (event_row sample_event) empty_conn))
   = (Inr False, run_appends (append_event sample_hasher) [sample_event, sample_event]
        (stored ''tw_authority_events'' (event_row sample_event) empty_conn))"
  by (rule append_event_once[OF conn_ok_empty sample_event_appended])

text \<open>C7: whatever events are appended to a new store, in whatever order and with whatever
  outcome, the stored revisions of every aggregate are 1, 2, 3, ... without a gap.\<close>

theorem event_log_gapless:
  "gapless (revisions_of ''aggregate_id'' a
     (table (run_appends (append_event H) es empty_conn) ''tw_authority_events''))"
proof (rule ev.run_invariant[where P = "\<lambda>rs. gapless (revisions_of ''aggregate_id'' a rs)"])
  show "gapless (revisions_of ''aggregate_id'' a (table empty_conn ''tw_authority_events''))"
    by (simp add: empty_conn_def table_def revisions_of_def gapless_def)
qed (auto intro: conn_ok_empty append_event_gapless)

text \<open>The event log is append-only. Further appends extend the table of the events stored so
  far, every stored row is the row of a valid event that was appended, and no two stored rows
  share an event id, an idempotency key or a revision of an aggregate.\<close>

lemma event_log_append_only:
  "\<exists>new. table (run_appends (append_event H) (es @ es') empty_conn) ''tw_authority_events''
       = table (run_appends (append_event H) es empty_conn) ''tw_authority_events'' @ new
     \<and> set new \<subseteq> event_row ` {e \<in> set es'. event_validate H e = Inr ()}
     \<and> keys_unique ''tw_authority_events''
         (table (run_appends (append_event H) es empty_conn) ''tw_authority_events'' @ new)"
  by (rule ev.run_grows[OF conn_ok_empty]) (simp add: table_names_def)


definition sample_batch :: "record_insert list" where
  "sample_batch =
     [\<lparr>ri_table = ''tw_authority_events'', ri_identity_column = ''event_id'',
       ri_identity_value = ev_event_id sample_event, ri_content_hash = ev_content_hash sample_event,
       ri_columns = event_columns, ri_values = event_sql sample_event (lit ''{}'')\<rparr>]"


end
