(* ===== verification/Authority_Hitl.thy ===== *)
theory Authority_Hitl
  imports Authority_Store
begin

text \<open>
  \<open>testweaver/authority/hitl.py\<close>: the human-in-the-loop records of an approval (PAUSE,
  APPROVE, DENY, RESUME, STOP), the sealed attestation of the external Matrix readback,
  and the authority that appends the records to the table \<open>tw_hitl_events\<close>. The external
  verifier is an argument. The lemmas show that the stored records of an approval form
  one chain of the approval protocol.
\<close>

section \<open>Records\<close>

definition phases :: "string list" where
  "phases = [''PAUSE'', ''APPROVE'', ''DENY'', ''RESUME'', ''STOP'']"

definition decisions :: "string list" where
  "decisions = [''APPROVE'', ''DENY'']"

definition actor_kinds :: "string list" where
  "actor_kinds = [''native-policy'', ''external-human'']"

definition automatic_markers :: "string list" where
  "automatic_markers = [''auto'', ''automatic'', ''system'', ''internal'', ''default'']"

definition attestation_source :: pystr where
  "attestation_source = lit ''matrix-live-readback''"

definition is_automatic :: "pystr \<Rightarrow> bool" where
  "is_automatic v \<longleftrightarrow> casefold v \<in> set (map lit automatic_markers) \<or>
     list_ex (\<lambda>m. list_ex (\<lambda>sep. startswith (casefold v) (lit m @ lit sep)) ['':'', ''-'', ''/''])
       automatic_markers"

definition external :: "pystr \<Rightarrow> string \<Rightarrow> unit res" where
  "external value field = seqE
     [validate_ref value field,
      raise_if (is_automatic value) (aerr (lit field @ lit '' must reference an external identity''))]"

record attestation =
  at_verification_ref :: pystr
  at_source :: pystr
  at_event_ref :: pystr
  at_event_hash :: pystr
  at_sender :: pystr
  at_identity_ref :: pystr
  at_approval_id :: pystr
  at_phase :: pystr
  at_decision :: "pystr option"
  at_run_id :: pystr
  at_campaign_id :: pystr
  at_trace_id :: pystr
  at_revision :: int
  at_verified_at :: pystr
  at_record_hash :: pystr

definition attestation_values :: "attestation \<Rightarrow> (pystr \<times> json) list" where
  "attestation_values a =
     [(lit ''verification_ref'', JStr (at_verification_ref a)),
      (lit ''source'', JStr (at_source a)),
      (lit ''event_ref'', JStr (at_event_ref a)),
      (lit ''event_hash'', JStr (at_event_hash a)),
      (lit ''sender'', JStr (at_sender a)),
      (lit ''identity_ref'', JStr (at_identity_ref a)),
      (lit ''approval_id'', JStr (at_approval_id a)),
      (lit ''phase'', JStr (at_phase a)),
      (lit ''decision'', jopt (at_decision a)),
      (lit ''run_id'', JStr (at_run_id a)),
      (lit ''campaign_id'', JStr (at_campaign_id a)),
      (lit ''trace_id'', JStr (at_trace_id a)),
      (lit ''revision'', JInt (at_revision a)),
      (lit ''verified_at'', JStr (at_verified_at a))]"

definition attestation_dict :: "attestation \<Rightarrow> (pystr \<times> json) list" where
  "attestation_dict a = attestation_values a @ [(lit ''record_hash'', JStr (at_record_hash a))]"

definition attestation_validate :: "hasher \<Rightarrow> attestation \<Rightarrow> unit res" where
  "attestation_validate H a = seqE
     [validate_ref (at_verification_ref a) ''verification_ref'',
      validate_ref (at_event_ref a) ''event_ref'',
      validate_ref (at_sender a) ''sender'',
      validate_ref (at_identity_ref a) ''identity_ref'',
      validate_ref (at_approval_id a) ''approval_id'',
      validate_ref (at_run_id a) ''run_id'',
      validate_ref (at_campaign_id a) ''campaign_id'',
      validate_ref (at_trace_id a) ''trace_id'',
      validate_ref (at_verified_at a) ''verified_at'',
      raise_if (at_source a \<noteq> attestation_source)
        (aerr (lit ''human attestation source is not an external Matrix readback'')),
      raise_if (at_phase a \<notin> set (map lit phases)) (aerr (lit ''human attestation phase is unsupported'')),
      raise_if (at_decision a \<noteq> None \<and> the (at_decision a) \<notin> set (map lit decisions))
        (aerr (lit ''human attestation decision is unsupported'')),
      raise_if (at_phase a = lit ''APPROVE'' \<and> at_decision a \<noteq> Some (lit ''APPROVE''))
        (aerr (lit ''human attestation approval does not match phase'')),
      raise_if (at_phase a = lit ''DENY'' \<and> at_decision a \<noteq> Some (lit ''DENY''))
        (aerr (lit ''human attestation denial does not match phase'')),
      raise_if (at_phase a \<notin> set (map lit decisions) \<and> at_decision a \<noteq> None)
        (aerr (lit ''human attestation decision is only valid for a decision phase'')),
      raise_if (at_revision a < 1) (aerr (lit ''human attestation revision must be positive'')),
      validate_hash (at_event_hash a) ''event_hash'',
      ensure_sealed H (attestation_dict a) ''record_hash'']"

text \<open>\<open>HumanReadbackAttestation.create\<close> fills in the source and the hash; it does not validate.\<close>

definition attestation_create :: "hasher \<Rightarrow> attestation \<Rightarrow> attestation res" where
  "attestation_create H values =
     (let v = values\<lparr>at_source := attestation_source\<rparr> in
      bindE (safe_hash H (JObj (attestation_values v)) ''human_readback_attestation'')
        (\<lambda>h. Inr (v\<lparr>at_record_hash := h\<rparr>)))"

record hitl_record =
  hr_event_id :: pystr
  hr_approval_id :: pystr
  hr_phase :: pystr
  hr_decision :: "pystr option"
  hr_run_id :: pystr
  hr_campaign_id :: pystr
  hr_trace_id :: pystr
  hr_revision :: int
  hr_previous_revision :: "int option"
  hr_matrix_event_ref :: pystr
  hr_matrix_event_hash :: pystr
  hr_verification_ref :: "pystr option"
  hr_verification_hash :: "pystr option"
  hr_sender :: pystr
  hr_identity_ref :: pystr
  hr_actor_kind :: pystr
  hr_policy_ref :: pystr
  hr_reason_ref :: "pystr option"
  hr_occurred_at :: pystr
  hr_provenance :: pystr
  hr_content_hash :: pystr

definition jopt_int :: "int option \<Rightarrow> json" where
  "jopt_int x = (case x of None \<Rightarrow> JNull | Some i \<Rightarrow> JInt i)"

definition hitl_values :: "hitl_record \<Rightarrow> (pystr \<times> json) list" where
  "hitl_values r =
     [(lit ''event_id'', JStr (hr_event_id r)),
      (lit ''approval_id'', JStr (hr_approval_id r)),
      (lit ''phase'', JStr (hr_phase r)),
      (lit ''decision'', jopt (hr_decision r)),
      (lit ''run_id'', JStr (hr_run_id r)),
      (lit ''campaign_id'', JStr (hr_campaign_id r)),
      (lit ''trace_id'', JStr (hr_trace_id r)),
      (lit ''revision'', JInt (hr_revision r)),
      (lit ''previous_revision'', jopt_int (hr_previous_revision r)),
      (lit ''matrix_event_ref'', JStr (hr_matrix_event_ref r)),
      (lit ''matrix_event_hash'', JStr (hr_matrix_event_hash r)),
      (lit ''verification_ref'', jopt (hr_verification_ref r)),
      (lit ''verification_hash'', jopt (hr_verification_hash r)),
      (lit ''sender'', JStr (hr_sender r)),
      (lit ''identity_ref'', JStr (hr_identity_ref r)),
      (lit ''actor_kind'', JStr (hr_actor_kind r)),
      (lit ''policy_ref'', JStr (hr_policy_ref r)),
      (lit ''reason_ref'', jopt (hr_reason_ref r)),
      (lit ''occurred_at'', JStr (hr_occurred_at r)),
      (lit ''provenance'', JStr (hr_provenance r))]"

definition hitl_dict :: "hitl_record \<Rightarrow> (pystr \<times> json) list" where
  "hitl_dict r = hitl_values r @ [(lit ''content_hash'', JStr (hr_content_hash r))]"

definition needs_attestation :: "pystr \<Rightarrow> bool" where
  "needs_attestation phase \<longleftrightarrow> phase \<in> set (map lit [''APPROVE'', ''DENY'', ''RESUME''])"

definition hitl_validate :: "hasher \<Rightarrow> hitl_record \<Rightarrow> unit res" where
  "hitl_validate H r = seqE
     ([validate_ref (hr_event_id r) ''event_id'',
       validate_ref (hr_approval_id r) ''approval_id'',
       validate_ref (hr_run_id r) ''run_id'',
       validate_ref (hr_campaign_id r) ''campaign_id'',
       validate_ref (hr_trace_id r) ''trace_id'',
       validate_ref (hr_matrix_event_ref r) ''matrix_event_ref'',
       validate_ref (hr_sender r) ''sender'',
       validate_ref (hr_identity_ref r) ''identity_ref'',
       validate_ref (hr_policy_ref r) ''policy_ref'',
       validate_ref (hr_occurred_at r) ''occurred_at'',
       validate_ref (hr_provenance r) ''provenance'',
       raise_if (hr_phase r \<notin> set (map lit phases)) (aerr (lit ''unsupported HITL phase'')),
       raise_if (hr_decision r \<noteq> None \<and> the (hr_decision r) \<notin> set (map lit decisions))
         (aerr (lit ''unsupported HITL decision'')),
       raise_if (hr_revision r < 1) (aerr (lit ''HITL revision must be positive'')),
       raise_if (hr_previous_revision r \<noteq> None \<and> the (hr_previous_revision r) < 1)
         (aerr (lit ''previous_revision must be positive'')),
       validate_hash (hr_matrix_event_hash r) ''matrix_event_hash'',
       raise_if ((hr_verification_ref r = None) \<noteq> (hr_verification_hash r = None))
         (aerr (lit ''verification reference and hash must be provided together''))]
      @ (case hr_verification_ref r of None \<Rightarrow> []
         | Some v \<Rightarrow> [validate_ref v ''verification_ref'',
                      validate_hash (the (hr_verification_hash r)) ''verification_hash''])
      @ [raise_if (hr_actor_kind r \<notin> set (map lit actor_kinds)) (aerr (lit ''unsupported HITL actor kind''))]
      @ (if needs_attestation (hr_phase r) then
           [raise_if (hr_actor_kind r \<noteq> lit ''external-human'')
              (aerr (lit ''decision and resume require an external human'')),
            raise_if (hr_verification_ref r = None \<or> hr_verification_hash r = None)
              (aerr (lit ''external decision requires a Matrix readback attestation'')),
            external (hr_sender r) ''sender'',
            external (hr_identity_ref r) ''identity_ref'']
         else [])
      @ [raise_if (hr_phase r = lit ''APPROVE'' \<and> hr_decision r \<noteq> Some (lit ''APPROVE''))
           (aerr (lit ''APPROVE phase requires APPROVE decision'')),
         raise_if (hr_phase r = lit ''DENY'' \<and> hr_decision r \<noteq> Some (lit ''DENY''))
           (aerr (lit ''DENY phase requires DENY decision'')),
         raise_if (hr_phase r \<notin> set (map lit decisions) \<and> hr_decision r \<noteq> None)
           (aerr (lit ''decision is only valid on an approval or denial''))]
      @ (case hr_reason_ref r of None \<Rightarrow> [] | Some v \<Rightarrow> [validate_ref v ''reason_ref''])
      @ [ensure_sealed H (hitl_dict r) ''content_hash''])"

text \<open>\<open>HITLRecord.create\<close>: seal the values, then construct, which validates.\<close>

definition hitl_create :: "hasher \<Rightarrow> hitl_record \<Rightarrow> hitl_record res" where
  "hitl_create H values =
     bindE (safe_hash H (JObj (hitl_values values)) ''hitl'') (\<lambda>h.
     bindE (hitl_validate H (values\<lparr>hr_content_hash := h\<rparr>)) (\<lambda>_.
     Inr (values\<lparr>hr_content_hash := h\<rparr>)))"

section \<open>The authority\<close>

text \<open>What calling the external verifier can do.\<close>

datatype verdict = Attested attestation | NotAttestation | RaisedAuthority pystr | RaisedOther

type_synonym verifier = "hitl_record \<Rightarrow> verdict"

definition matches_record :: "hitl_record \<Rightarrow> attestation \<Rightarrow> bool" where
  "matches_record r a \<longleftrightarrow>
     hr_verification_ref r = Some (at_verification_ref a)
     \<and> hr_verification_hash r = Some (at_record_hash a)
     \<and> hr_matrix_event_ref r = at_event_ref a
     \<and> hr_matrix_event_hash r = at_event_hash a
     \<and> hr_sender r = at_sender a
     \<and> hr_identity_ref r = at_identity_ref a
     \<and> hr_approval_id r = at_approval_id a
     \<and> hr_phase r = at_phase a
     \<and> hr_decision r = at_decision a
     \<and> hr_run_id r = at_run_id a
     \<and> hr_campaign_id r = at_campaign_id a
     \<and> hr_trace_id r = at_trace_id a
     \<and> hr_revision r = at_revision a"

definition verify_external_readback :: "hasher \<Rightarrow> verifier option \<Rightarrow> hitl_record \<Rightarrow> unit res" where
  "verify_external_readback H verifier r =
     (case verifier of
        None \<Rightarrow> Inl (aerr (lit ''external Matrix readback verifier is required''))
      | Some v \<Rightarrow>
          (case v r of
             RaisedAuthority m \<Rightarrow> Inl (aerr m)
           | RaisedOther \<Rightarrow> Inl (aerr (lit ''external Matrix readback verifier failed''))
           | NotAttestation \<Rightarrow> Inl (aerr (lit ''external verifier returned an invalid attestation''))
           | Attested a \<Rightarrow>
               (case attestation_validate H a of
                  Inl (AuthorityError m) \<Rightarrow> Inl (AuthorityError m)
                | Inl (AuthorityConflict m) \<Rightarrow> Inl (AuthorityConflict m)
                | Inl e \<Rightarrow> Inl (aerr (lit ''external Matrix readback verifier failed''))
                | Inr u \<Rightarrow>
                    raise_if (\<not> matches_record r a)
                      (aerr (lit ''external Matrix readback does not match HITL record'')))))"

text \<open>The stored rows of an approval, ORDER BY revision.\<close>

definition hitl_history :: "conn \<Rightarrow> pystr \<Rightarrow> row list" where
  "hitl_history c approval_id =
     sort_key (\<lambda>r. sql_int (col r ''revision''))
       (select_where c ''tw_hitl_events'' ''approval_id'' (SText approval_id))"

definition same_lineage :: "hitl_record \<Rightarrow> row \<Rightarrow> bool" where
  "same_lineage r x \<longleftrightarrow>
     SText (hr_run_id r) = col x ''run_id'' \<and> SText (hr_campaign_id r) = col x ''campaign_id''
     \<and> SText (hr_trace_id r) = col x ''trace_id''"

definition check_transition :: "hitl_record \<Rightarrow> row list \<Rightarrow> unit res" where
  "check_transition r history =
     (if hr_phase r = lit ''PAUSE'' then seqE
        [raise_if (history \<noteq> []) (aerr (lit ''an approval may have only one initial PAUSE'')),
         raise_if (hr_revision r \<noteq> 1 \<or> hr_previous_revision r \<noteq> None)
           (aerr (lit ''PAUSE must start at revision one'')),
         raise_if (hr_actor_kind r \<noteq> lit ''native-policy'')
           (aerr (lit ''PAUSE must be emitted by native Policy''))]
      else if history = [] then Inl (aerr (lit ''HITL decision requires a prior PAUSE''))
      else
        (let latest = last history; latest_revision = sql_int (col latest ''revision'') in seqE
           [raise_if (\<not> same_lineage r latest) (aerr (lit ''HITL events must remain in one run lineage'')),
            raise_if (hr_previous_revision r \<noteq> Some latest_revision \<or> hr_revision r \<le> latest_revision)
              (aerr (lit ''HITL revision does not follow the current pause/resume chain'')),
            raise_if (hr_phase r \<in> set (map lit decisions) \<and> col latest ''phase'' \<noteq> SText (lit ''PAUSE''))
              (aerr (lit ''approval or denial must immediately follow PAUSE'')),
            raise_if (hr_phase r = lit ''RESUME'' \<and> col latest ''phase'' \<noteq> SText (lit ''APPROVE''))
              (aerr (lit ''RESUME requires an external APPROVE event''))]))"

definition hitl_columns :: "string list" where
  "hitl_columns = [''event_id'', ''approval_id'', ''phase'', ''decision'', ''run_id'', ''campaign_id'',
     ''trace_id'', ''revision'', ''previous_revision'', ''matrix_event_ref'', ''matrix_event_hash'',
     ''verification_ref'', ''verification_hash'', ''sender'', ''identity_ref'', ''actor_kind'',
     ''policy_ref'', ''reason_ref'', ''occurred_at'', ''provenance'', ''content_hash'']"

definition hitl_sql :: "hitl_record \<Rightarrow> sqlval list" where
  "hitl_sql r =
     [SText (hr_event_id r), SText (hr_approval_id r), SText (hr_phase r), sqlopt (hr_decision r),
      SText (hr_run_id r), SText (hr_campaign_id r), SText (hr_trace_id r), SInt (hr_revision r),
      sqlopt_int (hr_previous_revision r), SText (hr_matrix_event_ref r),
      SText (hr_matrix_event_hash r), sqlopt (hr_verification_ref r),
      sqlopt (hr_verification_hash r), SText (hr_sender r), SText (hr_identity_ref r),
      SText (hr_actor_kind r), SText (hr_policy_ref r), sqlopt (hr_reason_ref r),
      SText (hr_occurred_at r), SText (hr_provenance r), SText (hr_content_hash r)]"

definition hitl_insert :: "hitl_record \<Rightarrow> record_insert" where
  "hitl_insert r = \<lparr>ri_table = ''tw_hitl_events'', ri_identity_column = ''event_id'',
     ri_identity_value = hr_event_id r, ri_content_hash = hr_content_hash r,
     ri_columns = hitl_columns, ri_values = hitl_sql r\<rparr>"

definition hitl_append :: "hasher \<Rightarrow> verifier option \<Rightarrow> hitl_record \<Rightarrow> bool act" where
  "hitl_append H verifier r =
     bindS (liftS (hitl_validate H r)) (\<lambda>_.
     bindS (getS (\<lambda>c. bound_to c ''tw_hitl_events'' ''event_id'' (hr_event_id r))) (\<lambda>existing_event.
     case existing_event of
       Some x \<Rightarrow>
         if col x ''content_hash'' = SText (hr_content_hash r) then returnS False
         else raiseS (AuthorityConflict (lit ''HITL event_id is already bound to different content''))
     | None \<Rightarrow>
     bindS (getS (\<lambda>c. hitl_history c (hr_approval_id r))) (\<lambda>history.
     bindS (liftS (check_transition r history)) (\<lambda>_.
     bindS (liftS (if needs_attestation (hr_phase r) then verify_external_readback H verifier r else Inr ())) (\<lambda>_.
     append_record (hitl_insert r))))))"

text \<open>\<open>read\<close>: the rows of an approval, each rebuilt and validated by the constructor.\<close>

definition hitl_of_row :: "row \<Rightarrow> hitl_record" where
  "hitl_of_row x =
     \<lparr>hr_event_id = sql_text (col x ''event_id''), hr_approval_id = sql_text (col x ''approval_id''),
      hr_phase = sql_text (col x ''phase''), hr_decision = sql_opt_text (col x ''decision''),
      hr_run_id = sql_text (col x ''run_id''), hr_campaign_id = sql_text (col x ''campaign_id''),
      hr_trace_id = sql_text (col x ''trace_id''), hr_revision = sql_int (col x ''revision''),
      hr_previous_revision = sql_opt_int (col x ''previous_revision''),
      hr_matrix_event_ref = sql_text (col x ''matrix_event_ref''),
      hr_matrix_event_hash = sql_text (col x ''matrix_event_hash''),
      hr_verification_ref = sql_opt_text (col x ''verification_ref''),
      hr_verification_hash = sql_opt_text (col x ''verification_hash''),
      hr_sender = sql_text (col x ''sender''), hr_identity_ref = sql_text (col x ''identity_ref''),
      hr_actor_kind = sql_text (col x ''actor_kind''), hr_policy_ref = sql_text (col x ''policy_ref''),
      hr_reason_ref = sql_opt_text (col x ''reason_ref''),
      hr_occurred_at = sql_text (col x ''occurred_at''), hr_provenance = sql_text (col x ''provenance''),
      hr_content_hash = sql_text (col x ''content_hash'')\<rparr>"

definition hitl_read :: "hasher \<Rightarrow> pystr \<Rightarrow> hitl_record list act" where
  "hitl_read H approval_id =
     bindS (liftS (validate_ref approval_id ''approval_id'')) (\<lambda>_.
     bindS (getS (\<lambda>c. hitl_history c approval_id)) (\<lambda>rows.
     liftS (mapE (\<lambda>x. bindE (hitl_validate H (hitl_of_row x)) (\<lambda>_. Inr (hitl_of_row x))) rows)))"

section \<open>Appending\<close>

definition hitl_row :: "hitl_record \<Rightarrow> row" where
  "hitl_row r = insert_row hitl_columns (hitl_sql r)"

lemma hitl_row_cols [simp]:
  "col (hitl_row r) ''event_id'' = SText (hr_event_id r)"
  "col (hitl_row r) ''approval_id'' = SText (hr_approval_id r)"
  "col (hitl_row r) ''phase'' = SText (hr_phase r)"
  "col (hitl_row r) ''decision'' = sqlopt (hr_decision r)"
  "col (hitl_row r) ''run_id'' = SText (hr_run_id r)"
  "col (hitl_row r) ''campaign_id'' = SText (hr_campaign_id r)"
  "col (hitl_row r) ''trace_id'' = SText (hr_trace_id r)"
  "col (hitl_row r) ''revision'' = SInt (hr_revision r)"
  "col (hitl_row r) ''previous_revision'' = sqlopt_int (hr_previous_revision r)"
  "col (hitl_row r) ''actor_kind'' = SText (hr_actor_kind r)"
  "col (hitl_row r) ''content_hash'' = SText (hr_content_hash r)"
  by (simp_all add: hitl_row_def insert_row_def hitl_columns_def hitl_sql_def col_def)

text \<open>Reading a stored row back gives the record it was written from.\<close>

lemma hitl_of_row_row: "hitl_of_row (hitl_row r) = r"
  by (simp add: hitl_of_row_def hitl_row_def insert_row_def hitl_columns_def hitl_sql_def col_def)

lemma hitl_append_cases:
  assumes app: "hitl_append H v r c = (res, c')" and ok: "conn_ok c"
  obtains (raised) e where "res = Inl e" and "c' = c"
  | (known) x where "res = Inr False" and "c' = c" and "hitl_validate H r = Inr ()"
  | (stored) "res = Inr True" and "hitl_validate H r = Inr ()"
    and "check_transition r (hitl_history c (hr_approval_id r)) = Inr ()"
    and "needs_attestation (hr_phase r) \<longrightarrow> verify_external_readback H v r = Inr ()"
    and "c' = stored ''tw_hitl_events'' (hitl_row r) c"
    and "\<not> key_conflict ''tw_hitl_events'' (hitl_row r) (table c ''tw_hitl_events'')"
proof (cases "hitl_validate H r")
  case (Inl e)
  with app show thesis by (intro raised) (auto simp: hitl_append_def)
next
  case (Inr u)
  then have val: "hitl_validate H r = Inr ()" by simp
  let ?t = "''tw_hitl_events''"
  let ?ver = "if needs_attestation (hr_phase r) then verify_external_readback H v r else Inr ()"
  show thesis
  proof (cases "bound_to c ?t ''event_id'' (hr_event_id r)")
    case (Some x)
    with app val show thesis
      by (cases "col x ''content_hash'' = SText (hr_content_hash r)")
        (auto simp: hitl_append_def intro: that)
  next
    case None
    show thesis
    proof (cases "check_transition r (hitl_history c (hr_approval_id r))")
      case (Inl e)
      with app val None show thesis by (intro raised) (auto simp: hitl_append_def)
    next
      case (Inr u)
      show thesis
      proof (cases ?ver)
        case (Inl e)
        with app val None Inr have "res = Inl e \<and> c' = c" by (auto simp: hitl_append_def)
        then show thesis by (intro raised) simp_all
      next
        case ver: (Inr w)
        with app val None Inr have rec: "append_record (hitl_insert r) c = (res, c')"
          by (simp add: hitl_append_def)
        from rec ok show thesis
        proof (cases rule: append_record_cases)
          case (raised e)
          then show thesis by (intro that(1))
        next
          case (known x)
          with val show thesis by (intro that(2))
        next
          case stored
          with val Inr ver show thesis
            by (intro that(3)) (auto simp: hitl_insert_def record_row_def hitl_row_def)
        qed
      qed
    qed
  qed
qed

interpretation hitl: append_only "hitl_append H v" "''tw_hitl_events''" hitl_row
  "\<lambda>r. hitl_validate H r = Inr ()" for H v
proof (unfold_locales, goal_cases)
  case (1 c r e c')
  from 1(2,1) show ?case by (cases rule: hitl_append_cases) auto
next
  case (2 c r c')
  from 2(2,1) show ?case by (cases rule: hitl_append_cases) auto
next
  case (3 c r c')
  from 3(2,1) show ?case by (cases rule: hitl_append_cases) auto
next
  case (4 r c b c')
  then show ?case
    by (cases "hitl_validate H r") (auto simp: hitl_append_def)
next
  case (5 c r)
  have "keys_unique ''tw_hitl_events'' (table c ''tw_hitl_events'')"
    by (rule conn_ok_keys[OF 5(1)]) (simp add: table_names_def)
  then have "bound_to c ''tw_hitl_events'' ''event_id'' (hr_event_id r) = Some (hitl_row r)"
    using 5(3) by (intro bound_to_unique) (simp_all add: schema_of_def)
  with 5(2) show ?case by (simp add: hitl_append_def)
qed

section \<open>The approval protocol\<close>

text \<open>
  The abstract protocol: which phase may follow which, and a chain of rows that starts at
  PAUSE with revision one and follows it row by row, within one lineage, each row naming
  the revision before it.
\<close>

definition phase_step :: "pystr \<Rightarrow> pystr \<Rightarrow> bool" where
  "phase_step p q \<longleftrightarrow>
     (p = lit ''PAUSE'' \<and> (q = lit ''APPROVE'' \<or> q = lit ''DENY'')) \<or>
     (p = lit ''APPROVE'' \<and> q = lit ''RESUME'') \<or> q = lit ''STOP''"

definition row_phase :: "row \<Rightarrow> pystr" where
  "row_phase x = sql_text (col x ''phase'')"

definition row_revision :: "row \<Rightarrow> int" where
  "row_revision x = sql_int (col x ''revision'')"

definition row_follows :: "row \<Rightarrow> row \<Rightarrow> bool" where
  "row_follows x y \<longleftrightarrow>
     phase_step (row_phase x) (row_phase y)
     \<and> row_revision x < row_revision y
     \<and> col y ''previous_revision'' = SInt (row_revision x)
     \<and> col y ''run_id'' = col x ''run_id'' \<and> col y ''campaign_id'' = col x ''campaign_id''
     \<and> col y ''trace_id'' = col x ''trace_id''"

definition row_starts :: "row \<Rightarrow> bool" where
  "row_starts x \<longleftrightarrow>
     row_phase x = lit ''PAUSE'' \<and> row_revision x = 1 \<and> col x ''previous_revision'' = SNull
     \<and> col x ''actor_kind'' = SText (lit ''native-policy'')"

fun chain_from :: "row \<Rightarrow> row list \<Rightarrow> bool" where
  "chain_from x [] = True"
| "chain_from x (y # ys) = (row_follows x y \<and> chain_from y ys)"

fun approval_chain :: "row list \<Rightarrow> bool" where
  "approval_chain [] = True"
| "approval_chain (x # xs) = (row_starts x \<and> chain_from x xs)"

definition approval_rows :: "pystr \<Rightarrow> row list \<Rightarrow> row list" where
  "approval_rows a rs = filter (\<lambda>x. col x ''approval_id'' = SText a) rs"

lemma chain_from_snoc: "chain_from x (ys @ [z]) \<longleftrightarrow> chain_from x ys \<and> row_follows (last (x # ys)) z"
  by (induction x ys rule: chain_from.induct) auto

lemma approval_chain_snoc:
  "approval_chain (xs @ [z]) \<longleftrightarrow>
     approval_chain xs \<and> (if xs = [] then row_starts z else row_follows (last xs) z)"
  by (cases xs) (auto simp: chain_from_snoc)

lemma chain_from_sorted:
  "chain_from x ys \<Longrightarrow> sorted (map row_revision (x # ys))"
proof (induction x ys rule: chain_from.induct)
  case (2 x y ys)
  then have "row_revision x \<le> row_revision y" by (simp add: row_follows_def)
  with 2 show ?case by auto
qed simp

lemma approval_chain_sorted: "approval_chain xs \<Longrightarrow> sorted (map row_revision xs)"
proof (cases xs)
  case (Cons x ys)
  assume "approval_chain xs"
  with Cons show ?thesis using chain_from_sorted[of x ys] by simp
qed simp

text \<open>On a chain, the ORDER BY of the history is the order of storage.\<close>

lemma history_of_chain:
  assumes "approval_chain (approval_rows a (table c ''tw_hitl_events''))"
  shows "hitl_history c a = approval_rows a (table c ''tw_hitl_events'')"
proof -
  have "select_where c ''tw_hitl_events'' ''approval_id'' (SText a)
        = approval_rows a (table c ''tw_hitl_events'')"
    by (simp add: select_where_def approval_rows_def)
  moreover have "sort_key row_revision (approval_rows a (table c ''tw_hitl_events''))
      = approval_rows a (table c ''tw_hitl_events'')"
    using approval_chain_sorted[OF assms] by (rule sort_key_id_if_sorted)
  ultimately show ?thesis by (simp add: hitl_history_def row_revision_def[abs_def])
qed

lemma check_transition_chain:
  assumes "check_transition r history = Inr ()" and "hitl_validate H r = Inr ()"
    and "approval_chain history"
  shows "approval_chain (history @ [hitl_row r])"
proof (cases "hr_phase r = lit ''PAUSE''")
  case True
  with assms(1) show ?thesis
    by (auto simp: check_transition_def approval_chain_snoc row_starts_def row_phase_def
        row_revision_def sqlopt_int_def)
next
  case False
  let ?x = "last history"
  from False assms(1) have ne: "history \<noteq> []"
    by (auto simp: check_transition_def)
  from False assms(1) ne have lin: "same_lineage r ?x"
    and rev: "hr_previous_revision r = Some (row_revision ?x)" "row_revision ?x < hr_revision r"
    and dec: "hr_phase r \<in> set (map lit decisions) \<longrightarrow> col ?x ''phase'' = SText (lit ''PAUSE'')"
    and res: "hr_phase r = lit ''RESUME'' \<longrightarrow> col ?x ''phase'' = SText (lit ''APPROVE'')"
    by (auto simp: check_transition_def Let_def row_revision_def)
  from assms(2) have "hr_phase r \<in> set (map lit phases)"
    unfolding hitl_validate_def by simp
  with False dec res have "phase_step (row_phase ?x) (hr_phase r)"
    by (auto simp: phases_def decisions_def phase_step_def row_phase_def)
  with lin rev ne assms(3) show ?thesis
    by (simp add: approval_chain_snoc row_follows_def row_phase_def same_lineage_def sqlopt_int_def)
      (simp add: row_revision_def)
qed

lemma hitl_append_chain:
  assumes ok: "conn_ok c" and inv: "approval_chain (approval_rows a (table c ''tw_hitl_events''))"
    and app: "hitl_append H v r c = (Inr True, c')"
  shows "approval_chain (approval_rows a (table c' ''tw_hitl_events''))"
  using app ok
proof (cases rule: hitl_append_cases)
  case stored
  show ?thesis
  proof (cases "hr_approval_id r = a")
    case True
    with stored(3) history_of_chain[OF inv]
    have "check_transition r (approval_rows a (table c ''tw_hitl_events'')) = Inr ()" by simp
    from check_transition_chain[OF this stored(2) inv] stored(5) True show ?thesis
      by (simp add: approval_rows_def)
  next
    case False
    with stored(5) inv show ?thesis by (simp add: approval_rows_def)
  qed
qed simp_all

lemma hitl_run_chain:
  "conn_ok c \<Longrightarrow> approval_chain (approval_rows a (table c ''tw_hitl_events'')) \<Longrightarrow>
   approval_chain (approval_rows a (table (run_appends (hitl_append H v) rs c) ''tw_hitl_events''))"
  by (rule hitl.run_invariant[where P = "\<lambda>rs. approval_chain (approval_rows a rs)"])
    (auto intro: hitl_append_chain)

text \<open>
  The words of the protocol: PAUSE, then nothing, one approval, one approval and its
  resume, or one denial, then only STOPs.
\<close>

definition protocol_middle :: "pystr list list" where
  "protocol_middle = [[], [lit ''APPROVE''], [lit ''APPROVE'', lit ''RESUME''], [lit ''DENY'']]"

definition protocol_word :: "pystr list \<Rightarrow> bool" where
  "protocol_word ps \<longleftrightarrow> ps = [] \<or>
     (\<exists>mid n. mid \<in> set protocol_middle \<and> ps = lit ''PAUSE'' # mid @ replicate n (lit ''STOP''))"

lemma chain_from_stops:
  "chain_from x ys \<Longrightarrow> row_phase x \<in> {lit ''STOP'', lit ''DENY'', lit ''RESUME''} \<Longrightarrow>
   map row_phase ys = replicate (length ys) (lit ''STOP'')"
  by (induction x ys rule: chain_from.induct) (auto simp: row_follows_def phase_step_def)

lemma chain_from_approve:
  assumes "chain_from x ys" and "row_phase x = lit ''APPROVE''"
  shows "\<exists>mid n. mid \<in> set [[], [lit ''RESUME'']] \<and> map row_phase ys = mid @ replicate n (lit ''STOP'')"
proof (cases ys)
  case (Cons y zs)
  with assms have "row_phase y = lit ''RESUME'' \<or> row_phase y = lit ''STOP''" "chain_from y zs"
    by (auto simp: row_follows_def phase_step_def)
  with chain_from_stops[of y zs] Cons show ?thesis
    by (auto simp flip: replicate_Suc)
qed auto

lemma approval_chain_word:
  assumes "approval_chain xs"
  shows "protocol_word (map row_phase xs)"
proof (cases xs)
  case (Cons x ys)
  with assms have x: "row_phase x = lit ''PAUSE''" and ch: "chain_from x ys"
    by (auto simp: row_starts_def)
  show ?thesis
  proof (cases ys)
    case Nil
    with Cons x show ?thesis by (auto simp: protocol_word_def protocol_middle_def intro: exI[of _ 0])
  next
    case ys: (Cons y zs)
    with ch x consider "row_phase y = lit ''APPROVE''" | "row_phase y = lit ''DENY''" | "row_phase y = lit ''STOP''"
      by (auto simp: row_follows_def phase_step_def)
    then show ?thesis
    proof cases
      case 1
      with ch ys chain_from_approve[of y zs] obtain mid n where
        "mid \<in> set [[], [lit ''RESUME'']]" "map row_phase zs = mid @ replicate n (lit ''STOP'')"
        by auto
      with 1 Cons x ys show ?thesis
        unfolding protocol_word_def protocol_middle_def
        by (intro disjI2 exI[of _ "lit ''APPROVE'' # mid"] exI[of _ n]) auto
    next
      case 2
      with ch ys chain_from_stops[of y zs] Cons x show ?thesis
        unfolding protocol_word_def protocol_middle_def
        by (intro disjI2 exI[of _ "[lit ''DENY'']"] exI[of _ "length zs"]) auto
    next
      case 3
      with ch ys chain_from_stops[of y zs] Cons x show ?thesis
        unfolding protocol_word_def protocol_middle_def
        by (intro disjI2 exI[of _ "[]"] exI[of _ "Suc (length zs)"]) auto
    qed
  qed
qed (simp add: protocol_word_def)

text \<open>A decision is stored only with a matching, valid attestation of the verifier.\<close>

lemma verify_external_readback_ok:
  "verify_external_readback H v r = Inr u \<longleftrightarrow>
     (\<exists>f a. v = Some f \<and> f r = Attested a \<and> attestation_validate H a = Inr () \<and> matches_record r a)"
  by (auto simp: verify_external_readback_def split: option.splits verdict.splits sum.splits exc.splits)

lemma hitl_append_attested:
  assumes "conn_ok c" and "hitl_append H v r c = (Inr True, c')" and "needs_attestation (hr_phase r)"
  shows "\<exists>f a. v = Some f \<and> f r = Attested a \<and> attestation_validate H a = Inr () \<and> matches_record r a
           \<and> hr_actor_kind r = lit ''external-human'' \<and> \<not> is_automatic (hr_sender r)"
  using assms(2,1)
proof (cases rule: hitl_append_cases)
  case stored
  from stored(2) assms(3) have "hr_actor_kind r = lit ''external-human''" "\<not> is_automatic (hr_sender r)"
    unfolding hitl_validate_def by (auto simp: external_def)
  with stored(4) assms(3) show ?thesis by (auto simp: verify_external_readback_ok)
qed simp_all

text \<open>Reading an approval back returns exactly the records stored for it.\<close>

lemma hitl_read_ok:
  assumes "conn_ok c" and "approval_chain (approval_rows a (table c ''tw_hitl_events''))"
    and "\<forall>x\<in>set (table c ''tw_hitl_events''). \<exists>r. hitl_validate H r = Inr () \<and> x = hitl_row r"
    and "validate_ref a ''approval_id'' = Inr ()"
  shows "hitl_read H a c =
           (Inr (map hitl_of_row (approval_rows a (table c ''tw_hitl_events''))), c)"
proof -
  have "\<forall>x\<in>set (approval_rows a (table c ''tw_hitl_events'')).
          bindE (hitl_validate H (hitl_of_row x)) (\<lambda>_. Inr (hitl_of_row x)) = Inr (hitl_of_row x)"
    using assms(3) by (fastforce simp: approval_rows_def hitl_of_row_row)
  from mapE_map_ok[OF this] show ?thesis
    by (simp add: hitl_read_def history_of_chain[OF assms(2)] assms(4))
qed

section \<open>Properties\<close>

text \<open>C4: the approval protocol. Whatever records are appended to a new store, with whatever
  answers of the verifier, the stored phases of every approval spell a word of the protocol:
  PAUSE, then at most one decision, RESUME only directly after APPROVE, and only STOPs after
  that.\<close>

theorem approval_protocol:
  "protocol_word (map row_phase (approval_rows a
     (table (run_appends (hitl_append H v) rs empty_conn) ''tw_hitl_events'')))"
proof (rule approval_chain_word)
  have "approval_rows a (table empty_conn ''tw_hitl_events'') = []"
    by (simp add: approval_rows_def table_def empty_conn_def)
  then show "approval_chain (approval_rows a
      (table (run_appends (hitl_append H v) rs empty_conn) ''tw_hitl_events''))"
    by (intro hitl_run_chain[OF conn_ok_empty]) simp
qed

text \<open>C5: no decision without a human. Every stored APPROVE, DENY or RESUME is the row of a valid
  record whose sender is an external human and not an automatic identity, and for which the
  verifier returned a valid attestation that matches the record field by field.\<close>

definition attested_records :: "hasher \<Rightarrow> verifier option \<Rightarrow> hitl_record set" where
  "attested_records H v = {r. hitl_validate H r = Inr ()
     \<and> hr_actor_kind r = lit ''external-human'' \<and> \<not> is_automatic (hr_sender r)
     \<and> (\<exists>f a. v = Some f \<and> f r = Attested a \<and> attestation_validate H a = Inr () \<and> matches_record r a)}"

theorem decisions_attested:
  "set (filter (\<lambda>x. needs_attestation (row_phase x))
     (table (run_appends (hitl_append H v) rs empty_conn) ''tw_hitl_events''))
   \<subseteq> hitl_row ` attested_records H v"
proof (rule hitl.run_invariant[where P = "\<lambda>rows. set (filter (\<lambda>x. needs_attestation (row_phase x)) rows)
      \<subseteq> hitl_row ` attested_records H v", OF conn_ok_empty])
  show "set (filter (\<lambda>x. needs_attestation (row_phase x)) (table empty_conn ''tw_hitl_events''))
      \<subseteq> hitl_row ` attested_records H v"
    by (simp add: table_def empty_conn_def)
next
  fix c r c'
  assume inv: "set (filter (\<lambda>x. needs_attestation (row_phase x)) (table c ''tw_hitl_events''))
      \<subseteq> hitl_row ` attested_records H v"
    and ok: "conn_ok c" and app: "hitl_append H v r c = (Inr True, c')"
  have "r \<in> attested_records H v" if "needs_attestation (hr_phase r)"
    using hitl_append_attested[OF ok app that] hitl.accepted_valid[OF app]
    by (auto simp: attested_records_def)
  with inv hitl.appended_stored[OF ok app]
  show "set (filter (\<lambda>x. needs_attestation (row_phase x)) (table c' ''tw_hitl_events''))
      \<subseteq> hitl_row ` attested_records H v"
    by (auto simp: row_phase_def)
qed

text \<open>Reading an approval back from a store filled through the authority returns exactly the
  records stored for it, in the order in which they were stored, and never raises on a valid
  reference.\<close>

lemma approval_read_back:
  "hitl_read H a (run_appends (hitl_append H v) rs empty_conn)
   = (bindE (validate_ref a ''approval_id'') (\<lambda>_. Inr (map hitl_of_row (approval_rows a
        (table (run_appends (hitl_append H v) rs empty_conn) ''tw_hitl_events'')))),
      run_appends (hitl_append H v) rs empty_conn)"
proof (cases "validate_ref a ''approval_id''")
  case (Inl e)
  then show ?thesis by (simp add: hitl_read_def)
next
  case (Inr u)
  let ?c = "run_appends (hitl_append H v) rs empty_conn"
  have empty: "table empty_conn ''tw_hitl_events'' = []" by (simp add: table_def empty_conn_def)
  have "approval_chain (approval_rows a (table ?c ''tw_hitl_events''))"
    by (intro hitl_run_chain[OF conn_ok_empty]) (simp add: empty approval_rows_def)
  moreover have "\<forall>x\<in>set (table ?c ''tw_hitl_events''). \<exists>r. hitl_validate H r = Inr () \<and> x = hitl_row r"
    using hitl.run_rows[OF conn_ok_empty, of _ H v rs] empty by auto
  ultimately show ?thesis
    using hitl_read_ok[OF hitl.run_ok[OF conn_ok_empty]] Inr by simp
qed

end
