(* ===== verification/Authority_Ledger.thy ===== *)
theory Authority_Ledger
  imports Authority_Store
begin

text \<open>
  \<open>testweaver/authority/ledger.py\<close>: the ledger of observed tool calls. An entry seals its
  values, a denied call is fenced, and the ledger appends each call once and reads the
  entries back in the order of their occurrence.
\<close>

section \<open>Entries\<close>

record side_effect_entry =
  se_entry_id :: pystr
  se_call_ref :: pystr
  se_run_id :: pystr
  se_campaign_id :: pystr
  se_trace_id :: pystr
  se_actor_ref :: pystr
  se_tool_ref :: pystr
  se_operation :: pystr
  se_target_ref :: pystr
  se_decision :: pystr
  se_effect :: pystr
  se_fencing :: pystr
  se_observed :: bool
  se_occurred_at :: pystr
  se_request_hash :: pystr
  se_result_hash :: "pystr option"
  se_provenance :: pystr
  se_content_hash :: pystr

definition ledger_decisions :: "string list" where
  "ledger_decisions = [''allow'', ''deny'']"

definition ledger_effects :: "string list" where
  "ledger_effects = [''none'', ''read'', ''write'', ''external'', ''blocked'', ''unknown'']"

definition ledger_fencing :: "string list" where
  "ledger_fencing = [''passed'', ''blocked'', ''not_applicable'']"

definition entry_values :: "side_effect_entry \<Rightarrow> (pystr \<times> json) list" where
  "entry_values e =
     [(lit ''entry_id'', JStr (se_entry_id e)),
      (lit ''call_ref'', JStr (se_call_ref e)),
      (lit ''run_id'', JStr (se_run_id e)),
      (lit ''campaign_id'', JStr (se_campaign_id e)),
      (lit ''trace_id'', JStr (se_trace_id e)),
      (lit ''actor_ref'', JStr (se_actor_ref e)),
      (lit ''tool_ref'', JStr (se_tool_ref e)),
      (lit ''operation'', JStr (se_operation e)),
      (lit ''target_ref'', JStr (se_target_ref e)),
      (lit ''decision'', JStr (se_decision e)),
      (lit ''effect'', JStr (se_effect e)),
      (lit ''fencing'', JStr (se_fencing e)),
      (lit ''observed'', JBool (se_observed e)),
      (lit ''occurred_at'', JStr (se_occurred_at e)),
      (lit ''request_hash'', JStr (se_request_hash e)),
      (lit ''result_hash'', jopt (se_result_hash e)),
      (lit ''provenance'', JStr (se_provenance e))]"

definition entry_dict :: "side_effect_entry \<Rightarrow> (pystr \<times> json) list" where
  "entry_dict e = entry_values e @ [(lit ''content_hash'', JStr (se_content_hash e))]"

definition entry_validate :: "hasher \<Rightarrow> side_effect_entry \<Rightarrow> unit res" where
  "entry_validate H e = seqE
     ([validate_ref (se_entry_id e) ''entry_id'',
       validate_ref (se_call_ref e) ''call_ref'',
       validate_ref (se_run_id e) ''run_id'',
       validate_ref (se_campaign_id e) ''campaign_id'',
       validate_ref (se_trace_id e) ''trace_id'',
       validate_ref (se_actor_ref e) ''actor_ref'',
       validate_ref (se_tool_ref e) ''tool_ref'',
       validate_ref (se_operation e) ''operation'',
       validate_ref (se_target_ref e) ''target_ref'',
       validate_ref (se_occurred_at e) ''occurred_at'',
       validate_ref (se_provenance e) ''provenance'',
       raise_if (se_decision e \<notin> set (map lit ledger_decisions))
         (aerr (lit ''side-effect decision must be allow or deny'')),
       raise_if (se_effect e \<notin> set (map lit ledger_effects))
         (aerr (lit ''side-effect effect is unsupported'')),
       raise_if (se_fencing e \<notin> set (map lit ledger_fencing))
         (aerr (lit ''side-effect fencing is unsupported'')),
       raise_if (\<not> se_observed e) (aerr (lit ''ledger accepts only an observed actual call'')),
       raise_if (se_decision e = lit ''deny'' \<and> se_fencing e \<noteq> lit ''blocked'')
         (aerr (lit ''denied call must have blocked fencing'')),
       raise_if (se_decision e = lit ''allow'' \<and> se_fencing e = lit ''blocked'')
         (aerr (lit ''allowed call cannot have blocked fencing'')),
       validate_hash (se_request_hash e) ''request_hash'']
      @ (case se_result_hash e of None \<Rightarrow> [] | Some h \<Rightarrow> [validate_hash h ''result_hash''])
      @ [ensure_sealed H (entry_dict e) ''content_hash''])"

text \<open>\<open>SideEffectEntry.create\<close>: seal the values, then construct, which validates.\<close>

definition entry_create :: "hasher \<Rightarrow> side_effect_entry \<Rightarrow> side_effect_entry res" where
  "entry_create H values =
     bindE (safe_hash H (JObj (entry_values values)) ''side_effect'') (\<lambda>h.
     bindE (entry_validate H (values\<lparr>se_content_hash := h\<rparr>)) (\<lambda>_.
     Inr (values\<lparr>se_content_hash := h\<rparr>)))"

section \<open>The ledger\<close>

definition ledger_columns :: "string list" where
  "ledger_columns = [''entry_id'', ''call_ref'', ''run_id'', ''campaign_id'', ''trace_id'',
     ''actor_ref'', ''tool_ref'', ''operation'', ''target_ref'', ''decision'', ''effect'',
     ''fencing'', ''observed'', ''occurred_at'', ''request_hash'', ''result_hash'',
     ''provenance'', ''content_hash'']"

definition ledger_sql :: "side_effect_entry \<Rightarrow> sqlval list" where
  "ledger_sql e =
     [SText (se_entry_id e), SText (se_call_ref e), SText (se_run_id e), SText (se_campaign_id e),
      SText (se_trace_id e), SText (se_actor_ref e), SText (se_tool_ref e), SText (se_operation e),
      SText (se_target_ref e), SText (se_decision e), SText (se_effect e), SText (se_fencing e),
      SBool (se_observed e), SText (se_occurred_at e), SText (se_request_hash e),
      sqlopt (se_result_hash e), SText (se_provenance e), SText (se_content_hash e)]"

definition ledger_insert :: "side_effect_entry \<Rightarrow> record_insert" where
  "ledger_insert e = \<lparr>ri_table = ''tw_side_effect_ledger'', ri_identity_column = ''call_ref'',
     ri_identity_value = se_call_ref e, ri_content_hash = se_content_hash e,
     ri_columns = ledger_columns, ri_values = ledger_sql e\<rparr>"

definition ledger_append :: "hasher \<Rightarrow> side_effect_entry \<Rightarrow> bool act" where
  "ledger_append H e =
     bindS (liftS (entry_validate H e)) (\<lambda>_. append_record (ledger_insert e))"

text \<open>A truth value read back: \<open>bool(row[12])\<close>.\<close>

definition sql_bool :: "sqlval \<Rightarrow> bool" where
  "sql_bool v = (case v of SBool b \<Rightarrow> b | SInt i \<Rightarrow> i \<noteq> 0 | SText s \<Rightarrow> s \<noteq> [] | SNull \<Rightarrow> False)"

definition entry_of_row :: "row \<Rightarrow> side_effect_entry" where
  "entry_of_row x =
     \<lparr>se_entry_id = sql_text (col x ''entry_id''), se_call_ref = sql_text (col x ''call_ref''),
      se_run_id = sql_text (col x ''run_id''), se_campaign_id = sql_text (col x ''campaign_id''),
      se_trace_id = sql_text (col x ''trace_id''), se_actor_ref = sql_text (col x ''actor_ref''),
      se_tool_ref = sql_text (col x ''tool_ref''), se_operation = sql_text (col x ''operation''),
      se_target_ref = sql_text (col x ''target_ref''), se_decision = sql_text (col x ''decision''),
      se_effect = sql_text (col x ''effect''), se_fencing = sql_text (col x ''fencing''),
      se_observed = sql_bool (col x ''observed''),
      se_occurred_at = sql_text (col x ''occurred_at''),
      se_request_hash = sql_text (col x ''request_hash''),
      se_result_hash = sql_opt_text (col x ''result_hash''),
      se_provenance = sql_text (col x ''provenance''),
      se_content_hash = sql_text (col x ''content_hash'')\<rparr>"

text \<open>
  \<open>ORDER BY occurred_at, entry_id\<close> as two stable sorts, the less significant column first.
\<close>

definition ledger_order :: "row list \<Rightarrow> row list" where
  "ledger_order rs =
     sort_key (\<lambda>x. sql_text (col x ''occurred_at'')) (sort_key (\<lambda>x. sql_text (col x ''entry_id'')) rs)"

definition ledger_entries :: "hasher \<Rightarrow> pystr option \<Rightarrow> side_effect_entry list act" where
  "ledger_entries H run_id =
     bindS (liftS (case run_id of None \<Rightarrow> Inr () | Some r \<Rightarrow> validate_ref r ''run_id'')) (\<lambda>_.
     bindS (getS (\<lambda>c. case run_id of None \<Rightarrow> table c ''tw_side_effect_ledger''
                     | Some r \<Rightarrow> select_where c ''tw_side_effect_ledger'' ''run_id'' (SText r))) (\<lambda>rows.
     liftS (mapE (\<lambda>x. bindE (entry_validate H (entry_of_row x)) (\<lambda>_. Inr (entry_of_row x)))
       (ledger_order rows))))"

section \<open>Appending\<close>

definition ledger_row :: "side_effect_entry \<Rightarrow> row" where
  "ledger_row e = insert_row ledger_columns (ledger_sql e)"

lemma ledger_row_cols [simp]:
  "col (ledger_row e) ''entry_id'' = SText (se_entry_id e)"
  "col (ledger_row e) ''call_ref'' = SText (se_call_ref e)"
  "col (ledger_row e) ''run_id'' = SText (se_run_id e)"
  "col (ledger_row e) ''decision'' = SText (se_decision e)"
  "col (ledger_row e) ''fencing'' = SText (se_fencing e)"
  "col (ledger_row e) ''occurred_at'' = SText (se_occurred_at e)"
  "col (ledger_row e) ''content_hash'' = SText (se_content_hash e)"
  by (simp_all add: ledger_row_def insert_row_def ledger_columns_def ledger_sql_def col_def)

lemma entry_of_row_row: "entry_of_row (ledger_row e) = e"
  by (simp add: entry_of_row_def ledger_row_def insert_row_def ledger_columns_def ledger_sql_def
      col_def sql_bool_def)

lemma entry_validate_fenced:
  "entry_validate H e = Inr u \<Longrightarrow> se_observed e \<and>
     (se_decision e = lit ''deny'' \<longleftrightarrow> se_fencing e = lit ''blocked'')"
  by (auto simp: entry_validate_def ledger_decisions_def)

lemma ledger_columns_ok: "list_all is_column_name ledger_columns"
  by (simp add: ledger_columns_def column_names)

lemma entry_keys: "lit ''content_hash'' \<notin> fst ` set (entry_values e)"
  by (simp add: entry_values_def)

lemma entry_sealed: "entry_validate H e = Inr u \<Longrightarrow> is_sha256 (se_content_hash e)"
  unfolding entry_validate_def entry_dict_def by (simp add: ensure_sealed_snoc[OF entry_keys])

lemma entry_validate_insert:
  assumes "entry_validate H e = Inr u"
  shows "validate_insert (ledger_insert e) = Inr ()"
proof -
  from assms have "validate_ref (se_call_ref e) ''call_ref'' = Inr ()"
    unfolding entry_validate_def by simp
  moreover have "is_column_name ''call_ref''" "distinct ledger_columns" "''call_ref'' \<in> set ledger_columns"
      "''content_hash'' \<in> set ledger_columns" "length (ledger_sql e) = length ledger_columns"
    by (simp_all add: column_names ledger_columns_def ledger_sql_def)
  ultimately show ?thesis
    using entry_sealed[OF assms] ledger_columns_ok
    by (auto simp: validate_insert_def ledger_insert_def table_names_def validate_hash_ok)
qed

interpretation ledger: record_append "ledger_append H" "''tw_side_effect_ledger''" ledger_row
  "\<lambda>e. entry_validate H e = Inr ()" ledger_insert for H
proof (unfold_locales, goal_cases)
  case 1
  then show ?case by (auto simp: ledger_append_def bindS_def liftS_def split: sum.splits)
next
  case (2 r)
  show ?case by (simp add: ledger_insert_def)
next
  case (3 r)
  show ?case by (simp add: record_row_def ledger_insert_def ledger_row_def)
next
  case (4 c r)
  have "keys_unique ''tw_side_effect_ledger'' (table c ''tw_side_effect_ledger'')"
    by (rule conn_ok_keys[OF 4(1)]) (simp add: table_names_def)
  then have "bound_to c ''tw_side_effect_ledger'' ''call_ref'' (se_call_ref r) = Some (ledger_row r)"
    using 4(3) by (intro bound_to_unique) (simp_all add: schema_of_def)
  then have "append_record (ledger_insert r) c = (Inr False, c)"
    using 4(1) entry_validate_insert[OF 4(2)]
    by (intro append_record_known[where x = "ledger_row r"]) (simp_all add: ledger_insert_def)
  with 4(2) show ?case by (simp add: ledger_append_def)
qed

section \<open>Reading\<close>

lemma ledger_order_mset [simp]: "mset (ledger_order rs) = mset rs"
  by (simp add: ledger_order_def)

lemma ledger_order_set [simp]: "set (ledger_order rs) = set rs"
  by (simp add: ledger_order_def)

text \<open>
  Every row of a table filled through \<open>append\<close> reads back as the entry it was written
  from, so \<open>entries\<close> returns all of them, in the order of their occurrence.
\<close>

definition ledger_filled :: "hasher \<Rightarrow> row list \<Rightarrow> bool" where
  "ledger_filled H rs \<longleftrightarrow> (\<forall>x\<in>set rs. entry_validate H (entry_of_row x) = Inr () \<and> ledger_row (entry_of_row x) = x)"

lemma ledger_append_filled:
  assumes "conn_ok c" and "ledger_filled H (table c ''tw_side_effect_ledger'')"
    and "ledger_append H e c = (Inr True, c')"
  shows "ledger_filled H (table c' ''tw_side_effect_ledger'')"
  using assms(2) ledger.appended_stored[OF assms(1,3)] ledger.accepted_valid[OF assms(3)]
  by (auto simp: ledger_filled_def entry_of_row_row)

lemma ledger_run_filled:
  assumes "conn_ok c" and "ledger_filled H (table c ''tw_side_effect_ledger'')"
  shows "ledger_filled H (table (run_appends (ledger_append H) es c) ''tw_side_effect_ledger'')"
  by (rule ledger.run_invariant[where P = "ledger_filled H", OF assms ledger_append_filled])

lemma ledger_entries_all:
  assumes "ledger_filled H (table c ''tw_side_effect_ledger'')"
  shows "ledger_entries H None c =
    (Inr (map entry_of_row (ledger_order (table c ''tw_side_effect_ledger''))), c)"
proof -
  have "mapE (\<lambda>x. bindE (entry_validate H (entry_of_row x)) (\<lambda>_. Inr (entry_of_row x)))
          (ledger_order (table c ''tw_side_effect_ledger''))
      = Inr (map entry_of_row (ledger_order (table c ''tw_side_effect_ledger'')))"
    using assms by (intro mapE_map_ok) (simp add: ledger_filled_def)
  then show ?thesis by (simp add: ledger_entries_def)
qed

lemma ledger_entries_sorted:
  "sorted (map (se_occurred_at \<circ> entry_of_row) (ledger_order rs))"
proof -
  have "sorted (map (\<lambda>x. sql_text (col x ''occurred_at'')) (ledger_order rs))"
    unfolding ledger_order_def by (rule sorted_sort_key)
  moreover have "se_occurred_at \<circ> entry_of_row = (\<lambda>x. sql_text (col x ''occurred_at''))"
    by (auto simp: entry_of_row_def)
  ultimately show ?thesis by simp
qed

section \<open>Properties\<close>

text \<open>\<open>entries()\<close> of a ledger filled through \<open>append\<close> returns every stored entry exactly once,
  sorted by the time of occurrence, without raising, and leaves the store alone.\<close>

lemma ledger_complete:
  "\<exists>es'. ledger_entries H None (run_appends (ledger_append H) es empty_conn)
       = (Inr es', run_appends (ledger_append H) es empty_conn)
     \<and> mset (map ledger_row es') = mset (table (run_appends (ledger_append H) es empty_conn) ''tw_side_effect_ledger'')
     \<and> sorted (map se_occurred_at es')"
proof -
  let ?c = "run_appends (ledger_append H) es empty_conn"
  let ?rows = "table ?c ''tw_side_effect_ledger''"
  have filled: "ledger_filled H ?rows"
    by (rule ledger_run_filled[OF conn_ok_empty]) (simp add: ledger_filled_def table_def empty_conn_def)
  have "map ledger_row (map entry_of_row (ledger_order ?rows)) = ledger_order ?rows"
    using filled by (auto simp: ledger_filled_def comp_def intro!: map_idI)
  then have "mset (map ledger_row (map entry_of_row (ledger_order ?rows))) = mset ?rows"
    by (simp only: ledger_order_mset)
  moreover have "sorted (map se_occurred_at (map entry_of_row (ledger_order ?rows)))"
    using ledger_entries_sorted[of ?rows] by (simp only: map_map)
  ultimately show ?thesis using ledger_entries_all[OF filled] by blast
qed

text \<open>The ledger holds only observed calls, a call is fenced as blocked exactly when it was
  denied, and no call reference occurs twice.\<close>

lemma ledger_fenced_once:
  "set (table (run_appends (ledger_append H) es empty_conn) ''tw_side_effect_ledger'')
     \<subseteq> ledger_row ` {e \<in> set es. se_observed e \<and> (se_decision e = lit ''deny'' \<longleftrightarrow> se_fencing e = lit ''blocked'')}
   \<and> distinct (map (\<lambda>x. col x ''call_ref'')
       (table (run_appends (ledger_append H) es empty_conn) ''tw_side_effect_ledger''))"
proof -
  let ?rows = "table (run_appends (ledger_append H) es empty_conn) ''tw_side_effect_ledger''"
  have "table empty_conn ''tw_side_effect_ledger'' = []" by (simp add: table_def empty_conn_def)
  then have rows: "set ?rows \<subseteq> ledger_row ` {e \<in> set es. entry_validate H e = Inr ()}"
    using ledger.run_new_rows[OF conn_ok_empty, of H es] by auto
  have "keys_unique ''tw_side_effect_ledger'' ?rows"
    by (rule conn_ok_keys[OF ledger.run_ok[OF conn_ok_empty]]) (simp add: table_names_def)
  then have "distinct (map (\<lambda>x. col x ''call_ref'') ?rows)"
    by (rule keys_unique_distinct) (use rows in \<open>auto simp: schema_of_def\<close>)
  with rows entry_validate_fenced show ?thesis by blast
qed

end
