(* ===== verification/Authority_Oracle.thy ===== *)
theory Authority_Oracle
  imports Authority_Store
begin

text \<open>
  \<open>testweaver/authority/oracle.py\<close>: results of the Outcome and the Boundary oracle, the
  check that a pair of them is independent, and their persistence one by one or as an
  atomic pair.
\<close>

section \<open>Results\<close>

record oracle_result =
  or_result_id :: pystr
  or_oracle_kind :: pystr
  or_run_id :: pystr
  or_campaign_id :: pystr
  or_trace_id :: pystr
  or_identity_ref :: pystr
  or_process_ref :: pystr
  or_result_ref :: pystr
  or_result_hash :: pystr
  or_evidence_root_ref :: pystr
  or_evidence_root_hash :: pystr
  or_evidence_refs :: "(pystr \<times> json) list list"
  or_gold_ref :: "pystr option"
  or_source_ref :: pystr
  or_status :: pystr
  or_provenance :: pystr
  or_content_hash :: pystr
  or_read_result_refs :: "pystr list"

definition oracle_kinds :: "string list" where
  "oracle_kinds = [''outcome'', ''boundary'']"

definition oracle_statuses :: "string list" where
  "oracle_statuses = [''PASS'', ''FAIL'', ''UNCERTAIN'', ''NOT_OBSERVED'', ''NOT_AVAILABLE'']"

definition oracle_values :: "oracle_result \<Rightarrow> (pystr \<times> json) list" where
  "oracle_values r =
     [(lit ''result_id'', JStr (or_result_id r)),
      (lit ''oracle_kind'', JStr (or_oracle_kind r)),
      (lit ''run_id'', JStr (or_run_id r)),
      (lit ''campaign_id'', JStr (or_campaign_id r)),
      (lit ''trace_id'', JStr (or_trace_id r)),
      (lit ''identity_ref'', JStr (or_identity_ref r)),
      (lit ''process_ref'', JStr (or_process_ref r)),
      (lit ''result_ref'', JStr (or_result_ref r)),
      (lit ''result_hash'', JStr (or_result_hash r)),
      (lit ''evidence_root_ref'', JStr (or_evidence_root_ref r)),
      (lit ''evidence_root_hash'', JStr (or_evidence_root_hash r)),
      (lit ''evidence_refs'', JArr (map JObj (or_evidence_refs r))),
      (lit ''gold_ref'', jopt (or_gold_ref r)),
      (lit ''source_ref'', JStr (or_source_ref r)),
      (lit ''status'', JStr (or_status r)),
      (lit ''provenance'', JStr (or_provenance r)),
      (lit ''read_result_refs'', JArr (map JStr (or_read_result_refs r)))]"

definition oracle_dict :: "oracle_result \<Rightarrow> (pystr \<times> json) list" where
  "oracle_dict r = oracle_values r @ [(lit ''content_hash'', JStr (or_content_hash r))]"

definition oracle_validate :: "hasher \<Rightarrow> oracle_result \<Rightarrow> unit res" where
  "oracle_validate H r = seqE
     ([validate_ref (or_result_id r) ''result_id'',
       validate_ref (or_run_id r) ''run_id'',
       validate_ref (or_campaign_id r) ''campaign_id'',
       validate_ref (or_trace_id r) ''trace_id'',
       validate_ref (or_identity_ref r) ''identity_ref'',
       validate_ref (or_process_ref r) ''process_ref'',
       validate_ref (or_result_ref r) ''result_ref'',
       validate_ref (or_evidence_root_ref r) ''evidence_root_ref'',
       validate_ref (or_source_ref r) ''source_ref'',
       validate_ref (or_provenance r) ''provenance'',
       raise_if (or_oracle_kind r \<notin> set (map lit oracle_kinds))
         (aerr (lit ''oracle_kind must be outcome or boundary'')),
       validate_hash (or_result_hash r) ''result_hash'',
       validate_hash (or_evidence_root_hash r) ''evidence_root_hash'',
       bindE (check_refs ''evidence_refs'' (or_evidence_refs r)) (\<lambda>_. Inr ())]
      @ (case or_gold_ref r of None \<Rightarrow> [] | Some g \<Rightarrow> [validate_ref g ''gold_ref''])
      @ [raise_if (or_oracle_kind r = lit ''boundary'' \<and> or_gold_ref r \<noteq> None)
           (aerr (lit ''Boundary Oracle gold_ref must be null'')),
         raise_if (or_status r \<notin> set (map lit oracle_statuses)) (aerr (lit ''oracle status is unsupported'')),
         raise_if (or_read_result_refs r \<noteq> [])
           (aerr (lit ''an Oracle may not reference another Oracle result'')),
         ensure_sealed H (oracle_dict r) ''content_hash''])"

text \<open>\<open>OracleResult.create\<close>: seal the values, then construct, which validates.\<close>

definition oracle_create :: "hasher \<Rightarrow> oracle_result \<Rightarrow> oracle_result res" where
  "oracle_create H values =
     bindE (safe_hash H (JObj (oracle_values values)) ''oracle_result'') (\<lambda>h.
     bindE (oracle_validate H (values\<lparr>or_content_hash := h\<rparr>)) (\<lambda>_.
     Inr (values\<lparr>or_content_hash := h\<rparr>)))"

section \<open>Pairs\<close>

text \<open>The set of references and hashes of the evidence.\<close>

definition evidence_keys :: "(pystr \<times> json) list list \<Rightarrow> (json \<times> json) list" where
  "evidence_keys refs =
     map (\<lambda>item. (the (map_of item (lit ''ref'')), the (map_of item (lit ''content_hash'')))) refs"

definition pair_shares :: "string \<Rightarrow> pystr \<Rightarrow> pystr \<Rightarrow> unit res" where
  "pair_shares field a b = raise_if (a \<noteq> b) (aerr (lit ''Oracle pair does not share '' @ lit field))"

definition validate_oracle_pair :: "hasher \<Rightarrow> oracle_result \<Rightarrow> oracle_result \<Rightarrow> unit res" where
  "validate_oracle_pair H outcome boundary = seqE
     [oracle_validate H outcome,
      oracle_validate H boundary,
      raise_if (or_oracle_kind outcome \<noteq> lit ''outcome'' \<or> or_oracle_kind boundary \<noteq> lit ''boundary'')
        (aerr (lit ''pair must be Outcome followed by Boundary'')),
      pair_shares ''run_id'' (or_run_id outcome) (or_run_id boundary),
      pair_shares ''campaign_id'' (or_campaign_id outcome) (or_campaign_id boundary),
      pair_shares ''trace_id'' (or_trace_id outcome) (or_trace_id boundary),
      pair_shares ''evidence_root_ref'' (or_evidence_root_ref outcome) (or_evidence_root_ref boundary),
      pair_shares ''evidence_root_hash'' (or_evidence_root_hash outcome) (or_evidence_root_hash boundary),
      raise_if (\<not> list_ex (\<lambda>k. k \<in> set (evidence_keys (or_evidence_refs boundary)))
                    (evidence_keys (or_evidence_refs outcome)))
        (aerr (lit ''Oracle pair must share at least one public evidence reference'')),
      raise_if (or_identity_ref outcome = or_identity_ref boundary)
        (aerr (lit ''Oracle identities must be distinct'')),
      raise_if (or_process_ref outcome = or_process_ref boundary)
        (aerr (lit ''Oracle processes must be distinct'')),
      raise_if (or_result_ref outcome = or_result_ref boundary
                \<or> or_result_hash outcome = or_result_hash boundary)
        (aerr (lit ''Oracle result references and hashes must be distinct''))]"

section \<open>Persistence\<close>

definition oracle_columns :: "string list" where
  "oracle_columns = [''result_id'', ''oracle_kind'', ''run_id'', ''campaign_id'', ''trace_id'',
     ''identity_ref'', ''process_ref'', ''result_ref'', ''result_hash'', ''evidence_root_ref'',
     ''evidence_root_hash'', ''evidence_refs_json'', ''gold_ref'', ''source_ref'', ''status'',
     ''provenance'', ''content_hash'']"

definition oracle_sql :: "oracle_result \<Rightarrow> pystr \<Rightarrow> sqlval list" where
  "oracle_sql r evidence_json =
     [SText (or_result_id r), SText (or_oracle_kind r), SText (or_run_id r), SText (or_campaign_id r),
      SText (or_trace_id r), SText (or_identity_ref r), SText (or_process_ref r),
      SText (or_result_ref r), SText (or_result_hash r), SText (or_evidence_root_ref r),
      SText (or_evidence_root_hash r), SText evidence_json, sqlopt (or_gold_ref r),
      SText (or_source_ref r), SText (or_status r), SText (or_provenance r), SText (or_content_hash r)]"

definition oracle_insert :: "oracle_result \<Rightarrow> pystr \<Rightarrow> record_insert" where
  "oracle_insert r evidence_json = \<lparr>ri_table = ''tw_oracle_results'', ri_identity_column = ''result_id'',
     ri_identity_value = or_result_id r, ri_content_hash = or_content_hash r,
     ri_columns = oracle_columns, ri_values = oracle_sql r evidence_json\<rparr>"

definition insert_spec :: "oracle_result \<Rightarrow> record_insert res" where
  "insert_spec r =
     bindE (canonical_json (JArr (map JObj (or_evidence_refs r)))) (\<lambda>j. Inr (oracle_insert r j))"

definition oracle_persist :: "hasher \<Rightarrow> oracle_result \<Rightarrow> bool act" where
  "oracle_persist H r =
     bindS (liftS (oracle_validate H r)) (\<lambda>_.
     bindS (liftS (insert_spec r)) (\<lambda>spec.
     bindS (append_records [spec]) (\<lambda>bs. returnS (hd bs))))"

definition persist_pair :: "hasher \<Rightarrow> oracle_result \<Rightarrow> oracle_result \<Rightarrow> bool list act" where
  "persist_pair H outcome boundary =
     bindS (liftS (validate_oracle_pair H outcome boundary)) (\<lambda>_.
     bindS (liftS (insert_spec outcome)) (\<lambda>spec_outcome.
     bindS (liftS (insert_spec boundary)) (\<lambda>spec_boundary.
     append_records [spec_outcome, spec_boundary])))"

section \<open>Appending\<close>

text \<open>The evidence of a sealed result is safe, so it is written as canonical JSON.\<close>

definition evidence_json :: "oracle_result \<Rightarrow> pystr" where
  "evidence_json r = dumps (JArr (map JObj (or_evidence_refs r)))"

definition oracle_insert_of :: "oracle_result \<Rightarrow> record_insert" where
  "oracle_insert_of r = oracle_insert r (evidence_json r)"

definition oracle_row :: "oracle_result \<Rightarrow> row" where
  "oracle_row r = insert_row oracle_columns (oracle_sql r (evidence_json r))"

lemma oracle_row_cols [simp]:
  "col (oracle_row r) ''result_id'' = SText (or_result_id r)"
  "col (oracle_row r) ''oracle_kind'' = SText (or_oracle_kind r)"
  "col (oracle_row r) ''run_id'' = SText (or_run_id r)"
  "col (oracle_row r) ''identity_ref'' = SText (or_identity_ref r)"
  "col (oracle_row r) ''process_ref'' = SText (or_process_ref r)"
  "col (oracle_row r) ''result_ref'' = SText (or_result_ref r)"
  "col (oracle_row r) ''gold_ref'' = sqlopt (or_gold_ref r)"
  "col (oracle_row r) ''content_hash'' = SText (or_content_hash r)"
  by (simp_all add: oracle_row_def insert_row_def oracle_columns_def oracle_sql_def col_def)

lemma oracle_keys: "lit ''content_hash'' \<notin> fst ` set (oracle_values r)"
  by (simp add: oracle_values_def)

lemma oracle_sealed:
  "oracle_validate H r = Inr u \<Longrightarrow> is_sha256 (or_content_hash r) \<and> safe_ok (JObj (oracle_values r)) 0"
  unfolding oracle_validate_def oracle_dict_def
  by (simp add: ensure_sealed_snoc[OF oracle_keys] del: safe_ok.simps)

lemma oracle_columns_ok: "list_all is_column_name oracle_columns"
  by (simp add: oracle_columns_def column_names)

lemma oracle_validate_insert:
  assumes "oracle_validate H r = Inr u"
  shows "validate_insert (oracle_insert_of r) = Inr ()"
proof -
  from assms have "validate_ref (or_result_id r) ''result_id'' = Inr ()"
    unfolding oracle_validate_def by simp
  moreover have "is_column_name ''result_id''" "distinct oracle_columns" "''result_id'' \<in> set oracle_columns"
      "''content_hash'' \<in> set oracle_columns"
      "length (oracle_sql r (evidence_json r)) = length oracle_columns"
    by (simp_all add: column_names oracle_columns_def oracle_sql_def)
  ultimately show ?thesis
    using oracle_sealed[OF assms] oracle_columns_ok
    by (auto simp: validate_insert_def oracle_insert_of_def oracle_insert_def table_names_def validate_hash_ok)
qed

lemma insert_spec_valid:
  assumes "oracle_validate H r = Inr u"
  shows "insert_spec r = Inr (oracle_insert_of r)"
proof -
  have mem: "(lit ''evidence_refs'', JArr (map JObj (or_evidence_refs r))) \<in> set (oracle_values r)"
    by (simp add: oracle_values_def)
  from oracle_sealed[OF assms] mem have "safe_ok (JArr (map JObj (or_evidence_refs r))) 1"
    by fastforce
  then have "safe_ok (JArr (map JObj (or_evidence_refs r))) 0" by (rule safe_ok_antimono) simp
  then show ?thesis
    by (simp add: insert_spec_def canonical_json_def safe_value_iff oracle_insert_of_def evidence_json_def
        bindE_def safe_value_eq del: safe_ok.simps)
qed

lemma oracle_persist_append:
  "oracle_persist H r c =
     (case oracle_validate H r of Inl e \<Rightarrow> (Inl e, c) | Inr u \<Rightarrow> append_record (oracle_insert_of r) c)"
  by (cases "oracle_validate H r")
    (simp_all add: oracle_persist_def insert_spec_valid append_record_def)

interpretation oracles: record_append "oracle_persist H" "''tw_oracle_results''" oracle_row
  "\<lambda>r. oracle_validate H r = Inr ()" oracle_insert_of for H
proof (unfold_locales, goal_cases)
  case 1
  then show ?case by (auto simp: oracle_persist_append split: sum.splits)
next
  case (2 r)
  show ?case by (simp add: oracle_insert_of_def oracle_insert_def)
next
  case (3 r)
  show ?case by (simp add: record_row_def oracle_insert_of_def oracle_insert_def oracle_row_def)
next
  case (4 c r)
  have "keys_unique ''tw_oracle_results'' (table c ''tw_oracle_results'')"
    by (rule conn_ok_keys[OF 4(1)]) (simp add: table_names_def)
  then have "bound_to c ''tw_oracle_results'' ''result_id'' (or_result_id r) = Some (oracle_row r)"
    using 4(3) by (intro bound_to_unique) (simp_all add: schema_of_def)
  then have "append_record (oracle_insert_of r) c = (Inr False, c)"
    using 4(1) oracle_validate_insert[OF 4(2)]
    by (intro append_record_known[where x = "oracle_row r"])
      (simp_all add: oracle_insert_of_def oracle_insert_def)
  with 4(2) show ?case by (simp add: oracle_persist_append)
qed

section \<open>Pairs in the store\<close>

lemma pair_shares_ok [simp]: "pair_shares f a b = Inr u \<longleftrightarrow> a = b"
  by (simp add: pair_shares_def)

lemma validate_oracle_pair_independent:
  assumes "validate_oracle_pair H p q = Inr u"
  shows "or_run_id p = or_run_id q" and "or_oracle_kind p = lit ''outcome''"
    and "or_oracle_kind q = lit ''boundary''" and "or_gold_ref q = None"
    and "or_identity_ref p \<noteq> or_identity_ref q" and "or_process_ref p \<noteq> or_process_ref q"
    and "or_result_ref p \<noteq> or_result_ref q" and "or_result_hash p \<noteq> or_result_hash q"
    and "set (evidence_keys (or_evidence_refs p)) \<inter> set (evidence_keys (or_evidence_refs q)) \<noteq> {}"
    and "oracle_validate H p = Inr ()" and "oracle_validate H q = Inr ()"
  using assms unfolding validate_oracle_pair_def
  by (auto simp: list_ex_iff oracle_validate_def)

lemma oracle_insert_carries: "carries_identity (oracle_insert_of r)"
  using oracle_row_cols[of r]
  by (simp add: carries_identity_def record_row_def oracle_insert_of_def oracle_insert_def oracle_row_def)

lemma persist_pair_records:
  assumes "persist_pair H p q c = (res, c')"
  shows "(\<exists>e. validate_oracle_pair H p q = Inl e \<and> res = Inl e \<and> c' = c) \<or>
    (validate_oracle_pair H p q = Inr () \<and>
     append_records [oracle_insert_of p, oracle_insert_of q] c = (res, c'))"
proof (cases "validate_oracle_pair H p q")
  case (Inr u)
  from validate_oracle_pair_independent(10,11)[OF Inr] have
    "insert_spec p = Inr (oracle_insert_of p)" "insert_spec q = Inr (oracle_insert_of q)"
    by (auto intro: insert_spec_valid)
  with Inr assms show ?thesis by (simp add: persist_pair_def)
qed (use assms in \<open>auto simp: persist_pair_def\<close>)

lemma persist_pair_outcome:
  assumes "conn_ok c" and "persist_pair H p q c = (res, c')"
  shows "conn_ok c' \<and>
    (case res of Inl e \<Rightarrow> c' = c
     | Inr bs \<Rightarrow> fact_stored c' (oracle_insert_of p) \<and> fact_stored c' (oracle_insert_of q))"
  using persist_pair_records[OF assms(2)]
proof
  assume "validate_oracle_pair H p q = Inr () \<and>
     append_records [oracle_insert_of p, oracle_insert_of q] c = (res, c')"
  then have a: "append_records [oracle_insert_of p, oracle_insert_of q] c = (res, c')" ..
  with append_records_ok[OF assms(1)] have "conn_ok c'" by (metis snd_conv)
  moreover have "fact_stored c' (oracle_insert_of p) \<and> fact_stored c' (oracle_insert_of q)"
    if "res = Inr bs" for bs
    using append_records_stored[of _ c bs c'] a that by (simp add: oracle_insert_carries)
  moreover have "c' = c" if "res = Inl e" for e
    using append_records_atomic[OF assms(1)] a that by simp
  ultimately show ?thesis by (cases res) simp_all
qed (use assms in auto)

text \<open>The rows of one run never share a kind, an identity, a process or a result.\<close>

definition custody_distinct :: "row list \<Rightarrow> bool" where
  "custody_distinct rs \<longleftrightarrow> (\<forall>x\<in>set rs. \<forall>y\<in>set rs. x \<noteq> y \<longrightarrow> col x ''run_id'' = col y ''run_id'' \<longrightarrow>
     col x ''run_id'' \<noteq> SNull \<longrightarrow>
     (\<forall>k\<in>set [''oracle_kind'', ''identity_ref'', ''process_ref'', ''result_ref''].
        col x k = col y k \<longrightarrow> col x k = SNull))"

lemma custody_distinct_ok:
  assumes "conn_ok c"
  shows "custody_distinct (table c ''tw_oracle_results'')"
proof -
  have u: "keys_unique ''tw_oracle_results'' (table c ''tw_oracle_results'')"
    by (rule conn_ok_keys[OF assms]) (simp add: table_names_def)
  have "x = y" if "x \<in> set (table c ''tw_oracle_results'')" "y \<in> set (table c ''tw_oracle_results'')"
    "col x ''run_id'' = col y ''run_id''" "col x ''run_id'' \<noteq> SNull" "col x k = col y k" "col x k \<noteq> SNull"
    "k \<in> set [''oracle_kind'', ''identity_ref'', ''process_ref'', ''result_ref'']" for x y k
    using that by (intro keys_unique_same[OF u, where ks = "[''run_id'', k]"])
      (auto simp: schema_of_def same_key_def)
  then show ?thesis unfolding custody_distinct_def by blast
qed

text \<open>The two appending operations of the oracle authority as one sequence of commands.\<close>

datatype oracle_command = PersistOracle oracle_result | PersistPair oracle_result oracle_result

primrec run_oracle :: "hasher \<Rightarrow> oracle_command \<Rightarrow> conn \<Rightarrow> conn" where
  "run_oracle H (PersistOracle r) c = snd (oracle_persist H r c)"
| "run_oracle H (PersistPair p q) c = snd (persist_pair H p q c)"

definition run_oracles :: "hasher \<Rightarrow> oracle_command list \<Rightarrow> conn \<Rightarrow> conn" where
  "run_oracles H cmds c = fold (run_oracle H) cmds c"

lemma run_oracle_ok: "conn_ok c \<Longrightarrow> conn_ok (run_oracle H cmd c)"
proof (cases cmd)
  case (PersistPair p q)
  assume "conn_ok c"
  then show ?thesis
    using persist_pair_outcome[of c H p q] PersistPair by (cases "persist_pair H p q c") simp
qed (simp add: oracles.append_ok)

lemma run_oracles_ok: "conn_ok c \<Longrightarrow> conn_ok (run_oracles H cmds c)"
  unfolding run_oracles_def by (induction cmds arbitrary: c) (simp_all add: run_oracle_ok)

section \<open>Properties\<close>

text \<open>C22: \<open>persist_pair\<close> is all or nothing. On any reachable store it either raises and leaves the
  store exactly as it was, or both results are stored with their content hashes, and the pair
  then was independent: one Outcome and one Boundary result of the same run, with different
  identities, processes, results and hashes, at least one common piece of evidence, and no
  gold reference on the boundary side.\<close>

definition independent_pair :: "oracle_result \<Rightarrow> oracle_result \<Rightarrow> bool" where
  "independent_pair p q \<longleftrightarrow> or_run_id p = or_run_id q
     \<and> or_oracle_kind p = lit ''outcome'' \<and> or_oracle_kind q = lit ''boundary'' \<and> or_gold_ref q = None
     \<and> or_identity_ref p \<noteq> or_identity_ref q \<and> or_process_ref p \<noteq> or_process_ref q
     \<and> or_result_ref p \<noteq> or_result_ref q \<and> or_result_hash p \<noteq> or_result_hash q
     \<and> set (evidence_keys (or_evidence_refs p)) \<inter> set (evidence_keys (or_evidence_refs q)) \<noteq> {}"

theorem persist_pair_all_or_nothing:
  "case persist_pair H p q (run_oracles H cmds empty_conn) of
      (Inl e, c') \<Rightarrow> c' = run_oracles H cmds empty_conn
    | (Inr bs, c') \<Rightarrow> fact_stored c' (oracle_insert_of p) \<and> fact_stored c' (oracle_insert_of q)
        \<and> independent_pair p q"
proof (cases "persist_pair H p q (run_oracles H cmds empty_conn)")
  case (Pair res c')
  have "independent_pair p q" if "res = Inr bs" for bs
    using persist_pair_records[OF Pair] that validate_oracle_pair_independent[of H p q "()"]
    unfolding independent_pair_def by blast
  with Pair persist_pair_outcome[OF run_oracles_ok[OF conn_ok_empty] Pair]
  show ?thesis by (cases res) auto
qed

text \<open>Custody of the oracles. In any reachable store two different results of one run never
  have the same kind, identity, process or result reference.\<close>

lemma oracle_custody:
  "custody_distinct (table (run_oracles H cmds empty_conn) ''tw_oracle_results'')"
  by (rule custody_distinct_ok[OF run_oracles_ok[OF conn_ok_empty]])

end
