(* ===== verification/Authority_Capsule.thy ===== *)
theory Authority_Capsule
  imports Authority_Store
begin

text \<open>
  \<open>testweaver/authority/capsule.py\<close>: Failure and Process Capsules with their gapless
  revisions, and the hits recorded against a stored revision.
\<close>

section \<open>Capsules\<close>

record capsule_record =
  cp_capsule_id :: pystr
  cp_capsule_type :: pystr
  cp_state :: pystr
  cp_fingerprint :: pystr
  cp_fault_owner :: pystr
  cp_target_fault_domains :: "pystr list"
  cp_observation_ref :: pystr
  cp_evidence_refs :: "(pystr \<times> json) list list"
  cp_baseline_strategy :: pystr
  cp_observed_strategy :: pystr
  cp_root_cause_ref :: "pystr option"
  cp_repair_ref :: "pystr option"
  cp_regression_refs :: "pystr list"
  cp_artifact_ref :: pystr
  cp_artifact_hash :: pystr
  cp_run_id :: pystr
  cp_campaign_id :: pystr
  cp_trace_id :: pystr
  cp_revision :: int
  cp_provenance :: pystr
  cp_content_hash :: pystr

definition capsule_types :: "string list" where
  "capsule_types = [''failure'', ''process'']"

definition capsule_states :: "string list" where
  "capsule_states = [''OPEN'', ''RESOLVED'', ''RECURRED'', ''NOT_OBSERVED'']"

definition capsule_values :: "capsule_record \<Rightarrow> (pystr \<times> json) list" where
  "capsule_values r =
     [(lit ''capsule_id'', JStr (cp_capsule_id r)),
      (lit ''capsule_type'', JStr (cp_capsule_type r)),
      (lit ''state'', JStr (cp_state r)),
      (lit ''fingerprint'', JStr (cp_fingerprint r)),
      (lit ''fault_owner'', JStr (cp_fault_owner r)),
      (lit ''target_fault_domains'', JArr (map JStr (cp_target_fault_domains r))),
      (lit ''observation_ref'', JStr (cp_observation_ref r)),
      (lit ''evidence_refs'', JArr (map JObj (cp_evidence_refs r))),
      (lit ''baseline_strategy'', JStr (cp_baseline_strategy r)),
      (lit ''observed_strategy'', JStr (cp_observed_strategy r)),
      (lit ''root_cause_ref'', jopt (cp_root_cause_ref r)),
      (lit ''repair_ref'', jopt (cp_repair_ref r)),
      (lit ''regression_refs'', JArr (map JStr (cp_regression_refs r))),
      (lit ''artifact_ref'', JStr (cp_artifact_ref r)),
      (lit ''artifact_hash'', JStr (cp_artifact_hash r)),
      (lit ''run_id'', JStr (cp_run_id r)),
      (lit ''campaign_id'', JStr (cp_campaign_id r)),
      (lit ''trace_id'', JStr (cp_trace_id r)),
      (lit ''revision'', JInt (cp_revision r)),
      (lit ''provenance'', JStr (cp_provenance r))]"

definition capsule_dict :: "capsule_record \<Rightarrow> (pystr \<times> json) list" where
  "capsule_dict r = capsule_values r @ [(lit ''content_hash'', JStr (cp_content_hash r))]"

definition capsule_validate :: "hasher \<Rightarrow> capsule_record \<Rightarrow> unit res" where
  "capsule_validate H r = seqE
     ([validate_ref (cp_capsule_id r) ''capsule_id'',
       validate_ref (cp_fingerprint r) ''fingerprint'',
       validate_ref (cp_fault_owner r) ''fault_owner'',
       validate_ref (cp_observation_ref r) ''observation_ref'',
       validate_ref (cp_baseline_strategy r) ''baseline_strategy'',
       validate_ref (cp_observed_strategy r) ''observed_strategy'',
       validate_ref (cp_run_id r) ''run_id'',
       validate_ref (cp_campaign_id r) ''campaign_id'',
       validate_ref (cp_trace_id r) ''trace_id'',
       validate_ref (cp_provenance r) ''provenance'',
       raise_if (cp_capsule_type r \<notin> set (map lit capsule_types))
         (aerr (lit ''capsule_type must be failure or process'')),
       raise_if (cp_state r \<notin> set (map lit capsule_states)) (aerr (lit ''capsule state is unsupported'')),
       raise_if (cp_revision r < 1) (aerr (lit ''capsule revision must be positive'')),
       raise_if (cp_target_fault_domains r = []) (aerr (lit ''target_fault_domains must be non-empty''))]
      @ map (\<lambda>d. validate_ref d ''target_fault_domains[]'') (cp_target_fault_domains r)
      @ [bindE (check_refs ''evidence_refs'' (cp_evidence_refs r)) (\<lambda>_. Inr ())]
      @ (case cp_root_cause_ref r of None \<Rightarrow> [] | Some v \<Rightarrow> [validate_ref v ''root_cause_ref''])
      @ (case cp_repair_ref r of None \<Rightarrow> [] | Some v \<Rightarrow> [validate_ref v ''repair_ref''])
      @ map (\<lambda>d. validate_ref d ''regression_refs[]'') (cp_regression_refs r)
      @ [validate_ref (cp_artifact_ref r) ''artifact_ref'',
         validate_hash (cp_artifact_hash r) ''artifact_hash'',
         ensure_sealed H (capsule_dict r) ''content_hash''])"

text \<open>\<open>CapsuleRecord.create\<close>: seal the values, then construct, which validates.\<close>

definition capsule_create :: "hasher \<Rightarrow> capsule_record \<Rightarrow> capsule_record res" where
  "capsule_create H values =
     bindE (safe_hash H (JObj (capsule_values values)) ''capsule'') (\<lambda>h.
     bindE (capsule_validate H (values\<lparr>cp_content_hash := h\<rparr>)) (\<lambda>_.
     Inr (values\<lparr>cp_content_hash := h\<rparr>)))"

section \<open>Hits\<close>

record capsule_hit =
  ch_hit_id :: pystr
  ch_capsule_id :: pystr
  ch_capsule_revision :: int
  ch_capsule_content_hash :: pystr
  ch_matched_fingerprint :: pystr
  ch_recurrence :: bool
  ch_evidence_ref :: pystr
  ch_run_id :: pystr
  ch_campaign_id :: pystr
  ch_trace_id :: pystr
  ch_occurred_at :: pystr
  ch_provenance :: pystr
  ch_content_hash :: pystr

definition hit_values :: "capsule_hit \<Rightarrow> (pystr \<times> json) list" where
  "hit_values r =
     [(lit ''hit_id'', JStr (ch_hit_id r)),
      (lit ''capsule_id'', JStr (ch_capsule_id r)),
      (lit ''capsule_revision'', JInt (ch_capsule_revision r)),
      (lit ''capsule_content_hash'', JStr (ch_capsule_content_hash r)),
      (lit ''matched_fingerprint'', JStr (ch_matched_fingerprint r)),
      (lit ''recurrence'', JBool (ch_recurrence r)),
      (lit ''evidence_ref'', JStr (ch_evidence_ref r)),
      (lit ''run_id'', JStr (ch_run_id r)),
      (lit ''campaign_id'', JStr (ch_campaign_id r)),
      (lit ''trace_id'', JStr (ch_trace_id r)),
      (lit ''occurred_at'', JStr (ch_occurred_at r)),
      (lit ''provenance'', JStr (ch_provenance r))]"

definition hit_dict :: "capsule_hit \<Rightarrow> (pystr \<times> json) list" where
  "hit_dict r = hit_values r @ [(lit ''content_hash'', JStr (ch_content_hash r))]"

definition hit_validate :: "hasher \<Rightarrow> capsule_hit \<Rightarrow> unit res" where
  "hit_validate H r = seqE
     [validate_ref (ch_hit_id r) ''hit_id'',
      validate_ref (ch_capsule_id r) ''capsule_id'',
      validate_ref (ch_matched_fingerprint r) ''matched_fingerprint'',
      validate_ref (ch_evidence_ref r) ''evidence_ref'',
      validate_ref (ch_run_id r) ''run_id'',
      validate_ref (ch_campaign_id r) ''campaign_id'',
      validate_ref (ch_trace_id r) ''trace_id'',
      validate_ref (ch_occurred_at r) ''occurred_at'',
      validate_ref (ch_provenance r) ''provenance'',
      raise_if (ch_capsule_revision r < 1) (aerr (lit ''capsule_revision must be positive'')),
      validate_hash (ch_capsule_content_hash r) ''capsule_content_hash'',
      ensure_sealed H (hit_dict r) ''content_hash'']"

text \<open>\<open>CapsuleHit.create\<close>.\<close>

definition hit_create :: "hasher \<Rightarrow> capsule_hit \<Rightarrow> capsule_hit res" where
  "hit_create H values =
     bindE (safe_hash H (JObj (hit_values values)) ''capsule_hit'') (\<lambda>h.
     bindE (hit_validate H (values\<lparr>ch_content_hash := h\<rparr>)) (\<lambda>_.
     Inr (values\<lparr>ch_content_hash := h\<rparr>)))"

section \<open>The authority\<close>

definition capsule_key :: "pystr \<Rightarrow> int \<Rightarrow> pystr" where
  "capsule_key capsule_id revision = capsule_id @ lit '':'' @ int_str revision"

definition capsule_columns :: "string list" where
  "capsule_columns = [''record_key'', ''capsule_id'', ''capsule_type'', ''state'', ''fingerprint'',
     ''fault_owner'', ''target_fault_domains_json'', ''observation_ref'', ''evidence_refs_json'',
     ''baseline_strategy'', ''observed_strategy'', ''root_cause_ref'', ''repair_ref'',
     ''regression_refs_json'', ''artifact_ref'', ''artifact_hash'', ''run_id'', ''campaign_id'',
     ''trace_id'', ''revision'', ''provenance'', ''content_hash'']"

definition capsule_sql :: "capsule_record \<Rightarrow> pystr \<Rightarrow> pystr \<Rightarrow> pystr \<Rightarrow> sqlval list" where
  "capsule_sql r domains_json evidence_json regressions_json =
     [SText (capsule_key (cp_capsule_id r) (cp_revision r)), SText (cp_capsule_id r),
      SText (cp_capsule_type r), SText (cp_state r), SText (cp_fingerprint r),
      SText (cp_fault_owner r), SText domains_json, SText (cp_observation_ref r),
      SText evidence_json, SText (cp_baseline_strategy r), SText (cp_observed_strategy r),
      sqlopt (cp_root_cause_ref r), sqlopt (cp_repair_ref r), SText regressions_json,
      SText (cp_artifact_ref r), SText (cp_artifact_hash r), SText (cp_run_id r),
      SText (cp_campaign_id r), SText (cp_trace_id r), SInt (cp_revision r),
      SText (cp_provenance r), SText (cp_content_hash r)]"

definition capsule_insert :: "capsule_record \<Rightarrow> pystr \<Rightarrow> pystr \<Rightarrow> pystr \<Rightarrow> record_insert" where
  "capsule_insert r domains_json evidence_json regressions_json =
     \<lparr>ri_table = ''tw_capsules'', ri_identity_column = ''record_key'',
      ri_identity_value = capsule_key (cp_capsule_id r) (cp_revision r),
      ri_content_hash = cp_content_hash r, ri_columns = capsule_columns,
      ri_values = capsule_sql r domains_json evidence_json regressions_json\<rparr>"

definition capsule_persist :: "hasher \<Rightarrow> capsule_record \<Rightarrow> bool act" where
  "capsule_persist H r =
     bindS (liftS (capsule_validate H r)) (\<lambda>_.
     bindS (getS (\<lambda>c. bound_to c ''tw_capsules'' ''record_key''
              (capsule_key (cp_capsule_id r) (cp_revision r)))) (\<lambda>existing.
     case existing of
       Some x \<Rightarrow>
         if col x ''content_hash'' = SText (cp_content_hash r) then returnS False
         else raiseS (AuthorityConflict (lit ''capsule revision is already bound to different content''))
     | None \<Rightarrow>
     bindS (getS (\<lambda>c. latest_revision
              (select_where c ''tw_capsules'' ''capsule_id'' (SText (cp_capsule_id r))))) (\<lambda>latest.
     bindS (liftS (case latest of
         Some n \<Rightarrow> raise_if (cp_revision r \<noteq> n + 1) (aerr (lit ''capsule revision must advance by one''))
       | None \<Rightarrow> raise_if (cp_revision r \<noteq> 1) (aerr (lit ''the first capsule revision must be one'')))) (\<lambda>_.
     bindS (liftS (canonical_json (JArr (map JStr (cp_target_fault_domains r))))) (\<lambda>domains_json.
     bindS (liftS (canonical_json (JArr (map JObj (cp_evidence_refs r))))) (\<lambda>evidence_json.
     bindS (liftS (canonical_json (JArr (map JStr (cp_regression_refs r))))) (\<lambda>regressions_json.
     append_record (capsule_insert r domains_json evidence_json regressions_json))))))))"

definition hit_columns :: "string list" where
  "hit_columns = [''hit_id'', ''capsule_id'', ''capsule_revision'', ''capsule_content_hash'',
     ''matched_fingerprint'', ''recurrence'', ''evidence_ref'', ''run_id'', ''campaign_id'',
     ''trace_id'', ''occurred_at'', ''provenance'', ''content_hash'']"

definition hit_sql :: "capsule_hit \<Rightarrow> sqlval list" where
  "hit_sql r =
     [SText (ch_hit_id r), SText (ch_capsule_id r), SInt (ch_capsule_revision r),
      SText (ch_capsule_content_hash r), SText (ch_matched_fingerprint r), SBool (ch_recurrence r),
      SText (ch_evidence_ref r), SText (ch_run_id r), SText (ch_campaign_id r),
      SText (ch_trace_id r), SText (ch_occurred_at r), SText (ch_provenance r),
      SText (ch_content_hash r)]"

definition hit_insert :: "capsule_hit \<Rightarrow> record_insert" where
  "hit_insert r = \<lparr>ri_table = ''tw_capsule_hits'', ri_identity_column = ''hit_id'',
     ri_identity_value = ch_hit_id r, ri_content_hash = ch_content_hash r,
     ri_columns = hit_columns, ri_values = hit_sql r\<rparr>"

definition hit_target :: "conn \<Rightarrow> capsule_hit \<Rightarrow> row list" where
  "hit_target c r = filter (\<lambda>x. col x ''capsule_id'' = SText (ch_capsule_id r)
                             \<and> col x ''revision'' = SInt (ch_capsule_revision r)) (table c ''tw_capsules'')"

definition record_hit :: "hasher \<Rightarrow> capsule_hit \<Rightarrow> bool act" where
  "record_hit H r =
     bindS (liftS (hit_validate H r)) (\<lambda>_.
     bindS (getS (\<lambda>c. hit_target c r)) (\<lambda>capsule.
     case capsule of
       [] \<Rightarrow> raiseS (aerr (lit ''capsule hit references an unknown capsule revision''))
     | x # _ \<Rightarrow>
         if col x ''fingerprint'' \<noteq> SText (ch_matched_fingerprint r)
            \<or> col x ''content_hash'' \<noteq> SText (ch_capsule_content_hash r)
         then raiseS (aerr (lit ''capsule hit does not match the referenced capsule''))
         else append_record (hit_insert r)))"

section \<open>Appending capsules\<close>

definition capsule_insert_of :: "capsule_record \<Rightarrow> record_insert" where
  "capsule_insert_of r = capsule_insert r
     (dumps (JArr (map JStr (cp_target_fault_domains r))))
     (dumps (JArr (map JObj (cp_evidence_refs r))))
     (dumps (JArr (map JStr (cp_regression_refs r))))"

definition capsule_row :: "capsule_record \<Rightarrow> row" where
  "capsule_row r = record_row (capsule_insert_of r)"

lemma capsule_row_cols [simp]:
  "col (capsule_row r) ''record_key'' = SText (capsule_key (cp_capsule_id r) (cp_revision r))"
  "col (capsule_row r) ''capsule_id'' = SText (cp_capsule_id r)"
  "col (capsule_row r) ''fingerprint'' = SText (cp_fingerprint r)"
  "col (capsule_row r) ''revision'' = SInt (cp_revision r)"
  "col (capsule_row r) ''content_hash'' = SText (cp_content_hash r)"
  by (simp_all add: capsule_row_def record_row_def capsule_insert_of_def capsule_insert_def
      insert_row_def capsule_columns_def capsule_sql_def col_def)

lemma capsule_keys: "lit ''content_hash'' \<notin> fst ` set (capsule_values r)"
  by (simp add: capsule_values_def)

lemma capsule_sealed:
  "capsule_validate H r = Inr u \<Longrightarrow> safe_ok (JObj (capsule_values r)) 0"
  unfolding capsule_validate_def capsule_dict_def
  by (simp add: ensure_sealed_snoc[OF capsule_keys] del: safe_ok.simps)

text \<open>The parts of a sealed capsule are safe, so writing them as JSON does not raise.\<close>

lemma canonical_json_part:
  assumes "safe_ok (JObj kvs) 0" and "(k, v) \<in> set kvs"
  shows "canonical_json v = Inr (dumps v)"
proof -
  from assms have "safe_ok v 1" by fastforce
  then have "safe_ok v 0" by (rule safe_ok_antimono) simp
  then show ?thesis by (simp add: canonical_json_ok)
qed

lemma capsule_json_parts:
  assumes "capsule_validate H r = Inr u"
  shows "canonical_json (JArr (map JStr (cp_target_fault_domains r)))
           = Inr (dumps (JArr (map JStr (cp_target_fault_domains r))))"
    and "canonical_json (JArr (map JObj (cp_evidence_refs r)))
           = Inr (dumps (JArr (map JObj (cp_evidence_refs r))))"
    and "canonical_json (JArr (map JStr (cp_regression_refs r)))
           = Inr (dumps (JArr (map JStr (cp_regression_refs r))))"
proof -
  have m: "(lit ''target_fault_domains'', JArr (map JStr (cp_target_fault_domains r))) \<in> set (capsule_values r)"
    "(lit ''evidence_refs'', JArr (map JObj (cp_evidence_refs r))) \<in> set (capsule_values r)"
    "(lit ''regression_refs'', JArr (map JStr (cp_regression_refs r))) \<in> set (capsule_values r)"
    by (simp_all add: capsule_values_def)
  note part = canonical_json_part[OF capsule_sealed[OF assms]]
  show "canonical_json (JArr (map JStr (cp_target_fault_domains r)))
      = Inr (dumps (JArr (map JStr (cp_target_fault_domains r))))" by (rule part[OF m(1)])
  show "canonical_json (JArr (map JObj (cp_evidence_refs r)))
      = Inr (dumps (JArr (map JObj (cp_evidence_refs r))))" by (rule part[OF m(2)])
  show "canonical_json (JArr (map JStr (cp_regression_refs r)))
      = Inr (dumps (JArr (map JStr (cp_regression_refs r))))" by (rule part[OF m(3)])
qed

lemma capsule_persist_cases:
  assumes "capsule_persist H r c = (res, c')"
  obtains (raised) e where "res = Inl e" and "c' = c"
  | (known) "res = Inr False" and "c' = c" and "capsule_validate H r = Inr ()"
  | (insert) "capsule_validate H r = Inr ()"
    and "(case latest_revision (select_where c ''tw_capsules'' ''capsule_id'' (SText (cp_capsule_id r))) of
            Some n \<Rightarrow> cp_revision r = n + 1 | None \<Rightarrow> cp_revision r = 1)"
    and "append_record (capsule_insert_of r) c = (res, c')"
proof (cases "capsule_validate H r")
  case (Inl e)
  with assms show thesis by (intro raised) (auto simp: capsule_persist_def)
next
  case (Inr u)
  then have v: "capsule_validate H r = Inr ()" by simp
  let ?key = "bound_to c ''tw_capsules'' ''record_key'' (capsule_key (cp_capsule_id r) (cp_revision r))"
  let ?rev = "latest_revision (select_where c ''tw_capsules'' ''capsule_id'' (SText (cp_capsule_id r)))"
  show thesis
  proof (cases ?key)
    case (Some x)
    with assms v show thesis
      by (cases "col x ''content_hash'' = SText (cp_content_hash r)")
        (auto simp: capsule_persist_def intro: raised known)
  next
    case None
    show thesis
    proof (cases "case ?rev of Some n \<Rightarrow> cp_revision r = n + 1 | None \<Rightarrow> cp_revision r = 1")
      case True
      with assms v None have "append_record (capsule_insert_of r) c = (res, c')"
        by (simp add: capsule_persist_def raise_if_eval capsule_json_parts capsule_insert_of_def
            split: option.splits)
      with v True show thesis by (intro insert)
    next
      case False
      with assms v None show thesis
        by (cases ?rev) (auto simp: capsule_persist_def raise_if_eval intro: raised)
    qed
  qed
qed

interpretation capsules: record_append "capsule_persist H" "''tw_capsules''" capsule_row
  "\<lambda>r. capsule_validate H r = Inr ()" capsule_insert_of for H
proof (unfold_locales, goal_cases)
  case 1
  then show ?case by (cases rule: capsule_persist_cases) auto
next
  case (2 r)
  show ?case by (simp add: capsule_insert_of_def capsule_insert_def)
next
  case (3 r)
  show ?case by (simp add: capsule_row_def)
next
  case (4 c r)
  have "keys_unique ''tw_capsules'' (table c ''tw_capsules'')"
    by (rule conn_ok_keys[OF 4(1)]) (simp add: table_names_def)
  then have "bound_to c ''tw_capsules'' ''record_key'' (capsule_key (cp_capsule_id r) (cp_revision r))
      = Some (capsule_row r)"
    using 4(3) by (intro bound_to_unique) (simp_all add: schema_of_def)
  with 4(2) show ?case by (simp add: capsule_persist_def)
qed

text \<open>The revisions of a capsule are 1, 2, 3, ... in the order of storage.\<close>

lemma capsule_persist_gapless:
  assumes ok: "conn_ok c" and inv: "gapless (revisions_of ''capsule_id'' a (table c ''tw_capsules''))"
    and app: "capsule_persist H r c = (Inr True, c')"
  shows "gapless (revisions_of ''capsule_id'' a (table c' ''tw_capsules''))"
proof -
  from capsules.appended_stored[OF ok app]
  have tab: "table c' ''tw_capsules'' = table c ''tw_capsules'' @ [capsule_row r]" by simp
  from app have "case latest_revision (select_where c ''tw_capsules'' ''capsule_id'' (SText (cp_capsule_id r))) of
      Some n \<Rightarrow> cp_revision r = n + 1 | None \<Rightarrow> cp_revision r = 1"
    by (cases rule: capsule_persist_cases) auto
  with gapless_next[of "''capsule_id''" _ "table c ''tw_capsules''"] inv show ?thesis
    by (auto simp: tab revisions_of_snoc select_where_def)
qed

section \<open>Appending hits\<close>

definition hit_row :: "capsule_hit \<Rightarrow> row" where
  "hit_row r = insert_row hit_columns (hit_sql r)"

lemma hit_row_cols [simp]:
  "col (hit_row r) ''hit_id'' = SText (ch_hit_id r)"
  "col (hit_row r) ''capsule_id'' = SText (ch_capsule_id r)"
  "col (hit_row r) ''capsule_revision'' = SInt (ch_capsule_revision r)"
  "col (hit_row r) ''capsule_content_hash'' = SText (ch_capsule_content_hash r)"
  "col (hit_row r) ''matched_fingerprint'' = SText (ch_matched_fingerprint r)"
  "col (hit_row r) ''run_id'' = SText (ch_run_id r)"
  "col (hit_row r) ''trace_id'' = SText (ch_trace_id r)"
  "col (hit_row r) ''content_hash'' = SText (ch_content_hash r)"
  by (simp_all add: hit_row_def insert_row_def hit_columns_def hit_sql_def col_def)

text \<open>
  A hit needs its capsule, so it is appended within a connection whose capsules it can
  refer to: \<open>hit_known\<close> says that the row of a capsule with its fingerprint, revision and
  content hash is stored.
\<close>

definition hit_known :: "row list \<Rightarrow> capsule_hit \<Rightarrow> bool" where
  "hit_known capsules r \<longleftrightarrow> (\<exists>x\<in>set capsules. col x ''capsule_id'' = SText (ch_capsule_id r)
     \<and> col x ''revision'' = SInt (ch_capsule_revision r)
     \<and> col x ''fingerprint'' = SText (ch_matched_fingerprint r)
     \<and> col x ''content_hash'' = SText (ch_capsule_content_hash r))"

lemma record_hit_cases:
  assumes "record_hit H r c = (res, c')" and ok: "conn_ok c"
  obtains (raised) e where "res = Inl e" and "c' = c"
  | (known) "res = Inr False" and "c' = c" and "hit_validate H r = Inr ()"
  | (stored) "res = Inr True" and "hit_validate H r = Inr ()" and "hit_known (table c ''tw_capsules'') r"
    and "c' = stored ''tw_capsule_hits'' (hit_row r) c"
    and "\<not> key_conflict ''tw_capsule_hits'' (hit_row r) (table c ''tw_capsule_hits'')"
proof (cases "hit_validate H r")
  case (Inl e)
  with assms show thesis by (intro raised) (auto simp: record_hit_def)
next
  case (Inr u)
  show thesis
  proof (cases "hit_target c r")
    case Nil
    with assms Inr show thesis by (intro raised) (auto simp: record_hit_def)
  next
    case (Cons x xs)
    then have x: "x \<in> set (table c ''tw_capsules'')" "col x ''capsule_id'' = SText (ch_capsule_id r)"
        "col x ''revision'' = SInt (ch_capsule_revision r)"
      by (auto simp: hit_target_def dest!: filter_eq_ConsD)
    show thesis
    proof (cases "col x ''fingerprint'' \<noteq> SText (ch_matched_fingerprint r)
            \<or> col x ''content_hash'' \<noteq> SText (ch_capsule_content_hash r)")
      case True
      with assms Inr Cons show thesis by (intro raised) (auto simp: record_hit_def)
    next
      case False
      with assms Inr Cons have "append_record (hit_insert r) c = (res, c')"
        by (simp add: record_hit_def)
      from this ok show thesis
      proof (cases rule: append_record_cases)
        case (raised e)
        then show ?thesis by (intro that(1))
      next
        case (known y)
        with Inr show ?thesis by (intro that(2)) simp_all
      next
        case stored
        with False x Inr show ?thesis
          by (intro that(3)) (auto simp: hit_known_def hit_insert_def record_row_def hit_row_def)
      qed
    qed
  qed
qed

text \<open>
  The two appending operations of a capsule authority as one sequence of commands, and the
  invariant that every stored hit refers to a stored capsule revision.
\<close>

datatype capsule_command = PersistCapsule capsule_record | RecordHit capsule_hit

primrec run_capsule :: "hasher \<Rightarrow> capsule_command \<Rightarrow> bool act" where
  "run_capsule H (PersistCapsule r) = capsule_persist H r"
| "run_capsule H (RecordHit r) = record_hit H r"

definition hits_grounded :: "conn \<Rightarrow> bool" where
  "hits_grounded c \<longleftrightarrow> (\<forall>y\<in>set (table c ''tw_capsule_hits''). \<exists>x\<in>set (table c ''tw_capsules'').
     col x ''capsule_id'' = col y ''capsule_id'' \<and> col x ''revision'' = col y ''capsule_revision''
     \<and> col x ''fingerprint'' = col y ''matched_fingerprint''
     \<and> col x ''content_hash'' = col y ''capsule_content_hash'')"

lemma run_capsule_step:
  assumes "conn_ok c" and "hits_grounded c"
  shows "conn_ok (snd (run_capsule H cmd c)) \<and> hits_grounded (snd (run_capsule H cmd c))"
proof (cases cmd)
  case (PersistCapsule r)
  from capsules.append_ok[OF assms(1)] capsules.append_extends[OF assms(1), of H r]
    capsules.append_other_table[OF assms(1), of "''tw_capsule_hits''" H r] assms(2)
  show ?thesis by (fastforce simp: PersistCapsule hits_grounded_def)
next
  case (RecordHit r)
  obtain res c' where a: "record_hit H r c = (res, c')" by fastforce
  from a assms(1) show ?thesis
  proof (cases rule: record_hit_cases)
    case stored
    with assms a show ?thesis
      by (auto simp: RecordHit hits_grounded_def hit_known_def stored_ok)
  qed (use assms a in \<open>simp_all add: RecordHit\<close>)
qed

lemma run_capsules_grounded:
  "conn_ok c \<Longrightarrow> hits_grounded c \<Longrightarrow>
     conn_ok (run_appends (run_capsule H) cmds c) \<and> hits_grounded (run_appends (run_capsule H) cmds c)"
  by (induction cmds arbitrary: c) (simp_all add: run_capsule_step)

section \<open>Record keys\<close>

text \<open>The record key determines the capsule and its revision: a decimal has no colon.\<close>

lemma capsule_key_inj:
  "capsule_key a i = capsule_key b j \<longleftrightarrow> a = b \<and> i = j"
proof
  assume "capsule_key a i = capsule_key b j"
  then have "a @ 58 # int_str i = b @ 58 # int_str j" by (simp add: capsule_key_def lit_def)
  with int_str_no_colon have "a = b \<and> int_str i = int_str j" by (simp add: append_sep_inj)
  with int_str_inj show "a = b \<and> i = j" by blast
qed simp

text \<open>The revisions stay gapless whatever is interleaved with them.\<close>

lemma run_capsule_gapless:
  assumes "conn_ok c" and "gapless (revisions_of ''capsule_id'' a (table c ''tw_capsules''))"
  shows "gapless (revisions_of ''capsule_id'' a (table (snd (run_capsule H cmd c)) ''tw_capsules''))"
proof (cases cmd)
  case (PersistCapsule r)
  obtain res c' where p: "capsule_persist H r c = (res, c')" by fastforce
  show ?thesis
    using assms(1)
  proof (cases rule: capsules.append_cases[where H = H and r = r])
    case same
    with assms(2) PersistCapsule show ?thesis by simp
  next
    case added
    with p capsule_persist_gapless[OF assms, of H r c'] PersistCapsule show ?thesis by simp
  qed
next
  case (RecordHit r)
  obtain res c' where a: "record_hit H r c = (res, c')" by fastforce
  from a assms(1) show ?thesis
    by (cases rule: record_hit_cases) (use assms(2) a RecordHit in simp_all)
qed

lemma run_capsules_gapless:
  "conn_ok c \<Longrightarrow> hits_grounded c \<Longrightarrow> gapless (revisions_of ''capsule_id'' a (table c ''tw_capsules'')) \<Longrightarrow>
   gapless (revisions_of ''capsule_id'' a (table (run_appends (run_capsule H) cmds c) ''tw_capsules''))"
  by (induction cmds arbitrary: c) (simp_all add: run_capsule_step run_capsule_gapless)

lemma hits_grounded_empty: "hits_grounded empty_conn"
  by (simp add: hits_grounded_def table_def empty_conn_def)

section \<open>Properties\<close>

text \<open>C24: in any store filled through the capsule authority, with capsules and hits appended in
  any order and with any outcome, the revisions of every capsule are 1, 2, 3, ... and every
  stored hit refers to a stored revision of its capsule with exactly the fingerprint and the
  content hash that the hit names.\<close>

theorem capsules_gapless_and_grounded:
  "gapless (revisions_of ''capsule_id'' a
     (table (run_appends (run_capsule H) cmds empty_conn) ''tw_capsules''))
   \<and> hits_grounded (run_appends (run_capsule H) cmds empty_conn)"
proof
  show "hits_grounded (run_appends (run_capsule H) cmds empty_conn)"
    using run_capsules_grounded[OF conn_ok_empty hits_grounded_empty] by blast
  have "gapless (revisions_of ''capsule_id'' a (table empty_conn ''tw_capsules''))"
    by (simp add: gapless_def revisions_of_def table_def empty_conn_def)
  then show "gapless (revisions_of ''capsule_id'' a
      (table (run_appends (run_capsule H) cmds empty_conn) ''tw_capsules''))"
    by (rule run_capsules_gapless[OF conn_ok_empty hits_grounded_empty])
qed

text \<open>the record key \<open>capsule_id:revision\<close> identifies the capsule and the revision, although a
  capsule id may itself contain colons.\<close>

lemma capsule_key_identifies:
  "capsule_key a i = capsule_key b j \<longleftrightarrow> a = b \<and> i = j"
  by (rule capsule_key_inj)

end
