(* ===== verification/Authority_Read.thy ===== *)
theory Authority_Read
  imports Authority_Capsule
begin

text \<open>
  The reading side of \<open>store.py\<close> and \<open>capsule.py\<close>: \<open>read_events\<close> and \<open>search\<close> parse the JSON
  columns, rebuild the records and validate them again. What was appended is read back with the
  keys of its JSON values sorted, in the order of the query.
\<close>

section \<open>Reading events\<close>

definition opt_ref :: "pystr option \<Rightarrow> string \<Rightarrow> unit res" where
  "opt_ref v field = (case v of None \<Rightarrow> Inr () | Some s \<Rightarrow> validate_ref s field)"

definition opt_clause :: "pystr option \<Rightarrow> string \<Rightarrow> row \<Rightarrow> bool" where
  "opt_clause v field x \<longleftrightarrow> (case v of None \<Rightarrow> True | Some s \<Rightarrow> col x field = SText s)"

text \<open>\<open>ORDER BY revision, id\<close> as two stable sorts, the less significant column first.\<close>

definition read_order :: "string \<Rightarrow> row list \<Rightarrow> row list" where
  "read_order id_column rs =
     sort_key (\<lambda>x. sql_int (col x ''revision'')) (sort_key (\<lambda>x. sql_text (col x id_column)) rs)"

definition event_of_row :: "row \<Rightarrow> (pystr \<times> json) list \<Rightarrow> authority_event" where
  "event_of_row x payload =
     \<lparr>ev_event_id = sql_text (col x ''event_id''), ev_aggregate_id = sql_text (col x ''aggregate_id''),
      ev_aggregate_type = sql_text (col x ''aggregate_type''), ev_revision = sql_int (col x ''revision''),
      ev_event_type = sql_text (col x ''event_type''), ev_actor = sql_text (col x ''actor''),
      ev_idempotency_key = sql_text (col x ''idempotency_key''),
      ev_occurred_at = sql_text (col x ''occurred_at''), ev_payload = payload,
      ev_request_hash = sql_text (col x ''request_hash''), ev_run_id = sql_text (col x ''run_id''),
      ev_campaign_id = sql_text (col x ''campaign_id''), ev_trace_id = sql_text (col x ''trace_id''),
      ev_provenance = sql_text (col x ''provenance''), ev_content_hash = sql_text (col x ''content_hash'')\<rparr>"

text \<open>
  A payload that is not an object is found after the text fields, the revision and the request hash.
\<close>

definition read_event :: "hasher \<Rightarrow> (pystr \<Rightarrow> pyfloat) \<Rightarrow> row \<Rightarrow> authority_event res" where
  "read_event H F x =
     bindE (loads F (sql_text (col x ''payload_json''))) (\<lambda>payload.
     case payload of
       JObj kvs \<Rightarrow> bindE (event_validate H (event_of_row x kvs)) (\<lambda>_. Inr (event_of_row x kvs))
     | _ \<Rightarrow> bindE (seqE (event_fields (event_of_row x [])))
              (\<lambda>_. Inl (aerr (lit ''payload must be an object''))))"

definition read_events ::
  "hasher \<Rightarrow> (pystr \<Rightarrow> pyfloat) \<Rightarrow> pystr option \<Rightarrow> pystr option \<Rightarrow> pystr option \<Rightarrow> authority_event list act" where
  "read_events H F run_id campaign_id trace_id =
     bindS (liftS (seqE [opt_ref run_id ''run_id'', opt_ref campaign_id ''campaign_id'',
                         opt_ref trace_id ''trace_id''])) (\<lambda>_.
     bindS (getS (\<lambda>c. filter (\<lambda>x. opt_clause run_id ''run_id'' x \<and> opt_clause campaign_id ''campaign_id'' x
                                \<and> opt_clause trace_id ''trace_id'' x) (table c ''tw_authority_events''))) (\<lambda>rows.
     liftS (mapE (read_event H F) (read_order ''event_id'' rows))))"

section \<open>Searching capsules\<close>

text \<open>
  \<open>tuple(json.loads(text))\<close>: iterating an object gives its keys, iterating a string its characters.
  An item of the wrong type is represented by the empty text or object, which the validation rejects
  with the same error at the same place.
\<close>

fun tuple_of_json :: "json \<Rightarrow> json list res" where
  "tuple_of_json (JArr xs) = Inr xs"
| "tuple_of_json (JObj kvs) = Inr (map (\<lambda>kv. JStr (fst kv)) kvs)"
| "tuple_of_json (JStr s) = Inr (map (\<lambda>c. JStr [c]) s)"
| "tuple_of_json _ = Inl (TypeError (lit ''object is not iterable''))"

fun text_item :: "json \<Rightarrow> pystr" where
  "text_item (JStr s) = s"
| "text_item _ = []"

fun ref_item :: "json \<Rightarrow> (pystr \<times> json) list" where
  "ref_item (JObj kvs) = kvs"
| "ref_item _ = []"

definition loads_column :: "(pystr \<Rightarrow> pyfloat) \<Rightarrow> row \<Rightarrow> string \<Rightarrow> json list res" where
  "loads_column F x k = bindE (loads F (sql_text (col x k))) tuple_of_json"

definition capsule_of_row :: "row \<Rightarrow> json list \<Rightarrow> json list \<Rightarrow> json list \<Rightarrow> capsule_record" where
  "capsule_of_row x domains evidence regressions =
     \<lparr>cp_capsule_id = sql_text (col x ''capsule_id''), cp_capsule_type = sql_text (col x ''capsule_type''),
      cp_state = sql_text (col x ''state''), cp_fingerprint = sql_text (col x ''fingerprint''),
      cp_fault_owner = sql_text (col x ''fault_owner''), cp_target_fault_domains = map text_item domains,
      cp_observation_ref = sql_text (col x ''observation_ref''), cp_evidence_refs = map ref_item evidence,
      cp_baseline_strategy = sql_text (col x ''baseline_strategy''),
      cp_observed_strategy = sql_text (col x ''observed_strategy''),
      cp_root_cause_ref = sql_opt_text (col x ''root_cause_ref''),
      cp_repair_ref = sql_opt_text (col x ''repair_ref''), cp_regression_refs = map text_item regressions,
      cp_artifact_ref = sql_text (col x ''artifact_ref''), cp_artifact_hash = sql_text (col x ''artifact_hash''),
      cp_run_id = sql_text (col x ''run_id''), cp_campaign_id = sql_text (col x ''campaign_id''),
      cp_trace_id = sql_text (col x ''trace_id''), cp_revision = sql_int (col x ''revision''),
      cp_provenance = sql_text (col x ''provenance''), cp_content_hash = sql_text (col x ''content_hash'')\<rparr>"

definition read_capsule :: "hasher \<Rightarrow> (pystr \<Rightarrow> pyfloat) \<Rightarrow> row \<Rightarrow> capsule_record res" where
  "read_capsule H F x =
     bindE (loads_column F x ''target_fault_domains_json'') (\<lambda>domains.
     bindE (loads_column F x ''evidence_refs_json'') (\<lambda>evidence.
     bindE (loads_column F x ''regression_refs_json'') (\<lambda>regressions.
     let r = capsule_of_row x domains evidence regressions in
     bindE (capsule_validate H r) (\<lambda>_. Inr r))))"

definition search_clause :: "pystr \<Rightarrow> pystr option \<Rightarrow> row \<Rightarrow> bool" where
  "search_clause fingerprint capsule_type x \<longleftrightarrow>
     col x ''fingerprint'' = SText fingerprint \<and> opt_clause capsule_type ''capsule_type'' x
     \<and> 0 < sql_int (col x ''revision'') \<and> sql_text (col x ''evidence_refs_json'') \<noteq> lit ''[]''"

definition capsule_search ::
  "hasher \<Rightarrow> (pystr \<Rightarrow> pyfloat) \<Rightarrow> pystr \<Rightarrow> pystr option \<Rightarrow> capsule_record list act" where
  "capsule_search H F fingerprint capsule_type =
     bindS (liftS (validate_ref fingerprint ''fingerprint'')) (\<lambda>_.
     bindS (liftS (raise_if (case capsule_type of None \<Rightarrow> False | Some t \<Rightarrow> t \<notin> set (map lit capsule_types))
       (aerr (lit ''capsule_type is unsupported'')))) (\<lambda>_.
     bindS (getS (\<lambda>c. filter (search_clause fingerprint capsule_type) (table c ''tw_capsules''))) (\<lambda>rows.
     liftS (mapE (read_capsule H F) (read_order ''capsule_id'' rows)))))"

section \<open>Canonical members\<close>

definition canon_members :: "(pystr \<times> json) list \<Rightarrow> (pystr \<times> json) list" where
  "canon_members kvs = sort_key fst (map (\<lambda>(k, v). (k, canon v)) kvs)"

lemma canon_object: "canon (JObj kvs) = JObj (canon_members kvs)"
  by (simp add: canon_members_def)

lemma set_canon_members: "set (canon_members kvs) = (\<lambda>(k, v). (k, canon v)) ` set kvs"
  by (simp add: canon_members_def)

lemma canon_checks:
  "nonfinite (canon v) = nonfinite v"
  "safe_ok (canon v) d = safe_ok v d"
  by (induction v arbitrary: d) (auto simp: snds.simps split_beta)

lemma canon_members_checks:
  "nonfinite (JObj (canon_members kvs)) = nonfinite (JObj kvs)"
  "safe_ok (JObj (canon_members kvs)) d = safe_ok (JObj kvs) d"
  "dumps (JObj (canon_members kvs)) = dumps (JObj kvs)"
  unfolding canon_object[symmetric] by (rule canon_checks dumps_canon)+

text \<open>Two dicts with the same keys and values of the same texts have the same canonical hash.\<close>

definition same_text :: "(pystr \<times> json) list \<Rightarrow> (pystr \<times> json) list \<Rightarrow> bool" where
  "same_text kvs kws \<longleftrightarrow> list_all2 (\<lambda>(k, v) (k', w). k = k' \<and> dumps v = dumps w
     \<and> nonfinite v = nonfinite w \<and> (\<forall>d. safe_ok v d = safe_ok w d)) kvs kws"

lemma same_text_Nil: "same_text [] []"
  by (simp add: same_text_def)

lemma same_text_same: "same_text kvs kws \<Longrightarrow> same_text ((k, v) # kvs) ((k, v) # kws)"
  by (simp add: same_text_def)

lemma same_text_step:
  "same_text kvs kws \<Longrightarrow> dumps v = dumps w \<Longrightarrow> nonfinite v = nonfinite w \<Longrightarrow> (\<And>d. safe_ok v d = safe_ok w d) \<Longrightarrow>
   same_text ((k, v) # kvs) ((k, w) # kws)"
  by (simp add: same_text_def)

lemma same_text_object:
  assumes "same_text kvs kws"
  shows "canonical_hash H (JObj kvs) = canonical_hash H (JObj kws)"
    and "safe_ok (JObj kvs) d = safe_ok (JObj kws) d"
proof -
  have "map (\<lambda>(k, v). (k, dumps v)) kvs = map (\<lambda>(k, v). (k, dumps v)) kws
      \<and> nonfinite (JObj kvs) = nonfinite (JObj kws) \<and> safe_ok (JObj kvs) d = safe_ok (JObj kws) d"
    using assms unfolding same_text_def
    by (induction rule: list_all2_induct) (auto split: prod.splits)
  then show "canonical_hash H (JObj kvs) = canonical_hash H (JObj kws)"
    and "safe_ok (JObj kvs) d = safe_ok (JObj kws) d"
    by (simp_all add: canonical_hash_def del: safe_ok.simps nonfinite.simps)
qed

section \<open>Events are read back\<close>

text \<open>The event with the keys of its payload sorted.\<close>

definition canon_event :: "authority_event \<Rightarrow> authority_event" where
  "canon_event e = e\<lparr>ev_payload := canon_members (ev_payload e)\<rparr>"

lemma canon_event_row: "event_row (canon_event e) = event_row e"
  by (simp add: event_row_def canon_event_def event_sql_def canon_members_checks del: dumps.simps)

lemma canon_event_valid: "event_validate H (canon_event e) = Inr () \<longleftrightarrow> event_validate H e = Inr ()"
proof -
  have s: "same_text (event_values (canon_event e)) (event_values e)"
    unfolding event_values_def canon_event_def
    by (simp del: dumps.simps nonfinite.simps safe_ok.simps)
      (intro same_text_same same_text_Nil same_text_step canon_members_checks)
  have k: "lit ''content_hash'' \<notin> fst ` set (event_values d)" for d by (simp add: event_values_def)
  have "event_fields (canon_event e) = event_fields e" "ev_content_hash (canon_event e) = ev_content_hash e"
    by (simp_all add: event_fields_def canon_event_def)
  moreover have "safe_ok (JObj (ev_payload (canon_event e))) 0 = safe_ok (JObj (ev_payload e)) 0"
    by (simp add: canon_event_def canon_members_checks del: safe_ok.simps)
  ultimately show ?thesis
    using same_text_object[OF s]
    by (simp add: event_validate_def event_dict_def ensure_sealed_snoc[OF k] safe_metadata_ok bindE_ok
        del: safe_ok.simps)
qed

lemma event_of_row_row: "event_of_row (event_row e) kvs = e\<lparr>ev_payload := kvs\<rparr>"
  by (simp add: event_of_row_def event_row_def insert_row_def event_columns_def event_sql_def col_def)

lemma read_event_row:
  assumes "event_validate H e = Inr ()" and "wf_json (JObj (ev_payload e))" and "plain_json (JObj (ev_payload e))"
    and "reads_floats F"
  shows "read_event H F (event_row e) = Inr (canon_event e)"
proof -
  have "sql_text (col (event_row e) ''payload_json'') = dumps (JObj (ev_payload e))"
    by (simp add: event_row_def insert_row_def event_columns_def event_sql_def col_def del: dumps.simps)
  then have "loads F (sql_text (col (event_row e) ''payload_json'')) = Inr (JObj (canon_members (ev_payload e)))"
    using loads_dumps[OF assms(2-4)] by (simp add: canon_object del: dumps.simps canon.simps)
  moreover have "event_of_row (event_row e) (canon_members (ev_payload e)) = canon_event e"
    by (simp add: event_of_row_row canon_event_def)
  moreover have "event_validate H (canon_event e) = Inr ()" using assms(1) by (simp add: canon_event_valid)
  ultimately show ?thesis by (simp add: read_event_def)
qed

lemma read_order_set [simp]: "set (read_order k rs) = set rs"
  by (simp add: read_order_def)

text \<open>
  A result of reading rows one by one: the records of the rows, in the order of the query.
\<close>

lemma mapE_rows:
  assumes "\<forall>x\<in>set rows. \<exists>e. P e \<and> row_of e = x" and "\<And>e. P e \<Longrightarrow> f (row_of e) = Inr (g e) \<and> row_of (g e) = row_of e"
  shows "\<exists>rs. mapE f rows = Inr rs \<and> map row_of rs = rows \<and> (\<forall>r\<in>set rs. \<exists>e. P e \<and> r = g e)"
  using assms(1)
proof (induction rows)
  case (Cons x rows)
  then obtain e rs where "P e" "row_of e = x" "mapE f rows = Inr rs" "map row_of rs = rows"
    "\<forall>r\<in>set rs. \<exists>e. P e \<and> r = g e" by auto
  with assms(2)[of e] show ?case by auto
qed simp

lemma events_read:
  assumes "\<forall>x\<in>set (table c ''tw_authority_events''). \<exists>e\<in>set es. event_validate H e = Inr () \<and> event_row e = x"
    and "\<forall>e\<in>set es. readable (JObj (ev_payload e))" and "reads_floats F"
    and "opt_ref run_id ''run_id'' = Inr ()" and "opt_ref campaign_id ''campaign_id'' = Inr ()"
    and "opt_ref trace_id ''trace_id'' = Inr ()"
  shows "\<exists>rs. read_events H F run_id campaign_id trace_id c = (Inr rs, c)
    \<and> map event_row rs = read_order ''event_id'' (filter (\<lambda>x. opt_clause run_id ''run_id'' x
          \<and> opt_clause campaign_id ''campaign_id'' x \<and> opt_clause trace_id ''trace_id'' x)
          (table c ''tw_authority_events''))
    \<and> (\<forall>r\<in>set rs. \<exists>e\<in>set es. event_validate H e = Inr () \<and> r = canon_event e)"
proof -
  let ?P = "\<lambda>e. e \<in> set es \<and> event_validate H e = Inr ()"
  let ?rows = "read_order ''event_id'' (filter (\<lambda>x. opt_clause run_id ''run_id'' x
      \<and> opt_clause campaign_id ''campaign_id'' x \<and> opt_clause trace_id ''trace_id'' x) (table c ''tw_authority_events''))"
  have rows: "\<forall>x\<in>set ?rows. \<exists>e. ?P e \<and> event_row e = x" using assms(1) by auto
  have "?P e \<Longrightarrow> read_event H F (event_row e) = Inr (canon_event e) \<and> event_row (canon_event e) = event_row e" for e
    using assms(2) read_event_row[OF _ _ _ assms(3)] by (simp add: readable_def canon_event_row del: wf_json.simps plain_json.simps)
  from mapE_rows[of ?rows ?P event_row "read_event H F" canon_event, OF rows this]
  obtain rs where "mapE (read_event H F) ?rows = Inr rs" "map event_row rs = ?rows"
    "\<forall>r\<in>set rs. \<exists>e. ?P e \<and> r = canon_event e" by auto
  then show ?thesis using assms(4-6) by (auto simp: read_events_def)
qed

lemma log_rows:
  "\<forall>x\<in>set (table (run_appends (append_event H) es empty_conn) ''tw_authority_events'').
     \<exists>e\<in>set es. event_validate H e = Inr () \<and> event_row e = x"
proof -
  have "''tw_authority_events'' \<in> set table_names" by (simp add: table_names_def)
  from ev.run_grows[OF conn_ok_empty this, of H "[]" es] show ?thesis by (auto simp: table_def empty_conn_def)
qed

section \<open>Capsules are found\<close>

definition canon_capsule :: "capsule_record \<Rightarrow> capsule_record" where
  "canon_capsule r = r\<lparr>cp_evidence_refs := map canon_members (cp_evidence_refs r)\<rparr>"

lemma dumps_array_cong: "map dumps xs = map dumps ys \<Longrightarrow> dumps (JArr xs) = dumps (JArr ys)"
  by simp

lemma canon_evidence:
  "dumps (JArr (map JObj (map canon_members xs))) = dumps (JArr (map JObj xs))"
  "nonfinite (JArr (map JObj (map canon_members xs))) = nonfinite (JArr (map JObj xs))"
  "safe_ok (JArr (map JObj (map canon_members xs))) d = safe_ok (JArr (map JObj xs)) d"
  by (rule dumps_array_cong, simp add: canon_members_checks del: dumps.simps)
    (simp_all add: canon_members_checks del: safe_ok.simps(1) nonfinite.simps(3) safe_ok.simps(2) nonfinite.simps(2)
      add: safe_ok.simps(2)[of "map _ _"] nonfinite.simps(2)[of "map _ _"])

lemma canon_capsule_row: "capsule_row (canon_capsule r) = capsule_row r"
  by (simp add: capsule_row_def capsule_insert_of_def canon_capsule_def record_row_def capsule_insert_def
      capsule_sql_def canon_evidence del: dumps.simps map_map)

lemma map_of_canon_members:
  assumes "distinct (map fst kvs)"
  shows "map_of (canon_members kvs) k = map_option canon (map_of kvs k)"
proof -
  have d: "distinct (map fst (map (\<lambda>(k, v). (k, canon v)) kvs))" using assms by (simp only: map_snd_fst)
  have "mset (map fst (canon_members kvs)) = mset (map fst (map (\<lambda>(k, v). (k, canon v)) kvs))"
    unfolding canon_members_def by (simp only: mset_map mset_sort)
  with d have "distinct (map fst (canon_members kvs))" by (metis mset_eq_imp_distinct_iff)
  with d have "map_of (canon_members kvs) = map_of (map (\<lambda>(k, v). (k, canon v)) kvs)"
    by (simp only: map_of_inject_set) (simp add: canon_members_def)
  then show ?thesis by (simp add: map_of_map)
qed

lemma check_ref_item_canon:
  assumes "distinct (map fst item)"
  shows "check_ref_item field i (canon_members item) = check_ref_item field i item"
proof -
  note m = map_of_canon_members[OF assms]
  have f: "fst ` set (canon_members item) = fst ` set item" by (force simp: set_canon_members)
  have h: "has_exactly ks (canon_members item) = has_exactly ks item" for ks
  proof -
    have "list_all (\<lambda>kv. fst kv \<in> S) xs \<longleftrightarrow> fst ` set xs \<subseteq> S" for S :: "pystr set" and xs :: "(pystr \<times> json) list"
      by (auto simp: list_all_iff)
    with f show ?thesis by (simp add: has_exactly_def m)
  qed
  have r: "ref_of_json (canon v) g = ref_of_json v g" "hash_of_json (canon v) g = hash_of_json v g" for v g
    by (cases v; simp add: ref_of_json_def hash_of_json_def)+
  show ?thesis
  proof (cases "has_exactly [''ref'', ''content_hash''] item")
    case True
    then obtain x y where "map_of item (lit ''ref'') = Some x" "map_of item (lit ''content_hash'') = Some y"
      by (auto simp: has_exactly_def)
    with True show ?thesis by (simp add: check_ref_item_def h m r Let_def)
  qed (simp add: check_ref_item_def h Let_def)
qed

lemma check_ref_items_canon:
  "\<forall>item\<in>set xs. distinct (map fst item) \<Longrightarrow>
   check_ref_items field i (map canon_members xs) = check_ref_items field i xs"
  by (induction xs arbitrary: i) (simp_all add: check_ref_item_canon)

text \<open>References are Python dicts.\<close>

definition ref_dicts :: "capsule_record \<Rightarrow> bool" where
  "ref_dicts r \<longleftrightarrow> (\<forall>item\<in>set (cp_evidence_refs r). distinct (map fst item))"

lemma canon_capsule_valid:
  assumes "ref_dicts r"
  shows "capsule_validate H (canon_capsule r) = Inr () \<longleftrightarrow> capsule_validate H r = Inr ()"
proof -
  have "same_text (capsule_values (canon_capsule r)) (capsule_values r)"
    unfolding capsule_values_def canon_capsule_def
    by (simp del: dumps.simps nonfinite.simps safe_ok.simps map_map)
      (intro same_text_same same_text_Nil same_text_step canon_evidence)
  note t = same_text_object[OF this]
  have k: "lit ''content_hash'' \<notin> fst ` set (capsule_values d)" for d by (simp add: capsule_values_def)
  have "ensure_sealed H (capsule_dict (canon_capsule r)) ''content_hash'' = Inr ()
      \<longleftrightarrow> ensure_sealed H (capsule_dict r) ''content_hash'' = Inr ()"
    unfolding capsule_dict_def ensure_sealed_snoc[OF k] t by (simp add: canon_capsule_def)
  then show ?thesis
    using assms by (simp add: capsule_validate_def canon_capsule_def check_refs_def check_ref_items_canon ref_dicts_def)
qed

text \<open>The JSON columns of a valid capsule are read back.\<close>

lemma check_ref_items_texts:
  assumes "check_ref_items field i xs = Inr ps" and "item \<in> set xs" and "distinct (map fst item)"
  shows "readable (JObj item)"
proof -
  have e: "\<exists>a b. map_of item (lit ''ref'') = Some (JStr a) \<and> map_of item (lit ''content_hash'') = Some (JStr b)
      \<and> has_exactly [''ref'', ''content_hash''] item"
    using assms(1,2)
  proof (induction xs arbitrary: i ps)
    case (Cons x xs)
    show ?case
    proof (cases "item = x")
      case True
      then obtain p where "check_ref_item field i item = Inr p" using Cons.prems(1) by auto
      then show ?thesis
        by (auto simp: check_ref_item_def Let_def has_exactly_def ref_of_json_def hash_of_json_def bindE_ok
            split: if_splits json.splits)
    qed (use Cons in auto)
  qed simp
  have "\<exists>a. snd kv = JStr a" if "kv \<in> set item" for kv
  proof -
    have "map_of item (fst kv) = Some (snd kv)" using that assms(3) by simp
    moreover have "fst kv = lit ''ref'' \<or> fst kv = lit ''content_hash''"
      using e that by (auto simp: has_exactly_def list_all_iff)
    ultimately show ?thesis using e by (metis option.inject)
  qed
  then have "\<forall>kv\<in>set item. wf_json (snd kv) \<and> plain_json (snd kv)" by (metis wf_json.simps(7) plain_json.simps(7))
  then show ?thesis using assms(3) by (simp add: readable_def)
qed

lemma loads_texts:
  assumes "reads_floats F"
  shows "loads F (dumps (JArr (map JStr xs))) = Inr (JArr (map JStr xs))"
  using loads_dumps[OF _ _ assms, of "JArr (map JStr xs)"] by (simp del: dumps.simps add: comp_def)

lemma loads_evidence:
  assumes "capsule_validate H r = Inr ()" and "ref_dicts r" and "reads_floats F"
  shows "loads F (dumps (JArr (map JObj (cp_evidence_refs r))))
    = Inr (JArr (map JObj (map canon_members (cp_evidence_refs r))))"
proof -
  obtain ps where "check_ref_items (lit ''evidence_refs'') 0 (cp_evidence_refs r) = Inr ps"
    using assms(1) by (auto simp: capsule_validate_def check_refs_def bindE_ok)
  from check_ref_items_texts[OF this] assms(2)
  have "\<forall>item\<in>set (cp_evidence_refs r). readable (JObj item)" by (simp add: ref_dicts_def)
  then have "readable (JArr (map JObj (cp_evidence_refs r)))" by (simp add: readable_def)
  then show ?thesis
    using loads_dumps[OF _ _ assms(3)]
    by (simp add: readable_def comp_def canon_object del: dumps.simps canon.simps(2) wf_json.simps plain_json.simps)
qed

lemma capsule_of_row_row:
  "capsule_of_row (capsule_row r) (map JStr ds) (map JObj es) (map JStr gs)
    = r\<lparr>cp_target_fault_domains := ds, cp_evidence_refs := es, cp_regression_refs := gs\<rparr>"
  by (simp add: capsule_of_row_def capsule_row_def record_row_def capsule_insert_of_def capsule_insert_def
      insert_row_def capsule_columns_def capsule_sql_def col_def comp_def del: dumps.simps)

lemma capsule_row_json:
  "sql_text (col (capsule_row r) ''target_fault_domains_json'') = dumps (JArr (map JStr (cp_target_fault_domains r)))"
  "sql_text (col (capsule_row r) ''evidence_refs_json'') = dumps (JArr (map JObj (cp_evidence_refs r)))"
  "sql_text (col (capsule_row r) ''regression_refs_json'') = dumps (JArr (map JStr (cp_regression_refs r)))"
  "col (capsule_row r) ''capsule_type'' = SText (cp_capsule_type r)"
  by (simp_all add: capsule_row_def record_row_def capsule_insert_of_def capsule_insert_def
      insert_row_def capsule_columns_def capsule_sql_def col_def del: dumps.simps)

lemma read_capsule_row:
  assumes "capsule_validate H r = Inr ()" and "ref_dicts r" and "reads_floats F"
  shows "read_capsule H F (capsule_row r) = Inr (canon_capsule r)"
proof -
  have "capsule_of_row (capsule_row r) (map JStr (cp_target_fault_domains r))
      (map JObj (map canon_members (cp_evidence_refs r))) (map JStr (cp_regression_refs r)) = canon_capsule r"
    by (simp add: capsule_of_row_row canon_capsule_def del: map_map)
  moreover have "capsule_validate H (canon_capsule r) = Inr ()" using assms(1) canon_capsule_valid[OF assms(2)] by simp
  ultimately show ?thesis
    by (simp add: read_capsule_def loads_column_def capsule_row_json loads_texts[OF assms(3)] loads_evidence[OF assms]
        Let_def del: map_map dumps.simps)
qed

text \<open>The search finds every stored capsule with its fingerprint and type.\<close>

lemma search_clause_row:
  assumes "capsule_validate H r = Inr ()"
  shows "search_clause fp t (capsule_row r)
    \<longleftrightarrow> cp_fingerprint r = fp \<and> (case t of None \<Rightarrow> True | Some s \<Rightarrow> cp_capsule_type r = s)"
proof -
  have "0 < cp_revision r" and "cp_evidence_refs r \<noteq> []"
    using assms by (auto simp: capsule_validate_def check_refs_def)
  moreover from this have "dumps (JArr (map JObj (cp_evidence_refs r))) \<noteq> lit ''[]''"
    by (cases "cp_evidence_refs r"; cases "tl (cp_evidence_refs r)") (auto simp: lit_def)
  ultimately show ?thesis
    by (simp add: search_clause_def opt_clause_def capsule_row_json del: dumps.simps split: option.split)
qed

lemma capsule_rows:
  assumes "\<forall>x\<in>set (table c ''tw_capsules''). \<exists>r\<in>A. capsule_validate H r = Inr () \<and> capsule_row r = x"
    and "\<forall>r. PersistCapsule r \<in> set cmds \<longrightarrow> r \<in> A" and "conn_ok c" and "hits_grounded c"
  shows "\<forall>x\<in>set (table (run_appends (run_capsule H) cmds c) ''tw_capsules'').
     \<exists>r\<in>A. capsule_validate H r = Inr () \<and> capsule_row r = x"
  using assms
proof (induction cmds arbitrary: c)
  case (Cons cmd cmds)
  have "\<forall>x\<in>set (table (snd (run_capsule H cmd c)) ''tw_capsules''). \<exists>r\<in>A. capsule_validate H r = Inr () \<and> capsule_row r = x"
  proof (cases cmd)
    case (PersistCapsule r)
    from Cons.prems(3) show ?thesis
      by (cases rule: capsules.append_cases[where H = H and r = r]) (use Cons.prems PersistCapsule in auto)
  next
    case (RecordHit r)
    obtain res c' where a: "record_hit H r c = (res, c')" by fastforce
    from a Cons.prems(3) show ?thesis
      by (cases rule: record_hit_cases) (use Cons.prems(1) a RecordHit in simp_all)
  qed
  with Cons run_capsule_step[OF Cons.prems(3,4)] show ?case by simp
qed simp

lemma capsules_found:
  assumes "\<forall>x\<in>set (table c ''tw_capsules''). \<exists>r\<in>A. capsule_validate H r = Inr () \<and> capsule_row r = x"
    and "\<forall>r\<in>A. ref_dicts r" and "reads_floats F" and "validate_ref fp ''fingerprint'' = Inr ()"
    and "t = None \<or> t \<in> set (map (\<lambda>s. Some (lit s)) capsule_types)"
  shows "\<exists>rs. capsule_search H F fp t c = (Inr rs, c)
    \<and> map capsule_row rs = read_order ''capsule_id'' (filter (\<lambda>x. col x ''fingerprint'' = SText fp
        \<and> opt_clause t ''capsule_type'' x) (table c ''tw_capsules''))
    \<and> (\<forall>r\<in>set rs. \<exists>r'\<in>A. capsule_validate H r' = Inr () \<and> r = canon_capsule r')"
proof -
  let ?P = "\<lambda>r. r \<in> A \<and> capsule_validate H r = Inr ()"
  let ?rows = "read_order ''capsule_id'' (filter (search_clause fp t) (table c ''tw_capsules''))"
  have rows: "\<forall>x\<in>set ?rows. \<exists>r. ?P r \<and> capsule_row r = x" using assms(1) by auto
  have "?P r \<Longrightarrow> read_capsule H F (capsule_row r) = Inr (canon_capsule r) \<and> capsule_row (canon_capsule r) = capsule_row r" for r
    using assms(2) read_capsule_row[OF _ _ assms(3)] by (simp add: canon_capsule_row)
  from mapE_rows[of ?rows ?P capsule_row "read_capsule H F" canon_capsule, OF rows this]
  obtain rs where rs: "mapE (read_capsule H F) ?rows = Inr rs" "map capsule_row rs = ?rows"
    "\<forall>r\<in>set rs. \<exists>r'. ?P r' \<and> r = canon_capsule r'" by auto
  have "filter (search_clause fp t) (table c ''tw_capsules'')
      = filter (\<lambda>x. col x ''fingerprint'' = SText fp \<and> opt_clause t ''capsule_type'' x) (table c ''tw_capsules'')"
  proof (rule filter_cong[OF refl])
    fix x assume "x \<in> set (table c ''tw_capsules'')"
    then obtain r where "capsule_validate H r = Inr ()" "capsule_row r = x" using assms(1) by auto
    then show "search_clause fp t x = (col x ''fingerprint'' = SText fp \<and> opt_clause t ''capsule_type'' x)"
      using search_clause_row[of H r fp t] by (auto simp: opt_clause_def capsule_row_json split: option.split)
  qed
  moreover have "(case t of None \<Rightarrow> False | Some s \<Rightarrow> s \<notin> set (map lit capsule_types)) = False"
    using assms(5) by auto
  ultimately show ?thesis using rs assms(4) by (auto simp: capsule_search_def raise_if_def)
qed

section \<open>Properties\<close>

text \<open>C25: whatever sequence of events with payloads that JSON gives back is appended and whichever of the calls fail, the method
  \<open>read_events\<close> returns without an error, in the order of revision and event id, exactly one event for each stored
  row that the filters select; each is an appended event with the keys of its payload sorted, and its
  own row is the stored one.\<close>

theorem event_log_read_back:
  assumes "\<forall>e\<in>set es. readable (JObj (ev_payload e))" and "reads_floats F"
    and "opt_ref run_id ''run_id'' = Inr ()" and "opt_ref campaign_id ''campaign_id'' = Inr ()"
    and "opt_ref trace_id ''trace_id'' = Inr ()"
  shows "\<exists>rs. read_events H F run_id campaign_id trace_id (run_appends (append_event H) es empty_conn)
        = (Inr rs, run_appends (append_event H) es empty_conn)
    \<and> map event_row rs = read_order ''event_id'' (filter (\<lambda>x. opt_clause run_id ''run_id'' x
          \<and> opt_clause campaign_id ''campaign_id'' x \<and> opt_clause trace_id ''trace_id'' x)
          (table (run_appends (append_event H) es empty_conn) ''tw_authority_events''))
    \<and> set rs \<subseteq> canon_event ` set es"
  using events_read[OF log_rows assms, of H] by blast

definition sample_payload_event :: authority_event where
  "sample_payload_event = sample_event\<lparr>ev_payload := [(lit ''b'', JInt 1), (lit ''a'', JFloat (FDec False 15 (-1)))]\<rparr>"

lemma event_log_read_back_witness:
  "\<exists>rs. read_events sample_hasher read_decimal None (Some (lit ''c'')) None
        (run_appends (append_event sample_hasher) [sample_payload_event] empty_conn)
        = (Inr rs, run_appends (append_event sample_hasher) [sample_payload_event] empty_conn)
    \<and> map event_row rs = read_order ''event_id'' (filter (\<lambda>x. opt_clause None ''run_id'' x
          \<and> opt_clause (Some (lit ''c'')) ''campaign_id'' x \<and> opt_clause None ''trace_id'' x)
          (table (run_appends (append_event sample_hasher) [sample_payload_event] empty_conn) ''tw_authority_events''))
    \<and> set rs \<subseteq> canon_event ` set [sample_payload_event]"
  by (rule event_log_read_back[OF _ reads_floats_decimal])
    (simp_all add: sample_payload_event_def readable_def opt_ref_def, simp_all add: nat_str.simps sample_chars)

text \<open>A search of the capsule authority returns, in the order of revision and capsule id, exactly
  one capsule for each stored row with the fingerprint and the type asked for: no stored capsule is
  missed, none is changed but for the order of the keys of its evidence references.\<close>

lemma capsule_search_complete:
  assumes "\<forall>r. PersistCapsule r \<in> set cmds \<longrightarrow> ref_dicts r" and "reads_floats F"
    and "validate_ref fp ''fingerprint'' = Inr ()"
    and "t = None \<or> t \<in> set (map (\<lambda>s. Some (lit s)) capsule_types)"
  shows "\<exists>rs. capsule_search H F fp t (run_appends (run_capsule H) cmds empty_conn)
        = (Inr rs, run_appends (run_capsule H) cmds empty_conn)
    \<and> map capsule_row rs = read_order ''capsule_id'' (filter (\<lambda>x. col x ''fingerprint'' = SText fp
        \<and> opt_clause t ''capsule_type'' x) (table (run_appends (run_capsule H) cmds empty_conn) ''tw_capsules''))
    \<and> set rs \<subseteq> canon_capsule ` {r. PersistCapsule r \<in> set cmds}"
proof -
  have "\<forall>x\<in>set (table (run_appends (run_capsule H) cmds empty_conn) ''tw_capsules'').
      \<exists>r\<in>{r. PersistCapsule r \<in> set cmds}. capsule_validate H r = Inr () \<and> capsule_row r = x"
    by (rule capsule_rows[OF _ _ conn_ok_empty hits_grounded_empty]) (simp_all add: table_def empty_conn_def)
  from capsules_found[OF this _ assms(2-4)] assms(1) show ?thesis by blast
qed

definition sample_capsule :: capsule_record where
  "sample_capsule =
     \<lparr>cp_capsule_id = lit ''c1'', cp_capsule_type = lit ''failure'', cp_state = lit ''OPEN'',
      cp_fingerprint = lit ''fp'', cp_fault_owner = lit ''o'', cp_target_fault_domains = [lit ''d''],
      cp_observation_ref = lit ''obs'',
      cp_evidence_refs = [[(lit ''ref'', JStr (lit ''r'')), (lit ''content_hash'', JStr sample_hash)]],
      cp_baseline_strategy = lit ''b'', cp_observed_strategy = lit ''s'', cp_root_cause_ref = None,
      cp_repair_ref = None, cp_regression_refs = [], cp_artifact_ref = lit ''a'', cp_artifact_hash = sample_hash,
      cp_run_id = lit ''r'', cp_campaign_id = lit ''c'', cp_trace_id = lit ''t'', cp_revision = 1,
      cp_provenance = lit ''p'', cp_content_hash = sample_hash\<rparr>"

lemma capsule_search_complete_witness:
  "\<exists>rs. capsule_search sample_hasher read_decimal (lit ''fp'') None
        (run_appends (run_capsule sample_hasher) [PersistCapsule sample_capsule] empty_conn)
        = (Inr rs, run_appends (run_capsule sample_hasher) [PersistCapsule sample_capsule] empty_conn)
    \<and> map capsule_row rs = read_order ''capsule_id'' (filter (\<lambda>x. col x ''fingerprint'' = SText (lit ''fp'')
        \<and> opt_clause None ''capsule_type'' x)
        (table (run_appends (run_capsule sample_hasher) [PersistCapsule sample_capsule] empty_conn) ''tw_capsules''))
    \<and> set rs \<subseteq> canon_capsule ` {r. PersistCapsule r \<in> set [PersistCapsule sample_capsule]}"
  by (rule capsule_search_complete[OF _ reads_floats_decimal])
    (simp_all add: sample_capsule_def ref_dicts_def, simp add: sample_chars)

end
