(* ===== verification/Skill_Records.thy ===== *)
theory Skill_Records
  imports Contracts
begin

text \<open>
  \<open>testweaver/skillops/state.py\<close>, the records of a Skill evolution: external readbacks, the
  references to artifacts, and the sealed records (baseline, attribution, proposal, human
  decision and its verification, evaluation observations, receipt, operation
  verification). Every constructor is a function that returns \<open>Inr ()\<close> or the exception
  of \<open>__post_init__\<close>; a record with a hash is sealed over all its other fields.
\<close>

section \<open>Field checks\<close>

definition serr :: "string \<Rightarrow> exc" where
  "serr msg = SkillOpsError (lit msg)"

definition skill_text :: "(pystr \<Rightarrow> bool) \<Rightarrow> pystr \<Rightarrow> string \<Rightarrow> unit res" where
  "skill_text pattern value field = seqE
     [raise_if (value = [] \<or> 2048 < length value) (SkillOpsError (lit field @ lit '' must be a bounded string'')),
      raise_if (list_ex (\<lambda>c. isspace c \<or> c < 32) value)
        (SkillOpsError (lit field @ lit '' must not contain whitespace or control characters'')),
      raise_if (\<not> pattern value) (SkillOpsError (lit field @ lit '' has an invalid format''))]"

text \<open>
  The patterns, as predicates on the whole text: \<open>_REF\<close>, \<open>_NAME\<close>, \<open>_SOURCE\<close> (and the equal
  \<open>_READBACK_SOURCE\<close>) and \<open>_VERSION\<close>.
\<close>

definition ref_pattern :: "pystr \<Rightarrow> bool" where
  "ref_pattern s \<longleftrightarrow> 1 \<le> length s \<and> length s \<le> 2048 \<and> list_all (\<lambda>c. \<not> isspace c) s"

definition name_pattern :: "pystr \<Rightarrow> bool" where
  "name_pattern s \<longleftrightarrow> s \<noteq> [] \<and> is_alnum_ascii (hd s) \<and> length (tl s) \<le> 127
     \<and> list_all (\<lambda>c. is_alnum_ascii c \<or> c \<in> {46, 95, 45}) (tl s)"

definition source_pattern :: "pystr \<Rightarrow> bool" where
  "source_pattern s \<longleftrightarrow> s \<noteq> [] \<and> is_lower_ascii (hd s) \<and> 1 \<le> length (tl s) \<and> length (tl s) \<le> 63
     \<and> list_all (\<lambda>c. is_lower_ascii c \<or> is_digit_ascii c \<or> c = 45) (tl s)"

text \<open>A run of digits followed by a dot, three runs of digits, and an optional suffix.\<close>

definition after_digits :: "pystr \<Rightarrow> pystr option" where
  "after_digits s = (if takeWhile is_digit_ascii s = [] then None else Some (dropWhile is_digit_ascii s))"

definition after_dot :: "pystr \<Rightarrow> pystr option" where
  "after_dot s = (case s of [] \<Rightarrow> None | c # cs \<Rightarrow> if c = 46 then Some cs else None)"

definition version_suffix :: "pystr \<Rightarrow> bool" where
  "version_suffix s = (case s of [] \<Rightarrow> True
     | c # cs \<Rightarrow> (c = 45 \<or> c = 43) \<and> cs \<noteq> [] \<and> list_all (\<lambda>d. is_alnum_ascii d \<or> d = 46 \<or> d = 45) cs)"

definition version_pattern :: "pystr \<Rightarrow> bool" where
  "version_pattern s =
     (case Option.bind (Option.bind (Option.bind (Option.bind (after_digits s) after_dot)
             after_digits) after_dot) after_digits of
        None \<Rightarrow> False | Some rest \<Rightarrow> version_suffix rest)"

definition skill_ref :: "pystr \<Rightarrow> string \<Rightarrow> unit res" where
  "skill_ref v field = skill_text ref_pattern v field"

definition skill_name :: "pystr \<Rightarrow> string \<Rightarrow> unit res" where
  "skill_name v field = skill_text name_pattern v field"

definition skill_version :: "pystr \<Rightarrow> string \<Rightarrow> unit res" where
  "skill_version v field = skill_text version_pattern v field"

definition skill_hash :: "pystr \<Rightarrow> string \<Rightarrow> unit res" where
  "skill_hash v field = raise_if (\<not> is_sha256 v) (SkillOpsError (lit field @ lit '' must be a sha256 digest''))"

definition skill_revision :: "int \<Rightarrow> string \<Rightarrow> unit res" where
  "skill_revision v field =
     raise_if (v < 1) (SkillOpsError (lit field @ lit '' must be a positive immutable revision''))"

section \<open>External readbacks\<close>

text \<open>
  \<open>rb_seal\<close> says that the record carries the module's private token; only
  \<open>external_readback\<close> sets it.
\<close>

record external_readback =
  rb_source :: pystr
  rb_ref :: pystr
  rb_raw_hash :: pystr
  rb_classification :: pystr
  rb_claims :: "(pystr \<times> pystr) list"
  rb_seal :: bool

definition readback_classifications :: "string list" where
  "readback_classifications = [''UNATTESTED_PARTIAL'', ''AUTHORITY_RECEIPT'', ''NATIVE_TRANSPORT'']"

definition verified :: "external_readback \<Rightarrow> bool" where
  "verified rb \<longleftrightarrow> rb_seal rb \<and> rb_classification rb \<in> set (map lit [''AUTHORITY_RECEIPT'', ''NATIVE_TRANSPORT''])"

text \<open>\<open>dict(self.claims).get(name)\<close>: of several claims of one name the last one counts.\<close>

definition rb_claim :: "external_readback \<Rightarrow> string \<Rightarrow> pystr option" where
  "rb_claim rb name = map_of (rev (rb_claims rb)) (lit name)"

type_synonym bytes_hasher = "nat list \<Rightarrow> pystr"

definition max_readback_bytes :: nat where
  "max_readback_bytes = 4 * 1024 * 1024"

definition issue_readback ::
  "bytes_hasher \<Rightarrow> pystr \<Rightarrow> pystr \<Rightarrow> nat list \<Rightarrow> pystr \<Rightarrow> (pystr \<times> pystr) list \<Rightarrow> bool \<Rightarrow> external_readback res" where
  "issue_readback HB source ref raw classification claims is_verified =
     bindE (seqE
       [raise_if (\<not> source_pattern source) (serr ''external readback source is invalid''),
        skill_ref ref ''external readback ref'',
        raise_if (raw = [] \<or> max_readback_bytes < length raw) (serr ''external readback raw bytes are required''),
        raise_if (classification \<notin> set (map lit readback_classifications))
          (serr ''external readback classification is invalid''),
        raise_if (list_ex (\<lambda>(k, v). k = [] \<or> v = []) claims) (serr ''external readback claims are invalid''),
        raise_if (is_verified \<and> classification = lit ''UNATTESTED_PARTIAL'')
          (serr ''unattested bytes cannot be verified'')])
       (\<lambda>_. Inr \<lparr>rb_source = source, rb_ref = ref, rb_raw_hash = lit ''sha256:'' @ HB raw,
            rb_classification = classification, rb_claims = claims, rb_seal = is_verified\<rparr>)"

definition from_raw :: "bytes_hasher \<Rightarrow> pystr \<Rightarrow> pystr \<Rightarrow> nat list \<Rightarrow> external_readback res" where
  "from_raw HB source ref raw = issue_readback HB source ref raw (lit ''UNATTESTED_PARTIAL'') [] False"

section \<open>Artifact references\<close>

record artifact_ref =
  ar_kind :: pystr
  ar_ref :: pystr
  ar_content_hash :: pystr
  ar_source_kind :: pystr
  ar_provenance :: pystr
  ar_classification :: pystr
  ar_attestation_ref :: pystr
  ar_attested :: bool
  ar_run_id :: "pystr option"
  ar_token :: "external_readback option"

definition artifact_kinds :: "string list" where
  "artifact_kinds = [''dataset'', ''evaluation'', ''trace'', ''evidence'', ''result'']"

definition observation_kinds :: "string list" where
  "observation_kinds = [''trace'', ''evidence'', ''result'']"

definition sources_of :: "pystr \<Rightarrow> string list" where
  "sources_of kind =
     (if kind = lit ''dataset'' then [''frozen-dataset'', ''evaluation-export'']
      else if kind = lit ''evaluation'' then [''evaluation-export'', ''agentloop-sls'']
      else [''agentteams-native'', ''otel-genai'', ''agentloop-sls'', ''evaluation-export''])"

definition artifact_provenances :: "string list" where
  "artifact_provenances = [''LIVE'', ''FROZEN'', ''FIXTURE'', ''SYNTHETIC'', ''REPLAY'']"

definition artifact_classifications :: "string list" where
  "artifact_classifications = [''LIVE_ATTESTED'', ''NON_LIVE'']"

text \<open>\<open>_ARTIFACT_READBACK_SOURCES\<close>; a source that is not a key raises \<open>KeyError\<close>.\<close>

definition artifact_readback_source :: "pystr \<Rightarrow> pystr option" where
  "artifact_readback_source s = map_of
     [(lit ''agentteams-native'', lit ''agentteams''), (lit ''otel-genai'', lit ''otel''),
      (lit ''agentloop-sls'', lit ''agentloop''), (lit ''evaluation-export'', lit ''evaluation'')] s"

definition check_live_readback :: "artifact_ref \<Rightarrow> external_readback option \<Rightarrow> unit res" where
  "check_live_readback r verified_readback =
     (if \<not> ar_attested r then Inl (serr ''LIVE artifacts require an external readback'')
      else case verified_readback of
        None \<Rightarrow> Inl (serr ''LIVE artifacts require a verified external readback'')
      | Some rb \<Rightarrow>
          if \<not> verified rb then Inl (serr ''LIVE artifacts require a verified external readback'')
          else case artifact_readback_source (ar_source_kind r) of
            None \<Rightarrow> Inl (KeyError (ar_source_kind r))
          | Some src \<Rightarrow> seqE
              [raise_if (rb_source rb \<noteq> src) (serr ''external readback source does not match artifact source''),
               raise_if (rb_raw_hash rb \<noteq> ar_content_hash r) (serr ''external readback hash does not match artifact''),
               raise_if (rb_claim rb ''run_id'' \<noteq> None \<and> rb_claim rb ''run_id'' \<noteq> ar_run_id r)
                 (serr ''external readback crosses the artifact run boundary'')])"

text \<open>
  \<open>ArtifactRef(...)\<close>: the argument carries the fields; the token of the result is the
  readback of a LIVE artifact.
\<close>

definition artifact_init :: "artifact_ref \<Rightarrow> external_readback option \<Rightarrow> artifact_ref res" where
  "artifact_init r verified_readback =
     bindE (seqE
       [raise_if (ar_kind r \<notin> set (map lit artifact_kinds)) (serr ''artifact kind is unsupported''),
        skill_ref (ar_ref r) ''artifact.ref'',
        skill_hash (ar_content_hash r) ''artifact.content_hash'',
        skill_text source_pattern (ar_source_kind r) ''artifact.source_kind'',
        raise_if (ar_source_kind r \<notin> set (map lit (sources_of (ar_kind r))))
          (serr ''artifact source is not allowed for its kind''),
        raise_if (ar_provenance r \<notin> set (map lit artifact_provenances))
          (serr ''artifact provenance is unsupported''),
        raise_if (ar_classification r \<notin> set (map lit artifact_classifications))
          (serr ''artifact classification is unsupported''),
        raise_if (ar_provenance r = lit ''LIVE'' \<and> ar_classification r \<noteq> lit ''LIVE_ATTESTED'')
          (serr ''LIVE artifacts require LIVE_ATTESTED classification''),
        raise_if (ar_provenance r \<noteq> lit ''LIVE'' \<and> ar_classification r \<noteq> lit ''NON_LIVE'')
          (serr ''non-LIVE artifacts require NON_LIVE classification''),
        skill_ref (ar_attestation_ref r) ''artifact.attestation_ref'',
        (if ar_provenance r = lit ''LIVE'' then check_live_readback r verified_readback
         else raise_if (ar_attested r \<or> verified_readback \<noteq> None)
                (serr ''non-LIVE artifacts cannot carry an attestation'')),
        raise_if (ar_kind r \<in> set (map lit observation_kinds) \<and> ar_run_id r = None)
          (serr ''observations require a run_id''),
        (case ar_run_id r of None \<Rightarrow> Inr () | Some v \<Rightarrow> skill_ref v ''artifact.run_id'')])
       (\<lambda>_. Inr (r\<lparr>ar_token := (if ar_provenance r = lit ''LIVE'' then verified_readback else None)\<rparr>))"

definition artifact_dict :: "artifact_ref \<Rightarrow> json" where
  "artifact_dict r = JObj
     [(lit ''kind'', JStr (ar_kind r)), (lit ''ref'', JStr (ar_ref r)),
      (lit ''content_hash'', JStr (ar_content_hash r)), (lit ''source_kind'', JStr (ar_source_kind r)),
      (lit ''provenance'', JStr (ar_provenance r)), (lit ''classification'', JStr (ar_classification r)),
      (lit ''attestation_ref'', JStr (ar_attestation_ref r)), (lit ''attested'', JBool (ar_attested r)),
      (lit ''run_id'', jopt (ar_run_id r))]"

text \<open>Dataclass equality: the token is declared with \<open>compare=False\<close>.\<close>

definition artifact_eq :: "artifact_ref \<Rightarrow> artifact_ref \<Rightarrow> bool" where
  "artifact_eq a b \<longleftrightarrow> a\<lparr>ar_token := None\<rparr> = b\<lparr>ar_token := None\<rparr>"

definition check_artifact_kind :: "artifact_ref \<Rightarrow> string \<Rightarrow> string \<Rightarrow> unit res" where
  "check_artifact_kind r field kind =
     raise_if (ar_kind r \<noteq> lit kind) (SkillOpsError (lit field @ lit '' must be an '' @ lit kind @ lit '' reference''))"

definition check_artifact_refs :: "artifact_ref list \<Rightarrow> string \<Rightarrow> pystr option \<Rightarrow> unit res" where
  "check_artifact_refs rs field run_id = seqE
     [raise_if (rs = []) (SkillOpsError (lit field @ lit '' must contain immutable references'')),
      raise_if (run_id \<noteq> None \<and> list_ex (\<lambda>r. ar_run_id r \<noteq> run_id) rs)
        (SkillOpsError (lit field @ lit '' crosses the frozen run boundary'')),
      raise_if (list_ex (\<lambda>r. ar_kind r \<notin> set (map lit observation_kinds)) rs)
        (SkillOpsError (lit field @ lit '' contains a non-observation reference''))]"

section \<open>Sealing\<close>

text \<open>\<open>_check_hash\<close> over the payload of a record, and the hash that \<open>_make\<close> computes.\<close>

definition check_record_hash :: "hasher \<Rightarrow> (pystr \<times> json) list \<Rightarrow> pystr \<Rightarrow> unit res" where
  "check_record_hash H payload record_hash =
     bindE (skill_hash record_hash ''record_hash'') (\<lambda>_.
     bindE (canonical_hash H (JObj payload)) (\<lambda>h.
     raise_if (record_hash \<noteq> h) (serr ''record_hash does not seal the record'')))"

definition artifact_list :: "artifact_ref list \<Rightarrow> json" where
  "artifact_list rs = JArr (map artifact_dict rs)"

section \<open>Baseline, attribution, proposal\<close>

record baseline =
  bl_baseline_id :: pystr
  bl_dataset_ref :: artifact_ref
  bl_evaluation_ref :: artifact_ref
  bl_run_id :: pystr
  bl_trace_refs :: "artifact_ref list"
  bl_evidence_refs :: "artifact_ref list"
  bl_record_hash :: pystr

definition baseline_payload :: "baseline \<Rightarrow> (pystr \<times> json) list" where
  "baseline_payload r =
     [(lit ''artifact_type'', JStr (lit ''skillops.baseline/v1'')),
      (lit ''baseline_id'', JStr (bl_baseline_id r)),
      (lit ''dataset_ref'', artifact_dict (bl_dataset_ref r)),
      (lit ''evaluation_ref'', artifact_dict (bl_evaluation_ref r)),
      (lit ''run_id'', JStr (bl_run_id r)),
      (lit ''trace_refs'', artifact_list (bl_trace_refs r)),
      (lit ''evidence_refs'', artifact_list (bl_evidence_refs r))]"

definition baseline_init :: "hasher \<Rightarrow> baseline \<Rightarrow> unit res" where
  "baseline_init H r = seqE
     [skill_ref (bl_baseline_id r) ''baseline_id'',
      check_artifact_kind (bl_dataset_ref r) ''baseline.dataset_ref'' ''dataset'',
      check_artifact_kind (bl_evaluation_ref r) ''baseline.evaluation_ref'' ''evaluation'',
      skill_ref (bl_run_id r) ''baseline.run_id'',
      check_artifact_refs (bl_trace_refs r) ''trace_refs'' (Some (bl_run_id r)),
      check_artifact_refs (bl_evidence_refs r) ''evidence_refs'' (Some (bl_run_id r)),
      check_record_hash H (baseline_payload r) (bl_record_hash r)]"

text \<open>\<open>Baseline.freeze\<close>, and the other \<open>create\<close> functions: hash the payload, then construct.\<close>

definition baseline_freeze :: "hasher \<Rightarrow> baseline \<Rightarrow> baseline res" where
  "baseline_freeze H values =
     bindE (canonical_hash H (JObj (baseline_payload values))) (\<lambda>h.
     bindE (baseline_init H (values\<lparr>bl_record_hash := h\<rparr>)) (\<lambda>_.
     Inr (values\<lparr>bl_record_hash := h\<rparr>)))"

record attribution =
  ab_attribution_id :: pystr
  ab_skill_name :: pystr
  ab_base_version :: pystr
  ab_baseline_ref :: pystr
  ab_baseline_hash :: pystr
  ab_baseline_run_id :: pystr
  ab_trace_refs :: "artifact_ref list"
  ab_evidence_refs :: "artifact_ref list"
  ab_record_hash :: pystr

definition attribution_payload :: "attribution \<Rightarrow> (pystr \<times> json) list" where
  "attribution_payload r =
     [(lit ''artifact_type'', JStr (lit ''skillops.attribution/v1'')),
      (lit ''attribution_id'', JStr (ab_attribution_id r)),
      (lit ''skill_name'', JStr (ab_skill_name r)),
      (lit ''base_version'', JStr (ab_base_version r)),
      (lit ''baseline_ref'', JStr (ab_baseline_ref r)),
      (lit ''baseline_hash'', JStr (ab_baseline_hash r)),
      (lit ''baseline_run_id'', JStr (ab_baseline_run_id r)),
      (lit ''trace_refs'', artifact_list (ab_trace_refs r)),
      (lit ''evidence_refs'', artifact_list (ab_evidence_refs r))]"

definition attribution_init :: "hasher \<Rightarrow> attribution \<Rightarrow> unit res" where
  "attribution_init H r = seqE
     [skill_ref (ab_attribution_id r) ''attribution_id'',
      skill_name (ab_skill_name r) ''skill_name'',
      skill_version (ab_base_version r) ''base_version'',
      skill_ref (ab_baseline_ref r) ''baseline_ref'',
      skill_hash (ab_baseline_hash r) ''baseline_hash'',
      skill_ref (ab_baseline_run_id r) ''attribution.baseline_run_id'',
      check_artifact_refs (ab_trace_refs r) ''attribution.trace_refs'' (Some (ab_baseline_run_id r)),
      check_artifact_refs (ab_evidence_refs r) ''attribution.evidence_refs'' (Some (ab_baseline_run_id r)),
      check_record_hash H (attribution_payload r) (ab_record_hash r)]"

definition attribution_create ::
  "hasher \<Rightarrow> pystr \<Rightarrow> pystr \<Rightarrow> pystr \<Rightarrow> baseline \<Rightarrow> artifact_ref list \<Rightarrow> artifact_ref list \<Rightarrow> attribution res" where
  "attribution_create H attribution_id skill base_version bl trace_refs evidence_refs =
     (let values = \<lparr>ab_attribution_id = attribution_id, ab_skill_name = skill,
            ab_base_version = base_version, ab_baseline_ref = bl_baseline_id bl,
            ab_baseline_hash = bl_record_hash bl, ab_baseline_run_id = bl_run_id bl,
            ab_trace_refs = trace_refs, ab_evidence_refs = evidence_refs, ab_record_hash = []\<rparr> in
      bindE (canonical_hash H (JObj (attribution_payload values))) (\<lambda>h.
      bindE (attribution_init H (values\<lparr>ab_record_hash := h\<rparr>)) (\<lambda>_.
      Inr (values\<lparr>ab_record_hash := h\<rparr>))))"

record skill_proposal =
  sp_proposal_id :: pystr
  sp_skill_name :: pystr
  sp_base_version :: pystr
  sp_candidate_version :: pystr
  sp_content_hash :: pystr
  sp_rollback_ref :: pystr
  sp_baseline_ref :: pystr
  sp_baseline_hash :: pystr
  sp_attribution_ref :: pystr
  sp_attribution_hash :: pystr
  sp_record_hash :: pystr

definition proposal_payload :: "skill_proposal \<Rightarrow> (pystr \<times> json) list" where
  "proposal_payload r =
     [(lit ''artifact_type'', JStr (lit ''skillops.proposal/v1'')),
      (lit ''proposal_id'', JStr (sp_proposal_id r)),
      (lit ''skill_name'', JStr (sp_skill_name r)),
      (lit ''base_version'', JStr (sp_base_version r)),
      (lit ''candidate_version'', JStr (sp_candidate_version r)),
      (lit ''content_hash'', JStr (sp_content_hash r)),
      (lit ''rollback_ref'', JStr (sp_rollback_ref r)),
      (lit ''baseline_ref'', JStr (sp_baseline_ref r)),
      (lit ''baseline_hash'', JStr (sp_baseline_hash r)),
      (lit ''attribution_ref'', JStr (sp_attribution_ref r)),
      (lit ''attribution_hash'', JStr (sp_attribution_hash r))]"

definition proposal_init :: "hasher \<Rightarrow> skill_proposal \<Rightarrow> unit res" where
  "proposal_init H r = seqE
     [skill_ref (sp_proposal_id r) ''proposal_id'',
      skill_name (sp_skill_name r) ''skill_name'',
      skill_version (sp_base_version r) ''base_version'',
      skill_version (sp_candidate_version r) ''candidate_version'',
      raise_if (sp_base_version r = sp_candidate_version r)
        (serr ''candidate_version must differ from base_version''),
      skill_hash (sp_content_hash r) ''proposal.content_hash'',
      skill_ref (sp_rollback_ref r) ''rollback_ref'',
      skill_ref (sp_baseline_ref r) ''baseline_ref'',
      skill_ref (sp_attribution_ref r) ''attribution_ref'',
      skill_hash (sp_baseline_hash r) ''baseline_hash'',
      skill_hash (sp_attribution_hash r) ''attribution_hash'',
      check_record_hash H (proposal_payload r) (sp_record_hash r)]"

definition proposal_create ::
  "hasher \<Rightarrow> pystr \<Rightarrow> pystr \<Rightarrow> pystr \<Rightarrow> pystr \<Rightarrow> pystr \<Rightarrow> pystr \<Rightarrow> baseline \<Rightarrow> attribution \<Rightarrow> skill_proposal res" where
  "proposal_create H proposal_id skill base_version candidate_version content_hash rollback_ref bl ab =
     (let values = \<lparr>sp_proposal_id = proposal_id, sp_skill_name = skill,
            sp_base_version = base_version, sp_candidate_version = candidate_version,
            sp_content_hash = content_hash, sp_rollback_ref = rollback_ref,
            sp_baseline_ref = bl_baseline_id bl, sp_baseline_hash = bl_record_hash bl,
            sp_attribution_ref = ab_attribution_id ab, sp_attribution_hash = ab_record_hash ab,
            sp_record_hash = []\<rparr> in
      bindE (canonical_hash H (JObj (proposal_payload values))) (\<lambda>h.
      bindE (proposal_init H (values\<lparr>sp_record_hash := h\<rparr>)) (\<lambda>_.
      Inr (values\<lparr>sp_record_hash := h\<rparr>))))"

section \<open>Human decisions\<close>

record human_decision =
  hd_decision_id :: pystr
  hd_decision_revision :: int
  hd_proposal_ref :: pystr
  hd_proposal_hash :: pystr
  hd_actor_ref :: pystr
  hd_identity_ref :: pystr
  hd_attestation_ref :: pystr
  hd_actor_kind :: pystr
  hd_decision :: pystr
  hd_decided_at :: pystr
  hd_record_hash :: pystr

definition decision_payload :: "human_decision \<Rightarrow> (pystr \<times> json) list" where
  "decision_payload r =
     [(lit ''artifact_type'', JStr (lit ''skillops.human-decision/v1'')),
      (lit ''decision_id'', JStr (hd_decision_id r)),
      (lit ''decision_revision'', JInt (hd_decision_revision r)),
      (lit ''proposal_ref'', JStr (hd_proposal_ref r)),
      (lit ''proposal_hash'', JStr (hd_proposal_hash r)),
      (lit ''actor_ref'', JStr (hd_actor_ref r)),
      (lit ''identity_ref'', JStr (hd_identity_ref r)),
      (lit ''attestation_ref'', JStr (hd_attestation_ref r)),
      (lit ''actor_kind'', JStr (hd_actor_kind r)),
      (lit ''decision'', JStr (hd_decision r)),
      (lit ''decided_at'', JStr (hd_decided_at r))]"

definition decision_words :: "string list" where
  "decision_words = [''APPROVE'', ''REJECT'']"

definition decision_init :: "hasher \<Rightarrow> human_decision \<Rightarrow> unit res" where
  "decision_init H r = seqE
     [skill_ref (hd_decision_id r) ''decision_id'',
      skill_revision (hd_decision_revision r) ''decision_revision'',
      skill_ref (hd_proposal_ref r) ''proposal_ref'',
      skill_hash (hd_proposal_hash r) ''proposal_hash'',
      skill_ref (hd_actor_ref r) ''actor_ref'',
      skill_ref (hd_identity_ref r) ''identity_ref'',
      skill_ref (hd_attestation_ref r) ''attestation_ref'',
      raise_if (hd_actor_kind r \<noteq> lit ''external-human'') (serr ''actor_kind must be external-human''),
      raise_if (hd_decision r \<notin> set (map lit decision_words)) (serr ''decision is unsupported''),
      skill_ref (hd_decided_at r) ''decided_at'',
      check_record_hash H (decision_payload r) (hd_record_hash r)]"

text \<open>\<open>HumanDecision.create\<close>; the proposal fields of the argument are replaced.\<close>

definition decision_create :: "hasher \<Rightarrow> human_decision \<Rightarrow> skill_proposal \<Rightarrow> human_decision res" where
  "decision_create H vals proposal =
     (let values = vals\<lparr>hd_proposal_ref := sp_proposal_id proposal,
            hd_proposal_hash := sp_record_hash proposal\<rparr> in
      bindE (canonical_hash H (JObj (decision_payload values))) (\<lambda>h.
      bindE (decision_init H (values\<lparr>hd_record_hash := h\<rparr>)) (\<lambda>_.
      Inr (values\<lparr>hd_record_hash := h\<rparr>))))"

record decision_verification =
  hv_verification_ref :: pystr
  hv_source :: pystr
  hv_event_ref :: pystr
  hv_event_hash :: pystr
  hv_sender :: pystr
  hv_identity_ref :: pystr
  hv_decision_ref :: pystr
  hv_decision_hash :: pystr
  hv_proposal_ref :: pystr
  hv_proposal_hash :: pystr
  hv_decision_revision :: int
  hv_decision :: pystr
  hv_baseline_ref :: pystr
  hv_baseline_hash :: pystr
  hv_run_id :: pystr
  hv_verified_at :: pystr
  hv_record_hash :: pystr
  hv_token :: "external_readback option"

definition verification_payload :: "decision_verification \<Rightarrow> (pystr \<times> json) list" where
  "verification_payload r =
     [(lit ''artifact_type'', JStr (lit ''skillops.human-decision-verification/v1'')),
      (lit ''verification_ref'', JStr (hv_verification_ref r)),
      (lit ''source'', JStr (hv_source r)),
      (lit ''event_ref'', JStr (hv_event_ref r)),
      (lit ''event_hash'', JStr (hv_event_hash r)),
      (lit ''sender'', JStr (hv_sender r)),
      (lit ''identity_ref'', JStr (hv_identity_ref r)),
      (lit ''decision_ref'', JStr (hv_decision_ref r)),
      (lit ''decision_hash'', JStr (hv_decision_hash r)),
      (lit ''proposal_ref'', JStr (hv_proposal_ref r)),
      (lit ''proposal_hash'', JStr (hv_proposal_hash r)),
      (lit ''decision_revision'', JInt (hv_decision_revision r)),
      (lit ''decision'', JStr (hv_decision r)),
      (lit ''baseline_ref'', JStr (hv_baseline_ref r)),
      (lit ''baseline_hash'', JStr (hv_baseline_hash r)),
      (lit ''run_id'', JStr (hv_run_id r)),
      (lit ''verified_at'', JStr (hv_verified_at r))]"

text \<open>The claims of a readback that a record expects, each with its value.\<close>

definition claims_match :: "external_readback \<Rightarrow> (string \<times> pystr) list \<Rightarrow> bool" where
  "claims_match rb expected \<longleftrightarrow> list_all (\<lambda>(name, v). rb_claim rb name = Some v) expected"

text \<open>\<open>tuple(sorted({...}.items()))\<close> of claims with distinct names.\<close>

definition sorted_claims :: "(string \<times> pystr) list \<Rightarrow> (pystr \<times> pystr) list" where
  "sorted_claims claims = sort_key fst (map (\<lambda>(name, v). (lit name, v)) claims)"

lemma distinct_sort_key: "distinct (map fst (sort_key fst kvs)) = distinct (map fst kvs)"
  by (simp add: distinct_map)

lemma map_of_sort_key:
  assumes "distinct (map fst kvs)"
  shows "map_of (sort_key fst kvs) = map_of kvs"
proof -
  have "distinct (map fst (sort_key fst kvs))" using assms by (simp add: distinct_sort_key)
  with assms map_of_inject_set[of "sort_key fst kvs" kvs] show ?thesis by simp
qed

lemma rb_claim_sorted:
  assumes "distinct (map fst claims)" and "rb_claims rb = sorted_claims claims"
  shows "rb_claim rb name = map_of claims name"
proof -
  let ?kvs = "map (\<lambda>(name, v). (lit name, v)) claims"
  have fsts: "map fst ?kvs = map lit (map fst claims)" by (simp add: comp_def case_prod_beta)
  have d: "distinct (map fst ?kvs)" unfolding fsts using assms(1) by (simp only: distinct_map inj_on_def lit_eq_iff) auto
  then have "distinct (map fst (sort_key fst ?kvs))" unfolding distinct_sort_key .
  then have "map_of (rev (sort_key fst ?kvs)) = map_of (sort_key fst ?kvs)"
    using map_of_inject_set[of "rev (sort_key fst ?kvs)" "sort_key fst ?kvs"] by (simp flip: rev_map)
  moreover have "map_of ?kvs (lit name) = map_of claims name"
    by (induction claims) auto
  ultimately show ?thesis using map_of_sort_key[OF d] assms(2) by (simp add: rb_claim_def sorted_claims_def)
qed

definition verification_claims :: "decision_verification \<Rightarrow> (string \<times> pystr) list" where
  "verification_claims r =
     [(''sender'', hv_sender r), (''identity_ref'', hv_identity_ref r), (''run_id'', hv_run_id r),
      (''approval_id'', hv_decision_ref r), (''decision'', hv_decision r),
      (''decision_revision'', int_str (hv_decision_revision r))]"

text \<open>\<open>HumanDecisionVerification(...)\<close>: the token field of the argument is the readback handed in.\<close>

definition verification_init :: "hasher \<Rightarrow> decision_verification \<Rightarrow> unit res" where
  "verification_init H r = seqE
     [skill_ref (hv_verification_ref r) ''verification_ref'',
      raise_if (hv_source r \<noteq> lit ''matrix-live-readback'')
        (serr ''verification source must be matrix-live-readback''),
      skill_ref (hv_event_ref r) ''event_ref'',
      skill_hash (hv_event_hash r) ''event_hash'',
      skill_ref (hv_sender r) ''sender'',
      skill_ref (hv_identity_ref r) ''identity_ref'',
      skill_ref (hv_decision_ref r) ''decision_ref'',
      skill_hash (hv_decision_hash r) ''decision_hash'',
      skill_ref (hv_proposal_ref r) ''proposal_ref'',
      skill_hash (hv_proposal_hash r) ''proposal_hash'',
      skill_revision (hv_decision_revision r) ''decision_revision'',
      raise_if (hv_decision r \<notin> set (map lit decision_words)) (serr ''verified decision is unsupported''),
      skill_ref (hv_baseline_ref r) ''baseline_ref'',
      skill_hash (hv_baseline_hash r) ''baseline_hash'',
      skill_ref (hv_run_id r) ''run_id'',
      skill_ref (hv_verified_at r) ''verified_at'',
      (case hv_token r of
         None \<Rightarrow> Inl (serr ''verification requires an external readback token'')
       | Some rb \<Rightarrow> seqE
           [raise_if (\<not> verified rb) (serr ''verification requires an external readback token''),
            raise_if (rb_source rb \<noteq> lit ''matrix'') (serr ''verification readback source must be Matrix''),
            raise_if (rb_classification rb \<noteq> lit ''AUTHORITY_RECEIPT'')
              (serr ''verification requires a Matrix authority receipt''),
            raise_if (rb_ref rb \<noteq> hv_event_ref r \<or> rb_raw_hash rb \<noteq> hv_event_hash r
                      \<or> \<not> claims_match rb (verification_claims r))
              (serr ''verification readback hash does not match event_hash'')]),
      check_record_hash H (verification_payload r) (hv_record_hash r)]"

definition verification_create :: "hasher \<Rightarrow> decision_verification \<Rightarrow> decision_verification res" where
  "verification_create H values =
     bindE (canonical_hash H (JObj (verification_payload values))) (\<lambda>h.
     bindE (verification_init H (values\<lparr>hv_record_hash := h\<rparr>)) (\<lambda>_.
     Inr (values\<lparr>hv_record_hash := h\<rparr>)))"

section \<open>Evaluation observations\<close>

text \<open>The two subclasses of \<open>_EvaluationObservation\<close>.\<close>

datatype evaluation_class = Canary | Reevaluation

record evaluation =
  eo_class :: evaluation_class
  eo_observation_id :: pystr
  eo_proposal_ref :: pystr
  eo_proposal_hash :: pystr
  eo_candidate_version :: pystr
  eo_dataset_ref :: artifact_ref
  eo_evaluation_ref :: artifact_ref
  eo_result_ref :: artifact_ref
  eo_trace_refs :: "artifact_ref list"
  eo_evidence_refs :: "artifact_ref list"
  eo_status :: pystr
  eo_record_hash :: pystr

definition evaluation_type :: "evaluation_class \<Rightarrow> pystr" where
  "evaluation_type c = (case c of Canary \<Rightarrow> lit ''skillops.canary/v1'' | Reevaluation \<Rightarrow> lit ''skillops.reevaluation/v1'')"

definition evaluation_payload :: "evaluation \<Rightarrow> (pystr \<times> json) list" where
  "evaluation_payload r =
     [(lit ''artifact_type'', JStr (evaluation_type (eo_class r))),
      (lit ''observation_id'', JStr (eo_observation_id r)),
      (lit ''proposal_ref'', JStr (eo_proposal_ref r)),
      (lit ''proposal_hash'', JStr (eo_proposal_hash r)),
      (lit ''candidate_version'', JStr (eo_candidate_version r)),
      (lit ''dataset_ref'', artifact_dict (eo_dataset_ref r)),
      (lit ''evaluation_ref'', artifact_dict (eo_evaluation_ref r)),
      (lit ''result_ref'', artifact_dict (eo_result_ref r)),
      (lit ''trace_refs'', artifact_list (eo_trace_refs r)),
      (lit ''evidence_refs'', artifact_list (eo_evidence_refs r)),
      (lit ''status'', JStr (eo_status r))]"

definition evaluation_statuses :: "string list" where
  "evaluation_statuses = [''PASS'', ''FAIL'', ''BLOCKED'', ''NOT_AVAILABLE'']"

definition live_result :: "artifact_ref \<Rightarrow> bool" where
  "live_result r \<longleftrightarrow> ar_provenance r = lit ''LIVE'' \<and> ar_classification r = lit ''LIVE_ATTESTED''
     \<and> (case ar_token r of None \<Rightarrow> False | Some rb \<Rightarrow> verified rb)"

definition evaluation_init :: "hasher \<Rightarrow> evaluation \<Rightarrow> unit res" where
  "evaluation_init H r = seqE
     [skill_ref (eo_observation_id r) ''observation_id'',
      skill_ref (eo_proposal_ref r) ''proposal_ref'',
      skill_hash (eo_proposal_hash r) ''proposal_hash'',
      skill_version (eo_candidate_version r) ''candidate_version'',
      check_artifact_kind (eo_dataset_ref r) ''evaluation.dataset_ref'' ''dataset'',
      check_artifact_kind (eo_evaluation_ref r) ''evaluation.evaluation_ref'' ''evaluation'',
      check_artifact_kind (eo_result_ref r) ''evaluation.result_ref'' ''result'',
      check_artifact_refs (eo_trace_refs r) ''evaluation.trace_refs'' (ar_run_id (eo_result_ref r)),
      check_artifact_refs (eo_evidence_refs r) ''evaluation.evidence_refs'' (ar_run_id (eo_result_ref r)),
      raise_if (eo_status r \<notin> set (map lit evaluation_statuses)) (serr ''evaluation status is unsupported''),
      raise_if (eo_status r \<in> set (map lit [''PASS'', ''FAIL'']) \<and> \<not> live_result (eo_result_ref r))
        (serr ''completed evaluations require a verified external readback''),
      check_record_hash H (evaluation_payload r) (eo_record_hash r)]"

definition evaluation_create :: "hasher \<Rightarrow> evaluation \<Rightarrow> evaluation res" where
  "evaluation_create H values =
     bindE (canonical_hash H (JObj (evaluation_payload values))) (\<lambda>h.
     bindE (evaluation_init H (values\<lparr>eo_record_hash := h\<rparr>)) (\<lambda>_.
     Inr (values\<lparr>eo_record_hash := h\<rparr>)))"

section \<open>Receipts and their verification\<close>

record skill_receipt =
  sr_receipt_id :: pystr
  sr_proposal_ref :: pystr
  sr_proposal_hash :: pystr
  sr_action :: pystr
  sr_base_version :: pystr
  sr_candidate_version :: pystr
  sr_active_version :: pystr
  sr_rollback_ref :: pystr
  sr_baseline_hash :: pystr
  sr_canary_ref :: pystr
  sr_canary_hash :: pystr
  sr_reevaluation_ref :: pystr
  sr_reevaluation_hash :: pystr
  sr_human_decision_ref :: pystr
  sr_human_decision_hash :: pystr
  sr_human_verification_ref :: pystr
  sr_human_verification_hash :: pystr
  sr_record_hash :: pystr

definition receipt_payload :: "skill_receipt \<Rightarrow> (pystr \<times> json) list" where
  "receipt_payload r =
     [(lit ''artifact_type'', JStr (lit ''skillops.receipt/v1'')),
      (lit ''receipt_id'', JStr (sr_receipt_id r)),
      (lit ''proposal_ref'', JStr (sr_proposal_ref r)),
      (lit ''proposal_hash'', JStr (sr_proposal_hash r)),
      (lit ''action'', JStr (sr_action r)),
      (lit ''base_version'', JStr (sr_base_version r)),
      (lit ''candidate_version'', JStr (sr_candidate_version r)),
      (lit ''active_version'', JStr (sr_active_version r)),
      (lit ''rollback_ref'', JStr (sr_rollback_ref r)),
      (lit ''baseline_hash'', JStr (sr_baseline_hash r)),
      (lit ''canary_ref'', JStr (sr_canary_ref r)),
      (lit ''canary_hash'', JStr (sr_canary_hash r)),
      (lit ''reevaluation_ref'', JStr (sr_reevaluation_ref r)),
      (lit ''reevaluation_hash'', JStr (sr_reevaluation_hash r)),
      (lit ''human_decision_ref'', JStr (sr_human_decision_ref r)),
      (lit ''human_decision_hash'', JStr (sr_human_decision_hash r)),
      (lit ''human_verification_ref'', JStr (sr_human_verification_ref r)),
      (lit ''human_verification_hash'', JStr (sr_human_verification_hash r))]"

definition receipt_actions :: "string list" where
  "receipt_actions = [''PROMOTE'', ''ROLLBACK'']"

definition receipt_init :: "hasher \<Rightarrow> skill_receipt \<Rightarrow> unit res" where
  "receipt_init H r = seqE
     [skill_ref (sr_receipt_id r) ''receipt_id'',
      skill_ref (sr_proposal_ref r) ''proposal_ref'',
      skill_hash (sr_proposal_hash r) ''proposal_hash'',
      raise_if (sr_action r \<notin> set (map lit receipt_actions)) (serr ''receipt action is unsupported''),
      skill_version (sr_base_version r) ''base_version'',
      skill_version (sr_candidate_version r) ''candidate_version'',
      skill_version (sr_active_version r) ''active_version'',
      raise_if (sr_active_version r \<noteq>
                (if sr_action r = lit ''PROMOTE'' then sr_candidate_version r else sr_base_version r))
        (serr ''receipt active_version does not match action''),
      skill_ref (sr_rollback_ref r) ''rollback_ref'',
      skill_ref (sr_canary_ref r) ''canary_ref'',
      skill_ref (sr_reevaluation_ref r) ''reevaluation_ref'',
      skill_ref (sr_human_decision_ref r) ''human_decision_ref'',
      skill_ref (sr_human_verification_ref r) ''human_verification_ref'',
      skill_hash (sr_baseline_hash r) ''baseline_hash'',
      skill_hash (sr_canary_hash r) ''canary_hash'',
      skill_hash (sr_reevaluation_hash r) ''reevaluation_hash'',
      skill_hash (sr_human_decision_hash r) ''human_decision_hash'',
      skill_hash (sr_human_verification_hash r) ''human_verification_hash'',
      check_record_hash H (receipt_payload r) (sr_record_hash r)]"

definition receipt_create :: "hasher \<Rightarrow> skill_receipt \<Rightarrow> skill_receipt res" where
  "receipt_create H values =
     bindE (canonical_hash H (JObj (receipt_payload values))) (\<lambda>h.
     bindE (receipt_init H (values\<lparr>sr_record_hash := h\<rparr>)) (\<lambda>_.
     Inr (values\<lparr>sr_record_hash := h\<rparr>)))"

record operation_verification =
  ov_verification_ref :: pystr
  ov_operation_ref :: pystr
  ov_operation_hash :: pystr
  ov_receipt_ref :: pystr
  ov_receipt_hash :: pystr
  ov_proposal_ref :: pystr
  ov_proposal_hash :: pystr
  ov_run_id :: pystr
  ov_action :: pystr
  ov_active_version :: pystr
  ov_content_hash :: pystr
  ov_verified_at :: pystr
  ov_record_hash :: pystr
  ov_token :: "external_readback option"

definition operation_payload :: "operation_verification \<Rightarrow> (pystr \<times> json) list" where
  "operation_payload r =
     [(lit ''artifact_type'', JStr (lit ''skillops.operation-verification/v1'')),
      (lit ''verification_ref'', JStr (ov_verification_ref r)),
      (lit ''operation_ref'', JStr (ov_operation_ref r)),
      (lit ''operation_hash'', JStr (ov_operation_hash r)),
      (lit ''receipt_ref'', JStr (ov_receipt_ref r)),
      (lit ''receipt_hash'', JStr (ov_receipt_hash r)),
      (lit ''proposal_ref'', JStr (ov_proposal_ref r)),
      (lit ''proposal_hash'', JStr (ov_proposal_hash r)),
      (lit ''run_id'', JStr (ov_run_id r)),
      (lit ''action'', JStr (ov_action r)),
      (lit ''active_version'', JStr (ov_active_version r)),
      (lit ''content_hash'', JStr (ov_content_hash r)),
      (lit ''verified_at'', JStr (ov_verified_at r))]"

definition operation_claims :: "operation_verification \<Rightarrow> (string \<times> pystr) list" where
  "operation_claims r =
     [(''action'', ov_action r), (''active_version'', ov_active_version r),
      (''content_hash'', ov_content_hash r), (''proposal_ref'', ov_proposal_ref r),
      (''proposal_hash'', ov_proposal_hash r), (''run_id'', ov_run_id r),
      (''receipt_ref'', ov_receipt_ref r), (''receipt_hash'', ov_receipt_hash r)]"

definition operation_init :: "hasher \<Rightarrow> operation_verification \<Rightarrow> unit res" where
  "operation_init H r = seqE
     [skill_ref (ov_verification_ref r) ''verification_ref'',
      skill_ref (ov_operation_ref r) ''operation_ref'',
      skill_ref (ov_receipt_ref r) ''receipt_ref'',
      skill_ref (ov_proposal_ref r) ''proposal_ref'',
      skill_ref (ov_run_id r) ''run_id'',
      skill_ref (ov_verified_at r) ''verified_at'',
      skill_hash (ov_operation_hash r) ''operation_hash'',
      skill_hash (ov_receipt_hash r) ''receipt_hash'',
      skill_hash (ov_proposal_hash r) ''proposal_hash'',
      skill_hash (ov_content_hash r) ''content_hash'',
      raise_if (ov_action r \<notin> set (map lit receipt_actions))
        (serr ''operation verification action is unsupported''),
      skill_version (ov_active_version r) ''active_version'',
      (case ov_token r of
         None \<Rightarrow> Inl (serr ''operation verification requires an attested readback'')
       | Some rb \<Rightarrow> seqE
           [raise_if (\<not> verified rb) (serr ''operation verification requires an attested readback''),
            raise_if (rb_source rb \<noteq> lit ''agentteams'')
              (serr ''operation verification requires AgentTeams provenance''),
            raise_if (rb_classification rb \<noteq> lit ''AUTHORITY_RECEIPT'')
              (serr ''operation verification requires an authority receipt''),
            raise_if (rb_ref rb \<noteq> ov_operation_ref r \<or> rb_raw_hash rb \<noteq> ov_operation_hash r
                      \<or> \<not> claims_match rb (operation_claims r))
              (serr ''operation readback does not match verified receipt claims'')]),
      check_record_hash H (operation_payload r) (ov_record_hash r)]"

definition operation_create :: "hasher \<Rightarrow> operation_verification \<Rightarrow> operation_verification res" where
  "operation_create H values =
     bindE (canonical_hash H (JObj (operation_payload values))) (\<lambda>h.
     bindE (operation_init H (values\<lparr>ov_record_hash := h\<rparr>)) (\<lambda>_.
     Inr (values\<lparr>ov_record_hash := h\<rparr>)))"

section \<open>Lemmas\<close>

lemma skill_text_ok [res_simps]:
  "skill_text P v f = Inr u \<longleftrightarrow> v \<noteq> [] \<and> length v \<le> 2048 \<and> \<not> list_ex (\<lambda>c. isspace c \<or> c < 32) v \<and> P v"
  by (auto simp: skill_text_def not_less)

text \<open>The version pattern as a decomposition of the text, the way the regular expression reads.\<close>

definition digit_run :: "pystr \<Rightarrow> bool" where
  "digit_run s \<longleftrightarrow> s \<noteq> [] \<and> list_all is_digit_ascii s"

lemma after_digits_iff:
  "after_digits s = Some r \<longleftrightarrow> (\<exists>a. s = a @ r \<and> digit_run a) \<and> (r = [] \<or> \<not> is_digit_ascii (hd r))"
proof
  assume "after_digits s = Some r"
  then have r: "takeWhile is_digit_ascii s \<noteq> []" "r = dropWhile is_digit_ascii s"
    by (auto simp: after_digits_def split: if_splits)
  then have "s = takeWhile is_digit_ascii s @ r" by simp
  moreover have "digit_run (takeWhile is_digit_ascii s)"
    using r(1) by (auto simp: digit_run_def list_all_iff dest: set_takeWhileD)
  moreover have "r = [] \<or> \<not> is_digit_ascii (hd r)" using r(2) hd_dropWhile by blast
  ultimately show "(\<exists>a. s = a @ r \<and> digit_run a) \<and> (r = [] \<or> \<not> is_digit_ascii (hd r))" by blast
next
  assume "(\<exists>a. s = a @ r \<and> digit_run a) \<and> (r = [] \<or> \<not> is_digit_ascii (hd r))"
  then obtain a where a: "s = a @ r" "digit_run a" "r = [] \<or> \<not> is_digit_ascii (hd r)" by blast
  then have all: "\<forall>x\<in>set a. is_digit_ascii x" by (simp add: digit_run_def list_all_iff)
  then have "takeWhile is_digit_ascii s = a" "dropWhile is_digit_ascii s = r"
    using a(1,3) by (cases r; auto simp: takeWhile_append2 dropWhile_append2)+
  with a(2) show "after_digits s = Some r" by (simp add: after_digits_def digit_run_def)
qed

lemma after_dot_iff: "after_dot s = Some r \<longleftrightarrow> s = 46 # r"
  by (cases s) (auto simp: after_dot_def)

lemma version_suffix_no_digit: "version_suffix t \<Longrightarrow> t = [] \<or> \<not> is_digit_ascii (hd t)"
  by (cases t) (auto simp: version_suffix_def is_digit_ascii_def)

lemma version_pattern_iff:
  "version_pattern s \<longleftrightarrow> (\<exists>a b c t. s = a @ 46 # b @ 46 # c @ t
     \<and> digit_run a \<and> digit_run b \<and> digit_run c \<and> version_suffix t)"
proof
  assume "version_pattern s"
  then obtain r1 r2 r3 r4 t where "after_digits s = Some r1" "after_dot r1 = Some r2"
      "after_digits r2 = Some r3" "after_dot r3 = Some r4" "after_digits r4 = Some t" "version_suffix t"
    by (auto simp: version_pattern_def bind_eq_Some_conv split: option.splits)
  then show "\<exists>a b c t. s = a @ 46 # b @ 46 # c @ t \<and> digit_run a \<and> digit_run b \<and> digit_run c \<and> version_suffix t"
    by (auto simp: after_digits_iff after_dot_iff)
next
  assume "\<exists>a b c t. s = a @ 46 # b @ 46 # c @ t \<and> digit_run a \<and> digit_run b \<and> digit_run c \<and> version_suffix t"
  then obtain a b c t where s: "s = a @ 46 # b @ 46 # c @ t"
    "digit_run a" "digit_run b" "digit_run c" "version_suffix t" by blast
  have "after_digits s = Some (46 # b @ 46 # c @ t)"
    using s by (auto simp: after_digits_iff is_digit_ascii_def)
  moreover have "after_digits (b @ 46 # c @ t) = Some (46 # c @ t)"
    using s by (auto simp: after_digits_iff is_digit_ascii_def)
  moreover have "after_digits (c @ t) = Some t"
    using s version_suffix_no_digit by (auto simp: after_digits_iff)
  ultimately show "version_pattern s" using s(5) by (simp add: version_pattern_def after_dot_def)
qed

lemma check_live_readback_ok:
  "check_live_readback r v = Inr u \<longleftrightarrow> ar_attested r \<and> (\<exists>rb. v = Some rb \<and> verified rb
     \<and> artifact_readback_source (ar_source_kind r) = Some (rb_source rb)
     \<and> rb_raw_hash rb = ar_content_hash r
     \<and> (rb_claim rb ''run_id'' \<noteq> None \<longrightarrow> rb_claim rb ''run_id'' = ar_run_id r))"
  by (auto simp: check_live_readback_def split: option.splits)

lemma artifact_init_token:
  assumes "artifact_init r v = Inr r'"
  shows "r' = r\<lparr>ar_token := ar_token r'\<rparr>
    \<and> (if ar_provenance r' = lit ''LIVE''
       then ar_attested r' \<and> ar_classification r' = lit ''LIVE_ATTESTED'' \<and> (\<exists>rb. ar_token r' = Some rb
         \<and> verified rb \<and> rb_raw_hash rb = ar_content_hash r'
         \<and> artifact_readback_source (ar_source_kind r') = Some (rb_source rb)
         \<and> (rb_claim rb ''run_id'' \<noteq> None \<longrightarrow> rb_claim rb ''run_id'' = ar_run_id r'))
       else \<not> ar_attested r' \<and> ar_classification r' = lit ''NON_LIVE'' \<and> ar_token r' = None)"
  using assms unfolding artifact_init_def
  by (cases "ar_provenance r = lit ''LIVE''") (auto simp: check_live_readback_ok)

lemma check_record_hash_ok [res_simps]:
  "check_record_hash H p h = Inr u \<longleftrightarrow> is_sha256 h \<and> canonical_hash H (JObj p) = Inr h"
  by (auto simp: check_record_hash_def skill_hash_def)

section \<open>Properties\<close>

text \<open>Only a receipt issued through the package's internal point is a verified readback. The
  public constructor \<open>from_raw\<close> never yields one, and an issued readback is verified exactly
  when it was issued as verified, in which case it is not an unattested one; its hash is the
  digest of the raw bytes, which are not empty and at most four megabytes.\<close>

lemma readback_issued:
  "(case from_raw HB source ref raw of Inl e \<Rightarrow> True | Inr rb \<Rightarrow> \<not> verified rb)
   \<and> (case issue_readback HB source ref raw cl claims ok of Inl e \<Rightarrow> True
      | Inr rb \<Rightarrow> (verified rb \<longleftrightarrow> ok \<and> cl \<noteq> lit ''UNATTESTED_PARTIAL'')
          \<and> \<not> (ok \<and> cl = lit ''UNATTESTED_PARTIAL'')
          \<and> rb_raw_hash rb = lit ''sha256:'' @ HB raw
          \<and> raw \<noteq> [] \<and> length raw \<le> max_readback_bytes)"
  by (auto simp: from_raw_def issue_readback_def verified_def readback_classifications_def not_less
      split: sum.splits)

text \<open>An artifact reference is LIVE exactly when it is attested and carries a verified readback
  of its own content hash from the system its source belongs to, and of its own run when the
  readback names one; every other artifact is NON_LIVE, unattested and carries no readback.\<close>

lemma live_artifacts_are_read_back:
  assumes "artifact_init r v = Inr r'"
  shows "r' = r\<lparr>ar_token := ar_token r'\<rparr>
    \<and> (if ar_provenance r' = lit ''LIVE''
       then ar_attested r' \<and> ar_classification r' = lit ''LIVE_ATTESTED'' \<and> (\<exists>rb. ar_token r' = Some rb
         \<and> verified rb \<and> rb_raw_hash rb = ar_content_hash r'
         \<and> artifact_readback_source (ar_source_kind r') = Some (rb_source rb)
         \<and> (rb_claim rb ''run_id'' \<noteq> None \<longrightarrow> rb_claim rb ''run_id'' = ar_run_id r'))
       else \<not> ar_attested r' \<and> ar_classification r' = lit ''NON_LIVE'' \<and> ar_token r' = None)"
  using assms by (rule artifact_init_token)

text \<open>a version is accepted exactly when it is three runs of digits separated by dots, followed
  by nothing or by a dash or plus sign and a non-empty run of alphanumerics, dots and dashes.\<close>

lemma version_pattern_shape:
  "version_pattern s \<longleftrightarrow> (\<exists>a b c t. s = a @ 46 # b @ 46 # c @ t
     \<and> digit_run a \<and> digit_run b \<and> digit_run c \<and> version_suffix t)"
  by (rule version_pattern_iff)

text \<open>A LIVE dataset reference whose source is the frozen dataset is not rejected with the
  module's own exception: the lookup of the readback source raises \<open>KeyError\<close>.\<close>

definition live_frozen_dataset :: "artifact_ref \<Rightarrow> bool" where
  "live_frozen_dataset r \<longleftrightarrow> ar_kind r = lit ''dataset'' \<and> ar_source_kind r = lit ''frozen-dataset''
     \<and> ar_provenance r = lit ''LIVE'' \<and> ar_classification r = lit ''LIVE_ATTESTED'' \<and> ar_attested r
     \<and> skill_ref (ar_ref r) ''artifact.ref'' = Inr () \<and> is_sha256 (ar_content_hash r)
     \<and> skill_ref (ar_attestation_ref r) ''artifact.attestation_ref'' = Inr ()"

lemma live_frozen_dataset_key_error:
  assumes "live_frozen_dataset r" and "verified rb"
  shows "artifact_init r (Some rb) = Inl (KeyError (lit ''frozen-dataset''))"
proof -
  have "skill_text source_pattern (ar_source_kind r) ''artifact.source_kind'' = Inr ()"
    using assms(1) by (simp add: live_frozen_dataset_def skill_text_ok source_pattern_def)
      (simp add: lit_def char_class_defs)
  moreover have "check_live_readback r (Some rb) = Inl (KeyError (lit ''frozen-dataset''))"
    using assms by (simp add: live_frozen_dataset_def check_live_readback_def artifact_readback_source_def)
  ultimately show ?thesis
    using assms(1) unfolding live_frozen_dataset_def artifact_init_def
    by (simp add: skill_hash_def artifact_kinds_def sources_of_def artifact_provenances_def
        artifact_classifications_def)
qed

section \<open>Sample records\<close>

definition sample_hash2 :: pystr where
  "sample_hash2 = lit ''sha256:'' @ replicate 64 49"

lemma sample_hash2_ok: "is_sha256 sample_hash2" "sample_hash2 \<noteq> sample_hash"
  by (simp_all add: is_sha256_def sample_hash2_def sample_hash_def is_hex_lower_def is_digit_ascii_def list_all_iff)

definition sample_readback :: "pystr \<Rightarrow> pystr \<Rightarrow> pystr \<Rightarrow> (pystr \<times> pystr) list \<Rightarrow> external_readback" where
  "sample_readback source ref h claims = \<lparr>rb_source = source, rb_ref = ref, rb_raw_hash = h,
     rb_classification = lit ''AUTHORITY_RECEIPT'', rb_claims = claims, rb_seal = True\<rparr>"

definition sample_ref :: "string \<Rightarrow> string \<Rightarrow> artifact_ref" where
  "sample_ref kind source = \<lparr>ar_kind = lit kind, ar_ref = lit kind, ar_content_hash = sample_hash,
     ar_source_kind = lit source, ar_provenance = lit ''FROZEN'', ar_classification = lit ''NON_LIVE'',
     ar_attestation_ref = lit ''att'', ar_attested = False, ar_run_id = Some (lit ''run''), ar_token = None\<rparr>"

definition sample_result :: "string \<Rightarrow> pystr \<Rightarrow> artifact_ref" where
  "sample_result ref h = \<lparr>ar_kind = lit ''result'', ar_ref = lit ref, ar_content_hash = h,
     ar_source_kind = lit ''evaluation-export'', ar_provenance = lit ''LIVE'',
     ar_classification = lit ''LIVE_ATTESTED'', ar_attestation_ref = lit ''att'', ar_attested = True,
     ar_run_id = Some (lit ''run''),
     ar_token = Some (sample_readback (lit ''evaluation'') (lit ref) h [])\<rparr>"

lemma live_artifacts_are_read_back_witness:
  "artifact_init (sample_result ''r'' sample_hash) (ar_token (sample_result ''r'' sample_hash))
     = Inr (sample_result ''r'' sample_hash)
   \<and> (\<exists>rb. ar_token (sample_result ''r'' sample_hash) = Some rb \<and> verified rb)"
proof -
  have a: "artifact_init (sample_result ''r'' sample_hash) (ar_token (sample_result ''r'' sample_hash))
     = Inr (sample_result ''r'' sample_hash)"
    by (simp add: artifact_init_def bindE_ok sample_result_def sample_readback_def skill_ref_def skill_text_ok
        ref_pattern_def source_pattern_def skill_hash_def sample_hash_ok artifact_kinds_def sources_of_def
        artifact_provenances_def artifact_classifications_def check_live_readback_ok verified_def
        artifact_readback_source_def rb_claim_def)
      (simp add: lit_def char_class_defs)
  from live_artifacts_are_read_back[OF a] a show ?thesis by (auto simp: sample_result_def)
qed

lemma live_frozen_dataset_key_error_witness:
  "artifact_init ((sample_ref ''dataset'' ''frozen-dataset'')
       \<lparr>ar_provenance := lit ''LIVE'', ar_classification := lit ''LIVE_ATTESTED'', ar_attested := True\<rparr>)
     (Some (sample_readback (lit ''evaluation'') (lit ''x'') sample_hash []))
   = Inl (KeyError (lit ''frozen-dataset''))"
  by (rule live_frozen_dataset_key_error)
    (simp_all add: live_frozen_dataset_def sample_ref_def sample_readback_def verified_def
      skill_ref_def skill_text_ok ref_pattern_def sample_hash_ok, simp add: lit_def char_class_defs)

end
