(* ===== verification/Skill_Lifecycle.thy ===== *)
theory Skill_Lifecycle
  imports Skill_Records
begin

text \<open>
  \<open>testweaver/skillops/state.py\<close>, class \<open>SkillEvolution\<close>: the lifecycle of one Skill as a state
  machine. Each method is a function from the object to the changed object or an
  exception; the step relation applies the methods to values that the constructors
  accept, and the invariant, the facts behind every state and the order of the states are
  proved for all reachable objects.
\<close>

section \<open>The object\<close>

datatype lifecycle =
    EMPTY | BASELINE_FROZEN | ATTRIBUTED | PROPOSED | HUMAN_APPROVED | REJECTED
  | CANARY_RECORDED | REEVALUATED | PROMOTION_PENDING | ROLLBACK_PENDING | PROMOTED | ROLLED_BACK

definition state_name :: "lifecycle \<Rightarrow> pystr" where
  "state_name s = lit (case s of
     EMPTY \<Rightarrow> ''EMPTY'' | BASELINE_FROZEN \<Rightarrow> ''BASELINE_FROZEN'' | ATTRIBUTED \<Rightarrow> ''ATTRIBUTED''
   | PROPOSED \<Rightarrow> ''PROPOSED'' | HUMAN_APPROVED \<Rightarrow> ''HUMAN_APPROVED'' | REJECTED \<Rightarrow> ''REJECTED''
   | CANARY_RECORDED \<Rightarrow> ''CANARY_RECORDED'' | REEVALUATED \<Rightarrow> ''REEVALUATED''
   | PROMOTION_PENDING \<Rightarrow> ''PROMOTION_PENDING'' | ROLLBACK_PENDING \<Rightarrow> ''ROLLBACK_PENDING''
   | PROMOTED \<Rightarrow> ''PROMOTED'' | ROLLED_BACK \<Rightarrow> ''ROLLED_BACK'')"

record evolution =
  sk_name :: pystr
  sk_state :: lifecycle
  sk_baseline :: "baseline option"
  sk_attribution :: "attribution option"
  sk_proposal :: "skill_proposal option"
  sk_decision :: "human_decision option"
  sk_verification :: "decision_verification option"
  sk_canary :: "evaluation option"
  sk_reevaluation :: "evaluation option"
  sk_receipt :: "skill_receipt option"
  sk_operation :: "operation_verification option"

definition new_evolution :: "pystr \<Rightarrow> evolution" where
  "new_evolution n = \<lparr>sk_name = n, sk_state = EMPTY, sk_baseline = None, sk_attribution = None,
     sk_proposal = None, sk_decision = None, sk_verification = None, sk_canary = None,
     sk_reevaluation = None, sk_receipt = None, sk_operation = None\<rparr>"

definition evolution_init :: "pystr \<Rightarrow> evolution res" where
  "evolution_init n = bindE (skill_name n ''skill_name'') (\<lambda>_. Inr (new_evolution n))"

text \<open>
  The values a caller may hand to a method: instances of the record classes, so that the
  \<open>isinstance\<close> checks are branches of the methods.
\<close>

datatype skill_value =
    VBaseline baseline | VAttribution attribution | VProposal skill_proposal
  | VDecision human_decision | VEvaluation evaluation | VReceipt skill_receipt
  | VOperation operation_verification

text \<open>What calling the verifier of a human decision can do.\<close>

datatype verifier_answer = Verification decision_verification | ReturnedFalse | ReturnedOther | VerifierRaised

type_synonym decision_verifier = "human_decision \<Rightarrow> skill_proposal \<Rightarrow> baseline \<Rightarrow> verifier_answer"

definition sterr :: "string \<Rightarrow> exc" where
  "sterr msg = SkillOpsStateError (lit msg)"

section \<open>The methods\<close>

definition expect :: "evolution \<Rightarrow> lifecycle \<Rightarrow> unit res" where
  "expect s l = raise_if (sk_state s \<noteq> l)
     (SkillOpsStateError (lit ''state '' @ state_name (sk_state s)
        @ lit '' cannot accept this transition; expected '' @ state_name l))"

definition freeze_baseline :: "evolution \<Rightarrow> skill_value \<Rightarrow> evolution res" where
  "freeze_baseline s v = (case v of
     VBaseline b \<Rightarrow>
       bindE (expect s EMPTY) (\<lambda>_.
       Inr (s\<lparr>sk_baseline := Some b, sk_state := BASELINE_FROZEN\<rparr>))
   | _ \<Rightarrow> Inl (sterr ''baseline must be a Baseline record''))"

definition attribute :: "evolution \<Rightarrow> skill_value \<Rightarrow> evolution res" where
  "attribute s v = (case v of
     VAttribution a \<Rightarrow>
       bindE (expect s BASELINE_FROZEN) (\<lambda>_.
       case sk_baseline s of
         None \<Rightarrow> Inl (sterr ''attribution is not bound to this baseline'')
       | Some b \<Rightarrow>
           if (ab_baseline_ref a, ab_baseline_hash a) \<noteq> (bl_baseline_id b, bl_record_hash b)
           then Inl (sterr ''attribution is not bound to this baseline'')
           else if ab_skill_name a \<noteq> sk_name s then Inl (sterr ''attribution Skill does not match lifecycle'')
           else if ab_baseline_run_id a \<noteq> bl_run_id b
           then Inl (sterr ''attribution is bound to a different baseline run'')
           else Inr (s\<lparr>sk_attribution := Some a, sk_state := ATTRIBUTED\<rparr>))
   | _ \<Rightarrow> Inl (sterr ''attribution must be an Attribution record''))"

definition propose :: "evolution \<Rightarrow> skill_value \<Rightarrow> evolution res" where
  "propose s v = (case v of
     VProposal p \<Rightarrow>
       bindE (expect s ATTRIBUTED) (\<lambda>_.
       case (sk_baseline s, sk_attribution s) of
         (Some b, Some a) \<Rightarrow>
           if sp_skill_name p \<noteq> sk_name s
              \<or> (sp_baseline_ref p, sp_baseline_hash p) \<noteq> (bl_baseline_id b, bl_record_hash b)
              \<or> (sp_attribution_ref p, sp_attribution_hash p) \<noteq> (ab_attribution_id a, ab_record_hash a)
              \<or> sp_base_version p \<noteq> ab_base_version a
           then Inl (sterr ''proposal is not bound to the attributed baseline'')
           else Inr (s\<lparr>sk_proposal := Some p, sk_state := PROPOSED\<rparr>)
       | _ \<Rightarrow> Inl (sterr ''baseline or attribution is missing''))
   | _ \<Rightarrow> Inl (sterr ''proposal must be a SkillProposal record''))"

text \<open>The comparison of a verification with the decision, the proposal and the baseline.\<close>

definition verification_matches ::
  "decision_verification \<Rightarrow> human_decision \<Rightarrow> skill_proposal \<Rightarrow> baseline \<Rightarrow> bool" where
  "verification_matches w d p b \<longleftrightarrow>
     hv_source w = lit ''matrix-live-readback'' \<and> hv_event_ref w = hd_attestation_ref d
     \<and> hv_sender w = hd_actor_ref d \<and> hv_identity_ref w = hd_identity_ref d
     \<and> hv_decision_ref w = hd_decision_id d \<and> hv_decision_hash w = hd_record_hash d
     \<and> hv_proposal_ref w = sp_proposal_id p \<and> hv_proposal_hash w = sp_record_hash p
     \<and> hv_decision_revision w = hd_decision_revision d \<and> hv_decision w = hd_decision d
     \<and> hv_baseline_ref w = bl_baseline_id b \<and> hv_baseline_hash w = bl_record_hash b
     \<and> hv_run_id w = bl_run_id b"

definition holds_readback :: "external_readback option \<Rightarrow> bool" where
  "holds_readback t = (case t of None \<Rightarrow> False | Some rb \<Rightarrow> verified rb)"

definition accept_verification ::
  "hasher \<Rightarrow> evolution \<Rightarrow> human_decision \<Rightarrow> skill_proposal \<Rightarrow> baseline \<Rightarrow> decision_verification \<Rightarrow> evolution res" where
  "accept_verification H s d p b w =
     (case check_record_hash H (verification_payload w) (hv_record_hash w) of
        Inl (SkillOpsError m) \<Rightarrow> Inl (sterr ''external decision verification is not sealed'')
      | Inl (SkillOpsStateError m) \<Rightarrow> Inl (sterr ''external decision verification is not sealed'')
      | Inl e \<Rightarrow> Inl e
      | Inr u \<Rightarrow>
          if \<not> verification_matches w d p b
          then Inl (sterr ''external decision verification does not match lifecycle'')
          else if \<not> holds_readback (hv_token w)
          then Inl (sterr ''external decision verification lacks a readback token'')
          else Inr (s\<lparr>sk_decision := Some d, sk_verification := Some w,
                 sk_state := (if hd_decision d = lit ''APPROVE'' then HUMAN_APPROVED else REJECTED)\<rparr>))"

definition record_human_decision ::
  "hasher \<Rightarrow> evolution \<Rightarrow> skill_value \<Rightarrow> decision_verifier option \<Rightarrow> evolution res" where
  "record_human_decision H s v verifier = (case v of
     VDecision d \<Rightarrow>
       bindE (expect s PROPOSED) (\<lambda>_.
       bindE (check_record_hash H (decision_payload d) (hd_record_hash d)) (\<lambda>_.
       case sk_proposal s of
         None \<Rightarrow> Inl (sterr ''decision is not an external decision for this proposal'')
       | Some p \<Rightarrow>
           if hd_actor_kind d \<noteq> lit ''external-human''
              \<or> (hd_proposal_ref d, hd_proposal_hash d) \<noteq> (sp_proposal_id p, sp_record_hash p)
           then Inl (sterr ''decision is not an external decision for this proposal'')
           else case verifier of
             None \<Rightarrow> Inl (sterr ''external decision verifier is required'')
           | Some f \<Rightarrow>
               (case sk_baseline s of
                  None \<Rightarrow> Inl (sterr ''baseline is missing for decision verification'')
                | Some b \<Rightarrow>
                    (case f d p b of
                       VerifierRaised \<Rightarrow> Inl (sterr ''external decision verification failed'')
                     | ReturnedFalse \<Rightarrow> Inl (sterr ''external decision verification returned false'')
                     | ReturnedOther \<Rightarrow> Inl (sterr ''external decision verification record is required'')
                     | Verification w \<Rightarrow> accept_verification H s d p b w))))
   | _ \<Rightarrow> Inl (sterr ''decision must be a HumanDecision record''))"

definition check_evaluation :: "evolution \<Rightarrow> evaluation \<Rightarrow> unit res" where
  "check_evaluation s e =
     (case (sk_baseline s, sk_proposal s) of
        (Some b, Some p) \<Rightarrow> seqE
          [raise_if (eo_proposal_ref e \<noteq> sp_proposal_id p \<or> eo_proposal_hash e \<noteq> sp_record_hash p
                     \<or> eo_candidate_version e \<noteq> sp_candidate_version p)
             (sterr ''evaluation is not bound to the proposal''),
           raise_if (\<not> artifact_eq (eo_dataset_ref e) (bl_dataset_ref b)
                     \<or> \<not> artifact_eq (eo_evaluation_ref e) (bl_evaluation_ref b))
             (sterr ''evaluation is not bound to the frozen dataset/evaluation'')]
      | _ \<Rightarrow> Inl (sterr ''baseline or proposal is missing''))"

definition record_canary :: "evolution \<Rightarrow> skill_value \<Rightarrow> evolution res" where
  "record_canary s v = (case v of
     VEvaluation e \<Rightarrow>
       if eo_class e \<noteq> Canary then Inl (sterr ''canary must be a CanaryObservation record'')
       else
         bindE (expect s HUMAN_APPROVED) (\<lambda>_.
         bindE (check_evaluation s e) (\<lambda>_.
         Inr (s\<lparr>sk_canary := Some e, sk_state := CANARY_RECORDED\<rparr>)))
   | _ \<Rightarrow> Inl (sterr ''canary must be a CanaryObservation record''))"

definition record_reevaluation :: "evolution \<Rightarrow> skill_value \<Rightarrow> evolution res" where
  "record_reevaluation s v = (case v of
     VEvaluation e \<Rightarrow>
       if eo_class e \<noteq> Reevaluation then Inl (sterr ''reevaluation must be a ReevaluationObservation record'')
       else
         bindE (expect s CANARY_RECORDED) (\<lambda>_.
         bindE (check_evaluation s e) (\<lambda>_.
         bindE (case sk_baseline s of
             None \<Rightarrow> Inl (sterr ''reevaluation must use the identical frozen dataset/evaluation'')
           | Some b \<Rightarrow> raise_if (\<not> artifact_eq (eo_dataset_ref e) (bl_dataset_ref b)
                                \<or> \<not> artifact_eq (eo_evaluation_ref e) (bl_evaluation_ref b))
               (sterr ''reevaluation must use the identical frozen dataset/evaluation'')) (\<lambda>_.
         bindE (case sk_canary s of
             None \<Rightarrow> Inr ()
           | Some c \<Rightarrow> raise_if (ar_ref (eo_result_ref e) = ar_ref (eo_result_ref c)
                                \<or> ar_content_hash (eo_result_ref e) = ar_content_hash (eo_result_ref c))
               (sterr ''reevaluation must use a distinct result reference and hash'')) (\<lambda>_.
         Inr (s\<lparr>sk_reevaluation := Some e, sk_state := REEVALUATED\<rparr>)))))
   | _ \<Rightarrow> Inl (sterr ''reevaluation must be a ReevaluationObservation record''))"

definition receipt_matches ::
  "skill_receipt \<Rightarrow> baseline \<Rightarrow> skill_proposal \<Rightarrow> human_decision \<Rightarrow> decision_verification \<Rightarrow>
   evaluation \<Rightarrow> evaluation \<Rightarrow> bool" where
  "receipt_matches r b p d w c e \<longleftrightarrow>
     sr_proposal_ref r = sp_proposal_id p \<and> sr_proposal_hash r = sp_record_hash p
     \<and> sr_baseline_hash r = bl_record_hash b
     \<and> sr_canary_ref r = eo_observation_id c \<and> sr_canary_hash r = eo_record_hash c
     \<and> sr_reevaluation_ref r = eo_observation_id e \<and> sr_reevaluation_hash r = eo_record_hash e
     \<and> sr_human_decision_ref r = hd_decision_id d \<and> sr_human_decision_hash r = hd_record_hash d
     \<and> sr_human_verification_ref r = hv_verification_ref w
     \<and> sr_human_verification_hash r = hv_record_hash w
     \<and> sr_base_version r = sp_base_version p \<and> sr_candidate_version r = sp_candidate_version p
     \<and> sr_rollback_ref r = sp_rollback_ref p"

definition close :: "hasher \<Rightarrow> evolution \<Rightarrow> skill_value \<Rightarrow> evolution res" where
  "close H s v = (case v of
     VReceipt r \<Rightarrow>
       bindE (expect s REEVALUATED) (\<lambda>_.
       bindE (check_record_hash H (receipt_payload r) (sr_record_hash r)) (\<lambda>_.
       case (sk_baseline s, sk_proposal s, sk_decision s, sk_verification s, sk_canary s, sk_reevaluation s) of
         (Some b, Some p, Some d, Some w, Some c, Some e) \<Rightarrow>
           if \<not> receipt_matches r b p d w c e then Inl (sterr ''receipt is not bound to this evolution'')
           else if eo_status c = lit ''FAIL'' \<and> sr_action r \<noteq> lit ''ROLLBACK''
           then Inl (sterr ''failed canary requires an explicit rollback receipt'')
           else if sr_action r = lit ''PROMOTE'' \<and> \<not> (eo_status c = lit ''PASS'' \<and> eo_status e = lit ''PASS'')
           then Inl (sterr ''promotion is blocked unless canary and reevaluation both PASS'')
           else Inr (s\<lparr>sk_receipt := Some r,
                  sk_state := (if sr_action r = lit ''PROMOTE'' then PROMOTION_PENDING else ROLLBACK_PENDING)\<rparr>)
       | _ \<Rightarrow> Inl (sterr ''required evolution facts are missing'')))
   | _ \<Rightarrow> Inl (sterr ''receipt must be a SkillReceipt record''))"

definition operation_matches ::
  "operation_verification \<Rightarrow> skill_receipt \<Rightarrow> skill_proposal \<Rightarrow> baseline option \<Rightarrow> bool" where
  "operation_matches v r p b \<longleftrightarrow>
     ov_receipt_ref v = sr_receipt_id r \<and> ov_receipt_hash v = sr_record_hash r
     \<and> ov_proposal_ref v = sp_proposal_id p \<and> ov_proposal_hash v = sp_record_hash p
     \<and> Some (ov_run_id v) = map_option bl_run_id b
     \<and> ov_action v = sr_action r \<and> ov_active_version v = sr_active_version r
     \<and> ov_content_hash v = sp_content_hash p"

definition verify_close :: "hasher \<Rightarrow> evolution \<Rightarrow> skill_value \<Rightarrow> evolution res" where
  "verify_close H s v = (case v of
     VOperation x \<Rightarrow>
       if sk_state s \<noteq> PROMOTION_PENDING \<and> sk_state s \<noteq> ROLLBACK_PENDING
       then Inl (SkillOpsStateError (lit ''state '' @ state_name (sk_state s)
              @ lit '' cannot verify close; expected a pending operation''))
       else
         bindE (check_record_hash H (operation_payload x) (ov_record_hash x)) (\<lambda>_.
         case (sk_receipt s, sk_proposal s) of
           (Some r, Some p) \<Rightarrow>
             if \<not> operation_matches x r p (sk_baseline s)
             then Inl (sterr ''operation verification is not bound to pending close'')
             else if \<not> holds_readback (ov_token x)
             then Inl (sterr ''operation verification lacks an attested readback'')
             else Inr (s\<lparr>sk_operation := Some x,
                    sk_state := (if ov_action x = lit ''PROMOTE'' then PROMOTED else ROLLED_BACK)\<rparr>)
         | _ \<Rightarrow> Inl (sterr ''pending receipt or proposal is missing''))
   | _ \<Rightarrow> Inl (sterr ''close verification must be a SkillOperationVerification record''))"

definition snapshot :: "evolution \<Rightarrow> (pystr \<times> json) list" where
  "snapshot s =
     [(lit ''artifact_type'', JStr (lit ''skillops.state/v1'')),
      (lit ''skill_name'', JStr (sk_name s)),
      (lit ''state'', JStr (state_name (sk_state s))),
      (lit ''baseline_ref'', jopt (map_option bl_baseline_id (sk_baseline s))),
      (lit ''baseline_hash'', jopt (map_option bl_record_hash (sk_baseline s))),
      (lit ''attribution_ref'', jopt (map_option ab_attribution_id (sk_attribution s))),
      (lit ''attribution_hash'', jopt (map_option ab_record_hash (sk_attribution s))),
      (lit ''proposal_ref'', jopt (map_option sp_proposal_id (sk_proposal s))),
      (lit ''proposal_hash'', jopt (map_option sp_record_hash (sk_proposal s))),
      (lit ''human_decision_ref'', jopt (map_option hd_decision_id (sk_decision s))),
      (lit ''human_decision_hash'', jopt (map_option hd_record_hash (sk_decision s))),
      (lit ''human_verification_ref'', jopt (map_option hv_verification_ref (sk_verification s))),
      (lit ''human_verification_hash'', jopt (map_option hv_record_hash (sk_verification s))),
      (lit ''canary_ref'', jopt (map_option eo_observation_id (sk_canary s))),
      (lit ''reevaluation_ref'', jopt (map_option eo_observation_id (sk_reevaluation s))),
      (lit ''receipt_ref'', jopt (map_option sr_receipt_id (sk_receipt s))),
      (lit ''operation_verification_ref'', jopt (map_option ov_verification_ref (sk_operation s))),
      (lit ''operation_verification_hash'', jopt (map_option ov_record_hash (sk_operation s)))]"

section \<open>Values of the constructors\<close>

text \<open>
  An instance of a record class has passed its constructor. For an artifact reference this
  means that constructing it again from its own fields and token gives it back.
\<close>

definition ref_constructed :: "artifact_ref \<Rightarrow> bool" where
  "ref_constructed r \<longleftrightarrow> artifact_init r (ar_token r) = Inr r"

primrec constructed :: "hasher \<Rightarrow> skill_value \<Rightarrow> bool" where
  "constructed H (VBaseline b) = (baseline_init H b = Inr ()
     \<and> list_all ref_constructed (bl_dataset_ref b # bl_evaluation_ref b # bl_trace_refs b @ bl_evidence_refs b))"
| "constructed H (VAttribution a) = (attribution_init H a = Inr ()
     \<and> list_all ref_constructed (ab_trace_refs a @ ab_evidence_refs a))"
| "constructed H (VProposal p) = (proposal_init H p = Inr ())"
| "constructed H (VDecision d) = (decision_init H d = Inr ())"
| "constructed H (VEvaluation e) = (evaluation_init H e = Inr ()
     \<and> list_all ref_constructed (eo_dataset_ref e # eo_evaluation_ref e # eo_result_ref e
         # eo_trace_refs e @ eo_evidence_refs e))"
| "constructed H (VReceipt r) = (receipt_init H r = Inr ())"
| "constructed H (VOperation x) = (operation_init H x = Inr ())"

section \<open>The state machine\<close>

datatype skill_method =
    FreezeBaseline | Attribute | Propose | Decide "decision_verifier option"
  | RecordCanary | RecordReevaluation | CloseWith | VerifyClose

primrec call :: "hasher \<Rightarrow> skill_method \<Rightarrow> evolution \<Rightarrow> skill_value \<Rightarrow> evolution res" where
  "call H FreezeBaseline s v = freeze_baseline s v"
| "call H Attribute s v = attribute s v"
| "call H Propose s v = propose s v"
| "call H (Decide f) s v = record_human_decision H s v f"
| "call H RecordCanary s v = record_canary s v"
| "call H RecordReevaluation s v = record_reevaluation s v"
| "call H CloseWith s v = close H s v"
| "call H VerifyClose s v = verify_close H s v"

text \<open>A verification record that a verifier returns has passed its constructor, too.\<close>

definition returns_constructed :: "hasher \<Rightarrow> skill_method \<Rightarrow> bool" where
  "returns_constructed H m \<longleftrightarrow>
     (\<forall>f d p b w. m = Decide (Some f) \<longrightarrow> f d p b = Verification w \<longrightarrow> verification_init H w = Inr ())"

inductive skill_step :: "hasher \<Rightarrow> evolution \<Rightarrow> evolution \<Rightarrow> bool" for H where
  accepted: "constructed H v \<Longrightarrow> returns_constructed H m \<Longrightarrow> call H m s v = Inr s' \<Longrightarrow> skill_step H s s'"

inductive reachable :: "hasher \<Rightarrow> evolution \<Rightarrow> bool" for H where
  new: "evolution_init n = Inr s \<Longrightarrow> reachable H s"
| step: "reachable H s \<Longrightarrow> skill_step H s s' \<Longrightarrow> reachable H s'"

inductive_cases skill_stepE: "skill_step H s s'"

text \<open>The order of the states.\<close>

primrec stage :: "lifecycle \<Rightarrow> nat" where
  "stage EMPTY = 0" | "stage BASELINE_FROZEN = 1" | "stage ATTRIBUTED = 2" | "stage PROPOSED = 3"
| "stage REJECTED = 4" | "stage HUMAN_APPROVED = 5" | "stage CANARY_RECORDED = 6"
| "stage REEVALUATED = 7" | "stage PROMOTION_PENDING = 8" | "stage ROLLBACK_PENDING = 9"
| "stage PROMOTED = 10" | "stage ROLLED_BACK = 11"

lemma stage_inj: "stage a = stage b \<Longrightarrow> a = b"
  by (cases a; cases b) simp_all

instantiation lifecycle :: linorder
begin

definition less_eq_lifecycle :: "lifecycle \<Rightarrow> lifecycle \<Rightarrow> bool" where
  "less_eq_lifecycle a b \<longleftrightarrow> stage a \<le> stage b"

definition less_lifecycle :: "lifecycle \<Rightarrow> lifecycle \<Rightarrow> bool" where
  "less_lifecycle a b \<longleftrightarrow> stage a < stage b"

instance
  by intro_classes (auto simp: less_eq_lifecycle_def less_lifecycle_def dest: stage_inj)

end

lemmas lifecycle_order = less_eq_lifecycle_def less_lifecycle_def

section \<open>What each method does when it returns\<close>

lemma expect_ok [simp]: "expect s l = Inr u \<longleftrightarrow> sk_state s = l"
  by (simp add: expect_def)

lemma freeze_baseline_ok:
  assumes "freeze_baseline s v = Inr s'"
  obtains b where "v = VBaseline b" and "sk_state s = EMPTY"
    and "s' = s\<lparr>sk_baseline := Some b, sk_state := BASELINE_FROZEN\<rparr>"
  using assms by (cases v) (auto simp: freeze_baseline_def)

lemma attribute_ok:
  assumes "attribute s v = Inr s'"
  obtains a b where "v = VAttribution a" and "sk_state s = BASELINE_FROZEN" and "sk_baseline s = Some b"
    and "ab_baseline_ref a = bl_baseline_id b" and "ab_baseline_hash a = bl_record_hash b"
    and "ab_skill_name a = sk_name s" and "ab_baseline_run_id a = bl_run_id b"
    and "s' = s\<lparr>sk_attribution := Some a, sk_state := ATTRIBUTED\<rparr>"
  using assms by (cases v) (auto simp: attribute_def split: option.splits if_splits)

lemma propose_ok:
  assumes "propose s v = Inr s'"
  obtains p a b where "v = VProposal p" and "sk_state s = ATTRIBUTED" and "sk_baseline s = Some b"
    and "sk_attribution s = Some a" and "sp_skill_name p = sk_name s"
    and "sp_baseline_ref p = bl_baseline_id b" and "sp_baseline_hash p = bl_record_hash b"
    and "sp_attribution_ref p = ab_attribution_id a" and "sp_attribution_hash p = ab_record_hash a"
    and "sp_base_version p = ab_base_version a"
    and "s' = s\<lparr>sk_proposal := Some p, sk_state := PROPOSED\<rparr>"
  using assms by (cases v) (auto simp: propose_def split: option.splits if_splits)

lemma accept_verification_ok:
  assumes "accept_verification H s d p b w = Inr s'"
  shows "verification_matches w d p b \<and> holds_readback (hv_token w)
    \<and> s' = s\<lparr>sk_decision := Some d, sk_verification := Some w,
         sk_state := (if hd_decision d = lit ''APPROVE'' then HUMAN_APPROVED else REJECTED)\<rparr>"
  using assms by (auto simp: accept_verification_def split: sum.splits exc.splits if_splits)

lemma record_human_decision_ok:
  assumes "record_human_decision H s v verifier = Inr s'"
  obtains d p b f w where "v = VDecision d" and "sk_state s = PROPOSED" and "sk_proposal s = Some p"
    and "sk_baseline s = Some b" and "verifier = Some f" and "f d p b = Verification w"
    and "hd_actor_kind d = lit ''external-human''"
    and "hd_proposal_ref d = sp_proposal_id p" and "hd_proposal_hash d = sp_record_hash p"
    and "verification_matches w d p b" and "holds_readback (hv_token w)"
    and "s' = s\<lparr>sk_decision := Some d, sk_verification := Some w,
           sk_state := (if hd_decision d = lit ''APPROVE'' then HUMAN_APPROVED else REJECTED)\<rparr>"
  using assms
  by (cases v) (auto simp: record_human_decision_def split: option.splits if_splits verifier_answer.splits
      dest!: accept_verification_ok)

lemma check_evaluation_ok:
  assumes "check_evaluation s e = Inr u"
  obtains b p where "sk_baseline s = Some b" and "sk_proposal s = Some p"
    and "eo_proposal_ref e = sp_proposal_id p" and "eo_proposal_hash e = sp_record_hash p"
    and "eo_candidate_version e = sp_candidate_version p"
    and "artifact_eq (eo_dataset_ref e) (bl_dataset_ref b)"
    and "artifact_eq (eo_evaluation_ref e) (bl_evaluation_ref b)"
  using assms by (auto simp: check_evaluation_def split: option.splits)

lemma record_canary_ok:
  assumes "record_canary s v = Inr s'"
  obtains e where "v = VEvaluation e" and "eo_class e = Canary" and "sk_state s = HUMAN_APPROVED"
    and "check_evaluation s e = Inr ()" and "s' = s\<lparr>sk_canary := Some e, sk_state := CANARY_RECORDED\<rparr>"
  using assms by (cases v) (auto simp: record_canary_def split: if_splits)

lemma record_reevaluation_ok:
  assumes "record_reevaluation s v = Inr s'"
  obtains e where "v = VEvaluation e" and "eo_class e = Reevaluation" and "sk_state s = CANARY_RECORDED"
    and "check_evaluation s e = Inr ()"
    and "\<forall>c. sk_canary s = Some c \<longrightarrow> ar_ref (eo_result_ref e) \<noteq> ar_ref (eo_result_ref c)
           \<and> ar_content_hash (eo_result_ref e) \<noteq> ar_content_hash (eo_result_ref c)"
    and "s' = s\<lparr>sk_reevaluation := Some e, sk_state := REEVALUATED\<rparr>"
  using assms by (cases v) (auto simp: record_reevaluation_def split: if_splits option.splits)

lemma close_ok:
  assumes "close H s v = Inr s'"
  obtains r b p d w c e where "v = VReceipt r" and "sk_state s = REEVALUATED"
    and "sk_baseline s = Some b" and "sk_proposal s = Some p" and "sk_decision s = Some d"
    and "sk_verification s = Some w" and "sk_canary s = Some c" and "sk_reevaluation s = Some e"
    and "receipt_matches r b p d w c e"
    and "eo_status c = lit ''FAIL'' \<longrightarrow> sr_action r = lit ''ROLLBACK''"
    and "sr_action r = lit ''PROMOTE'' \<longrightarrow> eo_status c = lit ''PASS'' \<and> eo_status e = lit ''PASS''"
    and "s' = s\<lparr>sk_receipt := Some r,
           sk_state := (if sr_action r = lit ''PROMOTE'' then PROMOTION_PENDING else ROLLBACK_PENDING)\<rparr>"
  using assms by (cases v) (auto simp: close_def split: option.splits if_splits)

lemma verify_close_ok:
  assumes "verify_close H s v = Inr s'"
  obtains x r p where "v = VOperation x" and "sk_state s = PROMOTION_PENDING \<or> sk_state s = ROLLBACK_PENDING"
    and "sk_receipt s = Some r" and "sk_proposal s = Some p" and "operation_matches x r p (sk_baseline s)"
    and "holds_readback (ov_token x)"
    and "s' = s\<lparr>sk_operation := Some x,
           sk_state := (if ov_action x = lit ''PROMOTE'' then PROMOTED else ROLLED_BACK)\<rparr>"
  using assms by (cases v) (auto simp: verify_close_def split: option.splits if_splits)

section \<open>The facts behind every state\<close>

text \<open>
  What has been recorded and how it is bound, stage by stage: each stage adds one record to
  the facts of the stage before it.
\<close>

definition frozen :: "hasher \<Rightarrow> evolution \<Rightarrow> baseline \<Rightarrow> bool" where
  "frozen H s b \<longleftrightarrow> sk_baseline s = Some b \<and> constructed H (VBaseline b)"

definition attributed :: "hasher \<Rightarrow> evolution \<Rightarrow> baseline \<Rightarrow> attribution \<Rightarrow> bool" where
  "attributed H s b a \<longleftrightarrow> frozen H s b \<and> sk_attribution s = Some a \<and> constructed H (VAttribution a)
     \<and> ab_baseline_ref a = bl_baseline_id b \<and> ab_baseline_hash a = bl_record_hash b
     \<and> ab_skill_name a = sk_name s \<and> ab_baseline_run_id a = bl_run_id b"

definition proposed :: "hasher \<Rightarrow> evolution \<Rightarrow> baseline \<Rightarrow> skill_proposal \<Rightarrow> bool" where
  "proposed H s b p \<longleftrightarrow> (\<exists>a. attributed H s b a \<and> sp_attribution_ref p = ab_attribution_id a
       \<and> sp_attribution_hash p = ab_record_hash a \<and> sp_base_version p = ab_base_version a)
     \<and> sk_proposal s = Some p \<and> constructed H (VProposal p) \<and> sp_skill_name p = sk_name s
     \<and> sp_baseline_ref p = bl_baseline_id b \<and> sp_baseline_hash p = bl_record_hash b"

definition decided ::
  "hasher \<Rightarrow> evolution \<Rightarrow> baseline \<Rightarrow> skill_proposal \<Rightarrow> human_decision \<Rightarrow> decision_verification \<Rightarrow> bool" where
  "decided H s b p d w \<longleftrightarrow> proposed H s b p
     \<and> sk_decision s = Some d \<and> constructed H (VDecision d)
     \<and> hd_proposal_ref d = sp_proposal_id p \<and> hd_proposal_hash d = sp_record_hash p
     \<and> sk_verification s = Some w \<and> verification_init H w = Inr () \<and> verification_matches w d p b"

definition evaluated :: "hasher \<Rightarrow> baseline \<Rightarrow> skill_proposal \<Rightarrow> evaluation_class \<Rightarrow> evaluation \<Rightarrow> bool" where
  "evaluated H b p k e \<longleftrightarrow> eo_class e = k \<and> constructed H (VEvaluation e)
     \<and> eo_proposal_ref e = sp_proposal_id p \<and> eo_proposal_hash e = sp_record_hash p
     \<and> eo_candidate_version e = sp_candidate_version p
     \<and> artifact_eq (eo_dataset_ref e) (bl_dataset_ref b)
     \<and> artifact_eq (eo_evaluation_ref e) (bl_evaluation_ref b)"

definition tried ::
  "hasher \<Rightarrow> evolution \<Rightarrow> baseline \<Rightarrow> skill_proposal \<Rightarrow> human_decision \<Rightarrow> decision_verification \<Rightarrow> evaluation \<Rightarrow> bool" where
  "tried H s b p d w c \<longleftrightarrow> decided H s b p d w \<and> hd_decision d = lit ''APPROVE''
     \<and> sk_canary s = Some c \<and> evaluated H b p Canary c"

definition reevaluated ::
  "hasher \<Rightarrow> evolution \<Rightarrow> baseline \<Rightarrow> skill_proposal \<Rightarrow> human_decision \<Rightarrow> decision_verification \<Rightarrow>
   evaluation \<Rightarrow> evaluation \<Rightarrow> bool" where
  "reevaluated H s b p d w c e \<longleftrightarrow> tried H s b p d w c
     \<and> sk_reevaluation s = Some e \<and> evaluated H b p Reevaluation e
     \<and> ar_ref (eo_result_ref e) \<noteq> ar_ref (eo_result_ref c)
     \<and> ar_content_hash (eo_result_ref e) \<noteq> ar_content_hash (eo_result_ref c)"

definition closed ::
  "hasher \<Rightarrow> evolution \<Rightarrow> baseline \<Rightarrow> skill_proposal \<Rightarrow> human_decision \<Rightarrow> decision_verification \<Rightarrow>
   evaluation \<Rightarrow> evaluation \<Rightarrow> skill_receipt \<Rightarrow> bool" where
  "closed H s b p d w c e r \<longleftrightarrow> reevaluated H s b p d w c e
     \<and> sk_receipt s = Some r \<and> constructed H (VReceipt r) \<and> receipt_matches r b p d w c e
     \<and> (eo_status c = lit ''FAIL'' \<longrightarrow> sr_action r = lit ''ROLLBACK'')
     \<and> (sr_action r = lit ''PROMOTE'' \<longrightarrow> eo_status c = lit ''PASS'' \<and> eo_status e = lit ''PASS'')"

definition confirmed :: "hasher \<Rightarrow> evolution \<Rightarrow> baseline \<Rightarrow> skill_proposal \<Rightarrow> skill_receipt \<Rightarrow> operation_verification \<Rightarrow> bool" where
  "confirmed H s b p r x \<longleftrightarrow> sk_operation s = Some x \<and> constructed H (VOperation x)
     \<and> operation_matches x r p (Some b)"

lemmas stage_facts = frozen_def attributed_def proposed_def decided_def tried_def reevaluated_def
  closed_def confirmed_def

definition facts :: "hasher \<Rightarrow> evolution \<Rightarrow> bool" where
  "facts H s \<longleftrightarrow> (case sk_state s of
     EMPTY \<Rightarrow> True
   | BASELINE_FROZEN \<Rightarrow> (\<exists>b. frozen H s b)
   | ATTRIBUTED \<Rightarrow> (\<exists>b a. attributed H s b a)
   | PROPOSED \<Rightarrow> (\<exists>b p. proposed H s b p)
   | HUMAN_APPROVED \<Rightarrow> (\<exists>b p d w. decided H s b p d w \<and> hd_decision d = lit ''APPROVE'')
   | REJECTED \<Rightarrow> (\<exists>b p d w. decided H s b p d w \<and> hd_decision d = lit ''REJECT'')
   | CANARY_RECORDED \<Rightarrow> (\<exists>b p d w c. tried H s b p d w c)
   | REEVALUATED \<Rightarrow> (\<exists>b p d w c e. reevaluated H s b p d w c e)
   | PROMOTION_PENDING \<Rightarrow> (\<exists>b p d w c e r. closed H s b p d w c e r \<and> sr_action r = lit ''PROMOTE'')
   | ROLLBACK_PENDING \<Rightarrow> (\<exists>b p d w c e r. closed H s b p d w c e r \<and> sr_action r = lit ''ROLLBACK'')
   | PROMOTED \<Rightarrow> (\<exists>b p d w c e r x. closed H s b p d w c e r \<and> sr_action r = lit ''PROMOTE'' \<and> confirmed H s b p r x)
   | ROLLED_BACK \<Rightarrow> (\<exists>b p d w c e r x. closed H s b p d w c e r \<and> sr_action r = lit ''ROLLBACK'' \<and> confirmed H s b p r x))"

text \<open>A stage does not read the records of later stages, nor the state.\<close>

lemma frozen_update [simp]:
  "frozen H (s\<lparr>sk_state := l\<rparr>) b = frozen H s b"
  "frozen H (s\<lparr>sk_attribution := z\<rparr>) b = frozen H s b"
  "frozen H (s\<lparr>sk_proposal := p\<rparr>) b = frozen H s b"
  "frozen H (s\<lparr>sk_decision := d\<rparr>) b = frozen H s b"
  "frozen H (s\<lparr>sk_verification := w\<rparr>) b = frozen H s b"
  "frozen H (s\<lparr>sk_canary := c\<rparr>) b = frozen H s b"
  "frozen H (s\<lparr>sk_reevaluation := c\<rparr>) b = frozen H s b"
  "frozen H (s\<lparr>sk_receipt := r\<rparr>) b = frozen H s b"
  "frozen H (s\<lparr>sk_operation := x\<rparr>) b = frozen H s b"
  by (simp_all add: frozen_def)

lemma attributed_update [simp]:
  "attributed H (s\<lparr>sk_state := l\<rparr>) b a = attributed H s b a"
  "attributed H (s\<lparr>sk_proposal := p\<rparr>) b a = attributed H s b a"
  "attributed H (s\<lparr>sk_decision := d\<rparr>) b a = attributed H s b a"
  "attributed H (s\<lparr>sk_verification := w\<rparr>) b a = attributed H s b a"
  "attributed H (s\<lparr>sk_canary := c\<rparr>) b a = attributed H s b a"
  "attributed H (s\<lparr>sk_reevaluation := c\<rparr>) b a = attributed H s b a"
  "attributed H (s\<lparr>sk_receipt := r\<rparr>) b a = attributed H s b a"
  "attributed H (s\<lparr>sk_operation := x\<rparr>) b a = attributed H s b a"
  by (simp_all add: attributed_def)

lemma proposed_update [simp]:
  "proposed H (s\<lparr>sk_state := l\<rparr>) b p = proposed H s b p"
  "proposed H (s\<lparr>sk_decision := d\<rparr>) b p = proposed H s b p"
  "proposed H (s\<lparr>sk_verification := w\<rparr>) b p = proposed H s b p"
  "proposed H (s\<lparr>sk_canary := c\<rparr>) b p = proposed H s b p"
  "proposed H (s\<lparr>sk_reevaluation := c\<rparr>) b p = proposed H s b p"
  "proposed H (s\<lparr>sk_receipt := r\<rparr>) b p = proposed H s b p"
  "proposed H (s\<lparr>sk_operation := x\<rparr>) b p = proposed H s b p"
  by (simp_all add: proposed_def)

lemma decided_update [simp]:
  "decided H (s\<lparr>sk_state := l\<rparr>) b p d w = decided H s b p d w"
  "decided H (s\<lparr>sk_canary := c\<rparr>) b p d w = decided H s b p d w"
  "decided H (s\<lparr>sk_reevaluation := c\<rparr>) b p d w = decided H s b p d w"
  "decided H (s\<lparr>sk_receipt := r\<rparr>) b p d w = decided H s b p d w"
  "decided H (s\<lparr>sk_operation := x\<rparr>) b p d w = decided H s b p d w"
  by (simp_all add: decided_def)

lemma later_update [simp]:
  "tried H (s\<lparr>sk_state := l\<rparr>) b p d w c = tried H s b p d w c"
  "tried H (s\<lparr>sk_reevaluation := z\<rparr>) b p d w c = tried H s b p d w c"
  "tried H (s\<lparr>sk_receipt := y\<rparr>) b p d w c = tried H s b p d w c"
  "tried H (s\<lparr>sk_operation := x\<rparr>) b p d w c = tried H s b p d w c"
  "reevaluated H (s\<lparr>sk_state := l\<rparr>) b p d w c e = reevaluated H s b p d w c e"
  "reevaluated H (s\<lparr>sk_receipt := y\<rparr>) b p d w c e = reevaluated H s b p d w c e"
  "reevaluated H (s\<lparr>sk_operation := x\<rparr>) b p d w c e = reevaluated H s b p d w c e"
  "closed H (s\<lparr>sk_state := l\<rparr>) b p d w c e r = closed H s b p d w c e r"
  "closed H (s\<lparr>sk_operation := x\<rparr>) b p d w c e r = closed H s b p d w c e r"
  by (simp_all add: tried_def reevaluated_def closed_def)

text \<open>The records of a stage are the ones stored in the object.\<close>

lemma stage_stored:
  "frozen H s b \<Longrightarrow> sk_baseline s = Some b"
  "attributed H s b a \<Longrightarrow> sk_baseline s = Some b \<and> sk_attribution s = Some a"
  "proposed H s b p \<Longrightarrow> sk_baseline s = Some b \<and> sk_proposal s = Some p"
  "decided H s b p d w \<Longrightarrow> sk_baseline s = Some b \<and> sk_proposal s = Some p
     \<and> sk_decision s = Some d \<and> sk_verification s = Some w"
  "tried H s b p d w c \<Longrightarrow> sk_baseline s = Some b \<and> sk_proposal s = Some p
     \<and> sk_decision s = Some d \<and> sk_verification s = Some w \<and> sk_canary s = Some c"
  "reevaluated H s b p d w c e \<Longrightarrow> sk_baseline s = Some b \<and> sk_proposal s = Some p
     \<and> sk_decision s = Some d \<and> sk_verification s = Some w \<and> sk_canary s = Some c \<and> sk_reevaluation s = Some e"
  "closed H s b p d w c e r \<Longrightarrow> sk_baseline s = Some b \<and> sk_proposal s = Some p
     \<and> sk_decision s = Some d \<and> sk_verification s = Some w \<and> sk_canary s = Some c
     \<and> sk_reevaluation s = Some e \<and> sk_receipt s = Some r"
  by (auto simp: stage_facts)

lemma decision_words_cases:
  "decision_init H d = Inr u \<Longrightarrow> hd_decision d = lit ''APPROVE'' \<or> hd_decision d = lit ''REJECT''"
  by (auto simp: decision_init_def decision_words_def)

lemma receipt_actions_cases:
  "receipt_init H r = Inr u \<Longrightarrow> sr_action r = lit ''PROMOTE'' \<or> sr_action r = lit ''ROLLBACK''"
  by (auto simp: receipt_init_def receipt_actions_def)

section \<open>The invariant\<close>

lemma facts_freeze:
  assumes "constructed H v" and "freeze_baseline s v = Inr s'"
  shows "facts H s'"
  using assms(2,1) by (cases rule: freeze_baseline_ok) (auto simp: facts_def frozen_def)

lemma facts_attribute:
  assumes "facts H s" and "constructed H v" and "attribute s v = Inr s'"
  shows "facts H s'"
  using assms(3,1,2)
proof (cases rule: attribute_ok)
  case (1 a b)
  with assms(1) have "frozen H s b" by (auto simp: facts_def frozen_def)
  with 1 assms(2) have "attributed H s' b a" by (simp add: attributed_def)
  moreover have "sk_state s' = ATTRIBUTED" by (simp add: 1(8))
  ultimately show ?thesis by (simp add: facts_def) blast
qed

lemma facts_propose:
  assumes "facts H s" and "constructed H v" and "propose s v = Inr s'"
  shows "facts H s'"
  using assms(3,1,2)
proof (cases rule: propose_ok)
  case (1 p a b)
  with assms(1) obtain b' a' where st: "attributed H s b' a'" by (auto simp: facts_def)
  from stage_stored(2)[OF st] 1 have "b' = b" "a' = a" by auto
  with st 1 assms(2) have "proposed H s' b p" by (auto simp: proposed_def)
  moreover have "sk_state s' = PROPOSED" by (simp add: 1(11))
  ultimately show ?thesis by (simp add: facts_def) blast
qed

lemma facts_decide:
  assumes "facts H s" and "constructed H v" and "returns_constructed H (Decide f)"
    and "record_human_decision H s v f = Inr s'"
  shows "facts H s'"
  using assms(4,1,2)
proof (cases rule: record_human_decision_ok)
  case (1 d p b g w)
  with assms(1) obtain b' p' where st: "proposed H s b' p'" by (auto simp: facts_def)
  from stage_stored(3)[OF st] 1 st have pr: "proposed H s b p" by auto
  from 1 assms(3) have "verification_init H w = Inr ()" by (auto simp: returns_constructed_def)
  with 1 pr assms(2) have "decided H s' b p d w" by (simp add: decided_def)
  moreover have "hd_decision d = lit ''APPROVE'' \<or> hd_decision d = lit ''REJECT''"
    using 1(1) assms(2) decision_words_cases by auto
  ultimately show ?thesis using 1 by (auto simp: facts_def)
qed

lemma facts_canary:
  assumes "facts H s" and "constructed H v" and "record_canary s v = Inr s'"
  shows "facts H s'"
  using assms(3,1,2)
proof (cases rule: record_canary_ok)
  case (1 e)
  with assms(1) obtain b p d w where d: "decided H s b p d w" "hd_decision d = lit ''APPROVE''"
    by (auto simp: facts_def)
  from 1(4) stage_stored(4)[OF d(1)] 1 assms(2) have "evaluated H b p Canary e"
    by (auto elim!: check_evaluation_ok simp: evaluated_def)
  with d 1(5) have "tried H s' b p d w e" by (simp add: tried_def)
  moreover have "sk_state s' = CANARY_RECORDED" by (simp add: 1(5))
  ultimately show ?thesis by (simp add: facts_def) blast
qed

lemma facts_reevaluation:
  assumes "facts H s" and "constructed H v" and "record_reevaluation s v = Inr s'"
  shows "facts H s'"
  using assms(3,1,2)
proof (cases rule: record_reevaluation_ok)
  case (1 e)
  with assms(1) obtain b p d w c where d: "tried H s b p d w c" by (auto simp: facts_def)
  from 1(4) stage_stored(5)[OF d] 1 assms(2) have "evaluated H b p Reevaluation e"
    by (auto elim!: check_evaluation_ok simp: evaluated_def)
  with d 1(5) stage_stored(5)[OF d] have "reevaluated H s' b p d w c e"
    by (simp add: 1(6) reevaluated_def)
  moreover have "sk_state s' = REEVALUATED" by (simp add: 1(6))
  ultimately show ?thesis by (simp add: facts_def) blast
qed

lemma facts_close:
  assumes "facts H s" and "constructed H v" and "close H s v = Inr s'"
  shows "facts H s'"
  using assms(3,1,2)
proof (cases rule: close_ok)
  case (1 r b p d w c e)
  with assms(1) obtain b' p' d' w' c' e' where st: "reevaluated H s b' p' d' w' c' e'"
    by (auto simp: facts_def)
  from stage_stored(6)[OF st] 1 st have "reevaluated H s b p d w c e" by auto
  with 1 assms(2) have "closed H s' b p d w c e r" by (simp add: closed_def)
  moreover have "sr_action r = lit ''PROMOTE'' \<or> sr_action r = lit ''ROLLBACK''"
    using 1(1) assms(2) receipt_actions_cases by auto
  moreover have "sk_state s' = (if sr_action r = lit ''PROMOTE'' then PROMOTION_PENDING else ROLLBACK_PENDING)"
    by (simp add: 1(12))
  ultimately show ?thesis by (elim disjE) (simp_all add: facts_def, blast+)
qed

lemma facts_verify_close:
  assumes "facts H s" and "constructed H v" and "verify_close H s v = Inr s'"
  shows "facts H s'"
  using assms(3,1,2)
proof (cases rule: verify_close_ok)
  case (1 x r p)
  from assms(1) 1(2) obtain b q d w c e z where cl: "closed H s b q d w c e z"
    and act: "sk_state s = PROMOTION_PENDING \<longrightarrow> sr_action z = lit ''PROMOTE''"
      "sk_state s = ROLLBACK_PENDING \<longrightarrow> sr_action z = lit ''ROLLBACK''"
    by (auto simp: facts_def)
  from stage_stored(7)[OF cl] 1 have eq: "q = p" "z = r" "sk_baseline s = Some b" by auto
  with 1 assms(2) have "confirmed H s' b p r x" by (simp add: confirmed_def)
  moreover have "closed H s' b p d w c e r" using cl 1(7) eq by simp
  moreover have "ov_action x = sr_action r" using 1(5) by (simp add: operation_matches_def)
  moreover have "sk_state s' = (if ov_action x = lit ''PROMOTE'' then PROMOTED else ROLLED_BACK)"
    by (simp add: 1(7))
  moreover have "sr_action r = lit ''PROMOTE'' \<or> sr_action r = lit ''ROLLBACK''" using act eq 1(2) by blast
  ultimately show ?thesis by (elim disjE) (simp_all add: facts_def, blast+)
qed

lemma facts_step: "facts H s \<Longrightarrow> skill_step H s s' \<Longrightarrow> facts H s'"
proof (erule skill_stepE)
  fix v m
  assume f: "facts H s" and v: "constructed H v" and r: "returns_constructed H m" and c: "call H m s v = Inr s'"
  show "facts H s'"
  proof (cases m)
    case FreezeBaseline with v c show ?thesis by (auto intro: facts_freeze)
  next
    case Attribute with f v c show ?thesis by (auto intro: facts_attribute)
  next
    case Propose with f v c show ?thesis by (auto intro: facts_propose)
  next
    case (Decide g) with f v c r show ?thesis by (auto intro: facts_decide)
  next
    case RecordCanary with f v c show ?thesis by (auto intro: facts_canary)
  next
    case RecordReevaluation with f v c show ?thesis by (auto intro: facts_reevaluation)
  next
    case CloseWith with f v c show ?thesis by (auto intro: facts_close)
  next
    case VerifyClose with f v c show ?thesis by (auto intro: facts_verify_close)
  qed
qed

lemma reachable_facts: "reachable H s \<Longrightarrow> facts H s"
proof (induction rule: reachable.induct)
  case (new n s)
  then show ?case by (auto simp: evolution_init_def new_evolution_def facts_def)
next
  case (step s s')
  then show ?case by (rule_tac facts_step)
qed

section \<open>Order and persistence\<close>

text \<open>Every method that returns moves the state forward and overwrites no record.\<close>

definition keeps :: "evolution \<Rightarrow> evolution \<Rightarrow> bool" where
  "keeps s s' \<longleftrightarrow> sk_name s' = sk_name s
     \<and> (sk_baseline s \<noteq> None \<longrightarrow> sk_baseline s' = sk_baseline s)
     \<and> (sk_attribution s \<noteq> None \<longrightarrow> sk_attribution s' = sk_attribution s)
     \<and> (sk_proposal s \<noteq> None \<longrightarrow> sk_proposal s' = sk_proposal s)
     \<and> (sk_decision s \<noteq> None \<longrightarrow> sk_decision s' = sk_decision s)
     \<and> (sk_verification s \<noteq> None \<longrightarrow> sk_verification s' = sk_verification s)
     \<and> (sk_canary s \<noteq> None \<longrightarrow> sk_canary s' = sk_canary s)
     \<and> (sk_reevaluation s \<noteq> None \<longrightarrow> sk_reevaluation s' = sk_reevaluation s)
     \<and> (sk_receipt s \<noteq> None \<longrightarrow> sk_receipt s' = sk_receipt s)
     \<and> (sk_operation s \<noteq> None \<longrightarrow> sk_operation s' = sk_operation s)"

text \<open>Which record a stage may already hold: none that a later stage writes.\<close>

definition unwritten :: "evolution \<Rightarrow> bool" where
  "unwritten s \<longleftrightarrow>
     (sk_state s < BASELINE_FROZEN \<longrightarrow> sk_baseline s = None)
     \<and> (sk_state s < ATTRIBUTED \<longrightarrow> sk_attribution s = None)
     \<and> (sk_state s < PROPOSED \<longrightarrow> sk_proposal s = None)
     \<and> (sk_state s < REJECTED \<longrightarrow> sk_decision s = None \<and> sk_verification s = None)
     \<and> (sk_state s < CANARY_RECORDED \<longrightarrow> sk_canary s = None)
     \<and> (sk_state s < REEVALUATED \<longrightarrow> sk_reevaluation s = None)
     \<and> (sk_state s < PROMOTION_PENDING \<longrightarrow> sk_receipt s = None)
     \<and> (sk_state s < PROMOTED \<longrightarrow> sk_operation s = None)"

lemma call_progress:
  assumes "call H m s v = Inr s'" and "unwritten s"
  shows "sk_state s < sk_state s' \<and> keeps s s' \<and> unwritten s'"
proof (cases m)
  case FreezeBaseline
  with assms(1) have "freeze_baseline s v = Inr s'" by simp
  then show ?thesis
    by (cases rule: freeze_baseline_ok) (use assms(2) in \<open>auto simp: unwritten_def keeps_def lifecycle_order\<close>)
next
  case Attribute
  with assms(1) have "attribute s v = Inr s'" by simp
  then show ?thesis
    by (cases rule: attribute_ok) (use assms(2) in \<open>auto simp: unwritten_def keeps_def lifecycle_order\<close>)
next
  case Propose
  with assms(1) have "propose s v = Inr s'" by simp
  then show ?thesis
    by (cases rule: propose_ok) (use assms(2) in \<open>auto simp: unwritten_def keeps_def lifecycle_order\<close>)
next
  case (Decide f)
  with assms(1) have "record_human_decision H s v f = Inr s'" by simp
  then show ?thesis
    by (cases rule: record_human_decision_ok) (use assms(2) in \<open>auto simp: unwritten_def keeps_def lifecycle_order\<close>)
next
  case RecordCanary
  with assms(1) have "record_canary s v = Inr s'" by simp
  then show ?thesis
    by (cases rule: record_canary_ok) (use assms(2) in \<open>auto simp: unwritten_def keeps_def lifecycle_order\<close>)
next
  case RecordReevaluation
  with assms(1) have "record_reevaluation s v = Inr s'" by simp
  then show ?thesis
    by (cases rule: record_reevaluation_ok) (use assms(2) in \<open>auto simp: unwritten_def keeps_def lifecycle_order\<close>)
next
  case CloseWith
  with assms(1) have "close H s v = Inr s'" by simp
  then show ?thesis
    by (cases rule: close_ok) (use assms(2) in \<open>auto simp: unwritten_def keeps_def lifecycle_order\<close>)
next
  case VerifyClose
  with assms(1) have "verify_close H s v = Inr s'" by simp
  then show ?thesis
    by (cases rule: verify_close_ok) (use assms(2) in \<open>auto simp: unwritten_def keeps_def lifecycle_order\<close>)
qed

lemma reachable_unwritten: "reachable H s \<Longrightarrow> unwritten s"
proof (induction rule: reachable.induct)
  case (new n s)
  then show ?case by (auto simp: evolution_init_def new_evolution_def unwritten_def)
next
  case (step s s')
  from step(2,3) show ?case by (auto elim!: skill_stepE dest: call_progress)
qed

lemma step_progress:
  "reachable H s \<Longrightarrow> skill_step H s s' \<Longrightarrow> sk_state s < sk_state s' \<and> keeps s s'"
  by (auto elim!: skill_stepE dest!: reachable_unwritten dest: call_progress)

text \<open>Runs: finite sequences of steps.\<close>

inductive skill_run :: "hasher \<Rightarrow> nat \<Rightarrow> evolution \<Rightarrow> evolution \<Rightarrow> bool" for H where
  run_Nil: "skill_run H 0 s s"
| run_Cons: "skill_step H s s' \<Longrightarrow> skill_run H n s' s'' \<Longrightarrow> skill_run H (Suc n) s s''"

lemma keeps_refl: "keeps s s"
  by (simp add: keeps_def)

lemma keeps_trans: "keeps s s' \<Longrightarrow> keeps s' s'' \<Longrightarrow> keeps s s''"
  unfolding keeps_def by metis

lemma skill_run_progress:
  "skill_run H n s s' \<Longrightarrow> reachable H s \<Longrightarrow>
     stage (sk_state s) + n \<le> stage (sk_state s') \<and> keeps s s' \<and> reachable H s'"
proof (induction rule: skill_run.induct)
  case (run_Nil s)
  then show ?case by (simp add: keeps_refl)
next
  case (run_Cons s s' n s'')
  from step_progress[OF run_Cons(4,1)] have a: "stage (sk_state s) < stage (sk_state s')" "keeps s s'"
    by (auto simp: less_lifecycle_def)
  from run_Cons(4,1) have "reachable H s'" by (rule reachable.step)
  with run_Cons(3) a show ?case by (auto intro: keeps_trans)
qed

text \<open>Every accepted call advances the lifecycle by exactly one of its eight levels.\<close>

primrec level :: "lifecycle \<Rightarrow> nat" where
  "level EMPTY = 0" | "level BASELINE_FROZEN = 1" | "level ATTRIBUTED = 2" | "level PROPOSED = 3"
| "level REJECTED = 4" | "level HUMAN_APPROVED = 4" | "level CANARY_RECORDED = 5"
| "level REEVALUATED = 6" | "level PROMOTION_PENDING = 7" | "level ROLLBACK_PENDING = 7"
| "level PROMOTED = 8" | "level ROLLED_BACK = 8"

lemma call_level: "call H m s v = Inr s' \<Longrightarrow> level (sk_state s') = Suc (level (sk_state s))"
proof (cases m)
  assume c: "call H m s v = Inr s'"
  { case FreezeBaseline with c have "freeze_baseline s v = Inr s'" by simp
    then show ?thesis by (cases rule: freeze_baseline_ok) simp }
  { case Attribute with c have "attribute s v = Inr s'" by simp
    then show ?thesis by (cases rule: attribute_ok) simp }
  { case Propose with c have "propose s v = Inr s'" by simp
    then show ?thesis by (cases rule: propose_ok) simp }
  { case (Decide f) with c have "record_human_decision H s v f = Inr s'" by simp
    then show ?thesis by (cases rule: record_human_decision_ok) simp }
  { case RecordCanary with c have "record_canary s v = Inr s'" by simp
    then show ?thesis by (cases rule: record_canary_ok) simp }
  { case RecordReevaluation with c have "record_reevaluation s v = Inr s'" by simp
    then show ?thesis by (cases rule: record_reevaluation_ok) simp }
  { case CloseWith with c have "close H s v = Inr s'" by simp
    then show ?thesis by (cases rule: close_ok) simp }
  { case VerifyClose with c have "verify_close H s v = Inr s'" by simp
    then show ?thesis by (cases rule: verify_close_ok) auto }
qed

lemma skill_run_level: "skill_run H n s s' \<Longrightarrow> level (sk_state s') = level (sk_state s) + n"
  by (induction rule: skill_run.induct) (auto elim!: skill_stepE dest: call_level)

end
