(* ===== verification/Skill_Promotion.thy ===== *)
theory Skill_Promotion
  imports Skill_Lifecycle
begin

text \<open>
  What a promoted Skill has behind it, and one complete evolution, from the frozen baseline
  to a confirmed promotion, with every record built as the constructors demand it: the
  concrete instance behind the properties of the lifecycle.
\<close>

definition s_baseline :: baseline where
  "s_baseline = \<lparr>bl_baseline_id = lit ''b'', bl_dataset_ref = sample_ref ''dataset'' ''frozen-dataset'',
     bl_evaluation_ref = sample_ref ''evaluation'' ''evaluation-export'', bl_run_id = lit ''run'',
     bl_trace_refs = [sample_ref ''trace'' ''evaluation-export''],
     bl_evidence_refs = [sample_ref ''evidence'' ''evaluation-export''], bl_record_hash = sample_hash\<rparr>"

definition s_attribution :: attribution where
  "s_attribution = \<lparr>ab_attribution_id = lit ''a'', ab_skill_name = lit ''skill'', ab_base_version = lit ''1.0.0'',
     ab_baseline_ref = lit ''b'', ab_baseline_hash = sample_hash, ab_baseline_run_id = lit ''run'',
     ab_trace_refs = [sample_ref ''trace'' ''evaluation-export''],
     ab_evidence_refs = [sample_ref ''evidence'' ''evaluation-export''], ab_record_hash = sample_hash\<rparr>"

definition s_proposal :: skill_proposal where
  "s_proposal = \<lparr>sp_proposal_id = lit ''p'', sp_skill_name = lit ''skill'', sp_base_version = lit ''1.0.0'',
     sp_candidate_version = lit ''1.1.0'', sp_content_hash = sample_hash2, sp_rollback_ref = lit ''rb'',
     sp_baseline_ref = lit ''b'', sp_baseline_hash = sample_hash, sp_attribution_ref = lit ''a'',
     sp_attribution_hash = sample_hash, sp_record_hash = sample_hash\<rparr>"

definition s_decision :: human_decision where
  "s_decision = \<lparr>hd_decision_id = lit ''d'', hd_decision_revision = 1, hd_proposal_ref = lit ''p'',
     hd_proposal_hash = sample_hash, hd_actor_ref = lit ''@alice'', hd_identity_ref = lit ''id'',
     hd_attestation_ref = lit ''ev'', hd_actor_kind = lit ''external-human'', hd_decision = lit ''APPROVE'',
     hd_decided_at = lit ''t'', hd_record_hash = sample_hash\<rparr>"

definition s_verification :: decision_verification where
  "s_verification = \<lparr>hv_verification_ref = lit ''v'', hv_source = lit ''matrix-live-readback'',
     hv_event_ref = lit ''ev'', hv_event_hash = sample_hash, hv_sender = lit ''@alice'',
     hv_identity_ref = lit ''id'', hv_decision_ref = lit ''d'', hv_decision_hash = sample_hash,
     hv_proposal_ref = lit ''p'', hv_proposal_hash = sample_hash, hv_decision_revision = 1,
     hv_decision = lit ''APPROVE'', hv_baseline_ref = lit ''b'', hv_baseline_hash = sample_hash,
     hv_run_id = lit ''run'', hv_verified_at = lit ''t'', hv_record_hash = sample_hash,
     hv_token = Some (sample_readback (lit ''matrix'') (lit ''ev'') sample_hash (sorted_claims
       [(''campaign_id'', lit ''camp''), (''run_id'', lit ''run''), (''trace_id'', lit ''trace''), (''revision'', int_str 1),
        (''sender'', lit ''@alice''), (''identity_ref'', lit ''id''), (''approval_id'', lit ''d''),
        (''decision'', lit ''APPROVE''), (''decision_revision'', int_str 1)]))\<rparr>"

definition s_evaluation :: "evaluation_class \<Rightarrow> string \<Rightarrow> string \<Rightarrow> string \<Rightarrow> pystr \<Rightarrow> evaluation" where
  "s_evaluation k i status ref h = \<lparr>eo_class = k, eo_observation_id = lit i, eo_proposal_ref = lit ''p'',
     eo_proposal_hash = sample_hash, eo_candidate_version = lit ''1.1.0'',
     eo_dataset_ref = sample_ref ''dataset'' ''frozen-dataset'',
     eo_evaluation_ref = sample_ref ''evaluation'' ''evaluation-export'', eo_result_ref = sample_result ref h,
     eo_trace_refs = [sample_ref ''trace'' ''evaluation-export''],
     eo_evidence_refs = [sample_ref ''evidence'' ''evaluation-export''], eo_status = lit status,
     eo_record_hash = sample_hash\<rparr>"

definition s_receipt :: "string \<Rightarrow> string \<Rightarrow> skill_receipt" where
  "s_receipt action active = \<lparr>sr_receipt_id = lit ''r'', sr_proposal_ref = lit ''p'', sr_proposal_hash = sample_hash,
     sr_action = lit action, sr_base_version = lit ''1.0.0'', sr_candidate_version = lit ''1.1.0'',
     sr_active_version = lit active, sr_rollback_ref = lit ''rb'', sr_baseline_hash = sample_hash,
     sr_canary_ref = lit ''c'', sr_canary_hash = sample_hash, sr_reevaluation_ref = lit ''e'',
     sr_reevaluation_hash = sample_hash, sr_human_decision_ref = lit ''d'',
     sr_human_decision_hash = sample_hash, sr_human_verification_ref = lit ''v'',
     sr_human_verification_hash = sample_hash, sr_record_hash = sample_hash\<rparr>"

definition s_operation :: "string \<Rightarrow> string \<Rightarrow> operation_verification" where
  "s_operation action active = \<lparr>ov_verification_ref = lit ''ov'', ov_operation_ref = lit ''op'',
     ov_operation_hash = sample_hash, ov_receipt_ref = lit ''r'', ov_receipt_hash = sample_hash,
     ov_proposal_ref = lit ''p'', ov_proposal_hash = sample_hash, ov_run_id = lit ''run'',
     ov_action = lit action, ov_active_version = lit active, ov_content_hash = sample_hash2,
     ov_verified_at = lit ''t'', ov_record_hash = sample_hash,
     ov_token = Some (sample_readback (lit ''agentteams'') (lit ''op'') sample_hash (sorted_claims
       [(''action'', lit action), (''active_version'', lit active), (''content_hash'', sample_hash2),
        (''proposal_ref'', lit ''p''), (''proposal_hash'', sample_hash), (''receipt_ref'', lit ''r''),
        (''receipt_hash'', sample_hash), (''campaign_id'', lit ''camp''), (''run_id'', lit ''run''), (''trace_id'', lit ''trace''),
        (''pg_revision'', lit ''1''), (''authority_content_hash'', sample_hash)]))\<rparr>"

section \<open>Every record passes its constructor\<close>

lemma sample_claims:
  "distinct (map fst claims) \<Longrightarrow> rb_claim \<lparr>rb_source = source, rb_ref = ref, rb_raw_hash = h,
     rb_classification = classification, rb_claims = sorted_claims claims, rb_seal = sealed\<rparr> name = map_of claims name"
  by (rule rb_claim_sorted) simp_all

lemma encodable_sample_hash2 [simp]: "encodable sample_hash2"
  by (simp add: sample_hash2_def is_surrogate_def)

lemma encodable_sample_hash' [simp]: "encodable sample_hash"
  by (simp add: sample_hash_def is_surrogate_def)

lemma sample_record_hash:
  assumes "\<not> nonfinite (JObj p)" and "encodable_json (JObj p)"
  shows "check_record_hash sample_hasher p sample_hash = Inr ()"
  using canonical_hash_total[OF assms, of sample_hasher]
  by (simp only: check_record_hash_ok sample_hash_ok sample_hash_def[symmetric] sample_hasher_def simp_thms)

lemma sample_ref_ok:
  "ref_constructed (sample_ref ''dataset'' ''frozen-dataset'')"
  "ref_constructed (sample_ref ''evaluation'' ''evaluation-export'')"
  "ref_constructed (sample_ref ''trace'' ''evaluation-export'')"
  "ref_constructed (sample_ref ''evidence'' ''evaluation-export'')"
  by (simp add: ref_constructed_def sample_ref_def artifact_init_def bindE_ok skill_ref_def skill_text_ok
      ref_pattern_def source_pattern_def skill_hash_def sample_hash_ok artifact_kinds_def sources_of_def
      artifact_provenances_def artifact_classifications_def, simp add: lit_def char_class_defs)+

lemma sample_result_ok:
  "is_sha256 h \<Longrightarrow> ref_constructed (sample_result ''rc'' h)"
  "is_sha256 h \<Longrightarrow> ref_constructed (sample_result ''re'' h)"
  by (simp add: ref_constructed_def sample_result_def sample_readback_def artifact_init_def bindE_ok
      skill_ref_def skill_text_ok ref_pattern_def source_pattern_def skill_hash_def artifact_kinds_def
      sources_of_def artifact_provenances_def artifact_classifications_def check_live_readback_ok verified_def
      artifact_readback_source_def rb_claim_def, simp add: lit_def char_class_defs)+

lemmas sample_checks = skill_ref_def skill_name_def skill_version_def skill_text_ok skill_hash_def
  skill_revision_def check_artifact_kind_def check_artifact_refs_def observation_kinds_def sample_hash_ok
  sample_hash2_ok

lemmas sample_patterns = ref_pattern_def name_pattern_def version_pattern_def after_digits_def after_dot_def
  version_suffix_def lit_def char_class_defs

lemmas sample_json = artifact_list_def artifact_dict_def sample_ref_def sample_result_def jopt_def

lemma s_baseline_ok: "constructed sample_hasher (VBaseline s_baseline)"
proof -
  have "check_record_hash sample_hasher (baseline_payload s_baseline) (bl_record_hash s_baseline) = Inr ()"
    by (simp add: s_baseline_def, rule sample_record_hash) (simp_all add: baseline_payload_def sample_json)
  then have "baseline_init sample_hasher s_baseline = Inr ()"
    unfolding baseline_init_def
    by simp (simp add: s_baseline_def sample_checks sample_ref_def, simp add: sample_patterns)
  then show ?thesis by (simp add: s_baseline_def sample_ref_ok)
qed

lemma s_attribution_ok: "constructed sample_hasher (VAttribution s_attribution)"
proof -
  have "check_record_hash sample_hasher (attribution_payload s_attribution) (ab_record_hash s_attribution) = Inr ()"
    by (simp add: s_attribution_def, rule sample_record_hash) (simp_all add: attribution_payload_def sample_json)
  then have "attribution_init sample_hasher s_attribution = Inr ()"
    unfolding attribution_init_def
    by simp (simp add: s_attribution_def sample_checks sample_ref_def, simp add: sample_patterns)
  then show ?thesis by (simp add: s_attribution_def sample_ref_ok)
qed

lemma s_proposal_ok: "constructed sample_hasher (VProposal s_proposal)"
proof -
  have "check_record_hash sample_hasher (proposal_payload s_proposal) (sp_record_hash s_proposal) = Inr ()"
    by (simp add: s_proposal_def, rule sample_record_hash) (simp_all add: proposal_payload_def)
  then have "proposal_init sample_hasher s_proposal = Inr ()"
    unfolding proposal_init_def
    by simp (simp add: s_proposal_def sample_checks, simp add: sample_patterns)
  then show ?thesis by simp
qed

lemma s_decision_ok: "constructed sample_hasher (VDecision s_decision)"
proof -
  have "check_record_hash sample_hasher (decision_payload s_decision) (hd_record_hash s_decision) = Inr ()"
    by (simp add: s_decision_def, rule sample_record_hash) (simp_all add: decision_payload_def)
  then have "decision_init sample_hasher s_decision = Inr ()"
    unfolding decision_init_def
    by simp (simp add: s_decision_def sample_checks decision_words_def, simp add: sample_patterns)
  then show ?thesis by simp
qed

lemma s_verification_ok: "verification_init sample_hasher s_verification = Inr ()"
proof -
  have "check_record_hash sample_hasher (verification_payload s_verification) (hv_record_hash s_verification) = Inr ()"
    by (simp add: s_verification_def, rule sample_record_hash) (simp_all add: verification_payload_def)
  then show ?thesis
    unfolding verification_init_def
    by simp (simp add: s_verification_def sample_checks decision_words_def sample_readback_def verified_def
        claims_match_def verification_claims_def sample_claims, simp add: sample_patterns)
qed

lemma s_evaluation_ok:
  "constructed sample_hasher (VEvaluation (s_evaluation Canary ''c'' ''PASS'' ''rc'' sample_hash))"
  "constructed sample_hasher (VEvaluation (s_evaluation Reevaluation ''e'' ''PASS'' ''re'' sample_hash2))"
  "constructed sample_hasher (VEvaluation (s_evaluation Canary ''c'' ''FAIL'' ''rc'' sample_hash))"
proof -
  have h: "check_record_hash sample_hasher (evaluation_payload (s_evaluation k i st rf h))
      (eo_record_hash (s_evaluation k i st rf h)) = Inr ()" if "encodable h" for k i st rf h
    using that by (simp add: s_evaluation_def, intro sample_record_hash)
      (simp_all add: evaluation_payload_def sample_json evaluation_type_def split: evaluation_class.split)
  have "evaluation_init sample_hasher (s_evaluation Canary ''c'' ''PASS'' ''rc'' sample_hash) = Inr ()"
    unfolding evaluation_init_def using h[of sample_hash]
    by simp (simp add: s_evaluation_def sample_checks sample_ref_def sample_result_def live_result_def
        evaluation_statuses_def sample_readback_def verified_def, simp add: sample_patterns)
  moreover have "evaluation_init sample_hasher (s_evaluation Reevaluation ''e'' ''PASS'' ''re'' sample_hash2) = Inr ()"
    unfolding evaluation_init_def using h[of sample_hash2]
    by simp (simp add: s_evaluation_def sample_checks sample_ref_def sample_result_def live_result_def
        evaluation_statuses_def sample_readback_def verified_def, simp add: sample_patterns)
  moreover have "evaluation_init sample_hasher (s_evaluation Canary ''c'' ''FAIL'' ''rc'' sample_hash) = Inr ()"
    unfolding evaluation_init_def using h[of sample_hash]
    by simp (simp add: s_evaluation_def sample_checks sample_ref_def sample_result_def live_result_def
        evaluation_statuses_def sample_readback_def verified_def, simp add: sample_patterns)
  ultimately show
    "constructed sample_hasher (VEvaluation (s_evaluation Canary ''c'' ''PASS'' ''rc'' sample_hash))"
    "constructed sample_hasher (VEvaluation (s_evaluation Reevaluation ''e'' ''PASS'' ''re'' sample_hash2))"
    "constructed sample_hasher (VEvaluation (s_evaluation Canary ''c'' ''FAIL'' ''rc'' sample_hash))"
    by (simp_all add: s_evaluation_def sample_ref_ok sample_result_ok sample_hash_ok sample_hash2_ok)
qed

lemma s_receipt_sealed:
  "check_record_hash sample_hasher (receipt_payload (s_receipt action active))
     (sr_record_hash (s_receipt action active)) = Inr ()"
  by (simp add: s_receipt_def, rule sample_record_hash) (simp_all add: receipt_payload_def)

lemma s_receipt_ok:
  "constructed sample_hasher (VReceipt (s_receipt ''PROMOTE'' ''1.1.0''))"
  "constructed sample_hasher (VReceipt (s_receipt ''ROLLBACK'' ''1.0.0''))"
  unfolding constructed.simps receipt_init_def
  by (simp add: s_receipt_sealed; simp add: s_receipt_def sample_checks receipt_actions_def,
      simp add: sample_patterns)+

lemma s_operation_sealed:
  "check_record_hash sample_hasher (operation_payload (s_operation action active))
     (ov_record_hash (s_operation action active)) = Inr ()"
  by (simp add: s_operation_def, rule sample_record_hash) (simp_all add: operation_payload_def)

lemma s_operation_ok:
  "constructed sample_hasher (VOperation (s_operation ''PROMOTE'' ''1.1.0''))"
  "constructed sample_hasher (VOperation (s_operation ''ROLLBACK'' ''1.0.0''))"
  unfolding constructed.simps operation_init_def
  by (simp add: s_operation_sealed; simp add: s_operation_def sample_checks receipt_actions_def
      sample_readback_def verified_def claims_match_def operation_claims_def sample_claims,
      simp add: sample_patterns)+

section \<open>The run\<close>

definition s_frozen :: evolution where
  "s_frozen = (new_evolution (lit ''skill''))\<lparr>sk_baseline := Some s_baseline, sk_state := BASELINE_FROZEN\<rparr>"

definition s_attributed :: evolution where
  "s_attributed = s_frozen\<lparr>sk_attribution := Some s_attribution, sk_state := ATTRIBUTED\<rparr>"

definition s_proposed :: evolution where
  "s_proposed = s_attributed\<lparr>sk_proposal := Some s_proposal, sk_state := PROPOSED\<rparr>"

definition s_approved :: evolution where
  "s_approved = s_proposed\<lparr>sk_decision := Some s_decision, sk_verification := Some s_verification,
     sk_state := HUMAN_APPROVED\<rparr>"

definition s_canary :: evolution where
  "s_canary = s_approved\<lparr>sk_canary := Some (s_evaluation Canary ''c'' ''PASS'' ''rc'' sample_hash),
     sk_state := CANARY_RECORDED\<rparr>"

definition s_reevaluated :: evolution where
  "s_reevaluated = s_canary\<lparr>sk_reevaluation := Some (s_evaluation Reevaluation ''e'' ''PASS'' ''re'' sample_hash2),
     sk_state := REEVALUATED\<rparr>"

definition s_pending :: evolution where
  "s_pending = s_reevaluated\<lparr>sk_receipt := Some (s_receipt ''PROMOTE'' ''1.1.0''), sk_state := PROMOTION_PENDING\<rparr>"

definition s_promoted :: evolution where
  "s_promoted = s_pending\<lparr>sk_operation := Some (s_operation ''PROMOTE'' ''1.1.0''), sk_state := PROMOTED\<rparr>"

lemmas sample_states = new_evolution_def s_frozen_def s_attributed_def s_proposed_def s_approved_def
  s_canary_def s_reevaluated_def s_pending_def s_promoted_def

lemma plain_method: "(\<And>f. m \<noteq> Decide f) \<Longrightarrow> returns_constructed H m"
  by (auto simp: returns_constructed_def)

lemma s_decide_method:
  "returns_constructed sample_hasher (Decide (Some (\<lambda>d p b. Verification s_verification)))"
  by (simp add: returns_constructed_def s_verification_ok)

lemma s_calls:
  "call sample_hasher FreezeBaseline (new_evolution (lit ''skill'')) (VBaseline s_baseline) = Inr s_frozen"
  "call sample_hasher Attribute s_frozen (VAttribution s_attribution) = Inr s_attributed"
  "call sample_hasher Propose s_attributed (VProposal s_proposal) = Inr s_proposed"
  by (simp_all add: freeze_baseline_def attribute_def propose_def expect_def sample_states
      s_baseline_def s_attribution_def s_proposal_def)

lemma s_fields [simp]:
  "sk_state s_proposed = PROPOSED" "sk_proposal s_proposed = Some s_proposal" "sk_baseline s_proposed = Some s_baseline"
  "sk_state s_reevaluated = REEVALUATED" "sk_proposal s_reevaluated = Some s_proposal"
  "sk_baseline s_reevaluated = Some s_baseline" "sk_decision s_reevaluated = Some s_decision"
  "sk_verification s_reevaluated = Some s_verification"
  "sk_canary s_reevaluated = Some (s_evaluation Canary ''c'' ''PASS'' ''rc'' sample_hash)"
  "sk_reevaluation s_reevaluated = Some (s_evaluation Reevaluation ''e'' ''PASS'' ''re'' sample_hash2)"
  "sk_state s_pending = PROMOTION_PENDING" "sk_proposal s_pending = Some s_proposal"
  "sk_baseline s_pending = Some s_baseline" "sk_receipt s_pending = Some (s_receipt ''PROMOTE'' ''1.1.0'')"
  by (simp_all add: sample_states)

lemma s_call_decide:
  "call sample_hasher (Decide (Some (\<lambda>d p b. Verification s_verification))) s_proposed (VDecision s_decision)
   = Inr s_approved"
proof -
  have "check_record_hash sample_hasher (decision_payload s_decision) (hd_record_hash s_decision) = Inr ()"
    using s_decision_ok unfolding constructed.simps decision_init_def by simp
  moreover have "check_record_hash sample_hasher (verification_payload s_verification) (hv_record_hash s_verification) = Inr ()"
    using s_verification_ok unfolding verification_init_def by simp
  ultimately show ?thesis
    by (simp add: record_human_decision_def expect_def accept_verification_def)
      (simp add: s_approved_def s_decision_def s_proposal_def s_baseline_def verification_matches_def
        s_verification_def holds_readback_def verified_def sample_readback_def)
qed

lemma s_call_canary:
  "call sample_hasher RecordCanary s_approved (VEvaluation (s_evaluation Canary ''c'' ''PASS'' ''rc'' sample_hash))
   = Inr s_canary"
  by (simp add: record_canary_def expect_def check_evaluation_def sample_states s_evaluation_def
      s_proposal_def s_baseline_def artifact_eq_def)

lemma s_call_reevaluation:
  "call sample_hasher RecordReevaluation s_canary
     (VEvaluation (s_evaluation Reevaluation ''e'' ''PASS'' ''re'' sample_hash2)) = Inr s_reevaluated"
  using sample_hash2_ok(2)
  by (simp add: record_reevaluation_def expect_def check_evaluation_def sample_states s_evaluation_def
      s_proposal_def s_baseline_def artifact_eq_def sample_result_def)

lemma s_call_close:
  "call sample_hasher CloseWith s_reevaluated (VReceipt (s_receipt ''PROMOTE'' ''1.1.0'')) = Inr s_pending"
  by (simp add: close_def expect_def s_receipt_sealed)
    (simp add: s_pending_def s_receipt_def s_decision_def s_proposal_def s_baseline_def s_evaluation_def
      s_verification_def receipt_matches_def)

lemma s_call_verify:
  "call sample_hasher VerifyClose s_pending (VOperation (s_operation ''PROMOTE'' ''1.1.0'')) = Inr s_promoted"
  by (simp add: verify_close_def s_operation_sealed)
    (simp add: s_promoted_def s_operation_def s_receipt_def s_proposal_def s_baseline_def
      operation_matches_def holds_readback_def verified_def sample_readback_def)

lemma s_new_reachable: "reachable sample_hasher (new_evolution (lit ''skill''))"
  by (rule reachable.new[of "lit ''skill''"])
    (simp add: evolution_init_def bindE_ok skill_name_def skill_text_ok name_pattern_def,
     simp add: sample_patterns)

lemma s_step:
  "constructed sample_hasher v \<Longrightarrow> (\<And>f. m \<noteq> Decide f) \<Longrightarrow> call sample_hasher m s v = Inr s' \<Longrightarrow>
   skill_step sample_hasher s s'"
  by (rule skill_step.accepted[OF _ plain_method])

lemma s_run: "skill_run sample_hasher 8 (new_evolution (lit ''skill'')) s_promoted"
proof -
  have "skill_step sample_hasher (new_evolution (lit ''skill'')) s_frozen"
    by (rule s_step[OF s_baseline_ok _ s_calls(1)]) simp
  moreover have "skill_step sample_hasher s_frozen s_attributed"
    by (rule s_step[OF s_attribution_ok _ s_calls(2)]) simp
  moreover have "skill_step sample_hasher s_attributed s_proposed"
    by (rule s_step[OF s_proposal_ok _ s_calls(3)]) simp
  moreover have "skill_step sample_hasher s_proposed s_approved"
    by (rule skill_step.accepted[OF s_decision_ok s_decide_method s_call_decide])
  moreover have "skill_step sample_hasher s_approved s_canary"
    by (rule s_step[OF s_evaluation_ok(1) _ s_call_canary]) simp
  moreover have "skill_step sample_hasher s_canary s_reevaluated"
    by (rule s_step[OF s_evaluation_ok(2) _ s_call_reevaluation]) simp
  moreover have "skill_step sample_hasher s_reevaluated s_pending"
    by (rule s_step[OF s_receipt_ok(1) _ s_call_close]) simp
  moreover have "skill_step sample_hasher s_pending s_promoted"
    by (rule s_step[OF s_operation_ok(1) _ s_call_verify]) simp
  ultimately show ?thesis
    by (simp add: eval_nat_numeral) (blast intro: skill_run.intros)
qed

lemma s_promoted_reachable: "reachable sample_hasher s_promoted"
  using skill_run_progress[OF s_run s_new_reachable] by blast

text \<open>The run that rolls back after a failed canary.\<close>

definition f_canary :: evolution where
  "f_canary = s_approved\<lparr>sk_canary := Some (s_evaluation Canary ''c'' ''FAIL'' ''rc'' sample_hash),
     sk_state := CANARY_RECORDED\<rparr>"

definition f_reevaluated :: evolution where
  "f_reevaluated = f_canary\<lparr>sk_reevaluation := Some (s_evaluation Reevaluation ''e'' ''PASS'' ''re'' sample_hash2),
     sk_state := REEVALUATED\<rparr>"

definition f_pending :: evolution where
  "f_pending = f_reevaluated\<lparr>sk_receipt := Some (s_receipt ''ROLLBACK'' ''1.0.0''), sk_state := ROLLBACK_PENDING\<rparr>"

definition f_rolled_back :: evolution where
  "f_rolled_back = f_pending\<lparr>sk_operation := Some (s_operation ''ROLLBACK'' ''1.0.0''), sk_state := ROLLED_BACK\<rparr>"

lemmas failed_states = sample_states f_canary_def f_reevaluated_def f_pending_def f_rolled_back_def

lemma f_fields [simp]:
  "sk_state f_reevaluated = REEVALUATED" "sk_proposal f_reevaluated = Some s_proposal"
  "sk_baseline f_reevaluated = Some s_baseline" "sk_decision f_reevaluated = Some s_decision"
  "sk_verification f_reevaluated = Some s_verification"
  "sk_canary f_reevaluated = Some (s_evaluation Canary ''c'' ''FAIL'' ''rc'' sample_hash)"
  "sk_reevaluation f_reevaluated = Some (s_evaluation Reevaluation ''e'' ''PASS'' ''re'' sample_hash2)"
  "sk_state f_pending = ROLLBACK_PENDING" "sk_proposal f_pending = Some s_proposal"
  "sk_baseline f_pending = Some s_baseline" "sk_receipt f_pending = Some (s_receipt ''ROLLBACK'' ''1.0.0'')"
  by (simp_all add: failed_states)

lemma f_calls:
  "call sample_hasher RecordCanary s_approved (VEvaluation (s_evaluation Canary ''c'' ''FAIL'' ''rc'' sample_hash))
   = Inr f_canary"
  "call sample_hasher RecordReevaluation f_canary
     (VEvaluation (s_evaluation Reevaluation ''e'' ''PASS'' ''re'' sample_hash2)) = Inr f_reevaluated"
  "call sample_hasher CloseWith f_reevaluated (VReceipt (s_receipt ''ROLLBACK'' ''1.0.0'')) = Inr f_pending"
  "call sample_hasher VerifyClose f_pending (VOperation (s_operation ''ROLLBACK'' ''1.0.0'')) = Inr f_rolled_back"
proof -
  show "call sample_hasher RecordCanary s_approved
      (VEvaluation (s_evaluation Canary ''c'' ''FAIL'' ''rc'' sample_hash)) = Inr f_canary"
    by (simp add: record_canary_def expect_def check_evaluation_def failed_states s_evaluation_def
        s_proposal_def s_baseline_def artifact_eq_def)
  show "call sample_hasher RecordReevaluation f_canary
      (VEvaluation (s_evaluation Reevaluation ''e'' ''PASS'' ''re'' sample_hash2)) = Inr f_reevaluated"
    using sample_hash2_ok(2)
    by (simp add: record_reevaluation_def expect_def check_evaluation_def failed_states s_evaluation_def
        s_proposal_def s_baseline_def artifact_eq_def sample_result_def)
  show "call sample_hasher CloseWith f_reevaluated (VReceipt (s_receipt ''ROLLBACK'' ''1.0.0'')) = Inr f_pending"
    by (simp add: close_def expect_def s_receipt_sealed)
      (simp add: f_pending_def s_receipt_def s_decision_def s_proposal_def s_baseline_def s_evaluation_def
        s_verification_def receipt_matches_def)
  show "call sample_hasher VerifyClose f_pending (VOperation (s_operation ''ROLLBACK'' ''1.0.0'')) = Inr f_rolled_back"
    by (simp add: verify_close_def s_operation_sealed)
      (simp add: f_rolled_back_def s_operation_def s_receipt_def s_proposal_def s_baseline_def
        operation_matches_def holds_readback_def verified_def sample_readback_def)
qed

lemma s_approved_reachable: "reachable sample_hasher s_approved"
proof -
  have "reachable sample_hasher s_frozen"
    by (rule reachable.step[OF s_new_reachable s_step[OF s_baseline_ok _ s_calls(1)]]) simp
  then have "reachable sample_hasher s_attributed"
    by (rule reachable.step[OF _ s_step[OF s_attribution_ok _ s_calls(2)]]) simp
  then have "reachable sample_hasher s_proposed"
    by (rule reachable.step[OF _ s_step[OF s_proposal_ok _ s_calls(3)]]) simp
  then show ?thesis
    by (rule reachable.step[OF _ skill_step.accepted[OF s_decision_ok s_decide_method s_call_decide]])
qed

lemma f_rolled_back_reachable: "reachable sample_hasher f_rolled_back"
proof -
  have "reachable sample_hasher f_canary"
    by (rule reachable.step[OF s_approved_reachable s_step[OF s_evaluation_ok(3) _ f_calls(1)]]) simp
  then have "reachable sample_hasher f_reevaluated"
    by (rule reachable.step[OF _ s_step[OF s_evaluation_ok(2) _ f_calls(2)]]) simp
  then have "reachable sample_hasher f_pending"
    by (rule reachable.step[OF _ s_step[OF s_receipt_ok(2) _ f_calls(3)]]) simp
  then show ?thesis
    by (rule reachable.step[OF _ s_step[OF s_operation_ok(2) _ f_calls(4)]]) simp
qed

section \<open>Properties\<close>

text \<open>
  A decision that an external human has taken and the Matrix readback confirms; an
  evaluation that passed with a live, read-back result; the confirmation of the operation.
\<close>

definition human_approved :: "human_decision \<Rightarrow> decision_verification \<Rightarrow> bool" where
  "human_approved d w \<longleftrightarrow> hd_actor_kind d = lit ''external-human'' \<and> hd_decision d = lit ''APPROVE''
     \<and> (\<exists>rb. hv_token w = Some rb \<and> verified rb \<and> rb_source rb = lit ''matrix''
         \<and> rb_classification rb = lit ''AUTHORITY_RECEIPT'' \<and> rb_ref rb = hd_attestation_ref d
         \<and> rb_claim rb ''sender'' = Some (hd_actor_ref d)
         \<and> rb_claim rb ''approval_id'' = Some (hd_decision_id d)
         \<and> rb_claim rb ''decision'' = Some (lit ''APPROVE''))"

definition passed_live :: "evaluation \<Rightarrow> bool" where
  "passed_live e \<longleftrightarrow> eo_status e = lit ''PASS'' \<and> ar_provenance (eo_result_ref e) = lit ''LIVE''
     \<and> (\<exists>rb. ar_token (eo_result_ref e) = Some rb \<and> verified rb
          \<and> rb_raw_hash rb = ar_content_hash (eo_result_ref e))"

definition operation_confirmed :: "skill_proposal \<Rightarrow> string \<Rightarrow> pystr \<Rightarrow> operation_verification \<Rightarrow> bool" where
  "operation_confirmed p action version x \<longleftrightarrow>
     (\<exists>rb. ov_token x = Some rb \<and> verified rb \<and> rb_source rb = lit ''agentteams''
        \<and> rb_classification rb = lit ''AUTHORITY_RECEIPT''
        \<and> rb_claim rb ''action'' = Some (lit action) \<and> rb_claim rb ''active_version'' = Some version
        \<and> rb_claim rb ''content_hash'' = Some (sp_content_hash p)
        \<and> rb_claim rb ''proposal_hash'' = Some (sp_record_hash p))"

lemma decided_approved:
  assumes "decided H s b p d w" and "hd_decision d = lit ''APPROVE''"
  shows "human_approved d w"
proof -
  have "hd_actor_kind d = lit ''external-human''"
    using assms(1) by (auto simp: decided_def decision_init_def)
  moreover have "\<exists>rb. hv_token w = Some rb \<and> verified rb \<and> rb_source rb = lit ''matrix''
      \<and> rb_classification rb = lit ''AUTHORITY_RECEIPT'' \<and> rb_ref rb = hv_event_ref w
      \<and> claims_match rb (verification_claims w)"
    using assms(1) by (auto simp: decided_def verification_init_def split: option.splits)
  moreover have "verification_matches w d p b" using assms(1) by (simp add: decided_def)
  ultimately show ?thesis
    using assms(2) by (auto simp: human_approved_def claims_match_def verification_claims_def verification_matches_def)
qed

lemma evaluated_passed:
  assumes "evaluated H b p k e" and "eo_status e = lit ''PASS''"
  shows "passed_live e"
proof -
  from assms have "live_result (eo_result_ref e)" and r: "ref_constructed (eo_result_ref e)"
    by (auto simp: evaluated_def evaluation_init_def)
  then show ?thesis
    using assms(2) artifact_init_token[OF r[unfolded ref_constructed_def]]
    by (auto simp: passed_live_def live_result_def split: option.splits)
qed

lemma confirmed_operation:
  assumes "confirmed H s b p r x" and "sr_action r = lit action"
  shows "operation_confirmed p action (sr_active_version r) x"
proof -
  have "\<exists>rb. ov_token x = Some rb \<and> verified rb \<and> rb_source rb = lit ''agentteams''
      \<and> rb_classification rb = lit ''AUTHORITY_RECEIPT'' \<and> claims_match rb (operation_claims x)"
    using assms(1) by (auto simp: confirmed_def operation_init_def split: option.splits)
  moreover have "operation_matches x r p (Some b)" using assms(1) by (simp add: confirmed_def)
  ultimately show ?thesis
    using assms(2) by (auto simp: operation_confirmed_def claims_match_def operation_claims_def operation_matches_def)
qed

lemma closed_active:
  "closed H s b p d w c e r \<Longrightarrow> sr_active_version r =
     (if sr_action r = lit ''PROMOTE'' then sp_candidate_version p else sp_base_version p)"
  by (auto simp: closed_def receipt_init_def receipt_matches_def)

text \<open>C1: a Skill is promoted only after everything the process demands. Whenever a reachable
  evolution is in state PROMOTED, an external human approved exactly this proposal and the
  Matrix readback confirms it, the canary and the reevaluation both passed with live, read-back
  results that are distinct, both on the frozen dataset and evaluation, and the platform's
  receipt confirms that the candidate version is active.\<close>

theorem promotion_is_earned:
  assumes "reachable H s" and "sk_state s = PROMOTED"
  shows "\<exists>b p d w c e r x. sk_baseline s = Some b \<and> sk_proposal s = Some p \<and> sk_decision s = Some d
    \<and> sk_verification s = Some w \<and> sk_canary s = Some c \<and> sk_reevaluation s = Some e
    \<and> sk_receipt s = Some r \<and> sk_operation s = Some x
    \<and> hd_proposal_hash d = sp_record_hash p \<and> human_approved d w
    \<and> passed_live c \<and> passed_live e
    \<and> ar_content_hash (eo_result_ref e) \<noteq> ar_content_hash (eo_result_ref c)
    \<and> artifact_eq (eo_dataset_ref c) (bl_dataset_ref b) \<and> artifact_eq (eo_dataset_ref e) (bl_dataset_ref b)
    \<and> artifact_eq (eo_evaluation_ref c) (bl_evaluation_ref b)
    \<and> artifact_eq (eo_evaluation_ref e) (bl_evaluation_ref b)
    \<and> sr_active_version r = sp_candidate_version p
    \<and> operation_confirmed p ''PROMOTE'' (sp_candidate_version p) x"
proof -
  from reachable_facts[OF assms(1)] assms(2) obtain b p d w c e r x where
    cl: "closed H s b p d w c e r" and act: "sr_action r = lit ''PROMOTE''" and co: "confirmed H s b p r x"
    by (auto simp: facts_def)
  have de: "decided H s b p d w" "hd_decision d = lit ''APPROVE''" "evaluated H b p Canary c"
      "evaluated H b p Reevaluation e" "ar_content_hash (eo_result_ref e) \<noteq> ar_content_hash (eo_result_ref c)"
    using cl by (auto simp: closed_def reevaluated_def tried_def)
  have "eo_status c = lit ''PASS''" "eo_status e = lit ''PASS''" using cl act by (auto simp: closed_def)
  then have "passed_live c" "passed_live e" using de evaluated_passed by blast+
  moreover have "human_approved d w" using de decided_approved by blast
  moreover have "sr_active_version r = sp_candidate_version p" using closed_active[OF cl] act by simp
  moreover have "operation_confirmed p ''PROMOTE'' (sr_active_version r) x"
    using confirmed_operation[OF co act] .
  moreover have "hd_proposal_hash d = sp_record_hash p" using de(1) by (simp add: decided_def)
  moreover have "sk_operation s = Some x" using co by (simp add: confirmed_def)
  ultimately show ?thesis
    using stage_stored(7)[OF cl] de(3,4,5) by (auto simp: evaluated_def)
qed

lemma promotion_is_earned_witness:
  "\<exists>d w. sk_decision s_promoted = Some d \<and> sk_verification s_promoted = Some w \<and> human_approved d w"
proof -
  have "sk_state s_promoted = PROMOTED" by (simp add: s_promoted_def)
  from promotion_is_earned[OF s_promoted_reachable this] show ?thesis by blast
qed

text \<open>A failed canary is never promoted. Once a reachable evolution holds a canary with status
  FAIL, it is not in state PROMOTED nor waiting for a promotion; and a rolled-back evolution
  has a receipt and a confirmation that the base version is active.\<close>

lemma failed_canary_rolls_back:
  assumes "reachable H s"
  shows "(\<forall>c. sk_canary s = Some c \<longrightarrow> eo_status c = lit ''FAIL'' \<longrightarrow>
            sk_state s \<noteq> PROMOTED \<and> sk_state s \<noteq> PROMOTION_PENDING)
    \<and> (sk_state s = ROLLED_BACK \<longrightarrow> (\<exists>p r x. sk_proposal s = Some p \<and> sk_receipt s = Some r
            \<and> sk_operation s = Some x \<and> sr_active_version r = sp_base_version p
            \<and> operation_confirmed p ''ROLLBACK'' (sp_base_version p) x))"
proof (intro conjI allI impI)
  fix c
  assume c: "sk_canary s = Some c" "eo_status c = lit ''FAIL''"
  have no: "\<not> (closed H s b p d w c' e r \<and> sr_action r = lit ''PROMOTE'')" for b p d w c' e r
    using c stage_stored(7)[of H s b p d w c' e r] by (auto simp: closed_def)
  from reachable_facts[OF assms] show "sk_state s \<noteq> PROMOTED" "sk_state s \<noteq> PROMOTION_PENDING"
    using no by (auto simp: facts_def)
next
  assume "sk_state s = ROLLED_BACK"
  with reachable_facts[OF assms] obtain b p d w c e r x where
    cl: "closed H s b p d w c e r" and act: "sr_action r = lit ''ROLLBACK''" and co: "confirmed H s b p r x"
    by (auto simp: facts_def)
  with closed_active[OF cl] stage_stored(7)[OF cl] confirmed_operation[OF co act]
  show "\<exists>p r x. sk_proposal s = Some p \<and> sk_receipt s = Some r \<and> sk_operation s = Some x
      \<and> sr_active_version r = sp_base_version p \<and> operation_confirmed p ''ROLLBACK'' (sp_base_version p) x"
    by (auto simp: confirmed_def)
qed

lemma failed_canary_rolls_back_witness:
  "\<exists>p r x. sk_proposal f_rolled_back = Some p \<and> sk_receipt f_rolled_back = Some r
     \<and> sk_operation f_rolled_back = Some x \<and> sr_active_version r = sp_base_version p
     \<and> operation_confirmed p ''ROLLBACK'' (sp_base_version p) x"
proof -
  have "sk_state f_rolled_back = ROLLED_BACK" by (simp add: f_rolled_back_def)
  with failed_canary_rolls_back[OF f_rolled_back_reachable] show ?thesis by blast
qed

text \<open>C8: the lifecycle only moves forward and never rewrites history. Along any run of accepted
  calls every call advances the state in the order of the states and by exactly one level, so
  at most eight calls are ever accepted, and every record once stored stays exactly as it was.\<close>

theorem evolution_moves_forward:
  assumes "reachable H s" and "skill_run H n s s'"
  shows "sk_state s \<le> sk_state s' \<and> level (sk_state s') = level (sk_state s) + n \<and> n \<le> 8
    \<and> keeps s s' \<and> reachable H s'"
proof -
  have "level (sk_state s') \<le> 8" by (cases "sk_state s'") simp_all
  with skill_run_level[OF assms(2)] skill_run_progress[OF assms(2,1)] show ?thesis
    by (auto simp: less_eq_lifecycle_def)
qed

lemma evolution_moves_forward_witness:
  "keeps (new_evolution (lit ''skill'')) s_promoted \<and> level (sk_state s_promoted) = 8"
  using evolution_moves_forward[OF s_new_reachable s_run] by (simp add: new_evolution_def)

end
