(* ===== verification/Web_Text.thy ===== *)
theory Web_Text
  imports Json_Parse
begin

text \<open>
  Texts of the web as Python's standard library handles them: UTF-8, quoting in URLs, and the parts of a URL.
\<close>

section \<open>UTF-8\<close>

definition utf8 :: "nat \<Rightarrow> nat list" where
  "utf8 c =
     (if c < 128 then [c]
      else if c < 2048 then [192 + c div 64, 128 + c mod 64]
      else if c < 65536 then [224 + c div 4096, 128 + c div 64 mod 64, 128 + c mod 64]
      else [240 + c div 262144, 128 + c div 4096 mod 64, 128 + c div 64 mod 64, 128 + c mod 64])"

text \<open>\<open>str.encode("utf-8")\<close>.\<close>

definition encode_utf8 :: "pystr \<Rightarrow> nat list res" where
  "encode_utf8 s = bindE (raise_if (\<not> encodable s) UnicodeEncodeError) (\<lambda>_. Inr (concat (map utf8 s)))"

text \<open>
  \<open>bytes.decode("utf-8")\<close>: a byte sequence that is too long for its code point, or that stands for a
  surrogate or for no code point, is an error.
\<close>

definition is_cont :: "nat \<Rightarrow> bool" where
  "is_cont b \<longleftrightarrow> 128 \<le> b \<and> b < 192"

fun decode_utf8 :: "nat list \<Rightarrow> pystr option" where
  "decode_utf8 [] = Some []"
| "decode_utf8 (b # bs) =
     (if b < 128 then map_option ((#) b) (decode_utf8 bs)
      else (case bs of
        [] \<Rightarrow> None
      | c1 # r1 \<Rightarrow>
          if \<not> is_cont c1 then None
          else if 194 \<le> b \<and> b < 224 then map_option ((#) ((b - 192) * 64 + (c1 - 128))) (decode_utf8 r1)
          else (case r1 of
            [] \<Rightarrow> None
          | c2 # r2 \<Rightarrow>
              if \<not> is_cont c2 then None
              else if 224 \<le> b \<and> b < 240 then
                (let v = (b - 224) * 4096 + (c1 - 128) * 64 + (c2 - 128) in
                 if v < 2048 \<or> is_surrogate v then None else map_option ((#) v) (decode_utf8 r2))
              else (case r2 of
                [] \<Rightarrow> None
              | c3 # r3 \<Rightarrow>
                  (let v = (b - 240) * 262144 + (c1 - 128) * 4096 + (c2 - 128) * 64 + (c3 - 128) in
                   if \<not> is_cont c3 \<or> b < 240 \<or> v < 65536 \<or> 1114111 < v then None
                   else map_option ((#) v) (decode_utf8 r3))))))"

lemma base64_three: "c div 4096 * 4096 + c div 64 mod 64 * 64 + c mod 64 = (c :: nat)"
proof -
  have "x * 64 + y = z \<Longrightarrow> x * 4096 + y * 64 = z * 64" for x y z :: nat by simp
  from this[OF div_mult_mod_eq] have "c div 64 div 64 * 4096 + c div 64 mod 64 * 64 = c div 64 * 64" .
  moreover have "c div 4096 = c div 64 div 64" by (simp flip: div_mult2_eq)
  ultimately show ?thesis by (simp only: div_mult_mod_eq)
qed

lemma base64_four: "c div 262144 * 262144 + c div 4096 mod 64 * 4096 + c div 64 mod 64 * 64 + c mod 64 = (c :: nat)"
proof -
  have "x * 64 + y = z \<Longrightarrow> x * 262144 + y * 4096 = z * 4096" for x y z :: nat by simp
  from this[OF div_mult_mod_eq] have "c div 4096 div 64 * 262144 + c div 4096 mod 64 * 4096 = c div 4096 * 4096" .
  moreover have "c div 262144 = c div 4096 div 64" by (simp flip: div_mult2_eq)
  ultimately show ?thesis by (simp only: base64_three)
qed

text \<open>The two, three and four bytes of a code point, by their digits to the base 64.\<close>

lemma decode_two: "2 \<le> q \<Longrightarrow> q < 32 \<Longrightarrow> r < 64
  \<Longrightarrow> decode_utf8 ((192 + q) # (128 + r) # bs) = map_option ((#) (q * 64 + r)) (decode_utf8 bs)"
  by (simp add: is_cont_def)

lemma decode_three: "p < 16 \<Longrightarrow> q < 64 \<Longrightarrow> r < 64 \<Longrightarrow> v = p * 4096 + q * 64 + r \<Longrightarrow> 2048 \<le> v \<Longrightarrow> \<not> is_surrogate v
  \<Longrightarrow> decode_utf8 ((224 + p) # (128 + q) # (128 + r) # bs) = map_option ((#) v) (decode_utf8 bs)"
  by (simp add: is_cont_def Let_def)

lemma decode_four: "p < 64 \<Longrightarrow> q < 64 \<Longrightarrow> r < 64 \<Longrightarrow> v = a * 262144 + p * 4096 + q * 64 + r \<Longrightarrow> 65536 \<le> v \<Longrightarrow> v < 1114112
  \<Longrightarrow> decode_utf8 ((240 + a) # (128 + p) # (128 + q) # (128 + r) # bs) = map_option ((#) v) (decode_utf8 bs)"
  by (simp add: is_cont_def Let_def)

lemma decode_utf8_char:
  assumes "c < 1114112" and "\<not> is_surrogate c"
  shows "decode_utf8 (utf8 c @ bs) = map_option ((#) c) (decode_utf8 bs)"
proof -
  consider "c < 128" | "128 \<le> c" "c < 2048" | "2048 \<le> c" "c < 65536" | "65536 \<le> c" "c < 1114112"
    using assms(1) by linarith
  then show ?thesis
  proof cases
    case 1
    then show ?thesis by (simp add: utf8_def)
  next
    case 2
    have "utf8 c = [192 + c div 64, 128 + c mod 64]" using 2 by (simp add: utf8_def)
    moreover have "2 \<le> c div 64" using div_le_mono[OF 2(1), of 64] by simp
    moreover have "c div 64 < 32" using 2 by (intro less_mult_imp_div_less) simp
    ultimately show ?thesis using decode_two[of "c div 64" "c mod 64" bs] by (simp only: append.simps div_mult_mod_eq mod_less_divisor zero_less_numeral)
  next
    case 3
    have "utf8 c = [224 + c div 4096, 128 + c div 64 mod 64, 128 + c mod 64]" using 3 by (simp add: utf8_def)
    moreover have "c div 4096 < 16" using 3 by (intro less_mult_imp_div_less) simp
    ultimately show ?thesis
      using decode_three[of "c div 4096" "c div 64 mod 64" "c mod 64" c bs] 3(1) assms(2)
      by (simp only: append.simps base64_three mod_less_divisor zero_less_numeral simp_thms)
  next
    case 4
    have "utf8 c = [240 + c div 262144, 128 + c div 4096 mod 64, 128 + c div 64 mod 64, 128 + c mod 64]"
      using 4 by (simp add: utf8_def)
    then show ?thesis
      using decode_four[of "c div 4096 mod 64" "c div 64 mod 64" "c mod 64" c "c div 262144" bs] 4
      by (simp only: append.simps base64_four mod_less_divisor zero_less_numeral simp_thms)
  qed
qed

text \<open>What was encoded is decoded again.\<close>

lemma decode_encode_utf8:
  assumes "encode_utf8 s = Inr bs" and "\<forall>c\<in>set s. c < 1114112"
  shows "decode_utf8 bs = Some s"
  using assms(2) assms(1)
proof (induction s arbitrary: bs)
  case Nil
  then show ?case by (simp add: encode_utf8_def raise_if_def bindE_def encodable_def)
next
  case (Cons c s)
  then have "\<not> is_surrogate c" "encodable s" and bs: "bs = utf8 c @ concat (map utf8 s)"
    by (auto simp: encode_utf8_def raise_if_def bindE_def encodable_def list_ex_iff list_all_iff split: if_splits)
  then have "encode_utf8 s = Inr (concat (map utf8 s))" by (simp add: encode_utf8_def raise_if_def bindE_def)
  with Cons bs \<open>\<not> is_surrogate c\<close> show ?case by (simp add: decode_utf8_char)
qed

text \<open>
  \<open>json.loads(data.decode("utf-8"))\<close> where \<open>UnicodeDecodeError\<close> and \<open>JSONDecodeError\<close> are caught: nothing for
  bytes that are no JSON text.
\<close>

fun is_decode_error :: "exc \<Rightarrow> bool" where
  "is_decode_error (JSONDecodeError m) = True"
| "is_decode_error e = False"

definition json_of_bytes :: "(pystr \<Rightarrow> pyfloat) \<Rightarrow> nat list \<Rightarrow> json option res" where
  "json_of_bytes F bytes = (case decode_utf8 bytes of
     None \<Rightarrow> Inr None
   | Some t \<Rightarrow> (case loads F t of Inl e \<Rightarrow> if is_decode_error e then Inr None else Inl e | Inr v \<Rightarrow> Inr (Some v)))"

lemma json_of_bytes_some:
  "json_of_bytes F bytes = Inr (Some v) \<longleftrightarrow> (\<exists>t. decode_utf8 bytes = Some t \<and> loads F t = Inr v)"
  by (auto simp: json_of_bytes_def split: option.splits sum.splits if_splits)

section \<open>Quoting\<close>

definition hex_upper :: "nat \<Rightarrow> nat" where
  "hex_upper n = (if n < 10 then 48 + n else 55 + n)"

text \<open>\<open>urllib.parse.quote\<close>, \<open>quote_plus\<close> and \<open>urlencode\<close> of pairs sorted by their names.\<close>

definition quote :: "pystr \<Rightarrow> pystr \<Rightarrow> pystr res" where
  "quote safe s =
     bindE (raise_if (\<not> encodable s) UnicodeEncodeError) (\<lambda>_.
     Inr (concat (map (\<lambda>b. if is_alnum_ascii b \<or> b \<in> {95, 46, 45, 126} \<or> b \<in> set safe then [b]
       else [37, hex_upper (b div 16), hex_upper (b mod 16)]) (concat (map utf8 s)))))"

definition quote_plus :: "pystr \<Rightarrow> pystr res" where
  "quote_plus s = bindE (quote [32] s) (\<lambda>q. Inr (map (\<lambda>c. if c = 32 then 43 else c) q))"

definition encoded_pairs :: "(pystr \<Rightarrow> pystr res) \<Rightarrow> (pystr \<times> pystr) list \<Rightarrow> pystr res" where
  "encoded_pairs q pairs =
     bindE (mapE (\<lambda>(k, v). bindE (q k) (\<lambda>k'. bindE (q v) (\<lambda>v'. Inr (k' @ [61] @ v')))) (sort_key fst pairs)) (\<lambda>parts.
     Inr (join [38] parts))"

definition urlencode :: "(pystr \<times> pystr) list \<Rightarrow> pystr res" where
  "urlencode pairs = encoded_pairs quote_plus pairs"

section \<open>The parts of a URL\<close>

record url_parts =
  ul_scheme :: pystr
  ul_netloc :: pystr
  ul_path :: pystr
  ul_query :: pystr
  ul_fragment :: pystr

definition scheme_char :: "nat \<Rightarrow> bool" where
  "scheme_char c \<longleftrightarrow> is_alnum_ascii c \<or> c \<in> {43, 45, 46}"

text \<open>The text before and after the first of some characters; the second part is empty when there is none.\<close>

definition before_char :: "nat set \<Rightarrow> pystr \<Rightarrow> pystr" where
  "before_char cs s = takeWhile (\<lambda>c. c \<notin> cs) s"

definition from_char :: "nat set \<Rightarrow> pystr \<Rightarrow> pystr" where
  "from_char cs s = dropWhile (\<lambda>c. c \<notin> cs) s"

definition after_char :: "nat \<Rightarrow> pystr \<Rightarrow> pystr" where
  "after_char c s = tl (from_char {c} s)"

definition split_scheme :: "pystr \<Rightarrow> pystr \<times> pystr" where
  "split_scheme s =
     (let name = before_char {58} s in
      if 58 \<in> set s \<and> name \<noteq> [] \<and> (is_lower_ascii (hd s) \<or> is_upper_ascii (hd s)) \<and> list_all scheme_char name
      then (lower name, after_char 58 s) else ([], s))"

text \<open>
  \<open>urllib.parse.urlsplit\<close>; \<open>host_ok\<close> stands for the library's checks of a host part that holds brackets
  (an IPv6 address) or characters outside ASCII.
\<close>

definition urlsplit :: "(pystr \<Rightarrow> bool) \<Rightarrow> pystr \<Rightarrow> url_parts res" where
  "urlsplit host_ok text =
     (let clean = filter (\<lambda>c. c \<notin> {9, 10, 13}) (dropWhile (\<lambda>c. c \<le> 32) text);
          (scheme, rest) = split_scheme clean;
          has_netloc = startswith rest [47, 47];
          netloc = (if has_netloc then before_char {47, 63, 35} (drop 2 rest) else []);
          rest = (if has_netloc then from_char {47, 63, 35} (drop 2 rest) else rest);
          no_fragment = before_char {35} rest in
      if (91 \<in> set netloc) \<noteq> (93 \<in> set netloc) then Inl (ValueError (lit ''Invalid IPv6 URL''))
      else if (91 \<in> set netloc \<or> list_ex (\<lambda>c. 127 < c) netloc) \<and> \<not> host_ok netloc
        then Inl (ValueError (lit ''invalid host''))
      else Inr \<lparr>ul_scheme = scheme, ul_netloc = netloc, ul_path = before_char {63} no_fragment,
        ul_query = after_char 63 no_fragment, ul_fragment = after_char 35 rest\<rparr>)"

text \<open>\<open>username is not None or password is not None\<close>.\<close>

definition has_credentials :: "url_parts \<Rightarrow> bool" where
  "has_credentials u \<longleftrightarrow> 64 \<in> set (ul_netloc u)"

text \<open>\<open>hostname\<close>: the part after the last \<open>@\<close>, without brackets and port; \<open>None\<close> when it is empty.\<close>

definition hostname :: "url_parts \<Rightarrow> pystr option" where
  "hostname u =
     (let info = (if has_credentials u then rev (takeWhile (\<lambda>c. c \<noteq> 64) (rev (ul_netloc u))) else ul_netloc u);
          host = (if 91 \<in> set info then before_char {93} (after_char 91 info) else before_char {58} info);
          zone = from_char {37} host in
      if host = [] then None else Some (lower (before_char {37} host) @ zone))"

text \<open>\<open>urlunsplit\<close> of a scheme, a host part that is not empty and a path.\<close>

definition url_of :: "pystr \<Rightarrow> pystr \<Rightarrow> pystr \<Rightarrow> pystr" where
  "url_of scheme netloc path =
     (let p = (if path \<noteq> [] \<and> hd path \<noteq> 47 then 47 # path else path); tail = [47, 47] @ netloc @ p in
      if scheme = [] then tail else scheme @ [58] @ tail)"

end
