(* ===== verification/Skill_Registry.thy ===== *)
theory Skill_Registry
  imports Skill_Records Web_Text
begin

text \<open>
  \<open>testweaver/skillops/nacos.py\<close>: the client of the Nacos registry. It publishes a Skill package and reads it
  back, and issues a verified readback only for bytes that the registry returned over the native transport.
\<close>

section \<open>Checks\<close>

definition nerr :: "string \<Rightarrow> exc" where
  "nerr m = NacosRegistryError (lit m)"

fun is_registry_error :: "exc \<Rightarrow> bool" where
  "is_registry_error (NacosRegistryError m) = True"
| "is_registry_error (NacosNotFound m) = True"
| "is_registry_error e = False"

definition raw_digest :: "bytes_hasher \<Rightarrow> nat list \<Rightarrow> pystr" where
  "raw_digest HB data = lit ''sha256:'' @ HB data"

definition nacos_text :: "pystr \<Rightarrow> string \<Rightarrow> (pystr \<Rightarrow> bool) \<Rightarrow> unit res" where
  "nacos_text v field pattern =
     raise_if (\<not> ref_pattern v \<or> \<not> pattern v) (NacosRegistryError (lit field @ lit '' is invalid''))"

definition any_text :: "pystr \<Rightarrow> bool" where
  "any_text v = True"

definition nacos_description :: "pystr \<Rightarrow> unit res" where
  "nacos_description v =
     raise_if (v = [] \<or> 2048 < length v \<or> list_ex (\<lambda>c. c < 32) v) (nerr ''description is invalid'')"

definition nacos_base_url :: "(pystr \<Rightarrow> bool) \<Rightarrow> pystr \<Rightarrow> pystr res" where
  "nacos_base_url host_ok v =
     bindE (urlsplit host_ok v) (\<lambda>u.
     if ul_scheme u \<notin> {lit ''http'', lit ''https''} \<or> ul_netloc u = [] \<or> has_credentials u \<or> ul_query u \<noteq> [] \<or> ul_fragment u \<noteq> []
     then Inl (nerr ''Nacos base URL must be credential-free HTTP(S)'')
     else (let path = rstrip_slash (ul_path u) in
       Inr (url_of (ul_scheme u) (ul_netloc u) (if path = [] then [47] else path))))"

section \<open>Responses\<close>

text \<open>Whether a JSON value equals an integer in Python, where \<open>False == 0\<close> and \<open>0.0 == 0\<close>.\<close>

definition equals_int :: "json \<Rightarrow> int \<Rightarrow> bool" where
  "equals_int v i = (case v of
     JInt j \<Rightarrow> j = i
   | JBool b \<Rightarrow> (if b then 1 else 0) = i
   | JFloat (FDec negative m e) \<Rightarrow>
       (let a = (if negative then - int m else int m) in
        if 0 \<le> e then a * 10 ^ nat e = i else a = i * 10 ^ nat (- e))
   | _ \<Rightarrow> False)"

definition is_container :: "json \<Rightarrow> bool" where
  "is_container v = (case v of JArr xs \<Rightarrow> True | JObj kvs \<Rightarrow> True | _ \<Rightarrow> False)"

definition dict_get :: "(pystr \<times> json) list \<Rightarrow> string \<Rightarrow> json" where
  "dict_get d key = (case map_of d (lit key) of None \<Rightarrow> JNull | Some v \<Rightarrow> v)"

text \<open>\<open>code in {...}\<close> raises \<open>TypeError\<close> for a list or an object.\<close>

definition response_json :: "(pystr \<Rightarrow> pyfloat) \<Rightarrow> nat list \<Rightarrow> (pystr \<times> json) list res" where
  "response_json F body =
     bindE (json_of_bytes F body) (\<lambda>parsed. case parsed of
       None \<Rightarrow> Inl (nerr ''Nacos returned a non-JSON control response'')
     | Some (JObj d) \<Rightarrow>
         (let code = dict_get d ''code'' in
          if is_container code then Inl (TypeError (lit ''unhashable type''))
          else if list_ex (equals_int code) [20004, 22001, 30000] then Inl (NacosNotFound (lit ''Nacos resource was not found''))
          else if \<not> equals_int code 0 then Inl (nerr ''Nacos control request failed'')
          else Inr d)
     | Some v \<Rightarrow> Inl (nerr ''Nacos control response is not an object''))"

definition multipart_boundary :: pystr where
  "multipart_boundary = lit ''testweaver-nacos-v3-boundary''"

definition crlf :: pystr where
  "crlf = [13, 10]"

definition multipart_field :: "pystr \<times> pystr \<Rightarrow> nat list res" where
  "multipart_field = (\<lambda>(name, v).
     bindE (encode_utf8 (lit ''Content-Disposition: form-data; name='' @ [34] @ name @ [34] @ crlf @ crlf)) (\<lambda>head.
     bindE (encode_utf8 v) (\<lambda>bytes. Inr (lit ''--'' @ multipart_boundary @ crlf @ head @ bytes @ crlf))))"

definition multipart :: "(pystr \<times> pystr) list \<Rightarrow> pystr \<Rightarrow> nat list \<Rightarrow> (nat list \<times> pystr) res" where
  "multipart pairs filename file_value =
     bindE (mapE multipart_field (sort_key fst pairs)) (\<lambda>parts.
     bindE (encode_utf8 (lit ''Content-Disposition: form-data; name='' @ [34] @ lit ''file'' @ [34] @ lit ''; filename='' @ [34] @ filename @ [34] @ crlf))
       (\<lambda>head.
     Inr (concat parts @ lit ''--'' @ multipart_boundary @ crlf @ head @ lit ''Content-Type: application/zip'' @ crlf @ crlf
            @ file_value @ crlf @ lit ''--'' @ multipart_boundary @ lit ''--'' @ crlf,
          lit ''multipart/form-data; boundary='' @ multipart_boundary)))"

section \<open>The client\<close>

text \<open>
  What a transport gave: a response with its headers, no response object, an exception of the operating
  system, or another exception, a \<open>NacosRegistryError\<close> among them.
\<close>

datatype nacos_answer = NacosResponse int "(pystr \<times> pystr) list" "nat list" | BadResponse | SendFailed | SendRaised exc

record nacos_call =
  nr_method :: pystr
  nr_url :: pystr
  nr_headers :: "(pystr \<times> pystr) list"
  nr_body :: "nat list option"

record 's nacos_env =
  ne_digest :: bytes_hasher
  ne_float :: "pystr \<Rightarrow> pyfloat"
  ne_host_ok :: "pystr \<Rightarrow> bool"
  ne_send :: "nacos_call \<Rightarrow> 's \<Rightarrow> nacos_answer \<times> 's"
  ne_pause :: "'s \<Rightarrow> 's"

text \<open>\<open>nc_native\<close> says that no transport was injected; the client then sends with \<open>urllib\<close>.\<close>

record nacos_client =
  nc_base_url :: pystr
  nc_namespace :: pystr
  nc_group :: pystr
  nc_native :: bool

definition nacos_client_init :: "(pystr \<Rightarrow> bool) \<Rightarrow> pystr \<Rightarrow> pystr \<Rightarrow> pystr \<Rightarrow> bool \<Rightarrow> nacos_client res" where
  "nacos_client_init host_ok base_url namespace grp native =
     bindE (nacos_base_url host_ok base_url) (\<lambda>url.
     bindE (nacos_text namespace ''namespace'' any_text) (\<lambda>_.
     bindE (nacos_text grp ''group'' any_text) (\<lambda>_.
     Inr \<lparr>nc_base_url = url, nc_namespace = namespace, nc_group = grp, nc_native = native\<rparr>)))"

definition nacos_headers :: "pystr option \<Rightarrow> (pystr \<times> pystr) list" where
  "nacos_headers content_type =
     [(lit ''User-Agent'', lit ''TestWeaver-SkillOps/1.0''), (lit ''Client-Version'', lit ''TestWeaver/0.1.0'')]
     @ (case content_type of None \<Rightarrow> [] | Some t \<Rightarrow> [(lit ''Content-Type'', t)])"

definition nacos_send :: "'s nacos_env \<Rightarrow> nacos_call \<Rightarrow> ('s, nacos_answer) actS" where
  "nacos_send E q w = (case ne_send E q w of (answer, w') \<Rightarrow> (Inr answer, w'))"

definition nacos_url :: "nacos_client \<Rightarrow> string \<Rightarrow> (pystr \<times> pystr) list \<Rightarrow> pystr res" where
  "nacos_url c path query =
     (if query = [] then Inr (nc_base_url c @ lit path)
      else bindE (urlencode query) (\<lambda>encoded. Inr (nc_base_url c @ lit path @ [63] @ encoded)))"

text \<open>The headers and the body of a successful response; an error status is told apart by its JSON code.\<close>

definition http_failed_error :: "int \<Rightarrow> exc" where
  "http_failed_error status = NacosRegistryError (lit ''Nacos HTTP request failed ('' @ int_str status @ [41])"

fun is_not_found :: "exc \<Rightarrow> bool" where
  "is_not_found (NacosNotFound m) = True"
| "is_not_found e = False"

definition accept_answer :: "'s nacos_env \<Rightarrow> nacos_answer \<Rightarrow> ((pystr \<times> pystr) list \<times> nat list) res" where
  "accept_answer E answer = (case answer of
     SendFailed \<Rightarrow> Inl (nerr ''Nacos transport failed'')
   | SendRaised e \<Rightarrow> Inl e
   | BadResponse \<Rightarrow> Inl (nerr ''Nacos transport response is invalid'')
   | NacosResponse status headers body \<Rightarrow>
       if 200 \<le> status \<and> status < 300 then Inr (headers, body)
       else (case response_json (ne_float E) body of
         Inl e \<Rightarrow> Inl (if is_registry_error e \<and> \<not> is_not_found e then http_failed_error status else e)
       | Inr d \<Rightarrow> Inl (http_failed_error status)))"

definition nacos_request ::
  "'s nacos_env \<Rightarrow> nacos_client \<Rightarrow> string \<Rightarrow> string \<Rightarrow> (pystr \<times> pystr) list \<Rightarrow> nat list option \<Rightarrow> pystr option
   \<Rightarrow> ('s, (pystr \<times> pystr) list \<times> nat list) actS" where
  "nacos_request E c http_method path query body content_type =
     bindS (liftS (nacos_url c path query)) (\<lambda>url.
     bindS (nacos_send E \<lparr>nr_method = lit http_method, nr_url = url, nr_headers = nacos_headers content_type, nr_body = body\<rparr>)
       (\<lambda>answer. liftS (accept_answer E answer)))"

definition json_request ::
  "'s nacos_env \<Rightarrow> nacos_client \<Rightarrow> string \<Rightarrow> string \<Rightarrow> (pystr \<times> pystr) list \<Rightarrow> (pystr \<times> pystr) list option
   \<Rightarrow> ('s, (pystr \<times> json) list) actS" where
  "json_request E c http_method path query form =
     bindS (liftS (case form of None \<Rightarrow> Inr None | Some pairs \<Rightarrow> bindE (urlencode pairs) (\<lambda>b. Inr (Some b)))) (\<lambda>body.
     bindS (nacos_request E c http_method path query body
       (if body = None then None else Some (lit ''application/x-www-form-urlencoded''))) (\<lambda>(headers, response).
     liftS (response_json (ne_float E) response)))"

section \<open>Skills\<close>

definition skill_checks :: "pystr \<Rightarrow> pystr \<Rightarrow> unit res" where
  "skill_checks name version =
     bindE (nacos_text name ''skill name'' name_pattern) (\<lambda>_. nacos_text version ''skill version'' version_pattern)"

definition skill_query :: "nacos_client \<Rightarrow> pystr \<Rightarrow> pystr \<Rightarrow> (pystr \<times> pystr) list" where
  "skill_query c name version = [(lit ''namespaceId'', nc_namespace c), (lit ''name'', name), (lit ''version'', version)]"

definition download_skill :: "'s nacos_env \<Rightarrow> nacos_client \<Rightarrow> pystr \<Rightarrow> pystr \<Rightarrow> ('s, nat list) actS" where
  "download_skill E c name version =
     bindS (liftS (skill_checks name version)) (\<lambda>_.
     bindS (nacos_request E c ''GET'' ''/v3/client/ai/skills'' (skill_query c name version) None None) (\<lambda>(headers, body).
     let content_type = (case map_of headers (lit ''content-type'') of None \<Rightarrow> [] | Some t \<Rightarrow> t) in
     if occurs (lit ''json'') content_type \<or> startswith body [123]
     then bindS (liftS (response_json (ne_float E) body)) (\<lambda>_. raiseS (nerr ''Nacos Skill endpoint returned JSON instead of ZIP''))
     else returnS body))"

record skill_governance =
  sg_status :: json
  sg_scope :: json
  sg_response_hash :: pystr

fun version_item :: "pystr \<Rightarrow> json list \<Rightarrow> (pystr \<times> json) list option" where
  "version_item version [] = None"
| "version_item version (JObj d # rest) =
     (if dict_get d ''version'' = JStr version then Some d else version_item version rest)"
| "version_item version (v # rest) = version_item version rest"

definition governance_of :: "bytes_hasher \<Rightarrow> (pystr \<Rightarrow> pyfloat) \<Rightarrow> pystr \<Rightarrow> nat list \<Rightarrow> skill_governance res" where
  "governance_of HB F version body =
     bindE (response_json F body) (\<lambda>d. case dict_get d ''data'' of
       JObj data \<Rightarrow>
         (case dict_get data ''versions'' of
            JArr versions \<Rightarrow>
              (case version_item version versions of
                 None \<Rightarrow> Inl (NacosNotFound (lit ''Nacos Skill version was not found''))
               | Some item \<Rightarrow> Inr
                   \<lparr>sg_status = (case map_of item (lit ''status'') of None \<Rightarrow> JStr (lit ''unknown'') | Some v \<Rightarrow> v),
                    sg_scope = dict_get data ''scope'', sg_response_hash = raw_digest HB body\<rparr>)
          | _ \<Rightarrow> Inl (nerr ''Nacos Skill readback has no versions''))
     | _ \<Rightarrow> Inl (nerr ''Nacos Skill readback is malformed''))"

definition read_skill :: "'s nacos_env \<Rightarrow> nacos_client \<Rightarrow> pystr \<Rightarrow> pystr \<Rightarrow> ('s, skill_governance) actS" where
  "read_skill E c name version =
     bindS (liftS (skill_checks name version)) (\<lambda>_.
     bindS (nacos_request E c ''GET'' ''/v3/admin/ai/skills''
       [(lit ''namespaceId'', nc_namespace c), (lit ''skillName'', name)] None None) (\<lambda>(headers, body).
     liftS (governance_of (ne_digest E) (ne_float E) version body)))"

definition upload_skill :: "'s nacos_env \<Rightarrow> nacos_client \<Rightarrow> pystr \<Rightarrow> pystr \<Rightarrow> nat list \<Rightarrow> ('s, unit) actS" where
  "upload_skill E c name version zip_bytes =
     bindS (liftS (multipart
       [(lit ''namespaceId'', nc_namespace c), (lit ''overwrite'', lit ''false''), (lit ''skillName'', name),
        (lit ''version'', version), (lit ''commitMsg'', lit ''TestWeaver SkillOps native package'')]
       (name @ [45] @ version @ lit ''.zip'') zip_bytes)) (\<lambda>(body, content_type).
     bindS (nacos_request E c ''POST'' ''/v3/admin/ai/skills/upload'' [] (Some body) (Some content_type)) (\<lambda>(headers, response).
     bindS (liftS (response_json (ne_float E) response)) (\<lambda>_. returnS ())))"

definition skill_form :: "nacos_client \<Rightarrow> pystr \<Rightarrow> pystr \<Rightarrow> (pystr \<times> pystr) list" where
  "skill_form c name version = [(lit ''namespaceId'', nc_namespace c), (lit ''skillName'', name), (lit ''version'', version)]"

definition publish_once :: "'s nacos_env \<Rightarrow> nacos_client \<Rightarrow> pystr \<Rightarrow> pystr \<Rightarrow> ('s, (pystr \<times> json) list) actS" where
  "publish_once E c name version =
     json_request E c ''POST'' ''/v3/admin/ai/skills/publish'' []
       (Some (skill_form c name version @ [(lit ''updateLatestLabel'', lit ''false'')]))"

text \<open>Publishing is tried again after an error of the registry, the last one is raised.\<close>

fun publish_attempts :: "'s nacos_env \<Rightarrow> nacos_client \<Rightarrow> pystr \<Rightarrow> pystr \<Rightarrow> nat \<Rightarrow> ('s, unit) actS" where
  "publish_attempts E c name version 0 w = (Inr (), w)"
| "publish_attempts E c name version (Suc n) w =
     (case publish_once E c name version w of
        (Inr d, w') \<Rightarrow> (Inr (), w')
      | (Inl e, w') \<Rightarrow>
          if is_registry_error e \<and> n \<noteq> 0 then publish_attempts E c name version n (ne_pause E w') else (Inl e, w'))"

record skill_publication =
  np_endpoint :: pystr
  np_namespace :: pystr
  np_skill :: pystr
  np_version :: pystr
  np_local_hash :: pystr
  np_registry_hash :: pystr
  np_exact :: bool
  np_classification :: pystr
  np_governance :: skill_governance

definition publish_skill ::
  "'s nacos_env \<Rightarrow> nacos_client \<Rightarrow> pystr \<Rightarrow> pystr \<Rightarrow> nat list \<Rightarrow> pystr \<Rightarrow> ('s, skill_publication) actS" where
  "publish_skill E c name version zip_bytes package_hash =
     bindS (liftS (seqE
       [skill_checks name version,
        raise_if (zip_bytes = []) (nerr ''Skill ZIP bytes are required''),
        raise_if (\<not> is_sha256 package_hash) (nerr ''package_hash is invalid''),
        raise_if (package_hash \<noteq> raw_digest (ne_digest E) zip_bytes) (nerr ''package_hash does not match ZIP bytes'')])) (\<lambda>_.
     bindS (upload_skill E c name version zip_bytes) (\<lambda>_.
     bindS (json_request E c ''POST'' ''/v3/admin/ai/skills/submit'' [] (Some (skill_form c name version))) (\<lambda>_.
     bindS (publish_attempts E c name version 20) (\<lambda>_.
     bindS (download_skill E c name version) (\<lambda>downloaded.
     bindS (read_skill E c name version) (\<lambda>governance.
     returnS \<lparr>np_endpoint = nc_base_url c, np_namespace = nc_namespace c, np_skill = name, np_version = version,
       np_local_hash = package_hash, np_registry_hash = raw_digest (ne_digest E) downloaded,
       np_exact = (raw_digest (ne_digest E) downloaded = package_hash),
       np_classification = (if nc_native c then lit ''NATIVE_TRANSPORT'' else lit ''UNATTESTED_PARTIAL''),
       np_governance = governance\<rparr>))))))"

section \<open>Exact candidates\<close>

record candidate_readback =
  cr_endpoint :: pystr
  cr_namespace :: pystr
  cr_skill :: pystr
  cr_version :: pystr
  cr_package_hash :: pystr
  cr_status :: pystr
  cr_response_hash :: pystr
  cr_ref :: pystr
  cr_token :: external_readback

definition candidate_verified :: "candidate_readback \<Rightarrow> bool" where
  "candidate_verified r \<longleftrightarrow> verified (cr_token r) \<and> rb_classification (cr_token r) = lit ''NATIVE_TRANSPORT''
     \<and> rb_source (cr_token r) = lit ''nacos'' \<and> rb_ref (cr_token r) = cr_ref r \<and> rb_raw_hash (cr_token r) = cr_package_hash r"

definition published_status :: "json \<Rightarrow> pystr res" where
  "published_status v =
     (if is_container v then Inl (TypeError (lit ''unhashable type''))
      else if v = JStr (lit ''online'') then Inr (lit ''online'')
      else if v = JStr (lit ''published'') then Inr (lit ''published'')
      else Inl (nerr ''Nacos candidate exact readback failed''))"

definition candidate_ref :: "pystr \<Rightarrow> pystr \<Rightarrow> pystr \<Rightarrow> pystr \<Rightarrow> pystr" where
  "candidate_ref endpoint namespace name version =
     lit ''nacos:'' @ endpoint @ [35] @ namespace @ [47] @ name @ [64] @ version"

definition publish_skill_exact ::
  "'s nacos_env \<Rightarrow> nacos_client \<Rightarrow> pystr \<Rightarrow> pystr \<Rightarrow> nat list \<Rightarrow> pystr \<Rightarrow> pystr \<Rightarrow> pystr \<Rightarrow> ('s, candidate_readback) actS" where
  "publish_skill_exact E c name version zip_bytes package_hash expected_endpoint expected_namespace =
     bindS (liftS (nacos_base_url (ne_host_ok E) expected_endpoint)) (\<lambda>endpoint.
     bindS (liftS (seqE
       [nacos_text expected_namespace ''expected_namespace'' any_text,
        raise_if (endpoint \<noteq> nc_base_url c \<or> expected_namespace \<noteq> nc_namespace c)
          (nerr ''protected Nacos endpoint/namespace mismatch''),
        raise_if (\<not> nc_native c) (nerr ''injected Nacos transcripts are UNATTESTED_PARTIAL'')])) (\<lambda>_.
     bindS (publish_skill E c name version zip_bytes package_hash) (\<lambda>result.
     bindS (liftS (raise_if (np_classification result \<noteq> lit ''NATIVE_TRANSPORT'' \<or> \<not> np_exact result
         \<or> np_registry_hash result \<noteq> package_hash \<or> np_version result \<noteq> version
         \<or> np_namespace result \<noteq> expected_namespace \<or> np_endpoint result \<noteq> endpoint)
       (nerr ''Nacos candidate exact readback failed''))) (\<lambda>_.
     bindS (liftS (published_status (sg_status (np_governance result)))) (\<lambda>status.
     bindS (download_skill E c name version) (\<lambda>downloaded.
     bindS (liftS (raise_if (raw_digest (ne_digest E) downloaded \<noteq> package_hash)
       (nerr ''final Nacos package readback changed after publish''))) (\<lambda>_.
     let readback_ref = candidate_ref endpoint expected_namespace name version;
         response_hash = sg_response_hash (np_governance result) in
     bindS (liftS (issue_readback (ne_digest E) (lit ''nacos'') readback_ref downloaded (lit ''NATIVE_TRANSPORT'')
       (sorted_claims
         [(''endpoint'', endpoint), (''namespace_id'', expected_namespace), (''skill_name'', name), (''version'', version),
          (''content_hash'', package_hash), (''admin_response_hash'', response_hash), (''registry_status'', status)]) True)) (\<lambda>token.
     returnS \<lparr>cr_endpoint = endpoint, cr_namespace = expected_namespace, cr_skill = name, cr_version = version,
       cr_package_hash = package_hash, cr_status = status, cr_response_hash = response_hash, cr_ref = readback_ref,
       cr_token = token\<rparr>))))))))"

section \<open>Configurations\<close>

definition config_group :: "nacos_client \<Rightarrow> pystr option \<Rightarrow> pystr res" where
  "config_group c grp =
     (let name = (case grp of None \<Rightarrow> nc_group c | Some g \<Rightarrow> if g = [] then nc_group c else g) in
      bindE (nacos_text name ''group'' any_text) (\<lambda>_. Inr name))"

definition config_of_data :: "json \<Rightarrow> (pystr \<times> pystr) res" where
  "config_of_data v =
     (let missing = Inl (NacosNotFound (lit ''Nacos config was not found'')) in
      case v of
        JObj data \<Rightarrow>
          if dict_get data ''success'' \<noteq> JBool True then missing
          else (case (dict_get data ''content'', dict_get data ''md5'') of
            (JStr content, JStr md5) \<Rightarrow>
              if ref_pattern md5 then Inr (content, md5) else Inl (nerr ''Nacos config readback is malformed'')
          | _ \<Rightarrow> Inl (nerr ''Nacos config readback is malformed''))
      | _ \<Rightarrow> missing)"

definition read_config :: "'s nacos_env \<Rightarrow> nacos_client \<Rightarrow> pystr \<Rightarrow> pystr option \<Rightarrow> ('s, pystr \<times> pystr) actS" where
  "read_config E c data_id grp =
     bindS (liftS (nacos_text data_id ''data_id'' name_pattern)) (\<lambda>_.
     bindS (liftS (config_group c grp)) (\<lambda>group_name.
     bindS (json_request E c ''GET'' ''/v3/client/cs/config''
       [(lit ''namespaceId'', nc_namespace c), (lit ''groupName'', group_name), (lit ''dataId'', data_id)] None) (\<lambda>d.
     liftS (config_of_data (dict_get d ''data'')))))"

record config_publication =
  cp_namespace :: pystr
  cp_group :: pystr
  cp_data_id :: pystr
  cp_md5 :: pystr
  cp_exact :: bool

definition publish_config ::
  "'s nacos_env \<Rightarrow> nacos_client \<Rightarrow> pystr \<Rightarrow> pystr \<Rightarrow> pystr \<Rightarrow> pystr option \<Rightarrow> ('s, config_publication) actS" where
  "publish_config E c data_id content description grp =
     bindS (liftS (seqE
       [nacos_text data_id ''data_id'' name_pattern, nacos_description description,
        raise_if (content = [] \<or> 0 \<in> set content) (nerr ''config content is invalid'')])) (\<lambda>_.
     bindS (liftS (config_group c grp)) (\<lambda>group_name.
     bindS (json_request E c ''POST'' ''/v3/admin/cs/config'' []
       (Some [(lit ''namespaceId'', nc_namespace c), (lit ''groupName'', group_name), (lit ''dataId'', data_id),
         (lit ''content'', content), (lit ''type'', lit ''json''), (lit ''appName'', lit ''testweaver-skillops''),
         (lit ''desc'', description)])) (\<lambda>result.
     bindS (liftS (raise_if (dict_get result ''data'' \<noteq> JBool True) (nerr ''Nacos config publish was not acknowledged''))) (\<lambda>_.
     bindS (read_config E c data_id (Some group_name)) (\<lambda>(read_content, md5).
     returnS \<lparr>cp_namespace = nc_namespace c, cp_group = group_name, cp_data_id = data_id, cp_md5 = md5,
       cp_exact = (read_content = content)\<rparr>)))))"

end
