(* ===== verification/Obs_Query.thy ===== *)
theory Obs_Query
  imports Skill_Records Web_Text
begin

text \<open>
  \<open>testweaver/observability/readonly_query.py\<close>: bounded read-only queries of observability backends. A
  query sends one GET request and keeps a receipt that says whether the response holds every anchor of the
  run it is correlated with.
\<close>

section \<open>Correlations and references\<close>

definition oerr :: "string \<Rightarrow> exc" where
  "oerr m = ObservabilityContractError (lit m)"

definition opaque_ok :: "pystr \<Rightarrow> string \<Rightarrow> unit res" where
  "opaque_ok v field = seqE
     [raise_if (v = [] \<or> 256 < length v) (ObservabilityContractError (lit field @ lit '' must be a non-empty opaque reference'')),
      raise_if (list_ex (\<lambda>c. c < 32 \<or> isspace c) v)
        (ObservabilityContractError (lit field @ lit '' contains whitespace or control data''))]"

text \<open>\<open>^[A-Za-z0-9][A-Za-z0-9._:@/-]{0,255}$\<close>, \<open>^[A-Z][A-Z0-9_]*$\<close> and \<open>^[0-9a-f]{32}$\<close>.\<close>

definition is_obs_identifier :: "pystr \<Rightarrow> bool" where
  "is_obs_identifier s \<longleftrightarrow> s \<noteq> [] \<and> is_alnum_ascii (hd s) \<and> length (tl s) \<le> 255
     \<and> list_all (\<lambda>c. is_alnum_ascii c \<or> c \<in> {46, 95, 58, 64, 47, 45}) (tl s)"

definition is_variable_name :: "pystr \<Rightarrow> bool" where
  "is_variable_name s \<longleftrightarrow> s \<noteq> [] \<and> is_upper_ascii (hd s)
     \<and> list_all (\<lambda>c. is_upper_ascii c \<or> is_digit_ascii c \<or> c = 95) (tl s)"

definition is_trace_id :: "pystr \<Rightarrow> bool" where
  "is_trace_id s \<longleftrightarrow> length s = 32 \<and> list_all is_hex_lower s"

record correlation =
  co_campaign_id :: pystr
  co_run_id :: pystr
  co_pg_revision :: pystr
  co_content_hash :: pystr

definition correlation_identifier :: "pystr \<Rightarrow> string \<Rightarrow> unit res" where
  "correlation_identifier v field =
     bindE (opaque_ok v field) (\<lambda>_.
     raise_if (\<not> is_obs_identifier v) (ObservabilityContractError (lit field @ lit '' has invalid characters'')))"

definition correlation_init :: "correlation \<Rightarrow> unit res" where
  "correlation_init c = seqE
     [correlation_identifier (co_campaign_id c) ''campaign_id'', correlation_identifier (co_run_id c) ''run_id'',
      correlation_identifier (co_pg_revision c) ''pg_revision'',
      raise_if (\<not> is_sha256 (co_content_hash c)) (oerr ''content_hash must be a sha256 digest'')]"

definition correlation_dict :: "correlation \<Rightarrow> (pystr \<times> pystr) list" where
  "correlation_dict c =
     [(lit ''campaign_id'', co_campaign_id c), (lit ''run_id'', co_run_id c), (lit ''pg_revision'', co_pg_revision c),
      (lit ''content_hash'', co_content_hash c)]"

text \<open>What \<open>Path.stat\<close> says of a file: the permission bits, the owner, and whether it is a regular file.\<close>

record file_stat =
  fi_mode :: nat
  fi_uid :: int
  fi_gid :: int
  fi_regular :: bool

record config_status =
  cs_path :: pystr
  cs_exists :: bool
  cs_usable :: bool
  cs_stat :: "file_stat option"
  cs_variables :: "pystr list"
  cs_reason :: "pystr option"

record protected_ref =
  pr_path :: pystr
  pr_variables :: "pystr list"
  pr_owner_only :: bool

definition protected_ref_init :: "protected_ref \<Rightarrow> unit res" where
  "protected_ref_init r = seqE
     (raise_if (\<not> startswith (pr_path r) [47]) (oerr ''protected config path must be absolute'')
      # map (\<lambda>n. raise_if (\<not> is_variable_name n) (ObservabilityContractError (lit ''invalid protected variable name: '' @ n)))
          (pr_variables r))"

text \<open>The permissions of group and others are the six low bits of the mode.\<close>

definition inspect_ref :: "file_stat option \<Rightarrow> protected_ref \<Rightarrow> config_status" where
  "inspect_ref st r =
     (let reason = (case st of
            None \<Rightarrow> Some (lit ''missing_or_unreadable'')
          | Some i \<Rightarrow> if \<not> fi_regular i then Some (lit ''not_a_regular_file'')
              else if pr_owner_only r \<and> fi_mode i mod 64 \<noteq> 0 then Some (lit ''not_owner_only'')
              else None) in
      \<lparr>cs_path = pr_path r, cs_exists = (st \<noteq> None), cs_usable = (reason = None), cs_stat = st,
       cs_variables = pr_variables r, cs_reason = reason\<rparr>)"

section \<open>Endpoints\<close>

record endpoint_ref =
  ep_name :: pystr
  ep_base_url :: pystr
  ep_query_path :: "pystr option"
  ep_auth_required :: bool

definition validate_query_path :: "pystr \<Rightarrow> unit res" where
  "validate_query_path path = seqE
     [raise_if (\<not> startswith path [47]) (oerr ''query path must be absolute''),
      raise_if (63 \<in> set path \<or> 35 \<in> set path \<or> list_ex (\<lambda>c. c < 32) path)
        (oerr ''query path must not contain query or control data'')]"

definition loopback :: "url_parts \<Rightarrow> bool" where
  "loopback u \<longleftrightarrow> hostname u \<in> {Some (lit ''127.0.0.1''), Some (lit ''::1''), Some (lit ''localhost'')}"

definition endpoint_init :: "(pystr \<Rightarrow> bool) \<Rightarrow> endpoint_ref \<Rightarrow> unit res" where
  "endpoint_init host_ok e =
     bindE (raise_if (\<not> is_obs_identifier (ep_name e)) (oerr ''endpoint name is invalid'')) (\<lambda>_.
     bindE (urlsplit host_ok (ep_base_url e)) (\<lambda>u. seqE
       [raise_if (ul_scheme u \<notin> {lit ''http'', lit ''https''} \<or> ul_netloc u = []) (oerr ''endpoint must be an HTTP(S) URL''),
        raise_if (has_credentials u) (oerr ''endpoint must not contain inline credentials''),
        raise_if (ul_query u \<noteq> [] \<or> ul_fragment u \<noteq> []) (oerr ''endpoint must not contain query or fragment data''),
        raise_if (ul_scheme u \<noteq> lit ''https'' \<and> \<not> loopback u) (oerr ''non-loopback endpoint must use HTTPS''),
        (case ep_query_path e of None \<Rightarrow> Inr () | Some path \<Rightarrow> validate_query_path path),
        raise_if (\<not> ep_auth_required e \<and> \<not> loopback u) (oerr ''external endpoints require protected auth'')]))"

definition safe_url :: "(pystr \<Rightarrow> bool) \<Rightarrow> endpoint_ref \<Rightarrow> pystr res" where
  "safe_url host_ok e =
     bindE (urlsplit host_ok (ep_base_url e)) (\<lambda>u. Inr (url_of (ul_scheme u) (ul_netloc u) (rstrip_slash (ul_path u))))"

section \<open>Receipts\<close>

record query_receipt =
  qr_schema_version :: pystr
  qr_status :: pystr
  qr_backend :: pystr
  qr_operation :: pystr
  qr_endpoint :: pystr
  qr_path :: pystr
  qr_http_method :: pystr
  qr_read_only :: bool
  qr_correlation :: correlation
  qr_response_status :: "int option"
  qr_response_hash :: "pystr option"
  qr_matched_fields :: "pystr list"
  qr_reason :: "pystr option"

definition query_schema :: pystr where
  "query_schema = lit ''testweaver.observability-query/v1''"

record query_preflight =
  qp_status :: pystr
  qp_backend :: pystr
  qp_endpoint :: pystr
  qp_credential :: "config_status option"
  qp_reason :: pystr

text \<open>
  What the header provider gave: an exception, no mapping, or pairs of values; and what a transport gave: an
  exception of the operating system or of the network, another one, no response object, or a response whose
  body may be something other than bytes.
\<close>

datatype provided = ProviderFailed | NotAMapping | Provided "(json \<times> json) list"

datatype obs_answer = TransportFailed | TransportRaised exc | NotAResponse | ObsResponse int "nat list option"

record 's query_env =
  qe_digest :: bytes_hasher
  qe_float :: "pystr \<Rightarrow> pyfloat"
  qe_host_ok :: "pystr \<Rightarrow> bool"
  qe_stat :: "pystr \<Rightarrow> 's \<Rightarrow> file_stat option"
  qe_provider :: "'s \<Rightarrow> provided \<times> 's"
  qe_transport :: "pystr \<Rightarrow> (pystr \<times> pystr) list \<Rightarrow> 's \<Rightarrow> obs_answer \<times> 's"

record query_client =
  qc_endpoint :: endpoint_ref
  qc_credential :: "protected_ref option"
  qc_has_provider :: bool

definition blocked_receipt ::
  "'s query_env \<Rightarrow> query_client \<Rightarrow> pystr \<Rightarrow> pystr \<Rightarrow> pystr \<Rightarrow> correlation \<Rightarrow> pystr \<Rightarrow> int option \<Rightarrow> pystr option
   \<Rightarrow> query_receipt res" where
  "blocked_receipt E c operation backend path corr reason status hash =
     bindE (safe_url (qe_host_ok E) (qc_endpoint c)) (\<lambda>url.
     Inr \<lparr>qr_schema_version = query_schema, qr_status = lit ''BLOCKED'', qr_backend = backend, qr_operation = operation,
       qr_endpoint = url, qr_path = path, qr_http_method = lit ''GET'', qr_read_only = True, qr_correlation = corr,
       qr_response_status = status, qr_response_hash = hash, qr_matched_fields = [], qr_reason = Some reason\<rparr>)"

definition auth_block_reason :: "query_client \<Rightarrow> config_status option \<Rightarrow> pystr option" where
  "auth_block_reason c st =
     (if \<not> ep_auth_required (qc_endpoint c) then None
      else (case st of
        None \<Rightarrow> Some (lit ''protected_credential_reference_not_bound'')
      | Some i \<Rightarrow>
          if \<not> cs_usable i then Some (lit ''protected_credential_reference_unusable'')
          else if \<not> qc_has_provider c then Some (lit ''credential_header_provider_not_bound'')
          else None))"

definition credential_status :: "'s query_env \<Rightarrow> query_client \<Rightarrow> 's \<Rightarrow> config_status option" where
  "credential_status E c w = map_option (\<lambda>r. inspect_ref (qe_stat E (pr_path r) w) r) (qc_credential c)"

definition preflight :: "'s query_env \<Rightarrow> query_client \<Rightarrow> pystr \<Rightarrow> ('s, query_preflight) actS" where
  "preflight E c backend w =
     (let st = credential_status E c w; reason = auth_block_reason c st in
      (bindE (opaque_ok backend ''backend'') (\<lambda>_. bindE (safe_url (qe_host_ok E) (qc_endpoint c)) (\<lambda>url.
         Inr \<lparr>qp_status = (if reason = None then lit ''NOT_VERIFIED'' else lit ''BLOCKED''), qp_backend = backend,
           qp_endpoint = url, qp_credential = st,
           qp_reason = (case reason of None \<Rightarrow> lit ''endpoint reachability requires a bounded GET query'' | Some m \<Rightarrow> m)\<rparr>)), w))"

section \<open>Queries\<close>

definition query_url :: "'s query_env \<Rightarrow> query_client \<Rightarrow> pystr \<Rightarrow> (pystr \<times> pystr) list \<Rightarrow> pystr res" where
  "query_url E c path query =
     bindE (safe_url (qe_host_ok E) (qc_endpoint c)) (\<lambda>base.
     if query = [] then Inr (base @ path)
     else bindE (encoded_pairs (quote []) query) (\<lambda>encoded. Inr (base @ path @ [63] @ encoded)))"

fun contains_exact :: "json \<Rightarrow> pystr \<Rightarrow> bool" where
  "contains_exact (JStr s) expected = (s = expected)"
| "contains_exact (JObj kvs) expected = list_ex (\<lambda>kv. contains_exact (snd kv) expected) kvs"
| "contains_exact (JArr xs) expected = list_ex (\<lambda>x. contains_exact x expected) xs"
| "contains_exact _ expected = False"

text \<open>The headers of a request, or nothing when one of them is not a text or has control characters.\<close>

definition header_text :: "json \<Rightarrow> pystr option" where
  "header_text v = (case v of JStr s \<Rightarrow> if list_ex (\<lambda>c. c < 32) s then None else Some s | _ \<Rightarrow> None)"

fun add_headers :: "(json \<times> json) list \<Rightarrow> (pystr \<times> pystr) list \<Rightarrow> (pystr \<times> pystr) list option" where
  "add_headers [] headers = Some headers"
| "add_headers ((k, v) # pairs) headers =
     (case (header_text k, header_text v) of
        (Some key, Some value) \<Rightarrow> if key = [] then None else add_headers pairs (AList.update key value headers)
      | _ \<Rightarrow> None)"

definition provide_headers :: "'s query_env \<Rightarrow> query_client \<Rightarrow> ('s, (pystr \<times> pystr) list option) actS" where
  "provide_headers E c w =
     (let headers = [(lit ''Accept'', lit ''application/json'')] in
      if \<not> qc_has_provider c then (Inr (Some headers), w)
      else (case qe_provider E w of (p, w') \<Rightarrow>
        (Inr (case p of Provided pairs \<Rightarrow> add_headers pairs headers | _ \<Rightarrow> None), w')))"

definition max_response_bytes :: nat where
  "max_response_bytes = 4 * 1024 * 1024"

text \<open>The names of all anchors, with the additional ones after those of the correlation.\<close>

definition add_anchor :: "pystr \<times> pystr \<Rightarrow> (pystr \<times> pystr) list \<Rightarrow> (pystr \<times> pystr) list res" where
  "add_anchor = (\<lambda>(name, v) anchors.
     bindE (opaque_ok v ''additional_anchor_value'') (\<lambda>_.
     bindE (opaque_ok name ''additional_anchor_name'') (\<lambda>_. Inr (AList.update name v anchors))))"

fun all_anchors :: "(pystr \<times> pystr) list \<Rightarrow> (pystr \<times> pystr) list \<Rightarrow> (pystr \<times> pystr) list res" where
  "all_anchors anchors [] = Inr anchors"
| "all_anchors anchors (a # additional) = bindE (add_anchor a anchors) (\<lambda>anchors'. all_anchors anchors' additional)"

definition judge_response ::
  "'s query_env \<Rightarrow> query_client \<Rightarrow> pystr \<Rightarrow> pystr \<Rightarrow> pystr \<Rightarrow> correlation \<Rightarrow> (pystr \<times> pystr) list \<Rightarrow> int \<Rightarrow> nat list
   \<Rightarrow> query_receipt res" where
  "judge_response E c operation backend path corr additional status body =
     (let hash = lit ''sha256:'' @ qe_digest E body;
          not_json = blocked_receipt E c operation backend path corr (lit ''query_response_not_json'') (Some status) (Some hash) in
      bindE (json_of_bytes (qe_float E) body) (\<lambda>parsed. case parsed of
        None \<Rightarrow> not_json
      | Some payload \<Rightarrow>
          bindE (all_anchors (correlation_dict corr) additional) (\<lambda>anchors.
          bindE (safe_url (qe_host_ok E) (qc_endpoint c)) (\<lambda>url.
          let matched = map fst (filter (\<lambda>(name, v). contains_exact payload v) anchors);
              ok = (length matched = length anchors) in
          Inr \<lparr>qr_schema_version = query_schema, qr_status = (if ok then lit ''VERIFIED'' else lit ''NOT_VERIFIED''),
            qr_backend = backend, qr_operation = operation, qr_endpoint = url, qr_path = path,
            qr_http_method = lit ''GET'', qr_read_only = True, qr_correlation = corr,
            qr_response_status = Some status, qr_response_hash = Some hash, qr_matched_fields = matched,
            qr_reason = (if ok then None else Some (lit ''correlation_anchors_not_all_observed''))\<rparr>))))"

definition judge_answer ::
  "'s query_env \<Rightarrow> query_client \<Rightarrow> pystr \<Rightarrow> pystr \<Rightarrow> pystr \<Rightarrow> correlation \<Rightarrow> (pystr \<times> pystr) list \<Rightarrow> obs_answer
   \<Rightarrow> query_receipt res" where
  "judge_answer E c operation backend path corr additional answer =
     (let stop = (\<lambda>reason status. blocked_receipt E c operation backend path corr (lit reason) status None) in
      case answer of
        TransportFailed \<Rightarrow> stop ''query_transport_failed'' None
      | TransportRaised e \<Rightarrow> Inl e
      | NotAResponse \<Rightarrow> stop ''invalid_transport_response'' None
      | ObsResponse status body \<Rightarrow>
          if \<not> (200 \<le> status \<and> status < 300) then stop ''query_returned_non_success'' (Some status)
          else (case body of
            None \<Rightarrow> stop ''query_response_too_large'' (Some status)
          | Some b \<Rightarrow>
              if max_response_bytes < length b then stop ''query_response_too_large'' (Some status)
              else judge_response E c operation backend path corr additional status b))"

definition send_query ::
  "'s query_env \<Rightarrow> pystr \<Rightarrow> (pystr \<times> pystr) list \<Rightarrow> ('s, obs_answer) actS" where
  "send_query E url headers w = (case qe_transport E url headers w of (answer, w') \<Rightarrow> (Inr answer, w'))"

fun contract_message :: "unit res \<Rightarrow> pystr option" where
  "contract_message (Inl (ObservabilityContractError m)) = Some m"
| "contract_message r = None"

definition query_json ::
  "'s query_env \<Rightarrow> query_client \<Rightarrow> pystr \<Rightarrow> pystr \<Rightarrow> pystr \<Rightarrow> correlation \<Rightarrow> (pystr \<times> pystr) list \<Rightarrow> (pystr \<times> pystr) list
   \<Rightarrow> ('s, query_receipt) actS" where
  "query_json E c operation backend path corr query additional =
     (let stop = (\<lambda>reason. liftS (blocked_receipt E c operation backend path corr reason None None)) in
      bindS (liftS (bindE (opaque_ok operation ''operation'') (\<lambda>_. opaque_ok backend ''backend''))) (\<lambda>_.
      case contract_message (validate_query_path path) of
        Some m \<Rightarrow> stop m
      | None \<Rightarrow>
          bindS (getS (\<lambda>w. auth_block_reason c (credential_status E c w))) (\<lambda>reason. case reason of
            Some m \<Rightarrow> stop m
          | None \<Rightarrow>
              bindS (liftS (query_url E c path query)) (\<lambda>url.
              bindS (provide_headers E c) (\<lambda>headers. case headers of
                None \<Rightarrow> stop (lit ''auth_provider_failed'')
              | Some hs \<Rightarrow>
                  bindS (send_query E url hs) (\<lambda>answer.
                  liftS (judge_answer E c operation backend path corr additional answer)))))))"

definition query_otel_trace ::
  "'s query_env \<Rightarrow> query_client \<Rightarrow> pystr \<Rightarrow> correlation \<Rightarrow> pystr option \<Rightarrow> ('s, query_receipt) actS" where
  "query_otel_trace E c trace_id corr query_path =
     (let operation = lit ''otel_trace''; backend = lit ''otel'';
          stop = (\<lambda>path reason. liftS (blocked_receipt E c operation backend path corr (lit reason) None None));
          given = (case query_path of Some p \<Rightarrow> if p = [] then ep_query_path (qc_endpoint c) else Some p
                   | None \<Rightarrow> ep_query_path (qc_endpoint c)) in
      case given of
        None \<Rightarrow> stop [47] ''otel_query_path_not_configured''
      | Some path \<Rightarrow>
          if \<not> is_trace_id trace_id then stop path ''invalid_trace_id''
          else if endswith (rstrip_slash path) (lit ''/v1/traces'') then stop path ''otel_export_path_is_not_query_path''
          else query_json E c operation backend path corr [(lit ''traceId'', trace_id)] [(lit ''trace_id'', trace_id)])"

text \<open>The path of an evaluation task, of its runs and of a dataset.\<close>

definition agentloop_path :: "pystr \<Rightarrow> pystr \<Rightarrow> string \<Rightarrow> pystr \<Rightarrow> pystr \<Rightarrow> string \<Rightarrow> pystr \<Rightarrow> pystr res" where
  "agentloop_path before agent_space space_field middle item item_field after =
     bindE (opaque_ok agent_space space_field) (\<lambda>_. bindE (quote [] agent_space) (\<lambda>space.
     bindE (opaque_ok item item_field) (\<lambda>_. bindE (quote [] item) (\<lambda>quoted.
     Inr (before @ space @ middle @ quoted @ after)))))"

definition query_agentloop ::
  "'s query_env \<Rightarrow> query_client \<Rightarrow> string \<Rightarrow> pystr res \<Rightarrow> correlation \<Rightarrow> ('s, query_receipt) actS" where
  "query_agentloop E c operation path corr =
     bindS (liftS path) (\<lambda>path. query_json E c (lit operation) (lit ''agentloop'') path corr [] [])"

definition query_agentloop_evaluation_task ::
  "'s query_env \<Rightarrow> query_client \<Rightarrow> pystr \<Rightarrow> pystr \<Rightarrow> correlation \<Rightarrow> ('s, query_receipt) actS" where
  "query_agentloop_evaluation_task E c agent_space task_id corr =
     query_agentloop E c ''evaluation_task''
       (agentloop_path (lit ''/api/v1/evaluation-task/'') agent_space ''agent_space'' [47] task_id ''task_id'' []) corr"

definition query_agentloop_evaluation_runs ::
  "'s query_env \<Rightarrow> query_client \<Rightarrow> pystr \<Rightarrow> pystr \<Rightarrow> correlation \<Rightarrow> ('s, query_receipt) actS" where
  "query_agentloop_evaluation_runs E c agent_space task_id corr =
     query_agentloop E c ''evaluation_runs''
       (agentloop_path (lit ''/api/v1/evaluation-task/'') agent_space ''agent_space'' [47] task_id ''task_id'' (lit ''/runs'')) corr"

definition query_agentloop_dataset ::
  "'s query_env \<Rightarrow> query_client \<Rightarrow> pystr \<Rightarrow> pystr \<Rightarrow> correlation \<Rightarrow> ('s, query_receipt) actS" where
  "query_agentloop_dataset E c agent_space dataset_id corr =
     query_agentloop E c ''golden_dataset''
       (agentloop_path (lit ''/agentspace/'') agent_space ''agent_space'' (lit ''/dataset/'') dataset_id ''dataset_id'' []) corr"

section \<open>Two observations of one run\<close>

type_synonym observation = "(pystr \<times> json) list"

definition hero_tuple_fields :: "string list" where
  "hero_tuple_fields = [''campaign_id'', ''run_id'', ''pg_revision'', ''content_hash'', ''trace_id'']"

definition hero_fields :: "string list" where
  "hero_fields = hero_tuple_fields @ [''source'', ''provider'', ''model'', ''usage'', ''latency_ms'', ''synthetic'']"

definition obs_field :: "observation \<Rightarrow> string \<Rightarrow> json" where
  "obs_field d key = (case map_of d (lit key) of None \<Rightarrow> JNull | Some v \<Rightarrow> v)"

definition text_field :: "observation \<Rightarrow> string \<Rightarrow> (pystr \<Rightarrow> bool) \<Rightarrow> bool" where
  "text_field d key P = (case obs_field d key of JStr s \<Rightarrow> P s | _ \<Rightarrow> False)"

text \<open>
  \<open>math.isfinite\<close> of an integer that is too large for a float raises \<open>OverflowError\<close>, which is no
  \<open>ValueError\<close>; the smallest such integer lies half a unit above the largest float.
\<close>

definition latency_ok :: "json \<Rightarrow> bool res" where
  "latency_ok v = (case v of
     JInt i \<Rightarrow> if 2 ^ 1024 - 2 ^ 970 \<le> \<bar>i\<bar> then Inl (OtherException (lit ''OverflowError'')) else Inr (0 \<le> i)
   | JFloat (FDec negative m e) \<Rightarrow> Inr (\<not> (negative \<and> m \<noteq> 0))
   | _ \<Rightarrow> Inr False)"

definition usage_ok :: "json \<Rightarrow> bool" where
  "usage_ok v = (case v of JObj kvs \<Rightarrow> kvs \<noteq> [] | _ \<Rightarrow> False)"

definition hero_stop :: "string \<Rightarrow> string \<Rightarrow> observation" where
  "hero_stop status reason = [(lit ''status'', JStr (lit status)), (lit ''reason'', JStr (lit reason))]"

text \<open>The answer for an observation that is not accepted, or its fields.\<close>

definition check_observation :: "json \<Rightarrow> string \<Rightarrow> (observation + observation) res" where
  "check_observation v source = (case v of
     JObj d \<Rightarrow>
       if list_ex (\<lambda>key. map_of d (lit key) = None) hero_fields
         then Inr (Inl (hero_stop ''NOT_AVAILABLE'' ''missing_observation_fields''))
       else if obs_field d ''source'' \<noteq> JStr (lit source) then Inr (Inl (hero_stop ''BLOCKED'' ''observation_source_mismatch''))
       else if obs_field d ''synthetic'' \<noteq> JBool False then Inr (Inl (hero_stop ''BLOCKED'' ''synthetic_observation''))
       else
         bindE (if list_all (\<lambda>key. text_field d key is_obs_identifier) [''campaign_id'', ''run_id'', ''pg_revision'']
                  \<and> text_field d ''content_hash'' is_sha256 \<and> text_field d ''trace_id'' is_trace_id
                  \<and> text_field d ''provider'' (\<lambda>s. strip s \<noteq> []) \<and> text_field d ''model'' (\<lambda>s. strip s \<noteq> [])
                  \<and> usage_ok (obs_field d ''usage'')
                then latency_ok (obs_field d ''latency_ms'') else Inr False) (\<lambda>ok.
         Inr (if ok then Inr d else Inl (hero_stop ''BLOCKED'' ''invalid_observation'')))
   | _ \<Rightarrow> Inr (Inl (hero_stop ''BLOCKED'' ''observation_not_object'')))"

definition verify_hero_correlation :: "json \<Rightarrow> json \<Rightarrow> observation res" where
  "verify_hero_correlation otel_export agentloop_query =
     bindE (check_observation otel_export ''otel_export'') (\<lambda>first. case first of
       Inl answer \<Rightarrow> Inr answer
     | Inr a \<Rightarrow>
         bindE (check_observation agentloop_query ''agentloop_query'') (\<lambda>second. case second of
           Inl answer \<Rightarrow> Inr answer
         | Inr b \<Rightarrow>
             if map (obs_field a) hero_tuple_fields \<noteq> map (obs_field b) hero_tuple_fields
             then Inr (hero_stop ''BLOCKED'' ''authority_tuple_mismatch'')
             else Inr
               [(lit ''status'', JStr (lit ''VERIFIED'')),
                (lit ''authority_tuple'', JObj (map (\<lambda>key. (lit key, obs_field a key)) hero_tuple_fields)),
                (lit ''sources'', JArr [JStr (lit ''otel_export''), JStr (lit ''agentloop_query'')])]))"

section \<open>What a verified receipt says\<close>

lemma blocked_receipt_status: "blocked_receipt E c operation backend path corr reason status hash = Inr r \<Longrightarrow> qr_status r = lit ''BLOCKED''"
  by (auto simp: blocked_receipt_def)

text \<open>The anchors are those of the correlation and the additional ones, of which the last of a name counts.\<close>

lemma all_anchors_correlation:
  assumes "all_anchors anchors additional = Inr anchors'" and "name \<notin> fst ` set additional"
  shows "map_of anchors' name = map_of anchors name"
  using assms
  by (induction additional arbitrary: anchors) (auto simp: add_anchor_def update_conv')

lemma map_filter_all: "length (filter P xs) = length xs \<Longrightarrow> x \<in> set xs \<Longrightarrow> P x"
  by (metis filter_id_conv length_filter_less linorder_not_less order_refl)

lemma judge_response_verified:
  assumes "judge_response E c operation backend path corr additional status body = Inr r" and "qr_status r = lit ''VERIFIED''"
  shows "\<exists>payload anchors. json_of_bytes (qe_float E) body = Inr (Some payload)
    \<and> all_anchors (correlation_dict corr) additional = Inr anchors \<and> (\<forall>(name, v)\<in>set anchors. contains_exact payload v)
    \<and> qr_matched_fields r = map fst anchors \<and> qr_response_hash r = Some (lit ''sha256:'' @ qe_digest E body)
    \<and> qr_response_status r = Some status \<and> qr_correlation r = corr \<and> qr_read_only r \<and> qr_http_method r = lit ''GET''"
proof -
  have blocked: False if "blocked_receipt E c operation backend path corr m st h = Inr r" for m st h
    using blocked_receipt_status[OF that] assms(2) by simp
  obtain payload where payload: "json_of_bytes (qe_float E) body = Inr (Some payload)"
    using assms by (auto dest: blocked simp: judge_response_def Let_def split: option.splits)
  obtain anchors url where a: "all_anchors (correlation_dict corr) additional = Inr anchors"
      "safe_url (qe_host_ok E) (qc_endpoint c) = Inr url"
    using assms(1) payload by (auto simp: judge_response_def Let_def)
  let ?match = "\<lambda>(name, v). contains_exact payload v"
  have r: "qr_status r = (if length (filter ?match anchors) = length anchors then lit ''VERIFIED'' else lit ''NOT_VERIFIED'')"
      "qr_matched_fields r = map fst (filter ?match anchors)" "qr_response_hash r = Some (lit ''sha256:'' @ qe_digest E body)"
      "qr_response_status r = Some status" "qr_correlation r = corr" "qr_read_only r" "qr_http_method r = lit ''GET''"
    using assms(1) payload a by (auto simp: judge_response_def Let_def)
  then have all: "length (filter ?match anchors) = length anchors" using assms(2) by (simp split: if_splits)
  then have "filter ?match anchors = anchors" using map_filter_all[OF all] by (simp add: filter_id_conv)
  with r payload a map_filter_all[OF all] show ?thesis by auto
qed

text \<open>
  A receipt says \<open>VERIFIED\<close> only after one request was sent, to which a successful response came whose JSON
  value holds every anchor and whose exact bytes have the digest of the receipt.
\<close>

lemma verified_receipt_is_grounded:
  assumes "query_json E c operation backend path corr query additional w = (Inr r, w')" and "qr_status r = lit ''VERIFIED''"
  shows "\<exists>url headers w1 status body payload. qe_transport E url headers w1 = (ObsResponse status (Some body), w')
    \<and> query_url E c path query = Inr url \<and> 200 \<le> status \<and> status < 300 \<and> length body \<le> max_response_bytes
    \<and> json_of_bytes (qe_float E) body = Inr (Some payload) \<and> qr_response_hash r = Some (lit ''sha256:'' @ qe_digest E body)
    \<and> qr_correlation r = corr
    \<and> (\<exists>anchors. all_anchors (correlation_dict corr) additional = Inr anchors
         \<and> (\<forall>(name, v)\<in>set anchors. contains_exact payload v) \<and> qr_matched_fields r = map fst anchors)"
proof -
  have blocked: False if "blocked_receipt E c operation backend path corr m st h = Inr r" for m st h
    using blocked_receipt_status[OF that] assms(2) by simp
  obtain url w1 hs answer where q: "query_url E c path query = Inr url" "send_query E url hs w1 = (Inr answer, w')"
      "judge_answer E c operation backend path corr additional answer = Inr r"
    using assms(1)
    by (auto dest: blocked simp: query_json_def Let_def bindS_def liftS_def getS_def split: option.splits sum.splits prod.splits)
  obtain status body where body: "answer = ObsResponse status (Some body)" "200 \<le> status" "status < 300"
      "length body \<le> max_response_bytes" "judge_response E c operation backend path corr additional status body = Inr r"
    using q(3) by (auto dest: blocked simp: judge_answer_def Let_def not_less split: obs_answer.splits option.splits if_splits)
  have "qe_transport E url hs w1 = (answer, w')" using q(2) by (auto simp: send_query_def split: prod.splits)
  with q(1) body judge_response_verified[OF body(5) assms(2)] show ?thesis by blast
qed

end
