(* ===== verification/Skill_Adapters.thy ===== *)
theory Skill_Adapters
  imports Skill_Lifecycle Skill_Registry Obs_Query Authority_Hitl Authority_Ledger
begin

text \<open>
  \<open>testweaver/skillops/publish.py\<close> and \<open>provenance.py\<close>: package references and their verification against a
  readback, and the adapters that turn an attestation of the authority, a receipt of an observability query or
  an entry of the side-effect ledger into a verified readback of the Skill lifecycle.
\<close>

section \<open>Sealed dictionaries of texts\<close>

text \<open>\<open>json.dumps\<close> of a dict of texts with sorted keys, which escapes everything outside printable ASCII.\<close>

definition u_escape :: "nat \<Rightarrow> pystr" where
  "u_escape c = [92, 117, hex_digit (c div 4096), hex_digit (c div 256 mod 16), hex_digit (c div 16 mod 16), hex_digit (c mod 16)]"

definition ascii_escape :: "nat \<Rightarrow> pystr" where
  "ascii_escape c =
     (if c = 34 \<or> c = 92 then [92, c]
      else if 32 \<le> c \<and> c \<le> 126 then [c]
      else if c = 10 then [92, 110] else if c = 13 then [92, 114] else if c = 9 then [92, 116]
      else if c = 12 then [92, 102] else if c = 8 then [92, 98]
      else if c < 65536 then u_escape c
      else u_escape (55296 + (c - 65536) div 1024) @ u_escape (56320 + (c - 65536) mod 1024))"

definition ascii_string :: "pystr \<Rightarrow> pystr" where
  "ascii_string s = [34] @ concat (map ascii_escape s) @ [34]"

definition ascii_dumps :: "(pystr \<times> pystr) list \<Rightarrow> pystr" where
  "ascii_dumps d = [123] @ join [44] (map (\<lambda>(k, v). ascii_string k @ [58] @ ascii_string v) (sort_key fst d)) @ [125]"

definition sealed_dict :: "bytes_hasher \<Rightarrow> (pystr \<times> pystr) list \<Rightarrow> (pystr \<times> pystr) list" where
  "sealed_dict HB d = d @ [(lit ''record_hash'', raw_digest HB (ascii_dumps d))]"

section \<open>Package references\<close>

definition perr :: "string \<Rightarrow> exc" where
  "perr m = NativePackageError (lit m)"

definition package_hash_ok :: "json \<Rightarrow> string \<Rightarrow> pystr res" where
  "package_hash_ok v field = (case v of
     JStr s \<Rightarrow> if is_sha256 s then Inr s else Inl (NativePackageError (lit field @ lit '' must be a sha256 digest''))
   | _ \<Rightarrow> Inl (NativePackageError (lit field @ lit '' must be a sha256 digest'')))"

definition package_ref_ok :: "json \<Rightarrow> string \<Rightarrow> pystr res" where
  "package_ref_ok v field = (case v of
     JStr s \<Rightarrow> if ref_pattern s then Inr s else Inl (NativePackageError (lit field @ lit '' must be a bounded reference''))
   | _ \<Rightarrow> Inl (NativePackageError (lit field @ lit '' must be a bounded reference'')))"

definition package_uri_ok :: "(pystr \<Rightarrow> bool) \<Rightarrow> json \<Rightarrow> pystr res" where
  "package_uri_ok host_ok v =
     (let bad = Inl (perr ''package_uri must be a bounded nacos reference'') in
      case v of
        JStr s \<Rightarrow>
          if \<not> ref_pattern s then bad
          else bindE (urlsplit host_ok s) (\<lambda>u.
            if ul_scheme u \<noteq> lit ''nacos'' \<or> ul_netloc u = [] \<or> ul_path u = [] \<or> has_credentials u \<or> ul_fragment u \<noteq> []
            then Inl (perr ''package_uri must be a credential-free nacos URI'') else Inr s)
      | _ \<Rightarrow> bad)"

record package_ref =
  pk_uri :: pystr
  pk_version :: pystr
  pk_content_hash :: pystr
  pk_rollback_ref :: pystr

definition package_ref_init :: "(pystr \<Rightarrow> bool) \<Rightarrow> package_ref \<Rightarrow> unit res" where
  "package_ref_init host_ok p =
     bindE (package_uri_ok host_ok (JStr (pk_uri p))) (\<lambda>_.
     bindE (raise_if (\<not> version_pattern (pk_version p)) (perr ''version must be semantic version'')) (\<lambda>_.
     bindE (package_hash_ok (JStr (pk_content_hash p)) ''content_hash'') (\<lambda>_.
     bindE (package_ref_ok (JStr (pk_rollback_ref p)) ''rollback_ref'') (\<lambda>_. Inr ()))))"

definition publish_actions :: "string list" where
  "publish_actions = [''CANARY'', ''PROMOTE'', ''ROLLBACK'']"

definition build_native_publish_intent :: "package_ref \<Rightarrow> pystr \<Rightarrow> (pystr \<times> pystr) list res" where
  "build_native_publish_intent p action =
     bindE (raise_if (action \<notin> set (map lit publish_actions)) (perr ''publish action is unsupported'')) (\<lambda>_.
     Inr [(lit ''schema_version'', lit ''testweaver.native-package-intent/v1''), (lit ''action'', action),
       (lit ''package_uri'', pk_uri p), (lit ''version'', pk_version p), (lit ''content_hash'', pk_content_hash p),
       (lit ''rollback_ref'', pk_rollback_ref p)])"

definition readback_fields :: "string list" where
  "readback_fields = [''package_uri'', ''version'', ''content_hash'', ''readback_ref'']"

definition check_readback_token :: "external_readback option \<Rightarrow> external_readback res" where
  "check_readback_token token = (case token of
     None \<Rightarrow> Inl (perr ''native package readback requires an external token'')
   | Some t \<Rightarrow> bindE (seqE
       [raise_if (\<not> verified t) (perr ''native package readback requires an external token''),
        raise_if (rb_source t \<noteq> lit ''nacos'') (perr ''native package readback token source is invalid''),
        raise_if (rb_classification t \<noteq> lit ''NATIVE_TRANSPORT'') (perr ''native package readback is UNATTESTED_PARTIAL'')])
       (\<lambda>_. Inr t))"

definition verify_native_package_readback ::
  "bytes_hasher \<Rightarrow> (pystr \<Rightarrow> bool) \<Rightarrow> package_ref \<Rightarrow> pystr \<Rightarrow> json \<Rightarrow> external_readback option \<Rightarrow> (pystr \<times> pystr) list res" where
  "verify_native_package_readback HB host_ok p action readback token =
     bindE (build_native_publish_intent p action) (\<lambda>_.
     bindE (raise_if (action \<noteq> lit ''CANARY'')
       (perr ''PROMOTE/ROLLBACK require an exact operation receipt via verify_close'')) (\<lambda>_.
     case readback of
       JObj d \<Rightarrow>
         bindE (check_readback_token token) (\<lambda>t.
         bindE (raise_if (list_ex (\<lambda>f. map_of d (lit f) = None) readback_fields) (perr ''native package readback is incomplete'')) (\<lambda>_.
         bindE (package_uri_ok host_ok (dict_get d ''package_uri'')) (\<lambda>uri.
         bindE (package_hash_ok (dict_get d ''content_hash'') ''readback.content_hash'') (\<lambda>content_hash.
         bindE (package_ref_ok (dict_get d ''readback_ref'') ''readback_ref'') (\<lambda>ref.
         bindE (seqE
           [raise_if (rb_ref t \<noteq> ref) (perr ''native package readback token does not match readback''),
            raise_if (uri \<noteq> pk_uri p \<or> dict_get d ''version'' \<noteq> JStr (pk_version p) \<or> content_hash \<noteq> pk_content_hash p)
              (perr ''native package readback does not match candidate''),
            raise_if (rb_claim t ''version'' \<noteq> Some (pk_version p) \<or> rb_claim t ''content_hash'' \<noteq> Some (pk_content_hash p))
              (perr ''native transport receipt does not match candidate'')]) (\<lambda>_.
         Inr (sealed_dict HB
           [(lit ''schema_version'', lit ''testweaver.native-package-readback/v1''), (lit ''action'', action),
            (lit ''package_uri'', uri), (lit ''version'', pk_version p), (lit ''content_hash'', content_hash),
            (lit ''readback_ref'', ref), (lit ''rollback_ref'', pk_rollback_ref p)])))))))
     | _ \<Rightarrow> Inl (perr ''native package readback must be an object'')))"

text \<open>The tuple that the registry must have confirmed, and the components of a package path.\<close>

definition candidate_tuple :: "pystr \<Rightarrow> pystr \<Rightarrow> pystr \<Rightarrow> package_ref \<Rightarrow> (string \<times> pystr) list" where
  "candidate_tuple endpoint namespace name p =
     [(''endpoint'', endpoint), (''namespace_id'', namespace), (''skill_name'', name), (''version'', pk_version p),
      (''content_hash'', pk_content_hash p)]"

definition observed_tuple :: "candidate_readback \<Rightarrow> (string \<times> pystr) list" where
  "observed_tuple r =
     [(''endpoint'', cr_endpoint r), (''namespace_id'', cr_namespace r), (''skill_name'', cr_skill r), (''version'', cr_version r),
      (''content_hash'', cr_package_hash r)]"

definition verify_nacos_candidate_readback ::
  "bytes_hasher \<Rightarrow> (pystr \<Rightarrow> bool) \<Rightarrow> package_ref \<Rightarrow> pystr \<Rightarrow> candidate_readback \<Rightarrow> pystr \<Rightarrow> pystr \<Rightarrow> (pystr \<times> pystr) list res" where
  "verify_nacos_candidate_readback HB host_ok p name r expected_endpoint expected_namespace =
     bindE (raise_if (\<not> candidate_verified r) (perr ''candidate publish requires native Nacos provenance'')) (\<lambda>_.
     bindE (urlsplit host_ok expected_endpoint) (\<lambda>u.
     bindE (raise_if (ul_scheme u \<notin> {lit ''http'', lit ''https''} \<or> ul_netloc u = [] \<or> has_credentials u
         \<or> ul_query u \<noteq> [] \<or> ul_fragment u \<noteq> []) (perr ''expected Nacos endpoint is invalid'')) (\<lambda>_.
     let endpoint = rstrip_slash expected_endpoint in
     bindE (package_ref_ok (JStr expected_namespace) ''expected_namespace'') (\<lambda>namespace.
     bindE (package_ref_ok (JStr name) ''skill_name'') (\<lambda>name.
     bindE (urlsplit host_ok (pk_uri p)) (\<lambda>uri.
     let path = filter (\<lambda>part. part \<noteq> []) (split_on 47 (ul_path uri)); expected = candidate_tuple endpoint namespace name p in
     bindE (seqE
       [raise_if (path = [] \<or> hd path \<noteq> namespace) (perr ''candidate package URI crosses the Nacos namespace''),
        raise_if (observed_tuple r \<noteq> expected \<or> \<not> claims_match (cr_token r) expected)
          (perr ''native Nacos readback does not match candidate''),
        raise_if (rb_claim (cr_token r) ''admin_response_hash'' \<noteq> Some (cr_response_hash r)
            \<or> rb_claim (cr_token r) ''registry_status'' \<noteq> Some (cr_status r)
            \<or> cr_status r \<notin> {lit ''online'', lit ''published''})
          (perr ''native Nacos governance readback is not publish-complete'')]) (\<lambda>_.
     Inr (sealed_dict HB
       ((lit ''schema_version'', lit ''testweaver.nacos-candidate-verification/v1'') # map (\<lambda>(k, v). (lit k, v)) expected
        @ [(lit ''registry_status'', cr_status r), (lit ''admin_response_hash'', cr_response_hash r),
           (lit ''readback_ref'', cr_ref r), (lit ''classification'', lit ''LIVE_ATTESTED'')])))))))))"

section \<open>Readbacks from the authority\<close>

definition readback_digest :: "bytes_hasher \<Rightarrow> nat list \<Rightarrow> pystr res" where
  "readback_digest HB raw = (if raw = [] then Inl (serr ''exact readback bytes are required'') else Inr (raw_digest HB raw))"

definition attestation_claims :: "attestation \<Rightarrow> (string \<times> pystr) list" where
  "attestation_claims a =
     [(''campaign_id'', at_campaign_id a), (''run_id'', at_run_id a), (''trace_id'', at_trace_id a),
      (''revision'', int_str (at_revision a)), (''sender'', at_sender a), (''identity_ref'', at_identity_ref a),
      (''approval_id'', at_approval_id a),
      (''decision'', if at_decision a = Some (lit ''APPROVE'') then lit ''APPROVE'' else lit ''REJECT''),
      (''decision_revision'', int_str (at_revision a))]"

definition matrix_readback_from_authority :: "hasher \<Rightarrow> bytes_hasher \<Rightarrow> attestation \<Rightarrow> nat list \<Rightarrow> external_readback res" where
  "matrix_readback_from_authority H HB a raw =
     (case attestation_validate H a of
        Inl e \<Rightarrow> Inl (serr ''Matrix authority attestation is invalid'')
      | Inr u \<Rightarrow>
          bindE (raise_if (at_phase a \<notin> {lit ''APPROVE'', lit ''DENY''}) (serr ''Matrix receipt is not a Human decision'')) (\<lambda>_.
          bindE (readback_digest HB raw) (\<lambda>digest.
          bindE (raise_if (at_event_hash a \<noteq> digest) (serr ''Matrix receipt does not bind the exact event bytes'')) (\<lambda>_.
          issue_readback HB (lit ''matrix'') (at_event_ref a) raw (lit ''AUTHORITY_RECEIPT'')
            (sorted_claims (attestation_claims a)) True))))"

section \<open>Readbacks from observability\<close>

text \<open>Equality of a dict from JSON with a dict of texts, and \<open>set(d) == {...}\<close>.\<close>

definition is_text_dict :: "json \<Rightarrow> (pystr \<times> pystr) list \<Rightarrow> bool" where
  "is_text_dict v d = (case v of JObj kvs \<Rightarrow> set kvs = set (map (\<lambda>(k, t). (k, JStr t)) d) | _ \<Rightarrow> False)"

definition has_keys :: "(pystr \<times> json) list \<Rightarrow> string list \<Rightarrow> bool" where
  "has_keys d names \<longleftrightarrow> set (map fst d) = set (map lit names)"

definition texts_match :: "(pystr \<times> json) list \<Rightarrow> (string \<times> pystr) list \<Rightarrow> bool" where
  "texts_match d expected \<longleftrightarrow> list_all (\<lambda>(key, v). dict_get d key = JStr v) expected"

definition bound_json :: "(pystr \<Rightarrow> pyfloat) \<Rightarrow> nat list \<Rightarrow> string \<Rightarrow> json res" where
  "bound_json F raw message =
     bindE (json_of_bytes F raw) (\<lambda>parsed. case parsed of None \<Rightarrow> Inl (serr message) | Some v \<Rightarrow> Inr v)"

definition agentloop_receipt_ok :: "query_receipt \<Rightarrow> bool" where
  "agentloop_receipt_ok r \<longleftrightarrow>
     qr_schema_version r = lit ''testweaver.observability-query/v1'' \<and> qr_status r = lit ''VERIFIED''
     \<and> qr_backend r = lit ''agentloop'' \<and> qr_operation r = lit ''evaluation_verdict'' \<and> qr_http_method r = lit ''GET''
     \<and> qr_read_only r \<and> (case qr_response_status r of None \<Rightarrow> False | Some s \<Rightarrow> 200 \<le> s \<and> s < 300)"

definition verdict_texts :: "pystr \<Rightarrow> pystr \<Rightarrow> pystr \<Rightarrow> pystr \<Rightarrow> (string \<times> pystr) list" where
  "verdict_texts dataset_ref dataset_hash evaluation_ref evaluation_hash =
     [(''schema_version'', lit ''testweaver.agentloop-verdict/v1''), (''dataset_ref'', dataset_ref),
      (''dataset_hash'', dataset_hash), (''evaluation_ref'', evaluation_ref), (''evaluation_hash'', evaluation_hash)]"

definition verdict_of :: "json \<Rightarrow> (string \<times> pystr) list \<Rightarrow> correlation \<Rightarrow> pystr res" where
  "verdict_of v expected corr =
     (let bad = serr ''AgentLoop verdict is not bound to the frozen evaluation'' in
      case v of
        JObj d \<Rightarrow>
          bindE (raise_if (\<not> has_keys d (map fst expected @ [''verdict'', ''authority_scope''])) bad) (\<lambda>_.
          bindE (check_member (dict_get d ''verdict'') [''PASS'', ''FAIL'', ''BLOCKED''] bad) (\<lambda>_.
          bindE (raise_if (\<not> texts_match d expected \<or> \<not> is_text_dict (dict_get d ''authority_scope'') (correlation_dict corr)) bad) (\<lambda>_.
          case dict_get d ''verdict'' of JStr s \<Rightarrow> Inr s | _ \<Rightarrow> Inl bad)))
      | _ \<Rightarrow> Inl bad)"

definition agentloop_readback_from_observability ::
  "bytes_hasher \<Rightarrow> (pystr \<Rightarrow> pyfloat) \<Rightarrow> query_receipt \<Rightarrow> nat list \<Rightarrow> pystr \<Rightarrow> pystr \<Rightarrow> pystr \<Rightarrow> pystr \<Rightarrow> external_readback res" where
  "agentloop_readback_from_observability HB F r raw dataset_ref dataset_hash evaluation_ref evaluation_hash =
     (let unproven = serr ''AgentLoop readback lacks verified native provenance''; corr = qr_correlation r;
          expected = verdict_texts dataset_ref dataset_hash evaluation_ref evaluation_hash in
      bindE (raise_if (\<not> agentloop_receipt_ok r) unproven) (\<lambda>_.
      bindE (readback_digest HB raw) (\<lambda>digest.
      bindE (raise_if (qr_response_hash r \<noteq> Some digest
          \<or> \<not> set (map fst (correlation_dict corr)) \<subseteq> set (qr_matched_fields r)) unproven) (\<lambda>_.
      bindE (bound_json F raw ''AgentLoop verdict readback must be exact JSON'') (\<lambda>v.
      bindE (verdict_of v expected corr) (\<lambda>verdict.
      bindE (seqE
        [skill_ref dataset_ref ''dataset_ref'', skill_ref evaluation_ref ''evaluation_ref'',
         skill_hash dataset_hash ''dataset_hash'', skill_hash evaluation_hash ''evaluation_hash'']) (\<lambda>_.
      issue_readback HB (lit ''agentloop'') (qr_endpoint r @ qr_path r) raw (lit ''AUTHORITY_RECEIPT'')
        (sort_key fst (correlation_dict corr @ map (\<lambda>(k, v). (lit k, v))
          [(''endpoint'', qr_endpoint r), (''operation'', qr_operation r), (''dataset_ref'', dataset_ref),
           (''dataset_hash'', dataset_hash), (''evaluation_ref'', evaluation_ref), (''evaluation_hash'', evaluation_hash),
           (''verdict'', verdict)])) True)))))))"

section \<open>Readbacks from the ledger\<close>

definition operation_entry_ok :: "side_effect_entry \<Rightarrow> skill_receipt \<Rightarrow> skill_proposal \<Rightarrow> bool" where
  "operation_entry_ok e r p \<longleftrightarrow>
     se_operation e = (if sr_action r = lit ''PROMOTE'' then lit ''skill.promote'' else lit ''skill.rollback'')
     \<and> se_tool_ref e = lit ''official-agentspec-agt'' \<and> se_target_ref e = sp_proposal_id p \<and> se_decision e = lit ''allow''
     \<and> se_effect e \<in> {lit ''write'', lit ''external''} \<and> se_fencing e = lit ''passed'' \<and> se_observed e
     \<and> se_provenance e = lit ''agentteams-native''"

definition operation_fields :: "string list" where
  "operation_fields =
     [''schema_version'', ''status'', ''operation_ref'', ''action'', ''active_version'', ''proposal_ref'', ''proposal_hash'',
      ''receipt_ref'', ''receipt_hash'', ''content_hash'', ''verified_at'', ''authority_scope'']"

definition operation_texts :: "side_effect_entry \<Rightarrow> skill_receipt \<Rightarrow> skill_proposal \<Rightarrow> (string \<times> pystr) list" where
  "operation_texts e r p =
     [(''schema_version'', lit ''testweaver.skill-operation-result/v1''), (''status'', lit ''APPLIED''),
      (''operation_ref'', se_call_ref e), (''action'', sr_action r), (''active_version'', sr_active_version r),
      (''proposal_ref'', sp_proposal_id p), (''proposal_hash'', sp_record_hash p), (''receipt_ref'', sr_receipt_id r),
      (''receipt_hash'', sr_record_hash r), (''content_hash'', sp_content_hash p)]"

definition scope_fields :: "string list" where
  "scope_fields = [''campaign_id'', ''run_id'', ''trace_id'', ''pg_revision'', ''content_hash'']"

definition scope_text :: "(pystr \<times> json) list \<Rightarrow> string \<Rightarrow> string \<Rightarrow> (pystr \<Rightarrow> string \<Rightarrow> unit res) \<Rightarrow> string \<Rightarrow> pystr res" where
  "scope_text scope key field check wrong_type = (case dict_get scope key of
     JStr s \<Rightarrow> bindE (check s field) (\<lambda>_. Inr s)
   | _ \<Rightarrow> Inl (SkillOpsError (lit field @ lit wrong_type)))"

text \<open>The two texts of the scope of a result that the claims carry besides those of the entry.\<close>

definition operation_scope :: "side_effect_entry \<Rightarrow> json \<Rightarrow> (pystr \<times> pystr) res" where
  "operation_scope e v =
     (let crossed = serr ''Skill operation result crosses the authority boundary'' in
      case v of
        JObj scope \<Rightarrow>
          bindE (raise_if (\<not> texts_match scope [(''campaign_id'', se_campaign_id e), (''run_id'', se_run_id e), (''trace_id'', se_trace_id e)]
              \<or> \<not> has_keys scope scope_fields) crossed) (\<lambda>_.
          bindE (scope_text scope ''pg_revision'' ''authority_scope.pg_revision'' skill_ref '' must be a bounded string'') (\<lambda>revision.
          bindE (scope_text scope ''content_hash'' ''authority_scope.content_hash'' skill_hash '' must be a sha256 digest'') (\<lambda>content_hash.
          Inr (revision, content_hash))))
      | _ \<Rightarrow> Inl crossed)"

text \<open>The time of a result that is not a text is rejected like any malformed record.\<close>

definition verify_skill_operation_receipt ::
  "hasher \<Rightarrow> bytes_hasher \<Rightarrow> (pystr \<Rightarrow> pyfloat) \<Rightarrow> side_effect_entry \<Rightarrow> nat list \<Rightarrow> skill_receipt \<Rightarrow> skill_proposal
   \<Rightarrow> operation_verification res" where
  "verify_skill_operation_receipt H HB F e raw r p =
     (let unproven = serr ''AgentTeams receipt does not prove the requested operation'' in
      case entry_validate H e of
        Inl x \<Rightarrow> Inl (serr ''AgentTeams side-effect receipt is invalid'')
      | Inr u \<Rightarrow>
          bindE (raise_if (\<not> operation_entry_ok e r p) unproven) (\<lambda>_.
          bindE (readback_digest HB raw) (\<lambda>digest.
          bindE (raise_if (se_result_hash e \<noteq> Some digest) unproven) (\<lambda>_.
          bindE (bound_json F raw ''Skill operation readback must be exact JSON'') (\<lambda>v. case v of
            JObj d \<Rightarrow>
              bindE (seqE
                [raise_if (\<not> has_keys d operation_fields) (serr ''Skill operation readback has an unsupported shape''),
                 raise_if (\<not> texts_match d (operation_texts e r p)) (serr ''Skill operation result does not match pending close'')]) (\<lambda>_.
              bindE (operation_scope e (dict_get d ''authority_scope'')) (\<lambda>(revision, authority_hash).
              bindE (issue_readback HB (lit ''agentteams'') (se_call_ref e) raw (lit ''AUTHORITY_RECEIPT'')
                (sorted_claims
                  [(''action'', sr_action r), (''active_version'', sr_active_version r), (''content_hash'', sp_content_hash p),
                   (''proposal_ref'', sp_proposal_id p), (''proposal_hash'', sp_record_hash p), (''receipt_ref'', sr_receipt_id r),
                   (''receipt_hash'', sr_record_hash r), (''campaign_id'', se_campaign_id e), (''run_id'', se_run_id e),
                   (''trace_id'', se_trace_id e), (''pg_revision'', revision), (''authority_content_hash'', authority_hash)]) True) (\<lambda>token.
              case dict_get d ''verified_at'' of
                JStr verified_at \<Rightarrow> operation_create H
                  \<lparr>ov_verification_ref = lit ''skillops-close:'' @ se_entry_id e, ov_operation_ref = se_call_ref e,
                   ov_operation_hash = rb_raw_hash token, ov_receipt_ref = sr_receipt_id r, ov_receipt_hash = sr_record_hash r,
                   ov_proposal_ref = sp_proposal_id p, ov_proposal_hash = sp_record_hash p, ov_run_id = se_run_id e,
                   ov_action = sr_action r, ov_active_version = sr_active_version r, ov_content_hash = sp_content_hash p,
                   ov_verified_at = verified_at, ov_record_hash = [], ov_token = Some token\<rparr>
              | _ \<Rightarrow> Inl (serr ''verified_at must be a bounded string''))))
          | _ \<Rightarrow> Inl (serr ''Skill operation readback has an unsupported shape''))))))"

end
