(* ===== verification/Skill_Receipts.thy ===== *)
theory Skill_Receipts
  imports Skill_Promotion Skill_Adapters
begin

text \<open>
  What the readbacks of a Skill evolution stand for: which attestation, receipt or ledger entry an adapter had in
  hand when it issued one, and so what is behind a promoted Skill and behind a published package.
\<close>

section \<open>Issued readbacks\<close>

text \<open>The module's private token is set by these four functions only, everything else issues unverified readbacks.\<close>

inductive issued :: "hasher \<Rightarrow> bytes_hasher \<Rightarrow> (pystr \<Rightarrow> pyfloat) \<Rightarrow> 's nacos_env \<Rightarrow> external_readback \<Rightarrow> bool"
  for H HB F E where
  matrix: "matrix_readback_from_authority H HB a raw = Inr t \<Longrightarrow> issued H HB F E t"
| agentloop: "agentloop_readback_from_observability HB F q raw dr dh er eh = Inr t \<Longrightarrow> issued H HB F E t"
| agentteams: "verify_skill_operation_receipt H HB F e raw r p = Inr x \<Longrightarrow> ov_token x = Some t \<Longrightarrow> issued H HB F E t"
| nacos: "publish_skill_exact E c name version archive h endpoint namespace w = (Inr r, w') \<Longrightarrow> issued H HB F E (cr_token r)"

lemma issue_readback_inr [simp]:
  "issue_readback HB source ref raw classification claims True = Inr t \<Longrightarrow>
     rb_source t = source \<and> rb_ref t = ref \<and> rb_raw_hash t = raw_digest HB raw \<and> rb_classification t = classification
     \<and> rb_claims t = claims \<and> rb_seal t \<and> raw \<noteq> []"
  by (auto simp: issue_readback_def raw_digest_def bindE_ok)

text \<open>What the authority attested when a Matrix readback was issued.\<close>

definition attests :: "hasher \<Rightarrow> bytes_hasher \<Rightarrow> attestation \<Rightarrow> external_readback \<Rightarrow> bool" where
  "attests H HB a t \<longleftrightarrow> attestation_validate H a = Inr () \<and> at_phase a \<in> {lit ''APPROVE'', lit ''DENY''}
     \<and> (\<exists>raw. raw \<noteq> [] \<and> at_event_hash a = raw_digest HB raw) \<and> rb_raw_hash t = at_event_hash a \<and> rb_ref t = at_event_ref a
     \<and> (\<forall>name. rb_claim t name = map_of (attestation_claims a) name)"

lemma matrix_attests:
  assumes "matrix_readback_from_authority H HB a raw = Inr t"
  shows "attests H HB a t \<and> rb_source t = lit ''matrix''"
proof -
  from assms have v: "attestation_validate H a = Inr ()" "at_phase a \<in> {lit ''APPROVE'', lit ''DENY''}" "raw \<noteq> []"
      "at_event_hash a = raw_digest HB raw"
    and i: "issue_readback HB (lit ''matrix'') (at_event_ref a) raw (lit ''AUTHORITY_RECEIPT'')
      (sorted_claims (attestation_claims a)) True = Inr t"
    by (auto simp: matrix_readback_from_authority_def readback_digest_def bindE_ok split: sum.splits if_splits)
  have "rb_claim t name = map_of (attestation_claims a) name" for name
    by (rule rb_claim_sorted) (use issue_readback_inr[OF i] in \<open>simp_all add: attestation_claims_def\<close>)
  with v issue_readback_inr[OF i] show ?thesis by (auto simp: attests_def)
qed

text \<open>What the ledger recorded when a readback of an operation was issued.\<close>

definition records_operation :: "hasher \<Rightarrow> bytes_hasher \<Rightarrow> (pystr \<Rightarrow> pyfloat) \<Rightarrow> side_effect_entry \<Rightarrow> skill_receipt \<Rightarrow> skill_proposal
   \<Rightarrow> external_readback \<Rightarrow> bool" where
  "records_operation H HB F e r p t \<longleftrightarrow> entry_validate H e = Inr () \<and> operation_entry_ok e r p
     \<and> (\<exists>raw d. se_result_hash e = Some (raw_digest HB raw) \<and> json_of_bytes F raw = Inr (Some (JObj d))
          \<and> texts_match d (operation_texts e r p))
     \<and> rb_ref t = se_call_ref e
     \<and> (\<forall>(name, v) \<in> set [(''action'', sr_action r), (''active_version'', sr_active_version r), (''content_hash'', sp_content_hash p),
          (''proposal_ref'', sp_proposal_id p), (''proposal_hash'', sp_record_hash p), (''receipt_ref'', sr_receipt_id r),
          (''receipt_hash'', sr_record_hash r), (''run_id'', se_run_id e)]. rb_claim t name = Some v)"

lemma operation_create_token: "operation_create H v = Inr x \<Longrightarrow> ov_token x = ov_token v"
  by (auto simp: operation_create_def bindE_ok)

lemma case_text: "(case v of JStr s \<Rightarrow> f s | _ \<Rightarrow> Inl e) = Inr x \<longleftrightarrow> (\<exists>s. v = JStr s \<and> f s = Inr x)"
  by (cases v) auto

lemma agentteams_records:
  assumes "verify_skill_operation_receipt H HB F e raw r p = Inr x"
  shows "\<exists>t. ov_token x = Some t \<and> records_operation H HB F e r p t \<and> rb_source t = lit ''agentteams''"
proof -
  have v: "entry_validate H e = Inr ()" "operation_entry_ok e r p" "se_result_hash e = Some (raw_digest HB raw)"
    using assms by (auto simp: verify_skill_operation_receipt_def readback_digest_def Let_def bindE_ok split: sum.splits if_splits)
  obtain d where d: "json_of_bytes F raw = Inr (Some (JObj d))"
    using assms v by (cases "json_of_bytes F raw"; simp add: verify_skill_operation_receipt_def readback_digest_def bound_json_def
        Let_def bindE_ok split: option.splits json.splits if_splits)
  from assms v d obtain revision authority_hash t where
    texts: "texts_match d (operation_texts e r p)"
    and i: "issue_readback HB (lit ''agentteams'') (se_call_ref e) raw (lit ''AUTHORITY_RECEIPT'')
      (sorted_claims
        [(''action'', sr_action r), (''active_version'', sr_active_version r), (''content_hash'', sp_content_hash p),
         (''proposal_ref'', sp_proposal_id p), (''proposal_hash'', sp_record_hash p), (''receipt_ref'', sr_receipt_id r),
         (''receipt_hash'', sr_record_hash r), (''campaign_id'', se_campaign_id e), (''run_id'', se_run_id e),
         (''trace_id'', se_trace_id e), (''pg_revision'', revision), (''authority_content_hash'', authority_hash)]) True = Inr t"
    and x: "ov_token x = Some t"
    by (auto simp: verify_skill_operation_receipt_def readback_digest_def bound_json_def Let_def bindE_ok
        case_text dest!: operation_create_token)
  note t = issue_readback_inr[OF i]
  have "rb_claim t name = map_of
      [(''action'', sr_action r), (''active_version'', sr_active_version r), (''content_hash'', sp_content_hash p),
       (''proposal_ref'', sp_proposal_id p), (''proposal_hash'', sp_record_hash p), (''receipt_ref'', sr_receipt_id r),
       (''receipt_hash'', sr_record_hash r), (''campaign_id'', se_campaign_id e), (''run_id'', se_run_id e),
       (''trace_id'', se_trace_id e), (''pg_revision'', revision), (''authority_content_hash'', authority_hash)] name" for name
    by (rule rb_claim_sorted) (use t in simp_all)
  with v d texts t x show ?thesis by (auto simp: records_operation_def)
qed

lemma agentloop_source: "agentloop_readback_from_observability HB F q raw dr dh er eh = Inr t \<Longrightarrow> rb_source t = lit ''agentloop''"
  by (auto simp: agentloop_readback_from_observability_def Let_def bindE_ok dest!: issue_readback_inr)

section \<open>Published packages\<close>

lemma bindS_inr:
  "bindS m f w = (Inr y, w') \<longleftrightarrow> (\<exists>x w1. m w = (Inr x, w1) \<and> f x w1 = (Inr y, w'))"
  by (auto simp: bindS_def split: prod.splits sum.splits)

lemma liftS_inr: "liftS m w = (Inr x, w') \<longleftrightarrow> m = Inr x \<and> w' = w"
  by (auto simp: liftS_def)

lemma returnS_inr: "returnS x w = (Inr y, w') \<longleftrightarrow> y = x \<and> w' = w"
  by (auto simp: returnS_def)

lemmas act_inr = bindS_inr liftS_inr returnS_inr

lemma publish_skill_inr:
  assumes "publish_skill E c name version archive package_hash w = (Inr n, w')"
  shows "skill_checks name version = Inr () \<and> archive \<noteq> [] \<and> package_hash = raw_digest (ne_digest E) archive
    \<and> (\<exists>w1. read_skill E c name version w1 = (Inr (np_governance n), w'))"
  using assms by (auto simp: publish_skill_def act_inr bindE_ok)

lemma published_status_inr: "published_status v = Inr s \<Longrightarrow> v = JStr s \<and> s \<in> {lit ''online'', lit ''published''}"
  by (auto simp: published_status_def split: if_splits)

definition candidate_claims :: "candidate_readback \<Rightarrow> (string \<times> pystr) list" where
  "candidate_claims r =
     [(''endpoint'', cr_endpoint r), (''namespace_id'', cr_namespace r), (''skill_name'', cr_skill r), (''version'', cr_version r),
      (''content_hash'', cr_package_hash r), (''admin_response_hash'', cr_response_hash r), (''registry_status'', cr_status r)]"

lemma exact_facts:
  assumes "publish_skill_exact E c name version archive package_hash endpoint namespace w = (Inr r, w')"
  shows "nacos_base_url (ne_host_ok E) endpoint = Inr (nc_base_url c) \<and> namespace = nc_namespace c \<and> ref_pattern namespace \<and> nc_native c
    \<and> skill_checks name version = Inr () \<and> archive \<noteq> [] \<and> package_hash = raw_digest (ne_digest E) archive
    \<and> observed_tuple r = [(''endpoint'', nc_base_url c), (''namespace_id'', namespace), (''skill_name'', name),
         (''version'', version), (''content_hash'', package_hash)]
    \<and> candidate_verified r \<and> (\<forall>key. rb_claim (cr_token r) key = map_of (candidate_claims r) key)
    \<and> cr_status r \<in> {lit ''online'', lit ''published''}
    \<and> (\<exists>w1 w2 g. read_skill E c name version w1 = (Inr g, w2) \<and> sg_status g = JStr (cr_status r)
         \<and> cr_response_hash r = sg_response_hash g)
    \<and> (\<exists>w1 body. download_skill E c name version w1 = (Inr body, w') \<and> raw_digest (ne_digest E) body = package_hash)"
proof -
  from assms obtain n w1 body t where
    base: "nacos_base_url (ne_host_ok E) endpoint = Inr (nc_base_url c)" "namespace = nc_namespace c" "nc_native c"
      "ref_pattern namespace"
    and n: "publish_skill E c name version archive package_hash w = (Inr n, w1)"
    and status: "published_status (sg_status (np_governance n)) = Inr (cr_status r)"
    and body: "download_skill E c name version w1 = (Inr body, w')" "raw_digest (ne_digest E) body = package_hash"
    and i: "issue_readback (ne_digest E) (lit ''nacos'') (cr_ref r) body (lit ''NATIVE_TRANSPORT'')
        (sorted_claims (candidate_claims r)) True = Inr t"
    and r: "cr_token r = t" "cr_response_hash r = sg_response_hash (np_governance n)" "cr_endpoint r = nc_base_url c"
      "cr_namespace r = namespace" "cr_skill r = name" "cr_version r = version" "cr_package_hash r = package_hash"
    by (auto simp: publish_skill_exact_def act_inr bindE_ok Let_def nacos_text_def candidate_claims_def)
  have "rb_claim (cr_token r) key = map_of (candidate_claims r) key" for key
    by (rule rb_claim_sorted) (use issue_readback_inr[OF i] r(1) in \<open>simp_all add: candidate_claims_def\<close>)
  moreover have "candidate_verified r" using issue_readback_inr[OF i] r body(2) by (simp add: candidate_verified_def verified_def)
  ultimately show ?thesis
    using base publish_skill_inr[OF n] published_status_inr[OF status] body r by (auto simp: observed_tuple_def)
qed

text \<open>C3: Publishing a Skill package exactly means what it says. When \<open>publish_skill_exact\<close> returns, the client sent over
  its own transport to the endpoint and namespace it was asked for, the given hash is that of the given bytes and
  of the bytes that the last request downloaded from the registry, the registry itself reported the version as
  online or published, and the readback that is returned carries exactly these claims.\<close>

theorem published_candidate_is_exact:
  assumes "publish_skill_exact E c name version archive package_hash endpoint namespace w = (Inr r, w')"
  shows "nc_native c \<and> nacos_base_url (ne_host_ok E) endpoint = Inr (nc_base_url c) \<and> namespace = nc_namespace c
    \<and> archive \<noteq> [] \<and> package_hash = raw_digest (ne_digest E) archive
    \<and> (\<exists>w1 body. download_skill E c name version w1 = (Inr body, w') \<and> raw_digest (ne_digest E) body = package_hash)
    \<and> (\<exists>w1 w2 g. read_skill E c name version w1 = (Inr g, w2) \<and> sg_status g = JStr (cr_status r))
    \<and> cr_status r \<in> {lit ''online'', lit ''published''}
    \<and> candidate_verified r \<and> claims_match (cr_token r)
        [(''endpoint'', nc_base_url c), (''namespace_id'', namespace), (''skill_name'', name), (''version'', version),
         (''content_hash'', package_hash), (''registry_status'', cr_status r)]"
proof -
  note f = exact_facts[OF assms]
  have fields: "cr_endpoint r = nc_base_url c" "cr_namespace r = namespace" "cr_skill r = name" "cr_version r = version"
      "cr_package_hash r = package_hash"
    using f unfolding observed_tuple_def by blast+
  have claims: "rb_claim (cr_token r) key = map_of (candidate_claims r) key" for key using f by blast
  have "claims_match (cr_token r)
      [(''endpoint'', nc_base_url c), (''namespace_id'', namespace), (''skill_name'', name), (''version'', version),
       (''content_hash'', package_hash), (''registry_status'', cr_status r)]"
    by (simp add: claims_match_def claims candidate_claims_def fields)
  with f show ?thesis by blast
qed

lemma rstrip_slash_end: "rstrip_slash s = [] \<or> last (rstrip_slash s) \<noteq> 47"
  using hd_dropWhile[of "\<lambda>c. c = 47" "rev s"] by (auto simp: rstrip_slash_def last_rev)

lemma root_base_url:
  assumes "nacos_base_url host_ok endpoint = Inr url" and "urlsplit host_ok endpoint = Inr u" and "rstrip_slash (ul_path u) = []"
  shows "last url = 47"
  using assms by (auto simp: nacos_base_url_def url_of_def Let_def split: if_splits)

text \<open>C21: What is published exactly is accepted as the candidate if the endpoint is written in its normal form: the
  verification accepts the candidate with this version and hash, in this namespace, exactly when the endpoint
  without trailing slashes is the one that the client used. For a registry at the root of its host it
  accepts no candidate at all: there the client's address ends with a slash and the expected one never does.\<close>

theorem root_registry_is_never_verified:
  assumes "publish_skill_exact E c name version archive package_hash endpoint namespace w = (Inr r, w')"
    and "urlsplit (ne_host_ok E) endpoint = Inr u"
  shows "(\<forall>HB p uri rest. pk_version p = version \<longrightarrow> pk_content_hash p = package_hash \<longrightarrow>
      urlsplit (ne_host_ok E) (pk_uri p) = Inr uri \<longrightarrow> filter (\<lambda>part. part \<noteq> []) (split_on 47 (ul_path uri)) = namespace # rest \<longrightarrow>
      ((\<exists>d. verify_nacos_candidate_readback HB (ne_host_ok E) p name r endpoint namespace = Inr d)
       \<longleftrightarrow> rstrip_slash endpoint = nc_base_url c))
    \<and> (rstrip_slash (ul_path u) = [] \<longrightarrow>
        (\<forall>HB host_ok p name' endpoint' namespace' d. verify_nacos_candidate_readback HB host_ok p name' r endpoint' namespace' \<noteq> Inr d))"
proof (intro conjI allI impI notI)
  note f = exact_facts[OF assms(1)]
  have name: "ref_pattern name" using f by (auto simp: skill_checks_def nacos_text_def bindE_ok)
  have url: "ul_scheme u \<in> {lit ''http'', lit ''https''}" "ul_netloc u \<noteq> []" "\<not> has_credentials u" "ul_query u = []" "ul_fragment u = []"
    using f assms(2) by (auto simp: nacos_base_url_def bindE_ok split: if_splits)
  fix HB uri rest and p :: package_ref
  assume p: "pk_version p = version" "pk_content_hash p = package_hash" "urlsplit (ne_host_ok E) (pk_uri p) = Inr uri"
      "filter (\<lambda>part. part \<noteq> []) (split_on 47 (ul_path uri)) = namespace # rest"
  show "(\<exists>d. verify_nacos_candidate_readback HB (ne_host_ok E) p name r endpoint namespace = Inr d)
      \<longleftrightarrow> rstrip_slash endpoint = nc_base_url c"
    using f url p name assms(2)
    by (auto simp: verify_nacos_candidate_readback_def package_ref_ok_def bindE_ok Let_def candidate_tuple_def observed_tuple_def
        claims_match_def candidate_claims_def)
next
  note f = exact_facts[OF assms(1)]
  fix HB host_ok p name' endpoint' namespace' d
  assume root: "rstrip_slash (ul_path u) = []"
    and "verify_nacos_candidate_readback HB host_ok p name' r endpoint' namespace' = Inr d"
  then have "rstrip_slash endpoint' = cr_endpoint r"
    by (auto simp: verify_nacos_candidate_readback_def bindE_ok Let_def candidate_tuple_def observed_tuple_def)
  moreover have "cr_endpoint r = nc_base_url c" using f by (auto simp: observed_tuple_def)
  moreover have "last (nc_base_url c) = 47" using root_base_url[OF _ assms(2) root] f by blast
  moreover have "nc_base_url c \<noteq> []" using f by (auto simp: nacos_base_url_def bindE_ok url_of_def Let_def split: if_splits)
  ultimately show False using rstrip_slash_end[of endpoint'] by simp
qed

section \<open>Promotions\<close>

lemma issued_cases:
  assumes "issued H HB F E t"
  shows "(rb_source t = lit ''matrix'' \<and> (\<exists>a. attests H HB a t)) \<or> rb_source t = lit ''agentloop'' \<or> rb_source t = lit ''nacos''
    \<or> (rb_source t = lit ''agentteams'' \<and> (\<exists>e r p. records_operation H HB F e r p t))"
  using assms
proof cases
  case matrix
  then show ?thesis using matrix_attests by blast
next
  case agentloop
  then show ?thesis using agentloop_source by blast
next
  case agentteams
  then show ?thesis using agentteams_records by fastforce
next
  case (nacos c name version archive h endpoint namespace w r w')
  from exact_facts[OF nacos(2)] have "candidate_verified r" by blast
  then show ?thesis using nacos(1) by (simp add: candidate_verified_def)
qed

lemma issued_matrix: "issued H HB F E t \<Longrightarrow> rb_source t = lit ''matrix'' \<Longrightarrow> \<exists>a. attests H HB a t"
  by (drule issued_cases) auto

lemma issued_agentteams: "issued H HB F E t \<Longrightarrow> rb_source t = lit ''agentteams'' \<Longrightarrow> \<exists>e r p. records_operation H HB F e r p t"
  by (drule issued_cases) auto

lemma decided_attested:
  assumes "decided H s b p d w" and "hd_decision d = lit ''APPROVE''" and "\<forall>t. hv_token w = Some t \<longrightarrow> issued H HB F E t"
  shows "\<exists>a. attestation_validate H a = Inr () \<and> at_phase a = lit ''APPROVE''
    \<and> (\<exists>raw. raw \<noteq> [] \<and> at_event_hash a = raw_digest HB raw) \<and> at_event_ref a = hd_attestation_ref d
    \<and> at_sender a = hd_actor_ref d \<and> at_identity_ref a = hd_identity_ref d \<and> at_approval_id a = hd_decision_id d
    \<and> at_revision a = hd_decision_revision d \<and> at_run_id a = bl_run_id b"
proof -
  obtain t where t: "hv_token w = Some t" "rb_source t = lit ''matrix''" "rb_ref t = hv_event_ref w"
      "claims_match t (verification_claims w)"
    using assms(1) by (auto simp: decided_def verification_init_def split: option.splits)
  then obtain a where a: "attests H HB a t" using assms(3) issued_matrix by blast
  have claims: "rb_claim t key = map_of (attestation_claims a) key" for key using a by (simp add: attests_def)
  have m: "verification_matches w d p b" using assms(1) by (simp add: decided_def)
  have "at_sender a = hv_sender w" "at_identity_ref a = hv_identity_ref w" "at_run_id a = hv_run_id w"
      "at_approval_id a = hv_decision_ref w" "int_str (at_revision a) = int_str (hv_decision_revision w)"
      and dec: "(if at_decision a = Some (lit ''APPROVE'') then lit ''APPROVE'' else lit ''REJECT'') = hv_decision w"
    using t(4) by (simp_all add: claims_match_def verification_claims_def claims attestation_claims_def)
  moreover have "at_phase a = lit ''APPROVE''"
    using a dec m assms(2) by (auto simp: attests_def attestation_validate_def verification_matches_def split: if_splits)
  ultimately show ?thesis
    using a t(3) m by (auto simp: attests_def verification_matches_def dest: int_str_inj)
qed

lemma confirmed_recorded:
  assumes "confirmed H s b p r x" and "\<forall>t. ov_token x = Some t \<longrightarrow> issued H HB F E t"
  shows "\<exists>e raw d. entry_validate H e = Inr () \<and> se_observed e \<and> se_decision e = lit ''allow'' \<and> se_target_ref e = sp_proposal_id p
    \<and> se_operation e = (if sr_action r = lit ''PROMOTE'' then lit ''skill.promote'' else lit ''skill.rollback'')
    \<and> se_run_id e = bl_run_id b \<and> se_result_hash e = Some (raw_digest HB raw) \<and> json_of_bytes F raw = Inr (Some (JObj d))
    \<and> texts_match d [(''status'', lit ''APPLIED''), (''action'', sr_action r), (''active_version'', sr_active_version r),
         (''proposal_hash'', sp_record_hash p), (''receipt_hash'', sr_record_hash r), (''content_hash'', sp_content_hash p)]"
proof -
  obtain t where t: "ov_token x = Some t" "rb_source t = lit ''agentteams''" "claims_match t (operation_claims x)"
    using assms(1) by (auto simp: confirmed_def operation_init_def split: option.splits)
  then obtain e r' p' where e: "records_operation H HB F e r' p' t" using assms(2) issued_agentteams by blast
  have m: "operation_matches x r p (Some b)" using assms(1) by (simp add: confirmed_def)
  have "sr_action r' = ov_action x" "sr_active_version r' = ov_active_version x" "sp_content_hash p' = ov_content_hash x"
      "sp_proposal_id p' = ov_proposal_ref x" "sp_record_hash p' = ov_proposal_hash x" "sr_receipt_id r' = ov_receipt_ref x"
      "sr_record_hash r' = ov_receipt_hash x" "se_run_id e = ov_run_id x"
    using t(3) e by (simp_all add: claims_match_def operation_claims_def records_operation_def)
  then have same: "sr_action r' = sr_action r" "sr_active_version r' = sr_active_version r" "sp_content_hash p' = sp_content_hash p"
      "sp_proposal_id p' = sp_proposal_id p" "sp_record_hash p' = sp_record_hash p" "sr_record_hash r' = sr_record_hash r"
      "se_run_id e = bl_run_id b"
    using m by (auto simp: operation_matches_def)
  obtain raw d where "se_result_hash e = Some (raw_digest HB raw)" "json_of_bytes F raw = Inr (Some (JObj d))"
      and "texts_match d (operation_texts e r' p')" and ok: "entry_validate H e = Inr ()" "operation_entry_ok e r' p'"
    using e by (auto simp: records_operation_def)
  moreover from this(3) have "texts_match d [(''status'', lit ''APPLIED''), (''action'', sr_action r), (''active_version'', sr_active_version r),
         (''proposal_hash'', sp_record_hash p), (''receipt_hash'', sr_record_hash r), (''content_hash'', sp_content_hash p)]"
    by (simp add: texts_match_def operation_texts_def same)
  moreover have "se_observed e" "se_decision e = lit ''allow''" "se_target_ref e = sp_proposal_id p"
      "se_operation e = (if sr_action r = lit ''PROMOTE'' then lit ''skill.promote'' else lit ''skill.rollback'')"
    using ok(2) by (simp_all add: operation_entry_ok_def same)
  ultimately show ?thesis using same(7) by blast
qed

text \<open>C2: A promoted Skill rests on receipts of the authority. In a reachable evolution in state PROMOTED whose decision
  and operation carry readbacks that the adapters issued, there is a valid sealed attestation of an APPROVE event
  whose hash is that of the exact event bytes, by the sender and identity, for the approval, revision and run
  of the decision; and there is a valid ledger entry of an allowed and observed \<open>skill.promote\<close> on this very
  proposal in the same run, whose result, by the hash of its bytes, says that the candidate version with this
  content is applied.\<close>

theorem promotion_rests_on_receipts:
  assumes "reachable H s" and "sk_state s = PROMOTED"
    and "\<forall>w t. sk_verification s = Some w \<longrightarrow> hv_token w = Some t \<longrightarrow> issued H HB F E t"
    and "\<forall>x t. sk_operation s = Some x \<longrightarrow> ov_token x = Some t \<longrightarrow> issued H HB F E t"
  shows "\<exists>b p d a e raw result. sk_baseline s = Some b \<and> sk_proposal s = Some p \<and> sk_decision s = Some d
    \<and> attestation_validate H a = Inr () \<and> at_phase a = lit ''APPROVE''
    \<and> (\<exists>event. event \<noteq> [] \<and> at_event_hash a = raw_digest HB event) \<and> at_event_ref a = hd_attestation_ref d
    \<and> at_sender a = hd_actor_ref d \<and> at_identity_ref a = hd_identity_ref d \<and> at_approval_id a = hd_decision_id d
    \<and> at_revision a = hd_decision_revision d \<and> at_run_id a = bl_run_id b
    \<and> entry_validate H e = Inr () \<and> se_observed e \<and> se_decision e = lit ''allow'' \<and> se_target_ref e = sp_proposal_id p
    \<and> se_operation e = lit ''skill.promote'' \<and> se_run_id e = bl_run_id b
    \<and> se_result_hash e = Some (raw_digest HB raw) \<and> json_of_bytes F raw = Inr (Some (JObj result))
    \<and> texts_match result [(''status'', lit ''APPLIED''), (''action'', lit ''PROMOTE''), (''active_version'', sp_candidate_version p),
         (''proposal_hash'', sp_record_hash p), (''content_hash'', sp_content_hash p)]"
proof -
  from reachable_facts[OF assms(1)] assms(2) obtain b p d w c e r x where
    cl: "closed H s b p d w c e r" and act: "sr_action r = lit ''PROMOTE''" and co: "confirmed H s b p r x"
    by (auto simp: facts_def)
  have de: "decided H s b p d w" "hd_decision d = lit ''APPROVE''" using cl by (auto simp: closed_def reevaluated_def tried_def)
  have stored: "sk_baseline s = Some b" "sk_proposal s = Some p" "sk_decision s = Some d" "sk_verification s = Some w"
    using stage_stored(7)[OF cl] by auto
  have "sr_active_version r = sp_candidate_version p" using closed_active[OF cl] act by simp
  moreover have "sk_operation s = Some x" using co by (simp add: confirmed_def)
  ultimately show ?thesis
    using decided_attested[OF de, of HB F E] confirmed_recorded[OF co, of HB F E] assms(3,4) stored act
    by (simp add: texts_match_def) metis
qed

section \<open>The verdict of an evaluation\<close>

definition reclaimed :: "(pystr \<times> pystr) list \<Rightarrow> evaluation \<Rightarrow> evaluation" where
  "reclaimed claims e = e\<lparr>eo_result_ref := (eo_result_ref e)
     \<lparr>ar_token := map_option (\<lambda>t. t\<lparr>rb_claims := claims\<rparr>) (ar_token (eo_result_ref e))\<rparr>\<rparr>"

lemma reclaimed_fields [simp]:
  "eo_class (reclaimed claims e) = eo_class e" "eo_status (reclaimed claims e) = eo_status e"
  "eo_dataset_ref (reclaimed claims e) = eo_dataset_ref e" "eo_evaluation_ref (reclaimed claims e) = eo_evaluation_ref e"
  "eo_proposal_ref (reclaimed claims e) = eo_proposal_ref e" "eo_proposal_hash (reclaimed claims e) = eo_proposal_hash e"
  "eo_candidate_version (reclaimed claims e) = eo_candidate_version e" "eo_record_hash (reclaimed claims e) = eo_record_hash e"
  "eo_observation_id (reclaimed claims e) = eo_observation_id e" "eo_trace_refs (reclaimed claims e) = eo_trace_refs e"
  "eo_evidence_refs (reclaimed claims e) = eo_evidence_refs e"
  "ar_ref (eo_result_ref (reclaimed claims e)) = ar_ref (eo_result_ref e)"
  "ar_content_hash (eo_result_ref (reclaimed claims e)) = ar_content_hash (eo_result_ref e)"
  by (simp_all add: reclaimed_def)

lemma reclaimed_payload: "evaluation_payload (reclaimed claims e) = evaluation_payload e"
  by (simp add: reclaimed_def evaluation_payload_def artifact_dict_def)

lemma reclaimed_constructed:
  assumes "constructed H (VEvaluation e)"
    and "\<forall>t. ar_token (eo_result_ref e) = Some t \<longrightarrow> map_of (rev claims) (lit ''run_id'') = rb_claim t ''run_id''"
  shows "constructed H (VEvaluation (reclaimed claims e))"
proof -
  let ?r = "eo_result_ref e" and ?r' = "eo_result_ref (reclaimed claims e)"
  have "ref_constructed ?r" using assms(1) by simp
  then have "ref_constructed ?r'"
    using assms(2) unfolding ref_constructed_def
    by (cases "ar_token ?r")
      (auto simp: reclaimed_def artifact_init_def bindE_ok check_live_readback_def verified_def rb_claim_def split: if_splits option.splits)
  moreover have "live_result ?r' = live_result ?r"
    by (auto simp: reclaimed_def live_result_def verified_def split: option.splits)
  moreover have "ar_kind ?r' = ar_kind ?r" "ar_run_id ?r' = ar_run_id ?r" by (simp_all add: reclaimed_def)
  ultimately show ?thesis
    using assms(1) by (simp add: evaluation_init_def check_artifact_kind_def reclaimed_payload)
qed

text \<open>C20: The verdict of an evaluation is not read. Whatever an AgentLoop readback claims besides its run, a failed verdict
  or another dataset included, an observation with status \<open>PASS\<close> passes its constructor with it just the
  same, and every method of the lifecycle that accepts the one observation accepts the other.\<close>

theorem verdict_is_not_read:
  assumes "constructed H (VEvaluation e)" and "call H m s (VEvaluation e) = Inr s'"
    and "\<forall>t. ar_token (eo_result_ref e) = Some t \<longrightarrow> map_of (rev claims) (lit ''run_id'') = rb_claim t ''run_id''"
  shows "constructed H (VEvaluation (reclaimed claims e))
    \<and> (\<exists>s''. call H m s (VEvaluation (reclaimed claims e)) = Inr s'' \<and> sk_state s'' = sk_state s')"
proof -
  have check: "check_evaluation s (reclaimed claims e) = check_evaluation s e"
    by (auto simp: check_evaluation_def split: option.splits)
  have "\<exists>s''. call H m s (VEvaluation (reclaimed claims e)) = Inr s'' \<and> sk_state s'' = sk_state s'"
  proof (cases m)
    case RecordCanary
    then show ?thesis using assms(2) by (auto simp: record_canary_def check bindE_ok split: if_splits)
  next
    case RecordReevaluation
    then show ?thesis using assms(2) by (auto simp: record_reevaluation_def check bindE_ok split: if_splits option.splits)
  qed (use assms(2) in \<open>auto simp: freeze_baseline_def attribute_def propose_def record_human_decision_def close_def verify_close_def
      split: option.splits\<close>)
  with reclaimed_constructed[OF assms(1,3)] show ?thesis by blast
qed

lemma verdict_is_not_read_witness:
  "let e = reclaimed [(lit ''verdict'', lit ''FAIL'')] (s_evaluation Canary ''c'' ''PASS'' ''rc'' sample_hash) in
     eo_status e = lit ''PASS'' \<and> constructed sample_hasher (VEvaluation e)
     \<and> (\<exists>s. call sample_hasher RecordCanary s_approved (VEvaluation e) = Inr s \<and> sk_state s = CANARY_RECORDED)"
proof -
  have "\<forall>t. ar_token (eo_result_ref (s_evaluation Canary ''c'' ''PASS'' ''rc'' sample_hash)) = Some t
      \<longrightarrow> map_of (rev [(lit ''verdict'', lit ''FAIL'')]) (lit ''run_id'') = rb_claim t ''run_id''"
    by (simp add: s_evaluation_def sample_result_def sample_readback_def rb_claim_def)
  from verdict_is_not_read[OF s_evaluation_ok(1) s_call_canary this] show ?thesis
    by (simp add: s_evaluation_def sample_states)
qed

end
