(* ===== verification/Skill_Samples.thy ===== *)
theory Skill_Samples
  imports Skill_Receipts
begin

text \<open>
  Concrete receipts for the properties of the Skill lifecycle: an attestation, a ledger entry with the result it
  stands for, and a registry that accepts a package.
\<close>

section \<open>JSON texts as bytes\<close>

text \<open>A value without floats whose texts can be encoded.\<close>

fun text_json :: "json \<Rightarrow> bool" where
  "text_json (JStr s) = (encodable s \<and> (\<forall>c\<in>set s. c < 1114112))"
| "text_json (JInt i) = (length (nat_str (nat \<bar>i\<bar>)) \<le> 4300)"
| "text_json (JFloat f) = False"
| "text_json (JArr xs) = (\<forall>x\<in>set xs. text_json x)"
| "text_json (JObj kvs) = (\<forall>kv\<in>set kvs. text_json (JStr (fst kv)) \<and> text_json (snd kv))"
| "text_json v = True"

lemma code_points_lit [simp]: "\<forall>c\<in>set (lit s). c < 1114112"
  by (auto dest: set_lit_bound)

lemma json_escape_range: "set (json_escape c) \<subseteq> insert c {..<1114112}"
proof -
  have "hex_digit (c div 16) < 1114112 \<and> hex_digit (c mod 16) < 1114112" if "c < 32"
  proof -
    have "c div 16 < 2" using that by (auto intro: less_mult_imp_div_less)
    moreover have "c mod 16 < 16" by simp
    ultimately show ?thesis unfolding hex_digit_def by auto
  qed
  then show ?thesis by (simp add: json_escape_def)
qed

lemma code_points_string: "\<forall>c\<in>set s. c < 1114112 \<Longrightarrow> \<forall>c\<in>set (json_string s). c < 1114112"
  using json_escape_range by (fastforce simp: json_string_def)

lemma code_points_join: "\<forall>t\<in>set ts. \<forall>c\<in>set t. c < n \<Longrightarrow> \<forall>c\<in>set sep. c < (n :: nat) \<Longrightarrow> \<forall>c\<in>set (join sep ts). c < n"
  by (induction sep ts rule: join.induct) auto

lemma code_points_dumps: "text_json v \<Longrightarrow> \<forall>c\<in>set (dumps v). c < 1114112"
proof (induction v rule: text_json.induct)
  case (1 s)
  then show ?case using code_points_string[of s] by simp
next
  case (2 i)
  have "\<forall>c\<in>set (int_str i). c < 1114112" by (auto simp: int_str_def dest!: set_nat_str)
  then show ?case by simp
next
  case (4 xs)
  then show ?case using code_points_join[of "map dumps xs" 1114112 "[44]"] by auto
next
  case (5 kvs)
  then have "\<forall>t\<in>set (map (\<lambda>(k, t). json_string k @ [58] @ t) (sort_key fst (map (\<lambda>(k, v). (k, dumps v)) kvs))). \<forall>c\<in>set t. c < 1114112"
    using code_points_string by fastforce
  from code_points_join[OF this, of "[44]"] show ?case by simp
qed (auto dest: set_lit_bound intro: less_trans)

lemma text_json_plain: "text_json v \<Longrightarrow> plain_json v \<and> encodable_json v"
  by (induction v rule: text_json.induct) auto

definition json_bytes :: "json \<Rightarrow> nat list" where
  "json_bytes v = concat (map utf8 (dumps v))"

lemma json_of_json_bytes:
  assumes "text_json v" and "wf_json v" and "reads_floats F"
  shows "json_of_bytes F (json_bytes v) = Inr (Some (canon v))"
proof -
  have "encodable (dumps v)" using text_json_plain[OF assms(1)] encodable_dumps by blast
  then have "encode_utf8 (dumps v) = Inr (json_bytes v)" by (simp add: encode_utf8_def json_bytes_def raise_if_def bindE_def)
  from decode_encode_utf8[OF this code_points_dumps[OF assms(1)]] show ?thesis
    using loads_dumps[OF assms(2) _ assms(3)] text_json_plain[OF assms(1)] by (simp add: json_of_bytes_def)
qed

text \<open>A bound of the length of a text, and so of its bytes.\<close>

fun width :: "json \<Rightarrow> nat" where
  "width (JStr s) = 6 * length s + 2"
| "width (JArr xs) = 2 + sum_list (map (\<lambda>x. width x + 1) xs)"
| "width (JObj kvs) = 2 + sum_list (map (\<lambda>(k, v). 6 * length k + 4 + width v) kvs)"
| "width v = length (dumps v)"

lemma length_string: "length (json_string s) \<le> 6 * length s + 2"
proof -
  have e: "length (json_escape c) \<le> 6" for c by (simp add: json_escape_def)
  have "length (concat (map json_escape s)) \<le> 6 * length s"
  proof (induction s)
    case (Cons c s)
    then show ?case using e[of c] by simp
  qed simp
  then show ?thesis by (simp add: json_string_def)
qed

lemma length_join: "length (join [c] ts) \<le> sum_list (map (\<lambda>t. length t + 1) ts)"
  by (induction "[c]" ts rule: join.induct) auto

lemma length_dumps: "length (dumps v) \<le> width v"
proof (induction v rule: width.induct)
  case (1 s)
  then show ?case using length_string by simp
next
  case (2 xs)
  have "sum_list (map (\<lambda>x. length (dumps x) + 1) xs) \<le> sum_list (map (\<lambda>x. width x + 1) xs)"
    using 2 by (intro sum_list_mono) simp
  with length_join[of 44 "map dumps xs"] show ?case by (simp add: comp_def)
next
  case (3 kvs)
  have "length (join [44] (map member_text (sort_key fst kvs))) \<le> sum_list (map (\<lambda>kv. length (member_text kv) + 1) (sort_key fst kvs))"
    using length_join[of 44 "map member_text (sort_key fst kvs)"] by (simp add: comp_def)
  also have "\<dots> = sum_list (map (\<lambda>kv. length (member_text kv) + 1) kvs)"
    by (simp flip: sum_mset_sum_list)
  also have "\<dots> \<le> sum_list (map (\<lambda>(k, v). 6 * length k + 4 + width v) kvs)"
  proof (rule sum_list_mono)
    fix kv
    assume kv: "kv \<in> set kvs"
    then have "length (dumps (snd kv)) \<le> width (snd kv)" using 3[of kv "fst kv" "snd kv"] by simp
    then show "length (member_text kv) + 1 \<le> (case kv of (k, v) \<Rightarrow> 6 * length k + 4 + width v)"
      using length_string[of "fst kv"] by (simp add: member_text_def case_prod_beta)
  qed
  finally show ?case unfolding dumps_members by simp
qed simp_all

lemma length_json_bytes: "length (json_bytes v) \<le> 4 * width v"
proof -
  have char: "length (utf8 c) \<le> 4" for c by (simp add: utf8_def)
  have "length (concat (map utf8 s)) \<le> 4 * length s" for s
  proof (induction s)
    case (Cons c s)
    then show ?case using char[of c] by simp
  qed simp
  from this[of "dumps v"] length_dumps[of v] show ?thesis by (simp add: json_bytes_def)
qed

lemma json_bytes_not_Nil: "json_bytes v \<noteq> []"
  using dumps_start[of v] by (cases "dumps v") (auto simp: json_bytes_def utf8_def)

section \<open>Receipts of the authority\<close>

definition sample_digest :: bytes_hasher where
  "sample_digest raw = replicate 64 48"

lemma raw_digest_sample [simp]: "raw_digest sample_digest raw = sample_hash"
  by (simp add: raw_digest_def sample_digest_def sample_hash_def)

definition r_attestation :: attestation where
  "r_attestation = \<lparr>at_verification_ref = lit ''v'', at_source = attestation_source, at_event_ref = lit ''ev'',
     at_event_hash = sample_hash, at_sender = lit ''@alice'', at_identity_ref = lit ''id'', at_approval_id = lit ''d'',
     at_phase = lit ''APPROVE'', at_decision = Some (lit ''APPROVE''), at_run_id = lit ''run'', at_campaign_id = lit ''camp'',
     at_trace_id = lit ''trace'', at_revision = 1, at_verified_at = lit ''t'', at_record_hash = sample_hash\<rparr>"

lemma r_attestation_valid: "attestation_validate sample_hasher r_attestation = Inr ()"
proof -
  have "ensure_sealed sample_hasher (attestation_dict r_attestation) ''record_hash'' = Inr ()"
    unfolding attestation_dict_def
    by (subst (2) r_attestation_def, simp, rule sample_sealed)
      (simp_all add: attestation_values_def r_attestation_def sample_eval attestation_source_def, simp add: sample_chars)
  then show ?thesis
    by (simp add: attestation_validate_def)
      (simp add: r_attestation_def validate_ref_def validate_text_def sample_hash_ok validate_hash_ok phases_def decisions_def, simp add: sample_chars)
qed

lemma issue_any:
  assumes "source_pattern source" and "skill_ref ref ''external readback ref'' = Inr ()" and "raw \<noteq> []"
    and "length raw \<le> max_readback_bytes" and "\<not> list_ex (\<lambda>(k, v). k = [] \<or> v = []) claims"
  shows "issue_readback HB source ref raw (lit ''AUTHORITY_RECEIPT'') claims True
    = Inr (sample_readback source ref (raw_digest HB raw) claims)"
  using assms(1-4) unfolding issue_readback_def sample_readback_def raw_digest_def
  using assms(5) by (simp add: bindE_ok not_less readback_classifications_def)

lemma issue_sample:
  assumes "source_pattern source" and "skill_ref ref ''external readback ref'' = Inr ()" and "raw \<noteq> []"
    and "length raw \<le> max_readback_bytes" and "\<forall>(k, v)\<in>set claims. k \<noteq> [] \<and> v \<noteq> []"
  shows "issue_readback sample_digest source ref raw (lit ''AUTHORITY_RECEIPT'') (sorted_claims claims) True
    = Inr (sample_readback source ref sample_hash (sorted_claims claims))"
proof -
  have "\<not> list_ex (\<lambda>(k, v). k = [] \<or> v = []) (sorted_claims claims)"
    using assms(5) by (force simp: sorted_claims_def list_ex_iff)
  from issue_any[OF assms(1-4) this, of sample_digest] show ?thesis by simp
qed

lemma issue_native:
  assumes "source_pattern source" and "skill_ref ref ''external readback ref'' = Inr ()" and "raw \<noteq> []"
    and "length raw \<le> max_readback_bytes" and "\<forall>(k, v)\<in>set claims. k \<noteq> [] \<and> v \<noteq> []"
  shows "\<exists>t. issue_readback HB source ref raw (lit ''NATIVE_TRANSPORT'') (sorted_claims claims) True = Inr t"
proof -
  have n: "\<not> list_ex (\<lambda>(k, v). k = [] \<or> v = []) (sorted_claims claims)"
    using assms(5) by (force simp: sorted_claims_def list_ex_iff)
  show ?thesis
    using assms(1-4) unfolding issue_readback_def using n by (simp add: bindE_ok not_less readback_classifications_def)
qed

lemma r_token_matrix:
  "\<exists>t. hv_token s_verification = Some t \<and> matrix_readback_from_authority sample_hasher sample_digest r_attestation [1] = Inr t"
proof -
  have "issue_readback sample_digest (lit ''matrix'') (lit ''ev'') [1] (lit ''AUTHORITY_RECEIPT'')
      (sorted_claims (attestation_claims r_attestation)) True
    = Inr (sample_readback (lit ''matrix'') (lit ''ev'') sample_hash (sorted_claims (attestation_claims r_attestation)))"
    by (rule issue_sample)
      (simp_all add: skill_ref_def skill_text_ok source_pattern_def max_readback_bytes_def attestation_claims_def r_attestation_def
        int_str_def, simp_all add: sample_patterns nat_str.simps)
  moreover have "hv_token s_verification
      = Some (sample_readback (lit ''matrix'') (lit ''ev'') sample_hash (sorted_claims (attestation_claims r_attestation)))"
    by (simp add: s_verification_def attestation_claims_def r_attestation_def)
  moreover have "at_event_ref r_attestation = lit ''ev''" "at_phase r_attestation = lit ''APPROVE''"
      "at_event_hash r_attestation = sample_hash"
    by (simp_all add: r_attestation_def)
  ultimately show ?thesis
    by (simp add: matrix_readback_from_authority_def r_attestation_valid readback_digest_def)
qed

definition r_entry :: "pystr \<Rightarrow> side_effect_entry" where
  "r_entry h = \<lparr>se_entry_id = lit ''n'', se_call_ref = lit ''op'', se_run_id = lit ''run'', se_campaign_id = lit ''camp'',
     se_trace_id = lit ''trace'', se_actor_ref = lit ''agent'', se_tool_ref = lit ''official-agentspec-agt'',
     se_operation = lit ''skill.promote'', se_target_ref = lit ''p'', se_decision = lit ''allow'', se_effect = lit ''write'',
     se_fencing = lit ''passed'', se_observed = True, se_occurred_at = lit ''t'', se_request_hash = sample_hash,
     se_result_hash = Some h, se_provenance = lit ''agentteams-native'', se_content_hash = sample_hash\<rparr>"

lemma r_entry_valid: "entry_validate sample_hasher (r_entry sample_hash) = Inr ()"
proof -
  have "ensure_sealed sample_hasher (entry_dict (r_entry sample_hash)) ''content_hash'' = Inr ()"
    unfolding entry_dict_def
    by (subst (2) r_entry_def, simp, rule sample_sealed)
      (simp_all add: entry_values_def r_entry_def sample_eval, simp add: sample_chars)
  then show ?thesis
    by (simp add: entry_validate_def)
      (simp add: r_entry_def validate_ref_def validate_text_def sample_hash_ok validate_hash_ok ledger_decisions_def
        ledger_effects_def ledger_fencing_def, simp add: sample_chars)
qed

definition r_receipt :: skill_receipt where
  "r_receipt = s_receipt ''PROMOTE'' ''1.1.0''"

definition r_result :: "(pystr \<times> json) list" where
  "r_result = map (\<lambda>(k, v). (lit k, JStr v)) (operation_texts (r_entry sample_hash) r_receipt s_proposal @ [(''verified_at'', lit ''t'')])
     @ [(lit ''authority_scope'', JObj (map (\<lambda>(k, v). (lit k, JStr v))
          [(''campaign_id'', lit ''camp''), (''run_id'', lit ''run''), (''trace_id'', lit ''trace''),
           (''pg_revision'', lit ''1''), (''content_hash'', sample_hash)]))]"

lemma map_of_lit: "map_of (map (\<lambda>(k, v). (lit k, f v)) kvs) (lit key) = map_option f (map_of kvs key)"
  by (induction kvs) auto

lemma r_result_text: "text_json (JObj r_result)" "wf_json (JObj r_result)" "width (JObj r_result) \<le> 100000"
proof -
  have h: "encodable sample_hash" "\<forall>c\<in>set sample_hash. c < 1114112" "length sample_hash = 71"
    "encodable sample_hash2" "\<forall>c\<in>set sample_hash2. c < 1114112" "length sample_hash2 = 71"
    by (auto simp: sample_hash_def sample_hash2_def is_surrogate_def dest!: set_lit_bound)
  note defs = r_result_def operation_texts_def r_entry_def r_receipt_def s_receipt_def s_proposal_def
  show "text_json (JObj r_result)" by (simp add: defs h is_surrogate_def)
  show "wf_json (JObj r_result)" by (simp add: defs)
  show "width (JObj r_result) \<le> 100000" by (simp add: defs h)
qed

text \<open>The members of the result, as they are read back.\<close>

definition read_members :: "(pystr \<times> json) list" where
  "read_members = sort_key fst (map (\<lambda>(k, v). (k, canon v)) r_result)"

lemma r_result_read: "json_of_bytes read_decimal (json_bytes (JObj r_result)) = Inr (Some (JObj read_members))"
  using json_of_json_bytes[OF r_result_text(1,2) reads_floats_decimal] by (simp add: read_members_def)

lemma map_of_read: "map_of read_members k = map_option canon (map_of r_result k)"
proof -
  have "distinct (map fst (map (\<lambda>(k, v). (k, canon v)) r_result))"
    unfolding map_snd_fst using r_result_text(2) by simp
  then show ?thesis by (simp add: read_members_def map_of_sort_key map_of_map)
qed

lemma read_members_ok:
  "has_keys read_members operation_fields" "texts_match read_members (operation_texts (r_entry sample_hash) r_receipt s_proposal)"
  "dict_get read_members ''verified_at'' = JStr (lit ''t'')"
  "operation_scope (r_entry sample_hash) (dict_get read_members ''authority_scope'') = Inr (lit ''1'', sample_hash)"
proof -
  have "set (map fst read_members) = set (map fst r_result)" by (simp add: read_members_def image_image case_prod_beta)
  then show "has_keys read_members operation_fields"
    by (simp add: has_keys_def r_result_def operation_texts_def operation_fields_def insert_commute)
  show "texts_match read_members (operation_texts (r_entry sample_hash) r_receipt s_proposal)"
    by (simp add: texts_match_def dict_get_def map_of_read r_result_def operation_texts_def)
  show "dict_get read_members ''verified_at'' = JStr (lit ''t'')"
    by (simp add: dict_get_def map_of_read r_result_def operation_texts_def)
  let ?scope = "[(''campaign_id'', lit ''camp''), (''run_id'', lit ''run''), (''trace_id'', lit ''trace''),
           (''pg_revision'', lit ''1''), (''content_hash'', sample_hash)]"
  have "dict_get read_members ''authority_scope'' = JObj (sort_key fst (map (\<lambda>(k, v). (lit k, JStr v)) ?scope))"
    by (simp add: dict_get_def map_of_read r_result_def operation_texts_def)
  moreover have "map_of (sort_key fst (map (\<lambda>(k, v). (lit k, JStr v)) ?scope)) = map_of (map (\<lambda>(k, v). (lit k, JStr v)) ?scope)"
    by (rule map_of_sort_key) simp
  ultimately show "operation_scope (r_entry sample_hash) (dict_get read_members ''authority_scope'') = Inr (lit ''1'', sample_hash)"
    by (simp add: operation_scope_def texts_match_def dict_get_def has_keys_def scope_fields_def scope_text_def insert_commute
        r_entry_def skill_ref_def skill_hash_def skill_text_ok sample_hash_ok bindE_ok, simp add: sample_patterns)
qed

definition r_claims :: "(string \<times> pystr) list" where
  "r_claims = [(''action'', lit ''PROMOTE''), (''active_version'', lit ''1.1.0''), (''content_hash'', sample_hash2),
     (''proposal_ref'', lit ''p''), (''proposal_hash'', sample_hash), (''receipt_ref'', lit ''r''), (''receipt_hash'', sample_hash),
     (''campaign_id'', lit ''camp''), (''run_id'', lit ''run''), (''trace_id'', lit ''trace''),
     (''pg_revision'', lit ''1''), (''authority_content_hash'', sample_hash)]"

definition r_operation :: operation_verification where
  "r_operation = (s_operation ''PROMOTE'' ''1.1.0'')\<lparr>ov_verification_ref := lit ''skillops-close:n''\<rparr>"

lemma r_operation_ok: "operation_create sample_hasher (r_operation\<lparr>ov_record_hash := []\<rparr>) = Inr r_operation"
proof -
  have p: "operation_payload (r_operation\<lparr>ov_record_hash := h\<rparr>) = operation_payload r_operation" for h
    by (simp add: operation_payload_def)
  have f: "\<not> nonfinite (JObj (operation_payload r_operation))" "encodable_json (JObj (operation_payload r_operation))"
    by (simp_all add: operation_payload_def r_operation_def s_operation_def)
  have h: "canonical_hash sample_hasher (JObj (operation_payload r_operation)) = Inr sample_hash"
    using canonical_hash_total[OF f, of sample_hasher] by (simp only: sample_hash_def sample_hasher_def)
  have c: "check_record_hash sample_hasher (operation_payload r_operation) sample_hash = Inr ()" by (rule sample_record_hash[OF f])
  have r: "r_operation\<lparr>ov_record_hash := sample_hash\<rparr> = r_operation" by (simp add: r_operation_def s_operation_def)
  have "ov_record_hash r_operation = sample_hash" by (simp add: r_operation_def s_operation_def)
  with c have "operation_init sample_hasher r_operation = Inr ()"
    unfolding operation_init_def
    by simp (simp add: r_operation_def s_operation_def sample_checks receipt_actions_def
      sample_readback_def verified_def claims_match_def operation_claims_def sample_claims, simp add: sample_patterns)
  then show ?thesis by (simp add: operation_create_def p h r bindE_ok)
qed

lemma r_token_operation:
  "verify_skill_operation_receipt sample_hasher sample_digest read_decimal (r_entry sample_hash) (json_bytes (JObj r_result))
     r_receipt s_proposal = Inr r_operation"
proof -
  let ?raw = "json_bytes (JObj r_result)"
  have i: "issue_readback sample_digest (lit ''agentteams'') (lit ''op'') ?raw (lit ''AUTHORITY_RECEIPT'') (sorted_claims r_claims) True
      = Inr (sample_readback (lit ''agentteams'') (lit ''op'') sample_hash (sorted_claims r_claims))"
  proof (rule issue_sample)
    show "length ?raw \<le> max_readback_bytes"
      using length_json_bytes[of "JObj r_result"] r_result_text(3) by (simp add: max_readback_bytes_def del: width.simps)
  qed (simp_all add: json_bytes_not_Nil source_pattern_def skill_ref_def skill_text_ok r_claims_def sample_hash_def sample_hash2_def,
      simp_all add: sample_patterns)
  have e: "se_call_ref (r_entry sample_hash) = lit ''op''" "se_result_hash (r_entry sample_hash) = Some sample_hash"
      "operation_entry_ok (r_entry sample_hash) r_receipt s_proposal"
    by (simp_all add: r_entry_def operation_entry_ok_def r_receipt_def s_receipt_def s_proposal_def)
  have c: "[(''action'', sr_action r_receipt), (''active_version'', sr_active_version r_receipt), (''content_hash'', sp_content_hash s_proposal),
       (''proposal_ref'', sp_proposal_id s_proposal), (''proposal_hash'', sp_record_hash s_proposal), (''receipt_ref'', sr_receipt_id r_receipt),
       (''receipt_hash'', sr_record_hash r_receipt), (''campaign_id'', se_campaign_id (r_entry sample_hash)),
       (''run_id'', se_run_id (r_entry sample_hash)), (''trace_id'', se_trace_id (r_entry sample_hash)),
       (''pg_revision'', lit ''1''), (''authority_content_hash'', sample_hash)] = r_claims"
    by (simp add: r_claims_def r_entry_def r_receipt_def s_receipt_def s_proposal_def)
  have o: "r_operation\<lparr>ov_record_hash := []\<rparr> =
      \<lparr>ov_verification_ref = lit ''skillops-close:'' @ se_entry_id (r_entry sample_hash), ov_operation_ref = lit ''op'',
       ov_operation_hash = sample_hash, ov_receipt_ref = sr_receipt_id r_receipt, ov_receipt_hash = sr_record_hash r_receipt,
       ov_proposal_ref = sp_proposal_id s_proposal, ov_proposal_hash = sp_record_hash s_proposal,
       ov_run_id = se_run_id (r_entry sample_hash), ov_action = sr_action r_receipt, ov_active_version = sr_active_version r_receipt,
       ov_content_hash = sp_content_hash s_proposal, ov_verified_at = lit ''t'', ov_record_hash = [],
       ov_token = Some (sample_readback (lit ''agentteams'') (lit ''op'') sample_hash (sorted_claims r_claims))\<rparr>"
    by (simp add: r_operation_def s_operation_def r_claims_def r_entry_def r_receipt_def s_receipt_def s_proposal_def
        flip: lit_append)
  have raw: "rb_raw_hash (sample_readback a b h cs) = h" for a b h cs by (simp add: sample_readback_def)
  show ?thesis
    using r_operation_ok i
    by (simp add: verify_skill_operation_receipt_def r_entry_valid readback_digest_def json_bytes_not_Nil bound_json_def
        r_result_read read_members_ok Let_def e(1) e(2) e(3) c raw o del: lit_append)
qed

lemma promotion_rests_on_receipts_witness:
  "\<exists>d a e. sk_decision s_promoted = Some d \<and> attestation_validate sample_hasher a = Inr () \<and> at_sender a = hd_actor_ref d
     \<and> entry_validate sample_hasher e = Inr () \<and> se_operation e = lit ''skill.promote''"
proof -
  let ?E = "undefined :: unit nacos_env"
  obtain t where t: "hv_token s_verification = Some t"
      "matrix_readback_from_authority sample_hasher sample_digest r_attestation [1] = Inr t"
    using r_token_matrix by blast
  have o: "ov_token r_operation = ov_token (s_operation ''PROMOTE'' ''1.1.0'')" by (simp add: r_operation_def)
  have s: "sk_state s_promoted = PROMOTED" "sk_verification s_promoted = Some s_verification"
      "sk_operation s_promoted = Some (s_operation ''PROMOTE'' ''1.1.0'')"
    by (simp_all add: sample_states)
  have "\<forall>w t. sk_verification s_promoted = Some w \<longrightarrow> hv_token w = Some t \<longrightarrow> issued sample_hasher sample_digest read_decimal ?E t"
    using s t issued.matrix[OF t(2)] by simp
  moreover have "\<forall>x t. sk_operation s_promoted = Some x \<longrightarrow> ov_token x = Some t \<longrightarrow> issued sample_hasher sample_digest read_decimal ?E t"
    using s issued.agentteams[OF r_token_operation, where E = ?E] o by simp
  ultimately show ?thesis
    using promotion_rests_on_receipts[OF s_promoted_reachable s(1), of sample_digest read_decimal ?E] by blast
qed

section \<open>A registry\<close>

text \<open>The answers that the registry still has to give are the state of its environment.\<close>

definition sample_registry :: "nacos_answer list nacos_env" where
  "sample_registry = \<lparr>ne_digest = sample_digest, ne_float = read_decimal, ne_host_ok = (\<lambda>host. True),
     ne_send = (\<lambda>q answers. case answers of [] \<Rightarrow> (SendFailed, []) | a # rest \<Rightarrow> (a, rest)), ne_pause = (\<lambda>answers. answers)\<rparr>"

definition g_versions :: json where
  "g_versions = JArr [JObj [(lit ''version'', JStr (lit ''1.1.0'')), (lit ''status'', JStr (lit ''online''))]]"

definition g_data :: "(pystr \<times> json) list" where
  "g_data = [(lit ''scope'', JStr (lit ''all'')), (lit ''versions'', g_versions)]"

definition g_answer :: "(pystr \<times> json) list" where
  "g_answer = [(lit ''code'', JInt 0), (lit ''data'', JObj g_data)]"

definition g_body :: "nat list" where
  "g_body = json_bytes (JObj g_answer)"

lemma map_of_canon:
  assumes "distinct (map fst kvs)" and "canon (JObj kvs) = JObj d"
  shows "map_of d k = map_option canon (map_of kvs k)"
proof -
  have "distinct (map fst (map (\<lambda>(k, v). (k, canon v)) kvs))" unfolding map_snd_fst by (rule assms(1))
  with assms(2) show ?thesis by (auto simp: map_of_sort_key map_of_map)
qed

lemma g_body_read:
  "\<exists>d. response_json read_decimal g_body = Inr d \<and> governance_of sample_digest read_decimal (lit ''1.1.0'') g_body
     = Inr \<lparr>sg_status = JStr (lit ''online''), sg_scope = JStr (lit ''all''), sg_response_hash = sample_hash\<rparr>"
proof -
  have t: "text_json (JObj g_answer)" "wf_json (JObj g_answer)"
    by (simp_all add: g_answer_def g_data_def g_versions_def nat_str.simps)
  obtain d where d: "canon (JObj g_answer) = JObj d" by simp
  obtain e where e: "canon (JObj g_data) = JObj e" by simp
  obtain i where i: "canon (JObj [(lit ''version'', JStr (lit ''1.1.0'')), (lit ''status'', JStr (lit ''online''))]) = JObj i" by simp
  have "map_of d (lit ''code'') = Some (JInt 0)" "map_of d (lit ''data'') = Some (JObj e)"
    using map_of_canon[OF _ d] e by (simp_all add: g_answer_def)
  moreover have "map_of e (lit ''scope'') = Some (JStr (lit ''all''))" "map_of e (lit ''versions'') = Some (JArr [JObj i])"
    using map_of_canon[OF _ e] i by (simp_all add: g_data_def g_versions_def)
  moreover have "map_of i (lit ''version'') = Some (JStr (lit ''1.1.0''))" "map_of i (lit ''status'') = Some (JStr (lit ''online''))"
    using map_of_canon[OF _ i] by simp_all
  moreover have read: "json_of_bytes read_decimal g_body = Inr (Some (JObj d))"
    unfolding g_body_def using json_of_json_bytes[OF t reads_floats_decimal] d by simp
  ultimately show ?thesis
    by (simp add: governance_of_def response_json_def dict_get_def is_container_def equals_int_def Let_def)
qed

lemma urlencode_total:
  assumes "\<forall>(k, v)\<in>set pairs. encodable k \<and> encodable v"
  shows "\<exists>t. urlencode pairs = Inr t"
proof -
  have q: "\<exists>t. quote_plus s = Inr t" if "encodable s" for s using that by (simp add: quote_plus_def quote_def)
  have "\<exists>ts. mapE (\<lambda>(k, v). bindE (quote_plus k) (\<lambda>k'. bindE (quote_plus v) (\<lambda>v'. Inr (k' @ [61] @ v')))) (sort_key fst pairs) = Inr ts"
  proof (rule mapE_total)
    fix x
    assume "x \<in> set (sort_key fst pairs)"
    then have "x \<in> set pairs" by simp
    with assms obtain k v where x: "x = (k, v)" "encodable k" "encodable v" by fastforce
    with q[OF x(2)] q[OF x(3)] show "\<exists>y. (case x of (k, v) \<Rightarrow> bindE (quote_plus k) (\<lambda>k'. bindE (quote_plus v) (\<lambda>v'. Inr (k' @ [61] @ v')))) = Inr y"
      by auto
  qed
  then show ?thesis by (auto simp: urlencode_def encoded_pairs_def)
qed

lemma multipart_total:
  assumes "\<forall>(k, v)\<in>set pairs. encodable k \<and> encodable v" and "encodable filename"
  shows "\<exists>body content_type. multipart pairs filename archive = Inr (body, content_type)"
proof -
  have "\<exists>ts. mapE multipart_field (sort_key fst pairs) = Inr ts"
  proof (rule mapE_total)
    fix x
    assume "x \<in> set (sort_key fst pairs)"
    then have "x \<in> set pairs" by simp
    with assms obtain k v where "x = (k, v)" "encodable k" "encodable v" by fastforce
    then show "\<exists>y. multipart_field x = Inr y"
      by (simp add: multipart_field_def encode_utf8_def bindE_def crlf_def is_surrogate_def)
  qed
  then show ?thesis using assms(2) by (auto simp: multipart_def encode_utf8_def bindE_def crlf_def is_surrogate_def)
qed

lemma registry_request:
  assumes "\<forall>(k, v)\<in>set query. encodable k \<and> encodable v"
  shows "nacos_request sample_registry c verb path query body content_type (NacosResponse 200 [] answer # rest) = (Inr ([], answer), rest)"
proof -
  obtain url where "nacos_url c path query = Inr url"
    using urlencode_total[OF assms] by (cases "query = []") (auto simp: nacos_url_def)
  then show ?thesis by (simp add: nacos_request_def nacos_send_def sample_registry_def bindS_def liftS_def accept_answer_def)
qed

definition root_client :: nacos_client where
  "root_client = \<lparr>nc_base_url = lit ''http://h/'', nc_namespace = lit ''ns'', nc_group = lit ''g'', nc_native = True\<rparr>"

lemma root_url:
  "urlsplit (\<lambda>host. True) (lit ''http://h'')
     = Inr \<lparr>ul_scheme = lit ''http'', ul_netloc = lit ''h'', ul_path = [], ul_query = [], ul_fragment = []\<rparr>"
  by (simp add: urlsplit_def split_scheme_def before_char_def from_char_def after_char_def scheme_char_def lit_def char_class_defs
      lower_def lower_char_def list_all_iff)

lemma root_base: "nacos_base_url (\<lambda>host. True) (lit ''http://h'') = Inr (lit ''http://h/'')"
  by (simp add: nacos_base_url_def root_url has_credentials_def rstrip_slash_def url_of_def) (simp add: lit_def)

definition g_package :: "nat list" where
  "g_package = [80, 75, 3, 4]"

definition g_answers :: "nacos_answer list" where
  "g_answers = map (NacosResponse 200 []) [g_body, g_body, g_body, g_package, g_body, g_package]"

lemma g_steps:
  "skill_checks (lit ''s'') (lit ''1.1.0'') = Inr ()"
  "upload_skill sample_registry root_client (lit ''s'') (lit ''1.1.0'') g_package (NacosResponse 200 [] g_body # w) = (Inr (), w)"
  "\<exists>d. json_request sample_registry root_client verb path [] (Some (skill_form root_client (lit ''s'') (lit ''1.1.0'')))
     (NacosResponse 200 [] g_body # w) = (Inr d, w)"
  "publish_attempts sample_registry root_client (lit ''s'') (lit ''1.1.0'') 20 (NacosResponse 200 [] g_body # w) = (Inr (), w)"
  "download_skill sample_registry root_client (lit ''s'') (lit ''1.1.0'') (NacosResponse 200 [] g_package # w) = (Inr g_package, w)"
  "read_skill sample_registry root_client (lit ''s'') (lit ''1.1.0'') (NacosResponse 200 [] g_body # w)
     = (Inr \<lparr>sg_status = JStr (lit ''online''), sg_scope = JStr (lit ''all''), sg_response_hash = sample_hash\<rparr>, w)"
proof -
  show checks: "skill_checks (lit ''s'') (lit ''1.1.0'') = Inr ()"
    by (simp add: skill_checks_def nacos_text_def bindE_ok, simp add: sample_patterns ref_pattern_def)
  obtain d where d: "response_json read_decimal g_body = Inr d" using g_body_read by blast
  have e: "ne_float sample_registry = read_decimal" "ne_digest sample_registry = sample_digest" by (simp_all add: sample_registry_def)
  have json: "\<exists>d. json_request sample_registry root_client verb path [] (Some pairs) (NacosResponse 200 [] g_body # w) = (Inr d, w)"
    if "\<forall>(k, v)\<in>set pairs. encodable k \<and> encodable v" for pairs verb path w
    using urlencode_total[OF that] d e by (auto simp: json_request_def bindS_def liftS_def registry_request)
  have form: "\<forall>(k, v)\<in>set (skill_form root_client (lit ''s'') (lit ''1.1.0'')). encodable k \<and> encodable v"
    by (simp add: skill_form_def root_client_def)
  show "\<exists>d. json_request sample_registry root_client verb path [] (Some (skill_form root_client (lit ''s'') (lit ''1.1.0'')))
      (NacosResponse 200 [] g_body # w) = (Inr d, w)"
    by (rule json[OF form])
  show "publish_attempts sample_registry root_client (lit ''s'') (lit ''1.1.0'') 20 (NacosResponse 200 [] g_body # w) = (Inr (), w)"
    using json[of "skill_form root_client (lit ''s'') (lit ''1.1.0'') @ [(lit ''updateLatestLabel'', lit ''false'')]"
      "''POST''" "''/v3/admin/ai/skills/publish''" w] form
    by (auto simp: publish_once_def eval_nat_numeral)
  have query: "\<forall>(k, v)\<in>set (skill_query root_client (lit ''s'') (lit ''1.1.0'')). encodable k \<and> encodable v"
    by (simp add: skill_query_def root_client_def)
  show "download_skill sample_registry root_client (lit ''s'') (lit ''1.1.0'') (NacosResponse 200 [] g_package # w) = (Inr g_package, w)"
    by (simp add: download_skill_def checks bindS_def liftS_def registry_request[OF query] g_package_def returnS_def)
  show "read_skill sample_registry root_client (lit ''s'') (lit ''1.1.0'') (NacosResponse 200 [] g_body # w)
      = (Inr \<lparr>sg_status = JStr (lit ''online''), sg_scope = JStr (lit ''all''), sg_response_hash = sample_hash\<rparr>, w)"
    using g_body_read by (simp add: read_skill_def checks bindS_def liftS_def registry_request root_client_def e)
  obtain body content_type where "multipart
      [(lit ''namespaceId'', nc_namespace root_client), (lit ''overwrite'', lit ''false''), (lit ''skillName'', lit ''s''),
       (lit ''version'', lit ''1.1.0''), (lit ''commitMsg'', lit ''TestWeaver SkillOps native package'')]
      (lit ''s'' @ [45] @ lit ''1.1.0'' @ lit ''.zip'') g_package = Inr (body, content_type)"
    using multipart_total[of
        "[(lit ''namespaceId'', nc_namespace root_client), (lit ''overwrite'', lit ''false''), (lit ''skillName'', lit ''s''),
          (lit ''version'', lit ''1.1.0''), (lit ''commitMsg'', lit ''TestWeaver SkillOps native package'')]"
        "lit ''s'' @ [45] @ lit ''1.1.0'' @ lit ''.zip''" g_package]
    by (auto simp: root_client_def is_surrogate_def)
  then show "upload_skill sample_registry root_client (lit ''s'') (lit ''1.1.0'') g_package (NacosResponse 200 [] g_body # w) = (Inr (), w)"
    using d e by (simp add: upload_skill_def bindS_def liftS_def registry_request returnS_def)
qed

lemma g_published:
  "\<exists>r. publish_skill_exact sample_registry root_client (lit ''s'') (lit ''1.1.0'') g_package sample_hash (lit ''http://h'') (lit ''ns'')
     g_answers = (Inr r, [])"
proof -
  let ?g = "\<lparr>sg_status = JStr (lit ''online''), sg_scope = JStr (lit ''all''), sg_response_hash = sample_hash\<rparr>"
  have e: "ne_digest sample_registry = sample_digest" "ne_host_ok sample_registry = (\<lambda>host. True)" by (simp_all add: sample_registry_def)
  have c: "nc_base_url root_client = lit ''http://h/''" "nc_namespace root_client = lit ''ns''" "nc_native root_client"
    by (simp_all add: root_client_def)
  have p: "g_package \<noteq> []" by (simp add: g_package_def)
  have "publish_skill sample_registry root_client (lit ''s'') (lit ''1.1.0'') g_package sample_hash
      (map (NacosResponse 200 []) [g_body, g_body, g_body, g_package, g_body] @ w)
    = (Inr \<lparr>np_endpoint = lit ''http://h/'', np_namespace = lit ''ns'', np_skill = lit ''s'', np_version = lit ''1.1.0'',
        np_local_hash = sample_hash, np_registry_hash = sample_hash, np_exact = True,
        np_classification = lit ''NATIVE_TRANSPORT'', np_governance = ?g\<rparr>, w)" for w
  proof -
    obtain d where "json_request sample_registry root_client ''POST'' ''/v3/admin/ai/skills/submit'' []
        (Some (skill_form root_client (lit ''s'') (lit ''1.1.0'')))
        (NacosResponse 200 [] g_body # NacosResponse 200 [] g_body # NacosResponse 200 [] g_package # NacosResponse 200 [] g_body # w)
      = (Inr d, NacosResponse 200 [] g_body # NacosResponse 200 [] g_package # NacosResponse 200 [] g_body # w)"
      using g_steps(3) by blast
    then show ?thesis
      by (simp add: publish_skill_def bindS_def liftS_def returnS_def g_steps(1,2,4,5,6) sample_hash_ok e c p)
  qed
  from this[of "[NacosResponse 200 [] g_package]"] have published: "publish_skill sample_registry root_client (lit ''s'') (lit ''1.1.0'') g_package sample_hash g_answers
    = (Inr \<lparr>np_endpoint = lit ''http://h/'', np_namespace = lit ''ns'', np_skill = lit ''s'', np_version = lit ''1.1.0'',
        np_local_hash = sample_hash, np_registry_hash = sample_hash, np_exact = True,
        np_classification = lit ''NATIVE_TRANSPORT'', np_governance = ?g\<rparr>, [NacosResponse 200 [] g_package])"
    by (simp add: g_answers_def)
  let ?claims = "[(''endpoint'', lit ''http://h/''), (''namespace_id'', lit ''ns''), (''skill_name'', lit ''s''), (''version'', lit ''1.1.0''),
          (''content_hash'', sample_hash), (''admin_response_hash'', sample_hash), (''registry_status'', lit ''online'')]"
  have "\<exists>t. issue_readback sample_digest (lit ''nacos'') (candidate_ref (lit ''http://h/'') (lit ''ns'') (lit ''s'') (lit ''1.1.0'')) g_package
      (lit ''NATIVE_TRANSPORT'') (sorted_claims ?claims) True = Inr t"
    by (rule issue_native)
      (simp_all add: source_pattern_def skill_ref_def skill_text_ok candidate_ref_def g_package_def max_readback_bytes_def
        sample_hash_def, simp_all add: sample_patterns ref_pattern_def)
  then obtain t where t: "issue_readback sample_digest (lit ''nacos'') (candidate_ref (lit ''http://h/'') (lit ''ns'') (lit ''s'') (lit ''1.1.0'')) g_package
      (lit ''NATIVE_TRANSPORT'') (sorted_claims ?claims) True = Inr t" by blast
  have ns: "nacos_text (lit ''ns'') ''expected_namespace'' any_text = Inr ()"
    by (simp add: nacos_text_def any_text_def, simp add: sample_patterns)
  show ?thesis
    by (simp add: publish_skill_exact_def e root_base c ns published published_status_def is_container_def g_steps(5) t Let_def bindS_def[of "publish_skill _ _ _ _ _ _"]
        bindS_def[of "download_skill _ _ _ _"] returnS_def)
qed

lemma published_candidate_is_exact_witness:
  "\<exists>r. candidate_verified r \<and> cr_status r \<in> {lit ''online'', lit ''published''}
     \<and> (\<exists>body. fst (download_skill sample_registry root_client (lit ''s'') (lit ''1.1.0'') [NacosResponse 200 [] g_package]) = Inr body)"
proof -
  obtain r where "publish_skill_exact sample_registry root_client (lit ''s'') (lit ''1.1.0'') g_package sample_hash (lit ''http://h'') (lit ''ns'')
     g_answers = (Inr r, [])"
    using g_published by blast
  from published_candidate_is_exact[OF this] show ?thesis by (auto simp: g_steps(5))
qed

lemma root_registry_is_never_verified_witness:
  "\<exists>r. candidate_verified r
     \<and> (\<forall>HB host_ok p name endpoint namespace d. verify_nacos_candidate_readback HB host_ok p name r endpoint namespace \<noteq> Inr d)"
proof -
  obtain r where r: "publish_skill_exact sample_registry root_client (lit ''s'') (lit ''1.1.0'') g_package sample_hash (lit ''http://h'') (lit ''ns'')
     g_answers = (Inr r, [])"
    using g_published by blast
  have "urlsplit (ne_host_ok sample_registry) (lit ''http://h'')
      = Inr \<lparr>ul_scheme = lit ''http'', ul_netloc = lit ''h'', ul_path = [], ul_query = [], ul_fragment = []\<rparr>"
    using root_url by (simp add: sample_registry_def)
  from root_registry_is_never_verified[OF r this] exact_facts[OF r] show ?thesis by (simp add: rstrip_slash_def) blast
qed

end
