(* ===== verification/Task_Dag.thy ===== *)
theory Task_Dag
  imports Base
begin

text \<open>
  The task graphs of \<open>copaw_worker/task.py\<close>: the task record, the statuses with their
  markers, \<open>validate_dag\<close> (Kahn's algorithm over counters and a queue), the selection of the
  nodes that are ready, and the lookup and update of a task. The lemmas show that the
  algorithm accepts exactly the acyclic graphs and that an unfinished valid graph always
  has a task to work on.
\<close>

section \<open>Tasks\<close>

record dag_task =
  dt_id :: pystr
  dt_title :: pystr
  dt_assigned :: pystr
  dt_depends :: "pystr list"
  dt_status :: pystr

definition terr :: "pystr \<Rightarrow> exc" where
  "terr msg = TaskflowError msg"

text \<open>\<open>MARKER_TO_STATUS\<close> and its inverse.\<close>

definition marker_to_status :: "(nat \<times> pystr) list" where
  "marker_to_status =
     [(32, lit ''pending''), (126, lit ''delegated''), (120, lit ''completed''),
      (33, lit ''blocked''), (8594, lit ''revision'')]"

definition status_to_marker :: "(pystr \<times> nat) list" where
  "status_to_marker = map (\<lambda>(key, value). (value, key)) marker_to_status"

section \<open>Validation of a graph\<close>

text \<open>\<open>outgoing[dep].append(task.task_id)\<close> for every dependency of a task.\<close>

primrec add_children ::
  "pystr \<Rightarrow> pystr list \<Rightarrow> (pystr \<times> pystr list) list \<Rightarrow> (pystr \<times> pystr list) list res" where
  "add_children tid [] outgoing = Inr outgoing"
| "add_children tid (dep # deps) outgoing =
     (case map_of outgoing dep of
        None \<Rightarrow> Inl (KeyError dep)
      | Some children \<Rightarrow> add_children tid deps (AList.update dep (children @ [tid]) outgoing))"

primrec add_edges ::
  "dag_task list \<Rightarrow> (pystr \<times> pystr list) list \<Rightarrow> (pystr \<times> pystr list) list res" where
  "add_edges [] outgoing = Inr outgoing"
| "add_edges (t # ts) outgoing =
     bindE (add_children (dt_id t) (dt_depends t) outgoing) (add_edges ts)"

text \<open>The loop over the children of the node taken from the queue.\<close>

primrec release ::
  "pystr list \<Rightarrow> (pystr \<times> int) list \<Rightarrow> pystr list \<Rightarrow> ((pystr \<times> int) list \<times> pystr list) res" where
  "release [] incoming queue = Inr (incoming, queue)"
| "release (child # children) incoming queue =
     (case map_of incoming child of
        None \<Rightarrow> Inl (KeyError child)
      | Some n \<Rightarrow> release children (AList.update child (n - 1) incoming)
                    (if n - 1 = 0 then queue @ [child] else queue))"

text \<open>
  The \<open>while queue\<close> loop. It ends whatever the counters are: a node enters the queue only
  when its counter falls from one to zero, so the queue and the positive counters together
  get fewer.
\<close>

definition positive_counters :: "(pystr \<times> int) list \<Rightarrow> nat" where
  "positive_counters incoming = length (filter (\<lambda>kv. 0 < snd kv) incoming)"

lemma positive_counters_update:
  "map_of incoming k = Some n \<Longrightarrow>
   positive_counters (AList.update k (n - 1) incoming) + (if n = 1 then 1 else 0)
     = positive_counters incoming"
  by (induction incoming) (auto simp: positive_counters_def)

lemma release_measure:
  "release children incoming queue = Inr (incoming', queue') \<Longrightarrow>
   length queue' + positive_counters incoming' = length queue + positive_counters incoming"
proof (induction children arbitrary: incoming queue)
  case Nil
  then show ?case by simp
next
  case (Cons child children)
  then obtain n where n: "map_of incoming child = Some n"
    by (auto split: option.splits)
  have "length queue' + positive_counters incoming'
      = length (if n - 1 = 0 then queue @ [child] else queue)
        + positive_counters (AList.update child (n - 1) incoming)"
    using Cons.prems n by (intro Cons.IH) simp
  with positive_counters_update[OF n] show ?case by (simp split: if_splits)
qed

function kahn ::
  "(pystr \<times> pystr list) list \<Rightarrow> (pystr \<times> int) list \<Rightarrow> pystr list \<Rightarrow> nat \<Rightarrow> nat res" where
  "kahn outgoing incoming [] visited = Inr visited"
| "kahn outgoing incoming (current # queue) visited =
     (case map_of outgoing current of
        None \<Rightarrow> Inl (KeyError current)
      | Some children \<Rightarrow>
          (case release children incoming queue of
             Inl e \<Rightarrow> Inl e
           | Inr (incoming', queue') \<Rightarrow> kahn outgoing incoming' queue' (visited + 1)))"
  by pat_completeness auto
termination
  by (relation "measure (\<lambda>(outgoing, incoming, queue, visited).
        length queue + positive_counters incoming)") (auto dest!: release_measure)

definition unknown_dependencies :: "pystr list \<Rightarrow> dag_task \<Rightarrow> pystr list" where
  "unknown_dependencies ids t = filter (\<lambda>dep. dep \<notin> set ids) (dt_depends t)"

definition check_tasks :: "dag_task list \<Rightarrow> unit res" where
  "check_tasks tasks =
     (let ids = map dt_id tasks in
      seqE
        [raise_if (length ids \<noteq> length (remdups ids)) (terr (lit ''duplicate task ids in graph'')),
         seqE (map (\<lambda>t. raise_if (unknown_dependencies ids t \<noteq> [])
                 (terr (lit ''task '' @ dt_id t @ lit '' depends on unknown task(s): ''
                        @ join (lit '', '') (unknown_dependencies ids t)))) tasks)])"

definition validate_dag :: "dag_task list \<Rightarrow> unit res" where
  "validate_dag tasks =
     bindE (check_tasks tasks) (\<lambda>_.
     (let incoming = dict_of (map (\<lambda>t. (dt_id t, int (length (dt_depends t)))) tasks) in
      bindE (add_edges tasks (dict_of (map (\<lambda>t. (dt_id t, [])) tasks))) (\<lambda>outgoing.
      bindE (kahn outgoing incoming (map fst (filter (\<lambda>(i, n). n = 0) incoming)) 0) (\<lambda>visited.
      raise_if (visited \<noteq> length tasks) (terr (lit ''cycle detected in DAG''))))))"

section \<open>Ready nodes, lookup and update\<close>

definition effective_ids :: "dag_task list \<Rightarrow> pystr set" where
  "effective_ids tasks = set (map dt_id (filter (\<lambda>t. dt_status t = lit ''completed'') tasks))"

definition ready_tasks :: "dag_task list \<Rightarrow> dag_task list" where
  "ready_tasks tasks =
     filter (\<lambda>t. dt_status t = lit ''pending'' \<and> (\<forall>dep\<in>set (dt_depends t). dep \<in> effective_ids tasks)) tasks"

text \<open>The identifiers of tasks and projects, \<open>_safe_id\<close>.\<close>

definition is_id_char :: "nat \<Rightarrow> bool" where
  "is_id_char c \<longleftrightarrow> is_alnum_ascii c \<or> c = 95 \<or> c = 45"

definition safe_id :: "pystr \<Rightarrow> pystr res" where
  "safe_id value =
     (let text = strip value in
      bindE (raise_if (text = [] \<or> \<not> list_all is_id_char text) (terr (lit ''invalid id: '' @ value)))
        (\<lambda>_. Inr text))"

definition find_task :: "dag_task list \<Rightarrow> pystr \<Rightarrow> dag_task res" where
  "find_task tasks task_id = bindE (safe_id task_id) (\<lambda>safe.
     case filter (\<lambda>t. dt_id t = safe) tasks of
       [] \<Rightarrow> Inl (terr (lit ''task not found in project graph: '' @ task_id))
     | t # _ \<Rightarrow> Inr t)"

definition replace_task_status :: "dag_task list \<Rightarrow> pystr \<Rightarrow> pystr \<Rightarrow> dag_task list res" where
  "replace_task_status tasks task_id status = bindE (safe_id task_id) (\<lambda>safe.
     Inr (map (\<lambda>t. if dt_id t = safe then t\<lparr>dt_status := status\<rparr> else t) tasks))"

section \<open>Lemmas: the graph\<close>

definition graph_ok :: "dag_task list \<Rightarrow> bool" where
  "graph_ok tasks \<longleftrightarrow> distinct (map dt_id tasks)
     \<and> (\<forall>t\<in>set tasks. set (dt_depends t) \<subseteq> set (map dt_id tasks))"

text \<open>An edge leads from a dependency to the task that waits for it.\<close>

definition edges :: "dag_task list \<Rightarrow> (pystr \<times> pystr) set" where
  "edges tasks = {(d, dt_id t) | d t. t \<in> set tasks \<and> d \<in> set (dt_depends t)}"

definition deps_of :: "dag_task list \<Rightarrow> pystr \<Rightarrow> pystr list" where
  "deps_of tasks i = (case map_of (map (\<lambda>t. (dt_id t, dt_depends t)) tasks) i of None \<Rightarrow> [] | Some ds \<Rightarrow> ds)"

text \<open>How many dependencies of a task are not among the nodes already taken.\<close>

definition open_deps :: "dag_task list \<Rightarrow> pystr list \<Rightarrow> pystr \<Rightarrow> nat" where
  "open_deps tasks V i = length (filter (\<lambda>d. d \<notin> set V) (deps_of tasks i))"

lemma deps_of_task:
  assumes "distinct (map dt_id tasks)" and "t \<in> set tasks"
  shows "deps_of tasks (dt_id t) = dt_depends t"
proof -
  have "map_of (map (\<lambda>t. (dt_id t, dt_depends t)) tasks) (dt_id t) = Some (dt_depends t)"
    using assms by (intro map_of_is_SomeI) (auto simp: comp_def)
  then show ?thesis by (simp add: deps_of_def)
qed

lemma edges_deps:
  assumes "distinct (map dt_id tasks)" and "i \<in> set (map dt_id tasks)"
  shows "(d, i) \<in> edges tasks \<longleftrightarrow> d \<in> set (deps_of tasks i)"
  using assms deps_of_task[OF assms(1)] by (auto simp: edges_def)

lemma edges_target: "(d, i) \<in> edges tasks \<Longrightarrow> i \<in> set (map dt_id tasks)"
  by (auto simp: edges_def)

lemma edges_source: "graph_ok tasks \<Longrightarrow> (d, i) \<in> edges tasks \<Longrightarrow> d \<in> set (map dt_id tasks)"
  by (auto simp: edges_def graph_ok_def)

lemma finite_edges: "finite (edges tasks)"
proof -
  have "edges tasks = (\<Union>t\<in>set tasks. (\<lambda>d. (d, dt_id t)) ` set (dt_depends t))"
    by (auto simp: edges_def)
  then show ?thesis by simp
qed

lemma open_deps_snoc:
  assumes "c \<notin> set V"
  shows "open_deps tasks V i = open_deps tasks (V @ [c]) i + count_list (deps_of tasks i) c"
proof -
  have "length (filter (\<lambda>d. d \<notin> set V) ds)
      = length (filter (\<lambda>d. d \<notin> set (V @ [c])) ds) + count_list ds c" for ds
    using assms by (induction ds) auto
  then show ?thesis by (simp add: open_deps_def)
qed

lemma open_deps_0: "open_deps tasks V i = 0 \<longleftrightarrow> set (deps_of tasks i) \<subseteq> set V"
  by (auto simp: open_deps_def filter_empty_conv)

section \<open>Lemmas: the tables of the algorithm\<close>

lemma keys_update: "k \<in> set (map fst d) \<Longrightarrow> map fst (AList.update k v d) = map fst d"
  by (simp add: update_keys)

lemma add_children_spec:
  assumes "set deps \<subseteq> set (map fst out)"
  obtains out' where "add_children tid deps out = Inr out'" and "map fst out' = map fst out"
    and "\<And>d. map_of out' d = map_option (\<lambda>l. l @ map (\<lambda>_. tid) (filter (\<lambda>x. x = d) deps)) (map_of out d)"
  using assms
proof (induction deps arbitrary: out thesis)
  case Nil
  then show ?case by (simp add: option.map_ident)
next
  case (Cons dep deps)
  obtain l where l: "map_of out dep = Some l" using Cons.prems(2) by (metis list.set_intros(1) map_of_eq_None_iff list.set_map not_None_eq subsetD)
  have k: "map fst (AList.update dep (l @ [tid]) out) = map fst out"
    using Cons.prems(2) by (intro keys_update) simp
  obtain out' where out': "add_children tid deps (AList.update dep (l @ [tid]) out) = Inr out'"
    "map fst out' = map fst out"
    "\<And>d. map_of out' d = map_option (\<lambda>l. l @ map (\<lambda>_. tid) (filter (\<lambda>x. x = d) deps))
            (map_of (AList.update dep (l @ [tid]) out) d)"
    using Cons.IH[of "AList.update dep (l @ [tid]) out"] Cons.prems(2) k by auto
  show ?case
    by (rule Cons.prems(1)[OF _ out'(2)]) (auto simp: l out' update_conv')
qed

text \<open>The edges in the order the nested loops visit them.\<close>

definition edge_list :: "dag_task list \<Rightarrow> (pystr \<times> pystr) list" where
  "edge_list tasks = concat (map (\<lambda>t. map (\<lambda>d. (d, dt_id t)) (dt_depends t)) tasks)"

definition children_of :: "dag_task list \<Rightarrow> pystr \<Rightarrow> pystr list" where
  "children_of tasks d = map snd (filter (\<lambda>e. fst e = d) (edge_list tasks))"

lemma children_of_Cons:
  "children_of (t # ts) d = map (\<lambda>_. dt_id t) (filter (\<lambda>x. x = d) (dt_depends t)) @ children_of ts d"
  by (simp add: children_of_def edge_list_def filter_map comp_def)

lemma add_edges_spec:
  assumes "\<forall>t\<in>set tasks. set (dt_depends t) \<subseteq> set (map fst out)"
  obtains out' where "add_edges tasks out = Inr out'" and "map fst out' = map fst out"
    and "\<And>d. map_of out' d = map_option (\<lambda>l. l @ children_of tasks d) (map_of out d)"
  using assms
proof (induction tasks arbitrary: out thesis)
  case Nil
  then show ?case by (simp add: children_of_def edge_list_def option.map_ident)
next
  case (Cons t ts)
  obtain o1 where o1: "add_children (dt_id t) (dt_depends t) out = Inr o1" "map fst o1 = map fst out"
    "\<And>d. map_of o1 d = map_option (\<lambda>l. l @ map (\<lambda>_. dt_id t) (filter (\<lambda>x. x = d) (dt_depends t))) (map_of out d)"
    using add_children_spec[of "dt_depends t" out "dt_id t"] Cons.prems(2) by auto
  obtain o2 where o2: "add_edges ts o1 = Inr o2" "map fst o2 = map fst o1"
    "\<And>d. map_of o2 d = map_option (\<lambda>l. l @ children_of ts d) (map_of o1 d)"
    using Cons.IH[of o1] Cons.prems(2) o1(2) by auto
  show ?case
    by (rule Cons.prems(1)[of o2])
       (simp_all add: o1 o2 children_of_Cons option.map_comp comp_def)
qed

lemma count_children:
  assumes "distinct (map dt_id tasks)" and "i \<in> set (map dt_id tasks)"
  shows "count_list (children_of tasks d) i = count_list (deps_of tasks i) d"
  using assms
proof (induction tasks)
  case Nil
  then show ?case by simp
next
  case (Cons t ts)
  have other: "count_list (children_of ts d) (dt_id t) = 0"
    using Cons.prems(1) by (auto simp: count_list_0_iff children_of_def edge_list_def image_iff)
  have same: "count_list (map (\<lambda>_. x) (filter (\<lambda>y. y = d) ds)) x = count_list ds d" for x :: pystr and ds
    by (induction ds) auto
  have diff: "x \<noteq> y \<Longrightarrow> count_list (map (\<lambda>_. x) zs) y = 0" for x y :: pystr and zs :: "pystr list"
    by (induction zs) auto
  show ?case
  proof (cases "i = dt_id t")
    case True
    then show ?thesis
      using other by (simp add: children_of_Cons count_list_append same deps_of_def)
  next
    case False
    then have "deps_of (t # ts) i = deps_of ts i" by (simp add: deps_of_def)
    then show ?thesis
      using Cons False by (simp add: children_of_Cons count_list_append diff)
  qed
qed

lemma release_spec:
  assumes "set cs \<subseteq> set (map fst inc)"
  obtains inc' new where "release cs inc q = Inr (inc', q @ new)" and "map fst inc' = map fst inc"
    and "\<And>i. map_of inc' i = map_option (\<lambda>n. n - int (count_list cs i)) (map_of inc i)"
    and "distinct new"
    and "\<And>i. i \<in> set new \<longleftrightarrow> (\<exists>n. map_of inc i = Some n \<and> 0 < n \<and> n \<le> int (count_list cs i))"
  using assms
proof (induction cs arbitrary: inc q thesis)
  case Nil
  then show ?case by (auto simp: option.map_ident)
next
  case (Cons c cs)
  obtain n where n: "map_of inc c = Some n"
    using Cons.prems(2) by (metis list.set_intros(1) map_of_eq_None_iff list.set_map not_None_eq subsetD)
  let ?inc = "AList.update c (n - 1) inc" and ?q = "if n - 1 = 0 then q @ [c] else q"
  have k: "map fst ?inc = map fst inc" using Cons.prems(2) by (intro keys_update) simp
  obtain inc' new where r: "release cs ?inc ?q = Inr (inc', ?q @ new)" "map fst inc' = map fst ?inc"
    "\<And>i. map_of inc' i = map_option (\<lambda>n. n - int (count_list cs i)) (map_of ?inc i)"
    "distinct new"
    "\<And>i. i \<in> set new \<longleftrightarrow> (\<exists>n. map_of ?inc i = Some n \<and> 0 < n \<and> n \<le> int (count_list cs i))"
    using Cons.IH[of ?inc ?q] Cons.prems(2) k by auto
  show ?case
  proof (rule Cons.prems(1)[of inc' "(if n - 1 = 0 then [c] else []) @ new"])
    show "release (c # cs) inc q = Inr (inc', q @ (if n - 1 = 0 then [c] else []) @ new)"
      using r(1) n by simp
    show "map fst inc' = map fst inc" using r(2) k by simp
    show "map_of inc' i = map_option (\<lambda>n. n - int (count_list (c # cs) i)) (map_of inc i)" for i
      using n by (auto simp: r(3) update_conv')
    show "distinct ((if n - 1 = 0 then [c] else []) @ new)"
      using r(4) by (auto simp: r(5) update_conv')
    show "i \<in> set ((if n - 1 = 0 then [c] else []) @ new) \<longleftrightarrow>
        (\<exists>n. map_of inc i = Some n \<and> 0 < n \<and> n \<le> int (count_list (c # cs) i))" for i
      using n by (auto simp: r(5) update_conv')
  qed
qed

section \<open>Lemmas: Kahn's algorithm\<close>

text \<open>
  The state of the loop after the nodes \<open>V\<close> have been taken in this order: the counters
  hold the dependencies that are still open, the nodes whose counter is zero are exactly the
  taken and the queued ones, and every taken node came after its dependencies.
\<close>

primrec ordered :: "dag_task list \<Rightarrow> pystr list \<Rightarrow> bool" where
  "ordered tasks [] = True"
| "ordered tasks (c # V) = (set (deps_of tasks c) \<subseteq> set V \<and> ordered tasks V)"

definition kahn_inv ::
  "dag_task list \<Rightarrow> pystr list \<Rightarrow> (pystr \<times> int) list \<Rightarrow> pystr list \<Rightarrow> bool" where
  "kahn_inv tasks V inc q \<longleftrightarrow>
     map fst inc = map dt_id tasks
     \<and> (\<forall>i\<in>set (map dt_id tasks). map_of inc i = Some (int (open_deps tasks V i)))
     \<and> distinct (V @ q) \<and> set (V @ q) = {i \<in> set (map dt_id tasks). open_deps tasks V i = 0}
     \<and> ordered tasks (rev V)"

lemma kahn_step:
  assumes inv: "kahn_inv tasks V inc (c # q)" and ok: "graph_ok tasks"
  obtains inc' q' where "release (children_of tasks c) inc q = Inr (inc', q')"
    and "kahn_inv tasks (V @ [c]) inc' q'"
proof -
  let ?ids = "set (map dt_id tasks)"
  have dist: "distinct (map dt_id tasks)" using ok by (simp add: graph_ok_def)
  have c: "c \<in> ?ids" "c \<notin> set V" "set (deps_of tasks c) \<subseteq> set V"
    using inv by (auto simp: kahn_inv_def set_eq_iff open_deps_0)
  have count: "count_list (children_of tasks c) i = count_list (deps_of tasks i) c" if "i \<in> ?ids" for i
    using count_children[OF dist that] .
  have keys: "map fst inc = map dt_id tasks" using inv by (simp add: kahn_inv_def)
  have "set (children_of tasks c) \<subseteq> set (map fst inc)"
    by (auto simp: keys children_of_def edge_list_def)
  then obtain inc' new where r: "release (children_of tasks c) inc q = Inr (inc', q @ new)"
    "map fst inc' = map fst inc"
    "\<And>i. map_of inc' i = map_option (\<lambda>n. n - int (count_list (children_of tasks c) i)) (map_of inc i)"
    "distinct new"
    "\<And>i. i \<in> set new \<longleftrightarrow>
        (\<exists>n. map_of inc i = Some n \<and> 0 < n \<and> n \<le> int (count_list (children_of tasks c) i))"
    by (rule release_spec[where q = q]) blast
  have old: "map_of inc i = Some (int (open_deps tasks V i))" if "i \<in> ?ids" for i
    using inv that unfolding kahn_inv_def by blast
  note split = open_deps_snoc[OF c(2), of tasks]
  have inc': "map_of inc' i = Some (int (open_deps tasks (V @ [c]) i))" if "i \<in> ?ids" for i
    using that count[OF that] split[of i] by (simp add: r(3) old)
  have new: "i \<in> set new \<longleftrightarrow> i \<in> ?ids \<and> 0 < open_deps tasks V i \<and> open_deps tasks (V @ [c]) i = 0" for i
  proof (cases "i \<in> ?ids")
    case True
    then show ?thesis using split[of i] count[OF True] by (auto simp: r(5) old)
  next
    case False
    then have "map_of inc i = None" using keys by (metis map_of_eq_None_iff list.set_map)
    then show ?thesis using False by (simp add: r(5))
  qed
  have queued: "set (V @ c # q) = {i \<in> ?ids. open_deps tasks V i = 0}" and "distinct (V @ c # q)"
    using inv by (simp_all add: kahn_inv_def)
  have "set (V @ c # q) \<inter> set new = {}" unfolding queued using new by (auto simp del: set_map)
  with \<open>distinct (V @ c # q)\<close> r(4) have "distinct ((V @ [c]) @ q @ new)" by auto
  moreover have "set ((V @ [c]) @ q @ new) = {i \<in> ?ids. open_deps tasks (V @ [c]) i = 0}"
  proof -
    have "set ((V @ [c]) @ q @ new) = {i \<in> ?ids. open_deps tasks V i = 0} \<union> set new"
      using queued by auto
    also have "\<dots> = {i \<in> ?ids. open_deps tasks (V @ [c]) i = 0}"
      using split new by auto
    finally show ?thesis .
  qed
  moreover have "ordered tasks (rev (V @ [c]))" using inv c(3) by (simp add: kahn_inv_def)
  ultimately have "kahn_inv tasks (V @ [c]) inc' (q @ new)"
    using r(2) keys inc' by (simp add: kahn_inv_def)
  with r(1) that show thesis by blast
qed

lemma kahn_runs:
  assumes "graph_ok tasks" and "\<And>d. d \<in> set (map dt_id tasks) \<Longrightarrow> map_of out d = Some (children_of tasks d)"
    and "kahn_inv tasks V inc q"
  shows "\<exists>V' inc'. kahn out inc q (length V) = Inr (length V') \<and> kahn_inv tasks V' inc' []"
  using assms(3)
proof (induction "length tasks - length V" arbitrary: V inc q rule: less_induct)
  case less
  show ?case
  proof (cases q)
    case Nil
    with less.prems show ?thesis by auto
  next
    case (Cons c q1)
    obtain inc' q' where r: "release (children_of tasks c) inc q1 = Inr (inc', q')"
      and inv: "kahn_inv tasks (V @ [c]) inc' q'"
      using kahn_step[OF _ assms(1)] less.prems Cons by metis
    have c: "c \<in> set (map dt_id tasks)"
      using less.prems Cons by (auto simp: kahn_inv_def set_eq_iff)
    have "distinct (V @ [c])" "set (V @ [c]) \<subseteq> set (map dt_id tasks)"
      using inv by (auto simp: kahn_inv_def set_eq_iff)
    then have "length (V @ [c]) \<le> length tasks"
      by (metis card_mono distinct_card List.finite_set length_map card_length le_trans)
    then have "length tasks - length (V @ [c]) < length tasks - length V" by simp
    from less.hyps[OF this inv] show ?thesis
      using r Cons assms(2)[OF c] by simp
  qed
qed

lemma ordered_closed: "ordered tasks V \<Longrightarrow> i \<in> set V \<Longrightarrow> set (deps_of tasks i) \<subseteq> set V"
  by (induction V) auto

lemma ordered_wf:
  assumes "ordered tasks V" and "distinct V" and "i \<in> set V" and "d \<in> set (deps_of tasks i)"
  shows "length (takeWhile (\<lambda>x. x \<noteq> i) V) < length (takeWhile (\<lambda>x. x \<noteq> d) V)"
  using assms
proof (induction V)
  case Nil
  then show ?case by simp
next
  case (Cons c V)
  show ?case
  proof (cases "i = c")
    case True
    with Cons.prems show ?thesis by auto
  next
    case False
    with Cons have "length (takeWhile (\<lambda>x. x \<noteq> i) V) < length (takeWhile (\<lambda>x. x \<noteq> d) V)" by simp
    moreover have "d \<noteq> c" using ordered_closed[of tasks V i] Cons.prems False by auto
    ultimately show ?thesis using False by simp
  qed
qed

lemma kahn_end_acyclic:
  assumes ok: "graph_ok tasks" and inv: "kahn_inv tasks V inc []"
  shows "length V = length tasks \<longleftrightarrow> acyclic (edges tasks)"
proof
  have dist: "distinct (map dt_id tasks)" using ok by (simp add: graph_ok_def)
  have V: "set V = {i \<in> set (map dt_id tasks). set (deps_of tasks i) \<subseteq> set V}" "distinct V"
    "ordered tasks (rev V)"
    using inv by (simp_all add: kahn_inv_def open_deps_0)
  {
    assume "length V = length tasks"
    then have all: "set V = set (map dt_id tasks)"
      using V dist by (metis (no_types, lifting) card_subset_eq distinct_card length_map
          List.finite_set mem_Collect_eq subsetI)
    have "(edges tasks)\<inverse> \<subseteq> measure (\<lambda>x. length (takeWhile (\<lambda>y. y \<noteq> x) (rev V)))"
    proof (clarsimp simp: in_measure)
      fix d i
      assume e: "(d, i) \<in> edges tasks"
      then have i: "i \<in> set (map dt_id tasks)" by (rule edges_target)
      with e have "d \<in> set (deps_of tasks i)" using edges_deps[OF dist] by blast
      with i all V(2) show "length (takeWhile (\<lambda>y. y \<noteq> i) (rev V)) < length (takeWhile (\<lambda>y. y \<noteq> d) (rev V))"
        by (intro ordered_wf[OF V(3)]) simp_all
    qed
    then have "wf ((edges tasks)\<inverse>)" using wf_subset wf_measure by blast
    then show "acyclic (edges tasks)" using wf_acyclic acyclic_converse by blast
  next
    assume "acyclic (edges tasks)"
    then have "wf (edges tasks)" using finite_edges finite_acyclic_wf by blast
    then have "i \<in> set (map dt_id tasks) \<longrightarrow> i \<in> set V" for i
    proof (induction i rule: wf_induct_rule)
      case (less i)
      show ?case
      proof
        assume i: "i \<in> set (map dt_id tasks)"
        have "d \<in> set V" if "d \<in> set (deps_of tasks i)" for d
        proof -
          have "(d, i) \<in> edges tasks" using that i edges_deps[OF dist] by blast
          then show ?thesis using less edges_source[OF ok] by blast
        qed
        with i show "i \<in> set V" using V(1) by blast
      qed
    qed
    with V(1) have "set V = set (map dt_id tasks)" by blast
    then show "length V = length tasks"
      using V(2) dist by (metis distinct_card length_map)
  }
qed

lemma check_tasks_ok: "check_tasks tasks = Inr () \<longleftrightarrow> graph_ok tasks"
proof -
  have "length (map dt_id tasks) = length (remdups (map dt_id tasks)) \<longleftrightarrow> distinct (map dt_id tasks)"
    by (metis distinct_remdups_id length_remdups_eq remdups_id_iff_distinct)
  moreover have "unknown_dependencies ids t = [] \<longleftrightarrow> set (dt_depends t) \<subseteq> set ids" for ids t
    by (auto simp: unknown_dependencies_def filter_empty_conv)
  ultimately show ?thesis by (simp add: check_tasks_def graph_ok_def Let_def)
qed

text \<open>The tables that the algorithm starts with satisfy its invariant.\<close>

lemma kahn_start:
  assumes "graph_ok tasks"
  defines "incoming \<equiv> map (\<lambda>t. (dt_id t, int (length (dt_depends t)))) tasks"
  shows "kahn_inv tasks [] incoming (map fst (filter (\<lambda>(i, n). n = 0) incoming))"
proof -
  have dist: "distinct (map dt_id tasks)" using assms by (simp add: graph_ok_def)
  have keys: "map fst incoming = map dt_id tasks" by (simp add: incoming_def comp_def)
  have look: "map_of incoming (dt_id t) = Some (int (open_deps tasks [] (dt_id t)))" if "t \<in> set tasks" for t
    using dist that deps_of_task[OF dist that] keys
    by (intro map_of_is_SomeI) (auto simp: incoming_def open_deps_def comp_def)
  have "distinct (map fst (filter (\<lambda>(i, n). n = 0) incoming))"
    using dist keys by (metis distinct_map_filter)
  moreover have "set (map fst (filter (\<lambda>(i, n). n = 0) incoming))
      = {i \<in> set (map dt_id tasks). open_deps tasks [] i = 0}"
    using deps_of_task[OF dist] by (auto simp: incoming_def open_deps_def image_iff)
  ultimately show ?thesis using keys look by (auto simp: kahn_inv_def)
qed

lemma add_edges_start:
  assumes "graph_ok tasks"
  obtains out where "add_edges tasks (dict_of (map (\<lambda>t. (dt_id t, [])) tasks)) = Inr out"
    and "\<And>d. d \<in> set (map dt_id tasks) \<Longrightarrow> map_of out d = Some (children_of tasks d)"
proof -
  let ?start = "map (\<lambda>t. (dt_id t, [] :: pystr list)) tasks"
  have start: "dict_of ?start = ?start"
    using assms by (intro dict_of_distinct) (simp add: graph_ok_def comp_def)
  have look: "map_of ?start d = Some []" if "d \<in> set (map dt_id tasks)" for d
    using that by (induction tasks) auto
  have "\<forall>t\<in>set tasks. set (dt_depends t) \<subseteq> set (map fst ?start)"
    using assms by (simp add: graph_ok_def comp_def)
  then obtain out where "add_edges tasks ?start = Inr out"
    "\<And>d. map_of out d = map_option (\<lambda>l. l @ children_of tasks d) (map_of ?start d)"
    by (rule add_edges_spec) blast
  then show thesis using that start look by simp
qed

lemma validate_dag_iff: "validate_dag tasks = Inr () \<longleftrightarrow> graph_ok tasks \<and> acyclic (edges tasks)"
proof (cases "graph_ok tasks")
  case False
  then obtain e where "check_tasks tasks = Inl e" using check_tasks_ok by (cases "check_tasks tasks") auto
  with False show ?thesis by (simp add: validate_dag_def)
next
  case True
  let ?inc = "map (\<lambda>t. (dt_id t, int (length (dt_depends t)))) tasks"
  have inc: "dict_of ?inc = ?inc" using True by (intro dict_of_distinct) (simp add: graph_ok_def comp_def)
  obtain out where out: "add_edges tasks (dict_of (map (\<lambda>t. (dt_id t, [])) tasks)) = Inr out"
    and look: "\<And>d. d \<in> set (map dt_id tasks) \<Longrightarrow> map_of out d = Some (children_of tasks d)"
    using add_edges_start[OF True] by blast
  obtain V inc' where "kahn out ?inc (map fst (filter (\<lambda>(i, n). n = 0) ?inc)) 0 = Inr (length V)"
    and fin: "kahn_inv tasks V inc' []"
    using kahn_runs[OF True look kahn_start[OF True]] by auto
  then have "validate_dag tasks = raise_if (length V \<noteq> length tasks) (terr (lit ''cycle detected in DAG''))"
    using True out inc by (simp add: validate_dag_def check_tasks_ok[THEN iffD2] Let_def)
  then show ?thesis using True kahn_end_acyclic[OF True fin] by simp
qed

text \<open>The exceptions of the validation are \<open>TaskflowError\<close>s; its tables have every key it reads.\<close>

lemma check_tasks_raises: "check_tasks tasks = Inl e \<Longrightarrow> \<exists>m. e = TaskflowError m"
  by (auto simp: check_tasks_def Let_def terr_def raise_if_def seqE.simps
      split: if_splits sum.splits dest!: seqE_err)

lemma validate_dag_raises:
  assumes "validate_dag tasks = Inl e"
  shows "\<exists>m. e = TaskflowError m"
proof (cases "graph_ok tasks")
  case False
  then obtain e' where "check_tasks tasks = Inl e'" using check_tasks_ok by (cases "check_tasks tasks") auto
  with assms check_tasks_raises show ?thesis by (auto simp: validate_dag_def)
next
  case True
  let ?inc = "map (\<lambda>t. (dt_id t, int (length (dt_depends t)))) tasks"
  have inc: "dict_of ?inc = ?inc" using True by (intro dict_of_distinct) (simp add: graph_ok_def comp_def)
  obtain out where "add_edges tasks (dict_of (map (\<lambda>t. (dt_id t, [])) tasks)) = Inr out"
    and look: "\<And>d. d \<in> set (map dt_id tasks) \<Longrightarrow> map_of out d = Some (children_of tasks d)"
    using add_edges_start[OF True] by blast
  moreover from kahn_runs[OF True look kahn_start[OF True]]
  obtain n where "kahn out ?inc (map fst (filter (\<lambda>(i, n). n = 0) ?inc)) 0 = Inr n"
    unfolding list.size(3) by blast
  ultimately show ?thesis
    using assms True inc by (auto simp: validate_dag_def check_tasks_ok[THEN iffD2] Let_def terr_def)
qed

section \<open>Lemmas: ready nodes\<close>

lemma ready_tasks_iff:
  "t \<in> set (ready_tasks tasks) \<longleftrightarrow> t \<in> set tasks \<and> dt_status t = lit ''pending''
     \<and> set (dt_depends t) \<subseteq> effective_ids tasks"
  by (auto simp: ready_tasks_def)

text \<open>Following open dependencies backwards in an acyclic graph ends at a node without any.\<close>

lemma unfinished_task:
  assumes "validate_dag tasks = Inr ()" and "t \<in> set tasks" and "dt_status t \<noteq> lit ''completed''"
  shows "\<exists>s\<in>set tasks. dt_status s \<noteq> lit ''completed'' \<and> set (dt_depends s) \<subseteq> effective_ids tasks"
proof -
  let ?open = "\<exists>s\<in>set tasks. dt_status s \<noteq> lit ''completed'' \<and> set (dt_depends s) \<subseteq> effective_ids tasks"
  have ok: "graph_ok tasks" and "wf (edges tasks)"
    using assms(1) finite_edges finite_acyclic_wf by (auto simp: validate_dag_iff)
  from this(2) have "\<forall>t. t \<in> set tasks \<and> dt_id t = i \<and> dt_status t \<noteq> lit ''completed'' \<longrightarrow> ?open" for i
  proof (induction i rule: wf_induct_rule)
    case (less i)
    show ?case
    proof (intro allI impI, elim conjE)
      fix t
      assume t: "t \<in> set tasks" "dt_id t = i" "dt_status t \<noteq> lit ''completed''"
      show ?open
      proof (cases "set (dt_depends t) \<subseteq> effective_ids tasks")
        case True
        with t show ?thesis by blast
      next
        case False
        then obtain d where d: "d \<in> set (dt_depends t)" "d \<notin> effective_ids tasks" by blast
        moreover obtain s where s: "s \<in> set tasks" "dt_id s = d"
          using ok t(1) d(1) by (auto simp: graph_ok_def)
        moreover have "(d, i) \<in> edges tasks" using t d(1) by (auto simp: edges_def)
        moreover have "dt_status s \<noteq> lit ''completed''" using s d(2) by (auto simp: effective_ids_def)
        ultimately show ?thesis using less by blast
      qed
    qed
  qed
  with assms(2,3) show ?thesis by blast
qed

section \<open>Properties\<close>

text \<open>C27: \<open>validate_dag\<close> accepts a task list exactly when the identifiers are distinct, every
  dependency is the identifier of a task of the list and the dependencies have no cycle; every
  other list is rejected with a \<open>TaskflowError\<close>. Kahn's algorithm with its counters and queue is
  thereby shown to terminate, to stay within its tables and to decide acyclicity.\<close>

theorem validate_dag_acyclic:
  "(validate_dag tasks = Inr () \<longleftrightarrow> distinct (map dt_id tasks)
     \<and> {d. \<exists>t\<in>set tasks. d \<in> set (dt_depends t)} \<subseteq> set (map dt_id tasks) \<and> acyclic (edges tasks))
   \<and> (validate_dag tasks \<noteq> Inr () \<longleftrightarrow> (\<exists>m. validate_dag tasks = Inl (TaskflowError m)))"
proof -
  have "validate_dag tasks = Inr () \<longleftrightarrow> distinct (map dt_id tasks)
     \<and> {d. \<exists>t\<in>set tasks. d \<in> set (dt_depends t)} \<subseteq> set (map dt_id tasks) \<and> acyclic (edges tasks)"
    unfolding validate_dag_iff graph_ok_def by blast
  moreover have "validate_dag tasks \<noteq> Inr () \<longleftrightarrow> (\<exists>m. validate_dag tasks = Inl (TaskflowError m))"
    using validate_dag_raises by (cases "validate_dag tasks") auto
  ultimately show ?thesis by blast
qed

text \<open>A graph that passes \<open>validate_dag\<close> never gets stuck: while some task is not completed,
  there is a ready task, or a task whose dependencies are all completed has already been handed
  out or needs the leader (it is neither pending nor completed).\<close>

lemma valid_graph_progresses:
  assumes "validate_dag tasks = Inr ()" and "t \<in> set tasks" and "dt_status t \<noteq> lit ''completed''"
  shows "(\<exists>s. s \<in> set (ready_tasks tasks))
    \<or> (\<exists>s. s \<in> set tasks \<and> dt_status s \<noteq> lit ''completed'' \<and> dt_status s \<noteq> lit ''pending''
          \<and> set (dt_depends s) \<subseteq> effective_ids tasks)"
  using unfinished_task[OF assms] by (auto simp: ready_tasks_iff)

section \<open>Examples\<close>

definition diamond :: "dag_task list" where
  "diamond =
     [\<lparr>dt_id = lit ''a'', dt_title = lit ''A'', dt_assigned = lit ''w'', dt_depends = [], dt_status = lit ''completed''\<rparr>,
      \<lparr>dt_id = lit ''b'', dt_title = lit ''B'', dt_assigned = lit ''w'', dt_depends = [lit ''a''], dt_status = lit ''pending''\<rparr>,
      \<lparr>dt_id = lit ''c'', dt_title = lit ''C'', dt_assigned = lit ''w'', dt_depends = [lit ''a'', lit ''b''], dt_status = lit ''pending''\<rparr>]"

lemma diamond_valid: "validate_dag diamond = Inr ()"
  by code_simp

lemma valid_graph_progresses_witness:
  "(\<exists>s. s \<in> set (ready_tasks diamond))
    \<or> (\<exists>s. s \<in> set diamond \<and> dt_status s \<noteq> lit ''completed'' \<and> dt_status s \<noteq> lit ''pending''
          \<and> set (dt_depends s) \<subseteq> effective_ids diamond)"
  by (rule valid_graph_progresses[OF diamond_valid, of "diamond ! 1"]) (simp_all add: diamond_def)

end
