(* ===== verification/Task_Text.thy ===== *)
theory Task_Text
  imports Task_Dag Json
begin

text \<open>
  The texts of \<open>copaw_worker/task.py\<close>: the checklist lines of a plan and their regular
  expressions, the sections and fields of a plan, DAG and loop plans read and replaced inside
  it, task results, payloads and identities.
\<close>

section \<open>Pieces of a pattern\<close>

text \<open>
  The patterns of the module are sequences of pieces whose character sets are disjoint from
  what follows them, so each piece has one way to match: \<open>\s+\<close>, a given character, one
  character of a set, a longest non-empty run.
\<close>

definition spaces1 :: "pystr \<Rightarrow> pystr option" where
  "spaces1 s = (if s \<noteq> [] \<and> isspace (hd s) then Some (lstrip s) else None)"

definition one_of :: "nat list \<Rightarrow> pystr \<Rightarrow> (nat \<times> pystr) option" where
  "one_of cs s = (if s \<noteq> [] \<and> hd s \<in> set cs then Some (hd s, tl s) else None)"

definition run1 :: "(nat \<Rightarrow> bool) \<Rightarrow> pystr \<Rightarrow> (pystr \<times> pystr) option" where
  "run1 P s = (if s \<noteq> [] \<and> P (hd s) then Some (takeWhile P s, dropWhile P s) else None)"

section \<open>Checklist lines\<close>

text \<open>
  The pattern of \<open>_parse_dag_line\<close> up to the title: \<open>^\s*-\s+\[(marker)\]\s+(id)\s+(?:\u2014|-)\s+\<close>.
  The result is the marker, the identifier and the rest of the line.
\<close>

definition dag_line_head :: "pystr \<Rightarrow> (nat \<times> pystr \<times> pystr) option" where
  "dag_line_head line =
     Option.bind (one_of [45] (lstrip line)) (\<lambda>(_, r).
     Option.bind (spaces1 r) (\<lambda>r.
     Option.bind (one_of [91] r) (\<lambda>(_, r).
     Option.bind (one_of (map fst marker_to_status) r) (\<lambda>(marker, r).
     Option.bind (one_of [93] r) (\<lambda>(_, r).
     Option.bind (spaces1 r) (\<lambda>r.
     Option.bind (run1 is_id_char r) (\<lambda>(task_id, r).
     Option.bind (spaces1 r) (\<lambda>r.
     Option.bind (one_of [8212, 45] r) (\<lambda>(_, r).
     map_option (\<lambda>r. (marker, task_id, r)) (spaces1 r))))))))))"

text \<open>
  \<open>(?:\s+\((?P<meta>.*)\))?\s*$\<close> at a position: the greedy \<open>meta\<close> ends before the last closing
  parenthesis, which only white space may follow.
\<close>

definition meta_group :: "pystr \<Rightarrow> pystr option" where
  "meta_group s = (case spaces1 s of
     Some (c # r) \<Rightarrow>
       (if c = 40 \<and> rstrip r \<noteq> [] \<and> last (rstrip r) = 41 then Some (butlast (rstrip r)) else None)
   | _ \<Rightarrow> None)"

text \<open>
  The lazy title: the first position where the optional group with the rest of the line, or
  else white space up to the end of the line, matches. Lines hold no line feed, so every
  character belongs to the class of the dot.
\<close>

fun title_meta :: "pystr \<Rightarrow> pystr \<times> pystr option" where
  "title_meta [] = ([], None)"
| "title_meta (c # s) =
     (case meta_group (c # s) of
        Some m \<Rightarrow> ([], Some m)
      | None \<Rightarrow>
          if list_all isspace (c # s) then ([], None)
          else (case title_meta s of (t, m) \<Rightarrow> (c # t, m)))"

text \<open>
  \<open>re.search(key + r"\s*([^stop]+)", s)\<close>. When nothing but a stop follows the white space after
  the key, the white space gives one character back to the group.
\<close>

definition field_at :: "pystr \<Rightarrow> nat list \<Rightarrow> pystr \<Rightarrow> pystr option" where
  "field_at key stop s =
     (if startswith s key then
        (let rest = drop (length key) s; g = takeWhile (\<lambda>c. c \<notin> set stop) (lstrip rest) in
         if g \<noteq> [] then Some g
         else if lstrip rest \<noteq> rest then Some [last (takeWhile isspace rest)]
         else None)
      else None)"

fun search_field :: "pystr \<Rightarrow> nat list \<Rightarrow> pystr \<Rightarrow> pystr option" where
  "search_field key stop [] = None"
| "search_field key stop (c # s) =
     (case field_at key stop (c # s) of Some g \<Rightarrow> Some g | None \<Rightarrow> search_field key stop s)"

definition split_depends :: "pystr \<Rightarrow> pystr list" where
  "split_depends g = filter (\<lambda>dep. dep \<noteq> []) (map strip (split_on 44 g))"

definition parse_dag_line :: "pystr \<Rightarrow> dag_task option" where
  "parse_dag_line line = (case dag_line_head line of
     None \<Rightarrow> None
   | Some (marker, task_id, rest) \<Rightarrow>
       (let (title, meta) = title_meta rest;
            meta_text = (case meta of None \<Rightarrow> [] | Some m \<Rightarrow> m)
        in Some \<lparr>dt_id = task_id, dt_title = strip title,
             dt_assigned = (case search_field (lit ''assigned:'') [44, 41] meta_text of
                None \<Rightarrow> [] | Some g \<Rightarrow> strip g),
             dt_depends = (case search_field (lit ''depends:'') [41] meta_text of
                None \<Rightarrow> [] | Some g \<Rightarrow> split_depends g),
             dt_status = the (map_of marker_to_status marker)\<rparr>))"

definition render_dag_task :: "dag_task \<Rightarrow> pystr res" where
  "render_dag_task t = (case map_of status_to_marker (dt_status t) of
     None \<Rightarrow> Inl (terr (lit ''unknown task status: '' @ dt_status t))
   | Some marker \<Rightarrow>
       (let details = [lit ''assigned: '' @ dt_assigned t]
              @ (if dt_depends t \<noteq> [] then [lit ''depends: '' @ join (lit '', '') (dt_depends t)] else [])
        in Inr (lit ''- ['' @ [marker] @ lit ''] '' @ dt_id t @ [32, 8212, 32] @ dt_title t
                @ lit '' ('' @ join (lit '', '') details @ lit '')'')))"

section \<open>Sections and fields of a plan\<close>

definition heading_index :: "pystr list \<Rightarrow> pystr \<Rightarrow> nat option" where
  "heading_index lines heading =
     (let n = length (takeWhile (\<lambda>line. strip line \<noteq> heading) lines)
      in if n < length lines then Some n else None)"

definition dag_heading_index :: "pystr list \<Rightarrow> nat option" where
  "dag_heading_index lines = heading_index lines (lit ''## DAG Task Plan'')"

definition execution_heading_index :: "pystr list \<Rightarrow> nat option" where
  "execution_heading_index lines =
     (case (dag_heading_index lines, heading_index lines (lit ''## Loop Plan'')) of
        (Some i, Some j) \<Rightarrow> Some (min i j)
      | (Some i, None) \<Rightarrow> Some i
      | (None, j) \<Rightarrow> j)"

definition plan_field :: "pystr list \<Rightarrow> string \<Rightarrow> pystr option" where
  "plan_field lines field_name =
     (let prefix = lit ''**'' @ lit field_name @ lit ''**:'' in
      case filter (\<lambda>line. startswith line prefix) lines of
        [] \<Rightarrow> None
      | line # _ \<Rightarrow> Some (strip (drop (length prefix) line)))"

definition section_lines :: "pystr list \<Rightarrow> pystr \<Rightarrow> pystr list" where
  "section_lines lines heading = (case heading_index lines heading of
     None \<Rightarrow> []
   | Some start \<Rightarrow> takeWhile (\<lambda>line. \<not> startswith line (lit ''## '')) (drop (start + 1) lines))"

definition parse_dag_tasks :: "pystr \<Rightarrow> dag_task list" where
  "parse_dag_tasks plan = List.map_filter parse_dag_line (splitlines plan)"

definition parse_loop_tasks :: "pystr \<Rightarrow> dag_task list" where
  "parse_loop_tasks plan =
     (let lines = splitlines plan in
      case heading_index lines (lit ''## Current Iteration'') of
        None \<Rightarrow> []
      | Some start \<Rightarrow> List.map_filter parse_dag_line
          (takeWhile (\<lambda>line. \<not> startswith line (lit ''## '')) (drop (start + 1) lines)))"

fun plan_type_of :: "pystr list \<Rightarrow> pystr" where
  "plan_type_of [] = lit ''dag''"
| "plan_type_of (line # lines) =
     (if startswith line (lit ''**Plan Type**:'') then
        (let value = lower (strip (drop (length ''**Plan Type**:'') line)) in
         if value = lit ''dag'' \<or> value = lit ''loop'' then value else plan_type_of lines)
      else plan_type_of lines)"

definition parse_plan_type :: "pystr \<Rightarrow> pystr" where
  "parse_plan_type plan = plan_type_of (splitlines plan)"

section \<open>Loop plans\<close>

record loop_plan =
  lp_goal :: pystr
  lp_stop_condition :: pystr
  lp_iteration_template :: pystr
  lp_max_iterations :: int
  lp_current_iteration :: int
  lp_status :: pystr
  lp_tasks :: "dag_task list"
  lp_history :: "pystr list"

definition single_line :: "pystr \<Rightarrow> pystr" where
  "single_line value = strip (collapse_ws value)"

definition loop_statuses :: "pystr list" where
  "loop_statuses = [lit ''running'', lit ''waiting_results'', lit ''evaluating'',
     lit ''waiting_user'', lit ''completed'', lit ''blocked'']"

definition safe_loop_status :: "pystr \<Rightarrow> pystr res" where
  "safe_loop_status value =
     (let text = lower (strip value) in
      if text \<notin> set loop_statuses then Inl (terr (lit ''invalid loop status: '' @ value)) else Inr text)"

definition loop_decisions :: "pystr list" where
  "loop_decisions = [lit ''continue'', lit ''stop_success'', lit ''stop_blocked'', lit ''ask_user'',
     lit ''replan'']"

definition safe_loop_decision :: "pystr \<Rightarrow> pystr res" where
  "safe_loop_decision value =
     (let text = lower (strip value) in
      if text \<notin> set loop_decisions then Inl (terr (lit ''invalid loop decision: '' @ value)) else Inr text)"

text \<open>
  \<open>\d\<close> of a Python pattern is a decimal digit of any script: the code points of category Nd come
  in runs of ten that start at these zeros. \<open>int\<close> reads such digits, up to 4300 of them.
\<close>

definition digit_zeros :: "nat list" where
  "digit_zeros = [48, 1632, 1776, 1984, 2406, 2534, 2662, 2790, 2918, 3046, 3174, 3302, 3430, 3558,
     3664, 3792, 3872, 4160, 4240, 6112, 6160, 6470, 6608, 6784, 6800, 6992, 7088, 7232, 7248, 42528,
     43216, 43264, 43472, 43504, 43600, 44016, 65296, 66720, 68912, 69734, 69872, 69942, 70096, 70384,
     70736, 70864, 71248, 71360, 71472, 71904, 72016, 72784, 73040, 73120, 92768, 92864, 93008, 120782,
     120792, 120802, 120812, 120822, 123200, 123632, 125264, 130032]"

definition digit_value :: "nat \<Rightarrow> nat option" where
  "digit_value c = (case filter (\<lambda>z. z \<le> c \<and> c \<le> z + 9) digit_zeros of
     [] \<Rightarrow> None | z # _ \<Rightarrow> Some (c - z))"

definition is_digit :: "nat \<Rightarrow> bool" where
  "is_digit c \<longleftrightarrow> digit_value c \<noteq> None"

definition decimal_value :: "pystr \<Rightarrow> nat" where
  "decimal_value ds = foldl (\<lambda>n c. 10 * n + the (digit_value c)) 0 ds"

definition max_int_digits :: nat where
  "max_int_digits = 4300"

definition int_of_digits :: "pystr \<Rightarrow> int res" where
  "int_of_digits ds =
     (if max_int_digits < length ds then
        Inl (ValueError (lit ''Exceeds the limit (4300 digits) for integer string conversion''))
      else Inr (int (decimal_value ds)))"

text \<open>The text of an integer in an f-string, under the same limit.\<close>

definition fmt_int :: "int \<Rightarrow> pystr res" where
  "fmt_int i =
     (if max_int_digits < length (nat_str (nat \<bar>i\<bar>)) then
        Inl (ValueError (lit ''Exceeds the limit (4300 digits) for integer string conversion''))
      else Inr (int_str i))"

text \<open>\<open>re.match(r"^\s*(\d+)\s*/\s*(\d+)\s*$", value)\<close>.\<close>

definition iteration_match :: "pystr \<Rightarrow> (pystr \<times> pystr) option" where
  "iteration_match value =
     Option.bind (run1 is_digit (lstrip value)) (\<lambda>(a, r).
     Option.bind (one_of [47] (lstrip r)) (\<lambda>(_, r).
     Option.bind (run1 is_digit (lstrip r)) (\<lambda>(b, r).
     if list_all isspace r then Some (a, b) else None)))"

definition parse_iteration :: "pystr \<Rightarrow> (int \<times> int) res" where
  "parse_iteration value = (case iteration_match value of
     None \<Rightarrow> Inl (terr (lit ''invalid loop iteration: '' @ value))
   | Some (a, b) \<Rightarrow>
       bindE (int_of_digits a) (\<lambda>i. bindE (int_of_digits b) (\<lambda>j. Inr (i, j))))"

text \<open>\<open>x or default\<close> on an optional text.\<close>

definition or_text :: "pystr option \<Rightarrow> pystr \<Rightarrow> pystr" where
  "or_text x d = (case x of None \<Rightarrow> d | Some s \<Rightarrow> if s = [] then d else s)"

definition history_items :: "pystr list \<Rightarrow> pystr list" where
  "history_items lines =
     map (\<lambda>line. strip (drop 2 line)) (filter (\<lambda>line. startswith (strip line) (lit ''- '')) lines)"

definition parse_loop_plan :: "pystr \<Rightarrow> loop_plan option res" where
  "parse_loop_plan plan =
     (let lines = splitlines plan in
      if parse_plan_type plan \<noteq> lit ''loop'' then Inr None
      else
        (let status = or_text (plan_field lines ''Loop Status'') (lit ''running'');
             iteration_text = or_text (plan_field lines ''Iteration'') (lit ''0 / 1'') in
         bindE (parse_iteration iteration_text) (\<lambda>(current_iteration, max_iterations).
         let goal = or_text (plan_field lines ''Goal'') [];
             stop_condition = or_text (plan_field lines ''Stop Condition'') [];
             iteration_template = strip (join [10] (section_lines lines (lit ''## Iteration Template'')));
             history = history_items (section_lines lines (lit ''## Iteration History'')) in
         bindE (safe_loop_status status) (\<lambda>safe_status.
         Inr (Some \<lparr>lp_goal = goal, lp_stop_condition = stop_condition,
           lp_iteration_template = iteration_template, lp_max_iterations = max_iterations,
           lp_current_iteration = current_iteration, lp_status = safe_status,
           lp_tasks = parse_loop_tasks plan, lp_history = history\<rparr>)))))"

section \<open>Replacing the execution plan\<close>

definition execution_headings :: "pystr list" where
  "execution_headings = [lit ''## DAG Task Plan'', lit ''## Loop Plan'', lit ''## Iteration Template'',
     lit ''## Current Iteration'', lit ''## Iteration History'']"

text \<open>The lines from the first heading that does not belong to the execution plan.\<close>

definition other_heading :: "pystr \<Rightarrow> bool" where
  "other_heading line \<longleftrightarrow> startswith line (lit ''## '') \<and> strip line \<notin> set execution_headings"

definition plan_suffix :: "nat \<Rightarrow> pystr list \<Rightarrow> pystr list" where
  "plan_suffix start lines = dropWhile (\<lambda>line. \<not> other_heading line) (drop (start + 1) lines)"

definition joined_plan :: "pystr list \<Rightarrow> pystr" where
  "joined_plan new_lines = rstrip (join [10] new_lines) @ [10]"

definition replace_dag_tasks :: "pystr \<Rightarrow> dag_task list \<Rightarrow> pystr res" where
  "replace_dag_tasks plan tasks =
     (let lines0 = splitlines plan;
          (lines, start) = (case execution_heading_index lines0 of
              None \<Rightarrow> (lines0 @ [[], lit ''## DAG Task Plan''], length lines0 + 1)
            | Some i \<Rightarrow> (lines0, i));
          prefix = take start lines;
          suffix = plan_suffix start lines
      in bindE (mapE render_dag_task tasks) (\<lambda>rendered.
         let new_lines = prefix @ [lit ''## DAG Task Plan'', [], lit ''**Plan Type**: dag'', []] @ rendered
         in Inr (joined_plan (new_lines @ (if suffix \<noteq> [] then [] # suffix else [])))))"

definition replace_loop_plan :: "pystr \<Rightarrow> loop_plan \<Rightarrow> pystr res" where
  "replace_loop_plan plan lp =
     (let lines = splitlines plan;
          start = (case execution_heading_index lines of None \<Rightarrow> length lines | Some i \<Rightarrow> i);
          prefix = take start lines;
          suffix = plan_suffix start lines
      in bindE (fmt_int (lp_current_iteration lp)) (\<lambda>current.
         bindE (fmt_int (lp_max_iterations lp)) (\<lambda>maximum.
         bindE (mapE render_dag_task (lp_tasks lp)) (\<lambda>tasks.
         let rendered =
           [lit ''## Loop Plan'', [], lit ''**Plan Type**: loop'',
            lit ''**Loop Status**: '' @ lp_status lp,
            lit ''**Iteration**: '' @ current @ lit '' / '' @ maximum,
            lit ''**Goal**: '' @ single_line (lp_goal lp),
            lit ''**Stop Condition**: '' @ single_line (lp_stop_condition lp),
            [], lit ''## Iteration Template'', [], strip (lp_iteration_template lp), [],
            lit ''## Current Iteration'', []]
           @ tasks @ [[], lit ''## Iteration History'', []]
           @ map (\<lambda>item. lit ''- '' @ item) (lp_history lp)
         in Inr (joined_plan (prefix @ rendered @ (if suffix \<noteq> [] then [] # suffix else [])))))))"

section \<open>Task results\<close>

record task_result =
  tr_status :: pystr
  tr_summary :: pystr
  tr_deliverables :: "pystr list"
  tr_notes :: "pystr list"

definition result_statuses :: "pystr list" where
  "result_statuses = [lit ''SUCCESS'', lit ''SUCCESS_WITH_NOTES'', lit ''REVISION_NEEDED'',
     lit ''BLOCKED'', lit ''INTERRUPTED'']"

definition or_missing :: "pystr \<Rightarrow> pystr" where
  "or_missing s = (if s = [] then lit ''<missing>'' else s)"

text \<open>The loop of \<open>parse_task_result\<close>: what has been read and the current section.\<close>

fun result_loop :: "task_result \<Rightarrow> string \<Rightarrow> pystr list \<Rightarrow> task_result" where
  "result_loop r sec [] = r"
| "result_loop r sec (raw_line # lines) =
     (let line = strip raw_line in
      if line = [] then result_loop r sec lines
      else if startswith line (lit ''STATUS:'') then
        result_loop (r\<lparr>tr_status := strip (drop (length ''STATUS:'') line)\<rparr>) '''' lines
      else if startswith line (lit ''SUMMARY:'') then
        result_loop (r\<lparr>tr_summary := strip (drop (length ''SUMMARY:'') line)\<rparr>) '''' lines
      else if line = lit ''DELIVERABLES:'' then result_loop r ''deliverables'' lines
      else if line = lit ''NOTES:'' then result_loop r ''notes'' lines
      else if startswith line (lit ''- '') then
        (let item = strip (drop 2 line) in
         if sec = ''deliverables'' then
           result_loop (r\<lparr>tr_deliverables := tr_deliverables r @ [item]\<rparr>) sec lines
         else if sec = ''notes'' then result_loop (r\<lparr>tr_notes := tr_notes r @ [item]\<rparr>) sec lines
         else result_loop r sec lines)
      else result_loop r sec lines)"

definition empty_result :: task_result where
  "empty_result = \<lparr>tr_status = [], tr_summary = [], tr_deliverables = [], tr_notes = []\<rparr>"

definition parse_task_result :: "pystr \<Rightarrow> task_result res" where
  "parse_task_result text =
     (let r = result_loop empty_result '''' (splitlines text) in
      bindE (seqE
        [raise_if (tr_status r \<notin> set result_statuses)
           (terr (lit ''invalid result status: '' @ or_missing (tr_status r))),
         raise_if (tr_summary r = []) (terr (lit ''result summary is required''))]) (\<lambda>_. Inr r))"

definition result_lines :: "task_result \<Rightarrow> pystr list" where
  "result_lines r =
     [lit ''STATUS: '' @ tr_status r, lit ''SUMMARY: '' @ single_line (tr_summary r), [],
      lit ''DELIVERABLES:'']
     @ map (\<lambda>item. lit ''- '' @ item) (tr_deliverables r)
     @ (if tr_notes r \<noteq> [] then [[], lit ''NOTES:''] @ map (\<lambda>item. lit ''- '' @ item) (tr_notes r)
        else [])"

definition render_task_result :: "task_result \<Rightarrow> pystr" where
  "render_task_result r = joined_plan (result_lines r)"

text \<open>
  \<open>Path(path).parts\<close> on a POSIX system: the root, then the segments between slashes without the
  empty ones and the single dots.
\<close>

definition path_root :: "pystr \<Rightarrow> pystr list" where
  "path_root path =
     (if startswith path (lit ''//'') \<and> \<not> startswith path (lit ''///'') then [lit ''//'']
      else if startswith path (lit ''/'') then [lit ''/''] else [])"

definition path_parts :: "pystr \<Rightarrow> pystr list" where
  "path_parts path = path_root path @ filter (\<lambda>p. p \<noteq> [] \<and> p \<noteq> lit ''.'') (split_on 47 path)"

definition check_deliverable :: "pystr \<Rightarrow> pystr \<Rightarrow> unit res" where
  "check_deliverable prefix path = seqE
     [raise_if (strip path = []) (terr (lit ''deliverable path must be a non-empty string'')),
      raise_if (\<not> startswith path prefix)
        (terr (lit ''deliverable must be under '' @ prefix @ lit '': '' @ path)),
      raise_if (\<not> list_all (\<lambda>part. part \<notin> {[], lit ''.'', lit ''..''}) (path_parts path))
        (terr (lit ''invalid deliverable path: '' @ path))]"

definition task_prefix :: "pystr \<Rightarrow> pystr" where
  "task_prefix task_id = lit ''shared/tasks/'' @ task_id @ lit ''/''"

definition validate_task_result :: "pystr \<Rightarrow> task_result \<Rightarrow> unit res" where
  "validate_task_result task_id r =
     bindE (seqE
       [raise_if (tr_status r \<notin> set result_statuses)
          (terr (lit ''invalid result status: '' @ or_missing (tr_status r))),
        raise_if (strip (tr_summary r) = []) (terr (lit ''result summary is required''))]) (\<lambda>_.
     bindE (safe_id task_id) (\<lambda>safe.
     seqE (map (check_deliverable (task_prefix safe)) (tr_deliverables r))))"

definition is_effective_result :: "task_result \<Rightarrow> bool" where
  "is_effective_result r \<longleftrightarrow> tr_status r \<in> {lit ''SUCCESS'', lit ''SUCCESS_WITH_NOTES''}"

section \<open>Identities and payloads\<close>

definition canonical_worker_id :: "pystr option \<Rightarrow> pystr" where
  "canonical_worker_id value =
     (let text = strip (or_text value []) in
      if text = [] then []
      else
        (let token = strip (hd (split_ws text));
             token = removeprefix (strip_chars [96, 39, 34] token) [64];
             token = (if 58 \<in> set token then hd (split_on 58 token) else token)
         in strip_chars [58, 44, 59] token))"

text \<open>
  Truth of a JSON value, \<open>str\<close> of it (\<open>R\<close> is the text of a list or a dict) and the lookup of the
  first true value, \<open>a or b or ""\<close>.
\<close>

fun truthy :: "json \<Rightarrow> bool" where
  "truthy JNull = False"
| "truthy (JBool b) = b"
| "truthy (JInt i) = (i \<noteq> 0)"
| "truthy (JFloat f) = (case f of FDec s m e \<Rightarrow> m \<noteq> 0 | _ \<Rightarrow> True)"
| "truthy (JStr s) = (s \<noteq> [])"
| "truthy (JArr xs) = (xs \<noteq> [])"
| "truthy (JObj kvs) = (kvs \<noteq> [])"

fun py_str :: "(json \<Rightarrow> pystr) \<Rightarrow> json \<Rightarrow> pystr" where
  "py_str R JNull = lit ''None''"
| "py_str R (JBool b) = (if b then lit ''True'' else lit ''False'')"
| "py_str R (JInt i) = int_str i"
| "py_str R (JFloat f) = (case f of FNaN \<Rightarrow> lit ''nan'' | FInf \<Rightarrow> lit ''inf'' | FNegInf \<Rightarrow> lit ''-inf''
      | FDec s m e \<Rightarrow> float_repr f)"
| "py_str R (JStr s) = s"
| "py_str R v = R v"

definition first_true :: "(pystr \<times> json) list \<Rightarrow> string list \<Rightarrow> json" where
  "first_true d ks =
     (case filter truthy (List.map_filter (\<lambda>k. map_of d (lit k)) ks) of [] \<Rightarrow> JStr [] | v # _ \<Rightarrow> v)"

definition dag_task_from_payload ::
  "(json \<Rightarrow> pystr) \<Rightarrow> (pystr \<times> json) list \<Rightarrow> dag_task res" where
  "dag_task_from_payload R payload =
     (let task_id = strip (py_str R (first_true payload [''taskId'', ''task_id'']));
          title = strip (py_str R (first_true payload [''title'']));
          assigned_to = strip (py_str R (first_true payload [''assignedTo'', ''assigned_to'']));
          depends = (case map_of payload (lit ''dependsOn'') of
              Some v \<Rightarrow> v
            | None \<Rightarrow> (case map_of payload (lit ''depends_on'') of Some v \<Rightarrow> v | None \<Rightarrow> JArr []));
          depends_raw = (if truthy depends then depends else JArr [])
      in case depends_raw of
           JArr deps \<Rightarrow>
             bindE (mapE (\<lambda>dep. safe_id (py_str R dep)) deps) (\<lambda>depends_on.
             bindE (raise_if (task_id = [] \<or> title = [] \<or> assigned_to = [])
                (terr (lit ''taskId, title, and assignedTo are required''))) (\<lambda>_.
             bindE (safe_id task_id) (\<lambda>safe.
             Inr \<lparr>dt_id = safe, dt_title = title, dt_assigned = assigned_to, dt_depends = depends_on,
                  dt_status = lit ''pending''\<rparr>)))
         | _ \<Rightarrow> Inl (terr (lit ''dependsOn must be a list for task '' @ or_missing task_id)))"

end
