(* ===== verification/Lines.thy ===== *)
theory Lines
  imports Base
begin

text \<open>
  Lemmas on the string functions of the prelude: stripped texts, texts joined from lines and
  split again, and the effect of \<open>rstrip\<close> on a joined text.
\<close>

section \<open>Stripping\<close>

text \<open>A text with no white space at either end, and a text within one line.\<close>

definition trimmed :: "pystr \<Rightarrow> bool" where
  "trimmed s \<longleftrightarrow> s = [] \<or> \<not> isspace (hd s) \<and> \<not> isspace (last s)"

definition no_break :: "pystr \<Rightarrow> bool" where
  "no_break s \<longleftrightarrow> list_all (\<lambda>c. \<not> is_linebreak c) s"

definition blank :: "pystr \<Rightarrow> bool" where
  "blank s \<longleftrightarrow> list_all isspace s"

lemma lstrip_simps [simp]:
  "lstrip [] = []"
  "lstrip (c # s) = (if isspace c then lstrip s else c # s)"
  by (simp_all add: lstrip_def)

lemma rstrip_snoc [simp]:
  "rstrip [] = []"
  "rstrip (s @ [c]) = (if isspace c then rstrip s else s @ [c])"
  by (simp_all add: rstrip_def)

lemma lstrip_blank: "lstrip s = [] \<longleftrightarrow> blank s"
  by (induction s) (auto simp: blank_def)

lemma rstrip_blank: "rstrip s = [] \<longleftrightarrow> blank s"
  by (induction s rule: rev_induct) (auto simp: blank_def)

lemma lstrip_append: "lstrip (a @ b) = (if blank a then lstrip b else lstrip a @ b)"
  by (induction a) (auto simp: blank_def)

lemma rstrip_append: "rstrip (a @ b) = (if blank b then rstrip a else a @ rstrip b)"
  by (induction b rule: rev_induct) (auto simp: blank_def simp flip: append_assoc)

lemma blank_simps [simp]:
  "blank []" "blank (c # s) \<longleftrightarrow> isspace c \<and> blank s" "blank (s @ t) \<longleftrightarrow> blank s \<and> blank t"
  by (simp_all add: blank_def)

lemma lstrip_id: "s = [] \<or> \<not> isspace (hd s) \<Longrightarrow> lstrip s = s"
  by (cases s) auto

lemma rstrip_id: "s = [] \<or> \<not> isspace (last s) \<Longrightarrow> rstrip s = s"
  by (cases s rule: rev_cases) auto

lemma strip_trimmed [simp]: "trimmed s \<Longrightarrow> strip s = s"
  by (auto simp: trimmed_def strip_def lstrip_id rstrip_id)

lemma hd_lstrip: "lstrip s \<noteq> [] \<Longrightarrow> \<not> isspace (hd (lstrip s))"
  by (induction s) auto

lemma last_rstrip: "rstrip s \<noteq> [] \<Longrightarrow> \<not> isspace (last (rstrip s))"
  by (induction s rule: rev_induct) auto

lemma hd_rstrip: "rstrip s \<noteq> [] \<Longrightarrow> hd (rstrip s) = hd s"
  by (induction s rule: rev_induct) (auto simp: hd_append rstrip_blank)

lemma trimmed_strip [simp]: "trimmed (strip s)"
  using hd_lstrip[of s] last_rstrip[of "lstrip s"] hd_rstrip[of "lstrip s"]
  by (cases "lstrip s = []") (auto simp: trimmed_def strip_def)

lemma strip_idem [simp]: "strip (strip s) = strip s"
  by (rule strip_trimmed) simp

lemma strip_pad: "blank a \<Longrightarrow> blank b \<Longrightarrow> strip (a @ s @ b) = strip s"
  by (cases "blank s") (auto simp: strip_def lstrip_append rstrip_append lstrip_blank[THEN iffD2])

lemma strip_blank: "strip s = [] \<longleftrightarrow> blank s"
proof -
  have "blank (lstrip s) \<longleftrightarrow> blank s" by (induction s) auto
  then show ?thesis by (simp add: strip_def rstrip_blank)
qed

lemma rstrip_split: obtains ws where "s = rstrip s @ ws" and "blank ws"
proof (induction s arbitrary: thesis rule: rev_induct)
  case Nil
  then show ?case by simp
next
  case (snoc c s)
  then obtain ws where "s = rstrip s @ ws" "blank ws" by metis
  then show ?case
    using snoc.prems[of "if isspace c then ws @ [c] else []"] by (simp split: if_splits)
qed

lemma no_break_simps [simp]:
  "no_break []" "no_break (c # s) \<longleftrightarrow> \<not> is_linebreak c \<and> no_break s"
  "no_break (s @ t) \<longleftrightarrow> no_break s \<and> no_break t"
  by (simp_all add: no_break_def)

lemma no_break_rstrip: "no_break s \<Longrightarrow> no_break (rstrip s)"
  by (metis no_break_simps(3) rstrip_split)

section \<open>Lines\<close>

lemma splitlines_acc_line:
  "no_break l \<Longrightarrow> splitlines_acc acc (l @ 10 # rest) = (rev acc @ l) # splitlines_acc [] rest"
proof (induction l arbitrary: acc)
  case Nil
  then show ?case by (simp add: is_linebreak_def)
next
  case (Cons c l)
  then have "c \<noteq> 13" by (auto simp: is_linebreak_def)
  with Cons show ?case by simp
qed

lemma splitlines_line: "no_break l \<Longrightarrow> splitlines (l @ 10 # rest) = l # splitlines rest"
  by (simp add: splitlines_def splitlines_acc_line)

lemma splitlines_Nil [simp]: "splitlines [] = []"
  by (simp add: splitlines_def)

lemma join_Cons: "ls \<noteq> [] \<Longrightarrow> join sep (l # ls) = l @ sep @ join sep ls"
  by (cases ls) auto

lemma splitlines_join:
  "ls \<noteq> [] \<Longrightarrow> \<forall>l\<in>set ls. no_break l \<Longrightarrow> splitlines (join [10] ls @ [10]) = ls"
proof (induction ls)
  case Nil
  then show ?case by simp
next
  case (Cons l ls)
  then show ?case
    using splitlines_line[of l "[]"] by (cases "ls = []") (simp_all add: join_Cons splitlines_line)
qed

lemma splitlines_acc_no_break:
  "no_break acc \<Longrightarrow> l \<in> set (splitlines_acc acc s) \<Longrightarrow> no_break l"
proof (induction acc s rule: splitlines_acc.induct)
  case (1 acc)
  then show ?case by (auto simp: no_break_def split: if_splits)
next
  case (2 acc c s)
  have "no_break (rev acc)" using "2.prems"(1) by (simp add: no_break_def)
  with 2 show ?case by (auto split: if_splits)
qed

lemma splitlines_no_break: "l \<in> set (splitlines s) \<Longrightarrow> no_break l"
  using splitlines_acc_no_break[of "[]"] by (simp add: splitlines_def)

text \<open>\<open>rstrip\<close> of a joined text drops the blank lines at its end and strips the last other line.\<close>

definition trim_tail :: "pystr list \<Rightarrow> pystr list" where
  "trim_tail ls = (case dropWhile blank (rev ls) of [] \<Rightarrow> [] | l # r \<Rightarrow> rev (rstrip l # r))"

lemma join_snoc: "ls \<noteq> [] \<Longrightarrow> join sep (ls @ [l]) = join sep ls @ sep @ l"
proof (induction ls)
  case Nil
  then show ?case by simp
next
  case (Cons x ls)
  then show ?case by (cases "ls = []") (simp_all add: join_Cons)
qed

lemma trim_tail_snoc: "trim_tail (ls @ [l]) = (if blank l then trim_tail ls else ls @ [rstrip l])"
  by (simp add: trim_tail_def)

lemma trim_tail_Nil [simp]: "trim_tail [] = []"
  by (simp add: trim_tail_def)

lemma rstrip_join: "rstrip (join [10] ls) = join [10] (trim_tail ls)"
proof (induction ls rule: rev_induct)
  case Nil
  then show ?case by simp
next
  case (snoc l ls)
  have sp: "isspace 10" by (simp add: isspace_def)
  show ?case
  proof (cases "ls = []")
    case True
    then show ?thesis by (simp add: trim_tail_snoc[of "[]", simplified] rstrip_blank[THEN iffD2])
  next
    case False
    then show ?thesis
      using snoc sp rstrip_append[of "join [10] ls @ [10]" l]
      by (auto simp: join_snoc trim_tail_snoc rstrip_append)
  qed
qed

lemma trim_tail_id: "ls = [] \<or> last ls \<noteq> [] \<and> \<not> isspace (last (last ls)) \<Longrightarrow> trim_tail ls = ls"
proof (cases ls rule: rev_cases)
  case (snoc xs l)
  moreover assume "ls = [] \<or> last ls \<noteq> [] \<and> \<not> isspace (last (last ls))"
  ultimately have l: "l \<noteq> []" "\<not> isspace (last l)" by auto
  then have "\<not> blank l" by (metis append_butlast_last_id blank_simps(2,3))
  with snoc l show ?thesis by (simp add: trim_tail_snoc rstrip_id)
qed simp

lemma trim_tail_set: "l \<in> set (trim_tail ls) \<Longrightarrow> \<exists>l'\<in>set ls. l = l' \<or> l = rstrip l'"
proof (induction ls rule: rev_induct)
  case Nil
  then show ?case by simp
next
  case (snoc x ls)
  then show ?case by (auto simp: trim_tail_snoc split: if_splits)
qed

lemma splitlines_joined:
  assumes "\<forall>l\<in>set ls. no_break l"
  shows "splitlines (rstrip (join [10] ls) @ [10]) = (if trim_tail ls = [] then [[]] else trim_tail ls)"
proof -
  have "\<forall>l\<in>set (trim_tail ls). no_break l"
    using assms trim_tail_set no_break_rstrip by metis
  then show ?thesis
    using splitlines_join[of "trim_tail ls"] splitlines_line[of "[]" "[]"]
    by (simp add: rstrip_join)
qed

section \<open>Splitting at a separator\<close>

lemma split_on_no: "d \<notin> set s \<Longrightarrow> split_on d s = [s]"
  by (induction s) auto

lemma split_on_append: "d \<notin> set a \<Longrightarrow> split_on d (a @ d # b) = a # split_on d b"
  by (induction a) auto

lemma startswith_append_sep: "c \<notin> set key \<Longrightarrow> startswith (a @ c # b) key \<longleftrightarrow> startswith a key"
proof (induction a key rule: startswith.induct)
  case (2 p ps)
  then show ?case by auto
qed auto

lemma startswith_other: "length p \<le> length s \<Longrightarrow> startswith (s @ t) p \<longleftrightarrow> startswith s p"
  by (induction s p rule: startswith.induct) auto

end
