(* ===== verification/Task_Plans.thy ===== *)
theory Task_Plans
  imports Task_Text Lines
begin

text \<open>
  What is written is what is read back: checklist lines, the tasks of a plan, task results; and
  the texts for which it is not.
\<close>

section \<open>Checklist lines\<close>

text \<open>White space directly before an opening parenthesis, where the pattern ends the title.\<close>

fun spaced_paren :: "pystr \<Rightarrow> bool" where
  "spaced_paren (c # d # s) = (isspace c \<and> d = 40 \<or> spaced_paren (d # s))"
| "spaced_paren _ = False"

definition is_id :: "pystr \<Rightarrow> bool" where
  "is_id s \<longleftrightarrow> s \<noteq> [] \<and> list_all is_id_char s"

text \<open>The tasks that a checklist line can carry.\<close>

definition plain_task :: "dag_task \<Rightarrow> bool" where
  "plain_task t \<longleftrightarrow> is_id (dt_id t)
     \<and> dt_title t \<noteq> [] \<and> trimmed (dt_title t) \<and> no_break (dt_title t) \<and> \<not> spaced_paren (dt_title t)
     \<and> dt_assigned t \<noteq> [] \<and> trimmed (dt_assigned t) \<and> no_break (dt_assigned t)
     \<and> 41 \<notin> set (dt_assigned t) \<and> 44 \<notin> set (dt_assigned t)
     \<and> \<not> occurs (lit ''depends:'') (dt_assigned t)
     \<and> list_all is_id (dt_depends t) \<and> dt_status t \<in> set (map snd marker_to_status)"

lemma id_char_plain: "is_id_char c \<Longrightarrow> \<not> isspace c \<and> c \<noteq> 41 \<and> c \<noteq> 44 \<and> \<not> is_linebreak c"
  by (auto simp: is_id_char_def char_class_defs)

lemma is_id_trimmed: "is_id s \<Longrightarrow> trimmed s \<and> s \<noteq> [] \<and> no_break s \<and> 41 \<notin> set s \<and> 44 \<notin> set s"
  using id_char_plain by (auto simp: is_id_def trimmed_def no_break_def list_all_iff)

lemma safe_id_ok: "safe_id v = Inr i \<longleftrightarrow> i = strip v \<and> is_id i"
  by (auto simp: safe_id_def is_id_def Let_def)

lemma safe_id_id: "is_id i \<Longrightarrow> safe_id i = Inr i"
  using is_id_trimmed by (simp add: safe_id_ok)

subsection \<open>The pattern\<close>

lemma run1_stop:
  "a \<noteq> [] \<Longrightarrow> list_all P a \<Longrightarrow> \<not> P c \<Longrightarrow> run1 P (a @ c # r) = Some (a, c # r)"
  by (auto simp: run1_def list_all_iff takeWhile_append dropWhile_append hd_append)

lemma spaced_paren_lstrip: "isspace (hd s) \<Longrightarrow> \<not> blank s \<Longrightarrow> \<not> spaced_paren s \<Longrightarrow> hd (lstrip s) \<noteq> 40"
proof (induction s rule: spaced_paren.induct)
  case (1 c d s)
  then show ?case by (cases "isspace d") auto
qed auto

lemma meta_group_end: "meta_group (32 # 40 # meta @ [41]) = Some meta"
proof -
  have "isspace 32" "\<not> isspace 40" "\<not> isspace 41" by (simp_all add: isspace_def)
  then show ?thesis by (simp add: meta_group_def spaces1_def rstrip_id)
qed

lemma meta_group_title:
  assumes "s \<noteq> []" and "\<not> isspace (last s)" and "\<not> spaced_paren s"
  shows "meta_group (s @ r) = None"
proof (cases "isspace (hd s)")
  case False
  with assms show ?thesis by (simp add: meta_group_def spaces1_def)
next
  case True
  have "\<not> blank s" using assms(1,2) by (metis append_butlast_last_id blank_simps(2,3))
  moreover from this have "lstrip s \<noteq> []" by (simp add: lstrip_blank)
  moreover have "hd (lstrip s) \<noteq> 40" using True \<open>\<not> blank s\<close> assms(3) by (rule spaced_paren_lstrip)
  ultimately show ?thesis
    using assms(1) True by (cases "lstrip s") (auto simp: meta_group_def spaces1_def lstrip_append)
qed

lemma title_meta_render:
  assumes "s = [] \<or> \<not> isspace (last s)" and "\<not> spaced_paren s"
  shows "title_meta (s @ 32 # 40 # meta @ [41]) = (s, Some meta)"
  using assms
proof (induction s)
  case Nil
  then show ?case using meta_group_end by simp
next
  case (Cons c s)
  have "\<not> list_all isspace (32 # 40 # meta @ [41])" by (simp add: isspace_def)
  moreover have "meta_group (c # s @ 32 # 40 # meta @ [41]) = None"
    using meta_group_title[of "c # s"] Cons.prems by simp
  moreover have "\<not> spaced_paren s" using Cons.prems(2) by (cases s) auto
  ultimately show ?case using Cons by (auto split: if_splits)
qed

lemma search_none: "\<not> occurs key s \<Longrightarrow> search_field key stop s = None"
  by (induction s) (auto simp: field_at_def)

lemma search_skip:
  assumes "key \<noteq> []" and "c \<notin> set key" and "\<not> occurs key x"
  shows "search_field key stop (x @ c # y) = search_field key stop y"
  using assms(3)
proof (induction x)
  case Nil
  have "\<not> startswith (c # y) key" using assms(1,2) by (cases key) auto
  then show ?case by (simp add: field_at_def)
next
  case (Cons d x)
  have "startswith ((d # x) @ c # y) key = startswith (d # x) key"
    by (rule startswith_append_sep) (rule assms(2))
  with Cons show ?case by (simp add: field_at_def)
qed

lemma takeWhile_stop: "\<forall>c\<in>set a. P c \<Longrightarrow> r = [] \<or> \<not> P (hd r) \<Longrightarrow> takeWhile P (a @ r) = a"
  by (cases r) (auto simp: takeWhile_append)

lemma search_found:
  assumes "key \<noteq> []" and "a \<noteq> []" and "\<not> isspace (hd a)" and "\<forall>c\<in>set a. c \<notin> set stop"
    and "r = [] \<or> hd r \<in> set stop"
  shows "search_field key stop (key @ 32 # a @ r) = Some a"
proof -
  have "lstrip (32 # a @ r) = a @ r" using assms(2,3) by (cases a) (auto simp: isspace_def)
  moreover have "takeWhile (\<lambda>c. c \<notin> set stop) (a @ r) = a"
    using assms(4,5) by (intro takeWhile_stop) auto
  ultimately have "field_at key stop (key @ 32 # a @ r) = Some a"
    using assms(2) by (simp add: field_at_def)
  with assms(1) show ?thesis by (cases key) auto
qed

subsection \<open>The dependencies\<close>

lemma split_depends_space: "split_depends (32 # s) = split_depends s"
proof -
  have ne: "split_on 44 s \<noteq> []" by (induction s) (auto split: list.split)
  have "strip (32 # s) = strip s" for s using strip_pad[of "[32]" "[]" s] by (simp add: isspace_def)
  then have "map strip (split_on 44 (32 # s)) = map strip (split_on 44 s)"
    using ne by (cases "split_on 44 s") auto
  then show ?thesis by (simp add: split_depends_def)
qed

lemma split_on_join: "\<forall>d\<in>set ds. is_id d \<Longrightarrow> split_depends (join [44, 32] ds) = ds"
proof (induction ds)
  case Nil
  then show ?case by (simp add: split_depends_def strip_def)
next
  case (Cons d ds)
  have d: "trimmed d" "d \<noteq> []" "44 \<notin> set d" using Cons.prems is_id_trimmed by auto
  have "split_depends (d @ 44 # s) = d # split_depends s" for s
    using d by (simp add: split_depends_def split_on_append)
  moreover have "split_depends d = [d]" using d by (simp add: split_depends_def split_on_no)
  ultimately show ?case
    using Cons by (cases "ds = []") (simp_all add: join_Cons split_depends_space)
qed

lemma join_ids:
  assumes "\<forall>d\<in>set ds. is_id d" and "ds \<noteq> []"
  shows "join [44, 32] ds \<noteq> []" and "\<not> isspace (hd (join [44, 32] ds))" and "41 \<notin> set (join [44, 32] ds)"
    and "no_break (join [44, 32] ds)"
proof -
  have "join [44, 32] ds \<noteq> [] \<and> \<not> isspace (hd (join [44, 32] ds)) \<and> 41 \<notin> set (join [44, 32] ds)
      \<and> no_break (join [44, 32] ds)"
    using assms
  proof (induction ds)
    case Nil
    then show ?case by simp
  next
    case (Cons d ds)
    have "trimmed d" "d \<noteq> []" "41 \<notin> set d" "no_break d" using Cons.prems is_id_trimmed by auto
    with Cons show ?case
      by (cases "ds = []") (auto simp: join_Cons trimmed_def is_linebreak_def hd_append)
  qed
  then show "join [44, 32] ds \<noteq> []" and "\<not> isspace (hd (join [44, 32] ds))" and "41 \<notin> set (join [44, 32] ds)"
    and "no_break (join [44, 32] ds)" by blast+
qed

subsection \<open>Reading back a rendered line\<close>

definition details_text :: "dag_task \<Rightarrow> pystr" where
  "details_text t = lit ''assigned: '' @ dt_assigned t
     @ (if dt_depends t \<noteq> [] then lit '', depends: '' @ join [44, 32] (dt_depends t) else [])"

definition task_line :: "nat \<Rightarrow> dag_task \<Rightarrow> pystr" where
  "task_line m t = [45, 32, 91, m, 93, 32] @ dt_id t @ [32, 8212, 32] @ dt_title t
     @ [32, 40] @ details_text t @ [41]"

lemma status_marker:
  assumes "s \<in> set (map snd marker_to_status)"
  obtains m where "map_of status_to_marker s = Some m" and "map_of marker_to_status m = Some s"
    and "m \<in> set (map fst marker_to_status)" and "\<not> is_linebreak m"
  using assms by (auto simp: marker_to_status_def status_to_marker_def is_linebreak_def)

lemma render_dag_task_line:
  "map_of status_to_marker (dt_status t) = Some m \<Longrightarrow> render_dag_task t = Inr (task_line m t)"
  by (simp add: render_dag_task_def task_line_def details_text_def lit_def)

lemma dag_line_head_line:
  assumes "m \<in> set (map fst marker_to_status)" and "is_id i" and "r \<noteq> []" and "\<not> isspace (hd r)"
  shows "dag_line_head ([45, 32, 91, m, 93, 32] @ i @ [32, 8212, 32] @ r) = Some (m, i, r)"
proof -
  have i: "run1 is_id_char (i @ 32 # x) = Some (i, 32 # x)" for x
    using assms(2) by (intro run1_stop) (auto simp: is_id_def is_id_char_def char_class_defs)
  have sp: "isspace 32" "\<not> isspace 45" "\<not> isspace 91" "\<not> isspace 8212" by (simp_all add: isspace_def)
  have hd: "i \<noteq> []" "\<not> isspace (hd i)" using is_id_trimmed[OF assms(2)] by (auto simp: trimmed_def)
  have "lstrip (i @ x) = i @ x" "lstrip r = r" for x using hd assms(3,4) by (intro lstrip_id; simp)+
  with assms(1) sp i show ?thesis
    by (simp add: dag_line_head_def one_of_def spaces1_def)
qed

lemma assigned_field:
  assumes "plain_task t"
  shows "search_field (lit ''assigned:'') [44, 41] (details_text t) = Some (dt_assigned t)"
proof -
  let ?rest = "if dt_depends t \<noteq> [] then lit '', depends: '' @ join [44, 32] (dt_depends t) else []"
  have d: "details_text t = lit ''assigned:'' @ 32 # dt_assigned t @ ?rest"
    by (simp add: details_text_def lit_def)
  have "?rest = [] \<or> hd ?rest \<in> set [44, 41]" by (simp add: lit_def)
  moreover have "\<forall>c\<in>set (dt_assigned t). c \<notin> set [44, 41]" using assms by (auto simp: plain_task_def)
  ultimately show ?thesis
    unfolding d using assms by (intro search_found) (auto simp: plain_task_def trimmed_def)
qed

lemma depends_field:
  assumes "plain_task t"
  shows "search_field (lit ''depends:'') [41] (details_text t)
    = (if dt_depends t = [] then None else Some (join [44, 32] (dt_depends t)))"
proof -
  let ?key = "lit ''depends:''" and ?a = "dt_assigned t"
  have key: "?key \<noteq> []" "32 \<notin> set ?key" "44 \<notin> set ?key" by (simp_all add: lit_def)
  have first: "\<not> occurs ?key (lit ''assigned:'')" by (simp add: lit_def)
  have a: "\<not> occurs ?key ?a" and ids: "\<forall>d\<in>set (dt_depends t). is_id d"
    using assms by (simp_all add: plain_task_def list_all_iff)
  show ?thesis
  proof (cases "dt_depends t = []")
    case True
    then have "details_text t = lit ''assigned:'' @ 32 # ?a" by (simp add: details_text_def lit_def)
    then show ?thesis
      using True search_skip[OF key(1,2) first] search_none[OF a] by simp
  next
    case False
    then have d: "details_text t = lit ''assigned:'' @ 32 # ?a @ 44 # [] @ 32 # ?key @ 32 # join [44, 32] (dt_depends t) @ []"
      by (simp add: details_text_def lit_def)
    have "search_field ?key [41] (details_text t)
        = search_field ?key [41] (?key @ 32 # join [44, 32] (dt_depends t) @ [])"
      unfolding d using search_skip[OF key(1,2) first] search_skip[OF key(1,3) a]
        search_skip[OF key(1,2), of "[]"] by simp
    also have "\<dots> = Some (join [44, 32] (dt_depends t))"
      using join_ids[OF ids False] by (intro search_found key(1)) auto
    finally show ?thesis using False by simp
  qed
qed

lemma parse_rendered_task:
  assumes "plain_task t"
  obtains l where "render_dag_task t = Inr l" and "parse_dag_line l = Some t" and "no_break l"
    and "l \<noteq> []" and "last l = 41"
proof -
  obtain m where m: "map_of status_to_marker (dt_status t) = Some m"
    "map_of marker_to_status m = Some (dt_status t)" "m \<in> set (map fst marker_to_status)" "\<not> is_linebreak m"
    using assms status_marker by (metis plain_task_def)
  let ?rest = "dt_title t @ 32 # 40 # details_text t @ [41]"
  have title: "dt_title t \<noteq> []" "\<not> isspace (hd (dt_title t))" "\<not> isspace (last (dt_title t))"
    "\<not> spaced_paren (dt_title t)" "trimmed (dt_title t)"
    using assms by (auto simp: plain_task_def trimmed_def)
  have ids: "\<forall>d\<in>set (dt_depends t). is_id d" using assms by (simp add: plain_task_def list_all_iff)
  have "dag_line_head (task_line m t) = Some (m, dt_id t, ?rest)"
    using dag_line_head_line[OF m(3), of "dt_id t" ?rest] assms title
    by (simp add: task_line_def plain_task_def)
  moreover have "title_meta ?rest = (dt_title t, Some (details_text t))"
    using title by (intro title_meta_render) auto
  moreover have "strip (dt_assigned t) = dt_assigned t" using assms by (simp add: plain_task_def)
  ultimately have "parse_dag_line (task_line m t) = Some t"
    using title(5) m(2) ids
    by (simp add: parse_dag_line_def assigned_field[OF assms] depends_field[OF assms] split_on_join)
  moreover have "no_break (task_line m t)"
    using assms m(4) is_id_trimmed join_ids(4)[OF ids]
    by (auto simp: task_line_def details_text_def plain_task_def lit_def is_linebreak_def)
  moreover have "task_line m t \<noteq> []" "last (task_line m t) = 41" by (simp_all add: task_line_def)
  ultimately show thesis using that render_dag_task_line[OF m(1)] by blast
qed

section \<open>White space at the end of a line\<close>

lemma one_of_append: "one_of cs s = Some (c, r) \<Longrightarrow> one_of cs (s @ w) = Some (c, r @ w)"
  by (auto simp: one_of_def split: if_splits)

lemma spaces1_append: "spaces1 s = Some r \<Longrightarrow> r \<noteq> [] \<Longrightarrow> spaces1 (s @ w) = Some (r @ w)"
  by (auto simp: spaces1_def lstrip_append lstrip_blank[symmetric] split: if_splits)

lemma spaces1_append_some: "spaces1 s = Some r \<Longrightarrow> \<exists>r'. spaces1 (s @ w) = Some r'"
  by (auto simp: spaces1_def split: if_splits)

lemma run1_append: "run1 P s = Some (a, r) \<Longrightarrow> r \<noteq> [] \<Longrightarrow> run1 P (s @ w) = Some (a, r @ w)"
  by (auto simp: run1_def takeWhile_append dropWhile_append split: if_splits)

lemma piece_ne:
  "spaces1 [] = None" "one_of cs [] = None" "run1 P [] = None"
  by (simp_all add: spaces1_def one_of_def run1_def)

lemma dag_line_head_append:
  assumes "dag_line_head s = Some (m, i, r)"
  shows "\<exists>r'. dag_line_head (s @ w) = Some (m, i, r')"
proof -
  obtain r0 r1 r2 r3 r4 r5 r6 r7 r8 c0 c1 c2 c3 where
    p: "one_of [45] (lstrip s) = Some (c0, r0)" "spaces1 r0 = Some r1" "one_of [91] r1 = Some (c1, r2)"
      "one_of (map fst marker_to_status) r2 = Some (m, r3)" "one_of [93] r3 = Some (c2, r4)"
      "spaces1 r4 = Some r5" "run1 is_id_char r5 = Some (i, r6)" "spaces1 r6 = Some r7"
      "one_of [8212, 45] r7 = Some (c3, r8)" "spaces1 r8 = Some r"
    using assms unfolding dag_line_head_def
    by (clarsimp simp: bind_eq_Some_conv simp del: list.map split: prod.splits)
  have ne: "lstrip s \<noteq> []" "r1 \<noteq> []" "r5 \<noteq> []" "r6 \<noteq> []" "r7 \<noteq> []"
    using p piece_ne by (metis option.distinct(1))+
  then have ls: "lstrip (s @ w) = lstrip s @ w" by (auto simp: lstrip_append lstrip_blank)
  obtain r' where "spaces1 (r8 @ w) = Some r'" using spaces1_append_some[OF p(10)] by blast
  then show ?thesis
    using p ne ls by (simp add: dag_line_head_def one_of_append spaces1_append run1_append)
qed

lemma parse_dag_line_rstrip: "parse_dag_line (rstrip l) \<noteq> None \<Longrightarrow> parse_dag_line l \<noteq> None"
proof -
  assume "parse_dag_line (rstrip l) \<noteq> None"
  then obtain m i r where "dag_line_head (rstrip l) = Some (m, i, r)"
    by (auto simp: parse_dag_line_def split: option.splits)
  moreover obtain ws where "l = rstrip l @ ws" using rstrip_split .
  ultimately obtain r' where "dag_line_head l = Some (m, i, r')" using dag_line_head_append by metis
  then show ?thesis by (auto simp: parse_dag_line_def Let_def split: prod.splits)
qed

lemma parse_dag_line_blank: "blank l \<Longrightarrow> parse_dag_line l = None"
  by (simp add: parse_dag_line_def dag_line_head_def lstrip_blank[THEN iffD2] piece_ne)

lemma parse_dag_line_other: "lstrip l = [] \<or> hd (lstrip l) \<noteq> 45 \<Longrightarrow> parse_dag_line l = None"
  by (auto simp: parse_dag_line_def dag_line_head_def one_of_def)

lemma map_filter_append: "List.map_filter f (xs @ ys) = List.map_filter f xs @ List.map_filter f ys"
  by (simp add: List.map_filter_def)

lemma map_filter_Cons:
  "List.map_filter f (x # xs) = (case f x of None \<Rightarrow> [] | Some y \<Rightarrow> [y]) @ List.map_filter f xs"
  by (simp add: List.map_filter_def split: option.split)

lemma map_filter_Nil [simp]: "List.map_filter f [] = []"
  by (simp add: List.map_filter_def)

lemma map_filter_none: "List.map_filter f xs = [] \<longleftrightarrow> (\<forall>x\<in>set xs. f x = None)"
  by (induction xs) (auto simp: map_filter_Cons split: option.split)

lemma parse_trim_tail:
  assumes "\<forall>l\<in>set ls. parse_dag_line l = None \<or> rstrip l = l"
  shows "List.map_filter parse_dag_line (trim_tail ls) = List.map_filter parse_dag_line ls"
  using assms
proof (induction ls rule: rev_induct)
  case Nil
  then show ?case by simp
next
  case (snoc l ls)
  show ?case
  proof (cases "blank l")
    case True
    then show ?thesis
      using snoc by (simp add: trim_tail_snoc map_filter_append map_filter_Cons parse_dag_line_blank)
  next
    case False
    have "parse_dag_line (rstrip l) = parse_dag_line l"
      using snoc.prems parse_dag_line_rstrip[of l] by (cases "parse_dag_line (rstrip l)") auto
    with False show ?thesis by (simp add: trim_tail_snoc map_filter_append map_filter_Cons)
  qed
qed

section \<open>Plans\<close>

text \<open>The lines of a plan before and after its execution section.\<close>

definition plan_header :: "pystr \<Rightarrow> pystr list" where
  "plan_header plan = (let lines = splitlines plan in
     case execution_heading_index lines of None \<Rightarrow> lines @ [[]] | Some i \<Rightarrow> take i lines)"

definition plan_rest :: "pystr \<Rightarrow> pystr list" where
  "plan_rest plan = (let lines = splitlines plan in
     case execution_heading_index lines of None \<Rightarrow> [] | Some i \<Rightarrow> plan_suffix i lines)"

lemma replace_dag_tasks_eq:
  "replace_dag_tasks plan tasks = bindE (mapE render_dag_task tasks) (\<lambda>rendered.
     Inr (joined_plan (plan_header plan
       @ [lit ''## DAG Task Plan'', [], lit ''**Plan Type**: dag'', []] @ rendered
       @ (if plan_rest plan \<noteq> [] then [] # plan_rest plan else []))))"
  by (simp add: replace_dag_tasks_def plan_header_def plan_rest_def plan_suffix_def Let_def
      split: option.split)

lemma plan_outside_lines:
  "l \<in> set (plan_header plan) \<union> set (plan_rest plan) \<Longrightarrow> l = [] \<or> l \<in> set (splitlines plan)"
  by (auto simp: plan_header_def plan_rest_def plan_suffix_def Let_def split: option.splits
      dest: in_set_takeD set_dropWhileD in_set_dropD)

lemma plan_type_append:
  "plan_type_of a = lit ''dag'' \<Longrightarrow> plan_type_of b = lit ''dag'' \<Longrightarrow> plan_type_of (a @ b) = lit ''dag''"
  by (induction a) (auto simp: Let_def split: if_splits)

lemma plan_type_heading:
  "\<not> startswith l (lit ''**Plan Type**:'') \<Longrightarrow> plan_type_of (l # ls) = plan_type_of ls"
  "startswith (lit ''## DAG Task Plan'') (lit ''**Plan Type**:'') = False"
  "startswith [] (lit ''**Plan Type**:'') = False"
  by (simp_all add: lit_def)

lemma plan_type_line: "plan_type_of (lit ''**Plan Type**: dag'' # ls) = lit ''dag''"
proof -
  have "startswith (lit ''**Plan Type**: dag'') (lit ''**Plan Type**:'')" by (simp add: lit_def)
  moreover have "lower (strip (drop (length ''**Plan Type**:'') (lit ''**Plan Type**: dag''))) = lit ''dag''"
    by code_simp
  ultimately show ?thesis by simp
qed

lemma rendered_lines:
  assumes "\<forall>t\<in>set tasks. plain_task t"
  obtains ls where "mapE render_dag_task tasks = Inr ls" and "List.map_filter parse_dag_line ls = tasks"
    and "\<forall>l\<in>set ls. no_break l \<and> rstrip l = l"
  using assms
proof (induction tasks arbitrary: thesis)
  case Nil
  then show ?case by simp
next
  case (Cons t ts)
  obtain ls where ls: "mapE render_dag_task ts = Inr ls" "List.map_filter parse_dag_line ls = ts"
    "\<forall>l\<in>set ls. no_break l \<and> rstrip l = l"
    using Cons by auto
  obtain l where l: "render_dag_task t = Inr l" "parse_dag_line l = Some t" "no_break l" "l \<noteq> []" "last l = 41"
    using parse_rendered_task Cons.prems(2) by auto
  have "rstrip l = l" using l(5) by (intro rstrip_id) (simp add: isspace_def)
  then show ?case using Cons.prems(1)[of "l # ls"] ls l by (simp add: map_filter_Cons)
qed

lemma trim_tail_append:
  "\<exists>l\<in>set b. \<not> blank l \<Longrightarrow> trim_tail (a @ b) = a @ trim_tail b"
proof (induction b rule: rev_induct)
  case (snoc l b)
  then show ?case
    using trim_tail_snoc[of "a @ b" l] trim_tail_snoc[of b l] by (cases "blank l") auto
qed simp

lemma trim_tail_ne: "\<exists>l\<in>set b. \<not> blank l \<Longrightarrow> trim_tail b \<noteq> []"
proof (induction b rule: rev_induct)
  case (snoc l b)
  then show ?case using trim_tail_snoc[of b l] by (cases "blank l") auto
qed simp

lemma trim_tail_keep:
  assumes "a \<noteq> []" and "last a \<noteq> []" and "\<not> isspace (last (last a))"
  shows "trim_tail (a @ b) = a @ trim_tail b"
proof (induction b rule: rev_induct)
  case Nil
  then show ?case using assms by (simp add: trim_tail_id)
next
  case (snoc l b)
  then show ?case using trim_tail_snoc[of "a @ b" l] trim_tail_snoc[of b l] by simp
qed

lemma splitlines_joined_plan:
  assumes "\<forall>l\<in>set ls. no_break l" and "\<exists>l\<in>set ls. \<not> blank l"
  shows "splitlines (joined_plan ls) = trim_tail ls"
  using splitlines_joined[OF assms(1)] trim_tail_ne[OF assms(2)] by (simp add: joined_plan_def)

lemma replace_dag_tasks_lines:
  assumes "\<forall>t\<in>set tasks. plain_task t"
  obtains p ls where "replace_dag_tasks plan tasks = Inr p"
    and "splitlines p = plan_header plan @ trim_tail ([lit ''## DAG Task Plan'', [], lit ''**Plan Type**: dag'', []]
       @ ls @ (if plan_rest plan \<noteq> [] then [] # plan_rest plan else []))"
    and "List.map_filter parse_dag_line ls = tasks" and "\<forall>l\<in>set ls. rstrip l = l"
proof -
  obtain ls where ls: "mapE render_dag_task tasks = Inr ls" "List.map_filter parse_dag_line ls = tasks"
    "\<forall>l\<in>set ls. no_break l \<and> rstrip l = l"
    using rendered_lines[OF assms] .
  let ?head = "[lit ''## DAG Task Plan'', [], lit ''**Plan Type**: dag'', []]"
  let ?body = "?head @ ls @ (if plan_rest plan \<noteq> [] then [] # plan_rest plan else [])"
  have head: "\<exists>l\<in>set ?body. \<not> blank l" "\<forall>l\<in>set ?head. no_break l"
    by (auto simp: lit_def isspace_def is_linebreak_def)
  have "\<forall>l\<in>set (plan_header plan) \<union> set (plan_rest plan). no_break l"
    using plan_outside_lines[of _ plan] splitlines_no_break[of _ plan] by fastforce
  then have "\<forall>l\<in>set (plan_header plan @ ?body). no_break l" using ls(3) head(2) by auto
  moreover have "\<exists>l\<in>set (plan_header plan @ ?body). \<not> blank l" using head(1) by auto
  ultimately have "splitlines (joined_plan (plan_header plan @ ?body)) = trim_tail (plan_header plan @ ?body)"
    by (rule splitlines_joined_plan)
  then show thesis
    using that ls trim_tail_append[OF head(1), of "plan_header plan"] by (simp add: replace_dag_tasks_eq)
qed

lemma replaced_tasks_read:
  assumes "\<forall>t\<in>set tasks. plain_task t"
    and "\<forall>l\<in>set (plan_header plan) \<union> set (plan_rest plan). parse_dag_line l = None"
    and "plan_type_of (plan_header plan) = lit ''dag''"
  shows "\<exists>p. replace_dag_tasks plan tasks = Inr p \<and> parse_dag_tasks p = tasks
    \<and> parse_plan_type p = lit ''dag''"
proof -
  let ?head = "[lit ''## DAG Task Plan'', [], lit ''**Plan Type**: dag'', []]"
  let ?rest = "if plan_rest plan \<noteq> [] then [] # plan_rest plan else []"
  obtain p ls where p: "replace_dag_tasks plan tasks = Inr p"
    "splitlines p = plan_header plan @ trim_tail (?head @ ls @ ?rest)"
    and ls: "List.map_filter parse_dag_line ls = tasks" "\<forall>l\<in>set ls. rstrip l = l"
    using replace_dag_tasks_lines[OF assms(1)] .
  have none: "List.map_filter parse_dag_line (plan_header plan) = []" "List.map_filter parse_dag_line ?rest = []"
    "\<forall>l\<in>set ?rest. parse_dag_line l = None"
    using assms(2) parse_dag_line_blank[of "[]"] by (auto simp: map_filter_none)
  have head: "\<forall>l\<in>set ?head. parse_dag_line l = None"
    by (auto simp: lit_def isspace_def intro!: parse_dag_line_other)
  then have "List.map_filter parse_dag_line (trim_tail (?head @ ls @ ?rest)) = tasks"
    using parse_trim_tail[of "?head @ ls @ ?rest"] none(2,3) ls
    by (simp add: map_filter_append map_filter_none[THEN iffD2] ball_Un)
  then have "parse_dag_tasks p = tasks" by (simp add: parse_dag_tasks_def p map_filter_append none)
  moreover have "trim_tail (?head @ ls @ ?rest)
      = [lit ''## DAG Task Plan'', [], lit ''**Plan Type**: dag''] @ trim_tail ([] # ls @ ?rest)"
    using trim_tail_keep[of "[lit ''## DAG Task Plan'', [], lit ''**Plan Type**: dag'']" "[] # ls @ ?rest"]
    by (simp add: lit_def isspace_def)
  then have "plan_type_of (trim_tail (?head @ ls @ ?rest)) = lit ''dag''"
    using plan_type_line by (simp add: plan_type_heading)
  then have "parse_plan_type p = lit ''dag''"
    using assms(3) by (simp add: parse_plan_type_def p plan_type_append)
  ultimately show ?thesis using p(1) by blast
qed

text \<open>C40: A plan is read back as it was written: when every task can be written on a line, which excludes
  titles such as \<open>Fix (login)\<close>, and the plan has no checklist line and no other plan type outside its execution section, replacing the DAG
  tasks succeeds, and the new text parses to exactly these tasks, with plan type \<open>dag\<close>.\<close>

theorem plan_read_back:
  assumes "\<forall>t\<in>set tasks. plain_task t"
    and "\<forall>l\<in>set (plan_header plan) \<union> set (plan_rest plan). parse_dag_line l = None"
    and "plan_type_of (plan_header plan) = lit ''dag''"
  shows "\<exists>p. replace_dag_tasks plan tasks = Inr p \<and> parse_dag_tasks p = tasks
    \<and> parse_plan_type p = lit ''dag''"
  using assms by (rule replaced_tasks_read)

end
