(* ===== verification/Task_Store.thy ===== *)
theory Task_Store
  imports Task_Plans
begin

text \<open>
  The records and the storage of \<open>copaw_worker/task.py\<close>: project and task metadata, the protocol
  \<open>TaskStore\<close> as a record of operations, and \<open>FileSystemTaskStore\<close> over the files of a shared
  directory. The locale \<open>task_store\<close> states what the operations of the taskflow rely on; it is
  interpreted on the file system store.
\<close>

section \<open>Metadata\<close>

text \<open>
  Fields that are copied from a file without conversion keep the JSON value; \<open>None\<close> is \<open>JNull\<close>.
\<close>

record project_meta =
  pm_project_id :: pystr
  pm_title :: pystr
  pm_status :: pystr
  pm_source :: json
  pm_requester :: json
  pm_parent_task_id :: json
  pm_created_at :: json

record task_meta =
  tm_task_id :: pystr
  tm_project_id :: pystr
  tm_task_title :: pystr
  tm_assigned_to :: pystr
  tm_room_id :: json
  tm_status :: pystr
  tm_depends_on :: "json list"
  tm_assigned_at :: json
  tm_acknowledged_at :: json
  tm_submitted_at :: json

text \<open>\<open>_drop_none(asdict(meta))\<close>.\<close>

definition drop_none :: "(pystr \<times> json) list \<Rightarrow> (pystr \<times> json) list" where
  "drop_none data = filter (\<lambda>(key, value). value \<noteq> JNull) data"

definition project_meta_dict :: "project_meta \<Rightarrow> (pystr \<times> json) list" where
  "project_meta_dict m =
     [(lit ''project_id'', JStr (pm_project_id m)), (lit ''title'', JStr (pm_title m)),
      (lit ''status'', JStr (pm_status m)), (lit ''source'', pm_source m),
      (lit ''requester'', pm_requester m), (lit ''parent_task_id'', pm_parent_task_id m),
      (lit ''created_at'', pm_created_at m)]"

definition task_meta_dict :: "task_meta \<Rightarrow> (pystr \<times> json) list" where
  "task_meta_dict m =
     [(lit ''task_id'', JStr (tm_task_id m)), (lit ''project_id'', JStr (tm_project_id m)),
      (lit ''task_title'', JStr (tm_task_title m)), (lit ''assigned_to'', JStr (tm_assigned_to m)),
      (lit ''room_id'', tm_room_id m), (lit ''status'', JStr (tm_status m)),
      (lit ''depends_on'', JArr (tm_depends_on m)), (lit ''assigned_at'', tm_assigned_at m),
      (lit ''acknowledged_at'', tm_acknowledged_at m), (lit ''submitted_at'', tm_submitted_at m)]"

text \<open>
  \<open>data[key]\<close>, \<open>data.get(key)\<close>, \<open>data.get(key) or default\<close> and \<open>list(value)\<close> on what
  \<open>json.loads\<close> returned.
\<close>

definition subscript :: "json \<Rightarrow> string \<Rightarrow> json res" where
  "subscript data key = (case data of
     JObj kvs \<Rightarrow> (case map_of kvs (lit key) of None \<Rightarrow> Inl (KeyError (lit key)) | Some v \<Rightarrow> Inr v)
   | _ \<Rightarrow> Inl (TypeError (lit ''not subscriptable with a string'')))"

definition get_value :: "json \<Rightarrow> string \<Rightarrow> json" where
  "get_value data key = (case jget (lit key) data of None \<Rightarrow> JNull | Some v \<Rightarrow> v)"

definition or_default :: "json \<Rightarrow> json \<Rightarrow> json" where
  "or_default v d = (if truthy v then v else d)"

definition list_of_value :: "json \<Rightarrow> json list res" where
  "list_of_value v = (case v of
     JArr xs \<Rightarrow> Inr xs
   | JStr s \<Rightarrow> Inr (map (\<lambda>c. JStr [c]) s)
   | JObj kvs \<Rightarrow> Inr (map (JStr \<circ> fst) kvs)
   | _ \<Rightarrow> Inl (TypeError (lit ''object is not iterable'')))"

definition project_meta_of :: "(json \<Rightarrow> pystr) \<Rightarrow> json \<Rightarrow> project_meta res" where
  "project_meta_of R data =
     bindE (subscript data ''project_id'') (\<lambda>project_id.
     bindE (subscript data ''title'') (\<lambda>title.
     Inr \<lparr>pm_project_id = py_str R project_id, pm_title = py_str R title,
       pm_status = py_str R (or_default (get_value data ''status'') (JStr (lit ''active''))),
       pm_source = get_value data ''source'', pm_requester = get_value data ''requester'',
       pm_parent_task_id = get_value data ''parent_task_id'',
       pm_created_at = get_value data ''created_at''\<rparr>))"

definition task_meta_of :: "(json \<Rightarrow> pystr) \<Rightarrow> json \<Rightarrow> task_meta res" where
  "task_meta_of R data =
     bindE (subscript data ''task_id'') (\<lambda>task_id.
     bindE (subscript data ''project_id'') (\<lambda>project_id.
     bindE (subscript data ''task_title'') (\<lambda>task_title.
     bindE (subscript data ''assigned_to'') (\<lambda>assigned_to.
     bindE (list_of_value (or_default (get_value data ''depends_on'') (JArr []))) (\<lambda>depends_on.
     Inr \<lparr>tm_task_id = py_str R task_id, tm_project_id = py_str R project_id,
       tm_task_title = py_str R task_title, tm_assigned_to = py_str R assigned_to,
       tm_room_id = get_value data ''room_id'',
       tm_status = py_str R (or_default (get_value data ''status'') (JStr (lit ''assigned''))),
       tm_depends_on = depends_on, tm_assigned_at = get_value data ''assigned_at'',
       tm_acknowledged_at = get_value data ''acknowledged_at'',
       tm_submitted_at = get_value data ''submitted_at''\<rparr>)))))"

section \<open>The interface\<close>

text \<open>
  The protocol \<open>TaskStore\<close>. \<open>st_meta_exists\<close> is present for a \<open>FileSystemTaskStore\<close>, for which
  \<open>_project_exists\<close> looks at the file instead of reading it.
\<close>

record 's store_ops =
  st_read_project_meta :: "pystr \<Rightarrow> ('s, project_meta) actS"
  st_write_project_meta :: "project_meta \<Rightarrow> ('s, unit) actS"
  st_read_project_plan :: "pystr \<Rightarrow> ('s, pystr) actS"
  st_write_project_plan :: "pystr \<Rightarrow> pystr \<Rightarrow> ('s, unit) actS"
  st_read_task_meta :: "pystr \<Rightarrow> ('s, task_meta) actS"
  st_write_task_meta :: "task_meta \<Rightarrow> ('s, unit) actS"
  st_read_task_spec :: "pystr \<Rightarrow> ('s, pystr) actS"
  st_write_task_spec :: "pystr \<Rightarrow> pystr \<Rightarrow> ('s, unit) actS"
  st_read_task_result :: "pystr \<Rightarrow> ('s, task_result) actS"
  st_write_task_result :: "pystr \<Rightarrow> task_result \<Rightarrow> ('s, unit) actS"
  st_meta_exists :: "(pystr \<Rightarrow> ('s, bool) actS) option"

section \<open>Files\<close>

text \<open>
  The files below the shared directory by their path. A metadata file holds the JSON value that
  its text encodes; a write whose text cannot be encoded truncates the file before it raises.
  Reading a text file in text mode turns carriage returns into line feeds.
\<close>

datatype meta_file = Truncated | Holds json

record task_files =
  fs_shared_dir :: pystr
  fs_meta :: "pystr \<Rightarrow> meta_file option"
  fs_text :: "pystr \<Rightarrow> pystr option"

fun universal_newlines :: "pystr \<Rightarrow> pystr" where
  "universal_newlines [] = []"
| "universal_newlines (c # s) =
     (if c = 13 then 10 # (if s \<noteq> [] \<and> hd s = 10 then universal_newlines (tl s) else universal_newlines s)
      else c # universal_newlines s)"

definition project_file :: "task_files \<Rightarrow> pystr \<Rightarrow> string \<Rightarrow> pystr" where
  "project_file fs safe name = fs_shared_dir fs @ lit ''/projects/'' @ safe @ lit ''/'' @ lit name"

definition task_file :: "task_files \<Rightarrow> pystr \<Rightarrow> string \<Rightarrow> pystr" where
  "task_file fs safe name = fs_shared_dir fs @ lit ''/tasks/'' @ safe @ lit ''/'' @ lit name"

definition read_json :: "pystr \<Rightarrow> (task_files, json) actS" where
  "read_json path fs = (case fs_meta fs path of
     None \<Rightarrow> (Inl (terr (lit ''file not found: '' @ path)), fs)
   | Some Truncated \<Rightarrow> (Inl (ValueError (lit ''Expecting value'')), fs)
   | Some (Holds v) \<Rightarrow> (Inr v, fs))"

definition write_json :: "pystr \<Rightarrow> (pystr \<times> json) list \<Rightarrow> (task_files, unit) actS" where
  "write_json path data fs =
     (if encodable_json (JObj data) then (Inr (), fs\<lparr>fs_meta := (fs_meta fs)(path \<mapsto> Holds (JObj data))\<rparr>)
      else (Inl UnicodeEncodeError, fs\<lparr>fs_meta := (fs_meta fs)(path \<mapsto> Truncated)\<rparr>))"

definition read_text :: "pystr \<Rightarrow> pystr \<Rightarrow> (task_files, pystr) actS" where
  "read_text what path fs = (case fs_text fs path of
     None \<Rightarrow> (Inl (terr (what @ lit '' not found: '' @ path)), fs)
   | Some s \<Rightarrow> (Inr (universal_newlines s), fs))"

definition write_text :: "pystr \<Rightarrow> pystr \<Rightarrow> (task_files, unit) actS" where
  "write_text path s fs =
     (if encodable s then (Inr (), fs\<lparr>fs_text := (fs_text fs)(path \<mapsto> s)\<rparr>)
      else (Inl UnicodeEncodeError, fs\<lparr>fs_text := (fs_text fs)(path \<mapsto> [])\<rparr>))"

section \<open>The file system store\<close>

definition fs_read_project_meta :: "(json \<Rightarrow> pystr) \<Rightarrow> pystr \<Rightarrow> (task_files, project_meta) actS" where
  "fs_read_project_meta R project_id =
     bindS (liftS (safe_id project_id)) (\<lambda>safe.
     bindS (getS (\<lambda>fs. project_file fs safe ''meta.json'')) (\<lambda>path.
     bindS (read_json path) (\<lambda>data.
     liftS (project_meta_of R data))))"

definition fs_write_project_meta :: "project_meta \<Rightarrow> (task_files, unit) actS" where
  "fs_write_project_meta m =
     bindS (liftS (safe_id (pm_project_id m))) (\<lambda>safe.
     bindS (getS (\<lambda>fs. project_file fs safe ''meta.json'')) (\<lambda>path.
     write_json path (drop_none (project_meta_dict m))))"

definition fs_read_project_plan :: "pystr \<Rightarrow> (task_files, pystr) actS" where
  "fs_read_project_plan project_id =
     bindS (liftS (safe_id project_id)) (\<lambda>safe.
     bindS (getS (\<lambda>fs. project_file fs safe ''plan.md'')) (\<lambda>path.
     read_text (lit ''project plan'') path))"

definition fs_write_project_plan :: "pystr \<Rightarrow> pystr \<Rightarrow> (task_files, unit) actS" where
  "fs_write_project_plan project_id plan =
     bindS (liftS (safe_id project_id)) (\<lambda>safe.
     bindS (getS (\<lambda>fs. project_file fs safe ''plan.md'')) (\<lambda>path.
     write_text path plan))"

definition fs_read_task_meta :: "(json \<Rightarrow> pystr) \<Rightarrow> pystr \<Rightarrow> (task_files, task_meta) actS" where
  "fs_read_task_meta R task_id =
     bindS (liftS (safe_id task_id)) (\<lambda>safe.
     bindS (getS (\<lambda>fs. task_file fs safe ''meta.json'')) (\<lambda>path.
     bindS (read_json path) (\<lambda>data.
     liftS (task_meta_of R data))))"

definition fs_write_task_meta :: "task_meta \<Rightarrow> (task_files, unit) actS" where
  "fs_write_task_meta m =
     bindS (liftS (safe_id (tm_task_id m))) (\<lambda>safe.
     bindS (getS (\<lambda>fs. task_file fs safe ''meta.json'')) (\<lambda>path.
     write_json path (drop_none (task_meta_dict m))))"

definition fs_read_task_spec :: "pystr \<Rightarrow> (task_files, pystr) actS" where
  "fs_read_task_spec task_id =
     bindS (liftS (safe_id task_id)) (\<lambda>safe.
     bindS (getS (\<lambda>fs. task_file fs safe ''spec.md'')) (\<lambda>path.
     read_text (lit ''task spec'') path))"

definition fs_write_task_spec :: "pystr \<Rightarrow> pystr \<Rightarrow> (task_files, unit) actS" where
  "fs_write_task_spec task_id spec =
     bindS (liftS (safe_id task_id)) (\<lambda>safe.
     bindS (getS (\<lambda>fs. task_file fs safe ''spec.md'')) (\<lambda>path.
     write_text path spec))"

definition fs_read_task_result :: "pystr \<Rightarrow> (task_files, task_result) actS" where
  "fs_read_task_result task_id =
     bindS (liftS (safe_id task_id)) (\<lambda>safe.
     bindS (getS (\<lambda>fs. task_file fs safe ''result.md'')) (\<lambda>path.
     bindS (read_text (lit ''task result'') path) (\<lambda>text.
     bindS (liftS (parse_task_result text)) (\<lambda>result.
     bindS (liftS (validate_task_result task_id result)) (\<lambda>_.
     returnS result)))))"

definition fs_write_task_result :: "pystr \<Rightarrow> task_result \<Rightarrow> (task_files, unit) actS" where
  "fs_write_task_result task_id result =
     bindS (liftS (validate_task_result task_id result)) (\<lambda>_.
     bindS (liftS (safe_id task_id)) (\<lambda>safe.
     bindS (getS (\<lambda>fs. task_file fs safe ''result.md'')) (\<lambda>path.
     write_text path (render_task_result result))))"

definition fs_meta_exists :: "pystr \<Rightarrow> (task_files, bool) actS" where
  "fs_meta_exists project_id =
     bindS (liftS (safe_id project_id)) (\<lambda>safe.
     getS (\<lambda>fs. fs_meta fs (project_file fs safe ''meta.json'') \<noteq> None))"

definition fs_store :: "(json \<Rightarrow> pystr) \<Rightarrow> task_files store_ops" where
  "fs_store R = \<lparr>
     st_read_project_meta = fs_read_project_meta R, st_write_project_meta = fs_write_project_meta,
     st_read_project_plan = fs_read_project_plan, st_write_project_plan = fs_write_project_plan,
     st_read_task_meta = fs_read_task_meta R, st_write_task_meta = fs_write_task_meta,
     st_read_task_spec = fs_read_task_spec, st_write_task_spec = fs_write_task_spec,
     st_read_task_result = fs_read_task_result, st_write_task_result = fs_write_task_result,
     st_meta_exists = Some fs_meta_exists\<rparr>"

section \<open>What the taskflow relies on\<close>

text \<open>
  Reading changes nothing; a storable plan that is written over an existing one is read back; and
  plans, project metadata and the files of tasks do not disturb each other.
\<close>

locale task_store =
  fixes S :: "'s store_ops" and storable :: "pystr \<Rightarrow> bool"
  assumes plan_pure: "snd (st_read_project_plan S i s) = s"
    and meta_pure: "snd (st_read_project_meta S i s) = s"
    and plan_written: "st_write_project_plan S i q s = (Inr (), s') \<Longrightarrow> storable q \<Longrightarrow>
          fst (st_read_project_plan S i s') = Inr q"
    and plan_keeps_meta: "fst (st_read_project_meta S j (snd (st_write_project_plan S i q s)))
          = fst (st_read_project_meta S j s)"
    and task_meta_keeps_plan: "fst (st_read_project_plan S i (snd (st_write_task_meta S m s)))
          = fst (st_read_project_plan S i s)"
    and task_meta_keeps_meta: "fst (st_read_project_meta S i (snd (st_write_task_meta S m s)))
          = fst (st_read_project_meta S i s)"
    and task_spec_keeps_plan: "fst (st_read_project_plan S i (snd (st_write_task_spec S j q s)))
          = fst (st_read_project_plan S i s)"
    and task_spec_keeps_meta: "fst (st_read_project_meta S i (snd (st_write_task_spec S j q s)))
          = fst (st_read_project_meta S i s)"
begin

lemma read_plan_eq: "fst (st_read_project_plan S i s) = r \<Longrightarrow> st_read_project_plan S i s = (r, s)"
  using plan_pure[of i s] by (metis prod.collapse)

lemma read_meta_eq: "fst (st_read_project_meta S i s) = r \<Longrightarrow> st_read_project_meta S i s = (r, s)"
  using meta_pure[of i s] by (metis prod.collapse)

end

section \<open>The file system store provides it\<close>

lemma universal_newlines_id: "13 \<notin> set s \<Longrightarrow> universal_newlines s = s"
  by (induction s rule: universal_newlines.induct) auto

lemmas fs_defs = read_text_def write_text_def read_json_def write_json_def

lemma shared_dir_kept [simp]:
  "fs_shared_dir (snd (write_text p s fs)) = fs_shared_dir fs"
  "fs_shared_dir (snd (write_json p d fs)) = fs_shared_dir fs"
  by (simp_all add: fs_defs)

lemma read_pure [simp]:
  "snd (read_text w p fs) = fs" "snd (read_json p fs) = fs"
  by (simp_all add: fs_defs split: option.splits meta_file.splits)

lemma kinds_kept [simp]:
  "fs_meta (snd (write_text p s fs)) = fs_meta fs"
  "fs_text (snd (write_json p d fs)) = fs_text fs"
  by (simp_all add: fs_defs)

lemma bindS_lift_eq: "bindS (liftS m) f s = (case m of Inl e \<Rightarrow> (Inl e, s) | Inr x \<Rightarrow> f x s)"
  by (cases m) simp_all

interpretation fs: task_store "fs_store R" "\<lambda>s. 13 \<notin> set s" for R
proof (unfold_locales, goal_cases)
  case (1 i s)
  then show ?case by (simp add: fs_store_def fs_read_project_plan_def bindS_lift_eq split: sum.split)
next
  case (2 i s)
  show ?case
    by (simp add: fs_store_def fs_read_project_meta_def bindS_lift_eq fs_defs bindS_def
        split: sum.split option.split meta_file.split)
next
  case (3 i q s s')
  then show ?case
    by (auto simp: fs_store_def fs_read_project_plan_def fs_write_project_plan_def bindS_lift_eq
        fs_defs project_file_def universal_newlines_id split: sum.splits if_splits)
next
  case (4 j i q s)
  show ?case
    by (simp add: fs_store_def fs_read_project_meta_def fs_write_project_plan_def bindS_lift_eq
        fs_defs project_file_def bindS_def split: sum.split option.split meta_file.split)
next
  case (5 i m s)
  show ?case
    by (simp add: fs_store_def fs_read_project_plan_def fs_write_task_meta_def bindS_lift_eq
        fs_defs project_file_def split: sum.split option.split)
next
  case (6 i m s)
  show ?case
    by (simp add: fs_store_def fs_read_project_meta_def fs_write_task_meta_def bindS_lift_eq
        fs_defs project_file_def task_file_def lit_def bindS_def split: sum.split option.split meta_file.split)
next
  case (7 i j q s)
  show ?case
    by (simp add: fs_store_def fs_read_project_plan_def fs_write_task_spec_def bindS_lift_eq
        fs_defs project_file_def task_file_def lit_def split: sum.split option.split)
next
  case (8 i j q s)
  show ?case
    by (simp add: fs_store_def fs_read_project_meta_def fs_write_task_spec_def bindS_lift_eq
        fs_defs project_file_def bindS_def split: sum.split option.split meta_file.split)
qed

end
