(* ===== verification/Task_Ops.thy ===== *)
theory Task_Ops
  imports Task_Store
begin

text \<open>
  The operations of \<open>copaw_worker/task.py\<close> on a task store: creating and planning projects,
  selecting and delegating tasks, recording loop iterations, pausing, acknowledging and
  submitting. Every operation takes the store as a record of operations, as the code takes a
  \<open>TaskStore\<close>; \<open>R\<close> is the text of a list or dict, \<open>now\<close> the text of \<open>_now()\<close>.
\<close>

section \<open>Projects\<close>

definition initial_plan :: "(json \<Rightarrow> pystr) \<Rightarrow> project_meta \<Rightarrow> pystr" where
  "initial_plan R m =
     lit ''# Team Project: '' @ pm_title m @ [10, 10]
     @ lit ''**ID**: '' @ pm_project_id m @ [10]
     @ lit ''**Created**: '' @ py_str R (pm_created_at m) @ [10, 10]
     @ lit ''## DAG Task Plan'' @ [10, 10]
     @ lit ''**Plan Type**: dag'' @ [10]"

definition project_exists :: "'s store_ops \<Rightarrow> pystr \<Rightarrow> ('s, bool) actS" where
  "project_exists S project_id = (case st_meta_exists S of
     Some exists \<Rightarrow> exists project_id
   | None \<Rightarrow> (\<lambda>s. case st_read_project_meta S project_id s of
        (Inr m, s') \<Rightarrow> (Inr True, s')
      | (Inl (TaskflowError msg), s') \<Rightarrow>
          (if occurs (lit ''file not found'') msg then (Inr False, s') else (Inl (TaskflowError msg), s'))
      | (Inl e, s') \<Rightarrow> (Inl e, s')))"

definition create_project ::
  "(json \<Rightarrow> pystr) \<Rightarrow> pystr \<Rightarrow> 's store_ops \<Rightarrow> pystr \<Rightarrow> pystr \<Rightarrow> pystr option \<Rightarrow> pystr option \<Rightarrow>
   pystr option \<Rightarrow> ('s, project_meta) actS" where
  "create_project R now S project_id title source requester parent_task_id =
     bindS (liftS (safe_id project_id)) (\<lambda>safe.
     bindS (project_exists S safe) (\<lambda>known.
     if known then raiseS (terr (lit ''project already exists: '' @ safe))
     else
       (let meta = \<lparr>pm_project_id = safe, pm_title = title, pm_status = lit ''active'',
              pm_source = jopt source, pm_requester = jopt requester,
              pm_parent_task_id = jopt parent_task_id, pm_created_at = JStr now\<rparr> in
        bindS (st_write_project_meta S meta) (\<lambda>_.
        bindS (st_write_project_plan S (pm_project_id meta) (initial_plan R meta)) (\<lambda>_.
        returnS meta)))))"

definition set_project_status :: "'s store_ops \<Rightarrow> pystr \<Rightarrow> pystr \<Rightarrow> ('s, project_meta) actS" where
  "set_project_status S project_id status =
     bindS (st_read_project_meta S project_id) (\<lambda>meta.
     let updated = meta\<lparr>pm_status := status\<rparr> in
     bindS (st_write_project_meta S updated) (\<lambda>_. returnS updated))"

definition pause_project :: "'s store_ops \<Rightarrow> pystr \<Rightarrow> ('s, project_meta) actS" where
  "pause_project S project_id = set_project_status S project_id (lit ''paused'')"

definition resume_project :: "'s store_ops \<Rightarrow> pystr \<Rightarrow> ('s, project_meta) actS" where
  "resume_project S project_id = set_project_status S project_id (lit ''active'')"

definition complete_project :: "'s store_ops \<Rightarrow> pystr \<Rightarrow> ('s, project_meta) actS" where
  "complete_project S project_id = set_project_status S project_id (lit ''completed'')"

section \<open>Planning a graph\<close>

text \<open>\<open>{task.task_id: task for task in ...}\<close>.\<close>

definition task_dict :: "dag_task list \<Rightarrow> (pystr \<times> dag_task) list" where
  "task_dict tasks = dict_of (map (\<lambda>t. (dt_id t, t)) tasks)"

text \<open>The loop of \<open>add_tasks\<close>: the tasks by identifier and the identifiers of the payload so far.\<close>

fun add_loop ::
  "(json \<Rightarrow> pystr) \<Rightarrow> (pystr \<times> dag_task) list \<Rightarrow> pystr list \<Rightarrow> (pystr \<times> json) list list \<Rightarrow>
   (pystr \<times> dag_task) list res" where
  "add_loop R existing incoming_ids [] = Inr existing"
| "add_loop R existing incoming_ids (raw # raws) =
     bindE (dag_task_from_payload R raw) (\<lambda>task.
     if dt_id task \<in> set incoming_ids then
       Inl (terr (lit ''duplicate task id in payload: '' @ dt_id task))
     else (case map_of existing (dt_id task) of
       Some current \<Rightarrow>
         (if dt_status current \<noteq> lit ''pending'' then
            Inl (terr (lit ''cannot modify non-pending task '' @ dt_id task @ lit '' ('' @ dt_status current @ lit '')''))
          else add_loop R (AList.update (dt_id task) task existing) (dt_id task # incoming_ids) raws)
     | None \<Rightarrow> add_loop R (AList.update (dt_id task) task existing) (dt_id task # incoming_ids) raws))"

text \<open>The loop of \<open>plan_dag\<close> and \<open>plan_loop\<close>: a known task keeps its status.\<close>

fun merge_loop ::
  "(json \<Rightarrow> pystr) \<Rightarrow> (pystr \<times> dag_task) list \<Rightarrow> pystr list \<Rightarrow> (pystr \<times> json) list list \<Rightarrow>
   dag_task list res" where
  "merge_loop R existing incoming_ids [] = Inr []"
| "merge_loop R existing incoming_ids (raw # raws) =
     bindE (dag_task_from_payload R raw) (\<lambda>task.
     if dt_id task \<in> set incoming_ids then
       Inl (terr (lit ''duplicate task id in payload: '' @ dt_id task))
     else
       (let final = (case map_of existing (dt_id task) of
            Some current \<Rightarrow> task\<lparr>dt_status := dt_status current\<rparr> | None \<Rightarrow> task) in
        bindE (merge_loop R existing (dt_id task # incoming_ids) raws) (\<lambda>rest. Inr (final # rest))))"

text \<open>\<open>validate_dag\<close>, then the plan with the tasks replaced is written.\<close>

definition store_dag :: "'s store_ops \<Rightarrow> pystr \<Rightarrow> pystr \<Rightarrow> dag_task list \<Rightarrow> ('s, dag_task list) actS" where
  "store_dag S project_id plan final_tasks =
     bindS (liftS (validate_dag final_tasks)) (\<lambda>_.
     bindS (liftS (replace_dag_tasks plan final_tasks)) (\<lambda>text.
     bindS (st_write_project_plan S project_id text) (\<lambda>_.
     returnS final_tasks)))"

definition add_tasks ::
  "(json \<Rightarrow> pystr) \<Rightarrow> 's store_ops \<Rightarrow> pystr \<Rightarrow> (pystr \<times> json) list list \<Rightarrow> ('s, dag_task list) actS" where
  "add_tasks R S project_id tasks =
     bindS (st_read_project_plan S project_id) (\<lambda>plan.
     bindS (liftS (add_loop R (task_dict (parse_dag_tasks plan)) [] tasks)) (\<lambda>existing.
     store_dag S project_id plan (map snd existing)))"

definition plan_dag ::
  "(json \<Rightarrow> pystr) \<Rightarrow> 's store_ops \<Rightarrow> pystr \<Rightarrow> (pystr \<times> json) list list \<Rightarrow> ('s, dag_task list) actS" where
  "plan_dag R S project_id tasks =
     bindS (st_read_project_plan S project_id) (\<lambda>plan.
     bindS (liftS (merge_loop R (task_dict (parse_dag_tasks plan)) [] tasks)) (\<lambda>final_tasks.
     store_dag S project_id plan final_tasks))"

definition ready_nodes :: "'s store_ops \<Rightarrow> pystr \<Rightarrow> ('s, dag_task list) actS" where
  "ready_nodes S project_id =
     bindS (st_read_project_meta S project_id) (\<lambda>meta.
     if pm_status meta = lit ''paused'' then returnS []
     else
       bindS (st_read_project_plan S project_id) (\<lambda>plan.
       if parse_plan_type plan \<noteq> lit ''dag'' then
         raiseS (terr (lit ''project plan is not a DAG: '' @ project_id))
       else
         bindS (liftS (validate_dag (parse_dag_tasks plan))) (\<lambda>_.
         returnS (ready_tasks (parse_dag_tasks plan)))))"

section \<open>Loops\<close>

definition plan_loop ::
  "(json \<Rightarrow> pystr) \<Rightarrow> 's store_ops \<Rightarrow> pystr \<Rightarrow> pystr \<Rightarrow> pystr \<Rightarrow> pystr \<Rightarrow> int \<Rightarrow> int \<Rightarrow> pystr \<Rightarrow>
   (pystr \<times> json) list list option \<Rightarrow> ('s, loop_plan) actS" where
  "plan_loop R S project_id goal stop_condition iteration_template max_iterations current_iteration
     status tasks =
     bindS (liftS (seqE
       [raise_if (max_iterations < 1) (terr (lit ''maxIterations must be greater than zero'')),
        raise_if (current_iteration < 0) (terr (lit ''currentIteration must be zero or greater'')),
        raise_if (current_iteration > max_iterations)
          (terr (lit ''currentIteration cannot exceed maxIterations''))])) (\<lambda>_.
     bindS (st_read_project_plan S project_id) (\<lambda>plan.
     bindS (liftS (parse_loop_plan plan)) (\<lambda>existing_loop.
     let existing_tasks = task_dict (case existing_loop of
           Some lp \<Rightarrow> lp_tasks lp | None \<Rightarrow> parse_loop_tasks plan) in
     bindS (liftS (merge_loop R existing_tasks [] (case tasks of None \<Rightarrow> [] | Some ts \<Rightarrow> ts))) (\<lambda>final_tasks.
     bindS (liftS (validate_dag final_tasks)) (\<lambda>_.
     bindS (liftS (safe_loop_status status)) (\<lambda>safe_status.
     let lp = \<lparr>lp_goal = single_line goal, lp_stop_condition = single_line stop_condition,
           lp_iteration_template = strip iteration_template, lp_max_iterations = max_iterations,
           lp_current_iteration = current_iteration, lp_status = safe_status, lp_tasks = final_tasks,
           lp_history = (case existing_loop of Some old \<Rightarrow> lp_history old | None \<Rightarrow> [])\<rparr> in
     bindS (liftS (replace_loop_plan plan lp)) (\<lambda>text.
     bindS (st_write_project_plan S project_id text) (\<lambda>_. returnS lp))))))))"

definition ready_loop_nodes :: "'s store_ops \<Rightarrow> pystr \<Rightarrow> ('s, dag_task list) actS" where
  "ready_loop_nodes S project_id =
     bindS (st_read_project_meta S project_id) (\<lambda>meta.
     if pm_status meta = lit ''paused'' then returnS []
     else
       bindS (st_read_project_plan S project_id) (\<lambda>plan.
       bindS (liftS (parse_loop_plan plan)) (\<lambda>found.
       case found of
         None \<Rightarrow> raiseS (terr (lit ''project has no loop plan: '' @ project_id))
       | Some lp \<Rightarrow>
           if lp_status lp \<in> {lit ''completed'', lit ''blocked'', lit ''waiting_user''} then returnS []
           else bindS (liftS (validate_dag (lp_tasks lp))) (\<lambda>_. returnS (ready_tasks (lp_tasks lp))))))"

definition decision_status :: "(pystr \<times> pystr) list" where
  "decision_status =
     [(lit ''continue'', lit ''running''), (lit ''replan'', lit ''running''),
      (lit ''ask_user'', lit ''waiting_user''), (lit ''stop_success'', lit ''completed''),
      (lit ''stop_blocked'', lit ''blocked'')]"

definition iteration_detail :: "pystr \<Rightarrow> pystr \<Rightarrow> pystr \<Rightarrow> pystr option \<Rightarrow> pystr" where
  "iteration_detail number safe_decision summary next_action =
     lit ''Iteration '' @ number @ lit '': '' @ safe_decision @ [32, 8212, 32] @ single_line summary
     @ (case next_action of
          None \<Rightarrow> []
        | Some a \<Rightarrow> if strip a \<noteq> [] then lit '' Next: '' @ single_line a else [])"

definition record_loop_iteration ::
  "'s store_ops \<Rightarrow> pystr \<Rightarrow> int \<Rightarrow> pystr \<Rightarrow> pystr \<Rightarrow> pystr option \<Rightarrow> ('s, loop_plan) actS" where
  "record_loop_iteration S project_id iteration decision summary next_action =
     bindS (liftS (raise_if (iteration < 1) (terr (lit ''iteration must be greater than zero'')))) (\<lambda>_.
     bindS (st_read_project_plan S project_id) (\<lambda>plan.
     bindS (liftS (parse_loop_plan plan)) (\<lambda>found.
     case found of
       None \<Rightarrow> raiseS (terr (lit ''project has no loop plan: '' @ project_id))
     | Some lp \<Rightarrow>
         if iteration > lp_max_iterations lp then
           raiseS (terr (lit ''iteration cannot exceed maxIterations''))
         else
           bindS (liftS (safe_loop_decision decision)) (\<lambda>safe_decision.
           bindS (liftS (fmt_int iteration)) (\<lambda>number.
           let updated = lp\<lparr>
                 lp_current_iteration := max (lp_current_iteration lp) iteration,
                 lp_status := the (map_of decision_status safe_decision),
                 lp_history := lp_history lp @ [iteration_detail number safe_decision summary next_action]\<rparr> in
           bindS (liftS (replace_loop_plan plan updated)) (\<lambda>text.
           bindS (st_write_project_plan S project_id text) (\<lambda>_. returnS updated)))))))"

section \<open>Delegation\<close>

definition missing_dependencies :: "dag_task list \<Rightarrow> dag_task \<Rightarrow> pystr list" where
  "missing_dependencies tasks t = filter (\<lambda>dep. dep \<notin> effective_ids tasks) (dt_depends t)"

definition plan_tasks :: "pystr \<Rightarrow> dag_task list" where
  "plan_tasks plan =
     (if parse_plan_type plan = lit ''loop'' then parse_loop_tasks plan else parse_dag_tasks plan)"

text \<open>The checks of \<open>delegate_task\<close>, which find the task, and the plan it writes at the end.\<close>

definition delegated_task :: "dag_task list \<Rightarrow> pystr \<Rightarrow> dag_task res" where
  "delegated_task tasks task_id =
     bindE (find_task tasks task_id) (\<lambda>task.
     bindE (raise_if (dt_status task \<noteq> lit ''pending'')
       (terr (lit ''task '' @ task_id @ lit '' is not pending''))) (\<lambda>_.
     bindE (raise_if (missing_dependencies tasks task \<noteq> [])
       (terr (lit ''task '' @ task_id @ lit '' is blocked by: ''
              @ join (lit '', '') (missing_dependencies tasks task)))) (\<lambda>_.
     Inr task)))"

definition plan_with_tasks :: "pystr \<Rightarrow> pystr \<Rightarrow> dag_task list \<Rightarrow> pystr res" where
  "plan_with_tasks project_id plan updated =
     (if parse_plan_type plan = lit ''loop'' then
        bindE (parse_loop_plan plan) (\<lambda>found. case found of
          None \<Rightarrow> Inl (terr (lit ''project has no loop plan: '' @ project_id))
        | Some lp \<Rightarrow> replace_loop_plan plan (lp\<lparr>lp_tasks := updated\<rparr>))
      else replace_dag_tasks plan updated)"

definition delegate_task ::
  "pystr \<Rightarrow> 's store_ops \<Rightarrow> pystr \<Rightarrow> pystr \<Rightarrow> pystr \<Rightarrow> pystr option \<Rightarrow> ('s, task_meta) actS" where
  "delegate_task now S project_id task_id spec room_id =
     bindS (liftS (raise_if (strip spec = []) (terr (lit ''spec is required'')))) (\<lambda>_.
     bindS (st_read_project_meta S project_id) (\<lambda>project.
     bindS (liftS (raise_if (pm_status project = lit ''paused'')
        (terr (lit ''project is paused: '' @ project_id)))) (\<lambda>_.
     bindS (st_read_project_plan S project_id) (\<lambda>plan.
     bindS (liftS (delegated_task (plan_tasks plan) task_id)) (\<lambda>task.
     let meta = \<lparr>tm_task_id = dt_id task, tm_project_id = project_id, tm_task_title = dt_title task,
           tm_assigned_to = canonical_worker_id (Some (dt_assigned task)), tm_room_id = jopt room_id,
           tm_status = lit ''assigned'', tm_depends_on = map JStr (dt_depends task),
           tm_assigned_at = JStr now, tm_acknowledged_at = JNull, tm_submitted_at = JNull\<rparr> in
     bindS (st_write_task_meta S meta) (\<lambda>_.
     bindS (st_write_task_spec S (dt_id task) spec) (\<lambda>_.
     bindS (liftS (replace_task_status (plan_tasks plan) (dt_id task) (lit ''delegated''))) (\<lambda>updated.
     bindS (liftS (plan_with_tasks project_id plan updated)) (\<lambda>text.
     bindS (st_write_project_plan S project_id text) (\<lambda>_. returnS meta))))))))))"

section \<open>The worker's side\<close>

definition check_task :: "'s store_ops \<Rightarrow> pystr \<Rightarrow> ('s, task_result) actS" where
  "check_task S task_id = st_read_task_result S task_id"

definition require_assigned_worker :: "task_meta \<Rightarrow> pystr option \<Rightarrow> unit res" where
  "require_assigned_worker meta actor =
     (let current = canonical_worker_id actor;
          assigned = canonical_worker_id (Some (tm_assigned_to meta)) in
      seqE
        [raise_if (current = []) (terr (lit ''current worker identity is required'')),
         raise_if (current \<noteq> assigned)
           (terr (lit ''task '' @ tm_task_id meta @ lit '' is assigned to '' @ tm_assigned_to meta
                  @ lit '', not '' @ current))])"

definition require_task_room :: "task_meta \<Rightarrow> unit res" where
  "require_task_room meta =
     bindE (if truthy (tm_room_id meta) then
              (case tm_room_id meta of JStr s \<Rightarrow> Inr (strip s)
               | _ \<Rightarrow> Inl (AttributeError (lit ''strip'')))
            else Inr []) (\<lambda>room.
     raise_if (room = []) (terr (lit ''task '' @ tm_task_id meta @ lit '' is missing room_id'')))"

definition ack_task :: "pystr \<Rightarrow> 's store_ops \<Rightarrow> pystr \<Rightarrow> pystr option \<Rightarrow> ('s, task_meta) actS" where
  "ack_task now S task_id actor =
     bindS (st_read_task_meta S task_id) (\<lambda>meta.
     bindS (liftS (seqE [require_assigned_worker meta actor, require_task_room meta])) (\<lambda>_.
     let acknowledged = meta\<lparr>tm_status := lit ''in_progress'',
           tm_acknowledged_at := or_default (tm_acknowledged_at meta) (JStr now)\<rparr> in
     bindS (st_write_task_meta S acknowledged) (\<lambda>_. returnS acknowledged)))"

definition submit_task ::
  "pystr \<Rightarrow> 's store_ops \<Rightarrow> pystr \<Rightarrow> task_result option \<Rightarrow> pystr option \<Rightarrow> ('s, task_meta) actS" where
  "submit_task now S task_id result actor =
     bindS (st_read_task_meta S task_id) (\<lambda>meta.
     bindS (liftS (seqE [require_assigned_worker meta actor, require_task_room meta])) (\<lambda>_.
     bindS (case result of
         Some r \<Rightarrow> st_write_task_result S task_id r
       | None \<Rightarrow> bindS (st_read_task_result S task_id) (\<lambda>_. returnS ())) (\<lambda>_.
     let submitted = meta\<lparr>tm_status := lit ''submitted'', tm_submitted_at := JStr now\<rparr> in
     bindS (st_write_task_meta S submitted) (\<lambda>_. returnS submitted))))"

end
