(* ===== verification/Task_Results.thy ===== *)
theory Task_Results
  imports Task_Text Lines
begin

text \<open>
  Task results written by \<open>render_task_result\<close> and read by \<open>parse_task_result\<close>: the round trip for
  results whose items fit on a line, and what happens to an item that does not.
\<close>

section \<open>Summaries on one line\<close>

lemma collapse_ws_chars: "c \<in> set (collapse_ws s) \<Longrightarrow> c = 32 \<or> \<not> isspace c"
  by (induction s rule: collapse_ws.induct) (auto split: if_splits)

lemma no_break_single_line: "no_break (single_line s)"
proof -
  have "\<not> is_linebreak c" if "c \<in> set (collapse_ws s)" for c
    using collapse_ws_chars[OF that] linebreak_isspace[of c] is_linebreak_def[of 32] by auto
  then have "no_break (collapse_ws s)" by (simp add: no_break_def list_all_iff)
  moreover have "set (strip t) \<subseteq> set t" for t
    by (metis set_dropWhileD subsetI strip_def rstrip_def lstrip_def set_rev)
  ultimately show ?thesis by (auto simp: no_break_def list_all_iff single_line_def)
qed

lemma trimmed_single_line [simp]: "trimmed (single_line s)"
  by (simp add: single_line_def)

lemma blank_collapse_ws: "blank (collapse_ws s) \<longleftrightarrow> blank s"
proof (induction s rule: collapse_ws.induct)
  case (2 c s)
  have "blank (dropWhile isspace s) \<longleftrightarrow> blank s" by (induction s) auto
  with 2 show ?case by (auto simp: isspace_def[of 32])
qed simp

lemma single_line_empty: "single_line s = [] \<longleftrightarrow> strip s = []"
  by (simp add: single_line_def strip_blank blank_collapse_ws)

section \<open>The round trip\<close>

definition plain_item :: "pystr \<Rightarrow> bool" where
  "plain_item s \<longleftrightarrow> s \<noteq> [] \<and> trimmed s \<and> no_break s"

definition plain_result :: "task_result \<Rightarrow> bool" where
  "plain_result r \<longleftrightarrow> tr_status r \<in> set result_statuses \<and> strip (tr_summary r) \<noteq> []
     \<and> list_all plain_item (tr_deliverables r) \<and> list_all plain_item (tr_notes r)"

lemma prefix_line:
  assumes "\<not> isspace (hd p)" and "p \<noteq> []" and "trimmed s" and "s \<noteq> []"
  shows "strip (p @ 32 # s) = p @ 32 # s" and "strip (drop (length p) (p @ 32 # s)) = s"
proof -
  have "trimmed (p @ 32 # s)" using assms by (auto simp: trimmed_def hd_append)
  then show "strip (p @ 32 # s) = p @ 32 # s" by simp
  have "strip (32 # s) = strip s" using strip_pad[of "[32]" "[]" s] by (simp add: isspace_def)
  then show "strip (drop (length p) (p @ 32 # s)) = s" using assms(3) by simp
qed

lemma result_loop_item:
  assumes "plain_item s"
  shows "result_loop r ''deliverables'' ((lit ''- '' @ s) # ls)
      = result_loop (r\<lparr>tr_deliverables := tr_deliverables r @ [s]\<rparr>) ''deliverables'' ls"
    and "result_loop r ''notes'' ((lit ''- '' @ s) # ls)
      = result_loop (r\<lparr>tr_notes := tr_notes r @ [s]\<rparr>) ''notes'' ls"
proof -
  have "strip (lit ''- '' @ s) = lit ''- '' @ s"
    using prefix_line(1)[of "[45]" s] assms by (simp add: plain_item_def lit_def isspace_def)
  moreover have "\<not> startswith (lit ''- '' @ s) (lit ''STATUS:'')" "\<not> startswith (lit ''- '' @ s) (lit ''SUMMARY:'')"
    "lit ''- '' @ s \<noteq> lit ''DELIVERABLES:''" "lit ''- '' @ s \<noteq> lit ''NOTES:''" "lit ''- '' @ s \<noteq> []"
    "drop 2 (lit ''- '' @ s) = s" "startswith (lit ''- '' @ s) (lit ''- '')"
    by (simp_all add: lit_def)
  moreover have "strip s = s" using assms by (simp add: plain_item_def)
  ultimately show "result_loop r ''deliverables'' ((lit ''- '' @ s) # ls)
      = result_loop (r\<lparr>tr_deliverables := tr_deliverables r @ [s]\<rparr>) ''deliverables'' ls"
    and "result_loop r ''notes'' ((lit ''- '' @ s) # ls)
      = result_loop (r\<lparr>tr_notes := tr_notes r @ [s]\<rparr>) ''notes'' ls"
    by (simp_all add: Let_def)
qed

lemma result_loop_items:
  "list_all plain_item xs \<Longrightarrow> result_loop r ''deliverables'' (map (\<lambda>s. lit ''- '' @ s) xs @ ls)
      = result_loop (r\<lparr>tr_deliverables := tr_deliverables r @ xs\<rparr>) ''deliverables'' ls"
  "list_all plain_item xs \<Longrightarrow> result_loop r ''notes'' (map (\<lambda>s. lit ''- '' @ s) xs @ ls)
      = result_loop (r\<lparr>tr_notes := tr_notes r @ xs\<rparr>) ''notes'' ls"
  by (induction xs arbitrary: r) (simp_all add: result_loop_item del: result_loop.simps)

lemma result_loop_head:
  assumes "st \<in> set result_statuses" and "trimmed sm" and "sm \<noteq> []"
  shows "result_loop empty_result '''' ([lit ''STATUS: '' @ st, lit ''SUMMARY: '' @ sm, [], lit ''DELIVERABLES:''] @ ls)
    = result_loop (empty_result\<lparr>tr_status := st, tr_summary := sm\<rparr>) ''deliverables'' ls"
proof -
  have st: "trimmed st" "st \<noteq> []" using assms(1) by (auto simp: result_statuses_def trimmed_def lit_def isspace_def)
  have a: "lit ''STATUS: '' @ st = lit ''STATUS:'' @ 32 # st" "lit ''SUMMARY: '' @ sm = lit ''SUMMARY:'' @ 32 # sm"
    by (simp_all add: lit_def)
  have "\<not> isspace (hd (lit ''STATUS:''))" "\<not> isspace (hd (lit ''SUMMARY:''))" by (simp_all add: lit_def isspace_def)
  note p = prefix_line[OF this(1) _ st] prefix_line[OF this(2) _ assms(2,3)]
  have n: "\<not> startswith (lit ''SUMMARY:'' @ s) (lit ''STATUS:'')" "lit ''STATUS:'' @ s \<noteq> []"
    "lit ''SUMMARY:'' @ s \<noteq> []" for s
    by (simp_all add: lit_def)
  have d: "\<not> startswith (lit ''DELIVERABLES:'') (lit ''STATUS:'')"
    "\<not> startswith (lit ''DELIVERABLES:'') (lit ''SUMMARY:'')"
    by (simp_all add: lit_def)
  have t: "strip (lit ''DELIVERABLES:'') = lit ''DELIVERABLES:''" "strip [] = []"
    by (intro strip_trimmed; simp add: trimmed_def lit_def isspace_def)+
  have l: "lit ''STATUS:'' \<noteq> []" "lit ''SUMMARY:'' \<noteq> []" by simp_all
  let ?tail = "[[], lit ''DELIVERABLES:''] @ ls"
  have "result_loop empty_result '''' ((lit ''STATUS:'' @ 32 # st) # (lit ''SUMMARY:'' @ 32 # sm) # ?tail)
      = result_loop (empty_result\<lparr>tr_status := st\<rparr>) '''' ((lit ''SUMMARY:'' @ 32 # sm) # ?tail)"
    unfolding result_loop.simps(2)[of _ _ "lit ''STATUS:'' @ 32 # st"] p(1)[OF l(1)] Let_def
    using p(2)[OF l(1)] n(2) by simp
  also have "\<dots> = result_loop (empty_result\<lparr>tr_status := st, tr_summary := sm\<rparr>) '''' ?tail"
    unfolding result_loop.simps(2)[of _ _ "lit ''SUMMARY:'' @ 32 # sm"] p(3)[OF l(2)] Let_def
    using p(4)[OF l(2)] n(1,3) by simp
  also have "\<dots> = result_loop (empty_result\<lparr>tr_status := st, tr_summary := sm\<rparr>) ''deliverables'' ls"
    using t d by (simp add: Let_def)
  finally show ?thesis by (simp add: a)
qed

lemma result_loop_notes:
  "result_loop r sec ([] # lit ''NOTES:'' # ls) = result_loop r ''notes'' ls"
proof -
  have "\<not> startswith (lit ''NOTES:'') (lit ''STATUS:'')" "\<not> startswith (lit ''NOTES:'') (lit ''SUMMARY:'')"
    by (simp_all add: lit_def)
  moreover have "strip (lit ''NOTES:'') = lit ''NOTES:''" "strip [] = []"
    by (intro strip_trimmed; simp add: trimmed_def lit_def isspace_def)+
  ultimately show ?thesis by (simp add: Let_def)
qed

lemma result_lines_last:
  assumes "plain_result r"
  shows "result_lines r \<noteq> [] \<and> last (result_lines r) \<noteq> [] \<and> \<not> isspace (last (last (result_lines r)))"
proof -
  have item: "\<not> isspace (last (lit ''- '' @ s))" if "plain_item s" for s
    using that by (auto simp: plain_item_def trimmed_def)
  have items: "last (map (\<lambda>s. lit ''- '' @ s) xs) = lit ''- '' @ last xs \<and> plain_item (last xs)"
    if "xs \<noteq> []" "list_all plain_item xs" for xs
    using that by (auto simp: last_map list_all_iff)
  have head: "\<not> isspace (last (lit ''DELIVERABLES:''))" by (simp add: lit_def isspace_def)
  show ?thesis
  proof (cases "tr_notes r = []")
    case some_notes: False
    then show ?thesis
      using assms items[of "tr_notes r"] item[of "last (tr_notes r)"]
      by (simp add: plain_result_def result_lines_def)
  next
    case no_notes: True
    show ?thesis
    proof (cases "tr_deliverables r = []")
      case True
      with no_notes head show ?thesis by (simp add: result_lines_def)
    next
      case False
      then show ?thesis
        using assms no_notes items[of "tr_deliverables r"] item[of "last (tr_deliverables r)"]
        by (simp add: plain_result_def result_lines_def)
    qed
  qed
qed

lemma result_lines_no_break: "plain_result r \<Longrightarrow> \<forall>l\<in>set (result_lines r). no_break l"
proof -
  assume r: "plain_result r"
  have "no_break (lit ''STATUS: '')" "no_break (lit ''SUMMARY: '')" "no_break (lit ''DELIVERABLES:'')"
    "no_break (lit ''NOTES:'')" "no_break (lit ''- '')"
    by (simp_all add: lit_def is_linebreak_def)
  moreover have "\<forall>s\<in>set result_statuses. no_break s"
    by (simp add: result_statuses_def lit_def is_linebreak_def)
  moreover have "no_break s" if "s \<in> set (tr_deliverables r) \<union> set (tr_notes r)" for s
    using that r by (auto simp: plain_result_def plain_item_def list_all_iff)
  ultimately show ?thesis
    using r no_break_single_line[of "tr_summary r"] by (auto simp: plain_result_def result_lines_def)
qed

lemma parse_rendered_result:
  assumes "plain_result r"
  shows "parse_task_result (render_task_result r) = Inr (r\<lparr>tr_summary := single_line (tr_summary r)\<rparr>)"
proof -
  let ?sm = "single_line (tr_summary r)"
  have sm: "?sm \<noteq> []" using assms by (simp add: plain_result_def single_line_empty)
  have "trim_tail (result_lines r) = result_lines r"
    using result_lines_last[OF assms] by (intro trim_tail_id) blast
  then have "splitlines (render_task_result r) = result_lines r"
    using splitlines_joined[OF result_lines_no_break[OF assms]] result_lines_last[OF assms]
    by (simp add: render_task_result_def joined_plan_def)
  moreover have "result_loop empty_result '''' (result_lines r) = r\<lparr>tr_summary := ?sm\<rparr>"
    using assms result_loop_head[of "tr_status r" ?sm] sm
    by (cases "tr_notes r = []")
      (simp_all add: result_lines_def plain_result_def result_loop_items result_loop_notes
        result_loop_items[where ls = "[]", simplified] empty_result_def del: result_loop.simps(2))
  ultimately show ?thesis using assms sm by (simp add: parse_task_result_def plain_result_def Let_def)
qed

section \<open>Properties\<close>

text \<open>A result whose deliverables and notes are stripped non-empty texts of one line is read back
  from its rendering with the same status, deliverables and notes, in order, and with its summary
  on one line; reading never fails on it.\<close>

lemma task_result_read_back:
  assumes "plain_result r"
  shows "parse_task_result (render_task_result r) = Inr (r\<lparr>tr_summary := single_line (tr_summary r)\<rparr>)"
  using assms by (rule parse_rendered_result)

definition sample_result_ok :: task_result where
  "sample_result_ok = \<lparr>tr_status = lit ''SUCCESS'', tr_summary = lit ''all  done'',
     tr_deliverables = [lit ''shared/tasks/t1/out.md''], tr_notes = [lit ''see STATUS: x'']\<rparr>"

lemma sample_result_plain: "plain_result sample_result_ok"
  by (simp add: sample_result_ok_def plain_result_def plain_item_def trimmed_def result_statuses_def
      lit_def char_class_defs strip_def rstrip_def)

lemma task_result_read_back_witness:
  "parse_task_result (render_task_result sample_result_ok)
     = Inr (sample_result_ok\<lparr>tr_summary := lit ''all done''\<rparr>)"
proof -
  have "single_line (tr_summary sample_result_ok) = lit ''all done''"
    by (simp add: sample_result_ok_def single_line_def lit_def char_class_defs strip_def rstrip_def)
  then show ?thesis using task_result_read_back[OF sample_result_plain] by simp
qed

text \<open>A note with a line break is written as it is, so its second line is read as a field: the
  result below is accepted as \<open>BLOCKED\<close>, and what is read back from the file is \<open>SUCCESS\<close>.\<close>

definition injected_result :: task_result where
  "injected_result = \<lparr>tr_status = lit ''BLOCKED'', tr_summary = lit ''no access'', tr_deliverables = [],
     tr_notes = [lit ''log:'' @ [10] @ lit ''STATUS: SUCCESS'']\<rparr>"

lemma multiline_note_rewrites_status:
  "validate_task_result (lit ''t1'') injected_result = Inr ()
   \<and> parse_task_result (render_task_result injected_result)
       = Inr (injected_result\<lparr>tr_status := lit ''SUCCESS'', tr_notes := [lit ''log:'']\<rparr>)"
proof -
  have "splitlines (render_task_result injected_result) =
      [lit ''STATUS: BLOCKED'', lit ''SUMMARY: no access'', [], lit ''DELIVERABLES:'', [],
       lit ''NOTES:'', lit ''- log:'', lit ''STATUS: SUCCESS'']"
    by (simp add: render_task_result_def joined_plan_def result_lines_def injected_result_def
        single_line_def splitlines_def lit_def char_class_defs strip_def rstrip_def)
  then show ?thesis
    by (simp add: parse_task_result_def injected_result_def empty_result_def result_statuses_def
        validate_task_result_def safe_id_def is_id_char_def lit_def char_class_defs strip_def rstrip_def Let_def)
qed

end
