(* ===== verification/Task_Flow.thy ===== *)
theory Task_Flow
  imports Task_Ops Task_Results
begin

text \<open>
  The taskflow on a store: what a successful delegation implies and leaves behind, planning with
  the graph read back, submission of results, project creation and loop bookkeeping. The lemmas on
  delegation and planning are proved for every store of the locale \<open>task_store\<close> and used for the
  file system store.
\<close>

section \<open>Lemmas: the checks of a delegation\<close>

lemma find_task_ok:
  "find_task tasks tid = Inr t \<Longrightarrow> t \<in> set tasks \<and> dt_id t = strip tid \<and> is_id (strip tid)"
proof -
  assume "find_task tasks tid = Inr t"
  then obtain safe rest where "safe_id tid = Inr safe" and f: "filter (\<lambda>t. dt_id t = safe) tasks = t # rest"
    by (auto simp: find_task_def split: list.splits)
  moreover have "t \<in> set (filter (\<lambda>t. dt_id t = safe) tasks)" unfolding f by simp
  then have "t \<in> set tasks \<and> dt_id t = safe" by simp
  ultimately show ?thesis by (auto simp: safe_id_ok)
qed

lemma delegated_task_ok:
  assumes "delegated_task tasks tid = Inr t"
  shows "t \<in> set (ready_tasks tasks)" and "dt_id t = strip tid" and "is_id (strip tid)"
proof -
  have "t \<in> set tasks \<and> dt_status t = lit ''pending'' \<and> missing_dependencies tasks t = []
      \<and> dt_id t = strip tid \<and> is_id (strip tid)"
    using assms find_task_ok by (auto simp: delegated_task_def)
  then show "t \<in> set (ready_tasks tasks)" and "dt_id t = strip tid" and "is_id (strip tid)"
    by (auto simp: ready_tasks_def missing_dependencies_def filter_empty_conv)
qed

definition marked :: "pystr \<Rightarrow> dag_task list \<Rightarrow> dag_task list" where
  "marked i tasks = map (\<lambda>t. if dt_id t = i then t\<lparr>dt_status := lit ''delegated''\<rparr> else t) tasks"

lemma replace_task_status_marked:
  "is_id i \<Longrightarrow> replace_task_status tasks i (lit ''delegated'') = Inr (marked i tasks)"
  by (simp add: replace_task_status_def safe_id_id marked_def)

lemma delegated_again:
  assumes "is_id (strip tid)" and "\<exists>t\<in>set tasks. dt_id t = strip tid"
  shows "delegated_task (marked (strip tid) tasks) tid = Inl (terr (lit ''task '' @ tid @ lit '' is not pending''))"
proof -
  have "safe_id tid = Inr (strip tid)" using assms(1) by (simp add: safe_id_ok)
  moreover obtain u where "u \<in> set tasks" "dt_id u = strip tid" using assms(2) by blast
  then have "u\<lparr>dt_status := lit ''delegated''\<rparr> \<in> set (filter (\<lambda>t. dt_id t = strip tid) (marked (strip tid) tasks))"
    by (auto simp: marked_def image_iff intro!: bexI[of _ u])
  then have "filter (\<lambda>t. dt_id t = strip tid) (marked (strip tid) tasks) \<noteq> []" by fastforce
  then obtain t rest where f: "filter (\<lambda>t. dt_id t = strip tid) (marked (strip tid) tasks) = t # rest"
    by (meson neq_Nil_conv)
  moreover have "t \<in> set (filter (\<lambda>t. dt_id t = strip tid) (marked (strip tid) tasks))" unfolding f by simp
  then have "dt_status t = lit ''delegated''" by (auto simp: marked_def split: if_splits)
  ultimately show ?thesis by (simp add: delegated_task_def find_task_def)
qed

lemma plain_marked: "\<forall>t\<in>set tasks. plain_task t \<Longrightarrow> \<forall>t\<in>set (marked i tasks). plain_task t"
  by (auto simp: marked_def plain_task_def marker_to_status_def)

definition delegated_meta :: "pystr \<Rightarrow> pystr \<Rightarrow> dag_task \<Rightarrow> pystr option \<Rightarrow> task_meta" where
  "delegated_meta now project_id t room_id =
     \<lparr>tm_task_id = dt_id t, tm_project_id = project_id, tm_task_title = dt_title t,
      tm_assigned_to = canonical_worker_id (Some (dt_assigned t)), tm_room_id = jopt room_id,
      tm_status = lit ''assigned'', tm_depends_on = map JStr (dt_depends t),
      tm_assigned_at = JStr now, tm_acknowledged_at = JNull, tm_submitted_at = JNull\<rparr>"

text \<open>The texts of a plan outside its execution section hold no task and no other plan type.\<close>

definition clean_plan :: "pystr \<Rightarrow> bool" where
  "clean_plan plan \<longleftrightarrow> (\<forall>l\<in>set (plan_header plan) \<union> set (plan_rest plan). parse_dag_line l = None)
     \<and> plan_type_of (plan_header plan) = lit ''dag''"

section \<open>Lemmas: delegation on any store\<close>

context task_store begin

lemma delegate_ok:
  assumes "delegate_task now S pid tid spec room s = (Inr m, s')"
  obtains project plan t plan' s1 where
    "strip spec \<noteq> []" and "fst (st_read_project_meta S pid s) = Inr project"
    and "pm_status project \<noteq> lit ''paused''" and "fst (st_read_project_plan S pid s) = Inr plan"
    and "delegated_task (plan_tasks plan) tid = Inr t" and "m = delegated_meta now pid t room"
    and "plan_with_tasks pid plan (marked (strip tid) (plan_tasks plan)) = Inr plan'"
    and "st_write_project_plan S pid plan' s1 = (Inr (), s')"
    and "fst (st_read_project_meta S pid s1) = Inr project"
proof -
  from assms obtain project plan t updated plan' s0 s1 s2 s3 where
    r: "strip spec \<noteq> []" "st_read_project_meta S pid s = (Inr project, s0)" "pm_status project \<noteq> lit ''paused''"
      "st_read_project_plan S pid s0 = (Inr plan, s1)" "delegated_task (plan_tasks plan) tid = Inr t"
      "st_write_task_meta S (delegated_meta now pid t room) s1 = (Inr (), s2)"
      "st_write_task_spec S (dt_id t) spec s2 = (Inr (), s3)"
      "replace_task_status (plan_tasks plan) (dt_id t) (lit ''delegated'') = Inr updated"
      "plan_with_tasks pid plan updated = Inr plan'" "st_write_project_plan S pid plan' s3 = (Inr (), s')"
      "m = delegated_meta now pid t room"
    unfolding delegate_task_def Let_def delegated_meta_def[symmetric]
    by (auto simp: bindS_lift_eq elim!: bindS_cases split: sum.splits if_splits)
  have s: "s0 = s" "s1 = s" using meta_pure[of pid s] plan_pure[of pid s0] r(2,4) by simp_all
  have t: "dt_id t = strip tid" "is_id (strip tid)" using delegated_task_ok[OF r(5)] by simp_all
  have "updated = marked (strip tid) (plan_tasks plan)" using r(8) t by (simp add: replace_task_status_marked)
  moreover have "fst (st_read_project_meta S pid s3) = Inr project"
    using task_spec_keeps_meta[of pid "dt_id t" spec s2] task_meta_keeps_meta[of pid "delegated_meta now pid t room" s1]
      r(2,6,7) s by simp
  ultimately show thesis using r s by (intro that[of project plan t plan' s3]) simp_all
qed

text \<open>After a delegation the stored graph is the old one with the task marked, and it cannot be
  delegated a second time.\<close>

lemma delegate_marks:
  assumes d: "delegate_task now S pid tid spec room s = (Inr m, s')"
    and plan: "fst (st_read_project_plan S pid s) = Inr plan" "parse_plan_type plan = lit ''dag''" "clean_plan plan"
    and plain: "\<forall>t\<in>set (parse_dag_tasks plan). plain_task t"
    and stor: "\<And>ts q. \<forall>t\<in>set ts. plain_task t \<Longrightarrow> replace_dag_tasks plan ts = Inr q \<Longrightarrow> storable q"
  obtains plan' where "fst (st_read_project_plan S pid s') = Inr plan'"
    and "parse_dag_tasks plan' = marked (strip tid) (parse_dag_tasks plan)"
    and "strip spec' \<noteq> [] \<Longrightarrow> fst (delegate_task now' S pid tid spec' room' s')
          = Inl (terr (lit ''task '' @ tid @ lit '' is not pending''))"
proof -
  obtain project t plan' s1 where r: "fst (st_read_project_meta S pid s) = Inr project"
    "pm_status project \<noteq> lit ''paused''" "delegated_task (plan_tasks plan) tid = Inr t"
    "plan_with_tasks pid plan (marked (strip tid) (plan_tasks plan)) = Inr plan'"
    "st_write_project_plan S pid plan' s1 = (Inr (), s')" "fst (st_read_project_meta S pid s1) = Inr project"
    using delegate_ok[OF d] plan(1) by (metis sum.inject(2))
  have tasks: "plan_tasks plan = parse_dag_tasks plan" using plan(2) by (simp add: plan_tasks_def)
  have rep: "replace_dag_tasks plan (marked (strip tid) (parse_dag_tasks plan)) = Inr plan'"
    using r(4) plan(2) by (simp add: plan_with_tasks_def tasks)
  moreover have "\<exists>p. replace_dag_tasks plan (marked (strip tid) (parse_dag_tasks plan)) = Inr p
      \<and> parse_dag_tasks p = marked (strip tid) (parse_dag_tasks plan) \<and> parse_plan_type p = lit ''dag''"
    using replaced_tasks_read[OF plain_marked[OF plain]] plan(3) by (simp add: clean_plan_def)
  ultimately have p: "parse_dag_tasks plan' = marked (strip tid) (parse_dag_tasks plan)"
    "parse_plan_type plan' = lit ''dag''" by auto
  have read: "fst (st_read_project_plan S pid s') = Inr plan'" using plan_written[OF r(5) stor[OF plain_marked[OF plain] rep]] .
  have "fst (st_read_project_meta S pid s') = Inr project"
    using plan_keeps_meta[of pid pid plan' s1] r(5,6) by simp
  moreover have "delegated_task (plan_tasks plan') tid = Inl (terr (lit ''task '' @ tid @ lit '' is not pending''))"
  proof -
    have "\<exists>t\<in>set (parse_dag_tasks plan). dt_id t = strip tid"
      using delegated_task_ok(1,2)[OF r(3)] unfolding tasks by (auto simp: ready_tasks_iff)
    then show ?thesis
      using delegated_again[OF delegated_task_ok(3)[OF r(3)]] p by (simp add: plan_tasks_def)
  qed
  ultimately have "fst (delegate_task now' S pid tid spec' room' s')
      = Inl (terr (lit ''task '' @ tid @ lit '' is not pending''))" if "strip spec' \<noteq> []"
    using that r(2) read_meta_eq[of pid s'] read_plan_eq[OF read] by (simp add: delegate_task_def bindS_def bindS_lift_eq raise_if_def)
  with read p(1) show thesis using that by blast
qed

end

section \<open>Lemmas: the texts that are written\<close>

lemma join_no_cr: "\<forall>l\<in>set ls. 13 \<notin> set l \<Longrightarrow> 13 \<notin> set (join [10] ls)"
proof (induction ls)
  case (Cons l ls)
  then show ?case by (cases "ls = []") (simp_all add: join_Cons)
qed simp

lemma joined_plan_no_cr: "\<forall>l\<in>set ls. no_break l \<Longrightarrow> 13 \<notin> set (joined_plan ls)"
proof -
  assume "\<forall>l\<in>set ls. no_break l"
  then have "\<forall>l\<in>set ls. 13 \<notin> set l" using is_linebreak_def[of 13] by (auto simp: no_break_def list_all_iff)
  then have "13 \<notin> set (join [10] ls)" by (rule join_no_cr)
  moreover have "set (rstrip s) \<subseteq> set s" for s by (metis rstrip_split set_append Un_upper1)
  ultimately show ?thesis by (auto simp: joined_plan_def)
qed

lemma replaced_no_cr:
  assumes "\<forall>t\<in>set ts. plain_task t" and "replace_dag_tasks plan ts = Inr q"
  shows "13 \<notin> set q"
proof -
  obtain ls where ls: "mapE render_dag_task ts = Inr ls" "\<forall>l\<in>set ls. no_break l \<and> rstrip l = l"
    using rendered_lines[OF assms(1)] by metis
  have "\<forall>l\<in>set (plan_header plan) \<union> set (plan_rest plan). no_break l"
    using plan_outside_lines[of _ plan] splitlines_no_break[of _ plan] by fastforce
  moreover have "no_break (lit ''## DAG Task Plan'')" "no_break (lit ''**Plan Type**: dag'')"
    by (simp_all add: lit_def is_linebreak_def)
  ultimately show ?thesis
    using assms(2) ls by (auto simp: replace_dag_tasks_eq intro!: joined_plan_no_cr)
qed

section \<open>A sample project\<close>

definition done_task :: dag_task where
  "done_task = \<lparr>dt_id = lit ''z'', dt_title = lit ''Z'', dt_assigned = lit ''w'', dt_depends = [],
     dt_status = lit ''completed''\<rparr>"

definition sample_task :: dag_task where
  "sample_task = \<lparr>dt_id = lit ''a'', dt_title = lit ''A'', dt_assigned = lit ''w'', dt_depends = [lit ''z''],
     dt_status = lit ''pending''\<rparr>"

definition done_line :: pystr where
  "done_line = lit ''- [x] z '' @ [8212] @ lit '' Z (assigned: w)''"

definition sample_line :: pystr where
  "sample_line = lit ''- [ ] a '' @ [8212] @ lit '' A (assigned: w, depends: z)''"

definition sample_plan :: pystr where
  "sample_plan = lit ''# P'' @ [10] @ lit ''## DAG Task Plan'' @ [10, 10] @ lit ''**Plan Type**: dag'' @ [10, 10]
     @ done_line @ [10] @ sample_line @ [10]"

definition sample_files :: task_files where
  "sample_files = \<lparr>fs_shared_dir = lit ''shared'',
     fs_meta = [lit ''shared/projects/p/meta.json'' \<mapsto>
        Holds (JObj [(lit ''project_id'', JStr (lit ''p'')), (lit ''title'', JStr (lit ''P''))])],
     fs_text = [lit ''shared/projects/p/plan.md'' \<mapsto> sample_plan]\<rparr>"

lemma sample_plain: "plain_task sample_task" "plain_task done_task"
  by (simp_all add: sample_task_def done_task_def plain_task_def is_id_def is_id_char_def trimmed_def lit_def
      char_class_defs marker_to_status_def)

lemma sample_rendered:
  "render_dag_task sample_task = Inr sample_line" "render_dag_task done_task = Inr done_line"
  by (simp_all add: render_dag_task_def sample_task_def done_task_def status_to_marker_def marker_to_status_def
      sample_line_def done_line_def lit_def)

lemma sample_parsed:
  "parse_dag_line sample_line = Some sample_task" "parse_dag_line done_line = Some done_task"
  "no_break sample_line" "no_break done_line"
  using parse_rendered_task[OF sample_plain(1)] parse_rendered_task[OF sample_plain(2)] sample_rendered by auto

lemma sample_lines:
  "splitlines sample_plan = [lit ''# P'', lit ''## DAG Task Plan'', [], lit ''**Plan Type**: dag'', [],
     done_line, sample_line]"
proof -
  have "no_break (lit ''# P'')" "no_break (lit ''## DAG Task Plan'')" "no_break (lit ''**Plan Type**: dag'')"
    by (simp_all add: lit_def is_linebreak_def)
  then show ?thesis
    using splitlines_line[of "[]"] sample_parsed(3,4) by (simp add: sample_plan_def splitlines_line)
qed

lemma sample_other:
  "parse_dag_line (lit ''# P'') = None" "parse_dag_line (lit ''## DAG Task Plan'') = None"
  "parse_dag_line (lit ''**Plan Type**: dag'') = None" "parse_dag_line [] = None"
  by (rule parse_dag_line_other; simp add: lit_def isspace_def)+

lemma sample_tasks: "parse_dag_tasks sample_plan = [done_task, sample_task]"
  by (simp add: parse_dag_tasks_def sample_lines map_filter_Cons sample_parsed sample_other)

lemma sample_type: "parse_plan_type sample_plan = lit ''dag''"
  using plan_type_line by (simp add: parse_plan_type_def sample_lines plan_type_heading lit_def)

lemma sample_sections: "plan_header sample_plan = [lit ''# P'']" "plan_rest sample_plan = []"
  by (simp_all add: plan_header_def plan_rest_def plan_suffix_def sample_lines execution_heading_index_def
      dag_heading_index_def heading_index_def other_heading_def sample_line_def done_line_def lit_def
      char_class_defs strip_def rstrip_def)

lemma sample_clean: "clean_plan sample_plan"
  by (simp add: clean_plan_def sample_sections sample_other) (simp add: lit_def)

definition no_repr :: "json \<Rightarrow> pystr" where
  "no_repr v = []"

lemma sample_id: "safe_id (lit ''p'') = Inr (lit ''p'')" "safe_id (lit ''a'') = Inr (lit ''a'')"
  by (simp_all add: safe_id_def lit_def is_id_char_def char_class_defs strip_def rstrip_def)

lemma sample_reads:
  "fst (fs_read_project_plan (lit ''p'') sample_files) = Inr sample_plan"
  "fst (fs_read_project_meta no_repr (lit ''p'') sample_files)
     = Inr \<lparr>pm_project_id = lit ''p'', pm_title = lit ''P'', pm_status = lit ''active'', pm_source = JNull,
         pm_requester = JNull, pm_parent_task_id = JNull, pm_created_at = JNull\<rparr>"
proof -
  have "13 \<notin> set sample_plan" by (simp add: sample_plan_def sample_line_def done_line_def lit_def)
  then show "fst (fs_read_project_plan (lit ''p'') sample_files) = Inr sample_plan"
    by (simp add: fs_read_project_plan_def sample_id read_text_def sample_files_def project_file_def
        universal_newlines_id lit_append[symmetric])
  show "fst (fs_read_project_meta no_repr (lit ''p'') sample_files)
     = Inr \<lparr>pm_project_id = lit ''p'', pm_title = lit ''P'', pm_status = lit ''active'', pm_source = JNull,
         pm_requester = JNull, pm_parent_task_id = JNull, pm_created_at = JNull\<rparr>"
    by (simp add: fs_read_project_meta_def sample_id read_json_def sample_files_def project_file_def
        lit_append[symmetric] bindS_def project_meta_of_def subscript_def get_value_def or_default_def)
qed

lemma sample_delegated: "delegated_task (plan_tasks sample_plan) (lit ''a'') = Inr sample_task"
  by (simp add: plan_tasks_def sample_type sample_tasks delegated_task_def find_task_def sample_id
      sample_task_def done_task_def missing_dependencies_def effective_ids_def)

lemma sample_update:
  obtains q where "plan_with_tasks (lit ''p'') sample_plan (marked (lit ''a'') (plan_tasks sample_plan)) = Inr q"
    and "encodable q"
proof -
  have "\<exists>q. plan_with_tasks (lit ''p'') sample_plan (marked (lit ''a'') (plan_tasks sample_plan)) = Inr q
      \<and> encodable q"
    by (simp add: plan_with_tasks_def plan_tasks_def sample_type sample_tasks marked_def sample_task_def done_task_def
        replace_dag_tasks_eq sample_sections render_dag_task_def status_to_marker_def marker_to_status_def joined_plan_def
        rstrip_def lit_def char_class_defs)
  with that show thesis by blast
qed

lemma bindS_return: "m s = (Inr x, s') \<Longrightarrow> bindS m f s = f x s'"
  by (simp add: bindS_def)

lemma sample_steps:
  "bindS (st_read_project_meta (fs_store no_repr) (lit ''p'')) f sample_files
     = f \<lparr>pm_project_id = lit ''p'', pm_title = lit ''P'', pm_status = lit ''active'', pm_source = JNull,
         pm_requester = JNull, pm_parent_task_id = JNull, pm_created_at = JNull\<rparr> sample_files"
  "bindS (st_read_project_plan (fs_store no_repr) (lit ''p'')) g sample_files = g sample_plan sample_files"
  using sample_reads by (auto simp: fs_store_def intro!: bindS_return
      fs.read_meta_eq[of no_repr, unfolded fs_store_def, simplified]
      fs.read_plan_eq[of no_repr, unfolded fs_store_def, simplified])

lemma sample_delegation:
  "\<exists>m s'. delegate_task (lit ''now'') (fs_store no_repr) (lit ''p'') (lit ''a'') (lit ''do it'')
    (Some (lit ''!r'')) sample_files = (Inr m, s')"
proof -
  obtain q where q: "plan_with_tasks (lit ''p'') sample_plan (marked (lit ''a'') (plan_tasks sample_plan)) = Inr q"
    "encodable q"
    by (rule sample_update)
  have "replace_task_status (plan_tasks sample_plan) (lit ''a'') (lit ''delegated'')
      = Inr (marked (lit ''a'') (plan_tasks sample_plan))"
    by (rule replace_task_status_marked) (simp add: is_id_def is_id_char_def lit_def char_class_defs)
  moreover have "strip (lit ''do it'') \<noteq> []" by (simp add: strip_def rstrip_def lit_def isspace_def)
  moreover have "dt_id sample_task = lit ''a''" by (simp add: sample_task_def)
  moreover have "encodable (canonical_worker_id (Some (dt_assigned sample_task)))"
    by (simp add: sample_task_def canonical_worker_id_def or_text_def lit_def char_class_defs strip_def rstrip_def
        strip_chars_def removeprefix_def)
  ultimately show ?thesis
    using q by (simp add: delegate_task_def sample_steps sample_delegated raise_if_def)
       (simp add: fs_store_def fs_write_task_meta_def fs_write_task_spec_def fs_write_project_plan_def sample_id
         bindS_def write_json_def write_text_def task_meta_dict_def drop_none_def jopt_def sample_task_def)
qed

section \<open>Properties: delegation\<close>

text \<open>A delegation succeeds only for a ready task of a project that is not paused: the task is
  in the stored graph under the stripped identifier, pending, with every dependency completed, and
  the metadata returned carries its title, its dependencies and the canonical name of its worker.\<close>

lemma delegation_only_when_ready:
  assumes "delegate_task now (fs_store R) pid tid spec room s = (Inr m, s')"
  shows "\<exists>project plan t. fst (fs_read_project_meta R pid s) = Inr project
    \<and> pm_status project \<noteq> lit ''paused'' \<and> fst (fs_read_project_plan pid s) = Inr plan
    \<and> t \<in> set (ready_tasks (plan_tasks plan)) \<and> dt_id t = strip tid
    \<and> m = delegated_meta now pid t room \<and> strip spec \<noteq> []"
proof -
  obtain project plan t where "strip spec \<noteq> []" "fst (fs_read_project_meta R pid s) = Inr project"
    "pm_status project \<noteq> lit ''paused''" "fst (fs_read_project_plan pid s) = Inr plan"
    "delegated_task (plan_tasks plan) tid = Inr t" "m = delegated_meta now pid t room"
    using fs.delegate_ok[OF assms] by (metis fs_store_def store_ops.select_convs(1,3))
  then show ?thesis using delegated_task_ok by blast
qed

lemma delegation_only_when_ready_witness:
  "\<exists>m s' project plan t. delegate_task (lit ''now'') (fs_store no_repr) (lit ''p'') (lit ''a'') (lit ''do it'')
      (Some (lit ''!r'')) sample_files = (Inr m, s')
    \<and> fst (fs_read_project_meta no_repr (lit ''p'') sample_files) = Inr project
    \<and> pm_status project \<noteq> lit ''paused'' \<and> fst (fs_read_project_plan (lit ''p'') sample_files) = Inr plan
    \<and> t \<in> set (ready_tasks (plan_tasks plan))"
  using sample_delegation delegation_only_when_ready by blast

lemma delegation_once:
  assumes "delegate_task now (fs_store R) pid tid spec room s = (Inr m, s')"
    and "fst (fs_read_project_plan pid s) = Inr plan" and "parse_plan_type plan = lit ''dag''"
    and "clean_plan plan" and "\<forall>t\<in>set (parse_dag_tasks plan). plain_task t" and "strip spec' \<noteq> []"
  shows "(\<exists>plan'. fst (fs_read_project_plan pid s') = Inr plan'
        \<and> parse_dag_tasks plan' = marked (strip tid) (parse_dag_tasks plan))
    \<and> fst (delegate_task now' (fs_store R) pid tid spec' room' s')
        = Inl (TaskflowError (lit ''task '' @ tid @ lit '' is not pending''))"
proof -
  have plan: "fst (st_read_project_plan (fs_store R) pid s) = Inr plan"
    using assms(2) by (simp add: fs_store_def)
  show ?thesis
  proof (rule fs.delegate_marks[OF assms(1) plan assms(3-5),
        where spec' = spec' and now' = now' and room' = room'])
    show "13 \<notin> set q" if "\<forall>t\<in>set ts. plain_task t" "replace_dag_tasks plan ts = Inr q" for ts q
      using that by (rule replaced_no_cr)
  next
    fix plan'
    assume "fst (st_read_project_plan (fs_store R) pid s') = Inr plan'"
      and "parse_dag_tasks plan' = marked (strip tid) (parse_dag_tasks plan)"
      and "strip spec' \<noteq> [] \<Longrightarrow> fst (delegate_task now' (fs_store R) pid tid spec' room' s')
          = Inl (terr (lit ''task '' @ tid @ lit '' is not pending''))"
    with assms(6) show ?thesis by (simp add: terr_def) (simp add: fs_store_def)
  qed
qed

text \<open>C28: A task is delegated once: after a successful delegation in a plan of type DAG that is clean (no
  checklist line and no other plan type outside its execution section) and whose tasks can all be written on
  a line, the stored graph is the old one with exactly this task marked as delegated, and every further
  delegation of the task with a specification that is not blank is rejected because it is not pending.\<close>

theorem delegated_once:
  assumes "delegate_task now (fs_store R) pid tid spec room s = (Inr m, s')"
    and "fst (fs_read_project_plan pid s) = Inr plan" and "parse_plan_type plan = lit ''dag''"
    and "clean_plan plan" and "\<forall>t\<in>set (parse_dag_tasks plan). plain_task t" and "strip spec' \<noteq> []"
  shows "(\<exists>plan'. fst (fs_read_project_plan pid s') = Inr plan'
        \<and> parse_dag_tasks plan' = marked (strip tid) (parse_dag_tasks plan))
    \<and> fst (delegate_task now' (fs_store R) pid tid spec' room' s')
        = Inl (TaskflowError (lit ''task '' @ tid @ lit '' is not pending''))"
  using delegation_once[OF assms] by blast

lemma delegated_once_witness:
  "\<exists>s'. fst (delegate_task (lit ''later'') (fs_store no_repr) (lit ''p'') (lit ''a'') (lit ''do it'') None s')
      = Inl (TaskflowError (lit ''task '' @ lit ''a'' @ lit '' is not pending''))"
proof -
  obtain m s' where d: "delegate_task (lit ''now'') (fs_store no_repr) (lit ''p'') (lit ''a'') (lit ''do it'')
    (Some (lit ''!r'')) sample_files = (Inr m, s')" using sample_delegation by blast
  have "strip (lit ''do it'') \<noteq> []" by (simp add: strip_def rstrip_def lit_def isspace_def)
  then show ?thesis
    using delegated_once[OF d sample_reads(1) sample_type sample_clean, of "lit ''do it''" "lit ''later''" None]
    by (auto simp: sample_tasks sample_plain)
qed

section \<open>Lemmas: planning\<close>

lemma merge_loop_ok:
  assumes "merge_loop R existing seen raws = Inr ts"
  shows "\<forall>t\<in>set ts. dt_id t \<notin> set seen
      \<and> dt_status t = (case map_of existing (dt_id t) of Some old \<Rightarrow> dt_status old | None \<Rightarrow> lit ''pending'')"
    and "distinct (map dt_id ts)" and "length ts = length raws"
proof -
  have "(\<forall>t\<in>set ts. dt_id t \<notin> set seen
      \<and> dt_status t = (case map_of existing (dt_id t) of Some old \<Rightarrow> dt_status old | None \<Rightarrow> lit ''pending''))
      \<and> distinct (map dt_id ts) \<and> length ts = length raws"
    using assms
  proof (induction raws arbitrary: seen ts)
    case (Cons raw raws)
    obtain task rest where task: "dag_task_from_payload R raw = Inr task" "dt_id task \<notin> set seen"
      "merge_loop R existing (dt_id task # seen) raws = Inr rest"
      and ts: "ts = (case map_of existing (dt_id task) of
            Some current \<Rightarrow> task\<lparr>dt_status := dt_status current\<rparr> | None \<Rightarrow> task) # rest"
      using Cons.prems by (auto simp: Let_def split: if_splits)
    have "dt_status task = lit ''pending''"
      using task(1) by (auto simp: dag_task_from_payload_def Let_def split: json.splits)
    then show ?case using Cons.IH[OF task(3)] task(2) ts by (auto split: option.splits)
  qed simp
  then show "\<forall>t\<in>set ts. dt_id t \<notin> set seen
      \<and> dt_status t = (case map_of existing (dt_id t) of Some old \<Rightarrow> dt_status old | None \<Rightarrow> lit ''pending'')"
    and "distinct (map dt_id ts)" and "length ts = length raws" by blast+
qed

lemma map_of_task_dict:
  "distinct (map dt_id ts) \<Longrightarrow> t \<in> set ts \<Longrightarrow> map_of (task_dict ts) (dt_id t) = Some t"
  by (subst task_dict_def, subst dict_of_distinct) (auto simp: comp_def intro!: map_of_is_SomeI)

lemma add_loop_ok:
  assumes "add_loop R existing seen raws = Inr final" and "map_of existing i = Some t" and "dt_status t \<noteq> lit ''pending''"
  shows "map_of final i = Some t"
  using assms
proof (induction raws arbitrary: existing seen)
  case (Cons raw raws)
  then obtain task where task: "dag_task_from_payload R raw = Inr task"
    "add_loop R (AList.update (dt_id task) task existing) (dt_id task # seen) raws = Inr final"
    "\<forall>old. map_of existing (dt_id task) = Some old \<longrightarrow> dt_status old = lit ''pending''"
    by (auto split: if_splits option.splits)
  moreover have "dt_id task \<noteq> i" using task(3) Cons.prems(2,3) by auto
  ultimately show ?case using Cons by (simp add: update_conv')
qed simp

end
