(* ===== verification/Task_Planning.thy ===== *)
theory Task_Planning
  imports Task_Flow
begin

text \<open>
  Properties of planning, project creation, submission and loop bookkeeping on the file system
  store, with their sample runs.
\<close>

section \<open>Lemmas: storing a graph\<close>

context task_store begin

lemma store_dag_ok:
  assumes "store_dag S pid plan ts s = (Inr r, s')"
  obtains q where "r = ts" and "validate_dag ts = Inr ()" and "replace_dag_tasks plan ts = Inr q"
    and "st_write_project_plan S pid q s = (Inr (), s')"
  using assms by (auto simp: store_dag_def bindS_lift_eq elim!: bindS_cases split: sum.splits)

lemma store_dag_reads:
  assumes "store_dag S pid plan ts s = (Inr r, s')" and "clean_plan plan" and "\<forall>t\<in>set ts. plain_task t"
    and stor: "\<And>q. replace_dag_tasks plan ts = Inr q \<Longrightarrow> storable q"
  shows "\<exists>plan'. fst (st_read_project_plan S pid s') = Inr plan' \<and> parse_dag_tasks plan' = ts"
proof -
  obtain q where q: "replace_dag_tasks plan ts = Inr q" "st_write_project_plan S pid q s = (Inr (), s')"
    using store_dag_ok[OF assms(1)] by metis
  moreover have "\<exists>p. replace_dag_tasks plan ts = Inr p \<and> parse_dag_tasks p = ts
      \<and> parse_plan_type p = lit ''dag''"
    using replaced_tasks_read[OF assms(3)] assms(2) by (simp add: clean_plan_def)
  ultimately show ?thesis using plan_written[OF q(2) stor[OF q(1)]] by auto
qed

lemma plan_dag_ok:
  assumes "plan_dag R S pid payload s = (Inr ts, s')"
  obtains plan where "fst (st_read_project_plan S pid s) = Inr plan"
    and "merge_loop R (task_dict (parse_dag_tasks plan)) [] payload = Inr ts"
    and "store_dag S pid plan ts s = (Inr ts, s')"
proof -
  from assms obtain plan s1 ts0 where r: "st_read_project_plan S pid s = (Inr plan, s1)"
    "merge_loop R (task_dict (parse_dag_tasks plan)) [] payload = Inr ts0"
    "store_dag S pid plan ts0 s1 = (Inr ts, s')"
    by (auto simp: plan_dag_def bindS_lift_eq elim!: bindS_cases split: sum.splits)
  moreover have "s1 = s" using plan_pure[of pid s] r(1) by simp
  moreover have "ts0 = ts" using store_dag_ok[OF r(3)] by metis
  ultimately show thesis using that by simp
qed

lemma add_tasks_ok:
  assumes "add_tasks R S pid payload s = (Inr ts, s')"
  obtains plan final where "fst (st_read_project_plan S pid s) = Inr plan"
    and "add_loop R (task_dict (parse_dag_tasks plan)) [] payload = Inr final" and "ts = map snd final"
    and "store_dag S pid plan ts s = (Inr ts, s')"
proof -
  from assms obtain plan s1 final where r: "st_read_project_plan S pid s = (Inr plan, s1)"
    "add_loop R (task_dict (parse_dag_tasks plan)) [] payload = Inr final"
    "store_dag S pid plan (map snd final) s1 = (Inr ts, s')"
    by (auto simp: add_tasks_def bindS_lift_eq elim!: bindS_cases split: sum.splits)
  moreover have "s1 = s" using plan_pure[of pid s] r(1) by simp
  moreover have "ts = map snd final" using store_dag_ok[OF r(3)] by metis
  ultimately show thesis using that by simp
qed

end

section \<open>Properties: planning\<close>

text \<open>C29: What \<open>plan_dag\<close> stores is an acyclic graph with distinct identifiers, one task for each item of
  the payload; a task that was known keeps its status and a new one is pending. When the plan is clean (no
  checklist line and no other plan type outside its execution section) and each of the tasks can be written
  on a line, which excludes titles such as \<open>Fix (login)\<close>, the stored text reads back as exactly this graph.\<close>

theorem plan_dag_stored:
  assumes "plan_dag R (fs_store R) pid payload s = (Inr ts, s')"
    and "fst (fs_read_project_plan pid s) = Inr plan"
  shows "(clean_plan plan \<and> (\<forall>t\<in>set ts. plain_task t) \<longrightarrow>
        (\<exists>plan'. fst (fs_read_project_plan pid s') = Inr plan' \<and> parse_dag_tasks plan' = ts))
    \<and> acyclic (edges ts) \<and> distinct (map dt_id ts) \<and> length ts = length payload
    \<and> (\<forall>t\<in>set ts. dt_status t = (case map_of (task_dict (parse_dag_tasks plan)) (dt_id t) of
           Some old \<Rightarrow> dt_status old | None \<Rightarrow> lit ''pending''))"
proof -
  obtain plan0 where "fst (fs_read_project_plan pid s) = Inr plan0"
    and m: "merge_loop R (task_dict (parse_dag_tasks plan0)) [] payload = Inr ts"
    and st: "store_dag (fs_store R) pid plan0 ts s = (Inr ts, s')"
    using fs.plan_dag_ok[OF assms(1)] by (metis fs_store_def store_ops.select_convs(3))
  with assms(2) have plan: "plan0 = plan" by simp
  have "\<exists>plan'. fst (st_read_project_plan (fs_store R) pid s') = Inr plan' \<and> parse_dag_tasks plan' = ts"
    if "clean_plan plan" "\<forall>t\<in>set ts. plain_task t"
    using fs.store_dag_reads[OF st] that plan replaced_no_cr by blast
  moreover have "acyclic (edges ts)"
    using fs.store_dag_ok[OF st] by (metis validate_dag_iff)
  ultimately show ?thesis
    using merge_loop_ok[OF m] plan by (simp add: fs_store_def)
qed

text \<open>\<open>add_tasks\<close> never touches a task that has left the pending state: every such task of the
  stored graph is in the new graph as it was, and the new graph is acyclic.\<close>

lemma add_tasks_protects:
  assumes "add_tasks R (fs_store R) pid payload s = (Inr ts, s')"
    and "fst (fs_read_project_plan pid s) = Inr plan" and "distinct (map dt_id (parse_dag_tasks plan))"
  shows "{t \<in> set (parse_dag_tasks plan). dt_status t \<noteq> lit ''pending''} \<subseteq> set ts \<and> acyclic (edges ts)"
proof -
  obtain plan0 final where "fst (fs_read_project_plan pid s) = Inr plan0"
    and m: "add_loop R (task_dict (parse_dag_tasks plan0)) [] payload = Inr final" and ts: "ts = map snd final"
    and st: "store_dag (fs_store R) pid plan0 ts s = (Inr ts, s')"
    using fs.add_tasks_ok[OF assms(1)] by (metis fs_store_def store_ops.select_convs(3))
  with assms(2) have plan: "plan0 = plan" by simp
  have "t \<in> set ts" if t: "t \<in> set (parse_dag_tasks plan)" "dt_status t \<noteq> lit ''pending''" for t
  proof -
    have "map_of final (dt_id t) = Some t"
      using add_loop_ok[OF m _ t(2)] map_of_task_dict[OF assms(3) t(1)] plan by simp
    then show ?thesis by (force simp: ts dest: map_of_SomeD)
  qed
  moreover have "acyclic (edges ts)"
    using fs.store_dag_ok[OF st] by (metis validate_dag_iff)
  ultimately show ?thesis by blast
qed

section \<open>Properties: the worker's side\<close>

lemma submit_task_ok:
  assumes "submit_task now (fs_store R) tid (Some r) actor s = (Inr m, s')"
  obtains meta s2 where "fst (fs_read_task_meta R tid s) = Inr meta"
    and "require_assigned_worker meta actor = Inr ()"
    and "fs_write_task_result tid r s = (Inr (), s2)"
    and "m = meta\<lparr>tm_status := lit ''submitted'', tm_submitted_at := JStr now\<rparr>"
    and "fs_write_task_meta m s2 = (Inr (), s')"
proof -
  from assms obtain meta s1 s2 where r: "fs_read_task_meta R tid s = (Inr meta, s1)"
    "require_assigned_worker meta actor = Inr ()" "fs_write_task_result tid r s1 = (Inr (), s2)"
    "m = meta\<lparr>tm_status := lit ''submitted'', tm_submitted_at := JStr now\<rparr>"
    "fs_write_task_meta m s2 = (Inr (), s')"
    by (auto simp: submit_task_def fs_store_def bindS_lift_eq Let_def elim!: bindS_cases split: sum.splits)
  moreover have "s1 = s"
    using r(1) by (auto simp: fs_read_task_meta_def read_json_def bindS_lift_eq elim!: bindS_cases
        split: sum.splits option.splits meta_file.splits)
  ultimately show thesis using that by simp
qed

lemma written_result:
  assumes "fs_write_task_result tid r s = (Inr (), s')"
  obtains safe where "validate_task_result tid r = Inr ()" and "safe_id tid = Inr safe"
    and "fs_text s' (task_file s safe ''result.md'') = Some (render_task_result r)"
    and "fs_shared_dir s' = fs_shared_dir s"
  using assms by (auto simp: fs_write_task_result_def bindS_lift_eq write_text_def split: sum.splits if_splits)

lemma validate_single_line:
  "validate_task_result tid r = Inr () \<Longrightarrow> validate_task_result tid (r\<lparr>tr_summary := single_line (tr_summary r)\<rparr>) = Inr ()"
  by (auto simp: validate_task_result_def single_line_empty)

lemma read_written_result:
  assumes "fs_write_task_result tid r s = (Inr (), s1)" and "plain_result r"
    and "fs_text s' = fs_text s1" and "fs_shared_dir s' = fs_shared_dir s1"
  shows "fst (fs_read_task_result tid s') = Inr (r\<lparr>tr_summary := single_line (tr_summary r)\<rparr>)"
proof -
  obtain safe where w: "validate_task_result tid r = Inr ()" "safe_id tid = Inr safe"
    "fs_text s1 (task_file s safe ''result.md'') = Some (render_task_result r)"
    "fs_shared_dir s1 = fs_shared_dir s"
    using written_result[OF assms(1)] .
  have "13 \<notin> set (render_task_result r)"
    unfolding render_task_result_def by (rule joined_plan_no_cr) (rule result_lines_no_break[OF assms(2)])
  then have "universal_newlines (render_task_result r) = render_task_result r" by (rule universal_newlines_id)
  moreover have "task_file s' safe n = task_file s safe n" for n using assms(4) w(4) by (simp add: task_file_def)
  ultimately show ?thesis
    using w assms(3) parse_rendered_result[OF assms(2)] validate_single_line[OF w(1)]
    by (simp add: fs_read_task_result_def bindS_lift_eq read_text_def bindS_def)
qed

lemma fs_write_task_meta_frame:
  "fs_write_task_meta m s = (x, s') \<Longrightarrow> fs_text s' = fs_text s \<and> fs_shared_dir s' = fs_shared_dir s"
  by (auto simp: fs_write_task_meta_def bindS_lift_eq write_json_def split: sum.splits if_splits)

text \<open>A submission is made by the worker the task is assigned to, and its result is what the
  leader's \<open>check_task\<close> reads afterwards: the same status, deliverables and notes, and the summary on
  one line.\<close>

lemma submitted_result_is_checked:
  assumes "submit_task now (fs_store R) tid (Some r) actor s = (Inr m, s')" and "plain_result r"
  shows "fst (check_task (fs_store R) tid s') = Inr (r\<lparr>tr_summary := single_line (tr_summary r)\<rparr>)
    \<and> tm_status m = lit ''submitted'' \<and> canonical_worker_id actor \<noteq> []
    \<and> canonical_worker_id actor = canonical_worker_id (Some (tm_assigned_to m))"
proof -
  obtain meta s2 where r: "require_assigned_worker meta actor = Inr ()"
    "fs_write_task_result tid r s = (Inr (), s2)" "fs_write_task_meta m s2 = (Inr (), s')"
    and m: "m = meta\<lparr>tm_status := lit ''submitted'', tm_submitted_at := JStr now\<rparr>"
    using submit_task_ok[OF assms(1)] by metis
  have "fst (fs_read_task_result tid s') = Inr (r\<lparr>tr_summary := single_line (tr_summary r)\<rparr>)"
    using fs_write_task_meta_frame[OF r(3)] by (intro read_written_result[OF r(2) assms(2)]) simp_all
  moreover have "canonical_worker_id actor \<noteq> []"
    "canonical_worker_id actor = canonical_worker_id (Some (tm_assigned_to meta))"
    using r(1) by (auto simp: require_assigned_worker_def Let_def)
  ultimately show ?thesis by (simp add: check_task_def fs_store_def m)
qed

section \<open>Properties: loops\<close>

text \<open>A recorded iteration stays within the bounds of its loop: the iteration lies between one and
  the maximum, which does not change, the current iteration never goes back, the history grows by one
  entry, and the status is one of the four that decisions lead to.\<close>

lemma loop_iteration_bounds:
  assumes "record_loop_iteration (fs_store R) pid iteration decision summary next_action s = (Inr lp', s')"
  shows "\<exists>plan lp. fst (fs_read_project_plan pid s) = Inr plan \<and> parse_loop_plan plan = Inr (Some lp)
    \<and> 1 \<le> iteration \<and> iteration \<le> lp_max_iterations lp \<and> lp_max_iterations lp' = lp_max_iterations lp
    \<and> lp_current_iteration lp' = max (lp_current_iteration lp) iteration
    \<and> length (lp_history lp') = length (lp_history lp) + 1 \<and> lp_tasks lp' = lp_tasks lp
    \<and> lp_status lp' \<in> {lit ''running'', lit ''waiting_user'', lit ''completed'', lit ''blocked''}"
proof -
  from assms obtain plan s1 lp d number where r: "1 \<le> iteration"
    "st_read_project_plan (fs_store R) pid s = (Inr plan, s1)" "parse_loop_plan plan = Inr (Some lp)"
    "iteration \<le> lp_max_iterations lp" "safe_loop_decision decision = Inr d"
    "lp' = lp\<lparr>lp_current_iteration := max (lp_current_iteration lp) iteration,
        lp_status := the (map_of decision_status d),
        lp_history := lp_history lp @ [iteration_detail number d summary next_action]\<rparr>"
    by (auto simp: record_loop_iteration_def bindS_lift_eq Let_def not_less elim!: bindS_cases
        split: sum.splits option.splits if_splits)
  have "d \<in> set loop_decisions" using r(5) by (auto simp: safe_loop_decision_def Let_def split: if_splits)
  then have "the (map_of decision_status d)
      \<in> {lit ''running'', lit ''waiting_user'', lit ''completed'', lit ''blocked''}"
    by (auto simp: loop_decisions_def decision_status_def)
  with r show ?thesis by (auto simp: fs_store_def)
qed

section \<open>Properties: project creation\<close>

text \<open>A project is created once: after a successful creation every further creation of the same
  project is rejected as existing and changes no file.\<close>

lemma project_created_once:
  assumes "create_project R now (fs_store R) pid title source requester parent s = (Inr m, s')"
  shows "create_project R now' (fs_store R) pid title' source' requester' parent' s'
    = (Inl (TaskflowError (lit ''project already exists: '' @ strip pid)), s')"
proof -
  from assms obtain q s0 s1 where w: "safe_id pid = Inr (strip pid)" "pm_project_id m = strip pid"
    "fs_meta_exists (strip pid) s = (Inr False, s0)"
    "fs_write_project_meta m s0 = (Inr (), s1)" "fs_write_project_plan (strip pid) q s1 = (Inr (), s')"
    by (auto simp: create_project_def project_exists_def fs_store_def bindS_lift_eq Let_def safe_id_ok
        elim!: bindS_cases split: sum.splits if_splits)
  have id: "is_id (strip pid)" using w(1) by (simp add: safe_id_ok)
  note safe = safe_id_id[OF id]
  have "fs_meta s1 (project_file s1 (strip pid) ''meta.json'') \<noteq> None"
    using w(2,4) safe by (auto simp: fs_write_project_meta_def bindS_lift_eq write_json_def project_file_def
        split: if_splits)
  moreover have "fs_meta s' = fs_meta s1" "fs_shared_dir s' = fs_shared_dir s1"
    using w(5) safe by (auto simp: fs_write_project_plan_def bindS_lift_eq write_text_def split: if_splits)
  ultimately have "fs_meta_exists (strip pid) s' = (Inr True, s')"
    by (simp add: fs_meta_exists_def safe bindS_lift_eq project_file_def act_defs)
  then show ?thesis
    using w(1) by (simp add: create_project_def project_exists_def fs_store_def bindS_lift_eq bindS_def terr_def
        raiseS_def)
qed

section \<open>Sample runs\<close>

definition sample_payload :: "(pystr \<times> json) list list" where
  "sample_payload = [[(lit ''taskId'', JStr (lit ''z'')), (lit ''title'', JStr (lit ''Z'')),
      (lit ''assignedTo'', JStr (lit ''w''))],
     [(lit ''task_id'', JStr (lit ''a'')), (lit ''title'', JStr (lit ''A'')),
      (lit ''assigned_to'', JStr (lit ''w'')), (lit ''dependsOn'', JArr [JStr (lit ''z'')])]]"

lemma sample_payload_tasks:
  "mapE (dag_task_from_payload no_repr) sample_payload
     = Inr [done_task\<lparr>dt_status := lit ''pending''\<rparr>, sample_task]"
  by (simp add: sample_payload_def dag_task_from_payload_def first_true_def done_task_def sample_task_def
      List.map_filter_def safe_id_def is_id_char_def lit_def char_class_defs strip_def rstrip_def)

lemma sample_valid: "validate_dag [done_task, sample_task] = Inr ()"
  by (simp add: validate_dag_def check_tasks_def unknown_dependencies_def dict_of_def done_task_def sample_task_def
      lit_def Let_def)

lemma sample_replaced: obtains q where "replace_dag_tasks sample_plan [done_task, sample_task] = Inr q" and "encodable q"
proof -
  have "plan_header sample_plan = [lit ''# P'']" "plan_rest sample_plan = []"
    by (rule sample_sections)+
  then have "\<exists>q. replace_dag_tasks sample_plan [done_task, sample_task] = Inr q \<and> encodable q"
    by (simp add: replace_dag_tasks_eq sample_rendered joined_plan_def done_line_def sample_line_def
        rstrip_def lit_def char_class_defs)
  with that show thesis by blast
qed

lemma sample_stored:
  "\<exists>s'. store_dag (fs_store R) (lit ''p'') sample_plan [done_task, sample_task] sample_files
     = (Inr [done_task, sample_task], s')"
proof -
  obtain q where "replace_dag_tasks sample_plan [done_task, sample_task] = Inr q" "encodable q"
    by (rule sample_replaced)
  then show ?thesis
    by (simp add: store_dag_def sample_valid fs_store_def fs_write_project_plan_def sample_id bindS_def write_text_def)
qed

lemma plan_read_back_witness:
  "\<exists>p. replace_dag_tasks sample_plan [done_task, sample_task] = Inr p
    \<and> parse_dag_tasks p = [done_task, sample_task] \<and> parse_plan_type p = lit ''dag''"
  using sample_clean sample_plain by (intro plan_read_back) (simp_all add: clean_plan_def)

lemma sample_plan_dag:
  "\<exists>s'. plan_dag no_repr (fs_store no_repr) (lit ''p'') sample_payload sample_files
     = (Inr [done_task, sample_task], s')"
proof -
  have "merge_loop no_repr (task_dict (parse_dag_tasks sample_plan)) [] sample_payload = Inr [done_task, sample_task]"
    using sample_payload_tasks
    by (auto simp: sample_payload_def sample_tasks task_dict_def dict_of_def done_task_def sample_task_def)
  then show ?thesis using sample_stored by (simp add: plan_dag_def sample_steps)
qed

lemma sample_add_tasks:
  "\<exists>s'. add_tasks no_repr (fs_store no_repr) (lit ''p'') (tl sample_payload) sample_files
     = (Inr [done_task, sample_task], s')"
proof -
  have "add_loop no_repr (task_dict (parse_dag_tasks sample_plan)) [] (tl sample_payload)
      = Inr [(lit ''z'', done_task), (lit ''a'', sample_task)]"
    using sample_payload_tasks
    by (auto simp: sample_payload_def sample_tasks task_dict_def dict_of_def done_task_def sample_task_def)
  then show ?thesis using sample_stored by (simp add: add_tasks_def sample_steps)
qed

lemma plan_dag_stored_witness:
  "\<exists>s' plan'. plan_dag no_repr (fs_store no_repr) (lit ''p'') sample_payload sample_files
      = (Inr [done_task, sample_task], s')
    \<and> fst (fs_read_project_plan (lit ''p'') s') = Inr plan' \<and> parse_dag_tasks plan' = [done_task, sample_task]"
proof -
  obtain s' where r: "plan_dag no_repr (fs_store no_repr) (lit ''p'') sample_payload sample_files
     = (Inr [done_task, sample_task], s')" using sample_plan_dag by blast
  then show ?thesis
    using plan_dag_stored[OF r sample_reads(1)] sample_clean sample_plain by auto
qed

lemma add_tasks_protects_witness:
  "\<exists>s'. add_tasks no_repr (fs_store no_repr) (lit ''p'') (tl sample_payload) sample_files
      = (Inr [done_task, sample_task], s')
    \<and> {t \<in> set (parse_dag_tasks sample_plan). dt_status t \<noteq> lit ''pending''} \<subseteq> set [done_task, sample_task]"
proof -
  obtain s' where r: "add_tasks no_repr (fs_store no_repr) (lit ''p'') (tl sample_payload) sample_files
     = (Inr [done_task, sample_task], s')" using sample_add_tasks by blast
  have "distinct (map dt_id (parse_dag_tasks sample_plan))"
    by (simp add: sample_tasks done_task_def sample_task_def)
  with add_tasks_protects[OF r sample_reads(1)] r show ?thesis by blast
qed

definition worker_files :: task_files where
  "worker_files = \<lparr>fs_shared_dir = lit ''shared'',
     fs_meta = [lit ''shared/tasks/t1/meta.json'' \<mapsto>
        Holds (JObj [(lit ''task_id'', JStr (lit ''t1'')), (lit ''project_id'', JStr (lit ''p'')),
          (lit ''task_title'', JStr (lit ''T'')), (lit ''assigned_to'', JStr (lit ''@w:hs'')),
          (lit ''room_id'', JStr (lit ''!r''))])],
     fs_text = Map.empty\<rparr>"

lemma sample_submission:
  "\<exists>m s'. submit_task (lit ''now'') (fs_store no_repr) (lit ''t1'') (Some sample_result_ok) (Some (lit ''w''))
     worker_files = (Inr m, s')"
proof -
  have id: "safe_id (lit ''t1'') = Inr (lit ''t1'')"
    by (simp add: safe_id_def lit_def is_id_char_def char_class_defs strip_def rstrip_def)
  obtain meta where meta: "fs_read_task_meta no_repr (lit ''t1'') worker_files = (Inr meta, worker_files)"
    and tm: "tm_task_id meta = lit ''t1''" "tm_assigned_to meta = lit ''@w:hs''" "tm_room_id meta = JStr (lit ''!r'')"
      "encodable_json (JObj (drop_none (task_meta_dict (meta\<lparr>tm_status := lit ''submitted'', tm_submitted_at := JStr (lit ''now'')\<rparr>))))"
    by (simp add: fs_read_task_meta_def id read_json_def worker_files_def task_file_def lit_append[symmetric]
        bindS_def task_meta_of_def subscript_def get_value_def or_default_def list_of_value_def
        task_meta_dict_def drop_none_def)
  have "require_assigned_worker meta (Some (lit ''w'')) = Inr ()" "require_task_room meta = Inr ()"
    using tm(2,3) by (simp_all add: require_assigned_worker_def require_task_room_def canonical_worker_id_def
        or_text_def lit_def char_class_defs strip_def rstrip_def strip_chars_def removeprefix_def)
  moreover have "validate_task_result (lit ''t1'') sample_result_ok = Inr ()"
    by (simp add: validate_task_result_def id sample_result_ok_def)
      (simp add: result_statuses_def check_deliverable_def task_prefix_def path_parts_def path_root_def lit_def char_class_defs strip_def rstrip_def)
  moreover have "encodable (render_task_result sample_result_ok)"
    by (simp add: render_task_result_def joined_plan_def result_lines_def sample_result_ok_def single_line_def
        lit_def char_class_defs strip_def rstrip_def)
  ultimately show ?thesis
    using tm by (simp add: submit_task_def fs_store_def meta bindS_lift_eq Let_def fs_write_task_result_def
        fs_write_task_meta_def id write_text_def write_json_def bindS_def del: encodable_json.simps)
qed

lemma submitted_result_is_checked_witness:
  "\<exists>s'. fst (check_task (fs_store no_repr) (lit ''t1'') s')
     = Inr (sample_result_ok\<lparr>tr_summary := single_line (tr_summary sample_result_ok)\<rparr>)"
proof -
  obtain m s' where r: "submit_task (lit ''now'') (fs_store no_repr) (lit ''t1'') (Some sample_result_ok) (Some (lit ''w''))
     worker_files = (Inr m, s')" using sample_submission by blast
  show ?thesis using submitted_result_is_checked[OF r sample_result_plain] by blast
qed

definition empty_files :: task_files where
  "empty_files = \<lparr>fs_shared_dir = lit ''shared'', fs_meta = Map.empty, fs_text = Map.empty\<rparr>"

lemma sample_creation:
  "\<exists>m s'. create_project no_repr (lit ''now'') (fs_store no_repr) (lit ''p'') (lit ''P'') None None None
     empty_files = (Inr m, s')"
proof -
  have "encodable (initial_plan no_repr m)" if "encodable (pm_title m)" "encodable (pm_project_id m)"
    "pm_created_at m = JStr (lit ''now'')" for m
    using that by (simp add: initial_plan_def is_surrogate_def)
  then show ?thesis
    by (simp add: create_project_def project_exists_def fs_store_def sample_id fs_meta_exists_def empty_files_def
        fs_write_project_meta_def fs_write_project_plan_def Let_def bindS_def act_defs write_json_def write_text_def
        project_meta_dict_def drop_none_def jopt_def)
qed

lemma project_created_once_witness:
  "\<exists>s'. create_project no_repr (lit ''later'') (fs_store no_repr) (lit ''p'') (lit ''Q'') None None None s'
     = (Inl (TaskflowError (lit ''project already exists: '' @ strip (lit ''p''))), s')"
proof -
  obtain m s' where r: "create_project no_repr (lit ''now'') (fs_store no_repr) (lit ''p'') (lit ''P'') None None None
     empty_files = (Inr m, s')" using sample_creation by blast
  show ?thesis using project_created_once[OF r] by blast
qed

definition loop_plan_text :: pystr where
  "loop_plan_text = lit ''## Loop Plan'' @ [10] @ lit ''**Plan Type**: loop'' @ [10] @ lit ''**Iteration**: 1 / 3'' @ [10]"

definition loop_files :: task_files where
  "loop_files = \<lparr>fs_shared_dir = lit ''shared'', fs_meta = Map.empty,
     fs_text = [lit ''shared/projects/p/plan.md'' \<mapsto> loop_plan_text]\<rparr>"

lemma loop_lines:
  "splitlines loop_plan_text = [lit ''## Loop Plan'', lit ''**Plan Type**: loop'', lit ''**Iteration**: 1 / 3'']"
proof -
  have "no_break (lit ''## Loop Plan'')" "no_break (lit ''**Plan Type**: loop'')" "no_break (lit ''**Iteration**: 1 / 3'')"
    by (simp_all add: lit_def is_linebreak_def)
  then show ?thesis by (simp add: loop_plan_text_def splitlines_line)
qed

lemma sample_loop: "parse_loop_plan loop_plan_text = Inr (Some
    \<lparr>lp_goal = [], lp_stop_condition = [], lp_iteration_template = [], lp_max_iterations = 3,
     lp_current_iteration = 1, lp_status = lit ''running'', lp_tasks = [], lp_history = []\<rparr>)"
  by (simp add: parse_loop_plan_def parse_plan_type_def loop_lines plan_field_def section_lines_def heading_index_def
      parse_loop_tasks_def or_text_def history_items_def parse_iteration_def iteration_match_def run1_def one_of_def
      is_digit_def digit_value_def digit_zeros_def int_of_digits_def max_int_digits_def decimal_value_def
      safe_loop_status_def loop_statuses_def lower_def lower_char_def lit_def char_class_defs strip_def rstrip_def Let_def)

lemma sample_iteration:
  "\<exists>lp s'. record_loop_iteration (fs_store no_repr) (lit ''p'') 2 (lit ''continue'') (lit ''ok'') None loop_files
     = (Inr lp, s')"
proof -
  have "13 \<notin> set loop_plan_text" by (simp add: loop_plan_text_def lit_def)
  then have read: "fs_read_project_plan (lit ''p'') loop_files = (Inr loop_plan_text, loop_files)"
    by (simp add: fs_read_project_plan_def sample_id read_text_def loop_files_def project_file_def
        universal_newlines_id lit_append[symmetric])
  have decision: "safe_loop_decision (lit ''continue'') = Inr (lit ''continue'')"
    by (simp add: safe_loop_decision_def loop_decisions_def lower_def lower_char_def lit_def char_class_defs
        strip_def rstrip_def)
  have numbers: "nat_str 2 = [50]" "nat_str 3 = [51]" by (simp_all add: nat_str.simps)
  have "execution_heading_index (splitlines loop_plan_text) = Some 0"
    by (simp add: loop_lines execution_heading_index_def dag_heading_index_def heading_index_def
        lit_def char_class_defs strip_def rstrip_def)
  moreover have "plan_suffix 0 (splitlines loop_plan_text) = []"
    by (simp add: loop_lines plan_suffix_def other_heading_def lit_def)
  ultimately have "\<exists>q. replace_loop_plan loop_plan_text
      \<lparr>lp_goal = [], lp_stop_condition = [], lp_iteration_template = [], lp_max_iterations = 3,
       lp_current_iteration = 2, lp_status = lit ''running'', lp_tasks = [],
       lp_history = [iteration_detail [50] (lit ''continue'') (lit ''ok'') None]\<rparr> = Inr q \<and> encodable q"
    by (simp add: replace_loop_plan_def fmt_int_def max_int_digits_def int_str_def numbers joined_plan_def
        iteration_detail_def single_line_def lit_def char_class_defs strip_def rstrip_def Let_def)
  then show ?thesis
    by (auto simp: record_loop_iteration_def fs_store_def read bindS_lift_eq bindS_def sample_loop decision
        decision_status_def fmt_int_def max_int_digits_def int_str_def numbers fs_write_project_plan_def sample_id
        write_text_def Let_def)
qed

lemma loop_iteration_bounds_witness:
  "\<exists>lp s'. record_loop_iteration (fs_store no_repr) (lit ''p'') 2 (lit ''continue'') (lit ''ok'') None loop_files
     = (Inr lp, s') \<and> lp_status lp \<in> {lit ''running'', lit ''waiting_user'', lit ''completed'', lit ''blocked''}"
proof -
  obtain lp s' where r: "record_loop_iteration (fs_store no_repr) (lit ''p'') 2 (lit ''continue'') (lit ''ok'') None loop_files
     = (Inr lp, s')" using sample_iteration by blast
  with loop_iteration_bounds[OF r] show ?thesis by blast
qed

section \<open>Texts that are not read back\<close>

text \<open>The title of a checklist line ends at white space before a parenthesis, so a title that
  contains one loses its end when the plan is read back, and with the next rewriting for good.\<close>

lemma parenthesised_title_is_truncated:
  "let t = done_task\<lparr>dt_title := lit ''Fix (login)''\<rparr> in
   \<exists>l. render_dag_task t = Inr l \<and> parse_dag_line l = Some (t\<lparr>dt_title := lit ''Fix''\<rparr>)"
  by (simp add: Let_def done_task_def render_dag_task_def status_to_marker_def marker_to_status_def parse_dag_line_def
      dag_line_head_def one_of_def spaces1_def run1_def is_id_char_def meta_group_def field_at_def
      lit_def char_class_defs strip_def rstrip_def)

text \<open>\<open>parse_dag_tasks\<close> reads the whole plan while \<open>replace_dag_tasks\<close> replaces one section: a
  checklist line before that section is read as a task and stays when the tasks are written, so that
  the plan stored after a valid update is rejected when it is read again.\<close>

definition outside_plan :: pystr where
  "outside_plan = done_line @ [10] @ lit ''## DAG Task Plan'' @ [10]"

lemma outside_task_breaks_plan:
  "validate_dag (parse_dag_tasks outside_plan) = Inr ()
   \<and> (\<exists>q. replace_dag_tasks outside_plan (parse_dag_tasks outside_plan) = Inr q
        \<and> validate_dag (parse_dag_tasks q) = Inl (TaskflowError (lit ''duplicate task ids in graph'')))"
proof -
  have nb: "no_break (lit ''## DAG Task Plan'')" "no_break (lit ''**Plan Type**: dag'')"
    by (simp_all add: lit_def is_linebreak_def)
  then have lines: "splitlines outside_plan = [done_line, lit ''## DAG Task Plan'']"
    using sample_parsed(4) by (simp add: outside_plan_def splitlines_line)
  then have tasks: "parse_dag_tasks outside_plan = [done_task]"
    by (simp add: parse_dag_tasks_def map_filter_Cons sample_parsed sample_other)
  have "plan_header outside_plan = [done_line]" "plan_rest outside_plan = []"
    by (simp_all add: plan_header_def plan_rest_def plan_suffix_def lines execution_heading_index_def
        dag_heading_index_def heading_index_def done_line_def lit_def char_class_defs strip_def rstrip_def)
  then have r: "replace_dag_tasks outside_plan [done_task] = Inr (joined_plan [done_line, lit ''## DAG Task Plan'', [],
      lit ''**Plan Type**: dag'', [], done_line])"
    by (simp add: replace_dag_tasks_eq sample_rendered)
  have "trim_tail [done_line, lit ''## DAG Task Plan'', [], lit ''**Plan Type**: dag'', [], done_line]
      = [done_line, lit ''## DAG Task Plan'', [], lit ''**Plan Type**: dag'', [], done_line]"
    by (rule trim_tail_id) (simp add: done_line_def lit_def isspace_def)
  moreover have "\<not> blank done_line" by (simp add: done_line_def lit_def isspace_def)
  ultimately have "splitlines (joined_plan [done_line, lit ''## DAG Task Plan'', [], lit ''**Plan Type**: dag'', [],
      done_line]) = [done_line, lit ''## DAG Task Plan'', [], lit ''**Plan Type**: dag'', [], done_line]"
    using nb sample_parsed(4) by (subst splitlines_joined_plan) simp_all
  then have "parse_dag_tasks (joined_plan [done_line, lit ''## DAG Task Plan'', [], lit ''**Plan Type**: dag'', [],
      done_line]) = [done_task, done_task]"
    by (simp add: parse_dag_tasks_def map_filter_Cons sample_parsed sample_other)
  moreover have "validate_dag [done_task] = Inr ()"
    by (simp add: validate_dag_def check_tasks_def unknown_dependencies_def dict_of_def done_task_def Let_def)
  moreover have "validate_dag [done_task, done_task] = Inl (terr (lit ''duplicate task ids in graph''))"
    by (simp add: validate_dag_def check_tasks_def)
  ultimately show ?thesis by (simp add: tasks r terr_def)
qed

end
