(* ===== verification/Tool_Common.thy ===== *)
theory Tool_Common
  imports Task_Ops Json_Round
begin

text \<open>
  What the tools of \<open>copaw_worker/hooks/tools\<close> share: the response, the coercion of an action's
  payload, and the boundary that turns every exception into a response.
\<close>

section \<open>Responses\<close>

text \<open>
  \<open>json.dumps(payload, ensure_ascii=False)\<close>, the text of a response, and the two kinds of response as
  the dicts they are made of.
\<close>

fun dumps_spaced :: "json \<Rightarrow> pystr" where
  "dumps_spaced (JArr xs) = [91] @ join [44, 32] (map dumps_spaced xs) @ [93]"
| "dumps_spaced (JObj kvs) = [123] @ join [44, 32] (map (\<lambda>(k, t). json_string k @ [58, 32] @ t)
     (map (\<lambda>(k, v). (k, dumps_spaced v)) kvs)) @ [125]"
| "dumps_spaced v = dumps v"

definition response :: "(pystr \<times> json) list \<Rightarrow> pystr" where
  "response payload = dumps_spaced (JObj payload)"

definition tool_ok :: "(pystr \<times> json) list \<Rightarrow> (pystr \<times> json) list" where
  "tool_ok payload = (lit ''ok'', JBool True) # payload"

definition tool_error :: "pystr \<Rightarrow> (pystr \<times> json) list \<Rightarrow> (pystr \<times> json) list" where
  "tool_error message payload = (lit ''ok'', JBool False) # (lit ''error'', JStr message) # payload"

section \<open>Payloads\<close>

text \<open>\<open>json.loads\<close> with a \<open>JSONDecodeError\<close> turned into the error of the tool.\<close>

definition loads_or :: "(pystr \<Rightarrow> pyfloat) \<Rightarrow> (pystr \<Rightarrow> exc) \<Rightarrow> pystr \<Rightarrow> pystr \<Rightarrow> json res" where
  "loads_or F err what s = (case loads F s of
     Inl (JSONDecodeError msg) \<Rightarrow> Inl (err (what @ msg))
   | r \<Rightarrow> r)"

definition coerce_payload :: "(pystr \<Rightarrow> pyfloat) \<Rightarrow> (pystr \<Rightarrow> exc) \<Rightarrow> json \<Rightarrow> (pystr \<times> json) list res" where
  "coerce_payload F err payload =
     bindE (case payload of JStr s \<Rightarrow> loads_or F err (lit ''payload must be a JSON object: '') s | v \<Rightarrow> Inr v) (\<lambda>v.
     case v of JNull \<Rightarrow> Inr [] | JObj kvs \<Rightarrow> Inr kvs | _ \<Rightarrow> Inl (err (lit ''payload must be an object'')))"

definition payload_get :: "(pystr \<times> json) list \<Rightarrow> string \<Rightarrow> json" where
  "payload_get payload key = (case map_of payload (lit key) of None \<Rightarrow> JNull | Some v \<Rightarrow> v)"

definition required_str :: "(pystr \<times> json) list \<Rightarrow> string \<Rightarrow> pystr res" where
  "required_str payload key = (case payload_get payload key of
     JStr s \<Rightarrow> if strip s = [] then Inl (terr (lit ''payload.'' @ lit key @ lit '' is required'')) else Inr (strip s)
   | _ \<Rightarrow> Inl (terr (lit ''payload.'' @ lit key @ lit '' is required'')))"

definition optional_str :: "(pystr \<times> json) list \<Rightarrow> string \<Rightarrow> pystr option res" where
  "optional_str payload key = (case payload_get payload key of
     JNull \<Rightarrow> Inr None
   | JStr s \<Rightarrow> Inr (Some s)
   | _ \<Rightarrow> Inl (terr (lit ''payload.'' @ lit key @ lit '' must be a string'')))"

definition required_int :: "(pystr \<times> json) list \<Rightarrow> string \<Rightarrow> int res" where
  "required_int payload key = (case payload_get payload key of
     JInt i \<Rightarrow> Inr i
   | _ \<Rightarrow> Inl (terr (lit ''payload.'' @ lit key @ lit '' must be an integer'')))"

definition optional_int :: "(pystr \<times> json) list \<Rightarrow> string \<Rightarrow> int \<Rightarrow> int res" where
  "optional_int payload key d = (case payload_get payload key of
     JNull \<Rightarrow> Inr d
   | JInt i \<Rightarrow> Inr i
   | _ \<Rightarrow> Inl (terr (lit ''payload.'' @ lit key @ lit '' must be an integer'')))"

fun object_of :: "json \<Rightarrow> (pystr \<times> json) list option" where
  "object_of (JObj kvs) = Some kvs"
| "object_of _ = None"

definition coerce_tasks :: "(pystr \<Rightarrow> pyfloat) \<Rightarrow> json \<Rightarrow> (pystr \<times> json) list list res" where
  "coerce_tasks F tasks =
     bindE (case tasks of JStr s \<Rightarrow> loads_or F terr (lit ''tasks must be a JSON array: '') s | v \<Rightarrow> Inr v) (\<lambda>v.
     case v of
       JArr xs \<Rightarrow>
         if xs = [] then Inl (terr (lit ''tasks must be a non-empty list''))
         else if list_all (\<lambda>x. object_of x \<noteq> None) xs then Inr (List.map_filter object_of xs)
         else Inl (terr (lit ''tasks must be a list of objects''))
     | _ \<Rightarrow> Inl (terr (lit ''tasks must be a non-empty list'')))"

definition coerce_optional_tasks :: "(pystr \<Rightarrow> pyfloat) \<Rightarrow> json \<Rightarrow> (pystr \<times> json) list list res" where
  "coerce_optional_tasks F tasks = (if tasks = JNull then Inr [] else coerce_tasks F tasks)"

text \<open>\<open>asdict\<close> of the dataclasses of the taskflow.\<close>

definition dag_task_dict :: "dag_task \<Rightarrow> (pystr \<times> json) list" where
  "dag_task_dict t =
     [(lit ''task_id'', JStr (dt_id t)), (lit ''title'', JStr (dt_title t)),
      (lit ''assigned_to'', JStr (dt_assigned t)), (lit ''depends_on'', JArr (map JStr (dt_depends t))),
      (lit ''status'', JStr (dt_status t))]"

definition loop_plan_dict :: "loop_plan \<Rightarrow> (pystr \<times> json) list" where
  "loop_plan_dict lp =
     [(lit ''goal'', JStr (lp_goal lp)), (lit ''stop_condition'', JStr (lp_stop_condition lp)),
      (lit ''iteration_template'', JStr (lp_iteration_template lp)),
      (lit ''max_iterations'', JInt (lp_max_iterations lp)),
      (lit ''current_iteration'', JInt (lp_current_iteration lp)), (lit ''status'', JStr (lp_status lp)),
      (lit ''tasks'', JArr (map (JObj \<circ> dag_task_dict) (lp_tasks lp))),
      (lit ''history'', JArr (map JStr (lp_history lp)))]"

definition task_result_dict :: "task_result \<Rightarrow> (pystr \<times> json) list" where
  "task_result_dict r =
     [(lit ''status'', JStr (tr_status r)), (lit ''summary'', JStr (tr_summary r)),
      (lit ''deliverables'', JArr (map JStr (tr_deliverables r))),
      (lit ''notes'', JArr (map JStr (tr_notes r)))]"

section \<open>Catching exceptions\<close>

text \<open>\<open>try: ... except TaskflowError as exc\<close>.\<close>

definition try_taskflow :: "('s, 'a) actS \<Rightarrow> ('s, pystr + 'a) actS" where
  "try_taskflow m s = (case m s of
     (Inl (TaskflowError msg), s') \<Rightarrow> (Inr (Inl msg), s')
   | (Inl e, s') \<Rightarrow> (Inl e, s')
   | (Inr x, s') \<Rightarrow> (Inr (Inr x), s'))"

text \<open>
  The boundary of a tool: an expected error gives its message, any other one is reported as a failure
  of the tool. \<open>X\<close> is the text of an exception.
\<close>

fun taskflow_message :: "exc \<Rightarrow> pystr option" where
  "taskflow_message (TaskflowError msg) = Some msg"
| "taskflow_message _ = None"

definition error_message :: "string \<Rightarrow> (exc \<Rightarrow> pystr option) \<Rightarrow> (exc \<Rightarrow> pystr) \<Rightarrow> exc \<Rightarrow> pystr" where
  "error_message name expected X e =
     (case expected e of Some msg \<Rightarrow> msg | None \<Rightarrow> lit name @ lit '' failed: '' @ X e)"

definition tool_boundary ::
  "string \<Rightarrow> (exc \<Rightarrow> pystr option) \<Rightarrow> (exc \<Rightarrow> pystr) \<Rightarrow> (pystr \<times> json) list \<Rightarrow>
   ('s, (pystr \<times> json) list) actS \<Rightarrow> 's \<Rightarrow> (pystr \<times> json) list \<times> 's" where
  "tool_boundary name expected X extra m s = (case m s of
     (Inr r, s') \<Rightarrow> (r, s')
   | (Inl e, s') \<Rightarrow> (tool_error (error_message name expected X e) extra, s'))"

section \<open>Operations that change nothing\<close>

definition readonly :: "('s, 'a) actS \<Rightarrow> bool" where
  "readonly m \<longleftrightarrow> (\<forall>s. snd (m s) = s)"

named_theorems readonly_intros

lemma readonly_basic [readonly_intros]:
  "readonly (returnS x)" "readonly (raiseS e)" "readonly (liftS r)" "readonly (getS g)"
  by (simp_all add: readonly_def)

lemma readonly_bind [readonly_intros]: "readonly m \<Longrightarrow> (\<And>x. readonly (f x)) \<Longrightarrow> readonly (bindS m f)"
  by (auto simp: readonly_def bindS_def split: prod.splits sum.splits) (metis snd_conv)+

lemma readonly_if [readonly_intros]: "(b \<Longrightarrow> readonly m) \<Longrightarrow> (\<not> b \<Longrightarrow> readonly n) \<Longrightarrow> readonly (if b then m else n)"
  by simp

lemma readonly_option [readonly_intros]:
  "readonly m \<Longrightarrow> (\<And>x. readonly (f x)) \<Longrightarrow> readonly (case x of None \<Rightarrow> m | Some x \<Rightarrow> f x)"
  by (cases x) simp_all

lemma readonly_sum [readonly_intros]:
  "(\<And>x. readonly (f x)) \<Longrightarrow> (\<And>x. readonly (g x)) \<Longrightarrow> readonly (case x of Inl x \<Rightarrow> f x | Inr x \<Rightarrow> g x)"
  by (cases x) simp_all

lemma readonly_let [readonly_intros]: "(\<And>y. readonly (f y)) \<Longrightarrow> readonly (let y = x in f y)"
  by simp

lemma readonly_pair [readonly_intros]: "(\<And>a b. readonly (f a b)) \<Longrightarrow> readonly (case p of (a, b) \<Rightarrow> f a b)"
  by (cases p) simp

lemma readonly_same: "readonly m \<Longrightarrow> m s = (r, s') \<Longrightarrow> s' = s"
  unfolding readonly_def by (metis snd_conv)

lemma readonly_snd: "readonly m \<Longrightarrow> snd (m s) = s"
  by (simp add: readonly_def)

lemma readonly_try [readonly_intros]: "readonly m \<Longrightarrow> readonly (try_taskflow m)"
  by (auto simp: readonly_def try_taskflow_def split: prod.split sum.split exc.split) (metis snd_conv)+

lemma readonly_files [readonly_intros]:
  "readonly (read_text w q)" "readonly (read_json q)"
  by (simp_all add: readonly_def)

lemma readonly_store [readonly_intros]:
  "readonly (fs_read_project_meta R i)" "readonly (fs_read_project_plan i)" "readonly (fs_read_task_meta R i)"
  "readonly (fs_read_task_spec i)" "readonly (fs_read_task_result i)"
  unfolding fs_read_project_meta_def fs_read_project_plan_def fs_read_task_meta_def fs_read_task_spec_def
    fs_read_task_result_def
  by (intro readonly_intros)+

text \<open>A tool never raises: its response says whether it succeeded.\<close>

lemma tool_boundary_snd: "snd (tool_boundary name expected X extra m s) = snd (m s)"
  by (simp add: tool_boundary_def split: prod.split sum.split)

lemma tool_boundary_cases:
  assumes "tool_boundary name expected X extra m s = (r, s')"
  obtains (returned) "m s = (Inr r, s')"
  | (raised) e where "m s = (Inl e, s')" and "r = tool_error (error_message name expected X e) extra"
  using assms by (auto simp: tool_boundary_def split: prod.splits sum.splits)

lemma tool_error_not_ok [simp]: "map_of (tool_error msg extra) (lit ''ok'') = Some (JBool False)"
  by (simp add: tool_error_def)

end
