(* ===== verification/Tool_Projectflow.thy ===== *)
theory Tool_Projectflow
  imports Tool_Common Task_Planning
begin

text \<open>
  \<open>hooks/tools/projectflow.py\<close>: the tool with which a leader agent manages projects, and the check of
  the active projects, which looks for tasks and plans that wait for somebody.
\<close>

section \<open>The environment\<close>

text \<open>
  What the tool takes from its surroundings: the text of lists and of exceptions, the value of a float
  literal, the clock, the directories below \<open>shared/projects\<close>, and the JSON answer of the HTTP request
  to a worker with a timeout.
\<close>

record project_env =
  pe_repr :: "json \<Rightarrow> pystr"
  pe_exc_text :: "exc \<Rightarrow> pystr"
  pe_float :: "pystr \<Rightarrow> pyfloat"
  pe_now :: pystr
  pe_project_dirs :: "task_files \<Rightarrow> pystr list"
  pe_fetch :: "pystr \<Rightarrow> int \<Rightarrow> json res"

definition pe_store :: "project_env \<Rightarrow> task_files store_ops" where
  "pe_store E = fs_store (pe_repr E)"

definition list_project_ids :: "project_env \<Rightarrow> (task_files, pystr list) actS" where
  "list_project_ids E = getS (\<lambda>fs. sort (filter
     (\<lambda>name. fs_meta fs (project_file fs name ''meta.json'') \<noteq> None) (pe_project_dirs E fs)))"

section \<open>The runtime of a worker\<close>

definition session_running :: "json \<Rightarrow> bool" where
  "session_running item = (jget (lit ''status'') item = Some (JStr (lit ''running'')))"

definition runtime_unknown :: "pystr \<Rightarrow> pystr \<Rightarrow> (pystr \<times> json) list" where
  "runtime_unknown source error =
     [(lit ''runtimeStatus'', JStr (lit ''unknown'')), (lit ''runtimeStatusSource'', JStr source),
      (lit ''error'', JStr error)]"

definition runtime_url :: "pystr \<Rightarrow> pystr" where
  "runtime_url safe_worker = lit ''http://agentteams-worker-'' @ safe_worker @ lit '':8088/api/chats''"

definition runtime_of_sessions :: "pystr \<Rightarrow> json \<Rightarrow> (pystr \<times> json) list res" where
  "runtime_of_sessions url data = (case data of
     JArr items \<Rightarrow>
       (let running_count = length (filter session_running items) in
        Inr [(lit ''runtimeStatus'', JStr (if 0 < running_count then lit ''running'' else lit ''idle'')),
             (lit ''runtimeStatusSource'', JStr url),
             (lit ''runningSessionCount'', JInt (int running_count)),
             (lit ''sessionCount'', JInt (int (length items)))])
   | _ \<Rightarrow> Inl (terr (lit ''worker /api/chats response must be a list'')))"

fun fetch_error :: "exc \<Rightarrow> bool" where
  "fetch_error (OSError m) = True"
| "fetch_error (JSONDecodeError m) = True"
| "fetch_error (TaskflowError m) = True"
| "fetch_error _ = False"

fun exc_text :: "(exc \<Rightarrow> pystr) \<Rightarrow> exc \<Rightarrow> pystr" where
  "exc_text X (TaskflowError m) = m"
| "exc_text X e = X e"

definition worker_runtime :: "project_env \<Rightarrow> pystr \<Rightarrow> int \<Rightarrow> (pystr \<times> json) list res" where
  "worker_runtime E worker_name timeout =
     (let safe_worker = canonical_worker_id (Some worker_name); url = runtime_url safe_worker in
      if safe_worker = [] then Inr (runtime_unknown (lit ''unconfigured'') (lit ''worker name is empty''))
      else (case bindE (pe_fetch E url timeout) (runtime_of_sessions url) of
          Inr r \<Rightarrow> Inr r
        | Inl e \<Rightarrow> if fetch_error e then Inr (runtime_unknown url (exc_text (pe_exc_text E) e)) else Inl e))"

section \<open>Checking the active projects\<close>

type_synonym issue = "(pystr \<times> json) list"

definition project_base :: "project_meta \<Rightarrow> pystr \<Rightarrow> issue" where
  "project_base meta plan_type =
     [(lit ''projectId'', JStr (pm_project_id meta)), (lit ''projectTitle'', JStr (pm_title meta)),
      (lit ''projectStatus'', JStr (pm_status meta)), (lit ''planType'', JStr plan_type)]"

definition task_base :: "project_meta \<Rightarrow> pystr \<Rightarrow> dag_task \<Rightarrow> issue" where
  "task_base meta plan_type t = project_base meta plan_type @
     [(lit ''taskId'', JStr (dt_id t)), (lit ''taskTitle'', JStr (dt_title t)),
      (lit ''assignedTo'', JStr (dt_assigned t)), (lit ''planStatus'', JStr (dt_status t)),
      (lit ''taskPath'', JStr (lit ''shared/tasks/'' @ dt_id t @ lit ''/''))]"

definition issue_kind :: "string \<Rightarrow> string \<Rightarrow> issue" where
  "issue_kind kind recommendation =
     [(lit ''issueType'', JStr (lit kind)), (lit ''recommendation'', JStr (lit recommendation))]"

text \<open>The issue of a delegated task for which neither metadata nor a result decide.\<close>

definition runtime_issue :: "issue \<Rightarrow> pystr \<Rightarrow> (pystr \<times> json) list \<Rightarrow> issue option" where
  "runtime_issue base task_status runtime =
     (let known = base @ [(lit ''taskStatus'', JStr task_status)] @ runtime;
          status = map_of runtime (lit ''runtimeStatus'') in
      if status = Some (JStr (lit ''running'')) then None
      else if status = Some (JStr (lit ''idle'')) then
        Some (known @ issue_kind ''task_not_running'' ''ask_worker_continue_task'')
      else Some (known @ issue_kind ''worker_runtime_unknown'' ''inspect_worker_runtime''))"

definition result_file_exists :: "pystr \<Rightarrow> (task_files, bool) actS" where
  "result_file_exists task_id = getS (\<lambda>fs. fs_text fs (task_file fs task_id ''result.md'') \<noteq> None)"

definition task_issue ::
  "project_env \<Rightarrow> int \<Rightarrow> project_meta \<Rightarrow> pystr \<Rightarrow> dag_task \<Rightarrow> (task_files, issue option) actS" where
  "task_issue E timeout meta plan_type t =
     (let base = task_base meta plan_type t in
      bindS (try_taskflow (st_read_task_meta (pe_store E) (dt_id t))) (\<lambda>found.
      case found of
        Inl msg \<Rightarrow> returnS (Some (base @ [(lit ''taskStatus'', JStr (lit ''missing''))]
                     @ issue_kind ''missing_task_meta'' ''leader_repair_or_delegate_again''))
      | Inr task_meta \<Rightarrow>
          (let known = base @ [(lit ''taskStatus'', JStr (tm_status task_meta))] in
           bindS (try_taskflow (st_read_task_result (pe_store E) (dt_id t))) (\<lambda>read.
           case read of
             Inr result \<Rightarrow> returnS (Some (known @ [(lit ''resultStatus'', JStr (tr_status result))]
                     @ issue_kind ''task_result_pending_check'' ''leader_check_submitted_result''))
           | Inl msg \<Rightarrow>
               bindS (result_file_exists (dt_id t)) (\<lambda>there.
               if there then
                 returnS (Some (known @ [(lit ''issueType'', JStr (lit ''invalid_task_result'')),
                   (lit ''error'', JStr msg), (lit ''recommendation'', JStr (lit ''ask_worker_fix_result_protocol''))]))
               else
                 bindS (liftS (worker_runtime E (dt_assigned t) timeout)) (\<lambda>runtime.
                 returnS (runtime_issue base (tm_status task_meta) runtime)))))))"

primrec task_issues ::
  "project_env \<Rightarrow> int \<Rightarrow> project_meta \<Rightarrow> pystr \<Rightarrow> dag_task list \<Rightarrow> (task_files, issue list) actS" where
  "task_issues E timeout meta plan_type [] = returnS []"
| "task_issues E timeout meta plan_type (t # ts) =
     (if dt_status t \<noteq> lit ''delegated'' then task_issues E timeout meta plan_type ts
      else
        bindS (task_issue E timeout meta plan_type t) (\<lambda>found.
        bindS (task_issues E timeout meta plan_type ts) (\<lambda>rest.
        returnS (case found of None \<Rightarrow> rest | Some i \<Rightarrow> i # rest))))"

definition ready_payload :: "dag_task \<Rightarrow> (pystr \<times> json) list" where
  "ready_payload t =
     [(lit ''taskId'', JStr (dt_id t)), (lit ''title'', JStr (dt_title t)),
      (lit ''assignedTo'', JStr (dt_assigned t)), (lit ''dependsOn'', JArr (map JStr (dt_depends t))),
      (lit ''planStatus'', JStr (dt_status t))]"

definition ready_issue :: "project_meta \<Rightarrow> pystr \<Rightarrow> dag_task list \<Rightarrow> issue" where
  "ready_issue meta plan_type ready = project_base meta plan_type @
     [(lit ''issueType'', JStr (lit ''ready_tasks_pending'')),
      (lit ''readyTasks'', JArr (map (JObj \<circ> ready_payload) ready)),
      (lit ''recommendation'', JStr (lit ''normal_leader_schedule_ready_tasks''))]"

text \<open>The issue of a project of which all tasks are completed.\<close>

definition finished_issue :: "project_meta \<Rightarrow> pystr \<Rightarrow> pystr \<Rightarrow> issue list res" where
  "finished_issue meta plan_type plan =
     (if plan_type = lit ''loop'' then
        bindE (parse_loop_plan plan) (\<lambda>found. Inr (case found of
          Some lp \<Rightarrow>
            if lp_status lp = lit ''running'' then
              [project_base meta plan_type @
               [(lit ''issueType'', JStr (lit ''loop_iteration_decision_pending'')),
                (lit ''iteration'', JInt (lp_current_iteration lp)),
                (lit ''maxIterations'', JInt (lp_max_iterations lp)),
                (lit ''recommendation'', JStr (lit ''normal_leader_record_loop_iteration''))]]
            else []
        | None \<Rightarrow> []))
      else Inr [project_base meta plan_type
             @ issue_kind ''project_completion_pending'' ''normal_leader_aggregate_and_complete_project''])"

text \<open>The issues of one project, \<open>None\<close> when it is not active.\<close>

definition project_issues ::
  "project_env \<Rightarrow> int \<Rightarrow> pystr \<Rightarrow> (task_files, issue list option) actS" where
  "project_issues E timeout project_id =
     bindS (st_read_project_meta (pe_store E) project_id) (\<lambda>meta.
     if pm_status meta \<noteq> lit ''active'' then returnS None
     else
       bindS (st_read_project_plan (pe_store E) project_id) (\<lambda>plan.
       let plan_type = parse_plan_type plan; tasks = plan_tasks plan in
       bindS (task_issues E timeout meta plan_type tasks) (\<lambda>issues.
       if issues \<noteq> [] then returnS (Some issues)
       else
         bindS (if plan_type = lit ''loop'' then ready_loop_nodes (pe_store E) project_id
                else ready_nodes (pe_store E) project_id) (\<lambda>ready.
         if ready \<noteq> [] then returnS (Some [ready_issue meta plan_type ready])
         else if tasks = [] \<or> \<not> list_all (\<lambda>t. dt_status t = lit ''completed'') tasks then returnS (Some [])
         else bindS (liftS (finished_issue meta plan_type plan)) (\<lambda>issues. returnS (Some issues))))))"

primrec check_projects ::
  "project_env \<Rightarrow> int \<Rightarrow> pystr list \<Rightarrow> (task_files, nat \<times> issue list) actS" where
  "check_projects E timeout [] = returnS (0, [])"
| "check_projects E timeout (i # ids) =
     (if i = [] then check_projects E timeout ids
      else
        bindS (project_issues E timeout i) (\<lambda>found.
        bindS (check_projects E timeout ids) (\<lambda>(checked, rest).
        returnS (case found of None \<Rightarrow> (checked, rest) | Some issues \<Rightarrow> (Suc checked, issues @ rest)))))"

definition check_active_tasks ::
  "project_env \<Rightarrow> pystr option \<Rightarrow> int \<Rightarrow> (task_files, (pystr \<times> json) list) actS" where
  "check_active_tasks E project_id timeout =
     bindS (case project_id of
         Some p \<Rightarrow> if p \<noteq> [] then returnS [p] else list_project_ids E
       | None \<Rightarrow> list_project_ids E) (\<lambda>ids.
     bindS (check_projects E timeout ids) (\<lambda>(checked, issues).
     returnS [(lit ''checkedProjects'', JInt (int checked)), (lit ''issues'', JArr (map JObj issues))]))"

section \<open>The actions\<close>

definition task_dicts :: "dag_task list \<Rightarrow> json" where
  "task_dicts tasks = JArr (map (JObj \<circ> dag_task_dict) tasks)"

definition dry_ok :: "pystr \<Rightarrow> (pystr \<times> json) list \<Rightarrow> (task_files, (pystr \<times> json) list) actS" where
  "dry_ok action info = returnS (tool_ok ([(lit ''dryRun'', JBool True), (lit ''action'', JStr action)] @ info))"

definition act_ok :: "pystr \<Rightarrow> (pystr \<times> json) list \<Rightarrow> (task_files, (pystr \<times> json) list) actS" where
  "act_ok action info = returnS (tool_ok ((lit ''action'', JStr action) # info))"

type_synonym tool_action = "pystr \<Rightarrow> (pystr \<times> json) list \<Rightarrow> bool \<Rightarrow> (task_files, (pystr \<times> json) list) actS"

definition do_create_project :: "project_env \<Rightarrow> tool_action" where
  "do_create_project E action data dry =
     bindS (liftS (required_str data ''projectId'')) (\<lambda>project_id.
     bindS (liftS (required_str data ''title'')) (\<lambda>title.
     if dry then dry_ok action [(lit ''projectId'', JStr project_id), (lit ''title'', JStr title)]
     else
       bindS (liftS (optional_str data ''source'')) (\<lambda>source.
       bindS (liftS (optional_str data ''requester'')) (\<lambda>requester.
       bindS (liftS (optional_str data ''parentTaskId'')) (\<lambda>parent.
       bindS (create_project (pe_repr E) (pe_now E) (pe_store E) project_id title source requester parent) (\<lambda>meta.
       act_ok action [(lit ''project'', JObj (project_meta_dict meta))]))))))"

definition do_plan_dag :: "project_env \<Rightarrow> tool_action" where
  "do_plan_dag E action data dry =
     bindS (liftS (required_str data ''projectId'')) (\<lambda>project_id.
     bindS (liftS (coerce_tasks (pe_float E) (payload_get data ''tasks''))) (\<lambda>tasks.
     if dry then dry_ok action [(lit ''projectId'', JStr project_id), (lit ''tasks'', JArr (map JObj tasks))]
     else
       bindS (plan_dag (pe_repr E) (pe_store E) project_id tasks) (\<lambda>graph.
       bindS (ready_nodes (pe_store E) project_id) (\<lambda>ready.
       act_ok action [(lit ''tasks'', task_dicts graph), (lit ''readyNodes'', task_dicts ready)]))))"

definition do_plan_loop :: "project_env \<Rightarrow> tool_action" where
  "do_plan_loop E action data dry =
     bindS (liftS (required_str data ''projectId'')) (\<lambda>project_id.
     bindS (liftS (required_str data ''goal'')) (\<lambda>goal.
     bindS (liftS (required_str data ''stopCondition'')) (\<lambda>stop_condition.
     bindS (liftS (required_str data ''iterationTemplate'')) (\<lambda>iteration_template.
     bindS (liftS (required_int data ''maxIterations'')) (\<lambda>max_iterations.
     bindS (liftS (optional_int data ''currentIteration'' 0)) (\<lambda>current_iteration.
     let status = py_str (pe_repr E) (or_default (payload_get data ''status'') (JStr (lit ''running''))) in
     bindS (liftS (coerce_optional_tasks (pe_float E) (payload_get data ''tasks''))) (\<lambda>tasks.
     if dry then dry_ok action
       [(lit ''projectId'', JStr project_id), (lit ''goal'', JStr goal), (lit ''stopCondition'', JStr stop_condition),
        (lit ''iterationTemplate'', JStr iteration_template), (lit ''maxIterations'', JInt max_iterations),
        (lit ''currentIteration'', JInt current_iteration), (lit ''status'', JStr status),
        (lit ''tasks'', JArr (map JObj tasks))]
     else
       bindS (plan_loop (pe_repr E) (pe_store E) project_id goal stop_condition iteration_template
                max_iterations current_iteration status (Some tasks)) (\<lambda>lp.
       bindS (ready_loop_nodes (pe_store E) project_id) (\<lambda>ready.
       act_ok action [(lit ''loop'', JObj (loop_plan_dict lp)), (lit ''readyNodes'', task_dicts ready)])))))))))"

definition do_ready_nodes :: "project_env \<Rightarrow> tool_action" where
  "do_ready_nodes E action data dry =
     bindS (liftS (required_str data ''projectId'')) (\<lambda>project_id.
     bindS (ready_nodes (pe_store E) project_id) (\<lambda>ready.
     act_ok action [(lit ''readyNodes'', task_dicts ready)]))"

definition do_ready_loop_nodes :: "project_env \<Rightarrow> tool_action" where
  "do_ready_loop_nodes E action data dry =
     bindS (liftS (required_str data ''projectId'')) (\<lambda>project_id.
     bindS (ready_loop_nodes (pe_store E) project_id) (\<lambda>ready.
     act_ok action [(lit ''readyNodes'', task_dicts ready)]))"

definition do_check_active_tasks :: "project_env \<Rightarrow> tool_action" where
  "do_check_active_tasks E action data dry =
     bindS (liftS (optional_str data ''projectId'')) (\<lambda>project_id.
     bindS (liftS (optional_int data ''timeoutSeconds'' 3)) (\<lambda>timeout.
     bindS (liftS (raise_if (timeout < 1) (terr (lit ''payload.timeoutSeconds must be greater than zero'')))) (\<lambda>_.
     if dry then dry_ok action [(lit ''projectId'', jopt project_id), (lit ''timeoutSeconds'', JInt timeout)]
     else bindS (check_active_tasks E project_id timeout) (act_ok action))))"

definition do_record_loop_iteration :: "project_env \<Rightarrow> tool_action" where
  "do_record_loop_iteration E action data dry =
     bindS (liftS (required_str data ''projectId'')) (\<lambda>project_id.
     bindS (liftS (required_int data ''iteration'')) (\<lambda>iteration.
     bindS (liftS (required_str data ''decision'')) (\<lambda>decision.
     bindS (liftS (required_str data ''summary'')) (\<lambda>summary.
     bindS (liftS (optional_str data ''nextAction'')) (\<lambda>next_action.
     if dry then dry_ok action
       [(lit ''projectId'', JStr project_id), (lit ''iteration'', JInt iteration),
        (lit ''decision'', JStr decision), (lit ''summary'', JStr summary), (lit ''nextAction'', jopt next_action)]
     else
       bindS (record_loop_iteration (pe_store E) project_id iteration decision summary next_action) (\<lambda>lp.
       act_ok action [(lit ''loop'', JObj (loop_plan_dict lp))]))))))"

definition do_set_status ::
  "(task_files store_ops \<Rightarrow> pystr \<Rightarrow> (task_files, project_meta) actS) \<Rightarrow> project_env \<Rightarrow> tool_action" where
  "do_set_status operation E action data dry =
     bindS (liftS (required_str data ''projectId'')) (\<lambda>project_id.
     if dry then dry_ok action [(lit ''projectId'', JStr project_id)]
     else
       bindS (operation (pe_store E) project_id) (\<lambda>meta.
       act_ok action [(lit ''project'', JObj (project_meta_dict meta))]))"

definition unknown_project_action :: exc where
  "unknown_project_action = terr (lit ''action must be one of: create_project, plan_dag, ready_nodes, ''
     @ lit ''plan_loop, ready_loop_nodes, record_loop_iteration, ''
     @ lit ''check_active_tasks, pause_project, resume_project, complete_project'')"

definition projectflow_action :: "project_env \<Rightarrow> tool_action" where
  "projectflow_action E action =
     (if action = lit ''create_project'' then do_create_project E action
      else if action = lit ''plan_dag'' then do_plan_dag E action
      else if action = lit ''plan_loop'' then do_plan_loop E action
      else if action = lit ''ready_nodes'' then do_ready_nodes E action
      else if action = lit ''ready_loop_nodes'' then do_ready_loop_nodes E action
      else if action = lit ''check_active_tasks'' then do_check_active_tasks E action
      else if action = lit ''record_loop_iteration'' then do_record_loop_iteration E action
      else if action = lit ''pause_project'' then do_set_status pause_project E action
      else if action = lit ''resume_project'' then do_set_status resume_project E action
      else if action = lit ''complete_project'' then do_set_status complete_project E action
      else (\<lambda>data dry. raiseS unknown_project_action))"

text \<open>The tool: what the payload was when an exception occurred is part of the response.\<close>

definition projectflow ::
  "project_env \<Rightarrow> pystr \<Rightarrow> json \<Rightarrow> bool \<Rightarrow> task_files \<Rightarrow> (pystr \<times> json) list \<times> task_files" where
  "projectflow E action payload dry =
     (let coerced = coerce_payload (pe_float E) terr payload;
          data = (case coerced of Inl e \<Rightarrow> [] | Inr d \<Rightarrow> d) in
      tool_boundary ''projectflow'' taskflow_message (pe_exc_text E)
        [(lit ''action'', JStr action), (lit ''projectId'', payload_get data ''projectId'')]
        (bindS (liftS coerced) (\<lambda>data. projectflow_action E action data dry)))"

section \<open>Reading actions and dry runs change nothing\<close>

lemma pe_store_reads:
  "st_read_project_meta (pe_store E) = fs_read_project_meta (pe_repr E)"
  "st_read_project_plan (pe_store E) = fs_read_project_plan"
  "st_read_task_meta (pe_store E) = fs_read_task_meta (pe_repr E)"
  "st_read_task_result (pe_store E) = fs_read_task_result"
  by (simp_all add: pe_store_def fs_store_def)

lemma readonly_reads [readonly_intros]:
  "readonly (st_read_project_meta (pe_store E) i)" "readonly (st_read_project_plan (pe_store E) i)"
  "readonly (st_read_task_meta (pe_store E) i)" "readonly (st_read_task_result (pe_store E) i)"
  unfolding pe_store_reads by (intro readonly_intros)+

lemma readonly_ready [readonly_intros]:
  "readonly (ready_nodes (pe_store E) i)" "readonly (ready_loop_nodes (pe_store E) i)"
  unfolding ready_nodes_def ready_loop_nodes_def by (intro readonly_intros)+

lemma readonly_responses [readonly_intros]: "readonly (dry_ok action info)" "readonly (act_ok action info)"
  unfolding dry_ok_def act_ok_def by (intro readonly_intros)+

lemma readonly_task_issue [readonly_intros]: "readonly (task_issue E timeout meta plan_type t)"
  unfolding task_issue_def result_file_exists_def by (intro readonly_intros)

lemma readonly_task_issues [readonly_intros]: "readonly (task_issues E timeout meta plan_type ts)"
proof (induction ts)
  case (Cons t ts)
  show ?case unfolding task_issues.simps by (intro readonly_intros Cons)
qed (simp only: task_issues.simps readonly_basic)

lemma readonly_project_issues [readonly_intros]: "readonly (project_issues E timeout i)"
  unfolding project_issues_def by (intro readonly_intros)

lemma readonly_check_projects [readonly_intros]: "readonly (check_projects E timeout ids)"
proof (induction ids)
  case (Cons i ids)
  show ?case unfolding check_projects.simps by (intro readonly_intros Cons)
qed (simp only: check_projects.simps readonly_basic)

lemma readonly_check_active [readonly_intros]: "readonly (check_active_tasks E project_id timeout)"
  unfolding check_active_tasks_def list_project_ids_def by (intro readonly_intros)

lemma readonly_dry: "readonly (projectflow_action E action data True)"
  unfolding projectflow_action_def do_create_project_def do_plan_dag_def do_plan_loop_def do_ready_nodes_def
    do_ready_loop_nodes_def do_check_active_tasks_def do_record_loop_iteration_def do_set_status_def
  by (simp add: if_distrib[where f = "\<lambda>f. f data True"] cong: if_cong) (intro readonly_intros conjI impI)

lemma readonly_queries:
  "readonly (projectflow_action E (lit ''check_active_tasks'') data dry)"
  "readonly (projectflow_action E (lit ''ready_nodes'') data dry)"
  "readonly (projectflow_action E (lit ''ready_loop_nodes'') data dry)"
  by (simp_all add: projectflow_action_def do_ready_nodes_def do_ready_loop_nodes_def do_check_active_tasks_def
      readonly_intros)

lemma projectflow_readonly:
  assumes "\<And>data. readonly (projectflow_action E action data dry)"
  shows "snd (projectflow E action payload dry fs) = fs"
  unfolding projectflow_def Let_def tool_boundary_snd
  by (intro readonly_snd readonly_intros assms)

section \<open>What a check reports\<close>

definition runs :: "project_env \<Rightarrow> int \<Rightarrow> dag_task \<Rightarrow> bool" where
  "runs E timeout t \<longleftrightarrow> (\<exists>r. worker_runtime E (dt_assigned t) timeout = Inr r
     \<and> map_of r (lit ''runtimeStatus'') = Some (JStr (lit ''running'')))"

lemma task_base_id: "map_of (task_base meta pt t) (lit ''taskId'') = Some (JStr (dt_id t))"
  by (simp add: task_base_def project_base_def)

lemma task_issue_reports:
  assumes "task_issue E timeout meta pt t s = (Inr found, s')"
  shows "case found of None \<Rightarrow> runs E timeout t | Some i \<Rightarrow> map_of i (lit ''taskId'') = Some (JStr (dt_id t))"
  using assms unfolding task_issue_def Let_def
proof (cases rule: bindS_cases)
  case (returned meta_found s1)
  show ?thesis
  proof (cases meta_found)
    case (Inl msg)
    with returned(2) show ?thesis by (auto simp: task_base_id map_add_find_right)
  next
    case (Inr tm)
    from returned(2)[unfolded Inr sum.case] show ?thesis
    proof (cases rule: bindS_cases)
      case (returned read s2)
      then show ?thesis
        by (cases read) (auto simp: task_base_id map_add_find_right result_file_exists_def runtime_issue_def Let_def runs_def
            bindS_lift_ok split: if_splits)
    qed simp
  qed
qed simp

lemma task_issues_report:
  assumes "task_issues E timeout meta pt ts s = (Inr issues, s')" and "t \<in> set ts" and "dt_status t = lit ''delegated''"
  shows "runs E timeout t \<or> (\<exists>i\<in>set issues. map_of i (lit ''taskId'') = Some (JStr (dt_id t)))"
  using assms
proof (induction ts arbitrary: s issues s')
  case (Cons u ts)
  show ?case
  proof (cases "dt_status u = lit ''delegated''")
    case False
    with Cons show ?thesis by auto
  next
    case True
    with Cons.prems(1) have "bindS (task_issue E timeout meta pt u) (\<lambda>found.
        bindS (task_issues E timeout meta pt ts) (\<lambda>rest.
        returnS (case found of None \<Rightarrow> rest | Some i \<Rightarrow> i # rest))) s = (Inr issues, s')" by simp
    then show ?thesis
    proof (cases rule: bindS_cases)
      case (returned found s1)
      from returned(2) show ?thesis
      proof (cases rule: bindS_cases)
        case inner: (returned rest s2)
        then have i: "issues = (case found of None \<Rightarrow> rest | Some i \<Rightarrow> i # rest)" by simp
        show ?thesis
        proof (cases "t = u")
          case True
          with task_issue_reports[OF returned(1)] i show ?thesis by (auto split: option.splits)
        next
          case False
          with Cons.IH[OF inner(1)] Cons.prems(2,3) i show ?thesis by (auto split: option.splits)
        qed
      qed simp
    qed simp
  qed
qed simp

text \<open>The parts of a check of one project.\<close>

lemma project_issues_cases:
  assumes "project_issues E timeout pid s = (Inr (Some issues), s')"
  obtains meta plan found s1 where "fst (fs_read_project_meta (pe_repr E) pid s) = Inr meta"
    and "pm_status meta = lit ''active''" and "fst (fs_read_project_plan pid s) = Inr plan"
    and "task_issues E timeout meta (parse_plan_type plan) (plan_tasks plan) s = (Inr found, s1)"
    and "found \<noteq> [] \<longrightarrow> issues = found"
    and "found = [] \<and> parse_plan_type plan \<noteq> lit ''loop'' \<longrightarrow> (\<exists>ready s2.
      ready_nodes (pe_store E) pid s = (Inr ready, s2)
      \<and> issues = (if ready \<noteq> [] then [ready_issue meta (parse_plan_type plan) ready]
          else if plan_tasks plan = [] \<or> \<not> list_all (\<lambda>t. dt_status t = lit ''completed'') (plan_tasks plan) then []
          else [project_base meta (parse_plan_type plan)
             @ issue_kind ''project_completion_pending'' ''normal_leader_aggregate_and_complete_project'']))"
proof -
  from assms show thesis
    unfolding project_issues_def
  proof (cases rule: bindS_cases)
    case (returned meta s1)
    have s1: "s1 = s" by (rule readonly_same[OF readonly_reads(1) returned(1)])
    have active: "pm_status meta = lit ''active''" using returned(2) by (auto split: if_splits)
    from returned(2) active s1 have "bindS (st_read_project_plan (pe_store E) pid) (\<lambda>plan.
       let plan_type = parse_plan_type plan; tasks = plan_tasks plan in
       bindS (task_issues E timeout meta plan_type tasks) (\<lambda>issues.
       if issues \<noteq> [] then returnS (Some issues)
       else
         bindS (if plan_type = lit ''loop'' then ready_loop_nodes (pe_store E) pid
                else ready_nodes (pe_store E) pid) (\<lambda>ready.
         if ready \<noteq> [] then returnS (Some [ready_issue meta plan_type ready])
         else if tasks = [] \<or> \<not> list_all (\<lambda>t. dt_status t = lit ''completed'') tasks then returnS (Some [])
         else bindS (liftS (finished_issue meta plan_type plan)) (\<lambda>issues. returnS (Some issues)))))
       s = (Inr (Some issues), s')" by simp
    then show thesis
      unfolding Let_def
    proof (cases rule: bindS_cases)
      case plan: (returned plan s2)
      have s2: "s2 = s" by (rule readonly_same[OF readonly_reads(2) plan(1)])
      from plan(2) show thesis
      proof (cases rule: bindS_cases)
        case found: (returned found s3)
        have s3: "s3 = s" using readonly_same[OF readonly_task_issues found(1)] s2 by simp
        show thesis
        proof (rule that[of meta plan found s])
          show "fst (fs_read_project_meta (pe_repr E) pid s) = Inr meta" using returned(1) by (simp add: pe_store_reads)
          show "fst (fs_read_project_plan pid s) = Inr plan" using plan(1) by (simp add: pe_store_reads)
          show "task_issues E timeout meta (parse_plan_type plan) (plan_tasks plan) s = (Inr found, s)"
            using found(1) s2 s3 by simp
          show "found \<noteq> [] \<longrightarrow> issues = found" using found(2) by auto
          show "found = [] \<and> parse_plan_type plan \<noteq> lit ''loop'' \<longrightarrow> (\<exists>ready s2.
              ready_nodes (pe_store E) pid s = (Inr ready, s2)
              \<and> issues = (if ready \<noteq> [] then [ready_issue meta (parse_plan_type plan) ready]
                  else if plan_tasks plan = [] \<or> \<not> list_all (\<lambda>t. dt_status t = lit ''completed'') (plan_tasks plan) then []
                  else [project_base meta (parse_plan_type plan)
                     @ issue_kind ''project_completion_pending'' ''normal_leader_aggregate_and_complete_project'']))"
            using found(2) s3 by (auto simp: finished_issue_def elim!: bindS_cases split: if_splits)
        qed (rule active)
      qed simp
    qed simp
  qed simp
qed

text \<open>A check of a project without an issue.\<close>

lemma silent_check:
  assumes "fst (project_issues E timeout pid s) = Inr (Some [])" and "fst (fs_read_project_plan pid s) = Inr plan"
    and "parse_plan_type plan = lit ''dag''" and "parse_dag_tasks plan \<noteq> []"
  shows "\<exists>t\<in>set (parse_dag_tasks plan). set (dt_depends t) \<subseteq> effective_ids (parse_dag_tasks plan)
    \<and> dt_status t \<noteq> lit ''completed'' \<and> dt_status t \<noteq> lit ''pending''
    \<and> (dt_status t = lit ''delegated'' \<longrightarrow> runs E timeout t)"
proof -
  obtain s' where "project_issues E timeout pid s = (Inr (Some []), s')" using assms(1) by (metis prod.collapse)
  then obtain meta plan' found s1 where m: "fst (fs_read_project_meta (pe_repr E) pid s) = Inr meta"
      "pm_status meta = lit ''active''" "fst (fs_read_project_plan pid s) = Inr plan'"
      "task_issues E timeout meta (parse_plan_type plan') (plan_tasks plan') s = (Inr found, s1)"
      "found \<noteq> [] \<longrightarrow> [] = found"
    and r: "found = [] \<and> parse_plan_type plan' \<noteq> lit ''loop'' \<longrightarrow> (\<exists>ready s2.
      ready_nodes (pe_store E) pid s = (Inr ready, s2)
      \<and> [] = (if ready \<noteq> [] then [ready_issue meta (parse_plan_type plan') ready]
          else if plan_tasks plan' = [] \<or> \<not> list_all (\<lambda>t. dt_status t = lit ''completed'') (plan_tasks plan') then []
          else [project_base meta (parse_plan_type plan')
             @ issue_kind ''project_completion_pending'' ''normal_leader_aggregate_and_complete_project'']))"
    by (rule project_issues_cases)
  have p: "plan' = plan" "plan_tasks plan = parse_dag_tasks plan" using m(3) assms(2,3) by (simp_all add: plan_tasks_def)
  from r m(5) assms(3,4) p obtain s2 where ready: "ready_nodes (pe_store E) pid s = (Inr [], s2)"
    and open_task: "\<not> list_all (\<lambda>t. dt_status t = lit ''completed'') (parse_dag_tasks plan)"
    by (auto split: if_splits)
  have "fs_read_project_meta (pe_repr E) pid s = (Inr meta, s)" "fs_read_project_plan pid s = (Inr plan, s)"
    using m(1) assms(2) readonly_snd[OF readonly_store(1)] readonly_snd[OF readonly_store(2)] by (metis prod.collapse)+
  with ready m(2) assms(3) have "validate_dag (parse_dag_tasks plan) = Inr () \<and> ready_tasks (parse_dag_tasks plan) = []"
    by (auto simp: ready_nodes_def pe_store_reads bindS_def bindS_lift_ok split: if_splits sum.splits)
  then have valid: "validate_dag (parse_dag_tasks plan) = Inr ()" and none: "ready_tasks (parse_dag_tasks plan) = []"
    by simp_all
  obtain u where "u \<in> set (parse_dag_tasks plan)" "dt_status u \<noteq> lit ''completed''"
    using open_task by (auto simp: list_all_iff)
  from unfinished_task[OF valid this] obtain t where "t \<in> set (parse_dag_tasks plan)"
      "set (dt_depends t) \<subseteq> effective_ids (parse_dag_tasks plan)" "dt_status t \<noteq> lit ''completed''" by auto
  moreover from this none have "dt_status t \<noteq> lit ''pending''" using ready_tasks_iff[of t "parse_dag_tasks plan"] by auto
  ultimately obtain t where "t \<in> set (parse_dag_tasks plan)" "set (dt_depends t) \<subseteq> effective_ids (parse_dag_tasks plan)"
      "dt_status t \<noteq> lit ''completed''" "dt_status t \<noteq> lit ''pending''" by blast
  then show ?thesis using task_issues_report[OF m(4)] m(5) p by auto
qed

section \<open>A watched project\<close>

definition watched_task :: dag_task where
  "watched_task = sample_task\<lparr>dt_status := lit ''delegated''\<rparr>"

definition watched_line :: pystr where
  "watched_line = lit ''- [~] a '' @ [8212] @ lit '' A (assigned: w, depends: z)''"

definition watched_plan :: pystr where
  "watched_plan = lit ''# P'' @ [10] @ lit ''## DAG Task Plan'' @ [10, 10] @ lit ''**Plan Type**: dag'' @ [10, 10]
     @ done_line @ [10] @ watched_line @ [10]"

definition watched_files :: task_files where
  "watched_files = \<lparr>fs_shared_dir = lit ''shared'',
     fs_meta = [lit ''shared/projects/p/meta.json'' \<mapsto>
        Holds (JObj [(lit ''project_id'', JStr (lit ''p'')), (lit ''title'', JStr (lit ''P''))]),
        lit ''shared/tasks/a/meta.json'' \<mapsto>
        Holds (JObj [(lit ''task_id'', JStr (lit ''a'')), (lit ''project_id'', JStr (lit ''p'')),
          (lit ''task_title'', JStr (lit ''A'')), (lit ''assigned_to'', JStr (lit ''w''))])],
     fs_text = [lit ''shared/projects/p/plan.md'' \<mapsto> watched_plan]\<rparr>"

text \<open>An environment in which the worker reports one running session.\<close>

definition watching_env :: project_env where
  "watching_env = \<lparr>pe_repr = no_repr, pe_exc_text = (\<lambda>_. []), pe_float = read_decimal, pe_now = lit ''now'',
     pe_project_dirs = (\<lambda>_. [lit ''p'']),
     pe_fetch = (\<lambda>_ _. Inr (JArr [JObj [(lit ''status'', JStr (lit ''running''))]]))\<rparr>"

lemma watched_parsed: "parse_dag_line watched_line = Some watched_task" "no_break watched_line"
proof -
  have p: "plain_task watched_task"
    by (simp add: watched_task_def sample_task_def plain_task_def is_id_def is_id_char_def trimmed_def lit_def
        char_class_defs marker_to_status_def)
  have "render_dag_task watched_task = Inr watched_line"
    by (simp add: render_dag_task_def watched_task_def sample_task_def status_to_marker_def marker_to_status_def
        watched_line_def lit_def)
  with parse_rendered_task[OF p] show "parse_dag_line watched_line = Some watched_task" "no_break watched_line"
    by auto
qed

lemma watched_lines:
  "splitlines watched_plan = [lit ''# P'', lit ''## DAG Task Plan'', [], lit ''**Plan Type**: dag'', [],
     done_line, watched_line]"
proof -
  have "no_break (lit ''# P'')" "no_break (lit ''## DAG Task Plan'')" "no_break (lit ''**Plan Type**: dag'')"
    by (simp_all add: lit_def is_linebreak_def)
  then show ?thesis
    using splitlines_line[of "[]"] sample_parsed(4) watched_parsed(2) by (simp add: watched_plan_def splitlines_line)
qed

lemma watched_tasks: "parse_dag_tasks watched_plan = [done_task, watched_task]"
  by (simp add: parse_dag_tasks_def watched_lines map_filter_Cons sample_parsed watched_parsed sample_other)

lemma watched_type: "parse_plan_type watched_plan = lit ''dag''"
  using plan_type_line by (simp add: parse_plan_type_def watched_lines plan_type_heading lit_def)

lemma watched_plan_read: "fs_read_project_plan (lit ''p'') watched_files = (Inr watched_plan, watched_files)"
proof -
  have "13 \<notin> set watched_plan" by (simp add: watched_plan_def watched_line_def done_line_def lit_def)
  then show ?thesis
    by (simp add: fs_read_project_plan_def sample_id read_text_def watched_files_def project_file_def
        universal_newlines_id lit_append[symmetric])
qed

lemma watched_issues: "project_issues watching_env 3 (lit ''p'') watched_files = (Inr (Some []), watched_files)"
proof -
  have repr: "pe_repr watching_env = no_repr" by (simp add: watching_env_def)
  obtain meta where meta: "fs_read_project_meta no_repr (lit ''p'') watched_files = (Inr meta, watched_files)"
    and active: "pm_status meta = lit ''active''"
    by (simp add: fs_read_project_meta_def sample_id read_json_def watched_files_def project_file_def
        lit_append[symmetric] bindS_def project_meta_of_def subscript_def get_value_def or_default_def)
  obtain tm where tm: "fs_read_task_meta no_repr (lit ''a'') watched_files = (Inr tm, watched_files)"
    by (simp add: fs_read_task_meta_def sample_id read_json_def watched_files_def task_file_def
        lit_append[symmetric] bindS_def task_meta_of_def subscript_def get_value_def or_default_def list_of_value_def)
  have result: "try_taskflow (fs_read_task_result (lit ''a'')) watched_files
      = (Inr (Inl (lit ''task result not found: shared/tasks/a/result.md'')), watched_files)"
    by (simp add: try_taskflow_def fs_read_task_result_def sample_id read_text_def watched_files_def task_file_def
        lit_append[symmetric] bindS_def terr_def)
  have meta_read: "try_taskflow (fs_read_task_meta no_repr (lit ''a'')) watched_files = (Inr (Inr tm), watched_files)"
    using tm by (simp add: try_taskflow_def)
  have there: "result_file_exists (lit ''a'') watched_files = (Inr False, watched_files)"
    by (simp add: result_file_exists_def watched_files_def task_file_def lit_append[symmetric])
  have w: "dt_id watched_task = lit ''a''" "dt_assigned watched_task = lit ''w''" "dt_status watched_task = lit ''delegated''"
    by (simp_all add: watched_task_def sample_task_def)
  have id: "canonical_worker_id (Some (lit ''w'')) = lit ''w''"
    by (simp add: canonical_worker_id_def or_text_def lit_def char_class_defs strip_def rstrip_def
        strip_chars_def removeprefix_def)
  then obtain r where runtime: "worker_runtime watching_env (lit ''w'') 3 = Inr r"
      "map_of r (lit ''runtimeStatus'') = Some (JStr (lit ''running''))"
    by (simp add: worker_runtime_def watching_env_def runtime_of_sessions_def session_running_def)
  have quiet: "runtime_issue base ts r = None" for base ts by (simp add: runtime_issue_def runtime(2))
  have issue: "task_issue watching_env 3 meta pt watched_task watched_files = (Inr None, watched_files)" for pt
    by (simp add: task_issue_def Let_def pe_store_reads repr w bindS_def[of "try_taskflow _"] meta_read
        result
        bindS_def[of "result_file_exists _"] there bindS_lift_eq runtime(1) quiet)
  have finished: "dt_status done_task = lit ''completed''" by (simp add: done_task_def)
  have tasks: "plan_tasks watched_plan = [done_task, watched_task]" by (simp add: plan_tasks_def watched_type watched_tasks)
  have issues: "task_issues watching_env 3 meta pt [done_task, watched_task] watched_files = (Inr [], watched_files)" for pt
    by (simp add: finished w bindS_def[of "task_issue _ _ _ _ _"] issue)
  have "validate_dag [done_task, watched_task] = Inr ()" by code_simp
  moreover have "ready_tasks [done_task, watched_task] = []" by (simp add: ready_tasks_def finished w)
  ultimately have ready: "ready_nodes (pe_store watching_env) (lit ''p'') watched_files = (Inr [], watched_files)"
    by (simp add: ready_nodes_def pe_store_reads repr bindS_def[of "fs_read_project_meta _ _"] meta bindS_def[of "fs_read_project_plan _"] watched_plan_read active
        watched_type watched_tasks bindS_lift_eq)
  show ?thesis
    by (simp add: project_issues_def Let_def pe_store_reads repr bindS_def[of "fs_read_project_meta _ _"] meta active bindS_def[of "fs_read_project_plan _"] watched_plan_read
        bindS_def[of "task_issues _ _ _ _ _"] issues watched_type bindS_def[of "ready_nodes _ _"] ready tasks finished w del: task_issues.simps)
qed

section \<open>Properties\<close>

text \<open>A dry run of \<open>projectflow\<close> changes no file, whatever the action and the payload are, and
  neither do the actions that only look: \<open>check_active_tasks\<close>, \<open>ready_nodes\<close> and
  \<open>ready_loop_nodes\<close> leave every file as it was in a real run, also when they fail.\<close>

lemma projectflow_dry_run:
  "snd (projectflow E action payload True fs) = fs
   \<and> snd (projectflow E (lit ''check_active_tasks'') payload dry fs) = fs
   \<and> snd (projectflow E (lit ''ready_nodes'') payload dry fs) = fs
   \<and> snd (projectflow E (lit ''ready_loop_nodes'') payload dry fs) = fs"
  by (intro conjI projectflow_readonly readonly_dry readonly_queries)

text \<open>No active project with a task graph stalls in silence. When the check of a project whose graph
  has tasks reports no issue, a task with completed dependencies is being worked on by a running worker,
  or is one that the leader has seen already, blocked or sent back for revision.\<close>

lemma silent_check_means_work:
  assumes "fst (project_issues E timeout pid s) = Inr (Some [])"
    and "fst (fs_read_project_plan pid s) = Inr plan"
    and "parse_plan_type plan = lit ''dag''" and "parse_dag_tasks plan \<noteq> []"
  shows "\<exists>t\<in>set (parse_dag_tasks plan). set (dt_depends t) \<subseteq> effective_ids (parse_dag_tasks plan)
    \<and> (if dt_status t = lit ''delegated'' then runs E timeout t
       else dt_status t \<noteq> lit ''completed'' \<and> dt_status t \<noteq> lit ''pending'')"
  using silent_check[OF assms] by (metis (full_types))

text \<open>C31: the check watches every task: in the issues reported for an active project each delegated task
  of the plan appears under its identifier, unless the service of its worker answered that a session is
  running.\<close>

theorem delegated_tasks_watched:
  assumes "fst (project_issues E timeout pid s) = Inr (Some issues)"
    and "fst (fs_read_project_plan pid s) = Inr plan"
    and "t \<in> set (plan_tasks plan)" and "dt_status t = lit ''delegated''"
  shows "runs E timeout t \<or> (\<exists>i. i \<in> set issues \<and> map_of i (lit ''taskId'') = Some (JStr (dt_id t)))"
proof -
  obtain s' where "project_issues E timeout pid s = (Inr (Some issues), s')" using assms(1) by (metis prod.collapse)
  then show ?thesis
  proof (rule project_issues_cases)
    fix meta plan' found s1
    assume "fst (fs_read_project_plan pid s) = Inr plan'"
      and "task_issues E timeout meta (parse_plan_type plan') (plan_tasks plan') s = (Inr found, s1)"
      and "found \<noteq> [] \<longrightarrow> issues = found"
    then show ?thesis using task_issues_report[OF _ _ assms(4)] assms(2,3) by fastforce
  qed
qed

lemma silent_check_means_work_witness:
  "\<exists>t\<in>set (parse_dag_tasks watched_plan). set (dt_depends t) \<subseteq> effective_ids (parse_dag_tasks watched_plan)
    \<and> (if dt_status t = lit ''delegated'' then runs watching_env 3 t
       else dt_status t \<noteq> lit ''completed'' \<and> dt_status t \<noteq> lit ''pending'')"
  by (rule silent_check_means_work[of _ _ "lit ''p''" watched_files])
    (simp_all add: watched_issues watched_plan_read watched_type watched_tasks)

lemma delegated_tasks_watched_witness:
  "runs watching_env 3 watched_task \<or> (\<exists>i. i \<in> set [] \<and> map_of i (lit ''taskId'') = Some (JStr (dt_id watched_task)))"
  by (rule delegated_tasks_watched[of _ _ "lit ''p''" watched_files _ watched_plan])
    (simp_all add: watched_issues watched_plan_read watched_type watched_tasks plan_tasks_def,
     simp add: watched_task_def)

end
