(* ===== verification/Sync_Config.thy ===== *)
theory Sync_Config
  imports Task_Text Json_Round
begin

text \<open>
  \<open>_deep_merge\<close> and \<open>_merge_openclaw_config\<close> of \<open>copaw_worker/sync.py\<close>: how the configuration from
  the object storage and the local one become one, and which of the two wins where.
\<close>

section \<open>Merging dicts\<close>

text \<open>
  \<open>result[key] = value\<close> keeps the place of a known key, as \<open>AList.update\<close> does. The values are
  merged when both are dicts.
\<close>

fun merge_value :: "json \<Rightarrow> json \<Rightarrow> json"
  and deep_merge :: "(pystr \<times> json) list \<Rightarrow> (pystr \<times> json) list \<Rightarrow> (pystr \<times> json) list" where
  "merge_value (JObj base) (JObj override) = JObj (deep_merge base override)"
| "merge_value base override = override"
| "deep_merge result [] = result"
| "deep_merge result ((key, val) # override) =
     deep_merge (AList.update key
       (case map_of result key of None \<Rightarrow> val | Some old \<Rightarrow> merge_value old val) result) override"

section \<open>Access to dicts\<close>

definition not_a_dict :: exc where
  "not_a_dict = AttributeError (lit ''object has no attribute get'')"

text \<open>\<open>value.get(key)\<close>, \<open>value.get(key, {})\<close>, \<open>value or {}\<close> and \<open>dict(value)\<close>.\<close>

fun py_get :: "json \<Rightarrow> string \<Rightarrow> json res" where
  "py_get (JObj kvs) key = Inr (case map_of kvs (lit key) of None \<Rightarrow> JNull | Some v \<Rightarrow> v)"
| "py_get v key = Inl not_a_dict"

fun py_get_dict :: "json \<Rightarrow> string \<Rightarrow> json res" where
  "py_get_dict (JObj kvs) key = Inr (case map_of kvs (lit key) of None \<Rightarrow> JObj [] | Some v \<Rightarrow> v)"
| "py_get_dict v key = Inl not_a_dict"

definition or_empty :: "json \<Rightarrow> json" where
  "or_empty v = (if truthy v then v else JObj [])"

fun py_dict :: "json \<Rightarrow> (pystr \<times> json) list res" where
  "py_dict (JObj kvs) = Inr kvs"
| "py_dict v = Inl (TypeError (lit ''cannot convert to a dict''))"

text \<open>\<open>sorted(set(a + b))\<close> for lists of strings.\<close>

fun text_of :: "json \<Rightarrow> pystr res" where
  "text_of (JStr s) = Inr s"
| "text_of v = Inl (TypeError (lit ''unsupported path''))"

fun path_list :: "json \<Rightarrow> pystr list res" where
  "path_list (JArr xs) = mapE text_of xs"
| "path_list v = (if truthy v then Inl (TypeError (lit ''can only concatenate lists'')) else Inr [])"

definition union_paths :: "json \<Rightarrow> json \<Rightarrow> json res" where
  "union_paths a b = bindE (path_list a) (\<lambda>xs. bindE (path_list b) (\<lambda>ys.
     Inr (JArr (map JStr (sort (remdups (xs @ ys)))))))"

section \<open>The configuration\<close>

definition put_if_present :: "string \<Rightarrow> json \<Rightarrow> (pystr \<times> json) list \<Rightarrow> (pystr \<times> json) list" where
  "put_if_present key v merged = (if v = JNull then merged else AList.update (lit key) v merged)"

text \<open>The token of the local matrix channel, and its place in the merged channels.\<close>

definition local_token :: "json \<Rightarrow> json res" where
  "local_token l =
     bindE (py_get_dict l ''channels'') (\<lambda>channels.
     bindE (py_get_dict channels ''matrix'') (\<lambda>matrix.
     py_get matrix ''accessToken''))"

definition put_token :: "json \<Rightarrow> (pystr \<times> json) list \<Rightarrow> (pystr \<times> json) list res" where
  "put_token token channels =
     (case map_of channels (lit ''matrix'') of
        None \<Rightarrow> Inr (AList.update (lit ''matrix'') (JObj [(lit ''accessToken'', token)]) channels)
      | Some (JObj matrix) \<Rightarrow>
          Inr (AList.update (lit ''matrix'') (JObj (AList.update (lit ''accessToken'') token matrix)) channels)
      | Some v \<Rightarrow> Inl (TypeError (lit ''object does not support item assignment'')))"

definition merge_channels ::
  "json \<Rightarrow> json \<Rightarrow> (pystr \<times> json) list \<Rightarrow> (pystr \<times> json) list res" where
  "merge_channels r l merged =
     bindE (py_get r ''channels'') (\<lambda>rc. bindE (py_get l ''channels'') (\<lambda>lc.
     let r_channels = or_empty rc; l_channels = or_empty lc in
     if truthy r_channels \<or> truthy l_channels then
       bindE (py_dict l_channels) (\<lambda>lcs. bindE (py_dict r_channels) (\<lambda>rcs.
       bindE (local_token l) (\<lambda>token.
       bindE (if truthy token then put_token token (deep_merge lcs rcs) else Inr (deep_merge lcs rcs)) (\<lambda>channels.
       Inr (AList.update (lit ''channels'') (JObj channels) merged)))))
     else Inr merged))"

definition merge_entries ::
  "(pystr \<times> json) list \<Rightarrow> (pystr \<times> json) list \<Rightarrow> (pystr \<times> json) list \<Rightarrow> (pystr \<times> json) list res" where
  "merge_entries r_plugins l_plugins out =
     bindE (py_get (JObj r_plugins) ''entries'') (\<lambda>re. bindE (py_get (JObj l_plugins) ''entries'') (\<lambda>le.
     if truthy (or_empty re) \<or> truthy (or_empty le) then
       bindE (py_dict (or_empty re)) (\<lambda>res. bindE (py_dict (or_empty le)) (\<lambda>les.
       Inr (AList.update (lit ''entries'') (JObj (deep_merge res les)) out)))
     else Inr out))"

definition merge_load ::
  "(pystr \<times> json) list \<Rightarrow> (pystr \<times> json) list \<Rightarrow> (pystr \<times> json) list \<Rightarrow> (pystr \<times> json) list res" where
  "merge_load r_plugins l_plugins out =
     bindE (py_get_dict (JObj r_plugins) ''load'') (\<lambda>rl. bindE (py_get rl ''paths'') (\<lambda>r_paths.
     bindE (py_get_dict (JObj l_plugins) ''load'') (\<lambda>ll. bindE (py_get ll ''paths'') (\<lambda>l_paths.
     if r_paths \<noteq> JNull \<or> l_paths \<noteq> JNull then
       bindE (py_get (JObj l_plugins) ''load'') (\<lambda>load.
       bindE (py_dict (or_empty load)) (\<lambda>out_load.
       bindE (union_paths r_paths l_paths) (\<lambda>paths.
       Inr (AList.update (lit ''load'') (JObj (AList.update (lit ''paths'') paths out_load)) out))))
     else Inr out))))"

definition merge_plugins ::
  "json \<Rightarrow> json \<Rightarrow> (pystr \<times> json) list \<Rightarrow> (pystr \<times> json) list res" where
  "merge_plugins r l merged =
     bindE (py_get r ''plugins'') (\<lambda>rp. bindE (py_get l ''plugins'') (\<lambda>lp.
     if truthy rp \<or> truthy lp then
       bindE (py_dict (or_empty rp)) (\<lambda>r_plugins. bindE (py_dict (or_empty lp)) (\<lambda>l_plugins.
       bindE (merge_entries r_plugins l_plugins l_plugins) (\<lambda>with_entries.
       bindE (merge_load r_plugins l_plugins with_entries) (\<lambda>out_plugins.
       Inr (AList.update (lit ''plugins'') (JObj out_plugins) merged)))))
     else Inr merged))"

definition merge_config :: "json \<Rightarrow> json \<Rightarrow> (pystr \<times> json) list res" where
  "merge_config r l =
     bindE (py_dict l) (\<lambda>start.
     bindE (py_get r ''models'') (\<lambda>models.
     bindE (py_get r ''gateway'') (\<lambda>gateway.
     bindE (merge_channels r l (put_if_present ''gateway'' gateway (put_if_present ''models'' models start))) (\<lambda>merged.
     merge_plugins r l merged))))"

text \<open>\<open>json.dumps(value, indent=2, ensure_ascii=False)\<close>.\<close>

fun dumps_indent :: "nat \<Rightarrow> json \<Rightarrow> pystr" where
  "dumps_indent n (JArr xs) = (if xs = [] then [91, 93] else
     [91, 10] @ join [44, 10] (map (\<lambda>t. replicate (n + 2) 32 @ t) (map (dumps_indent (n + 2)) xs))
     @ [10] @ replicate n 32 @ [93])"
| "dumps_indent n (JObj kvs) = (if kvs = [] then [123, 125] else
     [123, 10] @ join [44, 10] (map (\<lambda>(k, t). replicate (n + 2) 32 @ json_string k @ [58, 32] @ t)
       (map (\<lambda>(k, v). (k, dumps_indent (n + 2) v)) kvs))
     @ [10] @ replicate n 32 @ [125])"
| "dumps_indent n v = dumps v"

definition merge_openclaw_config :: "(pystr \<Rightarrow> pyfloat) \<Rightarrow> pystr \<Rightarrow> pystr \<Rightarrow> pystr res" where
  "merge_openclaw_config F remote_text local_text =
     bindE (loads F remote_text) (\<lambda>r.
     bindE (loads F local_text) (\<lambda>l.
     bindE (merge_config r l) (\<lambda>merged. Inr (dumps_indent 0 (JObj merged)))))"

section \<open>What the deep merge keeps\<close>

lemma map_of_update: "map_of (AList.update k v xs) k' = (if k' = k then Some v else map_of xs k')"
  by (simp add: update_conv)

lemma deep_merge_lookup:
  assumes "distinct (map fst override)"
  shows "map_of (deep_merge base override) k =
    (case map_of override k of
       None \<Rightarrow> map_of base k
     | Some v \<Rightarrow> Some (case map_of base k of None \<Rightarrow> v | Some w \<Rightarrow> merge_value w v))"
  using assms
proof (induction override arbitrary: base)
  case (Cons kv override)
  obtain k' v' where kv: "kv = (k', v')" by (cases kv)
  then have "map_of override k' = None" using Cons.prems by (simp add: map_of_eq_None_iff)
  with Cons kv show ?case by (auto simp: map_of_update split: option.split)
qed simp

text \<open>The value at a path of keys.\<close>

fun json_at :: "pystr list \<Rightarrow> json \<Rightarrow> json option" where
  "json_at [] v = Some v"
| "json_at (k # ks) (JObj kvs) = Option.bind (map_of kvs k) (json_at ks)"
| "json_at (k # ks) v = None"

fun is_dict :: "json \<Rightarrow> bool" where
  "is_dict (JObj kvs) = True"
| "is_dict v = False"

lemma merge_value_override: "\<not> is_dict v \<Longrightarrow> merge_value w v = v"
  by (cases w; cases v) simp_all

lemma merge_leaf_wins:
  assumes "wf_json override" and "json_at path override = Some v" and "\<not> is_dict v"
  shows "json_at path (merge_value base override) = Some v"
  using assms
proof (induction path arbitrary: base override)
  case Nil
  then show ?case by (simp add: merge_value_override)
next
  case (Cons k ks)
  obtain os where os: "override = JObj os" using Cons.prems(2) by (cases override) auto
  obtain u where u: "map_of os k = Some u" "json_at ks u = Some v" using Cons.prems(2) os by (auto simp: bind_eq_Some_conv)
  have wf: "wf_json u" "distinct (map fst os)" using Cons.prems(1) os u(1) map_of_SomeD by fastforce+
  show ?case
  proof (cases base)
    case (JObj bs)
    with u os Cons.IH[OF wf(1) u(2) Cons.prems(3)] show ?thesis
      by (simp add: deep_merge_lookup[OF wf(2)] split: option.split)
  qed (use os u in simp_all)
qed

text \<open>
  A value of the base stays where the override is silent: along the path the override has dicts as far
  as it goes, and then a key is missing.
\<close>

fun silent :: "pystr list \<Rightarrow> json \<Rightarrow> bool" where
  "silent [] v = False"
| "silent (k # ks) (JObj kvs) = (case map_of kvs k of None \<Rightarrow> True | Some v \<Rightarrow> silent ks v)"
| "silent (k # ks) v = False"

lemma merge_keeps_base:
  assumes "wf_json override" and "silent path override" and "json_at path base = Some w"
  shows "json_at path (merge_value base override) = Some w"
  using assms
proof (induction path arbitrary: base override)
  case (Cons k ks)
  obtain bs os where bo: "base = JObj bs" "override = JObj os"
    using Cons.prems(2,3) by (cases base; cases override) auto
  obtain x where x: "map_of bs k = Some x" "json_at ks x = Some w" using Cons.prems(3) bo by (auto simp: bind_eq_Some_conv)
  have wf: "distinct (map fst os)" using Cons.prems(1) bo by simp
  show ?case
  proof (cases "map_of os k")
    case None
    with x bo show ?thesis by (simp add: deep_merge_lookup[OF wf])
  next
    case (Some u)
    then have "wf_json u" using Cons.prems(1) bo map_of_SomeD by fastforce
    with Some Cons.IH[of u x] Cons.prems(2) x bo show ?thesis by (simp add: deep_merge_lookup[OF wf])
  qed
qed simp

section \<open>What the merged configuration holds\<close>

lemma put_if_present_other: "k \<noteq> lit key \<Longrightarrow> map_of (put_if_present key v m) k = map_of m k"
  by (simp add: put_if_present_def map_of_update)

lemma put_if_present_same: "map_of (put_if_present key v m) (lit key) = (if v = JNull then map_of m (lit key) else Some v)"
  by (simp add: put_if_present_def map_of_update)

text \<open>The parts of a successful merge.\<close>

lemma merge_config_parts:
  assumes "merge_config (JObj rs) (JObj ls) = Inr m"
  obtains mc where "merge_channels (JObj rs) (JObj ls)
      (put_if_present ''gateway'' (case map_of rs (lit ''gateway'') of None \<Rightarrow> JNull | Some v \<Rightarrow> v)
        (put_if_present ''models'' (case map_of rs (lit ''models'') of None \<Rightarrow> JNull | Some v \<Rightarrow> v) ls)) = Inr mc"
    and "merge_plugins (JObj rs) (JObj ls) mc = Inr m"
  using assms by (auto simp: merge_config_def bindE_ok)

lemma merge_plugins_other:
  "merge_plugins r l mc = Inr m \<Longrightarrow> k \<noteq> lit ''plugins'' \<Longrightarrow> map_of m k = map_of mc k"
  by (auto simp: merge_plugins_def bindE_ok map_of_update split: if_splits)

lemma merge_channels_other:
  "merge_channels r l m = Inr mc \<Longrightarrow> k \<noteq> lit ''channels'' \<Longrightarrow> map_of mc k = map_of m k"
  by (auto simp: merge_channels_def Let_def bindE_ok map_of_update split: if_splits)

lemma put_token_at:
  assumes "put_token token channels = Inr channels'"
  shows "json_at [lit ''matrix'', lit ''accessToken''] (JObj channels') = Some token"
    and "json_at path (JObj channels) = Some v \<Longrightarrow> \<not> is_dict v \<Longrightarrow> path \<noteq> [] \<Longrightarrow>
      take 2 path \<noteq> [lit ''matrix'', lit ''accessToken''] \<Longrightarrow> json_at path (JObj channels') = Some v"
proof -
  show "json_at [lit ''matrix'', lit ''accessToken''] (JObj channels') = Some token"
    using assms by (auto simp: put_token_def map_of_update split: option.splits json.splits)
  assume v: "json_at path (JObj channels) = Some v" "\<not> is_dict v" "path \<noteq> []"
    and t: "take 2 path \<noteq> [lit ''matrix'', lit ''accessToken'']"
  then obtain k ks where path: "path = k # ks" by (cases path) auto
  show "json_at path (JObj channels') = Some v"
  proof (cases "k = lit ''matrix''")
    case False
    with assms v path show ?thesis by (auto simp: put_token_def map_of_update split: option.splits json.splits)
  next
    case True
    then obtain u where u: "map_of channels k = Some u" "json_at ks u = Some v" using v path by (auto simp: bind_eq_Some_conv)
    then obtain ms where ms: "u = JObj ms" "channels' = AList.update k (JObj (AList.update (lit ''accessToken'') token ms)) channels"
      using assms True by (auto simp: put_token_def split: json.splits)
    with u v(2) obtain k2 ks2 where "ks = k2 # ks2" by (cases ks) auto
    moreover from this t path True have "k2 \<noteq> lit ''accessToken''" by auto
    ultimately show ?thesis using u ms path by (simp add: map_of_update)
  qed
qed

lemma token_at:
  "json_at [lit ''channels'', lit ''matrix'', lit ''accessToken''] (JObj ls) = Some token \<Longrightarrow> local_token (JObj ls) = Inr token"
proof -
  assume "json_at [lit ''channels'', lit ''matrix'', lit ''accessToken''] (JObj ls) = Some token"
  then obtain c x where c: "map_of ls (lit ''channels'') = Some c"
      "json_at [lit ''matrix'', lit ''accessToken''] c = Some token" by (auto simp: bind_eq_Some_conv)
  then obtain cs where "c = JObj cs" by (cases c) auto
  with c obtain x where x: "map_of cs (lit ''matrix'') = Some x" "json_at [lit ''accessToken''] x = Some token"
    by (auto simp: bind_eq_Some_conv)
  then obtain ms where "x = JObj ms" by (cases x) auto
  with c x \<open>c = JObj cs\<close> show ?thesis by (auto simp: local_token_def bind_eq_Some_conv)
qed

text \<open>The merged channels, when one side has any.\<close>

lemma merge_channels_some:
  assumes "merge_channels (JObj rs) (JObj ls) m = Inr mc" and "map_of ls (lit ''channels'') = Some (JObj lcs)"
    and "map_of rs (lit ''channels'') = Some (JObj rcs)" and "lcs \<noteq> [] \<or> rcs \<noteq> []" and "local_token (JObj ls) = Inr token"
  obtains cs where "map_of mc (lit ''channels'') = Some (JObj cs)"
    and "(if truthy token then put_token token (deep_merge lcs rcs) else Inr (deep_merge lcs rcs)) = Inr cs"
proof -
  have "or_empty (JObj x) = JObj x" for x by (simp add: or_empty_def)
  with assms that show thesis
    by (auto simp: merge_channels_def Let_def bindE_ok map_of_update split: if_splits)
qed

lemma merged_config_holds:
  assumes m: "merge_config (JObj rs) (JObj ls) = Inr m" and wf: "wf_json (JObj rs)"
    and lc: "map_of ls (lit ''channels'') = Some (JObj lcs)" and rc: "map_of rs (lit ''channels'') = Some (JObj rcs)"
    and token: "json_at [lit ''channels'', lit ''matrix'', lit ''accessToken''] (JObj ls) = Some token" "truthy token"
  shows "json_at [lit ''channels'', lit ''matrix'', lit ''accessToken''] (JObj m) = Some token"
    and "json_at path (JObj rcs) = Some v \<Longrightarrow> \<not> is_dict v \<Longrightarrow> take 2 path \<noteq> [lit ''matrix'', lit ''accessToken''] \<Longrightarrow>
      json_at (lit ''channels'' # path) (JObj m) = Some v"
proof -
  from merge_config_parts[OF m] obtain mc x where mc: "merge_channels (JObj rs) (JObj ls) x = Inr mc"
    and mp: "merge_plugins (JObj rs) (JObj ls) mc = Inr m" by metis
  have lcs: "lcs \<noteq> []" using token(1) lc by auto
  with merge_channels_some[OF mc lc rc _ token_at[OF token(1)]] token(2)
  obtain cs where cs: "map_of mc (lit ''channels'') = Some (JObj cs)" "put_token token (deep_merge lcs rcs) = Inr cs" by auto
  have "map_of m (lit ''channels'') = Some (JObj cs)" using merge_plugins_other[OF mp] cs(1) by simp
  then show "json_at [lit ''channels'', lit ''matrix'', lit ''accessToken''] (JObj m) = Some token"
    using put_token_at(1)[OF cs(2)] by simp
  assume v: "json_at path (JObj rcs) = Some v" "\<not> is_dict v" "take 2 path \<noteq> [lit ''matrix'', lit ''accessToken'']"
  have "wf_json (JObj rcs)" using wf rc map_of_SomeD by fastforce
  from merge_leaf_wins[OF this v(1,2), of "JObj lcs"] have "json_at path (JObj (deep_merge lcs rcs)) = Some v" by simp
  moreover have "path \<noteq> []" using v(1,2) by auto
  ultimately have "json_at path (JObj cs) = Some v" using put_token_at(2)[OF cs(2) _ v(2)] v(3) by simp
  then show "json_at (lit ''channels'' # path) (JObj m) = Some v"
    using \<open>map_of m (lit ''channels'') = Some (JObj cs)\<close> by simp
qed

lemma merged_config_other:
  assumes "merge_config (JObj rs) (JObj ls) = Inr m"
  shows "k \<notin> {lit ''models'', lit ''gateway'', lit ''channels'', lit ''plugins''} \<Longrightarrow> map_of m k = map_of ls k"
    and "k \<in> {lit ''models'', lit ''gateway''} \<Longrightarrow> map_of rs k = Some v \<Longrightarrow> v \<noteq> JNull \<Longrightarrow> map_of m k = Some v"
proof -
  from merge_config_parts[OF assms] obtain mc where mc: "merge_channels (JObj rs) (JObj ls)
      (put_if_present ''gateway'' (case map_of rs (lit ''gateway'') of None \<Rightarrow> JNull | Some v \<Rightarrow> v)
        (put_if_present ''models'' (case map_of rs (lit ''models'') of None \<Rightarrow> JNull | Some v \<Rightarrow> v) ls)) = Inr mc"
    and mp: "merge_plugins (JObj rs) (JObj ls) mc = Inr m" by metis
  show "k \<notin> {lit ''models'', lit ''gateway'', lit ''channels'', lit ''plugins''} \<Longrightarrow> map_of m k = map_of ls k"
    using merge_plugins_other[OF mp, of k] merge_channels_other[OF mc, of k] by (simp add: put_if_present_other)
  show "k \<in> {lit ''models'', lit ''gateway''} \<Longrightarrow> map_of rs k = Some v \<Longrightarrow> v \<noteq> JNull \<Longrightarrow> map_of m k = Some v"
    using merge_plugins_other[OF mp, of k] merge_channels_other[OF mc, of k]
    by (auto simp: put_if_present_other put_if_present_same)
qed

section \<open>Properties\<close>

text \<open>C34: who wins in the merged configuration. After a successful merge, when both sides have channels and the
  local matrix channel a token, this access token is kept and every other leaf of the remote channels is in
  force; the remote model and gateway settings that are given replace the local ones; and every top-level key
  outside the merged sections keeps its local value.\<close>

theorem merged_config_precedence:
  assumes "merge_config (JObj rs) (JObj ls) = Inr m" and "wf_json (JObj rs)"
  shows "(\<forall>lcs rcs token. map_of ls (lit ''channels'') = Some (JObj lcs) \<and> map_of rs (lit ''channels'') = Some (JObj rcs)
        \<and> json_at [lit ''channels'', lit ''matrix'', lit ''accessToken''] (JObj ls) = Some token \<and> truthy token \<longrightarrow>
        json_at [lit ''channels'', lit ''matrix'', lit ''accessToken''] (JObj m) = Some token
        \<and> (\<forall>path v. json_at path (JObj rcs) = Some v \<and> \<not> is_dict v \<and> take 2 path \<noteq> [lit ''matrix'', lit ''accessToken''] \<longrightarrow>
             json_at (lit ''channels'' # path) (JObj m) = Some v))
    \<and> (\<forall>key u. key \<in> {lit ''models'', lit ''gateway''} \<and> map_of rs key = Some u \<and> u \<noteq> JNull \<longrightarrow> map_of m key = Some u)
    \<and> (\<forall>other. other \<notin> {lit ''models'', lit ''gateway'', lit ''channels'', lit ''plugins''} \<longrightarrow> map_of m other = map_of ls other)"
  using merged_config_holds[OF assms] merged_config_other[OF assms(1)] by blast

definition remote_config :: "(pystr \<times> json) list" where
  "remote_config =
     [(lit ''models'', JStr (lit ''remote'')),
      (lit ''channels'', JObj [(lit ''matrix'', JObj [(lit ''accessToken'', JStr (lit ''old'')), (lit ''user'', JStr (lit ''w''))])])]"

definition local_config :: "(pystr \<times> json) list" where
  "local_config =
     [(lit ''tools'', JStr (lit ''local'')),
      (lit ''channels'', JObj [(lit ''matrix'', JObj [(lit ''accessToken'', JStr (lit ''new''))])])]"

definition merged_config :: "(pystr \<times> json) list" where
  "merged_config =
     [(lit ''tools'', JStr (lit ''local'')),
      (lit ''channels'', JObj [(lit ''matrix'', JObj [(lit ''accessToken'', JStr (lit ''new'')), (lit ''user'', JStr (lit ''w''))])]),
      (lit ''models'', JStr (lit ''remote''))]"

lemma sample_merge: "merge_config (JObj remote_config) (JObj local_config) = Inr merged_config"
  by (simp add: merge_config_def remote_config_def local_config_def merged_config_def put_if_present_def
      merge_channels_def or_empty_def local_token_def put_token_def merge_plugins_def)

lemma merged_config_precedence_witness:
  "json_at [lit ''channels'', lit ''matrix'', lit ''accessToken''] (JObj merged_config) = Some (JStr (lit ''new''))
    \<and> json_at (lit ''channels'' # [lit ''matrix'', lit ''user'']) (JObj merged_config) = Some (JStr (lit ''w''))
    \<and> map_of merged_config (lit ''models'') = Some (JStr (lit ''remote''))
    \<and> map_of merged_config (lit ''tools'') = map_of local_config (lit ''tools'')"
proof -
  have wf: "wf_json (JObj remote_config)" by (simp add: remote_config_def)
  show ?thesis
    by (intro conjI merged_config_precedence[OF sample_merge wf, THEN conjunct1, rule_format, THEN conjunct1]
        merged_config_precedence[OF sample_merge wf, THEN conjunct1, rule_format, THEN conjunct2, rule_format]
        merged_config_precedence[OF sample_merge wf, THEN conjunct2, THEN conjunct1, rule_format]
        merged_config_precedence[OF sample_merge wf, THEN conjunct2, THEN conjunct2, rule_format])
      (auto simp: remote_config_def local_config_def)
qed

text \<open>A local configuration whose channels are \<open>null\<close> makes the merge fail with an \<open>AttributeError\<close> as soon
  as the remote one has channels: the token is looked up in the \<open>null\<close>.\<close>

lemma null_channels_abort:
  assumes "map_of ls (lit ''channels'') = Some JNull" and "map_of rs (lit ''channels'') = Some (JObj rcs)" and "rcs \<noteq> []"
  shows "merge_config (JObj rs) (JObj ls) = Inl not_a_dict"
  using assms by (simp add: merge_config_def merge_channels_def or_empty_def local_token_def not_a_dict_def Let_def)

end
