(* ===== verification/Sync_Files.thy ===== *)
theory Sync_Files
  imports Sync_Config Tool_Common
begin

text \<open>
  \<open>FileSync\<close> of \<open>copaw_worker/sync.py\<close>: the shared paths, the commands of the storage client \<open>mc\<close>, what is
  pulled and pushed, and what of a command may be logged. Processes and files are parameters that act
  on a state.
\<close>

section \<open>The environment\<close>

record mc_result =
  mr_returncode :: int
  mr_stdout :: pystr
  mr_stderr :: pystr

text \<open>
  The fields of a \<open>FileSync\<close>; the paths of \<open>mc\<close> and of the controller's \<open>agt\<close>, running a command of either
  (the controller is asked once), the shell function that refreshes the credentials of the cloud, and
  the files below the local directory. The flag \<open>_alias_set\<close> is kept in the state; a state without a
  place for it reads it as unset, and then the alias is set again.
\<close>

record 's sync_env =
  se_alias :: pystr
  se_endpoint :: pystr
  se_access_key :: pystr
  se_secret_key :: pystr
  se_secure :: bool
  se_runtime :: pystr
  se_alias_set :: "'s \<Rightarrow> bool"
  se_put_alias :: "bool \<Rightarrow> 's \<Rightarrow> 's"
  se_refresh_credentials :: "('s, unit) actS"
  se_bucket :: pystr
  se_worker_name :: pystr
  se_worker_cr_name :: pystr
  se_local_dir :: pystr
  se_shared_dir :: pystr
  se_global_shared_dir :: pystr
  se_mc_bin :: "pystr option"
  se_run :: "pystr list \<Rightarrow> ('s, mc_result) actS"
  se_agt_bin :: "pystr option"
  se_agt_run :: "pystr list \<Rightarrow> pystr res"
  se_float :: "pystr \<Rightarrow> pyfloat"
  se_exc_text :: "exc \<Rightarrow> pystr"
  se_mkdir :: "pystr \<Rightarrow> ('s, unit) actS"
  se_exists :: "pystr \<Rightarrow> 's \<Rightarrow> bool"
  se_is_dir :: "pystr \<Rightarrow> 's \<Rightarrow> bool"
  se_read :: "pystr \<Rightarrow> ('s, pystr) actS"
  se_write :: "pystr \<Rightarrow> pystr \<Rightarrow> ('s, unit) actS"
  se_chmod_scripts :: "pystr \<Rightarrow> ('s, unit) actS"
  se_child_dirs :: "pystr \<Rightarrow> 's \<Rightarrow> pystr list"
  se_rmtree :: "pystr \<Rightarrow> ('s, unit) actS"

section \<open>Commands\<close>

fun split_once :: "pystr \<Rightarrow> pystr \<Rightarrow> (pystr \<times> pystr) option" where
  "split_once sep [] = None"
| "split_once sep (c # s) =
     (if startswith (c # s) sep then Some ([], drop (length sep) (c # s))
      else map_option (\<lambda>(a, b). (c # a, b)) (split_once sep s))"

definition redact_url_userinfo :: "pystr \<Rightarrow> pystr" where
  "redact_url_userinfo value = (case split_once (lit ''://'') value of
     None \<Rightarrow> value
   | Some (scheme, rest) \<Rightarrow> (case split_once [64] rest of
       None \<Rightarrow> value
     | Some (userinfo, host) \<Rightarrow> scheme @ lit ''://<redacted>@'' @ host))"

text \<open>The command as it is logged; the keys of \<open>mc alias set\<close> are its last arguments.\<close>

definition redacted_mc_command :: "pystr list \<Rightarrow> pystr list" where
  "redacted_mc_command cmd =
     (let redacted = map redact_url_userinfo cmd; args = tl redacted in
      if 6 \<le> length args \<and> args ! 0 = lit ''alias'' \<and> args ! 1 = lit ''set''
      then redacted[5 := lit ''<redacted-access-key>'', 6 := lit ''<redacted-secret-key>'']
      else redacted)"

text \<open>The path of a program, which \<open>shutil.which\<close> may not find.\<close>

definition found_program :: "pystr option \<Rightarrow> pystr option" where
  "found_program p = (if p = Some [] then None else p)"

definition mc :: "'s sync_env \<Rightarrow> pystr list \<Rightarrow> bool \<Rightarrow> ('s, mc_result) actS" where
  "mc E args check = (case found_program (se_mc_bin E) of
     None \<Rightarrow> raiseS (RuntimeError (lit ''mc binary not found on PATH. Please install mc first.''))
   | Some mc_bin \<Rightarrow>
       bindS (se_run E (mc_bin # args)) (\<lambda>r.
       if check \<and> mr_returncode r \<noteq> 0 then raiseS (CalledProcessError (mr_stdout r) (mr_stderr r))
       else returnS r))"

text \<open>
  The alias of the storage: in the cluster a wrapper of \<open>mc\<close> has the credentials, in the cloud they are
  refreshed every time, and otherwise the alias is set once.
\<close>

definition alias_url :: "'s sync_env \<Rightarrow> pystr" where
  "alias_url E =
     (if startswith (se_endpoint E) (lit ''http'') then se_endpoint E
      else (if se_secure E then lit ''https'' else lit ''http'') @ lit ''://'' @ se_endpoint E)"

definition mark_alias :: "'s sync_env \<Rightarrow> ('s, unit) actS" where
  "mark_alias E s = (Inr (), se_put_alias E True s)"

definition ensure_alias :: "'s sync_env \<Rightarrow> ('s, unit) actS" where
  "ensure_alias E =
     (if se_runtime E = lit ''k8s'' then mark_alias E
      else if se_runtime E = lit ''aliyun'' then bindS (se_refresh_credentials E) (\<lambda>_. mark_alias E)
      else
        bindS (getS (se_alias_set E)) (\<lambda>there.
        if there then returnS ()
        else
          bindS (mc E [lit ''alias'', lit ''set'', se_alias E, alias_url E, se_access_key E, se_secret_key E] True) (\<lambda>_.
          mark_alias E)))"

text \<open>\<open>except Exception: return default\<close>.\<close>

definition catch_all :: "('s, 'a) actS \<Rightarrow> 'a \<Rightarrow> ('s, 'a) actS" where
  "catch_all m d s = (case m s of (Inl e, s') \<Rightarrow> (Inr d, s') | r \<Rightarrow> r)"

definition looks_like_remote_directory_error :: "pystr \<Rightarrow> pystr \<Rightarrow> bool" where
  "looks_like_remote_directory_error out err =
     occurs (lit ''--recursive flag is required'') (err @ [10] @ out)"

definition object_path :: "'s sync_env \<Rightarrow> pystr \<Rightarrow> pystr" where
  "object_path E key = se_alias E @ lit ''/'' @ se_bucket E @ lit ''/'' @ key"

definition worker_prefix :: "'s sync_env \<Rightarrow> pystr" where
  "worker_prefix E = lit ''agents/'' @ se_worker_name E"

definition sync_cat :: "'s sync_env \<Rightarrow> pystr \<Rightarrow> ('s, pystr option) actS" where
  "sync_cat E key =
     bindS (ensure_alias E) (\<lambda>_.
     catch_all (bindS (mc E [lit ''cat'', object_path E key] False) (\<lambda>r.
       returnS (if mr_returncode r = 0 then Some (mr_stdout r) else None))) None)"

text \<open>The last field of each line of \<open>mc ls\<close>; a failure is an empty list.\<close>

definition listed_names :: "pystr \<Rightarrow> pystr list" where
  "listed_names out = map last (filter (\<lambda>parts. parts \<noteq> []) (map (\<lambda>line. split_ws (strip line)) (splitlines out)))"

definition sync_ls :: "'s sync_env \<Rightarrow> pystr \<Rightarrow> ('s, pystr list) actS" where
  "sync_ls E prefix =
     bindS (ensure_alias E) (\<lambda>_.
     catch_all (bindS (mc E [lit ''ls'', lit ''--recursive'', object_path E prefix] True) (\<lambda>r.
       returnS (listed_names (mr_stdout r)))) [])"

section \<open>The scope of a worker\<close>

definition worker_info :: "'s sync_env \<Rightarrow> (pystr \<times> json) list res" where
  "worker_info E = (case found_program (se_agt_bin E) of
     None \<Rightarrow> Inl (RuntimeError (lit ''AgentTeams CLI not found; cannot resolve worker storage scope''))
   | Some agt_bin \<Rightarrow>
       (case bindE (se_agt_run E [agt_bin, lit ''get'', lit ''workers'', se_worker_cr_name E, lit ''-o'', lit ''json''])
               (loads (se_float E)) of
          Inl e \<Rightarrow> Inl (RuntimeError (lit ''failed to query worker metadata for '' @ se_worker_cr_name E @ lit '': ''
                     @ se_exc_text E e))
        | Inr (JObj kvs) \<Rightarrow> Inr kvs
        | Inr v \<Rightarrow> Inl (RuntimeError (lit ''invalid worker metadata for '' @ se_worker_cr_name E))))"

text \<open>The name of a team without the prefix of the bucket.\<close>

definition bucket_prefixes :: "pystr \<Rightarrow> pystr list" where
  "bucket_prefixes bucket =
     (let name = strip bucket in
      name # (if startswith name (lit ''agentteams-'') then [removeprefix name (lit ''agentteams-'')] else []))"

definition team_storage_name :: "pystr \<Rightarrow> pystr \<Rightarrow> pystr" where
  "team_storage_name bucket team_ref =
     (let team_name = strip team_ref in
      case filter (\<lambda>p. p \<noteq> [] \<and> startswith team_name (p @ [45])) (bucket_prefixes bucket) of
        [] \<Rightarrow> team_name
      | p # _ \<Rightarrow> drop (length p + 1) team_name)"

definition team_id :: "'s sync_env \<Rightarrow> pystr option res" where
  "team_id E = bindE (worker_info E) (\<lambda>worker. Inr (case map_of worker (lit ''team'') of
     Some (JStr team_ref) \<Rightarrow> if strip team_ref = [] then None else Some (team_storage_name (se_bucket E) team_ref)
   | _ \<Rightarrow> None))"

definition is_team_leader :: "'s sync_env \<Rightarrow> bool res" where
  "is_team_leader E = bindE (worker_info E) (\<lambda>worker.
     Inr (map_of worker (lit ''role'') = Some (JStr (lit ''team_leader''))))"

definition global_shared_remote :: "'s sync_env \<Rightarrow> pystr" where
  "global_shared_remote E = se_alias E @ lit ''/'' @ se_bucket E @ lit ''/shared/''"

definition shared_remote :: "'s sync_env \<Rightarrow> pystr res" where
  "shared_remote E = bindE (team_id E) (\<lambda>team. Inr (case team of
     Some t \<Rightarrow> if t = [] then global_shared_remote E
               else se_alias E @ lit ''/'' @ se_bucket E @ lit ''/teams/'' @ t @ lit ''/shared/''
   | None \<Rightarrow> global_shared_remote E))"

section \<open>Shared paths\<close>

record shared_path =
  sp_kind :: pystr
  sp_subpath :: pystr
  sp_local :: pystr
  sp_remote :: pystr

definition verr :: "string \<Rightarrow> exc" where
  "verr msg = ValueError (lit msg)"

definition ends_slash :: "pystr \<Rightarrow> bool" where
  "ends_slash s \<longleftrightarrow> s \<noteq> [] \<and> last s = 47"

definition joinpath :: "pystr \<Rightarrow> pystr list \<Rightarrow> pystr" where
  "joinpath dir parts = (if parts = [] then dir else dir @ [47] @ join [47] parts)"

definition shared_target :: "pystr \<Rightarrow> pystr \<Rightarrow> pystr \<Rightarrow> pystr list \<Rightarrow> pystr \<Rightarrow> shared_path" where
  "shared_target kind raw dir parts remote =
     (let subpath = join [47] parts in
      \<lparr>sp_kind = kind, sp_subpath = subpath, sp_local = joinpath dir parts,
       sp_remote = (if subpath \<noteq> [] then remote @ subpath @ (if ends_slash raw then [47] else []) else remote)\<rparr>)"

definition resolve_shared_path :: "'s sync_env \<Rightarrow> pystr \<Rightarrow> shared_path res" where
  "resolve_shared_path E path =
     (let raw = strip path; parts = path_parts (strip_chars [47] raw) in
      if raw = [] then Inl (verr ''path is required'')
      else if startswith raw [47] \<or> 92 \<in> set raw then Inl (verr ''path must be a relative shared path'')
      else if parts = [] \<or> list_ex (\<lambda>part. part \<in> {[], lit ''.'', lit ''..''}) parts then
        Inl (ValueError (lit ''path must not contain empty, '' @ [39] @ lit ''.'' @ [39] @ lit '', or '' @ [39] @ lit ''..'' @ [39] @ lit '' segments''))
      else if hd parts = lit ''shared'' then
        bindE (shared_remote E) (\<lambda>remote. Inr (shared_target (lit ''shared'') raw (se_shared_dir E) (tl parts) remote))
      else if hd parts = lit ''global-shared'' then
        Inr (shared_target (lit ''global-shared'') raw (se_global_shared_dir E) (tl parts) (global_shared_remote E))
      else Inl (verr ''path must start with shared/ or global-shared/''))"

definition path_parent :: "pystr \<Rightarrow> pystr" where
  "path_parent p =
     (let parent = join [47] (butlast (split_on 47 p)) in
      if parent = [] then (if startswith p [47] then [47] else [46]) else parent)"

text \<open>\<open>try: ... except subprocess.CalledProcessError as exc\<close>.\<close>

definition on_called_process_error ::
  "('s, 'a) actS \<Rightarrow> (pystr \<Rightarrow> pystr \<Rightarrow> ('s, 'a) actS) \<Rightarrow> ('s, 'a) actS" where
  "on_called_process_error m handler s = (case m s of
     (Inl (CalledProcessError out err), s') \<Rightarrow> handler out err s'
   | r \<Rightarrow> r)"

definition mirror :: "'s sync_env \<Rightarrow> pystr \<Rightarrow> pystr \<Rightarrow> ('s, mc_result) actS" where
  "mirror E src dst = mc E [lit ''mirror'', src, dst, lit ''--overwrite''] True"

definition with_slash :: "pystr \<Rightarrow> pystr" where
  "with_slash s = (if ends_slash s then s else s @ [47])"

definition pull_shared_path :: "'s sync_env \<Rightarrow> pystr \<Rightarrow> ('s, shared_path) actS" where
  "pull_shared_path E path =
     bindS (liftS (resolve_shared_path E path)) (\<lambda>resolved.
     bindS (ensure_alias E) (\<lambda>_.
     if ends_slash (strip path) then
       bindS (se_mkdir E (sp_local resolved)) (\<lambda>_.
       bindS (mirror E (sp_remote resolved) (sp_local resolved @ [47])) (\<lambda>_.
       returnS resolved))
     else
       bindS (se_mkdir E (path_parent (sp_local resolved))) (\<lambda>_.
       on_called_process_error
         (bindS (mc E [lit ''cp'', sp_remote resolved, sp_local resolved] True) (\<lambda>_. returnS resolved))
         (\<lambda>out err.
           if \<not> looks_like_remote_directory_error out err then raiseS (CalledProcessError out err)
           else
             bindS (se_mkdir E (sp_local resolved)) (\<lambda>_.
             bindS (mirror E (with_slash (sp_remote resolved)) (sp_local resolved @ [47])) (\<lambda>_.
             returnS resolved))))))"

definition push_shared_path :: "'s sync_env \<Rightarrow> pystr \<Rightarrow> pystr list \<Rightarrow> ('s, shared_path) actS" where
  "push_shared_path E path exclude =
     bindS (liftS (resolve_shared_path E path)) (\<lambda>resolved.
     bindS (liftS (raise_if (sp_kind resolved = lit ''global-shared'') (verr ''global-shared/ is read-only''))) (\<lambda>_.
     bindS (getS (se_exists E (sp_local resolved))) (\<lambda>there.
     bindS (liftS (raise_if (\<not> there) (OSError (lit ''local path does not exist: '' @ sp_local resolved)))) (\<lambda>_.
     bindS (ensure_alias E) (\<lambda>_.
     bindS (getS (se_is_dir E (sp_local resolved))) (\<lambda>dir.
     bindS (if dir then
              mc E ([lit ''mirror'', sp_local resolved @ [47], with_slash (sp_remote resolved), lit ''--overwrite'']
                    @ concat (map (\<lambda>item. [lit ''--exclude'', item]) exclude)) True
            else mc E [lit ''cp'', sp_local resolved, sp_remote resolved] True) (\<lambda>_.
     returnS resolved)))))))"

definition stat_shared_path :: "'s sync_env \<Rightarrow> pystr \<Rightarrow> ('s, shared_path) actS" where
  "stat_shared_path E path =
     bindS (liftS (resolve_shared_path E path)) (\<lambda>resolved.
     bindS (ensure_alias E) (\<lambda>_.
     bindS (mc E [lit ''stat'', sp_remote resolved] True) (\<lambda>_. returnS resolved)))"

definition list_shared_path :: "'s sync_env \<Rightarrow> pystr \<Rightarrow> ('s, shared_path \<times> pystr list) actS" where
  "list_shared_path E path =
     bindS (liftS (resolve_shared_path E path)) (\<lambda>resolved.
     bindS (ensure_alias E) (\<lambda>_.
     bindS (mc E [lit ''ls'', lit ''--recursive'', sp_remote resolved] True) (\<lambda>r.
     returnS (resolved, filter (\<lambda>l. l \<noteq> []) (map strip (splitlines (mr_stdout r)))))))"

section \<open>Pulling the worker's files\<close>

text \<open>The names of the skills: the first component of each entry, each once.\<close>

fun skill_names :: "pystr list \<Rightarrow> pystr list \<Rightarrow> pystr list" where
  "skill_names seen [] = []"
| "skill_names seen (entry # entries) =
     (let name = hd (split_on 47 (rstrip_slash entry)) in
      if name \<noteq> [] \<and> name \<notin> set seen then name # skill_names (name # seen) entries
      else skill_names seen entries)"

definition list_skills :: "'s sync_env \<Rightarrow> ('s, pystr list) actS" where
  "list_skills E = bindS (sync_ls E (worker_prefix E @ lit ''/skills/'')) (\<lambda>entries. returnS (skill_names [] entries))"

definition controller_files :: "(string \<times> string list) list" where
  "controller_files =
     [(''openclaw.json'', [''openclaw.json'']),
      (''runtime/runtime.yaml'', [''runtime/runtime.yaml'']),
      (''config/mcporter.json'', [''config/mcporter.json'', ''mcporter-servers.json'']),
      (''config/credagent.json'', [''config/credagent.json''])]"

text \<open>The content of the first key that exists.\<close>

fun first_content :: "'s sync_env \<Rightarrow> string list \<Rightarrow> ('s, pystr option) actS" where
  "first_content E [] = returnS None"
| "first_content E (key # ks) =
     bindS (sync_cat E (worker_prefix E @ [47] @ lit key)) (\<lambda>content.
     case content of Some c \<Rightarrow> returnS (Some c) | None \<Rightarrow> first_content E ks)"

definition local_path :: "'s sync_env \<Rightarrow> pystr \<Rightarrow> pystr" where
  "local_path E rel = se_local_dir E @ [47] @ rel"

definition read_existing :: "'s sync_env \<Rightarrow> pystr \<Rightarrow> ('s, pystr option) actS" where
  "read_existing E local =
     bindS (getS (se_exists E local)) (\<lambda>there.
     if there then bindS (se_read E local) (\<lambda>text. returnS (Some text)) else returnS None)"

text \<open>The remote \<open>openclaw.json\<close> is merged with the local one; what is no JSON is replaced.\<close>

definition merged_content :: "(pystr \<Rightarrow> pyfloat) \<Rightarrow> string \<Rightarrow> pystr \<Rightarrow> pystr option \<Rightarrow> pystr res" where
  "merged_content F name content existing = (case existing of
     Some e \<Rightarrow>
       if name = ''openclaw.json'' then
         (case merge_openclaw_config F content e of Inl (JSONDecodeError m) \<Rightarrow> Inr content | r \<Rightarrow> r)
       else Inr content
   | None \<Rightarrow> Inr content)"

definition pull_file :: "(pystr \<Rightarrow> pyfloat) \<Rightarrow> 's sync_env \<Rightarrow> string \<Rightarrow> string list \<Rightarrow> ('s, pystr list) actS" where
  "pull_file F E name ks =
     bindS (first_content E ks) (\<lambda>found.
     case found of
       None \<Rightarrow> returnS []
     | Some content \<Rightarrow>
         (let local = local_path E (lit name) in
          bindS (read_existing E local) (\<lambda>existing.
          bindS (liftS (merged_content F name content existing)) (\<lambda>content.
          if Some content = existing then returnS []
          else
            bindS (se_mkdir E (path_parent local)) (\<lambda>_.
            bindS (se_write E local content) (\<lambda>_.
            returnS [lit name]))))))"

fun pull_files :: "(pystr \<Rightarrow> pyfloat) \<Rightarrow> 's sync_env \<Rightarrow> (string \<times> string list) list \<Rightarrow> ('s, pystr list) actS" where
  "pull_files F E [] = returnS []"
| "pull_files F E ((name, ks) # files) =
     bindS (pull_file F E name ks) (\<lambda>changed.
     bindS (pull_files F E files) (\<lambda>rest. returnS (changed @ rest)))"

definition skills_dir :: "'s sync_env \<Rightarrow> pystr" where
  "skills_dir E = local_path E (lit ''skills'')"

definition pull_skill :: "'s sync_env \<Rightarrow> pystr \<Rightarrow> ('s, pystr list) actS" where
  "pull_skill E skill =
     (let local = skills_dir E @ [47] @ skill in
      bindS (se_mkdir E local) (\<lambda>_.
      catch_all
        (bindS (mc E [lit ''mirror'', object_path E (worker_prefix E @ lit ''/skills/'' @ skill @ [47]),
                      local @ [47], lit ''--overwrite''] False) (\<lambda>r.
         if mr_returncode r = 0 then
           bindS (se_chmod_scripts E local) (\<lambda>_. returnS [lit ''skills/'' @ skill @ [47]])
         else returnS [])) []))"

fun pull_skills :: "'s sync_env \<Rightarrow> pystr list \<Rightarrow> ('s, pystr list) actS" where
  "pull_skills E [] = returnS []"
| "pull_skills E (skill # skills) =
     bindS (pull_skill E skill) (\<lambda>changed.
     bindS (pull_skills E skills) (\<lambda>rest. returnS (changed @ rest)))"

fun remove_skills :: "'s sync_env \<Rightarrow> pystr list \<Rightarrow> ('s, pystr list) actS" where
  "remove_skills E [] = returnS []"
| "remove_skills E (child # children) =
     bindS (se_rmtree E (skills_dir E @ [47] @ child)) (\<lambda>_.
     bindS (remove_skills E children) (\<lambda>rest. returnS ((lit ''skills/'' @ child @ lit ''/ (removed)'') # rest)))"

definition prune_skills :: "'s sync_env \<Rightarrow> pystr list \<Rightarrow> ('s, pystr list) actS" where
  "prune_skills E skills =
     bindS (getS (se_is_dir E (skills_dir E))) (\<lambda>dir.
     if dir then
       bindS (getS (\<lambda>s. filter (\<lambda>child. child \<notin> set skills) (se_child_dirs E (skills_dir E) s))) (remove_skills E)
     else returnS [])"

definition pull_all :: "(pystr \<Rightarrow> pyfloat) \<Rightarrow> 's sync_env \<Rightarrow> ('s, pystr list) actS" where
  "pull_all F E =
     bindS (pull_files F E controller_files) (\<lambda>changed.
     bindS (list_skills E) (\<lambda>skills.
     bindS (pull_skills E skills) (\<lambda>pulled.
     bindS (prune_skills E skills) (\<lambda>removed.
     returnS (changed @ pulled @ removed)))))"

section \<open>The mirror at the start\<close>

definition startup_files :: "string list" where
  "startup_files = [''openclaw.json'', ''AGENTS.md'', ''SOUL.md'', ''HEARTBEAT.md'', ''config/mcporter.json'',
     ''mcporter-servers.json'']"

fun pull_startup_files :: "'s sync_env \<Rightarrow> string list \<Rightarrow> ('s, pystr list) actS" where
  "pull_startup_files E [] = returnS []"
| "pull_startup_files E (rel # rels) =
     bindS (sync_cat E (worker_prefix E @ [47] @ lit rel)) (\<lambda>content.
     case content of
       None \<Rightarrow> pull_startup_files E rels
     | Some text \<Rightarrow>
         bindS (se_mkdir E (path_parent (local_path E (lit rel)))) (\<lambda>_.
         bindS (se_write E (local_path E (lit rel)) text) (\<lambda>_.
         bindS (pull_startup_files E rels) (\<lambda>rest. returnS (lit rel # rest)))))"

definition looks_like_missing_object_error :: "pystr \<Rightarrow> bool" where
  "looks_like_missing_object_error text \<longleftrightarrow>
     occurs (lit ''Object does not exist'') text \<or> occurs (lit ''The specified key does not exist'') text"

definition mirror_worker :: "'s sync_env \<Rightarrow> ('s, unit) actS" where
  "mirror_worker E =
     on_called_process_error
       (bindS (mc E [lit ''mirror'', object_path E (worker_prefix E @ [47]), se_local_dir E @ [47],
                     lit ''--overwrite'', lit ''--exclude'', lit ''credentials/**''] True) (\<lambda>_. returnS ()))
       (\<lambda>out err.
         if \<not> looks_like_missing_object_error (err @ [10] @ out) then raiseS (CalledProcessError out err)
         else bindS (pull_startup_files E startup_files) (\<lambda>_. returnS ()))"

text \<open>A mirror whose failure is only logged.\<close>

definition mirror_optional :: "'s sync_env \<Rightarrow> pystr \<Rightarrow> pystr \<Rightarrow> ('s, unit) actS" where
  "mirror_optional E src dst =
     bindS (se_mkdir E dst) (\<lambda>_.
     on_called_process_error (bindS (mirror E src (dst @ [47])) (\<lambda>_. returnS ())) (\<lambda>out err. returnS ()))"

definition mirror_all :: "'s sync_env \<Rightarrow> ('s, unit) actS" where
  "mirror_all E =
     bindS (ensure_alias E) (\<lambda>_.
     bindS (mirror_worker E) (\<lambda>_.
     bindS (getS (se_exists E (local_path E (lit ''openclaw.json'')))) (\<lambda>there.
     bindS (liftS (raise_if (\<not> there)
        (RuntimeError (lit ''openclaw.json not found in MinIO for worker '' @ se_worker_name E)))) (\<lambda>_.
     bindS (liftS (shared_remote E)) (\<lambda>remote.
     bindS (mirror_optional E remote (se_shared_dir E)) (\<lambda>_.
     bindS (liftS (is_team_leader E)) (\<lambda>leader.
     if leader then mirror_optional E (global_shared_remote E) (se_global_shared_dir E) else returnS ())))))))"

definition get_config :: "(pystr \<Rightarrow> pyfloat) \<Rightarrow> 's sync_env \<Rightarrow> ('s, json) actS" where
  "get_config F E =
     bindS (sync_cat E (worker_prefix E @ lit ''/openclaw.json'')) (\<lambda>text.
     case text of
       Some t \<Rightarrow>
         if t = [] then raiseS (RuntimeError (lit ''openclaw.json not found in MinIO for worker '' @ se_worker_name E))
         else liftS (loads F t)
     | None \<Rightarrow> raiseS (RuntimeError (lit ''openclaw.json not found in MinIO for worker '' @ se_worker_name E)))"

section \<open>Pushing local changes\<close>

text \<open>A file is given by the components of its path below the local directory.\<close>

definition posix :: "pystr list \<Rightarrow> pystr" where
  "posix parts = join [47] parts"

definition path_suffix :: "pystr \<Rightarrow> pystr" where
  "path_suffix name =
     (let after = takeWhile (\<lambda>c. c \<noteq> 46) (rev name); stem = length name - length after - 1 in
      if 46 \<in> set name \<and> 0 < stem \<and> after \<noteq> [] then 46 # rev after else [])"

definition exclude_files :: "string list" where
  "exclude_files = [''openclaw.json'', ''mcporter-servers.json'']"

definition exclude_paths :: "string list" where
  "exclude_paths = [''config/mcporter.json'', ''runtime/runtime.yaml'',
     ''.copaw/workspaces/default/config/mcporter.json'']"

definition exclude_prefixes :: "string list" where
  "exclude_prefixes = [''.copaw/workspaces/default/skills'', ''.copaw/workspaces/default/shared'',
     ''.copaw/workspaces/default/global-shared'', ''shared'', ''global-shared'']"

definition exclude_dirs :: "string list" where
  "exclude_dirs = [''.agents'', ''.cache'', ''.npm'', ''.local'', ''.mc'', ''custom_channels'', ''active_skills'',
     ''__pycache__'']"

definition pushable :: "pystr list \<Rightarrow> bool" where
  "pushable parts \<longleftrightarrow>
     \<not> (length parts = 1 \<and> last parts \<in> set (map lit exclude_files))
     \<and> posix parts \<notin> set (map lit exclude_paths)
     \<and> \<not> list_ex (\<lambda>prefix. posix parts = lit prefix \<or> startswith (posix parts) (lit prefix @ [47])) exclude_prefixes
     \<and> \<not> list_ex (\<lambda>part. part \<in> set (map lit exclude_dirs)) parts
     \<and> path_suffix (last parts) \<noteq> lit ''.lock''"

text \<open>\<open>changed\<close>: the files below the local directory that are newer than the last push.\<close>

definition push_file :: "'s sync_env \<Rightarrow> pystr list \<Rightarrow> ('s, pystr list) actS" where
  "push_file E parts =
     (let rel = posix parts; key = worker_prefix E @ [47] @ rel in
      catch_all
        (bindS (sync_cat E key) (\<lambda>remote.
         bindS (se_read E (local_path E rel)) (\<lambda>local_content.
         if remote = Some local_content then returnS []
         else
           bindS (mc E [lit ''cp'', local_path E rel, object_path E key] True) (\<lambda>_. returnS [rel])))) [])"

fun push_files :: "'s sync_env \<Rightarrow> pystr list list \<Rightarrow> ('s, pystr list) actS" where
  "push_files E [] = returnS []"
| "push_files E (parts # files) =
     (if pushable parts then
        bindS (push_file E parts) (\<lambda>pushed.
        bindS (push_files E files) (\<lambda>rest. returnS (pushed @ rest)))
      else push_files E files)"

definition push_local ::
  "'s sync_env \<Rightarrow> ('s, unit) actS \<Rightarrow> ('s \<Rightarrow> pystr list list) \<Rightarrow> ('s, pystr list) actS" where
  "push_local E bridge changed =
     bindS (getS (se_exists E (se_local_dir E))) (\<lambda>there.
     if \<not> there then returnS []
     else
       bindS (\<lambda>s. case bridge s of
           (Inl e, s') \<Rightarrow> (Inl (RuntimeError (se_exc_text E e)), s') | r \<Rightarrow> r) (\<lambda>_.
       bindS (ensure_alias E) (\<lambda>_.
       bindS (getS changed) (push_files E))))"

section \<open>Shared paths stay inside\<close>

lemma split_on_parts: "p \<in> set (split_on d s) \<Longrightarrow> d \<notin> set p \<and> set p \<subseteq> set s"
  by (induction d s arbitrary: p rule: split_on.induct) (fastforce split: if_splits list.splits)+

lemma strip_chars_set: "set (strip_chars cs s) \<subseteq> set s"
proof
  fix x assume "x \<in> set (strip_chars cs s)"
  then show "x \<in> set s" by (auto simp: strip_chars_def dest!: set_dropWhileD)
qed

text \<open>A component of a path that stays in its directory.\<close>

definition plain_component :: "pystr \<Rightarrow> bool" where
  "plain_component p \<longleftrightarrow> p \<noteq> [] \<and> p \<noteq> lit ''.'' \<and> p \<noteq> lit ''..'' \<and> 47 \<notin> set p \<and> 92 \<notin> set p"

lemma path_root_relative: "\<not> startswith s [47] \<Longrightarrow> path_root s = []"
  by (cases s) (auto simp: path_root_def lit_def)

lemma strip_chars_start: "\<not> startswith (strip_chars [47] s) [47]"
proof -
  let ?d = "dropWhile (\<lambda>c. c = 47) s"
  have "hd (strip_chars [47] s) \<noteq> 47" if "strip_chars [47] s \<noteq> []"
  proof -
    have e: "strip_chars [47] s = rev (dropWhile (\<lambda>c. c = 47) (rev ?d))" by (simp add: strip_chars_def)
    have "?d \<noteq> []"
    proof
      assume "?d = []"
      with e have "strip_chars [47] s = []" by (simp only: rev.simps dropWhile.simps)
      with that show False ..
    qed
    then obtain c x where d: "?d = c # x" by (cases ?d) auto
    then have c: "c \<noteq> 47" by (metis (full_types) dropWhile_eq_Cons_conv)
    have "strip_chars [47] s = rev (dropWhile (\<lambda>c. c = 47) (rev x @ [c]))" by (simp add: strip_chars_def d)
    also have "\<dots> = c # rev (dropWhile (\<lambda>c. c = 47) (rev x))" using c by (simp add: dropWhile_append)
    finally show ?thesis using c by simp
  qed
  then show ?thesis by (cases "strip_chars [47] s") auto
qed

lemma relative_components:
  assumes "92 \<notin> set raw" and "\<not> list_ex (\<lambda>part. part \<in> {[], lit ''.'', lit ''..''}) (path_parts (strip_chars [47] raw))"
  shows "list_all plain_component (path_parts (strip_chars [47] raw))"
proof -
  have "path_root (strip_chars [47] raw) = []" by (rule path_root_relative[OF strip_chars_start])
  then have "47 \<notin> set p \<and> 92 \<notin> set p" if "p \<in> set (path_parts (strip_chars [47] raw))" for p
    using that split_on_parts[of p 47 "strip_chars [47] raw"] strip_chars_set[of "[47]" raw] assms(1)
    by (auto simp: path_parts_def)
  then show ?thesis using assms(2) by (auto simp: list_all_iff list_ex_iff plain_component_def)
qed

lemma list_all_tl: "list_all P xs \<Longrightarrow> list_all P (tl xs)"
  by (cases xs) auto

lemma resolved_inside:
  assumes "resolve_shared_path E path = Inr r"
  obtains parts dir base where "list_all plain_component parts" and "sp_local r = joinpath dir parts"
    and "sp_remote r = base @ join [47] parts \<or> sp_remote r = base @ join [47] parts @ [47]"
    and "sp_kind r = lit ''shared'' \<and> dir = se_shared_dir E \<and> shared_remote E = Inr base
      \<or> sp_kind r = lit ''global-shared'' \<and> dir = se_global_shared_dir E \<and> base = global_shared_remote E"
proof -
  let ?raw = "strip path" and ?parts = "path_parts (strip_chars [47] (strip path))"
  have ok: "92 \<notin> set ?raw" "\<not> list_ex (\<lambda>part. part \<in> {[], lit ''.'', lit ''..''}) ?parts"
    using assms by (auto simp: resolve_shared_path_def Let_def split: if_splits)
  have parts: "list_all plain_component (tl ?parts)" by (rule list_all_tl[OF relative_components[OF ok]])
  have target: "sp_local t = joinpath dir ps" "sp_kind t = kind"
      "sp_remote t = base @ join [47] ps \<or> sp_remote t = base @ join [47] ps @ [47]"
    if "t = shared_target kind ?raw dir ps base" for t kind dir ps base
    using that by (auto simp: shared_target_def Let_def)
  consider (shared) base where "shared_remote E = Inr base"
      "r = shared_target (lit ''shared'') ?raw (se_shared_dir E) (tl ?parts) base"
    | (global) "r = shared_target (lit ''global-shared'') ?raw (se_global_shared_dir E) (tl ?parts) (global_shared_remote E)"
    using assms by (auto simp: resolve_shared_path_def Let_def bindE_ok split: if_splits)
  then show thesis
  proof cases
    case shared
    with that[OF parts target(1)[OF shared(2)] target(3)[OF shared(2)]] target(2)[OF shared(2)] show ?thesis by simp
  next
    case global
    with that[OF parts target(1)[OF global] target(3)[OF global]] target(2)[OF global] show ?thesis by simp
  qed
qed

section \<open>A storage that does not answer\<close>

text \<open>
  Every command fails and changes nothing, after the alias has been set, as it is when the worker has
  started.
\<close>

definition unreachable :: "'s sync_env \<Rightarrow> 's \<Rightarrow> bool" where
  "unreachable E s \<longleftrightarrow> (\<forall>args. \<exists>r. se_run E args s = (Inr r, s) \<and> mr_returncode r \<noteq> 0)
     \<and> se_runtime E \<noteq> lit ''aliyun'' \<and> se_alias_set E s \<and> se_put_alias E True s = s"

lemma unreachable_alias: "unreachable E s \<Longrightarrow> ensure_alias E s = (Inr (), s)"
  by (simp add: unreachable_def ensure_alias_def mark_alias_def returnS_def)

lemma unreachable_mc:
  assumes "unreachable E s"
  shows "(\<exists>r. mc E args False s = (Inr r, s) \<and> mr_returncode r \<noteq> 0) \<or> (\<exists>e. mc E args False s = (Inl e, s))"
    and "\<exists>e. mc E args True s = (Inl e, s)"
proof -
  obtain r where "se_run E (the (found_program (se_mc_bin E)) # args) s = (Inr r, s)" "mr_returncode r \<noteq> 0"
    using assms unfolding unreachable_def by blast
  then show "(\<exists>r. mc E args False s = (Inr r, s) \<and> mr_returncode r \<noteq> 0) \<or> (\<exists>e. mc E args False s = (Inl e, s))"
    "\<exists>e. mc E args True s = (Inl e, s)"
    by (auto simp: mc_def bindS_def raiseS_def returnS_def split: option.split)
qed

lemma unreachable_cat: "unreachable E s \<Longrightarrow> sync_cat E key s = (Inr None, s)"
  using unreachable_mc(1)[of E s "[lit ''cat'', object_path E key]"]
  by (auto simp: sync_cat_def bindS_def[of "ensure_alias E"] unreachable_alias catch_all_def bindS_def[of "mc _ _ _"] returnS_def)

lemma unreachable_ls: "unreachable E s \<Longrightarrow> sync_ls E prefix s = (Inr [], s)"
  using unreachable_mc(2)[of E s "[lit ''ls'', lit ''--recursive'', object_path E prefix]"]
  by (auto simp: sync_ls_def bindS_def[of "ensure_alias E"] unreachable_alias catch_all_def bindS_def[of "mc _ _ _"])

lemma unreachable_content: "unreachable E s \<Longrightarrow> first_content E ks s = (Inr None, s)"
  by (induction ks) (simp_all add: returnS_def bindS_def unreachable_cat)

lemma unreachable_files: "unreachable E s \<Longrightarrow> pull_files F E files s = (Inr [], s)"
proof (induction files)
  case (Cons f files)
  obtain name ks where "f = (name, ks)" by (cases f)
  with Cons show ?case by (simp add: pull_file_def bindS_def unreachable_content returnS_def)
qed (simp add: returnS_def)

text \<open>The failed listing of the skills is taken for an empty one, so every local skill is removed.\<close>

lemma unreachable_pull_all:
  assumes "unreachable E s" and "se_is_dir E (skills_dir E) s"
  shows "pull_all F E s = remove_skills E (se_child_dirs E (skills_dir E) s) s"
proof -
  have "list_skills E s = (Inr [], s)" using assms(1) by (simp add: list_skills_def bindS_def unreachable_ls returnS_def)
  moreover have "prune_skills E [] s = remove_skills E (se_child_dirs E (skills_dir E) s) s"
    using assms(2) by (simp add: prune_skills_def)
  ultimately show ?thesis
    using assms(1) by (simp add: pull_all_def bindS_def unreachable_files returnS_def split: prod.split sum.split)
qed

section \<open>A sample\<close>

text \<open>A state that holds the flag of the alias and the names of the skill directories; no command succeeds.\<close>

definition worker_answer :: json where
  "worker_answer = JObj [(lit ''team'', JStr (lit ''acme-core''))]"

definition sample_sync :: "(bool \<times> pystr list) sync_env" where
  "sample_sync =
     \<lparr>se_alias = lit ''agentteams'', se_endpoint = lit ''minio:9000'', se_access_key = lit ''k'',
      se_secret_key = lit ''s'', se_secure = False, se_runtime = [], se_alias_set = fst,
      se_put_alias = (\<lambda>b (_, dirs). (b, dirs)), se_refresh_credentials = returnS (),
      se_bucket = lit ''agentteams-acme'', se_worker_name = lit ''w'',
      se_worker_cr_name = lit ''w'', se_local_dir = lit ''/d'', se_shared_dir = lit ''/d/shared'',
      se_global_shared_dir = lit ''/d/global-shared'', se_mc_bin = Some (lit ''mc''),
      se_run = (\<lambda>args s. (Inr \<lparr>mr_returncode = 1, mr_stdout = [], mr_stderr = lit ''timeout''\<rparr>, s)),
      se_agt_bin = Some (lit ''agt''), se_agt_run = (\<lambda>_. Inr (dumps worker_answer)), se_float = read_decimal,
      se_exc_text = (\<lambda>_. []), se_mkdir = (\<lambda>_. returnS ()),
      se_exists = (\<lambda>_ _. True), se_is_dir = (\<lambda>_ _. True), se_read = (\<lambda>_. returnS []),
      se_write = (\<lambda>_ _. returnS ()), se_chmod_scripts = (\<lambda>_. returnS ()), se_child_dirs = (\<lambda>_. snd),
      se_rmtree = (\<lambda>dir (b, dirs). (Inr (), (b, filter (\<lambda>name. lit ''/d/skills/'' @ name \<noteq> dir) dirs)))\<rparr>"

lemma sample_unreachable: "unreachable sample_sync (True, dirs)"
  by (simp add: unreachable_def sample_sync_def)

lemma sample_worker: "worker_info sample_sync = Inr [(lit ''team'', JStr (lit ''acme-core''))]"
proof -
  have "loads read_decimal (dumps worker_answer) = Inr (canon worker_answer)"
    by (rule loads_dumps[OF _ _ reads_floats_decimal]) (simp_all add: worker_answer_def)
  moreover have "canon worker_answer = worker_answer" by (simp add: worker_answer_def)
  ultimately show ?thesis
    by (simp add: worker_info_def sample_sync_def found_program_def) (simp add: lit_def worker_answer_def)
qed

lemma sample_scope: "shared_remote sample_sync = Inr (lit ''agentteams/agentteams-acme/teams/core/shared/'')"
proof -
  have strips: "strip (lit ''acme-core'') = lit ''acme-core''" "strip (lit ''agentteams-acme'') = lit ''agentteams-acme''"
    by (simp_all add: lit_def char_class_defs strip_def rstrip_def)
  have starts: "startswith (lit ''agentteams-acme'') (lit ''agentteams-'')"
    "\<not> startswith (lit ''acme-core'') (lit ''agentteams-acme'' @ [45])" "startswith (lit ''acme-core'') (lit ''acme'' @ [45])"
    by (simp_all add: lit_def)
  have drops: "drop (length (lit ''agentteams-'')) (lit ''agentteams-acme'') = lit ''acme''"
    "drop (length (lit ''acme'') + 1) (lit ''acme-core'') = lit ''core''"
    by (simp_all add: lit_def)
  have "bucket_prefixes (lit ''agentteams-acme'') = [lit ''agentteams-acme'', lit ''acme'']"
    unfolding bucket_prefixes_def Let_def strips removeprefix_def drops using starts by simp
  then have "team_storage_name (lit ''agentteams-acme'') (lit ''acme-core'') = lit ''core''"
    unfolding team_storage_name_def Let_def strips using starts drops by simp
  then have "team_id sample_sync = Inr (Some (lit ''core''))"
    by (simp add: team_id_def sample_worker strips) (simp add: sample_sync_def)
  then show ?thesis by (simp add: shared_remote_def sample_sync_def lit_append[symmetric])
qed

lemma sample_resolved:
  "resolve_shared_path sample_sync (lit ''shared/tasks/t1/'') = Inr
     \<lparr>sp_kind = lit ''shared'', sp_subpath = lit ''tasks/t1'', sp_local = lit ''/d/shared/tasks/t1'',
      sp_remote = lit ''agentteams/agentteams-acme/teams/core/shared/tasks/t1/''\<rparr>"
proof -
  have dir: "se_shared_dir sample_sync = lit ''/d/shared''" by (simp add: sample_sync_def)
  have raw: "strip (lit ''shared/tasks/t1/'') = lit ''shared/tasks/t1/''"
    by (simp add: lit_def char_class_defs strip_def rstrip_def)
  have parts: "path_parts (strip_chars [47] (lit ''shared/tasks/t1/'')) = [lit ''shared'', lit ''tasks'', lit ''t1'']"
    by (simp add: lit_def strip_chars_def path_parts_def path_root_def)
  have start: "\<not> startswith (lit ''shared/tasks/t1/'') [47]" "92 \<notin> set (lit ''shared/tasks/t1/'')"
    "ends_slash (lit ''shared/tasks/t1/'')"
    by (simp_all add: lit_def ends_slash_def)
  have target: "shared_target (lit ''shared'') (lit ''shared/tasks/t1/'') (lit ''/d/shared'') [lit ''tasks'', lit ''t1'']
      (lit ''agentteams/agentteams-acme/teams/core/shared/'')
    = \<lparr>sp_kind = lit ''shared'', sp_subpath = lit ''tasks/t1'', sp_local = lit ''/d/shared/tasks/t1'',
       sp_remote = lit ''agentteams/agentteams-acme/teams/core/shared/tasks/t1/''\<rparr>"
    unfolding shared_target_def Let_def using start(3) by (simp add: joinpath_def) (simp add: lit_def)
  show ?thesis
    unfolding resolve_shared_path_def Let_def raw parts
    using start by (simp add: sample_scope dir target)
qed

section \<open>Properties\<close>

text \<open>C33: a shared path never leads out of its area. Whatever text a caller gives, a path that is accepted
  denotes, below the shared (or global shared) directory and the storage area of the worker's team (or
  the global area), the same list of components, none of which is empty, a dot, two dots or contains
  a separator.\<close>

theorem shared_paths_confined:
  assumes "resolve_shared_path E path = Inr r"
  shows "\<exists>parts dir base. list_all plain_component parts \<and> sp_local r = joinpath dir parts
    \<and> (sp_remote r = base @ join [47] parts \<or> sp_remote r = base @ join [47] parts @ [47])
    \<and> (sp_kind r = lit ''shared'' \<and> dir = se_shared_dir E \<and> shared_remote E = Inr base
       \<or> sp_kind r = lit ''global-shared'' \<and> dir = se_global_shared_dir E \<and> base = global_shared_remote E)"
  using assms by (rule resolved_inside) blast

lemma shared_paths_confined_witness:
  "\<exists>parts dir base. list_all plain_component parts \<and> lit ''/d/shared/tasks/t1'' = joinpath dir parts
    \<and> (lit ''agentteams/agentteams-acme/teams/core/shared/tasks/t1/'' = base @ join [47] parts
       \<or> lit ''agentteams/agentteams-acme/teams/core/shared/tasks/t1/'' = base @ join [47] parts @ [47])
    \<and> (lit ''shared'' = lit ''shared'' \<and> dir = se_shared_dir sample_sync \<and> shared_remote sample_sync = Inr base
       \<or> lit ''shared'' = lit ''global-shared'' \<and> dir = se_global_shared_dir sample_sync
         \<and> base = global_shared_remote sample_sync)"
  using shared_paths_confined[OF sample_resolved] by simp

text \<open>A push never writes the global area: it is refused before anything is run.\<close>

lemma global_shared_read_only:
  assumes "resolve_shared_path E path = Inr r" and "sp_kind r = lit ''global-shared''"
  shows "push_shared_path E path exclude s = (Inl (verr ''global-shared/ is read-only''), s)"
  using assms by (simp add: push_shared_path_def bindS_lift_eq raise_if_def)

text \<open>While the storage does not answer, a pull of the worker's files removes every local skill: a
  failed listing of the remote skills is taken for an empty one, and the directories that are not in
  it are deleted. The result reports all of them as removed.\<close>

lemma unreachable_storage_removes_skills:
  assumes "unreachable E s" and "se_is_dir E (skills_dir E) s"
  shows "pull_all F E s = remove_skills E (se_child_dirs E (skills_dir E) s) s"
  using assms by (rule unreachable_pull_all)

lemma unreachable_storage_removes_skills_witness:
  "pull_all read_decimal sample_sync (True, [lit ''review'', lit ''search''])
     = (Inr [lit ''skills/review/ (removed)'', lit ''skills/search/ (removed)''], (True, []))"
proof -
  have "pull_all read_decimal sample_sync (True, [lit ''review'', lit ''search''])
      = remove_skills sample_sync (se_child_dirs sample_sync (skills_dir sample_sync) (True, [lit ''review'', lit ''search'']))
          (True, [lit ''review'', lit ''search''])"
    by (rule unreachable_storage_removes_skills[OF sample_unreachable]) (simp add: sample_sync_def)
  also have "\<dots> = (Inr [lit ''skills/review/ (removed)'', lit ''skills/search/ (removed)''], (True, []))"
    by (simp add: sample_sync_def skills_dir_def local_path_def bindS_def) (simp add: lit_def returnS_def)
  finally show ?thesis .
qed

end
