(* ===== verification/Tool_Filesync.thy ===== *)
theory Tool_Filesync
  imports Sync_Files
begin

text \<open>
  \<open>hooks/tools/filesync.py\<close>: the tool with which an agent pulls, pushes, inspects and lists shared files,
  and the construction of the \<open>FileSync\<close> from the environment.
\<close>

section \<open>The environment\<close>

definition ferr :: "pystr \<Rightarrow> exc" where
  "ferr msg = FilesyncToolError msg"

type_synonym environ = "string \<Rightarrow> pystr option"

text \<open>\<open>os.getenv(a) or os.getenv(b)\<close>, with the empty text for nothing.\<close>

fun env_or :: "environ \<Rightarrow> string list \<Rightarrow> pystr" where
  "env_or env [] = []"
| "env_or env (name # names) = (case env name of
     Some v \<Rightarrow> if v \<noteq> [] then v else env_or env names
   | None \<Rightarrow> env_or env names)"

definition path_name :: "pystr \<Rightarrow> pystr" where
  "path_name p = last (split_on 47 p)"

definition copaw_working_dir :: "environ \<Rightarrow> pystr \<Rightarrow> pystr" where
  "copaw_working_dir env cwd =
     (let configured = env_or env [''COPAW_WORKING_DIR''] in
      if configured \<noteq> [] then configured
      else if path_name cwd = lit ''default'' \<and> path_name (path_parent cwd) = lit ''workspaces''
        then path_parent (path_parent cwd)
      else if path_name cwd = lit ''.copaw'' then cwd
      else cwd @ lit ''/.copaw'')"

text \<open>
  \<open>create_sync\<close>: the fields of the \<open>FileSync\<close> that come from the environment; \<open>base\<close> has its processes
  and files. The constructor makes the local directory; its alias is not set.
\<close>

definition missing_environment :: "environ \<Rightarrow> pystr list" where
  "missing_environment env = map fst (filter (\<lambda>(name, v). v = [])
     [(lit ''AGENTTEAMS_WORKER_NAME'', env_or env [''AGENTTEAMS_WORKER_NAME'', ''COPAW_WORKER_NAME'']),
      (lit ''AGENTTEAMS_FS_ENDPOINT'', env_or env [''AGENTTEAMS_FS_ENDPOINT'', ''COPAW_MINIO_ENDPOINT'']),
      (lit ''AGENTTEAMS_FS_ACCESS_KEY'', env_or env [''AGENTTEAMS_FS_ACCESS_KEY'', ''COPAW_MINIO_ACCESS_KEY'']),
      (lit ''AGENTTEAMS_FS_SECRET_KEY'', env_or env [''AGENTTEAMS_FS_SECRET_KEY'', ''COPAW_MINIO_SECRET_KEY''])])"

definition or_text_default :: "pystr \<Rightarrow> pystr \<Rightarrow> pystr" where
  "or_text_default s d = (if s \<noteq> [] then s else d)"

definition sync_fields :: "environ \<Rightarrow> pystr \<Rightarrow> 's sync_env \<Rightarrow> 's sync_env" where
  "sync_fields env cwd base =
     (let worker = env_or env [''AGENTTEAMS_WORKER_NAME'', ''COPAW_WORKER_NAME''];
          cr_name = env_or env [''AGENTTEAMS_WORKER_CR_NAME'', ''COPAW_WORKER_CR_NAME''];
          bucket = env_or env [''AGENTTEAMS_FS_BUCKET'', ''COPAW_MINIO_BUCKET''];
          working_dir = copaw_working_dir env cwd; workspace_dir = working_dir @ lit ''/workspaces/default'' in
      base\<lparr>se_endpoint := rstrip_slash (env_or env [''AGENTTEAMS_FS_ENDPOINT'', ''COPAW_MINIO_ENDPOINT'']),
        se_access_key := env_or env [''AGENTTEAMS_FS_ACCESS_KEY'', ''COPAW_MINIO_ACCESS_KEY''],
        se_secret_key := env_or env [''AGENTTEAMS_FS_SECRET_KEY'', ''COPAW_MINIO_SECRET_KEY''],
        se_secure := startswith (env_or env [''AGENTTEAMS_FS_ENDPOINT'', ''COPAW_MINIO_ENDPOINT'']) (lit ''https://''),
        se_runtime := env_or env [''AGENTTEAMS_RUNTIME''],
        se_bucket := or_text_default bucket (lit ''agentteams-storage''), se_worker_name := worker,
        se_worker_cr_name := or_text_default cr_name worker, se_local_dir := path_parent working_dir,
        se_shared_dir := workspace_dir @ lit ''/shared'',
        se_global_shared_dir := workspace_dir @ lit ''/global-shared''\<rparr>)"

definition create_sync :: "environ \<Rightarrow> pystr \<Rightarrow> 's sync_env \<Rightarrow> ('s, 's sync_env) actS" where
  "create_sync env cwd base =
     (let missing = missing_environment env; sync = sync_fields env cwd base in
      bindS (liftS (raise_if (missing \<noteq> [])
        (ferr (lit ''missing filesync environment: '' @ join (lit '', '') missing)))) (\<lambda>_.
      bindS (se_mkdir sync (se_local_dir sync)) (\<lambda>_.
      bindS (\<lambda>s. (Inr (), se_put_alias sync False s)) (\<lambda>_. returnS sync))))"

section \<open>Arguments\<close>

text \<open>The text \<open>null\<close> is no payload here, other than in the tools of the taskflow.\<close>

definition filesync_payload :: "(pystr \<Rightarrow> pyfloat) \<Rightarrow> json \<Rightarrow> (pystr \<times> json) list res" where
  "filesync_payload F payload =
     (if payload = JNull then Inr []
      else
        bindE (case payload of JStr s \<Rightarrow> loads_or F ferr (lit ''payload must be a JSON object: '') s | v \<Rightarrow> Inr v) (\<lambda>v.
        case v of JObj kvs \<Rightarrow> Inr kvs | _ \<Rightarrow> Inl (ferr (lit ''payload must be an object''))))"

definition normalize_exclude :: "(json \<Rightarrow> pystr) \<Rightarrow> (pystr \<Rightarrow> pyfloat) \<Rightarrow> json \<Rightarrow> pystr list res" where
  "normalize_exclude R F exclude =
     (if \<not> truthy exclude then Inr []
      else
        bindE (case exclude of JStr s \<Rightarrow> loads_or F ferr (lit ''exclude must be a JSON array: '') s | v \<Rightarrow> Inr v) (\<lambda>v.
        case v of
          JArr items \<Rightarrow> Inr (filter (\<lambda>text. text \<noteq> []) (map (\<lambda>item. strip (py_str R item)) items))
        | _ \<Rightarrow> Inl (ferr (lit ''exclude must be a list''))))"

definition normalize_directory_path :: "pystr \<Rightarrow> pystr" where
  "normalize_directory_path path =
     (let stripped = strip path; normalized = strip_chars [47] stripped; parts = split_on 47 normalized in
      if ends_slash stripped then stripped
      else if length parts = 3 \<and> parts ! 0 \<in> {lit ''shared'', lit ''global-shared''}
        \<and> parts ! 1 \<in> {lit ''projects'', lit ''tasks''} \<and> parts ! 2 \<noteq> []
      then normalized @ [47]
      else stripped)"

definition filesync_actions :: "pystr list" where
  "filesync_actions = map lit [''pull'', ''push'', ''stat'', ''list'']"

definition filesync_path :: "pystr \<Rightarrow> json \<Rightarrow> pystr res" where
  "filesync_path action path =
     (if action \<notin> set filesync_actions then Inl (ferr (lit ''action must be one of: pull, push, stat, list''))
      else (case path of
          JStr s \<Rightarrow>
            if strip s = [] then Inl (ferr (lit ''path is required''))
            else Inr (if action \<in> {lit ''pull'', lit ''push'', lit ''list''} then normalize_directory_path s else strip s)
        | _ \<Rightarrow> Inl (ferr (lit ''path is required''))))"

section \<open>The tool\<close>

record 's filesync_env =
  fe_repr :: "json \<Rightarrow> pystr"
  fe_exc_text :: "exc \<Rightarrow> pystr"
  fe_float :: "pystr \<Rightarrow> pyfloat"
  fe_env :: environ
  fe_cwd :: pystr
  fe_base :: "'s sync_env"

definition filesync_run ::
  "'s filesync_env \<Rightarrow> pystr \<Rightarrow> pystr \<Rightarrow> json \<Rightarrow> bool \<Rightarrow> ('s, (pystr \<times> json) list) actS" where
  "filesync_run E action path exclude dry =
     bindS (create_sync (fe_env E) (fe_cwd E) (fe_base E)) (\<lambda>sync.
     bindS (liftS (resolve_shared_path sync path)) (\<lambda>resolved.
     bindS (liftS (normalize_exclude (fe_repr E) (fe_float E) exclude)) (\<lambda>excludes.
     let payload = [(lit ''action'', JStr action), (lit ''path'', JStr path),
           (lit ''localPath'', JStr (sp_local resolved)), (lit ''kind'', JStr (sp_kind resolved))]
           @ (if action = lit ''push'' then [(lit ''exclude'', JArr (map JStr excludes))] else []) in
     if dry then returnS (tool_ok ((lit ''dryRun'', JBool True) # payload))
     else if action = lit ''pull'' then
       bindS (pull_shared_path sync path) (\<lambda>_. returnS (tool_ok ((lit ''pulled'', JBool True) # payload)))
     else if action = lit ''push'' then
       bindS (push_shared_path sync path excludes) (\<lambda>_. returnS (tool_ok ((lit ''pushed'', JBool True) # payload)))
     else if action = lit ''stat'' then
       bindS (stat_shared_path sync path) (\<lambda>_. returnS (tool_ok ((lit ''exists'', JBool True) # payload)))
     else
       bindS (list_shared_path sync path) (\<lambda>(_, entries).
       returnS (tool_ok ((lit ''entries'', JArr (map JStr entries)) # payload))))))"

fun filesync_message :: "exc \<Rightarrow> pystr option" where
  "filesync_message (FilesyncToolError msg) = Some msg"
| "filesync_message _ = None"

text \<open>A payload that is a shared path stands for the path.\<close>

definition path_of_payload :: "json \<Rightarrow> json \<Rightarrow> json \<times> json" where
  "path_of_payload payload path = (case (payload, path) of
     (JStr s, JNull) \<Rightarrow>
       if startswith (strip s) (lit ''shared/'') \<or> startswith (strip s) (lit ''global-shared/'')
       then (JNull, JStr s) else (payload, path)
   | _ \<Rightarrow> (payload, path))"

text \<open>An error reports the path as far as it is known at that point.\<close>

definition filesync ::
  "'s filesync_env \<Rightarrow> pystr \<Rightarrow> json \<Rightarrow> json \<Rightarrow> json \<Rightarrow> bool \<Rightarrow> 's \<Rightarrow> (pystr \<times> json) list \<times> 's" where
  "filesync E action payload path exclude dry =
     (let (payload, path) = path_of_payload payload path;
          boundary = (\<lambda>p. tool_boundary ''filesync'' filesync_message (fe_exc_text E)
                            [(lit ''action'', JStr action), (lit ''path'', p)]) in
      case filesync_payload (fe_float E) payload of
        Inl e \<Rightarrow> boundary path (raiseS e)
      | Inr data \<Rightarrow>
          (let path = (case map_of data (lit ''path'') of Some v \<Rightarrow> v | None \<Rightarrow> path);
               exclude = (case map_of data (lit ''exclude'') of Some v \<Rightarrow> v | None \<Rightarrow> exclude) in
           case filesync_path action path of
             Inl e \<Rightarrow> boundary path (raiseS e)
           | Inr resolved \<Rightarrow> boundary (JStr resolved) (filesync_run E action resolved exclude dry)))"

section \<open>Dry runs\<close>

text \<open>What the constructor of \<open>FileSync\<close> does to the state.\<close>

definition constructed :: "'s filesync_env \<Rightarrow> 's \<Rightarrow> 's set" where
  "constructed E s =
     (let made = snd (se_mkdir (fe_base E) (path_parent (copaw_working_dir (fe_env E) (fe_cwd E))) s) in
      {s, made, se_put_alias (fe_base E) False made})"

lemma create_sync_state:
  assumes "create_sync (fe_env E) (fe_cwd E) (fe_base E) s = (r, s')"
  shows "s' \<in> constructed E s"
  using assms
  by (auto simp: create_sync_def Let_def raise_if_def sync_fields_def returnS_def constructed_def
      elim!: bindS_cases split: if_splits)

text \<open>
  A dry run runs no command, for every action and every form of the arguments. All it may do is to make
  the local directory, because the constructor of \<open>FileSync\<close> does.
\<close>

lemma filesync_run_dry: "snd (filesync_run E action path exclude True s) \<in> constructed E s"
proof -
  have rest: "readonly (\<lambda>s. bindS (liftS (resolve_shared_path sync path)) (\<lambda>resolved.
     bindS (liftS (normalize_exclude (fe_repr E) (fe_float E) exclude)) (\<lambda>excludes. returnS (f resolved excludes))) s)"
    for sync :: "'a sync_env" and f :: "shared_path \<Rightarrow> pystr list \<Rightarrow> (pystr \<times> json) list"
    by (intro readonly_intros)
  obtain r s1 where made: "create_sync (fe_env E) (fe_cwd E) (fe_base E) s = (r, s1)" by (metis prod.exhaust)
  have "snd (filesync_run E action path exclude True s) = s1"
    unfolding filesync_run_def bindS_def[of "create_sync _ _ _"] made
    by (cases r) (simp_all add: Let_def readonly_snd[OF rest])
  with create_sync_state[OF made] show ?thesis by simp
qed

lemma filesync_dry_run: "snd (filesync E action payload path exclude True s) \<in> constructed E s"
  using filesync_run_dry[of E]
  by (auto simp: filesync_def Let_def tool_boundary_snd constructed_def split: prod.split sum.split)

end
