(* ===== verification/Tool_Taskflow.thy ===== *)
theory Tool_Taskflow
  imports Tool_Filesync Task_Planning
begin

text \<open>
  \<open>hooks/tools/taskflow.py\<close>: the tool with which a leader delegates and checks tasks and a worker
  acknowledges and submits them. The files of a task travel through the shared storage.
\<close>

section \<open>The runtime configuration\<close>

definition strip_yaml_string :: "pystr \<Rightarrow> pystr" where
  "strip_yaml_string value =
     (let text = strip value in
      if text = [] \<or> text = lit ''null'' \<or> text = lit ''~'' then []
      else
        (let text = (if 35 \<in> set text then strip (takeWhile (\<lambda>c. c \<noteq> 35) text) else text) in
         if 2 \<le> length text \<and> hd text = last text \<and> (hd text = 39 \<or> hd text = 34) then butlast (tl text)
         else text))"

text \<open>The lines of \<open>runtime.yaml\<close>; the flag is \<open>in_section\<close>.\<close>

fun config_lines :: "pystr \<Rightarrow> pystr \<Rightarrow> bool \<Rightarrow> pystr list \<Rightarrow> pystr" where
  "config_lines section_name key in_section [] = []"
| "config_lines section_name key in_section (raw_line # rest) =
     (if strip raw_line = [] \<or> startswith (lstrip raw_line) [35] then config_lines section_name key in_section rest
      else if \<not> (hd raw_line = 32 \<or> hd raw_line = 9) then
        config_lines section_name key (strip raw_line = section_name @ [58]) rest
      else if \<not> in_section then config_lines section_name key in_section rest
      else
        (let stripped = strip raw_line in
         if 58 \<notin> set stripped then config_lines section_name key in_section rest
         else if strip (takeWhile (\<lambda>c. c \<noteq> 58) stripped) = key then
           strip_yaml_string (tl (dropWhile (\<lambda>c. c \<noteq> 58) stripped))
         else config_lines section_name key in_section rest))"

text \<open>\<open>None\<close> is a file that is missing or cannot be read.\<close>

definition runtime_config_field :: "pystr option \<Rightarrow> string \<Rightarrow> string \<Rightarrow> pystr" where
  "runtime_config_field yaml section_name key = (case yaml of
     None \<Rightarrow> []
   | Some text \<Rightarrow> config_lines (lit section_name) (lit key) False (splitlines text))"

definition normalize_room_id :: "pystr \<Rightarrow> pystr" where
  "normalize_room_id room_id =
     (let text = strip room_id in
      if startswith text (lit ''room:'') then strip (drop 5 text) else text)"

definition room_target :: "pystr \<Rightarrow> pystr" where
  "room_target room_id =
     (let text = strip room_id in
      if startswith text (lit ''room:'') then text else lit ''room:'' @ text)"

section \<open>The environment\<close>

text \<open>
  Besides the environment of the shared files: the clock, the text of \<open>runtime.yaml\<close> (reading it may
  raise for a text that is not UTF-8), and the user that the configuration of the channels names.
\<close>

record task_env =
  te_files :: "task_files filesync_env"
  te_now :: pystr
  te_runtime_yaml :: "pystr option res"
  te_config_actor :: "pystr option"

definition te_store :: "task_env \<Rightarrow> task_files store_ops" where
  "te_store E = fs_store (fe_repr (te_files E))"

definition te_sync :: "task_env \<Rightarrow> (task_files, task_files sync_env) actS" where
  "te_sync E = create_sync (fe_env (te_files E)) (fe_cwd (te_files E)) (fe_base (te_files E))"

definition require_team_room :: "task_env \<Rightarrow> pystr \<Rightarrow> unit res" where
  "require_team_room E room_id =
     bindE (te_runtime_yaml E) (\<lambda>yaml.
     let role = runtime_config_field yaml ''member'' ''role'';
         team_room_id = runtime_config_field yaml ''team'' ''teamRoomId'' in
     if role \<noteq> lit ''team_leader'' \<or> team_room_id = [] then Inr ()
     else raise_if (normalize_room_id room_id \<noteq> normalize_room_id team_room_id)
       (terr (lit ''team leader task assignments must use the Team Room '' @ room_target team_room_id
              @ lit '', not '' @ room_id)))"

definition current_actor :: "task_env \<Rightarrow> pystr option" where
  "current_actor E =
     (let configured = env_or (fe_env (te_files E)) [''AGENTTEAMS_MATRIX_USER_ID'', ''COPAW_MATRIX_USER_ID''] in
      if configured \<noteq> [] then Some (strip configured) else te_config_actor E)"

definition matrix_user_id :: "task_env \<Rightarrow> pystr \<Rightarrow> pystr" where
  "matrix_user_id E worker_name =
     (let worker = canonical_worker_id (Some worker_name);
          actor = strip (case current_actor E of None \<Rightarrow> [] | Some a \<Rightarrow> a) in
      if startswith actor [64] \<and> 58 \<in> set actor
      then [64] @ worker @ [58] @ tl (dropWhile (\<lambda>c. c \<noteq> 58) actor)
      else worker)"

section \<open>The result of a submission\<close>

definition coerce_str_list ::
  "(json \<Rightarrow> pystr) \<Rightarrow> (pystr \<Rightarrow> pyfloat) \<Rightarrow> (pystr \<times> json) list \<Rightarrow> string \<Rightarrow> pystr list res" where
  "coerce_str_list R F payload key = (case payload_get payload key of
     JNull \<Rightarrow> Inr []
   | value \<Rightarrow>
       bindE (case value of JStr s \<Rightarrow> loads_or F terr (lit ''payload.'' @ lit key @ lit '' must be a JSON array: '') s
              | v \<Rightarrow> Inr v) (\<lambda>v.
       case v of
         JArr items \<Rightarrow> Inr (filter (\<lambda>text. text \<noteq> []) (map (\<lambda>item. strip (py_str R item)) items))
       | _ \<Rightarrow> Inl (terr (lit ''payload.'' @ lit key @ lit '' must be a list''))))"

definition task_result_from_payload ::
  "(json \<Rightarrow> pystr) \<Rightarrow> (pystr \<Rightarrow> pyfloat) \<Rightarrow> (pystr \<times> json) list \<Rightarrow> task_result option res" where
  "task_result_from_payload R F payload =
     (if list_all (\<lambda>key. map_of payload (lit key) = None) [''status'', ''summary'', ''deliverables'', ''notes'']
      then Inr None
      else
        bindE (required_str payload ''status'') (\<lambda>status.
        bindE (raise_if (status \<notin> set result_statuses) (terr (lit ''invalid result status: '' @ status))) (\<lambda>_.
        bindE (required_str payload ''summary'') (\<lambda>summary.
        bindE (coerce_str_list R F payload ''deliverables'') (\<lambda>deliverables.
        bindE (coerce_str_list R F payload ''notes'') (\<lambda>notes.
        Inr (Some \<lparr>tr_status = status, tr_summary = summary, tr_deliverables = deliverables, tr_notes = notes\<rparr>)))))))"

definition require_ack_preconditions :: "task_meta \<Rightarrow> pystr option \<Rightarrow> unit res" where
  "require_ack_preconditions meta actor =
     (let current = canonical_worker_id actor; assigned = canonical_worker_id (Some (tm_assigned_to meta)) in
      bindE (seqE
        [raise_if (current = []) (terr (lit ''current worker identity is required'')),
         raise_if (current \<noteq> assigned)
           (terr (lit ''task '' @ tm_task_id meta @ lit '' is assigned to '' @ tm_assigned_to meta
                  @ lit '', not '' @ current))]) (\<lambda>_.
      require_task_room meta))"

section \<open>The actions\<close>

definition task_path :: "pystr \<Rightarrow> pystr" where
  "task_path task_id = lit ''shared/tasks/'' @ task_id @ lit ''/''"

definition kept_files :: "pystr list" where
  "kept_files = [lit ''spec.md'', lit ''base/'']"

definition task_ok :: "(pystr \<times> json) list \<Rightarrow> (task_files, (pystr \<times> json) list) actS" where
  "task_ok info = returnS (tool_ok info)"

definition notification :: "task_env \<Rightarrow> pystr \<Rightarrow> task_meta \<Rightarrow> json" where
  "notification E room_id meta = JObj
     [(lit ''tool'', JStr (lit ''message'')),
      (lit ''arguments'', JObj
        [(lit ''action'', JStr (lit ''send'')), (lit ''channel'', JStr (lit ''matrix'')),
         (lit ''target'', JStr (room_target room_id)),
         (lit ''message'', JStr (matrix_user_id E (tm_assigned_to meta) @ lit '' New task ['' @ tm_task_id meta
            @ lit '']: Read shared/tasks/'' @ tm_task_id meta @ lit ''/spec.md and start the task.''))])]"

definition instruction :: pystr where
  "instruction = lit ''Call nextAction.tool with nextAction.arguments now. Do not return the assignment as a normal reply in the current room.''"

type_synonym task_action = "pystr \<Rightarrow> (pystr \<times> json) list \<Rightarrow> bool \<Rightarrow> (task_files, (pystr \<times> json) list) actS"

definition do_delegate_task :: "task_env \<Rightarrow> task_action" where
  "do_delegate_task E action data dry =
     bindS (liftS (required_str data ''projectId'')) (\<lambda>project_id.
     bindS (liftS (required_str data ''taskId'')) (\<lambda>task_id.
     bindS (liftS (required_str data ''roomId'')) (\<lambda>room_id.
     bindS (liftS (required_str data ''spec'')) (\<lambda>spec.
     bindS (liftS (require_team_room E room_id)) (\<lambda>_.
     if dry then task_ok [(lit ''dryRun'', JBool True), (lit ''action'', JStr action),
       (lit ''projectId'', JStr project_id), (lit ''taskId'', JStr task_id)]
     else
       bindS (delegate_task (te_now E) (te_store E) project_id task_id spec (Some room_id)) (\<lambda>meta.
       bindS (te_sync E) (\<lambda>sync.
       bindS (push_shared_path sync (task_path task_id) []) (\<lambda>_.
       task_ok [(lit ''action'', JStr action), (lit ''task'', JObj (task_meta_dict meta)), (lit ''synced'', JBool True),
         (lit ''notificationRequired'', JBool True), (lit ''nextAction'', notification E room_id meta),
         (lit ''instruction'', JStr instruction)]))))))))"

definition do_check_task :: "task_env \<Rightarrow> task_action" where
  "do_check_task E action data dry =
     bindS (liftS (required_str data ''taskId'')) (\<lambda>task_id.
     if dry then task_ok [(lit ''dryRun'', JBool True), (lit ''action'', JStr action), (lit ''taskId'', JStr task_id)]
     else
       bindS (te_sync E) (\<lambda>sync.
       bindS (pull_shared_path sync (task_path task_id)) (\<lambda>_.
       bindS (st_read_task_meta (te_store E) task_id) (\<lambda>meta.
       bindS (check_task (te_store E) task_id) (\<lambda>result.
       task_ok [(lit ''action'', JStr action), (lit ''task'', JObj (task_meta_dict meta)),
         (lit ''result'', JObj (task_result_dict result)), (lit ''effective'', JBool (is_effective_result result))])))))"

definition do_ack_task :: "task_env \<Rightarrow> task_action" where
  "do_ack_task E action data dry =
     bindS (liftS (required_str data ''taskId'')) (\<lambda>task_id.
     if dry then task_ok [(lit ''dryRun'', JBool True), (lit ''action'', JStr action), (lit ''taskId'', JStr task_id)]
     else
       bindS (te_sync E) (\<lambda>sync.
       bindS (pull_shared_path sync (task_path task_id)) (\<lambda>_.
       bindS (st_read_task_meta (te_store E) task_id) (\<lambda>known.
       bindS (liftS (require_ack_preconditions known (current_actor E))) (\<lambda>_.
       bindS (st_read_task_spec (te_store E) task_id) (\<lambda>spec.
       bindS (ack_task (te_now E) (te_store E) task_id (current_actor E)) (\<lambda>meta.
       bindS (push_shared_path sync (task_path task_id) kept_files) (\<lambda>_.
       task_ok [(lit ''action'', JStr action), (lit ''task'', JObj (task_meta_dict meta)), (lit ''spec'', JStr spec)]))))))))"

definition result_entry :: "task_result option \<Rightarrow> (pystr \<times> json) list" where
  "result_entry result = (case result of None \<Rightarrow> [] | Some r \<Rightarrow> [(lit ''result'', JObj (task_result_dict r))])"

definition do_submit_task :: "task_env \<Rightarrow> task_action" where
  "do_submit_task E action data dry =
     bindS (liftS (required_str data ''taskId'')) (\<lambda>task_id.
     bindS (liftS (task_result_from_payload (fe_repr (te_files E)) (fe_float (te_files E)) data)) (\<lambda>result.
     bindS (liftS (case result of None \<Rightarrow> Inr () | Some r \<Rightarrow> validate_task_result task_id r)) (\<lambda>_.
     if dry then task_ok ([(lit ''dryRun'', JBool True), (lit ''action'', JStr action), (lit ''taskId'', JStr task_id)]
       @ result_entry result)
     else
       bindS (submit_task (te_now E) (te_store E) task_id result (current_actor E)) (\<lambda>meta.
       bindS (te_sync E) (\<lambda>sync.
       bindS (push_shared_path sync (task_path task_id) kept_files) (\<lambda>_.
       bindS (stat_shared_path sync (task_path task_id @ lit ''result.md'')) (\<lambda>_.
       task_ok ([(lit ''action'', JStr action), (lit ''task'', JObj (task_meta_dict meta)), (lit ''synced'', JBool True),
         (lit ''verified'', JBool True)] @ result_entry result))))))))"

definition unknown_task_action :: exc where
  "unknown_task_action = terr (lit ''action must be one of: delegate_task, check_task, ack_task, submit_task'')"

definition taskflow_action :: "task_env \<Rightarrow> task_action" where
  "taskflow_action E action =
     (if action = lit ''delegate_task'' then do_delegate_task E action
      else if action = lit ''check_task'' then do_check_task E action
      else if action = lit ''ack_task'' then do_ack_task E action
      else if action = lit ''submit_task'' then do_submit_task E action
      else (\<lambda>data dry. raiseS unknown_task_action))"

definition taskflow ::
  "task_env \<Rightarrow> pystr \<Rightarrow> json \<Rightarrow> bool \<Rightarrow> task_files \<Rightarrow> (pystr \<times> json) list \<times> task_files" where
  "taskflow E action payload dry =
     (let coerced = coerce_payload (fe_float (te_files E)) terr payload;
          data = (case coerced of Inl e \<Rightarrow> [] | Inr d \<Rightarrow> d) in
      tool_boundary ''taskflow'' taskflow_message (fe_exc_text (te_files E))
        [(lit ''action'', JStr action), (lit ''projectId'', payload_get data ''projectId''),
         (lit ''taskId'', payload_get data ''taskId'')]
        (bindS (liftS coerced) (\<lambda>data. taskflow_action E action data dry)))"

section \<open>Dry runs\<close>

lemma readonly_taskflow_dry: "readonly (taskflow_action E action data True)"
  unfolding taskflow_action_def do_delegate_task_def do_check_task_def do_ack_task_def do_submit_task_def task_ok_def
  by (simp add: if_distrib[where f = "\<lambda>f. f data True"] cong: if_cong) (intro readonly_intros conjI impI)

lemma taskflow_dry_run: "snd (taskflow E action payload True fs) = fs"
  unfolding taskflow_def Let_def tool_boundary_snd
  by (intro readonly_snd readonly_intros readonly_taskflow_dry)

section \<open>Rooms\<close>

lemma normalize_room_target: "normalize_room_id (room_target room) = normalize_room_id room"
proof (cases "startswith (strip room) (lit ''room:'')")
  case True
  then show ?thesis by (simp add: normalize_room_id_def room_target_def)
next
  case False
  have len: "length (lit ''room:'') = 5" by (simp add: lit_def)
  have start: "\<not> isspace (hd (lit ''room:''))" "lit ''room:'' \<noteq> []" by (simp_all add: lit_def isspace_def)
  have close: "\<not> isspace (last (lit ''room:'' @ strip room))"
  proof (cases "strip room = []")
    case True
    then show ?thesis by (simp add: lit_def isspace_def)
  next
    case False
    then show ?thesis using trimmed_strip[of room] by (simp add: trimmed_def)
  qed
  have "strip (lit ''room:'' @ strip room) = lit ''room:'' @ strip room"
    using start close by (intro strip_trimmed) (simp add: trimmed_def)
  moreover have "startswith (lit ''room:'' @ strip room) (lit ''room:'')" by simp
  moreover have "drop 5 (lit ''room:'' @ strip room) = strip room" by (simp add: len[symmetric])
  ultimately show ?thesis using False by (simp add: normalize_room_id_def room_target_def Let_def)
qed

text \<open>The room to which the response of a delegation tells the leader to write.\<close>

definition message_target :: "(pystr \<times> json) list \<Rightarrow> pystr option" where
  "message_target r = (case map_of r (lit ''nextAction'') of
     Some (JObj action) \<Rightarrow> (case map_of action (lit ''arguments'') of
       Some (JObj arguments) \<Rightarrow> (case map_of arguments (lit ''target'') of Some (JStr room) \<Rightarrow> Some room | _ \<Rightarrow> None)
     | _ \<Rightarrow> None)
   | _ \<Rightarrow> None)"

lemma message_target_notification:
  "message_target (tool_ok [(lit ''action'', a), (lit ''task'', t), (lit ''synced'', b), (lit ''notificationRequired'', c),
     (lit ''nextAction'', notification E room meta), (lit ''instruction'', i)]) = Some (room_target room)"
  by (simp add: message_target_def tool_ok_def notification_def) (simp add: lit_def)?

lemma message_target_error: "message_target (tool_error msg [(lit ''action'', a), (lit ''projectId'', p), (lit ''taskId'', t)]) = None"
  by (simp add: message_target_def tool_error_def) (simp add: lit_def)?

section \<open>Delegation through the tool\<close>

text \<open>The fields of a delegation and the check of its room.\<close>

definition delegation_fields ::
  "task_env \<Rightarrow> json \<Rightarrow> (pystr \<times> pystr \<times> pystr \<times> pystr) res" where
  "delegation_fields E payload =
     bindE (coerce_payload (fe_float (te_files E)) terr payload) (\<lambda>data.
     bindE (required_str data ''projectId'') (\<lambda>project_id.
     bindE (required_str data ''taskId'') (\<lambda>task_id.
     bindE (required_str data ''roomId'') (\<lambda>room_id.
     bindE (required_str data ''spec'') (\<lambda>spec.
     bindE (require_team_room E room_id) (\<lambda>_. Inr (project_id, task_id, room_id, spec)))))))"

definition run_delegation :: "task_env \<Rightarrow> pystr \<times> pystr \<times> pystr \<times> pystr \<Rightarrow> (task_files, (pystr \<times> json) list) actS" where
  "run_delegation E = (\<lambda>(project_id, task_id, room_id, spec).
     bindS (delegate_task (te_now E) (te_store E) project_id task_id spec (Some room_id)) (\<lambda>meta.
     bindS (te_sync E) (\<lambda>sync.
     bindS (push_shared_path sync (task_path task_id) []) (\<lambda>_.
     task_ok [(lit ''action'', JStr (lit ''delegate_task'')), (lit ''task'', JObj (task_meta_dict meta)),
       (lit ''synced'', JBool True), (lit ''notificationRequired'', JBool True),
       (lit ''nextAction'', notification E room_id meta), (lit ''instruction'', JStr instruction)]))))"

definition delegation_extra :: "task_env \<Rightarrow> json \<Rightarrow> (pystr \<times> json) list" where
  "delegation_extra E payload =
     (let data = (case coerce_payload (fe_float (te_files E)) terr payload of Inl e \<Rightarrow> [] | Inr d \<Rightarrow> d) in
      [(lit ''action'', JStr (lit ''delegate_task'')), (lit ''projectId'', payload_get data ''projectId''),
       (lit ''taskId'', payload_get data ''taskId'')])"

lemma taskflow_delegation:
  "taskflow E (lit ''delegate_task'') payload False fs =
     tool_boundary ''taskflow'' taskflow_message (fe_exc_text (te_files E)) (delegation_extra E payload)
       (bindS (liftS (delegation_fields E payload)) (run_delegation E)) fs"
  by (auto simp: taskflow_def taskflow_action_def do_delegate_task_def delegation_fields_def run_delegation_def
      delegation_extra_def tool_boundary_def bindS_lift_eq Let_def bindE_def split: sum.split prod.split)

lemma delegation_fields_room:
  assumes "delegation_fields E payload = Inr (pid, tid, room, spec)"
    and "te_runtime_yaml E = Inr yaml" and "runtime_config_field yaml ''member'' ''role'' = lit ''team_leader''"
    and "runtime_config_field yaml ''team'' ''teamRoomId'' = team" and "team \<noteq> []"
  shows "normalize_room_id room = normalize_room_id team"
proof -
  have "require_team_room E room = Inr ()"
    using assms(1) by (auto simp: delegation_fields_def bindE_def split: sum.splits)
  then show ?thesis using assms(2-5) by (auto simp: require_team_room_def raise_if_def split: if_splits)
qed

lemma run_delegation_target:
  assumes "run_delegation E (pid, tid, room, spec) fs = (Inr r, fs')"
  shows "message_target r = Some (room_target room)"
  using assms
  by (auto simp: run_delegation_def task_ok_def message_target_notification returnS_def bindS_lift_ok elim!: bindS_cases)

lemma delegation_targets_team_room:
  assumes leader: "te_runtime_yaml E = Inr yaml" "runtime_config_field yaml ''member'' ''role'' = lit ''team_leader''"
      "runtime_config_field yaml ''team'' ''teamRoomId'' = team" "team \<noteq> []"
    and run: "taskflow E (lit ''delegate_task'') payload False fs = (r, fs')"
    and target: "message_target r = Some room"
  shows "normalize_room_id room = normalize_room_id team"
  using run unfolding taskflow_delegation
proof (cases rule: tool_boundary_cases)
  case returned
  then obtain pid tid given spec where f: "delegation_fields E payload = Inr (pid, tid, given, spec)"
    "run_delegation E (pid, tid, given, spec) fs = (Inr r, fs')"
    by (auto simp: bindS_lift_ok)
  then show ?thesis
    using run_delegation_target[OF f(2)] delegation_fields_room[OF f(1) leader] target normalize_room_target by simp
next
  case (raised e)
  then show ?thesis using target by (simp add: delegation_extra_def Let_def message_target_error)
qed

lemma delegation_refused:
  assumes "delegation_fields E payload = Inl e"
  shows "taskflow E (lit ''delegate_task'') payload False fs
    = (tool_error (error_message ''taskflow'' taskflow_message (fe_exc_text (te_files E)) e) (delegation_extra E payload), fs)"
  using assms by (simp add: taskflow_delegation tool_boundary_def)

lemma delegation_push_fails:
  assumes "delegation_fields E payload = Inr (pid, tid, room, spec)"
    and "delegate_task (te_now E) (te_store E) pid tid spec (Some room) fs = (Inr meta, fs1)"
    and "te_sync E fs1 = (Inr sync, fs1)" and "push_shared_path sync (task_path tid) [] fs1 = (Inl e, fs2)"
  shows "taskflow E (lit ''delegate_task'') payload False fs
    = (tool_error (error_message ''taskflow'' taskflow_message (fe_exc_text (te_files E)) e) (delegation_extra E payload), fs2)"
  using assms
  by (simp add: taskflow_delegation run_delegation_def bindS_def[of "delegate_task _ _ _ _ _ _"]
      bindS_def[of "te_sync _"] bindS_def[of "push_shared_path _ _ _"] tool_boundary_def)

lemma delegation_rejected:
  assumes "delegation_fields E payload = Inr (pid, tid, room, spec)"
    and "fst (delegate_task (te_now E) (te_store E) pid tid spec (Some room) fs) = Inl (TaskflowError msg)"
  shows "fst (taskflow E (lit ''delegate_task'') payload False fs) = tool_error msg (delegation_extra E payload)"
proof -
  obtain fs' where "delegate_task (te_now E) (te_store E) pid tid spec (Some room) fs = (Inl (TaskflowError msg), fs')"
    using assms(2) by (metis prod.collapse)
  then show ?thesis
    using assms(1) by (simp add: taskflow_delegation run_delegation_def bindS_def[of "delegate_task _ _ _ _ _ _"]
        tool_boundary_def error_message_def)
qed

lemma wrong_room_refused:
  assumes "coerce_payload (fe_float (te_files E)) terr payload = Inr data" and "required_str data ''roomId'' = Inr room"
    and "te_runtime_yaml E = Inr yaml" and "runtime_config_field yaml ''member'' ''role'' = lit ''team_leader''"
    and "runtime_config_field yaml ''team'' ''teamRoomId'' = team" and "team \<noteq> []"
    and "normalize_room_id room \<noteq> normalize_room_id team"
  obtains e where "delegation_fields E payload = Inl e"
proof (cases "delegation_fields E payload")
  case (Inr f)
  then have "require_team_room E room = Inr ()"
    using assms(1,2) by (auto simp: delegation_fields_def bindE_def split: sum.splits)
  then show ?thesis using assms(3-7) by (auto simp: require_team_room_def raise_if_def split: if_splits)
qed (rule that)

section \<open>A worker whose storage does not answer\<close>

definition tool_environ :: environ where
  "tool_environ = [''AGENTTEAMS_WORKER_NAME'' \<mapsto> lit ''lead'', ''AGENTTEAMS_FS_ENDPOINT'' \<mapsto> lit ''e'',
     ''AGENTTEAMS_FS_ACCESS_KEY'' \<mapsto> lit ''k'', ''AGENTTEAMS_FS_SECRET_KEY'' \<mapsto> lit ''s'',
     ''COPAW_WORKING_DIR'' \<mapsto> lit ''/w'']"

definition offline_base :: "task_files sync_env" where
  "offline_base =
     \<lparr>se_alias = lit ''agentteams'', se_endpoint = [], se_access_key = [], se_secret_key = [], se_secure = False,
      se_runtime = [], se_alias_set = (\<lambda>_. False), se_put_alias = (\<lambda>_ s. s),
      se_refresh_credentials = returnS (), se_bucket = [], se_worker_name = [], se_worker_cr_name = [],
      se_local_dir = [], se_shared_dir = [], se_global_shared_dir = [], se_mc_bin = Some (lit ''mc''),
      se_run = (\<lambda>args s. (Inr \<lparr>mr_returncode = 1, mr_stdout = [], mr_stderr = lit ''timeout''\<rparr>, s)),
      se_agt_bin = Some (lit ''agt''), se_agt_run = (\<lambda>_. Inr (dumps (JObj []))), se_float = read_decimal,
      se_exc_text = (\<lambda>_. []), se_mkdir = (\<lambda>_. returnS ()),
      se_exists = (\<lambda>_ _. True), se_is_dir = (\<lambda>_ _. True), se_read = (\<lambda>_. returnS []),
      se_write = (\<lambda>_ _. returnS ()), se_chmod_scripts = (\<lambda>_. returnS ()), se_child_dirs = (\<lambda>_ _. []),
      se_rmtree = (\<lambda>_. returnS ())\<rparr>"

definition offline_env :: task_env where
  "offline_env = \<lparr>te_files = \<lparr>fe_repr = no_repr, fe_exc_text = (\<lambda>_. lit ''Command failed''), fe_float = read_decimal,
       fe_env = tool_environ, fe_cwd = lit ''/w'', fe_base = offline_base\<rparr>,
     te_now = lit ''now'', te_runtime_yaml = Inr None, te_config_actor = None\<rparr>"

definition sample_assignment :: json where
  "sample_assignment = JObj [(lit ''projectId'', JStr (lit ''p'')), (lit ''taskId'', JStr (lit ''a'')),
     (lit ''roomId'', JStr (lit ''!r'')), (lit ''spec'', JStr (lit ''do it''))]"

lemma sample_assignment_fields:
  "delegation_fields offline_env sample_assignment = Inr (lit ''p'', lit ''a'', lit ''!r'', lit ''do it'')"
proof -
  have strips: "strip (lit ''p'') = lit ''p''" "strip (lit ''a'') = lit ''a''" "strip (lit ''!r'') = lit ''!r''"
    "strip (lit ''do it'') = lit ''do it''"
    by (simp_all add: lit_def char_class_defs strip_def rstrip_def)
  have ne: "lit ''p'' \<noteq> []" "lit ''a'' \<noteq> []" "lit ''!r'' \<noteq> []" "lit ''do it'' \<noteq> []" "lit ''team_leader'' \<noteq> []"
    by (simp_all add: lit_def)
  have fields: "payload_get [(lit ''projectId'', JStr (lit ''p'')), (lit ''taskId'', JStr (lit ''a'')),
     (lit ''roomId'', JStr (lit ''!r'')), (lit ''spec'', JStr (lit ''do it''))] k
     = (if k = ''projectId'' then JStr (lit ''p'') else if k = ''taskId'' then JStr (lit ''a'')
        else if k = ''roomId'' then JStr (lit ''!r'') else if k = ''spec'' then JStr (lit ''do it'') else JNull)" for k
    by (simp add: payload_get_def)
  show ?thesis
    by (simp add: delegation_fields_def coerce_payload_def sample_assignment_def required_str_def fields strips ne
        require_team_room_def offline_env_def runtime_config_field_def bindE_def)
qed

lemma offline_push:
  obtains sync e where "\<And>fs. te_sync offline_env fs = (Inr sync, fs)"
    and "\<And>fs. push_shared_path sync (task_path (lit ''a'')) [] fs = (Inl e, fs)"
proof -
  have ne: "lit ''lead'' \<noteq> []" "lit ''e'' \<noteq> []" "lit ''k'' \<noteq> []" "lit ''s'' \<noteq> []" "lit ''/w'' \<noteq> []" "lit ''mc'' \<noteq> []" "lit ''agt'' \<noteq> []"
    "lit ''k8s'' \<noteq> []" "lit ''aliyun'' \<noteq> []"
    by (simp_all add: lit_def)
  define sync where "sync = offline_base\<lparr>se_endpoint := rstrip_slash (lit ''e''), se_access_key := lit ''k'',
        se_secret_key := lit ''s'', se_secure := startswith (lit ''e'') (lit ''https://''), se_runtime := [],
        se_bucket := lit ''agentteams-storage'', se_worker_name := lit ''lead'',
        se_worker_cr_name := lit ''lead'', se_local_dir := path_parent (lit ''/w''),
        se_shared_dir := lit ''/w'' @ lit ''/workspaces/default'' @ lit ''/shared'',
        se_global_shared_dir := lit ''/w'' @ lit ''/workspaces/default'' @ lit ''/global-shared''\<rparr>"
  have made: "te_sync offline_env fs = (Inr sync, fs)" for fs
    by (simp add: te_sync_def offline_env_def create_sync_def sync_fields_def raise_if_def offline_base_def returnS_def bindS_def missing_environment_def tool_environ_def ne
        copaw_working_dir_def or_text_default_def sync_def Let_def)
  have path: "task_path (lit ''a'') = lit ''shared/tasks/a/''" by (simp add: task_path_def lit_def)
  have raw: "strip (lit ''shared/tasks/a/'') = lit ''shared/tasks/a/''"
    by (simp add: lit_def char_class_defs strip_def rstrip_def)
  have parts: "path_parts (strip_chars [47] (lit ''shared/tasks/a/'')) = [lit ''shared'', lit ''tasks'', lit ''a'']"
    by (simp add: lit_def strip_chars_def path_parts_def path_root_def)
  have start: "\<not> startswith (lit ''shared/tasks/a/'') [47]" "92 \<notin> set (lit ''shared/tasks/a/'')" "lit ''shared/tasks/a/'' \<noteq> []"
    by (simp_all add: lit_def)
  have "loads read_decimal (dumps (JObj [])) = Inr (canon (JObj []))"
    by (rule loads_dumps[OF _ _ reads_floats_decimal]) simp_all
  then have scope: "shared_remote sync = Inr (global_shared_remote sync)"
    by (simp add: shared_remote_def team_id_def worker_info_def sync_def offline_base_def found_program_def ne)
  have kind: "sp_kind (shared_target k raw dir ps remote) = k" for k raw dir ps remote
    by (simp add: shared_target_def Let_def)
  obtain r where r: "resolve_shared_path sync (lit ''shared/tasks/a/'') = Inr r" "sp_kind r = lit ''shared''"
    unfolding resolve_shared_path_def Let_def raw parts using start by (simp add: scope kind)
  have "push_shared_path sync (task_path (lit ''a'')) [] fs = (Inl (CalledProcessError [] (lit ''timeout'')), fs)" for fs
    unfolding path
    by (simp add: push_shared_path_def r raise_if_def)
      (simp add: sync_def offline_base_def ensure_alias_def ne mc_def found_program_def bindS_def)
  then show thesis using that made by blast
qed

definition leader_yaml :: pystr where
  "leader_yaml = lit ''member:'' @ [10] @ lit ''  role: team_leader'' @ [10] @ lit ''team:'' @ [10]
     @ lit ''  teamRoomId: !t'' @ [10]"

definition leader_env :: task_env where
  "leader_env = offline_env\<lparr>te_runtime_yaml := Inr (Some leader_yaml)\<rparr>"

lemma leader_config:
  "runtime_config_field (Some leader_yaml) ''member'' ''role'' = lit ''team_leader''"
  "runtime_config_field (Some leader_yaml) ''team'' ''teamRoomId'' = lit ''!t''"
proof -
  have breaks: "no_break (lit ''member:'')" "no_break (lit ''  role: team_leader'')" "no_break (lit ''team:'')"
    "no_break (lit ''  teamRoomId: !t'')"
    by (simp_all add: lit_def is_linebreak_def)
  have ls: "splitlines leader_yaml = [lit ''member:'', lit ''  role: team_leader'', lit ''team:'', lit ''  teamRoomId: !t'']"
    using breaks splitlines_line[of "[]"] by (simp add: leader_yaml_def splitlines_line)
  have strips: "strip (lit ''member:'') = lit ''member:''" "strip (lit ''  role: team_leader'') = lit ''role: team_leader''"
    "strip (lit ''team:'') = lit ''team:''" "strip (lit ''  teamRoomId: !t'') = lit ''teamRoomId: !t''"
    "strip (lit ''role'') = lit ''role''" "strip (lit ''teamRoomId'') = lit ''teamRoomId''"
    by (simp_all add: lit_def char_class_defs strip_def rstrip_def)
  have comments: "\<not> startswith (lstrip (lit ''member:'')) [35]" "\<not> startswith (lstrip (lit ''  role: team_leader'')) [35]"
    "\<not> startswith (lstrip (lit ''team:'')) [35]" "\<not> startswith (lstrip (lit ''  teamRoomId: !t'')) [35]"
    by (simp_all add: lit_def char_class_defs)
  have heads: "hd (lit ''member:'') = 109" "hd (lit ''  role: team_leader'') = 32" "hd (lit ''team:'') = 116"
    "hd (lit ''  teamRoomId: !t'') = 32"
    by (simp_all add: lit_def)
  have texts: "lit ''member:'' = lit ''member'' @ [58]" "lit ''team:'' = lit ''team'' @ [58]"
    "lit ''member:'' \<noteq> []" "lit ''team:'' \<noteq> []" "lit ''role: team_leader'' \<noteq> []" "lit ''teamRoomId: !t'' \<noteq> []"
    by (simp_all add: lit_def)
  have colons: "58 \<in> set (lit ''role: team_leader'')" "58 \<in> set (lit ''teamRoomId: !t'')"
    "takeWhile (\<lambda>c. c \<noteq> 58) (lit ''role: team_leader'') = lit ''role''"
    "takeWhile (\<lambda>c. c \<noteq> 58) (lit ''teamRoomId: !t'') = lit ''teamRoomId''"
    "tl (dropWhile (\<lambda>c. c \<noteq> 58) (lit ''role: team_leader'')) = lit '' team_leader''"
    "tl (dropWhile (\<lambda>c. c \<noteq> 58) (lit ''teamRoomId: !t'')) = lit '' !t''"
    by (simp_all add: lit_def)
  have yaml: "strip_yaml_string (lit '' team_leader'') = lit ''team_leader''" "strip_yaml_string (lit '' !t'') = lit ''!t''"
    by (simp_all add: strip_yaml_string_def lit_def char_class_defs strip_def rstrip_def)
  show "runtime_config_field (Some leader_yaml) ''member'' ''role'' = lit ''team_leader''"
    "runtime_config_field (Some leader_yaml) ''team'' ''teamRoomId'' = lit ''!t''"
    by (simp_all add: runtime_config_field_def ls strips comments heads texts(3-) texts(1,2)[symmetric] colons yaml Let_def)
qed

section \<open>Properties\<close>

text \<open>C32: a team leader assigns work in the Team Room. A delegation by a leader whose configuration names
  a Team Room either tells the leader to write to that room, or it fails; and when the payload names
  another room, it fails before any file is written or pushed.\<close>

theorem leader_assigns_in_team_room:
  assumes "te_runtime_yaml E = Inr yaml" and "runtime_config_field yaml ''member'' ''role'' = lit ''team_leader''"
    and "runtime_config_field yaml ''team'' ''teamRoomId'' = team" and "team \<noteq> []"
    and "taskflow E (lit ''delegate_task'') payload False fs = (r, fs')"
  shows "(case message_target r of
       Some room \<Rightarrow> normalize_room_id room = normalize_room_id team
     | None \<Rightarrow> map_of r (lit ''ok'') = Some (JBool False))
   \<and> (\<forall>data room. coerce_payload (fe_float (te_files E)) terr payload = Inr data \<and> required_str data ''roomId'' = Inr room
        \<and> normalize_room_id room \<noteq> normalize_room_id team \<longrightarrow> map_of r (lit ''ok'') = Some (JBool False) \<and> fs' = fs)"
proof (intro conjI allI impI; (elim conjE)?)
  show "case message_target r of
       Some room \<Rightarrow> normalize_room_id room = normalize_room_id team
     | None \<Rightarrow> map_of r (lit ''ok'') = Some (JBool False)"
  proof (cases "message_target r")
    case None
    with assms(5) show ?thesis unfolding taskflow_delegation
      by (cases rule: tool_boundary_cases) (auto simp: bindS_lift_ok dest: run_delegation_target)
  next
    case (Some room)
    then show ?thesis using delegation_targets_team_room[OF assms] by simp
  qed
next
  fix data room
  assume "coerce_payload (fe_float (te_files E)) terr payload = Inr data" "required_str data ''roomId'' = Inr room"
    "normalize_room_id room \<noteq> normalize_room_id team"
  then obtain e where "delegation_fields E payload = Inl e" using wrong_room_refused assms(1-4) by metis
  from delegation_refused[OF this] assms(5)
  show "map_of r (lit ''ok'') = Some (JBool False)" "fs' = fs" by auto
qed

text \<open>C30: an assignment is lost when its files cannot be pushed, here in a clean plan of type DAG whose tasks can
  all be written on a line and with a push that leaves the files alone. The task is written and marked as
  delegated before the push, so a failed push is reported as an error without the message for the
  worker, and every further call with the same payload is rejected because the task is not pending,
  also when the storage answers again.\<close>

theorem failed_push_loses_assignment:
  assumes fields: "delegation_fields E payload = Inr (pid, tid, room, spec)" "delegation_fields E' payload = Inr (pid, tid, room, spec)"
    and store: "te_store E' = te_store E"
    and written: "delegate_task (te_now E) (te_store E) pid tid spec (Some room) fs = (Inr meta, fs1)"
    and push: "te_sync E fs1 = (Inr sync, fs1)" "push_shared_path sync (task_path tid) [] fs1 = (Inl e, fs1)"
    and plan: "fst (fs_read_project_plan pid fs) = Inr plan" "parse_plan_type plan = lit ''dag''" "clean_plan plan"
      "\<forall>t\<in>set (parse_dag_tasks plan). plain_task t"
  shows "\<exists>first. taskflow E (lit ''delegate_task'') payload False fs = (first, fs1)
    \<and> map_of first (lit ''ok'') = Some (JBool False) \<and> message_target first = None
    \<and> fst (taskflow E' (lit ''delegate_task'') payload False fs1)
        = tool_error (lit ''task '' @ tid @ lit '' is not pending'') (delegation_extra E' payload)"
proof -
  have spec: "strip spec \<noteq> []"
    using fields(1)
    by (auto simp: delegation_fields_def bindE_def required_str_def split: sum.splits json.splits if_splits)
  have "fst (delegate_task (te_now E') (te_store E') pid tid spec (Some room) fs1)
      = Inl (TaskflowError (lit ''task '' @ tid @ lit '' is not pending''))"
    using conjunct2[OF delegation_once[OF written[unfolded te_store_def] plan spec]] store by (simp add: te_store_def)
  from delegation_rejected[OF fields(2) this] delegation_push_fails[OF fields(1) written push]
  show ?thesis by (simp add: delegation_extra_def Let_def message_target_error)
qed

lemma leader_assigns_in_team_room_witness:
  "\<exists>r. taskflow leader_env (lit ''delegate_task'') sample_assignment False sample_files = (r, sample_files)
     \<and> map_of r (lit ''ok'') = Some (JBool False)"
proof -
  obtain r fs' where run: "taskflow leader_env (lit ''delegate_task'') sample_assignment False sample_files = (r, fs')"
    by (metis prod.exhaust)
  have yaml: "te_runtime_yaml leader_env = Inr (Some leader_yaml)" by (simp add: leader_env_def)
  have ne: "lit ''!t'' \<noteq> []" by (simp add: lit_def)
  obtain data where "coerce_payload (fe_float (te_files leader_env)) terr sample_assignment = Inr data"
    "required_str data ''roomId'' = Inr (lit ''!r'')"
    using sample_assignment_fields
    by (auto simp: delegation_fields_def bindE_def leader_env_def split: sum.splits)
  moreover have "normalize_room_id (lit ''!r'') \<noteq> normalize_room_id (lit ''!t'')"
    by (simp add: normalize_room_id_def lit_def char_class_defs strip_def rstrip_def)
  ultimately show ?thesis
    using leader_assigns_in_team_room[OF yaml leader_config ne run] run by blast
qed

lemma failed_push_loses_assignment_witness:
  "\<exists>fs1 first. taskflow offline_env (lit ''delegate_task'') sample_assignment False sample_files = (first, fs1)
    \<and> map_of first (lit ''ok'') = Some (JBool False) \<and> message_target first = None
    \<and> fst (taskflow offline_env (lit ''delegate_task'') sample_assignment False fs1)
        = tool_error (lit ''task '' @ lit ''a'' @ lit '' is not pending'') (delegation_extra offline_env sample_assignment)"
proof -
  have store: "te_store offline_env = fs_store no_repr" "te_now offline_env = lit ''now''"
    by (simp_all add: te_store_def offline_env_def)
  obtain meta fs1 where d: "delegate_task (te_now offline_env) (te_store offline_env) (lit ''p'') (lit ''a'')
      (lit ''do it'') (Some (lit ''!r'')) sample_files = (Inr meta, fs1)"
    using sample_delegation by (auto simp: store)
  obtain sync e where push: "te_sync offline_env fs1 = (Inr sync, fs1)"
    "push_shared_path sync (task_path (lit ''a'')) [] fs1 = (Inl e, fs1)"
    using offline_push by metis
  show ?thesis
    using failed_push_loses_assignment[OF sample_assignment_fields sample_assignment_fields refl d push
        sample_reads(1) sample_type sample_clean] by (auto simp: sample_tasks sample_plain)
qed

end
