(* ===== verification/Graph_Dfs.thy ===== *)
theory Graph_Dfs
  imports Base
begin

text \<open>
  The depth-first search that \<open>plugins/workerflow\<close> and \<open>plugins/teamharness\<close> use to reject cyclic
  dependencies, with the sets \<open>visiting\<close> and \<open>visited\<close>, and the proof that it decides acyclicity.
\<close>

section \<open>The search\<close>

text \<open>
  \<open>dfs g missing cyclic path visited ids\<close> runs \<open>visit\<close> on \<open>ids\<close> in turn. The set \<open>visiting\<close> is the
  path to the current node, the newest node first; \<open>cyclic\<close> is the exception for a node that is on the
  path, \<open>missing\<close> what happens for an unknown node. The result is \<open>visited\<close>.
\<close>

type_synonym graph = "(pystr \<times> pystr list) list"

function dfs ::
  "graph \<Rightarrow> (pystr \<Rightarrow> unit res) \<Rightarrow> (pystr list \<Rightarrow> pystr \<Rightarrow> exc) \<Rightarrow> pystr list \<Rightarrow> pystr list \<Rightarrow> pystr list
   \<Rightarrow> pystr list res" where
  "dfs g missing cyclic path visited [] = Inr visited"
| "dfs g missing cyclic path visited (x # xs) =
     (if x \<in> set visited then dfs g missing cyclic path visited xs
      else if x \<in> set path then Inl (cyclic path x)
      else (case map_of g x of
        None \<Rightarrow> (case missing x of Inl e \<Rightarrow> Inl e | Inr _ \<Rightarrow> dfs g missing cyclic path (x # visited) xs)
      | Some deps \<Rightarrow>
          (case dfs g missing cyclic (x # path) visited deps of
             Inl e \<Rightarrow> Inl e
           | Inr visited' \<Rightarrow> dfs g missing cyclic path (x # visited') xs)))"
  by pat_completeness auto

text \<open>A node is added to the path only when it is known and not on it: the known nodes off the path get
  fewer with each nested call.\<close>

termination
proof (relation "measures [\<lambda>(g, missing, cyclic, path, visited, xs). card (fst ` set g - set path),
    \<lambda>(g, missing, cyclic, path, visited, xs). length xs]", goal_cases)
  case (4 g missing cyclic path visited x xs deps)
  then have "x \<in> fst ` set g - set path" by (force dest: map_of_SomeD)
  then have "card (fst ` set g - insert x (set path)) < card (fst ` set g - set path)"
    by (intro psubset_card_mono) auto
  then show ?case by simp
qed auto

definition graph_edges :: "graph \<Rightarrow> (pystr \<times> pystr) set" where
  "graph_edges g = {(d, i) | d i ds. map_of g i = Some ds \<and> d \<in> set ds}"

definition known_deps :: "graph \<Rightarrow> bool" where
  "known_deps g \<longleftrightarrow> (\<forall>(i, ds)\<in>set g. set ds \<subseteq> fst ` set g)"

section \<open>A search that returns\<close>

text \<open>A set of nodes that contains all dependencies of its nodes and no cycle.\<close>

definition finished_nodes :: "graph \<Rightarrow> pystr set \<Rightarrow> bool" where
  "finished_nodes g V \<longleftrightarrow> (\<forall>i\<in>V. \<forall>d. (d, i) \<in> graph_edges g \<longrightarrow> d \<in> V) \<and> (\<forall>i\<in>V. (i, i) \<notin> (graph_edges g)\<^sup>+)"

lemma finished_backwards:
  assumes "finished_nodes g V" and "i \<in> V" and "(d, i) \<in> (graph_edges g)\<^sup>*"
  shows "d \<in> V"
  using assms(3,2)
proof (induction rule: converse_rtrancl_induct)
  case (step y z)
  then show ?case using assms(1) unfolding finished_nodes_def by blast
qed

lemma finished_insert:
  assumes "finished_nodes g V" and "\<And>d. (d, x) \<in> graph_edges g \<Longrightarrow> d \<in> V" and "x \<notin> V"
  shows "finished_nodes g (insert x V)"
proof -
  have "(x, x) \<notin> (graph_edges g)\<^sup>+"
  proof
    assume "(x, x) \<in> (graph_edges g)\<^sup>+"
    then obtain d where "(x, d) \<in> (graph_edges g)\<^sup>*" "(d, x) \<in> graph_edges g" by (meson tranclD2)
    with assms(2) finished_backwards[OF assms(1)] have "x \<in> V" by blast
    with assms(3) show False ..
  qed
  then show ?thesis using assms unfolding finished_nodes_def by blast
qed

lemma edges_into: "map_of g x = Some ds \<Longrightarrow> (d, x) \<in> graph_edges g \<longleftrightarrow> d \<in> set ds"
  by (auto simp: graph_edges_def)

lemma edges_into_unknown: "map_of g x = None \<Longrightarrow> (d, x) \<notin> graph_edges g"
  by (auto simp: graph_edges_def)

lemma dfs_returns:
  assumes "dfs g missing cyclic path visited xs = Inr V" and "finished_nodes g (set visited)"
  shows "finished_nodes g (set V) \<and> set visited \<union> set xs \<subseteq> set V \<and> set path \<inter> set V \<subseteq> set visited"
  using assms
proof (induction g missing cyclic path visited xs arbitrary: V rule: dfs.induct)
  case (2 g missing cyclic path visited x xs)
  show ?case
  proof (cases "x \<in> set visited")
    case True
    then show ?thesis using "2.IH"(1)[OF True] "2.prems" by auto
  next
    case new: False
    with "2.prems"(1) have off: "x \<notin> set path" by (auto split: if_splits)
    show ?thesis
    proof (cases "map_of g x")
      case None
      then obtain u where "missing x = Inr u" "dfs g missing cyclic path (x # visited) xs = Inr V"
        using "2.prems"(1) new off by (auto split: sum.splits)
      moreover have "finished_nodes g (set (x # visited))"
        using finished_insert[OF "2.prems"(2) _ new] edges_into_unknown[OF None] by auto
      ultimately show ?thesis using "2.IH"(2)[OF new off None] off by auto
    next
      case (Some deps)
      then obtain V' where V': "dfs g missing cyclic (x # path) visited deps = Inr V'"
          "dfs g missing cyclic path (x # V') xs = Inr V"
        using "2.prems"(1) new off by (auto split: sum.splits)
      have nested: "finished_nodes g (set V') \<and> set visited \<union> set deps \<subseteq> set V' \<and> set (x # path) \<inter> set V' \<subseteq> set visited"
        using "2.IH"(3)[OF new off Some V'(1) "2.prems"(2)] .
      then have "finished_nodes g (set (x # V'))"
        using finished_insert[of g "set V'" x] edges_into[OF Some] new by auto
      then show ?thesis using "2.IH"(4)[OF new off Some V'] nested off by auto
    qed
  qed
qed simp

section \<open>A search that raises\<close>

lemma dfs_raises:
  assumes "dfs g missing cyclic path visited xs = Inl e" and "known_deps g" and "set xs \<subseteq> fst ` set g"
    and "\<forall>p\<in>set path. \<forall>y\<in>set xs. (y, p) \<in> (graph_edges g)\<^sup>+"
  shows "\<exists>p x. e = cyclic p x \<and> (x, x) \<in> (graph_edges g)\<^sup>+"
  using assms
proof (induction g missing cyclic path visited xs rule: dfs.induct)
  case (2 g missing cyclic path visited x xs)
  show ?case
  proof (cases "x \<in> set visited")
    case True
    then show ?thesis using "2.IH"(1)[OF True] "2.prems" by auto
  next
    case new: False
    show ?thesis
    proof (cases "x \<in> set path")
      case True
      then show ?thesis using "2.prems"(1,4) new by auto
    next
      case off: False
      obtain deps where Some: "map_of g x = Some deps"
        using "2.prems"(3) by (cases "map_of g x") (auto simp: map_of_eq_None_iff)
      have known: "set deps \<subseteq> fst ` set g"
        using "2.prems"(2) map_of_SomeD[OF Some] by (auto simp: known_deps_def)
      have below: "(y, p) \<in> (graph_edges g)\<^sup>+" if "p \<in> set (x # path)" "y \<in> set deps" for p y
      proof -
        have "(y, x) \<in> graph_edges g" using that(2) edges_into[OF Some] by simp
        then show ?thesis using that(1) "2.prems"(4) by (auto intro: trancl_into_trancl2)
      qed
      show ?thesis
      proof (cases "dfs g missing cyclic (x # path) visited deps")
        case (Inl e')
        then have "e' = e" using "2.prems"(1) new off Some by simp
        then show ?thesis using "2.IH"(3)[OF new off Some] Inl "2.prems"(2) known below by blast
      next
        case (Inr V')
        then show ?thesis using "2.IH"(4)[OF new off Some Inr] "2.prems" new off Some by auto
      qed
    qed
  qed
qed simp

section \<open>The search decides acyclicity\<close>

lemma dfs_start: "finished_nodes g {}"
  by (simp add: finished_nodes_def)

lemma dfs_acyclic:
  assumes "known_deps g"
  shows "(\<exists>V. dfs g missing cyclic [] [] (map fst g) = Inr V) \<longleftrightarrow> acyclic (graph_edges g)"
proof
  assume "\<exists>V. dfs g missing cyclic [] [] (map fst g) = Inr V"
  then obtain V where V: "dfs g missing cyclic [] [] (map fst g) = Inr V" ..
  have "(i, i) \<notin> (graph_edges g)\<^sup>+" for i
  proof
    assume cycle: "(i, i) \<in> (graph_edges g)\<^sup>+"
    then obtain d where "(d, i) \<in> graph_edges g" by (meson tranclD2)
    then have "i \<in> set (map fst g)" by (auto simp: graph_edges_def dest!: map_of_SomeD) force
    with dfs_returns[OF V] dfs_start have "i \<in> set V" "finished_nodes g (set V)" by auto
    with cycle show False by (auto simp: finished_nodes_def)
  qed
  then show "acyclic (graph_edges g)" by (simp add: acyclic_def)
next
  assume acyclic: "acyclic (graph_edges g)"
  show "\<exists>V. dfs g missing cyclic [] [] (map fst g) = Inr V"
  proof (cases "dfs g missing cyclic [] [] (map fst g)")
    case (Inl e)
    from dfs_raises[OF Inl assms] acyclic show ?thesis by (auto simp: acyclic_def)
  qed simp
qed

lemma dfs_cyclic:
  assumes "known_deps g" and "\<not> acyclic (graph_edges g)"
  obtains p x where "dfs g missing cyclic [] [] (map fst g) = Inl (cyclic p x)"
proof (cases "dfs g missing cyclic [] [] (map fst g)")
  case (Inl e)
  then show thesis using dfs_raises[OF Inl assms(1)] that by auto
next
  case (Inr V)
  then show thesis using dfs_acyclic[OF assms(1)] assms(2) by blast
qed

text \<open>A graph without a cycle has a first node in every set of nodes.\<close>

lemma finite_graph_edges: "finite (graph_edges g)"
proof -
  have "graph_edges g \<subseteq> (\<Union>(i, ds)\<in>set g. (\<lambda>d. (d, i)) ` set ds)"
    by (auto simp: graph_edges_def dest!: map_of_SomeD)
  then show ?thesis using finite_subset by fastforce
qed

lemma first_of_graph:
  assumes "acyclic (graph_edges g)" and "x \<in> A"
  obtains i where "i \<in> A" and "\<And>d. (d, i) \<in> graph_edges g \<Longrightarrow> d \<notin> A"
  using wfE_min[OF finite_acyclic_wf[OF finite_graph_edges assms(1)] assms(2)] by metis

end
