(* ===== verification/Workflow_State.thy ===== *)
theory Workflow_State
  imports Graph_Dfs Tool_Common
begin

text \<open>
  The state of a workflow of \<open>plugins/workerflow/mcp/server.py\<close>: the rows of its card, which of them are
  done, and the step that releases the tasks whose dependencies are done. A state is the JSON object of
  \<open>workflow.json\<close>; \<open>R\<close> is Python's text of a list or dict.
\<close>

type_synonym dict = "(pystr \<times> json) list"

section \<open>Access to dicts\<close>

text \<open>\<open>str(d.get(a) or d.get(b) or "")\<close>, with \<open>strip()\<close>, and \<open>d[key] = value\<close>.\<close>

definition text_at :: "(json \<Rightarrow> pystr) \<Rightarrow> dict \<Rightarrow> string list \<Rightarrow> pystr" where
  "text_at R d keys = py_str R (first_true d keys)"

definition strip_at :: "(json \<Rightarrow> pystr) \<Rightarrow> dict \<Rightarrow> string list \<Rightarrow> pystr" where
  "strip_at R d keys = strip (text_at R d keys)"

definition text_or :: "(json \<Rightarrow> pystr) \<Rightarrow> dict \<Rightarrow> string list \<Rightarrow> pystr \<Rightarrow> pystr" where
  "text_or R d keys dflt = (let v = first_true d keys in if truthy v then py_str R v else dflt)"

definition put :: "string \<Rightarrow> json \<Rightarrow> dict \<Rightarrow> dict" where
  "put key v d = AList.update (lit key) v d"

definition jrows :: "dict list \<Rightarrow> json" where
  "jrows rows = JArr (map JObj rows)"

section \<open>Rows\<close>

fun row_of :: "(json \<Rightarrow> pystr) \<Rightarrow> json \<Rightarrow> dict option" where
  "row_of R (JObj kvs) = Some kvs"
| "row_of R JNull = None"
| "row_of R v = Some [(lit ''name'', JStr (py_str R v))]"

fun workflow_rows :: "(json \<Rightarrow> pystr) \<Rightarrow> json \<Rightarrow> dict list" where
  "workflow_rows R (JArr items) = List.map_filter (row_of R) items"
| "workflow_rows R _ = []"

definition rows_at :: "(json \<Rightarrow> pystr) \<Rightarrow> dict \<Rightarrow> string \<Rightarrow> dict list" where
  "rows_at R state key = workflow_rows R (payload_get state key)"

text \<open>The set of the names under which a row is known, as a list without duplicates.\<close>

definition row_keys :: "(json \<Rightarrow> pystr) \<Rightarrow> dict \<Rightarrow> pystr list" where
  "row_keys R row = remdups (filter (\<lambda>v. v \<noteq> [])
     (map (\<lambda>key. strip_at R row [key]) [''id'', ''agentId'', ''agent_id'', ''name'']))"

text \<open>\<open>by_key.get(key)\<close>: of several rows with the key the last one is found.\<close>

fun last_index :: "(json \<Rightarrow> pystr) \<Rightarrow> pystr \<Rightarrow> dict list \<Rightarrow> nat option" where
  "last_index R key [] = None"
| "last_index R key (row # rows) = (case last_index R key rows of
     Some i \<Rightarrow> Some (Suc i)
   | None \<Rightarrow> if key \<in> set (row_keys R row) then Some 0 else None)"

definition copy_if_present :: "string \<Rightarrow> dict \<Rightarrow> dict \<Rightarrow> dict" where
  "copy_if_present key source target =
     (case map_of source (lit key) of None \<Rightarrow> target | Some v \<Rightarrow> put key v target)"

text \<open>
  The rows take over the status and the summary of the steps that name them. The loop over the keys of a
  step follows the order of a Python set of strings, which differs from run to run: \<open>ord\<close> is that order.
\<close>

definition sync_step :: "(json \<Rightarrow> pystr) \<Rightarrow> (pystr list \<Rightarrow> pystr list) \<Rightarrow> dict \<Rightarrow> dict list \<Rightarrow> dict list" where
  "sync_step R ord step rows =
     (case List.map_filter (\<lambda>key. last_index R key rows) (ord (row_keys R step)) of
        [] \<Rightarrow> rows
      | i # _ \<Rightarrow> rows[i := copy_if_present ''summary'' step (copy_if_present ''status'' step (rows ! i))])"

definition sync_rows :: "(json \<Rightarrow> pystr) \<Rightarrow> (pystr list \<Rightarrow> pystr list) \<Rightarrow> dict list \<Rightarrow> dict list \<Rightarrow> dict list" where
  "sync_rows R ord subagents steps = fold (sync_step R ord) steps subagents"

section \<open>What is done\<close>

definition workflow_done :: "(json \<Rightarrow> pystr) \<Rightarrow> dict \<Rightarrow> bool" where
  "workflow_done R row \<longleftrightarrow>
     lower (strip_at R row [''status'']) \<in> set (map lit [''done'', ''success'', ''succeeded'', ''completed''])"

definition completed_keys :: "(json \<Rightarrow> pystr) \<Rightarrow> dict \<Rightarrow> pystr list" where
  "completed_keys R state =
     concat (map (row_keys R) (filter (workflow_done R)
       (rows_at R state ''steps'' @ rows_at R state ''subagents'' @ rows_at R state ''nodes'')))"

section \<open>Releasing tasks\<close>

text \<open>\<open>by_key.setdefault\<close>: of several rows with the key the first one is found.\<close>

definition row_by_key :: "(json \<Rightarrow> pystr) \<Rightarrow> dict list \<Rightarrow> pystr \<Rightarrow> dict" where
  "row_by_key R rows key = (case filter (\<lambda>row. key \<in> set (row_keys R row)) rows of [] \<Rightarrow> [] | row # _ \<Rightarrow> row)"

definition upstream_line :: "(json \<Rightarrow> pystr) \<Rightarrow> dict list \<Rightarrow> pystr \<Rightarrow> pystr option" where
  "upstream_line R rows dep =
     (let row = row_by_key R rows dep; summary = strip_at R row [''summary'']; status = strip_at R row [''status''] in
      if summary \<noteq> [] then Some (lit ''- '' @ dep @ lit '': '' @ summary)
      else if status \<noteq> [] then Some (lit ''- '' @ dep @ lit '': '' @ status)
      else None)"

definition with_upstream_summaries :: "(json \<Rightarrow> pystr) \<Rightarrow> pystr \<Rightarrow> pystr list \<Rightarrow> dict \<Rightarrow> pystr" where
  "with_upstream_summaries R prompt depends_on state =
     (let lines = List.map_filter (upstream_line R (rows_at R state ''steps'' @ rows_at R state ''subagents'')) depends_on in
      if lines = [] then prompt
      else rstrip prompt @ [10, 10] @ lit ''Upstream summaries:'' @ [10] @ join [10] lines)"

definition row_id :: "(json \<Rightarrow> pystr) \<Rightarrow> dict \<Rightarrow> pystr" where
  "row_id R row = strip_at R row [''id'']"

definition mark_ready :: "(json \<Rightarrow> pystr) \<Rightarrow> pystr list \<Rightarrow> dict list \<Rightarrow> dict list" where
  "mark_ready R ready_ids rows = map (\<lambda>row. if row_id R row \<in> set ready_ids
     then put ''summary'' (JStr (lit ''dependencies done; ready for submit'')) (put ''status'' (JStr (lit ''ready'')) row)
     else row) rows"

text \<open>The dependencies of an instruction; a value that is no list is iterated as Python does.\<close>

definition str_or_empty :: "(json \<Rightarrow> pystr) \<Rightarrow> json \<Rightarrow> pystr" where
  "str_or_empty R v = (if truthy v then py_str R v else [])"

definition dependencies :: "(json \<Rightarrow> pystr) \<Rightarrow> dict \<Rightarrow> pystr list res" where
  "dependencies R instruction =
     (let v = payload_get instruction ''dependsOn'' in
      bindE (list_of_value (if truthy v then v else JArr [])) (\<lambda>items.
      Inr (filter (\<lambda>d. d \<noteq> []) (map (\<lambda>item. strip (str_or_empty R item)) items))))"

definition is_released :: "pystr list \<Rightarrow> pystr list \<Rightarrow> bool" where
  "is_released completed depends_on \<longleftrightarrow> depends_on \<noteq> [] \<and> list_all (\<lambda>d. d \<in> set completed) depends_on"

definition released :: "(json \<Rightarrow> pystr) \<Rightarrow> dict \<Rightarrow> dict \<times> pystr list \<Rightarrow> dict" where
  "released R state = (\<lambda>(instruction, depends_on).
     put ''submitPrompt'' (JStr (with_upstream_summaries R (text_at R instruction [''submitPrompt'']) depends_on state))
       instruction)"

text \<open>An instruction is submitted once: one whose identifier has been submitted is not added again.\<close>

fun add_submitted :: "(json \<Rightarrow> pystr) \<Rightarrow> dict list \<Rightarrow> dict list \<Rightarrow> dict list" where
  "add_submitted R submitted [] = submitted"
| "add_submitted R submitted (instruction # ready) =
     (if row_id R instruction \<noteq> [] \<and> row_id R instruction \<notin> set (map (row_id R) submitted)
      then add_submitted R (submitted @ [instruction]) ready
      else add_submitted R submitted ready)"

text \<open>The new lists and the new status of the rows.\<close>

definition release_rows :: "(json \<Rightarrow> pystr) \<Rightarrow> dict list \<Rightarrow> dict list \<Rightarrow> dict \<Rightarrow> dict" where
  "release_rows R ready still state =
     (let state = put ''waitingInstructions'' (jrows still) state;
          state = put ''submitInstructions'' (jrows (add_submitted R (rows_at R state ''submitInstructions'') ready)) state;
          ready_ids = map (row_id R) ready;
          state = put ''nodes'' (jrows (mark_ready R ready_ids (rows_at R state ''nodes''))) state in
      put ''subagents'' (jrows (mark_ready R ready_ids (rows_at R state ''subagents''))) state)"

definition ready_rows :: "(json \<Rightarrow> pystr) \<Rightarrow> dict \<Rightarrow> (dict \<times> pystr list) list \<Rightarrow> dict list" where
  "ready_rows R state waiting =
     map (released R state) (filter (\<lambda>x. is_released (completed_keys R state) (snd x)) waiting)"

definition still_rows :: "(json \<Rightarrow> pystr) \<Rightarrow> dict \<Rightarrow> (dict \<times> pystr list) list \<Rightarrow> dict list" where
  "still_rows R state waiting = map fst (filter (\<lambda>x. \<not> is_released (completed_keys R state) (snd x)) waiting)"

definition advance :: "(json \<Rightarrow> pystr) \<Rightarrow> dict \<Rightarrow> (dict \<times> dict list) res" where
  "advance R state =
     (let waiting = rows_at R state ''waitingInstructions'' in
      if waiting = [] then Inr (put ''readyInstructions'' (JArr []) state, [])
      else
        bindE (mapE (dependencies R) waiting) (\<lambda>deps.
        let ready = ready_rows R state (zip waiting deps); still = still_rows R state (zip waiting deps);
            state = put ''readyInstructions'' (jrows ready) state in
        Inr (if ready = [] then state else release_rows R ready still state, ready)))"

section \<open>Temporary agents\<close>

text \<open>\<open>[A-Za-z0-9][A-Za-z0-9._-]{0,n}\<close>.\<close>

definition is_name_char :: "nat \<Rightarrow> bool" where
  "is_name_char c \<longleftrightarrow> is_alnum_ascii c \<or> c \<in> {46, 95, 45}"

definition safe_name :: "nat \<Rightarrow> pystr \<Rightarrow> bool" where
  "safe_name n s \<longleftrightarrow> s \<noteq> [] \<and> is_alnum_ascii (hd s) \<and> list_all is_name_char (tl s) \<and> length (tl s) \<le> n"

definition safe_temp_agent_id :: "pystr \<Rightarrow> bool" where
  "safe_temp_agent_id s \<longleftrightarrow> startswith s (lit ''tmp-'') \<and> safe_name 127 (drop 4 s)"

definition temp_agent_ids :: "(json \<Rightarrow> pystr) \<Rightarrow> dict \<Rightarrow> pystr list" where
  "temp_agent_ids R state =
     (let ids = map (\<lambda>row. strip_at R row [''agentId'', ''agent_id'']) (rows_at R state ''subagents'' @ rows_at R state ''nodes'') in
      rev (remdups (rev (filter (\<lambda>i. startswith i (lit ''tmp-workerflow-'') \<and> safe_temp_agent_id i) ids))))"

section \<open>Reading fields\<close>

lemma payload_get_put: "payload_get (put k v d) k' = (if k' = k then v else payload_get d k')"
  by (simp add: payload_get_def put_def update_conv')

lemma payload_get_absent: "map_of d (lit k) = None \<Longrightarrow> payload_get d k = JNull"
  by (simp add: payload_get_def)

lemma first_true_single: "first_true d [k] = (let v = payload_get d k in if truthy v then v else JStr [])"
  by (simp add: first_true_def payload_get_def map_filter_def split: option.splits)

lemma text_at_single: "text_at R d [k] = str_or_empty R (payload_get d k)"
  by (simp add: text_at_def first_true_single str_or_empty_def Let_def)

end
