(* ===== verification/Workflow_Plan.thy ===== *)
theory Workflow_Plan
  imports Workflow_State
begin

text \<open>
  The plan of a workflow run in \<open>plugins/workerflow/mcp/server.py\<close>: the nodes of the payload are checked
  and completed, and a plan with a dependency cycle is rejected before anything is created.
\<close>

definition werr :: "string \<Rightarrow> exc" where
  "werr msg = ValueError (lit msg)"

section \<open>Nodes\<close>

text \<open>
  A node of the plan is the dict of the payload with the entries \<open>id\<close>, \<open>subagent\<close>, \<open>task\<close> and
  \<open>dependsOn\<close> replaced by the normalized values, which are the fields of the record.
\<close>

record plan_node =
  pn_id :: pystr
  pn_subagent :: pystr
  pn_task :: pystr
  pn_depends :: "pystr list"
  pn_dict :: dict

definition plan_subagent :: "(json \<Rightarrow> pystr) \<Rightarrow> nat \<Rightarrow> json \<Rightarrow> plan_node res" where
  "plan_subagent R index item = (case item of
     JObj plan \<Rightarrow>
       (let subagent_id = strip (text_or R plan [''id''] (lit ''subagent-'' @ nat_str (index + 1)));
            subagent = strip_at R plan [''subagent'']; task = strip_at R plan [''task''] in
        bindE (seqE
          [raise_if (\<not> safe_name 63 subagent_id) (werr ''subagent id must be a safe single path component''),
           raise_if (subagent = []) (werr ''workflow_run subagent requires subagent''),
           raise_if (task = []) (werr ''workflow_run subagent requires task'')]) (\<lambda>_.
        Inr \<lparr>pn_id = subagent_id, pn_subagent = subagent, pn_task = task, pn_depends = [], pn_dict = plan\<rparr>))
   | _ \<Rightarrow> Inl (werr ''workflow_run subagents must be objects''))"

definition plan_subagents :: "(json \<Rightarrow> pystr) \<Rightarrow> json \<Rightarrow> plan_node list res" where
  "plan_subagents R v = (case v of
     JArr items \<Rightarrow>
       if items = [] then Inl (werr ''workflow_run requires at least one subagent'')
       else mapE (\<lambda>(i, item). plan_subagent R i item) (enumerate 0 items)
   | _ \<Rightarrow> Inl (werr ''workflow_run requires at least one subagent''))"

section \<open>Dependencies\<close>

text \<open>The list \<open>dependsOn\<close> or \<open>depends_on\<close> of a node; anything but a list counts as empty.\<close>

fun json_items :: "json \<Rightarrow> json list" where
  "json_items (JArr items) = items"
| "json_items _ = []"

definition raw_depends :: "dict \<Rightarrow> json list" where
  "raw_depends d =
     (let v = payload_get d ''dependsOn'' in json_items (if v = JNull then payload_get d ''depends_on'' else v))"

fun normalize_depends ::
  "(json \<Rightarrow> pystr) \<Rightarrow> pystr list \<Rightarrow> pystr list \<Rightarrow> json list \<Rightarrow> pystr list res" where
  "normalize_depends R node_ids normalized [] = Inr normalized"
| "normalize_depends R node_ids normalized (dep # deps) =
     (let dep_id = strip (str_or_empty R dep) in
      bindE (seqE
        [raise_if (\<not> safe_name 63 dep_id) (werr ''workflow_run dependsOn entries must be safe node ids''),
         raise_if (dep_id \<notin> set node_ids)
           (ValueError (lit ''workflow_run node depends on unknown node: '' @ dep_id))]) (\<lambda>_.
      normalize_depends R node_ids (if dep_id \<in> set normalized then normalized else normalized @ [dep_id]) deps))"

fun plan_depends :: "(json \<Rightarrow> pystr) \<Rightarrow> pystr list \<Rightarrow> pystr list \<Rightarrow> plan_node list \<Rightarrow> plan_node list res" where
  "plan_depends R node_ids seen [] = Inr []"
| "plan_depends R node_ids seen (node # nodes) =
     bindE (raise_if (pn_id node \<in> set seen) (werr ''workflow_run node ids must be unique'')) (\<lambda>_.
     bindE (normalize_depends R node_ids [] (raw_depends (pn_dict node))) (\<lambda>depends.
     bindE (plan_depends R node_ids (pn_id node # seen) nodes) (\<lambda>rest.
     Inr (node\<lparr>pn_depends := depends\<rparr> # rest))))"

definition node_graph :: "plan_node list \<Rightarrow> graph" where
  "node_graph nodes = map (\<lambda>node. (pn_id node, pn_depends node)) nodes"

definition validate_workflow_dag :: "plan_node list \<Rightarrow> unit res" where
  "validate_workflow_dag nodes =
     bindE (dfs (node_graph nodes) (\<lambda>x. Inl (KeyError x))
       (\<lambda>path x. werr ''workflow_run nodes must not contain dependency cycles'') [] [] (map pn_id nodes)) (\<lambda>_.
     Inr ())"

definition is_dag_plan :: "dict \<Rightarrow> bool" where
  "is_dag_plan arguments \<longleftrightarrow> json_items (payload_get arguments ''nodes'') \<noteq> []"

definition plan_nodes :: "(json \<Rightarrow> pystr) \<Rightarrow> dict \<Rightarrow> (plan_node list \<times> bool) res" where
  "plan_nodes R arguments =
     (let is_dag = is_dag_plan arguments in
      bindE (plan_subagents R (payload_get arguments (if is_dag then ''nodes'' else ''subagents''))) (\<lambda>nodes.
      bindE (plan_depends R (map pn_id nodes) [] nodes) (\<lambda>nodes.
      bindE (validate_workflow_dag nodes) (\<lambda>_. Inr (nodes, is_dag)))))"

section \<open>Agents and prompts\<close>

definition subagent_agent_id :: "(json \<Rightarrow> pystr) \<Rightarrow> pystr \<Rightarrow> plan_node \<Rightarrow> pystr res" where
  "subagent_agent_id R run_id node =
     (let explicit = strip_at R (pn_dict node) [''agentId'', ''agent_id''];
          agent_id = (if explicit \<noteq> [] then explicit
                      else lit ''tmp-workerflow-'' @ run_id @ [45] @ pn_id node) in
      if safe_temp_agent_id agent_id then Inr agent_id
      else Inl (werr ''workflow_run subagent agentId must be a safe tmp-* id''))"

definition submit_prompt ::
  "(json \<Rightarrow> pystr) \<Rightarrow> pystr \<Rightarrow> pystr \<Rightarrow> plan_node \<Rightarrow> dict \<Rightarrow> dict \<Rightarrow> (pystr \<times> pystr) list \<Rightarrow> pystr" where
  "submit_prompt R title input_text node shared merge outputs =
     (let merge_instruction = strip_at R merge [''instruction''] in
      strip (join [10]
        ([lit ''WorkerFlow subagent task.'', [], lit ''Workflow: '' @ title, lit ''Subagent id: '' @ pn_id node,
          lit ''Subagent: '' @ pn_subagent node, lit ''Task: '' @ pn_task node, [], lit ''Input:'', input_text, [],
          lit ''Shared files:'', lit ''- inputs: '' @ text_at R shared [''inputs''],
          lit ''- output: '' @ text_at R shared [''output''], [],
          lit ''Write any files only under the output path above. Return a concise structured result.'']
         @ (if outputs = [] then [] else [[], lit ''Upstream outputs:'']
              @ map (\<lambda>(dep, output). lit ''- '' @ dep @ lit '': '' @ output) outputs)
         @ (if merge_instruction = [] then [] else [[], lit ''Merge expectation: '' @ merge_instruction]))))"

section \<open>Accepted plans\<close>

text \<open>What the checks of the nodes guarantee.\<close>

definition plan_ok :: "plan_node list \<Rightarrow> bool" where
  "plan_ok nodes \<longleftrightarrow> nodes \<noteq> [] \<and> distinct (map pn_id nodes)
     \<and> (\<forall>node\<in>set nodes. safe_name 63 (pn_id node) \<and> distinct (pn_depends node)
         \<and> set (pn_depends node) \<subseteq> pn_id ` set nodes)"

lemma normalize_depends_ok:
  assumes "normalize_depends R ids normalized deps = Inr ds" and "distinct normalized" and "set normalized \<subseteq> set ids"
  shows "distinct ds \<and> set ds \<subseteq> set ids"
  using assms by (induction R ids normalized deps rule: normalize_depends.induct) (auto simp: Let_def split: if_splits)

lemma plan_depends_ok:
  assumes "plan_depends R ids seen nodes = Inr planned"
  shows "map pn_id planned = map pn_id nodes" and "distinct (map pn_id nodes)" and "set (map pn_id nodes) \<inter> set seen = {}"
    and "\<forall>node\<in>set planned. distinct (pn_depends node) \<and> set (pn_depends node) \<subseteq> set ids"
  using assms
proof (induction R ids seen nodes arbitrary: planned rule: plan_depends.induct)
  case (2 R ids seen node nodes)
  {
    case 1
    then show ?case using "2.IH" by fastforce
  next
    case 2
    then show ?case using "2.IH" by fastforce
  next
    case 3
    then show ?case using "2.IH" by fastforce
  next
    case 4
    then show ?case using "2.IH"(4) normalize_depends_ok[of R ids "[]"] by fastforce
  }
qed auto

lemma plan_subagents_ok:
  assumes "plan_subagents R v = Inr nodes"
  shows "nodes \<noteq> []" and "\<forall>node\<in>set nodes. safe_name 63 (pn_id node)"
proof -
  obtain items where "items \<noteq> []" and m: "mapE (\<lambda>(i, item). plan_subagent R i item) (enumerate 0 items) = Inr nodes"
    using assms by (auto simp: plan_subagents_def split: json.splits if_splits)
  then show "nodes \<noteq> []" using mapE_ok_length[OF m] by auto
  show "\<forall>node\<in>set nodes. safe_name 63 (pn_id node)"
    using mapE_ok_set[OF m] by (fastforce simp: plan_subagent_def Let_def split: json.splits if_splits)
qed

lemma graph_of_plan: "plan_ok nodes \<Longrightarrow> known_deps (node_graph nodes) \<and> map fst (node_graph nodes) = map pn_id nodes"
  by (auto simp: plan_ok_def known_deps_def node_graph_def image_image)

lemma node_graph_edges:
  assumes "plan_ok nodes"
  shows "(d, i) \<in> graph_edges (node_graph nodes) \<longleftrightarrow> (\<exists>node\<in>set nodes. pn_id node = i \<and> d \<in> set (pn_depends node))"
proof -
  have "distinct (map fst (node_graph nodes))" using assms by (auto simp: plan_ok_def node_graph_def comp_def)
  then have "map_of (node_graph nodes) i = Some ds \<longleftrightarrow> (i, ds) \<in> set (node_graph nodes)" for ds
    by (rule map_of_eq_Some_iff)
  then show ?thesis by (auto simp: graph_edges_def node_graph_def)
qed

lemma validate_workflow_dag_iff:
  assumes "plan_ok nodes"
  shows "validate_workflow_dag nodes = Inr () \<longleftrightarrow> acyclic (graph_edges (node_graph nodes))"
    and "\<not> acyclic (graph_edges (node_graph nodes)) \<Longrightarrow>
      validate_workflow_dag nodes = Inl (werr ''workflow_run nodes must not contain dependency cycles'')"
proof -
  have g: "known_deps (node_graph nodes)" "map pn_id nodes = map fst (node_graph nodes)"
    using graph_of_plan[OF assms] by simp_all
  show "validate_workflow_dag nodes = Inr () \<longleftrightarrow> acyclic (graph_edges (node_graph nodes))"
    using dfs_acyclic[OF g(1), of "\<lambda>x. Inl (KeyError x)"
        "\<lambda>path x. werr ''workflow_run nodes must not contain dependency cycles''"]
    unfolding validate_workflow_dag_def g(2) by (auto simp: bindE_ok)
  show "validate_workflow_dag nodes = Inl (werr ''workflow_run nodes must not contain dependency cycles'')"
    if "\<not> acyclic (graph_edges (node_graph nodes))"
    unfolding validate_workflow_dag_def g(2)
    by (rule dfs_cyclic[OF g(1) that, where missing = "\<lambda>x. Inl (KeyError x)"
        and cyclic = "\<lambda>path x. werr ''workflow_run nodes must not contain dependency cycles''"]) simp
qed

lemma plan_depends_plan_ok:
  assumes "plan_subagents R v = Inr raw" and "plan_depends R (map pn_id raw) [] raw = Inr nodes"
  shows "plan_ok nodes"
proof -
  note p = plan_depends_ok[OF assms(2)]
  have ids: "pn_id ` set nodes = pn_id ` set raw" using p(1) by (metis list.set_map)
  have "nodes \<noteq> []" using p(1) plan_subagents_ok(1)[OF assms(1)] by auto
  moreover have "safe_name 63 (pn_id node)" if "node \<in> set nodes" for node
    using that ids plan_subagents_ok(2)[OF assms(1)] by (metis (no_types, lifting) image_iff imageI)
  ultimately show ?thesis using p ids by (auto simp: plan_ok_def)
qed

lemma plan_nodes_ok:
  assumes "plan_nodes R arguments = Inr (nodes, is_dag)"
  shows "plan_ok nodes" and "acyclic (graph_edges (node_graph nodes))"
proof -
  obtain raw where raw: "plan_subagents R (payload_get arguments (if is_dag_plan arguments then ''nodes'' else ''subagents'')) = Inr raw"
      "plan_depends R (map pn_id raw) [] raw = Inr nodes" "validate_workflow_dag nodes = Inr ()"
    using assms by (auto simp: plan_nodes_def Let_def)
  show "plan_ok nodes" using plan_depends_plan_ok[OF raw(1,2)] .
  then show "acyclic (graph_edges (node_graph nodes))" using validate_workflow_dag_iff(1) raw(3) by blast
qed

end
