(* ===== verification/Workflow_Env.thy ===== *)
theory Workflow_Env
  imports Workflow_Plan Tool_Filesync Web_Text
begin

text \<open>
  What the server of \<open>plugins/workerflow/mcp/server.py\<close> works on: the environment variables, the runtime
  configuration, the paths, HTTP requests and the files. Requests, the file system outside the state files,
  YAML and the clock are parameters.
\<close>

section \<open>Requests and files\<close>

record http_request =
  rq_method :: pystr
  rq_url :: pystr
  rq_body :: "json option"
  rq_token :: "pystr option"

text \<open>The text of a response, an error status with its text, a \<open>URLError\<close>, or another failure.\<close>

datatype http_answer = Answered pystr | HttpError int pystr | NoConnection pystr | Broken exc

datatype fs_call =
    MkDir pystr
  | CopyFile pystr pystr
  | CopyTree pystr pystr
  | RmTree pystr
  | Unlink pystr
  | SymLink pystr pystr
  | WriteText pystr pystr

text \<open>
  The environment. \<open>we_order\<close> is the order in which Python enumerates a set of strings; \<open>we_uuid\<close> the
  eight digits of a new identifier; \<open>we_expand\<close> is \<open>str(Path(text).expanduser())\<close>, \<open>we_resolve\<close> also
  follows links; \<open>we_urlparse\<close> gives the scheme and the host of a URL and \<open>we_loopback_ip\<close> says whether
  a host is a loopback address; \<open>we_yaml\<close> is \<open>yaml.safe_load\<close>, which may fail.
\<close>

record 's flow_env =
  we_repr :: "json \<Rightarrow> pystr"
  we_exc_text :: "exc \<Rightarrow> pystr"
  we_float :: "pystr \<Rightarrow> pyfloat"
  we_order :: "pystr list \<Rightarrow> pystr list"
  we_env :: "pystr \<Rightarrow> pystr option"
  we_uuid :: pystr
  we_now :: pystr
  we_txn :: pystr
  we_cwd :: pystr
  we_expand :: "pystr \<Rightarrow> pystr"
  we_resolve :: "pystr \<Rightarrow> pystr"
  we_urlparse :: "pystr \<Rightarrow> pystr \<times> pystr"
  we_loopback_ip :: "pystr \<Rightarrow> bool"
  we_yaml :: "pystr \<Rightarrow> json option"
  we_read_text :: "pystr \<Rightarrow> 's \<Rightarrow> pystr option"
  we_http :: "http_request \<Rightarrow> 's \<Rightarrow> http_answer \<times> 's"
  we_exists :: "pystr \<Rightarrow> 's \<Rightarrow> bool"
  we_is_dir :: "pystr \<Rightarrow> 's \<Rightarrow> bool"
  we_is_file :: "pystr \<Rightarrow> 's \<Rightarrow> bool"
  we_readlink :: "pystr \<Rightarrow> 's \<Rightarrow> pystr option"
  we_list :: "pystr \<Rightarrow> 's \<Rightarrow> pystr list"
  we_fs :: "fs_call \<Rightarrow> ('s, unit) actS"
  we_skill_system :: bool
  we_reconcile :: "pystr \<Rightarrow> ('s, unit) actS"
  we_enable_skill :: "pystr \<Rightarrow> pystr \<Rightarrow> ('s, bool) actS"

text \<open>The state files by their path, as the JSON values they hold, and everything else.\<close>

record 's flow_world =
  fw_json :: "pystr \<Rightarrow> json option"
  fw_rest :: 's

type_synonym ('s, 'a) flow = "('s flow_world, 'a) actS"

text \<open>
  The text of a \<open>PurePosixPath\<close>: empty and single-dot components disappear, a path may start with one
  or with exactly two slashes, and an empty path is a dot. \<open>path_join\<close> is the operator \<open>/\<close>.
\<close>

definition pure_path :: "pystr \<Rightarrow> pystr" where
  "pure_path p =
     (let text = concat (path_root p) @ join [47] (filter (\<lambda>c. c \<noteq> [] \<and> c \<noteq> lit ''.'') (split_on 47 p)) in
      if text = [] then lit ''.'' else text)"

definition path_join :: "pystr \<Rightarrow> pystr \<Rightarrow> pystr" where
  "path_join a b = pure_path (if startswith b [47] then b else a @ [47] @ b)"

text \<open>\<open>p.relative_to(dir)\<close> succeeds, for absolute paths as \<open>resolve\<close> gives them.\<close>

definition below_dir :: "pystr \<Rightarrow> pystr \<Rightarrow> bool" where
  "below_dir dir p \<longleftrightarrow> p = dir \<or> startswith p (rstrip_slash dir @ [47])"

definition on_rest :: "('s, 'a) actS \<Rightarrow> ('s, 'a) flow" where
  "on_rest m w = (case m (fw_rest w) of (r, s) \<Rightarrow> (r, w\<lparr>fw_rest := s\<rparr>))"

definition see :: "('s \<Rightarrow> 'a) \<Rightarrow> ('s, 'a) flow" where
  "see g = getS (\<lambda>w. g (fw_rest w))"

text \<open>Removing a directory removes the state files in it.\<close>

definition fs_do :: "'s flow_env \<Rightarrow> fs_call \<Rightarrow> ('s, unit) flow" where
  "fs_do E c =
     bindS (on_rest (we_fs E c)) (\<lambda>_ w.
     (Inr (), case c of RmTree dir \<Rightarrow> w\<lparr>fw_json := (\<lambda>p. if below_dir dir p then None else fw_json w p)\<rparr> | _ \<Rightarrow> w))"

definition read_state :: "pystr \<Rightarrow> ('s, dict) flow" where
  "read_state p = getS (\<lambda>w. case fw_json w p of Some (JObj kvs) \<Rightarrow> kvs | _ \<Rightarrow> [])"

definition write_state :: "pystr \<Rightarrow> dict \<Rightarrow> ('s, unit) flow" where
  "write_state p d w = (Inr (), w\<lparr>fw_json := (fw_json w)(p \<mapsto> JObj d)\<rparr>)"

definition send_request :: "'s flow_env \<Rightarrow> http_request \<Rightarrow> ('s, http_answer) flow" where
  "send_request E q = on_rest (\<lambda>s. case we_http E q s of (a, s') \<Rightarrow> (Inr a, s'))"

section \<open>Environment variables and paths\<close>

definition env_raw :: "'s flow_env \<Rightarrow> pystr \<Rightarrow> pystr" where
  "env_raw E name = (case we_env E name of None \<Rightarrow> [] | Some v \<Rightarrow> v)"

definition env_text :: "'s flow_env \<Rightarrow> pystr \<Rightarrow> pystr" where
  "env_text E name = strip (env_raw E name)"

fun first_text :: "pystr list \<Rightarrow> pystr" where
  "first_text [] = []"
| "first_text (t # ts) = (if t \<noteq> [] then t else first_text ts)"

definition qwenpaw_working_dir :: "'s flow_env \<Rightarrow> pystr" where
  "qwenpaw_working_dir E =
     (let raw = first_text [env_text E (lit ''QWENPAW_WORKING_DIR''), env_text E (lit ''COPAW_WORKING_DIR'')];
          home = env_text E (lit ''HOME'') in
      if raw \<noteq> [] then we_expand E raw
      else if home \<noteq> [] then path_join (we_expand E home) (lit ''.qwenpaw'')
      else path_join (we_cwd E) (lit ''.qwenpaw''))"

definition default_workspace :: "'s flow_env \<Rightarrow> pystr \<Rightarrow> pystr" where
  "default_workspace E agent_id = path_join (path_join (qwenpaw_working_dir E) (lit ''workspaces'')) agent_id"

definition default_agent_workspace :: "'s flow_env \<Rightarrow> pystr" where
  "default_agent_workspace E =
     (let raw = env_text E (lit ''QWENPAW_DEFAULT_WORKSPACE_DIR'') in
      if raw \<noteq> [] then we_expand E raw else default_workspace E (lit ''default''))"

definition subagents_dir :: "'s flow_env \<Rightarrow> pystr" where
  "subagents_dir E = path_join (default_agent_workspace E) (lit ''subagents'')"

definition shared_root :: "'s flow_env \<Rightarrow> pystr" where
  "shared_root E = path_join (path_join (default_agent_workspace E) (lit ''shared'')) (lit ''workerflow'')"

definition resolve_run_id :: "(json \<Rightarrow> pystr) \<Rightarrow> json \<Rightarrow> pystr \<Rightarrow> pystr res" where
  "resolve_run_id R raw fallback =
     (let text = strip (str_or_empty R raw); v = (if text \<noteq> [] then text else fallback) in
      if safe_name 127 v then Inr v else Inl (werr ''sharedRunId must be a safe single path component''))"

definition resolve_shared_dir :: "'s flow_env \<Rightarrow> json \<Rightarrow> json \<Rightarrow> pystr \<Rightarrow> pystr res" where
  "resolve_shared_dir E shared_dir shared_run_id fallback =
     (let raw = strip (str_or_empty (we_repr E) shared_dir); path = we_expand E raw in
      if raw \<noteq> [] then Inr (path_join (default_agent_workspace E) path)
      else bindE (resolve_run_id (we_repr E) shared_run_id fallback) (\<lambda>run_id. Inr (path_join (shared_root E) run_id)))"

section \<open>The runtime configuration\<close>

definition is_word_char :: "nat \<Rightarrow> bool" where
  "is_word_char c \<longleftrightarrow> is_alnum_ascii c \<or> c = 95"

definition yaml_scalar :: "pystr \<Rightarrow> json" where
  "yaml_scalar v =
     (if v \<in> set (map lit ['''', ''null'', ''Null'', ''NULL'', ''~'']) then JStr []
      else if v \<in> set (map lit [''true'', ''True'', ''TRUE'']) then JBool True
      else if v \<in> set (map lit [''false'', ''False'', ''FALSE'']) then JBool False
      else if hd v = 39 \<and> last v = 39 \<or> hd v = 34 \<and> last v = 34 then JStr (butlast (tl v))
      else JStr v)"

text \<open>\<open>^\s{n}([A-Za-z0-9_]+):\s*(.*)$\<close>: the key and the stripped value of a line indented by \<open>n\<close>.\<close>

definition yaml_entry :: "nat \<Rightarrow> pystr \<Rightarrow> (pystr \<times> pystr) option" where
  "yaml_entry n line =
     (let rest = drop n line; key = takeWhile is_word_char rest; after = dropWhile is_word_char rest in
      if n \<le> length line \<and> list_all isspace (take n line) \<and> key \<noteq> [] \<and> after \<noteq> [] \<and> hd after = 58
      then Some (key, strip (tl after)) else None)"

text \<open>The loop over the lines; the state is the data, the current section and the current nested one.\<close>

definition yaml_line :: "pystr \<Rightarrow> dict \<times> pystr option \<times> pystr option \<Rightarrow> dict \<times> pystr option \<times> pystr option" where
  "yaml_line line = (\<lambda>(data, section_key, nested_key).
     if strip line = [] \<or> startswith (lstrip line) [35] then (data, section_key, nested_key)
     else (case yaml_entry 0 line of
       Some (key, v) \<Rightarrow>
         if v \<noteq> [] then (AList.update key (yaml_scalar v) data, None, None)
         else (AList.update key (JObj []) data, Some key, None)
     | None \<Rightarrow>
         (case (yaml_entry 2 line, section_key) of
            (Some (key, v), Some sec) \<Rightarrow>
              (case map_of data sec of
                 Some (JObj d) \<Rightarrow>
                   if v \<noteq> [] then (AList.update sec (JObj (AList.update key (yaml_scalar v) d)) data, section_key, None)
                   else (AList.update sec (JObj (AList.update key (JObj []) d)) data, section_key, Some key)
               | _ \<Rightarrow> (data, section_key, nested_key))
          | _ \<Rightarrow>
              (case (yaml_entry 4 line, section_key, nested_key) of
                 (Some (key, v), Some sec, Some nested) \<Rightarrow>
                   (case map_of data sec of
                      Some (JObj d) \<Rightarrow>
                        (case map_of d nested of
                           Some (JObj p) \<Rightarrow>
                             (AList.update sec (JObj (AList.update nested (JObj (AList.update key (yaml_scalar v) p)) d)) data,
                              section_key, nested_key)
                         | _ \<Rightarrow> (data, section_key, nested_key))
                    | _ \<Rightarrow> (data, section_key, nested_key))
               | _ \<Rightarrow> (data, section_key, nested_key)))))"

definition simple_yaml_sections :: "pystr \<Rightarrow> dict" where
  "simple_yaml_sections text = fst (fold yaml_line (splitlines text) ([], None, None))"

fun dict_or_empty :: "json \<Rightarrow> dict" where
  "dict_or_empty (JObj kvs) = kvs"
| "dict_or_empty _ = []"

definition config_of_text :: "'s flow_env \<Rightarrow> pystr \<Rightarrow> dict res" where
  "config_of_text E text =
     (let parsed = (case we_yaml E text of Some v \<Rightarrow> dict_or_empty v | None \<Rightarrow> simple_yaml_sections text) in
      case loads (we_float E) text of
        Inl (JSONDecodeError m) \<Rightarrow> Inr parsed
      | Inl e \<Rightarrow> Inl e
      | Inr (JObj kvs) \<Rightarrow> Inr kvs
      | Inr v \<Rightarrow> Inr parsed)"

definition load_runtime_config :: "'s flow_env \<Rightarrow> ('s, dict) flow" where
  "load_runtime_config E =
     (let path = first_text [env_text E (lit ''TEAMHARNESS_RUNTIME_CONFIG''),
            env_text E (lit ''AGENTTEAMS_MEMBER_RUNTIME_CONFIG'')] in
      if path = [] then returnS []
      else
        bindS (see (we_read_text E (we_expand E path))) (\<lambda>text.
        case text of None \<Rightarrow> returnS [] | Some t \<Rightarrow> liftS (config_of_text E t)))"

definition section_of :: "dict \<Rightarrow> string \<Rightarrow> dict" where
  "section_of data name = dict_or_empty (payload_get data name)"

definition flow_matrix_user_id :: "'s flow_env \<Rightarrow> ('s, pystr) flow" where
  "flow_matrix_user_id E =
     (let explicit = env_text E (lit ''AGENTTEAMS_MATRIX_USER_ID'') in
      if explicit \<noteq> [] then returnS explicit
      else bindS (load_runtime_config E) (\<lambda>config.
        returnS (strip_at (we_repr E) (section_of config ''member'') [''matrixUserId'', ''matrix_user_id''])))"

section \<open>The local API\<close>

definition require_loopback_api_base :: "'s flow_env \<Rightarrow> pystr \<Rightarrow> unit res" where
  "require_loopback_api_base E base =
     (let (scheme, host) = we_urlparse E base; err = werr ''apiBaseUrl must be an http(s) loopback URL'' in
      if scheme \<notin> {lit ''http'', lit ''https''} \<or> host = [] then Inl err
      else if lower host = lit ''localhost'' \<or> we_loopback_ip E (lower host) then Inr ()
      else Inl err)"

definition api_base :: "'s flow_env \<Rightarrow> json \<Rightarrow> pystr res" where
  "api_base E raw =
     bindE (if \<not> truthy raw then Inr []
            else (case raw of JStr s \<Rightarrow> Inr (strip s) | _ \<Rightarrow> Inl (AttributeError (lit ''strip'')))) (\<lambda>explicit.
     let base = rstrip_slash (first_text [explicit, env_text E (lit ''QWENPAW_API_BASE_URL''),
           env_text E (lit ''QWENPAW_BASE_URL''), lit ''http://127.0.0.1:8088/api'']);
         base = (if endswith base (lit ''/api'') then base else base @ lit ''/api'') in
     bindE (if explicit \<noteq> [] then require_loopback_api_base E base else Inr ()) (\<lambda>_. Inr base))"

definition http_failed :: "pystr \<Rightarrow> pystr \<Rightarrow> pystr \<Rightarrow> exc" where
  "http_failed verb path what = RuntimeError (verb @ [32] @ path @ lit '' failed: '' @ what)"

definition error_detail :: "'s flow_env \<Rightarrow> pystr \<Rightarrow> pystr res" where
  "error_detail E text = (case loads (we_float E) text of
     Inl (JSONDecodeError m) \<Rightarrow> Inr text
   | Inl e \<Rightarrow> Inl e
   | Inr v \<Rightarrow> Inr (py_str (we_repr E) v))"

definition json_request :: "'s flow_env \<Rightarrow> pystr \<Rightarrow> pystr \<Rightarrow> pystr \<Rightarrow> json option \<Rightarrow> ('s, json) flow" where
  "json_request E verb base_url path payload =
     bindS (send_request E \<lparr>rq_method = verb, rq_url = base_url @ path, rq_body = payload, rq_token = None\<rparr>) (\<lambda>answer.
     liftS (case answer of
       Answered text \<Rightarrow> if text = [] then Inr (JObj []) else loads (we_float E) text
     | HttpError code text \<Rightarrow> bindE (error_detail E text) (\<lambda>detail.
         Inl (http_failed verb path (lit ''HTTP '' @ int_str code @ lit '': '' @ detail)))
     | NoConnection reason \<Rightarrow> Inl (http_failed verb path reason)
     | Broken e \<Rightarrow> Inl e))"

end
