(* ===== verification/Workflow_Server.thy ===== *)
theory Workflow_Server
  imports Workflow_Env
begin

text \<open>
  The actions of \<open>plugins/workerflow/mcp/server.py\<close>: the workflow card and its state file, temporary
  agents, the run of a plan, and the JSON-RPC requests of the server.
\<close>

section \<open>Merging a state\<close>

definition workflow_run_id :: "'s flow_env \<Rightarrow> dict \<Rightarrow> pystr \<Rightarrow> pystr res" where
  "workflow_run_id E arguments action =
     (let R = we_repr E; raw = first_true arguments [''runId'', ''run_id'', ''sharedRunId''];
          shared_dir = strip_at R arguments [''sharedDir''] in
      if truthy raw then resolve_run_id R raw []
      else if shared_dir \<noteq> [] then resolve_run_id R (JStr (path_name (we_expand E shared_dir))) []
      else if action \<in> {lit ''workflow_start'', lit ''workflow_run''} then Inr (lit ''run-'' @ we_uuid E)
      else Inl (werr ''runId or sharedRunId is required''))"

definition state_path :: "pystr \<Rightarrow> pystr" where
  "state_path shared_dir = path_join shared_dir (lit ''workflow.json'')"

definition workflow_status :: "(json \<Rightarrow> pystr) \<Rightarrow> pystr \<Rightarrow> dict \<Rightarrow> dict \<Rightarrow> pystr" where
  "workflow_status R action arguments previous =
     (let explicit = strip_at R arguments [''status''] in
      if explicit \<noteq> [] then explicit
      else if action = lit ''workflow_start'' then lit ''running''
      else if action = lit ''workflow_finish'' then lit ''done''
      else if action = lit ''workflow_fail'' then lit ''failed''
      else text_or R previous [''status''] (lit ''running''))"

definition rows_given :: "(json \<Rightarrow> pystr) \<Rightarrow> dict \<Rightarrow> dict \<Rightarrow> string \<Rightarrow> dict list" where
  "rows_given R arguments previous key =
     (if map_of arguments (lit key) \<noteq> None then rows_at R arguments key else rows_at R previous key)"

definition kept_keys :: "string list" where
  "kept_keys = [''phase'', ''input'', ''merge'', ''workflowMode'', ''submitInstructions'', ''waitingInstructions'']"

text \<open>The new state from the arguments and the previous one.\<close>

definition base_state ::
  "'s flow_env \<Rightarrow> pystr \<Rightarrow> dict \<Rightarrow> dict \<Rightarrow> pystr \<Rightarrow> pystr \<Rightarrow> pystr \<Rightarrow> dict list \<Rightarrow> dict list \<Rightarrow> dict" where
  "base_state E action arguments previous run_id shared_dir coordinator subagents steps =
     (let R = we_repr E in
      [(lit ''runId'', JStr run_id),
       (lit ''title'', JStr (strip (text_or R arguments [''title''] (text_or R previous [''title''] (lit ''WorkerFlow''))))),
       (lit ''status'', JStr (workflow_status R action arguments previous)),
       (lit ''summary'', JStr (strip (text_or R arguments [''summary''] (text_at R previous [''summary''])))),
       (lit ''roomId'', JStr (strip (text_or R arguments [''roomId'', ''room_id''] (text_at R previous [''roomId''])))),
       (lit ''eventId'', JStr (strip (text_or R arguments [''eventId'', ''event_id''] (text_at R previous [''eventId''])))),
       (lit ''coordinator'', JStr coordinator), (lit ''sharedPath'', JStr shared_dir),
       (lit ''subagents'', jrows subagents), (lit ''steps'', jrows steps), (lit ''updatedAt'', JStr (we_now E))])"

definition merged_state ::
  "'s flow_env \<Rightarrow> pystr \<Rightarrow> dict \<Rightarrow> dict \<Rightarrow> pystr \<Rightarrow> pystr \<Rightarrow> pystr \<Rightarrow> dict" where
  "merged_state E action arguments previous run_id shared_dir coordinator =
     (let R = we_repr E;
          steps = rows_given R arguments previous ''steps'';
          subagents = sync_rows R (we_order E) (rows_given R arguments previous ''subagents'') steps;
          nodes = sync_rows R (we_order E) (rows_at R previous ''nodes'') steps;
          state = base_state E action arguments previous run_id shared_dir coordinator subagents steps;
          state = fold (\<lambda>key. copy_if_present key previous) kept_keys state;
          state = (if nodes \<noteq> [] then put ''nodes'' (jrows nodes) state else state);
          created = payload_get previous ''createdAt'' in
      put ''createdAt'' (if truthy created then created else JStr (we_now E)) state)"

definition merge_workflow_state :: "'s flow_env \<Rightarrow> pystr \<Rightarrow> dict \<Rightarrow> ('s, dict) flow" where
  "merge_workflow_state E action arguments =
     bindS (liftS (workflow_run_id E arguments action)) (\<lambda>run_id.
     bindS (liftS (resolve_shared_dir E (payload_get arguments ''sharedDir'')
       (let v = payload_get arguments ''sharedRunId'' in if truthy v then v else JStr run_id) run_id)) (\<lambda>dir.
     let shared_dir = we_resolve E dir in
     bindS (read_state (state_path shared_dir)) (\<lambda>previous.
     bindS (flow_matrix_user_id E) (\<lambda>coordinator.
     returnS (merged_state E action arguments previous run_id shared_dir coordinator)))))"

section \<open>The card\<close>

definition html_escape :: "pystr \<Rightarrow> pystr" where
  "html_escape s = concat (map (\<lambda>c.
     if c = 38 then lit ''&amp;'' else if c = 60 then lit ''&lt;'' else if c = 62 then lit ''&gt;''
     else if c = 34 then lit ''&quot;'' else if c = 39 then lit ''&#x27;'' else [c]) s)"

definition cell_keys :: "string \<Rightarrow> string list" where
  "cell_keys key =
     (if key = ''name'' then [''name'', ''id'', ''agentId'', ''agent_id'']
      else if key = ''agentId'' then [''agentId'', ''agent_id'', ''id'', ''name''] else [key])"

definition workflow_table :: "(json \<Rightarrow> pystr) \<Rightarrow> dict list \<Rightarrow> (string \<times> string) list \<Rightarrow> pystr" where
  "workflow_table R rows columns =
     (if rows = [] then []
      else lit ''<table><thead><tr>'' @ concat (map (\<lambda>(key, label). lit ''<th>'' @ html_escape (lit label) @ lit ''</th>'') columns)
        @ lit ''</tr></thead><tbody>''
        @ concat (map (\<lambda>row. lit ''<tr>''
            @ concat (map (\<lambda>(key, label). lit ''<td>'' @ html_escape (text_at R row (cell_keys key)) @ lit ''</td>'') columns)
            @ lit ''</tr>'') rows)
        @ lit ''</tbody></table>'')"

definition card_body :: "(json \<Rightarrow> pystr) \<Rightarrow> dict \<Rightarrow> pystr" where
  "card_body R state =
     (let summary = text_at R state [''summary'']; coordinator = text_at R state [''coordinator''];
          shared_path = text_at R state [''sharedPath'']; subagents = rows_at R state ''subagents'';
          steps = rows_at R state ''steps'' in
      join [10]
        ([lit ''[WorkerFlow] '' @ text_at R state [''runId''] @ lit '': '' @ text_at R state [''status'']]
         @ (if summary \<noteq> [] then [lit ''Summary: '' @ summary] else [])
         @ (if coordinator \<noteq> [] then [lit ''Coordinator: '' @ coordinator] else [])
         @ (if shared_path \<noteq> [] then [lit ''Shared: '' @ shared_path] else [])
         @ (if subagents \<noteq> [] then lit ''Subagents:'' # map (\<lambda>row.
              rstrip (lit ''- '' @ text_or R row [''name'', ''role'', ''agentId'', ''id''] (lit ''subagent'') @ lit '': ''
                @ text_at R row [''status''] @ [32] @ text_at R row [''summary''])) subagents else [])
         @ (if steps \<noteq> [] then lit ''Steps:'' # map (\<lambda>row.
              rstrip (lit ''- '' @ text_or R row [''name'', ''id''] (lit ''step'') @ lit '': '' @ text_at R row [''status''])) steps
            else [])))"

definition card_html :: "(json \<Rightarrow> pystr) \<Rightarrow> dict \<Rightarrow> pystr" where
  "card_html R state =
     (let title = text_or R state [''title''] (lit ''WorkerFlow''); summary = text_at R state [''summary''];
          coordinator = text_at R state [''coordinator'']; shared_path = text_at R state [''sharedPath''];
          subagent_table = workflow_table R (rows_at R state ''subagents'')
            [(''name'', ''Subagent''), (''role'', ''Role''), (''status'', ''Status''), (''summary'', ''Summary'')];
          step_table = workflow_table R (rows_at R state ''steps'')
            [(''name'', ''Step''), (''status'', ''Status''), (''summary'', ''Summary'')] in
      join [10]
        ([lit ''<h3>'' @ html_escape title @ [32, 183, 32] @ html_escape (text_at R state [''runId'']) @ lit ''</h3>'',
          lit ''<p><strong>Status:</strong> '' @ html_escape (text_at R state [''status'']) @ lit ''</p>'']
         @ (if summary \<noteq> [] then [lit ''<p><strong>Summary:</strong> '' @ html_escape summary @ lit ''</p>''] else [])
         @ (if coordinator \<noteq> [] then [lit ''<p><strong>Coordinator:</strong> '' @ html_escape coordinator @ lit ''</p>''] else [])
         @ (if shared_path \<noteq> [] then [lit ''<p><strong>Shared:</strong> <code>'' @ html_escape shared_path @ lit ''</code></p>''] else [])
         @ (if subagent_table \<noteq> [] then [lit ''<h4>Subagents</h4>'', subagent_table] else [])
         @ (if step_table \<noteq> [] then [lit ''<h4>Steps</h4>'', step_table] else [])))"

definition workflow_content :: "(json \<Rightarrow> pystr) \<Rightarrow> dict \<Rightarrow> dict" where
  "workflow_content R state =
     [(lit ''msgtype'', JStr (lit ''m.notice'')), (lit ''body'', JStr (card_body R state)),
      (lit ''format'', JStr (lit ''org.matrix.custom.html'')), (lit ''formatted_body'', JStr (card_html R state)),
      (lit ''agentteams.workflow'', JObj
        [(lit ''type'', JStr (lit ''workerflow'')), (lit ''runId'', JStr (text_at R state [''runId''])),
         (lit ''status'', JStr (text_at R state [''status''])),
         (lit ''title'', JStr (text_or R state [''title''] (lit ''WorkerFlow''))),
         (lit ''summary'', JStr (text_at R state [''summary''])), (lit ''ownerRole'', JStr (lit ''worker'')),
         (lit ''ownerAgentId'', JStr (lit ''default'')),
         (lit ''coordinator'', JStr (text_at R state [''coordinator''])),
         (lit ''sharedPath'', JStr (text_at R state [''sharedPath''])),
         (lit ''subagents'', jrows (rows_at R state ''subagents'')), (lit ''steps'', jrows (rows_at R state ''steps''))])]"

definition matrix_content :: "(json \<Rightarrow> pystr) \<Rightarrow> dict \<Rightarrow> pystr \<Rightarrow> dict" where
  "matrix_content R state event_id =
     (let content = workflow_content R state in
      if event_id = [] then content
      else put ''m.relates_to'' (JObj [(lit ''rel_type'', JStr (lit ''m.replace'')), (lit ''event_id'', JStr event_id)])
        (put ''m.new_content'' (JObj content) (put ''body'' (JStr (lit ''* '' @ card_body R state)) content)))"

section \<open>Sending\<close>

definition matrix_homeserver :: "'s flow_env \<Rightarrow> pystr" where
  "matrix_homeserver E = rstrip_slash (first_text (map (env_raw E \<circ> lit)
     [''AGENTTEAMS_MATRIX_URL'', ''AGENTTEAMS_MATRIX_SERVER'', ''AGENTTEAMS_MATRIX_HOMESERVER'']))"

definition matrix_token :: "'s flow_env \<Rightarrow> ('s, pystr) flow" where
  "matrix_token E =
     bindS (load_runtime_config E) (\<lambda>config.
     let token_env = strip (text_or (we_repr E) (section_of config ''credentials'') [''matrixTokenEnv'']
           (lit ''AGENTTEAMS_WORKER_MATRIX_TOKEN'')) in
     returnS (first_text (map (env_text E) (filter (\<lambda>name. name \<noteq> [])
       [token_env, lit ''AGENTTEAMS_WORKER_MATRIX_TOKEN'', lit ''AGENTTEAMS_MATRIX_TOKEN'']))))"

definition event_id_of :: "(json \<Rightarrow> pystr) \<Rightarrow> json \<Rightarrow> pystr res" where
  "event_id_of R data = (case data of
     JObj kvs \<Rightarrow> (let event_id = text_at R kvs [''event_id''] in
       if event_id = [] then Inl (RuntimeError (lit ''Matrix send response missing event_id'')) else Inr event_id)
   | _ \<Rightarrow> Inl not_a_dict)"

fun is_os_error :: "exc \<Rightarrow> bool" where
  "is_os_error (OSError m) = True"
| "is_os_error e = False"

definition matrix_send :: "'s flow_env \<Rightarrow> pystr \<Rightarrow> dict \<Rightarrow> ('s, pystr) flow" where
  "matrix_send E room_id content =
     (let homeserver = matrix_homeserver E in
      bindS (matrix_token E) (\<lambda>token.
      bindS (liftS (raise_if (homeserver = [] \<or> token = []) (werr ''Matrix homeserver and token are required (AGENTTEAMS_MATRIX_URL or alias; runtime credentials.matrixTokenEnv, AGENTTEAMS_WORKER_MATRIX_TOKEN, or AGENTTEAMS_MATRIX_TOKEN)''))) (\<lambda>_.
      bindS (liftS (quote [] room_id)) (\<lambda>encoded_room.
      bindS (send_request E \<lparr>rq_method = lit ''PUT'', rq_url = homeserver @ lit ''/_matrix/client/v3/rooms/'' @ encoded_room
          @ lit ''/send/m.room.message/workerflow-'' @ we_txn E, rq_body = Some (JObj content), rq_token = Some token\<rparr>) (\<lambda>answer.
      liftS (case answer of
        Answered text \<Rightarrow> bindE (loads (we_float E) (if text = [] then lit ''{}'' else text)) (event_id_of (we_repr E))
      | HttpError code text \<Rightarrow>
          Inl (RuntimeError (lit ''Matrix API error: HTTP '' @ int_str code @ lit '': '' @ take 200 text))
      | NoConnection reason \<Rightarrow> Inl (RuntimeError (lit ''Matrix API error: '' @ reason))
      | Broken e \<Rightarrow>
         Inl (if is_os_error e then RuntimeError (lit ''Matrix API error: '' @ we_exc_text E e) else e)))))))"

section \<open>Removing files\<close>

definition not_removed :: "string \<Rightarrow> (pystr \<times> json) list \<Rightarrow> dict" where
  "not_removed reason extra = [(lit ''removed'', JBool False), (lit ''reason'', JStr (lit reason))] @ extra"

text \<open>Only directories inside the shared area of the workflows are removed.\<close>

definition safe_cleanup_shared :: "'s flow_env \<Rightarrow> pystr \<Rightarrow> ('s, dict) flow" where
  "safe_cleanup_shared E shared_dir =
     (let root = we_resolve E (shared_root E); target = we_resolve E shared_dir; path = [(lit ''path'', JStr target)] in
      if \<not> below_dir root target then returnS (not_removed ''shared_dir_outside_workerflow_root'' path)
      else if target = root then returnS (not_removed ''refuse_to_remove_shared_root'' path)
      else
        bindS (see (we_exists E target)) (\<lambda>there.
        if there then bindS (fs_do E (RmTree target)) (\<lambda>_. returnS ((lit ''removed'', JBool True) # path))
        else returnS (not_removed ''shared_dir_missing'' path)))"

text \<open>A workspace is removed only for a temporary agent, in the directory of workspaces and under its name.\<close>

definition safe_cleanup_workspace :: "'s flow_env \<Rightarrow> pystr \<Rightarrow> pystr \<Rightarrow> ('s, dict) flow" where
  "safe_cleanup_workspace E agent_id workspace_dir =
     (let root = we_resolve E (path_join (qwenpaw_working_dir E) (lit ''workspaces''));
          target = we_resolve E (we_expand E workspace_dir); path = [(lit ''path'', JStr target)] in
      if workspace_dir = [] then returnS (not_removed ''missing_workspace'' [])
      else if \<not> startswith agent_id (lit ''tmp-'') then returnS (not_removed ''agent_id_not_temporary'' [])
      else if \<not> below_dir root target then returnS (not_removed ''workspace_outside_qwenpaw_workspaces'' path)
      else if path_name target \<noteq> agent_id then returnS (not_removed ''workspace_name_mismatch'' path)
      else
        bindS (see (we_exists E target)) (\<lambda>there.
        if there then bindS (fs_do E (RmTree target)) (\<lambda>_. returnS ((lit ''removed'', JBool True) # path))
        else returnS (not_removed ''workspace_missing'' path)))"

section \<open>Deleting temporary agents\<close>

definition flow_ok :: "pystr \<Rightarrow> dict \<Rightarrow> dict" where
  "flow_ok action d =
     [(lit ''ok'', JBool True), (lit ''tool'', JStr (lit ''worker_agentflow'')), (lit ''action'', JStr action)] @ d"

definition cleanup_wanted :: "dict \<Rightarrow> bool" where
  "cleanup_wanted arguments \<longleftrightarrow> truthy (payload_get arguments ''cleanupWorkspace'')"

definition dry_run :: "dict \<Rightarrow> bool" where
  "dry_run arguments \<longleftrightarrow> truthy (payload_get arguments ''dryRun'')"

text \<open>\<open>try: ... except RuntimeError: return default\<close>; a \<open>RecursionError\<close> is a \<open>RuntimeError\<close>.\<close>

definition catch_runtime_error :: "('w, 'a) actS \<Rightarrow> 'a \<Rightarrow> ('w, 'a) actS" where
  "catch_runtime_error m d w = (case m w of (Inl (RuntimeError msg), w') \<Rightarrow> (Inr d, w') | (Inl RecursionError, w') \<Rightarrow> (Inr d, w') | r \<Rightarrow> r)"

definition profile_workspace :: "'s flow_env \<Rightarrow> pystr \<Rightarrow> pystr \<Rightarrow> ('s, pystr) flow" where
  "profile_workspace E base_url agent_id =
     catch_runtime_error
       (bindS (liftS (quote [47] agent_id)) (\<lambda>quoted.
        bindS (json_request E (lit ''GET'') base_url (lit ''/agents/'' @ quoted) None) (\<lambda>profile.
        liftS (case profile of JObj kvs \<Rightarrow> Inr (text_at (we_repr E) kvs [''workspace_dir'']) | _ \<Rightarrow> Inl not_a_dict))))
       []"

definition delete_temp_agent :: "'s flow_env \<Rightarrow> pystr \<Rightarrow> dict \<Rightarrow> ('s, dict) flow" where
  "delete_temp_agent E base_url arguments =
     (let R = we_repr E; agent_id = strip_at R arguments [''agentId'']; given = strip_at R arguments [''workspaceDir''];
          action = lit ''delete_temp_agent'' in
      bindS (liftS (seqE
        [raise_if (agent_id = []) (werr ''agentId is required''),
         raise_if (\<not> startswith agent_id (lit ''tmp-'')) (werr ''worker_agentflow only deletes tmp-* temporary agents'')])) (\<lambda>_.
      bindS (if cleanup_wanted arguments \<and> given = [] then profile_workspace E base_url agent_id
             else returnS given) (\<lambda>workspace_dir.
      if dry_run arguments then
        returnS (flow_ok action [(lit ''apiBaseUrl'', JStr base_url), (lit ''agentId'', JStr agent_id),
          (lit ''workspace'', JStr workspace_dir)])
      else
        bindS (liftS (quote [47] agent_id)) (\<lambda>quoted.
        bindS (json_request E (lit ''DELETE'') base_url (lit ''/agents/'' @ quoted) None) (\<lambda>deleted.
        bindS (if cleanup_wanted arguments then safe_cleanup_workspace E agent_id workspace_dir
               else returnS (not_removed ''cleanup_disabled'' [])) (\<lambda>cleanup.
        returnS (flow_ok action [(lit ''agentId'', JStr agent_id), (lit ''deleted'', deleted),
          (lit ''cleanup'', JObj cleanup)])))))))"

definition cleanup_arguments :: "dict \<Rightarrow> pystr \<Rightarrow> dict" where
  "cleanup_arguments arguments agent_id =
     [(lit ''action'', JStr (lit ''delete_temp_agent'')), (lit ''apiBaseUrl'', payload_get arguments ''apiBaseUrl''),
      (lit ''agentId'', JStr agent_id), (lit ''cleanupWorkspace'', JBool (cleanup_wanted arguments)),
      (lit ''dryRun'', JBool (dry_run arguments))]"

definition deleted_item :: "dict \<Rightarrow> pystr \<Rightarrow> dict \<Rightarrow> dict" where
  "deleted_item arguments agent_id deleted =
     (let item = [(lit ''agentId'', JStr agent_id), (lit ''ok'', JBool True),
            (lit ''deleted'', if dry_run arguments then JBool False
               else (case map_of deleted (lit ''deleted'') of None \<Rightarrow> JBool True | Some v \<Rightarrow> v))];
          item = copy_if_present ''cleanup'' deleted item in
      if dry_run arguments then put ''planned'' (JBool True) item else item)"

fun failed_item :: "'s flow_env \<Rightarrow> pystr \<Rightarrow> exc \<Rightarrow> dict" where
  "failed_item E agent_id (RuntimeError msg) =
     (if occurs (lit ''HTTP 404'') msg
      then [(lit ''agentId'', JStr agent_id), (lit ''ok'', JBool True), (lit ''deleted'', JBool False),
            (lit ''reason'', JStr (lit ''agent_missing''))]
      else [(lit ''agentId'', JStr agent_id), (lit ''ok'', JBool False), (lit ''error'', JStr msg)])"
| "failed_item E agent_id e =
     [(lit ''agentId'', JStr agent_id), (lit ''ok'', JBool False), (lit ''error'', JStr (we_exc_text E e))]"

definition cleanup_agent :: "'s flow_env \<Rightarrow> dict \<Rightarrow> pystr \<Rightarrow> ('s, dict) flow" where
  "cleanup_agent E arguments agent_id w =
     (case bindS (liftS (api_base E (payload_get arguments ''apiBaseUrl''))) (\<lambda>base_url.
             delete_temp_agent E base_url (cleanup_arguments arguments agent_id)) w of
        (Inl e, w') \<Rightarrow> (Inr (failed_item E agent_id e), w')
      | (Inr deleted, w') \<Rightarrow> (Inr (deleted_item arguments agent_id deleted), w'))"

fun cleanup_agents :: "'s flow_env \<Rightarrow> dict \<Rightarrow> pystr list \<Rightarrow> ('s, dict list) flow" where
  "cleanup_agents E arguments [] = returnS []"
| "cleanup_agents E arguments (agent_id # ids) =
     bindS (cleanup_agent E arguments agent_id) (\<lambda>item.
     bindS (cleanup_agents E arguments ids) (\<lambda>items. returnS (item # items)))"

definition count_items :: "(dict \<Rightarrow> bool) \<Rightarrow> dict list \<Rightarrow> json" where
  "count_items P items = JInt (int (length (filter P items)))"

definition cleanup_temp_agents :: "'s flow_env \<Rightarrow> dict \<Rightarrow> dict \<Rightarrow> ('s, dict) flow" where
  "cleanup_temp_agents E state arguments =
     bindS (cleanup_agents E arguments (temp_agent_ids (we_repr E) state)) (\<lambda>items.
     let ok = (\<lambda>item. truthy (payload_get item ''ok'')) in
     returnS [(lit ''agents'', jrows items),
       (lit ''deleted'', count_items (\<lambda>item. ok item \<and> payload_get item ''deleted'' \<noteq> JBool False) items),
       (lit ''missing'', count_items (\<lambda>item. payload_get item ''reason'' = JStr (lit ''agent_missing'')) items),
       (lit ''failed'', count_items (\<lambda>item. \<not> ok item) items)])"

section \<open>Updating the card\<close>

definition result_keys :: "string list" where
  "result_keys = [''nodes'', ''submitInstructions'', ''waitingInstructions'', ''readyInstructions'', ''workflowMode'',
     ''cleanupTempAgents'']"

definition workflow_result :: "(json \<Rightarrow> pystr) \<Rightarrow> pystr \<Rightarrow> dict \<Rightarrow> dict \<Rightarrow> dict list \<Rightarrow> dict" where
  "workflow_result R action state content ready =
     (let result = flow_ok action
            [(lit ''runId'', payload_get state ''runId''), (lit ''roomId'', payload_get state ''roomId''),
             (lit ''eventId'', JStr (text_at R state [''eventId''])),
             (lit ''statePath'', JStr (state_path (text_at R state [''sharedPath'']))),
             (lit ''content'', JObj content)];
          result = fold (\<lambda>key. copy_if_present key state) result_keys result in
      if ready = [] then result else put ''readyInstructions'' (jrows ready) result)"

definition require_ids :: "(json \<Rightarrow> pystr) \<Rightarrow> pystr \<Rightarrow> dict \<Rightarrow> unit res" where
  "require_ids R action state =
     seqE
       [raise_if (text_at R state [''roomId''] = [])
          (werr ''roomId is required; pass the current Matrix DM/conversation room explicitly''),
        raise_if (action \<noteq> lit ''workflow_start'' \<and> text_at R state [''eventId''] = [])
          (werr ''eventId is required for workflow updates unless workflow.json already records it'')]"

text \<open>Before the card is sent: the new state, the released instructions and the cleanup of the agents.\<close>

definition prepare_workflow :: "'s flow_env \<Rightarrow> pystr \<Rightarrow> dict \<Rightarrow> ('s, dict \<times> dict list) flow" where
  "prepare_workflow E action arguments =
     (let R = we_repr E in
      bindS (merge_workflow_state E action arguments) (\<lambda>merged.
      bindS (liftS (if action = lit ''workflow_update'' then advance R merged else Inr (merged, []))) (\<lambda>(state, ready).
      bindS (liftS (require_ids R action state)) (\<lambda>_.
      if action \<in> {lit ''workflow_finish'', lit ''workflow_fail''}
      then bindS (cleanup_temp_agents E state arguments) (\<lambda>report.
        returnS (put ''cleanupTempAgents'' (JObj report) state, ready))
      else returnS (state, ready)))))"

text \<open>The card is sent and the state is written; an event identifier of the card is kept in it.\<close>

definition send_workflow :: "'s flow_env \<Rightarrow> pystr \<Rightarrow> dict \<Rightarrow> dict \<Rightarrow> dict list \<Rightarrow> ('s, dict) flow" where
  "send_workflow E action arguments state ready =
     (let R = we_repr E; start = (action = lit ''workflow_start'');
          event = (if start then [] else text_at R state [''eventId'']);
          content = matrix_content R state event;
          result = workflow_result R action state content ready in
      if dry_run arguments then returnS (put ''dryRun'' (JBool True) result)
      else
        bindS (matrix_send E (text_at R state [''roomId'']) content) (\<lambda>event_id.
        let state = put (if start then ''eventId'' else ''lastEditEventId'') (JStr event_id) state in
        bindS (write_state (state_path (text_at R state [''sharedPath''])) state) (\<lambda>_.
        let result = put ''eventId'' (JStr (text_or R state [''eventId''] event_id)) result in
        returnS (if start then result else put ''editEventId'' (JStr event_id) result))))"

definition workflow :: "'s flow_env \<Rightarrow> pystr \<Rightarrow> dict \<Rightarrow> ('s, dict) flow" where
  "workflow E action arguments =
     bindS (prepare_workflow E action arguments) (\<lambda>(state, ready). send_workflow E action arguments state ready)"

section \<open>Creating temporary agents\<close>

definition list_subagent :: "'s flow_env \<Rightarrow> pystr \<Rightarrow> 's \<Rightarrow> json option" where
  "list_subagent E name s =
     (let path = path_join (subagents_dir E) name; skills_dir = path_join path (lit ''skills'');
          skills = (if we_is_dir E skills_dir s
            then sort (filter (\<lambda>skill. we_is_dir E (path_join skills_dir skill) s
                   \<and> we_is_file E (path_join (path_join skills_dir skill) (lit ''SKILL.md'')) s) (we_list E skills_dir s))
            else []) in
      if we_is_dir E path s \<and> safe_name 63 name
      then Some (JObj [(lit ''name'', JStr name), (lit ''path'', JStr path),
             (lit ''hasAgentsMd'', JBool (we_is_file E (path_join path (lit ''AGENTS.md'')) s)),
             (lit ''skills'', JArr (map JStr skills))])
      else None)"

definition list_subagents :: "'s flow_env \<Rightarrow> 's \<Rightarrow> json" where
  "list_subagents E s =
     JArr (if we_is_dir E (subagents_dir E) s
       then List.map_filter (\<lambda>name. list_subagent E name s) (sort (we_list E (subagents_dir E) s)) else [])"

definition resolve_subagent_template :: "'s flow_env \<Rightarrow> pystr \<Rightarrow> ('s, pystr) flow" where
  "resolve_subagent_template E name =
     (let v = strip name; path = we_resolve E (path_join (subagents_dir E) v); root = we_resolve E (subagents_dir E) in
      bindS (liftS (seqE
        [raise_if (\<not> safe_name 63 v) (werr ''subagent must be a safe single path component''),
         raise_if (\<not> below_dir root path) (werr ''subagent path escapes default workspace subagents directory'')])) (\<lambda>_.
      bindS (see (we_is_dir E path)) (\<lambda>dir.
      liftS (if dir then Inr path else Inl (ValueError (lit ''subagent not found: '' @ v))))))"

fun enable_skills :: "'s flow_env \<Rightarrow> pystr \<Rightarrow> pystr list \<Rightarrow> ('s, pystr list) flow" where
  "enable_skills E dir [] = returnS []"
| "enable_skills E dir (name # names) =
     bindS (on_rest (we_enable_skill E dir name)) (\<lambda>success.
     bindS (enable_skills E dir names) (\<lambda>rest. returnS (if success then name # rest else rest)))"

definition reconcile_and_enable_skills :: "'s flow_env \<Rightarrow> pystr \<Rightarrow> pystr list \<Rightarrow> ('s, pystr list) flow" where
  "reconcile_and_enable_skills E dir names =
     (if names = [] \<or> \<not> we_skill_system E then returnS []
      else bindS (on_rest (we_reconcile E dir)) (\<lambda>_. enable_skills E dir names))"

fun copy_files :: "'s flow_env \<Rightarrow> pystr \<Rightarrow> pystr \<Rightarrow> string list \<Rightarrow> ('s, pystr list) flow" where
  "copy_files E template dir [] = returnS []"
| "copy_files E template dir (name # names) =
     bindS (see (we_is_file E (path_join template (lit name)))) (\<lambda>there.
     if there then
       bindS (fs_do E (CopyFile (path_join template (lit name)) (path_join dir (lit name)))) (\<lambda>_.
       bindS (copy_files E template dir names) (\<lambda>rest. returnS (lit name # rest)))
     else copy_files E template dir names)"

definition copy_replace :: "'s flow_env \<Rightarrow> pystr \<Rightarrow> pystr \<Rightarrow> ('s, unit) flow" where
  "copy_replace E source target =
     bindS (see (we_exists E target)) (\<lambda>there.
     bindS (if there then fs_do E (RmTree target) else returnS ()) (\<lambda>_. fs_do E (CopyTree source target)))"

fun copy_skills :: "'s flow_env \<Rightarrow> pystr \<Rightarrow> pystr \<Rightarrow> pystr list \<Rightarrow> ('s, pystr list) flow" where
  "copy_skills E source target [] = returnS []"
| "copy_skills E source target (name # names) =
     bindS (see (\<lambda>s. we_is_dir E (path_join source name) s
       \<and> we_is_file E (path_join (path_join source name) (lit ''SKILL.md'')) s)) (\<lambda>skill.
     if skill then
       bindS (copy_replace E (path_join source name) (path_join target name)) (\<lambda>_.
       bindS (copy_skills E source target names) (\<lambda>rest. returnS (name # rest)))
     else copy_skills E source target names)"

definition copied_report :: "pystr list \<Rightarrow> pystr list \<Rightarrow> pystr list \<Rightarrow> dict" where
  "copied_report copied skills enabled =
     [(lit ''copied'', JArr (map JStr copied)), (lit ''skills'', JArr (map JStr skills)),
      (lit ''enabled'', JArr (map JStr enabled))]"

definition copy_template :: "'s flow_env \<Rightarrow> pystr \<Rightarrow> pystr \<Rightarrow> ('s, dict) flow" where
  "copy_template E template_path dir =
     (let template = we_resolve E (we_expand E template_path); source_skills = path_join template (lit ''skills'');
          target_skills = path_join dir (lit ''skills'') in
      if template_path = [] then returnS (copied_report [] [] [])
      else
        bindS (see (we_is_dir E template)) (\<lambda>there.
        bindS (liftS (raise_if (\<not> there) (ValueError (lit ''templatePath is not a directory: '' @ template)))) (\<lambda>_.
        bindS (fs_do E (MkDir dir)) (\<lambda>_.
        bindS (copy_files E template dir [''AGENTS.md'', ''PROFILE.md'', ''SOUL.md'']) (\<lambda>copied.
        bindS (see (we_is_dir E source_skills)) (\<lambda>has_skills.
        bindS (if has_skills then
                 bindS (fs_do E (MkDir target_skills)) (\<lambda>_.
                 bindS (see (\<lambda>s. sort (we_list E source_skills s))) (copy_skills E source_skills target_skills))
               else returnS []) (\<lambda>skills.
        bindS (reconcile_and_enable_skills E dir skills) (\<lambda>enabled.
        returnS (copied_report copied skills enabled)))))))))"

definition shared_plan :: "pystr \<Rightarrow> pystr \<Rightarrow> pystr \<Rightarrow> dict" where
  "shared_plan agent_id workspace_dir shared_dir =
     [(lit ''path'', JStr shared_dir), (lit ''inputs'', JStr (path_join shared_dir (lit ''inputs''))),
      (lit ''output'', JStr (path_join (path_join shared_dir (lit ''outputs'')) agent_id)),
      (lit ''workspaceLink'', JStr (path_join workspace_dir (lit ''shared''))),
      (lit ''metadata'', JStr (path_join (path_join workspace_dir (lit ''.workerflow'')) (lit ''shared.json'')))]"

definition link_report :: "bool \<Rightarrow> pystr \<Rightarrow> pystr \<Rightarrow> (pystr \<times> json) list \<Rightarrow> dict" where
  "link_report created link target extra =
     [(lit ''created'', JBool created), (lit ''path'', JStr link), (lit ''target'', JStr target)] @ extra"

definition replace_shared_link :: "'s flow_env \<Rightarrow> pystr \<Rightarrow> pystr \<Rightarrow> ('s, dict) flow" where
  "replace_shared_link E link shared_dir =
     (let create = bindS (fs_do E (SymLink shared_dir link)) (\<lambda>_. returnS (link_report True link shared_dir [])) in
      bindS (see (we_readlink E link)) (\<lambda>target.
      case target of
        Some current \<Rightarrow>
          (let current = (if startswith current [47] then current else we_resolve E (path_join (path_parent link) current)) in
           if we_resolve E current = we_resolve E shared_dir
           then returnS (link_report False link shared_dir [(lit ''reason'', JStr (lit ''already_linked''))])
           else bindS (fs_do E (Unlink link)) (\<lambda>_. create))
      | None \<Rightarrow>
          bindS (see (we_exists E link)) (\<lambda>there.
          if there then returnS (link_report False link shared_dir [(lit ''reason'', JStr (lit ''path_exists_not_symlink''))])
          else create)))"

definition setup_shared_dir :: "'s flow_env \<Rightarrow> pystr \<Rightarrow> pystr \<Rightarrow> pystr \<Rightarrow> ('s, dict) flow" where
  "setup_shared_dir E agent_id workspace_dir dir =
     (let shared_dir = we_resolve E (we_expand E dir); inputs = path_join shared_dir (lit ''inputs'');
          output = path_join (path_join shared_dir (lit ''outputs'')) agent_id;
          metadata_dir = path_join workspace_dir (lit ''.workerflow''); metadata = path_join metadata_dir (lit ''shared.json'') in
      bindS (fs_do E (MkDir inputs)) (\<lambda>_.
      bindS (fs_do E (MkDir output)) (\<lambda>_.
      bindS (fs_do E (MkDir workspace_dir)) (\<lambda>_.
      bindS (fs_do E (MkDir metadata_dir)) (\<lambda>_.
      bindS (fs_do E (WriteText metadata (dumps_indent 0 (JObj
        [(lit ''agentId'', JStr agent_id), (lit ''sharedPath'', JStr shared_dir), (lit ''inputsPath'', JStr inputs),
         (lit ''outputPath'', JStr output)]) @ [10]))) (\<lambda>_.
      bindS (replace_shared_link E (path_join workspace_dir (lit ''shared'')) shared_dir) (\<lambda>link.
      returnS [(lit ''path'', JStr shared_dir), (lit ''inputs'', JStr inputs), (lit ''output'', JStr output),
        (lit ''metadata'', JStr metadata), (lit ''link'', JObj link)])))))))"

end
