(* ===== verification/Workflow_Run.thy ===== *)
theory Workflow_Run
  imports Workflow_Server
begin

text \<open>
  Creating temporary agents, running a plan, and the dispatch of actions and JSON-RPC requests of
  \<open>plugins/workerflow/mcp/server.py\<close>.
\<close>

section \<open>Creating an agent\<close>

record agent_plan =
  ap_agent_id :: pystr
  ap_workspace :: pystr
  ap_template :: pystr
  ap_subagent :: pystr
  ap_payload :: dict
  ap_shared_dir :: pystr

definition agent_payload :: "(json \<Rightarrow> pystr) \<Rightarrow> dict \<Rightarrow> pystr \<Rightarrow> pystr \<Rightarrow> dict" where
  "agent_payload R arguments agent_id workspace_dir =
     [(lit ''id'', JStr agent_id), (lit ''name'', JStr (text_or R arguments [''name''] agent_id)),
      (lit ''description'', JStr (text_or R arguments [''description''] (lit ''Temporary WorkerFlow agent''))),
      (lit ''workspace_dir'', JStr workspace_dir), (lit ''language'', JStr (text_or R arguments [''language''] (lit ''zh''))),
      (lit ''skill_names'', JArr (json_items (payload_get arguments ''skillNames'')))]
     @ (case payload_get arguments ''activeModel'' of JObj m \<Rightarrow> [(lit ''active_model'', JObj m)] | _ \<Rightarrow> [])"

definition plan_agent :: "'s flow_env \<Rightarrow> dict \<Rightarrow> ('s, agent_plan) flow" where
  "plan_agent E arguments =
     (let R = we_repr E; agent_id = strip (text_or R arguments [''agentId''] (lit ''tmp-workerflow-'' @ we_uuid E));
          workspace_dir = we_expand E (text_or R arguments [''workspaceDir''] (default_workspace E agent_id));
          template_path = strip_at R arguments [''templatePath'']; subagent = strip_at R arguments [''subagent''] in
      bindS (liftS (seqE
        [raise_if (\<not> startswith agent_id (lit ''tmp-'')) (werr ''temporary agent id must start with tmp-''),
         raise_if (template_path \<noteq> [] \<and> subagent \<noteq> []) (werr ''use either templatePath or subagent, not both'')])) (\<lambda>_.
      bindS (if subagent \<noteq> [] then resolve_subagent_template E subagent else returnS template_path) (\<lambda>template.
      bindS (liftS (resolve_shared_dir E (payload_get arguments ''sharedDir'') (payload_get arguments ''sharedRunId'') agent_id)) (\<lambda>shared_dir.
      returnS \<lparr>ap_agent_id = agent_id, ap_workspace = workspace_dir, ap_template = template, ap_subagent = subagent,
        ap_payload = agent_payload R arguments agent_id workspace_dir, ap_shared_dir = shared_dir\<rparr>))))"

definition planned_agent :: "pystr \<Rightarrow> agent_plan \<Rightarrow> dict" where
  "planned_agent base_url p = flow_ok (lit ''create_temp_agent'')
     [(lit ''apiBaseUrl'', JStr base_url), (lit ''payload'', JObj (ap_payload p)),
      (lit ''subagent'', JStr (ap_subagent p)), (lit ''templatePath'', JStr (ap_template p)),
      (lit ''shared'', JObj (shared_plan (ap_agent_id p) (ap_workspace p) (ap_shared_dir p)))]"

definition finish_agent :: "'s flow_env \<Rightarrow> agent_plan \<Rightarrow> json \<Rightarrow> ('s, dict) flow" where
  "finish_agent E p created =
     bindS (liftS (case created of JObj kvs \<Rightarrow> Inr (we_expand E (text_or (we_repr E) kvs [''workspace_dir''] (ap_workspace p)))
                   | _ \<Rightarrow> Inl not_a_dict)) (\<lambda>workspace.
     bindS (copy_template E (ap_template p) workspace) (\<lambda>template.
     bindS (setup_shared_dir E (ap_agent_id p) workspace (ap_shared_dir p)) (\<lambda>shared.
     returnS (flow_ok (lit ''create_temp_agent'')
       [(lit ''agentId'', JStr (ap_agent_id p)), (lit ''created'', created), (lit ''workspace'', JStr workspace),
        (lit ''subagent'', JStr (ap_subagent p)), (lit ''template'', JObj template), (lit ''shared'', JObj shared)]))))"

text \<open>
  The first component of the result says whether the agent was created, which the callback
  \<open>_createdTempAgent\<close> records: it is called before the workspace is prepared, which may fail.
\<close>

definition create_temp_agent ::
  "'s flow_env \<Rightarrow> pystr \<Rightarrow> dict \<Rightarrow> 's flow_world \<Rightarrow> (bool \<times> dict res) \<times> 's flow_world" where
  "create_temp_agent E base_url arguments w = (case plan_agent E arguments w of
     (Inl e, w1) \<Rightarrow> ((False, Inl e), w1)
   | (Inr p, w1) \<Rightarrow>
       if dry_run arguments then ((False, Inr (planned_agent base_url p)), w1)
       else (case json_request E (lit ''POST'') base_url (lit ''/agents'') (Some (JObj (ap_payload p))) w1 of
         (Inl e, w2) \<Rightarrow> ((False, Inl e), w2)
       | (Inr created, w2) \<Rightarrow> (case finish_agent E p created w2 of (r, w3) \<Rightarrow> ((True, r), w3))))"

section \<open>Spawning the nodes of a plan\<close>

text \<open>The lists that the loop over the nodes fills.\<close>

record spawn =
  sp_rows :: "dict list"
  sp_cleanup :: "dict list"
  sp_submit :: "dict list"
  sp_waiting :: "dict list"

record run_plan =
  rp_run_id :: pystr
  rp_title :: pystr
  rp_input :: pystr
  rp_merge :: dict
  rp_agents :: "(pystr \<times> pystr) list"
  rp_outputs :: "(pystr \<times> pystr) list"

definition node_name :: "(json \<Rightarrow> pystr) \<Rightarrow> plan_node \<Rightarrow> pystr" where
  "node_name R node = text_or R (pn_dict node) [''name'', ''title''] (pn_id node)"

definition node_role :: "(json \<Rightarrow> pystr) \<Rightarrow> plan_node \<Rightarrow> pystr" where
  "node_role R node = text_or R (pn_dict node) [''role'', ''title''] (pn_subagent node)"

definition agent_of :: "run_plan \<Rightarrow> plan_node \<Rightarrow> pystr" where
  "agent_of P node = the (map_of (rp_agents P) (pn_id node))"

definition created_row :: "(json \<Rightarrow> pystr) \<Rightarrow> run_plan \<Rightarrow> plan_node \<Rightarrow> dict" where
  "created_row R P node =
     [(lit ''id'', JStr (pn_id node)), (lit ''name'', JStr (node_name R node)), (lit ''agentId'', JStr (agent_of P node)),
      (lit ''role'', JStr (node_role R node)), (lit ''subagent'', JStr (pn_subagent node)), (lit ''task'', JStr (pn_task node)),
      (lit ''status'', JStr (lit ''failed'')), (lit ''summary'', JStr (lit ''created before workflow_run failed''))]"

definition create_arguments :: "(json \<Rightarrow> pystr) \<Rightarrow> dict \<Rightarrow> run_plan \<Rightarrow> plan_node \<Rightarrow> dict" where
  "create_arguments R arguments P node =
     [(lit ''action'', JStr (lit ''create_temp_agent'')), (lit ''apiBaseUrl'', payload_get arguments ''apiBaseUrl''),
      (lit ''agentId'', JStr (agent_of P node)), (lit ''name'', JStr (node_name R node)),
      (lit ''description'', JStr (text_or R (pn_dict node) [''description''] (lit ''WorkerFlow subagent '' @ node_name R node))),
      (lit ''subagent'', JStr (pn_subagent node)), (lit ''sharedRunId'', JStr (rp_run_id P)),
      (lit ''sharedDir'', payload_get arguments ''sharedDir''),
      (lit ''language'', or_default (first_true (pn_dict node) [''language'']) (or_default (first_true arguments [''language'']) (JStr (lit ''zh'')))),
      (lit ''dryRun'', JBool (dry_run arguments))]
     @ (case payload_get (pn_dict node) ''skillNames'' of JArr names \<Rightarrow> [(lit ''skillNames'', JArr names)] | _ \<Rightarrow> [])
     @ (case payload_get (pn_dict node) ''activeModel'' of
          JObj m \<Rightarrow> [(lit ''activeModel'', JObj m)]
        | _ \<Rightarrow> (case payload_get arguments ''activeModel'' of JObj m \<Rightarrow> [(lit ''activeModel'', JObj m)] | _ \<Rightarrow> []))"

definition node_prompt :: "(json \<Rightarrow> pystr) \<Rightarrow> run_plan \<Rightarrow> plan_node \<Rightarrow> dict \<Rightarrow> pystr" where
  "node_prompt R P node shared = submit_prompt R (rp_title P) (rp_input P) node shared (rp_merge P)
     (map (\<lambda>dep. (dep, the (map_of (rp_outputs P) dep))) (pn_depends node))"

definition node_row :: "'s flow_env \<Rightarrow> run_plan \<Rightarrow> plan_node \<Rightarrow> dict \<Rightarrow> dict" where
  "node_row E P node created =
     (let R = we_repr E; shared = section_of created ''shared''; ready = (pn_depends node = []) in
      [(lit ''id'', JStr (pn_id node)), (lit ''name'', JStr (node_name R node)), (lit ''agentId'', JStr (agent_of P node)),
       (lit ''role'', JStr (node_role R node)), (lit ''subagent'', JStr (pn_subagent node)), (lit ''task'', JStr (pn_task node)),
       (lit ''dependsOn'', JArr (map JStr (pn_depends node))),
       (lit ''status'', JStr (if ready then lit ''ready'' else lit ''waiting'')),
       (lit ''summary'', JStr (if ready then lit ''ready for submit''
          else lit ''waiting for '' @ join (lit '', '') (pn_depends node))),
       (lit ''workspace'', JStr (text_or R created [''workspace''] (default_workspace E (agent_of P node)))),
       (lit ''shared'', JObj shared), (lit ''submitPrompt'', JStr (node_prompt R P node shared))])"

definition node_instruction :: "(json \<Rightarrow> pystr) \<Rightarrow> run_plan \<Rightarrow> plan_node \<Rightarrow> dict \<Rightarrow> dict" where
  "node_instruction R P node created =
     (let shared = section_of created ''shared'' in
      [(lit ''id'', JStr (pn_id node)), (lit ''agentId'', JStr (agent_of P node)),
       (lit ''submitPrompt'', JStr (node_prompt R P node shared)), (lit ''shared'', JObj shared)]
      @ (if pn_depends node = [] then [] else [(lit ''dependsOn'', JArr (map JStr (pn_depends node)))]))"

text \<open>The row of a created agent takes the place of the one the callback added.\<close>

fun replace_cleanup :: "pystr \<Rightarrow> bool \<Rightarrow> dict \<Rightarrow> dict list \<Rightarrow> dict list" where
  "replace_cleanup agent_id dry row [] = (if dry then [] else [row])"
| "replace_cleanup agent_id dry row (r # rows) =
     (if map_of r (lit ''agentId'') = Some (JStr agent_id) then row # rows else r # replace_cleanup agent_id dry row rows)"

definition spawned :: "'s flow_env \<Rightarrow> dict \<Rightarrow> run_plan \<Rightarrow> plan_node \<Rightarrow> dict \<Rightarrow> spawn \<Rightarrow> spawn" where
  "spawned E arguments P node created sp =
     (let row = node_row E P node created; instruction = node_instruction (we_repr E) P node created;
          sp = sp\<lparr>sp_rows := sp_rows sp @ [row],
                  sp_cleanup := replace_cleanup (agent_of P node) (dry_run arguments) row (sp_cleanup sp)\<rparr> in
      if pn_depends node = [] then sp\<lparr>sp_submit := sp_submit sp @ [instruction]\<rparr>
      else sp\<lparr>sp_waiting := sp_waiting sp @ [instruction]\<rparr>)"

text \<open>The loop stops at the first exception and keeps the rows of the agents created so far.\<close>

definition spawn_node :: "'s flow_env \<Rightarrow> dict \<Rightarrow> run_plan \<Rightarrow> plan_node \<Rightarrow> spawn \<Rightarrow> ('s, exc option \<times> spawn) flow" where
  "spawn_node E arguments P node sp w =
     (let create = create_arguments (we_repr E) arguments P node in
      case api_base E (payload_get create ''apiBaseUrl'') of
        Inl e \<Rightarrow> (Inr (Some e, sp), w)
      | Inr base_url \<Rightarrow>
          (case create_temp_agent E base_url create w of ((recorded, r), w') \<Rightarrow>
             (let sp = (if recorded then sp\<lparr>sp_cleanup := sp_cleanup sp @ [created_row (we_repr E) P node]\<rparr> else sp) in
              case r of
                Inl e \<Rightarrow> (Inr (Some e, sp), w')
              | Inr created \<Rightarrow> (Inr (None, spawned E arguments P node created sp), w'))))"

fun spawn_nodes :: "'s flow_env \<Rightarrow> dict \<Rightarrow> run_plan \<Rightarrow> plan_node list \<Rightarrow> spawn \<Rightarrow> ('s, exc option \<times> spawn) flow" where
  "spawn_nodes E arguments P [] sp = returnS (None, sp)"
| "spawn_nodes E arguments P (node # nodes) sp =
     bindS (spawn_node E arguments P node sp) (\<lambda>(failure, sp).
     case failure of Some e \<Rightarrow> returnS (Some e, sp) | None \<Rightarrow> spawn_nodes E arguments P nodes sp)"

section \<open>The run\<close>

definition step_row :: "string \<Rightarrow> string \<Rightarrow> dict" where
  "step_row name status = [(lit ''name'', JStr (lit name)), (lit ''status'', JStr (lit status))]"

definition run_steps :: "string \<Rightarrow> string \<Rightarrow> json" where
  "run_steps create submit = jrows [step_row ''Start workflow'' ''done'', step_row ''Create subagents'' create,
     step_row ''Submit subagent tasks'' submit, step_row ''Merge results'' ''pending'']"

definition with_entries :: "dict \<Rightarrow> (string \<times> json) list \<Rightarrow> dict" where
  "with_entries d kvs = fold (\<lambda>(key, v). put key v) kvs d"

definition logger_missing :: exc where
  "logger_missing = OtherException (lit ''name logger is not defined'')"

text \<open>
  The compensation of a failed run; the result is the exception that leaves it. The handler of its own
  failure uses a logger that the module does not define.
\<close>

definition fail_run :: "'s flow_env \<Rightarrow> dict \<Rightarrow> pystr \<Rightarrow> dict \<Rightarrow> dict list \<Rightarrow> exc \<Rightarrow> 's flow_world \<Rightarrow> exc \<times> 's flow_world" where
  "fail_run E arguments run_id start rows e w =
     (let text = we_exc_text E e in
      if dry_run arguments then (e, w)
      else (case workflow E (lit ''workflow_fail'') (with_entries arguments
          [(''runId'', JStr run_id), (''roomId'', payload_get start ''roomId''), (''eventId'', payload_get start ''eventId''),
           (''status'', JStr (lit ''failed'')), (''summary'', JStr (lit ''failed to create subagents: '' @ text)),
           (''subagents'', jrows rows),
           (''steps'', jrows [step_row ''Start workflow'' ''done'',
              step_row ''Create subagents'' ''failed'' @ [(lit ''summary'', JStr text)],
              step_row ''Submit subagent tasks'' ''pending'', step_row ''Merge results'' ''pending''])]) w of
        (Inl e', w') \<Rightarrow> (logger_missing, w')
      | (Inr _, w') \<Rightarrow> (e, w')))"

definition start_arguments :: "'s flow_env \<Rightarrow> dict \<Rightarrow> pystr \<Rightarrow> dict" where
  "start_arguments E arguments run_id = with_entries arguments
     [(''runId'', JStr run_id), (''status'', JStr (lit ''spawning'')),
      (''summary'', JStr (text_or (we_repr E) arguments [''summary''] (lit ''creating subagents''))),
      (''subagents'', JArr []), (''steps'', run_steps ''running'' ''pending'')]"

definition update_arguments :: "dict \<Rightarrow> pystr \<Rightarrow> dict list \<Rightarrow> dict" where
  "update_arguments arguments run_id rows = with_entries arguments
     [(''runId'', JStr run_id), (''status'', JStr (lit ''ready'')),
      (''summary'', JStr (lit ''subagents ready; submit tasks to agents'')),
      (''subagents'', jrows rows), (''steps'', run_steps ''done'' ''ready'')]"

definition mode_text :: "bool \<Rightarrow> json" where
  "mode_text is_dag = JStr (if is_dag then lit ''dag'' else lit ''fanout'')"

definition run_result :: "dict \<Rightarrow> pystr \<Rightarrow> json \<Rightarrow> pystr \<Rightarrow> spawn \<Rightarrow> bool \<Rightarrow> bool \<Rightarrow> dict" where
  "run_result shown run_id event_id path sp is_dag dry = flow_ok (lit ''workflow_run'')
     [(lit ''runId'', JStr run_id), (lit ''roomId'', payload_get shown ''roomId''), (lit ''eventId'', event_id),
      (lit ''statePath'', JStr path), (lit ''shared'', JObj [(lit ''path'', JStr (path_parent path))]),
      (lit ''subagents'', jrows (sp_rows sp)), (lit ''nodes'', jrows (sp_rows sp)),
      (lit ''submitInstructions'', jrows (sp_submit sp)), (lit ''waitingInstructions'', jrows (sp_waiting sp)),
      (lit ''workflowMode'', mode_text is_dag), (lit ''dryRun'', JBool dry)]"

definition run_state :: "dict \<Rightarrow> run_plan \<Rightarrow> spawn \<Rightarrow> bool \<Rightarrow> dict" where
  "run_state state P sp is_dag = with_entries state
     [(''phase'', JStr (lit ''ready'')), (''input'', JStr (rp_input P)), (''merge'', JObj (rp_merge P)),
      (''workflowMode'', mode_text is_dag), (''nodes'', jrows (sp_rows sp)),
      (''submitInstructions'', jrows (sp_submit sp)), (''waitingInstructions'', jrows (sp_waiting sp))]"

definition plan_outputs :: "'s flow_env \<Rightarrow> pystr \<Rightarrow> (pystr \<times> pystr) list \<Rightarrow> (pystr \<times> pystr) list" where
  "plan_outputs E shared_dir agents = map (\<lambda>(node_id, agent_id).
     (node_id, we_expand E (path_join (path_join shared_dir (lit ''outputs'')) agent_id))) agents"

definition empty_spawn :: spawn where
  "empty_spawn = \<lparr>sp_rows = [], sp_cleanup = [], sp_submit = [], sp_waiting = []\<rparr>"

text \<open>After the agents have been created: the card is updated and the plan is added to the stored state.\<close>

definition complete_run :: "'s flow_env \<Rightarrow> dict \<Rightarrow> run_plan \<Rightarrow> dict \<Rightarrow> spawn \<Rightarrow> bool \<Rightarrow> ('s, dict) flow" where
  "complete_run E arguments P start sp is_dag =
     (if dry_run arguments then
        returnS (run_result start (rp_run_id P) (JStr []) (text_at (we_repr E) start [''statePath'']) sp is_dag True)
      else
        bindS (workflow E (lit ''workflow_update'') (update_arguments arguments (rp_run_id P) (sp_rows sp))) (\<lambda>updated.
        let path = text_at (we_repr E) updated [''statePath''] in
        bindS (read_state path) (\<lambda>state.
        bindS (write_state path (run_state state P sp is_dag)) (\<lambda>_.
        returnS (run_result updated (rp_run_id P) (payload_get updated ''eventId'') path sp is_dag False)))))"

definition workflow_run :: "'s flow_env \<Rightarrow> dict \<Rightarrow> ('s, dict) flow" where
  "workflow_run E arguments =
     (let R = we_repr E in
      bindS (liftS (workflow_run_id E arguments (lit ''workflow_run''))) (\<lambda>run_id.
      bindS (liftS (plan_nodes R arguments)) (\<lambda>(nodes, is_dag).
      bindS (workflow E (lit ''workflow_start'') (start_arguments E arguments run_id)) (\<lambda>start.
      bindS (liftS (resolve_shared_dir E (payload_get arguments ''sharedDir'')
        (let v = payload_get arguments ''sharedRunId'' in if truthy v then v else JStr run_id) run_id)) (\<lambda>shared_dir.
      bindS (liftS (mapE (\<lambda>node. bindE (subagent_agent_id R run_id node) (\<lambda>a. Inr (pn_id node, a))) nodes)) (\<lambda>agents.
      let P = \<lparr>rp_run_id = run_id, rp_title = strip (text_or R arguments [''title''] (lit ''WorkerFlow'')),
            rp_input = strip_at R arguments [''input''], rp_merge = section_of arguments ''merge'', rp_agents = agents,
            rp_outputs = plan_outputs E shared_dir agents\<rparr> in
      bindS (spawn_nodes E arguments P nodes empty_spawn) (\<lambda>(failure, sp).
      case failure of
        Some e \<Rightarrow> (\<lambda>w. case fail_run E arguments run_id start (sp_cleanup sp) e w of (e', w') \<Rightarrow> (Inl e', w'))
      | None \<Rightarrow> complete_run E arguments P start sp is_dag)))))))"

section \<open>Actions\<close>

definition cleanup_shared :: "'s flow_env \<Rightarrow> dict \<Rightarrow> ('s, dict) flow" where
  "cleanup_shared E arguments =
     (let R = we_repr E; action = lit ''cleanup_shared'' in
      bindS (liftS (raise_if (strip_at R arguments [''sharedDir''] = [] \<and> strip_at R arguments [''sharedRunId''] = [])
        (werr ''sharedRunId or sharedDir is required''))) (\<lambda>_.
      bindS (liftS (resolve_shared_dir E (payload_get arguments ''sharedDir'') (payload_get arguments ''sharedRunId'') [])) (\<lambda>shared_dir.
      if dry_run arguments then returnS (flow_ok action [(lit ''shared'', JObj [(lit ''path'', JStr shared_dir)])])
      else bindS (safe_cleanup_shared E shared_dir) (\<lambda>report. returnS (flow_ok action [(lit ''shared'', JObj report)])))))"

definition workflow_actions :: "string list" where
  "workflow_actions = [''workflow_start'', ''workflow_update'', ''workflow_finish'', ''workflow_fail'']"

definition agentflow :: "'s flow_env \<Rightarrow> dict \<Rightarrow> ('s, dict) flow" where
  "agentflow E arguments =
     (let action = strip_at (we_repr E) arguments [''action''] in
      bindS (liftS (api_base E (payload_get arguments ''apiBaseUrl''))) (\<lambda>base_url.
      if action = lit ''list_agents'' then
        (if dry_run arguments then returnS (flow_ok action [(lit ''apiBaseUrl'', JStr base_url)])
         else bindS (json_request E (lit ''GET'') base_url (lit ''/agents'') None) (\<lambda>agents.
           returnS (flow_ok action [(lit ''agents'', agents)])))
      else if action = lit ''list_subagents'' then
        bindS (see (list_subagents E)) (\<lambda>v. returnS (flow_ok action [(lit ''subagents'', v)]))
      else if action = lit ''create_temp_agent'' then
        (\<lambda>w. case create_temp_agent E base_url arguments w of ((recorded, r), w') \<Rightarrow> (r, w'))
      else if action = lit ''delete_temp_agent'' then delete_temp_agent E base_url arguments
      else if action = lit ''cleanup_shared'' then cleanup_shared E arguments
      else if action = lit ''workflow_run'' then workflow_run E arguments
      else if action \<in> set (map lit workflow_actions) then workflow E action arguments
      else raiseS (ValueError (lit ''unsupported action: '' @ action))))"

section \<open>Requests\<close>

text \<open>\<open>_call_tool\<close> turns every exception into a result; \<open>schema\<close> is the description of the tool.\<close>

definition worker_tool :: pystr where
  "worker_tool = lit ''worker_agentflow''"

definition call_tool :: "'s flow_env \<Rightarrow> pystr \<Rightarrow> dict \<Rightarrow> ('s, dict) flow" where
  "call_tool E name arguments w =
     (if name \<noteq> worker_tool then (Inl (ValueError (lit ''unknown tool: '' @ name)), w)
      else (case agentflow E arguments w of (r, w') \<Rightarrow>
        (Inr [(lit ''content'', jrows [[(lit ''type'', JStr (lit ''text'')),
           (lit ''text'', JStr (dumps_indent 0 (JObj (case r of
              Inr d \<Rightarrow> d
            | Inl e \<Rightarrow> [(lit ''ok'', JBool False), (lit ''tool'', JStr name), (lit ''error'', JStr (we_exc_text E e))]))))]])], w')))"

definition rpc :: "json \<Rightarrow> string \<Rightarrow> dict \<Rightarrow> dict" where
  "rpc request_id key v = [(lit ''jsonrpc'', JStr (lit ''2.0'')), (lit ''id'', request_id), (lit key, JObj v)]"

definition rpc_error :: "json \<Rightarrow> int \<Rightarrow> pystr \<Rightarrow> dict" where
  "rpc_error request_id code message =
     rpc request_id ''error'' [(lit ''code'', JInt code), (lit ''message'', JStr message)]"

definition server_info :: dict where
  "server_info = [(lit ''protocolVersion'', JStr (lit ''2024-11-05'')), (lit ''capabilities'', JObj [(lit ''tools'', JObj [])]),
     (lit ''serverInfo'', JObj [(lit ''name'', JStr (lit ''workerflow'')), (lit ''version'', JStr (lit ''0.1.0''))])]"

definition call_params :: "'s flow_env \<Rightarrow> dict \<Rightarrow> ('s, dict) flow" where
  "call_params E request =
     bindS (liftS (case or_empty (payload_get request ''params'') of JObj d \<Rightarrow> Inr d | _ \<Rightarrow> Inl not_a_dict)) (\<lambda>params.
     case or_empty (payload_get params ''arguments'') of
       JObj arguments \<Rightarrow> call_tool E (text_at (we_repr E) params [''name'']) arguments
     | _ \<Rightarrow> (if text_at (we_repr E) params [''name''] = worker_tool
             then returnS [(lit ''content'', jrows [[(lit ''type'', JStr (lit ''text'')),
               (lit ''text'', JStr (dumps_indent 0 (JObj [(lit ''ok'', JBool False), (lit ''tool'', JStr worker_tool),
                  (lit ''error'', JStr (we_exc_text E not_a_dict))])))]])]
             else raiseS (ValueError (lit ''unknown tool: '' @ text_at (we_repr E) params [''name'']))))"

definition handle :: "'s flow_env \<Rightarrow> dict \<Rightarrow> dict \<Rightarrow> 's flow_world \<Rightarrow> dict option \<times> 's flow_world" where
  "handle E schema request w =
     (let request_id = payload_get request ''id''; verb = payload_get request ''method'' in
      if request_id = JNull then (None, w)
      else if verb = JStr (lit ''initialize'') then (Some (rpc request_id ''result'' server_info), w)
      else if verb = JStr (lit ''tools/list'') then (Some (rpc request_id ''result'' [(lit ''tools'', jrows [schema])]), w)
      else if verb = JStr (lit ''tools/call'') then
        (case call_params E request w of
           (Inr r, w') \<Rightarrow> (Some (rpc request_id ''result'' r), w')
         | (Inl e, w') \<Rightarrow> (Some (rpc_error request_id (-32000) (we_exc_text E e)), w'))
      else (Some (rpc_error request_id (-32601) (lit ''method not found: '' @ py_str (we_repr E) verb)), w))"

end
