(* ===== verification/Workflow_Files.thy ===== *)
theory Workflow_Files
  imports Workflow_Run
begin

text \<open>
  The effect of the workflow server on files: which operations leave the state files alone, and which
  directories are removed.
\<close>

section \<open>Operations that write no state file\<close>

text \<open>Such an operation at most removes state files, with the directory they are in.\<close>

named_theorems quiet_intros \<open>operations that write no state file\<close>

definition shrinks :: "'s flow_world \<Rightarrow> 's flow_world \<Rightarrow> bool" where
  "shrinks w w' \<longleftrightarrow> (\<forall>p. fw_json w' p = None \<or> fw_json w' p = fw_json w p)"

definition quiet :: "('s, 'a) flow \<Rightarrow> bool" where
  "quiet m \<longleftrightarrow> (\<forall>w. shrinks w (snd (m w)))"

lemma shrinks_refl [simp]: "shrinks w w"
  by (simp add: shrinks_def)

lemma shrinks_trans: "shrinks a b \<Longrightarrow> shrinks b c \<Longrightarrow> shrinks a c"
  unfolding shrinks_def by metis

lemma quietD: "quiet m \<Longrightarrow> m w = (r, w') \<Longrightarrow> shrinks w w'"
  unfolding quiet_def by (metis snd_conv)

lemma quiet_returnS [quiet_intros]: "quiet (returnS x)"
  by (simp add: quiet_def returnS_def)

lemma quiet_raiseS [quiet_intros]: "quiet (raiseS e)"
  by (simp add: quiet_def raiseS_def)

lemma quiet_liftS [quiet_intros]: "quiet (liftS x)"
  by (simp add: quiet_def liftS_def)

lemma quiet_see [quiet_intros]: "quiet (see g)"
  by (simp add: quiet_def see_def getS_def)

lemma quiet_read_state [quiet_intros]: "quiet (read_state p)"
  by (simp add: quiet_def read_state_def getS_def)

lemma quiet_on_rest [quiet_intros]: "quiet (on_rest m)"
  by (simp add: quiet_def on_rest_def shrinks_def split: prod.split)

lemma quiet_bindS [quiet_intros]:
  assumes "quiet m" and "\<And>x. quiet (f x)"
  shows "quiet (bindS m f)"
  unfolding quiet_def
proof
  fix w
  obtain r w' where m: "m w = (r, w')" by force
  show "shrinks w (snd (bindS m f w))"
  proof (cases r)
    case (Inl e)
    then show ?thesis using quietD[OF assms(1) m] m by (simp add: bindS_def)
  next
    case (Inr x)
    obtain r2 w2 where f: "f x w' = (r2, w2)" by force
    show ?thesis using shrinks_trans[OF quietD[OF assms(1) m] quietD[OF assms(2) f]] m f Inr by (simp add: bindS_def)
  qed
qed

lemma quiet_if [quiet_intros]: "quiet a \<Longrightarrow> quiet b \<Longrightarrow> quiet (if P then a else b)"
  by simp

lemma quiet_case_option [quiet_intros]: "quiet a \<Longrightarrow> (\<And>x. quiet (f x)) \<Longrightarrow> quiet (case v of None \<Rightarrow> a | Some x \<Rightarrow> f x)"
  by (cases v) auto

lemma quiet_send [quiet_intros]: "quiet (send_request E q)"
  unfolding send_request_def by (rule quiet_intros)

lemma quiet_fs_do [quiet_intros]: "quiet (fs_do E c)"
  unfolding fs_do_def
  by (intro quiet_intros) (auto simp: quiet_def shrinks_def split: fs_call.splits)

lemma quiet_catch [quiet_intros]: "quiet m \<Longrightarrow> quiet (catch_runtime_error m d)"
  unfolding quiet_def catch_runtime_error_def by (auto split: prod.splits sum.splits exc.splits) (metis snd_conv)+

lemma quiet_json_request [quiet_intros]: "quiet (json_request E verb base path payload)"
  unfolding json_request_def by (intro quiet_intros)

lemma quiet_load_runtime_config [quiet_intros]: "quiet (load_runtime_config E)"
  unfolding load_runtime_config_def Let_def by (intro quiet_intros)

lemma quiet_matrix_user [quiet_intros]: "quiet (flow_matrix_user_id E)"
  unfolding flow_matrix_user_id_def Let_def by (intro quiet_intros)

lemma quiet_matrix_token [quiet_intros]: "quiet (matrix_token E)"
  unfolding matrix_token_def Let_def by (intro quiet_intros)

lemma quiet_matrix_send [quiet_intros]: "quiet (matrix_send E room content)"
  unfolding matrix_send_def Let_def by (intro quiet_intros)

lemma quiet_cleanup_workspace [quiet_intros]: "quiet (safe_cleanup_workspace E a d)"
  unfolding safe_cleanup_workspace_def Let_def by (intro quiet_intros)

lemma quiet_profile_workspace [quiet_intros]: "quiet (profile_workspace E b a)"
  unfolding profile_workspace_def by (intro quiet_intros)

lemma quiet_delete_temp_agent [quiet_intros]: "quiet (delete_temp_agent E b arguments)"
  unfolding delete_temp_agent_def Let_def by (intro quiet_intros)

lemma quiet_cleanup_agent [quiet_intros]: "quiet (cleanup_agent E arguments a)"
proof -
  have "quiet (bindS (liftS (api_base E (payload_get arguments ''apiBaseUrl''))) (\<lambda>base_url.
      delete_temp_agent E base_url (cleanup_arguments arguments a)))" (is "quiet ?m")
    by (intro quiet_intros)
  then show ?thesis unfolding quiet_def cleanup_agent_def by (auto split: prod.splits sum.splits) (metis snd_conv)+
qed

lemma quiet_cleanup_agents [quiet_intros]: "quiet (cleanup_agents E arguments ids)"
proof (induction ids)
  case Nil
  show ?case unfolding cleanup_agents.simps by (rule quiet_intros)
next
  case (Cons a ids)
  then show ?case unfolding cleanup_agents.simps by (intro quiet_intros)
qed

lemma quiet_cleanup_temp_agents [quiet_intros]: "quiet (cleanup_temp_agents E state arguments)"
  unfolding cleanup_temp_agents_def Let_def by (intro quiet_intros)

section \<open>What is removed\<close>

text \<open>
  An environment in which directories can only be removed inside the shared area of the workflows, or
  inside the directory of workspaces when they are named like a temporary agent.
\<close>

definition removable :: "'s flow_env \<Rightarrow> pystr \<Rightarrow> bool" where
  "removable E dir \<longleftrightarrow>
     below_dir (we_resolve E (shared_root E)) dir \<and> dir \<noteq> we_resolve E (shared_root E)
     \<or> below_dir (we_resolve E (path_join (qwenpaw_working_dir E) (lit ''workspaces''))) dir
       \<and> startswith (path_name dir) (lit ''tmp-'')"

definition guarded_fs :: "'s flow_env \<Rightarrow> fs_call \<Rightarrow> ('s, unit) actS" where
  "guarded_fs E c = (case c of
     RmTree dir \<Rightarrow> if removable E dir then we_fs E c else raiseS (OSError (lit ''not permitted''))
   | _ \<Rightarrow> we_fs E c)"

definition guarded :: "'s flow_env \<Rightarrow> 's flow_env" where
  "guarded E = E\<lparr>we_fs := guarded_fs E\<rparr>"

named_theorems guarded_simps \<open>operations that do not depend on the file operations\<close>

lemma guarded_fields [guarded_simps]:
  "we_repr (guarded E) = we_repr E" "we_exc_text (guarded E) = we_exc_text E" "we_float (guarded E) = we_float E"
  "we_order (guarded E) = we_order E" "we_env (guarded E) = we_env E" "we_uuid (guarded E) = we_uuid E"
  "we_now (guarded E) = we_now E" "we_txn (guarded E) = we_txn E" "we_cwd (guarded E) = we_cwd E"
  "we_expand (guarded E) = we_expand E" "we_resolve (guarded E) = we_resolve E" "we_urlparse (guarded E) = we_urlparse E"
  "we_loopback_ip (guarded E) = we_loopback_ip E" "we_yaml (guarded E) = we_yaml E" "we_read_text (guarded E) = we_read_text E"
  "we_http (guarded E) = we_http E" "we_exists (guarded E) = we_exists E" "we_fs (guarded E) = guarded_fs E"
  by (simp_all add: guarded_def)

lemma guarded_env_raw [guarded_simps]: "env_raw (guarded E) = env_raw E"
  by (intro ext) (simp only: env_raw_def guarded_simps)

lemma guarded_env_text [guarded_simps]: "env_text (guarded E) = env_text E"
  by (intro ext) (simp only: env_text_def guarded_simps)

lemma guarded_qwenpaw_working_dir [guarded_simps]: "qwenpaw_working_dir (guarded E) = qwenpaw_working_dir E"
  by (simp only: qwenpaw_working_dir_def guarded_simps)

lemma guarded_default_workspace [guarded_simps]: "default_workspace (guarded E) = default_workspace E"
  by (intro ext) (simp only: default_workspace_def guarded_simps)

lemma guarded_default_agent_workspace [guarded_simps]: "default_agent_workspace (guarded E) = default_agent_workspace E"
  by (simp only: default_agent_workspace_def guarded_simps)

lemma guarded_shared_root [guarded_simps]: "shared_root (guarded E) = shared_root E"
  by (simp only: shared_root_def guarded_simps)

lemma guarded_resolve_shared_dir [guarded_simps]: "resolve_shared_dir (guarded E) = resolve_shared_dir E"
  by (intro ext) (simp only: resolve_shared_dir_def guarded_simps)

lemma guarded_send_request [guarded_simps]: "send_request (guarded E) = send_request E"
  by (intro ext) (simp only: send_request_def guarded_simps)

lemma guarded_error_detail [guarded_simps]: "error_detail (guarded E) = error_detail E"
  by (intro ext) (simp only: error_detail_def guarded_simps)

lemma guarded_json_request [guarded_simps]: "json_request (guarded E) = json_request E"
  by (intro ext) (simp only: json_request_def guarded_simps)

lemma guarded_require_loopback_api_base [guarded_simps]: "require_loopback_api_base (guarded E) = require_loopback_api_base E"
  by (intro ext) (simp only: require_loopback_api_base_def guarded_simps)

lemma guarded_api_base [guarded_simps]: "api_base (guarded E) = api_base E"
  by (intro ext) (simp only: api_base_def guarded_simps)

lemma guarded_config_of_text [guarded_simps]: "config_of_text (guarded E) = config_of_text E"
  by (intro ext) (simp only: config_of_text_def guarded_simps)

lemma guarded_load_runtime_config [guarded_simps]: "load_runtime_config (guarded E) = load_runtime_config E"
  by (simp only: load_runtime_config_def guarded_simps)

lemma guarded_flow_matrix_user_id [guarded_simps]: "flow_matrix_user_id (guarded E) = flow_matrix_user_id E"
  by (simp only: flow_matrix_user_id_def guarded_simps)

lemma guarded_matrix_token [guarded_simps]: "matrix_token (guarded E) = matrix_token E"
  by (simp only: matrix_token_def guarded_simps)

lemma guarded_matrix_homeserver [guarded_simps]: "matrix_homeserver (guarded E) = matrix_homeserver E"
  by (simp only: matrix_homeserver_def guarded_simps)

lemma guarded_matrix_send [guarded_simps]: "matrix_send (guarded E) = matrix_send E"
  by (intro ext) (simp only: matrix_send_def guarded_simps)

lemma guarded_workflow_run_id [guarded_simps]: "workflow_run_id (guarded E) = workflow_run_id E"
  by (intro ext) (simp only: workflow_run_id_def guarded_simps)

lemma guarded_base_state [guarded_simps]: "base_state (guarded E) = base_state E"
  by (intro ext) (simp only: base_state_def guarded_simps)

lemma guarded_merged_state [guarded_simps]: "merged_state (guarded E) = merged_state E"
  by (intro ext) (simp only: merged_state_def guarded_simps)

lemma guarded_merge_workflow_state [guarded_simps]: "merge_workflow_state (guarded E) = merge_workflow_state E"
  by (intro ext) (simp only: merge_workflow_state_def guarded_simps)

lemma guarded_rm: "removable E dir \<Longrightarrow> fs_do (guarded E) (RmTree dir) = fs_do E (RmTree dir)"
  by (simp add: fs_do_def guarded_simps guarded_fs_def)

lemma guarded_cleanup_shared [guarded_simps]: "safe_cleanup_shared (guarded E) = safe_cleanup_shared E"
proof
  fix dir
  show "safe_cleanup_shared (guarded E) dir = safe_cleanup_shared E dir"
  proof (cases "removable E (we_resolve E dir)")
    case True
    show ?thesis unfolding safe_cleanup_shared_def guarded_simps Let_def guarded_rm[OF True] by (rule refl)
  next
    case False
    then show ?thesis unfolding safe_cleanup_shared_def guarded_simps removable_def Let_def by auto
  qed
qed

lemma guarded_cleanup_workspace [guarded_simps]: "safe_cleanup_workspace (guarded E) = safe_cleanup_workspace E"
proof (intro ext)
  fix a dir w
  show "safe_cleanup_workspace (guarded E) a dir w = safe_cleanup_workspace E a dir w"
  proof (cases "removable E (we_resolve E (we_expand E dir))")
    case True
    show ?thesis unfolding safe_cleanup_workspace_def guarded_simps Let_def guarded_rm[OF True] by (rule refl)
  next
    case False
    then show ?thesis unfolding safe_cleanup_workspace_def guarded_simps removable_def Let_def by auto
  qed
qed

lemma guarded_delete [guarded_simps]: "delete_temp_agent (guarded E) = delete_temp_agent E"
  by (intro ext) (simp only: delete_temp_agent_def profile_workspace_def guarded_simps)

lemma guarded_cleanup_agents: "cleanup_agents (guarded E) arguments ids = cleanup_agents E arguments ids"
proof (induction ids)
  case (Cons a ids)
  have "failed_item (guarded E) a e = failed_item E a e" for e by (cases e) (simp_all add: guarded_simps)
  then have "cleanup_agent (guarded E) arguments a = cleanup_agent E arguments a"
    by (intro ext) (simp only: cleanup_agent_def guarded_simps)
  with Cons show ?case by simp
qed simp

lemma guarded_cleanup_temp_agents [guarded_simps]: "cleanup_temp_agents (guarded E) = cleanup_temp_agents E"
  by (intro ext) (simp only: cleanup_temp_agents_def guarded_cleanup_agents guarded_simps)

text \<open>C38: Deleting an agent, cleaning up the shared files of a run and updating, finishing or failing a workflow
  only ever remove directories strictly inside the shared area of the workflows, or in the directory of
  workspaces under a name of temporary agents: forbidding every other removal changes nothing.\<close>

theorem removal_confined:
  "delete_temp_agent (guarded E) base_url arguments w = delete_temp_agent E base_url arguments w
   \<and> cleanup_shared (guarded E) arguments w = cleanup_shared E arguments w
   \<and> workflow (guarded E) action arguments w = workflow E action arguments w"
  by (simp only: cleanup_shared_def workflow_def prepare_workflow_def send_workflow_def guarded_simps)

end
