(* ===== verification/Workflow_Progress.thy ===== *)
theory Workflow_Progress
  imports Workflow_Files
begin

text \<open>
  What the workflow server guarantees about a plan: every node of it is at any time either submitted or
  waiting, a node is released when its dependencies are done, and a plan never gets stuck.
\<close>

section \<open>Entries of a state\<close>

lemma workflow_rows_jrows [simp]: "workflow_rows R (jrows rows) = rows"
  by (induction rows) (auto simp: jrows_def map_filter_def)

lemma rows_at_put: "rows_at R (put k (jrows rows) d) k' = (if k' = k then rows else rows_at R d k')"
  by (simp add: rows_at_def payload_get_put)

lemma rows_at_put_other: "k' \<noteq> k \<Longrightarrow> rows_at R (put k v d) k' = rows_at R d k'"
  by (simp add: rows_at_def payload_get_put)

lemma payload_get_copy:
  "payload_get (copy_if_present k source d) k' =
     (if k' = k \<and> map_of source (lit k) \<noteq> None then payload_get source k else payload_get d k')"
  by (cases "map_of source (lit k)") (simp_all add: copy_if_present_def payload_get_put, simp add: payload_get_def)

lemma row_id_get: "row_id R d = strip (str_or_empty R (payload_get d ''id''))"
  by (simp add: row_id_def strip_at_def text_at_single)

lemma row_id_put: "k \<noteq> ''id'' \<Longrightarrow> row_id R (put k v d) = row_id R d"
  by (simp add: row_id_get payload_get_put)

section \<open>Submitted and waiting\<close>

text \<open>
  A row of a waiting instruction names a node of the plan and its dependencies; a state tracks a plan when
  every node is submitted or waiting, and only one of the two, once.
\<close>

definition waits_for :: "(json \<Rightarrow> pystr) \<Rightarrow> plan_node list \<Rightarrow> dict \<Rightarrow> bool" where
  "waits_for R nodes row \<longleftrightarrow> (\<exists>node\<in>set nodes. row_id R row = pn_id node
     \<and> dependencies R row = Inr (pn_depends node) \<and> pn_depends node \<noteq> [])"

definition submitted_rows :: "(json \<Rightarrow> pystr) \<Rightarrow> dict \<Rightarrow> dict list" where
  "submitted_rows R state = rows_at R state ''submitInstructions''"

definition waiting_rows :: "(json \<Rightarrow> pystr) \<Rightarrow> dict \<Rightarrow> dict list" where
  "waiting_rows R state = rows_at R state ''waitingInstructions''"

definition tracks :: "(json \<Rightarrow> pystr) \<Rightarrow> plan_node list \<Rightarrow> dict \<Rightarrow> bool" where
  "tracks R nodes state \<longleftrightarrow>
     mset (map (row_id R) (submitted_rows R state @ waiting_rows R state)) = mset (map pn_id nodes)
     \<and> list_all (waits_for R nodes) (waiting_rows R state)"

lemma add_submitted_fresh:
  assumes "distinct (map (row_id R) (submitted @ ready))" and "[] \<notin> set (map (row_id R) ready)"
  shows "add_submitted R submitted ready = submitted @ ready"
  using assms by (induction R submitted ready rule: add_submitted.induct) auto

lemma released_id: "row_id R (released R state x) = row_id R (fst x)"
  by (cases x) (simp add: released_def row_id_put)

lemma dependencies_of_waiting:
  assumes "list_all (waits_for R nodes) rows"
  obtains deps where "mapE (dependencies R) rows = Inr deps" and "length deps = length rows"
    and "\<forall>(row, ds)\<in>set (zip rows deps). \<exists>node\<in>set nodes. row_id R row = pn_id node \<and> ds = pn_depends node"
proof -
  have "\<exists>ds. dependencies R row = Inr ds" if "row \<in> set rows" for row
    using that assms by (auto simp: list_all_iff waits_for_def)
  then obtain deps where deps: "mapE (dependencies R) rows = Inr deps" using mapE_total by metis
  have "\<exists>node\<in>set nodes. row_id R row = pn_id node \<and> ds = pn_depends node" if "(row, ds) \<in> set (zip rows deps)" for row ds
  proof -
    from that obtain i where "i < length rows" "row = rows ! i" "ds = deps ! i" by (auto simp: set_zip)
    then have "dependencies R row = Inr ds" "row \<in> set rows" using mapE_ok_nth[OF deps] by auto
    then show ?thesis using assms by (fastforce simp: list_all_iff waits_for_def)
  qed
  then show thesis using that deps mapE_ok_length[OF deps] by blast
qed

lemma mset_filter_split: "mset (map f (filter P xs)) + mset (map f (filter (\<lambda>x. \<not> P x) xs)) = mset (map f xs)"
  by (induction xs) auto

lemma release_rows_lists:
  "submitted_rows R (release_rows R ready still state) = add_submitted R (submitted_rows R state) ready"
  "waiting_rows R (release_rows R ready still state) = still"
  by (simp_all add: release_rows_def submitted_rows_def waiting_rows_def Let_def rows_at_put)

lemma ready_lists:
  "submitted_rows R (put ''readyInstructions'' v state) = submitted_rows R state"
  "waiting_rows R (put ''readyInstructions'' v state) = waiting_rows R state"
  by (simp_all add: submitted_rows_def waiting_rows_def rows_at_put_other)

lemma zip_ids: "length deps = length ws \<Longrightarrow> map (\<lambda>x. row_id R (fst x)) (zip ws deps) = map (row_id R) ws"
  by (induction ws arbitrary: deps) (auto simp: length_Suc_conv)

lemma mset_ready_still:
  assumes "length deps = length ws"
  shows "mset (map (row_id R) (ready_rows R state (zip ws deps))) + mset (map (row_id R) (still_rows R state (zip ws deps)))
    = mset (map (row_id R) ws)"
  unfolding ready_rows_def still_rows_def map_map comp_def released_id mset_filter_split zip_ids[OF assms] ..

lemma advance_waiting:
  assumes "waiting_rows R state = ws" and "ws \<noteq> []" and "mapE (dependencies R) ws = Inr deps"
  shows "advance R state = Inr
    (let ready = ready_rows R state (zip ws deps); after = put ''readyInstructions'' (jrows ready) state in
     (if ready = [] then after else release_rows R ready (still_rows R state (zip ws deps)) after, ready))"
  using assms(2,3) unfolding advance_def assms(1)[symmetric] waiting_rows_def Let_def by simp

lemma still_rows_sub: "set (still_rows R state (zip ws deps)) \<subseteq> set ws"
  by (auto simp: still_rows_def dest: set_zip_leftD)

lemma tracks_ids:
  assumes "plan_ok nodes" and "mset ids = mset (map pn_id nodes)"
  shows "distinct ids" and "[] \<notin> set ids"
  using assms mset_eq_imp_distinct_iff[OF assms(2)] mset_eq_setD[OF assms(2)]
  by (auto simp: plan_ok_def safe_name_def)

lemma advance_tracks:
  assumes ok: "plan_ok nodes" and tracks: "tracks R nodes state" and adv: "advance R state = Inr (state', ready)"
  shows "tracks R nodes state'"
proof (cases "waiting_rows R state = []")
  case True
  with adv have "state' = put ''readyInstructions'' (JArr []) state" by (simp add: advance_def waiting_rows_def)
  with tracks show ?thesis by (simp add: tracks_def ready_lists)
next
  case False
  define ws where "ws = waiting_rows R state"
  obtain deps where deps: "mapE (dependencies R) ws = Inr deps" "length deps = length ws"
    using dependencies_of_waiting tracks unfolding tracks_def ws_def by metis
  define still where "still = still_rows R state (zip ws deps)"
  have state': "state' = (if ready = [] then put ''readyInstructions'' (jrows ready) state
      else release_rows R ready still (put ''readyInstructions'' (jrows ready) state))"
    and ready: "ready = ready_rows R state (zip ws deps)"
    using adv advance_waiting[OF ws_def[symmetric] _ deps(1)] False unfolding still_def ws_def Let_def by auto
  let ?ids = "map (row_id R) (submitted_rows R state @ ready) @ map (row_id R) still"
  have all: "mset ?ids = mset (map pn_id nodes)"
    using mset_ready_still[OF deps(2), of R state] tracks unfolding ready still_def
    by (simp add: tracks_def ws_def add.assoc)
  from tracks_ids[OF ok all] have "add_submitted R (submitted_rows R state) ready = submitted_rows R state @ ready"
    by (intro add_submitted_fresh) auto
  then have lists: "submitted_rows R state' = submitted_rows R state @ ready"
      "waiting_rows R state' = (if ready = [] then ws else still)"
    by (simp_all add: state' release_rows_lists ready_lists ws_def)
  have "list_all (waits_for R nodes) (waiting_rows R state')"
    using tracks set_mp[OF still_rows_sub[of R state ws deps]]
    by (auto simp: lists tracks_def still_def ws_def list_all_iff)
  moreover have "mset (map (row_id R) (submitted_rows R state' @ waiting_rows R state')) = mset (map pn_id nodes)"
    using all tracks unfolding lists by (simp add: tracks_def ws_def)
  ultimately show ?thesis by (simp add: tracks_def)
qed

section \<open>A plan does not get stuck\<close>

lemma first_waiting:
  assumes "acyclic (graph_edges (node_graph nodes))" and "ids \<noteq> []"
  obtains i where "i \<in> set ids" and "\<And>d. (d, i) \<in> graph_edges (node_graph nodes) \<Longrightarrow> d \<notin> set ids"
  using first_of_graph[OF assms(1), of "hd ids" "set ids"] assms(2) by (metis list.set_sel(1))

text \<open>Which instructions are ready, in terms of the plan.\<close>

lemma ready_row_deps:
  assumes "\<forall>(row, ds)\<in>set (zip ws deps). \<exists>node\<in>set nodes. row_id R row = pn_id node \<and> ds = pn_depends node"
    and "row \<in> set (ready_rows R state (zip ws deps))"
  shows "\<exists>node\<in>set nodes. row_id R row = pn_id node \<and> set (pn_depends node) \<subseteq> set (completed_keys R state)"
  using assms by (fastforce simp: ready_rows_def released_id is_released_def list_all_iff)

lemma plan_node_unique:
  assumes "plan_ok nodes" and "a \<in> set nodes" and "b \<in> set nodes" and "pn_id a = pn_id b"
  shows "a = b"
proof -
  have "inj_on pn_id (set nodes)" using assms(1) unfolding plan_ok_def distinct_map by simp
  from inj_onD[OF this assms(4,2,3)] show ?thesis .
qed

lemma advance_progresses:
  assumes ok: "plan_ok nodes" and acyclic: "acyclic (graph_edges (node_graph nodes))"
    and tracks: "tracks R nodes state" and waiting: "waiting_rows R state \<noteq> []"
    and submitted: "row_id R ` set (submitted_rows R state) \<subseteq> set (completed_keys R state)"
  obtains deps where "mapE (dependencies R) (waiting_rows R state) = Inr deps"
    and "ready_rows R state (zip (waiting_rows R state) deps) \<noteq> []"
    and "length deps = length (waiting_rows R state)"
    and "\<forall>(row, ds)\<in>set (zip (waiting_rows R state) deps). \<exists>node\<in>set nodes. row_id R row = pn_id node \<and> ds = pn_depends node"
proof -
  define ws where "ws = waiting_rows R state"
  have wait: "list_all (waits_for R nodes) ws" using tracks by (simp add: tracks_def ws_def)
  obtain deps where deps: "mapE (dependencies R) ws = Inr deps" "length deps = length ws"
      "\<forall>(row, ds)\<in>set (zip ws deps). \<exists>node\<in>set nodes. row_id R row = pn_id node \<and> ds = pn_depends node"
    using dependencies_of_waiting[OF wait] .
  obtain i where i: "i \<in> set (map (row_id R) ws)"
      "\<And>d. (d, i) \<in> graph_edges (node_graph nodes) \<Longrightarrow> d \<notin> set (map (row_id R) ws)"
    using first_waiting[OF acyclic, of "map (row_id R) ws"] waiting by (auto simp: ws_def)
  then obtain n where n: "n < length ws" "row_id R (ws ! n) = i" by (auto simp: in_set_conv_nth)
  then have pair: "(ws ! n, deps ! n) \<in> set (zip ws deps)" using deps(2) by (auto simp: in_set_zip)
  then obtain node where node: "node \<in> set nodes" "i = pn_id node" "deps ! n = pn_depends node"
    using deps(3) n(2) by fastforce
  have "ws ! n \<in> set ws" using n(1) by simp
  then obtain node' where "node' \<in> set nodes" "i = pn_id node'" "pn_depends node' \<noteq> []"
    using tracks n(2) by (auto simp: tracks_def ws_def list_all_iff waits_for_def)
  with plan_node_unique[OF ok] node have depends: "pn_depends node \<noteq> []" by metis
  have "set (map (row_id R) (submitted_rows R state @ ws)) = pn_id ` set nodes"
    using tracks unfolding tracks_def ws_def by (metis mset_eq_setD list.set_map)
  then have plan: "pn_id ` set nodes \<subseteq> set (completed_keys R state) \<union> set (map (row_id R) ws)"
    using submitted by auto
  have "d \<in> set (completed_keys R state)" if "d \<in> set (pn_depends node)" for d
  proof -
    have "d \<notin> set (map (row_id R) ws)" using i(2) node_graph_edges[OF ok] node that by blast
    moreover have "d \<in> pn_id ` set nodes" using ok node(1) that by (auto simp: plan_ok_def)
    ultimately show ?thesis using plan by blast
  qed
  then have "is_released (completed_keys R state) (snd (ws ! n, deps ! n))"
    using depends by (simp add: is_released_def list_all_iff node(3))
  then have "ready_rows R state (zip ws deps) \<noteq> []"
    using pair unfolding ready_rows_def map_is_Nil_conv filter_empty_conv by blast
  then show thesis using that deps unfolding ws_def by blast
qed

lemma ready_shortens:
  assumes "ready_rows R state waiting \<noteq> []"
  shows "length (still_rows R state waiting) < length waiting"
proof -
  have "length (ready_rows R state waiting) + length (still_rows R state waiting) = length waiting"
    unfolding ready_rows_def still_rows_def length_map by (rule sum_length_filter_compl)
  then show ?thesis using assms by (metis add.commute length_greater_0_conv less_add_same_cancel1)
qed

text \<open>C37: When a plan was accepted and is tracked by the state, something waits and everything submitted so far is
  reported as done, an update releases at
  least one of the waiting tasks, so fewer are waiting than before; and it only releases nodes whose
  dependencies are all reported as done.\<close>

theorem workflow_never_stuck:
  assumes "plan_nodes R arguments = Inr (nodes, is_dag)" and "tracks R nodes state" and "waiting_rows R state \<noteq> []"
    and "row_id R ` set (submitted_rows R state) \<subseteq> set (completed_keys R state)"
  shows "\<exists>state' ready. advance R state = Inr (state', ready) \<and> ready \<noteq> []
    \<and> length (waiting_rows R state') < length (waiting_rows R state)
    \<and> (\<forall>row\<in>set ready. \<exists>node\<in>set nodes. row_id R row = pn_id node
         \<and> set (pn_depends node) \<subseteq> set (completed_keys R state))"
proof -
  note plan = plan_nodes_ok[OF assms(1)]
  let ?ws = "waiting_rows R state"
  obtain deps where deps: "mapE (dependencies R) ?ws = Inr deps" "ready_rows R state (zip ?ws deps) \<noteq> []"
      "length deps = length ?ws"
      "\<forall>(row, ds)\<in>set (zip ?ws deps). \<exists>node\<in>set nodes. row_id R row = pn_id node \<and> ds = pn_depends node"
    using advance_progresses[OF plan assms(2-4)] .
  have "length (still_rows R state (zip ?ws deps)) < length ?ws" using ready_shortens[OF deps(2)] deps(3) by simp
  then show ?thesis
    using advance_waiting[OF refl assms(3) deps(1)] deps(2) ready_row_deps[OF deps(4)]
    by (auto simp: Let_def release_rows_lists)
qed

text \<open>A plan with a finished node and one that waits for it.\<close>

definition sample_flow_plan :: dict where
  "sample_flow_plan = [(lit ''nodes'', jrows
     [[(lit ''id'', JStr (lit ''a'')), (lit ''subagent'', JStr (lit ''s'')), (lit ''task'', JStr (lit ''t''))],
      [(lit ''id'', JStr (lit ''b'')), (lit ''subagent'', JStr (lit ''s'')), (lit ''task'', JStr (lit ''t'')),
       (lit ''dependsOn'', JArr [JStr (lit ''a'')])]])]"

definition sample_flow_state :: dict where
  "sample_flow_state =
     [(lit ''steps'', jrows [[(lit ''id'', JStr (lit ''a'')), (lit ''status'', JStr (lit ''done''))]]),
      (lit ''submitInstructions'', jrows [[(lit ''id'', JStr (lit ''a''))]]),
      (lit ''waitingInstructions'', jrows [[(lit ''id'', JStr (lit ''b'')), (lit ''dependsOn'', JArr [JStr (lit ''a'')])]])]"

definition sample_flow_nodes :: "plan_node list" where
  "sample_flow_nodes =
     [\<lparr>pn_id = lit ''a'', pn_subagent = lit ''s'', pn_task = lit ''t'', pn_depends = [],
       pn_dict = [(lit ''id'', JStr (lit ''a'')), (lit ''subagent'', JStr (lit ''s'')), (lit ''task'', JStr (lit ''t''))]\<rparr>,
      \<lparr>pn_id = lit ''b'', pn_subagent = lit ''s'', pn_task = lit ''t'', pn_depends = [lit ''a''],
       pn_dict = [(lit ''id'', JStr (lit ''b'')), (lit ''subagent'', JStr (lit ''s'')), (lit ''task'', JStr (lit ''t'')),
         (lit ''dependsOn'', JArr [JStr (lit ''a'')])]\<rparr>]"

lemmas dict_eval = text_or_def strip_at_def text_at_def first_true_def map_filter_def payload_get_def Let_def

lemma sample_letters:
  "strip (lit ''a'') = lit ''a''" "strip (lit ''b'') = lit ''b''" "strip (lit ''s'') = lit ''s''" "strip (lit ''t'') = lit ''t''"
  "strip [] = []" "safe_name 63 (lit ''a'')" "safe_name 63 (lit ''b'')" "strip (lit ''done'') = lit ''done''" "lower (lit ''done'') = lit ''done''"
  by (simp_all add: lit_def strip_def rstrip_def char_class_defs safe_name_def is_alnum_ascii_def is_name_char_def lower_def lower_char_def)

lemma sample_flow_planned: "plan_nodes R sample_flow_plan = Inr (sample_flow_nodes, True)"
  by (simp add: plan_nodes_def is_dag_plan_def sample_flow_plan_def jrows_def plan_subagents_def plan_subagent_def
      dict_eval sample_letters raw_depends_def str_or_empty_def validate_workflow_dag_def node_graph_def sample_flow_nodes_def)

lemma sample_flow_tracks: "tracks R sample_flow_nodes sample_flow_state"
  by (simp add: tracks_def submitted_rows_def waiting_rows_def rows_at_def sample_flow_state_def jrows_def map_filter_def
      payload_get_def row_id_get str_or_empty_def sample_letters sample_flow_nodes_def waits_for_def dependencies_def list_of_value_def)

lemma sample_flow_done: "set (completed_keys R sample_flow_state) = {lit ''a''}"
  by (simp add: completed_keys_def rows_at_def sample_flow_state_def jrows_def map_filter_def payload_get_def row_keys_def
      workflow_done_def strip_at_def text_at_def first_true_def sample_letters)

theorem workflow_never_stuck_witness:
  "\<exists>state' ready. advance (\<lambda>v. []) sample_flow_state = Inr (state', ready) \<and> ready \<noteq> []"
proof -
  have "waiting_rows (\<lambda>v. []) sample_flow_state \<noteq> []"
    by (simp add: waiting_rows_def rows_at_def sample_flow_state_def payload_get_def jrows_def map_filter_def)
  moreover have "row_id (\<lambda>v. []) ` set (submitted_rows (\<lambda>v. []) sample_flow_state) \<subseteq> set (completed_keys (\<lambda>v. []) sample_flow_state)"
    unfolding sample_flow_done by (simp add: submitted_rows_def rows_at_def sample_flow_state_def payload_get_def jrows_def map_filter_def
        row_id_get str_or_empty_def sample_letters)
  ultimately show ?thesis using workflow_never_stuck[OF sample_flow_planned sample_flow_tracks] by blast
qed

section \<open>The state file\<close>

definition state_at :: "'s flow_world \<Rightarrow> pystr \<Rightarrow> dict" where
  "state_at w p = (case fw_json w p of Some (JObj kvs) \<Rightarrow> kvs | _ \<Rightarrow> [])"

lemma read_state_eval: "read_state p w = (Inr (state_at w p), w)"
  by (simp add: read_state_def state_at_def)

lemma shrinks_state:
  assumes "shrinks w w'" and "fw_json w' p \<noteq> None"
  shows "state_at w' p = state_at w p"
  using assms unfolding shrinks_def state_at_def by metis

text \<open>The two lists of a state, and the states with the same lists.\<close>

definition same_lists :: "(json \<Rightarrow> pystr) \<Rightarrow> dict \<Rightarrow> dict \<Rightarrow> bool" where
  "same_lists R d d' \<longleftrightarrow> submitted_rows R d' = submitted_rows R d \<and> waiting_rows R d' = waiting_rows R d"

lemma same_lists_tracks: "same_lists R d d' \<Longrightarrow> tracks R nodes d' = tracks R nodes d"
  by (simp add: same_lists_def tracks_def)

lemma same_lists_trans: "same_lists R a b \<Longrightarrow> same_lists R b c \<Longrightarrow> same_lists R a c"
  by (simp add: same_lists_def)

lemma same_lists_put:
  "k \<noteq> ''submitInstructions'' \<Longrightarrow> k \<noteq> ''waitingInstructions'' \<Longrightarrow> same_lists R d (put k v d)"
  by (auto simp: same_lists_def submitted_rows_def waiting_rows_def rows_at_put_other)

lemma payload_get_fold_copy:
  "payload_get (fold (\<lambda>k. copy_if_present k source) ks d) k =
     (if k \<in> set ks \<and> map_of source (lit k) \<noteq> None then payload_get source k else payload_get d k)"
  by (induction ks arbitrary: d) (auto simp: payload_get_copy)

lemma payload_get_kept:
  assumes "k \<in> set kept_keys" and "payload_get d k = JNull"
  shows "payload_get (fold (\<lambda>k. copy_if_present k source) kept_keys d) k = payload_get source k"
  using assms payload_get_absent[of source k] by (auto simp: payload_get_fold_copy)

lemma base_keys:
  "map fst (base_state E action arguments previous run_id dir co subagents steps) = map lit
     [''runId'', ''title'', ''status'', ''summary'', ''roomId'', ''eventId'', ''coordinator'', ''sharedPath'', ''subagents'',
      ''steps'', ''updatedAt'']"
  by (simp add: base_state_def Let_def)

lemma payload_get_base:
  assumes "k \<in> set kept_keys"
  shows "payload_get (base_state E action arguments previous run_id dir co subagents steps) k = JNull"
proof -
  have "lit k \<notin> set (map fst (base_state E action arguments previous run_id dir co subagents steps))"
    using assms unfolding base_keys kept_keys_def by auto
  then show ?thesis by (intro payload_get_absent) (simp add: map_of_eq_None_iff)
qed

lemma base_shared_path:
  "payload_get (base_state E action arguments previous run_id dir co subagents steps) ''sharedPath'' = JStr dir"
  by (simp add: payload_get_def base_state_def Let_def)

lemma merged_kept:
  assumes "k \<in> set kept_keys"
  shows "payload_get (merged_state E action arguments previous run_id dir coordinator) k = payload_get previous k"
proof -
  have "k \<noteq> ''createdAt'' \<and> k \<noteq> ''nodes''" using assms by (auto simp: kept_keys_def)
  then show ?thesis by (simp add: merged_state_def Let_def payload_get_put payload_get_kept[OF assms] payload_get_base[OF assms])
qed

lemma merged_same_lists: "same_lists R previous (merged_state E action arguments previous run_id dir coordinator)"
  by (simp add: same_lists_def submitted_rows_def waiting_rows_def rows_at_def merged_kept kept_keys_def)

lemma merged_shared_path:
  "payload_get (merged_state E action arguments previous run_id dir coordinator) ''sharedPath'' = JStr dir"
proof -
  have "''sharedPath'' \<notin> set kept_keys" by (simp add: kept_keys_def)
  then show ?thesis by (simp add: merged_state_def Let_def payload_get_put payload_get_fold_copy base_shared_path)
qed

lemma advance_same_path:
  assumes "advance R state = Inr (state', ready)"
  shows "payload_get state' ''sharedPath'' = payload_get state ''sharedPath''"
  using assms by (auto simp: advance_def release_rows_def Let_def payload_get_put split: if_splits)

text \<open>A merged state comes from the state in the file it will be written to.\<close>

lemma merge_workflow_state_ok:
  assumes "merge_workflow_state E action arguments w = (Inr merged, w')"
  shows "shrinks w w'" and "same_lists R (state_at w (state_path (text_at R merged [''sharedPath'']))) merged"
proof -
  have "quiet (merge_workflow_state E action arguments)"
    unfolding merge_workflow_state_def Let_def by (intro quiet_intros)
  from quietD[OF this assms] show "shrinks w w'" .
  obtain run_id dir co where "merged = merged_state E action arguments (state_at w (state_path dir)) run_id dir co"
    using assms by (auto simp: merge_workflow_state_def Let_def bindS_lift_ok bindS_def[of "read_state _"] read_state_eval
        elim!: bindS_cases)
  then show "same_lists R (state_at w (state_path (text_at R merged [''sharedPath'']))) merged"
    by (cases "dir = []") (simp_all add: merged_same_lists merged_shared_path text_at_single str_or_empty_def)
qed

section \<open>Calls keep the plan\<close>

text \<open>A written state keeps the lists of the previous one, or advances them.\<close>

definition follows :: "(json \<Rightarrow> pystr) \<Rightarrow> dict \<Rightarrow> dict \<Rightarrow> bool" where
  "follows R previous d \<longleftrightarrow>
     (\<exists>m. same_lists R previous m \<and> (same_lists R m d
       \<or> (\<exists>state' ready. advance R m = Inr (state', ready) \<and> same_lists R state' d)))"

lemma follows_tracks:
  assumes "plan_ok nodes" and "tracks R nodes previous" and "follows R previous d"
  shows "tracks R nodes d"
  using assms advance_tracks same_lists_tracks unfolding follows_def by metis

lemma write_state_eval: "write_state p d w = (Inr (), w\<lparr>fw_json := (fw_json w)(p \<mapsto> JObj d)\<rparr>)"
  by (simp add: write_state_def)

lemma same_lists_refl [simp]: "same_lists R d d"
  by (simp add: same_lists_def)

lemma quiet_split [quiet_intros]: "(\<And>a b. quiet (f a b)) \<Longrightarrow> quiet (case x of (a, b) \<Rightarrow> f a b)"
  by (cases x) simp

lemma quiet_merge [quiet_intros]: "quiet (merge_workflow_state E action arguments)"
  unfolding merge_workflow_state_def Let_def by (intro quiet_intros)

lemma quiet_prepare [quiet_intros]: "quiet (prepare_workflow E action arguments)"
  unfolding prepare_workflow_def Let_def by (intro quiet_intros)

lemma prepared_state:
  assumes "prepare_workflow E action arguments w = (Inr (state, ready), w')"
  shows "follows (we_repr E) (state_at w (state_path (text_at (we_repr E) state [''sharedPath'']))) state"
proof -
  let ?R = "we_repr E"
  obtain merged w1 state1 where merged: "merge_workflow_state E action arguments w = (Inr merged, w1)"
    and adv: "(if action = lit ''workflow_update'' then advance ?R merged else Inr (merged, [])) = Inr (state1, ready)"
    and lists: "same_lists ?R state1 state" and kept: "payload_get state ''sharedPath'' = payload_get state1 ''sharedPath''"
    using assms
    by (auto simp: prepare_workflow_def Let_def bindS_lift_ok same_lists_put payload_get_put elim!: bindS_cases split: if_splits)
  have path: "payload_get state ''sharedPath'' = payload_get merged ''sharedPath''"
    using adv kept advance_same_path[of ?R merged] by (auto split: if_splits)
  have "(state1 = merged) \<or> advance ?R merged = Inr (state1, ready)" using adv by (auto split: if_splits)
  then show ?thesis
    using merge_workflow_state_ok(2)[OF merged, of ?R] lists unfolding follows_def text_at_single path by blast
qed

lemma send_workflow_file:
  assumes "send_workflow E action arguments state ready w = (r, w')"
  shows "fw_json w' p = None \<or> fw_json w' p = fw_json w p
    \<or> p = state_path (text_at (we_repr E) state [''sharedPath''])
      \<and> (\<exists>d. fw_json w' p = Some (JObj d) \<and> same_lists (we_repr E) state d)"
proof (cases "dry_run arguments")
  case True
  then show ?thesis using assms by (simp add: send_workflow_def Let_def)
next
  case False
  define key where "key = (if action = lit ''workflow_start'' then ''eventId'' else ''lastEditEventId'')"
  define content where
    "content = matrix_content (we_repr E) state (if action = lit ''workflow_start'' then [] else text_at (we_repr E) state [''eventId''])"
  obtain sent w1 where send: "matrix_send E (text_at (we_repr E) state [''roomId'']) content w = (sent, w1)" by force
  have shrink: "shrinks w w1" using quietD[OF quiet_matrix_send send] .
  show ?thesis
  proof (cases sent)
    case (Inl e)
    then have "w' = w1" using assms False send by (simp add: send_workflow_def Let_def bindS_def content_def)
    then show ?thesis using shrink unfolding shrinks_def by metis
  next
    case (Inr event_id)
    define after where "after = put key (JStr event_id) state"
    have "w' = snd (write_state (state_path (text_at (we_repr E) after [''sharedPath''])) after w1)"
      using assms False send Inr
      by (simp add: send_workflow_def Let_def bindS_def content_def write_state_eval after_def key_def)
    moreover have "text_at (we_repr E) after [''sharedPath''] = text_at (we_repr E) state [''sharedPath'']"
      by (simp add: after_def key_def text_at_single payload_get_put)
    moreover have "same_lists (we_repr E) state after" unfolding after_def by (rule same_lists_put) (simp_all add: key_def)
    ultimately show ?thesis using shrink unfolding shrinks_def write_state_eval
      by (cases "p = state_path (text_at (we_repr E) state [''sharedPath''])") simp_all
  qed
qed

lemma workflow_state_file:
  assumes "workflow E action arguments w = (r, w')"
  shows "fw_json w' p = None \<or> fw_json w' p = fw_json w p
    \<or> (\<exists>d. fw_json w' p = Some (JObj d) \<and> follows (we_repr E) (state_at w p) d)"
proof -
  obtain m w1 where m: "prepare_workflow E action arguments w = (m, w1)" by force
  have shrink: "shrinks w w1" using quietD[OF quiet_prepare m] .
  show ?thesis
  proof (cases m)
    case (Inl e)
    then have "w' = w1" using assms m by (simp add: workflow_def bindS_def)
    then show ?thesis using shrink unfolding shrinks_def by metis
  next
    case (Inr x)
    obtain state ready where x: "x = (state, ready)" by force
    have send: "send_workflow E action arguments state ready w1 = (r, w')"
      using assms m Inr x by (simp add: workflow_def bindS_def)
    note follows = prepared_state[OF m[unfolded Inr x]]
    have trans: "follows (we_repr E) a c" if "follows (we_repr E) a b" "same_lists (we_repr E) b c" for a b c
      using that same_lists_trans unfolding follows_def by meson
    from send_workflow_file[OF send, of p] follows trans shrink show ?thesis unfolding shrinks_def by metis
  qed
qed

section \<open>Starting a plan\<close>

lemma quiet_enable_skills [quiet_intros]: "quiet (enable_skills E dir names)"
proof (induction names)
  case Nil
  show ?case unfolding enable_skills.simps by (rule quiet_intros)
next
  case (Cons name names)
  then show ?case unfolding enable_skills.simps by (intro quiet_intros)
qed

lemma quiet_copy_files [quiet_intros]: "quiet (copy_files E template dir names)"
proof (induction names)
  case Nil
  show ?case unfolding copy_files.simps by (rule quiet_intros)
next
  case (Cons name names)
  then show ?case unfolding copy_files.simps by (intro quiet_intros)
qed

lemma quiet_copy_skills [quiet_intros]: "quiet (copy_skills E source target names)"
proof (induction names)
  case Nil
  show ?case unfolding copy_skills.simps by (rule quiet_intros)
next
  case (Cons name names)
  then show ?case unfolding copy_skills.simps copy_replace_def by (intro quiet_intros)
qed

lemma quiet_copy_template [quiet_intros]: "quiet (copy_template E template dir)"
  unfolding copy_template_def reconcile_and_enable_skills_def Let_def by (intro quiet_intros)

lemma quiet_setup_shared_dir [quiet_intros]: "quiet (setup_shared_dir E a dir shared)"
  unfolding setup_shared_dir_def replace_shared_link_def Let_def by (intro quiet_intros)

lemma quiet_plan_agent: "quiet (plan_agent E arguments)"
  unfolding plan_agent_def resolve_subagent_template_def Let_def by (intro quiet_intros)

lemma quiet_finish_agent: "quiet (finish_agent E p created)"
  unfolding finish_agent_def by (intro quiet_intros)

lemma create_temp_agent_shrinks:
  assumes "create_temp_agent E base arguments w = (r, w')"
  shows "shrinks w w'"
proof -
  obtain p w1 where p: "plan_agent E arguments w = (p, w1)" by force
  note shrink = quietD[OF quiet_plan_agent p]
  show ?thesis
  proof (cases p)
    case (Inr plan)
    obtain c w2 where c: "json_request E (lit ''POST'') base (lit ''/agents'') (Some (JObj (ap_payload plan))) w1 = (c, w2)" by force
    have "shrinks w w2" using shrinks_trans[OF shrink quietD[OF quiet_json_request c]] .
    moreover have "shrinks w2 w3" if "finish_agent E plan v w2 = (x, w3)" for v x w3 using quietD[OF quiet_finish_agent that] .
    ultimately show ?thesis
      using assms p Inr c shrink shrinks_trans by (fastforce simp: create_temp_agent_def split: if_splits sum.splits prod.splits)
  qed (use assms p shrink in \<open>simp add: create_temp_agent_def\<close>)
qed

lemma quiet_spawn_node [quiet_intros]: "quiet (spawn_node E arguments P node sp)"
  unfolding quiet_def
proof
  fix w
  let ?create = "create_arguments (we_repr E) arguments P node"
  show "shrinks w (snd (spawn_node E arguments P node sp w))"
  proof (cases "api_base E (payload_get ?create ''apiBaseUrl'')")
    case (Inr base)
    obtain recorded r w' where c: "create_temp_agent E base ?create w = ((recorded, r), w')" by (metis surj_pair)
    have "snd (spawn_node E arguments P node sp w) = w'"
      using Inr c by (cases r) (simp_all add: spawn_node_def Let_def)
    then show ?thesis using create_temp_agent_shrinks[OF c] by simp
  qed (simp add: spawn_node_def Let_def)
qed

lemma quiet_spawn_nodes [quiet_intros]: "quiet (spawn_nodes E arguments P nodes sp)"
proof (induction nodes arbitrary: sp)
  case Nil
  show ?case unfolding spawn_nodes.simps by (rule quiet_intros)
next
  case (Cons node nodes)
  then show ?case unfolding spawn_nodes.simps by (intro quiet_intros)
qed

text \<open>The instructions of the nodes that were created.\<close>

definition instructs :: "(json \<Rightarrow> pystr) \<Rightarrow> dict \<Rightarrow> plan_node \<Rightarrow> bool" where
  "instructs R row node \<longleftrightarrow> row_id R row = pn_id node \<and> dependencies R row = Inr (pn_depends node)"

definition clean_node :: "plan_node \<Rightarrow> bool" where
  "clean_node node \<longleftrightarrow> list_all (\<lambda>t. strip t = t \<and> t \<noteq> []) (pn_id node # pn_depends node)"

lemma safe_name_strip:
  assumes "safe_name n s"
  shows "strip s = s \<and> s \<noteq> []"
proof -
  have "\<not> isspace c" if "c \<in> set s" for c
    using that assms by (cases s) (auto simp: safe_name_def is_name_char_def is_alnum_ascii_def list_all_iff char_class_defs)
  moreover have "s \<noteq> []" using assms by (simp add: safe_name_def)
  ultimately show ?thesis by (simp add: trimmed_def)
qed

lemma plan_ok_clean:
  assumes "plan_ok nodes"
  shows "list_all clean_node nodes"
proof -
  have "strip t = t \<and> t \<noteq> []" if "node \<in> set nodes" "t = pn_id node \<or> t \<in> set (pn_depends node)" for node t
  proof -
    have "t \<in> pn_id ` set nodes" using that assms by (auto simp: plan_ok_def)
    then obtain other where "other \<in> set nodes" "t = pn_id other" by blast
    then have "safe_name 63 t" using assms by (simp add: plan_ok_def)
    then show ?thesis by (rule safe_name_strip)
  qed
  then show ?thesis by (simp add: clean_node_def list_all_iff)
qed

lemma clean_texts: "list_all (\<lambda>t. strip t = t \<and> t \<noteq> []) ds \<Longrightarrow>
    filter (\<lambda>d. d \<noteq> []) (map (\<lambda>item. strip (str_or_empty R item)) (map JStr ds)) = ds"
  by (induction ds) (auto simp: str_or_empty_def)

lemma node_instruction_get:
  "payload_get (node_instruction R P node created) ''id'' = JStr (pn_id node)"
  "payload_get (node_instruction R P node created) ''dependsOn'' =
     (if pn_depends node = [] then JNull else JArr (map JStr (pn_depends node)))"
  by (simp_all add: node_instruction_def Let_def payload_get_def)

lemma node_instruction_ok:
  assumes "clean_node node"
  shows "instructs R (node_instruction R P node created) node"
proof -
  have "row_id R (node_instruction R P node created) = pn_id node"
    using assms by (simp add: row_id_get node_instruction_get str_or_empty_def clean_node_def)
  moreover have "dependencies R (node_instruction R P node created) = Inr (pn_depends node)"
    using assms clean_texts[of "pn_depends node" R]
    by (simp add: dependencies_def node_instruction_get list_of_value_def clean_node_def)
  ultimately show ?thesis by (simp add: instructs_def)
qed

lemma spawned_lists:
  "sp_submit (spawned E arguments P node created sp) =
     sp_submit sp @ (if pn_depends node = [] then [node_instruction (we_repr E) P node created] else [])"
  "sp_waiting (spawned E arguments P node created sp) =
     sp_waiting sp @ (if pn_depends node = [] then [] else [node_instruction (we_repr E) P node created])"
  by (simp_all add: spawned_def Let_def)

lemma spawn_node_ok:
  assumes "spawn_node E arguments P node sp w = (Inr (None, sp'), w')"
  shows "\<exists>created sp1. sp' = spawned E arguments P node created sp1 \<and> sp_submit sp1 = sp_submit sp \<and> sp_waiting sp1 = sp_waiting sp"
  using assms by (fastforce simp: spawn_node_def Let_def split: sum.splits prod.splits if_splits)

lemma spawn_nodes_ok:
  assumes "spawn_nodes E arguments P nodes sp w = (Inr (None, sp'), w')" and "list_all clean_node nodes"
  shows "\<exists>subs wts. sp_submit sp' = sp_submit sp @ subs \<and> sp_waiting sp' = sp_waiting sp @ wts
    \<and> list_all2 (instructs (we_repr E)) subs (filter (\<lambda>n. pn_depends n = []) nodes)
    \<and> list_all2 (instructs (we_repr E)) wts (filter (\<lambda>n. pn_depends n \<noteq> []) nodes)"
  using assms
proof (induction nodes arbitrary: sp w)
  case (Cons node nodes)
  obtain sp1 w1 where first: "spawn_node E arguments P node sp w = (Inr (None, sp1), w1)"
      "spawn_nodes E arguments P nodes sp1 w1 = (Inr (None, sp'), w')"
    using Cons.prems(1) by (auto elim!: bindS_cases split: option.splits)
  from spawn_node_ok[OF first(1)] obtain created where sp1:
      "sp_submit sp1 = sp_submit sp @ (if pn_depends node = [] then [node_instruction (we_repr E) P node created] else [])"
      "sp_waiting sp1 = sp_waiting sp @ (if pn_depends node = [] then [] else [node_instruction (we_repr E) P node created])"
    by (auto simp: spawned_lists)
  have "instructs (we_repr E) (node_instruction (we_repr E) P node created) node"
    using node_instruction_ok Cons.prems(2) by simp
  moreover obtain subs wts where "sp_submit sp' = sp_submit sp1 @ subs" "sp_waiting sp' = sp_waiting sp1 @ wts"
      "list_all2 (instructs (we_repr E)) subs (filter (\<lambda>n. pn_depends n = []) nodes)"
      "list_all2 (instructs (we_repr E)) wts (filter (\<lambda>n. pn_depends n \<noteq> []) nodes)"
    using Cons.IH[OF first(2)] Cons.prems(2) by auto
  ultimately show ?case using sp1
    by (cases "pn_depends node = []") (auto intro!: exI[of _ "_ # _"] exI list_all2_Cons[THEN iffD2])
qed (simp add: empty_spawn_def)

lemma run_state_lists:
  "submitted_rows R (run_state state P sp is_dag) = sp_submit sp"
  "waiting_rows R (run_state state P sp is_dag) = sp_waiting sp"
  by (simp_all add: run_state_def with_entries_def submitted_rows_def waiting_rows_def rows_at_put rows_at_put_other)

lemma instructs_ids: "list_all2 (instructs R) rows ns \<Longrightarrow> map (row_id R) rows = map pn_id ns"
  by (induction rows ns rule: list_all2_induct) (auto simp: instructs_def)

lemma instructs_waits:
  assumes "list_all2 (instructs R) rows ns" and "set ns \<subseteq> {n \<in> set nodes. pn_depends n \<noteq> []}"
  shows "list_all (waits_for R nodes) rows"
  using assms by (induction rows ns rule: list_all2_induct) (auto simp: instructs_def waits_for_def)

lemma spawned_tracks:
  assumes "spawn_nodes E arguments P nodes empty_spawn w = (Inr (None, sp), w')" and "plan_ok nodes"
  shows "tracks (we_repr E) nodes (run_state state P' sp is_dag)"
proof -
  let ?R = "we_repr E"
  obtain subs wts where sp: "sp_submit sp = subs" "sp_waiting sp = wts"
      "list_all2 (instructs ?R) subs (filter (\<lambda>n. pn_depends n = []) nodes)"
      "list_all2 (instructs ?R) wts (filter (\<lambda>n. pn_depends n \<noteq> []) nodes)"
    using spawn_nodes_ok[OF assms(1) plan_ok_clean[OF assms(2)]] by (auto simp: empty_spawn_def)
  have "mset (map (row_id ?R) (subs @ wts)) = mset (map pn_id nodes)"
    using mset_filter_split[of pn_id "\<lambda>n. pn_depends n = []" nodes]
    by (simp add: instructs_ids[OF sp(3)] instructs_ids[OF sp(4)])
  moreover have "list_all (waits_for ?R nodes) wts" using instructs_waits[OF sp(4)] by auto
  ultimately show ?thesis by (simp add: tracks_def run_state_lists sp)
qed

lemma workflow_run_tracks:
  assumes "workflow_run E arguments w = (Inr result, w')" and "\<not> dry_run arguments"
  obtains nodes is_dag p where "plan_nodes (we_repr E) arguments = Inr (nodes, is_dag)"
    and "fw_json w' p \<noteq> None" and "tracks (we_repr E) nodes (state_at w' p)"
proof -
  obtain nodes is_dag P start sp w1 w2 where plan: "plan_nodes (we_repr E) arguments = Inr (nodes, is_dag)"
    and spawn: "spawn_nodes E arguments P nodes empty_spawn w1 = (Inr (None, sp), w2)"
    and complete: "complete_run E arguments P start sp is_dag w2 = (Inr result, w')"
    using assms(1) unfolding workflow_run_def Let_def bindS_lift_ok
    by (auto elim!: bindS_cases split: option.splits prod.splits)
  from complete assms(2) obtain w3 p state where "w' = w3\<lparr>fw_json := (fw_json w3)(p \<mapsto> JObj (run_state state P sp is_dag))\<rparr>"
    by (auto simp: complete_run_def Let_def write_state_eval elim!: bindS_cases)
  then have "fw_json w' p = Some (JObj (run_state state P sp is_dag))" by simp
  moreover have "tracks (we_repr E) nodes (run_state state P sp is_dag)"
    using spawned_tracks[OF spawn plan_nodes_ok(1)[OF plan]] .
  ultimately show thesis using that[OF plan, of p] by (simp add: state_at_def)
qed

text \<open>
  What may follow a run: starts, updates, finishes and failures of any workflow after each of which the state file is
  still there, and steps of the environment or of any other tool that leave the file as it is. Not among them are a
  second run on the same state file, which replaces its lists, and a cleanup that deletes it.
\<close>

inductive flow_calls :: "'s flow_env \<Rightarrow> pystr \<Rightarrow> 's flow_world \<Rightarrow> 's flow_world \<Rightarrow> bool" for E p where
  no_call: "flow_calls E p w w"
| call: "flow_calls E p w w1 \<Longrightarrow> workflow E action arguments w1 = (r, w2) \<Longrightarrow> fw_json w2 p \<noteq> None \<Longrightarrow> flow_calls E p w w2"
| elsewhere: "flow_calls E p w w1 \<Longrightarrow> fw_json w2 p = fw_json w1 p \<Longrightarrow> flow_calls E p w w2"

lemma flow_calls_tracks:
  assumes "flow_calls E p w w'" and "plan_ok nodes" and "fw_json w p \<noteq> None" and "tracks (we_repr E) nodes (state_at w p)"
  shows "fw_json w' p \<noteq> None \<and> tracks (we_repr E) nodes (state_at w' p)"
  using assms
proof (induction rule: flow_calls.induct)
  case (call w w1 action arguments r w2)
  then have before: "tracks (we_repr E) nodes (state_at w1 p)" by simp
  from workflow_state_file[OF call.hyps(2), of p] call.hyps(3)
  consider "fw_json w2 p = fw_json w1 p" | d where "fw_json w2 p = Some (JObj d)" "follows (we_repr E) (state_at w1 p) d"
    by blast
  then show ?case
  proof cases
    case 1
    then show ?thesis using before call.hyps(3) by (simp add: state_at_def)
  next
    case 2
    then show ?thesis using follows_tracks[OF call.prems(1) before] by (simp add: state_at_def)
  qed
qed (simp_all add: state_at_def)

text \<open>C36: After a workflow run that is not a dry run has started a plan, and whatever sequence of starts, updates,
  finishes and failures of workflows and of steps that leave its state file as it is follows, as long as the file is
  there every node of the plan is listed in it exactly once, either as submitted or as waiting, and the waiting ones
  still name the dependencies of the plan. A second run on the same state file and a cleanup that deletes it are
  outside this statement.\<close>

theorem plan_is_tracked:
  assumes "workflow_run E arguments w = (Inr result, w1)" and "\<not> dry_run arguments"
  shows "\<exists>nodes is_dag p. plan_nodes (we_repr E) arguments = Inr (nodes, is_dag)
    \<and> (\<forall>w2. flow_calls E p w1 w2 \<longrightarrow>
         mset (map (row_id (we_repr E)) (submitted_rows (we_repr E) (state_at w2 p) @ waiting_rows (we_repr E) (state_at w2 p)))
           = mset (map pn_id nodes)
         \<and> list_all (waits_for (we_repr E) nodes) (waiting_rows (we_repr E) (state_at w2 p)))"
proof -
  obtain nodes is_dag p where plan: "plan_nodes (we_repr E) arguments = Inr (nodes, is_dag)"
    and stored: "fw_json w1 p \<noteq> None" "tracks (we_repr E) nodes (state_at w1 p)"
    using workflow_run_tracks[OF assms] .
  then show ?thesis using flow_calls_tracks[OF _ plan_nodes_ok(1)[OF plan] stored] unfolding tracks_def by blast
qed

section \<open>A sample run\<close>

text \<open>An environment in which every request is answered, with one node to run.\<close>

definition sample_answer :: pystr where
  "sample_answer = dumps (JObj [(lit ''event_id'', JStr (lit ''e''))])"

definition sample_env :: "unit flow_env" where
  "sample_env = \<lparr>we_repr = (\<lambda>v. []), we_exc_text = (\<lambda>e. []), we_float = read_decimal, we_order = (\<lambda>ks. ks),
     we_env = (\<lambda>n. Some (lit ''x'')), we_uuid = lit ''u'', we_now = lit ''t'', we_txn = lit ''1'', we_cwd = lit ''/c'',
     we_expand = (\<lambda>p. p), we_resolve = (\<lambda>p. lit ''/r''), we_urlparse = (\<lambda>u. ([], [])), we_loopback_ip = (\<lambda>h. False),
     we_yaml = (\<lambda>t. None), we_read_text = (\<lambda>p s. None), we_http = (\<lambda>q s. (Answered sample_answer, s)),
     we_exists = (\<lambda>p s. True), we_is_dir = (\<lambda>p s. True), we_is_file = (\<lambda>p s. False), we_readlink = (\<lambda>p s. None),
     we_list = (\<lambda>p s. []), we_fs = (\<lambda>c. returnS ()), we_skill_system = False, we_reconcile = (\<lambda>d. returnS ()),
     we_enable_skill = (\<lambda>d n. returnS False)\<rparr>"

lemma sample_loads: "loads read_decimal sample_answer = Inr (JObj [(lit ''event_id'', JStr (lit ''e''))])"
proof -
  have "loads read_decimal sample_answer = Inr (canon (JObj [(lit ''event_id'', JStr (lit ''e''))]))"
    unfolding sample_answer_def by (rule loads_dumps[OF _ _ reads_floats_decimal]) (simp_all add: lit_def)
  then show ?thesis by simp
qed

lemma sample_config: "load_runtime_config sample_env w = (Inr [], w)"
  by (simp add: load_runtime_config_def sample_env_def env_text_def env_raw_def Let_def strip_def rstrip_def lstrip_def lit_def
      isspace_def see_def)

lemma sample_user: "flow_matrix_user_id sample_env w = (Inr (lit ''x''), w)"
  by (simp add: flow_matrix_user_id_def sample_env_def env_text_def env_raw_def Let_def strip_def rstrip_def lstrip_def lit_def
      isspace_def)

lemma sample_send: "send_request sample_env q w = (Inr (Answered sample_answer), w)"
  by (simp add: send_request_def on_rest_def sample_env_def)

lemma sample_quote: "quote [] (lit ''r'') = Inr (lit ''r'')"
  by (simp add: quote_def encodable_def lit_def utf8_def is_alnum_ascii_def char_class_defs)

lemma sample_sent: "matrix_send sample_env (lit ''r'') content w = (Inr (lit ''e''), w)"
proof -
  have "matrix_token sample_env w = (Inr (lit ''x''), w)"
    by (simp add: matrix_token_def bindS_def sample_config Let_def) 
       (simp add: sample_env_def env_text_def env_raw_def strip_def rstrip_def lstrip_def lit_def isspace_def text_or_def
          first_true_def section_of_def payload_get_def map_filter_def)
  moreover have "matrix_homeserver sample_env = lit ''x''"
    by (simp add: matrix_homeserver_def env_raw_def sample_env_def rstrip_slash_def lit_def)
  moreover have "we_float sample_env = read_decimal" "sample_answer \<noteq> []"
    by (simp_all add: sample_env_def sample_answer_def)
  ultimately show ?thesis
    by (simp add: matrix_send_def Let_def bindS_def[of "matrix_token _"] bindS_def[of "send_request _ _"] sample_send sample_quote
        sample_loads event_id_of_def text_at_single str_or_empty_def payload_get_def)
qed

lemma first_true_head: "truthy (payload_get d k) \<Longrightarrow> first_true d (k # ks) = payload_get d k"
  by (cases "map_of d (lit k)") (auto simp: first_true_def payload_get_def map_filter_def)

lemma base_ids:
  "payload_get (base_state E action arguments previous run_id dir co subagents steps) ''roomId''
     = JStr (strip (text_or (we_repr E) arguments [''roomId'', ''room_id''] (text_at (we_repr E) previous [''roomId''])))"
  "payload_get (base_state E action arguments previous run_id dir co subagents steps) ''eventId''
     = JStr (strip (text_or (we_repr E) arguments [''eventId'', ''event_id''] (text_at (we_repr E) previous [''eventId''])))"
  by (simp_all add: payload_get_def base_state_def Let_def)

lemma merged_ids:
  "payload_get (merged_state E action arguments previous run_id dir co) ''roomId''
     = JStr (strip (text_or (we_repr E) arguments [''roomId'', ''room_id''] (text_at (we_repr E) previous [''roomId''])))"
  "payload_get (merged_state E action arguments previous run_id dir co) ''eventId''
     = JStr (strip (text_or (we_repr E) arguments [''eventId'', ''event_id''] (text_at (we_repr E) previous [''eventId''])))"
proof -
  have "''roomId'' \<notin> set kept_keys" "''eventId'' \<notin> set kept_keys" by (simp_all add: kept_keys_def)
  then show "payload_get (merged_state E action arguments previous run_id dir co) ''roomId''
      = JStr (strip (text_or (we_repr E) arguments [''roomId'', ''room_id''] (text_at (we_repr E) previous [''roomId''])))"
    "payload_get (merged_state E action arguments previous run_id dir co) ''eventId''
      = JStr (strip (text_or (we_repr E) arguments [''eventId'', ''event_id''] (text_at (we_repr E) previous [''eventId''])))"
    by (simp_all add: merged_state_def Let_def payload_get_put payload_get_fold_copy base_ids)
qed

definition sample_call :: "dict \<Rightarrow> bool" where
  "sample_call d \<longleftrightarrow> payload_get d ''runId'' = JStr (lit ''r'') \<and> payload_get d ''sharedDir'' = JNull
     \<and> payload_get d ''sharedRunId'' = JNull \<and> payload_get d ''roomId'' = JStr (lit ''r'')
     \<and> payload_get d ''eventId'' = JStr (lit ''v'') \<and> payload_get d ''dryRun'' = JNull"

lemma sample_texts:
  "strip (lit ''r'') = lit ''r''" "strip (lit ''v'') = lit ''v''" "safe_name 127 (lit ''r'')" "strip (lit ''x'') = lit ''x''"
  by (simp_all add: lit_def strip_def rstrip_def lstrip_def char_class_defs safe_name_def is_alnum_ascii_def)

lemma sample_run_id:
  assumes "sample_call d"
  shows "workflow_run_id sample_env d action = Inr (lit ''r'')"
    and "\<exists>dir. resolve_shared_dir sample_env (payload_get d ''sharedDir'')
      (if truthy (payload_get d ''sharedRunId'') then payload_get d ''sharedRunId'' else JStr (lit ''r'')) (lit ''r'') = Inr dir"
  using assms
  by (simp_all add: sample_call_def workflow_run_id_def first_true_head resolve_run_id_def str_or_empty_def sample_texts
      resolve_shared_dir_def Let_def sample_letters)

lemma sample_merged:
  assumes "sample_call d"
  shows "\<exists>m. merge_workflow_state sample_env action d w = (Inr m, w)
    \<and> payload_get m ''roomId'' = JStr (lit ''r'') \<and> payload_get m ''eventId'' = JStr (lit ''v'')
    \<and> (\<exists>p. same_lists R (state_at w p) m)"
proof -
  obtain dir where dir: "resolve_shared_dir sample_env (payload_get d ''sharedDir'')
      (if truthy (payload_get d ''sharedRunId'') then payload_get d ''sharedRunId'' else JStr (lit ''r'')) (lit ''r'') = Inr dir"
    using sample_run_id(2)[OF assms] by blast
  let ?p = "state_path (we_resolve sample_env dir)"
  let ?m = "merged_state sample_env action d (state_at w ?p) (lit ''r'') (we_resolve sample_env dir) (lit ''x'')"
  have "merge_workflow_state sample_env action d w = (Inr ?m, w)"
    by (simp add: merge_workflow_state_def sample_run_id(1)[OF assms] Let_def dir bindS_def[of "read_state _"] read_state_eval
        bindS_def[of "flow_matrix_user_id _"] sample_user)
  moreover have "payload_get ?m ''roomId'' = JStr (lit ''r'')" "payload_get ?m ''eventId'' = JStr (lit ''v'')"
    using assms
    by (simp_all add: merged_ids text_or_def first_true_head sample_call_def sample_texts)
  ultimately show ?thesis using merged_same_lists by blast
qed

lemma sample_workflow:
  assumes "sample_call d" and "action \<in> {lit ''workflow_start'', lit ''workflow_update''}"
    and "\<forall>p. waiting_rows (we_repr sample_env) (state_at w p) = []"
  shows "\<exists>r w'. workflow sample_env action d w = (Inr r, w')"
proof -
  let ?R = "we_repr sample_env"
  obtain m where m: "merge_workflow_state sample_env action d w = (Inr m, w)" "payload_get m ''roomId'' = JStr (lit ''r'')"
      "payload_get m ''eventId'' = JStr (lit ''v'')" "waiting_rows ?R m = []"
    using sample_merged[OF assms(1), of action w ?R] assms(3) by (auto simp: same_lists_def)
  obtain state where adv: "(if action = lit ''workflow_update'' then advance ?R m else Inr (m, [])) = Inr (state, [])"
    and ids: "text_at ?R state [''roomId''] = lit ''r''" "text_at ?R state [''eventId''] = lit ''v''"
    using m by (cases "action = lit ''workflow_update''")
      (simp_all add: advance_def waiting_rows_def text_at_single payload_get_put str_or_empty_def)
  have "prepare_workflow sample_env action d w = (Inr (state, []), w)"
    using assms(2) by (auto simp: prepare_workflow_def Let_def bindS_def[of "merge_workflow_state _ _ _"] m(1) adv require_ids_def ids)
  moreover have "\<not> dry_run d" using assms(1) by (simp add: sample_call_def dry_run_def)
  ultimately show ?thesis
    by (simp add: workflow_def bindS_def send_workflow_def Let_def ids(1) sample_sent write_state_eval)
qed

lemma sample_fs: "\<forall>d. c \<noteq> RmTree d \<Longrightarrow> fs_do sample_env c w = (Inr (), w)"
  by (cases c) (simp_all add: fs_do_def bindS_def on_rest_def sample_env_def)

lemma sample_see: "bindS (see g) f w = f (g (fw_rest w)) w"
  by (simp add: see_def)

lemma sample_fields:
  "we_is_dir sample_env p s" "\<not> we_is_file sample_env p s" "we_exists sample_env p s" "we_list sample_env p s = []"
  "we_readlink sample_env p s = None" "we_resolve sample_env p = lit ''/r''" "we_expand sample_env p = p"
  by (simp_all add: sample_env_def)

lemma sample_request:
  "json_request sample_env verb base path payload w = (Inr (JObj [(lit ''event_id'', JStr (lit ''e''))]), w)"
proof -
  have "we_float sample_env = read_decimal" "sample_answer \<noteq> []" by (simp_all add: sample_env_def sample_answer_def)
  then show ?thesis by (simp add: json_request_def bindS_def[of "send_request _ _"] sample_send sample_loads)
qed

lemma sample_copy_files: "copy_files sample_env template dir names w = (Inr [], w)"
  by (induction names) (simp_all add: sample_see sample_fields)

lemma sample_template: "\<exists>d. copy_template sample_env template dir w = (Inr d, w)"
  by (simp add: copy_template_def Let_def sample_see sample_fields bindS_def[of "fs_do _ _"] sample_fs
      bindS_def[of "copy_files _ _ _ _"] sample_copy_files reconcile_and_enable_skills_def bindS_def[of "bindS _ _"])

lemma sample_shared: "\<exists>d. setup_shared_dir sample_env a dir shared w = (Inr d, w)"
proof -
  have "\<exists>d. replace_shared_link sample_env (path_join dir (lit ''shared'')) (lit ''/r'') w = (Inr d, w)"
    by (simp add: replace_shared_link_def Let_def sample_see sample_fields)
  then obtain d where d: "replace_shared_link sample_env (path_join dir (lit ''shared'')) (lit ''/r'') w = (Inr d, w)" ..
  show ?thesis
    by (simp add: setup_shared_dir_def Let_def bindS_def[of "fs_do _ _"] sample_fs bindS_def[of "replace_shared_link _ _ _"]
        sample_fields d)
qed

lemma sample_finish: "\<exists>d. finish_agent sample_env p (JObj kvs) w = (Inr d, w)"
proof -
  let ?workspace = "we_expand sample_env (text_or (we_repr sample_env) kvs [''workspace_dir''] (ap_workspace p))"
  obtain d1 d2 where "copy_template sample_env (ap_template p) ?workspace w = (Inr d1, w)"
      "setup_shared_dir sample_env (ap_agent_id p) ?workspace (ap_shared_dir p) w = (Inr d2, w)"
    using sample_template sample_shared by metis
  then show ?thesis by (simp add: finish_agent_def bindS_def[of "copy_template _ _ _"] bindS_def[of "setup_shared_dir _ _ _ _"])
qed

lemma sample_resolve:
  "resolve_subagent_template sample_env (lit ''s'') w = (Inr (lit ''/r''), w)"
  "\<exists>d. resolve_shared_dir sample_env JNull (JStr (lit ''r'')) fallback = Inr d"
proof -
  have "safe_name 63 (lit ''s'')" by (simp add: safe_name_def lit_def is_alnum_ascii_def char_class_defs)
  then show "resolve_subagent_template sample_env (lit ''s'') w = (Inr (lit ''/r''), w)"
    by (simp add: resolve_subagent_template_def Let_def sample_letters sample_see sample_fields below_dir_def)
  show "\<exists>d. resolve_shared_dir sample_env JNull (JStr (lit ''r'')) fallback = Inr d"
    by (simp add: resolve_shared_dir_def Let_def str_or_empty_def sample_letters resolve_run_id_def sample_texts)
qed

lemma sample_create_agent:
  assumes "strip_at (we_repr sample_env) create [''subagent''] = lit ''s''" and "strip_at (we_repr sample_env) create [''templatePath''] = []"
    and "startswith (strip (text_or (we_repr sample_env) create [''agentId''] (lit ''tmp-workerflow-'' @ we_uuid sample_env))) (lit ''tmp-'')"
    and "payload_get create ''sharedDir'' = JNull" and "payload_get create ''sharedRunId'' = JStr (lit ''r'')" and "\<not> dry_run create"
  shows "\<exists>d. create_temp_agent sample_env base create w = ((True, Inr d), w)"
proof -
  let ?id = "strip (text_or (we_repr sample_env) create [''agentId''] (lit ''tmp-workerflow-'' @ we_uuid sample_env))"
  obtain shared where shared: "resolve_shared_dir sample_env JNull (JStr (lit ''r'')) ?id = Inr shared"
    using sample_resolve(2) by blast
  have "\<exists>p. plan_agent sample_env create w = (Inr p, w)"
    using assms by (simp add: plan_agent_def Let_def bindS_def[of "resolve_subagent_template _ _"] sample_resolve(1) shared)
  then obtain p where p: "plan_agent sample_env create w = (Inr p, w)" ..
  obtain d where "finish_agent sample_env p (JObj [(lit ''event_id'', JStr (lit ''e''))]) w = (Inr d, w)"
    using sample_finish by blast
  then show ?thesis using assms(6) by (simp add: create_temp_agent_def p sample_request)
qed

text \<open>The arguments of the run: the two nodes of the sample plan.\<close>

definition sample_run_arguments :: dict where
  "sample_run_arguments = [(lit ''runId'', JStr (lit ''r'')), (lit ''roomId'', JStr (lit ''r'')), (lit ''eventId'', JStr (lit ''v''))]
     @ sample_flow_plan"

lemma sample_run_planned: "plan_nodes R sample_run_arguments = Inr (sample_flow_nodes, True)"
proof -
  have nodes: "payload_get sample_run_arguments ''nodes'' = payload_get sample_flow_plan ''nodes''"
    by (simp add: sample_run_arguments_def payload_get_def)
  then have dag: "is_dag_plan sample_run_arguments = is_dag_plan sample_flow_plan" by (simp add: is_dag_plan_def)
  have "is_dag_plan sample_flow_plan" by (simp add: is_dag_plan_def sample_flow_plan_def payload_get_def jrows_def)
  then show ?thesis using sample_flow_planned[of R] by (simp only: plan_nodes_def Let_def nodes dag if_True)
qed

lemma sample_api: "\<exists>base. api_base sample_env JNull = Inr base"
  by (simp add: api_base_def Let_def)

lemma sample_spawn:
  assumes "node \<in> set sample_flow_nodes" and "rp_run_id P = lit ''r''"
    and "rp_agents P = map (\<lambda>n. (pn_id n, lit ''tmp-workerflow-r-'' @ pn_id n)) sample_flow_nodes"
  shows "\<exists>sp'. spawn_node sample_env sample_run_arguments P node sp w = (Inr (None, sp'), w)"
proof -
  let ?R = "we_repr sample_env"
  define create where "create = create_arguments ?R sample_run_arguments P node"
  have args: "payload_get sample_run_arguments ''apiBaseUrl'' = JNull" "payload_get sample_run_arguments ''sharedDir'' = JNull"
      "payload_get sample_run_arguments ''activeModel'' = JNull" "payload_get sample_run_arguments ''dryRun'' = JNull"
    by (simp_all add: sample_run_arguments_def sample_flow_plan_def payload_get_def)
  have node: "payload_get (pn_dict node) ''skillNames'' = JNull" "payload_get (pn_dict node) ''activeModel'' = JNull"
      "pn_subagent node = lit ''s''"
    using assms(1) by (auto simp: sample_flow_nodes_def payload_get_def)
  have get: "payload_get create ''apiBaseUrl'' = JNull" "payload_get create ''agentId'' = JStr (agent_of P node)"
      "payload_get create ''subagent'' = JStr (lit ''s'')" "payload_get create ''templatePath'' = JNull"
      "payload_get create ''sharedDir'' = JNull" "payload_get create ''sharedRunId'' = JStr (lit ''r'')"
      "payload_get create ''dryRun'' = JBool False"
    unfolding create_def create_arguments_def args node
    by (simp_all add: payload_get_def assms(2) dry_run_def args[unfolded payload_get_def])
  have agent: "agent_of P node = lit ''tmp-workerflow-r-'' @ pn_id node"
    using assms(1,3) by (auto simp: agent_of_def sample_flow_nodes_def)
  have "strip (agent_of P node) = agent_of P node" "agent_of P node \<noteq> []" "startswith (agent_of P node) (lit ''tmp-'')"
    using assms(1) unfolding agent
    by (auto simp: sample_flow_nodes_def lit_def strip_def rstrip_def lstrip_def char_class_defs)
  then have created: "\<exists>d. create_temp_agent sample_env base create w = ((True, Inr d), w)" for base
    by (intro sample_create_agent)
      (simp_all add: strip_at_def text_at_single text_or_def first_true_single str_or_empty_def Let_def get sample_letters dry_run_def)
  obtain base where base: "api_base sample_env JNull = Inr base" using sample_api by blast
  obtain d where "create_temp_agent sample_env base create w = ((True, Inr d), w)" using created by blast
  note base this
  then show ?thesis by (simp add: spawn_node_def Let_def create_def[symmetric] get(1))
qed

lemma follows_no_waiting: "follows R previous d \<Longrightarrow> waiting_rows R previous = [] \<Longrightarrow> waiting_rows R d = []"
  by (auto simp: follows_def same_lists_def advance_def waiting_rows_def rows_at_put_other)

lemma workflow_no_waiting:
  assumes "workflow E action arguments w = (r, w')" and "\<forall>p. waiting_rows (we_repr E) (state_at w p) = []"
  shows "\<forall>p. waiting_rows (we_repr E) (state_at w' p) = []"
proof
  fix p
  have none: "waiting_rows (we_repr E) [] = []" by (simp add: waiting_rows_def rows_at_def payload_get_def)
  from workflow_state_file[OF assms(1), of p] show "waiting_rows (we_repr E) (state_at w' p) = []"
    using assms(2) follows_no_waiting none unfolding state_at_def by fastforce
qed

definition sample_world :: "unit flow_world" where
  "sample_world = \<lparr>fw_json = (\<lambda>p. None), fw_rest = ()\<rparr>"

lemma sample_spawned:
  assumes "rp_run_id P = lit ''r''" and "rp_agents P = map (\<lambda>n. (pn_id n, lit ''tmp-workerflow-r-'' @ pn_id n)) sample_flow_nodes"
  shows "\<exists>sp. spawn_nodes sample_env sample_run_arguments P sample_flow_nodes empty_spawn w = (Inr (None, sp), w)"
proof -
  have "\<exists>sp'. spawn_nodes sample_env sample_run_arguments P nodes sp w = (Inr (None, sp'), w)"
    if "set nodes \<subseteq> set sample_flow_nodes" for nodes sp
    using that
  proof (induction nodes arbitrary: sp)
    case (Cons node nodes)
    then obtain sp1 where "spawn_node sample_env sample_run_arguments P node sp w = (Inr (None, sp1), w)"
      using sample_spawn[OF _ assms] by (metis list.set_intros(1) subsetD)
    then show ?case using Cons.IH[of sp1] Cons.prems by (simp add: bindS_def)
  qed simp
  then show ?thesis by blast
qed

lemma sample_agents:
  "mapE (\<lambda>node. bindE (subagent_agent_id R (lit ''r'') node) (\<lambda>a. Inr (pn_id node, a))) sample_flow_nodes
     = Inr (map (\<lambda>n. (pn_id n, lit ''tmp-workerflow-r-'' @ pn_id n)) sample_flow_nodes)"
  by (simp add: sample_flow_nodes_def subagent_agent_id_def strip_at_def text_at_def first_true_def map_filter_def sample_letters Let_def)
    (simp add: lit_def safe_temp_agent_id_def safe_name_def is_name_char_def is_alnum_ascii_def char_class_defs)

lemma sample_run: "\<exists>result w'. workflow_run sample_env sample_run_arguments sample_world = (Inr result, w')"
proof -
  let ?R = "we_repr sample_env" and ?args = sample_run_arguments
  have call: "sample_call ?args"
    by (simp add: sample_call_def sample_run_arguments_def sample_flow_plan_def payload_get_def)
  have put: "sample_call (with_entries ?args ((''runId'', JStr (lit ''r'')) # kvs))"
    if "fst ` set kvs \<subseteq> {''status'', ''summary'', ''subagents'', ''steps''}" for kvs
  proof -
    have kept: "payload_get (with_entries d kvs) k = payload_get d k" if "k \<notin> fst ` set kvs" for d k
      using that unfolding with_entries_def by (induction kvs arbitrary: d) (auto simp: payload_get_put)
    have first: "with_entries ?args ((''runId'', JStr (lit ''r'')) # kvs) = with_entries (put ''runId'' (JStr (lit ''r'')) ?args) kvs"
      by (simp add: with_entries_def)
    have "k \<notin> fst ` set kvs" if "k \<notin> {''status'', ''summary'', ''subagents'', ''steps''}" for k
      using \<open>fst ` set kvs \<subseteq> _\<close> that by blast
    then show ?thesis using call unfolding sample_call_def first by (simp add: kept payload_get_put)
  qed
  have start: "sample_call (start_arguments sample_env ?args (lit ''r''))" unfolding start_arguments_def by (rule put) auto
  have update: "sample_call (update_arguments ?args (lit ''r'') rows)" for rows unfolding update_arguments_def by (rule put) auto
  have none: "\<forall>p. waiting_rows ?R (state_at sample_world p) = []"
    by (simp add: state_at_def sample_world_def waiting_rows_def rows_at_def payload_get_def)
  obtain r1 w1 where w1: "workflow sample_env (lit ''workflow_start'') (start_arguments sample_env ?args (lit ''r'')) sample_world = (Inr r1, w1)"
    using sample_workflow[OF start _ none] by blast
  obtain dir where dir: "resolve_shared_dir sample_env (payload_get ?args ''sharedDir'')
      (if truthy (payload_get ?args ''sharedRunId'') then payload_get ?args ''sharedRunId'' else JStr (lit ''r'')) (lit ''r'') = Inr dir"
    using sample_run_id(2)[OF call] by blast
  define P where "P = \<lparr>rp_run_id = lit ''r'', rp_title = strip (text_or ?R ?args [''title''] (lit ''WorkerFlow'')),
    rp_input = strip_at ?R ?args [''input''], rp_merge = section_of ?args ''merge'',
    rp_agents = map (\<lambda>n. (pn_id n, lit ''tmp-workerflow-r-'' @ pn_id n)) sample_flow_nodes,
    rp_outputs = plan_outputs sample_env dir (map (\<lambda>n. (pn_id n, lit ''tmp-workerflow-r-'' @ pn_id n)) sample_flow_nodes)\<rparr>"
  obtain sp where sp: "spawn_nodes sample_env ?args P sample_flow_nodes empty_spawn w1 = (Inr (None, sp), w1)"
    using sample_spawned[of P w1] by (auto simp: P_def)
  obtain r2 w2 where w2: "workflow sample_env (lit ''workflow_update'') (update_arguments ?args (lit ''r'') (sp_rows sp)) w1 = (Inr r2, w2)"
    using sample_workflow[OF update _ workflow_no_waiting[OF w1 none]] by blast
  have "\<not> dry_run ?args" using call by (simp add: sample_call_def dry_run_def)
  moreover have "rp_run_id P = lit ''r''" by (simp add: P_def)
  ultimately have "\<exists>result w'. complete_run sample_env ?args P r1 sp True w1 = (Inr result, w')"
    by (simp add: complete_run_def bindS_def[of "workflow _ _ _"] w2 Let_def bindS_def[of "read_state _"] read_state_eval
        bindS_def[of "write_state _ _"] write_state_eval)
  then show ?thesis
    by (simp add: workflow_run_def Let_def sample_run_id(1)[OF call] sample_run_planned bindS_def[of "workflow _ _ _"] w1 dir
        sample_agents P_def[symmetric] bindS_def[of "spawn_nodes _ _ _ _ _"] sp)
qed

theorem plan_is_tracked_witness:
  "\<exists>(w1 :: unit flow_world) p. mset (map (row_id (we_repr sample_env)) (submitted_rows (we_repr sample_env) (state_at w1 p)
       @ waiting_rows (we_repr sample_env) (state_at w1 p))) = mset [lit ''a'', lit ''b'']"
proof -
  obtain result w1 where run: "workflow_run sample_env sample_run_arguments sample_world = (Inr result, w1)"
    using sample_run by blast
  have "\<not> dry_run sample_run_arguments"
    by (simp add: dry_run_def sample_run_arguments_def sample_flow_plan_def payload_get_def)
  from plan_is_tracked[OF run this] obtain nodes is_dag p where
      plan: "plan_nodes (we_repr sample_env) sample_run_arguments = Inr (nodes, is_dag)" and
      tracked: "\<forall>w2. flow_calls sample_env p w1 w2 \<longrightarrow>
        mset (map (row_id (we_repr sample_env)) (submitted_rows (we_repr sample_env) (state_at w2 p)
          @ waiting_rows (we_repr sample_env) (state_at w2 p))) = mset (map pn_id nodes)
        \<and> list_all (waits_for (we_repr sample_env) nodes) (waiting_rows (we_repr sample_env) (state_at w2 p))"
    by blast
  have "nodes = sample_flow_nodes" using plan sample_run_planned by simp
  then have ids: "map pn_id nodes = [lit ''a'', lit ''b'']" by (simp add: sample_flow_nodes_def)
  show ?thesis using conjunct1[OF mp[OF spec[OF tracked] flow_calls.no_call]] unfolding ids by (intro exI)
qed

section \<open>Rejected plans\<close>

text \<open>C39: A plan whose nodes and dependencies are well-formed is accepted when the dependencies have no cycle;
  otherwise the run fails, and no request was sent, no agent created and no file changed.\<close>

theorem workflow_plan_acyclic:
  assumes "plan_subagents (we_repr E) (payload_get arguments (if is_dag_plan arguments then ''nodes'' else ''subagents'')) = Inr raw"
    and "plan_depends (we_repr E) (map pn_id raw) [] raw = Inr nodes"
    and "workflow_run_id E arguments (lit ''workflow_run'') = Inr run_id"
  shows "if acyclic (graph_edges (node_graph nodes)) then plan_nodes (we_repr E) arguments = Inr (nodes, is_dag_plan arguments)
    else workflow_run E arguments w = (Inl (werr ''workflow_run nodes must not contain dependency cycles''), w)"
proof -
  have ok: "plan_ok nodes" using plan_depends_plan_ok[OF assms(1,2)] .
  have planned: "plan_nodes (we_repr E) arguments = bindE (validate_workflow_dag nodes) (\<lambda>_. Inr (nodes, is_dag_plan arguments))"
    using assms(1,2) by (simp add: plan_nodes_def Let_def)
  show ?thesis
    using planned validate_workflow_dag_iff[OF ok] assms(3) by (auto simp: workflow_run_def Let_def)
qed

definition looping_plan :: dict where
  "looping_plan = [(lit ''runId'', JStr (lit ''r'')), (lit ''nodes'', jrows
     [[(lit ''id'', JStr (lit ''a'')), (lit ''subagent'', JStr (lit ''s'')), (lit ''task'', JStr (lit ''t'')),
       (lit ''dependsOn'', JArr [JStr (lit ''a'')])]])]"

theorem workflow_plan_acyclic_witness:
  "workflow_run sample_env looping_plan sample_world
     = (Inl (werr ''workflow_run nodes must not contain dependency cycles''), sample_world)"
proof -
  let ?R = "we_repr sample_env"
  define raw where "raw = [\<lparr>pn_id = lit ''a'', pn_subagent = lit ''s'', pn_task = lit ''t'', pn_depends = [],
    pn_dict = [(lit ''id'', JStr (lit ''a'')), (lit ''subagent'', JStr (lit ''s'')), (lit ''task'', JStr (lit ''t'')),
       (lit ''dependsOn'', JArr [JStr (lit ''a'')])]\<rparr>]"
  define nodes where "nodes = [hd raw\<lparr>pn_depends := [lit ''a'']\<rparr>]"
  have plan: "plan_subagents ?R (payload_get looping_plan (if is_dag_plan looping_plan then ''nodes'' else ''subagents'')) = Inr raw"
    by (simp add: is_dag_plan_def looping_plan_def jrows_def plan_subagents_def plan_subagent_def dict_eval sample_letters raw_def)
  have depends: "plan_depends ?R (map pn_id raw) [] raw = Inr nodes"
    by (simp add: raw_def nodes_def raw_depends_def str_or_empty_def sample_letters payload_get_def)
  have run: "workflow_run_id sample_env looping_plan (lit ''workflow_run'') = Inr (lit ''r'')"
    by (simp add: workflow_run_id_def Let_def first_true_head payload_get_def looping_plan_def resolve_run_id_def str_or_empty_def
        sample_texts)
  have "(lit ''a'', lit ''a'') \<in> graph_edges (node_graph nodes)"
    by (simp add: graph_edges_def node_graph_def nodes_def raw_def)
  then have "\<not> acyclic (graph_edges (node_graph nodes))" unfolding acyclic_def by blast
  then show ?thesis using workflow_plan_acyclic[OF plan depends run, of sample_world] by simp
qed

section \<open>Names and identifiers\<close>

text \<open>
  A row counts as done under its identifier, its agent and its display name. In this plan the node \<open>c\<close> has
  the display name \<open>a\<close>, and \<open>b\<close> waits for the node \<open>a\<close>, which has only been submitted.
\<close>

definition clash_plan :: dict where
  "clash_plan = [(lit ''nodes'', jrows
     [[(lit ''id'', JStr (lit ''a'')), (lit ''subagent'', JStr (lit ''s'')), (lit ''task'', JStr (lit ''t''))],
      [(lit ''id'', JStr (lit ''b'')), (lit ''subagent'', JStr (lit ''s'')), (lit ''task'', JStr (lit ''t'')),
       (lit ''dependsOn'', JArr [JStr (lit ''a'')])],
      [(lit ''id'', JStr (lit ''c'')), (lit ''name'', JStr (lit ''a'')), (lit ''subagent'', JStr (lit ''s'')),
       (lit ''task'', JStr (lit ''t''))]])]"

definition clash_state :: dict where
  "clash_state =
     [(lit ''nodes'', jrows
        [[(lit ''id'', JStr (lit ''a'')), (lit ''status'', JStr (lit ''ready''))],
         [(lit ''id'', JStr (lit ''c'')), (lit ''name'', JStr (lit ''a'')), (lit ''status'', JStr (lit ''done''))]]),
      (lit ''submitInstructions'', jrows [[(lit ''id'', JStr (lit ''a''))], [(lit ''id'', JStr (lit ''c''))]]),
      (lit ''waitingInstructions'', jrows [[(lit ''id'', JStr (lit ''b'')), (lit ''dependsOn'', JArr [JStr (lit ''a'')])]])]"

lemma clash_letters:
  "strip (lit ''c'') = lit ''c''" "safe_name 63 (lit ''c'')" "strip (lit ''ready'') = lit ''ready''" "lower (lit ''ready'') = lit ''ready''"
  by (simp_all add: lit_def strip_def rstrip_def char_class_defs safe_name_def is_alnum_ascii_def is_name_char_def lower_def lower_char_def)

text \<open>Display names and node identifiers share one name space: in an accepted plan a node is released although
  the node it depends on is not done, because another node, with its identifier as display name, is done.\<close>

lemma name_counts_as_identifier:
  "\<exists>nodes state' ready row. plan_nodes R clash_plan = Inr (nodes, True) \<and> tracks R nodes clash_state
     \<and> list_all (\<lambda>row. row_id R row = lit ''a'' \<longleftrightarrow> \<not> workflow_done R row) (rows_at R clash_state ''nodes'')
     \<and> advance R clash_state = Inr (state', ready) \<and> row \<in> set ready \<and> dependencies R row = Inr [lit ''a'']"
proof -
  let ?node = "\<lambda>i ds d. \<lparr>pn_id = lit i, pn_subagent = lit ''s'', pn_task = lit ''t'', pn_depends = ds, pn_dict = d\<rparr>"
  obtain d1 d2 d3 where plan: "plan_nodes R clash_plan = Inr ([?node ''a'' [] d1, ?node ''b'' [lit ''a''] d2, ?node ''c'' [] d3], True)"
    by (simp add: plan_nodes_def is_dag_plan_def clash_plan_def jrows_def plan_subagents_def plan_subagent_def
      dict_eval sample_letters clash_letters raw_depends_def str_or_empty_def validate_workflow_dag_def node_graph_def)
  have tracks: "tracks R [?node ''a'' [] d1, ?node ''b'' [lit ''a''] d2, ?node ''c'' [] d3] clash_state"
    by (simp add: tracks_def submitted_rows_def waiting_rows_def rows_at_def clash_state_def jrows_def map_filter_def
      payload_get_def row_id_get str_or_empty_def sample_letters clash_letters waits_for_def dependencies_def list_of_value_def)
  have completed: "lit ''a'' \<in> set (completed_keys R clash_state)"
    by (simp add: completed_keys_def rows_at_def clash_state_def jrows_def map_filter_def payload_get_def row_keys_def
      workflow_done_def strip_at_def text_at_def first_true_def sample_letters clash_letters)
  define b where "b = [(lit ''id'', JStr (lit ''b'')), (lit ''dependsOn'', JArr [JStr (lit ''a'')])]"
  have waiting: "waiting_rows R clash_state = [b]"
    by (simp add: waiting_rows_def rows_at_def clash_state_def payload_get_def jrows_def map_filter_def b_def)
  have deps: "dependencies R b = Inr [lit ''a'']"
    by (simp add: dependencies_def b_def payload_get_def list_of_value_def str_or_empty_def sample_letters)
  let ?row = "released R clash_state (b, [lit ''a''])"
  have ready: "ready_rows R clash_state (zip [b] [[lit ''a'']]) = [?row]"
    using completed by (simp add: ready_rows_def is_released_def)
  obtain state' where "advance R clash_state = Inr (state', [?row])"
    using advance_waiting[OF waiting, of "[[lit ''a'']]"] deps ready by (simp add: Let_def)
  moreover have "dependencies R ?row = Inr [lit ''a'']"
    using deps by (simp add: dependencies_def released_def payload_get_put)
  moreover have "list_all (\<lambda>row. row_id R row = lit ''a'' \<longleftrightarrow> \<not> workflow_done R row) (rows_at R clash_state ''nodes'')"
    by (simp add: rows_at_def clash_state_def payload_get_def jrows_def map_filter_def row_id_get str_or_empty_def sample_letters
        clash_letters workflow_done_def strip_at_def text_at_def first_true_def)
  ultimately show ?thesis using plan tracks by fastforce
qed

end
