(* ===== verification/Harness_Env.thy ===== *)
theory Harness_Env
  imports Workflow_Env
begin

text \<open>
  What the server of \<open>plugins/teamharness/mcp/server.py\<close> works on: its files, environment variables and
  runtime configuration, the directories and storage prefixes it derives from them, and the payload of a
  request.
\<close>

section \<open>Environment and world\<close>

text \<open>What a process gave: its exit code and its two outputs, a timeout, or an exception that kept it from running.\<close>

datatype run_outcome = Completed int pystr pystr | TimedOut | NotRun exc

record run_request =
  ru_command :: "pystr list"
  ru_variable :: "(pystr \<times> pystr) option"

text \<open>
  The files: \<open>meta.json\<close> files as the JSON values they hold or the exception that decoding them raises,
  other files as texts, and everything else. A dict in a file keeps its order of keys, on which only the
  order of keys in a response depends.
\<close>

record 's harness_world =
  hw_meta :: "pystr \<Rightarrow> json res option"
  hw_text :: "pystr \<Rightarrow> pystr option"
  hw_rest :: 's

text \<open>
  \<open>he_now\<close> is the current time as a UTC text, \<open>he_stamp\<close> the local one in a project identifier;
  \<open>he_expand\<close> and \<open>he_resolve\<close> are \<open>expanduser\<close> and \<open>resolve\<close> of a path; \<open>he_yaml\<close> is
  \<open>yaml.safe_load\<close>; \<open>he_urlsplit\<close> splits a URL into its part before the host, the host part and the rest;
  \<open>he_run\<close> runs a process, which may change every file, and \<open>he_http\<close> sends a request. For artifacts,
  \<open>he_bytes\<close> reads a file, \<open>he_decode\<close> decodes bytes with replacements, \<open>he_mimetype\<close> guesses a type from a
  name, \<open>he_word\<close> is the class \<open>\w\<close> of a Python pattern, \<open>he_expired\<close> says whether a time stamp lies more
  than half an hour back and \<open>he_txn\<close> is the identifier of a message.
\<close>

datatype request_body = BytesBody "nat list" | JsonBody json

record web_request =
  wr_method :: pystr
  wr_url :: pystr
  wr_type :: pystr
  wr_body :: request_body

record 's harness_env =
  he_repr :: "json \<Rightarrow> pystr"
  he_exc_text :: "exc \<Rightarrow> pystr"
  he_float :: "pystr \<Rightarrow> pyfloat"
  he_env :: "pystr \<Rightarrow> pystr option"
  he_now :: pystr
  he_stamp :: pystr
  he_expand :: "pystr \<Rightarrow> pystr"
  he_resolve :: "pystr \<Rightarrow> pystr"
  he_yaml :: "pystr \<Rightarrow> json option"
  he_urlsplit :: "pystr \<Rightarrow> (pystr \<times> pystr \<times> pystr) res"
  he_expired :: "json \<Rightarrow> bool"
  he_word :: "nat \<Rightarrow> bool"
  he_decode :: "nat list \<Rightarrow> pystr"
  he_mimetype :: "pystr \<Rightarrow> pystr option"
  he_txn :: pystr
  he_is_dir :: "pystr \<Rightarrow> 's harness_world \<Rightarrow> bool"
  he_size :: "pystr \<Rightarrow> 's harness_world \<Rightarrow> nat"
  he_bytes :: "pystr \<Rightarrow> 's harness_world \<Rightarrow> nat list res"
  he_http :: "web_request \<Rightarrow> 's harness_world \<Rightarrow> http_answer \<times> 's harness_world"
  he_run :: "run_request \<Rightarrow> 's harness_world \<Rightarrow> run_outcome \<times> 's harness_world"

type_synonym ('s, 'a) harness = "('s harness_world, 'a) actS"

section \<open>Configuration\<close>

definition h_env_raw :: "'s harness_env \<Rightarrow> string \<Rightarrow> pystr" where
  "h_env_raw E name = (case he_env E (lit name) of None \<Rightarrow> [] | Some v \<Rightarrow> v)"

definition h_env :: "'s harness_env \<Rightarrow> string \<Rightarrow> pystr" where
  "h_env E name = strip (h_env_raw E name)"

text \<open>
  The configuration is read from a JSON or a YAML file; the fallback for YAML, \<open>_simple_yaml_sections\<close>
  and \<open>_yaml_scalar\<close>, is word for word that of the worker flow.
\<close>

definition h_yaml_scalar :: "pystr \<Rightarrow> json" where
  "h_yaml_scalar = yaml_scalar"

definition h_simple_yaml_sections :: "pystr \<Rightarrow> dict" where
  "h_simple_yaml_sections = simple_yaml_sections"

definition h_config_of_text :: "'s harness_env \<Rightarrow> pystr \<Rightarrow> dict res" where
  "h_config_of_text E text =
     (let parsed = (case he_yaml E text of Some v \<Rightarrow> dict_or_empty v | None \<Rightarrow> h_simple_yaml_sections text) in
      case loads (he_float E) text of
        Inl (JSONDecodeError m) \<Rightarrow> Inr parsed
      | Inl e \<Rightarrow> Inl e
      | Inr (JObj kvs) \<Rightarrow> Inr kvs
      | Inr v \<Rightarrow> Inr parsed)"

definition h_load_runtime_config :: "'s harness_env \<Rightarrow> ('s, dict) harness" where
  "h_load_runtime_config E =
     (let path = h_env E ''TEAMHARNESS_RUNTIME_CONFIG'' in
      if path = [] then returnS []
      else
        bindS (getS (\<lambda>w. hw_text w (pure_path path))) (\<lambda>text.
        case text of None \<Rightarrow> returnS [] | Some t \<Rightarrow> liftS (h_config_of_text E t)))"

definition h_section :: "dict \<Rightarrow> string \<Rightarrow> dict" where
  "h_section data name = dict_or_empty (payload_get data name)"

definition runtime_team_room_id :: "'s harness_env \<Rightarrow> ('s, pystr) harness" where
  "runtime_team_room_id E =
     bindS (h_load_runtime_config E) (\<lambda>config.
     returnS (strip_at (he_repr E) (h_section config ''team'') [''teamRoomId'', ''team_room_id'']))"

section \<open>Roles\<close>

definition dashes :: "pystr \<Rightarrow> pystr" where
  "dashes s = map (\<lambda>c. if c = 95 then 45 else c) s"

definition normalize_role :: "pystr \<Rightarrow> pystr" where
  "normalize_role role =
     (let v = lower (dashes (strip role)) in
      if v \<in> {lit ''team-leader'', lit ''teamleader'', lit ''team-leader-agent''} then lit ''leader''
      else if v \<in> {lit ''remote'', lit ''remote-member-agent''} then lit ''remote-member''
      else v)"

definition runtime_role :: "'s harness_env \<Rightarrow> ('s, pystr) harness" where
  "runtime_role E =
     (let role = first_text [h_env E ''AGENTTEAMS_AGENT_ROLE'', h_env E ''AGENTTEAMS_WORKER_ROLE''] in
      if role \<noteq> [] then returnS (normalize_role role)
      else
        bindS (h_load_runtime_config E) (\<lambda>config.
        returnS (normalize_role (strip_at (he_repr E) (h_section config ''member'') [''role'']))))"

definition h_role :: "'s harness_env \<Rightarrow> dict \<Rightarrow> ('s, pystr) harness" where
  "h_role E arguments =
     (let role = strip_at (he_repr E) arguments [''role''] in
      if role = [] then runtime_role E else returnS (normalize_role role))"

section \<open>Directories and storage prefixes\<close>

definition default_workspace_dir :: "'s harness_env \<Rightarrow> pystr" where
  "default_workspace_dir E =
     (let shared = first_text [h_env E ''TEAMHARNESS_SHARED_DIR'', h_env E ''AGENTTEAMS_SHARED_DIR''];
          working = first_text [h_env E ''QWENPAW_WORKING_DIR'', h_env E ''COPAW_WORKING_DIR''] in
      if shared \<noteq> [] then path_parent (pure_path shared)
      else if working \<noteq> [] then path_join (path_join working (lit ''workspaces'')) (lit ''default'')
      else [])"

definition workspace_dir :: "'s harness_env \<Rightarrow> dict \<Rightarrow> pystr res" where
  "workspace_dir E arguments =
     (let v = first_text [strip_at (he_repr E) arguments [''workspaceDir''], default_workspace_dir E] in
      if v = [] then Inl (werr ''workspaceDir is required'') else Inr (he_expand E v))"

definition slashless :: "pystr \<Rightarrow> pystr" where
  "slashless s = strip_chars [47] s"

definition storage_root_prefix :: "'s harness_env \<Rightarrow> pystr" where
  "storage_root_prefix E = slashless (h_env E ''AGENTTEAMS_STORAGE_PREFIX'')"

definition with_storage_root :: "'s harness_env \<Rightarrow> pystr \<Rightarrow> pystr" where
  "with_storage_root E prefix =
     (let clean = slashless (strip prefix); root = storage_root_prefix E in
      if root = [] then clean
      else if clean = [] then root
      else if clean = root \<or> startswith clean (root @ [47]) then clean
      else root @ [47] @ clean)"

definition prefix_of_config :: "'s harness_env \<Rightarrow> string \<Rightarrow> ('s, pystr) harness" where
  "prefix_of_config E key =
     bindS (h_load_runtime_config E) (\<lambda>config.
     let prefix = strip_at (he_repr E) (h_section config ''storage'') [key]; root = storage_root_prefix E in
     returnS (if prefix \<noteq> [] then with_storage_root E prefix
              else if root \<noteq> [] then root @ lit ''/shared'' else lit ''shared''))"

definition default_shared_prefix :: "'s harness_env \<Rightarrow> ('s, pystr) harness" where
  "default_shared_prefix E =
     (let configured = h_env E ''AGENTTEAMS_SHARED_STORAGE_PREFIX'' in
      if configured \<noteq> [] then returnS (with_storage_root E configured)
      else prefix_of_config E ''sharedPrefix'')"

definition default_global_shared_prefix :: "'s harness_env \<Rightarrow> ('s, pystr) harness" where
  "default_global_shared_prefix E = prefix_of_config E ''globalSharedPrefix''"

definition remote_root :: "pystr \<Rightarrow> pystr res" where
  "remote_root v =
     (let text = strip v in
      if text = [] then Inl (werr ''storage sharedPrefix is required'') else Inr (rstrip_slash text @ [47]))"

section \<open>Payloads\<close>

text \<open>\<open>re.fullmatch\<close> of \<open>[A-Za-z0-9][A-Za-z0-9._-]*\<close>.\<close>

definition is_safe_id :: "pystr \<Rightarrow> bool" where
  "is_safe_id s \<longleftrightarrow> s \<noteq> [] \<and> is_alnum_ascii (hd s) \<and> list_all is_name_char (tl s)"

definition safe_id :: "(json \<Rightarrow> pystr) \<Rightarrow> json \<Rightarrow> string \<Rightarrow> pystr res" where
  "safe_id R v field =
     (let text = strip (str_or_empty R v) in
      if is_safe_id text then Inr text else Inl (ValueError (lit field @ lit '' must be a safe id'')))"

text \<open>The keys under which a field of the payload may be given, as an argument too.\<close>

definition payload_aliases :: "(string \<times> string list) list" where
  "payload_aliases =
     [(''projectId'', [''projectId'', ''project_id'']), (''taskId'', [''taskId'', ''task_id'']),
      (''roomId'', [''roomId'', ''room_id'']), (''sourceRoomId'', [''sourceRoomId'', ''source_room_id'']),
      (''sender'', [''sender'', ''senderId'', ''sender_id'', ''senderUserId'', ''sender_user_id'', ''sourceUserId'', ''source_user_id'']),
      (''assignedTo'', [''assignedTo'', ''assigned_to'']), (''dependsOn'', [''dependsOn'', ''depends_on'']),
      (''replacementTaskId'', [''replacementTaskId'', ''replacement_task_id''])]"

definition payload_plain_keys :: "string list" where
  "payload_plain_keys =
     [''title'', ''name'', ''source'', ''requester'', ''spec'', ''status'', ''summary'', ''notes'', ''topic'', ''admin'',
      ''invite'', ''replyRoute'', ''reply_route'', ''accepted'', ''resultStatus'', ''result_status'', ''reason'',
      ''cancelReason'', ''cancel_reason'', ''targetUser'', ''target_user'']"

definition add_alias :: "dict \<Rightarrow> string \<times> string list \<Rightarrow> dict \<Rightarrow> dict" where
  "add_alias arguments = (\<lambda>(canonical, keys) data.
     if list_ex (\<lambda>key. truthy (payload_get data key)) keys then data
     else (case filter (\<lambda>v. v \<noteq> JNull) (map (payload_get arguments) keys) of
        [] \<Rightarrow> data | v # _ \<Rightarrow> put canonical v data))"

definition add_plain :: "dict \<Rightarrow> string \<Rightarrow> dict \<Rightarrow> dict" where
  "add_plain arguments key data =
     (if map_of data (lit key) = None \<and> payload_get arguments key \<noteq> JNull
      then put key (payload_get arguments key) data else data)"

definition add_deliverables :: "dict \<Rightarrow> dict \<Rightarrow> dict" where
  "add_deliverables arguments data =
     (if map_of data (lit ''deliverables'') \<noteq> None then data
      else if payload_get arguments ''deliverables'' \<noteq> JNull
        then put ''deliverables'' (payload_get arguments ''deliverables'') data
      else if payload_get arguments ''deliverable'' \<noteq> JNull
        then put ''deliverables'' (JArr [payload_get arguments ''deliverable'']) data
      else data)"

definition payload_data :: "'s harness_env \<Rightarrow> dict \<Rightarrow> dict res" where
  "payload_data E arguments = (case payload_get arguments ''payload'' of
     JObj kvs \<Rightarrow> Inr kvs
   | JStr text \<Rightarrow>
       if strip text = [] then Inr []
       else (case loads (he_float E) text of
         Inl (JSONDecodeError m) \<Rightarrow> Inr []
       | Inl e \<Rightarrow> Inl e
       | Inr v \<Rightarrow> Inr (dict_or_empty v))
   | _ \<Rightarrow> Inr [])"

definition h_payload :: "'s harness_env \<Rightarrow> dict \<Rightarrow> dict res" where
  "h_payload E arguments =
     bindE (payload_data E arguments) (\<lambda>data.
     let data = fold (add_alias arguments) payload_aliases data;
         data = fold (add_plain arguments) payload_plain_keys data;
         data = add_deliverables arguments data in
     Inr (add_plain arguments ''tasks'' data))"

section \<open>State files\<close>

definition project_dir :: "'s harness_env \<Rightarrow> dict \<Rightarrow> pystr \<Rightarrow> pystr res" where
  "project_dir E arguments project_id =
     bindE (workspace_dir E arguments) (\<lambda>dir.
     Inr (path_join (path_join (path_join dir (lit ''shared'')) (lit ''projects'')) project_id))"

definition task_dir :: "'s harness_env \<Rightarrow> dict \<Rightarrow> pystr \<Rightarrow> pystr res" where
  "task_dir E arguments task_id =
     bindE (workspace_dir E arguments) (\<lambda>dir.
     Inr (path_join (path_join (path_join dir (lit ''shared'')) (lit ''tasks'')) task_id))"

definition meta_path :: "pystr \<Rightarrow> pystr" where
  "meta_path dir = path_join dir (lit ''meta.json'')"

definition project_state_path :: "'s harness_env \<Rightarrow> dict \<Rightarrow> pystr \<Rightarrow> pystr res" where
  "project_state_path E arguments project_id =
     bindE (project_dir E arguments project_id) (\<lambda>dir. Inr (meta_path dir))"

definition task_state_path :: "'s harness_env \<Rightarrow> dict \<Rightarrow> pystr \<Rightarrow> pystr res" where
  "task_state_path E arguments task_id =
     bindE (task_dir E arguments task_id) (\<lambda>dir. Inr (meta_path dir))"

text \<open>Reading a state file gives the JSON value in it, of whatever kind, or the default when there is no file.\<close>

definition read_value :: "pystr \<Rightarrow> dict \<Rightarrow> ('s, json) harness" where
  "read_value path dflt =
     bindS (getS (\<lambda>w. hw_meta w path)) (\<lambda>stored. liftS (case stored of None \<Rightarrow> Inr (JObj dflt) | Some r \<Rightarrow> r))"

text \<open>A caller that asks the value for a field at once fails on anything but an object.\<close>

fun fields_of :: "json \<Rightarrow> dict res" where
  "fields_of (JObj kvs) = Inr kvs"
| "fields_of v = Inl not_a_dict"

definition read_meta :: "pystr \<Rightarrow> dict \<Rightarrow> ('s, dict) harness" where
  "read_meta path dflt = bindS (read_value path dflt) (\<lambda>v. liftS (fields_of v))"

text \<open>
  A caller that first tests whether the value is true takes \<open>null\<close>, \<open>false\<close>, zero, an empty text and an empty
  list for a missing file, as it does an empty object.
\<close>

definition look_meta :: "pystr \<Rightarrow> ('s, dict) harness" where
  "look_meta path = bindS (read_value path []) (\<lambda>v. if truthy v then liftS (fields_of v) else returnS [])"

text \<open>
  A text that has a lone surrogate cannot be encoded; by then the file has been opened for writing and is
  empty, so that a state file cannot be decoded any more.
\<close>

definition write_meta :: "pystr \<Rightarrow> dict \<Rightarrow> ('s, unit) harness" where
  "write_meta path d w =
     (if encodable_json (JObj d) then (Inr (), w\<lparr>hw_meta := (hw_meta w)(path \<mapsto> Inr (JObj d))\<rparr>)
      else (Inl UnicodeEncodeError,
        w\<lparr>hw_meta := (hw_meta w)(path \<mapsto> Inl (JSONDecodeError (lit ''Expecting value'')))\<rparr>))"

definition write_text :: "pystr \<Rightarrow> pystr \<Rightarrow> ('s, unit) harness" where
  "write_text path t w =
     (if encodable t then (Inr (), w\<lparr>hw_text := (hw_text w)(path \<mapsto> t)\<rparr>)
      else (Inl UnicodeEncodeError, w\<lparr>hw_text := (hw_text w)(path \<mapsto> [])\<rparr>))"

definition read_project :: "'s harness_env \<Rightarrow> dict \<Rightarrow> pystr \<Rightarrow> ('s, dict) harness" where
  "read_project E arguments project_id =
     bindS (liftS (project_state_path E arguments project_id)) (\<lambda>path. read_meta path [])"

definition read_task :: "'s harness_env \<Rightarrow> dict \<Rightarrow> pystr \<Rightarrow> ('s, dict) harness" where
  "read_task E arguments task_id =
     bindS (liftS (task_state_path E arguments task_id)) (\<lambda>path. read_meta path [])"

definition look_project :: "'s harness_env \<Rightarrow> dict \<Rightarrow> pystr \<Rightarrow> ('s, dict) harness" where
  "look_project E arguments project_id = bindS (liftS (project_state_path E arguments project_id)) look_meta"

definition look_task :: "'s harness_env \<Rightarrow> dict \<Rightarrow> pystr \<Rightarrow> ('s, dict) harness" where
  "look_task E arguments task_id = bindS (liftS (task_state_path E arguments task_id)) look_meta"

definition task_value :: "'s harness_env \<Rightarrow> dict \<Rightarrow> pystr \<Rightarrow> ('s, json) harness" where
  "task_value E arguments task_id = bindS (liftS (task_state_path E arguments task_id)) (\<lambda>path. read_value path [])"

end
