(* ===== verification/Harness_Sync.thy ===== *)
theory Harness_Sync
  imports Harness_Env
begin

text \<open>
  The tool \<open>filesync\<close> of \<open>plugins/teamharness/mcp/server.py\<close>: shared paths, the commands of the storage
  client and their outcome.
\<close>

section \<open>Catching exceptions\<close>

text \<open>\<open>JSONDecodeError\<close> and the Unicode errors are subclasses of \<open>ValueError\<close>.\<close>

fun is_value_error :: "exc \<Rightarrow> bool" where
  "is_value_error (ValueError m) = True"
| "is_value_error (JSONDecodeError m) = True"
| "is_value_error UnicodeEncodeError = True"
| "is_value_error e = False"

definition on_value_error :: "('w, 'a) actS \<Rightarrow> (exc \<Rightarrow> ('w, 'a) actS) \<Rightarrow> ('w, 'a) actS" where
  "on_value_error m handler w = (case m w of
     (Inl e, w') \<Rightarrow> if is_value_error e then handler e w' else (Inl e, w')
   | r \<Rightarrow> r)"

definition tool_failed :: "string \<Rightarrow> dict \<Rightarrow> pystr \<Rightarrow> dict" where
  "tool_failed tool extra message =
     [(lit ''ok'', JBool False), (lit ''tool'', JStr (lit tool))] @ extra @ [(lit ''error'', JStr message)]"

section \<open>Paths\<close>

definition nonblank_texts :: "(json \<Rightarrow> pystr) \<Rightarrow> json list \<Rightarrow> pystr list" where
  "nonblank_texts R items = filter (\<lambda>t. strip t \<noteq> []) (map (py_str R) items)"

definition normalize_exclude :: "'s harness_env \<Rightarrow> json \<Rightarrow> pystr list res" where
  "normalize_exclude E v =
     (if \<not> truthy v then Inr []
      else (case v of
        JStr s \<Rightarrow>
          (let text = strip s in
           if text = [] then Inr []
           else if startswith text [91] then
             bindE (loads (he_float E) text) (\<lambda>parsed. case parsed of
               JArr items \<Rightarrow> Inr (nonblank_texts (he_repr E) items)
             | _ \<Rightarrow> Inl (werr ''exclude must be a list''))
           else Inr [text])
      | JArr items \<Rightarrow> Inr (nonblank_texts (he_repr E) items)
      | _ \<Rightarrow> Inl (werr ''exclude must be a list'')))"

definition bad_segment :: "pystr \<Rightarrow> bool" where
  "bad_segment part \<longleftrightarrow> part \<in> {[], lit ''.'', lit ''..''}"

text \<open>The quoted names of the current and the parent directory in an error message.\<close>

definition dots_quoted :: pystr where
  "dots_quoted = [39] @ lit ''.'' @ [39] @ lit '', '' @ [39] @ lit ''..'' @ [39]"

definition normalize_shared_path :: "pystr \<Rightarrow> pystr \<Rightarrow> (pystr \<times> bool) res" where
  "normalize_shared_path raw_path action =
     (let raw = strip raw_path; parts = split_on 47 (slashless raw) in
      bindE (seqE
        [raise_if (raw = [] \<or> startswith raw [47] \<or> 92 \<in> set raw) (werr ''path must be a relative shared path''),
         raise_if (list_ex bad_segment parts)
           (ValueError (lit ''path must be a relative shared path without '' @ dots_quoted @ lit '', or empty segments'')),
         raise_if (hd parts \<noteq> lit ''shared'' \<and> hd parts \<noteq> lit ''global-shared'')
           (werr ''path must start with shared/ or global-shared/''),
         raise_if (hd parts = lit ''shared'' \<and> action \<in> {lit ''push'', lit ''pull''} \<and> length parts < 3)
           (werr ''shared push/pull requires a subpath under shared/''),
         raise_if (hd parts = lit ''global-shared'' \<and> length parts < 2)
           (werr ''global-shared path must include a subpath'')]) (\<lambda>_.
      let is_directory = (endswith raw [47] \<or> action \<in> {lit ''pull'', lit ''push'', lit ''list''} \<and> length parts \<le> 3) in
      Inr (join [47] parts @ (if is_directory then [47] else []), is_directory)))"

record sync_target =
  sy_action :: pystr
  sy_path :: pystr
  sy_local :: pystr
  sy_remote :: pystr
  sy_directory :: bool

definition remote_of :: "'s harness_env \<Rightarrow> dict \<Rightarrow> string \<Rightarrow> ('s, pystr) harness \<Rightarrow> ('s, pystr) harness" where
  "remote_of E storage key dflt =
     (let given = strip_at (he_repr E) storage [key] in
      bindS (if given \<noteq> [] then returnS given else dflt) (\<lambda>prefix. liftS (remote_root prefix)))"

definition resolve_filesync :: "'s harness_env \<Rightarrow> dict \<Rightarrow> ('s, sync_target) harness" where
  "resolve_filesync E arguments =
     (let R = he_repr E; action = strip_at R arguments [''action''] in
      bindS (liftS (raise_if (action \<notin> {lit ''pull'', lit ''push'', lit ''list'', lit ''stat''})
        (werr ''action is required; use pull, push, stat, or list''))) (\<lambda>_.
      bindS (liftS (normalize_shared_path (text_at R arguments [''path'']) action)) (\<lambda>(normalized, is_directory).
      let parts = split_on 47 (slashless normalized); global = (hd parts = lit ''global-shared'');
          storage = dict_or_empty (payload_get arguments ''storage'') in
      bindS (liftS (raise_if (global \<and> action = lit ''push'')
        (werr ''global-shared is read-only for TeamHarness filesync''))) (\<lambda>_.
      bindS (remote_of E storage ''sharedPrefix'' (default_shared_prefix E)) (\<lambda>shared_root.
      bindS (if global then remote_of E storage ''globalSharedPrefix'' (default_global_shared_prefix E)
             else returnS shared_root) (\<lambda>root.
      bindS (liftS (workspace_dir E arguments)) (\<lambda>workspace.
      let remote = root @ join [47] (tl parts) in
      returnS \<lparr>sy_action = action, sy_path = normalized, sy_local = path_join workspace (join [47] parts),
        sy_remote = (if is_directory then rstrip_slash remote @ [47] else remote), sy_directory = is_directory\<rparr>)))))))"

section \<open>The storage client\<close>

definition mc_host_url :: "'s harness_env \<Rightarrow> pystr \<Rightarrow> pystr \<Rightarrow> pystr \<Rightarrow> pystr res" where
  "mc_host_url E endpoint access_key secret_key =
     (let url = rstrip_slash (strip endpoint);
          url = (if startswith url (lit ''http://'') \<or> startswith url (lit ''https://'') then url else lit ''http://'' @ url) in
      bindE (he_urlsplit E url) (\<lambda>(before, netloc, after).
      if 64 \<in> set netloc then Inr url
      else bindE (quote [] access_key) (\<lambda>user. bindE (quote [] secret_key) (\<lambda>password.
        Inr (before @ user @ [58] @ password @ [64] @ netloc @ after)))))"

definition remote_uses_mc_alias :: "pystr \<Rightarrow> bool" where
  "remote_uses_mc_alias remote = startswith (strip remote) (lit ''agentteams/'')"

definition h_run :: "'s harness_env \<Rightarrow> run_request \<Rightarrow> ('s, run_outcome) harness" where
  "h_run E q w = (case he_run E q w of (r, w') \<Rightarrow> (Inr r, w'))"

fun is_os_exc :: "exc \<Rightarrow> bool" where
  "is_os_exc (OSError m) = True"
| "is_os_exc e = False"

definition mc_alias_configured :: "'s harness_env \<Rightarrow> ('s, bool) harness" where
  "mc_alias_configured E =
     bindS (h_run E \<lparr>ru_command = map lit [''mc'', ''alias'', ''list'', ''agentteams''], ru_variable = None\<rparr>) (\<lambda>r.
     liftS (case r of
       Completed code out err \<Rightarrow> Inr (code = 0 \<and> occurs (lit ''agentteams'') (out @ [10] @ err))
     | TimedOut \<Rightarrow> Inr False
     | NotRun e \<Rightarrow> if is_os_exc e then Inr False else Inl e))"

text \<open>The variable to add for the client, or the error.\<close>

definition filesync_mc_env :: "'s harness_env \<Rightarrow> pystr \<Rightarrow> ('s, pystr + (pystr \<times> pystr) option) harness" where
  "filesync_mc_env E remote =
     (let alias_env = ''MC_HOST_agentteams''; endpoint = h_env E ''AGENTTEAMS_FS_ENDPOINT'';
          access_key = h_env E ''AGENTTEAMS_FS_ACCESS_KEY''; secret_key = h_env E ''AGENTTEAMS_FS_SECRET_KEY'' in
      if \<not> remote_uses_mc_alias remote \<or> h_env_raw E alias_env \<noteq> [] then returnS (Inr None)
      else if endpoint \<noteq> [] \<and> access_key \<noteq> [] \<and> secret_key \<noteq> [] then
        bindS (liftS (mc_host_url E endpoint access_key secret_key)) (\<lambda>url. returnS (Inr (Some (lit alias_env, url))))
      else
        bindS (mc_alias_configured E) (\<lambda>configured.
        returnS (if configured then Inr None
          else Inl (lit ''storage alias agentteams is not configured; missing AGENTTEAMS_FS_ENDPOINT/AGENTTEAMS_FS_ACCESS_KEY/AGENTTEAMS_FS_SECRET_KEY''))))"

definition filesync_command_error :: "int \<Rightarrow> pystr \<Rightarrow> pystr \<Rightarrow> pystr" where
  "filesync_command_error code out err =
     (let output = join [10] (filter (\<lambda>t. t \<noteq> []) (map strip [err, out])) in
      if code \<noteq> 0 then (if output \<noteq> [] then output else lit ''filesync command failed'')
      else if occurs (lit ''<ERROR>'') output \<or> occurs (lit ''Access Denied'') output then output
      else [])"

section \<open>The tool\<close>

definition filesync_command :: "sync_target \<Rightarrow> pystr list \<Rightarrow> pystr list" where
  "filesync_command t exclude =
     (let action = sy_action t; target = sy_local t; remote = sy_remote t in
      if action = lit ''list'' then [lit ''mc'', lit ''ls'', lit ''--recursive'', remote]
      else if action = lit ''stat'' then [lit ''mc'', lit ''stat'', remote]
      else if action = lit ''pull'' then
        (if sy_directory t then [lit ''mc'', lit ''mirror'', remote, target, lit ''--overwrite'']
         else [lit ''mc'', lit ''cp'', remote, target])
      else if sy_directory t then
        [lit ''mc'', lit ''mirror'', target @ (if endswith target [47] then [] else [47]), remote, lit ''--overwrite'']
        @ concat (map (\<lambda>pattern. [lit ''--exclude'', pattern]) exclude)
      else [lit ''mc'', lit ''cp'', target, remote])"

definition filesync_base :: "sync_target \<Rightarrow> pystr list \<Rightarrow> dict" where
  "filesync_base t exclude =
     [(lit ''ok'', JBool True), (lit ''tool'', JStr (lit ''filesync'')), (lit ''action'', JStr (sy_action t)),
      (lit ''kind'', JStr (hd (split_on 47 (sy_path t)))), (lit ''path'', JStr (sy_path t)),
      (lit ''localPath'', JStr (sy_local t)), (lit ''remotePath'', JStr (sy_remote t)),
      (lit ''command'', JArr (map JStr (filesync_command t exclude))), (lit ''exclude'', JArr (map JStr exclude))]"

definition filesync_error :: "sync_target \<Rightarrow> pystr \<Rightarrow> (pystr \<times> json) list \<Rightarrow> dict" where
  "filesync_error t message extra =
     tool_failed ''filesync'' [(lit ''action'', JStr (sy_action t)), (lit ''path'', JStr (sy_path t))] message @ extra"

definition run_filesync :: "'s harness_env \<Rightarrow> sync_target \<Rightarrow> pystr list \<Rightarrow> ('s, dict) harness" where
  "run_filesync E t exclude =
     bindS (filesync_mc_env E (sy_remote t)) (\<lambda>env. case env of
       Inl message \<Rightarrow> returnS (filesync_error t message [])
     | Inr var \<Rightarrow>
         bindS (h_run E \<lparr>ru_command = filesync_command t exclude, ru_variable = var\<rparr>) (\<lambda>r.
         liftS (case r of
           TimedOut \<Rightarrow> Inl (OtherException (lit ''TimeoutExpired''))
         | NotRun e \<Rightarrow> Inl e
         | Completed code out err \<Rightarrow>
             (let message = filesync_command_error code out err; base = filesync_base t exclude in
              Inr (if message \<noteq> [] then filesync_error t message [(lit ''returncode'', JInt code)]
                   else if sy_action t = lit ''list'' then
                     base @ [(lit ''entries'', JArr (map JStr (filter (\<lambda>l. strip l \<noteq> []) (splitlines out))))]
                   else if sy_action t = lit ''stat'' then base @ [(lit ''exists'', JBool True)]
                   else base)))))"

definition h_filesync :: "'s harness_env \<Rightarrow> dict \<Rightarrow> ('s, dict) harness" where
  "h_filesync E arguments =
     bindS (on_value_error
       (bindS (resolve_filesync E arguments) (\<lambda>t.
        bindS (liftS (normalize_exclude E (payload_get arguments ''exclude''))) (\<lambda>exclude. returnS (Inr (t, exclude)))))
       (\<lambda>e. returnS (Inl (tool_failed ''filesync'' [] (he_exc_text E e))))) (\<lambda>resolved. case resolved of
       Inl failed \<Rightarrow> returnS failed
     | Inr (t, exclude) \<Rightarrow>
         if truthy (payload_get arguments ''dryRun'') then returnS (filesync_base t exclude @ [(lit ''dryRun'', JBool True)])
         else run_filesync E t exclude)"

end
