(* ===== verification/Harness_Publish.thy ===== *)
theory Harness_Publish
  imports Harness_Sync
begin

text \<open>
  Rooms, reply routes and the publication of artifacts in \<open>plugins/teamharness/mcp/server.py\<close>: which file a
  path denotes, which files look sensitive, and the two requests that publish a file in a Matrix room.
\<close>

section \<open>Rooms and routes\<close>

definition canonical_room_id :: "pystr \<Rightarrow> pystr" where
  "canonical_room_id v =
     (let text = strip v in if startswith text (lit ''room:'') then strip (drop 5 text) else text)"

text \<open>\<open>^![^:\s]+:[^\s]+$\<close>.\<close>

definition is_matrix_room :: "pystr \<Rightarrow> bool" where
  "is_matrix_room s \<longleftrightarrow>
     (let rest = tl s; name = takeWhile (\<lambda>c. c \<noteq> 58) rest; domain = tl (dropWhile (\<lambda>c. c \<noteq> 58) rest) in
      startswith s [33] \<and> 58 \<in> set rest \<and> name \<noteq> [] \<and> domain \<noteq> [] \<and> list_all (\<lambda>c. \<not> isspace c) (name @ domain))"

text \<open>A target is a room (with \<open>True\<close>) or a user.\<close>

definition matrix_target :: "pystr \<Rightarrow> (bool \<times> pystr) res" where
  "matrix_target target =
     (let raw = strip target;
          raw = (if startswith raw (lit ''matrix:'') then drop 7 raw else raw);
          room_id = strip (drop 5 raw) in
      if startswith raw (lit ''room:'') \<and> is_matrix_room room_id then Inr (True, room_id)
      else if startswith raw [33] \<and> is_matrix_room raw then Inr (True, raw)
      else if startswith raw (lit ''user:'') then Inr (False, drop 5 raw)
      else if startswith raw [64] then Inr (False, raw)
      else Inl (werr ''target must be a Matrix room target such as room:!room:domain''))"

definition room_of_target :: "pystr \<Rightarrow> pystr option" where
  "room_of_target target = (case matrix_target target of Inr (True, room) \<Rightarrow> Some room | _ \<Rightarrow> None)"

definition route_dict :: "pystr \<Rightarrow> pystr \<Rightarrow> pystr \<Rightarrow> dict" where
  "route_dict channel user session =
     (lit ''channel'', JStr channel) # (if user = [] then [] else [(lit ''target_user'', JStr user)])
     @ [(lit ''target_session'', JStr session)]"

definition normalize_reply_route :: "(json \<Rightarrow> pystr) \<Rightarrow> json \<Rightarrow> dict" where
  "normalize_reply_route R raw =
     (let route = dict_or_empty raw; channel = strip_at R route [''channel''];
          user = strip_at R route [''targetUser'', ''target_user'', ''userId'', ''user_id''];
          session = strip_at R route [''targetSession'', ''target_session'', ''sessionId'', ''session_id''];
          target = strip (text_or R route [''target'', ''roomId'', ''room_id'', ''targetRoom'', ''target_room''] session) in
      if lower channel = lit ''matrix'' then
        (if target = [] then []
         else (case room_of_target target of None \<Rightarrow> [] | Some room \<Rightarrow> route_dict (lit ''matrix'') user room))
      else if channel = [] \<or> user = [] \<or> session = [] then []
      else route_dict channel user session)"

text \<open>\<open>text.split(":", 2)\<close> of a text with two colons.\<close>

definition split_twice :: "pystr \<Rightarrow> (pystr \<times> pystr \<times> pystr) option" where
  "split_twice s = (case split_once s [58] of
     None \<Rightarrow> None
   | Some (a, rest) \<Rightarrow> (case split_once rest [58] of None \<Rightarrow> None | Some (b, c) \<Rightarrow> Some (a, b, c)))"

definition reply_route_from_requester :: "(json \<Rightarrow> pystr) \<Rightarrow> json \<Rightarrow> dict" where
  "reply_route_from_requester R requester =
     (let text = strip (str_or_empty R requester) in
      if startswith text (lit ''matrix:'') then
        (case room_of_target text of None \<Rightarrow> [] | Some room \<Rightarrow> route_dict (lit ''matrix'') [] room)
      else if \<not> startswith text (lit ''dingtalk:'') then []
      else (case split_twice text of
         None \<Rightarrow> []
       | Some (a, user, session) \<Rightarrow> if user = [] \<or> session = [] then [] else route_dict (lit ''dingtalk'') user session))"

section \<open>Paths of artifacts\<close>

definition path_is_under :: "pystr \<Rightarrow> pystr \<Rightarrow> bool" where
  "path_is_under normalized prefix \<longleftrightarrow> normalized = prefix \<or> startswith normalized (prefix @ [47])"

definition normalize_workspace_artifact_path :: "pystr \<Rightarrow> (pystr \<times> bool) res" where
  "normalize_workspace_artifact_path raw_path =
     (let raw = strip raw_path; parts = split_on 47 (slashless raw); is_directory = endswith raw [47] in
      bindE (seqE
        [raise_if (raw = [] \<or> startswith raw [47] \<or> 92 \<in> set raw) (werr ''artifact path must be a relative workspace path''),
         raise_if (list_ex bad_segment parts)
           (ValueError (lit ''artifact path must be a relative workspace path without '' @ dots_quoted @ lit '', or empty segments''))])
        (\<lambda>_.
      Inr (join [47] parts @ (if is_directory then [47] else []), is_directory)))"

definition shared_dir_candidates :: "'s harness_env \<Rightarrow> pystr list" where
  "shared_dir_candidates E =
     map (he_expand E) (filter (\<lambda>t. t \<noteq> []) (map (h_env E) [''TEAMHARNESS_SHARED_DIR'', ''AGENTTEAMS_SHARED_DIR'']))"

definition artifact_is_under_runtime_shared :: "'s harness_env \<Rightarrow> pystr \<Rightarrow> pystr \<Rightarrow> pystr \<Rightarrow> bool" where
  "artifact_is_under_runtime_shared E workspace file_path normalized \<longleftrightarrow>
     path_is_under normalized (lit ''shared'')
     \<and> list_ex (\<lambda>dir. below_dir (he_resolve E dir) (he_resolve E file_path)
          \<and> he_resolve E (path_join workspace (lit ''shared'')) = he_resolve E dir) (shared_dir_candidates E)"

definition resolve_workspace_artifact_path ::
  "'s harness_env \<Rightarrow> dict \<Rightarrow> pystr \<Rightarrow> pystr \<Rightarrow> (pystr \<times> pystr) res" where
  "resolve_workspace_artifact_path E arguments source_path expected_prefix =
     bindE (normalize_workspace_artifact_path source_path) (\<lambda>(normalized, is_directory).
     bindE (seqE
       [raise_if is_directory (werr ''artifact path must be a file''),
        raise_if (expected_prefix \<noteq> [] \<and> \<not> path_is_under normalized expected_prefix)
          (ValueError (lit ''artifact path must be under '' @ expected_prefix @ [47]))]) (\<lambda>_.
     bindE (workspace_dir E arguments) (\<lambda>workspace.
     let file_path = path_join workspace normalized in
     if below_dir (he_resolve E workspace) (he_resolve E file_path)
        \<or> artifact_is_under_runtime_shared E workspace file_path normalized
     then Inr (normalized, file_path)
     else Inl (werr ''artifact path must stay under workspace shared/''))))"

section \<open>Sensitive artifacts\<close>

text \<open>The letter that a character stands for when a pattern ignores case.\<close>

definition fold_case :: "nat \<Rightarrow> nat" where
  "fold_case c =
     (if is_upper_ascii c then c + 32 else if c = 304 \<or> c = 305 then 105 else if c = 383 then 115
      else if c = 8490 then 107 else c)"

definition sensitive_names :: "string list" where
  "sensitive_names = [''secret'', ''token'', ''cookie'', ''authorization'', ''privatekey'', ''private_key'', ''private-key'', ''credential'']"

definition sensitive_name :: "pystr \<Rightarrow> bool" where
  "sensitive_name s \<longleftrightarrow> list_ex (\<lambda>word. occurs (lit word) (map fold_case s)) sensitive_names"

text \<open>\<open>pattern.search\<close>: whether a match starts somewhere, given the character before it.\<close>

fun search_from :: "(nat option \<Rightarrow> pystr \<Rightarrow> bool) \<Rightarrow> nat option \<Rightarrow> pystr \<Rightarrow> bool" where
  "search_from m before [] = m before []"
| "search_from m before (c # s) = (m before (c # s) \<or> search_from m (Some c) s)"

definition word_start :: "'s harness_env \<Rightarrow> nat option \<Rightarrow> bool" where
  "word_start E before = (case before of None \<Rightarrow> True | Some c \<Rightarrow> \<not> he_word E c)"

definition is_label_char :: "nat \<Rightarrow> bool" where
  "is_label_char c \<longleftrightarrow> is_lower_ascii c \<or> is_digit_ascii c \<or> c = 32"

fun ends_key_label :: "pystr \<Rightarrow> bool" where
  "ends_key_label [] = False"
| "ends_key_label (c # s) = (startswith (c # s) (lit ''private key-----'') \<or> is_label_char c \<and> ends_key_label s)"

text \<open>\<open>-----BEGIN [A-Z0-9 ]*PRIVATE KEY-----\<close>.\<close>

definition key_block_at :: "nat option \<Rightarrow> pystr \<Rightarrow> bool" where
  "key_block_at before s \<longleftrightarrow>
     (let t = map fold_case s in startswith t (lit ''-----begin '') \<and> ends_key_label (drop 11 t))"

text \<open>\<open>\bAuthorization\s*:\s*(?:Bearer|Basic)\s+\S+\<close>.\<close>

definition authorization_at :: "'s harness_env \<Rightarrow> nat option \<Rightarrow> pystr \<Rightarrow> bool" where
  "authorization_at E before s \<longleftrightarrow>
     (let t = map fold_case s; r = lstrip (drop 13 t); r2 = lstrip (tl r);
          scheme = (if startswith r2 (lit ''bearer'') then 6 else if startswith r2 (lit ''basic'') then 5 else 0);
          r3 = drop scheme r2 in
      word_start E before \<and> startswith t (lit ''authorization'') \<and> startswith r [58] \<and> scheme \<noteq> 0
      \<and> r3 \<noteq> [] \<and> isspace (hd r3) \<and> lstrip r3 \<noteq> [])"

text \<open>The words of the third pattern, with an optional underscore or dash between their parts.\<close>

fun joined_words :: "string list \<Rightarrow> pystr list" where
  "joined_words [] = [[]]"
| "joined_words [w] = [lit w]"
| "joined_words (w # ws) = concat (map (\<lambda>sep. map (\<lambda>rest. lit w @ sep @ rest) (joined_words ws)) [[], [95], [45]])"

definition secret_words :: "pystr list" where
  "secret_words = concat (map joined_words
     [[''access'', ''key'', ''secret''], [''client'', ''secret''], [''secret'', ''key''], [''api'', ''key''], [''token'']])"

definition is_secret_char :: "nat \<Rightarrow> bool" where
  "is_secret_char c \<longleftrightarrow> is_lower_ascii c \<or> is_digit_ascii c \<or> c \<in> {95, 46, 47, 43, 61, 58, 45}"

definition secret_follows :: "'s harness_env \<Rightarrow> pystr \<Rightarrow> bool" where
  "secret_follows E s \<longleftrightarrow>
     (let r = lstrip s; r2 = lstrip (tl r); r3 = (if r2 \<noteq> [] \<and> hd r2 \<in> {39, 34} then tl r2 else r2) in
      (case s of [] \<Rightarrow> False | c # _ \<Rightarrow> \<not> he_word E c) \<and> r \<noteq> [] \<and> hd r \<in> {58, 61}
      \<and> 16 \<le> length (takeWhile (is_secret_char \<circ> fold_case) r3))"

definition secret_at :: "'s harness_env \<Rightarrow> nat option \<Rightarrow> pystr \<Rightarrow> bool" where
  "secret_at E before s \<longleftrightarrow> word_start E before
     \<and> list_ex (\<lambda>word. startswith (map fold_case s) word \<and> secret_follows E (drop (length word) s)) secret_words"

definition sensitive_text :: "'s harness_env \<Rightarrow> pystr \<Rightarrow> bool" where
  "sensitive_text E s \<longleftrightarrow> search_from key_block_at None s \<or> search_from (authorization_at E) None s
     \<or> search_from (secret_at E) None s"

definition path_suffix :: "pystr \<Rightarrow> pystr" where
  "path_suffix path =
     (let name = path_name path; parts = split_on 46 name; suffix = last parts in
      if length parts \<le> 1 \<or> suffix = [] \<or> join [46] (butlast parts) = [] then [] else 46 # suffix)"

definition text_types :: "string list" where
  "text_types = [''application/json'', ''application/javascript'', ''application/xml'', ''application/x-yaml'',
     ''application/yaml'', ''application/toml'']"

definition text_suffixes :: "string list" where
  "text_suffixes = [''.cfg'', ''.conf'', ''.css'', ''.csv'', ''.html'', ''.ini'', ''.js'', ''.json'', ''.jsx'', ''.log'', ''.md'',
     ''.py'', ''.rb'', ''.sh'', ''.sql'', ''.toml'', ''.ts'', ''.tsx'', ''.txt'', ''.xml'', ''.yaml'', ''.yml'']"

definition artifact_mimetype :: "'s harness_env \<Rightarrow> pystr \<Rightarrow> pystr" where
  "artifact_mimetype E path = (case he_mimetype E path of
     Some m \<Rightarrow> if m = [] then lit ''application/octet-stream'' else m | None \<Rightarrow> lit ''application/octet-stream'')"

definition artifact_is_text :: "pystr \<Rightarrow> pystr \<Rightarrow> bool" where
  "artifact_is_text path mimetype \<longleftrightarrow> startswith mimetype (lit ''text/'') \<or> mimetype \<in> set (map lit text_types)
     \<or> lower (path_suffix path) \<in> set (map lit text_suffixes)"

definition artifact_text_has_sensitive_content :: "'s harness_env \<Rightarrow> pystr \<Rightarrow> pystr \<Rightarrow> nat list \<Rightarrow> bool" where
  "artifact_text_has_sensitive_content E path mimetype bytes \<longleftrightarrow>
     (let sample = take 262144 bytes in
      artifact_is_text path mimetype \<and> 0 \<notin> set sample \<and> sensitive_text E (he_decode E sample))"

section \<open>Requests\<close>

definition h_http :: "'s harness_env \<Rightarrow> web_request \<Rightarrow> ('s, http_answer) harness" where
  "h_http E q w = (case he_http E q w of (a, w') \<Rightarrow> (Inr a, w'))"

text \<open>
  A publication stops with a message for an error status, an unreachable server, an \<open>OSError\<close> or a
  \<open>ValueError\<close>; any other exception leaves it.
\<close>

definition publish_failure :: "'s harness_env \<Rightarrow> exc \<Rightarrow> (pystr + exc)" where
  "publish_failure E e =
     (if is_os_exc e \<or> is_value_error e then Inl (lit ''Matrix artifact publish failed: '' @ he_exc_text E e) else Inr e)"

definition answer_field :: "'s harness_env \<Rightarrow> string \<Rightarrow> exc \<Rightarrow> http_answer \<Rightarrow> (pystr + pystr) res" where
  "answer_field E key missing answer =
     (let failed = (\<lambda>e. case publish_failure E e of Inl m \<Rightarrow> Inr (Inl m) | Inr e \<Rightarrow> Inl e) in
      case answer of
        HttpError code text \<Rightarrow> Inr (Inl (lit ''Matrix artifact publish failed: HTTP '' @ int_str code))
      | NoConnection reason \<Rightarrow> Inr (Inl (lit ''Matrix artifact publish failed: '' @ reason))
      | Broken e \<Rightarrow> failed e
      | Answered text \<Rightarrow>
          (case loads (he_float E) (if text = [] then lit ''{}'' else text) of
             Inl e \<Rightarrow> failed e
           | Inr (JObj kvs) \<Rightarrow>
               (let v = strip_at (he_repr E) kvs [key] in if v = [] then failed missing else Inr (Inr v))
           | Inr v \<Rightarrow> Inl not_a_dict))"

definition matrix_upload_artifact ::
  "'s harness_env \<Rightarrow> pystr \<Rightarrow> pystr \<Rightarrow> pystr \<Rightarrow> pystr \<Rightarrow> ('s, pystr + pystr) harness" where
  "matrix_upload_artifact E homeserver path filename mimetype =
     (let failed = (\<lambda>e. liftS (case publish_failure E e of Inl m \<Rightarrow> Inr (Inl m) | Inr e \<Rightarrow> Inl e)) in
      bindS (getS (\<lambda>w. (quote [47] filename, he_bytes E path w))) (\<lambda>(quoted, bytes). case (quoted, bytes) of
        (Inl e, _) \<Rightarrow> failed e
      | (_, Inl e) \<Rightarrow> failed e
      | (Inr q, Inr b) \<Rightarrow>
          bindS (h_http E \<lparr>wr_method = lit ''POST'', wr_url = homeserver @ lit ''/_matrix/media/v3/upload?filename='' @ q,
            wr_type = mimetype, wr_body = BytesBody b\<rparr>) (\<lambda>answer.
          liftS (answer_field E ''content_uri'' (werr ''Matrix media upload response missing content_uri'') answer))))"

definition file_event :: "pystr \<Rightarrow> pystr \<Rightarrow> nat \<Rightarrow> pystr \<Rightarrow> pystr \<Rightarrow> dict" where
  "file_event filename mxc_uri n mimetype parent_event_id =
     [(lit ''msgtype'', JStr (lit ''m.file'')), (lit ''body'', JStr filename), (lit ''url'', JStr mxc_uri),
      (lit ''info'', JObj [(lit ''size'', JInt (int n)), (lit ''mimetype'', JStr mimetype)])]
     @ (if parent_event_id = [] then []
        else [(lit ''m.relates_to'', JObj [(lit ''rel_type'', JStr (lit ''com.agentteams.attachment'')),
          (lit ''event_id'', JStr parent_event_id)])])"

definition matrix_send_file_event :: "'s harness_env \<Rightarrow> pystr \<Rightarrow> pystr \<Rightarrow> dict \<Rightarrow> ('s, pystr + pystr) harness" where
  "matrix_send_file_event E homeserver room_id content =
     (case quote [] (canonical_room_id room_id) of
        Inl e \<Rightarrow> liftS (case publish_failure E e of Inl m \<Rightarrow> Inr (Inl m) | Inr e \<Rightarrow> Inl e)
      | Inr room \<Rightarrow>
          bindS (h_http E \<lparr>wr_method = lit ''PUT'', wr_url = homeserver @ lit ''/_matrix/client/v3/rooms/'' @ room
              @ lit ''/send/m.room.message/teamharness-file-'' @ he_txn E,
            wr_type = lit ''application/json'', wr_body = JsonBody (JObj content)\<rparr>) (\<lambda>answer.
          liftS (answer_field E ''event_id'' (werr ''Matrix file event response missing event_id'') answer)))"

section \<open>Parents of attachments\<close>

definition attachment_parent_event_keys :: "string list" where
  "attachment_parent_event_keys = [''parentEventId'', ''parent_event_id'', ''attachmentParentEventId'',
     ''attachment_parent_event_id'', ''matrixAttachmentParentEventId'', ''matrix_attachment_parent_event_id'']"

definition attachment_parent_event_id :: "(json \<Rightarrow> pystr) \<Rightarrow> dict list \<Rightarrow> pystr" where
  "attachment_parent_event_id R sources =
     first_text (concat (map (\<lambda>source. map (\<lambda>key. strip_at R source [key]) attachment_parent_event_keys) sources))"

definition matrix_attachment_context_path :: "'s harness_env \<Rightarrow> pystr" where
  "matrix_attachment_context_path E =
     (let raw = h_env E ''TEAMHARNESS_MATRIX_CONTEXT_FILE''; dir = h_env E ''QWENPAW_WORKING_DIR'' in
      if raw \<noteq> [] then pure_path raw
      else if dir \<noteq> [] then path_join dir (lit ''teamharness-matrix-context.json'') else [])"

definition context_parent :: "'s harness_env \<Rightarrow> pystr \<Rightarrow> dict \<Rightarrow> pystr" where
  "context_parent E room_id data =
     (let rooms = dict_or_empty (payload_get data ''rooms'');
          at = (\<lambda>k. case map_of rooms k of None \<Rightarrow> JNull | Some v \<Rightarrow> v);
          found = (if truthy (at (canonical_room_id room_id)) then at (canonical_room_id room_id) else at room_id);
          record = dict_or_empty found in
      if he_expired E (first_true record [''updatedAt'', ''updated_at'']) then []
      else first_text (map (\<lambda>key. strip_at (he_repr E) record [key])
        [''attachmentParentEventId'', ''parentEventId'', ''eventId'', ''event_id'']))"

definition matrix_attachment_context_parent_event_id :: "'s harness_env \<Rightarrow> pystr \<Rightarrow> ('s, pystr) harness" where
  "matrix_attachment_context_parent_event_id E room_id =
     (let path = matrix_attachment_context_path E in
      bindS (getS (\<lambda>w. if path = [] then None else hw_text w path)) (\<lambda>text. case text of
        None \<Rightarrow> returnS []
      | Some t \<Rightarrow>
          (case loads (he_float E) t of
             Inl (JSONDecodeError m) \<Rightarrow> returnS []
           | Inl e \<Rightarrow> raiseS e
           | Inr v \<Rightarrow> returnS (context_parent E room_id (dict_or_empty v)))))"

section \<open>Publishing a file\<close>

definition artifact_publish_result :: "pystr \<Rightarrow> pystr \<Rightarrow> pystr \<Rightarrow> dict" where
  "artifact_publish_result source_path filename parent_event_id =
     [(lit ''sourcePath'', JStr source_path), (lit ''filename'', JStr filename), (lit ''size'', JNull),
      (lit ''mimetype'', JStr []), (lit ''mxcUri'', JStr []), (lit ''eventId'', JStr []),
      (lit ''parentEventId'', JStr parent_event_id), (lit ''status'', JStr (lit ''skipped'')), (lit ''error'', JStr [])]"

definition publish_status :: "string \<Rightarrow> pystr \<Rightarrow> dict \<Rightarrow> dict" where
  "publish_status status error result = put ''error'' (JStr error) (put ''status'' (JStr (lit status)) result)"

definition file_exists :: "'s harness_env \<Rightarrow> pystr \<Rightarrow> 's harness_world \<Rightarrow> bool" where
  "file_exists E path w \<longleftrightarrow> hw_text w path \<noteq> None \<or> hw_meta w path \<noteq> None \<or> he_is_dir E path w"

text \<open>What is decided about a file before anything is sent: the result so far, and whether to go on.\<close>

definition check_artifact ::
  "'s harness_env \<Rightarrow> dict \<Rightarrow> pystr \<Rightarrow> pystr \<Rightarrow> pystr \<Rightarrow> pystr \<Rightarrow> ('s, dict + dict \<times> pystr) harness" where
  "check_artifact E arguments source_path filename expected_prefix parent_event_id =
     (let result = artifact_publish_result source_path filename parent_event_id;
          sensitive = lit ''artifact appears sensitive and was not published'' in
      case resolve_workspace_artifact_path E arguments source_path expected_prefix of
        Inl e \<Rightarrow> if is_value_error e then returnS (Inl (publish_status ''failed'' (he_exc_text E e) result)) else raiseS e
      | Inr (normalized, path) \<Rightarrow>
          (let result = put ''sourcePath'' (JStr normalized) result in
           bindS (getS (\<lambda>w. (file_exists E path w, he_is_dir E path w, he_size E path w, he_bytes E path w)))
             (\<lambda>(there, dir, size, bytes).
           let mimetype = artifact_mimetype E path;
               sized = put ''mimetype'' (JStr mimetype) (put ''size'' (JInt (int size)) result) in
           if \<not> there then returnS (Inl (publish_status ''failed'' (lit ''artifact file not found'') result))
           else if dir then returnS (Inl (publish_status ''failed'' (lit ''artifact path must be a file'') result))
           else if sensitive_name normalized \<or> sensitive_name filename
             then returnS (Inl (publish_status ''failed'' sensitive result))
           else if \<not> artifact_is_text path mimetype then returnS (Inr (sized, path))
           else (case bytes of
             Inl e \<Rightarrow> if is_os_exc e then returnS (Inl (publish_status ''failed'' (lit ''artifact file could not be read'') sized))
                      else raiseS e
           | Inr b \<Rightarrow> if artifact_text_has_sensitive_content E path mimetype b
                then returnS (Inl (publish_status ''failed'' sensitive sized)) else returnS (Inr (sized, path))))))"

definition send_artifact ::
  "'s harness_env \<Rightarrow> pystr \<Rightarrow> pystr \<Rightarrow> pystr \<Rightarrow> pystr \<Rightarrow> dict \<Rightarrow> ('s, dict) harness" where
  "send_artifact E room_id path filename parent_event_id result =
     (let homeserver = rstrip_slash (h_env_raw E ''AGENTTEAMS_MATRIX_URL''); token = h_env_raw E ''AGENTTEAMS_WORKER_MATRIX_TOKEN'';
          mimetype = artifact_mimetype E path in
      if homeserver = [] \<or> token = [] then
        returnS (publish_status ''skipped'' (lit ''AGENTTEAMS_MATRIX_URL and AGENTTEAMS_WORKER_MATRIX_TOKEN are required'') result)
      else
        bindS (getS (he_size E path)) (\<lambda>size.
        bindS (matrix_upload_artifact E homeserver path filename mimetype) (\<lambda>uploaded. case uploaded of
          Inl m \<Rightarrow> returnS (publish_status ''failed'' m result)
        | Inr mxc_uri \<Rightarrow>
            bindS (matrix_send_file_event E homeserver room_id (file_event filename mxc_uri size mimetype parent_event_id)) (\<lambda>sent.
            returnS (case sent of
              Inl m \<Rightarrow> publish_status ''failed'' m result
            | Inr event_id \<Rightarrow> put ''status'' (JStr (lit ''published'')) (put ''eventId'' (JStr event_id) (put ''mxcUri'' (JStr mxc_uri) result)))))))"

definition publish_workspace_artifact ::
  "'s harness_env \<Rightarrow> dict \<Rightarrow> pystr \<Rightarrow> pystr \<Rightarrow> pystr \<Rightarrow> pystr \<Rightarrow> pystr \<Rightarrow> ('s, dict) harness" where
  "publish_workspace_artifact E arguments room_id source_path filename expected_prefix parent =
     (let given = strip parent; room = canonical_room_id room_id in
      bindS (check_artifact E arguments source_path filename expected_prefix given) (\<lambda>checked. case checked of
        Inl result \<Rightarrow> returnS result
      | Inr (result, path) \<Rightarrow>
          if room = [] then returnS (publish_status ''skipped'' (lit ''Matrix room is unavailable'') result)
          else
            bindS (if given \<noteq> [] then returnS given else matrix_attachment_context_parent_event_id E room) (\<lambda>parent_event_id.
            send_artifact E room path filename parent_event_id (put ''parentEventId'' (JStr parent_event_id) result))))"

section \<open>The tool \<open>artifact\<close>\<close>

definition reply_route :: "dict \<Rightarrow> dict" where
  "reply_route arguments = dict_or_empty (first_true arguments [''replyRoute'', ''reply_route''])"

definition artifact_room_id :: "(json \<Rightarrow> pystr) \<Rightarrow> dict \<Rightarrow> pystr res" where
  "artifact_room_id R arguments =
     (let route = reply_route arguments;
          given = first_true arguments [''target'', ''roomId'', ''room_id''];
          target = (if truthy given then given
            else first_true route [''target'', ''roomId'', ''room_id'', ''targetRoom'', ''target_room'', ''targetSession'', ''target_session'']) in
      bindE (matrix_target (py_str R target)) (\<lambda>(room, target_id).
      if room then Inr target_id else Inl (werr ''artifact target must be a Matrix room'')))"

definition artifact_name :: "pystr \<Rightarrow> pystr" where
  "artifact_name source_path =
     (let path = pure_path (rstrip_slash source_path); name = (if path = lit ''.'' then [] else path_name path) in
      if name = [] then lit ''artifact'' else name)"

definition artifact_error :: "pystr \<Rightarrow> pystr \<Rightarrow> dict" where
  "artifact_error action message = tool_failed ''artifact'' [(lit ''action'', JStr action)] message"

definition artifact_tool :: "'s harness_env \<Rightarrow> dict \<Rightarrow> ('s, dict) harness" where
  "artifact_tool E arguments =
     (let R = he_repr E; action = strip (text_or R arguments [''action''] (lit ''publish_file''));
          source_path = strip_at R arguments [''path'', ''sourcePath'', ''source_path'', ''file''];
          given = strip_at R arguments [''filename'', ''displayName'', ''display_name''];
          filename = (if given = [] then artifact_name source_path else given) in
      if action \<noteq> lit ''publish_file'' then returnS (artifact_error action (lit ''unsupported action: '' @ action))
      else if source_path = [] then returnS (artifact_error action (lit ''path is required''))
      else (case artifact_room_id R arguments of
        Inl e \<Rightarrow> if is_value_error e then returnS (artifact_error action (he_exc_text E e)) else raiseS e
      | Inr room_id \<Rightarrow>
          (let parent = attachment_parent_event_id R [arguments] in
           bindS (if parent \<noteq> [] then returnS parent else matrix_attachment_context_parent_event_id E room_id) (\<lambda>parent.
           bindS (publish_workspace_artifact E arguments room_id source_path filename [] parent) (\<lambda>artifact.
           returnS [(lit ''ok'', JBool (payload_get artifact ''status'' = JStr (lit ''published''))),
             (lit ''tool'', JStr (lit ''artifact'')), (lit ''action'', JStr action), (lit ''artifact'', JObj artifact),
             (lit ''error'', let e = payload_get artifact ''error'' in if truthy e then e else JStr [])])))))"

section \<open>Artifacts of tasks and projects\<close>

definition task_artifact_filename :: "pystr \<Rightarrow> pystr \<Rightarrow> pystr" where
  "task_artifact_filename task_id source_path = task_id @ [45] @ artifact_name source_path"

text \<open>The result of a task comes first; a deliverable that names a file again is left out.\<close>

definition seen_key :: "pystr \<Rightarrow> pystr" where
  "seen_key source = (case normalize_shared_path source (lit ''stat'') of
     Inl e \<Rightarrow> source
   | Inr (normalized, is_directory) \<Rightarrow> rstrip_slash normalized @ (if is_directory then [47] else []))"

fun task_sources :: "pystr list \<Rightarrow> pystr list \<Rightarrow> pystr list" where
  "task_sources seen [] = []"
| "task_sources seen (source # sources) =
     (if source = [] \<or> seen_key source \<in> set seen then task_sources seen sources
      else source # task_sources (seen_key source # seen) sources)"

fun publish_files ::
  "'s harness_env \<Rightarrow> dict \<Rightarrow> pystr \<Rightarrow> pystr \<Rightarrow> pystr \<Rightarrow> (pystr \<times> pystr) list \<Rightarrow> ('s, dict list) harness" where
  "publish_files E arguments room_id expected_prefix parent [] = returnS []"
| "publish_files E arguments room_id expected_prefix parent ((source, filename) # files) =
     bindS (publish_workspace_artifact E arguments room_id source filename expected_prefix parent) (\<lambda>result.
     bindS (publish_files E arguments room_id expected_prefix parent files) (\<lambda>rest. returnS (result # rest)))"

definition publish_task_artifacts ::
  "'s harness_env \<Rightarrow> dict \<Rightarrow> dict \<Rightarrow> pystr \<Rightarrow> pystr list \<Rightarrow> pystr \<Rightarrow> ('s, dict list) harness" where
  "publish_task_artifacts E arguments task task_id deliverables parent =
     (let expected_prefix = lit ''shared/tasks/'' @ task_id; result_source = expected_prefix @ lit ''/result.md'' in
      bindS (getS (\<lambda>w. case resolve_workspace_artifact_path E arguments result_source expected_prefix of
        Inl e \<Rightarrow> if is_value_error e then Inr False else Inl e
      | Inr (_, path) \<Rightarrow> Inr (hw_text w path \<noteq> None))) (\<lambda>has_result.
      bindS (liftS has_result) (\<lambda>has_result.
      publish_files E arguments (text_at (he_repr E) task [''room_id'']) expected_prefix parent
        ((if has_result then [(result_source, task_id @ lit ''-result.md'')] else [])
         @ map (\<lambda>source. (source, task_artifact_filename task_id source))
             (task_sources (if has_result then [result_source] else []) (map strip deliverables))))))"

definition project_artifact_room :: "(json \<Rightarrow> pystr) \<Rightarrow> dict \<Rightarrow> dict \<Rightarrow> pystr" where
  "project_artifact_room R project task =
     (let route = dict_or_empty (payload_get project ''reply_route'');
          session = strip_at R route [''target_session'']; room_id = strip_at R task [''room_id''];
          source_room_id = strip_at R project [''source_room_id''] in
      if lower (strip_at R route [''channel'']) = lit ''matrix'' \<and> session \<noteq> [] then session
      else if room_id \<noteq> [] then room_id
      else if is_matrix_room (canonical_room_id source_room_id) then source_room_id
      else [])"

definition publish_project_artifacts ::
  "'s harness_env \<Rightarrow> dict \<Rightarrow> dict \<Rightarrow> pystr \<Rightarrow> pystr \<Rightarrow> pystr \<Rightarrow> ('s, dict list) harness" where
  "publish_project_artifacts E arguments project project_id task_id parent =
     bindS (if task_id = [] then returnS [] else read_task E arguments task_id) (\<lambda>task.
     publish_files E arguments (project_artifact_room (he_repr E) project task) (lit ''shared/projects/'' @ project_id) parent
       [(lit ''shared/projects/'' @ project_id @ lit ''/result.md'', project_id @ lit ''-project-result.md'')])"

end
