(* ===== verification/Harness_Graph.thy ===== *)
theory Harness_Graph
  imports Harness_Publish
begin

text \<open>
  Plans of projects in \<open>plugins/teamharness/mcp/server.py\<close>: the normalization of tasks, the validation of
  their graph, which tasks are ready, changes of a task in a plan, and the text of a plan.
\<close>

section \<open>Access to stored values\<close>

text \<open>\<open>d.get(key, default)\<close>, and the entries of a value that is a list.\<close>

definition get_or :: "dict \<Rightarrow> string \<Rightarrow> json \<Rightarrow> json" where
  "get_or d key dflt = (case map_of d (lit key) of None \<Rightarrow> dflt | Some v \<Rightarrow> v)"

definition obj_of :: "json \<Rightarrow> dict res" where
  "obj_of v = (case v of JObj kvs \<Rightarrow> Inr kvs | _ \<Rightarrow> Inl not_a_dict)"

fun hashable :: "json \<Rightarrow> bool" where
  "hashable (JArr xs) = False"
| "hashable (JObj kvs) = False"
| "hashable v = True"

definition hash_check :: "json \<Rightarrow> unit res" where
  "hash_check v = raise_if (\<not> hashable v) (TypeError (lit ''unhashable type''))"

section \<open>Tasks of a plan\<close>

definition normalize_task :: "(json \<Rightarrow> pystr) \<Rightarrow> dict \<Rightarrow> dict \<Rightarrow> dict res" where
  "normalize_task R raw previous =
     bindE (safe_id R (first_true raw [''taskId'', ''task_id'']) ''taskId'') (\<lambda>task_id.
     let status = text_or R raw [''status''] (text_or R previous [''status''] (lit ''planned''));
         given = first_true raw [''dependsOn'', ''depends_on'']; known = first_true previous [''depends_on''] in
     bindE (list_of_value (if truthy given then given else known)) (\<lambda>deps.
     Inr [(lit ''task_id'', JStr task_id),
       (lit ''title'', JStr (text_or R raw [''title''] (text_or R previous [''title''] task_id))),
       (lit ''assigned_to'', JStr (text_or R raw [''assignedTo'', ''assigned_to''] (text_at R previous [''assigned_to'']))),
       (lit ''depends_on'', JArr (map (\<lambda>d. JStr (py_str R d)) deps)),
       (lit ''status'', JStr (if status = lit ''pending'' then lit ''planned'' else status))]))"

text \<open>The graph of normalized tasks.\<close>

definition task_node :: "(json \<Rightarrow> pystr) \<Rightarrow> dict \<Rightarrow> pystr \<times> pystr list" where
  "task_node R task = (text_at R task [''task_id''], map (py_str R) (json_items (payload_get task ''depends_on'')))"

definition task_graph :: "(json \<Rightarrow> pystr) \<Rightarrow> dict list \<Rightarrow> graph" where
  "task_graph R tasks = map (task_node R) tasks"

fun check_duplicates :: "pystr list \<Rightarrow> pystr list \<Rightarrow> unit res" where
  "check_duplicates seen [] = Inr ()"
| "check_duplicates seen (i # ids) =
     (if i \<in> set seen then Inl (ValueError (lit ''duplicate task id: '' @ i)) else check_duplicates (i # seen) ids)"

definition check_dependency :: "pystr list \<Rightarrow> pystr \<Rightarrow> pystr \<Rightarrow> unit res" where
  "check_dependency ids task_id dep =
     raise_if (dep \<notin> set ids) (ValueError (lit ''task '' @ task_id @ lit '' depends on unknown task: '' @ dep))"

definition validate_task_graph :: "graph \<Rightarrow> unit res" where
  "validate_task_graph g =
     bindE (check_duplicates [] (map fst g)) (\<lambda>_.
     bindE (seqE (concat (map (\<lambda>(i, ds). map (check_dependency (map fst g) i) ds) g))) (\<lambda>_.
     bindE (dfs g (\<lambda>x. Inr ())
       (\<lambda>path x. ValueError (lit ''task dependency cycle detected: '' @ join (lit '' -> '') (rev path @ [x]))) [] [] (map fst g)) (\<lambda>_.
     Inr ())))"

section \<open>Ready tasks\<close>

text \<open>The status under a task identifier; of several tasks with it the last one counts.\<close>

definition status_of :: "dict list \<Rightarrow> json \<Rightarrow> json" where
  "status_of tasks task_id =
     (case filter (\<lambda>t. payload_get t ''task_id'' = task_id) (rev tasks) of [] \<Rightarrow> JNull | t # _ \<Rightarrow> payload_get t ''status'')"

fun deps_completed :: "dict list \<Rightarrow> json list \<Rightarrow> bool res" where
  "deps_completed tasks [] = Inr True"
| "deps_completed tasks (dep # deps) =
     bindE (hash_check dep) (\<lambda>_.
     if status_of tasks dep = JStr (lit ''completed'') then deps_completed tasks deps else Inr False)"

fun ready_among :: "dict list \<Rightarrow> dict list \<Rightarrow> dict list res" where
  "ready_among tasks [] = Inr []"
| "ready_among tasks (t # ts) =
     bindE (hash_check (payload_get t ''status'')) (\<lambda>_.
     bindE (if payload_get t ''status'' \<in> {JStr (lit ''planned''), JStr (lit ''assigned'')}
            then bindE (list_of_value (get_or t ''depends_on'' (JArr []))) (deps_completed tasks) else Inr False) (\<lambda>ready.
     bindE (ready_among tasks ts) (\<lambda>rest. Inr (if ready then t # rest else rest))))"

definition ready_tasks_of :: "json list \<Rightarrow> dict list res" where
  "ready_tasks_of items =
     bindE (mapE obj_of items) (\<lambda>tasks.
     bindE (seqE (map (\<lambda>t. hash_check (payload_get t ''task_id'')) tasks)) (\<lambda>_. ready_among tasks tasks))"

definition is_active :: "(json \<Rightarrow> pystr) \<Rightarrow> dict \<Rightarrow> bool" where
  "is_active R project \<longleftrightarrow> text_or R project [''status''] (lit ''active'') = lit ''active''"

definition is_loop :: "dict \<Rightarrow> bool" where
  "is_loop project \<longleftrightarrow> payload_get project ''plan_type'' = JStr (lit ''loop'')"

definition h_ready_nodes :: "(json \<Rightarrow> pystr) \<Rightarrow> dict \<Rightarrow> dict list res" where
  "h_ready_nodes R project =
     (if is_loop project then
        Inl (ValueError (lit ''project plan is not a DAG: '' @ py_str R (payload_get project ''project_id'')))
      else if \<not> is_active R project then Inr []
      else ready_tasks_of (json_items (payload_get project ''tasks'')))"

definition h_ready_loop_nodes :: "(json \<Rightarrow> pystr) \<Rightarrow> dict \<Rightarrow> dict list res" where
  "h_ready_loop_nodes R project =
     (if \<not> is_active R project then Inr []
      else (case payload_get project ''loop'' of
        JObj loop \<Rightarrow>
          if text_or R loop [''status''] (lit ''running'') \<in> {lit ''completed'', lit ''blocked'', lit ''waiting_user''} then Inr []
          else ready_tasks_of (json_items (payload_get loop ''tasks''))
      | _ \<Rightarrow> Inl (ValueError (lit ''project has no loop plan: '' @ py_str R (payload_get project ''project_id'')))))"

section \<open>Changing a task\<close>

text \<open>The first task with an identifier is changed; the loop stops at it.\<close>

fun update_first :: "pystr \<Rightarrow> (dict \<Rightarrow> dict) \<Rightarrow> json list \<Rightarrow> (json list \<times> bool) res" where
  "update_first task_id f [] = Inr ([], False)"
| "update_first task_id f (item # items) =
     bindE (obj_of item) (\<lambda>t.
     if payload_get t ''task_id'' = JStr task_id then Inr (JObj (f t) # items, True)
     else bindE (update_first task_id f items) (\<lambda>(rest, changed). Inr (item # rest, changed)))"

definition update_tasks :: "pystr \<Rightarrow> (dict \<Rightarrow> dict) \<Rightarrow> json \<Rightarrow> (json \<times> bool) res" where
  "update_tasks task_id f v =
     bindE (list_of_value v) (\<lambda>items.
     bindE (update_first task_id f items) (\<lambda>(items', changed). Inr (if changed then JArr items' else v, changed)))"

text \<open>The tasks of the plan and, if there is one, those of the loop.\<close>

definition update_plan :: "pystr \<Rightarrow> (dict \<Rightarrow> dict) \<Rightarrow> dict \<Rightarrow> (dict \<times> bool) res" where
  "update_plan task_id f project =
     bindE (update_tasks task_id f (get_or project ''tasks'' (JArr []))) (\<lambda>(tasks, changed).
     let project = (if changed then put ''tasks'' tasks project else project);
         loop = dict_or_empty (payload_get project ''loop'') in
     bindE (update_tasks task_id f (JArr (json_items (payload_get loop ''tasks'')))) (\<lambda>(loop_tasks, loop_changed).
     Inr (if loop_changed then put ''loop'' (JObj (put ''tasks'' loop_tasks loop)) project else project,
          changed \<or> loop_changed)))"

section \<open>The text of a plan\<close>

definition code_span :: "pystr \<Rightarrow> pystr" where
  "code_span t = [96] @ t @ [96]"

text \<open>\<open>f"{a or b}"\<close>: the text of the last value when none is true.\<close>

definition text_of_either :: "(json \<Rightarrow> pystr) \<Rightarrow> dict \<Rightarrow> string \<Rightarrow> string \<Rightarrow> pystr" where
  "text_of_either R d a b = (let v = payload_get d a in py_str R (if truthy v then v else payload_get d b))"

definition route_line :: "(json \<Rightarrow> pystr) \<Rightarrow> json \<Rightarrow> pystr list" where
  "route_line R v = (case v of
     JObj route \<Rightarrow>
       (let channel = strip_at R route [''channel'']; user = strip_at R route [''target_user''];
            session = strip_at R route [''target_session''] in
        if channel = lit ''matrix'' \<and> session \<noteq> [] then
          [lit ''- Reply Route: '' @ code_span (channel @ [47] @ (if user \<noteq> [] then user @ [47] @ session else session))]
        else if channel \<noteq> [] \<and> user \<noteq> [] \<and> session \<noteq> [] then
          [lit ''- Reply Route: '' @ code_span (channel @ [47] @ user @ [47] @ session)]
        else [])
   | _ \<Rightarrow> [])"

definition loop_lines :: "(json \<Rightarrow> pystr) \<Rightarrow> dict \<Rightarrow> pystr list" where
  "loop_lines R loop =
     [lit ''- Loop Goal: '' @ text_at R loop [''goal''], lit ''- Stop Condition: '' @ text_at R loop [''stop_condition''],
      lit ''- Current Iteration: '' @ code_span (py_str R (get_or loop ''current_iteration'' (JInt 0))) @ lit '' / ''
        @ code_span (py_str R (get_or loop ''max_iterations'' (JInt 0))),
      lit ''- Loop Status: '' @ code_span (text_or R loop [''status''] (lit ''running'')), [],
      lit ''## Iteration Template'', [], text_at R loop [''iteration_template'']]"

definition str_of :: "json \<Rightarrow> pystr res" where
  "str_of v = (case v of JStr s \<Rightarrow> Inr s | _ \<Rightarrow> Inl (TypeError (lit ''expected str instance'')))"

definition task_line :: "(json \<Rightarrow> pystr) \<Rightarrow> json \<Rightarrow> pystr res" where
  "task_line R item =
     bindE (obj_of item) (\<lambda>task.
     bindE (bindE (list_of_value (get_or task ''depends_on'' (JArr []))) (mapE str_of)) (\<lambda>deps.
     bindE (case map_of task (lit ''task_id'') of None \<Rightarrow> Inl (KeyError (lit ''task_id'')) | Some v \<Rightarrow> Inr v) (\<lambda>task_id.
     let joined = join (lit '', '') deps in
     Inr (lit ''- '' @ code_span (py_str R task_id) @ [32] @ py_str R (payload_get task ''title'') @ lit '' -> ''
       @ text_or R task [''assigned_to''] (lit ''unassigned'') @ lit ''; deps: ''
       @ (if joined = [] then lit ''none'' else joined) @ lit ''; status: '' @ py_str R (payload_get task ''status'')))))"

definition history_line :: "(json \<Rightarrow> pystr) \<Rightarrow> json \<Rightarrow> pystr" where
  "history_line R item = (case item of
     JObj d \<Rightarrow>
       lit ''- Iteration '' @ py_str R (payload_get d ''iteration'') @ lit '': '' @ code_span (py_str R (payload_get d ''decision''))
       @ lit '' - '' @ py_str R (payload_get d ''summary'')
       @ (let next_action = payload_get d ''next_action'' in if truthy next_action then lit '' Next: '' @ py_str R next_action else [])
   | v \<Rightarrow> lit ''- '' @ py_str R v)"

definition plan_text :: "(json \<Rightarrow> pystr) \<Rightarrow> dict \<Rightarrow> pystr res" where
  "plan_text R project =
     (let plan_type = strip_at R project [''plan_type'']; requester = payload_get project ''requester'';
          source_room_id = payload_get project ''source_room_id''; loop = dict_or_empty (payload_get project ''loop'');
          looping = (plan_type = lit ''loop'');
          history = (if looping then json_items (payload_get loop ''history'') else []) in
      bindE (mapE (task_line R) (json_items (payload_get (if looping then loop else project) ''tasks''))) (\<lambda>tasks.
      Inr (join [10]
        ([lit ''# '' @ text_of_either R project ''title'' ''project_id'', [],
          lit ''- Project ID: '' @ code_span (py_str R (payload_get project ''project_id'')),
          lit ''- Status: '' @ code_span (py_str R (payload_get project ''status''))]
         @ (if plan_type = [] then [] else [lit ''- Plan Type: '' @ code_span plan_type])
         @ (if truthy requester then [lit ''- Requester: '' @ code_span (py_str R requester)] else [])
         @ (if truthy source_room_id then [lit ''- Source Room ID: '' @ code_span (py_str R source_room_id)] else [])
         @ route_line R (payload_get project ''reply_route'')
         @ (if looping then loop_lines R loop else [])
         @ [[], lit ''## Tasks''] @ tasks
         @ (if history = [] then [] else [[], lit ''## Loop History''] @ map (history_line R) history)) @ [10])))"

end
