(* ===== verification/Harness_Meta.thy ===== *)
theory Harness_Meta
  imports Harness_Graph
begin

text \<open>
  What the tools \<open>projectflow\<close> and \<open>taskflow\<close> of \<open>plugins/teamharness/mcp/server.py\<close> share: numbers and
  identifiers in requests, rooms of assignments, the files of a project and of a task, and the exchange of a
  task with the storage.
\<close>

section \<open>Values of a payload\<close>

text \<open>\<open>d.get(a) or d.get(b)\<close>: the second value when neither is true.\<close>

definition either :: "dict \<Rightarrow> string \<Rightarrow> string \<Rightarrow> json" where
  "either d a b = (let v = payload_get d a in if truthy v then v else payload_get d b)"

definition h_first_text :: "(json \<Rightarrow> pystr) \<Rightarrow> json list \<Rightarrow> pystr" where
  "h_first_text R vs = first_text (map (\<lambda>v. strip (str_or_empty R v)) vs)"

text \<open>
  \<open>int\<close> of a float truncates towards zero. A float from \<open>2 ** 53\<close> on is an integer with 53 significant
  bits, the one nearest to its shortest decimal notation.
\<close>

fun halvings :: "nat \<Rightarrow> nat" where
  "halvings n = (if n < 2 ^ 53 then 0 else Suc (halvings (n div 2)))"

declare halvings.simps [simp del]

definition nearest_double :: "nat \<Rightarrow> nat" where
  "nearest_double n =
     (let ulp = 2 ^ halvings n; q = n div ulp; r = n mod ulp in
      if 2 * r < ulp \<or> 2 * r = ulp \<and> even q then q * ulp else (q + 1) * ulp)"

definition float_int :: "bool \<Rightarrow> nat \<Rightarrow> int \<Rightarrow> int" where
  "float_int negative m e =
     (let n = (if 0 \<le> e then m * 10 ^ nat e else m div 10 ^ nat (- e));
          i = int (nearest_double n) in
      if negative then - i else i)"

text \<open>\<open>int\<close> of a string: digits of any script, single underscores between them, a sign and spaces around.\<close>

fun int_digits :: "bool \<Rightarrow> pystr \<Rightarrow> pystr option" where
  "int_digits after_digit [] = (if after_digit then Some [] else None)"
| "int_digits after_digit (c # s) =
     (if is_digit c then map_option ((#) c) (int_digits True s)
      else if c = 95 \<and> after_digit then int_digits False s
      else None)"

definition int_of_text :: "pystr \<Rightarrow> int res" where
  "int_of_text text =
     (let t = strip text; negative = startswith t [45];
          digits = (if negative \<or> startswith t [43] then tl t else t) in
      case int_digits False digits of
        None \<Rightarrow> Inl (werr ''invalid literal for int() with base 10'')
      | Some ds \<Rightarrow> bindE (int_of_digits ds) (\<lambda>n. Inr (if negative then - n else n)))"

definition py_int :: "json \<Rightarrow> int res" where
  "py_int v = (case v of
     JInt i \<Rightarrow> Inr i
   | JBool b \<Rightarrow> Inr (if b then 1 else 0)
   | JStr s \<Rightarrow> int_of_text s
   | JFloat (FDec negative m e) \<Rightarrow> Inr (float_int negative m e)
   | JFloat FNaN \<Rightarrow> Inl (werr ''cannot convert float NaN to integer'')
   | JFloat f \<Rightarrow> Inl (OtherException (lit ''OverflowError''))
   | _ \<Rightarrow> Inl (TypeError (lit ''int() argument must be a string or a real number'')))"

fun is_type_error :: "exc \<Rightarrow> bool" where
  "is_type_error (TypeError m) = True"
| "is_type_error e = False"

definition integer_field :: "json \<Rightarrow> string \<Rightarrow> int res" where
  "integer_field v field = (case py_int v of
     Inl e \<Rightarrow> Inl (if is_type_error e \<or> is_value_error e then ValueError (lit field @ lit '' must be an integer'') else e)
   | Inr i \<Rightarrow> Inr i)"

definition positive_int :: "json \<Rightarrow> string \<Rightarrow> int res" where
  "positive_int v field =
     bindE (integer_field v field) (\<lambda>i.
     if i < 1 then Inl (ValueError (lit field @ lit '' must be greater than zero'')) else Inr i)"

definition non_negative_int :: "json \<Rightarrow> string \<Rightarrow> int res" where
  "non_negative_int v field =
     bindE (integer_field v field) (\<lambda>i.
     if i < 0 then Inl (ValueError (lit field @ lit '' must be zero or greater'')) else Inr i)"

definition one_of_texts :: "string \<Rightarrow> string list \<Rightarrow> pystr \<Rightarrow> pystr res" where
  "one_of_texts field allowed text =
     (if text \<in> set (map lit allowed) then Inr text
      else Inl (ValueError (lit field @ lit '' must be one of: '' @ join (lit '', '') (map lit allowed))))"

definition h_loop_statuses :: "string list" where
  "h_loop_statuses = [''blocked'', ''completed'', ''running'', ''waiting_user'']"

definition h_safe_loop_status :: "pystr \<Rightarrow> pystr res" where
  "h_safe_loop_status value = one_of_texts ''status'' h_loop_statuses (strip value)"

definition h_loop_decisions :: "string list" where
  "h_loop_decisions = [''ask_user'', ''continue'', ''replan'', ''stop_blocked'', ''stop_success'']"

definition h_safe_loop_decision :: "pystr \<Rightarrow> pystr res" where
  "h_safe_loop_decision value = one_of_texts ''decision'' h_loop_decisions (strip value)"

definition payload_bool :: "(json \<Rightarrow> pystr) \<Rightarrow> json \<Rightarrow> bool \<Rightarrow> bool" where
  "payload_bool R v dflt = (case v of
     JNull \<Rightarrow> dflt
   | JBool b \<Rightarrow> b
   | _ \<Rightarrow>
       (let text = lower (strip (py_str R v)) in
        if text \<in> set (map lit [''true'', ''1'', ''yes'', ''y'', ''accepted'']) then True
        else if text \<in> set (map lit [''false'', ''0'', ''no'', ''n'', ''rejected'']) then False
        else dflt))"

definition payload_bool_field :: "(json \<Rightarrow> pystr) \<Rightarrow> dict \<Rightarrow> string list \<Rightarrow> bool \<Rightarrow> bool" where
  "payload_bool_field R payload names dflt =
     (case filter (\<lambda>n. map_of payload (lit n) \<noteq> None) names of
        [] \<Rightarrow> dflt | n # _ \<Rightarrow> payload_bool R (payload_get payload n) dflt)"

definition id_of :: "(json \<Rightarrow> pystr) \<Rightarrow> dict \<Rightarrow> string \<Rightarrow> string \<Rightarrow> pystr res" where
  "id_of R payload camel snake = safe_id R (either payload camel snake) camel"

section \<open>Identifiers of projects\<close>

fun dash_runs :: "bool \<Rightarrow> pystr \<Rightarrow> pystr" where
  "dash_runs in_run [] = []"
| "dash_runs in_run (c # s) =
     (if is_alnum_ascii c then c # dash_runs False s
      else if in_run then dash_runs True s else 45 # dash_runs True s)"

definition slugify :: "(json \<Rightarrow> pystr) \<Rightarrow> json \<Rightarrow> string \<Rightarrow> pystr" where
  "slugify R v fallback =
     (let text = strip_chars [45] (dash_runs False (lower (strip (str_or_empty R v)))) in
      if text = [] then lit fallback else text)"

definition project_exists :: "'s harness_env \<Rightarrow> dict \<Rightarrow> pystr \<Rightarrow> ('s, bool) harness" where
  "project_exists E arguments project_id =
     bindS (liftS (project_state_path E arguments project_id)) (\<lambda>path. getS (\<lambda>w. hw_meta w path \<noteq> None))"

definition two_digits :: "nat \<Rightarrow> pystr" where
  "two_digits n = (if n < 10 then 48 # nat_str n else nat_str n)"

definition candidate_ids :: "pystr \<Rightarrow> pystr list" where
  "candidate_ids base = base # map (\<lambda>i. base @ [45] @ two_digits i) [1..<1000]"

fun first_free :: "'s harness_env \<Rightarrow> dict \<Rightarrow> pystr \<Rightarrow> pystr list \<Rightarrow> ('s, pystr) harness" where
  "first_free E arguments base [] = raiseS (ValueError (lit ''cannot allocate unique project id for: '' @ base))"
| "first_free E arguments base (candidate # candidates) =
     bindS (liftS (safe_id (he_repr E) (JStr candidate) ''projectId'')) (\<lambda>project_id.
     bindS (project_exists E arguments project_id) (\<lambda>exists.
     if exists then first_free E arguments base candidates else returnS project_id))"

definition h_unique_project_id :: "'s harness_env \<Rightarrow> dict \<Rightarrow> pystr \<Rightarrow> ('s, pystr) harness" where
  "h_unique_project_id E arguments base = first_free E arguments base (candidate_ids base)"

definition project_id_from_payload :: "'s harness_env \<Rightarrow> dict \<Rightarrow> dict \<Rightarrow> ('s, pystr) harness" where
  "project_id_from_payload E arguments payload =
     (let R = he_repr E; explicit = either payload ''projectId'' ''project_id'' in
      if truthy explicit then
        bindS (liftS (safe_id R explicit ''projectId'')) (\<lambda>project_id.
        bindS (project_exists E arguments project_id) (\<lambda>exists.
        if exists then raiseS (ValueError (lit ''project already exists: '' @ project_id)) else returnS project_id))
      else
        (let title = text_or R payload [''title'', ''name''] (lit ''project'') in
         h_unique_project_id E arguments (slugify R (JStr title) ''project'' @ [45] @ he_stamp E)))"

section \<open>Rooms of assignments\<close>

definition source_room_id_from_payload :: "(json \<Rightarrow> pystr) \<Rightarrow> dict \<Rightarrow> dict \<Rightarrow> pystr" where
  "source_room_id_from_payload R payload route =
     (let given = strip_at R payload [''sourceRoomId'', ''source_room_id''];
          channel = lower (strip (text_or R route [''channel''] (text_at R payload [''source''])));
          requester_route = reply_route_from_requester R (payload_get payload ''requester'') in
      if given \<noteq> [] then given
      else if channel \<noteq> [] then strip_at R route [''target_session'']
      else if lower (strip_at R requester_route [''channel'']) \<noteq> [] then strip_at R requester_route [''target_session'']
      else [])"

definition external_channel :: "pystr \<Rightarrow> bool" where
  "external_channel channel \<longleftrightarrow> channel \<noteq> [] \<and> channel \<noteq> lit ''matrix''"

definition external_requester_channel :: "(json \<Rightarrow> pystr) \<Rightarrow> dict \<Rightarrow> pystr" where
  "external_requester_channel R project =
     (let route = dict_or_empty (payload_get project ''reply_route'');
          channel = lower (strip (text_or R route [''channel''] (text_at R project [''source''])));
          requester = lower (strip_at R (reply_route_from_requester R (payload_get project ''requester'')) [''channel'']) in
      if external_channel channel then channel else if external_channel requester then requester else [])"

definition validate_assignment_room :: "'s harness_env \<Rightarrow> dict \<Rightarrow> pystr \<Rightarrow> ('s, unit) harness" where
  "validate_assignment_room E project room_id =
     (let channel = external_requester_channel (he_repr E) project in
      if channel = [] then returnS ()
      else
        bindS (runtime_team_room_id E) (\<lambda>team_room_id.
        liftS (raise_if (team_room_id \<noteq> [] \<and> canonical_room_id room_id = canonical_room_id team_room_id)
          (ValueError (channel @ lit '' requester tasks require a dedicated task room; call roomflow create_task_room and pass its roomId'')))))"

definition validate_task_redelegation :: "'s harness_env \<Rightarrow> dict \<Rightarrow> dict \<Rightarrow> pystr \<Rightarrow> pystr \<Rightarrow> ('s, unit) harness" where
  "validate_task_redelegation E arguments project task_id room_id =
     (if external_requester_channel (he_repr E) project = [] then returnS ()
      else
        bindS (read_task E arguments task_id) (\<lambda>existing.
        let existing_room_id = strip_at (he_repr E) existing [''room_id''] in
        liftS (raise_if (existing_room_id \<noteq> [] \<and> canonical_room_id existing_room_id \<noteq> canonical_room_id room_id)
          (ValueError (lit ''task '' @ task_id @ lit '' is already delegated to assignment room '' @ existing_room_id
            @ lit ''; do not delegate it again to '' @ room_id)))))"

text \<open>
  The hint for the agent which room to notify; nothing is sent. Summaries start with the name of the action,
  so that the default summary is the one of a call without a summary.
\<close>

definition notification_needed ::
  "(json \<Rightarrow> pystr) \<Rightarrow> string \<Rightarrow> dict \<Rightarrow> dict \<Rightarrow> pystr option \<Rightarrow> bool \<Rightarrow> dict" where
  "notification_needed R action project task summary include_route =
     (let project_id = text_at R project [''project_id'']; title = text_or R project [''title''] project_id;
          room = text_or R task [''room_id''] (text_at R project [''source_room_id'']);
          route = (if include_route then dict_or_empty (payload_get project ''reply_route'') else []);
          room = (if room = [] then strip_at R route [''target_session''] else room);
          summary = (case summary of None \<Rightarrow> lit action @ lit '': '' @ title | Some s \<Rightarrow> s) in
      [(lit ''event'', JStr (lit action)), (lit ''projectId'', JStr project_id), (lit ''summary'', JStr summary)]
      @ (if room = [] then [] else [(lit ''targetRoom'', JStr room)])
      @ (if route = [] then [] else [(lit ''replyRoute'', JObj route)]))"

section \<open>The files of a project and of a task\<close>

text \<open>The state of a project and, after it, the text of its plan.\<close>

definition write_project :: "'s harness_env \<Rightarrow> dict \<Rightarrow> pystr \<Rightarrow> dict \<Rightarrow> ('s, unit) harness" where
  "write_project E arguments project_id project =
     bindS (liftS (project_dir E arguments project_id)) (\<lambda>dir.
     bindS (write_meta (meta_path dir) project) (\<lambda>_.
     bindS (liftS (plan_text (he_repr E) project)) (\<lambda>text.
     write_text (path_join dir (lit ''plan.md'')) text)))"

definition plan_items :: "dict \<Rightarrow> json list" where
  "plan_items project =
     json_items (payload_get project ''tasks'') @ json_items (payload_get (dict_or_empty (payload_get project ''loop'')) ''tasks'')"

definition project_task_for_meta :: "'s harness_env \<Rightarrow> dict \<Rightarrow> dict \<Rightarrow> ('s, dict) harness" where
  "project_task_for_meta E arguments task =
     (let R = he_repr E; text = (\<lambda>d ks. h_first_text R (map (payload_get d) ks));
          project_id = text task [''project_id'', ''projectId'']; task_id = text task [''task_id'', ''taskId''] in
      if project_id = [] \<or> task_id = [] then returnS []
      else
        bindS (read_project E arguments project_id) (\<lambda>project.
        returnS (case filter (\<lambda>d. text d [''task_id'', ''taskId''] = task_id)
            (List.map_filter (\<lambda>v. case v of JObj d \<Rightarrow> Some d | _ \<Rightarrow> None) (plan_items project)) of
          [] \<Rightarrow> [] | d # _ \<Rightarrow> d)))"

text \<open>The fields that a task keeps when a copy from the storage lacks them.\<close>

definition kept_fields :: "(string \<times> string) list" where
  "kept_fields = [(''room_id'', ''roomId''), (''assigned_to'', ''assignedTo''), (''project_id'', ''projectId'')]"

definition keep_field :: "(json \<Rightarrow> pystr) \<Rightarrow> dict list \<Rightarrow> string \<times> string \<Rightarrow> dict \<Rightarrow> dict" where
  "keep_field R sources = (\<lambda>(snake, camel) task.
     let preserved = h_first_text R (concat (map (\<lambda>d. [payload_get d snake, payload_get d camel]) sources)) in
     if h_first_text R [payload_get task snake, payload_get task camel] \<noteq> [] \<or> preserved = [] then task
     else put snake (JStr preserved) task)"

text \<open>What lies in the file is asked for its fields only when the task lacks one.\<close>

definition keep_from :: "(json \<Rightarrow> pystr) \<Rightarrow> json \<Rightarrow> dict list \<Rightarrow> dict \<Rightarrow> dict res" where
  "keep_from R existing others task =
     (case fields_of existing of
       Inr d \<Rightarrow> Inr (fold (keep_field R (d # others)) kept_fields task)
     | Inl e \<Rightarrow>
         if list_ex (\<lambda>(snake, camel). h_first_text R [payload_get task snake, payload_get task camel] = []) kept_fields then Inl e
         else Inr task)"

definition preserve_task_meta_fields :: "'s harness_env \<Rightarrow> dict \<Rightarrow> dict \<Rightarrow> ('s, dict) harness" where
  "preserve_task_meta_fields E arguments task =
     (let R = he_repr E; task_id = h_first_text R [payload_get task ''task_id'', payload_get task ''taskId''] in
      if task_id = [] then returnS task
      else
        bindS (task_value E arguments task_id) (\<lambda>existing.
        bindS (project_task_for_meta E arguments task) (\<lambda>project_task.
        liftS (keep_from R existing [project_task] task))))"

definition optional_fields :: "(string \<times> string) list" where
  "optional_fields = [(''acknowledged_by_role'', ''acknowledgedByRole''), (''result_status'', ''resultStatus''),
     (''result_path'', ''resultPath''), (''submitted_by_role'', ''submittedByRole'')]"

definition optional_field :: "(json \<Rightarrow> pystr) \<Rightarrow> string \<times> string \<Rightarrow> dict \<Rightarrow> dict" where
  "optional_field R = (\<lambda>(snake, camel) task.
     let v = h_first_text R [payload_get task snake, payload_get task camel] in
     if v = [] then task else put snake (JStr v) task)"

definition dropped_fields :: "string list" where
  "dropped_fields = [''taskId'', ''projectId'', ''roomId'', ''specPath'', ''sourceRoomId'', ''taskTitle'', ''assignedTo'',
     ''assignedAt'', ''createdAt'', ''acknowledgedByRole'', ''resultStatus'', ''resultPath'', ''submittedByRole'']"

definition drop_fields :: "string list \<Rightarrow> dict \<Rightarrow> dict" where
  "drop_fields names d = filter (\<lambda>(k, v). k \<notin> set (map lit names)) d"

text \<open>\<open>task[snake] = _first_text(...)\<close> of fields of the task and then of values from elsewhere.\<close>

definition set_text :: "(json \<Rightarrow> pystr) \<Rightarrow> string \<Rightarrow> string list \<Rightarrow> json list \<Rightarrow> dict \<Rightarrow> dict" where
  "set_text R key names others task = put key (JStr (h_first_text R (map (payload_get task) names @ others))) task"

definition console_fields :: "'s harness_env \<Rightarrow> dict \<Rightarrow> dict \<Rightarrow> dict" where
  "console_fields E node task =
     (let R = he_repr E;
          task = set_text R ''task_id'' [''task_id'', ''taskId''] [] task;
          task = set_text R ''project_id'' [''project_id'', ''projectId''] [] task;
          task = set_text R ''room_id'' [''room_id'', ''roomId''] [] task;
          task = set_text R ''spec_path'' [''spec_path'', ''specPath''] [] task;
          source = h_first_text R [payload_get task ''source_room_id'', payload_get task ''sourceRoomId'', payload_get node ''source_room_id''];
          task = (if source = [] then task else put ''source_room_id'' (JStr source) task);
          task = set_text R ''task_title'' [''task_title'', ''taskTitle'']
            [payload_get node ''title'', payload_get task ''title'', payload_get task ''task_id''] task;
          task = set_text R ''assigned_to'' [''assigned_to'', ''assignedTo''] [payload_get node ''assigned_to'', payload_get node ''assignedTo''] task;
          task = set_text R ''assigned_at'' [''assigned_at'', ''assignedAt'', ''created_at'', ''createdAt''] [JStr (he_now E)] task in
      drop_fields dropped_fields (fold (optional_field R) optional_fields task))"

definition ensure_console_task_meta :: "'s harness_env \<Rightarrow> dict \<Rightarrow> dict \<Rightarrow> ('s, dict) harness" where
  "ensure_console_task_meta E arguments task =
     bindS (preserve_task_meta_fields E arguments task) (\<lambda>task.
     bindS (project_task_for_meta E arguments task) (\<lambda>node. returnS (console_fields E node task)))"

text \<open>Writing a task completes it in place: the completed task is what the caller goes on with.\<close>

definition write_task :: "'s harness_env \<Rightarrow> dict \<Rightarrow> dict \<Rightarrow> ('s, dict) harness" where
  "write_task E arguments task =
     bindS (ensure_console_task_meta E arguments task) (\<lambda>task.
     bindS (liftS (task_state_path E arguments (text_at (he_repr E) task [''task_id'']))) (\<lambda>path.
     bindS (write_meta path task) (\<lambda>_. returnS task)))"

section \<open>Exchange with the storage\<close>

definition sync_arguments :: "dict \<Rightarrow> string \<Rightarrow> pystr \<Rightarrow> string list option \<Rightarrow> dict" where
  "sync_arguments arguments action task_id exclude =
     (let a = put ''path'' (JStr (lit ''shared/tasks/'' @ task_id)) (put ''action'' (JStr (lit action)) arguments) in
      case exclude of None \<Rightarrow> a | Some patterns \<Rightarrow> put ''exclude'' (JArr (map (\<lambda>p. JStr (lit p)) patterns)) a)"

definition is_ok :: "dict \<Rightarrow> bool" where
  "is_ok result \<longleftrightarrow> truthy (payload_get result ''ok'')"

definition sync_task :: "'s harness_env \<Rightarrow> dict \<Rightarrow> pystr \<Rightarrow> string list option \<Rightarrow> ('s, bool) harness" where
  "sync_task E arguments task_id exclude =
     bindS (h_filesync E (sync_arguments arguments ''push'' task_id exclude)) (\<lambda>result. returnS (is_ok result))"

definition pull_task :: "'s harness_env \<Rightarrow> dict \<Rightarrow> pystr \<Rightarrow> ('s, bool) harness" where
  "pull_task E arguments task_id =
     bindS (task_value E arguments task_id) (\<lambda>existing.
     bindS (h_filesync E (sync_arguments arguments ''pull'' task_id None)) (\<lambda>result.
     if \<not> is_ok result then returnS False
     else if \<not> truthy existing then returnS True
     else
       bindS (look_task E arguments task_id) (\<lambda>task.
       if task = [] then returnS True
       else
         bindS (liftS (keep_from (he_repr E) existing [] task)) (\<lambda>task.
         bindS (write_task E arguments task) (\<lambda>_. returnS True)))))"

end
