(* ===== verification/Harness_Project.thy ===== *)
theory Harness_Project
  imports Harness_Meta
begin

text \<open>
  The tool \<open>projectflow\<close> of \<open>plugins/teamharness/mcp/server.py\<close>: creating projects, planning them as a graph
  or as a loop, accepting results and changing the status of a project.
\<close>

section \<open>Common parts\<close>

definition flow_ok :: "string \<Rightarrow> pystr \<Rightarrow> dict \<Rightarrow> dict" where
  "flow_ok tool action extra =
     [(lit ''ok'', JBool True), (lit ''tool'', JStr (lit tool)), (lit ''action'', JStr action)] @ extra"

definition flow_failed :: "string \<Rightarrow> pystr \<Rightarrow> pystr \<Rightarrow> dict" where
  "flow_failed tool action message = tool_failed tool [(lit ''action'', JStr action)] message"

text \<open>What a project must be before an action on it: a file that is there and not empty.\<close>

definition existing_project :: "'s harness_env \<Rightarrow> dict \<Rightarrow> pystr \<Rightarrow> ('s, dict) harness" where
  "existing_project E arguments project_id =
     bindS (look_project E arguments project_id) (\<lambda>project.
     if project = [] then raiseS (werr ''project not found'') else returnS project)"

text \<open>The routes that a new project gets from its request.\<close>

definition with_routes :: "(json \<Rightarrow> pystr) \<Rightarrow> dict \<Rightarrow> dict \<Rightarrow> dict \<times> pystr" where
  "with_routes R payload project =
     (let given = normalize_reply_route R (either payload ''replyRoute'' ''reply_route'');
          route = (if given = [] then reply_route_from_requester R (payload_get project ''requester'') else given);
          project = (if route = [] then project else put ''reply_route'' (JObj route) project);
          source = source_room_id_from_payload R payload route in
      (if source = [] then project else put ''source_room_id'' (JStr source) project, source))"

definition new_project :: "(json \<Rightarrow> pystr) \<Rightarrow> dict \<Rightarrow> pystr \<Rightarrow> dict" where
  "new_project R payload project_id =
     [(lit ''project_id'', JStr project_id), (lit ''title'', JStr (text_or R payload [''title''] project_id)),
      (lit ''source'', JStr (text_at R payload [''source''])), (lit ''requester'', JStr (text_at R payload [''requester''])),
      (lit ''status'', JStr (lit ''active''))]"

section \<open>Creating a project\<close>

definition h_create_project :: "'s harness_env \<Rightarrow> dict \<Rightarrow> dict \<Rightarrow> ('s, dict) harness" where
  "h_create_project E arguments payload =
     (let R = he_repr E in
      bindS (project_id_from_payload E arguments payload) (\<lambda>project_id.
      let project = fst (with_routes R payload (new_project R payload project_id @ [(lit ''tasks'', JArr [])])) in
      bindS (write_project E arguments project_id project) (\<lambda>_.
      returnS (flow_ok ''projectflow'' (lit ''create_project'')
        [(lit ''project'', JObj project),
         (lit ''notificationNeeded'', JObj (notification_needed R ''create_project'' project [] None True))]))))"

definition quick_task_id :: "(json \<Rightarrow> pystr) \<Rightarrow> dict \<Rightarrow> pystr \<Rightarrow> pystr res" where
  "quick_task_id R payload project_id =
     (let given = first_true payload [''taskId'', ''task_id''] in
      bindE (safe_id R (if truthy given then given else JStr (project_id @ lit ''-01'')) ''taskId'') (\<lambda>task_id.
      bindE (raise_if (\<not> startswith task_id (project_id @ [45])) (werr ''taskId must belong to projectId'')) (\<lambda>_.
      Inr task_id)))"

definition required_text :: "(json \<Rightarrow> pystr) \<Rightarrow> dict \<Rightarrow> string list \<Rightarrow> pystr res" where
  "required_text R payload names =
     (let text = strip_at R payload names in
      if text = [] then Inl (ValueError (lit (hd names) @ lit '' is required'')) else Inr text)"

definition quick_task :: "dict \<Rightarrow> pystr \<Rightarrow> dict" where
  "quick_task node source = (if source = [] then node else put ''source_room_id'' (JStr source) node)"

definition task_spec_path :: "pystr \<Rightarrow> pystr" where
  "task_spec_path task_id = lit ''shared/tasks/'' @ task_id @ lit ''/spec.md''"

definition write_spec :: "'s harness_env \<Rightarrow> dict \<Rightarrow> pystr \<Rightarrow> pystr \<Rightarrow> ('s, unit) harness" where
  "write_spec E arguments task_id text =
     bindS (liftS (task_dir E arguments task_id)) (\<lambda>dir. write_text (path_join dir (lit ''spec.md'')) text)"

definition h_create_quick_project :: "'s harness_env \<Rightarrow> dict \<Rightarrow> dict \<Rightarrow> ('s, dict) harness" where
  "h_create_quick_project E arguments payload =
     (let R = he_repr E in
      bindS (project_id_from_payload E arguments payload) (\<lambda>project_id.
      bindS (liftS (required_text R payload [''assignedTo'', ''assigned_to''])) (\<lambda>assigned_to.
      bindS (liftS (required_text R payload [''roomId'', ''room_id''])) (\<lambda>room_id.
      bindS (liftS (required_text R payload [''spec''])) (\<lambda>spec.
      bindS (liftS (quick_task_id R payload project_id)) (\<lambda>task_id.
      bindS (liftS (task_state_path E arguments task_id)) (\<lambda>task_path.
      bindS (getS (\<lambda>w. hw_meta w task_path \<noteq> None)) (\<lambda>exists.
      bindS (liftS (raise_if exists (ValueError (lit ''task already exists: '' @ task_id)))) (\<lambda>_.
      let (project, source) = with_routes R payload (new_project R payload project_id
            @ [(lit ''mode'', JStr (lit ''quick'')), (lit ''plan_type'', JStr (lit ''dag''))]);
          node = quick_task [(lit ''task_id'', JStr task_id), (lit ''title'', JStr (text_or R payload [''title''] project_id)),
            (lit ''assigned_to'', JStr assigned_to), (lit ''depends_on'', JArr []), (lit ''status'', JStr (lit ''assigned''))] source;
          project = put ''tasks'' (jrows [node]) project;
          task = quick_task [(lit ''task_id'', JStr task_id), (lit ''project_id'', JStr project_id), (lit ''room_id'', JStr room_id),
            (lit ''status'', JStr (lit ''assigned'')), (lit ''spec_path'', JStr (task_spec_path task_id)),
            (lit ''assigned_to'', JStr assigned_to)] source in
      bindS (validate_assignment_room E project room_id) (\<lambda>_.
      bindS (write_project E arguments project_id project) (\<lambda>_.
      bindS (write_spec E arguments task_id (spec @ [10])) (\<lambda>_.
      bindS (write_task E arguments task) (\<lambda>task.
      bindS (sync_task E arguments task_id None) (\<lambda>synced.
      returnS (flow_ok ''projectflow'' (lit ''create_quick_project'')
        [(lit ''project'', JObj project), (lit ''task'', JObj task), (lit ''synced'', JBool synced),
         (lit ''notificationNeeded'', JObj (notification_needed R ''create_quick_project'' project task None True))])))))))))))))))"

section \<open>Looking at a project\<close>

definition ready_of :: "(json \<Rightarrow> pystr) \<Rightarrow> pystr \<Rightarrow> dict \<Rightarrow> dict list res" where
  "ready_of R plan_type project = (if plan_type = lit ''loop'' then h_ready_loop_nodes R project else h_ready_nodes R project)"

definition h_resolve_project :: "'s harness_env \<Rightarrow> dict \<Rightarrow> dict \<Rightarrow> ('s, dict) harness" where
  "h_resolve_project E arguments payload =
     (let R = he_repr E; given_task = either payload ''taskId'' ''task_id'' in
      bindS (if truthy given_task then
               bindS (liftS (safe_id R given_task ''taskId'')) (\<lambda>task_id.
               bindS (look_task E arguments task_id) (\<lambda>task.
               if task = [] then raiseS (werr ''task not found'') else returnS (payload_get task ''project_id'', task)))
             else returnS (either payload ''projectId'' ''project_id'', [])) (\<lambda>(given, task).
      bindS (liftS (raise_if (\<not> truthy given) (werr ''projectId or taskId is required''))) (\<lambda>_.
      bindS (liftS (safe_id R given ''projectId'')) (\<lambda>project_id.
      bindS (existing_project E arguments project_id) (\<lambda>project.
      let plan_type = text_or R project [''plan_type''] (lit ''dag''); source = payload_get project ''source_room_id'' in
      bindS (liftS (ready_of R plan_type project)) (\<lambda>ready.
      returnS (flow_ok ''projectflow'' (lit ''resolve_project'')
        ([(lit ''project'', JObj project), (lit ''planType'', JStr plan_type), (lit ''replyRoute'', payload_get project ''reply_route''),
          (lit ''sourceRoomId'', if truthy source then source else payload_get task ''source_room_id''),
          (lit ''readyNodes'', jrows ready)]
         @ (if task = [] then [] else [(lit ''task'', JObj task)])))))))))"

definition h_ready_nodes_action :: "'s harness_env \<Rightarrow> dict \<Rightarrow> dict \<Rightarrow> ('s, dict) harness" where
  "h_ready_nodes_action E arguments payload =
     bindS (liftS (id_of (he_repr E) payload ''projectId'' ''project_id'')) (\<lambda>project_id.
     bindS (existing_project E arguments project_id) (\<lambda>project.
     bindS (liftS (h_ready_nodes (he_repr E) project)) (\<lambda>ready.
     returnS (flow_ok ''projectflow'' (lit ''ready_nodes'')
       [(lit ''project'', JObj project), (lit ''readyNodes'', jrows ready)]))))"

definition h_ready_loop_nodes_action :: "'s harness_env \<Rightarrow> dict \<Rightarrow> dict \<Rightarrow> ('s, dict) harness" where
  "h_ready_loop_nodes_action E arguments payload =
     bindS (liftS (id_of (he_repr E) payload ''projectId'' ''project_id'')) (\<lambda>project_id.
     bindS (existing_project E arguments project_id) (\<lambda>project.
     bindS (liftS (h_ready_loop_nodes (he_repr E) project)) (\<lambda>ready.
     returnS (flow_ok ''projectflow'' (lit ''ready_loop_nodes'')
       [(lit ''project'', JObj project), (lit ''loop'', get_or project ''loop'' (JObj [])), (lit ''readyLoopNodes'', jrows ready)]))))"

section \<open>Accepting results\<close>

definition accepted_node_status :: "(json \<Rightarrow> pystr) \<Rightarrow> json \<Rightarrow> pystr res" where
  "accepted_node_status R result_status =
     (let status = strip (if truthy result_status then py_str R result_status else lit ''SUCCESS'') in
      if status \<in> {lit ''SUCCESS'', lit ''SUCCESS_WITH_NOTES''} then Inr (lit ''completed'')
      else if status = lit ''REVISION_NEEDED'' then Inr (lit ''revision'')
      else if status \<in> {lit ''BLOCKED'', lit ''INTERRUPTED''} then Inr (lit ''blocked'')
      else Inl (ValueError (lit ''unsupported result status: '' @ status)))"

text \<open>The report that the requester is to get of an accepted task, and what becomes of it when the task is not accepted.\<close>

definition requester_report :: "(json \<Rightarrow> pystr) \<Rightarrow> dict \<Rightarrow> pystr \<Rightarrow> pystr \<Rightarrow> pystr \<Rightarrow> pystr \<Rightarrow> dict \<Rightarrow> dict" where
  "requester_report R payload project_id task_id result_status node_status project =
     (let report = dict_or_empty (payload_get project ''requester_report'') in
      if node_status = lit ''completed'' then
        put ''requester_report'' (JObj
          [(lit ''pending'', JBool True), (lit ''reason'', JStr (lit ''task_result_accepted'')), (lit ''task_id'', JStr task_id),
           (lit ''result_status'', JStr result_status), (lit ''summary'', JStr (text_at R payload [''summary''])),
           (lit ''report_path'', JStr (lit ''shared/projects/'' @ project_id @ lit ''/result.md''))]) project
      else if payload_get report ''task_id'' = JStr task_id then
        put ''requester_report'' (JObj (put ''reason'' (JStr (lit ''task_result_'' @ node_status)) (put ''pending'' (JBool False) report))) project
      else project)"

definition set_status :: "pystr \<Rightarrow> dict \<Rightarrow> dict" where
  "set_status status task = put ''status'' (JStr status) task"

definition wants_artifacts :: "(json \<Rightarrow> pystr) \<Rightarrow> dict \<Rightarrow> bool" where
  "wants_artifacts R payload = payload_bool_field R payload [''publishArtifacts'', ''publish_artifacts''] False"

definition h_accept_task_result :: "'s harness_env \<Rightarrow> dict \<Rightarrow> dict \<Rightarrow> ('s, dict) harness" where
  "h_accept_task_result E arguments payload =
     (let R = he_repr E; given = either payload ''resultStatus'' ''result_status''; accepted = payload_bool R (payload_get payload ''accepted'') True in
      bindS (liftS (id_of R payload ''projectId'' ''project_id'')) (\<lambda>project_id.
      bindS (liftS (id_of R payload ''taskId'' ''task_id'')) (\<lambda>task_id.
      bindS (existing_project E arguments project_id) (\<lambda>project.
      bindS (liftS (accepted_node_status R given)) (\<lambda>status.
      let refused = (\<not> accepted \<and> status = lit ''completed'');
          result_status = (if refused then lit ''REVISION_NEEDED'' else if truthy given then py_str R given else lit ''SUCCESS'');
          status = (if refused then lit ''revision'' else status) in
      bindS (liftS (update_plan task_id (set_status status) project)) (\<lambda>(project, changed).
      bindS (liftS (raise_if (\<not> changed) (werr ''task not found in project plan''))) (\<lambda>_.
      let project = requester_report R payload project_id task_id result_status status project;
          report = dict_or_empty (payload_get project ''requester_report'');
          pending = (payload_get report ''pending'' = JBool True \<and> payload_get report ''task_id'' = JStr task_id) in
      bindS (write_project E arguments project_id project) (\<lambda>_.
      bindS (if status = lit ''completed'' \<and> wants_artifacts R payload
             then publish_project_artifacts E arguments project project_id task_id (attachment_parent_event_id R [payload, arguments])
             else returnS []) (\<lambda>published.
      returnS (flow_ok ''projectflow'' (lit ''accept_task_result'')
        [(lit ''project'', JObj project), (lit ''taskId'', JStr task_id), (lit ''nodeStatus'', JStr status),
         (lit ''accepted'', JBool (status = lit ''completed'')), (lit ''publishedArtifacts'', jrows published),
         (lit ''notificationNeeded'', JObj (notification_needed R ''accept_task_result'' project []
           (Some (lit ''accept_task_result: '' @ task_id @ lit '' -> '' @ status)) pending))]))))))))))"

definition h_mark_requester_report_sent :: "'s harness_env \<Rightarrow> dict \<Rightarrow> dict \<Rightarrow> ('s, dict) harness" where
  "h_mark_requester_report_sent E arguments payload =
     (let R = he_repr E in
      bindS (liftS (id_of R payload ''projectId'' ''project_id'')) (\<lambda>project_id.
      bindS (existing_project E arguments project_id) (\<lambda>project.
      let report = dict_or_empty (payload_get project ''requester_report'');
          report = put ''sent_at'' (JStr (text_or R payload [''sentAt'', ''sent_at''] (he_now E))) (put ''pending'' (JBool False) report);
          project = put ''requester_report'' (JObj report) project in
      bindS (liftS (project_state_path E arguments project_id)) (\<lambda>path.
      bindS (write_meta path project) (\<lambda>_.
      returnS (flow_ok ''projectflow'' (lit ''mark_requester_report_sent'') [(lit ''project'', JObj project)]))))))"

section \<open>Planning\<close>

definition unplanned_project :: "pystr \<Rightarrow> dict" where
  "unplanned_project project_id =
     [(lit ''project_id'', JStr project_id), (lit ''title'', JStr project_id), (lit ''status'', JStr (lit ''active'')), (lit ''tasks'', JArr [])]"

text \<open>The task of the previous plan under an identifier; of several the last one counts.\<close>

definition previous_task :: "dict list \<Rightarrow> pystr \<Rightarrow> dict" where
  "previous_task previous task_id =
     (case filter (\<lambda>t. payload_get t ''task_id'' = JStr task_id) (rev previous) of [] \<Rightarrow> [] | t # _ \<Rightarrow> t)"

definition previous_tasks :: "json list \<Rightarrow> dict list res" where
  "previous_tasks items =
     bindE (mapE (\<lambda>v. bindE (obj_of v) (\<lambda>t. bindE (hash_check (payload_get t ''task_id'')) (\<lambda>_. Inr t))) items) Inr"

definition planned_tasks :: "(json \<Rightarrow> pystr) \<Rightarrow> dict list \<Rightarrow> json list \<Rightarrow> dict list res" where
  "planned_tasks R previous raw =
     bindE (mapE (\<lambda>task. normalize_task R task (previous_task previous (text_of_either R task ''taskId'' ''task_id'')))
       (List.map_filter (\<lambda>v. case v of JObj d \<Rightarrow> Some d | _ \<Rightarrow> None) raw)) (\<lambda>tasks.
     bindE (validate_task_graph (task_graph R tasks)) (\<lambda>_. Inr tasks))"

definition list_field :: "json \<Rightarrow> json list res" where
  "list_field v = (case v of JArr items \<Rightarrow> Inr items | _ \<Rightarrow> Inl (werr ''tasks must be a list''))"

definition read_or_unplanned :: "'s harness_env \<Rightarrow> dict \<Rightarrow> pystr \<Rightarrow> ('s, dict) harness" where
  "read_or_unplanned E arguments project_id =
     bindS (liftS (project_state_path E arguments project_id)) (\<lambda>path. read_meta path (unplanned_project project_id))"

definition h_plan_dag :: "'s harness_env \<Rightarrow> dict \<Rightarrow> dict \<Rightarrow> ('s, dict) harness" where
  "h_plan_dag E arguments payload =
     (let R = he_repr E in
      bindS (liftS (id_of R payload ''projectId'' ''project_id'')) (\<lambda>project_id.
      bindS (read_or_unplanned E arguments project_id) (\<lambda>project.
      bindS (liftS (bindE (list_of_value (get_or project ''tasks'' (JArr []))) previous_tasks)) (\<lambda>previous.
      bindS (liftS (list_field (payload_get payload ''tasks''))) (\<lambda>raw.
      bindS (liftS (planned_tasks R previous raw)) (\<lambda>tasks.
      let project = put ''plan_type'' (JStr (lit ''dag'')) (put ''tasks'' (jrows tasks) project) in
      bindS (write_project E arguments project_id project) (\<lambda>_.
      bindS (liftS (h_ready_nodes R project)) (\<lambda>ready.
      returnS (flow_ok ''projectflow'' (lit ''plan_dag'')
        [(lit ''project'', JObj project), (lit ''readyNodes'', jrows ready),
         (lit ''notificationNeeded'', JObj (notification_needed R ''plan_dag'' project [] None True))])))))))))"

definition loop_of :: "dict \<Rightarrow> dict" where
  "loop_of project = dict_or_empty (payload_get project ''loop'')"

definition loop_field :: "(json \<Rightarrow> pystr) \<Rightarrow> dict \<Rightarrow> dict \<Rightarrow> string list \<Rightarrow> string \<Rightarrow> pystr" where
  "loop_field R payload previous names key = strip (text_or R payload names (text_at R previous [key]))"

definition planned_loop :: "(json \<Rightarrow> pystr) \<Rightarrow> dict \<Rightarrow> dict \<Rightarrow> dict res" where
  "planned_loop R payload previous =
     (let raw = payload_get payload ''tasks''; given = either payload ''currentIteration'' ''current_iteration'';
          known = payload_get previous ''current_iteration'' in
      bindE (previous_tasks (json_items (payload_get previous ''tasks''))) (\<lambda>previous_nodes.
      bindE (if truthy raw then list_field raw else Inr []) (\<lambda>raw.
      bindE (positive_int (either payload ''maxIterations'' ''max_iterations'') ''maxIterations'') (\<lambda>max_iterations.
      bindE (non_negative_int (if truthy given then given else if truthy known then known else JInt 0) ''currentIteration'') (\<lambda>current.
      bindE (raise_if (max_iterations < current) (werr ''currentIteration cannot exceed maxIterations'')) (\<lambda>_.
      bindE (planned_tasks R previous_nodes raw) (\<lambda>tasks.
      bindE (h_safe_loop_status (text_or R payload [''status''] (text_or R previous [''status''] (lit ''running'')))) (\<lambda>status.
      let goal = loop_field R payload previous [''goal''] ''goal'';
          stop = loop_field R payload previous [''stopCondition'', ''stop_condition''] ''stop_condition'';
          template = loop_field R payload previous [''iterationTemplate'', ''iteration_template''] ''iteration_template'' in
      bindE (seqE [raise_if (goal = []) (werr ''goal is required''), raise_if (stop = []) (werr ''stopCondition is required''),
          raise_if (template = []) (werr ''iterationTemplate is required'')]) (\<lambda>_.
      Inr [(lit ''goal'', JStr goal), (lit ''stop_condition'', JStr stop), (lit ''iteration_template'', JStr template),
        (lit ''max_iterations'', JInt max_iterations), (lit ''current_iteration'', JInt current), (lit ''status'', JStr status),
        (lit ''tasks'', jrows tasks), (lit ''history'', JArr (json_items (payload_get previous ''history'')))])))))))))"

definition h_plan_loop :: "'s harness_env \<Rightarrow> dict \<Rightarrow> dict \<Rightarrow> ('s, dict) harness" where
  "h_plan_loop E arguments payload =
     (let R = he_repr E in
      bindS (liftS (id_of R payload ''projectId'' ''project_id'')) (\<lambda>project_id.
      bindS (read_or_unplanned E arguments project_id) (\<lambda>project.
      bindS (liftS (planned_loop R payload (loop_of project))) (\<lambda>loop.
      let project = put ''loop'' (JObj loop) (put ''plan_type'' (JStr (lit ''loop'')) project) in
      bindS (write_project E arguments project_id project) (\<lambda>_.
      bindS (liftS (h_ready_loop_nodes R project)) (\<lambda>ready.
      returnS (flow_ok ''projectflow'' (lit ''plan_loop'')
        [(lit ''project'', JObj project), (lit ''loop'', JObj loop), (lit ''readyLoopNodes'', jrows ready),
         (lit ''notificationNeeded'', JObj (notification_needed R ''plan_loop'' project [] None True))])))))))"

section \<open>Iterations of a loop\<close>

definition decision_status :: "pystr \<Rightarrow> pystr" where
  "decision_status decision =
     (if decision \<in> {lit ''continue'', lit ''replan''} then lit ''running''
      else if decision = lit ''ask_user'' then lit ''waiting_user''
      else if decision = lit ''stop_success'' then lit ''completed''
      else lit ''blocked'')"

text \<open>The loop after an iteration, and the number and the decision of the iteration.\<close>

definition iterated_loop :: "(json \<Rightarrow> pystr) \<Rightarrow> dict \<Rightarrow> dict \<Rightarrow> (dict \<times> int \<times> pystr) res" where
  "iterated_loop R payload loop =
     bindE (positive_int (payload_get payload ''iteration'') ''iteration'') (\<lambda>iteration.
     bindE (positive_int (payload_get loop ''max_iterations'') ''maxIterations'') (\<lambda>max_iterations.
     bindE (raise_if (max_iterations < iteration) (werr ''iteration cannot exceed maxIterations'')) (\<lambda>_.
     bindE (h_safe_loop_decision (text_at R payload [''decision''])) (\<lambda>decision.
     let known = payload_get loop ''current_iteration'' in
     bindE (non_negative_int (if truthy known then known else JInt 0) ''currentIteration'') (\<lambda>current.
     let entry = JObj [(lit ''iteration'', JInt iteration), (lit ''decision'', JStr decision),
           (lit ''summary'', JStr (strip_at R payload [''summary''])),
           (lit ''next_action'', JStr (strip_at R payload [''nextAction'', ''next_action'']))] in
     Inr (put ''history'' (JArr (json_items (payload_get loop ''history'') @ [entry]))
            (put ''current_iteration'' (JInt (max current iteration))
               (put ''status'' (JStr (decision_status decision)) loop)), iteration, decision))))))"

definition h_record_loop_iteration :: "'s harness_env \<Rightarrow> dict \<Rightarrow> dict \<Rightarrow> ('s, dict) harness" where
  "h_record_loop_iteration E arguments payload =
     (let R = he_repr E in
      bindS (liftS (id_of R payload ''projectId'' ''project_id'')) (\<lambda>project_id.
      bindS (existing_project E arguments project_id) (\<lambda>project.
      bindS (liftS (raise_if (loop_of project = []) (ValueError (lit ''project has no loop plan: '' @ project_id)))) (\<lambda>_.
      bindS (liftS (iterated_loop R payload (loop_of project))) (\<lambda>(loop, iteration, decision).
      let project = put ''loop'' (JObj loop) (put ''plan_type'' (JStr (lit ''loop'')) project) in
      bindS (write_project E arguments project_id project) (\<lambda>_.
      bindS (liftS (h_ready_loop_nodes R project)) (\<lambda>ready.
      returnS (flow_ok ''projectflow'' (lit ''record_loop_iteration'')
        [(lit ''project'', JObj project), (lit ''loop'', JObj loop), (lit ''readyLoopNodes'', jrows ready),
         (lit ''notificationNeeded'', JObj (notification_needed R ''record_loop_iteration'' project []
           (Some (lit ''record_loop_iteration: iteration '' @ int_str iteration @ lit '' -> '' @ decision)) True))]))))))))"

section \<open>The status of a project\<close>

definition with_project_status :: "pystr \<Rightarrow> dict \<Rightarrow> dict" where
  "with_project_status action project =
     (if action = lit ''pause_project'' then put ''status'' (JStr (lit ''paused'')) project
      else if action = lit ''resume_project'' then put ''status'' (JStr (lit ''active'')) project
      else
        (let project = put ''status'' (JStr (lit ''completed'')) project; loop = loop_of project in
         if loop = [] then project
         else put ''loop'' (JObj (put ''status'' (JStr (lit ''completed'')) loop)) project))"

definition change_project_status :: "'s harness_env \<Rightarrow> dict \<Rightarrow> dict \<Rightarrow> string \<Rightarrow> ('s, dict) harness" where
  "change_project_status E arguments payload action =
     (let R = he_repr E in
      bindS (liftS (id_of R payload ''projectId'' ''project_id'')) (\<lambda>project_id.
      bindS (existing_project E arguments project_id) (\<lambda>project.
      let project = with_project_status (lit action) project in
      bindS (write_project E arguments project_id project) (\<lambda>_.
      bindS (liftS (project_dir E arguments project_id)) (\<lambda>dir.
      bindS (getS (\<lambda>w. hw_text w (path_join dir (lit ''result.md'')) \<noteq> None)) (\<lambda>has_result.
      bindS (if action = ''complete_project'' \<and> wants_artifacts R payload \<and> has_result
             then bindS (publish_project_artifacts E arguments project project_id [] (attachment_parent_event_id R [payload, arguments]))
               (\<lambda>published. returnS [(lit ''publishedArtifacts'', jrows published)])
             else returnS []) (\<lambda>published.
      returnS (flow_ok ''projectflow'' (lit action)
        ((lit ''project'', JObj project) # published
         @ [(lit ''notificationNeeded'', JObj (notification_needed R action project [] None True))])))))))))"

section \<open>The tool\<close>

definition project_actions ::
  "(string \<times> ('s harness_env \<Rightarrow> dict \<Rightarrow> dict \<Rightarrow> ('s, dict) harness)) list" where
  "project_actions =
     [(''create_project'', h_create_project), (''create_quick_project'', h_create_quick_project),
      (''resolve_project'', h_resolve_project), (''accept_task_result'', h_accept_task_result),
      (''mark_requester_report_sent'', h_mark_requester_report_sent), (''plan_dag'', h_plan_dag), (''plan_loop'', h_plan_loop),
      (''ready_nodes'', h_ready_nodes_action), (''ready_loop_nodes'', h_ready_loop_nodes_action),
      (''record_loop_iteration'', h_record_loop_iteration),
      (''pause_project'', \<lambda>E arguments payload. change_project_status E arguments payload ''pause_project''),
      (''resume_project'', \<lambda>E arguments payload. change_project_status E arguments payload ''resume_project''),
      (''complete_project'', \<lambda>E arguments payload. change_project_status E arguments payload ''complete_project'')]"

definition h_projectflow :: "'s harness_env \<Rightarrow> dict \<Rightarrow> ('s, dict) harness" where
  "h_projectflow E arguments =
     (let action = strip_at (he_repr E) arguments [''action''] in
      bindS (liftS (h_payload E arguments)) (\<lambda>payload.
      case map_of (map (\<lambda>(n, f). (lit n, f)) project_actions) action of
        None \<Rightarrow> returnS (flow_failed ''projectflow'' action (lit ''unsupported action: '' @ action))
      | Some act \<Rightarrow>
          on_value_error (act E arguments payload)
            (\<lambda>e. returnS (flow_failed ''projectflow'' action (he_exc_text E e)))))"

end
