(* ===== verification/Harness_Taskflow.thy ===== *)
theory Harness_Taskflow
  imports Harness_Project
begin

text \<open>
  The tool \<open>taskflow\<close> of \<open>plugins/teamharness/mcp/server.py\<close>: delegating, acknowledging, submitting,
  cancelling and checking a task.
\<close>

section \<open>Tasks\<close>

definition load_task :: "'s harness_env \<Rightarrow> dict \<Rightarrow> pystr \<Rightarrow> ('s, dict) harness" where
  "load_task E arguments task_id =
     bindS (look_task E arguments task_id) (\<lambda>task.
     if task = [] then raiseS (werr ''task not found'')
     else if \<not> truthy (payload_get task ''task_id'') \<and> truthy (payload_get task ''taskId'')
       then returnS (put ''task_id'' (JStr (text_at (he_repr E) task [''taskId''])) task)
     else returnS task)"

definition terminal_statuses :: "string list" where
  "terminal_statuses = [''completed'', ''revision'', ''blocked'', ''cancelled'']"

definition is_terminal :: "pystr \<Rightarrow> bool" where
  "is_terminal status \<longleftrightarrow> status \<in> set (map lit terminal_statuses)"

text \<open>The first terminal status of a node of the plan with the identifier, or else that of the task.\<close>

definition terminal_status_in :: "(json \<Rightarrow> pystr) \<Rightarrow> dict \<Rightarrow> dict \<Rightarrow> pystr \<Rightarrow> pystr" where
  "terminal_status_in R project task task_id =
     (let nodes = List.map_filter (\<lambda>v. case v of JObj d \<Rightarrow> Some d | _ \<Rightarrow> None) (plan_items project);
          found = filter is_terminal (map (\<lambda>d. text_at R d [''status''])
            (filter (\<lambda>d. payload_get d ''task_id'' = JStr task_id) nodes));
          status = text_at R task [''status''] in
      case found of s # _ \<Rightarrow> s | [] \<Rightarrow> if is_terminal status then status else [])"

definition project_of_task :: "'s harness_env \<Rightarrow> dict \<Rightarrow> dict \<Rightarrow> ('s, dict) harness" where
  "project_of_task E arguments task =
     (let project_id = text_at (he_repr E) task [''project_id''] in
      if project_id = [] then returnS [] else read_project E arguments project_id)"

definition terminal_task_status :: "'s harness_env \<Rightarrow> dict \<Rightarrow> dict \<Rightarrow> pystr \<Rightarrow> ('s, pystr) harness" where
  "terminal_task_status E arguments task task_id =
     bindS (project_of_task E arguments task) (\<lambda>project. returnS (terminal_status_in (he_repr E) project task task_id))"

definition require_task_mutable :: "'s harness_env \<Rightarrow> dict \<Rightarrow> dict \<Rightarrow> pystr \<Rightarrow> string \<Rightarrow> ('s, unit) harness" where
  "require_task_mutable E arguments task task_id action =
     bindS (terminal_task_status E arguments task task_id) (\<lambda>status.
     liftS (raise_if (status \<noteq> []) (ValueError (lit action @ lit '' cannot update terminal task: '' @ status))))"

definition put_all :: "dict \<Rightarrow> dict \<Rightarrow> dict" where
  "put_all updates d = fold (\<lambda>(k, v) d. AList.update k v d) updates d"

definition update_project_task :: "'s harness_env \<Rightarrow> dict \<Rightarrow> pystr \<Rightarrow> pystr \<Rightarrow> dict \<Rightarrow> ('s, unit) harness" where
  "update_project_task E arguments project_id task_id updates =
     bindS (look_project E arguments project_id) (\<lambda>project.
     if project = [] then returnS ()
     else
       bindS (liftS (update_plan task_id (put_all updates) project)) (\<lambda>(project, changed).
       if changed then write_project E arguments project_id project else returnS ()))"

section \<open>Results\<close>

definition h_result_statuses :: "string list" where
  "h_result_statuses = [''SUCCESS'', ''SUCCESS_WITH_NOTES'', ''REVISION_NEEDED'', ''BLOCKED'', ''FAILED'', ''PARTIAL'']"

definition submit_task_result_status :: "(json \<Rightarrow> pystr) \<Rightarrow> dict \<Rightarrow> pystr res" where
  "submit_task_result_status R payload =
     (let given = List.map_filter (\<lambda>k. map_of payload (lit k)) [''status'', ''resultStatus'', ''result_status''] in
      bindE (mapE (\<lambda>v.
        let t = (if v = JNull then [] else strip (py_str R v)) in
        if t = [] then Inl (werr ''result status must be a non-empty string'') else Inr t) given) (\<lambda>values.
      if values = [] then Inl (werr ''status is required for submit_task'')
      else if list_ex (\<lambda>v. v \<noteq> hd values) values then Inl (werr ''conflicting result status fields'')
      else if hd values \<notin> set (map lit h_result_statuses) then Inl (werr ''invalid result status'')
      else Inr (hd values)))"

definition task_deliverable :: "(json \<Rightarrow> pystr) \<Rightarrow> pystr \<Rightarrow> json \<Rightarrow> pystr list res" where
  "task_deliverable R prefix item =
     (let source = strip (str_or_empty R item) in
      if source = [] then Inr []
      else (case normalize_workspace_artifact_path source of
        Inl e \<Rightarrow> Inl (if is_value_error e
          then ValueError (lit ''deliverables must be workspace-relative paths under '' @ prefix @ [47]) else e)
      | Inr (normalized, is_directory) \<Rightarrow>
          if path_is_under (rstrip_slash normalized) prefix then Inr [normalized]
          else Inl (ValueError (lit ''deliverables must stay under '' @ prefix @ [47]))))"

definition validate_task_deliverables :: "(json \<Rightarrow> pystr) \<Rightarrow> pystr \<Rightarrow> json list \<Rightarrow> pystr list res" where
  "validate_task_deliverables R task_id items =
     bindE (mapE (task_deliverable R (lit ''shared/tasks/'' @ task_id)) items) (\<lambda>paths. Inr (concat paths))"

text \<open>What a leader sees of a submitted task: its result and what is wrong with it.\<close>

definition result_of_meta :: "(json \<Rightarrow> pystr) \<Rightarrow> dict \<Rightarrow> dict" where
  "result_of_meta R task =
     [(lit ''status'', JStr (strip_at R task [''result_status''])), (lit ''summary'', JStr (strip_at R task [''summary''])),
      (lit ''deliverables'', JArr (map (\<lambda>v. JStr (py_str R v)) (json_items (payload_get task ''deliverables''))))]"

definition result_errors :: "'s harness_env \<Rightarrow> dict \<Rightarrow> pystr list res" where
  "result_errors E task =
     (let R = he_repr E; status = strip_at R task [''result_status''];
          items = map (\<lambda>v. JStr (py_str R v)) (json_items (payload_get task ''deliverables'')) in
      bindE (case validate_task_deliverables R (text_at R task [''task_id'']) items of
          Inr _ \<Rightarrow> Inr [] | Inl e \<Rightarrow> if is_value_error e then Inr [he_exc_text E e] else Inl e) (\<lambda>wrong.
      Inr ((if status = [] then [lit ''missing result status'']
            else if status \<notin> set (map lit h_result_statuses) then [lit ''invalid result status: '' @ status] else [])
           @ (if strip_at R task [''summary''] = [] then [lit ''missing result summary''] else []) @ wrong)))"

section \<open>Actions\<close>

definition for_roles :: "string \<Rightarrow> string list \<Rightarrow> string \<Rightarrow> pystr \<Rightarrow> unit res" where
  "for_roles action roles named role =
     raise_if (role \<notin> set (map lit roles)) (ValueError (lit action @ lit '' requires '' @ lit named @ lit '' role''))"

text \<open>
  The node of the plan that names the task: a first look, for its effect only, goes through
  \<open>project.get("tasks", [])\<close>; the one that counts takes the nodes of the loop too.
\<close>

definition assignee :: "(json \<Rightarrow> pystr) \<Rightarrow> dict \<Rightarrow> dict \<Rightarrow> pystr \<Rightarrow> pystr" where
  "assignee R payload project task_id =
     (let given = strip_at R payload [''assignedTo'', ''assigned_to''];
          nodes = filter (\<lambda>d. payload_get d ''task_id'' = JStr task_id)
            (List.map_filter (\<lambda>v. case v of JObj d \<Rightarrow> Some d | _ \<Rightarrow> None) (plan_items project)) in
      if given \<noteq> [] then given else (case nodes of [] \<Rightarrow> [] | d # _ \<Rightarrow> strip_at R d [''assigned_to'']))"

definition if_text :: "string \<Rightarrow> pystr \<Rightarrow> dict" where
  "if_text key t = (if t = [] then [] else [(lit key, JStr t)])"

definition h_delegate_task :: "'s harness_env \<Rightarrow> dict \<Rightarrow> dict \<Rightarrow> pystr \<Rightarrow> ('s, dict) harness" where
  "h_delegate_task E arguments payload role =
     (let R = he_repr E; room_id = text_at R payload [''roomId'', ''room_id'']; spec = text_at R payload [''spec''] in
      bindS (liftS (for_roles ''delegate_task'' [''leader''] ''leader'' role)) (\<lambda>_.
      bindS (liftS (id_of R payload ''projectId'' ''project_id'')) (\<lambda>project_id.
      bindS (liftS (id_of R payload ''taskId'' ''task_id'')) (\<lambda>task_id.
      bindS (liftS (raise_if (room_id = []) (werr ''roomId is required''))) (\<lambda>_.
      bindS (read_project E arguments project_id) (\<lambda>project.
      bindS (if strip_at R payload [''assignedTo'', ''assigned_to''] = []
             then liftS (bindE (list_of_value (get_or project ''tasks'' (JArr []))) (\<lambda>_. Inr ())) else returnS ()) (\<lambda>_.
      bindS (validate_assignment_room E project room_id) (\<lambda>_.
      bindS (validate_task_redelegation E arguments project task_id room_id) (\<lambda>_.
      bindS (liftS (task_state_path E arguments task_id)) (\<lambda>path.
      bindS (read_meta path [(lit ''project_id'', JStr project_id)]) (\<lambda>existing.
      bindS (require_task_mutable E arguments existing task_id ''delegate_task'') (\<lambda>_.
      let assigned_to = assignee R payload project task_id;
          given_source = source_room_id_from_payload R payload [];
          source = (if given_source = [] then strip_at R project [''source_room_id''] else given_source);
          task = [(lit ''task_id'', JStr task_id), (lit ''project_id'', JStr project_id), (lit ''room_id'', JStr room_id),
            (lit ''status'', JStr (lit ''assigned'')), (lit ''spec_path'', JStr (task_spec_path task_id))]
            @ if_text ''assigned_to'' assigned_to @ if_text ''source_room_id'' source;
          updates = (lit ''status'', JStr (lit ''assigned'')) # if_text ''assigned_to'' assigned_to @ if_text ''source_room_id'' source in
      bindS (write_spec E arguments task_id (spec @ (if spec = [] then [] else [10]))) (\<lambda>_.
      bindS (write_task E arguments task) (\<lambda>task.
      bindS (update_project_task E arguments project_id task_id updates) (\<lambda>_.
      bindS (sync_task E arguments task_id None) (\<lambda>synced.
      returnS (flow_ok ''taskflow'' (lit ''delegate_task'')
        [(lit ''task'', JObj task), (lit ''synced'', JBool synced),
         (lit ''notificationNeeded'', JObj (notification_needed R ''delegate_task''
           (if project = [] then [(lit ''project_id'', JStr project_id)] else project) task
           (Some (lit ''delegate_task: '' @ task_id @ lit '' assigned to '' @ assigned_to)) True))])))))))))))))))))"

definition result_exclude :: "string list option" where
  "result_exclude = Some [''spec.md'', ''base/'']"

definition h_ack_task :: "'s harness_env \<Rightarrow> dict \<Rightarrow> dict \<Rightarrow> pystr \<Rightarrow> ('s, dict) harness" where
  "h_ack_task E arguments payload role =
     (let R = he_repr E in
      bindS (liftS (for_roles ''ack_task'' [''worker'', ''remote-member''] ''worker or remote-member'' role)) (\<lambda>_.
      bindS (liftS (id_of R payload ''taskId'' ''task_id'')) (\<lambda>task_id.
      bindS (pull_task E arguments task_id) (\<lambda>pulled.
      bindS (load_task E arguments task_id) (\<lambda>task.
      bindS (require_task_mutable E arguments task task_id ''ack_task'') (\<lambda>_.
      bindS (if payload_get task ''status'' = JStr (lit ''submitted'') then returnS task
             else
               bindS (write_task E arguments
                 (put ''acknowledged_by_role'' (JStr role) (set_status (lit ''in_progress'') task))) (\<lambda>task.
               bindS (update_project_task E arguments (text_at R task [''project_id'']) task_id
                 [(lit ''status'', JStr (lit ''in_progress''))]) (\<lambda>_. returnS task))) (\<lambda>task.
      bindS (liftS (task_dir E arguments task_id)) (\<lambda>dir.
      bindS (getS (\<lambda>w. case hw_text w (path_join dir (lit ''spec.md'')) of None \<Rightarrow> [] | Some t \<Rightarrow> t)) (\<lambda>spec.
      bindS (sync_task E arguments task_id result_exclude) (\<lambda>synced.
      returnS (flow_ok ''taskflow'' (lit ''ack_task'')
        [(lit ''task'', JObj task), (lit ''spec'', JStr spec), (lit ''pulled'', JBool pulled),
         (lit ''synced'', JBool synced)])))))))))))"

definition submitted_task :: "pystr \<Rightarrow> pystr \<Rightarrow> pystr list \<Rightarrow> pystr \<Rightarrow> pystr \<Rightarrow> bool \<Rightarrow> dict \<Rightarrow> dict" where
  "submitted_task status summary deliverables role task_id has_result task =
     (let task = put_all [(lit ''status'', JStr (lit ''submitted'')), (lit ''result_status'', JStr status),
            (lit ''summary'', JStr summary), (lit ''deliverables'', JArr (map JStr deliverables)),
            (lit ''submitted_by_role'', JStr role)] task in
      if has_result then put ''result_path'' (JStr (lit ''shared/tasks/'' @ task_id @ lit ''/result.md'')) task
      else drop_fields [''result_path''] task)"

definition h_submit_task :: "'s harness_env \<Rightarrow> dict \<Rightarrow> dict \<Rightarrow> pystr \<Rightarrow> ('s, dict) harness" where
  "h_submit_task E arguments payload role =
     (let R = he_repr E; given = payload_get payload ''deliverables'' in
      bindS (liftS (for_roles ''submit_task'' [''worker'', ''remote-member''] ''worker or remote-member'' role)) (\<lambda>_.
      bindS (liftS (id_of R payload ''taskId'' ''task_id'')) (\<lambda>task_id.
      bindS (load_task E arguments task_id) (\<lambda>task.
      bindS (require_task_mutable E arguments task task_id ''submit_task'') (\<lambda>_.
      bindS (liftS (submit_task_result_status R payload)) (\<lambda>status.
      bindS (liftS (if \<not> truthy given then Inr [] else (case given of JArr items \<Rightarrow> Inr items
        | _ \<Rightarrow> Inl (werr ''deliverables must be a list'')))) (\<lambda>items.
      bindS (liftS (validate_task_deliverables R task_id items)) (\<lambda>deliverables.
      bindS (liftS (task_dir E arguments task_id)) (\<lambda>dir.
      bindS (getS (\<lambda>w. hw_text w (path_join dir (lit ''result.md'')) \<noteq> None)) (\<lambda>has_result.
      bindS (write_task E arguments
        (submitted_task status (text_at R payload [''summary'']) deliverables role task_id has_result task)) (\<lambda>task.
      bindS (update_project_task E arguments (text_at R task [''project_id'']) task_id
        [(lit ''status'', JStr (lit ''submitted''))]) (\<lambda>_.
      bindS (publish_task_artifacts E arguments task task_id deliverables
        (attachment_parent_event_id R [payload, arguments])) (\<lambda>published.
      bindS (sync_task E arguments task_id result_exclude) (\<lambda>synced.
      returnS (flow_ok ''taskflow'' (lit ''submit_task'')
        [(lit ''task'', JObj task), (lit ''publishedArtifacts'', jrows published), (lit ''synced'', JBool synced),
         (lit ''notificationNeeded'', JObj (notification_needed R ''submit_task''
           [(lit ''project_id'', get_or task ''project_id'' (JStr []))] task
           (Some (lit ''submit_task: '' @ task_id @ lit '' ('' @ status @ lit '')'')) True))])))))))))))))))"

definition cancelled_task :: "(json \<Rightarrow> pystr) \<Rightarrow> json \<Rightarrow> pystr \<Rightarrow> dict \<Rightarrow> dict res" where
  "cancelled_task R replacement reason task =
     (let task = put ''cancel_reason'' (JStr reason) (set_status (lit ''cancelled'') task) in
      if truthy replacement then
        bindE (safe_id R replacement ''replacementTaskId'') (\<lambda>i. Inr (put ''replacement_task_id'' (JStr i) task))
      else Inr (drop_fields [''replacement_task_id''] task))"

definition h_cancel_task :: "'s harness_env \<Rightarrow> dict \<Rightarrow> dict \<Rightarrow> pystr \<Rightarrow> ('s, dict) harness" where
  "h_cancel_task E arguments payload role =
     (let R = he_repr E; reason = strip_at R payload [''reason'', ''cancelReason'', ''cancel_reason''] in
      bindS (liftS (for_roles ''cancel_task'' [''leader''] ''leader'' role)) (\<lambda>_.
      bindS (liftS (id_of R payload ''taskId'' ''task_id'')) (\<lambda>task_id.
      bindS (load_task E arguments task_id) (\<lambda>task.
      let project_id = text_at R task [''project_id''] in
      bindS (terminal_task_status E arguments task task_id) (\<lambda>terminal.
      bindS (liftS (raise_if (terminal \<noteq> []) (ValueError (lit ''cannot cancel terminal task: '' @ terminal)))) (\<lambda>_.
      bindS (liftS (raise_if (reason = []) (werr ''reason is required''))) (\<lambda>_.
      bindS (liftS (cancelled_task R (either payload ''replacementTaskId'' ''replacement_task_id'') reason task)) (\<lambda>task.
      bindS (write_task E arguments task) (\<lambda>task.
      bindS (update_project_task E arguments project_id task_id [(lit ''status'', JStr (lit ''cancelled''))]) (\<lambda>_.
      bindS (if project_id = [] then returnS [] else read_project E arguments project_id) (\<lambda>project.
      bindS (sync_task E arguments task_id result_exclude) (\<lambda>synced.
      returnS (flow_ok ''taskflow'' (lit ''cancel_task'')
        [(lit ''task'', JObj task), (lit ''project'', JObj project), (lit ''synced'', JBool synced)])))))))))))))"

definition h_check_task :: "'s harness_env \<Rightarrow> dict \<Rightarrow> dict \<Rightarrow> pystr \<Rightarrow> ('s, dict) harness" where
  "h_check_task E arguments payload role =
     (let R = he_repr E in
      bindS (liftS (for_roles ''check_task'' [''leader''] ''leader'' role)) (\<lambda>_.
      bindS (liftS (id_of R payload ''taskId'' ''task_id'')) (\<lambda>task_id.
      bindS (pull_task E arguments task_id) (\<lambda>pulled.
      bindS (load_task E arguments task_id) (\<lambda>task.
      bindS (liftS (result_errors E task)) (\<lambda>errors.
      returnS (flow_ok ''taskflow'' (lit ''check_task'')
        [(lit ''task'', JObj task), (lit ''result'', JObj (result_of_meta R task)),
         (lit ''validationErrors'', JArr (map JStr errors)),
         (lit ''effective'', JBool (payload_get task ''status'' = JStr (lit ''submitted'') \<and> errors = [])),
         (lit ''pulled'', JBool pulled)])))))))"

section \<open>The tool\<close>

definition task_actions ::
  "(string \<times> ('s harness_env \<Rightarrow> dict \<Rightarrow> dict \<Rightarrow> pystr \<Rightarrow> ('s, dict) harness)) list" where
  "task_actions = [(''delegate_task'', h_delegate_task), (''ack_task'', h_ack_task), (''submit_task'', h_submit_task),
     (''cancel_task'', h_cancel_task), (''check_task'', h_check_task)]"

definition h_taskflow :: "'s harness_env \<Rightarrow> dict \<Rightarrow> ('s, dict) harness" where
  "h_taskflow E arguments =
     (let action = strip_at (he_repr E) arguments [''action''] in
      bindS (liftS (h_payload E arguments)) (\<lambda>payload.
      bindS (h_role E arguments) (\<lambda>role.
      case map_of (map (\<lambda>(n, f). (lit n, f)) task_actions) action of
        None \<Rightarrow> returnS (flow_failed ''taskflow'' action (lit ''unsupported action: '' @ action))
      | Some act \<Rightarrow>
          on_value_error (act E arguments payload role)
            (\<lambda>e. returnS (flow_failed ''taskflow'' action (he_exc_text E e))))))"

end
