(* ===== verification/Harness_Keep.thy ===== *)
theory Harness_Keep
  imports Harness_Taskflow
begin

text \<open>
  What the tools of TeamHarness keep of the documents in the state files: a locale states what a property
  of task lists and loops must satisfy, and gives that every action of \<open>projectflow\<close> and \<open>taskflow\<close> keeps it.
\<close>

section \<open>Operations that keep a set of worlds\<close>

definition stable :: "('w \<Rightarrow> bool) \<Rightarrow> ('w, 'a) actS \<Rightarrow> bool" where
  "stable P m \<longleftrightarrow> (\<forall>w. P w \<longrightarrow> P (snd (m w)))"

named_theorems stable_intros \<open>operations that keep a set of worlds\<close>

lemma stableD: "stable P m \<Longrightarrow> P w \<Longrightarrow> m w = (r, w') \<Longrightarrow> P w'"
  unfolding stable_def by (metis snd_conv)

lemma stable_readonly: "readonly m \<Longrightarrow> stable P m"
  by (simp add: stable_def readonly_def)

lemma stable_basic [stable_intros]:
  "stable P (returnS x)" "stable P (raiseS e)" "stable P (liftS r)" "stable P (getS g)"
  by (intro stable_readonly readonly_intros)+

lemma stable_bind_result:
  assumes "stable P m" and "\<And>x w w'. P w \<Longrightarrow> m w = (Inr x, w') \<Longrightarrow> stable P (f x)"
  shows "stable P (bindS m f)"
  unfolding stable_def
proof (intro allI impI)
  fix w
  assume w: "P w"
  obtain r w' where m: "m w = (r, w')" by force
  show "P (snd (bindS m f w))"
  proof (cases r)
    case (Inl e)
    then show ?thesis using stableD[OF assms(1) w m] m by (simp add: bindS_def)
  next
    case (Inr x)
    obtain r2 w2 where f: "f x w' = (r2, w2)" by force
    have "P w2" using stableD[OF assms(2)[OF w m[unfolded Inr]] stableD[OF assms(1) w m] f] .
    then show ?thesis using m f Inr by (simp add: bindS_def)
  qed
qed

lemma stable_bind [stable_intros]: "stable P m \<Longrightarrow> (\<And>x. stable P (f x)) \<Longrightarrow> stable P (bindS m f)"
  by (rule stable_bind_result)

lemma stable_bind_lift: "(\<And>x. m = Inr x \<Longrightarrow> stable P (f x)) \<Longrightarrow> stable P (bindS (liftS m) f)"
  by (rule stable_bind_result) (auto intro: stable_basic)

lemma stable_if [stable_intros]: "(b \<Longrightarrow> stable P m) \<Longrightarrow> (\<not> b \<Longrightarrow> stable P n) \<Longrightarrow> stable P (if b then m else n)"
  by simp

lemma stable_option [stable_intros]:
  "stable P m \<Longrightarrow> (\<And>x. stable P (f x)) \<Longrightarrow> stable P (case v of None \<Rightarrow> m | Some x \<Rightarrow> f x)"
  by (cases v) simp_all

lemma stable_sum [stable_intros]:
  "(\<And>x. stable P (f x)) \<Longrightarrow> (\<And>x. stable P (g x)) \<Longrightarrow> stable P (case v of Inl x \<Rightarrow> f x | Inr x \<Rightarrow> g x)"
  by (cases v) simp_all

lemma stable_pair [stable_intros]: "(\<And>a b. v = (a, b) \<Longrightarrow> stable P (f a b)) \<Longrightarrow> stable P (case v of (a, b) \<Rightarrow> f a b)"
  by (cases v) simp

lemma stable_let [stable_intros]: "(\<And>y. y = x \<Longrightarrow> stable P (f y)) \<Longrightarrow> stable P (let y = x in f y)"
  by simp

lemma stable_on_value_error [stable_intros]:
  "stable P m \<Longrightarrow> (\<And>e. stable P (h e)) \<Longrightarrow> stable P (on_value_error m h)"
  unfolding stable_def on_value_error_def by (auto split: prod.split sum.split)

section \<open>Readers\<close>

lemma read_value_eval: "read_value path d w = ((case hw_meta w path of None \<Rightarrow> Inr (JObj d) | Some r \<Rightarrow> r), w)"
  by (simp add: read_value_def)

lemma read_meta_eval:
  "read_meta path d w = ((case hw_meta w path of None \<Rightarrow> Inr d | Some r \<Rightarrow> bindE r fields_of), w)"
  by (simp add: read_meta_def bindS_def[of "read_value _ _"] read_value_eval split: option.split sum.split)

lemma look_meta_eval:
  "look_meta path w = ((case hw_meta w path of None \<Rightarrow> Inr [] | Some r \<Rightarrow> bindE r (\<lambda>v. if truthy v then fields_of v else Inr [])), w)"
  by (simp add: look_meta_def bindS_def[of "read_value _ _"] read_value_eval split: option.split sum.split)

lemma readonly_harness [readonly_intros]:
  "readonly (h_load_runtime_config E)" "readonly (runtime_team_room_id E)" "readonly (runtime_role E)" "readonly (h_role E a)"
  "readonly (prefix_of_config E k)" "readonly (default_shared_prefix E)" "readonly (default_global_shared_prefix E)"
  "readonly (read_meta p d)" "readonly (read_project E a i)" "readonly (read_task E a i)"
  "readonly (look_meta p)" "readonly (look_project E a i)" "readonly (look_task E a i)" "readonly (task_value E a i)"
proof -
  show config: "readonly (h_load_runtime_config E)"
    unfolding h_load_runtime_config_def Let_def by (intro readonly_intros)
  show "readonly (runtime_team_room_id E)" "readonly (h_role E a)" "readonly (runtime_role E)"
    unfolding runtime_team_room_id_def h_role_def runtime_role_def Let_def by (intro readonly_intros config)+
  show prefix: "readonly (prefix_of_config E k)" for k
    unfolding prefix_of_config_def Let_def by (intro readonly_intros config)
  show "readonly (default_shared_prefix E)" "readonly (default_global_shared_prefix E)"
    unfolding default_shared_prefix_def default_global_shared_prefix_def Let_def by (intro readonly_intros prefix)+
  show "readonly (read_meta p d)" "readonly (read_project E a i)" "readonly (read_task E a i)"
    "readonly (look_meta p)" "readonly (look_project E a i)" "readonly (look_task E a i)" "readonly (task_value E a i)"
    unfolding read_project_def read_task_def read_meta_def look_project_def look_task_def task_value_def look_meta_def read_value_def
    by (intro readonly_intros)+
qed

lemma readonly_checks [readonly_intros]:
  "readonly (remote_of E s k m)" if "readonly m"
  unfolding remote_of_def Let_def by (intro readonly_intros that)

lemma readonly_on_value_error [readonly_intros]:
  "readonly m \<Longrightarrow> (\<And>e. readonly (h e)) \<Longrightarrow> readonly (on_value_error m h)"
  unfolding readonly_def on_value_error_def by (auto split: prod.split sum.split) (metis snd_conv)+

lemma readonly_resolve_filesync [readonly_intros]: "readonly (resolve_filesync E a)"
  unfolding resolve_filesync_def Let_def by (intro readonly_intros)

lemma readonly_rooms [readonly_intros]:
  "readonly (validate_assignment_room E p r)" "readonly (validate_task_redelegation E a p i r)"
  "readonly (project_exists E a i)" "readonly (existing_project E a i)" "readonly (read_or_unplanned E a i)"
  unfolding validate_assignment_room_def validate_task_redelegation_def project_exists_def existing_project_def
    read_or_unplanned_def Let_def
  by (intro readonly_intros)+

lemma readonly_project_id [readonly_intros]: "readonly (project_id_from_payload E a p)"
proof -
  have "readonly (first_free E a b cs)" for b cs
    by (induction cs; simp only: first_free.simps; intro readonly_intros)
  then show ?thesis unfolding project_id_from_payload_def h_unique_project_id_def Let_def by (intro readonly_intros)
qed

lemma readonly_tasks [readonly_intros]:
  "readonly (project_task_for_meta E a t)" "readonly (preserve_task_meta_fields E a t)"
  "readonly (ensure_console_task_meta E a t)" "readonly (load_task E a i)" "readonly (terminal_task_status E a t i)"
  "readonly (require_task_mutable E a t i s)"
proof -
  show node: "readonly (project_task_for_meta E a t)" for t
    unfolding project_task_for_meta_def Let_def by (intro readonly_intros)
  show keep: "readonly (preserve_task_meta_fields E a t)"
    unfolding preserve_task_meta_fields_def Let_def by (intro readonly_intros node)
  show "readonly (ensure_console_task_meta E a t)"
    unfolding ensure_console_task_meta_def by (intro readonly_intros node keep)
  show "readonly (load_task E a i)"
    unfolding load_task_def by (intro readonly_intros)
  show terminal: "readonly (terminal_task_status E a t i)"
    unfolding terminal_task_status_def project_of_task_def Let_def by (intro readonly_intros)
  show "readonly (require_task_mutable E a t i s)"
    unfolding require_task_mutable_def by (intro readonly_intros terminal)
qed

lemma readonly_artifacts [readonly_intros]:
  "readonly (matrix_attachment_context_parent_event_id E r)" "readonly (check_artifact E a s f x p)"
proof -
  have "stable (\<lambda>w'. w' = w) (matrix_attachment_context_parent_event_id E r)" for w
    unfolding matrix_attachment_context_parent_event_id_def Let_def
    by (intro stable_intros) (auto intro!: stable_intros split: sum.split exc.split)
  then show "readonly (matrix_attachment_context_parent_event_id E r)" by (simp add: stable_def readonly_def)
  have "stable (\<lambda>w'. w' = w) (check_artifact E a s f x p)" for w
    unfolding check_artifact_def Let_def
    by (auto intro!: stable_intros split: sum.split exc.split)
  then show "readonly (check_artifact E a s f x p)" by (simp add: stable_def readonly_def)
qed

section \<open>What lies outside\<close>

text \<open>Processes and requests keep a set of worlds.\<close>

definition outside_keeps :: "('s harness_world \<Rightarrow> bool) \<Rightarrow> 's harness_env \<Rightarrow> bool" where
  "outside_keeps P E \<longleftrightarrow> (\<forall>q w. P w \<longrightarrow> P (snd (he_run E q w))) \<and> (\<forall>q w. P w \<longrightarrow> P (snd (he_http E q w)))"

lemma stable_outside:
  assumes "outside_keeps P E"
  shows "stable P (h_run E q)" and "stable P (h_http E r)"
  using assms by (auto simp: stable_def outside_keeps_def h_run_def h_http_def split: prod.split) (metis snd_conv)+

lemma stable_filesync:
  assumes "outside_keeps P E"
  shows "stable P (h_filesync E a)" and "stable P (sync_task E a i x)"
proof -
  note run = stable_outside(1)[OF assms]
  have configured: "stable P (mc_alias_configured E)"
    unfolding mc_alias_configured_def by (intro stable_intros run)
  have env: "stable P (filesync_mc_env E r)" for r
    unfolding filesync_mc_env_def Let_def by (intro stable_intros configured)
  have "stable P (run_filesync E t x)" for t x
    unfolding run_filesync_def by (intro stable_intros env run)
  then show filesync: "stable P (h_filesync E a)" for a
    unfolding h_filesync_def by (intro stable_intros stable_readonly[OF readonly_resolve_filesync])
  show "stable P (sync_task E a i x)"
    unfolding sync_task_def by (intro stable_intros filesync)
qed

lemma stable_publish:
  assumes "outside_keeps P E"
  shows "stable P (publish_task_artifacts E a t i ds p)" and "stable P (publish_project_artifacts E a pr pi ti p)"
proof -
  note http = stable_outside(2)[OF assms]
  have upload: "stable P (matrix_upload_artifact E h pa f m)" for h pa f m
    unfolding matrix_upload_artifact_def Let_def by (intro stable_intros http)
  have event: "stable P (matrix_send_file_event E h r c)" for h r c
    unfolding matrix_send_file_event_def by (intro stable_intros http)
  have send: "stable P (send_artifact E r pa f pe x)" for r pa f pe x
    unfolding send_artifact_def Let_def by (intro stable_intros upload event)
  have "stable P (publish_workspace_artifact E a r s f x p)" for r s f x p
    unfolding publish_workspace_artifact_def Let_def
    by (intro stable_intros send stable_readonly[OF readonly_artifacts(1)] stable_readonly[OF readonly_artifacts(2)])
  then have files: "stable P (publish_files E a r x p fs)" for r x p fs
    by (induction fs) (auto intro!: stable_intros)
  show "stable P (publish_task_artifacts E a t i ds p)"
    unfolding publish_task_artifacts_def Let_def by (intro stable_intros files)
  show "stable P (publish_project_artifacts E a pr pi ti p)"
    unfolding publish_project_artifacts_def by (intro stable_intros files stable_readonly readonly_intros)
qed

end
