(* ===== verification/Harness_Docs.thy ===== *)
theory Harness_Docs
  imports Harness_Keep
begin

text \<open>
  Properties of the documents in the state files: a locale states what a property of task lists and of loops
  must satisfy, and gives that every action of \<open>projectflow\<close> and \<open>taskflow\<close> keeps it in all files.
\<close>

section \<open>Documents\<close>

definition doc_ok :: "(json \<Rightarrow> bool) \<Rightarrow> (json \<Rightarrow> bool) \<Rightarrow> dict \<Rightarrow> bool" where
  "doc_ok T L d \<longleftrightarrow> T (payload_get d ''tasks'') \<and> L (payload_get d ''loop'')"

definition docs_ok :: "(json \<Rightarrow> bool) \<Rightarrow> (json \<Rightarrow> bool) \<Rightarrow> 's harness_world \<Rightarrow> bool" where
  "docs_ok T L w \<longleftrightarrow> (\<forall>p d. hw_meta w p = Some (Inr (JObj d)) \<longrightarrow> doc_ok T L d)"

lemma doc_ok_put: "k \<noteq> ''tasks'' \<Longrightarrow> k \<noteq> ''loop'' \<Longrightarrow> doc_ok T L (put k v d) = doc_ok T L d"
  by (simp add: doc_ok_def payload_get_put)

lemma payload_get_drop:
  "payload_get (drop_fields names d) k = (if k \<in> set names then JNull else payload_get d k)"
proof -
  have "map_of (drop_fields names d) (lit k) = (if k \<in> set names then None else map_of d (lit k))"
    unfolding drop_fields_def by (induction d) auto
  then show ?thesis by (simp add: payload_get_def)
qed

lemma payload_get_put_all:
  assumes "lit k \<notin> fst ` set updates"
  shows "payload_get (put_all updates d) k = payload_get d k"
  using assms unfolding put_all_def
  by (induction updates arbitrary: d) (auto simp: payload_get_def update_conv')

lemma doc_ok_fold:
  assumes "\<And>x d. x \<in> set xs \<Longrightarrow> doc_ok T L d \<Longrightarrow> doc_ok T L (f x d)" and "doc_ok T L d"
  shows "doc_ok T L (fold f xs d)"
  using assms by (induction xs arbitrary: d) simp_all

lemma doc_ok_keep_field: "p \<in> set kept_fields \<Longrightarrow> doc_ok T L d \<Longrightarrow> doc_ok T L (keep_field R ds p d)"
  by (auto simp: keep_field_def kept_fields_def doc_ok_put Let_def)

lemma doc_ok_optional: "p \<in> set optional_fields \<Longrightarrow> doc_ok T L d \<Longrightarrow> doc_ok T L (optional_field R p d)"
  by (auto simp: optional_field_def optional_fields_def doc_ok_put Let_def)

lemma doc_ok_let:
  "(\<And>y. doc_ok T L y \<Longrightarrow> doc_ok T L (f y)) \<Longrightarrow> doc_ok T L d \<Longrightarrow> doc_ok T L (let y = d in f y)"
  "(\<And>y. doc_ok T L (g y)) \<Longrightarrow> doc_ok T L (let y = x in g y)"
  by simp_all

lemma doc_ok_console: "doc_ok T L d \<Longrightarrow> doc_ok T L (console_fields E node d)"
proof -
  assume d: "doc_ok T L d"
  have drop: "doc_ok T L d \<Longrightarrow> doc_ok T L (drop_fields dropped_fields (fold (optional_field R) optional_fields d))" for R d
    using doc_ok_fold[OF doc_ok_optional] by (simp add: doc_ok_def payload_get_drop dropped_fields_def)
  have set: "k \<noteq> ''tasks'' \<Longrightarrow> k \<noteq> ''loop'' \<Longrightarrow> doc_ok T L d \<Longrightarrow> doc_ok T L (set_text R k ns os d)" for R k ns os d
    by (simp add: set_text_def doc_ok_put)
  show ?thesis
    unfolding console_fields_def
    by (rule doc_ok_let(2), (rule doc_ok_let(1) doc_ok_let(2) drop set, assumption?)+) (auto simp: doc_ok_put intro!: set d)
qed

text \<open>What reading and writing give in worlds with such documents.\<close>

lemma docs_okD: "docs_ok T L w \<Longrightarrow> hw_meta w p = Some (Inr (JObj d)) \<Longrightarrow> doc_ok T L d"
  by (auto simp: docs_ok_def)

lemma fields_of_iff: "fields_of v = Inr d \<longleftrightarrow> v = JObj d"
  by (cases v) auto

lemma read_meta_ok:
  assumes "docs_ok T L w" and "doc_ok T L dflt" and "read_meta p dflt w = (Inr d, w')"
  shows "doc_ok T L d"
  using assms
  by (auto simp: read_meta_def read_value_def fields_of_iff elim!: bindS_cases split: option.splits dest: docs_okD)

lemma look_meta_ok:
  assumes "docs_ok T L w" and "doc_ok T L []" and "look_meta p w = (Inr d, w')"
  shows "doc_ok T L d"
  using assms
  by (auto simp: look_meta_def read_value_def fields_of_iff elim!: bindS_cases split: option.splits if_splits dest: docs_okD)

lemma keep_from_cases:
  assumes "keep_from R existing others task = Inr task'"
  obtains "task' = task" | ds where "task' = fold (keep_field R ds) kept_fields task"
  using assms by (auto simp: keep_from_def split: sum.splits if_splits)

lemma stable_read_meta:
  assumes "doc_ok T L dflt" and "\<And>d. doc_ok T L d \<Longrightarrow> stable (docs_ok T L) (f d)"
  shows "stable (docs_ok T L) (bindS (read_meta p dflt) f)"
  by (rule stable_bind_result) (auto intro: stable_readonly readonly_harness assms(2) dest: read_meta_ok[OF _ assms(1)])

lemma stable_write_meta: "doc_ok T L d \<Longrightarrow> stable (docs_ok T L) (write_meta p d)"
  by (auto simp: stable_def write_meta_def docs_ok_def)

lemma stable_write_text [stable_intros]: "stable (docs_ok T L) (write_text p t)"
  by (simp add: stable_def write_text_def docs_ok_def)

lemma stable_write_spec [stable_intros]: "stable (docs_ok T L) (write_spec E a i t)"
  unfolding write_spec_def by (intro stable_intros)

lemma stable_write_project:
  assumes "doc_ok T L d"
  shows "stable (docs_ok T L) (write_project E a i d)"
  unfolding write_project_def by (intro stable_intros stable_write_meta assms)

lemma ensure_ok:
  assumes "docs_ok T L w" and "doc_ok T L d" and "ensure_console_task_meta E a d w = (Inr d', w')"
  shows "doc_ok T L d'"
proof -
  have kept: "doc_ok T L d1" if "preserve_task_meta_fields E a d w = (Inr d1, w1)" for d1 w1
    using that assms(2)
    by (auto simp: preserve_task_meta_fields_def Let_def returnS_def liftS_def intro!: doc_ok_fold doc_ok_keep_field
        elim!: bindS_cases keep_from_cases split: if_splits sum.splits)
  show ?thesis
    using assms(3) unfolding ensure_console_task_meta_def
    by (auto simp: returnS_def intro!: doc_ok_console elim!: bindS_cases dest: kept)
qed

lemma stable_write_task:
  assumes "doc_ok T L d"
  shows "stable (docs_ok T L) (write_task E a d)"
  unfolding write_task_def
  by (rule stable_bind_result)
    (auto intro!: stable_intros stable_write_meta stable_readonly[OF readonly_tasks(3)] dest: ensure_ok[OF _ assms])

text \<open>Reading a task or a project, and going on with what was read.\<close>

text \<open>Changes of a task that concern its status, not its place in the plan.\<close>

definition keeps_node :: "(dict \<Rightarrow> dict) \<Rightarrow> bool" where
  "keeps_node f \<longleftrightarrow> (\<forall>t. payload_get (f t) ''task_id'' = payload_get t ''task_id''
     \<and> payload_get (f t) ''depends_on'' = payload_get t ''depends_on'' \<and> (\<exists>s. payload_get (f t) ''status'' = JStr s))"

locale stored_documents =
  fixes T :: "json \<Rightarrow> bool" and L :: "json \<Rightarrow> bool"
  assumes tasks_none: "T JNull" and tasks_nil: "T (JArr [])"
    and tasks_planned: "planned_tasks R previous raw = Inr ts \<Longrightarrow> T (jrows ts)"
    and tasks_single: "payload_get node ''task_id'' = JStr i \<Longrightarrow> payload_get node ''depends_on'' = JArr [] \<Longrightarrow>
      payload_get node ''status'' = JStr s \<Longrightarrow> T (jrows [node])"
    and tasks_updated: "T v \<Longrightarrow> keeps_node f \<Longrightarrow>
      update_tasks i f v = Inr (v', True) \<Longrightarrow> T v'"
    and loop_none: "L JNull"
    and loop_planned: "planned_loop R payload known = Inr l \<Longrightarrow> L (JObj l)"
    and loop_iterated: "L (JObj l) \<Longrightarrow> iterated_loop R payload l = Inr (l', n, dec) \<Longrightarrow> L (JObj l')"
    and loop_completed: "L (JObj l) \<Longrightarrow> L (JObj (put ''status'' (JStr (lit ''completed'')) l))"
    and loop_updated: "L (JObj l) \<Longrightarrow> keeps_node f \<Longrightarrow>
      update_tasks i f (JArr (json_items (payload_get l ''tasks''))) = Inr (v', True) \<Longrightarrow>
      L (JObj (put ''tasks'' v' l))"
begin

lemma doc_empty: "doc_ok T L []"
  by (simp add: doc_ok_def payload_get_def tasks_none loop_none)

lemma doc_unplanned: "doc_ok T L (unplanned_project i)"
  by (simp add: doc_ok_def payload_get_def unplanned_project_def tasks_nil loop_none)

lemma read_ok:
  assumes "docs_ok T L w"
  shows "read_project E a i w = (Inr d, w') \<Longrightarrow> doc_ok T L d" and "read_task E a i w = (Inr d, w') \<Longrightarrow> doc_ok T L d"
    and "existing_project E a i w = (Inr d, w') \<Longrightarrow> doc_ok T L d" and "load_task E a i w = (Inr d, w') \<Longrightarrow> doc_ok T L d"
    and "read_or_unplanned E a i w = (Inr d, w') \<Longrightarrow> doc_ok T L d"
    and "look_project E a i w = (Inr d, w') \<Longrightarrow> doc_ok T L d" and "look_task E a i w = (Inr d, w') \<Longrightarrow> doc_ok T L d"
proof -
  have read: "\<And>d w'. read_project E a i w = (Inr d, w') \<Longrightarrow> doc_ok T L d" "\<And>d w'. read_task E a i w = (Inr d, w') \<Longrightarrow> doc_ok T L d"
    using assms doc_empty unfolding read_project_def read_task_def by (auto simp: bindS_lift_ok intro: read_meta_ok)
  then show "read_project E a i w = (Inr d, w') \<Longrightarrow> doc_ok T L d" "read_task E a i w = (Inr d, w') \<Longrightarrow> doc_ok T L d"
    by blast+
  have look: "\<And>d w'. look_project E a i w = (Inr d, w') \<Longrightarrow> doc_ok T L d" "\<And>d w'. look_task E a i w = (Inr d, w') \<Longrightarrow> doc_ok T L d"
    using assms doc_empty unfolding look_project_def look_task_def by (auto simp: bindS_lift_ok intro: look_meta_ok)
  then show "look_project E a i w = (Inr d, w') \<Longrightarrow> doc_ok T L d" "look_task E a i w = (Inr d, w') \<Longrightarrow> doc_ok T L d"
    by blast+
  show "existing_project E a i w = (Inr d, w') \<Longrightarrow> doc_ok T L d"
    by (auto simp: existing_project_def raiseS_def returnS_def elim!: bindS_cases split: if_splits dest: look(1))
  show "load_task E a i w = (Inr d, w') \<Longrightarrow> doc_ok T L d"
    by (auto simp: load_task_def raiseS_def returnS_def doc_ok_put elim!: bindS_cases split: if_splits dest!: look(2))
  show "read_or_unplanned E a i w = (Inr d, w') \<Longrightarrow> doc_ok T L d"
    using assms doc_unplanned unfolding read_or_unplanned_def by (auto simp: bindS_lift_ok intro: read_meta_ok)
qed

lemma stable_reads:
  assumes "\<And>d. doc_ok T L d \<Longrightarrow> stable (docs_ok T L) (f d)"
  shows "stable (docs_ok T L) (bindS (read_project E a i) f)" and "stable (docs_ok T L) (bindS (read_task E a i) f)"
    and "stable (docs_ok T L) (bindS (existing_project E a i) f)" and "stable (docs_ok T L) (bindS (load_task E a i) f)"
    and "stable (docs_ok T L) (bindS (read_or_unplanned E a i) f)"
    and "stable (docs_ok T L) (bindS (look_project E a i) f)" and "stable (docs_ok T L) (bindS (look_task E a i) f)"
proof -
  note reader = stable_bind_result[OF stable_readonly]
  show "stable (docs_ok T L) (bindS (read_project E a i) f)" by (rule reader, rule readonly_intros) (rule assms, erule (1) read_ok)
  show "stable (docs_ok T L) (bindS (read_task E a i) f)" by (rule reader, rule readonly_intros) (rule assms, erule (1) read_ok)
  show "stable (docs_ok T L) (bindS (existing_project E a i) f)" by (rule reader, rule readonly_intros) (rule assms, erule (1) read_ok)
  show "stable (docs_ok T L) (bindS (load_task E a i) f)" by (rule reader, rule readonly_intros) (rule assms, erule (1) read_ok)
  show "stable (docs_ok T L) (bindS (read_or_unplanned E a i) f)" by (rule reader, rule readonly_intros) (rule assms, erule (1) read_ok)
  show "stable (docs_ok T L) (bindS (look_project E a i) f)" by (rule reader, rule readonly_intros) (rule assms, erule (1) read_ok)
  show "stable (docs_ok T L) (bindS (look_task E a i) f)" by (rule reader, rule readonly_intros) (rule assms, erule (1) read_ok)
qed

lemma update_plan_ok:
  assumes "doc_ok T L d" and "update_plan i f d = Inr (d', changed)"
    and "keeps_node f"
  shows "doc_ok T L d'"
proof -
  obtain ts c1 ls c2 where ts: "update_tasks i f (get_or d ''tasks'' (JArr [])) = Inr (ts, c1)"
    and ls: "update_tasks i f (JArr (json_items (payload_get
      (dict_or_empty (payload_get (if c1 then put ''tasks'' ts d else d) ''loop'')) ''tasks''))) = Inr (ls, c2)"
    and d': "d' = (let p = (if c1 then put ''tasks'' ts d else d) in
      if c2 then put ''loop'' (JObj (put ''tasks'' ls (dict_or_empty (payload_get p ''loop'')))) p else p)"
    using assms(2) by (auto simp: update_plan_def Let_def split: prod.splits)
  let ?p = "if c1 then put ''tasks'' ts d else d"
  have old: "T (get_or d ''tasks'' (JArr []))"
    using assms(1) tasks_nil by (auto simp: get_or_def doc_ok_def payload_get_def split: option.splits)
  have "c1 \<Longrightarrow> T ts" by (rule tasks_updated[OF old assms(3)]) (use ts in simp_all)
  then have p: "doc_ok T L ?p" using assms(1) by (auto simp: doc_ok_def payload_get_put)
  show ?thesis
  proof (cases c2)
    case False
    with p d' show ?thesis by simp
  next
    case True
    have "\<exists>l. payload_get ?p ''loop'' = JObj l"
      using ls True by (cases "payload_get ?p ''loop''") (auto simp: update_tasks_def list_of_value_def payload_get_def)
    then obtain l where l: "payload_get ?p ''loop'' = JObj l" ..
    have "L (JObj (put ''tasks'' ls l))"
      by (rule loop_updated[OF _ assms(3)]) (use ls p True l in \<open>simp_all add: doc_ok_def\<close>)
    then show ?thesis using p d' True l by (simp add: doc_ok_def payload_get_put)
  qed
qed

lemma stable_update_project_task:
  assumes "keeps_node (put_all u)"
  shows "stable (docs_ok T L) (update_project_task E a p i u)"
  unfolding update_project_task_def
  by (intro stable_reads stable_if stable_basic stable_bind_lift stable_pair stable_write_project)
    (metis update_plan_ok assms)

end

section \<open>The actions\<close>

lemma with_routes_ok:
  assumes "doc_ok T L d"
  shows "doc_ok T L (fst (with_routes R payload d))"
  using assms by (simp add: with_routes_def Let_def doc_ok_put)

lemma with_routes_pair:
  "(p, source) = with_routes R payload d \<Longrightarrow> doc_ok T L d \<Longrightarrow> doc_ok T L p"
  using with_routes_ok[of T L d R payload] by (metis fst_conv)

lemma quick_task_ok: "doc_ok T L d \<Longrightarrow> doc_ok T L (quick_task d source)"
  by (simp add: quick_task_def doc_ok_put)

lemma requester_report_ok: "doc_ok T L d \<Longrightarrow> doc_ok T L (requester_report R payload p t r n d)"
  by (simp add: requester_report_def Let_def doc_ok_put)

lemma submitted_task_ok: "doc_ok T L d \<Longrightarrow> doc_ok T L (submitted_task s y ds r t h d)"
  by (simp add: submitted_task_def Let_def doc_ok_def payload_get_put payload_get_put_all payload_get_drop)

lemma cancelled_task_ok: "cancelled_task R x reason d = Inr d' \<Longrightarrow> doc_ok T L d \<Longrightarrow> doc_ok T L d'"
  by (auto simp: cancelled_task_def Let_def set_status_def doc_ok_def payload_get_put payload_get_drop split: if_splits)

lemma keeps_node_status:
  "keeps_node (set_status s)" "keeps_node (put_all [(lit ''status'', JStr s)])"
  "keeps_node (put_all ((lit ''status'', JStr s) # if_text ''assigned_to'' x @ if_text ''source_room_id'' y))"
  by (simp_all add: keeps_node_def set_status_def put_all_def if_text_def payload_get_put flip: put_def)

context stored_documents
begin

lemma doc_fresh:
  assumes "lit ''tasks'' \<notin> fst ` set d" and "lit ''loop'' \<notin> fst ` set d"
  shows "doc_ok T L d"
proof -
  have "map_of d (lit ''tasks'') = None" "map_of d (lit ''loop'') = None" using assms by (simp_all add: map_of_eq_None_iff)
  then show ?thesis by (simp add: doc_ok_def payload_get_absent tasks_none loop_none)
qed

lemma doc_new_project:
  assumes "lit ''tasks'' \<notin> fst ` set d" and "lit ''loop'' \<notin> fst ` set d"
  shows "doc_ok T L (new_project R payload i @ d)" and "doc_ok T L (new_project R payload i @ (lit ''tasks'', JArr []) # d)"
proof -
  show "doc_ok T L (new_project R payload i @ d)" using assms by (intro doc_fresh) (auto simp: new_project_def)
  have "map_of d (lit ''loop'') = None" using assms by (simp add: map_of_eq_None_iff)
  then show "doc_ok T L (new_project R payload i @ (lit ''tasks'', JArr []) # d)"
    by (simp add: doc_ok_def payload_get_def new_project_def tasks_nil loop_none)
qed

lemma doc_put_tasks: "doc_ok T L d \<Longrightarrow> T v \<Longrightarrow> doc_ok T L (put ''tasks'' v d)"
  by (simp add: doc_ok_def payload_get_put)

lemma doc_put_loop: "doc_ok T L d \<Longrightarrow> L v \<Longrightarrow> doc_ok T L (put ''loop'' v d)"
  by (simp add: doc_ok_def payload_get_put)

lemma project_status_ok: "doc_ok T L d \<Longrightarrow> doc_ok T L (with_project_status a d)"
proof -
  assume d: "doc_ok T L d"
  show ?thesis
  proof (cases "payload_get d ''loop''")
    case (JObj l)
    with d have "L (JObj (put ''status'' (JStr (lit ''completed'')) l))" by (intro loop_completed) (simp add: doc_ok_def)
    with d JObj show ?thesis by (simp add: with_project_status_def Let_def loop_of_def payload_get_put doc_ok_put doc_put_loop)
  qed (use d in \<open>simp_all add: with_project_status_def Let_def loop_of_def payload_get_put doc_ok_put\<close>)
qed

lemma loop_of_ok:
  assumes "doc_ok T L d" and "loop_of d \<noteq> []"
  shows "L (JObj (loop_of d))"
  using assms by (cases "payload_get d ''loop''") (simp_all add: loop_of_def doc_ok_def)

lemmas stable_steps = stable_reads stable_bind_lift stable_intros

lemma stable_create_project:
  assumes "outside_keeps (docs_ok T L) E"
  shows "stable (docs_ok T L) (h_create_project E a payload)" and "stable (docs_ok T L) (h_create_quick_project E a payload)"
proof -
  show "stable (docs_ok T L) (h_create_project E a payload)"
    unfolding h_create_project_def
    by (intro stable_steps stable_readonly[OF readonly_project_id] stable_write_project)
      (simp add: with_routes_ok doc_new_project)
  have node: "T (jrows [quick_task [(lit ''task_id'', JStr i), (lit ''title'', t), (lit ''assigned_to'', x),
      (lit ''depends_on'', JArr []), (lit ''status'', JStr s)] src])" for i t x s src
    by (rule tasks_single[of _ i]) (simp_all add: quick_task_def payload_get_put, simp_all add: payload_get_def)
  have routes: "doc_ok T L p" if "(p, source) = with_routes R payload (new_project R payload i
      @ [(lit ''mode'', JStr (lit ''quick'')), (lit ''plan_type'', JStr (lit ''dag''))])" for R i p source
    by (rule with_routes_pair[OF that]) (simp add: doc_new_project)
  show "stable (docs_ok T L) (h_create_quick_project E a payload)"
    unfolding h_create_quick_project_def
    by (intro stable_steps stable_readonly[OF readonly_project_id] stable_readonly[OF readonly_rooms(1)] stable_write_project
        stable_write_task stable_filesync(2)[OF assms])
      (simp_all add: quick_task_ok doc_fresh, rule doc_put_tasks, erule routes, rule node)
qed

lemma stable_lookups:
  "stable (docs_ok T L) (h_resolve_project E a payload)" "stable (docs_ok T L) (h_ready_nodes_action E a payload)"
  "stable (docs_ok T L) (h_ready_loop_nodes_action E a payload)"
  unfolding h_resolve_project_def h_ready_nodes_action_def h_ready_loop_nodes_action_def
  by (intro stable_steps)+

lemma stable_accept_task_result:
  assumes "outside_keeps (docs_ok T L) E"
  shows "stable (docs_ok T L) (h_accept_task_result E a payload)"
  unfolding h_accept_task_result_def
  by (intro stable_steps stable_write_project stable_publish(2)[OF assms])
    (hypsubst, rule requester_report_ok, rule update_plan_ok[OF _ _ keeps_node_status(1)])

lemma stable_mark: "stable (docs_ok T L) (h_mark_requester_report_sent E a payload)"
  unfolding h_mark_requester_report_sent_def
  by (intro stable_steps stable_write_meta) (simp add: doc_ok_put)

lemma stable_plans:
  "stable (docs_ok T L) (h_plan_dag E a payload)" "stable (docs_ok T L) (h_plan_loop E a payload)"
  "stable (docs_ok T L) (h_record_loop_iteration E a payload)"
proof -
  show "stable (docs_ok T L) (h_plan_dag E a payload)"
    unfolding h_plan_dag_def
    by (intro stable_steps stable_write_project) (auto simp: doc_ok_put intro!: doc_put_tasks tasks_planned)
  show "stable (docs_ok T L) (h_plan_loop E a payload)"
    unfolding h_plan_loop_def
    by (intro stable_steps stable_write_project) (hypsubst, rule doc_put_loop, simp add: doc_ok_put, rule loop_planned)
  show "stable (docs_ok T L) (h_record_loop_iteration E a payload)"
    unfolding h_record_loop_iteration_def
    by (intro stable_steps stable_write_project)
      (hypsubst, rule doc_put_loop, simp add: doc_ok_put, erule loop_iterated[rotated], rule loop_of_ok, assumption, simp)
qed

lemma stable_change_project_status:
  assumes "outside_keeps (docs_ok T L) E"
  shows "stable (docs_ok T L) (change_project_status E a payload n)"
  unfolding change_project_status_def
  by (intro stable_steps stable_write_project stable_publish(2)[OF assms]) (simp add: project_status_ok)

lemma stable_projectflow:
  assumes "outside_keeps (docs_ok T L) E"
  shows "stable (docs_ok T L) (h_projectflow E a)"
proof -
  have "stable (docs_ok T L) (f E a payload)" if "(n, f) \<in> set project_actions" for n f payload
    using that unfolding project_actions_def
    by (auto intro: stable_create_project[OF assms] stable_lookups stable_accept_task_result[OF assms] stable_mark stable_plans
        stable_change_project_status[OF assms])
  then have "stable (docs_ok T L) (act E a payload)"
    if "map_of (map (\<lambda>(n, f). (lit n, f)) project_actions) action = Some act" for act action payload
    using map_of_SomeD[OF that] by auto
  then show ?thesis
    unfolding h_projectflow_def Let_def
    by (intro stable_bind_lift) (simp add: stable_on_value_error stable_basic split: option.split)
qed

lemma stable_pull_task:
  assumes "outside_keeps (docs_ok T L) E"
  shows "stable (docs_ok T L) (pull_task E a i)"
  unfolding pull_task_def
  by (intro stable_bind_lift stable_filesync(1)[OF assms] stable_bind stable_readonly[OF readonly_harness(14)] stable_steps stable_write_task)
    (auto intro!: doc_ok_fold doc_ok_keep_field elim!: keep_from_cases)

lemma stable_delegate_task:
  assumes "outside_keeps (docs_ok T L) E"
  shows "stable (docs_ok T L) (h_delegate_task E a payload role)"
  unfolding h_delegate_task_def
  by (intro stable_bind_lift stable_bind stable_readonly[OF readonly_harness(8)] stable_readonly[OF readonly_harness(9)]
      stable_readonly[OF readonly_rooms(1)] stable_readonly[OF readonly_rooms(2)] stable_readonly[OF readonly_tasks(6)]
      stable_let stable_write_task stable_update_project_task stable_filesync(2)[OF assms] stable_intros)
    (simp_all add: doc_fresh if_text_def keeps_node_status(3)[unfolded if_text_def])

lemma stable_ack_task:
  assumes "outside_keeps (docs_ok T L) E"
  shows "stable (docs_ok T L) (h_ack_task E a payload role)"
  unfolding h_ack_task_def
  by (intro stable_pull_task[OF assms] stable_filesync(2)[OF assms] stable_readonly[OF readonly_tasks(6)] stable_reads
      stable_bind_lift stable_let stable_write_task stable_update_project_task stable_intros)
    (simp_all add: doc_ok_put set_status_def keeps_node_status)

lemma stable_submit_task:
  assumes "outside_keeps (docs_ok T L) E"
  shows "stable (docs_ok T L) (h_submit_task E a payload role)"
  unfolding h_submit_task_def
  by (intro stable_publish(1)[OF assms] stable_filesync(2)[OF assms] stable_readonly[OF readonly_tasks(6)] stable_reads
      stable_bind_lift stable_let stable_write_task stable_update_project_task stable_intros)
    (simp_all add: submitted_task_ok keeps_node_status)

lemma stable_cancel_task:
  assumes "outside_keeps (docs_ok T L) E"
  shows "stable (docs_ok T L) (h_cancel_task E a payload role)"
  unfolding h_cancel_task_def
  by (intro stable_filesync(2)[OF assms] stable_readonly[OF readonly_tasks(5)] stable_reads(4) stable_readonly[OF readonly_harness(9)]
      stable_bind_lift stable_let stable_write_task stable_update_project_task stable_intros)
    (auto intro: keeps_node_status dest: cancelled_task_ok)

lemma stable_check_task:
  assumes "outside_keeps (docs_ok T L) E"
  shows "stable (docs_ok T L) (h_check_task E a payload role)"
  unfolding h_check_task_def
  by (intro stable_pull_task[OF assms] stable_reads stable_bind_lift stable_intros)

lemma stable_taskflow:
  assumes "outside_keeps (docs_ok T L) E"
  shows "stable (docs_ok T L) (h_taskflow E a)"
proof -
  have "stable (docs_ok T L) (f E a payload role)" if "(n, f) \<in> set task_actions" for n f payload role
    using that unfolding task_actions_def
    by (auto intro: stable_delegate_task[OF assms] stable_ack_task[OF assms] stable_submit_task[OF assms]
        stable_cancel_task[OF assms] stable_check_task[OF assms])
  then have "stable (docs_ok T L) (act E a payload role)"
    if "map_of (map (\<lambda>(n, f). (lit n, f)) task_actions) action = Some act" for act action payload role
    using map_of_SomeD[OF that] by auto
  then show ?thesis
    unfolding h_taskflow_def Let_def
    by (intro stable_bind_lift stable_bind stable_readonly[OF readonly_harness(4)])
      (simp add: stable_on_value_error stable_basic split: option.split)
qed

end

end
