(* ===== verification/Harness_Plans.thy ===== *)
theory Harness_Plans
  imports Harness_Docs
begin

text \<open>
  What holds of the plans of TeamHarness: which graphs are accepted, that the stored plans stay valid and the
  loops within their bounds, which tasks are ready, and that a valid plan makes progress.
\<close>

section \<open>Valid graphs\<close>

definition valid_graph :: "graph \<Rightarrow> bool" where
  "valid_graph g \<longleftrightarrow> distinct (map fst g) \<and> known_deps g \<and> acyclic (graph_edges g)"

lemma check_duplicates_iff:
  "check_duplicates seen ids = Inr () \<longleftrightarrow> distinct ids \<and> set seen \<inter> set ids = {}"
  by (induction seen ids rule: check_duplicates.induct) auto

lemma check_duplicates_err: "check_duplicates seen ids = Inl e \<Longrightarrow> \<exists>m. e = ValueError m"
  by (induction seen ids rule: check_duplicates.induct) (auto split: if_splits)

lemma check_dependencies_iff:
  "seqE (concat (map (\<lambda>(i, ds). map (check_dependency ids i) ds) g)) = Inr () \<longleftrightarrow> (\<forall>(i, ds)\<in>set g. set ds \<subseteq> set ids)"
  by (induction g) (auto simp: check_dependency_def)

lemma check_dependencies_err:
  assumes "seqE (concat (map (\<lambda>(i, ds). map (check_dependency ids i) ds) g)) = Inl e"
  shows "\<exists>m. e = ValueError m"
  using seqE_err[OF assms] by (auto simp: check_dependency_def raise_if_def split: if_splits)

lemma validate_task_graph_cases:
  "if valid_graph g then validate_task_graph g = Inr () else \<exists>m. validate_task_graph g = Inl (ValueError m)"
proof -
  let ?deps = "seqE (concat (map (\<lambda>(i, ds). map (check_dependency (map fst g) i) ds) g))"
  let ?cyclic = "\<lambda>path x. ValueError (lit ''task dependency cycle detected: '' @ join (lit '' -> '') (rev path @ [x]))"
  consider (dup) e where "check_duplicates [] (map fst g) = Inl e" | (dep) e where "check_duplicates [] (map fst g) = Inr ()" "?deps = Inl e"
    | (ok) "check_duplicates [] (map fst g) = Inr ()" "?deps = Inr ()"
    by (cases "check_duplicates [] (map fst g)"; cases ?deps) auto
  then show ?thesis
  proof cases
    case dup
    then have "\<not> valid_graph g" using check_duplicates_iff[of "[]" "map fst g"] by (auto simp: valid_graph_def)
    with dup check_duplicates_err[OF dup] show ?thesis by (simp add: validate_task_graph_def)
  next
    case dep
    then have "\<not> known_deps g" using check_dependencies_iff[of "map fst g" g] by (auto simp: known_deps_def)
    with dep check_dependencies_err[OF dep(2)] show ?thesis by (simp add: validate_task_graph_def valid_graph_def)
  next
    case ok
    then have known: "known_deps g" "distinct (map fst g)"
      using check_dependencies_iff[of "map fst g" g] check_duplicates_iff[of "[]" "map fst g"] by (auto simp: known_deps_def)
    show ?thesis
    proof (cases "acyclic (graph_edges g)")
      case True
      then obtain V where "dfs g (\<lambda>x. Inr ()) ?cyclic [] [] (map fst g) = Inr V"
        using dfs_acyclic[OF known(1), of "\<lambda>x. Inr ()" ?cyclic] by blast
      with ok known True show ?thesis by (simp add: validate_task_graph_def valid_graph_def)
    next
      case False
      then obtain p x where "dfs g (\<lambda>x. Inr ()) ?cyclic [] [] (map fst g) = Inl (?cyclic p x)"
        using dfs_cyclic[OF known(1)] by blast
      with ok known False show ?thesis by (simp add: validate_task_graph_def valid_graph_def)
    qed
  qed
qed

text \<open>C15: A task graph is accepted exactly when its identifiers are distinct, every dependency is one of them,
  and no task depends on itself, directly or through others; every other graph raises a \<open>ValueError\<close>, which
  becomes an error response.\<close>

theorem validate_task_graph_iff:
  "if valid_graph g then validate_task_graph g = Inr () else \<exists>m. validate_task_graph g = Inl (ValueError m)"
  by (rule validate_task_graph_cases)

section \<open>Plans in the files\<close>

definition node_is :: "dict \<Rightarrow> pystr \<times> pystr list \<Rightarrow> bool" where
  "node_is t node \<longleftrightarrow> payload_get t ''task_id'' = JStr (fst node)
     \<and> payload_get t ''depends_on'' = JArr (map JStr (snd node)) \<and> (\<exists>s. payload_get t ''status'' = JStr s)"

definition valid_plan :: "json \<Rightarrow> bool" where
  "valid_plan v \<longleftrightarrow> v = JNull \<or> (\<exists>ts g. v = jrows ts \<and> list_all2 node_is ts g \<and> valid_graph g)"

definition valid_loop_plan :: "json \<Rightarrow> bool" where
  "valid_loop_plan v \<longleftrightarrow> (\<forall>l. v = JObj l \<longrightarrow> valid_plan (payload_get l ''tasks''))"

lemma node_is_node: "node_is t node \<Longrightarrow> task_node R t = node"
  by (cases node) (simp add: node_is_def task_node_def text_at_single str_or_empty_def comp_def)

lemma node_is_graph: "list_all2 node_is ts g \<Longrightarrow> task_graph R ts = g"
  unfolding task_graph_def by (induction rule: list_all2_induct) (simp_all add: node_is_node)

lemma normalized_node:
  assumes "normalize_task R raw previous = Inr t"
  shows "\<exists>node. node_is t node"
proof -
  obtain i deps title who status where "t = [(lit ''task_id'', JStr i), (lit ''title'', JStr title), (lit ''assigned_to'', JStr who),
      (lit ''depends_on'', JArr (map (\<lambda>d. JStr (py_str R d)) deps)), (lit ''status'', JStr status)]"
    using assms unfolding normalize_task_def Let_def by blast
  then have "node_is t (i, map (py_str R) deps)" by (simp add: node_is_def payload_get_def comp_def)
  then show ?thesis ..
qed

lemma planned_valid:
  assumes "planned_tasks R previous raw = Inr ts"
  shows "valid_plan (jrows ts)"
proof -
  have "\<forall>t\<in>set ts. \<exists>node. node_is t node"
    using assms normalized_node unfolding planned_tasks_def by (auto dest!: mapE_ok_set)
  then have "\<exists>g. list_all2 node_is ts g"
  proof (induction ts)
    case (Cons t ts)
    then obtain node g where "node_is t node" "list_all2 node_is ts g" by auto
    then show ?case by (intro exI[of _ "node # g"]) simp
  qed auto
  then obtain g where g: "list_all2 node_is ts g" ..
  have "validate_task_graph (task_graph R ts) = Inr ()" using assms by (auto simp: planned_tasks_def)
  then have "valid_graph g" using validate_task_graph_cases[of g] node_is_graph[OF g, of R] by (auto split: if_splits)
  with g show ?thesis unfolding valid_plan_def by blast
qed

lemma update_first_nodes:
  assumes "update_first i f items = Inr (items', c)" and "items = map JObj ts" and "list_all2 node_is ts g" and "keeps_node f"
  shows "\<exists>ts'. items' = map JObj ts' \<and> list_all2 node_is ts' g"
  using assms
proof (induction i f items arbitrary: items' c ts g rule: update_first.induct)
  case (1 i f)
  then show ?case by auto
next
  case (2 i f item items)
  obtain t ts1 n g1 where ts: "ts = t # ts1" "item = JObj t" "items = map JObj ts1" "g = n # g1" "node_is t n" "list_all2 node_is ts1 g1"
    using "2.prems" by (auto simp: list_all2_Cons1)
  show ?case
  proof (cases "payload_get t ''task_id'' = JStr i")
    case True
    with "2.prems"(1) ts have "items' = map JObj (f t # ts1)" by (simp add: obj_of_def)
    moreover have "node_is (f t) n" using ts(5) "2.prems"(4) by (simp add: node_is_def keeps_node_def)
    ultimately show ?thesis using ts by (intro exI[of _ "f t # ts1"]) simp
  next
    case False
    with "2.prems"(1) ts obtain rest c' where rest: "update_first i f items = Inr (rest, c')" "items' = JObj t # rest"
      by (auto simp: obj_of_def)
    obtain ts' where "rest = map JObj ts'" "list_all2 node_is ts' g1"
      using "2.IH"[OF False rest(1) ts(3,6) "2.prems"(4)] by auto
    with ts rest show ?thesis by (intro exI[of _ "t # ts'"]) simp
  qed
qed

lemma update_tasks_valid:
  assumes "valid_plan v" and "keeps_node f" and "update_tasks i f v = Inr (v', True)"
  shows "valid_plan v'"
proof -
  obtain ts g where plan: "v = jrows ts" "list_all2 node_is ts g" "valid_graph g"
    using assms(1,3) by (auto simp: valid_plan_def update_tasks_def list_of_value_def)
  then obtain items' where "update_first i f (map JObj ts) = Inr (items', True)" "v' = JArr items'"
    using assms(3) by (auto simp: update_tasks_def list_of_value_def jrows_def split: if_splits)
  then show ?thesis
    using update_first_nodes[OF _ refl plan(2) assms(2)] plan(3) unfolding valid_plan_def jrows_def by blast
qed

lemma valid_nil: "valid_plan (JArr [])"
proof -
  have "valid_graph []" by (simp add: valid_graph_def known_deps_def graph_edges_def acyclic_def)
  then show ?thesis unfolding valid_plan_def jrows_def by (intro disjI2 exI[of _ "[]"]) simp
qed

lemma valid_single:
  assumes "payload_get t ''task_id'' = JStr i" and "payload_get t ''depends_on'' = JArr []" and "payload_get t ''status'' = JStr s"
  shows "valid_plan (jrows [t])"
proof -
  have "graph_edges [(i, [])] = {}" by (auto simp: graph_edges_def split: if_splits)
  then have "valid_graph [(i, [])]" by (simp add: valid_graph_def known_deps_def acyclic_def)
  then show ?thesis using assms unfolding valid_plan_def
    by (intro disjI2 exI[of _ "[t]"] exI[of _ "[(i, [])]"]) (simp add: node_is_def)
qed

text \<open>The plans of all projects, as graphs and in loops, are valid.\<close>

definition plans_valid :: "'s harness_world \<Rightarrow> bool" where
  "plans_valid w \<longleftrightarrow> docs_ok valid_plan valid_loop_plan w"

lemma valid_loop_put: "k \<noteq> ''tasks'' \<Longrightarrow> valid_loop_plan (JObj (put k v l)) = valid_loop_plan (JObj l)"
  by (simp add: valid_loop_plan_def payload_get_put)

lemma iterated_loop_tasks:
  assumes "iterated_loop R payload l = Inr (l', n, dec)"
  shows "payload_get l' ''tasks'' = payload_get l ''tasks''"
  using assms by (auto simp: iterated_loop_def Let_def payload_get_put)

lemma planned_loop_tasks:
  assumes "planned_loop R payload known = Inr l"
  obtains previous raw ts where "payload_get l ''tasks'' = jrows ts" and "planned_tasks R previous raw = Inr ts"
  using assms by (auto simp: planned_loop_def Let_def payload_get_def)

interpretation valid_plans: stored_documents valid_plan valid_loop_plan
proof unfold_locales
  show "valid_plan JNull" "valid_loop_plan JNull" by (simp_all add: valid_plan_def valid_loop_plan_def)
  show "valid_plan (JArr [])" by (rule valid_nil)
  show "planned_tasks R previous raw = Inr ts \<Longrightarrow> valid_plan (jrows ts)" for R previous raw ts
    by (rule planned_valid)
  show "valid_loop_plan (JObj l)" if "planned_loop R payload known = Inr l" for R payload known l
    using that by (elim planned_loop_tasks) (simp add: valid_loop_plan_def planned_valid)
  show "valid_loop_plan (JObj l')" if "valid_loop_plan (JObj l)" and "iterated_loop R payload l = Inr (l', n, dec)"
    for l R payload l' n dec
    using that by (simp add: valid_loop_plan_def iterated_loop_tasks)
  show "valid_loop_plan (JObj (put ''tasks'' v' l))"
    if "valid_loop_plan (JObj l)" and "keeps_node f" and "update_tasks i f (JArr (json_items (payload_get l ''tasks''))) = Inr (v', True)"
    for l f i v'
  proof -
    have "valid_plan (JArr (json_items (payload_get l ''tasks'')))"
      using that(1) valid_nil by (auto simp: valid_loop_plan_def valid_plan_def jrows_def)
    then show ?thesis using update_tasks_valid[OF _ that(2,3)] by (simp add: valid_loop_plan_def payload_get_put)
  qed
qed (auto intro: update_tasks_valid valid_single simp: valid_loop_put)

section \<open>Loops\<close>

definition loop_bounded :: "json \<Rightarrow> bool" where
  "loop_bounded v \<longleftrightarrow> (\<forall>l. v = JObj l \<longrightarrow> (\<exists>m c s. payload_get l ''max_iterations'' = JInt m \<and> payload_get l ''current_iteration'' = JInt c
     \<and> payload_get l ''status'' = JStr s \<and> 0 \<le> c \<and> c \<le> m \<and> 1 \<le> m \<and> s \<in> set (map lit h_loop_statuses)))"

definition loops_bounded :: "'s harness_world \<Rightarrow> bool" where
  "loops_bounded w \<longleftrightarrow> docs_ok (\<lambda>v. True) loop_bounded w"

lemma positive_int_ok: "positive_int v f = Inr i \<Longrightarrow> 1 \<le> i"
  by (auto simp: positive_int_def split: if_splits)

lemma non_negative_int_ok: "non_negative_int v f = Inr i \<Longrightarrow> 0 \<le> i"
  by (auto simp: non_negative_int_def split: if_splits)

lemma positive_int_stored [simp]: "positive_int (JInt i) f = (if i < 1 then Inl (ValueError (lit f @ lit '' must be greater than zero'')) else Inr i)"
  by (simp add: positive_int_def integer_field_def py_int_def)

lemma non_negative_int_stored [simp]: "non_negative_int (JInt i) f = (if i < 0 then Inl (ValueError (lit f @ lit '' must be zero or greater'')) else Inr i)"
  by (simp add: non_negative_int_def integer_field_def py_int_def)

lemma safe_status_ok: "h_safe_loop_status v = Inr s \<Longrightarrow> s \<in> set (map lit h_loop_statuses)"
  by (simp only: h_safe_loop_status_def one_of_texts_def split: if_splits) simp_all

lemma decision_status_ok: "decision_status d \<in> set (map lit h_loop_statuses)"
  by (simp add: decision_status_def h_loop_statuses_def)

lemma loop_boundedI:
  "payload_get l ''max_iterations'' = JInt m \<Longrightarrow> payload_get l ''current_iteration'' = JInt c \<Longrightarrow> payload_get l ''status'' = JStr s \<Longrightarrow>
   0 \<le> c \<Longrightarrow> c \<le> m \<Longrightarrow> 1 \<le> m \<Longrightarrow> s \<in> set (map lit h_loop_statuses) \<Longrightarrow> loop_bounded (JObj l)"
  by (auto simp: loop_bounded_def)

lemma planned_loop_bounded: "planned_loop R payload known = Inr l \<Longrightarrow> loop_bounded (JObj l)"
  by (auto simp: planned_loop_def Let_def payload_get_def simp del: list.set intro!: loop_boundedI
      dest: positive_int_ok non_negative_int_ok safe_status_ok)

lemma iterated_loop_bounded:
  assumes "loop_bounded (JObj l)" and "iterated_loop R payload l = Inr (l', n, dec)"
  shows "loop_bounded (JObj l')"
proof -
  obtain m c s where l: "payload_get l ''max_iterations'' = JInt m" "payload_get l ''current_iteration'' = JInt c" "0 \<le> c" "c \<le> m" "1 \<le> m"
    using assms(1) by (auto simp: loop_bounded_def)
  from assms(2) obtain h where n: "1 \<le> n" "n \<le> m"
    and l': "l' = put ''history'' h (put ''current_iteration'' (JInt (max c n)) (put ''status'' (JStr (decision_status dec)) l))"
    using l by (auto simp: iterated_loop_def Let_def dest: positive_int_ok split: if_splits)
  show ?thesis
    by (rule loop_boundedI[of _ m "max c n" "decision_status dec"]) (use l n decision_status_ok in \<open>simp_all add: l' payload_get_put\<close>)
qed

lemma loop_bounded_put:
  "k \<noteq> ''max_iterations'' \<Longrightarrow> k \<noteq> ''current_iteration'' \<Longrightarrow> k \<noteq> ''status'' \<Longrightarrow> loop_bounded (JObj (put k v l)) = loop_bounded (JObj l)"
  by (simp add: loop_bounded_def payload_get_put)

interpretation bounded_loops: stored_documents "\<lambda>v. True" loop_bounded
proof unfold_locales
  show "loop_bounded (JObj (put ''status'' (JStr (lit ''completed'')) l))" if "loop_bounded (JObj l)" for l
    using that by (auto simp: loop_bounded_def payload_get_put h_loop_statuses_def)
qed (auto intro: planned_loop_bounded iterated_loop_bounded simp: loop_bounded_put, simp add: loop_bounded_def)

section \<open>Any sequence of calls\<close>

text \<open>A call of \<open>projectflow\<close> (\<open>True\<close>) or \<open>taskflow\<close>, with the environment it finds.\<close>

definition h_call :: "'s harness_env \<times> bool \<times> dict \<Rightarrow> ('s, dict) harness" where
  "h_call = (\<lambda>(E, project, arguments). if project then h_projectflow E arguments else h_taskflow E arguments)"

definition h_calls :: "('s harness_env \<times> bool \<times> dict) list \<Rightarrow> 's harness_world \<Rightarrow> 's harness_world" where
  "h_calls calls w = fold (\<lambda>c w. snd (h_call c w)) calls w"

lemma calls_keep:
  assumes "\<And>E a. outside_keeps P E \<Longrightarrow> stable P (h_projectflow E a)" and "\<And>E a. outside_keeps P E \<Longrightarrow> stable P (h_taskflow E a)"
    and "\<forall>(E, c)\<in>set calls. outside_keeps P E" and "P w"
  shows "P (h_calls calls w)"
  using assms(3,4) unfolding h_calls_def
proof (induction calls arbitrary: w)
  case (Cons c calls)
  obtain E b a where c: "c = (E, b, a)" by (cases c)
  then have "P (snd (h_call c w))" using Cons.prems assms(1,2)[of E a] by (simp add: h_call_def stable_def)
  then show ?case using Cons by simp
qed simp

text \<open>C9: Whatever requests follow one another, every plan in the state files, as a task graph or in a loop, keeps
  distinct identifiers, known dependencies and no cycle, as long as what the storage client and the web requests
  bring into the state files has it too.\<close>

theorem stored_plans_stay_valid:
  assumes "\<forall>(E, c)\<in>set calls. outside_keeps plans_valid E" and "plans_valid w"
  shows "plans_valid (h_calls calls w)"
proof (rule calls_keep[OF _ _ assms])
  show "outside_keeps plans_valid E \<Longrightarrow> stable plans_valid (h_projectflow E a)" for E :: "'a harness_env" and a
    unfolding plans_valid_def[abs_def] by (rule valid_plans.stable_projectflow)
  show "outside_keeps plans_valid E \<Longrightarrow> stable plans_valid (h_taskflow E a)" for E :: "'a harness_env" and a
    unfolding plans_valid_def[abs_def] by (rule valid_plans.stable_taskflow)
qed

text \<open>C17: Whatever requests follow one another, every stored loop has a positive maximum of iterations, a current
  iteration between zero and the maximum, and one of the four statuses of a loop, as long as what the storage client
  and the web requests bring into the state files has it too.\<close>

theorem stored_loops_stay_bounded:
  assumes "\<forall>(E, c)\<in>set calls. outside_keeps loops_bounded E" and "loops_bounded w"
  shows "loops_bounded (h_calls calls w)"
proof (rule calls_keep[OF _ _ assms])
  show "outside_keeps loops_bounded E \<Longrightarrow> stable loops_bounded (h_projectflow E a)" for E :: "'a harness_env" and a
    unfolding loops_bounded_def[abs_def] by (rule bounded_loops.stable_projectflow)
  show "outside_keeps loops_bounded E \<Longrightarrow> stable loops_bounded (h_taskflow E a)" for E :: "'a harness_env" and a
    unfolding loops_bounded_def[abs_def] by (rule bounded_loops.stable_taskflow)
qed

section \<open>Ready tasks\<close>

definition deps_done :: "dict list \<Rightarrow> dict \<Rightarrow> bool" where
  "deps_done tasks t \<longleftrightarrow> list_all (\<lambda>dep. status_of tasks dep = JStr (lit ''completed'')) (json_items (payload_get t ''depends_on''))"

definition may_start :: "dict \<Rightarrow> bool" where
  "may_start t \<longleftrightarrow> payload_get t ''status'' \<in> {JStr (lit ''planned''), JStr (lit ''assigned'')}"

lemma deps_completed_texts:
  "deps_completed tasks (map JStr ds) = Inr (list_all (\<lambda>dep. status_of tasks dep = JStr (lit ''completed'')) (map JStr ds))"
  by (induction ds) (simp_all add: hash_check_def)

lemma ready_among_nodes:
  "list_all2 node_is ts g \<Longrightarrow> ready_among tasks ts = Inr (filter (\<lambda>t. may_start t \<and> deps_done tasks t) ts)"
proof (induction rule: list_all2_induct)
  case (Cons t ts node g)
  then obtain s where "payload_get t ''status'' = JStr s" "payload_get t ''depends_on'' = JArr (map JStr (snd node))"
    by (auto simp: node_is_def)
  moreover from this have "get_or t ''depends_on'' (JArr []) = JArr (map JStr (snd node))"
    by (auto simp: get_or_def payload_get_def split: option.splits)
  ultimately show ?case
    using Cons by (auto simp: may_start_def deps_done_def hash_check_def list_of_value_def deps_completed_texts)
qed simp

lemma ready_tasks_nodes:
  assumes "list_all2 node_is ts g"
  shows "ready_tasks_of (map JObj ts) = Inr (filter (\<lambda>t. may_start t \<and> deps_done ts t) ts)"
proof -
  have objs: "mapE obj_of (map JObj ts) = Inr ts" by (induction ts) (simp_all add: obj_of_def)
  have "\<exists>node. node_is t node" if "t \<in> set ts" for t
    using assms that by (metis in_set_conv_nth list_all2_conv_all_nth)
  then have "hashable (payload_get t ''task_id'')" if "t \<in> set ts" for t
    using that by (fastforce simp: node_is_def)
  then have checked: "seqE (map (\<lambda>t. hash_check (payload_get t ''task_id'')) ts) = Inr ()"
    by (simp add: hash_check_def)
  show ?thesis
    unfolding ready_tasks_of_def objs bindE_simps checked ready_among_nodes[OF assms] ..
qed

text \<open>In a valid graph the status under an identifier is that of its only task.\<close>

lemma nodes_ids: "list_all2 node_is ts g \<Longrightarrow> map (\<lambda>t. payload_get t ''task_id'') ts = map (JStr \<circ> fst) g"
  by (induction rule: list_all2_induct) (simp_all add: node_is_def)

lemma status_of_node:
  assumes "list_all2 node_is ts g" and "distinct (map fst g)" and "t \<in> set ts" and "payload_get t ''task_id'' = i"
  shows "status_of ts i = payload_get t ''status''"
proof -
  have "distinct (map (\<lambda>t. payload_get t ''task_id'') ts)"
    using assms(2) unfolding nodes_ids[OF assms(1)] by (simp add: distinct_map inj_on_def)
  then have unique: "\<And>t'. t' \<in> set ts \<Longrightarrow> payload_get t' ''task_id'' = i \<Longrightarrow> t' = t"
    using assms(3,4) by (auto simp: distinct_map dest: inj_onD)
  have "filter (\<lambda>t. payload_get t ''task_id'' = i) (rev ts) \<noteq> []" using assms(3,4) by (auto simp: filter_empty_conv)
  then obtain t' rest where found: "filter (\<lambda>t. payload_get t ''task_id'' = i) (rev ts) = t' # rest" by (meson neq_Nil_conv)
  then have "t' \<in> set (filter (\<lambda>t. payload_get t ''task_id'' = i) (rev ts))" by simp
  then have "t' = t" using unique by simp
  with found show ?thesis by (simp add: status_of_def)
qed

lemma first_unfinished:
  assumes plan: "list_all2 node_is ts g" and valid: "valid_graph g"
    and "t \<in> set ts" and "payload_get t ''status'' \<noteq> JStr (lit ''completed'')"
  obtains t' where "t' \<in> set ts" and "payload_get t' ''status'' \<noteq> JStr (lit ''completed'')" and "deps_done ts t'"
proof -
  let ?A = "{i. status_of ts (JStr i) \<noteq> JStr (lit ''completed'') \<and> i \<in> fst ` set g}"
  have distinct: "distinct (map fst g)" using valid by (simp add: valid_graph_def)
  have node: "\<exists>t\<in>set ts. node_is t n" if "n \<in> set g" for n
    using plan that by (metis in_set_conv_nth list_all2_conv_all_nth)
  have of_task: "\<exists>n\<in>set g. node_is t n" if "t \<in> set ts" for t
    using plan that by (metis in_set_conv_nth list_all2_conv_all_nth)
  obtain n where "n \<in> set g" "node_is t n" using of_task[OF assms(3)] ..
  then have "fst n \<in> ?A" using status_of_node[OF plan distinct assms(3)] assms(4) by (auto simp: node_is_def)
  then obtain i where i: "i \<in> ?A" "\<And>d. (d, i) \<in> graph_edges g \<Longrightarrow> d \<notin> ?A"
    using first_of_graph[of g "fst n" ?A] valid unfolding valid_graph_def by blast
  then obtain ds where ds: "(i, ds) \<in> set g" by auto
  obtain t' where t': "t' \<in> set ts" "node_is t' (i, ds)" using node[OF ds] ..
  have "map_of g i = Some ds" using ds distinct by simp
  then have "status_of ts (JStr d) = JStr (lit ''completed'')" if "d \<in> set ds" for d
    using i(2)[of d] that ds valid by (auto simp: edges_into valid_graph_def known_deps_def)
  then have "deps_done ts t'" using t'(2) by (auto simp: deps_done_def node_is_def list_all_iff)
  moreover have "payload_get t' ''status'' = status_of ts (JStr i)"
    using status_of_node[OF plan distinct t'(1)] t'(2) by (simp add: node_is_def)
  ultimately show thesis using that t'(1) i(1) by auto
qed

text \<open>C14: In an active project with a valid task graph, the ready tasks are exactly those that are planned or assigned
  and depend on completed tasks only; and while a task is not completed, there is a task that is not completed, all
  of whose dependencies are, and which is ready unless work on it has begun or ended otherwise.\<close>

theorem valid_plan_progresses:
  assumes "valid_plan (payload_get project ''tasks'')" and "payload_get project ''tasks'' = jrows ts"
    and "is_active R project" and "\<not> is_loop project"
  shows "h_ready_nodes R project = Inr (filter (\<lambda>t. may_start t \<and> deps_done ts t) ts)
    \<and> ((\<exists>t\<in>set ts. payload_get t ''status'' \<noteq> JStr (lit ''completed'')) \<longrightarrow>
       (\<exists>t\<in>set ts. payload_get t ''status'' \<noteq> JStr (lit ''completed'') \<and> deps_done ts t
         \<and> (t \<in> set (filter (\<lambda>t. may_start t \<and> deps_done ts t) ts) \<or> \<not> may_start t)))"
proof -
  have "inj JObj" by (simp add: inj_def)
  then obtain g where g: "list_all2 node_is ts g" "valid_graph g"
    using assms(1,2) by (auto simp: valid_plan_def jrows_def inj_map_eq_map)
  have "h_ready_nodes R project = Inr (filter (\<lambda>t. may_start t \<and> deps_done ts t) ts)"
    using assms(2-4) ready_tasks_nodes[OF g(1)] by (simp add: h_ready_nodes_def jrows_def)
  moreover have "\<exists>t\<in>set ts. payload_get t ''status'' \<noteq> JStr (lit ''completed'') \<and> deps_done ts t"
    if "\<exists>t\<in>set ts. payload_get t ''status'' \<noteq> JStr (lit ''completed'')"
    using first_unfinished[OF g] that by metis
  ultimately show ?thesis by auto
qed

section \<open>Examples\<close>

text \<open>A machine on which processes and requests do nothing, without any file.\<close>

definition idle_harness :: "unit harness_env" where
  "idle_harness = \<lparr>he_repr = (\<lambda>v. []), he_exc_text = (\<lambda>e. lit ''error''), he_float = (\<lambda>t. FNaN), he_env = (\<lambda>n. None),
     he_now = lit ''2025-01-01T00:00:00Z'', he_stamp = lit ''20250101-000000'', he_expand = (\<lambda>p. p), he_resolve = (\<lambda>p. p),
     he_yaml = (\<lambda>t. None), he_urlsplit = (\<lambda>u. Inr ([], u, [])), he_expired = (\<lambda>v. True), he_word = (\<lambda>c. False),
     he_decode = (\<lambda>b. b), he_mimetype = (\<lambda>p. None), he_txn = lit ''1'', he_is_dir = (\<lambda>p w. False), he_size = (\<lambda>p w. 0),
     he_bytes = (\<lambda>p w. Inr []), he_http = (\<lambda>q w. (NoConnection [], w)), he_run = (\<lambda>q w. (Completed 0 [] [], w))\<rparr>"

definition no_files :: "unit harness_world" where
  "no_files = \<lparr>hw_meta = (\<lambda>p. None), hw_text = (\<lambda>p. None), hw_rest = ()\<rparr>"

definition plan_request :: dict where
  "plan_request = [(lit ''action'', JStr (lit ''plan_dag'')), (lit ''workspaceDir'', JStr (lit ''/w'')), (lit ''projectId'', JStr (lit ''p'')),
     (lit ''tasks'', jrows [[(lit ''taskId'', JStr (lit ''a''))], [(lit ''taskId'', JStr (lit ''b'')), (lit ''dependsOn'', JArr [JStr (lit ''a'')])]])]"

definition loop_request :: dict where
  "loop_request = [(lit ''action'', JStr (lit ''plan_loop'')), (lit ''workspaceDir'', JStr (lit ''/w'')),
     (lit ''payload'', JObj [(lit ''projectId'', JStr (lit ''p'')), (lit ''maxIterations'', JInt 3), (lit ''goal'', JStr (lit ''g'')),
       (lit ''stopCondition'', JStr (lit ''s'')), (lit ''iterationTemplate'', JStr (lit ''t''))])]"

lemma idle_outside: "outside_keeps P idle_harness"
  by (simp add: outside_keeps_def idle_harness_def)

lemma stored_plans_stay_valid_witness:
  "plans_valid (h_calls [(idle_harness, True, plan_request), (idle_harness, True, loop_request)] no_files)"
  by (rule stored_plans_stay_valid) (simp_all add: idle_outside, simp add: plans_valid_def docs_ok_def no_files_def)

lemma stored_loops_stay_bounded_witness:
  "loops_bounded (h_calls [(idle_harness, True, loop_request), (idle_harness, True, plan_request)] no_files)"
  by (rule stored_loops_stay_bounded) (simp_all add: idle_outside, simp add: loops_bounded_def docs_ok_def no_files_def)

text \<open>A task that is completed and one that depends on it.\<close>

definition sample_nodes :: "dict list" where
  "sample_nodes =
     [[(lit ''task_id'', JStr (lit ''a'')), (lit ''depends_on'', JArr []), (lit ''status'', JStr (lit ''completed''))],
      [(lit ''task_id'', JStr (lit ''b'')), (lit ''depends_on'', JArr [JStr (lit ''a'')]), (lit ''status'', JStr (lit ''planned''))]]"

definition sample_graph :: graph where
  "sample_graph = [(lit ''a'', []), (lit ''b'', [lit ''a''])]"

lemma sample_nodes_valid: "valid_plan (jrows sample_nodes)"
proof -
  have "graph_edges sample_graph = {(lit ''a'', lit ''b'')}"
    by (auto simp: graph_edges_def sample_graph_def split: if_splits)
  moreover have "acyclic {(lit ''a'', lit ''b'')}"
    using acyclic_insert[of "lit ''a''" "lit ''b''" "{}"] by (simp add: acyclic_def[of "{}"])
  ultimately have "valid_graph sample_graph"
    by (simp add: valid_graph_def known_deps_def sample_graph_def)
  moreover have "list_all2 node_is sample_nodes sample_graph"
    by (simp add: sample_nodes_def sample_graph_def node_is_def payload_get_def)
  ultimately show ?thesis unfolding valid_plan_def by blast
qed

lemma valid_plan_progresses_witness:
  "\<exists>ready. h_ready_nodes (\<lambda>v. []) [(lit ''tasks'', jrows sample_nodes)] = Inr ready \<and> sample_nodes ! 1 \<in> set ready"
proof -
  have tasks: "payload_get [(lit ''tasks'', jrows sample_nodes)] ''tasks'' = jrows sample_nodes" by (simp add: payload_get_def)
  have active: "is_active (\<lambda>v. []) [(lit ''tasks'', jrows sample_nodes)]" "\<not> is_loop [(lit ''tasks'', jrows sample_nodes)]"
    by (simp_all add: is_active_def is_loop_def text_or_def first_true_def payload_get_def map_filter_def)
  have unfinished: "\<exists>t\<in>set sample_nodes. payload_get t ''status'' \<noteq> JStr (lit ''completed'')"
    by (simp add: sample_nodes_def payload_get_def)
  have ready: "may_start (sample_nodes ! 1)" "deps_done sample_nodes (sample_nodes ! 1)"
    by (simp_all add: sample_nodes_def may_start_def deps_done_def status_of_def payload_get_def)
  have valid: "valid_plan (payload_get [(lit ''tasks'', jrows sample_nodes)] ''tasks'')"
    unfolding tasks by (rule sample_nodes_valid)
  have "sample_nodes ! 1 \<in> set (filter (\<lambda>t. may_start t \<and> deps_done sample_nodes t) sample_nodes)"
    unfolding set_filter using ready by (simp add: sample_nodes_def)
  then show ?thesis using valid_plan_progresses[OF valid tasks active] unfinished by blast
qed

end
