(* ===== verification/Harness_Safety.thy ===== *)
theory Harness_Safety
  imports Harness_Plans
begin

text \<open>
  What TeamHarness refuses: actions of a wrong role, changes of finished tasks, results it cannot record,
  projects that exist, deliverables outside the directory of the task, and the publication of sensitive files.
\<close>

section \<open>Operations that stop\<close>

text \<open>An operation that raises and leaves the world as it was.\<close>

definition blocked :: "('w, 'a) actS \<Rightarrow> 'w \<Rightarrow> bool" where
  "blocked m w \<longleftrightarrow> (\<exists>e. m w = (Inl e, w))"

lemma blocked_lift: "blocked (bindS (liftS m) f) w \<longleftrightarrow> (case m of Inl e \<Rightarrow> True | Inr x \<Rightarrow> blocked (f x) w)"
  by (cases m) (simp_all add: blocked_def)

lemma blocked_bind:
  assumes "readonly m" and "\<And>x. m w = (Inr x, w) \<Longrightarrow> blocked (f x) w"
  shows "blocked (bindS m f) w"
proof (cases "m w")
  case (Pair r w')
  then have w': "w' = w" using readonly_same[OF assms(1) Pair] by simp
  show ?thesis
  proof (cases r)
    case (Inl e)
    with Pair w' show ?thesis by (simp add: blocked_def bindS_def)
  next
    case (Inr x)
    with Pair w' assms(2)[of x] show ?thesis by (simp add: blocked_def bindS_def)
  qed
qed

lemma blocked_bind_lift: "(\<And>x. m = Inr x \<Longrightarrow> blocked (f x) w) \<Longrightarrow> blocked (bindS (liftS m) f) w"
  by (rule blocked_bind) (auto intro: readonly_intros)

lemma blocked_first: "blocked m w \<Longrightarrow> blocked (bindS m f) w"
  by (auto simp: blocked_def bindS_def)

lemma not_ok_failed [simp]: "\<not> is_ok (flow_failed tool action message)"
  by (simp add: is_ok_def flow_failed_def tool_failed_def payload_get_def)

text \<open>The tools report a blocked action as a failure, or let its exception through.\<close>

lemma blocked_response:
  assumes "blocked m w"
  shows "\<exists>r. on_value_error m (\<lambda>e. returnS (flow_failed tool action (X e))) w = (r, w) \<and> (\<forall>d. r = Inr d \<longrightarrow> \<not> is_ok d)"
  using assms by (auto simp: blocked_def on_value_error_def)

definition refused :: "'w \<Rightarrow> dict res \<times> 'w \<Rightarrow> bool" where
  "refused w = (\<lambda>(r, w'). w' = w \<and> (\<forall>d. r = Inr d \<longrightarrow> \<not> is_ok d))"

lemma taskflow_refused:
  assumes "strip_at (he_repr E) arguments [''action''] = lit action" and "map_of (map (\<lambda>(n, f). (lit n, f)) task_actions) (lit action) = Some act"
    and "h_payload E arguments = Inr payload" and "\<And>role. h_role E arguments w = (Inr role, w) \<Longrightarrow> blocked (act E arguments payload role) w"
  shows "refused w (h_taskflow E arguments w)"
proof (cases "h_role E arguments w")
  case (Pair r w')
  then have w': "w' = w" using readonly_same[OF readonly_harness(4) Pair] by simp
  show ?thesis
  proof (cases r)
    case (Inl e)
    with Pair w' assms(3) show ?thesis by (simp add: h_taskflow_def Let_def bindS_def[of "h_role _ _"] refused_def)
  next
    case (Inr role)
    have "blocked (act E arguments payload role) w" using assms(4) Pair w' Inr by simp
    from blocked_response[OF this, of "''taskflow''" "lit action" "he_exc_text E"] obtain r'
      where "on_value_error (act E arguments payload role) (\<lambda>e. returnS (flow_failed ''taskflow'' (lit action) (he_exc_text E e))) w = (r', w)"
        and "\<forall>d. r' = Inr d \<longrightarrow> \<not> is_ok d"
      by blast
    with Pair w' Inr assms(1-3) show ?thesis
      by (simp add: h_taskflow_def Let_def bindS_def[of "h_role _ _"] refused_def)
  qed
qed

lemma projectflow_refused:
  assumes "strip_at (he_repr E) arguments [''action''] = lit action" and "map_of (map (\<lambda>(n, f). (lit n, f)) project_actions) (lit action) = Some act"
    and "h_payload E arguments = Inr payload" and "blocked (act E arguments payload) w"
  shows "refused w (h_projectflow E arguments w)"
proof -
  from blocked_response[OF assms(4), of "''projectflow''" "lit action" "he_exc_text E"] obtain r
    where "on_value_error (act E arguments payload) (\<lambda>e. returnS (flow_failed ''projectflow'' (lit action) (he_exc_text E e))) w = (r, w)"
      and "\<forall>d. r = Inr d \<longrightarrow> \<not> is_ok d"
    by blast
  with assms(1-3) show ?thesis by (simp add: h_projectflow_def Let_def refused_def)
qed

lemma task_action_of:
  "map_of (map (\<lambda>(n, f). (lit n, f)) task_actions) (lit ''delegate_task'') = Some h_delegate_task"
  "map_of (map (\<lambda>(n, f). (lit n, f)) task_actions) (lit ''ack_task'') = Some h_ack_task"
  "map_of (map (\<lambda>(n, f). (lit n, f)) task_actions) (lit ''submit_task'') = Some h_submit_task"
  "map_of (map (\<lambda>(n, f). (lit n, f)) task_actions) (lit ''cancel_task'') = Some h_cancel_task"
  "map_of (map (\<lambda>(n, f). (lit n, f)) task_actions) (lit ''check_task'') = Some h_check_task"
  by (simp_all add: task_actions_def)

section \<open>Roles\<close>

definition action_roles :: "(string \<times> string list) list" where
  "action_roles = [(''delegate_task'', [''leader'']), (''ack_task'', [''worker'', ''remote-member'']),
     (''submit_task'', [''worker'', ''remote-member'']), (''cancel_task'', [''leader'']), (''check_task'', [''leader''])]"

lemma for_roles_blocked: "role \<notin> set (map lit roles) \<Longrightarrow> blocked (bindS (liftS (for_roles a roles n role)) f) w"
  by (simp add: for_roles_def blocked_lift)

text \<open>C11: A request of \<open>taskflow\<close> by a role that the action is not meant for changes no file, runs no process, sends
  nothing, and is not answered as a success.\<close>

theorem wrong_role_is_refused:
  assumes "strip_at (he_repr E) arguments [''action''] = lit action" and "h_payload E arguments = Inr payload"
    and "h_role E arguments w = (Inr role, w)" and "map_of action_roles action = Some roles" and "role \<notin> set (map lit roles)"
  shows "refused w (h_taskflow E arguments w)"
proof -
  have "\<exists>act. map_of (map (\<lambda>(n, f). (lit n, f)) task_actions) (lit action) = Some act \<and> blocked (act E arguments payload role) w"
    using assms(4,5)
    by (auto simp: action_roles_def task_action_of h_delegate_task_def h_ack_task_def h_submit_task_def h_cancel_task_def
        h_check_task_def Let_def intro!: for_roles_blocked split: if_splits)
  then show ?thesis using taskflow_refused[OF assms(1) _ assms(2)] assms(3) by fastforce
qed

section \<open>Finished tasks\<close>

lemma require_mutable_blocked:
  assumes "project_of_task E a task w = (Inr project, w)" and "terminal_status_in (he_repr E) project task task_id \<noteq> []"
  shows "blocked (bindS (require_task_mutable E a task task_id n) f) w"
  using assms by (simp add: blocked_def require_task_mutable_def terminal_task_status_def bindS_def raise_if_def)

lemma terminal_status_blocked:
  assumes "project_of_task E a task w = (Inr project, w)" and "terminal_status_in (he_repr E) project task task_id \<noteq> []"
  shows "blocked (bindS (terminal_task_status E a task task_id) (\<lambda>s. bindS (liftS (raise_if (s \<noteq> []) (X s))) f)) w"
  using assms by (simp add: blocked_def terminal_task_status_def bindS_def raise_if_def)

lemma look_task_stored:
  assumes "read_task E a task_id w = (Inr task, w)"
  shows "look_task E a task_id w = (Inr task, w)"
proof -
  obtain path where path: "task_state_path E a task_id = Inr path"
    using assms by (cases "task_state_path E a task_id") (auto simp: read_task_def)
  then show ?thesis
    using assms by (cases "hw_meta w path")
      (auto simp: look_task_def look_meta_eval read_task_def read_meta_eval fields_of_iff bindE_ok)
qed

lemma load_task_stored:
  assumes "read_task E a task_id w = (Inr task, w)" and "task \<noteq> []"
  obtains task' where "load_task E a task_id w = (Inr task', w)"
    and "project_of_task E a task' = project_of_task E a task"
    and "terminal_status_in R p task' task_id = terminal_status_in R p task task_id"
proof -
  let ?task' = "if \<not> truthy (payload_get task ''task_id'') \<and> truthy (payload_get task ''taskId'')
    then put ''task_id'' (JStr (text_at (he_repr E) task [''taskId''])) task else task"
  have "load_task E a task_id w = (Inr ?task', w)" using look_task_stored[OF assms(1)] assms(2)
    by (simp add: load_task_def bindS_def[of "look_task _ _ _"])
  then show thesis
    by (rule that) (simp_all add: project_of_task_def terminal_status_in_def text_at_single payload_get_put)
qed

lemma read_meta_stored:
  assumes "read_task E a task_id w = (Inr task, w)" and "task \<noteq> []" and "task_state_path E a task_id = Inr path"
  shows "read_meta path d w = (Inr task, w)"
  using assms by (auto simp: read_task_def read_meta_eval split: option.splits)

lemma blocked_after:
  assumes "m w = (Inr x, w)" and "blocked (f x) w"
  shows "blocked (bindS m f) w"
  using assms by (simp add: blocked_def bindS_def)

text \<open>What it means for a task to be finished, stated without the code's search for a status.\<close>

definition finished :: "(json \<Rightarrow> pystr) \<Rightarrow> dict \<Rightarrow> dict \<Rightarrow> pystr \<Rightarrow> bool" where
  "finished R project task task_id \<longleftrightarrow>
     (\<exists>d \<in> {task} \<union> {d. JObj d \<in> set (plan_items project) \<and> payload_get d ''task_id'' = JStr task_id}.
        text_at R d [''status''] \<in> {lit ''completed'', lit ''revision'', lit ''blocked'', lit ''cancelled''})"

lemma set_objects:
  "set (List.map_filter (\<lambda>v. case v of JObj d \<Rightarrow> Some d | _ \<Rightarrow> None) vs) = {d. JObj d \<in> set vs}"
proof (induction vs)
  case (Cons v vs)
  then show ?case by (cases v) (auto simp: map_filter_simps)
qed (simp add: map_filter_simps)

lemma finished_is_found:
  assumes "finished R project task task_id"
  shows "terminal_status_in R project task task_id \<noteq> []"
proof -
  let ?nodes = "List.map_filter (\<lambda>v. case v of JObj d \<Rightarrow> Some d | _ \<Rightarrow> None) (plan_items project)"
  let ?found = "filter is_terminal (map (\<lambda>d. text_at R d [''status'']) (filter (\<lambda>d. payload_get d ''task_id'' = JStr task_id) ?nodes))"
  have some: "is_terminal s \<Longrightarrow> s \<noteq> []" for s
    by (auto simp: is_terminal_def terminal_statuses_def)
  have nodes: "set ?nodes = {d. JObj d \<in> set (plan_items project)}" by (rule set_objects)
  have all: "is_terminal s" if "s \<in> {lit ''completed'', lit ''revision'', lit ''blocked'', lit ''cancelled''}" for s
    using that by (auto simp: is_terminal_def terminal_statuses_def)
  show ?thesis
  proof (cases ?found)
    case (Cons s rest)
    have "s \<in> set ?found" unfolding Cons by simp
    then have "s \<noteq> []" using some[of s] by (simp del: lit_eq_Nil)
    then show ?thesis unfolding terminal_status_in_def Let_def Cons by simp
  next
    case Nil
    then have "\<not> is_terminal (text_at R d [''status''])" if "JObj d \<in> set (plan_items project)" "payload_get d ''task_id'' = JStr task_id" for d
      using that nodes by (auto simp: filter_empty_conv)
    then have "is_terminal (text_at R task [''status''])" using assms all unfolding finished_def by blast
    then show ?thesis using Nil some by (simp add: terminal_status_in_def Let_def)
  qed
qed

text \<open>C10: A task that is completed, sent back for revision, blocked or cancelled, by the plan of its project or by its own
  file, is not delegated, submitted or cancelled any more: such a request changes no file, runs no process and is
  not answered as a success.\<close>

theorem finished_tasks_stay:
  assumes "strip_at (he_repr E) arguments [''action''] = lit action"
    and "action \<in> {''delegate_task'', ''submit_task'', ''cancel_task''}"
    and "h_payload E arguments = Inr payload" and "id_of (he_repr E) payload ''taskId'' ''task_id'' = Inr task_id"
    and "read_task E arguments task_id w = (Inr task, w)" and "task \<noteq> []"
    and "project_of_task E arguments task w = (Inr project, w)"
    and "finished (he_repr E) project task task_id"
  shows "refused w (h_taskflow E arguments w)"
proof -
  note stuck = finished_is_found[OF assms(8)]
  obtain task' where task': "load_task E arguments task_id w = (Inr task', w)"
      "project_of_task E arguments task' w = (Inr project, w)" "terminal_status_in (he_repr E) project task' task_id \<noteq> []"
    using load_task_stored[OF assms(5,6)] assms(7) stuck by metis
  have existing: "blocked (bindS (read_meta path d) (\<lambda>ex. bindS (require_task_mutable E arguments ex i n) (f ex))) w"
    if "id_of (he_repr E) payload ''taskId'' ''task_id'' = Inr i" and "task_state_path E arguments i = Inr path" for i path d n f
  proof -
    have "i = task_id" using that(1) assms(4) by simp
    with that(2) have "read_meta path d w = (Inr task, w)" by (intro read_meta_stored[OF assms(5,6)]) simp
    then show ?thesis
      by (rule blocked_after) (use \<open>i = task_id\<close> stuck in \<open>simp add: require_mutable_blocked[OF assms(7)]\<close>)
  qed
  have delegate: "blocked (h_delegate_task E arguments payload role) w" for role
    unfolding h_delegate_task_def Let_def
    by (rule blocked_bind_lift, rule blocked_bind_lift, rule blocked_bind_lift, rule blocked_bind_lift,
        rule blocked_bind, rule readonly_intros, rule blocked_bind, intro readonly_intros,
        rule blocked_bind, rule readonly_intros, rule blocked_bind, rule readonly_intros, rule blocked_bind_lift, rule existing)
  have loaded: "blocked (bindS (load_task E arguments task_id) f) w" if "blocked (f task') w" for f :: "dict \<Rightarrow> ('a, dict) harness"
    by (rule blocked_after[of _ _ task']) (use task'(1) that in simp_all)
  have submit: "blocked (h_submit_task E arguments payload role) w" for role
    unfolding h_submit_task_def Let_def assms(4)
    by (intro blocked_bind_lift) (auto intro!: loaded require_mutable_blocked[OF task'(2,3)])
  have cancel: "blocked (h_cancel_task E arguments payload role) w" for role
    unfolding h_cancel_task_def Let_def assms(4)
    by (intro blocked_bind_lift) (auto intro!: loaded terminal_status_blocked[OF task'(2,3)])
  show ?thesis
    using assms(2) taskflow_refused[OF assms(1) _ assms(3)] task_action_of delegate submit cancel by fastforce
qed

end
