(* ===== verification/Harness_Limits.thy ===== *)
theory Harness_Limits
  imports Harness_Safety
begin

text \<open>
  Limits of what TeamHarness writes and sends: creation overwrites nothing, deliverables lie below the
  directory of their task, files are checked before they are published; and two ways in which work is lost.
\<close>

section \<open>Identifiers\<close>

lemma h_safe_id_ok: "safe_id R v f = Inr i \<Longrightarrow> is_safe_id i"
  by (auto simp: safe_id_def Let_def split: if_splits)

lemma safe_char: "is_name_char c \<Longrightarrow> \<not> isspace c \<and> c \<noteq> 47 \<and> c < 128"
  by (auto simp: is_name_char_def is_alnum_ascii_def char_class_defs)

lemma is_safe_id_chars: "is_safe_id i \<Longrightarrow> i \<noteq> [] \<and> (\<forall>c\<in>set i. \<not> isspace c \<and> c \<noteq> 47 \<and> c < 128)"
proof -
  assume i: "is_safe_id i"
  then have "is_name_char c" if "c \<in> set i" for c
    using that unfolding is_safe_id_def by (cases i) (auto simp: list_all_iff is_name_char_def)
  then show ?thesis using i safe_char by (auto simp: is_safe_id_def)
qed

lemma is_safe_id_strip: "is_safe_id i \<Longrightarrow> strip i = i"
  using is_safe_id_chars[of i] by (intro strip_trimmed) (auto simp: trimmed_def)

section \<open>Creation\<close>

text \<open>Nothing that a world has is overwritten.\<close>

definition extends :: "'s harness_world \<Rightarrow> 's harness_world \<Rightarrow> bool" where
  "extends w w' \<longleftrightarrow> hw_meta w \<subseteq>\<^sub>m hw_meta w'"

lemma extends_refl [simp]: "extends w w"
  by (simp add: extends_def)

lemma extends_from:
  assumes "readonly m" and "\<And>x. m w = (Inr x, w) \<Longrightarrow> extends w (snd (f x w))"
  shows "extends w (snd (bindS m f w))"
proof (cases "m w")
  case (Pair r w')
  then have "w' = w" using readonly_same[OF assms(1) Pair] by simp
  then show ?thesis using Pair assms(2) by (cases r) (simp_all add: bindS_def)
qed

lemma extends_from_lift: "(\<And>x. m = Inr x \<Longrightarrow> extends w (snd (f x w))) \<Longrightarrow> extends w (snd (bindS (liftS m) f w))"
  by (cases m) simp_all

lemma extends_run: "stable (extends w) m \<Longrightarrow> extends w (snd (m w))"
  by (simp add: stable_def)

lemma stable_write_new: "hw_meta w p = None \<Longrightarrow> stable (extends w) (write_meta p d)"
  by (auto simp: stable_def write_meta_def extends_def map_le_def dom_def)

lemma stable_extends_text [stable_intros]: "stable (extends w) (write_text p t)"
  by (simp add: stable_def write_text_def extends_def)

lemma first_free_new:
  "first_free E a b cs w = (Inr i, w) \<Longrightarrow> \<exists>p. project_state_path E a i = Inr p \<and> hw_meta w p = None"
proof (induction cs)
  case (Cons c cs)
  show ?case
  proof (cases "safe_id (he_repr E) (JStr c) ''projectId''")
    case (Inr i')
    show ?thesis
    proof (cases "project_state_path E a i'")
      case (Inr p)
      with Cons \<open>safe_id _ _ _ = Inr i'\<close> show ?thesis
        by (auto simp: project_exists_def bindS_def[of "bindS _ _"] returnS_def split: if_splits)
    qed (use Cons Inr in \<open>simp add: project_exists_def bindS_def[of "bindS _ _"]\<close>)
  qed (use Cons in simp)
qed simp

lemma project_id_new:
  assumes "project_id_from_payload E a payload w = (Inr i, w)"
  shows "\<exists>p. project_state_path E a i = Inr p \<and> hw_meta w p = None"
proof (cases "truthy (either payload ''projectId'' ''project_id'')")
  case True
  with assms obtain i' where "safe_id (he_repr E) (either payload ''projectId'' ''project_id'') ''projectId'' = Inr i'"
    by (auto simp: project_id_from_payload_def Let_def bindS_lift_ok)
  with assms True show ?thesis
    by (cases "project_state_path E a i'")
      (auto simp: project_id_from_payload_def Let_def project_exists_def bindS_def[of "bindS _ _"] raiseS_def returnS_def split: if_splits)
next
  case False
  with assms show ?thesis
    by (intro first_free_new) (simp add: project_id_from_payload_def Let_def h_unique_project_id_def)
qed

lemma stable_write_new_project:
  assumes "project_state_path E a i = Inr p" and "hw_meta w p = None"
  shows "stable (extends w) (write_project E a i d)"
proof -
  have "stable (extends w) (write_meta (meta_path dir) d)" if "project_dir E a i = Inr dir" for dir
    using that assms by (intro stable_write_new) (simp add: project_state_path_def)
  then show ?thesis unfolding write_project_def by (intro stable_bind_lift stable_intros)
qed

text \<open>Completing a task does not change its identifier.\<close>

definition has_id :: "pystr \<Rightarrow> dict \<Rightarrow> bool" where
  "has_id i d \<longleftrightarrow> payload_get d ''task_id'' = JStr i"

lemma has_id_put: "k \<noteq> ''task_id'' \<Longrightarrow> has_id i (put k v d) = has_id i d"
  by (simp add: has_id_def payload_get_put)

lemma has_id_fold:
  assumes "\<And>x d. x \<in> set xs \<Longrightarrow> has_id i d \<Longrightarrow> has_id i (f x d)" and "has_id i d"
  shows "has_id i (fold f xs d)"
  using assms by (induction xs arbitrary: d) simp_all

lemma has_id_let:
  "(\<And>y. has_id i y \<Longrightarrow> has_id i (f y)) \<Longrightarrow> has_id i d \<Longrightarrow> has_id i (let y = d in f y)"
  "(\<And>y. has_id i (g y)) \<Longrightarrow> has_id i (let y = x in g y)"
  by simp_all

lemma has_id_console:
  assumes "has_id i d" and "is_safe_id i"
  shows "has_id i (console_fields E node d)"
proof -
  have own: "has_id i d \<Longrightarrow> has_id i (set_text R ''task_id'' (''task_id'' # ns) os d)" for R ns os d
    using is_safe_id_strip[OF assms(2)] is_safe_id_chars[OF assms(2)]
    by (simp add: has_id_def set_text_def h_first_text_def payload_get_put str_or_empty_def)
  have other: "k \<noteq> ''task_id'' \<Longrightarrow> has_id i d \<Longrightarrow> has_id i (set_text R k ns os d)" for R k ns os d
    by (simp add: set_text_def has_id_put)
  have "has_id i (optional_field R p d)" if "p \<in> set optional_fields" and "has_id i d" for R p d
    using that by (auto simp: optional_field_def optional_fields_def has_id_put Let_def)
  then have drop: "has_id i d \<Longrightarrow> has_id i (drop_fields dropped_fields (fold (optional_field R) optional_fields d))" for R d
    using has_id_fold[of optional_fields i "optional_field R" d] by (simp add: has_id_def payload_get_drop dropped_fields_def)
  show ?thesis
    unfolding console_fields_def
    by (rule has_id_let(2), rule has_id_let(1), (rule has_id_let(1) has_id_let(2) drop own other, assumption?)+)
      (auto simp: has_id_put intro!: own other assms)
qed

lemma has_id_ensure:
  assumes "has_id i d" and "is_safe_id i" and "ensure_console_task_meta E a d w = (Inr d', w')"
  shows "has_id i d'"
proof -
  have "has_id i (keep_field R ds p d)" if "p \<in> set kept_fields" and "has_id i d" for R ds p d
    using that by (auto simp: keep_field_def kept_fields_def has_id_put Let_def)
  then have "has_id i d1" if "preserve_task_meta_fields E a d w = (Inr d1, w1)" for d1 w1
    using that assms(1)
    by (auto simp: preserve_task_meta_fields_def Let_def returnS_def liftS_def intro!: has_id_fold elim!: bindS_cases keep_from_cases
        split: if_splits sum.splits)
  with assms(2,3) show ?thesis
    unfolding ensure_console_task_meta_def
    by (auto simp: returnS_def intro!: has_id_console elim!: bindS_cases)
qed

lemma stable_write_new_task:
  assumes "has_id i d" and "is_safe_id i" and "task_state_path E a i = Inr p" and "hw_meta w p = None"
  shows "stable (extends w) (write_task E a d)"
proof -
  have path: "text_at R d' [''task_id''] = i" if "has_id i d'" for R d'
    using that is_safe_id_chars[OF assms(2)] by (simp add: has_id_def text_at_single str_or_empty_def)
  have "stable (extends w) (bindS (liftS (task_state_path E a (text_at (he_repr E) d' [''task_id'']))) (\<lambda>path.
      bindS (write_meta path d') (\<lambda>_. returnS d')))" if "has_id i d'" for d'
    unfolding path[OF that] assms(3) by (intro stable_bind_lift stable_bind stable_basic stable_write_new) (simp add: assms(4))
  then show ?thesis
    unfolding write_task_def
    by (intro stable_bind_result[OF stable_readonly[OF readonly_tasks(3)]]) (auto dest: has_id_ensure[OF assms(1,2)])
qed

lemma quick_task_id_safe: "quick_task_id R payload pid = Inr i \<Longrightarrow> is_safe_id i"
  by (auto simp: quick_task_id_def Let_def dest: h_safe_id_ok)

lemma stable_new_project:
  assumes "project_id_from_payload E a payload w = (Inr i, w)"
  shows "stable (extends w) (write_project E a i d)"
  using project_id_new[OF assms] stable_write_new_project by blast

lemma stable_new_task:
  assumes "quick_task_id R payload i = Inr t" and "task_state_path E a t = Inr tp" and "raise_if (hw_meta w tp \<noteq> None) e = Inr u"
  shows "stable (extends w) (write_task E a (quick_task ((lit ''task_id'', JStr t) # d) src))"
proof (rule stable_write_new_task[OF _ quick_task_id_safe[OF assms(1)] assms(2)])
  have "has_id t ((lit ''task_id'', JStr t) # d)" by (simp add: has_id_def payload_get_def)
  then show "has_id t (quick_task ((lit ''task_id'', JStr t) # d) src)" by (simp add: quick_task_def has_id_put)
  show "hw_meta w tp = None" using assms(3) by simp
qed

lemma stable_extends_spec: "stable (extends w) (write_spec E a i t)"
  unfolding write_spec_def by (intro stable_intros)

lemma bindS_getS: "bindS (getS g) f w = f (g w) w"
  by simp

lemma create_extends: "extends w (snd (h_create_project E a payload w))"
  unfolding h_create_project_def Let_def
  by (rule extends_from, rule readonly_intros, intro extends_run stable_bind stable_new_project stable_basic)

text \<open>
  The processes that run while the task \<open>i\<close> is pushed: the query for the alias of the storage, and the upload of
  the target that the arguments of the push resolve to. An upload only reads local files.
\<close>

definition upload_command :: "'s harness_env \<Rightarrow> dict \<Rightarrow> pystr \<Rightarrow> pystr list \<Rightarrow> bool" where
  "upload_command E arguments i command \<longleftrightarrow> command = map lit [''mc'', ''alias'', ''list'', ''agentteams'']
     \<or> (\<exists>t exclude v v'. resolve_filesync E (sync_arguments arguments ''push'' i None) v = (Inr t, v')
          \<and> command = filesync_command t exclude)"

text \<open>Such a command asks for the alias or copies from the local place of the target to its remote one.\<close>

lemma upload_command_cases:
  assumes "upload_command E arguments i command"
  obtains "command = map lit [''mc'', ''alias'', ''list'', ''agentteams'']"
  | t :: sync_target where "command = [lit ''mc'', lit ''cp'', sy_local t, sy_remote t]"
  | t :: sync_target and rest where "command = [lit ''mc'', lit ''mirror'', sy_local t @ (if endswith (sy_local t) [47] then [] else [47]),
      sy_remote t, lit ''--overwrite''] @ rest"
proof -
  have other: "lit ''push'' \<noteq> lit ''list''" "lit ''push'' \<noteq> lit ''stat''" "lit ''push'' \<noteq> lit ''pull''" by (simp_all add: lit_def)
  have "strip (lit ''push'') = lit ''push''" by (simp add: lit_def strip_def rstrip_def char_class_defs)
  then have "strip_at R (sync_arguments arguments ''push'' i None) [''action''] = lit ''push''" for R
    by (simp add: strip_at_def text_at_single str_or_empty_def sync_arguments_def payload_get_put Let_def lit_def)
  then have "sy_action t = lit ''push''"
    if "resolve_filesync E (sync_arguments arguments ''push'' i None) v = (Inr t, v')" for t v v'
    using that by (auto simp: resolve_filesync_def Let_def returnS_def elim!: bindS_cases split: prod.splits)
  then have "command = map lit [''mc'', ''alias'', ''list'', ''agentteams'']
      \<or> (\<exists>t exclude. sy_action t = lit ''push'' \<and> command = filesync_command t exclude)"
    using assms unfolding upload_command_def by blast
  then show thesis
  proof (elim disjE exE conjE)
    fix t exclude
    assume t: "sy_action t = lit ''push''" "command = filesync_command t exclude"
    show thesis
    proof (cases "sy_directory t")
      case True
      show ?thesis
        by (rule that(3)[of t "concat (map (\<lambda>pattern. [lit ''--exclude'', pattern]) exclude)"])
          (use True t other in \<open>simp add: filesync_command_def Let_def\<close>)
    next
      case False
      then show ?thesis using t other by (intro that(2)[of t]) (simp add: filesync_command_def Let_def)
    qed
  qed (rule that(1))
qed

definition upload_keeps_files :: "'s harness_env \<Rightarrow> dict \<Rightarrow> bool" where
  "upload_keeps_files E arguments \<longleftrightarrow> (\<forall>i q v. upload_command E arguments i (ru_command q) \<longrightarrow>
     hw_meta (snd (he_run E q v)) = hw_meta v)"

lemma stable_upload_run:
  assumes "upload_keeps_files E arguments" and "upload_command E arguments i c"
  shows "stable (extends w) (h_run E \<lparr>ru_command = c, ru_variable = x\<rparr>)"
proof -
  have "extends w v \<Longrightarrow> extends w (snd (he_run E \<lparr>ru_command = c, ru_variable = x\<rparr> v))" for v
    using assms by (simp add: upload_keeps_files_def extends_def)
  then show ?thesis by (auto simp: stable_def h_run_def split: prod.split) (metis snd_conv)
qed

lemma stable_upload:
  assumes "upload_keeps_files E arguments"
  shows "stable (extends w) (sync_task E arguments i None)"
proof -
  note run = stable_upload_run[OF assms, where i = i]
  have configured: "stable (extends w) (mc_alias_configured E)"
    unfolding mc_alias_configured_def by (intro stable_intros run) (simp add: upload_command_def)
  have env: "stable (extends w) (filesync_mc_env E r)" for r
    unfolding filesync_mc_env_def Let_def by (intro stable_intros configured)
  have upload: "stable (extends w) (run_filesync E t x)"
    if "resolve_filesync E (sync_arguments arguments ''push'' i None) v = (Inr t, v')" for t x v v'
    unfolding run_filesync_def using that by (intro stable_intros env run) (auto simp: upload_command_def)
  let ?resolved = "on_value_error
       (bindS (resolve_filesync E (sync_arguments arguments ''push'' i None)) (\<lambda>t.
        bindS (liftS (normalize_exclude E (payload_get (sync_arguments arguments ''push'' i None) ''exclude'')))
          (\<lambda>exclude. returnS (Inr (t, exclude)))))
       (\<lambda>e. returnS (Inl (tool_failed ''filesync'' [] (he_exc_text E e))))"
  have resolved: "\<exists>u u'. resolve_filesync E (sync_arguments arguments ''push'' i None) u = (Inr t, u')"
    if "?resolved v = (Inr (Inr (t, x)), v')" for t x v v'
    using that by (auto simp: on_value_error_def returnS_def elim!: bindS_cases split: prod.splits sum.splits if_splits) blast
  have "stable (extends w) (run_filesync E t x)" if "?resolved v = (Inr (Inr (t, x)), v')" for t x v v'
    using resolved[OF that] by (auto intro: upload)
  then have "stable (extends w) (case r of Inl failed \<Rightarrow> returnS failed | Inr (t, x) \<Rightarrow>
      if dry then returnS (f t x) else run_filesync E t x)" if "?resolved v = (Inr r, v')" for r v v' dry f
    using that by (cases r) (auto intro!: stable_intros)
  moreover have "stable (extends w) ?resolved"
    by (intro stable_intros stable_readonly[OF readonly_resolve_filesync])
  ultimately have "stable (extends w) (h_filesync E (sync_arguments arguments ''push'' i None))"
    unfolding h_filesync_def by (intro stable_bind_result) blast+
  then show ?thesis unfolding sync_task_def by (intro stable_intros)
qed

lemma create_quick_extends:
  assumes outside: "upload_keeps_files E arguments"
  shows "extends w (snd (h_create_quick_project E arguments payload w))"
  unfolding h_create_quick_project_def Let_def
  by (rule extends_from, rule readonly_intros, rule extends_from_lift, rule extends_from_lift,
      rule extends_from_lift, rule extends_from_lift, rule extends_from_lift, simp only: bindS_getS,
      rule extends_from_lift, rule extends_run, rule stable_pair,
      intro stable_bind stable_readonly[OF readonly_rooms(1)] stable_new_project stable_extends_spec stable_new_task
        stable_upload[OF outside] stable_basic)

lemma on_value_error_world: "snd (on_value_error m (\<lambda>e. returnS (f e)) w) = snd (m w)"
  by (simp add: on_value_error_def split: prod.split sum.split)

text \<open>C13: Creating a project leaves every state file that exists as it was, whatever identifiers the request gives.
  Creating a quick project, which also pushes its first task to the storage, does so provided that this upload, as
  it is documented, does not change local state files; nothing is assumed of any other process or request.\<close>

theorem creation_overwrites_nothing:
  assumes "strip_at (he_repr E) arguments [''action''] = lit action"
    and "action \<in> {''create_project'', ''create_quick_project''}"
    and "action = ''create_quick_project'' \<longrightarrow> upload_keeps_files E arguments"
  shows "extends w (snd (h_projectflow E arguments w))"
proof -
  obtain act where act: "map_of (map (\<lambda>(n, f). (lit n, f)) project_actions) (lit action) = Some act"
      "\<And>payload. extends w (snd (act E arguments payload w))"
    using assms(2,3) create_extends[of w E arguments] create_quick_extends[of E arguments w] by (auto simp: project_actions_def)
  show ?thesis
    unfolding h_projectflow_def Let_def assms(1) act(1)
    by (rule extends_from_lift) (simp add: on_value_error_world act(2))
qed

section \<open>Results that cannot be recorded\<close>

text \<open>C18: A worker may submit a task as failed or as partly done, but a leader who hands this status on when the result
  is to be recorded in the plan is refused, and the plan keeps the task as submitted.\<close>

theorem failed_results_cannot_be_recorded:
  assumes "strip_at (he_repr E) arguments [''action''] = lit ''accept_task_result''" and "h_payload E arguments = Inr payload"
    and "either payload ''resultStatus'' ''result_status'' = JStr s" and "s \<in> {lit ''FAILED'', lit ''PARTIAL''}"
  shows "submit_task_result_status (he_repr E) [(lit ''status'', JStr s)] = Inr s \<and> refused w (h_projectflow E arguments w)"
proof
  have s: "strip s = s" "s \<noteq> []"
    using assms(4) by (auto simp: strip_def lit_def char_class_defs rstrip_def)
  show "submit_task_result_status (he_repr E) [(lit ''status'', JStr s)] = Inr s"
    using assms(4) s by (auto simp: submit_task_result_status_def map_filter_def h_result_statuses_def)
  have "\<exists>m. accepted_node_status (he_repr E) (JStr s) = Inl (ValueError m)"
    using assms(4) s by (auto simp: accepted_node_status_def Let_def)
  then have "blocked (h_accept_task_result E arguments payload) w"
    unfolding h_accept_task_result_def Let_def assms(3)
    by (elim exE) (intro blocked_bind_lift blocked_bind readonly_intros, simp)
  moreover have "map_of (map (\<lambda>(n, f). (lit n, f)) project_actions) (lit ''accept_task_result'') = Some h_accept_task_result"
    by (simp add: project_actions_def)
  ultimately show "refused w (h_projectflow E arguments w)" using projectflow_refused[OF assms(1) _ assms(2)] by blast
qed

section \<open>Deliverables\<close>

lemma split_join_parts: "ps \<noteq> [] \<Longrightarrow> \<forall>p\<in>set ps. d \<notin> set p \<Longrightarrow> split_on d (join [d] ps) = ps"
  by (induction ps rule: induct_list012) (simp_all add: split_on_append split_on_no)

text \<open>The components of an accepted artifact path.\<close>

lemma artifact_path_parts:
  assumes "normalize_workspace_artifact_path raw = Inr (p, dir)"
  obtains parts where "p = join [47] parts @ (if dir then [47] else [])" and "parts \<noteq> []"
    and "\<forall>c\<in>set parts. 47 \<notin> set c \<and> \<not> bad_segment c"
proof
  let ?parts = "split_on 47 (slashless (strip raw))"
  show "p = join [47] ?parts @ (if dir then [47] else [])"
    using assms by (auto simp: normalize_workspace_artifact_path_def Let_def)
  have "\<not> list_ex bad_segment ?parts" using assms by (auto simp: normalize_workspace_artifact_path_def Let_def)
  then show "\<forall>c\<in>set ?parts. 47 \<notin> set c \<and> \<not> bad_segment c"
    using split_on_parts[of _ 47 "slashless (strip raw)"] by (auto simp: list_ex_iff)
  show "?parts \<noteq> []" by (cases "slashless (strip raw)") (auto split: list.split)
qed

lemma rstrip_slash_join:
  assumes "parts \<noteq> []" and "\<forall>c\<in>set parts. 47 \<notin> set c \<and> \<not> bad_segment c"
  shows "rstrip_slash (join [47] parts @ (if dir then [47] else [])) = join [47] parts"
proof -
  have "last (join [47] ps) \<noteq> 47 \<and> join [47] ps \<noteq> []" if "ps \<noteq> []" "\<forall>c\<in>set ps. 47 \<notin> set c \<and> \<not> bad_segment c" for ps
    using that
  proof (induction ps rule: induct_list012)
    case (2 x)
    then have "x \<noteq> []" "47 \<notin> set x" by (auto simp: bad_segment_def)
    then show ?case by (metis join.simps(2) last_in_set)
  next
    case (3 x y zs)
    then show ?case by simp
  qed simp
  then obtain s c where "join [47] parts = s @ [c]" "c \<noteq> 47" using assms by (metis append_butlast_last_id)
  then show ?thesis by (simp add: rstrip_slash_def)
qed

definition below_task :: "pystr \<Rightarrow> pystr \<Rightarrow> bool" where
  "below_task task_id p \<longleftrightarrow> (\<exists>rest. split_on 47 (rstrip_slash p) = [lit ''shared'', lit ''tasks'', task_id] @ rest
     \<and> list_all (\<lambda>c. \<not> bad_segment c) rest)"

lemma under_prefix_parts:
  assumes "path_is_under (join [47] parts) (lit ''shared/tasks/'' @ task_id)" and "47 \<notin> set task_id" and "parts \<noteq> []"
    and "\<forall>c\<in>set parts. 47 \<notin> set c \<and> \<not> bad_segment c"
  shows "\<exists>rest. parts = [lit ''shared'', lit ''tasks'', task_id] @ rest"
proof -
  have split: "split_on 47 (join [47] parts) = parts" using assms(3,4) by (intro split_join_parts) auto
  have lits: "lit ''shared/tasks/'' = lit ''shared'' @ 47 # lit ''tasks'' @ [47]" "47 \<notin> set (lit ''shared'')" "47 \<notin> set (lit ''tasks'')"
    by (simp_all add: lit_def)
  have prefix: "split_on 47 (lit ''shared/tasks/'' @ task_id @ t) = [lit ''shared'', lit ''tasks''] @ split_on 47 (task_id @ t)" for t
    by (simp add: lits split_on_append)
  from assms(1) consider "join [47] parts = lit ''shared/tasks/'' @ task_id"
    | t where "join [47] parts = lit ''shared/tasks/'' @ task_id @ 47 # t"
    by (auto simp: path_is_under_def startswith_iff)
  then show ?thesis
  proof cases
    case 1
    then have "parts = split_on 47 (lit ''shared/tasks/'' @ task_id)" using split by simp
    then show ?thesis using prefix[of "[]"] assms(2) by (simp add: split_on_no)
  next
    case 2
    then have "parts = split_on 47 (lit ''shared/tasks/'' @ task_id @ 47 # t)" using split by simp
    then show ?thesis using prefix[of "47 # t"] assms(2) by (simp add: split_on_append)
  qed
qed

text \<open>C16: Every deliverable that a submission accepts is a relative path whose first components are
  \<open>shared\<close>, \<open>tasks\<close> and the identifier of the task, followed by names without empty, current or parent directories.\<close>

theorem deliverables_confined:
  assumes "validate_task_deliverables R task_id items = Inr paths" and "is_safe_id task_id"
  shows "\<forall>p\<in>set paths. below_task task_id p"
proof
  fix p
  assume "p \<in> set paths"
  then obtain pss ps where pss: "mapE (task_deliverable R (lit ''shared/tasks/'' @ task_id)) items = Inr pss" "ps \<in> set pss" "p \<in> set ps"
    using assms(1) by (auto simp: validate_task_deliverables_def)
  obtain item where item: "task_deliverable R (lit ''shared/tasks/'' @ task_id) item = Inr ps"
    using mapE_ok_set[OF pss(1,2)] by blast
  then obtain raw dir where raw: "normalize_workspace_artifact_path raw = Inr (p, dir)"
      "path_is_under (rstrip_slash p) (lit ''shared/tasks/'' @ task_id)"
    using pss(3) by (auto simp: task_deliverable_def Let_def split: if_splits sum.splits)
  obtain parts where parts: "p = join [47] parts @ (if dir then [47] else [])" "parts \<noteq> []"
      "\<forall>c\<in>set parts. 47 \<notin> set c \<and> \<not> bad_segment c"
    using artifact_path_parts[OF raw(1)] .
  have p: "rstrip_slash p = join [47] parts" unfolding parts(1) by (rule rstrip_slash_join[OF parts(2,3)])
  obtain rest where rest: "parts = [lit ''shared'', lit ''tasks'', task_id] @ rest"
    using under_prefix_parts[OF raw(2)[unfolded p] _ parts(2,3)] is_safe_id_chars[OF assms(2)] by blast
  have "split_on 47 (rstrip_slash p) = parts" unfolding p using parts(2,3) by (intro split_join_parts) auto
  with rest parts(3) show "below_task task_id p" by (auto simp: below_task_def list_all_iff)
qed

section \<open>Publication\<close>

lemma artifact_resolved_inside:
  assumes "resolve_workspace_artifact_path E a source expected = Inr (normalized, path)"
  obtains dir where "workspace_dir E a = Inr dir" and "expected = [] \<or> path_is_under normalized expected"
    and "below_dir (he_resolve E dir) (he_resolve E path) \<or> artifact_is_under_runtime_shared E dir path normalized"
  using assms by (auto simp: resolve_workspace_artifact_path_def Let_def split: if_splits)

lemma checked_artifact:
  assumes "check_artifact E a source filename expected parent w = (Inr (Inr (result, path)), w')"
  obtains normalized where "resolve_workspace_artifact_path E a source expected = Inr (normalized, path)"
    and "file_exists E path w" and "\<not> he_is_dir E path w" and "\<not> sensitive_name normalized" and "\<not> sensitive_name filename"
    and "artifact_is_text path (artifact_mimetype E path) \<longrightarrow>
      (\<exists>b. he_bytes E path w = Inr b \<and> \<not> artifact_text_has_sensitive_content E path (artifact_mimetype E path) b)"
proof (cases "resolve_workspace_artifact_path E a source expected")
  case (Inl e)
  with assms show thesis by (simp add: check_artifact_def Let_def split: if_splits)
next
  case (Inr np)
  obtain normalized p where np: "np = (normalized, p)" by (cases np)
  show thesis
  proof (rule that[of normalized])
    show "resolve_workspace_artifact_path E a source expected = Inr (normalized, path)" "file_exists E path w" "\<not> he_is_dir E path w"
      "\<not> sensitive_name normalized" "\<not> sensitive_name filename"
      using assms Inr np by (auto simp: check_artifact_def Let_def split: if_splits sum.splits)
    show "artifact_is_text path (artifact_mimetype E path) \<longrightarrow>
        (\<exists>b. he_bytes E path w = Inr b \<and> \<not> artifact_text_has_sensitive_content E path (artifact_mimetype E path) b)"
      using assms Inr np by (auto simp: check_artifact_def Let_def split: if_splits sum.splits)
  qed
qed

text \<open>A file that may leave the machine.\<close>

definition may_publish :: "'s harness_env \<Rightarrow> dict \<Rightarrow> pystr \<Rightarrow> pystr \<Rightarrow> pystr \<Rightarrow> 's harness_world \<Rightarrow> bool" where
  "may_publish E a expected normalized path w \<longleftrightarrow>
     file_exists E path w \<and> \<not> he_is_dir E path w \<and> \<not> sensitive_name normalized
     \<and> (expected = [] \<or> path_is_under normalized expected)
     \<and> (case workspace_dir E a of Inl e \<Rightarrow> False
        | Inr dir \<Rightarrow> below_dir (he_resolve E dir) (he_resolve E path) \<or> artifact_is_under_runtime_shared E dir path normalized)
     \<and> (if artifact_is_text path (artifact_mimetype E path)
        then (case he_bytes E path w of Inl e \<Rightarrow> False
          | Inr b \<Rightarrow> \<not> artifact_text_has_sensitive_content E path (artifact_mimetype E path) b)
        else True)"

text \<open>C12: Publishing an artifact only sends a request, and only changes anything, for an existing file inside the workspace
  or the shared directory of the runtime and below the expected prefix, whose path and published name do not look
  sensitive, and whose text, if it is a text, holds no private key, authorization header or assigned secret.\<close>

theorem only_checked_files_are_published:
  assumes "snd (publish_workspace_artifact E a room source filename expected parent w) \<noteq> w"
  shows "\<exists>normalized path. resolve_workspace_artifact_path E a source expected = Inr (normalized, path)
    \<and> may_publish E a expected normalized path w \<and> \<not> sensitive_name filename"
proof -
  obtain r w1 where check: "check_artifact E a source filename expected (strip parent) w = (r, w1)" by force
  then have w1: "w1 = w" using readonly_same[OF readonly_artifacts(2)] by blast
  show ?thesis
  proof (cases r)
    case (Inl e)
    with check w1 assms show ?thesis by (simp add: publish_workspace_artifact_def Let_def bindS_def[of "check_artifact _ _ _ _ _ _"])
  next
    case (Inr checked)
    show ?thesis
    proof (cases checked)
      case (Inl result)
      with \<open>r = Inr checked\<close> check w1 assms show ?thesis
        by (simp add: publish_workspace_artifact_def Let_def bindS_def[of "check_artifact _ _ _ _ _ _"])
    next
      case (Inr rp)
      with \<open>r = Inr checked\<close> check obtain result path
        where "check_artifact E a source filename expected (strip parent) w = (Inr (Inr (result, path)), w1)" by (cases rp) auto
      then obtain normalized where ok: "resolve_workspace_artifact_path E a source expected = Inr (normalized, path)"
          "file_exists E path w" "\<not> he_is_dir E path w" "\<not> sensitive_name normalized" "\<not> sensitive_name filename"
          "artifact_is_text path (artifact_mimetype E path) \<longrightarrow>
            (\<exists>b. he_bytes E path w = Inr b \<and> \<not> artifact_text_has_sensitive_content E path (artifact_mimetype E path) b)"
        by (rule checked_artifact)
      obtain dir where "workspace_dir E a = Inr dir" "expected = [] \<or> path_is_under normalized expected"
          "below_dir (he_resolve E dir) (he_resolve E path) \<or> artifact_is_under_runtime_shared E dir path normalized"
        using artifact_resolved_inside[OF ok(1)] .
      then have "may_publish E a expected normalized path w" using ok(2-4,6) by (auto simp: may_publish_def)
      with ok(1,5) show ?thesis by blast
    qed
  qed
qed

section \<open>Texts that cannot be encoded\<close>

lemma encodable_put: "\<not> encodable_json v \<Longrightarrow> \<not> encodable_json (JObj (put k v d))"
  by (induction d) (auto simp: put_def)

lemma mark_action:
  "map_of (map (\<lambda>(n, f). (lit n, f)) project_actions) (lit ''mark_requester_report_sent'') = Some h_mark_requester_report_sent"
  by (simp add: project_actions_def)

text \<open>C19: A request to note that the report was sent, whose time holds a lone surrogate, is answered as a failure, but the state file of the project has been
  emptied: from then on the project cannot be read.\<close>

theorem surrogate_loses_project:
  assumes "strip_at (he_repr E) arguments [''action''] = lit ''mark_requester_report_sent''" and "h_payload E arguments = Inr payload"
    and "id_of (he_repr E) payload ''projectId'' ''project_id'' = Inr project_id"
    and "existing_project E arguments project_id w = (Inr project, w)"
    and "payload_get payload ''sentAt'' = JStr s" and "\<not> encodable s"
  shows "\<exists>d w'. h_projectflow E arguments w = (Inr d, w') \<and> \<not> is_ok d
    \<and> read_project E arguments project_id w' = (Inl (JSONDecodeError (lit ''Expecting value'')), w')"
proof -
  have "s \<noteq> []" using assms(6) by auto
  have sent: "text_or (he_repr E) payload [''sentAt'', ''sent_at''] (he_now E) = s"
    using assms(5) \<open>s \<noteq> []\<close>
    by (auto simp: text_or_def first_true_def payload_get_def map_filter_def Let_def split: option.splits)
  obtain path where path: "project_state_path E arguments project_id = Inr path"
    using assms(4) by (cases "project_state_path E arguments project_id") (auto simp: existing_project_def look_project_def bindS_def[of "bindS _ _"])
  let ?d = "put ''requester_report'' (JObj (put ''sent_at'' (JStr s) (put ''pending'' (JBool False)
      (dict_or_empty (payload_get project ''requester_report''))))) project"
  let ?w = "w\<lparr>hw_meta := (hw_meta w)(path \<mapsto> Inl (JSONDecodeError (lit ''Expecting value'')))\<rparr>"
  have "\<not> encodable_json (JObj ?d)" using assms(6) by (intro encodable_put) simp
  then have "write_meta path ?d w = (Inl UnicodeEncodeError, ?w)" unfolding write_meta_def by presburger
  then have "h_mark_requester_report_sent E arguments payload w = (Inl UnicodeEncodeError, ?w)"
    using assms(3,4) path sent
    by (simp add: h_mark_requester_report_sent_def Let_def bindS_def[of "existing_project _ _ _"] bindS_def[of "write_meta _ _"])
  then have "h_projectflow E arguments w = (Inr (flow_failed ''projectflow'' (lit ''mark_requester_report_sent'') (he_exc_text E UnicodeEncodeError)), ?w)"
    using assms(1,2) by (simp add: h_projectflow_def Let_def on_value_error_def mark_action)
  moreover have "read_project E arguments project_id ?w = (Inl (JSONDecodeError (lit ''Expecting value'')), ?w)"
    using path by (simp add: read_project_def read_meta_eval)
  ultimately show ?thesis using not_ok_failed by blast
qed

end
