(* ===== verification/Harness_Examples.thy ===== *)
theory Harness_Examples
  imports Harness_Limits
begin

text \<open>
  Requests to TeamHarness on small machines: each shows that the hypotheses of a property of the tools can hold.
\<close>

section \<open>Payloads\<close>

text \<open>A true field of the payload object is what the tools see, whatever the arguments say.\<close>

lemma payload_of_object:
  assumes "payload_get arguments ''payload'' = JObj kvs"
  obtains payload where "h_payload E arguments = Inr payload"
    and "\<And>k. truthy (payload_get kvs k) \<Longrightarrow> payload_get payload k = payload_get kvs k"
proof -
  let ?kept = "\<lambda>d. \<forall>k. truthy (payload_get kvs k) \<longrightarrow> payload_get d k = payload_get kvs k"
  have fold: "?kept (fold f xs d)" if "\<And>x d. x \<in> set xs \<Longrightarrow> ?kept d \<Longrightarrow> ?kept (f x d)" "?kept d"
    for f :: "'x \<Rightarrow> dict \<Rightarrow> dict" and xs d
    using that by (induction xs arbitrary: d) simp_all
  have alias_keys: "fst ck \<in> set (snd ck)" if "ck \<in> set payload_aliases" for ck
    using that by (auto simp: payload_aliases_def)
  have aliases: "?kept (add_alias arguments ck d)" if mem: "ck \<in> set payload_aliases" and kept: "?kept d" for ck d
  proof (intro allI impI)
    fix k
    assume k: "truthy (payload_get kvs k)"
    obtain c ks where ck: "ck = (c, ks)" "c \<in> set ks" using alias_keys[OF mem] by (metis prod.collapse)
    show "payload_get (add_alias arguments ck d) k = payload_get kvs k"
      using kept k ck by (cases "k = c") (auto simp: add_alias_def payload_get_put list_ex_iff split: list.split)
  qed
  have plain: "?kept (add_plain arguments k d)" if "?kept d" for k d
    using that by (auto simp: add_plain_def payload_get_put payload_get_absent)
  have deliverables: "?kept (add_deliverables arguments d)" if "?kept d" for d
    using that by (auto simp: add_deliverables_def payload_get_put) (metis payload_get_absent truthy.simps(1))+
  let ?d = "fold (add_plain arguments) payload_plain_keys (fold (add_alias arguments) payload_aliases kvs)"
  have "h_payload E arguments = Inr (add_plain arguments ''tasks'' (add_deliverables arguments ?d))"
    using assms by (simp add: h_payload_def payload_data_def Let_def)
  moreover have "?kept ?d" by (intro fold[of payload_plain_keys] fold[of payload_aliases] plain aliases) auto
  then have "?kept (add_plain arguments ''tasks'' (add_deliverables arguments ?d))" by (intro plain deliverables)
  ultimately show thesis using that by blast
qed

lemma payload_get_simps: "payload_get ((lit k', v) # d) k = (if k' = k then v else payload_get d k)" "payload_get [] k = JNull"
  by (simp_all add: payload_get_def)

lemma strip_letters [simp]: "strip (lit ''t'') = lit ''t''" "strip (lit ''p'') = lit ''p''"
  by (simp_all add: lit_def strip_def rstrip_def char_class_defs)

lemma safe_letters [simp]: "is_safe_id (lit ''t'')" "is_safe_id (lit ''p'')"
  by (simp_all add: is_safe_id_def lit_def is_alnum_ascii_def char_class_defs)

lemma id_of_object:
  assumes "payload_get payload camel = JStr i" and "is_safe_id i"
  shows "id_of R payload camel snake = Inr i"
  using assms is_safe_id_strip[OF assms(2)] is_safe_id_chars[OF assms(2)]
  by (simp add: id_of_def either_def safe_id_def str_or_empty_def)

definition request :: "string \<Rightarrow> dict \<Rightarrow> dict" where
  "request action payload = [(lit ''action'', JStr (lit action)), (lit ''role'', JStr (lit ''leader'')),
     (lit ''workspaceDir'', JStr (lit ''/w'')), (lit ''payload'', JObj payload)]"

lemma request_payload: "payload_get (request action payload) ''payload'' = JObj payload"
  by (simp add: request_def payload_get_def)

lemma request_fields:
  obtains payload where "h_payload idle_harness (request action kvs) = Inr payload"
    and "\<forall>k. truthy (payload_get kvs k) \<longrightarrow> payload_get payload k = payload_get kvs k"
  using payload_of_object[OF request_payload] by blast

lemma request_action: "strip (lit action) = lit action \<Longrightarrow> action \<noteq> [] \<Longrightarrow> strip_at R (request action payload) [''action''] = lit action"
  by (simp add: strip_at_def text_at_single str_or_empty_def request_def payload_get_def)

lemma strip_actions:
  "strip (lit ''cancel_task'') = lit ''cancel_task''" "strip (lit ''submit_task'') = lit ''submit_task''"
  "strip (lit ''create_quick_project'') = lit ''create_quick_project''" "strip (lit ''accept_task_result'') = lit ''accept_task_result''"
  "strip (lit ''mark_requester_report_sent'') = lit ''mark_requester_report_sent''" "strip (lit ''leader'') = lit ''leader''" "strip (lit ''/w'') = lit ''/w''"
  by (simp_all add: lit_def strip_def rstrip_def char_class_defs)

lemma request_role: "h_role idle_harness (request action payload) w = (Inr (lit ''leader''), w)"
proof -
  have "normalize_role (lit ''leader'') = lit ''leader''"
    by (simp add: normalize_role_def Let_def strip_actions(6))
      (simp add: lit_def dashes_def lower_def lower_char_def char_class_defs)
  moreover have "strip_at R (request action payload) [''role''] = lit ''leader''" for R
    by (simp add: strip_at_def text_at_single str_or_empty_def request_def payload_get_def strip_actions)
  ultimately show ?thesis by (simp add: h_role_def Let_def)
qed

lemma request_workspace: "workspace_dir idle_harness (request action payload) = Inr (lit ''/w'')"
proof -
  have "strip_at R (request action payload) [''workspaceDir''] = lit ''/w''" for R
    by (simp add: strip_at_def text_at_single str_or_empty_def request_def payload_get_def strip_actions)
  then show ?thesis by (simp add: workspace_dir_def Let_def) (simp add: idle_harness_def)
qed

section \<open>Refusals\<close>

lemma wrong_role_is_refused_witness:
  "refused no_files (h_taskflow idle_harness (request ''submit_task'' []) no_files)"
proof -
  obtain payload where "h_payload idle_harness (request ''submit_task'' []) = Inr payload"
    using payload_of_object[OF request_payload] by blast
  moreover have "map_of action_roles ''submit_task'' = Some [''worker'', ''remote-member'']" by (simp add: action_roles_def)
  ultimately show ?thesis
    using wrong_role_is_refused[OF request_action _ request_role] by (simp add: strip_actions)
qed

text \<open>A machine on which every state file holds the same object.\<close>

definition one_document :: "dict \<Rightarrow> unit harness_world" where
  "one_document d = no_files\<lparr>hw_meta := (\<lambda>p. Some (Inr (JObj d)))\<rparr>"

lemma read_one_document:
  "read_task idle_harness (request action payload) i (one_document d) = (Inr d, one_document d)"
  "read_project idle_harness (request action payload) i (one_document d) = (Inr d, one_document d)"
  by (simp_all add: read_task_def read_project_def task_state_path_def project_state_path_def task_dir_def project_dir_def
      request_workspace read_meta_eval one_document_def)

lemma look_one_document:
  "look_project idle_harness (request action payload) i (one_document d) = (Inr d, one_document d)"
  by (simp add: look_project_def project_state_path_def project_dir_def request_workspace look_meta_eval one_document_def)

lemma finished_tasks_stay_witness:
  "refused (one_document [(lit ''status'', JStr (lit ''cancelled''))])
     (h_taskflow idle_harness (request ''cancel_task'' [(lit ''taskId'', JStr (lit ''t''))]) (one_document [(lit ''status'', JStr (lit ''cancelled''))]))"
proof -
  obtain payload where request: "h_payload idle_harness (request ''cancel_task'' [(lit ''taskId'', JStr (lit ''t''))]) = Inr payload"
      and kept: "\<forall>k. truthy (payload_get [(lit ''taskId'', JStr (lit ''t''))] k) \<longrightarrow> payload_get payload k = payload_get [(lit ''taskId'', JStr (lit ''t''))] k"
    by (rule request_fields[of "''cancel_task''" "[(lit ''taskId'', JStr (lit ''t''))]"])
  note payload = request kept[rule_format, of "''taskId''", simplified payload_get_simps, simplified]
  have id: "id_of (he_repr idle_harness) payload ''taskId'' ''task_id'' = Inr (lit ''t'')"
    by (rule id_of_object[OF payload(2)]) simp
  have project: "project_of_task E a [(lit ''status'', JStr (lit ''cancelled''))] w = (Inr [], w)" for E a w
    by (simp add: project_of_task_def text_at_single str_or_empty_def payload_get_def)
  have "finished R [] [(lit ''status'', JStr (lit ''cancelled''))] (lit ''t'')" for R
    by (simp add: finished_def payload_get_def text_at_single str_or_empty_def)
  then show ?thesis
    by (rule finished_tasks_stay[OF request_action _ payload(1) id read_one_document(1) _ project, rotated 4])
      (simp_all add: strip_actions)
qed

text \<open>A machine on which one project is stored, and a request for a quick project beside it.\<close>

definition one_project :: "unit harness_world" where
  "one_project = no_files\<lparr>hw_meta := [lit ''/w/shared/projects/q/meta.json'' \<mapsto> Inr (JObj [])]\<rparr>"

definition quick_fields :: dict where
  "quick_fields = [(lit ''projectId'', JStr (lit ''p'')), (lit ''assignedTo'', JStr (lit ''t'')), (lit ''roomId'', JStr (lit ''r'')),
     (lit ''spec'', JStr (lit ''s''))]"

lemma request_payload_exact: "h_payload idle_harness (request action kvs) = Inr kvs"
proof -
  have fold: "fold f xs d = d" if "\<And>x. x \<in> set xs \<Longrightarrow> f x d = d" for f :: "'x \<Rightarrow> dict \<Rightarrow> dict" and xs d
    using that by (induction xs) simp_all
  have none: "payload_get (request action kvs) k = JNull" if "k \<notin> {''action'', ''role'', ''workspaceDir'', ''payload''}" for k
    using that by (auto simp: request_def payload_get_simps)
  have "add_alias (request action kvs) ck kvs = kvs" if "ck \<in> set payload_aliases" for ck
    using that by (auto simp: payload_aliases_def add_alias_def none)
  then have aliases: "fold (add_alias (request action kvs)) payload_aliases kvs = kvs" by (rule fold)
  have "add_plain (request action kvs) k kvs = kvs" if "k \<in> set payload_plain_keys" for k
    using that by (auto simp: payload_plain_keys_def add_plain_def none)
  then have plain: "fold (add_plain (request action kvs)) payload_plain_keys kvs = kvs" by (rule fold)
  have "add_plain (request action kvs) ''tasks'' (add_deliverables (request action kvs) kvs) = kvs"
    by (simp add: add_plain_def add_deliverables_def none)
  then show ?thesis by (simp add: h_payload_def payload_data_def request_payload Let_def aliases plain)
qed

definition quick_path :: pystr where
  "quick_path = lit ''/w/shared/projects/p/meta.json''"

lemma quick_path: "project_state_path idle_harness (request action kvs) (lit ''p'') = Inr quick_path"
  by (simp add: project_state_path_def project_dir_def request_workspace quick_path_def)
    (simp add: meta_path_def path_join_def pure_path_def path_root_def lit_def Let_def)

lemma quick_id: "project_id_from_payload idle_harness (request action kvs) quick_fields one_project = (Inr (lit ''p''), one_project)"
proof -
  have "safe_id R (JStr (lit ''p'')) f = Inr (lit ''p'')" for R f by (simp add: safe_id_def str_or_empty_def)
  moreover have "hw_meta one_project quick_path = None" by (simp add: one_project_def no_files_def quick_path_def lit_def)
  ultimately show ?thesis
    by (simp add: project_id_from_payload_def either_def quick_fields_def payload_get_simps project_exists_def quick_path Let_def
        bindS_def[of "bindS _ _"])
qed

lemma strip_quick: "strip (lit ''r'') = lit ''r''" "strip (lit ''s'') = lit ''s''" "strip (lit ''p-01'') = lit ''p-01''"
  by (simp_all add: lit_def strip_def rstrip_def char_class_defs)

lemma quick_fields_given:
  "required_text R quick_fields [''assignedTo'', ''assigned_to''] = Inr (lit ''t'')"
  "required_text R quick_fields [''roomId'', ''room_id''] = Inr (lit ''r'')"
  "required_text R quick_fields [''spec''] = Inr (lit ''s'')"
  by (simp_all add: required_text_def strip_at_def text_at_def first_true_def quick_fields_def payload_get_simps strip_quick Let_def)

lemma quick_task: "quick_task_id R quick_fields (lit ''p'') = Inr (lit ''p-01'')"
proof -
  have "lit ''p'' @ lit ''-01'' = lit ''p-01''" by (simp add: lit_def)
  moreover have "is_safe_id (lit ''p-01'')" "startswith (lit ''p-01'') (lit ''p'' @ [45])"
    by (simp_all add: is_safe_id_def lit_def is_alnum_ascii_def is_name_char_def char_class_defs)
  ultimately show ?thesis
    by (simp add: quick_task_id_def first_true_def quick_fields_def payload_get_simps safe_id_def str_or_empty_def strip_quick Let_def)
qed

lemma strip_empty: "strip [] = []"
  by (simp add: strip_def rstrip_def)

lemma quick_no_route:
  "normalize_reply_route R JNull = []" "reply_route_from_requester R (JStr []) = []" "reply_route_from_requester R JNull = []"
  by (simp_all add: normalize_reply_route_def reply_route_from_requester_def first_true_def strip_at_def text_at_def text_or_def
      str_or_empty_def strip_empty Let_def lower_def lit_def)

lemma quick_project:
  assumes "project = new_project R quick_fields i @ [(lit ''mode'', JStr (lit ''quick'')), (lit ''plan_type'', JStr (lit ''dag''))]"
  shows "with_routes R quick_fields project = (project, [])"
    and "external_requester_channel R (put ''tasks'' ts project) = []"
proof -
  have fields: "payload_get project ''requester'' = JStr []" "payload_get project ''source'' = JStr []" "payload_get project ''reply_route'' = JNull"
    by (simp_all add: assms new_project_def payload_get_simps text_at_def first_true_def quick_fields_def)
  show "with_routes R quick_fields project = (project, [])"
    by (simp add: with_routes_def either_def quick_no_route fields source_room_id_from_payload_def Let_def)
      (simp add: quick_fields_def strip_at_def text_at_def text_or_def first_true_def payload_get_simps quick_no_route strip_empty lower_def)
  show "external_requester_channel R (put ''tasks'' ts project) = []"
    by (simp add: external_requester_channel_def payload_get_put payload_get_simps(2) fields quick_no_route text_or_def strip_at_def text_at_single str_or_empty_def first_true_def
        lower_def external_channel_def strip_empty Let_def)
qed

lemma quick_project_created:
  "hw_meta (snd (h_projectflow idle_harness (request ''create_quick_project'' quick_fields) one_project)) quick_path \<noteq> None"
proof -
  let ?E = "idle_harness" and ?a = "request ''create_quick_project'' quick_fields"
  define kept :: "unit harness_world \<Rightarrow> bool" where "kept = (\<lambda>w. hw_meta w quick_path \<noteq> None)"
  have outside: "outside_keeps kept ?E" by (rule idle_outside)
  have stable: "stable kept (write_meta p d)" "stable kept (write_text p t)" for p d t
    by (auto simp: stable_def kept_def write_meta_def write_text_def)
  have task: "stable kept (write_task ?E ?a d)" "stable kept (write_spec ?E ?a i t)" for d i t
    unfolding write_task_def write_spec_def by (intro stable_intros stable stable_readonly[OF readonly_tasks(3)])+
  have "kept (snd (bindS (write_project ?E ?a (lit ''p'') d) f one_project))" if "\<And>x. stable kept (f x)" for d and f :: "unit \<Rightarrow> (unit, dict) harness"
  proof -
    obtain r w where written: "write_project ?E ?a (lit ''p'') d one_project = (r, w)" by force
    obtain dir where dir: "project_dir ?E ?a (lit ''p'') = Inr dir" "meta_path dir = quick_path"
      using quick_path by (auto simp: project_state_path_def bindE_ok)
    then have "kept w" using written by (auto simp: write_project_def write_meta_def write_text_def liftS_def kept_def elim!: bindS_cases split: if_splits)
    with written that show ?thesis by (cases r) (auto simp: bindS_def stable_def)
  qed
  moreover have "task_state_path ?E ?a (lit ''p-01'') = Inr (lit ''/w/shared/tasks/p-01/meta.json'')"
    by (simp add: task_state_path_def task_dir_def request_workspace)
      (simp add: meta_path_def path_join_def pure_path_def path_root_def lit_def Let_def)
  moreover have "hw_meta one_project (lit ''/w/shared/tasks/p-01/meta.json'') = None" by (simp add: one_project_def no_files_def lit_def)
  ultimately have "kept (snd (h_create_quick_project ?E ?a quick_fields one_project))"
    unfolding h_create_quick_project_def Let_def
    by (simp add: bindS_def[of "project_id_from_payload _ _ _"] quick_id quick_fields_given quick_task quick_project
        validate_assignment_room_def stable_intros task stable_filesync(2)[OF outside] stable_bind)
  then show ?thesis
    unfolding kept_def by (simp add: h_projectflow_def request_action strip_actions request_payload_exact project_actions_def on_value_error_world Let_def)
qed

lemma idle_uploads: "upload_keeps_files idle_harness arguments"
  by (simp add: upload_keeps_files_def idle_harness_def)

lemma creation_overwrites_nothing_witness:
  "extends one_project (snd (h_projectflow idle_harness (request ''create_quick_project'' quick_fields) one_project))
   \<and> hw_meta one_project quick_path = None
   \<and> hw_meta (snd (h_projectflow idle_harness (request ''create_quick_project'' quick_fields) one_project))
     quick_path \<noteq> None"
proof (intro conjI)
  show "extends one_project (snd (h_projectflow idle_harness (request ''create_quick_project'' quick_fields) one_project))"
    by (rule creation_overwrites_nothing[OF request_action]) (simp_all add: strip_actions idle_uploads)
  show "hw_meta one_project quick_path = None" by (simp add: one_project_def no_files_def quick_path_def lit_def)
qed (rule quick_project_created)

lemma failed_results_cannot_be_recorded_witness:
  "refused no_files (h_projectflow idle_harness (request ''accept_task_result'' [(lit ''resultStatus'', JStr (lit ''FAILED''))]) no_files)"
proof -
  obtain payload where request: "h_payload idle_harness (request ''accept_task_result'' [(lit ''resultStatus'', JStr (lit ''FAILED''))]) = Inr payload"
      and kept: "\<forall>k. truthy (payload_get [(lit ''resultStatus'', JStr (lit ''FAILED''))] k) \<longrightarrow> payload_get payload k = payload_get [(lit ''resultStatus'', JStr (lit ''FAILED''))] k"
    by (rule request_fields[of "''accept_task_result''" "[(lit ''resultStatus'', JStr (lit ''FAILED''))]"])
  note payload = request kept[rule_format, of "''resultStatus''", simplified payload_get_simps, simplified]
  then have "either payload ''resultStatus'' ''result_status'' = JStr (lit ''FAILED'')" by (simp add: either_def)
  then show ?thesis
    using failed_results_cannot_be_recorded[OF request_action payload(1)] by (simp add: strip_actions)
qed

lemma surrogate_loses_project_witness:
  "\<exists>d w'. h_projectflow idle_harness (request ''mark_requester_report_sent'' [(lit ''projectId'', JStr (lit ''p'')), (lit ''sentAt'', JStr [55296])])
       (one_document [(lit ''title'', JStr [])]) = (Inr d, w') \<and> \<not> is_ok d"
proof -
  let ?a = "request ''mark_requester_report_sent'' [(lit ''projectId'', JStr (lit ''p'')), (lit ''sentAt'', JStr [55296])]"
  obtain payload where request: "h_payload idle_harness ?a = Inr payload"
      and kept: "\<forall>k. truthy (payload_get [(lit ''projectId'', JStr (lit ''p'')), (lit ''sentAt'', JStr [55296])] k) \<longrightarrow> payload_get payload k = payload_get [(lit ''projectId'', JStr (lit ''p'')), (lit ''sentAt'', JStr [55296])] k"
    by (rule request_fields[of "''mark_requester_report_sent''" "[(lit ''projectId'', JStr (lit ''p'')), (lit ''sentAt'', JStr [55296])]"])
  note payload = request kept[rule_format, of "''projectId''", simplified payload_get_simps, simplified] kept[rule_format, of "''sentAt''", simplified payload_get_simps, simplified]
  have id: "id_of (he_repr idle_harness) payload ''projectId'' ''project_id'' = Inr (lit ''p'')"
    by (rule id_of_object[OF payload(2)]) simp
  have project: "existing_project idle_harness ?a (lit ''p'') (one_document [(lit ''title'', JStr [])]) =
      (Inr [(lit ''title'', JStr [])], one_document [(lit ''title'', JStr [])])"
    by (simp add: existing_project_def look_one_document bindS_def[of "look_project _ _ _"])
  show ?thesis
    using surrogate_loses_project[OF request_action payload(1) id project payload(3)] by (auto simp: strip_actions is_surrogate_def)
qed

section \<open>Artifacts\<close>

lemmas text_eval = lit_def strip_def rstrip_def strip_chars_def char_class_defs

lemma sample_path:
  "normalize_workspace_artifact_path (lit ''a'') = Inr (lit ''a'', False)"
  "normalize_workspace_artifact_path (lit ''shared/tasks/t/x.md'') = Inr (lit ''shared/tasks/t/x.md'', False)"
  by (simp_all add: normalize_workspace_artifact_path_def Let_def slashless_def)
    (simp_all add: text_eval endswith_def bad_segment_def)

lemma deliverables_confined_witness: "below_task (lit ''t'') (lit ''shared/tasks/t/x.md'')"
proof -
  have "strip (lit ''shared/tasks/t/x.md'') = lit ''shared/tasks/t/x.md''" by (simp add: text_eval)
  moreover have "path_is_under (rstrip_slash (lit ''shared/tasks/t/x.md'')) (lit ''shared/tasks/'' @ lit ''t'')"
    by (simp add: path_is_under_def rstrip_slash_def lit_def)
  ultimately have "validate_task_deliverables (\<lambda>v. []) (lit ''t'') [JStr (lit ''shared/tasks/t/x.md'')] = Inr [lit ''shared/tasks/t/x.md'']"
    by (simp add: validate_task_deliverables_def task_deliverable_def str_or_empty_def sample_path)
  from deliverables_confined[OF this] show ?thesis by simp
qed

text \<open>A machine with one file and a server that cannot be reached.\<close>

definition publishing_harness :: "unit harness_env" where
  "publishing_harness = idle_harness\<lparr>he_env := (\<lambda>n. Some (lit ''x'')), he_http := (\<lambda>q w. (NoConnection [], w\<lparr>hw_text := (\<lambda>p. None)\<rparr>))\<rparr>"

definition publishing_world :: "unit harness_world" where
  "publishing_world = no_files\<lparr>hw_text := (\<lambda>p. Some [])\<rparr>"

lemma only_checked_files_are_published_witness:
  "\<exists>normalized path. may_publish publishing_harness (request ''x'' []) [] normalized path publishing_world"
proof -
  let ?E = "publishing_harness" and ?a = "request ''x'' []" and ?w = "publishing_world"
  have workspace: "workspace_dir ?E ?a = Inr (lit ''/w'')"
    using request_workspace[of "''x''" "[]"] by (simp add: workspace_dir_def publishing_harness_def default_workspace_dir_def request_def
        strip_at_def text_at_single str_or_empty_def payload_get_def strip_actions Let_def idle_harness_def)
  have inside: "below_dir (lit ''/w'') (path_join (lit ''/w'') (lit ''a''))"
    by (simp add: below_dir_def path_join_def pure_path_def path_root_def rstrip_slash_def lit_def Let_def)
  have resolved: "resolve_workspace_artifact_path ?E ?a (lit ''a'') [] = Inr (lit ''a'', path_join (lit ''/w'') (lit ''a''))"
    by (simp add: resolve_workspace_artifact_path_def sample_path workspace Let_def) (use inside in \<open>simp add: publishing_harness_def idle_harness_def\<close>)
  have plain: "\<not> sensitive_name (lit ''a'')"
    by (simp add: sensitive_name_def sensitive_names_def lit_def fold_case_def char_class_defs)
  have type: "artifact_mimetype ?E p = lit ''application/octet-stream''" for p
    by (simp add: artifact_mimetype_def publishing_harness_def idle_harness_def)
  have path: "path_join (lit ''/w'') (lit ''a'') = lit ''/w/a''"
    by (simp add: path_join_def pure_path_def path_root_def lit_def Let_def)
  have "path_suffix (lit ''/w/a'') = []" by (simp add: path_suffix_def path_name_def lit_def)
  moreover have "\<not> startswith (lit ''application/octet-stream'') (lit ''text/'')" by (simp add: lit_def)
  ultimately have binary: "\<not> artifact_is_text (path_join (lit ''/w'') (lit ''a'')) (lit ''application/octet-stream'')"
    unfolding path by (simp add: artifact_is_text_def text_types_def text_suffixes_def lower_def)
  have there: "file_exists ?E p ?w" "\<not> he_is_dir ?E p ?w" for p
    by (simp_all add: file_exists_def publishing_world_def publishing_harness_def idle_harness_def)
  have "\<exists>result. check_artifact ?E ?a (lit ''a'') (lit ''a'') [] (lit ''p'') ?w = (Inr (Inr (result, path_join (lit ''/w'') (lit ''a''))), ?w)"
    by (simp add: check_artifact_def Let_def resolved plain type binary there)
  then obtain result where check: "check_artifact ?E ?a (lit ''a'') (lit ''a'') [] (lit ''p'') ?w =
      (Inr (Inr (result, path_join (lit ''/w'') (lit ''a''))), ?w)" ..
  have "snd (publish_workspace_artifact ?E ?a (lit ''p'') (lit ''a'') (lit ''a'') [] (lit ''p'') ?w) \<noteq> ?w"
  proof -
    have room: "canonical_room_id (lit ''p'') = lit ''p''" by (simp add: canonical_room_id_def Let_def) (simp add: lit_def)
    have env: "h_env_raw ?E n = lit ''x''" for n by (simp add: h_env_raw_def publishing_harness_def)
    have home: "rstrip_slash (lit ''x'') = lit ''x''" by (simp add: rstrip_slash_def lit_def)
    obtain q where quoted: "quote [47] (lit ''a'') = Inr q" by (simp add: quote_def)
    have bytes: "he_bytes ?E p v = Inr []" "he_size ?E p v = 0" for p v by (simp_all add: publishing_harness_def idle_harness_def)
    have http: "h_http ?E r v = (Inr (NoConnection []), v\<lparr>hw_text := (\<lambda>p. None)\<rparr>)" for r v
      by (simp add: h_http_def publishing_harness_def)
    have "snd (publish_workspace_artifact ?E ?a (lit ''p'') (lit ''a'') (lit ''a'') [] (lit ''p'') ?w) = ?w\<lparr>hw_text := (\<lambda>p. None)\<rparr>"
      by (simp add: publish_workspace_artifact_def Let_def room check bindS_def[of "check_artifact _ _ _ _ _ _"] send_artifact_def env home
          matrix_upload_artifact_def quoted bytes http bindS_def[of "h_http _ _"] bindS_def[of "bindS _ _"] answer_field_def)
    moreover have "?w\<lparr>hw_text := (\<lambda>p. None)\<rparr> \<noteq> ?w"
    proof
      assume "?w\<lparr>hw_text := (\<lambda>p. None)\<rparr> = ?w"
      then have "hw_text (?w\<lparr>hw_text := (\<lambda>p. None)\<rparr>) [] = hw_text ?w []" by simp
      then show False by (simp add: publishing_world_def)
    qed
    ultimately show ?thesis by simp
  qed
  from only_checked_files_are_published[OF this] show ?thesis by blast
qed

end
