(* ===== verification/Spec2Isabelle.thy ===== *)
theory Spec2Isabelle
  imports Contracts Authority_Store Authority_Hitl Authority_Ledger Authority_Oracle Authority_Capsule
    Authority_Read Skill_Samples Task_Planning Tool_Projectflow Tool_Taskflow Workflow_Progress
    Harness_Examples
begin

text \<open>
  Verification development of four cores of AgentSwarm: TestWeaver, which keeps the evidence of
  agent runs (\<open>src/testweaver\<close>), the taskflow of the CoPaw workers, with which a leader agent
  plans and delegates work (\<open>src/copaw/src/copaw_worker\<close>), the worker flow, with which a worker runs a
  plan of temporary agents (\<open>src/plugins/workerflow\<close>), and the team harness, the tools for projects and tasks
  of the agents of other runtimes (\<open>src/plugins/teamharness\<close>).

  Parts of the program and how they interact.

  \<^item> \<open>contracts/validator.py\<close> defines the artifacts (contexts, claims, evidence, provenance,
    handoffs) as JSON documents under a canonical hash. Everything else in TestWeaver uses its hash.
  \<^item> \<open>authority/store.py\<close> is an append-only store on a SQL database: events with gapless revisions,
    and batches of sealed records in one transaction. \<open>hitl.py\<close> (human approvals), \<open>ledger.py\<close>
    (side effects), \<open>oracle.py\<close> (outcome and boundary verdicts) and \<open>capsule.py\<close> (failure capsules
    and their hits) persist their records through it.
  \<^item> \<open>skillops/state.py\<close> is the state machine by which a Skill evolution is proposed, approved,
    evaluated twice and promoted or rolled back, over sealed records and external readbacks.
    \<open>skillops/nacos.py\<close> publishes the package of a Skill to a registry and reads it back; \<open>publish.py\<close> verifies
    what was read back; \<open>provenance.py\<close> issues readbacks from the authority's attestations and ledger entries and
    from the receipts of \<open>observability/readonly_query.py\<close>, which queries a service without changing it.
  \<^item> \<open>copaw_worker/task.py\<close> holds projects and tasks as files: a plan as Markdown text with a task
    graph or a loop, task metadata, specifications and results. Its operations take a store; the
    graph is validated with Kahn's algorithm before it is written.
  \<^item> \<open>copaw_worker/hooks/tools\<close> are the tools by which an agent calls these operations:
    \<open>projectflow.py\<close> (planning, and the check that no active task is forgotten), \<open>taskflow.py\<close>
    (delegation, acknowledgement, submission) and \<open>filesync.py\<close> (shared files). Each coerces a JSON
    payload, runs one action and answers with a JSON object; no exception leaves a tool.
  \<^item> \<open>copaw_worker/sync.py\<close> moves the files of a worker between its directory and the object storage
    with the commands of a storage client, and merges the remote configuration with the local one.
  \<^item> \<open>plugins/workerflow/mcp/server.py\<close> runs a plan: it checks the nodes and their dependencies, creates a
    temporary agent per node over a local HTTP interface, keeps the state in \<open>workflow.json\<close> and shows it as
    a card in a chat room. An update reports progress and releases the nodes whose dependencies are done;
    finish and failure delete the agents again.
  \<^item> \<open>plugins/teamharness/mcp/server.py\<close> keeps projects and tasks as \<open>meta.json\<close> files in a shared directory.
    \<open>projectflow\<close> creates projects, plans a task graph or a loop of iterations and records results;
    \<open>taskflow\<close> lets a leader delegate, check and cancel tasks and a worker acknowledge and submit them;
    \<open>filesync\<close> exchanges files with the object storage, which the task actions do too, and \<open>artifact\<close>
    publishes a file in a chat room after it was checked for secrets.

  Theories.

  \<^item> \<open>Base\<close>: Python strings as code points, exceptions, results as a sum, operations on a state,
    string methods. \<open>Lines\<close>: lemmas on stripping, joining and splitting lines. \<open>Json\<close>: JSON values
    and \<open>json.dumps\<close> as the canonical hash uses it. \<open>Json_Parse\<close>: \<open>json.loads\<close> as a scanner over code
    points; \<open>Json_Round\<close>: it reads back what \<open>json.dumps\<close> writes. \<open>Web_Text\<close>: UTF-8, quoting and the
    parts of a URL.
  \<^item> \<open>Contracts\<close>: the validator. A digest is a parameter of type \<open>hasher\<close>.
  \<^item> \<open>Authority_Db\<close>: the tables of \<open>schema.sql\<close> with their keys and checks, and a connection with a
    live and a durable database. \<open>Authority_Store\<close>: events, insertion, batches; the locales
    \<open>append_only\<close> and \<open>record_append\<close> state what the components rely on and are interpreted in
    \<open>Authority_Store\<close>, \<open>Authority_Hitl\<close>, \<open>Authority_Ledger\<close>, \<open>Authority_Oracle\<close> and
    \<open>Authority_Capsule\<close>, which hold the four components. \<open>Authority_Read\<close>: reading events and
    searching capsules.
  \<^item> \<open>Skill_Records\<close>: references, readbacks and the records; \<open>Skill_Lifecycle\<close>: the transitions, the
    step relation and reachability; \<open>Skill_Promotion\<close>: complete runs and the properties.
    \<open>Obs_Query\<close>: the read-only queries; \<open>Skill_Registry\<close>: the registry client; \<open>Skill_Adapters\<close>: packages and
    the adapters; \<open>Skill_Receipts\<close>: what an issued readback stands for, and the properties that join the lifecycle
    with the authority and the registry; \<open>Skill_Samples\<close>: concrete receipts and a registry.
  \<^item> \<open>Task_Dag\<close>: task graphs; \<open>Task_Text\<close>: the texts of plans and results with the regular
    expressions; \<open>Task_Plans\<close> and \<open>Task_Results\<close>: what is written is read back; \<open>Task_Store\<close>: the
    store protocol as a record of operations, the locale \<open>task_store\<close> and the file system store that
    interprets it; \<open>Task_Ops\<close>: the operations; \<open>Task_Flow\<close> and \<open>Task_Planning\<close>: their properties.
  \<^item> \<open>Tool_Common\<close>: payloads, responses and the exception boundary of the tools; \<open>Tool_Projectflow\<close>,
    \<open>Tool_Filesync\<close> and \<open>Tool_Taskflow\<close>: one tool each, with its actions and properties.
    \<open>Sync_Config\<close>: the merge of configurations; \<open>Sync_Files\<close>: the class \<open>FileSync\<close> and \<open>push_local\<close>.
  \<^item> \<open>Graph_Dfs\<close>: the depth-first search for cycles, proved to decide acyclicity. \<open>Workflow_State\<close>: rows, what
    is done, and the step that releases instructions; \<open>Workflow_Plan\<close>: the nodes of a plan and their checks;
    \<open>Workflow_Env\<close>: environment, paths, configuration and requests; \<open>Workflow_Server\<close>: the state file, the
    card, cleanup and temporary agents; \<open>Workflow_Run\<close>: the run of a plan, the actions and the JSON-RPC
    requests; \<open>Workflow_Files\<close> and \<open>Workflow_Progress\<close>: their properties.
  \<^item> \<open>Harness_Env\<close>: files, environment, configuration, roles and payloads of the team harness; \<open>Harness_Sync\<close>:
    shared paths and the storage client; \<open>Harness_Publish\<close>: rooms, routes and the publication of files;
    \<open>Harness_Graph\<close>: plans, their validation, ready tasks and the text of a plan; \<open>Harness_Meta\<close>: what is kept
    in the files of a project and a task, and their exchange with the storage; \<open>Harness_Project\<close> and
    \<open>Harness_Taskflow\<close>: the actions of the two tools. \<open>Harness_Keep\<close>: which operations leave the files as they
    are and which keep a property of them; \<open>Harness_Docs\<close>: the locale \<open>stored_documents\<close>, which carries a
    property of the stored documents through every action; \<open>Harness_Plans\<close> interprets it for valid plans and
    for bounded loops; \<open>Harness_Safety\<close>: requests that are refused; \<open>Harness_Limits\<close>: creation, deliverables,
    publication and lost state; \<open>Harness_Examples\<close>: concrete requests.

  What the groups of lemmas show. For the contracts: sealing and validation agree, the hash does not
  depend on the order of keys, de-duplication is characterised. For the authority store: append-only
  tables, gapless revisions, all-or-nothing batches, the approval protocol, attested decisions,
  independent oracles, grounded hits, and reading back what was stored. For Skill evolutions: the
  lifecycle only moves forward, a promotion has been approved and evaluated, a failed canary is rolled
  back, the receipts behind a promotion are those of the authority, and a published package is the one that the
  registry holds. For the taskflow: the validation decides acyclicity, a valid graph always offers work, a task is
  delegated once and only when it is ready, plans and results are read back, a submission is checked
  with the result it wrote. For the tools: a dry run changes nothing, a check that reports nothing means
  that somebody works, a delegated task is watched, a team leader assigns in the Team Room. For the file
  sync: shared paths stay inside their area, and which side of a merged configuration wins. For the worker
  flow: a cyclic plan is rejected before anything happens, every node of a plan is submitted or waiting, a plan
  does not get stuck, and only directories of workflows and temporary agents are removed. For the team
  harness: stored plans stay valid and stored loops bounded under every sequence of requests, a valid plan
  offers work, a wrong role and a finished task are refused without effect, creation overwrites nothing as long as an
  upload leaves local files alone,
  deliverables stay in the directory of their task, and only checked files are published. Some theorems
  state defects: texts that are not read back as written, an assignment that is lost when its files
  cannot be pushed, skills that are deleted while the storage does not answer, a node that is released
  because another one has its identifier as display name, results that cannot be recorded, a state file
  that is lost to a text which cannot be encoded, a verdict that is claimed but not read, and a registry whose
  address no verification accepts.

  Parameters. The digest (\<open>hasher\<close>), the byte digest of readbacks, the external verifier of approvals,
  the clock (\<open>now\<close>), Python's text of a list or dict (\<open>R\<close>), the reader of floats (\<open>F\<close>), the environment
  of a tool (\<open>project_env\<close>, \<open>filesync_env\<close>, \<open>task_env\<close>), the processes and files of a
  \<open>FileSync\<close> (\<open>sync_env\<close>) and what the worker flow runs on (\<open>flow_env\<close>: HTTP, file operations, YAML, paths, the
  order of a set of strings), the files (\<open>harness_world\<close>) and surroundings (\<open>harness_env\<close>) of the team harness, and the
  transports, header providers, pauses and host checks of the clients (\<open>query_env\<close>, \<open>nacos_env\<close>), are arguments. No law is assumed of them except where a property names it.
  The scanner of \<open>json.loads\<close> has the length of the text as fuel, which the round trip proves to be
  enough for every text that \<open>json.dumps\<close> writes. Elsewhere no fuel is used: loops are structural, or terminate by a
  measure that is proved (the queue of Kahn's algorithm: its length and the positive counters; the
  depth-first search: the known nodes off the path).

  Modelling decisions. Python's type annotations are taken as given for arguments: a field annotated as
  a string is a string here, while values that come from JSON keep the type of JSON values. Integers of
  Python are \<open>int\<close>; the range of a database integer is checked where the database does. Texts of
  exceptions are modelled up to quoted Python representations, of which the fixed part is kept.
  \<open>casefold\<close> and \<open>lower\<close> are exact where ASCII texts are compared with. Regular expressions are
  written as deterministic functions where their pieces cannot match in two ways, and with the order
  of backtracking where they can. The text of a metadata file is represented by the JSON value it
  holds; a text file is read with universal newlines. While active tasks are checked, a worker gives one
  answer; the controller is asked once for the metadata of a worker; the sections of a configuration
  are objects and its plugin paths strings; integers in JSON have at most 4300 digits, the limit of
  Python's \<open>int\<close>. The state file of a workflow is represented by the JSON value it holds and only written by
  the server; a search for cycles does not reach the limit of Python's recursion. In the team harness too a state file is the
  JSON value it holds, or the exception that decoding it raises; a value that is not an object makes the code that
  asks it for a field raise, while code that first tests it takes \<open>null\<close>, zero, and empty texts and lists for a
  missing file. Directories are not represented, and the order of
  keys in a written file is that of the model. A text with a lone surrogate is written as Python does it: the
  file is emptied and the exception raised.

  Not modelled: input and output of the operating system beyond the files of the taskflow (missing
  permissions, concurrent writers), networks and message channels, the endless loops of
  the file sync, the message and roomflow tools of the team harness, the Matrix channels, and code in languages other
  than Python. The components listed as not modelled in the
  manifest say why.
\<close>

section \<open>Dry runs of the tools\<close>

text \<open>C35: a dry run has no effect. Whatever the action and the payload are, a dry run of \<open>projectflow\<close> or
  \<open>taskflow\<close> leaves every file as it was, and one of \<open>filesync\<close> runs no command: at most it constructs a
  \<open>FileSync\<close>, which makes the local directory. The actions of \<open>projectflow\<close> that only look change nothing
  in a real run either, also when they fail.\<close>

theorem dry_runs_change_nothing:
  "snd (projectflow P action payload True fs) = fs
   \<and> snd (taskflow T action payload True fs) = fs
   \<and> snd (filesync E action payload path exclude True s) \<in> constructed E s
   \<and> snd (projectflow P (lit ''check_active_tasks'') payload dry fs) = fs
   \<and> snd (projectflow P (lit ''ready_nodes'') payload dry fs) = fs
   \<and> snd (projectflow P (lit ''ready_loop_nodes'') payload dry fs) = fs"
proof -
  have "snd (projectflow P action payload True fs) = fs"
    and "snd (projectflow P (lit ''check_active_tasks'') payload dry fs) = fs"
    and "snd (projectflow P (lit ''ready_nodes'') payload dry fs) = fs"
    and "snd (projectflow P (lit ''ready_loop_nodes'') payload dry fs) = fs"
    using projectflow_dry_run[of P action payload fs dry] by simp_all
  then show ?thesis by (intro conjI taskflow_dry_run filesync_dry_run)
qed

end
